(* ===== verification/Ndt_Prelude.thy ===== *)
theory Ndt_Prelude
  imports Complex_Main "HOL-Library.Word"
begin

text \<open>
  Shared ground of the development: the value type \<open>dbl\<close> that stands for the C++ types
  \<^verbatim>\<open>double\<close> and \<^verbatim>\<open>float\<close>, the fragment of \<^verbatim>\<open><cmath>\<close> and \<^verbatim>\<open><algorithm>\<close> the sources use on it,
  the two- and three-component Eigen vectors, the fixed-width integer types, and the rewrite
  rules the component theories rely on.

  A \<open>dbl\<close> is a finite real, one of the two infinities, or NaN. Comparisons follow IEEE 754: every
  ordered comparison with NaN is false, so \<open>\<not> (x < y)\<close> and \<open>y \<le> x\<close> are different tests, as they
  are in the sources. Arithmetic on finite values is exact: rounding, overflow to infinity
  and the sign of zero are not modelled, and \<^verbatim>\<open>float\<close> and \<^verbatim>\<open>double\<close> share the type.
\<close>

named_theorems cpp_simps "defining equations of the C++ library fragment"

section \<open>Floating-point values\<close>

datatype dbl = Fin real | PInf | NInf | NaN

fun isfinite :: "dbl \<Rightarrow> bool" where
  "isfinite (Fin _) = True"
| "isfinite _ = False"

fun dbl_less :: "dbl \<Rightarrow> dbl \<Rightarrow> bool" where
  "dbl_less (Fin a) (Fin b) = (a < b)"
| "dbl_less (Fin _) PInf = True"
| "dbl_less NInf (Fin _) = True"
| "dbl_less NInf PInf = True"
| "dbl_less _ _ = False"

text \<open>The C++ operator \<^verbatim>\<open>==\<close> on floating-point values: NaN is not equal to itself.\<close>

definition deq :: "dbl \<Rightarrow> dbl \<Rightarrow> bool" where
  "deq x y \<longleftrightarrow> x = y \<and> x \<noteq> NaN"

instantiation dbl :: ord
begin

definition less_dbl :: "dbl \<Rightarrow> dbl \<Rightarrow> bool" where
  "less_dbl x y = dbl_less x y"

definition less_eq_dbl :: "dbl \<Rightarrow> dbl \<Rightarrow> bool" where
  "less_eq_dbl x y \<longleftrightarrow> dbl_less x y \<or> deq x y"

instance ..

end

fun dbl_add :: "dbl \<Rightarrow> dbl \<Rightarrow> dbl" where
  "dbl_add (Fin a) (Fin b) = Fin (a + b)"
| "dbl_add NaN _ = NaN"
| "dbl_add _ NaN = NaN"
| "dbl_add PInf NInf = NaN"
| "dbl_add NInf PInf = NaN"
| "dbl_add PInf _ = PInf"
| "dbl_add NInf _ = NInf"
| "dbl_add _ PInf = PInf"
| "dbl_add _ NInf = NInf"

fun dbl_neg :: "dbl \<Rightarrow> dbl" where
  "dbl_neg (Fin a) = Fin (- a)"
| "dbl_neg PInf = NInf"
| "dbl_neg NInf = PInf"
| "dbl_neg NaN = NaN"

text \<open>The infinity with the sign of a real factor; zero times infinity is NaN.\<close>

definition signed_inf :: "real \<Rightarrow> dbl" where
  "signed_inf s = (if s > 0 then PInf else if s < 0 then NInf else NaN)"

fun dbl_mult :: "dbl \<Rightarrow> dbl \<Rightarrow> dbl" where
  "dbl_mult (Fin a) (Fin b) = Fin (a * b)"
| "dbl_mult NaN _ = NaN"
| "dbl_mult _ NaN = NaN"
| "dbl_mult (Fin a) PInf = signed_inf a"
| "dbl_mult (Fin a) NInf = signed_inf (- a)"
| "dbl_mult PInf (Fin a) = signed_inf a"
| "dbl_mult NInf (Fin a) = signed_inf (- a)"
| "dbl_mult PInf PInf = PInf"
| "dbl_mult NInf NInf = PInf"
| "dbl_mult _ _ = NInf"

fun dbl_div :: "dbl \<Rightarrow> dbl \<Rightarrow> dbl" where
  "dbl_div (Fin a) (Fin b) = (if b = 0 then signed_inf a else Fin (a / b))"
| "dbl_div NaN _ = NaN"
| "dbl_div _ NaN = NaN"
| "dbl_div (Fin _) _ = Fin 0"
| "dbl_div PInf (Fin b) = (if b < 0 then NInf else PInf)"
| "dbl_div NInf (Fin b) = (if b < 0 then PInf else NInf)"
| "dbl_div _ _ = NaN"

fun dbl_abs :: "dbl \<Rightarrow> dbl" where
  "dbl_abs (Fin a) = Fin \<bar>a\<bar>"
| "dbl_abs NaN = NaN"
| "dbl_abs _ = PInf"

instantiation dbl :: "{plus, minus, uminus, times, inverse, abs}"
begin

definition plus_dbl :: "dbl \<Rightarrow> dbl \<Rightarrow> dbl" where
  "plus_dbl = dbl_add"

definition uminus_dbl :: "dbl \<Rightarrow> dbl" where
  "uminus_dbl = dbl_neg"

definition minus_dbl :: "dbl \<Rightarrow> dbl \<Rightarrow> dbl" where
  "minus_dbl x y = dbl_add x (dbl_neg y)"

definition times_dbl :: "dbl \<Rightarrow> dbl \<Rightarrow> dbl" where
  "times_dbl = dbl_mult"

definition divide_dbl :: "dbl \<Rightarrow> dbl \<Rightarrow> dbl" where
  "divide_dbl = dbl_div"

definition inverse_dbl :: "dbl \<Rightarrow> dbl" where
  "inverse_dbl = dbl_div (Fin 1)"

definition abs_dbl :: "dbl \<Rightarrow> dbl" where
  "abs_dbl = dbl_abs"

instance ..

end

section \<open>The C++ library fragment\<close>

text \<open>\<^verbatim>\<open>std::max\<close>, \<^verbatim>\<open>std::min\<close> and \<^verbatim>\<open>std::clamp\<close> with their argument order, which decides the result
  when a comparison with NaN fails.\<close>

definition cpp_max :: "'a::ord \<Rightarrow> 'a \<Rightarrow> 'a" where
  [cpp_simps]: "cpp_max a b = (if a < b then b else a)"

definition cpp_min :: "'a::ord \<Rightarrow> 'a \<Rightarrow> 'a" where
  [cpp_simps]: "cpp_min a b = (if b < a then b else a)"

definition cpp_clamp :: "'a::ord \<Rightarrow> 'a \<Rightarrow> 'a \<Rightarrow> 'a" where
  [cpp_simps]: "cpp_clamp v lo hi = (if v < lo then lo else if hi < v then hi else v)"

fun dsqrt :: "dbl \<Rightarrow> dbl" where
  "dsqrt (Fin a) = (if a < 0 then NaN else Fin (sqrt a))"
| "dsqrt PInf = PInf"
| "dsqrt _ = NaN"

fun dcos :: "dbl \<Rightarrow> dbl" where
  "dcos (Fin a) = Fin (cos a)"
| "dcos _ = NaN"

fun dsin :: "dbl \<Rightarrow> dbl" where
  "dsin (Fin a) = Fin (sin a)"
| "dsin _ = NaN"

fun dexp :: "dbl \<Rightarrow> dbl" where
  "dexp (Fin a) = Fin (exp a)"
| "dexp PInf = PInf"
| "dexp NInf = Fin 0"
| "dexp NaN = NaN"

text \<open>\<^verbatim>\<open>std::hypot\<close>: infinite as soon as one argument is, even if the other is NaN.\<close>

definition dhypot :: "dbl \<Rightarrow> dbl \<Rightarrow> dbl" where
  "dhypot x y = (if x \<in> {PInf, NInf} \<or> y \<in> {PInf, NInf} then PInf else dsqrt (x * x + y * y))"

text \<open>\<^verbatim>\<open>std::atan2\<close>; the sign of zero is not modelled, so the argument zero counts as positive.\<close>

fun datan2 :: "dbl \<Rightarrow> dbl \<Rightarrow> dbl" where
  "datan2 (Fin y) (Fin x) =
     (if x > 0 then Fin (arctan (y / x))
      else if x < 0 then Fin (arctan (y / x) + (if y < 0 then - pi else pi))
      else Fin (if y > 0 then pi / 2 else if y < 0 then - pi / 2 else 0))"
| "datan2 NaN _ = NaN"
| "datan2 _ NaN = NaN"
| "datan2 (Fin y) PInf = Fin 0"
| "datan2 (Fin y) NInf = Fin (if y < 0 then - pi else pi)"
| "datan2 PInf (Fin x) = Fin (pi / 2)"
| "datan2 NInf (Fin x) = Fin (- pi / 2)"
| "datan2 PInf PInf = Fin (pi / 4)"
| "datan2 PInf NInf = Fin (3 * pi / 4)"
| "datan2 NInf PInf = Fin (- pi / 4)"
| "datan2 NInf NInf = Fin (- 3 * pi / 4)"

record vec2 =
  v2x :: dbl
  v2y :: dbl

record vec3 =
  v3x :: dbl
  v3y :: dbl
  v3z :: dbl

definition vec2_zero :: vec2 where
  [cpp_simps]: "vec2_zero = \<lparr>v2x = Fin 0, v2y = Fin 0\<rparr>"

definition vec3_zero :: vec3 where
  [cpp_simps]: "vec3_zero = \<lparr>v3x = Fin 0, v3y = Fin 0, v3z = Fin 0\<rparr>"

definition vec2_sub :: "vec2 \<Rightarrow> vec2 \<Rightarrow> vec2" where
  [cpp_simps]: "vec2_sub a b = \<lparr>v2x = v2x a - v2x b, v2y = v2y a - v2y b\<rparr>"

definition vec2_add :: "vec2 \<Rightarrow> vec2 \<Rightarrow> vec2" where
  [cpp_simps]: "vec2_add a b = \<lparr>v2x = v2x a + v2x b, v2y = v2y a + v2y b\<rparr>"

definition vec2_scale :: "vec2 \<Rightarrow> dbl \<Rightarrow> vec2" where
  [cpp_simps]: "vec2_scale a k = \<lparr>v2x = v2x a * k, v2y = v2y a * k\<rparr>"

definition vec2_norm :: "vec2 \<Rightarrow> dbl" where
  [cpp_simps]: "vec2_norm a = dsqrt (v2x a * v2x a + v2y a * v2y a)"

definition vec2_allFinite :: "vec2 \<Rightarrow> bool" where
  [cpp_simps]: "vec2_allFinite a \<longleftrightarrow> isfinite (v2x a) \<and> isfinite (v2y a)"

definition vec3_sub :: "vec3 \<Rightarrow> vec3 \<Rightarrow> vec3" where
  [cpp_simps]: "vec3_sub a b =
     \<lparr>v3x = v3x a - v3x b, v3y = v3y a - v3y b, v3z = v3z a - v3z b\<rparr>"

definition vec3_add :: "vec3 \<Rightarrow> vec3 \<Rightarrow> vec3" where
  [cpp_simps]: "vec3_add a b =
     \<lparr>v3x = v3x a + v3x b, v3y = v3y a + v3y b, v3z = v3z a + v3z b\<rparr>"

definition vec3_scale :: "vec3 \<Rightarrow> dbl \<Rightarrow> vec3" where
  [cpp_simps]: "vec3_scale a k = \<lparr>v3x = v3x a * k, v3y = v3y a * k, v3z = v3z a * k\<rparr>"

definition vec3_norm :: "vec3 \<Rightarrow> dbl" where
  [cpp_simps]: "vec3_norm a = dsqrt (v3x a * v3x a + v3y a * v3y a + v3z a * v3z a)"

definition vec3_allFinite :: "vec3 \<Rightarrow> bool" where
  [cpp_simps]: "vec3_allFinite a \<longleftrightarrow> isfinite (v3x a) \<and> isfinite (v3y a) \<and> isfinite (v3z a)"

definition vec3_head2 :: "vec3 \<Rightarrow> vec2" where
  [cpp_simps]: "vec3_head2 a = \<lparr>v2x = v3x a, v2y = v3y a\<rparr>"

type_synonym u32 = "32 word"
type_synonym u64 = "64 word"

section \<open>Rewrite rules for floating-point values\<close>

lemma less_dbl_simps [simp]:
  "Fin a < Fin b \<longleftrightarrow> a < b"
  "Fin a < PInf"
  "\<not> Fin a < NInf"
  "NInf < Fin a"
  "NInf < PInf"
  "\<not> NInf < NInf"
  "\<not> PInf < x"
  "\<not> NaN < x"
  "\<not> x < NaN"
  by (cases x; simp add: less_dbl_def)+

lemma le_dbl_simps [simp]:
  "Fin a \<le> Fin b \<longleftrightarrow> a \<le> b"
  "Fin a \<le> PInf"
  "\<not> Fin a \<le> NInf"
  "NInf \<le> Fin a"
  "NInf \<le> PInf"
  "NInf \<le> NInf"
  "PInf \<le> PInf"
  "\<not> PInf \<le> Fin a"
  "\<not> PInf \<le> NInf"
  "\<not> NaN \<le> x"
  "\<not> x \<le> NaN"
  by (cases x; auto simp: less_eq_dbl_def deq_def)+

lemma arith_dbl_simps [simp]:
  "Fin a + Fin b = Fin (a + b)"
  "Fin a - Fin b = Fin (a - b)"
  "Fin a * Fin b = Fin (a * b)"
  "- Fin a = Fin (- a)"
  "\<bar>Fin a\<bar> = Fin \<bar>a\<bar>"
  "b \<noteq> 0 \<Longrightarrow> Fin a / Fin b = Fin (a / b)"
  by (simp_all add: plus_dbl_def minus_dbl_def times_dbl_def uminus_dbl_def abs_dbl_def
      divide_dbl_def)

lemma special_dbl_simps [simp]:
  "NaN + x = NaN" "x + NaN = NaN" "NaN - x = NaN" "x - NaN = NaN"
  "Fin a + PInf = PInf" "PInf + Fin a = PInf" "Fin a + NInf = NInf" "NInf + Fin a = NInf"
  "PInf - Fin a = PInf" "NInf - Fin a = NInf" "Fin a - PInf = NInf" "Fin a - NInf = PInf"
  "\<bar>PInf\<bar> = PInf" "\<bar>NInf\<bar> = PInf" "\<bar>NaN\<bar> = NaN"
  by (cases x; simp add: plus_dbl_def minus_dbl_def abs_dbl_def)+

lemma deq_simps [simp]:
  "deq (Fin a) (Fin b) \<longleftrightarrow> a = b"
  "\<not> deq NaN x"
  "\<not> deq x NaN"
  by (auto simp: deq_def)

lemma dhypot_Fin [simp]: "dhypot (Fin a) (Fin b) = Fin (sqrt (a * a + b * b))"
  by (simp add: dhypot_def not_less)

lemma isfinite_iff: "isfinite x \<longleftrightarrow> (\<exists>a. x = Fin a)"
  by (cases x) auto

lemma isfiniteE [elim]:
  assumes "isfinite x"
  obtains a where "x = Fin a"
  using assms by (cases x) auto

lemma not_isfinite_cases: "\<not> isfinite x \<longleftrightarrow> x = PInf \<or> x = NInf \<or> x = NaN"
  by (cases x) auto

lemma dbl_less_irrefl [simp]: "\<not> (x::dbl) < x"
  by (cases x) auto

lemma dbl_less_trans: "(x::dbl) < y \<Longrightarrow> y < z \<Longrightarrow> x < z"
  by (cases x; cases y; cases z) auto

lemma dbl_less_asym: "(x::dbl) < y \<Longrightarrow> \<not> y < x"
  by (cases x; cases y) auto

lemma dbl_less_imp_not_le: "(x::dbl) < y \<Longrightarrow> \<not> y \<le> x"
  by (cases x; cases y) auto

lemma dbl_le_trans: "(x::dbl) \<le> y \<Longrightarrow> y \<le> z \<Longrightarrow> x \<le> z"
  by (cases x; cases y; cases z) auto

lemma cpp_max_Fin [simp]: "cpp_max (Fin a) (Fin b) = Fin (max a b)"
  by (simp add: cpp_max_def max_def)

lemma cpp_min_Fin [simp]: "cpp_min (Fin a) (Fin b) = Fin (min a b)"
  by (simp add: cpp_min_def min_def)

lemma isfinite_le_cases: "isfinite x \<Longrightarrow> isfinite y \<Longrightarrow> x \<le> y \<or> y < x"
  by (auto simp: isfinite_iff)

lemma finite_minus [simp]: "isfinite x \<Longrightarrow> isfinite y \<Longrightarrow> isfinite (x - y)"
  by (auto simp: isfinite_iff)

lemma finite_plus [simp]: "isfinite x \<Longrightarrow> isfinite y \<Longrightarrow> isfinite (x + y)"
  by (auto simp: isfinite_iff)

lemma isfinite_plusD: "isfinite (x + y) \<Longrightarrow> isfinite x \<and> isfinite y"
  by (cases x; cases y) (auto simp: plus_dbl_def)

lemma isfinite_minusD: "isfinite (x - y) \<Longrightarrow> isfinite x \<and> isfinite y"
  by (cases x; cases y) (auto simp: minus_dbl_def)

lemma cpp_max_ge_left: "isfinite a \<Longrightarrow> a \<le> cpp_max a (b::dbl)"
  by (cases a; cases b) (auto simp: cpp_max_def)

lemma cpp_min_int [simp]: "cpp_min (a::int) b = min a b"
  by (simp add: cpp_min_def min_def)

lemma cpp_max_int [simp]: "cpp_max (a::int) b = max a b"
  by (simp add: cpp_max_def max_def)

lemma cpp_min_nat [simp]: "cpp_min (a::nat) b = min a b"
  by (simp add: cpp_min_def min_def)

lemma cpp_max_nat [simp]: "cpp_max (a::nat) b = max a b"
  by (simp add: cpp_max_def max_def)

lemma cpp_clamp_bounds:
  assumes "isfinite v" and "lo \<le> hi" and "isfinite lo" and "isfinite hi"
  shows "lo \<le> cpp_clamp v lo hi \<and> cpp_clamp v lo hi \<le> (hi::dbl)"
  using assms by (auto simp: cpp_clamp_def isfinite_iff)

lemma uint_inc_le: "uint (w + 1 :: 'a::len word) \<le> uint w + 1"
  by (simp add: uint_word_ariths zmod_le_nonneg_dividend)

lemma cpp_min_u32_top [simp]: "cpp_min w (- 1 :: u32) = w"
proof -
  have "\<not> (- 1 :: u32) < w" by (simp add: not_less)
  then show ?thesis by (simp add: cpp_min_def)
qed

lemma distinct_remdups_adj_sorted: "sorted xs \<Longrightarrow> distinct (remdups_adj xs)"
  by (induction xs rule: remdups_adj.induct) auto

text \<open>The prefix test \<^verbatim>\<open>s.rfind(p, 0) == 0\<close>.\<close>

definition starts_with :: "string \<Rightarrow> string \<Rightarrow> bool" where
  [cpp_simps]: "starts_with s p \<longleftrightarrow> take (length p) s = p"

text \<open>The real value of a finite number, the key of the sorts behind \<^verbatim>\<open>std::nth_element\<close>.\<close>

fun real_part :: "dbl \<Rightarrow> real" where
  "real_part (Fin x) = x"
| "real_part _ = 0"

lemma Fin_real_part: "isfinite z \<Longrightarrow> Fin (real_part z) = z"
  by (cases z) auto

lemma all_finite_Fin: "(\<And>z. z \<in> set zs \<Longrightarrow> isfinite z) \<Longrightarrow> \<exists>xs. zs = map Fin xs"
  by (intro exI [of _ "map real_part zs"]) (auto simp: Fin_real_part intro!: map_idI [symmetric])

lemma sort_key_Fin: "sort_key real_part (map Fin xs) = map Fin (sort xs)"
proof -
  have ins: "insort_key real_part (Fin x) (map Fin ys) = map Fin (insort x ys)" for x ys
    by (induction ys) auto
  show ?thesis by (induction xs) (simp_all add: ins)
qed

end
