(* ===== verification/Ndt_Machines.thy ===== *)
theory Ndt_Machines
  imports Ndt_Prelude "HOL-Library.Sublist"
begin

text \<open>
  The interfaces the stateful components share. Each of the filters, trackers and state
  machines of the program is a class with one update method that is called once per frame;
  the model of such a method is a function from a state and an input to the next state and
  the returned decision. \<open>run_machine\<close> is the caller's loop.

  \<^item> \<open>invariant_machine\<close>: every update keeps an invariant, so every run does.
  \<^item> \<open>contract_machine\<close>: moreover every returned decision satisfies a contract.
  \<^item> \<open>confirmation_machine\<close>: a confirmation counter grows by at most one per update and a
    positive decision needs the counter to have reached a threshold, so a positive decision
    needs that many updates.
  \<^item> \<open>evidence_machine\<close>: the state stands for a window of inputs that grows by linked inputs or is
    dropped; a positive decision needs a long enough window, so it is backed by a chain of inputs.
    \<open>held_evidence_machine\<close> is the case in which the decision leaves the window in place.
  \<^item> \<open>danger_ranking\<close>: a strict order used to pick the worst element of a sequence.
\<close>

type_synonym ('s, 'i, 'o) machine = "'s \<Rightarrow> 'i \<Rightarrow> 's \<times> 'o"

fun run_machine :: "('s, 'i, 'o) machine \<Rightarrow> 's \<Rightarrow> 'i list \<Rightarrow> 's \<times> 'o list" where
  "run_machine step s [] = (s, [])"
| "run_machine step s (i # is) =
     (let (s', d) = step s i; (s'', ds) = run_machine step s' is in (s'', d # ds))"

abbreviation run_state :: "('s, 'i, 'o) machine \<Rightarrow> 's \<Rightarrow> 'i list \<Rightarrow> 's" where
  "run_state step s is \<equiv> fst (run_machine step s is)"

abbreviation run_outputs :: "('s, 'i, 'o) machine \<Rightarrow> 's \<Rightarrow> 'i list \<Rightarrow> 'o list" where
  "run_outputs step s is \<equiv> snd (run_machine step s is)"

lemma run_machine_Nil [simp]: "run_state step s [] = s" "run_outputs step s [] = []"
  by simp_all

lemma run_machine_Cons [simp]:
  "run_state step s (i # is) = run_state step (fst (step s i)) is"
  "run_outputs step s (i # is) = snd (step s i) # run_outputs step (fst (step s i)) is"
  by (simp_all add: split_beta)

declare run_machine.simps(2) [simp del]

lemma length_run_outputs [simp]: "length (run_outputs step s is) = length is"
  by (induction "is" arbitrary: s) auto

lemma run_state_append: "run_state step s (is @ js) = run_state step (run_state step s is) js"
  by (induction "is" arbitrary: s) auto

lemma run_outputs_append:
  "run_outputs step s (is @ js) = run_outputs step s is @ run_outputs step (run_state step s is) js"
  by (induction "is" arbitrary: s) auto

lemma run_outputs_nth:
  "k < length is \<Longrightarrow> run_outputs step s is ! k = snd (step (run_state step s (take k is)) (is ! k))"
  by (induction "is" arbitrary: s k) (auto simp: nth_Cons split: nat.splits)

section \<open>Invariants and decision contracts over runs\<close>

locale invariant_machine =
  fixes step :: "('s, 'i, 'o) machine"
    and inv :: "'s \<Rightarrow> bool"
  assumes step_inv: "inv s \<Longrightarrow> inv (fst (step s i))"
begin

lemma run_inv: "inv s \<Longrightarrow> inv (run_state step s is)"
  by (induction "is" arbitrary: s) (auto intro: step_inv)

end

locale contract_machine = invariant_machine +
  fixes contract :: "'c \<Rightarrow> bool"
  assumes step_contract: "inv s \<Longrightarrow> contract (snd (step s i))"
begin

lemma run_contract: "inv s \<Longrightarrow> d \<in> set (run_outputs step s is) \<Longrightarrow> contract d"
proof (induction "is" arbitrary: s)
  case Nil
  then show ?case by simp
next
  case (Cons i "is")
  then show ?case by (auto intro: step_contract Cons.IH [OF step_inv])
qed

end

section \<open>Confirmation counters\<close>

locale confirmation_machine = invariant_machine +
  fixes count :: "'a \<Rightarrow> int"
    and required :: "'a \<Rightarrow> int"
    and positive :: "'c \<Rightarrow> bool"
  assumes count_step: "inv s \<Longrightarrow> count (fst (step s i)) \<le> count s + 1"
    and required_step: "required (fst (step s i)) = required s"
    and positive_needs: "inv s \<Longrightarrow> positive (snd (step s i)) \<Longrightarrow> required s \<le> count (fst (step s i))"
begin

lemma run_required: "required (run_state step s is) = required s"
  by (induction "is" arbitrary: s) (auto simp: required_step)

lemma run_count: "inv s \<Longrightarrow> count (run_state step s is) \<le> count s + int (length is)"
proof (induction "is" arbitrary: s)
  case Nil
  then show ?case by simp
next
  case (Cons i "is")
  then show ?case using count_step [of s i] step_inv [of s i] by fastforce
qed

text \<open>The first positive decision of a run that starts with an empty counter comes at the
  earliest with the update whose number is the threshold.\<close>

lemma positive_needs_frames:
  assumes "inv s" and "count s \<le> 0" and "k < length is"
    and "positive (run_outputs step s is ! k)"
  shows "required s \<le> int k + 1"
proof -
  let ?s = "run_state step s (take k is)"
  have inv: "inv ?s" using assms(1) by (rule run_inv)
  have "positive (snd (step ?s (is ! k)))"
    using assms(3,4) by (simp add: run_outputs_nth)
  then have "required ?s \<le> count (fst (step ?s (is ! k)))"
    using positive_needs inv by blast
  also have "\<dots> \<le> count ?s + 1" using count_step inv by blast
  also have "count ?s \<le> count s + int (length (take k is))"
    using assms(1) by (rule run_count)
  finally show ?thesis using assms(2,3) by (simp add: run_required)
qed

end

section \<open>Evidence chains\<close>

text \<open>How one update may change the evidence a state stands for: drop it, keep it, restart it with the
  current input, or extend it by a current input that is linked to the last one.\<close>

definition evolves :: "('i \<Rightarrow> bool) \<Rightarrow> ('i \<Rightarrow> 'i \<Rightarrow> bool) \<Rightarrow> 'i list \<Rightarrow> 'i \<Rightarrow> 'i list \<Rightarrow> bool" where
  "evolves usable linked xs i ys \<longleftrightarrow>
     ys = [] \<or> ys = xs \<or> (ys = [i] \<and> usable i) \<or> (ys = xs @ [i] \<and> xs \<noteq> [] \<and> usable i \<and> linked (last xs) i)"

locale evidence_machine =
  fixes step :: "('s, 'i, 'o) machine"
    and window :: "'s \<Rightarrow> 'i list \<Rightarrow> bool"
    and usable :: "'i \<Rightarrow> bool"
    and linked :: "'i \<Rightarrow> 'i \<Rightarrow> bool"
    and positive :: "'o \<Rightarrow> bool"
    and required :: int
  assumes window_step: "window s xs \<Longrightarrow> \<exists>ys. window (fst (step s i)) ys \<and> evolves usable linked xs i ys"
    and positive_step: "window s xs \<Longrightarrow> positive (snd (step s i)) \<Longrightarrow>
      \<exists>ys. evolves usable linked xs i ys \<and> required \<le> int (length ys)"
begin

lemma run_window:
  assumes "window s []"
  shows "\<exists>ys. window (run_state step s is) ys \<and> subseq ys is \<and> list_all usable ys \<and> successively linked ys"
proof (induction "is" rule: rev_induct)
  case Nil
  then show ?case using assms by auto
next
  case (snoc i "is")
  then obtain xs where xs: "window (run_state step s is) xs" "subseq xs is" "list_all usable xs"
    "successively linked xs" by blast
  from window_step [OF xs(1), of i] obtain ys where
    ys: "window (fst (step (run_state step s is) i)) ys" "evolves usable linked xs i ys" by blast
  have "subseq ys (is @ [i]) \<and> list_all usable ys \<and> successively linked ys"
    using ys(2) xs by (auto simp: evolves_def successively_append_iff intro: list_emb_append2 list_emb_append_mono)
  then show ?case using ys(1) by (auto simp: run_state_append)
qed

text \<open>A positive decision is backed by a chain of the required length among the inputs processed so far.\<close>

lemma positive_backed:
  assumes "window s []" and "k < length is" and "positive (run_outputs step s is ! k)"
  shows "\<exists>ys. subseq ys (take (Suc k) is) \<and> list_all usable ys \<and> successively linked ys \<and>
    required \<le> int (length ys)"
proof -
  obtain xs where xs: "window (run_state step s (take k is)) xs" "subseq xs (take k is)" "list_all usable xs"
    "successively linked xs" using run_window [OF assms(1)] by blast
  have pos: "positive (snd (step (run_state step s (take k is)) (is ! k)))"
    using assms(2,3) by (simp add: run_outputs_nth)
  from positive_step [OF xs(1) pos] obtain ys where
    ys: "evolves usable linked xs (is ! k) ys" "required \<le> int (length ys)" by blast
  have "subseq ys (take k is @ [is ! k]) \<and> list_all usable ys \<and> successively linked ys"
    using ys(1) xs by (auto simp: evolves_def successively_append_iff intro: list_emb_append2 list_emb_append_mono)
  then show ?thesis using ys(2) assms(2) by (auto simp: take_Suc_conv_app_nth)
qed

end

text \<open>The usual case: the window that backs a positive decision is still held after it.\<close>

locale held_evidence_machine =
  fixes step :: "('s, 'i, 'o) machine"
    and window :: "'s \<Rightarrow> 'i list \<Rightarrow> bool"
    and usable :: "'i \<Rightarrow> bool"
    and linked :: "'i \<Rightarrow> 'i \<Rightarrow> bool"
    and positive :: "'o \<Rightarrow> bool"
    and required :: int
  assumes held_step: "window s xs \<Longrightarrow> \<exists>ys. window (fst (step s i)) ys \<and> evolves usable linked xs i ys \<and>
      (positive (snd (step s i)) \<longrightarrow> required \<le> int (length ys))"

sublocale held_evidence_machine \<subseteq> evidence_machine
proof
  show "window s xs \<Longrightarrow> \<exists>ys. window (fst (step s i)) ys \<and> evolves usable linked xs i ys" for s xs i
    using held_step by blast
  show "window s xs \<Longrightarrow> positive (snd (step s i)) \<Longrightarrow>
      \<exists>ys. evolves usable linked xs i ys \<and> required \<le> int (length ys)" for s xs i
    using held_step by blast
qed

section \<open>Picking the worst element\<close>

text \<open>The loop shape \<^verbatim>\<open>if (!has || better(x, best)) best = x\<close>.\<close>

fun pick_worst :: "('a \<Rightarrow> 'a \<Rightarrow> bool) \<Rightarrow> 'a option \<Rightarrow> 'a list \<Rightarrow> 'a option" where
  "pick_worst better b [] = b"
| "pick_worst better None (x # xs) = pick_worst better (Some x) xs"
| "pick_worst better (Some b) (x # xs) =
     pick_worst better (Some (if better x b then x else b)) xs"

locale danger_ranking =
  fixes better :: "'a \<Rightarrow> 'a \<Rightarrow> bool"
    and ok :: "'a \<Rightarrow> bool"
  assumes better_irrefl: "\<not> better x x"
    and better_negtrans: "ok x \<Longrightarrow> ok y \<Longrightarrow> ok z \<Longrightarrow> better x z \<Longrightarrow> better x y \<or> better y z"
    and better_asym: "ok x \<Longrightarrow> ok y \<Longrightarrow> better x y \<Longrightarrow> \<not> better y x"
begin

lemma pick_worst_Some:
  "ok b \<Longrightarrow> (\<And>x. x \<in> set xs \<Longrightarrow> ok x) \<Longrightarrow>
   \<exists>w. pick_worst better (Some b) xs = Some w \<and> w \<in> insert b (set xs) \<and>
     (\<forall>x \<in> insert b (set xs). \<not> better x w)"
proof (induction xs arbitrary: b)
  case Nil
  then show ?case using better_irrefl by auto
next
  case (Cons x xs)
  let ?b = "if better x b then x else b"
  have okb: "ok ?b" using Cons.prems by simp
  obtain w where w: "pick_worst better (Some ?b) xs = Some w" "w \<in> insert ?b (set xs)"
    and best: "\<forall>y \<in> insert ?b (set xs). \<not> better y w"
    using Cons.IH [OF okb] Cons.prems by auto
  have okw: "ok w" using w(2) okb Cons.prems by auto
  have "\<not> better x w \<and> \<not> better b w"
  proof (cases "better x b")
    case True
    then have "\<not> better x w" using best by simp
    moreover have "\<not> better b w"
    proof
      assume "better b w"
      then have "better b x \<or> better x w"
        using better_negtrans okw Cons.prems by (metis list.set_intros(1))
      then show False using True better_asym Cons.prems \<open>\<not> better x w\<close> by auto
    qed
    ultimately show ?thesis by simp
  next
    case False
    then have "\<not> better b w" using best by simp
    moreover have "\<not> better x w"
    proof
      assume "better x w"
      then have "better x b \<or> better b w"
        using better_negtrans okw Cons.prems by (metis list.set_intros(1))
      then show False using False \<open>\<not> better b w\<close> by simp
    qed
    ultimately show ?thesis by simp
  qed
  then show ?case using w best by (auto split: if_splits)
qed

lemma pick_worst_None:
  assumes "xs \<noteq> []" and "\<And>x. x \<in> set xs \<Longrightarrow> ok x"
  shows "\<exists>w. pick_worst better None xs = Some w \<and> w \<in> set xs \<and> (\<forall>x \<in> set xs. \<not> better x w)"
proof -
  obtain y ys where "xs = y # ys" using assms(1) by (cases xs) auto
  then show ?thesis using pick_worst_Some [of y ys] assms(2) by auto
qed

end

end
