(* ===== verification/Domain_Contracts.thy ===== *)
theory Domain_Contracts
  imports Ndt_Machines
begin

text \<open>
  The value types and the small contracts every cargo component shares: configuration
  validation (\<^verbatim>\<open>cargo_config_validation.hpp\<close>), pose-authority identities and the provenance of
  temporal evidence (\<^verbatim>\<open>pose_authority_identity.hpp\<close>), time epochs (\<^verbatim>\<open>time_epoch_contract.hpp\<close>) and
  the domain records (\<^verbatim>\<open>cargo_domain_contracts.hpp\<close>). Record fields carry a prefix per struct
  because Isabelle record fields share one name space; enumeration constants are written with
  their type, as in C++.
\<close>

section \<open>Configuration validation\<close>

record CargoConfigValidationIssue =
  ci_field :: string
  ci_reason :: string

record CargoConfigValidationResult =
  cv_valid :: bool
  cv_issues :: "CargoConfigValidationIssue list"

definition validation_ok :: CargoConfigValidationResult where
  "validation_ok = \<lparr>cv_valid = True, cv_issues = []\<rparr>"

definition reject :: "string \<Rightarrow> string \<Rightarrow> CargoConfigValidationResult \<Rightarrow> CargoConfigValidationResult" where
  "reject field reason r =
     r\<lparr>cv_valid := False, cv_issues := cv_issues r @ [\<lparr>ci_field = field, ci_reason = reason\<rparr>]\<rparr>"

definition append_validation ::
  "CargoConfigValidationResult \<Rightarrow> string \<Rightarrow> CargoConfigValidationResult \<Rightarrow> CargoConfigValidationResult" where
  "append_validation other path r =
     (if cv_valid other then r
      else r\<lparr>cv_valid := False,
             cv_issues := cv_issues r @
               map (\<lambda>i. \<lparr>ci_field = path @ ci_field i, ci_reason = ci_reason i\<rparr>) (cv_issues other)\<rparr>)"

fun join_issues :: "CargoConfigValidationIssue list \<Rightarrow> string" where
  "join_issues [] = []"
| "join_issues [i] = ci_field i @ '':'' @ ci_reason i"
| "join_issues (i # is) = ci_field i @ '':'' @ ci_reason i @ '';'' @ join_issues is"

definition summary :: "CargoConfigValidationResult \<Rightarrow> string" where
  "summary r = (if cv_valid r then ''valid'' else join_issues (cv_issues r))"

text \<open>The representation invariant: a result is invalid exactly when it lists an issue.\<close>

definition validation_inv :: "CargoConfigValidationResult \<Rightarrow> bool" where
  "validation_inv r \<longleftrightarrow> cv_valid r = (cv_issues r = [])"

section \<open>Pose-authority identity and temporal evidence\<close>

record PoseAuthorityIdentity =
  pa_map_rebuild_generation :: u64
  pa_keyframe_pose_version :: u64
  pa_yaw_authority_generation :: u64
  pa_map_frame_uuid :: string
  pa_yaw_reference_hash :: string
  pa_target_snapshot_id :: u64

definition default_PoseAuthorityIdentity :: PoseAuthorityIdentity where
  "default_PoseAuthorityIdentity =
     \<lparr>pa_map_rebuild_generation = 0, pa_keyframe_pose_version = 0,
      pa_yaw_authority_generation = 0, pa_map_frame_uuid = [], pa_yaw_reference_hash = [],
      pa_target_snapshot_id = 0\<rparr>"

definition validForRail :: "PoseAuthorityIdentity \<Rightarrow> bool" where
  "validForRail p \<longleftrightarrow> pa_map_frame_uuid p \<noteq> [] \<and> pa_yaw_reference_hash p \<noteq> [] \<and>
     pa_yaw_authority_generation p \<noteq> 0 \<and> pa_target_snapshot_id p \<noteq> 0"

definition samePoseAuthorityIdentity :: "PoseAuthorityIdentity \<Rightarrow> PoseAuthorityIdentity \<Rightarrow> bool" where
  "samePoseAuthorityIdentity l r \<longleftrightarrow>
     pa_map_rebuild_generation l = pa_map_rebuild_generation r \<and>
     pa_keyframe_pose_version l = pa_keyframe_pose_version r \<and>
     pa_yaw_authority_generation l = pa_yaw_authority_generation r \<and>
     pa_map_frame_uuid l = pa_map_frame_uuid r \<and>
     pa_yaw_reference_hash l = pa_yaw_reference_hash r \<and>
     pa_target_snapshot_id l = pa_target_snapshot_id r"

record TemporalEvidenceAuthority =
  te_valid :: bool
  te_pose_identity :: PoseAuthorityIdentity
  te_source_stamp_sec :: dbl

definition default_TemporalEvidenceAuthority :: TemporalEvidenceAuthority where
  "default_TemporalEvidenceAuthority =
     \<lparr>te_valid = False, te_pose_identity = default_PoseAuthorityIdentity,
      te_source_stamp_sec = Fin 0\<rparr>"

definition bindTemporalEvidenceAuthority ::
  "PoseAuthorityIdentity \<Rightarrow> dbl \<Rightarrow> TemporalEvidenceAuthority" where
  "bindTemporalEvidenceAuthority identity stamp =
     default_TemporalEvidenceAuthority
       \<lparr>te_valid := True, te_pose_identity := identity, te_source_stamp_sec := stamp\<rparr>"

definition sameTemporalEvidenceAuthority ::
  "TemporalEvidenceAuthority \<Rightarrow> TemporalEvidenceAuthority \<Rightarrow> bool" where
  "sameTemporalEvidenceAuthority l r \<longleftrightarrow>
     te_valid l \<and> te_valid r \<and>
     samePoseAuthorityIdentity (te_pose_identity l) (te_pose_identity r)"

text \<open>The default of the tolerance argument is \<open>1.0e-4\<close> seconds.\<close>

definition advanceTemporalEvidenceAuthority ::
  "TemporalEvidenceAuthority \<Rightarrow> dbl \<Rightarrow> PoseAuthorityIdentity \<Rightarrow> dbl \<Rightarrow> dbl \<Rightarrow>
   TemporalEvidenceAuthority" where
  "advanceTemporalEvidenceAuthority previous evidence_stamp current_identity frame_stamp eps =
     (if \<not> isfinite evidence_stamp \<or> evidence_stamp \<le> Fin 0 \<or>
         \<not> isfinite frame_stamp \<or> frame_stamp \<le> Fin 0
      then default_TemporalEvidenceAuthority
      else if \<bar>evidence_stamp - frame_stamp\<bar> \<le> eps
      then bindTemporalEvidenceAuthority current_identity evidence_stamp
      else if te_valid previous \<and> \<bar>te_source_stamp_sec previous - evidence_stamp\<bar> \<le> eps
      then previous
      else default_TemporalEvidenceAuthority)"

section \<open>Time epochs\<close>

definition isSourceTimestampRollback :: "dbl \<Rightarrow> dbl \<Rightarrow> dbl \<Rightarrow> bool" where
  "isSourceTimestampRollback previous current tolerance \<longleftrightarrow>
     isfinite previous \<and> isfinite current \<and> current + tolerance < previous"

definition isMapCommitLifecycleCurrent :: "u64 \<Rightarrow> u64 \<Rightarrow> bool" where
  "isMapCommitLifecycleCurrent job_epoch current_epoch \<longleftrightarrow> job_epoch = current_epoch"

section \<open>Domain records\<close>

datatype CargoContractSource =
  UNKNOWN | CURRENT_ASSOCIATED_LIDAR | MOTION_PREDICTION | FRESH_FORMAL_HOLD | CONFIGURED_PREVIEW

datatype CargoVerticalAuthority =
  INVALID | DIRECT_BOTTOM | SUPPORTED_TOP_MINUS_FROZEN_HEIGHT | FRESH_HELD_FORMAL

definition isSafetyAuthorizedCargoVerticalAuthority :: "CargoVerticalAuthority \<Rightarrow> bool" where
  "isSafetyAuthorizedCargoVerticalAuthority a \<longleftrightarrow>
     a = CargoVerticalAuthority.DIRECT_BOTTOM \<or>
     a = CargoVerticalAuthority.SUPPORTED_TOP_MINUS_FROZEN_HEIGHT \<or>
     a = CargoVerticalAuthority.FRESH_HELD_FORMAL"

record CargoTrackSnapshot =
  ts_source_stamp_sec :: dbl
  ts_evaluation_stamp_sec :: dbl
  ts_frame_id :: string
  ts_cargo_lifecycle_id :: u64
  ts_cargo_track_id :: u64
  ts_center :: vec3
  ts_uncertainty :: vec3
  ts_source :: CargoContractSource
  ts_valid :: bool
  ts_fresh :: bool

record CargoGeometryEstimate =
  ge_source_stamp_sec :: dbl
  ge_evaluation_stamp_sec :: dbl
  ge_frame_id :: string
  ge_cargo_lifecycle_id :: u64
  ge_cargo_track_id :: u64
  ge_length_m :: dbl
  ge_width_m :: dbl
  ge_yaw_rad :: dbl
  ge_top_z_m :: dbl
  ge_bottom_z_m :: dbl
  ge_height_m :: dbl
  ge_uncertainty :: vec3
  ge_source :: CargoContractSource
  ge_vertical_authority :: CargoVerticalAuthority
  ge_horizontal_valid :: bool
  ge_vertical_valid :: bool
  ge_fresh :: bool

record CargoSafetyEnvelope =
  se_source_stamp_sec :: dbl
  se_evaluation_stamp_sec :: dbl
  se_frame_id :: string
  se_cargo_lifecycle_id :: u64
  se_cargo_track_id :: u64
  se_center :: vec2
  se_nominal_length_m :: dbl
  se_nominal_width_m :: dbl
  se_conservative_length_m :: dbl
  se_conservative_width_m :: dbl
  se_yaw_rad :: dbl
  se_safe_bottom_z_m :: dbl
  se_horizontal_uncertainty_m :: dbl
  se_vertical_uncertainty_m :: dbl
  se_source :: CargoContractSource
  se_horizontal_valid :: bool
  se_vertical_valid :: bool
  se_formal :: bool
  se_fresh :: bool

record HazardAssessment =
  ha_source_stamp_sec :: dbl
  ha_cargo_lifecycle_id :: u64
  ha_cargo_track_id :: u64
  ha_obstacle_track_id :: u64
  ha_footprint_distance_m :: dbl
  ha_obstacle_top_z_m :: dbl
  ha_safe_bottom_z_m :: dbl
  ha_conservative_clearance_m :: dbl
  ha_combined_uncertainty_m :: dbl
  ha_valid :: bool

section \<open>Lemmas\<close>

lemma validation_inv_ok [simp, intro]: "validation_inv validation_ok"
  by (simp add: validation_inv_def validation_ok_def)

lemma validation_inv_reject [simp, intro]: "validation_inv (reject f m r)"
  by (simp add: validation_inv_def reject_def)

lemma validation_inv_append:
  "validation_inv r \<Longrightarrow> validation_inv other \<Longrightarrow> validation_inv (append_validation other p r)"
  by (simp add: validation_inv_def append_validation_def)

lemma cv_valid_reject [simp]: "\<not> cv_valid (reject f m r)"
  by (simp add: reject_def)

lemma cv_valid_ok [simp]: "cv_valid validation_ok"
  by (simp add: validation_ok_def)

lemma samePoseAuthorityIdentity_iff [simp]: "samePoseAuthorityIdentity l r \<longleftrightarrow> l = r"
  by (cases l; cases r) (simp add: samePoseAuthorityIdentity_def)

lemma sameTemporalEvidenceAuthority_iff:
  "sameTemporalEvidenceAuthority l r \<longleftrightarrow>
     te_valid l \<and> te_valid r \<and> te_pose_identity l = te_pose_identity r"
  by (simp add: sameTemporalEvidenceAuthority_def)

lemma sameTemporalEvidenceAuthority_trans:
  "sameTemporalEvidenceAuthority a b \<Longrightarrow> sameTemporalEvidenceAuthority b c \<Longrightarrow>
   sameTemporalEvidenceAuthority a c"
  by (auto simp: sameTemporalEvidenceAuthority_iff)

lemma sameTemporalEvidenceAuthority_sym:
  "sameTemporalEvidenceAuthority a b \<Longrightarrow> sameTemporalEvidenceAuthority b a"
  by (auto simp: sameTemporalEvidenceAuthority_iff)

lemma isMapCommitLifecycleCurrent_iff [simp]: "isMapCommitLifecycleCurrent a b \<longleftrightarrow> a = b"
  by (simp add: isMapCommitLifecycleCurrent_def)

text \<open>The provenance law behind every temporal confirmation: a binding that comes out valid was
  either produced by the current frame, and then carries the current identity and the
  evidence's own stamp, or is the previous binding unchanged for the same evidence.\<close>

lemma advance_cases:
  assumes "te_valid (advanceTemporalEvidenceAuthority prev e ident f eps)"
  shows "(\<bar>e - f\<bar> \<le> eps \<and>
          advanceTemporalEvidenceAuthority prev e ident f eps = bindTemporalEvidenceAuthority ident e) \<or>
         (\<not> \<bar>e - f\<bar> \<le> eps \<and> te_valid prev \<and> \<bar>te_source_stamp_sec prev - e\<bar> \<le> eps \<and>
          advanceTemporalEvidenceAuthority prev e ident f eps = prev)"
  using assms
  by (auto simp: advanceTemporalEvidenceAuthority_def default_TemporalEvidenceAuthority_def
      split: if_splits)

end
