(* ===== verification/Hook_Load_Filter.thy ===== *)
theory Hook_Load_Filter
  imports Domain_Contracts
begin

text \<open>
  \<^verbatim>\<open>HookLoadStateFilter\<close> (\<^verbatim>\<open>hook_load_state_filter.hpp/.cpp\<close>): the load-cell voltage of the crane hook
  is classified into INHIBIT, EMPTY or LOADED with hysteresis, a transition needs a number of
  samples and a duration of source time, and every kind of bad input (bad configuration,
  time rollback, stale or non-finite or out-of-range samples) drops the state to UNKNOWN.
  The class is the record \<open>HookLoadStateFilter\<close>, its methods are functions on it. The two
  sample counters are 32-bit words, as in the class.
\<close>

datatype HookLoadState = UNKNOWN | INHIBIT | EMPTY | LOADED

record HookLoadStateConfig =
  hc_low_threshold_v :: dbl
  hc_high_threshold_v :: dbl
  hc_hysteresis_v :: dbl
  hc_confirm_samples :: u32
  hc_minimum_transition_duration_sec :: dbl
  hc_stale_timeout_sec :: dbl
  hc_valid_voltage_min_v :: dbl
  hc_valid_voltage_max_v :: dbl

definition default_HookLoadStateConfig :: HookLoadStateConfig where
  "default_HookLoadStateConfig =
     \<lparr>hc_low_threshold_v = Fin 1.90, hc_high_threshold_v = Fin 2.10, hc_hysteresis_v = Fin 0.03,
      hc_confirm_samples = 2, hc_minimum_transition_duration_sec = Fin 0,
      hc_stale_timeout_sec = Fin 2.50, hc_valid_voltage_min_v = Fin 0,
      hc_valid_voltage_max_v = Fin 6\<rparr>"

record HookLoadStateResult =
  hr_valid :: bool
  hr_fresh :: bool
  hr_state :: HookLoadState
  hr_voltage :: dbl
  hr_stable_samples :: u32
  hr_reason :: string

record HookLoadStateFilter =
  hf_config :: HookLoadStateConfig
  hf_stable_state :: HookLoadState
  hf_pending_state :: HookLoadState
  hf_pending_samples :: u32
  hf_pending_since_valid :: bool
  hf_pending_since_source_time_sec :: dbl
  hf_stable_samples :: u32
  hf_has_sample :: bool
  hf_has_seen_source_time :: bool
  hf_last_wall_time_sec :: dbl
  hf_last_seen_source_time_sec :: dbl
  hf_last_sample_wall_time_sec :: dbl
  hf_last_voltage :: dbl
  hf_invalid_reason :: string

definition hook_init :: "HookLoadStateConfig \<Rightarrow> HookLoadStateFilter" where
  "hook_init c =
     \<lparr>hf_config = c, hf_stable_state = HookLoadState.UNKNOWN,
      hf_pending_state = HookLoadState.UNKNOWN, hf_pending_samples = 0,
      hf_pending_since_valid = False, hf_pending_since_source_time_sec = Fin 0,
      hf_stable_samples = 0, hf_has_sample = False, hf_has_seen_source_time = False,
      hf_last_wall_time_sec = Fin 0, hf_last_seen_source_time_sec = Fin 0,
      hf_last_sample_wall_time_sec = Fin 0, hf_last_voltage = NaN,
      hf_invalid_reason = ''startup_unknown''\<rparr>"

definition hook_reset :: "string \<Rightarrow> HookLoadStateFilter \<Rightarrow> HookLoadStateFilter" where
  "hook_reset reason s =
     s\<lparr>hf_stable_state := HookLoadState.UNKNOWN, hf_pending_state := HookLoadState.UNKNOWN,
       hf_pending_samples := 0, hf_pending_since_valid := False,
       hf_pending_since_source_time_sec := Fin 0, hf_stable_samples := 0,
       hf_has_sample := False, hf_has_seen_source_time := False,
       hf_last_wall_time_sec := Fin 0, hf_last_seen_source_time_sec := Fin 0,
       hf_last_sample_wall_time_sec := Fin 0, hf_last_voltage := NaN,
       hf_invalid_reason := reason\<rparr>"

definition hook_setConfig :: "HookLoadStateConfig \<Rightarrow> HookLoadStateFilter \<Rightarrow> HookLoadStateFilter" where
  "hook_setConfig c s = hook_reset ''config_changed'' (s\<lparr>hf_config := c\<rparr>)"

definition configValid :: "HookLoadStateConfig \<Rightarrow> bool" where
  "configValid c \<longleftrightarrow>
     isfinite (hc_low_threshold_v c) \<and> isfinite (hc_high_threshold_v c) \<and>
     hc_low_threshold_v c < hc_high_threshold_v c \<and>
     isfinite (hc_hysteresis_v c) \<and> Fin 0 \<le> hc_hysteresis_v c \<and>
     Fin 2 * hc_hysteresis_v c < hc_high_threshold_v c - hc_low_threshold_v c \<and>
     0 < hc_confirm_samples c \<and>
     isfinite (hc_minimum_transition_duration_sec c) \<and>
     Fin 0 \<le> hc_minimum_transition_duration_sec c \<and>
     isfinite (hc_stale_timeout_sec c) \<and> Fin 0 < hc_stale_timeout_sec c \<and>
     isfinite (hc_valid_voltage_min_v c) \<and> isfinite (hc_valid_voltage_max_v c) \<and>
     hc_valid_voltage_min_v c < hc_valid_voltage_max_v c"

definition classify :: "HookLoadStateConfig \<Rightarrow> HookLoadState \<Rightarrow> dbl \<Rightarrow> HookLoadState" where
  "classify c stable_state voltage =
     (let low_enter = hc_low_threshold_v c - hc_hysteresis_v c;
          low_exit = hc_low_threshold_v c + hc_hysteresis_v c;
          high_exit = hc_high_threshold_v c - hc_hysteresis_v c;
          high_enter = hc_high_threshold_v c + hc_hysteresis_v c
      in case stable_state of
           HookLoadState.UNKNOWN \<Rightarrow>
             if voltage < hc_low_threshold_v c then HookLoadState.INHIBIT
             else if voltage \<le> hc_high_threshold_v c then HookLoadState.EMPTY
             else HookLoadState.LOADED
         | HookLoadState.INHIBIT \<Rightarrow>
             if voltage > high_enter then HookLoadState.LOADED
             else if voltage \<ge> low_exit \<and> voltage \<le> high_exit then HookLoadState.EMPTY
             else HookLoadState.INHIBIT
         | HookLoadState.EMPTY \<Rightarrow>
             if voltage > high_enter then HookLoadState.LOADED
             else if voltage < low_enter then HookLoadState.INHIBIT
             else HookLoadState.EMPTY
         | HookLoadState.LOADED \<Rightarrow>
             if voltage < low_enter then HookLoadState.INHIBIT
             else if voltage \<ge> low_exit \<and> voltage < high_exit then HookLoadState.EMPTY
             else HookLoadState.LOADED)"

definition hook_result :: "string \<Rightarrow> HookLoadStateFilter \<Rightarrow> HookLoadStateResult" where
  "hook_result reason s =
     (let valid = (hf_stable_state s \<noteq> HookLoadState.UNKNOWN)
      in \<lparr>hr_valid = valid, hr_fresh = (hf_has_sample s \<and> valid),
          hr_state = hf_stable_state s, hr_voltage = hf_last_voltage s,
          hr_stable_samples = hf_stable_samples s, hr_reason = reason\<rparr>)"

text \<open>The conversion of the voltage to single precision is the identity on the model's values.\<close>

definition hook_fail ::
  "string \<Rightarrow> dbl \<Rightarrow> HookLoadStateFilter \<Rightarrow> HookLoadStateFilter \<times> HookLoadStateResult" where
  "hook_fail reason voltage s =
     (let s' = s\<lparr>hf_stable_state := HookLoadState.UNKNOWN,
                hf_pending_state := HookLoadState.UNKNOWN, hf_pending_samples := 0,
                hf_pending_since_valid := False, hf_pending_since_source_time_sec := Fin 0,
                hf_stable_samples := 0, hf_last_voltage := voltage,
                hf_invalid_reason := reason\<rparr>
      in (s', hook_result reason s'))"

definition kHookTimeEps :: dbl where
  [cpp_simps]: "kHookTimeEps = Fin 0.000001"

text \<open>The part of \<^verbatim>\<open>ingest\<close> after the sample has passed all validity checks: either the stable
  state is confirmed once more, or the pending transition is advanced.\<close>

definition hook_advance ::
  "HookLoadState \<Rightarrow> dbl \<Rightarrow> HookLoadStateFilter \<Rightarrow> HookLoadStateFilter \<times> HookLoadStateResult" where
  "hook_advance candidate source_time s =
     (if candidate = hf_stable_state s \<and> hf_stable_state s \<noteq> HookLoadState.UNKNOWN
      then let s' = s\<lparr>hf_pending_state := hf_stable_state s, hf_pending_samples := 0,
                     hf_pending_since_valid := False, hf_pending_since_source_time_sec := Fin 0,
                     hf_stable_samples := cpp_min (hf_stable_samples s + 1) (- 1)\<rparr>
           in (s', hook_result ''stable'' s')
      else
        let s1 = (if candidate = hf_pending_state s
                  then s\<lparr>hf_pending_samples := hf_pending_samples s + 1\<rparr>
                  else s\<lparr>hf_pending_state := candidate, hf_pending_samples := 1,
                         hf_pending_since_valid := True,
                         hf_pending_since_source_time_sec := source_time\<rparr>);
            pending_duration = (if hf_pending_since_valid s1
                                then source_time - hf_pending_since_source_time_sec s1 else Fin 0)
        in if hc_confirm_samples (hf_config s1) \<le> hf_pending_samples s1 \<and>
              isfinite pending_duration \<and>
              hc_minimum_transition_duration_sec (hf_config s1) \<le> pending_duration + kHookTimeEps
           then let s2 = s1\<lparr>hf_stable_state := hf_pending_state s1,
                           hf_stable_samples := hf_pending_samples s1, hf_pending_samples := 0,
                           hf_pending_since_valid := False,
                           hf_pending_since_source_time_sec := Fin 0\<rparr>
                in (s2, hook_result ''transition_confirmed'' s2)
           else (s1, hook_result ''transition_pending'' s1))"

definition ingest ::
  "dbl \<Rightarrow> dbl \<Rightarrow> dbl \<Rightarrow> HookLoadStateFilter \<Rightarrow> HookLoadStateFilter \<times> HookLoadStateResult" where
  "ingest voltage source_time wall_time s =
     (let c = hf_config s in
      if \<not> configValid c then hook_fail ''invalid_config'' voltage s
      else if \<not> isfinite source_time \<or> source_time < Fin 0
      then hook_fail ''invalid_source_time'' voltage s
      else if \<not> isfinite wall_time \<or> wall_time < Fin 0
      then hook_fail ''invalid_wall_time'' voltage s
      else if hf_has_sample s \<and> wall_time + kHookTimeEps < hf_last_wall_time_sec s
      then hook_fail ''wall_time_rollback'' voltage
             (s\<lparr>hf_last_wall_time_sec := wall_time, hf_last_sample_wall_time_sec := wall_time,
                hf_has_sample := True\<rparr>)
      else if hf_has_seen_source_time s \<and> source_time + kHookTimeEps < hf_last_seen_source_time_sec s
      then hook_fail ''source_time_rollback'' voltage
             (s\<lparr>hf_last_seen_source_time_sec := source_time, hf_has_seen_source_time := True,
                hf_last_wall_time_sec := wall_time, hf_last_sample_wall_time_sec := wall_time,
                hf_has_sample := True\<rparr>)
      else if hf_has_seen_source_time s \<and>
              \<bar>source_time - hf_last_seen_source_time_sec s\<bar> \<le> kHookTimeEps
      then if hc_stale_timeout_sec c \<le> wall_time - hf_last_sample_wall_time_sec s + kHookTimeEps
           then hook_fail ''signal_stale'' voltage (s\<lparr>hf_has_sample := False\<rparr>)
           else (s, hook_result (if hf_invalid_reason s = [] then ''duplicate_sample_ignored''
                                 else hf_invalid_reason s) s)
      else
        let s1 = s\<lparr>hf_last_wall_time_sec := wall_time, hf_last_seen_source_time_sec := source_time,
                   hf_has_seen_source_time := True, hf_last_sample_wall_time_sec := wall_time,
                   hf_has_sample := True\<rparr>
        in if \<not> isfinite voltage then hook_fail ''non_finite_voltage'' voltage s1
           else if voltage < hc_valid_voltage_min_v c \<or> hc_valid_voltage_max_v c < voltage
           then hook_fail ''voltage_out_of_range'' voltage s1
           else let s2 = s1\<lparr>hf_last_voltage := voltage, hf_invalid_reason := []\<rparr>
                in hook_advance (classify c (hf_stable_state s2) voltage) source_time s2)"

text \<open>The two-argument overload uses the wall time as the source time.\<close>

definition ingest_wall :: "dbl \<Rightarrow> dbl \<Rightarrow> HookLoadStateFilter \<Rightarrow> HookLoadStateFilter \<times> HookLoadStateResult" where
  "ingest_wall voltage wall_time s = ingest voltage wall_time wall_time s"

definition tick :: "dbl \<Rightarrow> HookLoadStateFilter \<Rightarrow> HookLoadStateFilter \<times> HookLoadStateResult" where
  "tick wall_time s =
     (let c = hf_config s in
      if \<not> configValid c then hook_fail ''invalid_config'' (hf_last_voltage s) s
      else if \<not> isfinite wall_time \<or> wall_time < Fin 0
      then hook_fail ''invalid_wall_time'' (hf_last_voltage s) s
      else if hf_has_sample s \<and> wall_time + kHookTimeEps < hf_last_wall_time_sec s
      then hook_fail ''wall_time_rollback'' (hf_last_voltage s)
             (s\<lparr>hf_last_wall_time_sec := wall_time\<rparr>)
      else
        let s1 = s\<lparr>hf_last_wall_time_sec := wall_time\<rparr>
        in if \<not> hf_has_sample s1 then (s1, hook_result ''no_sample'' s1)
           else if hc_stale_timeout_sec c \<le> wall_time - hf_last_sample_wall_time_sec s1 + kHookTimeEps
           then hook_fail ''signal_stale'' (hf_last_voltage s1) (s1\<lparr>hf_has_sample := False\<rparr>)
           else (s1, hook_result (if hf_invalid_reason s1 = [] then ''fresh''
                                  else hf_invalid_reason s1) s1))"

text \<open>The calls a node makes on the filter, as one machine: an event is a sample or a timer tick.\<close>

datatype hook_event = Sample dbl dbl dbl | Tick dbl

fun hook_step :: "(HookLoadStateFilter, hook_event, HookLoadStateResult) machine" where
  "hook_step s (Sample v src wall) = ingest v src wall s"
| "hook_step s (Tick wall) = tick wall s"

section \<open>Lemmas\<close>

lemmas hook_defs = hook_fail_def hook_result_def hook_advance_def Let_def

lemma classify_not_UNKNOWN [simp]: "classify c st v \<noteq> HookLoadState.UNKNOWN"
  by (cases st) (simp_all add: classify_def Let_def)

lemma hook_fail_state [simp]:
  "hf_stable_state (fst (hook_fail r v s)) = HookLoadState.UNKNOWN"
  "hf_pending_samples (fst (hook_fail r v s)) = 0"
  "hf_config (fst (hook_fail r v s)) = hf_config s"
  "hr_valid (snd (hook_fail r v s)) = False"
  "hr_fresh (snd (hook_fail r v s)) = False"
  "hr_state (snd (hook_fail r v s)) = HookLoadState.UNKNOWN"
  "hr_reason (snd (hook_fail r v s)) = r"
  by (simp_all add: hook_defs)

lemma hook_advance_config [simp]: "hf_config (fst (hook_advance cand t s)) = hf_config s"
  by (simp add: hook_advance_def Let_def)

lemma ingest_config [simp]: "hf_config (fst (ingest v src wall s)) = hf_config s"
  by (simp add: ingest_def Let_def)

lemma tick_config [simp]: "hf_config (fst (tick wall s)) = hf_config s"
  by (simp add: tick_def Let_def)

lemma hook_step_config [simp]: "hf_config (fst (hook_step s e)) = hf_config s"
  by (cases e) auto

text \<open>The invariant between the two states: a pending transition to another state has a start time.\<close>

definition hook_inv :: "HookLoadStateFilter \<Rightarrow> bool" where
  "hook_inv s \<longleftrightarrow>
     (hf_pending_state s \<noteq> HookLoadState.UNKNOWN \<and> hf_pending_state s \<noteq> hf_stable_state s \<longrightarrow>
        hf_pending_since_valid s \<and> isfinite (hf_pending_since_source_time_sec s))"

lemma hook_inv_init [simp]: "hook_inv (hook_init c)"
  by (simp add: hook_inv_def hook_init_def)

lemma hook_inv_reset [simp]: "hook_inv (hook_reset r s)"
  by (simp add: hook_inv_def hook_reset_def)

lemma hook_inv_fail [simp]: "hook_inv (fst (hook_fail r v s))"
  by (simp add: hook_inv_def hook_defs)

lemma hook_inv_advance:
  "hook_inv s \<Longrightarrow> isfinite t \<Longrightarrow> hook_inv (fst (hook_advance cand t s))"
  by (auto simp: hook_inv_def hook_advance_def Let_def)

lemma hook_inv_cong:
  "hook_inv s \<Longrightarrow> hf_pending_state s' = hf_pending_state s \<Longrightarrow> hf_stable_state s' = hf_stable_state s \<Longrightarrow>
   hf_pending_since_valid s' = hf_pending_since_valid s \<Longrightarrow>
   hf_pending_since_source_time_sec s' = hf_pending_since_source_time_sec s \<Longrightarrow> hook_inv s'"
  by (simp add: hook_inv_def)

lemma ingest_inv: "hook_inv s \<Longrightarrow> hook_inv (fst (ingest v src wall s))"
  by (auto simp: ingest_def Let_def intro!: hook_inv_advance elim: hook_inv_cong)

lemma tick_inv: "hook_inv s \<Longrightarrow> hook_inv (fst (tick wall s))"
  by (auto simp: tick_def Let_def elim: hook_inv_cong)

lemma hook_step_inv: "hook_inv s \<Longrightarrow> hook_inv (fst (hook_step s e))"
  by (cases e) (auto intro: ingest_inv tick_inv)

text \<open>The number of samples the current state rests on, up to the configured threshold.\<close>

definition hook_count :: "HookLoadStateFilter \<Rightarrow> int" where
  "hook_count s =
     (if hf_stable_state s = HookLoadState.UNKNOWN then uint (hf_pending_samples s)
      else uint (hc_confirm_samples (hf_config s)))"

definition hook_required :: "HookLoadStateFilter \<Rightarrow> int" where
  "hook_required s = uint (hc_confirm_samples (hf_config s))"

lemma hook_advance_shape:
  "(hf_stable_state (fst (hook_advance cand t s)) = hf_stable_state s \<and>
    hf_pending_samples (fst (hook_advance cand t s)) \<in> {0, 1, hf_pending_samples s + 1}) \<or>
   (hc_confirm_samples (hf_config s) \<le> 1 \<or>
    hc_confirm_samples (hf_config s) \<le> hf_pending_samples s + 1) \<and>
   hf_pending_samples (fst (hook_advance cand t s)) = 0"
  by (simp add: hook_advance_def Let_def)

lemma hook_count_advance: "hook_count (fst (hook_advance cand t s)) \<le> hook_count s + 1"
  using hook_advance_shape [of cand t s] uint_inc_le [of "hf_pending_samples s"]
  by (auto simp: hook_count_def word_le_def)
    (use uint_ge_0 [of "hf_pending_samples s"] in linarith)

lemma hook_count_fail [simp]: "hook_count (fst (hook_fail r v s)) = 0"
  by (simp add: hook_count_def)

lemma hook_count_nonneg [simp]: "0 \<le> hook_count s + 1"
  by (simp add: hook_count_def)

lemma hook_count_ingest: "hook_count (fst (ingest v src wall s)) \<le> hook_count s + 1"
proof -
  have "hook_count (fst (hook_advance cand t s')) \<le> hook_count s + 1"
    if "hf_stable_state s' = hf_stable_state s" "hf_pending_samples s' = hf_pending_samples s"
      "hf_config s' = hf_config s" for cand t s'
  proof -
    have "hook_count s' = hook_count s" using that by (simp add: hook_count_def)
    then show ?thesis using hook_count_advance [of cand t s'] by simp
  qed
  then show ?thesis by (simp add: ingest_def Let_def)
qed

lemma hook_count_tick: "hook_count (fst (tick wall s)) \<le> hook_count s + 1"
  by (simp add: tick_def Let_def) (simp add: hook_count_def)

lemma hook_valid_ingest:
  "hr_valid (snd (ingest v src wall s)) \<longleftrightarrow>
   hf_stable_state (fst (ingest v src wall s)) \<noteq> HookLoadState.UNKNOWN"
  by (auto simp: ingest_def hook_advance_def hook_result_def Let_def)

lemma hook_valid_tick:
  "hr_valid (snd (tick wall s)) \<longleftrightarrow> hf_stable_state (fst (tick wall s)) \<noteq> HookLoadState.UNKNOWN"
  by (auto simp: tick_def hook_result_def Let_def)

lemma hook_valid_step:
  "hr_valid (snd (hook_step s e)) \<longleftrightarrow> hf_stable_state (fst (hook_step s e)) \<noteq> HookLoadState.UNKNOWN"
  by (cases e) (auto simp: hook_valid_ingest hook_valid_tick)

interpretation hook: confirmation_machine hook_step hook_inv hook_count hook_required hr_valid
proof unfold_locales
  fix s i
  show "hook_inv (fst (hook_step s i))" if "hook_inv s" using that by (rule hook_step_inv)
  show "hook_count (fst (hook_step s i)) \<le> hook_count s + 1"
    by (cases i) (auto simp: hook_count_ingest hook_count_tick)
  show "hook_required (fst (hook_step s i)) = hook_required s" by (simp add: hook_required_def)
  show "hook_required s \<le> hook_count (fst (hook_step s i))" if "hr_valid (snd (hook_step s i))"
    using that by (simp add: hook_valid_step hook_count_def hook_required_def)
qed

lemma tick_keeps_sample_time [simp]:
  "hf_last_sample_wall_time_sec (fst (tick wall s)) = hf_last_sample_wall_time_sec s"
  by (simp add: tick_def hook_fail_def Let_def)

lemma ticks_keep_sample_time:
  "hf_last_sample_wall_time_sec (run_state hook_step s (map Tick ws)) = hf_last_sample_wall_time_sec s \<and>
   hf_config (run_state hook_step s (map Tick ws)) = hf_config s"
  by (induction ws arbitrary: s) auto

lemma tick_after_timeout_not_fresh:
  assumes "hf_last_sample_wall_time_sec s + hc_stale_timeout_sec (hf_config s) \<le> w"
  shows "\<not> hr_fresh (snd (tick w s))"
proof -
  have "hc_stale_timeout_sec (hf_config s) \<le> w - hf_last_sample_wall_time_sec s + kHookTimeEps"
    if "configValid (hf_config s)" "isfinite w"
    using that assms
    by (cases "hf_last_sample_wall_time_sec s") (auto simp: kHookTimeEps_def configValid_def isfinite_iff)
  then show ?thesis by (auto simp: tick_def hook_result_def Let_def)
qed

text \<open>The fields a pending transition consists of.\<close>

definition hook_pending_eq :: "HookLoadStateFilter \<Rightarrow> HookLoadStateFilter \<Rightarrow> bool" where
  "hook_pending_eq s t \<longleftrightarrow>
     hf_config s = hf_config t \<and> hf_stable_state s = hf_stable_state t \<and>
     hf_pending_state s = hf_pending_state t \<and>
     hf_pending_since_valid s = hf_pending_since_valid t \<and>
     hf_pending_since_source_time_sec s = hf_pending_since_source_time_sec t"

text \<open>The filter state after a sample has passed the checks on its stamps.\<close>

definition hook_accept_sample :: "dbl \<Rightarrow> dbl \<Rightarrow> dbl \<Rightarrow> HookLoadStateFilter \<Rightarrow> HookLoadStateFilter" where
  "hook_accept_sample v src wall s =
     s\<lparr>hf_last_wall_time_sec := wall, hf_last_seen_source_time_sec := src,
       hf_has_seen_source_time := True, hf_last_sample_wall_time_sec := wall,
       hf_has_sample := True, hf_last_voltage := v, hf_invalid_reason := []\<rparr>"

lemma ingest_shape:
  "hf_stable_state (fst (ingest v src wall s)) = HookLoadState.UNKNOWN \<or>
   fst (ingest v src wall s) = s \<or>
   isfinite src \<and> isfinite v \<and>
   hc_valid_voltage_min_v (hf_config s) \<le> v \<and> v \<le> hc_valid_voltage_max_v (hf_config s) \<and>
   ingest v src wall s =
     hook_advance (classify (hf_config s) (hf_stable_state s) v) src (hook_accept_sample v src wall s)"
proof -
  have "configValid c \<Longrightarrow> isfinite v \<Longrightarrow>
      \<not> (v < hc_valid_voltage_min_v c \<or> hc_valid_voltage_max_v c < v) \<Longrightarrow>
      hc_valid_voltage_min_v c \<le> v \<and> v \<le> hc_valid_voltage_max_v c" for c
    using isfinite_le_cases by (auto simp: configValid_def)
  then show ?thesis by (simp add: ingest_def Let_def hook_accept_sample_def)
qed

lemma ingest_changes:
  assumes "hf_stable_state (fst (ingest v src wall s)) = st"
    and "st \<noteq> hf_stable_state s" and "st \<noteq> HookLoadState.UNKNOWN"
  shows "\<exists>cand s2. isfinite src \<and> cand \<noteq> HookLoadState.UNKNOWN \<and>
    hf_stable_state (fst (hook_advance cand src s2)) = st \<and> hook_pending_eq s2 s"
proof -
  have "isfinite src" and "ingest v src wall s =
     hook_advance (classify (hf_config s) (hf_stable_state s) v) src (hook_accept_sample v src wall s)"
    using ingest_shape [of v src wall s] assms by auto
  then show ?thesis
    using assms(1)
    by (intro exI [of _ "classify (hf_config s) (hf_stable_state s) v"]
        exI [of _ "hook_accept_sample v src wall s"])
      (simp add: hook_pending_eq_def hook_accept_sample_def)
qed

lemma hook_advance_duration:
  assumes "isfinite src" and "cand \<noteq> HookLoadState.UNKNOWN" and "hook_inv s"
    and "hf_stable_state (fst (hook_advance cand src s)) = st" and "st \<noteq> hf_stable_state s"
    and "kHookTimeEps < hc_minimum_transition_duration_sec (hf_config s)"
  shows "hf_pending_state s = st \<and> hf_pending_since_valid s \<and>
    hc_minimum_transition_duration_sec (hf_config s)
      \<le> src - hf_pending_since_source_time_sec s + kHookTimeEps"
proof -
  have "hc_minimum_transition_duration_sec (hf_config s) \<le> src - src + kHookTimeEps \<Longrightarrow> False"
    using assms(1,6) by (auto simp: isfinite_iff kHookTimeEps_def dest: dbl_less_imp_not_le)
  then show ?thesis
    using assms(2-6) by (auto simp: hook_advance_def Let_def hook_inv_def split: if_splits)
qed

section \<open>Properties\<close>

text \<open>After a start or a reset no result is valid before the configured number of calls: the
  k-th result (counting from zero) can be valid only if k + 1 reaches \<open>confirm_samples\<close>.\<close>

theorem hook_valid_needs_confirm_samples:
  assumes "k < length es" and "hr_valid (run_outputs hook_step (hook_init c) es ! k)"
  shows "uint (hc_confirm_samples c) \<le> int k + 1"
proof -
  have "hook_count (hook_init c) \<le> 0" by (simp add: hook_count_def hook_init_def)
  from hook.positive_needs_frames [OF hook_inv_init this assms]
  show ?thesis by (simp add: hook_required_def hook_init_def)
qed

lemma default_hook_configValid [simp]: "configValid default_HookLoadStateConfig"
  by (simp add: configValid_def default_HookLoadStateConfig_def)

theorem hook_valid_needs_confirm_samples_witness:
  "hr_valid (run_outputs hook_step (hook_init default_HookLoadStateConfig)
     [Sample (Fin 5) (Fin 1) (Fin 1), Sample (Fin 5) (Fin 2) (Fin 2)] ! 1) \<and>
   uint (hc_confirm_samples default_HookLoadStateConfig) \<le> int 1 + 1"
proof -
  let ?es = "[Sample (Fin 5) (Fin 1) (Fin 1), Sample (Fin 5) (Fin 2) (Fin 2)]"
  have v: "hr_valid (run_outputs hook_step (hook_init default_HookLoadStateConfig) ?es ! 1)"
    by (simp add: ingest_def hook_init_def hook_defs classify_def default_HookLoadStateConfig_def
        configValid_def kHookTimeEps_def)
  moreover have "uint (hc_confirm_samples default_HookLoadStateConfig) \<le> int 1 + 1"
    using hook_valid_needs_confirm_samples [of 1 ?es default_HookLoadStateConfig] v by simp
  ultimately show ?thesis by simp
qed

text \<open>Hysteresis: when two successive classifications go from one state to another and back,
  the voltage has moved by more than twice the hysteresis, whatever the two states are.\<close>

theorem classify_no_chatter:
  assumes "configValid c" and "isfinite v1" and "isfinite v2"
    and "a \<noteq> HookLoadState.UNKNOWN" and "classify c a v1 = b" and "b \<noteq> a" and "classify c b v2 = a"
  shows "Fin 2 * hc_hysteresis_v c < \<bar>v1 - v2\<bar>"
  using assms
  by (cases a; cases b)
    (auto simp: classify_def configValid_def isfinite_iff Let_def split: if_splits)

theorem classify_no_chatter_witness:
  "classify default_HookLoadStateConfig HookLoadState.EMPTY (Fin 2.2) = HookLoadState.LOADED \<and>
   classify default_HookLoadStateConfig HookLoadState.LOADED (Fin 2) = HookLoadState.EMPTY \<and>
   Fin 2 * hc_hysteresis_v default_HookLoadStateConfig < \<bar>Fin 2.2 - Fin 2\<bar>"
proof -
  have e: "classify default_HookLoadStateConfig HookLoadState.EMPTY (Fin 2.2) = HookLoadState.LOADED"
    "classify default_HookLoadStateConfig HookLoadState.LOADED (Fin 2) = HookLoadState.EMPTY"
    by (simp_all add: classify_def default_HookLoadStateConfig_def Let_def)
  show ?thesis
    using e classify_no_chatter [OF default_hook_configValid _ _ _ e(1) _ e(2)] by simp
qed

text \<open>A silent sensor is never reported fresh: after any number of timer ticks, a tick at or
  after the last sample's receipt time plus the stale timeout does not return a fresh result.\<close>

theorem hook_silence_not_fresh:
  assumes "hf_last_sample_wall_time_sec s + hc_stale_timeout_sec (hf_config s) \<le> w"
  shows "\<not> hr_fresh (last (run_outputs hook_step s (map Tick ws @ [Tick w])))"
proof -
  let ?s = "run_state hook_step s (map Tick ws)"
  have "hf_last_sample_wall_time_sec ?s + hc_stale_timeout_sec (hf_config ?s) \<le> w"
    using assms by (simp add: ticks_keep_sample_time)
  then show ?thesis by (simp add: run_outputs_append tick_after_timeout_not_fresh)
qed

theorem hook_silence_not_fresh_witness:
  "\<not> hr_fresh (last (run_outputs hook_step
      (fst (ingest (Fin 5) (Fin 1) (Fin 1) (hook_init default_HookLoadStateConfig)))
      (map Tick [Fin 2, Fin 3] @ [Tick (Fin 4)])))"
proof -
  let ?s = "fst (ingest (Fin 5) (Fin 1) (Fin 1) (hook_init default_HookLoadStateConfig))"
  have "hf_last_sample_wall_time_sec ?s + hc_stale_timeout_sec (hf_config ?s) \<le> Fin 4"
    by (simp add: ingest_def hook_init_def hook_defs classify_def default_HookLoadStateConfig_def
        configValid_def kHookTimeEps_def)
  from hook_silence_not_fresh [OF this] show ?thesis .
qed

text \<open>A confirmed transition lasted long enough: when a sample moves the stable state to a new
  known state and the configured minimum duration is more than the time tolerance, the
  pending transition to that very state had been running, and for at least that duration.\<close>

theorem hook_transition_duration:
  assumes "hook_inv s" and "hf_stable_state (fst (ingest v src wall s)) = st"
    and "st \<noteq> hf_stable_state s" and "st \<noteq> HookLoadState.UNKNOWN"
    and "kHookTimeEps < hc_minimum_transition_duration_sec (hf_config s)"
  shows "hf_pending_state s = st \<and> hf_pending_since_valid s \<and>
    hc_minimum_transition_duration_sec (hf_config s)
      \<le> src - hf_pending_since_source_time_sec s + kHookTimeEps"
proof -
  obtain cand s2 where src: "isfinite src" and cand: "cand \<noteq> HookLoadState.UNKNOWN"
    and st: "hf_stable_state (fst (hook_advance cand src s2)) = st"
    and eq: "hook_pending_eq s2 s"
    using ingest_changes [OF assms(2-4)] by blast
  show ?thesis
    using hook_advance_duration [OF src cand _ st] assms(1,3,5) eq hook_inv_cong [OF assms(1)]
    by (auto simp: hook_pending_eq_def)
qed

theorem hook_transition_duration_witness:
  "let c = default_HookLoadStateConfig\<lparr>hc_minimum_transition_duration_sec := Fin 1\<rparr>;
       s = fst (ingest (Fin 5) (Fin 1) (Fin 1) (hook_init c))
   in hf_stable_state (fst (ingest (Fin 5) (Fin 2) (Fin 2) s)) = HookLoadState.LOADED \<and>
      hc_minimum_transition_duration_sec (hf_config s)
        \<le> Fin 2 - hf_pending_since_source_time_sec s + kHookTimeEps"
proof -
  define c where "c = default_HookLoadStateConfig\<lparr>hc_minimum_transition_duration_sec := Fin 1\<rparr>"
  define s where "s = fst (ingest (Fin 5) (Fin 1) (Fin 1) (hook_init c))"
  note ev = s_def c_def ingest_def hook_init_def hook_defs classify_def
    default_HookLoadStateConfig_def configValid_def kHookTimeEps_def
  have i: "hook_inv s" by (simp add: s_def ingest_inv)
  have l: "hf_stable_state (fst (ingest (Fin 5) (Fin 2) (Fin 2) s)) = HookLoadState.LOADED"
    by (simp add: ev)
  have n: "HookLoadState.LOADED \<noteq> hf_stable_state s" by (simp add: ev)
  have d: "kHookTimeEps < hc_minimum_transition_duration_sec (hf_config s)" by (simp add: ev)
  show ?thesis
    using l hook_transition_duration [OF i l n _ d] by (simp add: s_def c_def Let_def)
qed

end
