(* ===== verification/Hook_Load_Policy.thy ===== *)
theory Hook_Load_Policy
  imports Hook_Load_Filter
begin

text \<open>
  \<^verbatim>\<open>hook_load_evidence_policy.hpp/.cpp\<close>: how the load-cell signal and the LiDAR evidence are
  combined. The role of the signal is parsed from the configuration (an unknown role falls
  back to REQUIRED), evidence for cargo or for an empty hook is accepted according to the
  role, a suspended-cargo lock and a map commit are authorised, and a tracker confirms from
  consecutive LiDAR observations that there is no cargo.
\<close>

datatype HookLoadSignalRole = DISABLED | REQUIRED | AUXILIARY

fun hookLoadSignalRoleName :: "HookLoadSignalRole \<Rightarrow> string" where
  "hookLoadSignalRoleName HookLoadSignalRole.DISABLED = ''disabled''"
| "hookLoadSignalRoleName HookLoadSignalRole.REQUIRED = ''required''"
| "hookLoadSignalRoleName HookLoadSignalRole.AUXILIARY = ''auxiliary''"

record HookLoadRoleParseInput =
  rp_enabled :: bool
  rp_role_present :: bool
  rp_role :: string
  rp_legacy_required :: bool

record HookLoadRoleParseResult =
  rr_role :: HookLoadSignalRole
  rr_valid :: bool
  rr_legacy_mapping_used :: bool
  rr_reason :: string

text \<open>\<^verbatim>\<open>std::tolower\<close> in the C locale.\<close>

definition char_tolower :: "char \<Rightarrow> char" where
  "char_tolower c =
     (let n = of_char c :: nat in if 65 \<le> n \<and> n \<le> 90 then char_of (n + 32) else c)"

definition parseHookLoadSignalRole :: "HookLoadRoleParseInput \<Rightarrow> HookLoadRoleParseResult" where
  "parseHookLoadSignalRole i =
     (let result = \<lparr>rr_role = HookLoadSignalRole.REQUIRED, rr_valid = True,
                    rr_legacy_mapping_used = False, rr_reason = ''explicit_required''\<rparr>
      in if \<not> rp_enabled i
         then result\<lparr>rr_role := HookLoadSignalRole.DISABLED,
                     rr_reason := ''enabled_false_override''\<rparr>
         else if \<not> rp_role_present i
         then result\<lparr>rr_role := (if rp_legacy_required i then HookLoadSignalRole.REQUIRED
                                 else HookLoadSignalRole.AUXILIARY),
                     rr_legacy_mapping_used := True,
                     rr_reason := (if rp_legacy_required i then ''legacy_required_true''
                                   else ''legacy_required_false'')\<rparr>
         else let role = map char_tolower (rp_role i)
              in if role = ''required''
                 then result\<lparr>rr_role := HookLoadSignalRole.REQUIRED,
                             rr_reason := ''explicit_required''\<rparr>
                 else if role = ''auxiliary''
                 then result\<lparr>rr_role := HookLoadSignalRole.AUXILIARY,
                             rr_reason := ''explicit_auxiliary''\<rparr>
                 else if role = ''disabled''
                 then result\<lparr>rr_role := HookLoadSignalRole.DISABLED,
                             rr_reason := ''explicit_disabled''\<rparr>
                 else result\<lparr>rr_role := HookLoadSignalRole.REQUIRED, rr_valid := False,
                             rr_reason := ''invalid_role_fail_safe_required''\<rparr>)"

section \<open>Combining gravity and LiDAR evidence\<close>

record HookLoadEvidenceInput =
  he_role :: HookLoadSignalRole
  he_gravity_valid :: bool
  he_gravity_state :: HookLoadState
  he_lidar_cargo_valid :: bool
  he_lidar_no_cargo_confirmed :: bool
  he_lidar_track_locked :: bool
  he_lidar_geometry_valid :: bool
  he_lidar_height_valid :: bool

record HookLoadEvidenceDecision =
  hd_gravity_required_fault :: bool
  hd_gravity_conflict :: bool
  hd_lidar_cargo_accepted :: bool
  hd_lidar_empty_accepted :: bool
  hd_reason :: string

definition evaluateHookLoadEvidence :: "HookLoadEvidenceInput \<Rightarrow> HookLoadEvidenceDecision" where
  "evaluateHookLoadEvidence i =
     (let gravity_loaded = (he_gravity_valid i \<and> he_gravity_state i = HookLoadState.LOADED);
          gravity_empty = (he_gravity_valid i \<and> he_gravity_state i = HookLoadState.EMPTY);
          reliable_cargo = (he_lidar_cargo_valid i \<and> he_lidar_track_locked i \<and>
                            he_lidar_geometry_valid i \<and> he_lidar_height_valid i);
          reliable_empty = (he_lidar_no_cargo_confirmed i \<and> \<not> he_lidar_cargo_valid i);
          required = (he_role i = HookLoadSignalRole.REQUIRED);
          required_fault = (required \<and> \<not> gravity_loaded \<and> \<not> gravity_empty);
          cargo_accepted = (if required then reliable_cargo \<and> gravity_loaded else reliable_cargo);
          empty_accepted = (if required then reliable_empty \<and> gravity_empty else reliable_empty);
          conflict = (if he_role i \<noteq> HookLoadSignalRole.DISABLED \<and> he_gravity_valid i
                      then (gravity_empty \<and> reliable_cargo) \<or> (gravity_loaded \<and> reliable_empty)
                      else False)
      in \<lparr>hd_gravity_required_fault = required_fault, hd_gravity_conflict = conflict,
          hd_lidar_cargo_accepted = cargo_accepted, hd_lidar_empty_accepted = empty_accepted,
          hd_reason =
            (if required_fault then ''required_gravity_unavailable''
             else if conflict then ''gravity_lidar_conflict''
             else if cargo_accepted
             then (if gravity_loaded then ''lidar_cargo_gravity_support'' else ''lidar_cargo_primary'')
             else if empty_accepted
             then (if gravity_empty then ''lidar_empty_gravity_support'' else ''lidar_empty_primary'')
             else ''lidar_evidence_incomplete'')\<rparr>)"

section \<open>Authorising a suspended-cargo lock\<close>

record SuspendedCargoLockInput =
  sl_role :: HookLoadSignalRole
  sl_gravity_valid :: bool
  sl_gravity_state :: HookLoadState
  sl_base_confirm_frames :: int
  sl_lidar_lift_evidence :: bool

record SuspendedCargoLockDecision =
  sd_allow_candidate :: bool
  sd_allow_lock :: bool
  sd_gravity_conflict :: bool
  sd_required_confirm_frames :: int
  sd_reason :: string

definition evaluateSuspendedCargoLock :: "SuspendedCargoLockInput \<Rightarrow> SuspendedCargoLockDecision" where
  "evaluateSuspendedCargoLock i =
     (let base_frames = cpp_max 1 (sl_base_confirm_frames i);
          d = \<lparr>sd_allow_candidate = False, sd_allow_lock = False, sd_gravity_conflict = False,
               sd_required_confirm_frames = base_frames,
               sd_reason = ''required_gravity_unavailable''\<rparr>;
          gravity_loaded = (sl_gravity_valid i \<and> sl_gravity_state i = HookLoadState.LOADED);
          gravity_empty = (sl_gravity_valid i \<and> sl_gravity_state i = HookLoadState.EMPTY)
      in if sl_role i = HookLoadSignalRole.REQUIRED
         then d\<lparr>sd_allow_candidate := gravity_loaded, sd_allow_lock := gravity_loaded,
                sd_reason := (if gravity_loaded then ''required_gravity_loaded''
                              else ''required_gravity_unavailable'')\<rparr>
         else
           let d1 = d\<lparr>sd_allow_candidate := True\<rparr>
           in if sl_role i = HookLoadSignalRole.DISABLED
              then d1\<lparr>sd_allow_lock := True, sd_reason := ''lidar_only''\<rparr>
              else if gravity_loaded
              then d1\<lparr>sd_allow_lock := True, sd_reason := ''auxiliary_gravity_support''\<rparr>
              else if gravity_empty
              then d1\<lparr>sd_gravity_conflict := True, sd_allow_lock := sl_lidar_lift_evidence i,
                      sd_required_confirm_frames := base_frames + 2,
                      sd_reason := ''auxiliary_empty_delayed_confirmation''\<rparr>
              else d1\<lparr>sd_allow_lock := True, sd_required_confirm_frames := base_frames + 1,
                      sd_reason := ''auxiliary_gravity_unavailable_strict_lidar''\<rparr>)"

datatype LockedCargoHeightAction = IGNORE_INVALID | INITIALIZE_ONCE | UPDATE_ADAPTIVE | REFRESH_FROZEN

definition evaluateLockedCargoHeightAction :: "bool \<Rightarrow> bool \<Rightarrow> bool \<Rightarrow> LockedCargoHeightAction" where
  "evaluateLockedCargoHeightAction freeze_geometry_after_lock has_good_height observation_valid =
     (if \<not> observation_valid then LockedCargoHeightAction.IGNORE_INVALID
      else if \<not> freeze_geometry_after_lock then LockedCargoHeightAction.UPDATE_ADAPTIVE
      else if has_good_height then LockedCargoHeightAction.REFRESH_FROZEN
      else LockedCargoHeightAction.INITIALIZE_ONCE)"

section \<open>Observation outcome and the no-cargo tracker\<close>

datatype CargoObservationOutcome = UNKNOWN | CARGO_DETECTED | EMPTY_CONFIRMED

record CargoObservationClassificationInput =
  oc_detection_executed :: bool
  oc_ground_reference_valid :: bool
  oc_roi_coverage_valid :: bool
  oc_hag_candidate_points :: nat
  oc_maximum_empty_noise_points :: nat
  oc_cargo_detected :: bool

definition classifyCargoObservationOutcome ::
  "CargoObservationClassificationInput \<Rightarrow> CargoObservationOutcome" where
  "classifyCargoObservationOutcome i =
     (if \<not> oc_detection_executed i then CargoObservationOutcome.UNKNOWN
      else if oc_cargo_detected i then CargoObservationOutcome.CARGO_DETECTED
      else if oc_ground_reference_valid i \<and> oc_roi_coverage_valid i \<and>
              oc_hag_candidate_points i \<le> oc_maximum_empty_noise_points i
      then CargoObservationOutcome.EMPTY_CONFIRMED
      else CargoObservationOutcome.UNKNOWN)"

record LidarNoCargoEvidenceInput =
  nc_detection_executed :: bool
  nc_outcome :: CargoObservationOutcome
  nc_localization_valid :: bool
  nc_cargo_lock_active :: bool
  nc_source_time_sec :: dbl

record LidarNoCargoEvidenceResult =
  nr_confirmed :: bool
  nr_confirm_count :: u32
  nr_reason :: string

record LidarNoCargoEvidenceTracker =
  nt_confirm_frames :: u32
  nt_confirmed :: bool
  nt_confirm_count :: u32
  nt_has_seen_source_time :: bool
  nt_last_seen_source_time_sec :: dbl
  nt_reason :: string

definition no_cargo_init :: "u32 \<Rightarrow> LidarNoCargoEvidenceTracker" where
  "no_cargo_init confirm_frames =
     \<lparr>nt_confirm_frames = cpp_max 1 confirm_frames, nt_confirmed = False, nt_confirm_count = 0,
      nt_has_seen_source_time = False, nt_last_seen_source_time_sec = Fin 0,
      nt_reason = ''startup_unconfirmed''\<rparr>"

definition no_cargo_reset :: "string \<Rightarrow> LidarNoCargoEvidenceTracker \<Rightarrow> LidarNoCargoEvidenceTracker" where
  "no_cargo_reset reason t =
     t\<lparr>nt_confirmed := False, nt_confirm_count := 0, nt_has_seen_source_time := False,
       nt_last_seen_source_time_sec := Fin 0, nt_reason := reason\<rparr>"

definition no_cargo_setConfig :: "u32 \<Rightarrow> LidarNoCargoEvidenceTracker \<Rightarrow> LidarNoCargoEvidenceTracker" where
  "no_cargo_setConfig confirm_frames t =
     no_cargo_reset ''config_changed'' (t\<lparr>nt_confirm_frames := cpp_max 1 confirm_frames\<rparr>)"

definition no_cargo_result :: "LidarNoCargoEvidenceTracker \<Rightarrow> LidarNoCargoEvidenceResult" where
  "no_cargo_result t =
     \<lparr>nr_confirmed = nt_confirmed t, nr_confirm_count = nt_confirm_count t, nr_reason = nt_reason t\<rparr>"

definition no_cargo_clear :: "string \<Rightarrow> LidarNoCargoEvidenceTracker \<Rightarrow> LidarNoCargoEvidenceTracker" where
  "no_cargo_clear reason t = t\<lparr>nt_confirmed := False, nt_confirm_count := 0, nt_reason := reason\<rparr>"

text \<open>The counter is advanced by \<^verbatim>\<open>std::min(confirm_count_ + 1U, max)\<close> in 32-bit arithmetic.\<close>

definition no_cargo_next :: "LidarNoCargoEvidenceTracker \<Rightarrow> LidarNoCargoEvidenceInput \<Rightarrow> LidarNoCargoEvidenceTracker" where
  "no_cargo_next t i =
     (if \<not> nc_detection_executed i
      then (if \<not> nt_confirmed t then t\<lparr>nt_reason := ''detection_not_executed''\<rparr> else t)
      else if \<not> isfinite (nc_source_time_sec i) \<or> nc_source_time_sec i < Fin 0
      then no_cargo_clear ''invalid_source_time'' t
      else if nt_has_seen_source_time t \<and>
              nc_source_time_sec i + Fin 0.000001 < nt_last_seen_source_time_sec t
      then no_cargo_clear ''source_time_rollback''
             (t\<lparr>nt_last_seen_source_time_sec := nc_source_time_sec i\<rparr>)
      else if nt_has_seen_source_time t \<and>
              \<bar>nc_source_time_sec i - nt_last_seen_source_time_sec t\<bar> \<le> Fin 0.000001
      then t\<lparr>nt_reason := ''duplicate_detection_ignored''\<rparr>
      else
        let t1 = t\<lparr>nt_has_seen_source_time := True,
                   nt_last_seen_source_time_sec := nc_source_time_sec i\<rparr>
        in if \<not> nc_localization_valid i then no_cargo_clear ''localization_invalid'' t1
           else if nc_outcome i = CargoObservationOutcome.UNKNOWN
           then no_cargo_clear ''observation_unknown'' t1
           else if nc_outcome i = CargoObservationOutcome.CARGO_DETECTED \<or> nc_cargo_lock_active i
           then no_cargo_clear
                  (if nc_outcome i = CargoObservationOutcome.CARGO_DETECTED then ''cargo_detected''
                   else ''cargo_lock_active'') t1
           else let n = cpp_min (nt_confirm_count t1 + 1) (- 1);
                    ok = (nt_confirm_frames t1 \<le> n)
                in t1\<lparr>nt_confirm_count := n, nt_confirmed := ok,
                      nt_reason := (if ok then ''no_cargo_confirmed'' else ''no_cargo_pending'')\<rparr>)"

definition no_cargo_update ::
  "(LidarNoCargoEvidenceTracker, LidarNoCargoEvidenceInput, LidarNoCargoEvidenceResult) machine" where
  "no_cargo_update t i = (let t' = no_cargo_next t i in (t', no_cargo_result t'))"

section \<open>Authorising a map commit\<close>

record HookLoadMapCommitInput =
  mc_role :: HookLoadSignalRole
  mc_gravity_valid :: bool
  mc_gravity_state :: HookLoadState
  mc_lidar_removal_authorized :: bool
  mc_lidar_cargo_candidate :: bool

record HookLoadMapCommitDecision =
  md_allow_commit :: bool
  md_use_formal_remove_box :: bool
  md_exclude_candidate_region :: bool
  md_required_fault :: bool
  md_reason :: string

definition evaluateHookLoadMapCommit :: "HookLoadMapCommitInput \<Rightarrow> HookLoadMapCommitDecision" where
  "evaluateHookLoadMapCommit i =
     (let d = \<lparr>md_allow_commit = False, md_use_formal_remove_box = False,
               md_exclude_candidate_region = False, md_required_fault = False,
               md_reason = ''required_signal_invalid''\<rparr>;
          gravity_loaded = (mc_gravity_valid i \<and> mc_gravity_state i = HookLoadState.LOADED);
          gravity_empty = (mc_gravity_valid i \<and> mc_gravity_state i = HookLoadState.EMPTY)
      in if mc_role i = HookLoadSignalRole.REQUIRED \<and> \<not> gravity_loaded \<and> \<not> gravity_empty
         then d\<lparr>md_required_fault := True\<rparr>
         else if mc_role i = HookLoadSignalRole.REQUIRED \<and> gravity_loaded \<and>
                 \<not> mc_lidar_removal_authorized i
         then d\<lparr>md_reason := ''required_loaded_without_lidar_authorization''\<rparr>
         else
           let use_box = mc_lidar_removal_authorized i;
               exclude = (mc_lidar_cargo_candidate i \<and> \<not> mc_lidar_removal_authorized i)
           in d\<lparr>md_allow_commit := True, md_use_formal_remove_box := use_box,
                md_exclude_candidate_region := exclude,
                md_reason := (if use_box then ''lidar_formal_remove_box''
                              else if exclude then ''conservative_candidate_exclusion''
                              else ''static_regions_allowed'')\<rparr>)"

section \<open>Lemmas\<close>

definition no_cargo_inv :: "LidarNoCargoEvidenceTracker \<Rightarrow> bool" where
  "no_cargo_inv t \<longleftrightarrow>
     0 < nt_confirm_frames t \<and> (nt_confirmed t \<longleftrightarrow> nt_confirm_frames t \<le> nt_confirm_count t)"

lemma cpp_max_one_neq [simp]: "cpp_max 1 (w :: u32) \<noteq> 0"
  by (auto simp: cpp_max_def)

lemma no_cargo_inv_init [simp]: "no_cargo_inv (no_cargo_init n)"
  by (simp add: no_cargo_inv_def no_cargo_init_def word_gt_0)

lemma no_cargo_inv_next: "no_cargo_inv t \<Longrightarrow> no_cargo_inv (no_cargo_next t i)"
  by (auto simp: no_cargo_inv_def no_cargo_next_def no_cargo_clear_def Let_def)

lemma no_cargo_next_frames [simp]: "nt_confirm_frames (no_cargo_next t i) = nt_confirm_frames t"
  by (simp add: no_cargo_next_def no_cargo_clear_def Let_def)

lemma no_cargo_next_count:
  "nt_confirm_count (no_cargo_next t i) \<in> {0, nt_confirm_count t, nt_confirm_count t + 1}"
  by (simp add: no_cargo_next_def no_cargo_clear_def Let_def)

lemma no_cargo_update_simps [simp]:
  "fst (no_cargo_update t i) = no_cargo_next t i"
  "nr_confirmed (snd (no_cargo_update t i)) = nt_confirmed (no_cargo_next t i)"
  "nr_confirm_count (snd (no_cargo_update t i)) = nt_confirm_count (no_cargo_next t i)"
  "nr_reason (snd (no_cargo_update t i)) = nt_reason (no_cargo_next t i)"
  by (simp_all add: no_cargo_update_def no_cargo_result_def Let_def)

interpretation no_cargo: confirmation_machine no_cargo_update no_cargo_inv
  "\<lambda>t. uint (nt_confirm_count t)" "\<lambda>t. uint (nt_confirm_frames t)" nr_confirmed
proof unfold_locales
  fix t i
  assume inv: "no_cargo_inv t"
  show inv': "no_cargo_inv (fst (no_cargo_update t i))" using inv by (simp add: no_cargo_inv_next)
  have "uint (nt_confirm_count t + 1) \<le> uint (nt_confirm_count t) + 1" by (rule uint_inc_le)
  then show "uint (nt_confirm_count (fst (no_cargo_update t i))) \<le> uint (nt_confirm_count t) + 1"
    using no_cargo_next_count [of t i] by auto
  show "uint (nt_confirm_frames t) \<le> uint (nt_confirm_count (fst (no_cargo_update t i)))"
    if "nr_confirmed (snd (no_cargo_update t i))"
    using that inv' by (simp add: no_cargo_inv_def word_le_def)
qed simp

section \<open>Properties\<close>

text \<open>Parsing the role is fail-safe: an unrecognised role string never weakens the contract, it
  is reported invalid with role REQUIRED; the signal is DISABLED only by the enable switch or
  by the explicit word, in any letter case.\<close>

theorem parse_role_fail_safe:
  "(\<not> rr_valid (parseHookLoadSignalRole i) \<longrightarrow>
      rr_role (parseHookLoadSignalRole i) = HookLoadSignalRole.REQUIRED) \<and>
   (rr_role (parseHookLoadSignalRole i) = HookLoadSignalRole.DISABLED \<longleftrightarrow>
      \<not> rp_enabled i \<or> rp_role_present i \<and> map char_tolower (rp_role i) = ''disabled'')"
  by (simp add: parseHookLoadSignalRole_def Let_def)

theorem parse_role_fail_safe_witness:
  "rr_role (parseHookLoadSignalRole
     \<lparr>rp_enabled = True, rp_role_present = True, rp_role = ''Disabledd'', rp_legacy_required = False\<rparr>)
   = HookLoadSignalRole.REQUIRED"
proof -
  let ?i = "\<lparr>rp_enabled = True, rp_role_present = True, rp_role = ''Disabledd'', rp_legacy_required = False\<rparr>"
  have "\<not> rr_valid (parseHookLoadSignalRole ?i)"
    by (simp add: parseHookLoadSignalRole_def char_tolower_def Let_def)
  then show ?thesis using parse_role_fail_safe [of ?i] by simp
qed

text \<open>Whatever the role, cargo and empty hook are never both accepted; when the signal is
  REQUIRED, acceptance of either needs the agreeing load-cell state and excludes both the
  required fault and the conflict flag; when it is AUXILIARY or REQUIRED, accepting one while the
  load cell says the opposite raises the conflict flag.\<close>

theorem hook_evidence_exclusive:
  "let d = evaluateHookLoadEvidence i in
     \<not> (hd_lidar_cargo_accepted d \<and> hd_lidar_empty_accepted d) \<and>
     (he_role i = HookLoadSignalRole.REQUIRED \<and> (hd_lidar_cargo_accepted d \<or> hd_lidar_empty_accepted d) \<longrightarrow>
        \<not> hd_gravity_required_fault d \<and> \<not> hd_gravity_conflict d \<and> he_gravity_valid i \<and>
        he_gravity_state i =
          (if hd_lidar_cargo_accepted d then HookLoadState.LOADED else HookLoadState.EMPTY)) \<and>
     (he_role i \<noteq> HookLoadSignalRole.DISABLED \<and> he_gravity_valid i \<and>
      (hd_lidar_cargo_accepted d \<and> he_gravity_state i = HookLoadState.EMPTY \<or>
       hd_lidar_empty_accepted d \<and> he_gravity_state i = HookLoadState.LOADED) \<longrightarrow> hd_gravity_conflict d)"
  by (auto simp: evaluateHookLoadEvidence_def Let_def split: if_splits)

theorem hook_evidence_exclusive_witness:
  "let i = \<lparr>he_role = HookLoadSignalRole.REQUIRED, he_gravity_valid = True,
            he_gravity_state = HookLoadState.LOADED, he_lidar_cargo_valid = True,
            he_lidar_no_cargo_confirmed = True, he_lidar_track_locked = True,
            he_lidar_geometry_valid = True, he_lidar_height_valid = True\<rparr>;
       d = evaluateHookLoadEvidence i
   in hd_lidar_cargo_accepted d \<and> \<not> hd_lidar_empty_accepted d \<and> \<not> hd_gravity_conflict d"
proof -
  let ?i = "\<lparr>he_role = HookLoadSignalRole.REQUIRED, he_gravity_valid = True,
            he_gravity_state = HookLoadState.LOADED, he_lidar_cargo_valid = True,
            he_lidar_no_cargo_confirmed = True, he_lidar_track_locked = True,
            he_lidar_geometry_valid = True, he_lidar_height_valid = True\<rparr>"
  have "hd_lidar_cargo_accepted (evaluateHookLoadEvidence ?i)"
    by (simp add: evaluateHookLoadEvidence_def Let_def)
  then show ?thesis using hook_evidence_exclusive [of ?i] by (simp add: Let_def)
qed

text \<open>The no-cargo confirmation rests on enough frames: from a fresh tracker, the k-th update
  (counting from zero) confirms an empty hook only if k + 1 reaches the configured number of
  frames, and never before the first one even when the configuration says zero.\<close>

theorem no_cargo_needs_frames:
  assumes "k < length is"
    and "nr_confirmed (run_outputs no_cargo_update (no_cargo_init n) is ! k)"
  shows "uint (cpp_max 1 n) \<le> int k + 1"
proof -
  have "uint (nt_confirm_count (no_cargo_init n)) \<le> 0" by (simp add: no_cargo_init_def)
  from no_cargo.positive_needs_frames [OF no_cargo_inv_init this assms]
  show ?thesis by (simp add: no_cargo_init_def)
qed

theorem no_cargo_needs_frames_witness:
  "let i = (\<lambda>t. \<lparr>nc_detection_executed = True, nc_outcome = CargoObservationOutcome.EMPTY_CONFIRMED,
                 nc_localization_valid = True, nc_cargo_lock_active = False, nc_source_time_sec = Fin t\<rparr>)
   in nr_confirmed (run_outputs no_cargo_update (no_cargo_init 2) [i 1, i 2] ! 1) \<and>
      uint (cpp_max 1 (2::u32)) \<le> int 1 + 1"
proof -
  define i where "i = (\<lambda>t. \<lparr>nc_detection_executed = True,
    nc_outcome = CargoObservationOutcome.EMPTY_CONFIRMED, nc_localization_valid = True,
    nc_cargo_lock_active = False, nc_source_time_sec = Fin t\<rparr>)"
  have c: "nr_confirmed (run_outputs no_cargo_update (no_cargo_init 2) [i 1, i 2] ! 1)"
    by (simp add: i_def no_cargo_init_def no_cargo_next_def Let_def cpp_max_def)
  from no_cargo_needs_frames [OF _ c] c show ?thesis by (simp add: i_def Let_def)
qed

text \<open>Every fresh observation that is not an explicit empty one withdraws the confirmation: an
  executed detection with a new, valid stamp that is unlocalised, unknown, shows cargo or
  meets an active lock leaves the tracker unconfirmed with an empty counter.\<close>

theorem no_cargo_withdrawn:
  assumes "nc_detection_executed i" and "isfinite (nc_source_time_sec i)" and "Fin 0 \<le> nc_source_time_sec i"
    and "nt_has_seen_source_time t \<Longrightarrow> nt_last_seen_source_time_sec t + Fin 0.000001 < nc_source_time_sec i"
    and "\<not> nc_localization_valid i \<or> nc_outcome i \<noteq> CargoObservationOutcome.EMPTY_CONFIRMED \<or>
      nc_cargo_lock_active i"
  shows "\<not> nr_confirmed (snd (no_cargo_update t i)) \<and> nr_confirm_count (snd (no_cargo_update t i)) = 0"
proof -
  obtain a where a: "nc_source_time_sec i = Fin a" "0 \<le> a" using assms(2,3) by (auto elim: isfiniteE)
  have "\<not> \<bar>nc_source_time_sec i - nt_last_seen_source_time_sec t\<bar> \<le> Fin 0.000001"
    if "nt_has_seen_source_time t"
    using assms(4) [OF that] a by (cases "nt_last_seen_source_time_sec t") auto
  then show ?thesis
    using assms(1,5) a
    by (cases "nc_outcome i") (auto simp: no_cargo_next_def no_cargo_clear_def Let_def)
qed

theorem no_cargo_withdrawn_witness:
  "let i = \<lparr>nc_detection_executed = True, nc_outcome = CargoObservationOutcome.CARGO_DETECTED,
            nc_localization_valid = True, nc_cargo_lock_active = False, nc_source_time_sec = Fin 7\<rparr>;
       t = (no_cargo_init 2)\<lparr>nt_confirmed := True, nt_confirm_count := 5\<rparr>
   in \<not> nr_confirmed (snd (no_cargo_update t i))"
proof -
  let ?i = "\<lparr>nc_detection_executed = True, nc_outcome = CargoObservationOutcome.CARGO_DETECTED,
    nc_localization_valid = True, nc_cargo_lock_active = False, nc_source_time_sec = Fin 7\<rparr>"
  show ?thesis
    using no_cargo_withdrawn [of ?i "(no_cargo_init 2)\<lparr>nt_confirmed := True, nt_confirm_count := 5\<rparr>"]
    by (simp add: Let_def no_cargo_init_def)
qed

text \<open>The frame counter is meant to saturate (\<^verbatim>\<open>std::min(confirm_count_ + 1U, max)\<close>) but wraps: an
  empty hook that stays empty for \<open>2 ^ 32\<close> consecutive frames loses its confirmation, because
  the addition wraps to zero before the minimum is taken.\<close>

theorem no_cargo_counter_wraps:
  assumes "no_cargo_inv t" and "nt_confirm_count t = - 1"
    and "nc_detection_executed i" and "isfinite (nc_source_time_sec i)" and "Fin 0 \<le> nc_source_time_sec i"
    and "nt_has_seen_source_time t \<Longrightarrow> nt_last_seen_source_time_sec t + Fin 0.000001 < nc_source_time_sec i"
    and "nc_localization_valid i" and "nc_outcome i = CargoObservationOutcome.EMPTY_CONFIRMED"
    and "\<not> nc_cargo_lock_active i"
  shows "nt_confirmed t \<and> \<not> nr_confirmed (snd (no_cargo_update t i))"
proof -
  obtain a where a: "nc_source_time_sec i = Fin a" "0 \<le> a" using assms(4,5) by (auto elim: isfiniteE)
  have "\<not> \<bar>nc_source_time_sec i - nt_last_seen_source_time_sec t\<bar> \<le> Fin 0.000001 \<and>
      \<not> nc_source_time_sec i + Fin 0.000001 < nt_last_seen_source_time_sec t"
    if "nt_has_seen_source_time t"
    using assms(6) [OF that] a by (cases "nt_last_seen_source_time_sec t") auto
  then show ?thesis
    using assms a by (auto simp: no_cargo_next_def no_cargo_inv_def Let_def word_gt_0)
qed

theorem no_cargo_counter_wraps_witness:
  "let i = \<lparr>nc_detection_executed = True, nc_outcome = CargoObservationOutcome.EMPTY_CONFIRMED,
            nc_localization_valid = True, nc_cargo_lock_active = False, nc_source_time_sec = Fin 7\<rparr>;
       t = (no_cargo_init 3)\<lparr>nt_confirmed := True, nt_confirm_count := - 1\<rparr>
   in nt_confirmed t \<and> \<not> nr_confirmed (snd (no_cargo_update t i))"
proof -
  let ?i = "\<lparr>nc_detection_executed = True, nc_outcome = CargoObservationOutcome.EMPTY_CONFIRMED,
    nc_localization_valid = True, nc_cargo_lock_active = False, nc_source_time_sec = Fin 7\<rparr>"
  let ?t = "(no_cargo_init 3)\<lparr>nt_confirmed := True, nt_confirm_count := - 1\<rparr>"
  have "no_cargo_inv ?t" by (simp add: no_cargo_inv_def no_cargo_init_def cpp_max_def)
  then show ?thesis
    using no_cargo_counter_wraps [of ?t ?i] by (simp add: Let_def no_cargo_init_def)
qed

text \<open>Committing a frame to the map with a REQUIRED signal: the commit needs a known load state,
  a loaded hook commits only with an authorised removal box, and the formal removal box and
  the conservative exclusion of a candidate region are never used together.\<close>

theorem map_commit_required_contract:
  "let d = evaluateHookLoadMapCommit i in
     \<not> (md_use_formal_remove_box d \<and> md_exclude_candidate_region d) \<and>
     (md_allow_commit d \<and> mc_role i = HookLoadSignalRole.REQUIRED \<longrightarrow>
        mc_gravity_valid i \<and>
        (mc_gravity_state i = HookLoadState.EMPTY \<or>
         mc_gravity_state i = HookLoadState.LOADED \<and> md_use_formal_remove_box d)) \<and>
     (md_allow_commit d \<and> mc_lidar_cargo_candidate i \<longrightarrow>
        md_use_formal_remove_box d \<or> md_exclude_candidate_region d)"
  by (simp add: evaluateHookLoadMapCommit_def Let_def) auto

theorem map_commit_required_contract_witness:
  "let i = \<lparr>mc_role = HookLoadSignalRole.REQUIRED, mc_gravity_valid = True,
            mc_gravity_state = HookLoadState.LOADED, mc_lidar_removal_authorized = True,
            mc_lidar_cargo_candidate = True\<rparr>;
       d = evaluateHookLoadMapCommit i
   in md_allow_commit d \<and> md_use_formal_remove_box d \<and> \<not> md_exclude_candidate_region d"
proof -
  let ?i = "\<lparr>mc_role = HookLoadSignalRole.REQUIRED, mc_gravity_valid = True,
            mc_gravity_state = HookLoadState.LOADED, mc_lidar_removal_authorized = True,
            mc_lidar_cargo_candidate = True\<rparr>"
  have "md_allow_commit (evaluateHookLoadMapCommit ?i)"
    by (simp add: evaluateHookLoadMapCommit_def Let_def)
  then show ?thesis using map_commit_required_contract [of ?i] by (simp add: Let_def)
qed

end
