(* ===== verification/Cargo_Presence.thy ===== *)
theory Cargo_Presence
  imports Hook_Load_Filter
begin

text \<open>
  \<^verbatim>\<open>CargoPresenceStateMachine\<close> (\<^verbatim>\<open>cargo_presence_state_machine.hpp/.cpp\<close>): the latch that remembers
  that cargo hangs on the hook. It is set by an authoritative LOADED (or, with gravity
  disabled, by LiDAR), and it may be cleared only by an authoritative EMPTY (or, with gravity
  disabled, by the absence of any LiDAR presence).
\<close>

datatype CargoPresenceState =
  EMPTY | LOADED_AUTHORITATIVE | LOADED_GRAVITY_STALE_HOLD | UNKNOWN_HARD_FAULT

fun cargoPresenceStateName :: "CargoPresenceState \<Rightarrow> string" where
  "cargoPresenceStateName CargoPresenceState.EMPTY = ''EMPTY''"
| "cargoPresenceStateName LOADED_AUTHORITATIVE = ''LOADED_AUTHORITATIVE''"
| "cargoPresenceStateName LOADED_GRAVITY_STALE_HOLD = ''LOADED_GRAVITY_STALE_HOLD''"
| "cargoPresenceStateName UNKNOWN_HARD_FAULT = ''UNKNOWN_HARD_FAULT''"

record CargoPresenceInput =
  pi_stamp_sec :: dbl
  pi_gravity_enabled :: bool
  pi_gravity_valid :: bool
  pi_gravity_state :: HookLoadState
  pi_gravity_age_sec :: dbl
  pi_lidar_candidate_visible :: bool
  pi_formal_track_retained :: bool

record CargoPresenceResult =
  pr_cargo_present :: bool
  pr_clear_allowed :: bool
  pr_fallback_envelope_required :: bool
  pr_gravity_authoritative :: bool
  pr_state :: CargoPresenceState
  pr_loaded_duration_sec :: dbl
  pr_state_duration_sec :: dbl
  pr_source_epoch :: u64
  pr_reason :: string

definition default_CargoPresenceResult :: CargoPresenceResult where
  "default_CargoPresenceResult =
     \<lparr>pr_cargo_present = False, pr_clear_allowed = False, pr_fallback_envelope_required = False,
      pr_gravity_authoritative = False, pr_state = CargoPresenceState.EMPTY,
      pr_loaded_duration_sec = Fin 0, pr_state_duration_sec = Fin 0, pr_source_epoch = 0,
      pr_reason = ''not_evaluated''\<rparr>"

record CargoPresenceStateMachine =
  ps_gravity_stale_hold_sec :: dbl
  ps_result :: CargoPresenceResult
  ps_last_stamp_sec :: dbl
  ps_loaded_since_sec :: dbl
  ps_state_since_sec :: dbl
  ps_cargo_latched :: bool

definition presence_validConfig :: "dbl \<Rightarrow> bool" where
  "presence_validConfig hold \<longleftrightarrow> isfinite hold \<and> Fin 0 \<le> hold"

definition presence_reset :: "CargoPresenceStateMachine \<Rightarrow> CargoPresenceStateMachine" where
  "presence_reset s =
     s\<lparr>ps_result := default_CargoPresenceResult, ps_last_stamp_sec := Fin 0,
       ps_loaded_since_sec := Fin 0, ps_state_since_sec := Fin 0, ps_cargo_latched := False\<rparr>"

text \<open>An invalid hold time is replaced by the default of three seconds.\<close>

definition presence_setConfig :: "dbl \<Rightarrow> CargoPresenceStateMachine \<Rightarrow> CargoPresenceStateMachine" where
  "presence_setConfig hold s =
     presence_reset
       (s\<lparr>ps_gravity_stale_hold_sec := (if presence_validConfig hold then hold else Fin 3)\<rparr>)"

definition presence_init :: "dbl \<Rightarrow> CargoPresenceStateMachine" where
  "presence_init hold = presence_setConfig hold
     \<lparr>ps_gravity_stale_hold_sec = Fin 3, ps_result = default_CargoPresenceResult,
      ps_last_stamp_sec = Fin 0, ps_loaded_since_sec = Fin 0, ps_state_since_sec = Fin 0,
      ps_cargo_latched = False\<rparr>"

definition presence_transition ::
  "CargoPresenceState \<Rightarrow> dbl \<Rightarrow> CargoPresenceStateMachine \<Rightarrow> CargoPresenceStateMachine" where
  "presence_transition st stamp s =
     s\<lparr>ps_state_since_sec :=
         (if pr_state (ps_result s) \<noteq> st \<or> ps_state_since_sec s \<le> Fin 0 then stamp
          else ps_state_since_sec s),
       ps_result := (ps_result s)\<lparr>pr_state := st\<rparr>\<rparr>"

text \<open>The assignments every branch of \<^verbatim>\<open>update\<close> makes to the decision fields.\<close>

definition presence_decide ::
  "bool \<Rightarrow> bool \<Rightarrow> bool \<Rightarrow> bool \<Rightarrow> string \<Rightarrow> CargoPresenceStateMachine \<Rightarrow> CargoPresenceStateMachine" where
  "presence_decide present clear fallback authoritative reason s =
     s\<lparr>ps_result := (ps_result s)\<lparr>pr_cargo_present := present, pr_clear_allowed := clear,
         pr_fallback_envelope_required := fallback, pr_gravity_authoritative := authoritative,
         pr_reason := reason\<rparr>\<rparr>"

definition presence_durations :: "dbl \<Rightarrow> CargoPresenceStateMachine \<Rightarrow> CargoPresenceStateMachine" where
  "presence_durations stamp s =
     s\<lparr>ps_result := (ps_result s)
        \<lparr>pr_loaded_duration_sec :=
           (if ps_cargo_latched s \<and> Fin 0 < ps_loaded_since_sec s
            then stamp - ps_loaded_since_sec s else Fin 0),
         pr_state_duration_sec :=
           (if Fin 0 < ps_state_since_sec s then stamp - ps_state_since_sec s else Fin 0)\<rparr>\<rparr>"

text \<open>The four-way evaluation of a frame whose stamp advanced.\<close>

definition presence_evaluate ::
  "CargoPresenceInput \<Rightarrow> CargoPresenceStateMachine \<Rightarrow> CargoPresenceStateMachine" where
  "presence_evaluate i s =
     (let stamp = pi_stamp_sec i in
      if \<not> pi_gravity_enabled i then
        let latched = (pi_formal_track_retained i \<or> pi_lidar_candidate_visible i);
            s1 = s\<lparr>ps_cargo_latched := latched,
                   ps_loaded_since_sec :=
                     (if latched \<and> ps_loaded_since_sec s \<le> Fin 0 then stamp
                      else if \<not> latched then Fin 0 else ps_loaded_since_sec s)\<rparr>
        in presence_decide latched (\<not> latched) (latched \<and> \<not> pi_formal_track_retained i) False
             (if latched then ''gravity_disabled_lidar_presence'' else ''gravity_disabled_no_cargo'')
             (presence_transition
                (if latched then LOADED_AUTHORITATIVE else CargoPresenceState.EMPTY) stamp s1)
      else if pi_gravity_valid i \<and> pi_gravity_state i = HookLoadState.LOADED then
        let s1 = s\<lparr>ps_loaded_since_sec :=
                     (if \<not> ps_cargo_latched s \<or> ps_loaded_since_sec s \<le> Fin 0 then stamp
                      else ps_loaded_since_sec s),
                   ps_cargo_latched := True\<rparr>
        in presence_decide True False (\<not> pi_formal_track_retained i) True
             ''gravity_loaded_authoritative''
             (presence_transition LOADED_AUTHORITATIVE stamp s1)
      else if pi_gravity_valid i \<and> pi_gravity_state i = HookLoadState.EMPTY then
        presence_decide False True False True ''gravity_empty_confirmed''
          (presence_transition CargoPresenceState.EMPTY stamp
             (s\<lparr>ps_cargo_latched := False, ps_loaded_since_sec := Fin 0\<rparr>))
      else
        let short_stale = (ps_cargo_latched s \<and> isfinite (pi_gravity_age_sec i) \<and>
                           pi_gravity_age_sec i \<le> ps_gravity_stale_hold_sec s)
        in presence_decide (ps_cargo_latched s) False (ps_cargo_latched s) False
             (if short_stale then ''gravity_stale_loaded_hold'' else ''gravity_unavailable_hard_fault'')
             (presence_transition
                (if short_stale then LOADED_GRAVITY_STALE_HOLD else UNKNOWN_HARD_FAULT) stamp s))"

definition presence_next :: "CargoPresenceStateMachine \<Rightarrow> CargoPresenceInput \<Rightarrow> CargoPresenceStateMachine" where
  "presence_next s i =
     (let stamp = pi_stamp_sec i in
      if \<not> isfinite stamp \<or> stamp \<le> Fin 0
      then let s1 = presence_decide (ps_cargo_latched s) False (ps_cargo_latched s) False
                      ''invalid_timestamp'' s
           in s1\<lparr>ps_result := (ps_result s1)\<lparr>pr_state := UNKNOWN_HARD_FAULT\<rparr>\<rparr>
      else if Fin 0 < ps_last_stamp_sec s \<and> stamp \<le> ps_last_stamp_sec s
      then let s1 = s\<lparr>ps_result := (ps_result s)\<lparr>pr_source_epoch := pr_source_epoch (ps_result s) + 1\<rparr>,
                      ps_loaded_since_sec :=
                        (if ps_cargo_latched s then stamp else ps_loaded_since_sec s)\<rparr>;
               s2 = presence_transition UNKNOWN_HARD_FAULT stamp
                      (presence_decide (ps_cargo_latched s) False (ps_cargo_latched s) False
                         ''timestamp_rollback_conservative_hold'' s1)
           in s2\<lparr>ps_result := (ps_result s2)\<lparr>pr_loaded_duration_sec := Fin 0,
                    pr_state_duration_sec := Fin 0\<rparr>,
                 ps_last_stamp_sec := stamp\<rparr>
      else presence_durations stamp (presence_evaluate i (s\<lparr>ps_last_stamp_sec := stamp\<rparr>)))"

definition presence_update ::
  "(CargoPresenceStateMachine, CargoPresenceInput, CargoPresenceResult) machine" where
  "presence_update s i = (let s' = presence_next s i in (s', ps_result s'))"

section \<open>Lemmas\<close>

lemmas presence_defs =
  presence_next_def presence_evaluate_def presence_decide_def presence_transition_def
  presence_durations_def Let_def

lemma presence_update_simps [simp]:
  "fst (presence_update s i) = presence_next s i"
  "snd (presence_update s i) = ps_result (presence_next s i)"
  by (simp_all add: presence_update_def Let_def)

text \<open>The decision mirrors the latch, and the loading time lies in the past.\<close>

definition presence_inv :: "CargoPresenceStateMachine \<Rightarrow> bool" where
  "presence_inv s \<longleftrightarrow>
     isfinite (ps_last_stamp_sec s) \<and> isfinite (ps_loaded_since_sec s) \<and>
     isfinite (ps_state_since_sec s) \<and> Fin 0 \<le> ps_loaded_since_sec s \<and>
     ps_loaded_since_sec s \<le> ps_last_stamp_sec s \<and>
     (\<not> ps_cargo_latched s \<longrightarrow> ps_loaded_since_sec s = Fin 0) \<and>
     pr_cargo_present (ps_result s) = ps_cargo_latched s \<and>
     Fin 0 \<le> pr_loaded_duration_sec (ps_result s)"

lemma presence_inv_init [simp]: "presence_inv (presence_init h)"
  by (simp add: presence_inv_def presence_init_def presence_setConfig_def presence_reset_def
      default_CargoPresenceResult_def)

lemma presence_inv_Fin:
  "presence_inv s \<Longrightarrow> \<exists>l m. ps_last_stamp_sec s = Fin l \<and> ps_loaded_since_sec s = Fin m \<and> 0 \<le> m \<and> m \<le> l"
  by (cases "ps_last_stamp_sec s"; cases "ps_loaded_since_sec s") (simp_all add: presence_inv_def)

lemma presence_inv_evaluate:
  assumes "presence_inv s" and "ps_last_stamp_sec s \<le> Fin a" and "0 < a" and "pi_stamp_sec i = Fin a"
  shows "presence_inv (presence_durations (Fin a) (presence_evaluate i (s\<lparr>ps_last_stamp_sec := Fin a\<rparr>)))"
proof -
  obtain l m where "ps_last_stamp_sec s = Fin l" "ps_loaded_since_sec s = Fin m" "0 \<le> m" "m \<le> l"
    using presence_inv_Fin [OF assms(1)] by blast
  with assms show ?thesis
    unfolding presence_inv_def
    by (intro conjI; simp add: presence_evaluate_def presence_durations_def presence_decide_def
        presence_transition_def Let_def)
qed

lemma presence_inv_step:
  assumes "presence_inv s"
  shows "presence_inv (presence_next s i)"
proof (cases "pi_stamp_sec i")
  case (Fin a)
  obtain l m where l: "ps_last_stamp_sec s = Fin l" "ps_loaded_since_sec s = Fin m" "0 \<le> m" "m \<le> l"
    using presence_inv_Fin [OF assms] by blast
  consider "a \<le> 0" | "0 < a" "0 < l" "a \<le> l" | "0 < a" "l < a"
    using l(3,4) by linarith
  then show ?thesis
  proof cases
    case 3
    then have "presence_next s i =
        presence_durations (Fin a) (presence_evaluate i (s\<lparr>ps_last_stamp_sec := Fin a\<rparr>))"
      using Fin l by (simp add: presence_next_def Let_def)
    then show ?thesis using presence_inv_evaluate [OF assms _ _ Fin] 3 l by simp
  qed (use assms Fin l in \<open>simp_all add: presence_next_def presence_inv_def presence_decide_def
      presence_transition_def Let_def\<close>)
qed (use assms in \<open>simp_all add: presence_next_def presence_inv_def presence_decide_def Let_def\<close>)

text \<open>What a caller may rely on in every decision.\<close>

definition presence_contract :: "CargoPresenceResult \<Rightarrow> bool" where
  "presence_contract d \<longleftrightarrow>
     Fin 0 \<le> pr_loaded_duration_sec d \<and>
     (pr_clear_allowed d \<longrightarrow> \<not> pr_cargo_present d \<and> \<not> pr_fallback_envelope_required d \<and>
        pr_state d = CargoPresenceState.EMPTY) \<and>
     (pr_fallback_envelope_required d \<longrightarrow> pr_cargo_present d)"

lemma presence_fallback_present:
  "pr_fallback_envelope_required (ps_result (presence_next s i)) \<longrightarrow>
   pr_cargo_present (ps_result (presence_next s i))"
  by (simp add: presence_defs) blast

lemma presence_clear_empty:
  "pr_clear_allowed (ps_result (presence_next s i)) \<longrightarrow>
   \<not> pr_cargo_present (ps_result (presence_next s i)) \<and>
   pr_state (ps_result (presence_next s i)) = CargoPresenceState.EMPTY"
  by (simp add: presence_defs)

lemma presence_contract_step:
  assumes "presence_inv s"
  shows "presence_contract (ps_result (presence_next s i))"
proof -
  have "Fin 0 \<le> pr_loaded_duration_sec (ps_result (presence_next s i))"
    using presence_inv_step [OF assms, of i] unfolding presence_inv_def by blast
  then show ?thesis
    using presence_fallback_present [of s i] presence_clear_empty [of s i]
    unfolding presence_contract_def by blast
qed

interpretation presence: contract_machine presence_update presence_inv presence_contract
  by unfold_locales (simp_all add: presence_inv_step presence_contract_step)

lemma presence_latch_step:
  "ps_cargo_latched s \<Longrightarrow> \<not> pr_clear_allowed (ps_result (presence_next s i)) \<Longrightarrow>
   ps_cargo_latched (presence_next s i) \<and> pr_cargo_present (ps_result (presence_next s i))"
  by (auto simp: presence_defs split: if_splits)

section \<open>Properties\<close>

text \<open>The presence latch is cleared exactly by authority: an update grants permission to clear
  the cargo lifecycle if and only if its stamp is valid and newer than the last one and either
  the enabled load cell says a valid EMPTY, or gravity is disabled and LiDAR shows neither a
  retained track nor a candidate.\<close>

theorem presence_clear_iff_authoritative:
  "pr_clear_allowed (snd (presence_update s i)) \<longleftrightarrow>
     isfinite (pi_stamp_sec i) \<and> \<not> pi_stamp_sec i \<le> Fin 0 \<and>
     \<not> (Fin 0 < ps_last_stamp_sec s \<and> pi_stamp_sec i \<le> ps_last_stamp_sec s) \<and>
     (if pi_gravity_enabled i
      then pi_gravity_valid i \<and> pi_gravity_state i = HookLoadState.EMPTY
      else \<not> pi_formal_track_retained i \<and> \<not> pi_lidar_candidate_visible i)"
  by (auto simp: presence_defs split: if_splits)

text \<open>Cargo is never forgotten silently: in any run from a latched state in which no decision
  allows a clear, every decision reports cargo present and the latch is still set at the end,
  through invalid stamps, time rollbacks and stale or missing load-cell data.\<close>

theorem presence_latch_persists:
  assumes "ps_cargo_latched s"
    and "\<forall>d \<in> set (run_outputs presence_update s is). \<not> pr_clear_allowed d"
  shows "ps_cargo_latched (run_state presence_update s is) \<and>
    (\<forall>d \<in> set (run_outputs presence_update s is). pr_cargo_present d)"
  using assms by (induction "is" arbitrary: s) (auto dest: presence_latch_step)

theorem presence_latch_persists_witness:
  "let i = \<lparr>pi_stamp_sec = Fin 5, pi_gravity_enabled = True, pi_gravity_valid = False,
            pi_gravity_state = HookLoadState.UNKNOWN, pi_gravity_age_sec = Fin 1,
            pi_lidar_candidate_visible = False, pi_formal_track_retained = False\<rparr>;
       s = (presence_init (Fin 3))\<lparr>ps_cargo_latched := True\<rparr>
   in ps_cargo_latched (run_state presence_update s [i, i\<lparr>pi_stamp_sec := Fin 4\<rparr>])"
proof -
  let ?i = "\<lparr>pi_stamp_sec = Fin 5, pi_gravity_enabled = True, pi_gravity_valid = False,
            pi_gravity_state = HookLoadState.UNKNOWN, pi_gravity_age_sec = Fin 1,
            pi_lidar_candidate_visible = False, pi_formal_track_retained = False\<rparr>"
  let ?s = "(presence_init (Fin 3))\<lparr>ps_cargo_latched := True\<rparr>"
  let ?is = "[?i, ?i\<lparr>pi_stamp_sec := Fin 4\<rparr>]"
  have l: "ps_cargo_latched ?s" by simp
  have n: "\<forall>d \<in> set (run_outputs presence_update ?s ?is). \<not> pr_clear_allowed d"
    by (simp add: presence_defs)
  from conjunct1 [OF presence_latch_persists [OF l n]] show ?thesis unfolding Let_def .
qed

text \<open>Every decision of every run from a constructed machine keeps the presence contract: the
  reported loading time is not negative, a clear is allowed only in state EMPTY with no cargo
  and no fallback envelope, and a fallback envelope is requested only for present cargo.\<close>

theorem presence_run_contract:
  assumes "d \<in> set (run_outputs presence_update (presence_init hold) is)"
  shows "presence_contract d"
  using presence.run_contract [OF presence_inv_init assms] .

theorem presence_run_contract_witness:
  "presence_contract (snd (presence_update (presence_init (Fin 3))
     \<lparr>pi_stamp_sec = Fin 5, pi_gravity_enabled = True, pi_gravity_valid = True,
      pi_gravity_state = HookLoadState.EMPTY, pi_gravity_age_sec = Fin 1,
      pi_lidar_candidate_visible = False, pi_formal_track_retained = False\<rparr>))"
  by (rule presence_run_contract [of _ "Fin 3"
      "[\<lparr>pi_stamp_sec = Fin 5, pi_gravity_enabled = True, pi_gravity_valid = True,
      pi_gravity_state = HookLoadState.EMPTY, pi_gravity_age_sec = Fin 1,
      pi_lidar_candidate_visible = False, pi_formal_track_retained = False\<rparr>]"]) simp

text \<open>The state duration can be negative: after a hard fault, a stamp rollback does not restart
  the state timer (the rollback branch re-enters the state the machine is already in), so the
  next frame of the new time epoch reports a negative \<open>state_duration_sec\<close>.\<close>

theorem presence_state_duration_negative:
  "let i = (\<lambda>t. \<lparr>pi_stamp_sec = Fin t, pi_gravity_enabled = True, pi_gravity_valid = False,
                 pi_gravity_state = HookLoadState.UNKNOWN, pi_gravity_age_sec = Fin 100,
                 pi_lidar_candidate_visible = False, pi_formal_track_retained = False\<rparr>)
   in map pr_state_duration_sec (run_outputs presence_update (presence_init (Fin 3)) [i 10, i 5, i 6])
      = [Fin 0, Fin 0, Fin (- 4)]"
  by (simp add: presence_defs presence_init_def presence_setConfig_def presence_reset_def
      default_CargoPresenceResult_def presence_validConfig_def)

end
