(* ===== verification/Safety_Temporal_Filter.thy ===== *)
theory Safety_Temporal_Filter
  imports Domain_Contracts "HOL-Library.Sublist"
begin

text \<open>
  \<^verbatim>\<open>CargoSafetyTemporalFilter\<close> (\<^verbatim>\<open>cargo_safety_temporal_filter.hpp/.cpp\<close>): raw codes 14, 17 and 18 are
  published only after a window of current, independently stamped, spatially continuous
  evidence. The class comment promises that no previously confirmed alarm is published while
  a new one is being confirmed; the properties below state that promise over whole runs.
\<close>

record CargoSafetyTemporalConfig =
  tc_hazard_confirm_frames :: int
  tc_clear_confirm_frames :: int
  tc_minimum_hazard_cluster_points :: nat
  tc_maximum_evidence_gap_sec :: dbl
  tc_maximum_centroid_step_m :: dbl
  tc_maximum_distance_step_m :: dbl
  tc_maximum_clearance_step_m :: dbl

definition default_CargoSafetyTemporalConfig :: CargoSafetyTemporalConfig where
  "default_CargoSafetyTemporalConfig =
     \<lparr>tc_hazard_confirm_frames = 3, tc_clear_confirm_frames = 2,
      tc_minimum_hazard_cluster_points = 20, tc_maximum_evidence_gap_sec = Fin 0.60,
      tc_maximum_centroid_step_m = Fin 0.75, tc_maximum_distance_step_m = Fin 0.75,
      tc_maximum_clearance_step_m = Fin 0.75\<rparr>"

record CargoSafetyTemporalInput =
  ti_stamp_sec :: dbl
  ti_raw_valid :: bool
  ti_raw_code :: int
  ti_cluster_points :: nat
  ti_cluster_centroid :: vec3
  ti_footprint_distance_m :: dbl
  ti_conservative_clearance_m :: dbl
  ti_cargo_pose_authority :: TemporalEvidenceAuthority
  ti_obstacle_pose_authority :: TemporalEvidenceAuthority

record CargoSafetyTemporalDecision =
  td_stable :: bool
  td_pending :: bool
  td_newly_confirmed :: bool
  td_use_current_evidence :: bool
  td_code :: int
  td_candidate_code :: int
  td_confirmed_code :: int
  td_evidence_count :: int
  td_cargo_pose_authority :: TemporalEvidenceAuthority
  td_obstacle_pose_authority :: TemporalEvidenceAuthority
  td_reason :: string

record CargoSafetyTemporalFilter =
  tf_config :: CargoSafetyTemporalConfig
  tf_config_validation :: CargoConfigValidationResult
  tf_has_source_stamp :: bool
  tf_last_source_stamp_sec :: dbl
  tf_candidate_valid :: bool
  tf_candidate_code :: int
  tf_candidate_count :: int
  tf_candidate_stamp_sec :: dbl
  tf_candidate_centroid :: vec3
  tf_candidate_distance_m :: dbl
  tf_candidate_clearance_m :: dbl
  tf_candidate_cargo_pose_authority :: TemporalEvidenceAuthority
  tf_candidate_obstacle_pose_authority :: TemporalEvidenceAuthority
  tf_confirmed_valid :: bool
  tf_confirmed_code :: int
  tf_confirmed_cargo_pose_authority :: TemporalEvidenceAuthority
  tf_confirmed_obstacle_pose_authority :: TemporalEvidenceAuthority

definition kStampEpsilonSec :: dbl where
  "kStampEpsilonSec = Fin 0.0001"

definition isProtocolCode :: "int \<Rightarrow> bool" where
  "isProtocolCode code \<longleftrightarrow> code = 14 \<or> code = 17 \<or> code = 18"

definition check_positive :: "string \<Rightarrow> dbl \<Rightarrow> CargoConfigValidationResult \<Rightarrow> CargoConfigValidationResult" where
  "check_positive field v r =
     (if \<not> isfinite v then reject field ''non_finite'' r
      else if v \<le> Fin 0 then reject field ''must_be_positive'' r else r)"

definition validateCargoSafetyTemporalConfig ::
  "CargoSafetyTemporalConfig \<Rightarrow> CargoConfigValidationResult" where
  "validateCargoSafetyTemporalConfig c =
     (let r0 = validation_ok;
          r1 = (if tc_hazard_confirm_frames c < 2
                then reject ''hazard_confirm_frames'' ''must_be_at_least_2'' r0 else r0);
          r2 = (if tc_clear_confirm_frames c < 2
                then reject ''clear_confirm_frames'' ''must_be_at_least_2'' r1 else r1);
          r3 = (if tc_minimum_hazard_cluster_points c = 0
                then reject ''minimum_hazard_cluster_points'' ''must_be_positive'' r2 else r2);
          r4 = check_positive ''maximum_evidence_gap_sec'' (tc_maximum_evidence_gap_sec c) r3;
          r5 = check_positive ''maximum_centroid_step_m'' (tc_maximum_centroid_step_m c) r4;
          r6 = check_positive ''maximum_distance_step_m'' (tc_maximum_distance_step_m c) r5
      in check_positive ''maximum_clearance_step_m'' (tc_maximum_clearance_step_m c) r6)"

definition temporal_reset :: "CargoSafetyTemporalFilter \<Rightarrow> CargoSafetyTemporalFilter" where
  "temporal_reset s =
     s\<lparr>tf_has_source_stamp := False, tf_last_source_stamp_sec := Fin 0,
       tf_candidate_valid := False, tf_candidate_code := 0, tf_candidate_count := 0,
       tf_candidate_stamp_sec := Fin 0, tf_candidate_centroid := vec3_zero,
       tf_candidate_distance_m := Fin 0, tf_candidate_clearance_m := Fin 0,
       tf_candidate_cargo_pose_authority := default_TemporalEvidenceAuthority,
       tf_candidate_obstacle_pose_authority := default_TemporalEvidenceAuthority,
       tf_confirmed_valid := False, tf_confirmed_code := 0,
       tf_confirmed_cargo_pose_authority := default_TemporalEvidenceAuthority,
       tf_confirmed_obstacle_pose_authority := default_TemporalEvidenceAuthority\<rparr>"

definition temporal_setConfig ::
  "CargoSafetyTemporalConfig \<Rightarrow> CargoSafetyTemporalFilter \<Rightarrow> CargoSafetyTemporalFilter" where
  "temporal_setConfig c s =
     temporal_reset (s\<lparr>tf_config := c, tf_config_validation := validateCargoSafetyTemporalConfig c\<rparr>)"

definition temporal_init :: "CargoSafetyTemporalConfig \<Rightarrow> CargoSafetyTemporalFilter" where
  "temporal_init c = temporal_setConfig c
     \<lparr>tf_config = default_CargoSafetyTemporalConfig, tf_config_validation = validation_ok,
      tf_has_source_stamp = False, tf_last_source_stamp_sec = Fin 0, tf_candidate_valid = False,
      tf_candidate_code = 0, tf_candidate_count = 0, tf_candidate_stamp_sec = Fin 0,
      tf_candidate_centroid = vec3_zero, tf_candidate_distance_m = Fin 0,
      tf_candidate_clearance_m = Fin 0,
      tf_candidate_cargo_pose_authority = default_TemporalEvidenceAuthority,
      tf_candidate_obstacle_pose_authority = default_TemporalEvidenceAuthority,
      tf_confirmed_valid = False, tf_confirmed_code = 0,
      tf_confirmed_cargo_pose_authority = default_TemporalEvidenceAuthority,
      tf_confirmed_obstacle_pose_authority = default_TemporalEvidenceAuthority\<rparr>"

definition currentDecision :: "string \<Rightarrow> CargoSafetyTemporalFilter \<Rightarrow> CargoSafetyTemporalDecision" where
  "currentDecision reason s =
     \<lparr>td_stable = tf_confirmed_valid s, td_pending = (\<not> tf_confirmed_valid s),
      td_newly_confirmed = False, td_use_current_evidence = False,
      td_code = (if tf_confirmed_valid s then tf_confirmed_code s else 0),
      td_candidate_code = (if tf_candidate_valid s then tf_candidate_code s else 0),
      td_confirmed_code = (if tf_confirmed_valid s then tf_confirmed_code s else 0),
      td_evidence_count = tf_candidate_count s,
      td_cargo_pose_authority = (if tf_confirmed_valid s then tf_confirmed_cargo_pose_authority s
                                 else tf_candidate_cargo_pose_authority s),
      td_obstacle_pose_authority = (if tf_confirmed_valid s then tf_confirmed_obstacle_pose_authority s
                                    else tf_candidate_obstacle_pose_authority s),
      td_reason = reason\<rparr>"

definition pendingDecision :: "string \<Rightarrow> CargoSafetyTemporalFilter \<Rightarrow> CargoSafetyTemporalDecision" where
  "pendingDecision reason s =
     \<lparr>td_stable = False, td_pending = True,
      td_newly_confirmed = False, td_use_current_evidence = False, td_code = 0,
      td_candidate_code = (if tf_candidate_valid s then tf_candidate_code s else 0),
      td_confirmed_code = (if tf_confirmed_valid s then tf_confirmed_code s else 0),
      td_evidence_count = tf_candidate_count s,
      td_cargo_pose_authority = tf_candidate_cargo_pose_authority s,
      td_obstacle_pose_authority = tf_candidate_obstacle_pose_authority s,
      td_reason = reason\<rparr>"

definition is_hazard :: "CargoSafetyTemporalInput \<Rightarrow> bool" where
  "is_hazard i \<longleftrightarrow> ti_raw_code i = 17 \<or> ti_raw_code i = 18"

definition robust_hazard :: "CargoSafetyTemporalConfig \<Rightarrow> CargoSafetyTemporalInput \<Rightarrow> bool" where
  "robust_hazard c i \<longleftrightarrow> is_hazard i \<and>
     tc_minimum_hazard_cluster_points c \<le> ti_cluster_points i \<and>
     vec3_allFinite (ti_cluster_centroid i) \<and>
     isfinite (ti_footprint_distance_m i) \<and> Fin 0 \<le> ti_footprint_distance_m i \<and>
     isfinite (ti_conservative_clearance_m i)"

definition same_candidate :: "CargoSafetyTemporalFilter \<Rightarrow> CargoSafetyTemporalInput \<Rightarrow> bool" where
  "same_candidate s i \<longleftrightarrow> tf_candidate_valid s \<and> tf_candidate_code s = ti_raw_code i \<and>
     sameTemporalEvidenceAuthority (tf_candidate_cargo_pose_authority s) (ti_cargo_pose_authority i) \<and>
     sameTemporalEvidenceAuthority (tf_candidate_obstacle_pose_authority s) (ti_obstacle_pose_authority i)"

definition gap_continuous :: "CargoSafetyTemporalFilter \<Rightarrow> CargoSafetyTemporalInput \<Rightarrow> bool" where
  "gap_continuous s i \<longleftrightarrow> same_candidate s i \<and>
     ti_stamp_sec i - tf_candidate_stamp_sec s
       \<le> tc_maximum_evidence_gap_sec (tf_config s) + kStampEpsilonSec"

definition spatial_step_ok :: "CargoSafetyTemporalFilter \<Rightarrow> CargoSafetyTemporalInput \<Rightarrow> bool" where
  "spatial_step_ok s i \<longleftrightarrow>
     vec3_norm (vec3_sub (ti_cluster_centroid i) (tf_candidate_centroid s))
       \<le> tc_maximum_centroid_step_m (tf_config s) \<and>
     \<bar>ti_footprint_distance_m i - tf_candidate_distance_m s\<bar>
       \<le> tc_maximum_distance_step_m (tf_config s) \<and>
     \<bar>ti_conservative_clearance_m i - tf_candidate_clearance_m s\<bar>
       \<le> tc_maximum_clearance_step_m (tf_config s)"

text \<open>\<^verbatim>\<open>spatially_continuous\<close> keeps its initial value \<^verbatim>\<open>true\<close> unless the gap test passed for a hazard.\<close>

definition spatially_continuous :: "CargoSafetyTemporalFilter \<Rightarrow> CargoSafetyTemporalInput \<Rightarrow> bool" where
  "spatially_continuous s i \<longleftrightarrow> (gap_continuous s i \<and> is_hazard i \<longrightarrow> spatial_step_ok s i)"

definition continuous_evidence :: "CargoSafetyTemporalFilter \<Rightarrow> CargoSafetyTemporalInput \<Rightarrow> bool" where
  "continuous_evidence s i \<longleftrightarrow>
     gap_continuous s i \<and> (is_hazard i \<longrightarrow> spatially_continuous s i)"

definition temporal_pending_reason :: "CargoSafetyTemporalFilter \<Rightarrow> CargoSafetyTemporalInput \<Rightarrow> string" where
  "temporal_pending_reason s i =
     (if is_hazard i \<and> same_candidate s i \<and> \<not> gap_continuous s i then ''hazard_evidence_gap''
      else if is_hazard i \<and> gap_continuous s i \<and> \<not> spatially_continuous s i
      then ''hazard_spatial_discontinuity''
      else if is_hazard i \<and> tf_candidate_valid s \<and> tf_candidate_code s \<noteq> ti_raw_code i
      then ''hazard_level_transition_pending'' else [])"

text \<open>The update of the candidate window by an accepted input.\<close>

definition temporal_candidate ::
  "CargoSafetyTemporalFilter \<Rightarrow> CargoSafetyTemporalInput \<Rightarrow> CargoSafetyTemporalFilter" where
  "temporal_candidate s i =
     (let s1 = (if continuous_evidence s i
                then s\<lparr>tf_candidate_count := tf_candidate_count s + 1\<rparr>
                else s\<lparr>tf_candidate_valid := True, tf_candidate_code := ti_raw_code i,
                       tf_candidate_count := 1\<rparr>);
          s2 = s1\<lparr>tf_candidate_stamp_sec := ti_stamp_sec i,
                  tf_candidate_cargo_pose_authority := ti_cargo_pose_authority i,
                  tf_candidate_obstacle_pose_authority := ti_obstacle_pose_authority i\<rparr>
      in if is_hazard i
         then s2\<lparr>tf_candidate_centroid := ti_cluster_centroid i,
                 tf_candidate_distance_m := ti_footprint_distance_m i,
                 tf_candidate_clearance_m := ti_conservative_clearance_m i\<rparr>
         else s2)"

definition required_frames :: "CargoSafetyTemporalConfig \<Rightarrow> CargoSafetyTemporalInput \<Rightarrow> int" where
  "required_frames c i =
     (if is_hazard i then tc_hazard_confirm_frames c else tc_clear_confirm_frames c)"

definition temporal_confirm ::
  "CargoSafetyTemporalFilter \<Rightarrow> CargoSafetyTemporalInput \<Rightarrow>
   CargoSafetyTemporalFilter \<times> CargoSafetyTemporalDecision" where
  "temporal_confirm s i =
     (let pending_reason = temporal_pending_reason s i;
          s1 = temporal_candidate s i
      in if required_frames (tf_config s1) i \<le> tf_candidate_count s1
         then let changed = (\<not> tf_confirmed_valid s1 \<or> tf_confirmed_code s1 \<noteq> ti_raw_code i);
                  s2 = s1\<lparr>tf_confirmed_valid := True, tf_confirmed_code := ti_raw_code i,
                          tf_confirmed_cargo_pose_authority := ti_cargo_pose_authority i,
                          tf_confirmed_obstacle_pose_authority := ti_obstacle_pose_authority i\<rparr>
              in (s2, (currentDecision
                         (if is_hazard i then ''hazard_spatiotemporally_confirmed''
                          else ''clear_temporally_confirmed'') s2)
                        \<lparr>td_pending := False, td_newly_confirmed := changed,
                         td_use_current_evidence := True\<rparr>)
         else (s1, pendingDecision
                     (if pending_reason = []
                      then (if is_hazard i then ''hazard_spatiotemporal_confirmation_pending''
                            else ''clear_confirmation_pending'')
                      else pending_reason) s1))"

definition temporal_drop_candidate :: "CargoSafetyTemporalFilter \<Rightarrow> CargoSafetyTemporalFilter" where
  "temporal_drop_candidate s = s\<lparr>tf_candidate_valid := False, tf_candidate_count := 0\<rparr>"

definition temporal_update ::
  "(CargoSafetyTemporalFilter, CargoSafetyTemporalInput, CargoSafetyTemporalDecision) machine" where
  "temporal_update s i =
     (if \<not> cv_valid (tf_config_validation s) \<or> \<not> ti_raw_valid i \<or> \<not> isfinite (ti_stamp_sec i) \<or>
         ti_stamp_sec i \<le> Fin 0 \<or> \<not> isProtocolCode (ti_raw_code i)
      then let s1 = temporal_drop_candidate s in (s1, pendingDecision ''invalid_raw_evidence'' s1)
      else if \<not> te_valid (ti_cargo_pose_authority i) \<or> \<not> te_valid (ti_obstacle_pose_authority i) \<or>
              \<not> sameTemporalEvidenceAuthority (ti_cargo_pose_authority i) (ti_obstacle_pose_authority i)
      then let s1 = (temporal_drop_candidate s)\<lparr>tf_confirmed_valid := False\<rparr>
           in (s1, pendingDecision ''pose_authority_mismatch'' s1)
      else
        let rollback = (tf_has_source_stamp s \<and>
                        ti_stamp_sec i + kStampEpsilonSec < tf_last_source_stamp_sec s);
            repeated = (tf_has_source_stamp s \<and>
                        ti_stamp_sec i \<le> tf_last_source_stamp_sec s + kStampEpsilonSec)
        in if \<not> rollback \<and> repeated
           then (s, pendingDecision ''repeated_source_stamp_ignored'' s)
           else
             let s1 = (if rollback then temporal_reset s else s);
                 s2 = s1\<lparr>tf_has_source_stamp := True, tf_last_source_stamp_sec := ti_stamp_sec i\<rparr>
             in if is_hazard i \<and> \<not> robust_hazard (tf_config s2) i
                then let s3 = temporal_drop_candidate s2
                     in (s3, pendingDecision ''hazard_cluster_too_sparse'' s3)
                else temporal_confirm s2 i)"

section \<open>Evidence chains\<close>

text \<open>
  What backs a published code. \<open>usable c i\<close> is the evidence quality one input must have on its
  own; \<open>linked c new old\<close> is the continuity between two successive pieces of evidence; a chain
  lists the evidence newest first.
\<close>

definition usable :: "CargoSafetyTemporalConfig \<Rightarrow> CargoSafetyTemporalInput \<Rightarrow> bool" where
  "usable c i \<longleftrightarrow> ti_raw_valid i \<and> isfinite (ti_stamp_sec i) \<and> isProtocolCode (ti_raw_code i) \<and>
     sameTemporalEvidenceAuthority (ti_cargo_pose_authority i) (ti_obstacle_pose_authority i) \<and>
     (is_hazard i \<longrightarrow> robust_hazard c i)"

definition linked ::
  "CargoSafetyTemporalConfig \<Rightarrow> CargoSafetyTemporalInput \<Rightarrow> CargoSafetyTemporalInput \<Rightarrow> bool" where
  "linked c new old \<longleftrightarrow> ti_raw_code new = ti_raw_code old \<and>
     te_pose_identity (ti_cargo_pose_authority new) = te_pose_identity (ti_cargo_pose_authority old) \<and>
     ti_stamp_sec old + kStampEpsilonSec < ti_stamp_sec new \<and>
     ti_stamp_sec new - ti_stamp_sec old \<le> tc_maximum_evidence_gap_sec c + kStampEpsilonSec \<and>
     (is_hazard new \<longrightarrow>
        vec3_norm (vec3_sub (ti_cluster_centroid new) (ti_cluster_centroid old))
          \<le> tc_maximum_centroid_step_m c \<and>
        \<bar>ti_footprint_distance_m new - ti_footprint_distance_m old\<bar> \<le> tc_maximum_distance_step_m c \<and>
        \<bar>ti_conservative_clearance_m new - ti_conservative_clearance_m old\<bar>
          \<le> tc_maximum_clearance_step_m c)"

fun evidence_chain :: "CargoSafetyTemporalConfig \<Rightarrow> CargoSafetyTemporalInput list \<Rightarrow> bool" where
  "evidence_chain c [] = True"
| "evidence_chain c [i] = usable c i"
| "evidence_chain c (i # j # r) = (usable c i \<and> linked c i j \<and> evidence_chain c (j # r))"

text \<open>The candidate window of a state is the newest element of a chain.\<close>

definition window_is :: "CargoSafetyTemporalFilter \<Rightarrow> CargoSafetyTemporalInput \<Rightarrow> bool" where
  "window_is s i \<longleftrightarrow>
     tf_candidate_code s = ti_raw_code i \<and> tf_candidate_stamp_sec s = ti_stamp_sec i \<and>
     tf_last_source_stamp_sec s = ti_stamp_sec i \<and> tf_has_source_stamp s \<and>
     tf_candidate_cargo_pose_authority s = ti_cargo_pose_authority i \<and>
     tf_candidate_obstacle_pose_authority s = ti_obstacle_pose_authority i \<and>
     (is_hazard i \<longrightarrow> tf_candidate_centroid s = ti_cluster_centroid i \<and>
        tf_candidate_distance_m s = ti_footprint_distance_m i \<and>
        tf_candidate_clearance_m s = ti_conservative_clearance_m i)"

text \<open>The run invariant: a valid candidate is backed by a chain, as long as its counter, of inputs
  that were all processed.\<close>

definition backed_by ::
  "CargoSafetyTemporalFilter \<Rightarrow> CargoSafetyTemporalInput \<Rightarrow> CargoSafetyTemporalInput list \<Rightarrow> bool" where
  "backed_by s i is \<longleftrightarrow>
     (\<exists>r. int (length (i # r)) = tf_candidate_count s \<and> window_is s i \<and>
          evidence_chain (tf_config s) (i # r) \<and> subseq (rev (i # r)) is)"

definition backed :: "CargoSafetyTemporalFilter \<Rightarrow> CargoSafetyTemporalInput list \<Rightarrow> bool" where
  "backed s is \<longleftrightarrow>
     (if tf_candidate_valid s then \<exists>i. backed_by s i is else tf_candidate_count s = 0)"

section \<open>Lemmas\<close>

lemma reset_simps [simp]:
  "tf_config (temporal_reset s) = tf_config s"
  "tf_config_validation (temporal_reset s) = tf_config_validation s"
  "tf_candidate_valid (temporal_reset s) = False"
  "tf_candidate_count (temporal_reset s) = 0"
  by (simp_all add: temporal_reset_def)

lemma drop_simps [simp]:
  "tf_config (temporal_drop_candidate s) = tf_config s"
  "tf_config_validation (temporal_drop_candidate s) = tf_config_validation s"
  "tf_candidate_valid (temporal_drop_candidate s) = False"
  "tf_candidate_count (temporal_drop_candidate s) = 0"
  by (simp_all add: temporal_drop_candidate_def)

lemma candidate_simps [simp]:
  "tf_config (temporal_candidate s i) = tf_config s"
  "tf_config_validation (temporal_candidate s i) = tf_config_validation s"
  "tf_candidate_count (temporal_candidate s i) =
     (if continuous_evidence s i then tf_candidate_count s + 1 else 1)"
  by (simp_all add: temporal_candidate_def Let_def)

lemma confirm_config [simp]:
  "tf_config (fst (temporal_confirm s i)) = tf_config s"
  "tf_config_validation (fst (temporal_confirm s i)) = tf_config_validation s"
  "tf_candidate_count (fst (temporal_confirm s i)) = tf_candidate_count (temporal_candidate s i)"
  by (simp_all add: temporal_confirm_def Let_def)

lemma update_config [simp]:
  "tf_config (fst (temporal_update s i)) = tf_config s"
  "tf_config_validation (fst (temporal_update s i)) = tf_config_validation s"
  by (simp_all add: temporal_update_def Let_def)

lemma pending_not_stable [simp]: "\<not> td_stable (pendingDecision r s)" "td_code (pendingDecision r s) = 0"
  by (simp_all add: pendingDecision_def)

lemma confirm_stable_iff:
  "td_stable (snd (temporal_confirm s i)) \<longleftrightarrow>
   required_frames (tf_config s) i \<le> tf_candidate_count (temporal_candidate s i)"
  by (simp add: temporal_confirm_def Let_def currentDecision_def)

lemma confirm_current:
  "td_use_current_evidence (snd (temporal_confirm s i)) \<longleftrightarrow>
   required_frames (tf_config s) i \<le> tf_candidate_count (temporal_candidate s i)"
  by (simp add: temporal_confirm_def Let_def pendingDecision_def)

lemma confirm_code:
  "td_code (snd (temporal_confirm s i)) =
     (if td_stable (snd (temporal_confirm s i)) then ti_raw_code i else 0)"
  by (simp add: temporal_confirm_def Let_def currentDecision_def)

text \<open>An update either leaves no candidate, or is a repeated stamp, or goes through the confirmation
  of a usable input on a state that differs from the old one in the source stamp only.\<close>

lemma update_cases:
  obtains (dropped) "\<not> tf_candidate_valid (fst (temporal_update s i))"
      "tf_candidate_count (fst (temporal_update s i)) = 0" "\<not> td_stable (snd (temporal_update s i))"
      "td_code (snd (temporal_update s i)) = 0"
    | (ignored) "fst (temporal_update s i) = s" "\<not> td_stable (snd (temporal_update s i))"
      "td_code (snd (temporal_update s i)) = 0"
    | (confirmed) s1 where "temporal_update s i =
          temporal_confirm (s1\<lparr>tf_has_source_stamp := True, tf_last_source_stamp_sec := ti_stamp_sec i\<rparr>) i"
        "usable (tf_config s) i"
        "s1 = temporal_reset s \<or>
         s1 = s \<and> (tf_has_source_stamp s \<longrightarrow>
           \<not> ti_stamp_sec i \<le> tf_last_source_stamp_sec s + kStampEpsilonSec)"
        "tf_config s1 = tf_config s"
proof -
  let ?rollback = "tf_has_source_stamp s \<and> ti_stamp_sec i + kStampEpsilonSec < tf_last_source_stamp_sec s"
  let ?s1 = "if ?rollback then temporal_reset s else s"
  let ?sparse = "is_hazard i \<and> \<not> robust_hazard (tf_config s) i"
  let ?invalid = "\<not> cv_valid (tf_config_validation s) \<or> \<not> ti_raw_valid i \<or> \<not> isfinite (ti_stamp_sec i) \<or>
         ti_stamp_sec i \<le> Fin 0 \<or> \<not> isProtocolCode (ti_raw_code i)"
  let ?mismatch = "\<not> te_valid (ti_cargo_pose_authority i) \<or> \<not> te_valid (ti_obstacle_pose_authority i) \<or>
         \<not> sameTemporalEvidenceAuthority (ti_cargo_pose_authority i) (ti_obstacle_pose_authority i)"
  consider ?invalid | "\<not> ?invalid" ?mismatch | "\<not> ?invalid" "\<not> ?mismatch" by blast
  then show thesis
  proof cases
    case 1
    then show thesis by (intro dropped) (simp_all only: temporal_update_def Let_def if_True, simp_all)
  next
    case 2
    then show thesis
      by (intro dropped) (simp_all only: temporal_update_def Let_def if_True if_False, simp_all)
  next
    case ok: 3
    consider "\<not> ?rollback" "tf_has_source_stamp s" "ti_stamp_sec i \<le> tf_last_source_stamp_sec s + kStampEpsilonSec"
      | "?rollback \<or> \<not> (tf_has_source_stamp s \<and> ti_stamp_sec i \<le> tf_last_source_stamp_sec s + kStampEpsilonSec)" ?sparse
      | "?rollback \<or> \<not> (tf_has_source_stamp s \<and> ti_stamp_sec i \<le> tf_last_source_stamp_sec s + kStampEpsilonSec)" "\<not> ?sparse"
      by blast
    then show thesis
    proof cases
      case 1
      with ok show thesis by (intro ignored) (simp_all add: temporal_update_def Let_def)
    next
      case 2
      with ok show thesis by (intro dropped) (auto simp: temporal_update_def Let_def)
    next
      case 3
      with ok show thesis
        by (intro confirmed [of ?s1]) (auto simp: temporal_update_def Let_def usable_def)
    qed
  qed
qed


lemma confirm_window:
  assumes "tf_has_source_stamp s" and "tf_last_source_stamp_sec s = ti_stamp_sec i"
  shows "tf_candidate_valid (fst (temporal_confirm s i))"
    and "window_is (fst (temporal_confirm s i)) i"
  using assms
  by (auto simp: temporal_confirm_def temporal_candidate_def window_is_def Let_def
      continuous_evidence_def gap_continuous_def same_candidate_def)

lemma continuous_linked:
  assumes cont: "continuous_evidence s i" and win: "window_is s j" and usable: "usable (tf_config s) i"
    and j: "usable (tf_config s) j"
    and fresh: "\<not> ti_stamp_sec i \<le> tf_last_source_stamp_sec s + kStampEpsilonSec"
  shows "linked (tf_config s) i j"
proof -
  have gap: "gap_continuous s i" and spatial: "is_hazard i \<longrightarrow> spatial_step_ok s i"
    using cont by (auto simp: continuous_evidence_def spatially_continuous_def)
  have code: "ti_raw_code i = ti_raw_code j"
    using gap win by (simp add: gap_continuous_def same_candidate_def window_is_def)
  then have haz: "is_hazard j = is_hazard i" by (simp add: is_hazard_def)
  have "ti_stamp_sec j + kStampEpsilonSec < ti_stamp_sec i"
    using fresh usable j win by (auto simp: window_is_def usable_def isfinite_iff kStampEpsilonSec_def)
  moreover have "te_pose_identity (ti_cargo_pose_authority i) = te_pose_identity (ti_cargo_pose_authority j)"
    using gap win
    by (simp add: gap_continuous_def same_candidate_def window_is_def sameTemporalEvidenceAuthority_iff)
  moreover have "ti_stamp_sec i - ti_stamp_sec j \<le> tc_maximum_evidence_gap_sec (tf_config s) + kStampEpsilonSec"
    using gap win by (simp add: gap_continuous_def window_is_def)
  ultimately show ?thesis
    using code haz spatial win by (simp add: linked_def spatial_step_ok_def window_is_def)
qed

lemma chain_head_usable: "evidence_chain c (i # r) \<Longrightarrow> usable c i"
  by (cases r) auto

lemma backed_not_valid: "\<not> tf_candidate_valid s \<Longrightarrow> backed s is \<longleftrightarrow> tf_candidate_count s = 0"
  by (simp add: backed_def)

lemma backed_byI:
  assumes "int (length (i # r)) = tf_candidate_count s" and "window_is s i"
    and "evidence_chain (tf_config s) (i # r)" and "subseq (rev (i # r)) is"
  shows "backed_by s i is"
  using assms unfolding backed_by_def by auto

lemma subseq_snoc:
  "subseq xs ys \<Longrightarrow> subseq (xs @ [y]) (ys @ [y])"
  "subseq xs ys \<Longrightarrow> subseq xs (ys @ [y])"
  using list_emb_append_mono [of "(=)" xs ys "[]" "[y]"] by simp_all

lemma backed_append: "backed s is \<Longrightarrow> backed s (is @ [i])"
  unfolding backed_def backed_by_def by (auto intro: subseq_snoc split: if_splits)

lemma confirm_backed_by:
  assumes backed: "backed s is"
    and update: "temporal_update s i =
        temporal_confirm (s1\<lparr>tf_has_source_stamp := True, tf_last_source_stamp_sec := ti_stamp_sec i\<rparr>) i"
    and usable: "usable (tf_config s) i"
    and s1: "s1 = temporal_reset s \<or>
         s1 = s \<and> (tf_has_source_stamp s \<longrightarrow>
           \<not> ti_stamp_sec i \<le> tf_last_source_stamp_sec s + kStampEpsilonSec)"
  shows "backed_by (fst (temporal_update s i)) i (is @ [i])"
proof -
  let ?s = "s1\<lparr>tf_has_source_stamp := True, tf_last_source_stamp_sec := ti_stamp_sec i\<rparr>"
  let ?t = "fst (temporal_update s i)"
  have win: "window_is ?t i" using confirm_window [of ?s i] update by simp
  have count: "tf_candidate_count ?t = (if continuous_evidence ?s i then tf_candidate_count s1 + 1 else 1)"
    using update by simp
  show ?thesis
  proof (cases "continuous_evidence ?s i")
    case False
    then show ?thesis
      using win count usable by (intro backed_byI [where r = "[]"]) (simp_all add: subseq_singleton_left)
  next
    case True
    then have cv: "tf_candidate_valid s1"
      by (auto simp: continuous_evidence_def gap_continuous_def same_candidate_def)
    then have s1: "s1 = s" and fresh: "tf_has_source_stamp s \<longrightarrow>
        \<not> ti_stamp_sec i \<le> tf_last_source_stamp_sec s + kStampEpsilonSec"
      using s1 by auto
    obtain j r where j: "int (length (j # r)) = tf_candidate_count s" "window_is s j"
      "evidence_chain (tf_config s) (j # r)" "subseq (rev (j # r)) is"
      using backed cv s1 unfolding backed_def backed_by_def by auto
    have "continuous_evidence s i"
      using True s1
      by (simp add: continuous_evidence_def gap_continuous_def same_candidate_def
          spatially_continuous_def spatial_step_ok_def)
    then have "linked (tf_config s) i j"
      using j fresh usable chain_head_usable [OF j(3)]
      by (intro continuous_linked) (auto simp: window_is_def)
    then show ?thesis
      using win count True s1 j usable
      by (intro backed_byI [where r = "j # r"]) (auto simp: subseq_snoc(1) [of "rev r @ [j]", simplified])
  qed
qed

lemma backed_step:
  assumes backed: "backed s is"
  shows "backed (fst (temporal_update s i)) (is @ [i])"
proof (cases rule: update_cases [of s i])
  case dropped
  then show ?thesis by (simp add: backed_def)
next
  case ignored
  then show ?thesis using backed by (simp add: backed_append)
next
  case (confirmed s1)
  then show ?thesis
    using confirm_backed_by [OF backed confirmed(1-3)] confirm_window(1)
    unfolding backed_def by auto
qed

lemma stable_backed:
  assumes "backed s is" and stable: "td_stable (snd (temporal_update s i))"
  shows "backed_by (fst (temporal_update s i)) i (is @ [i]) \<and>
         required_frames (tf_config s) i \<le> tf_candidate_count (fst (temporal_update s i))"
proof (cases rule: update_cases [of s i])
  case (confirmed s1)
  then show ?thesis
    using confirm_backed_by [OF assms(1) confirmed(1-3)] stable by (simp add: confirm_stable_iff)
qed (use stable in auto)

lemma init_backed: "backed (temporal_init c) []"
  by (simp add: backed_def temporal_init_def temporal_setConfig_def)

lemma run_backed: "backed (run_state temporal_update (temporal_init c) is) is"
proof (induction "is" rule: rev_induct)
  case Nil
  then show ?case by (simp add: init_backed)
next
  case (snoc i "is")
  then show ?case using backed_step by (simp add: run_state_append)
qed

lemma run_config [simp]: "tf_config (run_state temporal_update s is) = tf_config s"
  by (induction "is" arbitrary: s) auto

lemma init_config [simp]:
  "tf_config (temporal_init c) = c"
  "tf_config_validation (temporal_init c) = validateCargoSafetyTemporalConfig c"
  "tf_candidate_count (temporal_init c) = 0"
  by (simp_all add: temporal_init_def temporal_setConfig_def temporal_reset_def)

lemma update_code:
  "td_code (snd (temporal_update s i)) =
     (if td_stable (snd (temporal_update s i)) then ti_raw_code i else 0)"
  by (cases rule: update_cases [of s i])
    (simp_all add: confirm_code)

lemma count_nonneg: "0 \<le> tf_candidate_count s \<Longrightarrow>
  0 \<le> tf_candidate_count (fst (temporal_update s i)) \<and>
  tf_candidate_count (fst (temporal_update s i)) \<le> tf_candidate_count s + 1"
  by (cases rule: update_cases [of s i]) auto

lemma update_stable_needs:
  "td_stable (snd (temporal_update s i)) \<Longrightarrow>
   required_frames (tf_config s) i \<le> tf_candidate_count (fst (temporal_update s i)) \<and>
   cv_valid (tf_config_validation s)"
proof (cases rule: update_cases [of s i])
  case (confirmed s1)
  moreover assume "td_stable (snd (temporal_update s i))"
  moreover from this have "cv_valid (tf_config_validation s)"
    by (rule contrapos_pp) (simp add: temporal_update_def Let_def)
  ultimately show ?thesis by (simp add: confirm_stable_iff)
qed auto

interpretation hazard: confirmation_machine temporal_update "\<lambda>s. 0 \<le> tf_candidate_count s"
  tf_candidate_count "\<lambda>s. tc_hazard_confirm_frames (tf_config s)" "\<lambda>d. td_stable d \<and> td_code d \<in> {17, 18}"
proof
  fix s i
  assume "td_stable (snd (temporal_update s i)) \<and> td_code (snd (temporal_update s i)) \<in> {17, 18}"
  then show "tc_hazard_confirm_frames (tf_config s) \<le> tf_candidate_count (fst (temporal_update s i))"
    using update_stable_needs [of s i] update_code [of s i]
    by (auto simp: required_frames_def is_hazard_def split: if_splits)
qed (use count_nonneg in auto)

interpretation clear: confirmation_machine temporal_update "\<lambda>s. 0 \<le> tf_candidate_count s"
  tf_candidate_count "\<lambda>s. tc_clear_confirm_frames (tf_config s)" "\<lambda>d. td_stable d \<and> td_code d = 14"
proof
  fix s i
  assume "td_stable (snd (temporal_update s i)) \<and> td_code (snd (temporal_update s i)) = 14"
  then show "tc_clear_confirm_frames (tf_config s) \<le> tf_candidate_count (fst (temporal_update s i))"
    using update_stable_needs [of s i] update_code [of s i]
    by (auto simp: required_frames_def is_hazard_def split: if_splits)
qed (use count_nonneg in auto)

lemma check_positive_valid [simp]:
  "cv_valid (check_positive f v r) \<longleftrightarrow> cv_valid r \<and> isfinite v \<and> \<not> v \<le> Fin 0"
  by (simp add: check_positive_def)

lemma temporal_config_valid_iff:
  "cv_valid (validateCargoSafetyTemporalConfig c) \<longleftrightarrow>
     2 \<le> tc_hazard_confirm_frames c \<and> 2 \<le> tc_clear_confirm_frames c \<and>
     0 < tc_minimum_hazard_cluster_points c \<and>
     (\<forall>v \<in> {tc_maximum_evidence_gap_sec c, tc_maximum_centroid_step_m c,
             tc_maximum_distance_step_m c, tc_maximum_clearance_step_m c}. isfinite v \<and> \<not> v \<le> Fin 0)"
  by (auto simp: validateCargoSafetyTemporalConfig_def Let_def)

text \<open>Feeding an evidence chain extends the window by one per input.\<close>

lemma linked_continuous:
  assumes "linked (tf_config s) i j" and "window_is s j" and "tf_candidate_valid s"
    and "usable (tf_config s) i" and "usable (tf_config s) j"
  shows "continuous_evidence (s\<lparr>tf_has_source_stamp := True, tf_last_source_stamp_sec := ti_stamp_sec i\<rparr>) i"
  using assms
  by (simp add: continuous_evidence_def gap_continuous_def same_candidate_def window_is_def linked_def
      spatially_continuous_def spatial_step_ok_def usable_def sameTemporalEvidenceAuthority_iff is_hazard_def)

lemma usable_update:
  assumes "usable (tf_config s) i" and "cv_valid (tf_config_validation s)" and "\<not> ti_stamp_sec i \<le> Fin 0"
    and "tf_has_source_stamp s \<longrightarrow> tf_last_source_stamp_sec s + kStampEpsilonSec < ti_stamp_sec i"
    and "isfinite (tf_last_source_stamp_sec s)"
  shows "temporal_update s i =
    temporal_confirm (s\<lparr>tf_has_source_stamp := True, tf_last_source_stamp_sec := ti_stamp_sec i\<rparr>) i"
proof -
  have "tf_has_source_stamp s \<longrightarrow> \<not> ti_stamp_sec i + kStampEpsilonSec < tf_last_source_stamp_sec s \<and>
      \<not> ti_stamp_sec i \<le> tf_last_source_stamp_sec s + kStampEpsilonSec"
    using assms(1,4,5) by (auto simp: usable_def isfinite_iff kStampEpsilonSec_def)
  then show ?thesis
    using assms(1-3)
    by (auto simp: temporal_update_def Let_def usable_def sameTemporalEvidenceAuthority_iff)
qed

lemma run_chain:
  assumes "cv_valid (validateCargoSafetyTemporalConfig c)"
  shows "evidence_chain c (i # r) \<Longrightarrow> (\<And>j. j \<in> set (i # r) \<Longrightarrow> \<not> ti_stamp_sec j \<le> Fin 0) \<Longrightarrow>
    (let s = run_state temporal_update (temporal_init c) (rev (i # r))
     in tf_candidate_valid s \<and> window_is s i \<and> tf_candidate_count s = int (length (i # r)) \<and>
        tf_config s = c \<and> tf_config_validation s = validateCargoSafetyTemporalConfig c \<and>
        (required_frames c i \<le> int (length (i # r)) \<longrightarrow>
           (let d = last (run_outputs temporal_update (temporal_init c) (rev (i # r)))
            in td_stable d \<and> td_use_current_evidence d)))"
proof (induction r arbitrary: i)
  case Nil
  let ?s = "temporal_init c"
  have "temporal_update ?s i =
      temporal_confirm (?s\<lparr>tf_has_source_stamp := True, tf_last_source_stamp_sec := ti_stamp_sec i\<rparr>) i"
    using Nil assms by (intro usable_update) (auto simp: temporal_init_def temporal_setConfig_def temporal_reset_def)
  moreover have "\<not> continuous_evidence (?s\<lparr>tf_has_source_stamp := True, tf_last_source_stamp_sec := ti_stamp_sec i\<rparr>) i"
    by (simp add: continuous_evidence_def gap_continuous_def same_candidate_def temporal_init_def
        temporal_setConfig_def temporal_reset_def)
  ultimately show ?case by (simp add: confirm_window confirm_stable_iff confirm_current)
next
  case (Cons j r)
  let ?s = "run_state temporal_update (temporal_init c) (rev (j # r))"
  have IH: "tf_candidate_valid ?s" "window_is ?s j" "tf_candidate_count ?s = int (length (j # r))"
    "tf_config ?s = c" "tf_config_validation ?s = validateCargoSafetyTemporalConfig c"
    using Cons.IH [of j] Cons.prems by (auto simp: Let_def)
  have u: "usable c i" "usable c j" "linked c i j"
    using Cons.prems(1) chain_head_usable [of c j r] by auto
  have "temporal_update ?s i =
      temporal_confirm (?s\<lparr>tf_has_source_stamp := True, tf_last_source_stamp_sec := ti_stamp_sec i\<rparr>) i"
    using IH u Cons.prems(2) [of i] assms
    by (intro usable_update) (simp_all add: window_is_def linked_def usable_def)
  moreover have "continuous_evidence (?s\<lparr>tf_has_source_stamp := True, tf_last_source_stamp_sec := ti_stamp_sec i\<rparr>) i"
    using IH u by (intro linked_continuous [where j = j]) simp_all
  ultimately show ?case
    using IH by (simp add: run_state_append run_outputs_append confirm_window confirm_stable_iff
        confirm_current)
qed

section \<open>Properties\<close>

text \<open>C3. No stale or unsupported alarm: whatever inputs the filter receives, the code of the k-th
  decision is 0 or the raw code of the k-th input, and a stable decision is backed by a chain of
  at least the required number of processed inputs, ending with the current one: each usable on its
  own, all of the same code and pose authority, strictly increasing in source time, within the
  configured evidence gap and (for 17/18) within the configured spatial steps of each other.\<close>

theorem temporal_stable_backed:
  assumes "k < length is"
  shows "let d = run_outputs temporal_update (temporal_init c) is ! k
         in td_code d = (if td_stable d then ti_raw_code (is ! k) else 0) \<and>
            (td_stable d \<longrightarrow>
              (\<exists>r. required_frames c (is ! k) \<le> int (length (is ! k # r)) \<and>
                   evidence_chain c (is ! k # r) \<and> subseq (rev (is ! k # r)) (take (Suc k) is)))"
proof -
  let ?s = "run_state temporal_update (temporal_init c) (take k is)"
  have d: "run_outputs temporal_update (temporal_init c) is ! k = snd (temporal_update ?s (is ! k))"
    using assms by (rule run_outputs_nth)
  have backed: "backed ?s (take k is)" by (rule run_backed)
  have "\<exists>r. required_frames c (is ! k) \<le> int (length (is ! k # r)) \<and>
          evidence_chain c (is ! k # r) \<and> subseq (rev (is ! k # r)) (take (Suc k) is)"
    if "td_stable (snd (temporal_update ?s (is ! k)))"
  proof -
    from stable_backed [OF backed that] obtain r
      where "int (length (is ! k # r)) = tf_candidate_count (fst (temporal_update ?s (is ! k)))"
        and "evidence_chain c (is ! k # r)" and "subseq (rev (is ! k # r)) (take (Suc k) is)"
        and "required_frames c (is ! k) \<le> tf_candidate_count (fst (temporal_update ?s (is ! k)))"
      using assms by (auto simp: backed_by_def take_Suc_conv_app_nth)
    then show ?thesis by (intro exI [of _ r]) simp
  qed
  then show ?thesis using d update_code by (simp add: Let_def)
qed

definition demo_authority :: TemporalEvidenceAuthority where
  "demo_authority = bindTemporalEvidenceAuthority default_PoseAuthorityIdentity (Fin 1)"

definition demo_hazard :: "real \<Rightarrow> CargoSafetyTemporalInput" where
  "demo_hazard t =
     \<lparr>ti_stamp_sec = Fin t, ti_raw_valid = True, ti_raw_code = 18, ti_cluster_points = 30,
      ti_cluster_centroid = vec3_zero, ti_footprint_distance_m = Fin 1,
      ti_conservative_clearance_m = Fin 0, ti_cargo_pose_authority = demo_authority,
      ti_obstacle_pose_authority = demo_authority\<rparr>"

theorem temporal_stable_backed_witness:
  "let c = default_CargoSafetyTemporalConfig; is = map demo_hazard [1, 1.2, 1.4];
       d = run_outputs temporal_update (temporal_init c) is ! 2
   in td_code d = (if td_stable d then ti_raw_code (is ! 2) else 0)"
  using temporal_stable_backed [of 2 "map demo_hazard [1, 1.2, 1.4]" default_CargoSafetyTemporalConfig]
  by (simp add: Let_def)

text \<open>C35. The alarm does come: under a valid configuration, a run of inputs with positive stamps that
  forms an evidence chain of the required length ends in a stable decision with that code.\<close>

theorem temporal_chain_confirms:
  assumes "cv_valid (validateCargoSafetyTemporalConfig c)"
    and "evidence_chain c (i # r)" and "\<forall>j \<in> set (i # r). Fin 0 < ti_stamp_sec j"
    and "required_frames c i \<le> int (length (i # r))"
  shows "let d = last (run_outputs temporal_update (temporal_init c) (rev (i # r)))
         in td_stable d \<and> td_code d = ti_raw_code i \<and> td_use_current_evidence d"
proof -
  have pos: "\<And>j. j \<in> set (i # r) \<Longrightarrow> \<not> ti_stamp_sec j \<le> Fin 0"
    using assms(3) dbl_less_imp_not_le by blast
  let ?s = "run_state temporal_update (temporal_init c) (rev r)"
  have last: "last (run_outputs temporal_update (temporal_init c) (rev (i # r))) = snd (temporal_update ?s i)"
    by (simp add: run_outputs_append)
  then show ?thesis
    using run_chain [OF assms(1,2) pos] assms(4) by (simp add: Let_def update_code)
qed

lemma demo_chain: "evidence_chain default_CargoSafetyTemporalConfig (map demo_hazard [1.4, 1.2, 1])"
  by (simp add: usable_def linked_def demo_hazard_def isProtocolCode_def is_hazard_def robust_hazard_def
      default_CargoSafetyTemporalConfig_def demo_authority_def bindTemporalEvidenceAuthority_def
      sameTemporalEvidenceAuthority_iff kStampEpsilonSec_def cpp_simps)

theorem temporal_chain_confirms_witness:
  "let d = last (run_outputs temporal_update (temporal_init default_CargoSafetyTemporalConfig)
        (rev (map demo_hazard [1.4, 1.2, 1])))
   in td_stable d \<and> td_code d = 18 \<and> td_use_current_evidence d"
  using temporal_chain_confirms [of default_CargoSafetyTemporalConfig "demo_hazard 1.4" "map demo_hazard [1.2, 1]"]
    demo_chain
  by (simp add: temporal_config_valid_iff default_CargoSafetyTemporalConfig_def demo_hazard_def
      required_frames_def is_hazard_def)

text \<open>One frame never raises or clears an alarm: whatever the configuration, valid or not, the
  first decision after start-up is not stable, because a configuration that allows fewer than two
  confirmation frames is rejected and a rejected configuration publishes nothing.\<close>

theorem temporal_single_frame_silent:
  "\<not> td_stable (snd (temporal_update (temporal_init c) i)) \<and>
   td_code (snd (temporal_update (temporal_init c) i)) = 0"
proof -
  have "\<not> td_stable (snd (temporal_update (temporal_init c) i))"
  proof
    assume st: "td_stable (snd (temporal_update (temporal_init c) i))"
    then have "ti_raw_code i \<in> {14, 17, 18}"
      by (cases rule: update_cases [of "temporal_init c" i]) (auto simp: usable_def isProtocolCode_def)
    then have "tc_hazard_confirm_frames c \<le> 1 \<or> tc_clear_confirm_frames c \<le> 1"
      using hazard.positive_needs_frames [of "temporal_init c" 0 "[i]"] st
        clear.positive_needs_frames [of "temporal_init c" 0 "[i]"] update_code [of "temporal_init c" i]
      by auto
    moreover have "cv_valid (validateCargoSafetyTemporalConfig c)"
      using update_stable_needs [OF st] by simp
    ultimately show False by (auto simp: temporal_config_valid_iff)
  qed
  then show ?thesis by (simp add: update_code)
qed

end
