(* ===== verification/Rigid_Geometry.thy ===== *)
theory Rigid_Geometry
  imports Ndt_Prelude
begin

text \<open>
  The rigid cargo box (\<^verbatim>\<open>cargo_rigid_geometry.cpp\<close>): the locked shape with its live pose, the oriented
  footprint and the point tests on it, the rate-limited pose filter, the propagation of a held pose and the formal use of
  a geometry that is no longer observed. A map transform is the record \<open>isometry3\<close> of the rows of its
  rotation and its translation. Of \<^verbatim>\<open>CargoBottomResult\<close> the fields these functions read are modelled.
\<close>

section \<open>Data\<close>

record LockedCargoShape =
  lk_valid :: bool
  lk_length_m :: dbl
  lk_width_m :: dbl
  lk_height_m :: dbl
  lk_yaw_base_rad :: dbl
  lk_orientation_confidence :: dbl

datatype CargoPoseSource =
  CURRENT_ASSOCIATED_LIDAR
| HOOK_OR_CONTROLLER
| MOTION_PREDICTION
| RECENT_STABLE_HOLD
| STATIC_INSTALLATION_FALLBACK

fun cargoPoseSourceName :: "CargoPoseSource \<Rightarrow> string" where
  "cargoPoseSourceName CURRENT_ASSOCIATED_LIDAR = ''CURRENT_ASSOCIATED_LIDAR''"
| "cargoPoseSourceName HOOK_OR_CONTROLLER = ''HOOK_OR_CONTROLLER''"
| "cargoPoseSourceName MOTION_PREDICTION = ''MOTION_PREDICTION''"
| "cargoPoseSourceName RECENT_STABLE_HOLD = ''RECENT_STABLE_HOLD''"
| "cargoPoseSourceName STATIC_INSTALLATION_FALLBACK = ''STATIC_INSTALLATION_FALLBACK''"

datatype CargoVerticalPoseSource =
  DIRECT_BOTTOM
| DIRECT_TOP
| LOCKED_OBB_POINT_SUPPORT
| PREDICTION
| DISPLAY_FROZEN
| PROVISIONAL_MEDIAN

fun cargoVerticalPoseSourceName :: "CargoVerticalPoseSource \<Rightarrow> string" where
  "cargoVerticalPoseSourceName DIRECT_BOTTOM = ''DIRECT_BOTTOM''"
| "cargoVerticalPoseSourceName DIRECT_TOP = ''SUPPORTED_TOP_MINUS_FROZEN_HEIGHT''"
| "cargoVerticalPoseSourceName LOCKED_OBB_POINT_SUPPORT = ''LOCKED_OBB_POINT_SUPPORT''"
| "cargoVerticalPoseSourceName PROVISIONAL_MEDIAN = ''FRESH_HELD_FORMAL''"
| "cargoVerticalPoseSourceName PREDICTION = ''PREDICTION''"
| "cargoVerticalPoseSourceName DISPLAY_FROZEN = ''DISPLAY_FROZEN''"

record LiveCargoPose =
  lp_valid :: bool
  lp_center_base :: vec3
  lp_evidence_stamp_sec :: dbl
  lp_evaluation_stamp_sec :: dbl
  lp_source :: CargoPoseSource
  lp_vertical_source :: CargoVerticalPoseSource
  lp_position_uncertainty_m :: dbl

definition default_LiveCargoPose :: LiveCargoPose where
  "default_LiveCargoPose =
     \<lparr>lp_valid = False, lp_center_base = vec3_zero, lp_evidence_stamp_sec = Fin 0, lp_evaluation_stamp_sec = Fin 0,
      lp_source = RECENT_STABLE_HOLD, lp_vertical_source = DISPLAY_FROZEN, lp_position_uncertainty_m = Fin 0\<rparr>"

record CargoLivePoseStepInput =
  li_previous_center :: vec3
  li_previous_velocity :: vec3
  li_measured_center :: vec3
  li_sensor_dt_sec :: dbl
  li_center_alpha :: dbl
  li_velocity_alpha :: dbl
  li_max_xy_speed_mps :: dbl
  li_max_z_speed_mps :: dbl
  li_step_margin_m :: dbl

record CargoLivePoseStepResult =
  lr_valid :: bool
  lr_predicted_center :: vec3
  lr_measurement_residual :: vec3
  lr_filtered_center :: vec3
  lr_tracking_residual :: vec3
  lr_filtered_velocity :: vec3

record CargoObbFootprint =
  fp_valid :: bool
  fp_center_base :: vec2
  fp_length_m :: dbl
  fp_width_m :: dbl
  fp_yaw_base_rad :: dbl
  fp_min_z :: dbl
  fp_max_z :: dbl

definition default_CargoObbFootprint :: CargoObbFootprint where
  "default_CargoObbFootprint =
     \<lparr>fp_valid = False, fp_center_base = vec2_zero, fp_length_m = Fin 0, fp_width_m = Fin 0, fp_yaw_base_rad = Fin 0,
      fp_min_z = Fin 0, fp_max_z = Fin 0\<rparr>"

record RigidCargoGeometry =
  rz_valid :: bool
  rz_track_id :: u64
  rz_shape :: LockedCargoShape
  rz_pose :: LiveCargoPose
  rz_bottom_z_base :: dbl
  rz_top_z_base :: dbl
  rz_corners_base :: "vec3 list"
  rz_corners_map :: "vec3 list"
  rz_aabb_min_base :: vec3
  rz_aabb_max_base :: vec3
  rz_aabb_min_map :: vec3
  rz_aabb_max_map :: vec3
  rz_horizontal_uncertainty_m :: dbl
  rz_vertical_uncertainty_m :: dbl
  rz_pose_evidence_stamp_sec :: dbl
  rz_height_evidence_stamp_sec :: dbl
  rz_evaluation_stamp_sec :: dbl
  rz_reason :: string

record CargoFormalUseDecision =
  fu_display_valid :: bool
  fu_formal_safety_valid :: bool
  fu_formal_removal_valid :: bool
  fu_pose_age_sec :: dbl
  fu_height_age_sec :: dbl
  fu_horizontal_uncertainty_m :: dbl
  fu_reason :: string

datatype CargoBottomSource =
  INVALID
| POINTS
| MAP_DIFF
| MAP_STATIC
| RECENT_STABLE
| ORIGIN_HEIGHT
| DIRECT_TOP_FROZEN_THICKNESS

text \<open>The fields of \<^verbatim>\<open>CargoBottomResult\<close> the formal height reads.\<close>

record CargoBottomResult =
  bo_valid :: bool
  bo_source :: CargoBottomSource
  bo_reason :: string
  bo_uncertainty :: dbl
  bo_confidence :: dbl

record CargoFormalHeightDecision =
  fh_valid :: bool
  fh_source :: CargoBottomSource
  fh_evidence_stamp_sec :: dbl
  fh_bottom_z_base :: dbl
  fh_top_z_base :: dbl
  fh_uncertainty_m :: dbl
  fh_confidence :: dbl
  fh_reason :: string

record isometry3 =
  iso_row0 :: vec3
  iso_row1 :: vec3
  iso_row2 :: vec3
  iso_translation :: vec3

section \<open>Vectors\<close>

definition vec3_dot :: "vec3 \<Rightarrow> vec3 \<Rightarrow> dbl" where
  [cpp_simps]: "vec3_dot a b = v3x a * v3x b + v3y a * v3y b + v3z a * v3z b"

definition iso_apply :: "isometry3 \<Rightarrow> vec3 \<Rightarrow> vec3" where
  "iso_apply T p =
     \<lparr>v3x = vec3_dot (iso_row0 T) p + v3x (iso_translation T), v3y = vec3_dot (iso_row1 T) p + v3y (iso_translation T),
      v3z = vec3_dot (iso_row2 T) p + v3z (iso_translation T)\<rparr>"

text \<open>Columns of the rotation; the entry of \<open>R\<^sup>T R\<close> is the product of two of them.\<close>

definition iso_column :: "(vec3 \<Rightarrow> dbl) \<Rightarrow> isometry3 \<Rightarrow> vec3" where
  "iso_column c T = \<lparr>v3x = c (iso_row0 T), v3y = c (iso_row1 T), v3z = c (iso_row2 T)\<rparr>"

definition iso_determinant :: "isometry3 \<Rightarrow> dbl" where
  "iso_determinant T =
     (let a = iso_row0 T; b = iso_row1 T; c = iso_row2 T
      in v3x a * (v3y b * v3z c - v3z b * v3y c) - v3y a * (v3x b * v3z c - v3z b * v3x c) +
         v3z a * (v3x b * v3y c - v3y b * v3x c))"

definition vec3_cwiseMin :: "vec3 \<Rightarrow> vec3 \<Rightarrow> vec3" where
  "vec3_cwiseMin a b = \<lparr>v3x = cpp_min (v3x a) (v3x b), v3y = cpp_min (v3y a) (v3y b), v3z = cpp_min (v3z a) (v3z b)\<rparr>"

definition vec3_cwiseMax :: "vec3 \<Rightarrow> vec3 \<Rightarrow> vec3" where
  "vec3_cwiseMax a b = \<lparr>v3x = cpp_max (v3x a) (v3x b), v3y = cpp_max (v3y a) (v3y b), v3z = cpp_max (v3z a) (v3z b)\<rparr>"

definition vec3_div :: "vec3 \<Rightarrow> dbl \<Rightarrow> vec3" where
  "vec3_div a k = \<lparr>v3x = v3x a / k, v3y = v3y a / k, v3z = v3z a / k\<rparr>"

section \<open>Validity\<close>

definition validShape :: "LockedCargoShape \<Rightarrow> bool" where
  "validShape s \<longleftrightarrow>
     lk_valid s \<and> isfinite (lk_length_m s) \<and> isfinite (lk_width_m s) \<and> isfinite (lk_height_m s) \<and>
     isfinite (lk_yaw_base_rad s) \<and> isfinite (lk_orientation_confidence s) \<and> lk_width_m s \<le> lk_length_m s \<and>
     Fin 0 < lk_width_m s \<and> Fin 0 < lk_height_m s \<and> Fin 0 \<le> lk_orientation_confidence s \<and>
     lk_orientation_confidence s \<le> Fin 1"

definition validTransform :: "isometry3 \<Rightarrow> bool" where
  "validTransform T \<longleftrightarrow>
     vec3_allFinite (iso_row0 T) \<and> vec3_allFinite (iso_row1 T) \<and> vec3_allFinite (iso_row2 T) \<and>
     vec3_allFinite (iso_translation T) \<and>
     list_all (\<lambda>e. \<bar>e\<bar> \<le> Fin 0.001)
       [vec3_dot (iso_column a T) (iso_column b T) - Fin (if i = j then 1 else 0).
          (i, a) \<leftarrow> [(0::nat, v3x), (1, v3y), (2, v3z)], (j, b) \<leftarrow> [(0::nat, v3x), (1, v3y), (2, v3z)]] \<and>
     \<bar>iso_determinant T - Fin 1\<bar> \<le> Fin 0.001"

section \<open>Axial yaw\<close>

text \<open>The two loops of \<^verbatim>\<open>normalizeCargoAxialYaw\<close> (\<^verbatim>\<open>cargo_oriented_footprint.cpp\<close>).\<close>

lemma floor_step: "1 \<le> z \<Longrightarrow> nat \<lfloor>z - 1\<rfloor> < nat \<lfloor>z :: real\<rfloor>"
  by simp

lemma axial_down_measure:
  assumes "pi / 2 \<le> (y :: real)"
  shows "nat \<lfloor>(y - pi) / pi + 1\<rfloor> < nat \<lfloor>y / pi + 1\<rfloor>"
proof -
  have "0 \<le> y" using assms pi_gt_zero by linarith
  then have "1 \<le> y / pi + 1" by simp
  moreover have "(y - pi) / pi + 1 = y / pi + 1 - 1" by (simp add: field_simps)
  ultimately show ?thesis using floor_step by metis
qed

lemma axial_up_measure:
  assumes "y < - (pi / 2 :: real)"
  shows "nat \<lfloor>1 - (y + pi) / pi\<rfloor> < nat \<lfloor>1 - y / pi\<rfloor>"
proof -
  have "y \<le> 0" using assms pi_gt_zero by linarith
  then have "1 \<le> 1 - y / pi" by (simp add: divide_nonpos_pos)
  moreover have "1 - (y + pi) / pi = 1 - y / pi - 1" by (simp add: field_simps)
  ultimately show ?thesis using floor_step by metis
qed

function axial_down :: "real \<Rightarrow> real" where
  "axial_down y = (if pi / 2 \<le> y then axial_down (y - pi) else y)"
  by auto
termination by (relation "measure (\<lambda>y. nat \<lfloor>y / pi + 1\<rfloor>)") (use axial_down_measure in auto)

function axial_up :: "real \<Rightarrow> real" where
  "axial_up y = (if y < - (pi / 2) then axial_up (y + pi) else y)"
  by auto
termination by (relation "measure (\<lambda>y. nat \<lfloor>1 - y / pi\<rfloor>)") (use axial_up_measure in auto)

declare axial_down.simps [simp del] axial_up.simps [simp del]

fun normalizeCargoAxialYaw :: "dbl \<Rightarrow> dbl" where
  "normalizeCargoAxialYaw (Fin y) = Fin (axial_up (axial_down y))"
| "normalizeCargoAxialYaw _ = Fin 0"

definition cargoAxialYawDifference :: "dbl \<Rightarrow> dbl \<Rightarrow> dbl" where
  "cargoAxialYawDifference lhs rhs = \<bar>normalizeCargoAxialYaw (lhs - rhs)\<bar>"

section \<open>The pose filter\<close>

definition limitCargoPoseResidualByRate :: "vec3 \<Rightarrow> dbl \<Rightarrow> dbl \<Rightarrow> dbl \<Rightarrow> dbl \<Rightarrow> vec3" where
  "limitCargoPoseResidualByRate residual dt max_xy_speed max_z_speed margin =
     (if \<not> vec3_allFinite residual \<or> \<not> isfinite dt \<or> dt \<le> Fin 0 \<or> \<not> isfinite max_xy_speed \<or>
         \<not> isfinite max_z_speed \<or> \<not> isfinite margin \<or> max_xy_speed < Fin 0 \<or> max_z_speed < Fin 0 \<or> margin < Fin 0
      then vec3_zero
      else
        let max_xy_step = max_xy_speed * dt + margin;
            max_z_step = max_z_speed * dt + margin;
            xy_norm = vec2_norm (vec3_head2 residual);
            xy = (if max_xy_step < xy_norm \<and> Fin 0.000001 < xy_norm
                  then vec2_scale (vec3_head2 residual) (max_xy_step / xy_norm) else vec3_head2 residual)
        in \<lparr>v3x = v2x xy, v3y = v2y xy, v3z = cpp_clamp (v3z residual) (- max_z_step) max_z_step\<rparr>)"

definition step_input_ok :: "CargoLivePoseStepInput \<Rightarrow> bool" where
  "step_input_ok i \<longleftrightarrow>
     vec3_allFinite (li_previous_center i) \<and> vec3_allFinite (li_previous_velocity i) \<and>
     vec3_allFinite (li_measured_center i) \<and> isfinite (li_sensor_dt_sec i) \<and> \<not> li_sensor_dt_sec i \<le> Fin 0 \<and>
     isfinite (li_center_alpha i) \<and> \<not> li_center_alpha i < Fin 0 \<and> \<not> Fin 1 < li_center_alpha i \<and>
     isfinite (li_velocity_alpha i) \<and> \<not> li_velocity_alpha i < Fin 0 \<and> \<not> Fin 1 < li_velocity_alpha i \<and>
     isfinite (li_max_xy_speed_mps i) \<and> \<not> li_max_xy_speed_mps i < Fin 0 \<and>
     isfinite (li_max_z_speed_mps i) \<and> \<not> li_max_z_speed_mps i < Fin 0 \<and>
     isfinite (li_step_margin_m i) \<and> \<not> li_step_margin_m i < Fin 0"

definition updateCargoLivePoseStep :: "CargoLivePoseStepInput \<Rightarrow> CargoLivePoseStepResult" where
  "updateCargoLivePoseStep i =
     (if \<not> step_input_ok i
      then \<lparr>lr_valid = False, lr_predicted_center = vec3_zero, lr_measurement_residual = vec3_zero,
            lr_filtered_center = vec3_zero, lr_tracking_residual = vec3_zero, lr_filtered_velocity = vec3_zero\<rparr>
      else
        let limit = (\<lambda>v dt margin. limitCargoPoseResidualByRate v dt (li_max_xy_speed_mps i) (li_max_z_speed_mps i) margin);
            dt = li_sensor_dt_sec i;
            bounded = limit (li_previous_velocity i) (Fin 1) (Fin 0);
            predicted = vec3_add (li_previous_center i) (vec3_scale bounded dt);
            residual = vec3_sub (li_measured_center i) predicted;
            limited = limit residual dt (li_step_margin_m i);
            proposed = vec3_add predicted (vec3_scale limited (li_center_alpha i));
            final_step = limit (vec3_sub proposed (li_previous_center i)) dt (li_step_margin_m i);
            filtered = vec3_add (li_previous_center i) final_step;
            tracking = vec3_sub (li_measured_center i) filtered;
            observed = vec3_div final_step dt;
            blended = vec3_add (vec3_scale bounded (Fin 1 - li_velocity_alpha i)) (vec3_scale observed (li_velocity_alpha i));
            velocity = limit blended (Fin 1) (Fin 0)
        in \<lparr>lr_valid = (vec3_allFinite predicted \<and> vec3_allFinite residual \<and> vec3_allFinite filtered \<and>
                       vec3_allFinite tracking \<and> vec3_allFinite velocity),
            lr_predicted_center = predicted, lr_measurement_residual = residual, lr_filtered_center = filtered,
            lr_tracking_residual = tracking, lr_filtered_velocity = velocity\<rparr>)"

definition held_input_ok ::
  "LiveCargoPose \<Rightarrow> vec3 \<Rightarrow> dbl \<Rightarrow> dbl \<Rightarrow> dbl \<Rightarrow> dbl \<Rightarrow> dbl \<Rightarrow> dbl \<Rightarrow> dbl \<Rightarrow> bool" where
  "held_input_ok pose velocity stamp max_prediction max_xy_speed max_z_speed tau growth max_uncertainty \<longleftrightarrow>
     lp_valid pose \<and> vec3_allFinite (lp_center_base pose) \<and> vec3_allFinite velocity \<and>
     isfinite (lp_evidence_stamp_sec pose) \<and> \<not> lp_evidence_stamp_sec pose \<le> Fin 0 \<and> isfinite stamp \<and>
     \<not> stamp + Fin 0.0001 < lp_evidence_stamp_sec pose \<and>
     isfinite max_prediction \<and> \<not> max_prediction < Fin 0 \<and> isfinite max_xy_speed \<and> \<not> max_xy_speed < Fin 0 \<and>
     isfinite max_z_speed \<and> \<not> max_z_speed < Fin 0 \<and> isfinite tau \<and> \<not> tau \<le> Fin 0 \<and>
     isfinite growth \<and> \<not> growth < Fin 0 \<and> isfinite max_uncertainty \<and> \<not> max_uncertainty < Fin 0 \<and>
     isfinite (lp_position_uncertainty_m pose) \<and> \<not> lp_position_uncertainty_m pose < Fin 0"

definition propagateHeldCargoPose ::
  "LiveCargoPose \<Rightarrow> vec3 \<Rightarrow> dbl \<Rightarrow> dbl \<Rightarrow> dbl \<Rightarrow> dbl \<Rightarrow> dbl \<Rightarrow> dbl \<Rightarrow> dbl \<Rightarrow> LiveCargoPose" where
  "propagateHeldCargoPose pose velocity stamp max_prediction max_xy_speed max_z_speed tau growth max_uncertainty =
     (if \<not> held_input_ok pose velocity stamp max_prediction max_xy_speed max_z_speed tau growth max_uncertainty
      then default_LiveCargoPose
      else
        let age = cpp_max (Fin 0) (stamp - lp_evidence_stamp_sec pose);
            prediction = cpp_min age max_prediction;
            bounded = limitCargoPoseResidualByRate velocity (Fin 1) max_xy_speed max_z_speed (Fin 0);
            moving = (Fin 0 < prediction \<and> Fin 0.000001 < vec3_norm bounded);
            decayed = tau * (Fin 1 - dexp (- prediction / tau));
            predicted = (moving \<and> age \<le> max_prediction + Fin 0.0001);
            grown = lp_position_uncertainty_m pose + age * growth
        in pose\<lparr>lp_center_base := (if moving then vec3_add (lp_center_base pose) (vec3_scale bounded decayed)
                                    else lp_center_base pose),
                lp_source := (if predicted then MOTION_PREDICTION else RECENT_STABLE_HOLD),
                lp_vertical_source := (if predicted then PREDICTION else DISPLAY_FROZEN),
                lp_evaluation_stamp_sec := stamp,
                lp_position_uncertainty_m :=
                  cpp_max (lp_position_uncertainty_m pose) (cpp_min max_uncertainty grown)\<rparr>)"

section \<open>The box\<close>

definition buildCargoObbCornersBase :: "LockedCargoShape \<Rightarrow> vec3 \<Rightarrow> vec3 list" where
  "buildCargoObbCornersBase s center =
     (if \<not> validShape s \<or> \<not> vec3_allFinite center then replicate 8 vec3_zero
      else
        let cosine = dcos (lk_yaw_base_rad s); sine = dsin (lk_yaw_base_rad s);
            half_length = Fin 0.5 * lk_length_m s; half_width = Fin 0.5 * lk_width_m s;
            half_height = Fin 0.5 * lk_height_m s
        in [\<lparr>v3x = v3x center + cosine * local_x - sine * local_y, v3y = v3y center + sine * local_x + cosine * local_y,
             v3z = v3z center + dz\<rparr>.
             dz \<leftarrow> [- half_height, half_height], local_y \<leftarrow> [- half_width, half_width],
             local_x \<leftarrow> [- half_length, half_length]])"

text \<open>A geometry that was not built: the inputs and the reason.\<close>

definition rigid_unbuilt :: "LockedCargoShape \<Rightarrow> LiveCargoPose \<Rightarrow> u64 \<Rightarrow> string \<Rightarrow> RigidCargoGeometry" where
  "rigid_unbuilt s pose track reason =
     \<lparr>rz_valid = False, rz_track_id = track, rz_shape = s, rz_pose = pose, rz_bottom_z_base = Fin 0, rz_top_z_base = Fin 0,
      rz_corners_base = replicate 8 vec3_zero, rz_corners_map = replicate 8 vec3_zero,
      rz_aabb_min_base = vec3_zero, rz_aabb_max_base = vec3_zero, rz_aabb_min_map = vec3_zero, rz_aabb_max_map = vec3_zero,
      rz_horizontal_uncertainty_m = Fin 0, rz_vertical_uncertainty_m = Fin 0, rz_pose_evidence_stamp_sec = Fin 0,
      rz_height_evidence_stamp_sec = Fin 0, rz_evaluation_stamp_sec = Fin 0, rz_reason = reason\<rparr>"

definition buildCurrentRigidCargoGeometry ::
  "LockedCargoShape \<Rightarrow> LiveCargoPose \<Rightarrow> isometry3 \<Rightarrow> u64 \<Rightarrow> dbl \<Rightarrow> dbl \<Rightarrow> RigidCargoGeometry" where
  "buildCurrentRigidCargoGeometry s pose T track horizontal vertical =
     (if \<not> validShape s then rigid_unbuilt s pose track ''invalid_locked_shape''
      else if \<not> lp_valid pose \<or> \<not> vec3_allFinite (lp_center_base pose) \<or> \<not> isfinite (lp_evidence_stamp_sec pose) \<or>
              lp_evidence_stamp_sec pose \<le> Fin 0 \<or> \<not> isfinite (lp_evaluation_stamp_sec pose) \<or>
              lp_evaluation_stamp_sec pose \<le> Fin 0
      then rigid_unbuilt s pose track ''invalid_live_pose''
      else if \<not> validTransform T then rigid_unbuilt s pose track ''invalid_map_transform''
      else if \<not> isfinite horizontal \<or> horizontal < Fin 0 \<or> \<not> isfinite vertical \<or> vertical < Fin 0
      then rigid_unbuilt s pose track ''invalid_uncertainty''
      else
        let corners = buildCargoObbCornersBase s (lp_center_base pose); mapped = map (iso_apply T) corners
        in \<lparr>rz_valid = True, rz_track_id = track, rz_shape = s, rz_pose = pose,
            rz_bottom_z_base = v3z (lp_center_base pose) - Fin 0.5 * lk_height_m s,
            rz_top_z_base = v3z (lp_center_base pose) + Fin 0.5 * lk_height_m s,
            rz_corners_base = corners, rz_corners_map = mapped,
            rz_aabb_min_base = foldl vec3_cwiseMin (hd corners) corners,
            rz_aabb_max_base = foldl vec3_cwiseMax (hd corners) corners,
            rz_aabb_min_map = foldl vec3_cwiseMin (hd mapped) (tl mapped),
            rz_aabb_max_map = foldl vec3_cwiseMax (hd mapped) (tl mapped),
            rz_horizontal_uncertainty_m = horizontal, rz_vertical_uncertainty_m = vertical,
            rz_pose_evidence_stamp_sec = lp_evidence_stamp_sec pose,
            rz_height_evidence_stamp_sec = lp_evidence_stamp_sec pose,
            rz_evaluation_stamp_sec = lp_evaluation_stamp_sec pose, rz_reason = ''locked_shape_live_pose''\<rparr>)"

definition rigid_footprint :: "RigidCargoGeometry \<Rightarrow> dbl \<Rightarrow> CargoObbFootprint" where
  "rigid_footprint g expansion =
     (if \<not> rz_valid g \<or> \<not> isfinite expansion \<or> expansion < Fin 0 then default_CargoObbFootprint
      else \<lparr>fp_valid = True, fp_center_base = vec3_head2 (lp_center_base (rz_pose g)),
            fp_length_m = lk_length_m (rz_shape g) + Fin 2 * expansion,
            fp_width_m = lk_width_m (rz_shape g) + Fin 2 * expansion, fp_yaw_base_rad = lk_yaw_base_rad (rz_shape g),
            fp_min_z = rz_bottom_z_base g, fp_max_z = rz_top_z_base g\<rparr>)"

section \<open>Formal use\<close>

definition evaluateCargoFormalUse ::
  "bool \<Rightarrow> bool \<Rightarrow> dbl \<Rightarrow> dbl \<Rightarrow> dbl \<Rightarrow> dbl \<Rightarrow> dbl \<Rightarrow> dbl \<Rightarrow> CargoFormalUseDecision" where
  "evaluateCargoFormalUse geometry_valid lost_hold stamp pose_stamp height_stamp xy_hold vertical_hold uncertainty =
     (let d = \<lparr>fu_display_valid = False, fu_formal_safety_valid = False, fu_formal_removal_valid = False,
               fu_pose_age_sec = Fin 0, fu_height_age_sec = Fin 0, fu_horizontal_uncertainty_m = Fin 0,
               fu_reason = ''not_evaluated''\<rparr> in
      if \<not> geometry_valid \<or> \<not> isfinite stamp \<or> \<not> isfinite pose_stamp \<or> \<not> isfinite height_stamp \<or>
         \<not> isfinite xy_hold \<or> xy_hold < Fin 0 \<or> \<not> isfinite vertical_hold \<or> vertical_hold < Fin 0 \<or>
         \<not> isfinite uncertainty \<or> uncertainty < Fin 0
      then d\<lparr>fu_reason := ''invalid_geometry_or_evidence_time''\<rparr>
      else
        let pose_age = stamp - pose_stamp; height_age = stamp - height_stamp;
            d1 = d\<lparr>fu_pose_age_sec := pose_age, fu_height_age_sec := height_age\<rparr> in
        if pose_age < Fin (- 0.0001) \<or> height_age < Fin (- 0.0001) then d1\<lparr>fu_reason := ''future_cargo_evidence''\<rparr>
        else
          let xy_ok = (pose_age \<le> xy_hold + Fin 0.0001); vertical_ok = (height_age \<le> vertical_hold + Fin 0.0001)
          in d1\<lparr>fu_display_valid := True, fu_horizontal_uncertainty_m := uncertainty,
                fu_formal_safety_valid := xy_ok \<and> vertical_ok, fu_formal_removal_valid := xy_ok \<and> vertical_ok,
                fu_reason :=
                  (if xy_ok \<and> vertical_ok
                   then if lost_hold then ''lost_hold_formal_window'' else ''locked_formal_window''
                   else if \<not> vertical_ok then ''formal_vertical_evidence_expired''
                   else if \<not> xy_ok then ''formal_xy_evidence_expired''
                   else if lost_hold then ''lost_hold_display_only_evidence_expired''
                   else ''locked_display_only_evidence_expired'')\<rparr>)"

definition default_CargoFormalHeightDecision :: CargoFormalHeightDecision where
  "default_CargoFormalHeightDecision =
     \<lparr>fh_valid = False, fh_source = INVALID, fh_evidence_stamp_sec = Fin 0, fh_bottom_z_base = Fin 0,
      fh_top_z_base = Fin 0, fh_uncertainty_m = Fin 1, fh_confidence = Fin 0, fh_reason = ''not_evaluated''\<rparr>"

definition evaluateCargoFormalHeight ::
  "CargoBottomResult \<Rightarrow> RigidCargoGeometry \<Rightarrow> CargoFormalUseDecision \<Rightarrow> CargoFormalHeightDecision" where
  "evaluateCargoFormalHeight fusion rigid lifetime =
     (let d = default_CargoFormalHeightDecision in
      if \<not> rz_valid rigid \<or> \<not> isfinite (rz_bottom_z_base rigid) \<or> \<not> isfinite (rz_top_z_base rigid) \<or>
         rz_top_z_base rigid \<le> rz_bottom_z_base rigid
      then d\<lparr>fh_reason := ''formal_rigid_geometry_invalid''\<rparr>
      else if \<not> fu_formal_safety_valid lifetime then d\<lparr>fh_reason := fu_reason lifetime\<rparr>
      else if \<not> isfinite (rz_height_evidence_stamp_sec rigid) \<or> rz_height_evidence_stamp_sec rigid \<le> Fin 0
      then d\<lparr>fh_reason := ''formal_vertical_evidence_stamp_invalid''\<rparr>
      else
        let uncertainty = cpp_max (rz_vertical_uncertainty_m rigid)
              (if bo_valid fusion \<and> isfinite (bo_uncertainty fusion) then bo_uncertainty fusion else Fin 0);
            d1 = d\<lparr>fh_bottom_z_base := rz_bottom_z_base rigid, fh_top_z_base := rz_top_z_base rigid,
                   fh_evidence_stamp_sec := rz_height_evidence_stamp_sec rigid, fh_uncertainty_m := uncertainty\<rparr> in
        if \<not> isfinite uncertainty \<or> uncertainty < Fin 0 then d1\<lparr>fh_reason := ''formal_vertical_uncertainty_invalid''\<rparr>
        else if bo_valid fusion
        then d1\<lparr>fh_source := bo_source fusion, fh_confidence := cpp_clamp (bo_confidence fusion) (Fin 0) (Fin 1),
                fh_reason := ''formal_height:'' @ bo_reason fusion, fh_valid := True\<rparr>
        else d1\<lparr>fh_source := RECENT_STABLE, fh_confidence := Fin 0.35,
                fh_reason := ''formal_height_hold:'' @ fu_reason lifetime, fh_valid := True\<rparr>)"

section \<open>Points and the box\<close>

text \<open>A point in the frame of the footprint.\<close>

definition obb_local :: "vec2 \<Rightarrow> CargoObbFootprint \<Rightarrow> dbl \<times> dbl" where
  "obb_local point footprint =
     (let delta = vec2_sub point (fp_center_base footprint);
          cosine = dcos (fp_yaw_base_rad footprint);
          sine = dsin (fp_yaw_base_rad footprint)
      in (cosine * v2x delta + sine * v2y delta, - sine * v2x delta + cosine * v2y delta))"

definition pointToCargoObbDistance2D :: "vec2 \<Rightarrow> CargoObbFootprint \<Rightarrow> dbl" where
  "pointToCargoObbDistance2D point footprint =
     (if \<not> vec2_allFinite point \<or> \<not> fp_valid footprint \<or>
         \<not> vec2_allFinite (fp_center_base footprint) \<or>
         fp_length_m footprint \<le> Fin 0 \<or> fp_width_m footprint \<le> Fin 0 \<or>
         \<not> isfinite (fp_yaw_base_rad footprint)
      then PInf
      else let (local_x, local_y) = obb_local point footprint;
               dx = cpp_max (\<bar>local_x\<bar> - Fin 0.5 * fp_length_m footprint) (Fin 0);
               dy = cpp_max (\<bar>local_y\<bar> - Fin 0.5 * fp_width_m footprint) (Fin 0)
           in dhypot dx dy)"

definition containsPointInCargoObbBase :: "vec3 \<Rightarrow> CargoObbFootprint \<Rightarrow> dbl \<Rightarrow> dbl \<Rightarrow> bool" where
  "containsPointInCargoObbBase point footprint margin_xy_m margin_z_m =
     (if \<not> vec3_allFinite point \<or> \<not> fp_valid footprint \<or> \<not> vec2_allFinite (fp_center_base footprint) \<or>
         \<not> isfinite (fp_length_m footprint) \<or> \<not> isfinite (fp_width_m footprint) \<or>
         \<not> isfinite (fp_yaw_base_rad footprint) \<or> \<not> isfinite (fp_min_z footprint) \<or> \<not> isfinite (fp_max_z footprint) \<or>
         fp_length_m footprint \<le> Fin 0 \<or> fp_width_m footprint \<le> Fin 0 \<or> fp_max_z footprint \<le> fp_min_z footprint
      then False
      else
        let margin_xy = cpp_max (Fin 0) margin_xy_m; margin_z = cpp_max (Fin 0) margin_z_m;
            (local_x, local_y) = obb_local (vec3_head2 point) footprint
        in \<bar>local_x\<bar> \<le> Fin 0.5 * fp_length_m footprint + margin_xy \<and>
           \<bar>local_y\<bar> \<le> Fin 0.5 * fp_width_m footprint + margin_xy \<and>
           fp_min_z footprint - margin_z \<le> v3z point \<and> v3z point \<le> fp_max_z footprint + margin_z)"

text \<open>The sample count of a sweep; the cast of a value that is not finite is undefined in C++ and 0 here.\<close>

fun ceil_to_int :: "dbl \<Rightarrow> int" where
  "ceil_to_int (Fin a) = \<lceil>a\<rceil>"
| "ceil_to_int _ = 0"

definition sweep_steps :: "CargoObbFootprint \<Rightarrow> CargoObbFootprint \<Rightarrow> dbl \<Rightarrow> int" where
  "sweep_steps start finish sample_step =
     (let center_distance = vec2_norm (vec2_sub (fp_center_base finish) (fp_center_base start));
          vertical_distance = cpp_max \<bar>fp_min_z finish - fp_min_z start\<bar> \<bar>fp_max_z finish - fp_max_z start\<bar>
      in cpp_clamp (ceil_to_int (cpp_max center_distance vertical_distance / sample_step)) 1 24)"

definition blend :: "dbl \<Rightarrow> dbl \<Rightarrow> dbl \<Rightarrow> dbl" where
  "blend alpha a b = (Fin 1 - alpha) * a + alpha * b"

definition sweep_sample :: "CargoObbFootprint \<Rightarrow> CargoObbFootprint \<Rightarrow> dbl \<Rightarrow> CargoObbFootprint" where
  "sweep_sample start finish alpha =
     start\<lparr>fp_center_base := \<lparr>v2x = blend alpha (v2x (fp_center_base start)) (v2x (fp_center_base finish)),
                              v2y = blend alpha (v2y (fp_center_base start)) (v2y (fp_center_base finish))\<rparr>,
           fp_length_m := blend alpha (fp_length_m start) (fp_length_m finish),
           fp_width_m := blend alpha (fp_width_m start) (fp_width_m finish),
           fp_min_z := blend alpha (fp_min_z start) (fp_min_z finish),
           fp_max_z := blend alpha (fp_max_z start) (fp_max_z finish)\<rparr>"

definition containsPointInSweptCargoObbBase ::
  "vec3 \<Rightarrow> CargoObbFootprint \<Rightarrow> CargoObbFootprint \<Rightarrow> dbl \<Rightarrow> dbl \<Rightarrow> dbl \<Rightarrow> bool" where
  "containsPointInSweptCargoObbBase point start finish margin_xy margin_z sample_step =
     (if \<not> fp_valid start \<or> \<not> fp_valid finish \<or> \<not> vec3_allFinite point \<or> \<not> isfinite sample_step \<or>
         sample_step \<le> Fin 0 \<or>
         Fin 0.001 < cargoAxialYawDifference (fp_yaw_base_rad start) (fp_yaw_base_rad finish)
      then False
      else
        let steps = sweep_steps start finish sample_step
        in list_ex (\<lambda>index. containsPointInCargoObbBase point
             (sweep_sample start finish (Fin (real_of_int index / real_of_int steps))) margin_xy margin_z) [0..steps])"

definition isCargoIdentityPointMatch :: "dbl \<Rightarrow> dbl \<Rightarrow> bool \<Rightarrow> bool" where
  "isCargoIdentityPointMatch nearest_distance_squared match_radius_m inside \<longleftrightarrow>
     inside \<and> isfinite nearest_distance_squared \<and> Fin 0 \<le> nearest_distance_squared \<and> isfinite match_radius_m \<and>
     Fin 0 < match_radius_m \<and> nearest_distance_squared \<le> match_radius_m * match_radius_m"


section \<open>Axial yaw: the representative\<close>

lemma axial_down_range: "axial_down y < pi / 2 \<and> (- (pi / 2) \<le> y \<longrightarrow> - (pi / 2) \<le> axial_down y)"
proof (induction y rule: axial_down.induct)
  case (1 y)
  then show ?case by (cases "pi / 2 \<le> y") (simp_all add: axial_down.simps [of y])
qed

lemma axial_up_range:
  assumes "y < pi / 2"
  shows "- (pi / 2) \<le> axial_up y \<and> axial_up y < pi / 2"
  using assms
proof (induction y rule: axial_up.induct)
  case (1 y)
  then show ?case using pi_gt_zero by (cases "y < - (pi / 2)") (simp_all add: axial_up.simps [of y])
qed

lemma axial_down_shift: "\<exists>k::int. axial_down y = y + of_int k * pi"
proof (induction y rule: axial_down.induct)
  case (1 y)
  show ?case
  proof (cases "pi / 2 \<le> y")
    case True
    then obtain k :: int where "axial_down (y - pi) = y - pi + of_int k * pi" using 1 by blast
    then have "axial_down y = y + of_int (k - 1) * pi" using True by (simp add: axial_down.simps [of y] algebra_simps)
    then show ?thesis by blast
  next
    case False
    then show ?thesis by (intro exI [of _ 0]) (simp add: axial_down.simps [of y])
  qed
qed

lemma axial_up_shift: "\<exists>k::int. axial_up y = y + of_int k * pi"
proof (induction y rule: axial_up.induct)
  case (1 y)
  show ?case
  proof (cases "y < - (pi / 2)")
    case True
    then obtain k :: int where "axial_up (y + pi) = y + pi + of_int k * pi" using 1 by blast
    then have "axial_up y = y + of_int (k + 1) * pi" using True by (simp add: axial_up.simps [of y] algebra_simps)
    then show ?thesis by blast
  next
    case False
    then show ?thesis by (intro exI [of _ 0]) (simp add: axial_up.simps [of y])
  qed
qed

lemma axial_shift: "\<exists>k::int. axial_up (axial_down y) = y + of_int k * pi"
proof -
  obtain j k :: int where "axial_down y = y + of_int j * pi" "axial_up (axial_down y) = axial_down y + of_int k * pi"
    using axial_down_shift axial_up_shift by blast
  then have "axial_up (axial_down y) = y + of_int (j + k) * pi" by (simp add: algebra_simps)
  then show ?thesis by blast
qed

section \<open>Rate limits\<close>

text \<open>A displacement within the limits of a step; a horizontal part of up to a micrometre is never scaled.\<close>

definition within_rate :: "vec3 \<Rightarrow> real \<Rightarrow> real \<Rightarrow> bool" where
  "within_rate v xy z \<longleftrightarrow>
     (\<exists>a b c. v = \<lparr>v3x = Fin a, v3y = Fin b, v3z = Fin c\<rparr> \<and> sqrt (a * a + b * b) \<le> max xy 0.000001 \<and> \<bar>c\<bar> \<le> z)"

lemma vec3_finiteE:
  assumes "vec3_allFinite v"
  obtains a b c where "v = \<lparr>v3x = Fin a, v3y = Fin b, v3z = Fin c\<rparr>"
  using assms by (cases v) (auto simp: vec3_allFinite_def isfinite_iff)

lemma scaled_norm:
  fixes a b k :: real
  assumes "0 \<le> k"
  shows "sqrt (a * k * (a * k) + b * k * (b * k)) = k * sqrt (a * a + b * b)"
proof -
  have "a * k * (a * k) + b * k * (b * k) = k * k * (a * a + b * b)" by (simp add: algebra_simps)
  then show ?thesis using assms by (simp add: real_sqrt_mult)
qed

lemma norm2_triangle: "sqrt ((a + c) * (a + c) + (b + e) * (b + e)) \<le> sqrt (a * a + b * b) + sqrt (c * c + e * e)"
  using norm_triangle_ineq [of "Complex a b" "Complex c e"] by (simp add: cmod_def power2_eq_square)

lemma limit_within_rate:
  assumes "0 \<le> vxy" "0 \<le> vz" "0 \<le> margin" "0 < dt" "vec3_allFinite r"
  shows "within_rate (limitCargoPoseResidualByRate r (Fin dt) (Fin vxy) (Fin vz) (Fin margin))
    (vxy * dt + margin) (vz * dt + margin)"
proof -
  obtain a b c where r: "r = \<lparr>v3x = Fin a, v3y = Fin b, v3z = Fin c\<rparr>" using assms(5) by (rule vec3_finiteE)
  define n where "n = sqrt (a * a + b * b)"
  define m where "m = vxy * dt + margin"
  define h where "h = vz * dt + margin"
  have m: "0 \<le> m" and h: "0 \<le> h" using assms by (simp_all add: m_def h_def)
  have norm: "vec2_norm \<lparr>v2x = Fin a, v2y = Fin b\<rparr> = Fin n"
    using sum_squares_ge_zero [of a b] by (simp add: vec2_norm_def n_def not_less)
  have z: "\<exists>d. cpp_clamp (Fin c) (- Fin h) (Fin h) = Fin d \<and> \<bar>d\<bar> \<le> h"
    using h by (auto simp: cpp_clamp_def)
  have nonneg: "0 \<le> n" by (simp add: n_def)
  show ?thesis
  proof (cases "m < n \<and> 0.000001 < n")
    case True
    have pos: "0 < n" using True m by linarith
    have "sqrt (a * (m / n) * (a * (m / n)) + b * (m / n) * (b * (m / n))) = m / n * n"
      using scaled_norm [of "m / n" a b] m nonneg by (simp add: n_def)
    then have "sqrt (a * (m / n) * (a * (m / n)) + b * (m / n) * (b * (m / n))) \<le> max m 0.000001" using pos by simp
    then show ?thesis
      using assms True z pos norm
      by (auto simp: limitCargoPoseResidualByRate_def within_rate_def r vec3_head2_def vec2_scale_def Let_def
          vec3_allFinite_def m_def [symmetric] h_def [symmetric])
  next
    case False
    then have "n \<le> max m 0.000001" by linarith
    then show ?thesis
      using assms False z norm
      by (auto simp: limitCargoPoseResidualByRate_def within_rate_def r vec3_head2_def Let_def
          vec3_allFinite_def m_def [symmetric] h_def [symmetric] n_def [symmetric])
  qed
qed

lemma limit_finite: "vec3_allFinite (limitCargoPoseResidualByRate r dt vxy vz margin)"
proof (cases "\<not> vec3_allFinite r \<or> \<not> isfinite dt \<or> dt \<le> Fin 0 \<or> \<not> isfinite vxy \<or> \<not> isfinite vz \<or> \<not> isfinite margin \<or>
    vxy < Fin 0 \<or> vz < Fin 0 \<or> margin < Fin 0")
  case True
  then show ?thesis unfolding limitCargoPoseResidualByRate_def by (simp add: vec3_allFinite_def vec3_zero_def)
next
  case False
  then obtain t x z g where f: "dt = Fin t" "vxy = Fin x" "vz = Fin z" "margin = Fin g"
    by (auto simp: isfinite_iff)
  then have "within_rate (limitCargoPoseResidualByRate r dt vxy vz margin) (x * t + g) (z * t + g)"
    using False limit_within_rate [of x z g t r] by (simp add: not_less not_le)
  then show ?thesis by (auto simp: within_rate_def vec3_allFinite_def)
qed

lemma vec3_add_sub: "vec3_allFinite a \<Longrightarrow> vec3_allFinite b \<Longrightarrow> vec3_sub (vec3_add a b) a = b"
  by (elim vec3_finiteE) (simp add: vec3_sub_def vec3_add_def)

lemma vec3_add_finite: "vec3_allFinite a \<Longrightarrow> vec3_allFinite b \<Longrightarrow> vec3_allFinite (vec3_add a b)"
  by (elim vec3_finiteE) (simp add: vec3_allFinite_def vec3_add_def)

lemma vec3_sub_finite: "vec3_allFinite a \<Longrightarrow> vec3_allFinite b \<Longrightarrow> vec3_allFinite (vec3_sub a b)"
  by (elim vec3_finiteE) (simp add: vec3_allFinite_def vec3_sub_def)

lemma vec3_scale_finite: "vec3_allFinite a \<Longrightarrow> vec3_allFinite (vec3_scale a (Fin k))"
  by (elim vec3_finiteE) (simp add: vec3_allFinite_def vec3_scale_def)

lemma vec3_div_finite: "vec3_allFinite a \<Longrightarrow> k \<noteq> 0 \<Longrightarrow> vec3_allFinite (vec3_div a (Fin k))"
  by (elim vec3_finiteE) (simp add: vec3_allFinite_def vec3_div_def)

lemmas vec3_finite = vec3_add_finite vec3_sub_finite vec3_scale_finite vec3_div_finite limit_finite

lemma step_input_FinE:
  assumes "step_input_ok i"
  obtains dt vxy vz margin ca va where
    "li_sensor_dt_sec i = Fin dt" "0 < dt" "li_max_xy_speed_mps i = Fin vxy" "0 \<le> vxy" "li_max_z_speed_mps i = Fin vz" "0 \<le> vz"
    "li_step_margin_m i = Fin margin" "0 \<le> margin" "li_center_alpha i = Fin ca" "li_velocity_alpha i = Fin va"
    "vec3_allFinite (li_previous_center i)" "vec3_allFinite (li_previous_velocity i)" "vec3_allFinite (li_measured_center i)"
  using assms unfolding step_input_ok_def isfinite_iff
  by (elim conjE exE) (simp add: not_less not_le)

lemma step_valid: "lr_valid (updateCargoLivePoseStep i) \<longleftrightarrow> step_input_ok i"
proof
  assume "step_input_ok i"
  then show "lr_valid (updateCargoLivePoseStep i)"
  proof (cases rule: step_input_FinE)
    case (1 dt vxy vz margin ca va)
    then show ?thesis
      using \<open>step_input_ok i\<close> by (simp add: updateCargoLivePoseStep_def Let_def vec3_finite)
  qed
qed (auto simp: updateCargoLivePoseStep_def split: if_splits)

section \<open>The oriented box over the reals\<close>

text \<open>The distance of a coordinate to an interval around zero.\<close>

definition excess :: "real \<Rightarrow> real \<Rightarrow> real" where
  "excess half c = max (\<bar>c\<bar> - half) 0"

text \<open>A footprint with finite dimensions and its values.\<close>

definition footprint_is ::
  "CargoObbFootprint \<Rightarrow> real \<Rightarrow> real \<Rightarrow> real \<Rightarrow> real \<Rightarrow> real \<Rightarrow> real \<Rightarrow> real \<Rightarrow> bool" where
  "footprint_is f cx cy l w yaw lo hi \<longleftrightarrow>
     fp_valid f \<and> fp_center_base f = \<lparr>v2x = Fin cx, v2y = Fin cy\<rparr> \<and> fp_length_m f = Fin l \<and> fp_width_m f = Fin w \<and>
     fp_yaw_base_rad f = Fin yaw \<and> fp_min_z f = Fin lo \<and> fp_max_z f = Fin hi"

definition local_x :: "real \<Rightarrow> real \<Rightarrow> real \<Rightarrow> real" where
  "local_x yaw dx dy = cos yaw * dx + sin yaw * dy"

definition local_y :: "real \<Rightarrow> real \<Rightarrow> real \<Rightarrow> real" where
  "local_y yaw dx dy = - sin yaw * dx + cos yaw * dy"

lemma obb_distance_Fin:
  assumes "footprint_is f cx cy l w yaw lo hi" and "0 < l" and "0 < w"
  shows "pointToCargoObbDistance2D \<lparr>v2x = Fin x, v2y = Fin y\<rparr> f =
    Fin (sqrt (excess (l / 2) (local_x yaw (x - cx) (y - cy)) * excess (l / 2) (local_x yaw (x - cx) (y - cy)) +
      excess (w / 2) (local_y yaw (x - cx) (y - cy)) * excess (w / 2) (local_y yaw (x - cx) (y - cy))))"
  using assms
  by (simp add: pointToCargoObbDistance2D_def footprint_is_def obb_local_def vec2_allFinite_def vec2_sub_def
      local_x_def local_y_def excess_def dhypot_Fin cpp_max_Fin)

lemma obb_contains_Fin:
  assumes "footprint_is f cx cy l w yaw lo hi" and "0 \<le> m" and "0 \<le> mz"
  shows "containsPointInCargoObbBase \<lparr>v3x = Fin x, v3y = Fin y, v3z = Fin z\<rparr> f (Fin m) (Fin mz) \<longleftrightarrow>
    0 < l \<and> 0 < w \<and> lo < hi \<and> excess (l / 2) (local_x yaw (x - cx) (y - cy)) \<le> m \<and>
    excess (w / 2) (local_y yaw (x - cx) (y - cy)) \<le> m \<and> lo - mz \<le> z \<and> z \<le> hi + mz"
proof -
  have "cpp_max (Fin 0) (Fin m) = Fin m" "cpp_max (Fin 0) (Fin mz) = Fin mz" using assms(2,3) by (simp_all add: cpp_max_def)
  moreover have "max (\<bar>c\<bar> - h) 0 \<le> m \<longleftrightarrow> \<bar>c\<bar> \<le> h + m" for c h :: real using assms(2) by auto
  ultimately show ?thesis
    using assms(1)
    by (auto simp: containsPointInCargoObbBase_def footprint_is_def obb_local_def vec3_allFinite_def vec2_allFinite_def
        vec2_sub_def vec3_head2_def local_x_def local_y_def excess_def not_le)
qed

lemma excess_nonneg: "0 \<le> excess h c"
  by (simp add: excess_def)

text \<open>Corners in the frame of the box.\<close>

lemma rotate_back:
  "local_x yaw (cos yaw * a - sin yaw * b) (sin yaw * a + cos yaw * b) = a"
  "local_y yaw (cos yaw * a - sin yaw * b) (sin yaw * a + cos yaw * b) = b"
proof -
  have one: "cos yaw * cos yaw + sin yaw * sin yaw = 1" by simp
  have "cos yaw * (cos yaw * a - sin yaw * b) + sin yaw * (sin yaw * a + cos yaw * b) = a" using one by algebra
  then show "local_x yaw (cos yaw * a - sin yaw * b) (sin yaw * a + cos yaw * b) = a" by (simp only: local_x_def)
  have "- sin yaw * (cos yaw * a - sin yaw * b) + cos yaw * (sin yaw * a + cos yaw * b) = b" using one by algebra
  then show "local_y yaw (cos yaw * a - sin yaw * b) (sin yaw * a + cos yaw * b) = b" by (simp only: local_y_def)
qed

section \<open>Bounding boxes\<close>

lemma foldl_cwiseMin_le:
  assumes "vec3_allFinite a" and "\<forall>p \<in> set ps. vec3_allFinite p"
  shows "vec3_allFinite (foldl vec3_cwiseMin a ps) \<and>
    (\<forall>p \<in> set (a # ps). v3x (foldl vec3_cwiseMin a ps) \<le> v3x p \<and> v3y (foldl vec3_cwiseMin a ps) \<le> v3y p \<and>
       v3z (foldl vec3_cwiseMin a ps) \<le> v3z p)"
  using assms
proof (induction ps arbitrary: a)
  case Nil
  then show ?case by (auto elim: vec3_finiteE)
next
  case (Cons q ps)
  have fin: "vec3_allFinite (vec3_cwiseMin a q)" "v3x (vec3_cwiseMin a q) \<le> v3x a" "v3y (vec3_cwiseMin a q) \<le> v3y a"
    "v3z (vec3_cwiseMin a q) \<le> v3z a" "v3x (vec3_cwiseMin a q) \<le> v3x q" "v3y (vec3_cwiseMin a q) \<le> v3y q"
    "v3z (vec3_cwiseMin a q) \<le> v3z q"
    using Cons.prems by (auto simp: vec3_cwiseMin_def cpp_min_def vec3_allFinite_def isfinite_iff)
  have "\<forall>p \<in> set ps. vec3_allFinite p" using Cons.prems by simp
  then have "vec3_allFinite (foldl vec3_cwiseMin (vec3_cwiseMin a q) ps) \<and>
      (\<forall>p \<in> set (vec3_cwiseMin a q # ps). v3x (foldl vec3_cwiseMin (vec3_cwiseMin a q) ps) \<le> v3x p \<and>
       v3y (foldl vec3_cwiseMin (vec3_cwiseMin a q) ps) \<le> v3y p \<and> v3z (foldl vec3_cwiseMin (vec3_cwiseMin a q) ps) \<le> v3z p)"
    by (rule Cons.IH [OF fin(1)])
  then show ?case using fin by (auto intro: dbl_le_trans)
qed

lemma foldl_cwiseMax_ge:
  assumes "vec3_allFinite a" and "\<forall>p \<in> set ps. vec3_allFinite p"
  shows "vec3_allFinite (foldl vec3_cwiseMax a ps) \<and>
    (\<forall>p \<in> set (a # ps). v3x p \<le> v3x (foldl vec3_cwiseMax a ps) \<and> v3y p \<le> v3y (foldl vec3_cwiseMax a ps) \<and>
       v3z p \<le> v3z (foldl vec3_cwiseMax a ps))"
  using assms
proof (induction ps arbitrary: a)
  case Nil
  then show ?case by (auto elim: vec3_finiteE)
next
  case (Cons q ps)
  have fin: "vec3_allFinite (vec3_cwiseMax a q)" "v3x a \<le> v3x (vec3_cwiseMax a q)" "v3y a \<le> v3y (vec3_cwiseMax a q)"
    "v3z a \<le> v3z (vec3_cwiseMax a q)" "v3x q \<le> v3x (vec3_cwiseMax a q)" "v3y q \<le> v3y (vec3_cwiseMax a q)"
    "v3z q \<le> v3z (vec3_cwiseMax a q)"
    using Cons.prems by (auto simp: vec3_cwiseMax_def cpp_max_def vec3_allFinite_def isfinite_iff)
  have "\<forall>p \<in> set ps. vec3_allFinite p" using Cons.prems by simp
  then have "vec3_allFinite (foldl vec3_cwiseMax (vec3_cwiseMax a q) ps) \<and>
      (\<forall>p \<in> set (vec3_cwiseMax a q # ps). v3x p \<le> v3x (foldl vec3_cwiseMax (vec3_cwiseMax a q) ps) \<and>
       v3y p \<le> v3y (foldl vec3_cwiseMax (vec3_cwiseMax a q) ps) \<and> v3z p \<le> v3z (foldl vec3_cwiseMax (vec3_cwiseMax a q) ps))"
    by (rule Cons.IH [OF fin(1)])
  then show ?case using fin by (auto intro: dbl_le_trans)
qed

text \<open>A point within an axis-aligned box.\<close>

definition in_aabb :: "vec3 \<Rightarrow> vec3 \<Rightarrow> vec3 \<Rightarrow> bool" where
  "in_aabb lo hi p \<longleftrightarrow>
     v3x lo \<le> v3x p \<and> v3x p \<le> v3x hi \<and> v3y lo \<le> v3y p \<and> v3y p \<le> v3y hi \<and> v3z lo \<le> v3z p \<and> v3z p \<le> v3z hi"

lemma aabb_holds:
  assumes "\<forall>p \<in> set ps. vec3_allFinite p" and "q \<in> set ps"
  shows "in_aabb (foldl vec3_cwiseMin (hd ps) ps) (foldl vec3_cwiseMax (hd ps) ps) q"
    and "in_aabb (foldl vec3_cwiseMin (hd ps) (tl ps)) (foldl vec3_cwiseMax (hd ps) (tl ps)) q"
proof -
  have hd: "vec3_allFinite (hd ps)" using assms by (cases ps) auto
  have tl: "\<forall>p \<in> set (tl ps). vec3_allFinite p" "q \<in> set (hd ps # tl ps)" using assms by (cases ps; auto)+
  show "in_aabb (foldl vec3_cwiseMin (hd ps) ps) (foldl vec3_cwiseMax (hd ps) ps) q"
    using foldl_cwiseMin_le [OF hd assms(1)] foldl_cwiseMax_ge [OF hd assms(1)] assms(2)
    unfolding in_aabb_def by (meson list.set_intros(2))
  show "in_aabb (foldl vec3_cwiseMin (hd ps) (tl ps)) (foldl vec3_cwiseMax (hd ps) (tl ps)) q"
    using foldl_cwiseMin_le [OF hd tl(1)] foldl_cwiseMax_ge [OF hd tl(1)] tl(2) unfolding in_aabb_def by meson
qed

lemma shape_FinE:
  assumes "validShape s"
  obtains l w h yaw where "lk_length_m s = Fin l" "lk_width_m s = Fin w" "lk_height_m s = Fin h" "lk_yaw_base_rad s = Fin yaw"
    "0 < w" "w \<le> l" "0 < h"
  using assms unfolding validShape_def isfinite_iff by (elim conjE exE) simp

text \<open>Every corner of the box is the centre plus a rotated half diagonal.\<close>

lemma corner_forms:
  assumes "validShape s" and "center = \<lparr>v3x = Fin x, v3y = Fin y, v3z = Fin z\<rparr>"
    and "lk_length_m s = Fin l" and "lk_width_m s = Fin w" and "lk_height_m s = Fin h" and "lk_yaw_base_rad s = Fin yaw"
    and "p \<in> set (buildCargoObbCornersBase s center)"
  shows "\<exists>a b c. \<bar>a\<bar> = \<bar>l / 2\<bar> \<and> \<bar>b\<bar> = \<bar>w / 2\<bar> \<and> \<bar>c\<bar> = \<bar>h / 2\<bar> \<and>
    p = \<lparr>v3x = Fin (x + (cos yaw * a - sin yaw * b)), v3y = Fin (y + (sin yaw * a + cos yaw * b)), v3z = Fin (z + c)\<rparr>"
proof -
  define corner where "corner = (\<lambda>a b c. \<lparr>v3x = Fin (x + (cos yaw * a - sin yaw * b)),
    v3y = Fin (y + (sin yaw * a + cos yaw * b)), v3z = Fin (z + c)\<rparr>)"
  have "buildCargoObbCornersBase s center =
      [corner a b c. c \<leftarrow> [- (h / 2), h / 2], b \<leftarrow> [- (w / 2), w / 2], a \<leftarrow> [- (l / 2), l / 2]]"
    using assms(1) by (simp add: buildCargoObbCornersBase_def assms(2-6) vec3_allFinite_def Let_def corner_def)
  then have "\<exists>a \<in> {- (l / 2), l / 2}. \<exists>b \<in> {- (w / 2), w / 2}. \<exists>c \<in> {- (h / 2), h / 2}. p = corner a b c"
    using assms(7) by auto
  then obtain a b c where abc: "a \<in> {- (l / 2), l / 2}" "b \<in> {- (w / 2), w / 2}" "c \<in> {- (h / 2), h / 2}"
      "p = corner a b c" by blast
  then have "\<bar>a\<bar> = \<bar>l / 2\<bar>" "\<bar>b\<bar> = \<bar>w / 2\<bar>" "\<bar>c\<bar> = \<bar>h / 2\<bar>" by auto
  then show ?thesis using abc(4) unfolding corner_def by blast
qed

lemma built_cases:
  assumes "rz_valid (buildCurrentRigidCargoGeometry s pose T track horizontal vertical)"
  shows "validShape s" and "vec3_allFinite (lp_center_base pose)" and "lp_valid pose" and "validTransform T"
    and "rz_corners_base (buildCurrentRigidCargoGeometry s pose T track horizontal vertical) =
      buildCargoObbCornersBase s (lp_center_base pose)"
    and "rz_corners_map (buildCurrentRigidCargoGeometry s pose T track horizontal vertical) =
      map (iso_apply T) (buildCargoObbCornersBase s (lp_center_base pose))"
  using assms by (auto simp: buildCurrentRigidCargoGeometry_def rigid_unbuilt_def Let_def split: if_splits)

lemma iso_apply_finite:
  assumes "validTransform T" and "vec3_allFinite p"
  shows "vec3_allFinite (iso_apply T p)"
proof -
  have rows: "vec3_allFinite (iso_row0 T)" "vec3_allFinite (iso_row1 T)" "vec3_allFinite (iso_row2 T)"
    "vec3_allFinite (iso_translation T)"
    using assms(1) by (simp_all add: validTransform_def)
  have "isfinite (vec3_dot r p + k)" if "vec3_allFinite r" "isfinite k" for r k
    using that assms(2) by (auto simp: vec3_dot_def vec3_allFinite_def isfinite_iff)
  then show ?thesis using rows by (auto simp: iso_apply_def vec3_allFinite_def)
qed

section \<open>Held poses\<close>

lemma decay_bound:
  assumes "0 < (tau :: real)"
  shows "tau * (1 - exp (- t / tau)) \<le> t"
proof -
  have "1 + - t / tau \<le> exp (- t / tau)" by (rule exp_ge_add_one_self)
  then have "1 - exp (- t / tau) \<le> t / tau" by simp
  then have "tau * (1 - exp (- t / tau)) \<le> tau * (t / tau)" using assms by (intro mult_left_mono) simp_all
  then show ?thesis using assms by simp
qed

lemma decay_nonneg: "0 < (tau :: real) \<Longrightarrow> 0 \<le> t \<Longrightarrow> 0 \<le> tau * (1 - exp (- t / tau))"
  by (simp add: zero_le_mult_iff)

lemma held_FinE:
  assumes "held_input_ok pose velocity stamp max_prediction vxy vz tau growth max_uncertainty"
  obtains e t mp x z u g mu p0 where
    "lp_evidence_stamp_sec pose = Fin e" "stamp = Fin t" "max_prediction = Fin mp" "0 \<le> mp" "vxy = Fin x" "0 \<le> x"
    "vz = Fin z" "0 \<le> z" "tau = Fin u" "0 < u" "growth = Fin g" "0 \<le> g" "max_uncertainty = Fin mu" "0 \<le> mu"
    "lp_position_uncertainty_m pose = Fin p0" "0 \<le> p0" "vec3_allFinite (lp_center_base pose)" "vec3_allFinite velocity"
  using assms unfolding held_input_ok_def isfinite_iff
  by (elim conjE exE) (simp add: not_less not_le)

section \<open>Properties\<close>

text \<open>One step of the live pose filter is bounded: whatever was measured, a valid step moves the centre by at most
  the speed limits times the sensor interval plus the margin, horizontally and vertically, stores a velocity within the speed
  limits, and reports as tracking residual exactly what remains between measurement and filtered centre. A horizontal
  limit below a micrometre is not enforced below a micrometre.\<close>

theorem live_pose_step_bounded:
  assumes "lr_valid (updateCargoLivePoseStep i)"
  shows "\<exists>dt vxy vz margin. li_sensor_dt_sec i = Fin dt \<and> li_max_xy_speed_mps i = Fin vxy \<and> li_max_z_speed_mps i = Fin vz \<and>
    li_step_margin_m i = Fin margin \<and>
    within_rate (vec3_sub (lr_filtered_center (updateCargoLivePoseStep i)) (li_previous_center i))
      (vxy * dt + margin) (vz * dt + margin) \<and>
    within_rate (lr_filtered_velocity (updateCargoLivePoseStep i)) vxy vz \<and>
    lr_tracking_residual (updateCargoLivePoseStep i) =
      vec3_sub (li_measured_center i) (lr_filtered_center (updateCargoLivePoseStep i))"
proof -
  have ok: "step_input_ok i" using assms by (simp add: step_valid)
  then show ?thesis
  proof (cases rule: step_input_FinE)
    case (1 dt vxy vz margin ca va)
    have step: "\<exists>r w. lr_filtered_center (updateCargoLivePoseStep i) = vec3_add (li_previous_center i)
          (limitCargoPoseResidualByRate r (Fin dt) (Fin vxy) (Fin vz) (Fin margin)) \<and> vec3_allFinite r \<and>
        lr_filtered_velocity (updateCargoLivePoseStep i) =
          limitCargoPoseResidualByRate w (Fin 1) (Fin vxy) (Fin vz) (Fin 0) \<and> vec3_allFinite w \<and>
        lr_tracking_residual (updateCargoLivePoseStep i) =
          vec3_sub (li_measured_center i) (lr_filtered_center (updateCargoLivePoseStep i))"
      using ok 1 by (auto simp: updateCargoLivePoseStep_def Let_def vec3_finite intro!: exI conjI)
    then obtain r w where rw: "vec3_allFinite r" "vec3_allFinite w"
        "lr_filtered_center (updateCargoLivePoseStep i) = vec3_add (li_previous_center i)
          (limitCargoPoseResidualByRate r (Fin dt) (Fin vxy) (Fin vz) (Fin margin))"
        "lr_filtered_velocity (updateCargoLivePoseStep i) =
          limitCargoPoseResidualByRate w (Fin 1) (Fin vxy) (Fin vz) (Fin 0)"
        "lr_tracking_residual (updateCargoLivePoseStep i) =
          vec3_sub (li_measured_center i) (lr_filtered_center (updateCargoLivePoseStep i))" by blast
    have "within_rate (vec3_sub (lr_filtered_center (updateCargoLivePoseStep i)) (li_previous_center i))
        (vxy * dt + margin) (vz * dt + margin)"
      using limit_within_rate [OF 1(4,6,8,2) rw(1)] 1(11) by (simp add: rw(3) vec3_add_sub limit_finite)
    moreover have "within_rate (lr_filtered_velocity (updateCargoLivePoseStep i)) vxy vz"
      using limit_within_rate [OF 1(4,6) order_refl zero_less_one rw(2)] by (simp add: rw(4))
    ultimately show ?thesis using 1 rw(5) by blast
  qed
qed

definition demo_step :: CargoLivePoseStepInput where
  "demo_step =
     \<lparr>li_previous_center = vec3_zero, li_previous_velocity = vec3_zero,
      li_measured_center = \<lparr>v3x = Fin 10, v3y = Fin 0, v3z = Fin 0\<rparr>, li_sensor_dt_sec = Fin 0.1, li_center_alpha = Fin 1,
      li_velocity_alpha = Fin 1, li_max_xy_speed_mps = Fin 2, li_max_z_speed_mps = Fin 1, li_step_margin_m = Fin 0.05\<rparr>"

theorem live_pose_step_bounded_witness:
  "lr_valid (updateCargoLivePoseStep demo_step) \<and>
   within_rate (vec3_sub (lr_filtered_center (updateCargoLivePoseStep demo_step)) vec3_zero) 0.25 0.15"
proof -
  have valid: "lr_valid (updateCargoLivePoseStep demo_step)"
    by (simp add: step_valid step_input_ok_def demo_step_def vec3_allFinite_def vec3_zero_def)
  have sel: "li_sensor_dt_sec demo_step = Fin 0.1" "li_max_xy_speed_mps demo_step = Fin 2" "li_max_z_speed_mps demo_step = Fin 1"
    "li_step_margin_m demo_step = Fin 0.05" "li_previous_center demo_step = vec3_zero"
    by (simp_all add: demo_step_def)
  obtain dt vxy vz margin where eq: "Fin 0.1 = Fin dt" "Fin 2 = Fin vxy" "Fin 1 = Fin vz" "Fin 0.05 = Fin margin"
    and rate: "within_rate (vec3_sub (lr_filtered_center (updateCargoLivePoseStep demo_step)) vec3_zero)
      (vxy * dt + margin) (vz * dt + margin)"
    using live_pose_step_bounded [OF valid] unfolding sel by blast
  have "vxy * dt + margin = 0.25" "vz * dt + margin = 0.15" using eq by auto
  then show ?thesis using rate valid by (simp only: simp_thms)
qed

text \<open>The two tests of the box agree: for a footprint with positive dimensions and a finite point, the point is in the
  box without margins exactly when its distance to the footprint is zero and its height is in the interval; a
  point within a distance of the footprint is in the box widened by that distance, and a point in the widened box is at most
  the square root of two times the margin away (the corner of the widened box).\<close>

theorem obb_contains_distance:
  assumes "footprint_is f cx cy l w yaw lo hi" and "0 < l" and "0 < w" and "lo < hi" and "0 \<le> m" and "0 \<le> mz"
    and "p = \<lparr>v3x = Fin x, v3y = Fin y, v3z = Fin z\<rparr>"
  shows "(containsPointInCargoObbBase p f (Fin 0) (Fin 0) \<longleftrightarrow>
      pointToCargoObbDistance2D (vec3_head2 p) f = Fin 0 \<and> lo \<le> z \<and> z \<le> hi) \<and>
    (pointToCargoObbDistance2D (vec3_head2 p) f \<le> Fin m \<and> lo - mz \<le> z \<and> z \<le> hi + mz \<longrightarrow>
      containsPointInCargoObbBase p f (Fin m) (Fin mz)) \<and>
    (containsPointInCargoObbBase p f (Fin m) (Fin mz) \<longrightarrow>
      pointToCargoObbDistance2D (vec3_head2 p) f \<le> Fin (sqrt 2 * m))"
proof -
  define a where "a = excess (l / 2) (local_x yaw (x - cx) (y - cy))"
  define b where "b = excess (w / 2) (local_y yaw (x - cx) (y - cy))"
  have ab: "0 \<le> a" "0 \<le> b" by (simp_all add: a_def b_def excess_nonneg)
  have distance: "pointToCargoObbDistance2D (vec3_head2 p) f = Fin (sqrt (a * a + b * b))"
    using obb_distance_Fin [OF assms(1-3)] by (simp add: assms(7) vec3_head2_def a_def b_def)
  have contains: "containsPointInCargoObbBase p f (Fin k) (Fin kz) \<longleftrightarrow> a \<le> k \<and> b \<le> k \<and> lo - kz \<le> z \<and> z \<le> hi + kz"
    if "0 \<le> k" "0 \<le> kz" for k kz
    using obb_contains_Fin [OF assms(1) that] assms(2-4) by (simp add: assms(7) a_def b_def)
  have zero: "sqrt (a * a + b * b) = 0 \<longleftrightarrow> a \<le> 0 \<and> b \<le> 0" using ab by (auto simp: sum_squares_eq_zero_iff)
  have near: "a \<le> sqrt (a * a + b * b)" "b \<le> sqrt (a * a + b * b)"
    using real_sqrt_sum_squares_ge1 [of a b] real_sqrt_sum_squares_ge2 [of b a] by (simp_all add: power2_eq_square)
  have far: "sqrt (a * a + b * b) \<le> sqrt 2 * m" if "a \<le> m" "b \<le> m"
  proof -
    have "a * a \<le> m * m" "b * b \<le> m * m" using that ab by (auto intro: mult_mono)
    then have "sqrt (a * a + b * b) \<le> sqrt (2 * (m * m))" by (intro real_sqrt_le_mono) simp
    then show ?thesis using assms(5) by (simp add: real_sqrt_mult)
  qed
  show ?thesis
  proof (intro conjI impI)
    show "containsPointInCargoObbBase p f (Fin 0) (Fin 0) \<longleftrightarrow>
        pointToCargoObbDistance2D (vec3_head2 p) f = Fin 0 \<and> lo \<le> z \<and> z \<le> hi"
      using zero contains [OF order_refl order_refl] by (simp add: distance)
    assume le: "pointToCargoObbDistance2D (vec3_head2 p) f \<le> Fin m \<and> lo - mz \<le> z \<and> z \<le> hi + mz"
    then have "sqrt (a * a + b * b) \<le> m" by (simp add: distance)
    then have "a \<le> m" "b \<le> m" using near by linarith+
    then show "containsPointInCargoObbBase p f (Fin m) (Fin mz)" using le contains [OF assms(5,6)] by simp
  next
    assume "containsPointInCargoObbBase p f (Fin m) (Fin mz)"
    then show "pointToCargoObbDistance2D (vec3_head2 p) f \<le> Fin (sqrt 2 * m)"
      using far contains [OF assms(5,6)] by (simp add: distance)
  qed
qed

definition demo_footprint :: CargoObbFootprint where
  "demo_footprint =
     \<lparr>fp_valid = True, fp_center_base = vec2_zero, fp_length_m = Fin 2, fp_width_m = Fin 2, fp_yaw_base_rad = Fin 0,
      fp_min_z = Fin 0, fp_max_z = Fin 1\<rparr>"

theorem obb_contains_distance_witness:
  "containsPointInCargoObbBase \<lparr>v3x = Fin 2, v3y = Fin 2, v3z = Fin 0\<rparr> demo_footprint (Fin 1) (Fin 0) \<and>
   pointToCargoObbDistance2D \<lparr>v2x = Fin 2, v2y = Fin 2\<rparr> demo_footprint \<le> Fin (sqrt 2 * 1)"
proof -
  have box: "footprint_is demo_footprint 0 0 2 2 0 0 1" by (simp add: footprint_is_def demo_footprint_def vec2_zero_def)
  have "containsPointInCargoObbBase \<lparr>v3x = Fin 2, v3y = Fin 2, v3z = Fin 0\<rparr> demo_footprint (Fin 1) (Fin 0)"
    by (simp add: obb_contains_Fin [OF box] excess_def local_x_def local_y_def)
  then show ?thesis
    using obb_contains_distance [OF box _ _ _ _ _ refl, of 1 0 2 2 0] by (simp add: vec3_head2_def)
qed

lemma rigid_corners_inside:
  assumes valid: "rz_valid (buildCurrentRigidCargoGeometry s pose T track horizontal vertical)" and "0 \<le> e"
    and mem: "p \<in> set (rz_corners_base (buildCurrentRigidCargoGeometry s pose T track horizontal vertical))"
  shows "containsPointInCargoObbBase p
    (rigid_footprint (buildCurrentRigidCargoGeometry s pose T track horizontal vertical) (Fin e)) (Fin 0) (Fin 0)"
proof -
  let ?g = "buildCurrentRigidCargoGeometry s pose T track horizontal vertical"
  note built = built_cases [OF valid]
  obtain x y z where center: "lp_center_base pose = \<lparr>v3x = Fin x, v3y = Fin y, v3z = Fin z\<rparr>"
    using built(2) by (rule vec3_finiteE)
  obtain l w h yaw where shape: "lk_length_m s = Fin l" "lk_width_m s = Fin w" "lk_height_m s = Fin h"
      "lk_yaw_base_rad s = Fin yaw" "0 < w" "w \<le> l" "0 < h"
    using built(1) by (rule shape_FinE)
  have box: "footprint_is (rigid_footprint ?g (Fin e)) x y (l + 2 * e) (w + 2 * e) yaw (z - h / 2) (z + h / 2)"
    using valid assms(2) by (auto simp: buildCurrentRigidCargoGeometry_def rigid_unbuilt_def rigid_footprint_def
        footprint_is_def vec3_head2_def center shape Let_def split: if_splits)
  obtain a b c where abc: "\<bar>a\<bar> = \<bar>l / 2\<bar>" "\<bar>b\<bar> = \<bar>w / 2\<bar>" "\<bar>c\<bar> = \<bar>h / 2\<bar>"
    "p = \<lparr>v3x = Fin (x + (cos yaw * a - sin yaw * b)), v3y = Fin (y + (sin yaw * a + cos yaw * b)), v3z = Fin (z + c)\<rparr>"
    using corner_forms [OF built(1) center shape(1-4)] mem unfolding built(5) center by blast
  have "x + (cos yaw * a - sin yaw * b) - x = cos yaw * a - sin yaw * b"
    "y + (sin yaw * a + cos yaw * b) - y = sin yaw * a + cos yaw * b" by simp_all
  moreover have "- (h / 2) \<le> c" "c \<le> h / 2" using abc(3) shape(7) by linarith+
  ultimately show ?thesis
    unfolding abc(4) obb_contains_Fin [OF box order_refl order_refl] using abc(1-3) shape assms(2)
    by (simp add: rotate_back excess_def)
qed

text \<open>A built geometry is one consistent box: it has a valid shape under a valid pose and transform, its bottom is below
  its top, its eight corners lie in its own footprint (between its bottom and its top) and in its bounding
  box in the base frame, and their images under the transform are its corners and lie in its bounding box in the map.\<close>

theorem rigid_geometry_consistent:
  assumes "rz_valid (buildCurrentRigidCargoGeometry s pose T track horizontal vertical)"
  shows "let g = buildCurrentRigidCargoGeometry s pose T track horizontal vertical in
    validShape s \<and> validTransform T \<and> rz_bottom_z_base g < rz_top_z_base g \<and> length (rz_corners_base g) = 8 \<and>
    (\<forall>p \<in> set (rz_corners_base g). containsPointInCargoObbBase p (rigid_footprint g (Fin 0)) (Fin 0) (Fin 0) \<and>
       in_aabb (rz_aabb_min_base g) (rz_aabb_max_base g) p) \<and>
    rz_corners_map g = map (iso_apply T) (rz_corners_base g) \<and>
    (\<forall>p \<in> set (rz_corners_map g). in_aabb (rz_aabb_min_map g) (rz_aabb_max_map g) p)"
proof -
  let ?g = "buildCurrentRigidCargoGeometry s pose T track horizontal vertical"
  note built = built_cases [OF assms]
  obtain x y z where center: "lp_center_base pose = \<lparr>v3x = Fin x, v3y = Fin y, v3z = Fin z\<rparr>"
    using built(2) by (rule vec3_finiteE)
  obtain l w h yaw where shape: "lk_length_m s = Fin l" "lk_width_m s = Fin w" "lk_height_m s = Fin h"
      "lk_yaw_base_rad s = Fin yaw" "0 < w" "w \<le> l" "0 < h"
    using built(1) by (rule shape_FinE)
  note corner = corner_forms [OF built(1) center shape(1-4)]
  have fin: "\<forall>p \<in> set (rz_corners_base ?g). vec3_allFinite p"
    using corner unfolding built(5) center by (fastforce simp: vec3_allFinite_def)
  have fields: "rz_bottom_z_base ?g = Fin (z - h / 2)" "rz_top_z_base ?g = Fin (z + h / 2)"
    "rz_aabb_min_base ?g = foldl vec3_cwiseMin (hd (rz_corners_base ?g)) (rz_corners_base ?g)"
    "rz_aabb_max_base ?g = foldl vec3_cwiseMax (hd (rz_corners_base ?g)) (rz_corners_base ?g)"
    "rz_aabb_min_map ?g = foldl vec3_cwiseMin (hd (rz_corners_map ?g)) (tl (rz_corners_map ?g))"
    "rz_aabb_max_map ?g = foldl vec3_cwiseMax (hd (rz_corners_map ?g)) (tl (rz_corners_map ?g))"
    using assms by (auto simp: buildCurrentRigidCargoGeometry_def rigid_unbuilt_def center shape Let_def
        split: if_splits)
  have inside: "containsPointInCargoObbBase p (rigid_footprint ?g (Fin 0)) (Fin 0) (Fin 0)"
    if mem: "p \<in> set (rz_corners_base ?g)" for p
    using rigid_corners_inside [OF assms order_refl mem] .
  have mapped: "\<forall>p \<in> set (rz_corners_map ?g). vec3_allFinite p"
    using fin iso_apply_finite [OF built(4)] unfolding built(5,6) by auto
  have eight: "length (rz_corners_base ?g) = 8"
    unfolding built(5) by (simp add: buildCargoObbCornersBase_def Let_def)
  show ?thesis
    unfolding Let_def
    using built(1,4) inside aabb_holds(1) [OF fin] aabb_holds(2) [OF mapped] shape(7) eight built(5,6)
    by (simp add: fields)
qed

definition demo_shape :: LockedCargoShape where
  "demo_shape =
     \<lparr>lk_valid = True, lk_length_m = Fin 2, lk_width_m = Fin 1, lk_height_m = Fin 1, lk_yaw_base_rad = Fin 0.5,
      lk_orientation_confidence = Fin 1\<rparr>"

definition demo_pose :: LiveCargoPose where
  "demo_pose =
     default_LiveCargoPose\<lparr>lp_valid := True, lp_evidence_stamp_sec := Fin 1, lp_evaluation_stamp_sec := Fin 1\<rparr>"

definition identity_transform :: isometry3 where
  "identity_transform =
     \<lparr>iso_row0 = \<lparr>v3x = Fin 1, v3y = Fin 0, v3z = Fin 0\<rparr>, iso_row1 = \<lparr>v3x = Fin 0, v3y = Fin 1, v3z = Fin 0\<rparr>,
      iso_row2 = \<lparr>v3x = Fin 0, v3y = Fin 0, v3z = Fin 1\<rparr>, iso_translation = vec3_zero\<rparr>"

lemma demo_rigid_valid: "rz_valid (buildCurrentRigidCargoGeometry demo_shape demo_pose identity_transform 1 (Fin 0) (Fin 0))"
  by (simp add: buildCurrentRigidCargoGeometry_def validShape_def demo_shape_def demo_pose_def default_LiveCargoPose_def
      validTransform_def identity_transform_def vec3_allFinite_def vec3_zero_def vec3_dot_def iso_column_def
      iso_determinant_def Let_def)

theorem rigid_geometry_consistent_witness:
  "rz_bottom_z_base (buildCurrentRigidCargoGeometry demo_shape demo_pose identity_transform 1 (Fin 0) (Fin 0)) <
   rz_top_z_base (buildCurrentRigidCargoGeometry demo_shape demo_pose identity_transform 1 (Fin 0) (Fin 0))"
  using rigid_geometry_consistent [OF demo_rigid_valid] unfolding Let_def by blast


lemma axial_zero: "axial_down 0 = 0" "axial_up 0 = 0"
proof -
  show "axial_down 0 = 0" by (subst axial_down.simps) (simp add: linorder_not_le [THEN iffD2])
  show "axial_up 0 = 0" by (subst axial_up.simps) simp
qed

text \<open>The map removal and the safety checks sweep the box between two poses: when neither footprint is degenerate and
  their yaws agree, every point of the first and of the last box (with the margins asked for) is in the sweep.\<close>

theorem sweep_covers_ends:
  assumes "footprint_is start cx cy l w yaw lo hi" and "footprint_is finish cx' cy' l' w' yaw lo' hi'"
    and "0 < step" and "vec3_allFinite p"
    and "containsPointInCargoObbBase p start margin_xy margin_z \<or> containsPointInCargoObbBase p finish margin_xy margin_z"
  shows "containsPointInSweptCargoObbBase p start finish margin_xy margin_z (Fin step)"
proof -
  let ?n = "sweep_steps start finish (Fin step)"
  have n: "1 \<le> ?n" by (simp add: sweep_steps_def cpp_clamp_def Let_def)
  have ends: "sweep_sample start finish (Fin 0) = start" "sweep_sample start finish (Fin 1) = finish"
    using assms(1,2) by (cases start; cases finish; simp add: sweep_sample_def footprint_is_def blend_def)+
  have yaw: "\<not> Fin 0.001 < cargoAxialYawDifference (fp_yaw_base_rad start) (fp_yaw_base_rad finish)"
    using assms(1,2) by (simp add: footprint_is_def cargoAxialYawDifference_def axial_zero)
  have "\<exists>index \<in> {0..?n}. containsPointInCargoObbBase p
      (sweep_sample start finish (Fin (real_of_int index / real_of_int ?n))) margin_xy margin_z"
  proof (cases "containsPointInCargoObbBase p start margin_xy margin_z")
    case True
    then show ?thesis using n ends(1) by (intro bexI [of _ 0]) simp_all
  next
    case False
    then show ?thesis using n ends(2) assms(5) by (intro bexI [of _ ?n]) simp_all
  qed
  then show ?thesis
    using assms(1-4) yaw
    by (auto simp: containsPointInSweptCargoObbBase_def list_ex_iff footprint_is_def Let_def)
qed

theorem sweep_covers_ends_witness:
  "containsPointInSweptCargoObbBase \<lparr>v3x = Fin 0, v3y = Fin 0, v3z = Fin 0\<rparr> demo_footprint demo_footprint (Fin 0) (Fin 0)
     (Fin 0.08)"
proof -
  have box: "footprint_is demo_footprint 0 0 2 2 0 0 1" by (simp add: footprint_is_def demo_footprint_def vec2_zero_def)
  have "containsPointInCargoObbBase \<lparr>v3x = Fin 0, v3y = Fin 0, v3z = Fin 0\<rparr> demo_footprint (Fin 0) (Fin 0)"
    by (simp add: obb_contains_Fin [OF box] excess_def local_x_def local_y_def)
  then show ?thesis by (intro sweep_covers_ends [OF box box]) (simp_all add: vec3_allFinite_def)
qed

text \<open>The arguments of one propagation of a held pose.\<close>

record held_arguments =
  hg_velocity :: vec3
  hg_stamp :: dbl
  hg_max_prediction :: dbl
  hg_max_xy_speed :: dbl
  hg_max_z_speed :: dbl
  hg_decay :: dbl
  hg_growth :: dbl
  hg_max_uncertainty :: dbl

definition hold_pose :: "LiveCargoPose \<Rightarrow> held_arguments \<Rightarrow> LiveCargoPose" where
  "hold_pose pose a =
     propagateHeldCargoPose pose (hg_velocity a) (hg_stamp a) (hg_max_prediction a) (hg_max_xy_speed a)
       (hg_max_z_speed a) (hg_decay a) (hg_growth a) (hg_max_uncertainty a)"

lemma hold_pose_keeps:
  assumes "lp_valid (hold_pose pose a)"
  shows "lp_valid pose \<and> lp_evidence_stamp_sec (hold_pose pose a) = lp_evidence_stamp_sec pose \<and>
    lp_evaluation_stamp_sec (hold_pose pose a) = hg_stamp a \<and>
    lp_position_uncertainty_m pose \<le> lp_position_uncertainty_m (hold_pose pose a)"
proof -
  have ok: "held_input_ok pose (hg_velocity a) (hg_stamp a) (hg_max_prediction a) (hg_max_xy_speed a) (hg_max_z_speed a)
      (hg_decay a) (hg_growth a) (hg_max_uncertainty a)"
    using assms by (auto simp: hold_pose_def propagateHeldCargoPose_def default_LiveCargoPose_def split: if_splits)
  then have valid: "lp_valid pose" by (simp add: held_input_ok_def)
  from ok obtain p u g e t where p: "lp_position_uncertainty_m pose = Fin p" "hg_max_uncertainty a = Fin u"
      "hg_growth a = Fin g" "lp_evidence_stamp_sec pose = Fin e" "hg_stamp a = Fin t"
    by (rule held_FinE)
  have "lp_position_uncertainty_m pose \<le> lp_position_uncertainty_m (hold_pose pose a)"
    using ok p by (simp add: hold_pose_def propagateHeldCargoPose_def Let_def cpp_max_Fin cpp_min_Fin)
  then show ?thesis using ok valid by (simp add: hold_pose_def propagateHeldCargoPose_def Let_def)
qed

lemma hold_pose_finite:
  assumes "lp_valid (hold_pose pose a)"
  shows "isfinite (lp_position_uncertainty_m (hold_pose pose a))"
proof -
  have ok: "held_input_ok pose (hg_velocity a) (hg_stamp a) (hg_max_prediction a) (hg_max_xy_speed a) (hg_max_z_speed a)
      (hg_decay a) (hg_growth a) (hg_max_uncertainty a)"
    using assms by (auto simp: hold_pose_def propagateHeldCargoPose_def default_LiveCargoPose_def split: if_splits)
  from ok obtain p u g e t where "lp_position_uncertainty_m pose = Fin p" "hg_max_uncertainty a = Fin u"
      "hg_growth a = Fin g" "lp_evidence_stamp_sec pose = Fin e" "hg_stamp a = Fin t"
    by (rule held_FinE)
  then show ?thesis using ok by (simp add: hold_pose_def propagateHeldCargoPose_def Let_def cpp_max_Fin cpp_min_Fin)
qed

lemma held_run_keeps:
  assumes "lp_valid (foldl hold_pose pose arguments)"
  shows "lp_valid pose \<and> lp_evidence_stamp_sec (foldl hold_pose pose arguments) = lp_evidence_stamp_sec pose \<and>
    (\<forall>u. lp_position_uncertainty_m pose = Fin u \<longrightarrow>
      (\<exists>v. lp_position_uncertainty_m (foldl hold_pose pose arguments) = Fin v \<and> u \<le> v))"
  using assms
proof (induction arguments arbitrary: pose)
  case (Cons a rest)
  have later: "lp_valid (hold_pose pose a)"
    "lp_evidence_stamp_sec (foldl hold_pose pose (a # rest)) = lp_evidence_stamp_sec (hold_pose pose a)"
    using Cons.IH [of "hold_pose pose a"] Cons.prems by simp_all
  have grows: "\<exists>v. lp_position_uncertainty_m (foldl hold_pose pose (a # rest)) = Fin v \<and> u \<le> v"
    if u: "lp_position_uncertainty_m pose = Fin u" for u
  proof -
    obtain k where k: "lp_position_uncertainty_m (hold_pose pose a) = Fin k" "u \<le> k"
      using hold_pose_finite [OF later(1)] hold_pose_keeps [OF later(1)] u by (auto simp: isfinite_iff)
    then show ?thesis using Cons.IH [of "hold_pose pose a"] Cons.prems by fastforce
  qed
  show ?case using later hold_pose_keeps [OF later(1)] grows by simp
qed simp

text \<open>C17. Holding a pose never refreshes its evidence: after any sequence of propagations, with any velocities, limits and
  stamps, a pose that is still valid carries the physical evidence stamp it started with and at least its uncertainty,
  so whenever the held geometry is still fit for formal use, no more than the configured holding time (and the stamp
  tolerance) has passed since that first observation.\<close>

theorem held_pose_expires:
  assumes "lp_valid (foldl hold_pose pose arguments)" and "lp_evidence_stamp_sec pose = Fin e"
    and "lp_position_uncertainty_m pose = Fin u"
    and "fu_formal_safety_valid (evaluateCargoFormalUse geometry_valid lost (Fin now)
      (lp_evidence_stamp_sec (foldl hold_pose pose arguments)) (lp_evidence_stamp_sec (foldl hold_pose pose arguments))
      (Fin xy_hold) (Fin vertical_hold) (lp_position_uncertainty_m (foldl hold_pose pose arguments)))"
  shows "lp_evidence_stamp_sec (foldl hold_pose pose arguments) = Fin e \<and>
    (\<exists>v. lp_position_uncertainty_m (foldl hold_pose pose arguments) = Fin v \<and> u \<le> v) \<and>
    e - 0.0001 \<le> now \<and> now \<le> e + min xy_hold vertical_hold + 0.0001"
  using held_run_keeps [OF assms(1)] assms(2-4)
  by (auto simp: evaluateCargoFormalUse_def Let_def not_less split: if_splits)

definition demo_hold :: held_arguments where
  "demo_hold =
     \<lparr>hg_velocity = vec3_zero, hg_stamp = Fin 1.2, hg_max_prediction = Fin 0.3, hg_max_xy_speed = Fin 2,
      hg_max_z_speed = Fin 1, hg_decay = Fin 1, hg_growth = Fin 0.1, hg_max_uncertainty = Fin 1\<rparr>"

lemma demo_held:
  "hold_pose (demo_pose\<lparr>lp_position_uncertainty_m := Fin 0.5\<rparr>) demo_hold =
     (demo_pose\<lparr>lp_position_uncertainty_m := Fin 0.52, lp_source := RECENT_STABLE_HOLD,
        lp_vertical_source := DISPLAY_FROZEN, lp_evaluation_stamp_sec := Fin 1.2\<rparr>)"
  by (simp add: hold_pose_def propagateHeldCargoPose_def held_input_ok_def demo_pose_def demo_hold_def Let_def
      default_LiveCargoPose_def vec3_allFinite_def vec3_zero_def limitCargoPoseResidualByRate_def vec3_norm_def
      vec3_dot_def cpp_max_Fin cpp_min_Fin cpp_clamp_def vec2_norm_def vec3_head2_def)

theorem held_pose_expires_witness:
  "lp_evidence_stamp_sec (foldl hold_pose (demo_pose\<lparr>lp_position_uncertainty_m := Fin 0.5\<rparr>) [demo_hold]) = Fin 1"
proof -
  have run: "foldl hold_pose (demo_pose\<lparr>lp_position_uncertainty_m := Fin 0.5\<rparr>) [demo_hold] =
     demo_pose\<lparr>lp_position_uncertainty_m := Fin 0.52, lp_source := RECENT_STABLE_HOLD,
        lp_vertical_source := DISPLAY_FROZEN, lp_evaluation_stamp_sec := Fin 1.2\<rparr>"
    using demo_held by simp
  show ?thesis
    by (rule held_pose_expires [of _ _ _ "0.5" True False "1.2" "0.5" "0.5", THEN conjunct1]; (simp only: run)?)
      (simp_all add: demo_pose_def default_LiveCargoPose_def evaluateCargoFormalUse_def Let_def)
qed

text \<open>A height that may be used formally is backed: the rigid geometry is valid with its bottom below its top and gives
  the interval and the stamp, the evidence is no older than the holding time, the uncertainty is at least the one
  of the geometry and at least the one of a valid bottom result, and the source and confidence are those of that result or,
  without one, the lower ones of a recent stable hold.\<close>

theorem formal_height_backed:
  assumes "fh_valid (evaluateCargoFormalHeight bottom g (evaluateCargoFormalUse (rz_valid g) lost now
      (rz_pose_evidence_stamp_sec g) (rz_height_evidence_stamp_sec g) xy_hold vertical_hold uncertainty))"
  shows "\<exists>d h t hold. evaluateCargoFormalHeight bottom g (evaluateCargoFormalUse (rz_valid g) lost now
      (rz_pose_evidence_stamp_sec g) (rz_height_evidence_stamp_sec g) xy_hold vertical_hold uncertainty) = d \<and>
    rz_valid g \<and> rz_bottom_z_base g < rz_top_z_base g \<and>
    fh_bottom_z_base d = rz_bottom_z_base g \<and> fh_top_z_base d = rz_top_z_base g \<and>
    rz_height_evidence_stamp_sec g = Fin h \<and> fh_evidence_stamp_sec d = Fin h \<and> now = Fin t \<and> vertical_hold = Fin hold \<and>
    t - h \<le> hold + 0.0001 \<and> h - 0.0001 \<le> t \<and>
    (\<forall>r. rz_vertical_uncertainty_m g = Fin r \<longrightarrow> Fin r \<le> fh_uncertainty_m d) \<and>
    (\<forall>r. bo_valid bottom \<longrightarrow> bo_uncertainty bottom = Fin r \<longrightarrow> Fin r \<le> fh_uncertainty_m d) \<and>
    fh_source d = (if bo_valid bottom then bo_source bottom else RECENT_STABLE)"
proof -
  let ?use = "evaluateCargoFormalUse (rz_valid g) lost now (rz_pose_evidence_stamp_sec g) (rz_height_evidence_stamp_sec g)
    xy_hold vertical_hold uncertainty"
  have use: "fu_formal_safety_valid ?use"
    using assms by (auto simp: evaluateCargoFormalHeight_def default_CargoFormalHeightDecision_def Let_def split: if_splits)
  then obtain h t hold where times: "rz_height_evidence_stamp_sec g = Fin h" "now = Fin t" "vertical_hold = Fin hold"
      "t - h \<le> hold + 0.0001" "h - 0.0001 \<le> t"
    by (auto simp: evaluateCargoFormalUse_def Let_def isfinite_iff not_less split: if_splits)
  show ?thesis
    by (rule exI [of _ "evaluateCargoFormalHeight bottom g ?use"])
      (use assms use times in \<open>auto simp: evaluateCargoFormalHeight_def default_CargoFormalHeightDecision_def Let_def
        cpp_max_def not_le isfinite_iff split: if_splits\<close>)
qed

definition no_bottom :: CargoBottomResult where
  "no_bottom = \<lparr>bo_valid = False, bo_source = INVALID, bo_reason = '''', bo_uncertainty = Fin 1, bo_confidence = Fin 0\<rparr>"

theorem formal_height_backed_witness:
  "fh_bottom_z_base (evaluateCargoFormalHeight no_bottom
     (buildCurrentRigidCargoGeometry demo_shape demo_pose identity_transform 1 (Fin 0) (Fin 0))
     (evaluateCargoFormalUse True False (Fin 1) (Fin 1) (Fin 1) (Fin 1) (Fin 1) (Fin 0))) = Fin (- 0.5)"
proof -
  let ?g = "buildCurrentRigidCargoGeometry demo_shape demo_pose identity_transform 1 (Fin 0) (Fin 0)"
  have valid: "rz_valid ?g" "validShape demo_shape" "validTransform identity_transform"
    using demo_rigid_valid built_cases [OF demo_rigid_valid] by simp_all
  then have fields: "rz_pose_evidence_stamp_sec ?g = Fin 1" "rz_height_evidence_stamp_sec ?g = Fin 1"
    "rz_bottom_z_base ?g = Fin (- 0.5)" "rz_top_z_base ?g = Fin 0.5" "rz_vertical_uncertainty_m ?g = Fin 0"
    by (simp_all add: buildCurrentRigidCargoGeometry_def demo_shape_def demo_pose_def default_LiveCargoPose_def
        vec3_allFinite_def vec3_zero_def Let_def)
  have ok: "fh_valid (evaluateCargoFormalHeight no_bottom ?g (evaluateCargoFormalUse (rz_valid ?g) False (Fin 1)
      (rz_pose_evidence_stamp_sec ?g) (rz_height_evidence_stamp_sec ?g) (Fin 1) (Fin 1) (Fin 0)))"
    unfolding fields using valid(1)
    by (simp add: evaluateCargoFormalHeight_def evaluateCargoFormalUse_def no_bottom_def fields Let_def
        cpp_max_Fin)
  show ?thesis using formal_height_backed [OF ok] valid(1) by (simp add: fields)
qed

end
