(* ===== verification/Cargo_Envelope.thy ===== *)
theory Cargo_Envelope
  imports Cargo_Presence Rigid_Geometry
begin

text \<open>
  The envelope of the cargo (\<^verbatim>\<open>pending_cargo_envelope.hpp/.cpp\<close>): while the cargo is lifted but not yet locked,
  \<^verbatim>\<open>buildPendingCargoEnvelope\<close> picks the best usable pose and the best usable shape, each from its own ladder
  of candidates, and combines them into a box; \<^verbatim>\<open>resolveEffectiveCargoEnvelope\<close> prefers the formal rigid
  geometry and says whether the envelope may authorise a clear. The vertical plausibility test compares a pose with
  the ground, the hook anchor and the last trusted centre.
\<close>

section \<open>Sources\<close>

datatype PendingCargoEnvelopeSource =
  NONE | CURRENT_CANDIDATE | RETIRED_FORMAL_SHAPE | LIFT_ORIGIN_CANDIDATE | CONFIGURED_CONSERVATIVE | ACTIVE_LOCKED_TRACK

datatype CargoEnvelopePoseSource =
  NONE | CURRENT_ASSOCIATED_LIDAR | SHORT_TERM_TRACK_PREDICTION | RETIRED_TRACK_PREDICTION
  | HOOK_PLUS_LAST_RELIABLE_OFFSET | HOOK_DEFAULT_OFFSET

datatype CargoEnvelopeShapeSource =
  NONE | FORMAL_FROZEN_GEOMETRY | CURRENT_HIGH_QUALITY_LIDAR | RETIRED_LOCKED_SHAPE | STATIC_ORIGIN_COMPONENT
  | CONFIGURED_CONSERVATIVE_DEFAULT | CURRENT_TRACKED_BOUNDED_SHAPE | ACTIVE_LOCKED_TRACK_SHAPE

datatype EffectiveCargoEnvelopeSource =
  NONE | FORMAL_FROZEN_GEOMETRY | CURRENT_ASSOCIATED_TRACK | RETIRED_LOCKED_SHAPE | STATIC_ORIGIN_COMPONENT
  | CONFIGURED_CONSERVATIVE_DEFAULT

fun cargoEnvelopePoseSourceName :: "CargoEnvelopePoseSource \<Rightarrow> string" where
  "cargoEnvelopePoseSourceName CargoEnvelopePoseSource.NONE = ''NONE''"
| "cargoEnvelopePoseSourceName CargoEnvelopePoseSource.CURRENT_ASSOCIATED_LIDAR = ''CURRENT_ASSOCIATED_LIDAR''"
| "cargoEnvelopePoseSourceName SHORT_TERM_TRACK_PREDICTION = ''SHORT_TERM_TRACK_PREDICTION''"
| "cargoEnvelopePoseSourceName RETIRED_TRACK_PREDICTION = ''RETIRED_TRACK_PREDICTION''"
| "cargoEnvelopePoseSourceName HOOK_PLUS_LAST_RELIABLE_OFFSET = ''HOOK_PLUS_LAST_RELIABLE_OFFSET''"
| "cargoEnvelopePoseSourceName HOOK_DEFAULT_OFFSET = ''HOOK_DEFAULT_OFFSET''"

fun cargoEnvelopeShapeSourceName :: "CargoEnvelopeShapeSource \<Rightarrow> string" where
  "cargoEnvelopeShapeSourceName CargoEnvelopeShapeSource.NONE = ''NONE''"
| "cargoEnvelopeShapeSourceName CargoEnvelopeShapeSource.FORMAL_FROZEN_GEOMETRY = ''FORMAL_FROZEN_GEOMETRY''"
| "cargoEnvelopeShapeSourceName CURRENT_HIGH_QUALITY_LIDAR = ''CURRENT_HIGH_QUALITY_LIDAR''"
| "cargoEnvelopeShapeSourceName CURRENT_TRACKED_BOUNDED_SHAPE = ''CURRENT_TRACKED_BOUNDED_SHAPE''"
| "cargoEnvelopeShapeSourceName ACTIVE_LOCKED_TRACK_SHAPE = ''ACTIVE_LOCKED_TRACK_SHAPE''"
| "cargoEnvelopeShapeSourceName CargoEnvelopeShapeSource.RETIRED_LOCKED_SHAPE = ''RETIRED_LOCKED_SHAPE''"
| "cargoEnvelopeShapeSourceName CargoEnvelopeShapeSource.STATIC_ORIGIN_COMPONENT = ''STATIC_ORIGIN_COMPONENT''"
| "cargoEnvelopeShapeSourceName CargoEnvelopeShapeSource.CONFIGURED_CONSERVATIVE_DEFAULT =
     ''CONFIGURED_CONSERVATIVE_DEFAULT''"

fun pendingCargoEnvelopeSourceName :: "PendingCargoEnvelopeSource \<Rightarrow> string" where
  "pendingCargoEnvelopeSourceName PendingCargoEnvelopeSource.NONE = ''NONE''"
| "pendingCargoEnvelopeSourceName CURRENT_CANDIDATE = ''CURRENT_CANDIDATE''"
| "pendingCargoEnvelopeSourceName RETIRED_FORMAL_SHAPE = ''RETIRED_FORMAL_SHAPE''"
| "pendingCargoEnvelopeSourceName LIFT_ORIGIN_CANDIDATE = ''LIFT_ORIGIN_CANDIDATE''"
| "pendingCargoEnvelopeSourceName CONFIGURED_CONSERVATIVE = ''CONFIGURED_CONSERVATIVE''"
| "pendingCargoEnvelopeSourceName ACTIVE_LOCKED_TRACK = ''ACTIVE_LOCKED_TRACK''"

fun effectiveCargoEnvelopeSourceName :: "EffectiveCargoEnvelopeSource \<Rightarrow> string" where
  "effectiveCargoEnvelopeSourceName EffectiveCargoEnvelopeSource.NONE = ''NONE''"
| "effectiveCargoEnvelopeSourceName EffectiveCargoEnvelopeSource.FORMAL_FROZEN_GEOMETRY = ''FORMAL_FROZEN_GEOMETRY''"
| "effectiveCargoEnvelopeSourceName CURRENT_ASSOCIATED_TRACK = ''CURRENT_ASSOCIATED_TRACK''"
| "effectiveCargoEnvelopeSourceName EffectiveCargoEnvelopeSource.RETIRED_LOCKED_SHAPE = ''RETIRED_LOCKED_SHAPE''"
| "effectiveCargoEnvelopeSourceName EffectiveCargoEnvelopeSource.STATIC_ORIGIN_COMPONENT = ''STATIC_ORIGIN_COMPONENT''"
| "effectiveCargoEnvelopeSourceName EffectiveCargoEnvelopeSource.CONFIGURED_CONSERVATIVE_DEFAULT =
     ''CONFIGURED_CONSERVATIVE_DEFAULT''"

section \<open>Data\<close>

record CargoEnvelopePoseCandidate =
  ep_valid :: bool
  ep_center_base :: vec3
  ep_yaw_base_rad :: dbl
  ep_yaw_authoritative :: bool
  ep_horizontal_uncertainty_m :: dbl
  ep_vertical_uncertainty_m :: dbl
  ep_evidence_stamp_sec :: dbl
  ep_cargo_lifecycle_id :: u64
  ep_source :: CargoEnvelopePoseSource

definition default_CargoEnvelopePoseCandidate :: CargoEnvelopePoseCandidate where
  "default_CargoEnvelopePoseCandidate =
     \<lparr>ep_valid = False, ep_center_base = vec3_zero, ep_yaw_base_rad = Fin 0, ep_yaw_authoritative = False,
      ep_horizontal_uncertainty_m = Fin 0, ep_vertical_uncertainty_m = Fin 0, ep_evidence_stamp_sec = Fin 0,
      ep_cargo_lifecycle_id = 0, ep_source = CargoEnvelopePoseSource.NONE\<rparr>"

record CargoEnvelopeShapeCandidate =
  es_valid :: bool
  es_length_m :: dbl
  es_width_m :: dbl
  es_height_m :: dbl
  es_yaw_rad :: dbl
  es_uncertainty_m :: dbl
  es_evidence_stamp_sec :: dbl
  es_cargo_lifecycle_id :: u64
  es_source :: CargoEnvelopeShapeSource

definition default_CargoEnvelopeShapeCandidate :: CargoEnvelopeShapeCandidate where
  "default_CargoEnvelopeShapeCandidate =
     \<lparr>es_valid = False, es_length_m = Fin 0, es_width_m = Fin 0, es_height_m = Fin 0, es_yaw_rad = Fin 0,
      es_uncertainty_m = Fin 0, es_evidence_stamp_sec = Fin 0, es_cargo_lifecycle_id = 0,
      es_source = CargoEnvelopeShapeSource.NONE\<rparr>"

record PendingCargoEnvelopeConfig =
  ec_configured_length_m :: dbl
  ec_configured_width_m :: dbl
  ec_configured_height_m :: dbl
  ec_configured_center_offset_z_m :: dbl
  ec_horizontal_margin_m :: dbl
  ec_vertical_margin_m :: dbl
  ec_maximum_candidate_age_sec :: dbl
  ec_maximum_retired_age_sec :: dbl
  ec_candidate_shape_hold_sec :: dbl
  ec_candidate_shape_growth_rate_mps :: dbl
  ec_candidate_shape_shrink_rate_mps :: dbl
  ec_maximum_fallback_sway_offset_m :: dbl
  ec_lost_position_uncertainty_per_sec :: dbl
  ec_maximum_lost_position_uncertainty_m :: dbl

definition default_PendingCargoEnvelopeConfig :: PendingCargoEnvelopeConfig where
  "default_PendingCargoEnvelopeConfig =
     \<lparr>ec_configured_length_m = Fin 1.5, ec_configured_width_m = Fin 1, ec_configured_height_m = Fin 1,
      ec_configured_center_offset_z_m = Fin (- 1.5), ec_horizontal_margin_m = Fin 0.2, ec_vertical_margin_m = Fin 0.15,
      ec_maximum_candidate_age_sec = Fin 0.5, ec_maximum_retired_age_sec = Fin 8, ec_candidate_shape_hold_sec = Fin 3,
      ec_candidate_shape_growth_rate_mps = Fin 0.3, ec_candidate_shape_shrink_rate_mps = Fin 0.05,
      ec_maximum_fallback_sway_offset_m = Fin 0.8, ec_lost_position_uncertainty_per_sec = Fin 0.15,
      ec_maximum_lost_position_uncertainty_m = Fin 1\<rparr>"

record PendingCargoEnvelopeInput =
  ei_stamp_sec :: dbl
  ei_hook_loaded :: bool
  ei_cargo_lifecycle_id :: u64
  ei_current_associated_pose :: CargoEnvelopePoseCandidate
  ei_short_term_track_pose :: CargoEnvelopePoseCandidate
  ei_retired_track_pose :: CargoEnvelopePoseCandidate
  ei_hook_last_offset_pose :: CargoEnvelopePoseCandidate
  ei_hook_default_pose :: CargoEnvelopePoseCandidate
  ei_formal_frozen_shape :: CargoEnvelopeShapeCandidate
  ei_active_locked_shape :: CargoEnvelopeShapeCandidate
  ei_current_high_quality_shape :: CargoEnvelopeShapeCandidate
  ei_current_tracked_bounded_shape :: CargoEnvelopeShapeCandidate
  ei_retired_locked_shape :: CargoEnvelopeShapeCandidate
  ei_static_origin_shape :: CargoEnvelopeShapeCandidate

record PendingCargoEnvelope =
  pe_valid :: bool
  pe_source :: PendingCargoEnvelopeSource
  pe_pose_source :: CargoEnvelopePoseSource
  pe_shape_source :: CargoEnvelopeShapeSource
  pe_center_base :: vec3
  pe_length_m :: dbl
  pe_width_m :: dbl
  pe_height_m :: dbl
  pe_yaw_base_rad :: dbl
  pe_bottom_z_base :: dbl
  pe_top_z_base :: dbl
  pe_horizontal_uncertainty_m :: dbl
  pe_vertical_uncertainty_m :: dbl
  pe_evidence_stamp_sec :: dbl
  pe_evaluation_stamp_sec :: dbl
  pe_age_sec :: dbl
  pe_cargo_lifecycle_id :: u64
  pe_reason :: string

text \<open>The envelope that was not built, with its reason.\<close>

definition no_PendingCargoEnvelope :: "string \<Rightarrow> PendingCargoEnvelope" where
  "no_PendingCargoEnvelope reason =
     \<lparr>pe_valid = False, pe_source = PendingCargoEnvelopeSource.NONE, pe_pose_source = CargoEnvelopePoseSource.NONE,
      pe_shape_source = CargoEnvelopeShapeSource.NONE, pe_center_base = vec3_zero, pe_length_m = Fin 0,
      pe_width_m = Fin 0, pe_height_m = Fin 0, pe_yaw_base_rad = Fin 0, pe_bottom_z_base = NaN, pe_top_z_base = NaN,
      pe_horizontal_uncertainty_m = Fin 0, pe_vertical_uncertainty_m = Fin 0, pe_evidence_stamp_sec = Fin 0,
      pe_evaluation_stamp_sec = Fin 0, pe_age_sec = Fin 0, pe_cargo_lifecycle_id = 0, pe_reason = reason\<rparr>"

record CargoEnvelopeResolverConfig =
  er_configured_length_m :: dbl
  er_configured_width_m :: dbl
  er_configured_height_m :: dbl
  er_configured_center_z_m :: dbl
  er_horizontal_uncertainty_m :: dbl
  er_vertical_uncertainty_m :: dbl
  er_maximum_formal_height_age_sec :: dbl
  er_maximum_formal_pose_age_sec :: dbl

record EffectiveCargoEnvelope =
  ee_valid :: bool
  ee_formal :: bool
  ee_fallback_active :: bool
  ee_can_authorize_clear :: bool
  ee_source :: EffectiveCargoEnvelopeSource
  ee_pose_source :: CargoEnvelopePoseSource
  ee_shape_source :: CargoEnvelopeShapeSource
  ee_footprint :: CargoObbFootprint
  ee_horizontal_uncertainty_m :: dbl
  ee_vertical_uncertainty_m :: dbl
  ee_evidence_stamp_sec :: dbl
  ee_age_sec :: dbl
  ee_cargo_lifecycle_id :: u64
  ee_reason :: string

definition no_EffectiveCargoEnvelope :: "string \<Rightarrow> EffectiveCargoEnvelope" where
  "no_EffectiveCargoEnvelope reason =
     \<lparr>ee_valid = False, ee_formal = False, ee_fallback_active = False, ee_can_authorize_clear = False,
      ee_source = EffectiveCargoEnvelopeSource.NONE, ee_pose_source = CargoEnvelopePoseSource.NONE,
      ee_shape_source = CargoEnvelopeShapeSource.NONE, ee_footprint = default_CargoObbFootprint,
      ee_horizontal_uncertainty_m = Fin 0, ee_vertical_uncertainty_m = Fin 0, ee_evidence_stamp_sec = Fin 0,
      ee_age_sec = Fin 0, ee_cargo_lifecycle_id = 0, ee_reason = reason\<rparr>"

record PendingCargoVerticalPlausibilityInput =
  vp_envelope_valid :: bool
  vp_center_z_base :: dbl
  vp_height_m :: dbl
  vp_vertical_uncertainty_m :: dbl
  vp_minimum_height_m :: dbl
  vp_maximum_height_m :: dbl
  vp_local_ground_valid :: bool
  vp_local_ground_z_base :: dbl
  vp_maximum_ground_penetration_m :: dbl
  vp_hook_anchor_z_authoritative :: bool
  vp_hook_anchor_z_base :: dbl
  vp_current_lidar_pose_authoritative :: bool
  vp_trusted_center_valid :: bool
  vp_trusted_center_z_base :: dbl
  vp_trusted_center_age_sec :: dbl
  vp_maximum_trusted_center_age_sec :: dbl
  vp_maximum_trusted_center_z_delta_m :: dbl

record PendingCargoVerticalPlausibilityResult =
  vr_valid :: bool
  vr_bottom_z_base :: dbl
  vr_top_z_base :: dbl
  vr_reason :: string

section \<open>Candidates\<close>

definition non_negative :: "dbl \<Rightarrow> bool" where
  [simp]: "non_negative x \<longleftrightarrow> isfinite x \<and> Fin 0 \<le> x"

definition envelope_validConfig :: "PendingCargoEnvelopeConfig \<Rightarrow> bool" where
  "envelope_validConfig c \<longleftrightarrow>
     isfinite (ec_configured_length_m c) \<and> Fin 0 < ec_configured_length_m c \<and>
     isfinite (ec_configured_width_m c) \<and> Fin 0 < ec_configured_width_m c \<and>
     isfinite (ec_configured_height_m c) \<and> Fin 0 < ec_configured_height_m c \<and>
     isfinite (ec_configured_center_offset_z_m c) \<and> non_negative (ec_horizontal_margin_m c) \<and>
     non_negative (ec_vertical_margin_m c) \<and> non_negative (ec_maximum_candidate_age_sec c) \<and>
     non_negative (ec_maximum_retired_age_sec c) \<and> isfinite (ec_candidate_shape_hold_sec c) \<and>
     ec_maximum_candidate_age_sec c \<le> ec_candidate_shape_hold_sec c \<and>
     non_negative (ec_candidate_shape_growth_rate_mps c) \<and> non_negative (ec_candidate_shape_shrink_rate_mps c) \<and>
     non_negative (ec_maximum_fallback_sway_offset_m c) \<and> non_negative (ec_lost_position_uncertainty_per_sec c) \<and>
     non_negative (ec_maximum_lost_position_uncertainty_m c)"

definition usable_age :: "dbl \<Rightarrow> dbl \<Rightarrow> dbl \<Rightarrow> bool" where
  "usable_age stamp evidence maximum \<longleftrightarrow> Fin (- 0.001) \<le> stamp - evidence \<and> stamp - evidence \<le> maximum"

definition usablePose :: "CargoEnvelopePoseCandidate \<Rightarrow> dbl \<Rightarrow> dbl \<Rightarrow> u64 \<Rightarrow> bool" where
  "usablePose p stamp maximum lifecycle \<longleftrightarrow>
     ep_valid p \<and> ep_source p \<noteq> CargoEnvelopePoseSource.NONE \<and> vec3_allFinite (ep_center_base p) \<and>
     isfinite (ep_yaw_base_rad p) \<and> isfinite (ep_horizontal_uncertainty_m p) \<and>
     isfinite (ep_vertical_uncertainty_m p) \<and> \<not> ep_horizontal_uncertainty_m p < Fin 0 \<and>
     \<not> ep_vertical_uncertainty_m p < Fin 0 \<and> isfinite (ep_evidence_stamp_sec p) \<and>
     \<not> ep_evidence_stamp_sec p \<le> Fin 0 \<and> ep_cargo_lifecycle_id p = lifecycle \<and>
     usable_age stamp (ep_evidence_stamp_sec p) maximum"

definition usableShape :: "CargoEnvelopeShapeCandidate \<Rightarrow> dbl \<Rightarrow> dbl \<Rightarrow> u64 \<Rightarrow> bool" where
  "usableShape s stamp maximum lifecycle \<longleftrightarrow>
     es_valid s \<and> es_source s \<noteq> CargoEnvelopeShapeSource.NONE \<and>
     isfinite (es_length_m s) \<and> \<not> es_length_m s \<le> Fin 0 \<and> isfinite (es_width_m s) \<and> \<not> es_width_m s \<le> Fin 0 \<and>
     isfinite (es_height_m s) \<and> \<not> es_height_m s \<le> Fin 0 \<and> isfinite (es_yaw_rad s) \<and>
     isfinite (es_uncertainty_m s) \<and> \<not> es_uncertainty_m s < Fin 0 \<and> es_cargo_lifecycle_id s = lifecycle \<and>
     (es_source s = CargoEnvelopeShapeSource.CONFIGURED_CONSERVATIVE_DEFAULT \<or>
      isfinite (es_evidence_stamp_sec s) \<and> \<not> es_evidence_stamp_sec s \<le> Fin 0 \<and>
      usable_age stamp (es_evidence_stamp_sec s) maximum)"

definition combinedSource ::
  "CargoEnvelopePoseSource \<Rightarrow> CargoEnvelopeShapeSource \<Rightarrow> PendingCargoEnvelopeSource" where
  "combinedSource pose shape =
     (if shape = ACTIVE_LOCKED_TRACK_SHAPE then ACTIVE_LOCKED_TRACK
      else if pose \<in> {CargoEnvelopePoseSource.CURRENT_ASSOCIATED_LIDAR, SHORT_TERM_TRACK_PREDICTION} \<and>
              shape \<in> {CURRENT_HIGH_QUALITY_LIDAR, CURRENT_TRACKED_BOUNDED_SHAPE}
      then CURRENT_CANDIDATE
      else if shape = CargoEnvelopeShapeSource.RETIRED_LOCKED_SHAPE then RETIRED_FORMAL_SHAPE
      else if shape = CargoEnvelopeShapeSource.STATIC_ORIGIN_COMPONENT then LIFT_ORIGIN_CANDIDATE
      else CONFIGURED_CONSERVATIVE)"

fun effectiveSource :: "CargoEnvelopeShapeSource \<Rightarrow> EffectiveCargoEnvelopeSource" where
  "effectiveSource CargoEnvelopeShapeSource.FORMAL_FROZEN_GEOMETRY = EffectiveCargoEnvelopeSource.FORMAL_FROZEN_GEOMETRY"
| "effectiveSource CURRENT_HIGH_QUALITY_LIDAR = CURRENT_ASSOCIATED_TRACK"
| "effectiveSource CURRENT_TRACKED_BOUNDED_SHAPE = CURRENT_ASSOCIATED_TRACK"
| "effectiveSource ACTIVE_LOCKED_TRACK_SHAPE = CURRENT_ASSOCIATED_TRACK"
| "effectiveSource CargoEnvelopeShapeSource.RETIRED_LOCKED_SHAPE = EffectiveCargoEnvelopeSource.RETIRED_LOCKED_SHAPE"
| "effectiveSource CargoEnvelopeShapeSource.STATIC_ORIGIN_COMPONENT = EffectiveCargoEnvelopeSource.STATIC_ORIGIN_COMPONENT"
| "effectiveSource CargoEnvelopeShapeSource.CONFIGURED_CONSERVATIVE_DEFAULT =
     EffectiveCargoEnvelopeSource.CONFIGURED_CONSERVATIVE_DEFAULT"
| "effectiveSource CargoEnvelopeShapeSource.NONE = EffectiveCargoEnvelopeSource.NONE"

fun formalPoseSource :: "CargoPoseSource \<Rightarrow> CargoEnvelopePoseSource" where
  "formalPoseSource CargoPoseSource.CURRENT_ASSOCIATED_LIDAR = CargoEnvelopePoseSource.CURRENT_ASSOCIATED_LIDAR"
| "formalPoseSource MOTION_PREDICTION = SHORT_TERM_TRACK_PREDICTION"
| "formalPoseSource RECENT_STABLE_HOLD = SHORT_TERM_TRACK_PREDICTION"
| "formalPoseSource HOOK_OR_CONTROLLER = HOOK_PLUS_LAST_RELIABLE_OFFSET"
| "formalPoseSource STATIC_INSTALLATION_FALLBACK = CargoEnvelopePoseSource.NONE"

section \<open>The pending envelope\<close>

definition combinePoseAndShape ::
  "CargoEnvelopePoseCandidate \<Rightarrow> CargoEnvelopeShapeCandidate \<Rightarrow> PendingCargoEnvelopeConfig \<Rightarrow> dbl \<Rightarrow> PendingCargoEnvelope"
  where
  "combinePoseAndShape p s c stamp =
     (if \<not> ep_valid p \<or> \<not> es_valid s
      then no_PendingCargoEnvelope
             (if \<not> ep_valid p then ''current_cargo_pose_unavailable'' else ''cargo_shape_unavailable'')
      else
        let age = cpp_max (Fin 0) (stamp - ep_evidence_stamp_sec p);
            configured = (es_source s = CargoEnvelopeShapeSource.CONFIGURED_CONSERVATIVE_DEFAULT);
            height = (if configured then ec_configured_height_m c else es_height_m s)
        in \<lparr>pe_valid = True, pe_source = combinedSource (ep_source p) (es_source s), pe_pose_source = ep_source p,
            pe_shape_source = es_source s, pe_center_base = ep_center_base p,
            pe_length_m = (if configured then ec_configured_length_m c else es_length_m s),
            pe_width_m = (if configured then ec_configured_width_m c else es_width_m s),
            pe_height_m = height,
            pe_yaw_base_rad = (if ep_yaw_authoritative p then ep_yaw_base_rad p else es_yaw_rad s),
            pe_bottom_z_base = v3z (ep_center_base p) - Fin 0.5 * height,
            pe_top_z_base = v3z (ep_center_base p) + Fin 0.5 * height,
            pe_horizontal_uncertainty_m =
              ep_horizontal_uncertainty_m p + es_uncertainty_m s + ec_horizontal_margin_m c,
            pe_vertical_uncertainty_m = ep_vertical_uncertainty_m p + es_uncertainty_m s + ec_vertical_margin_m c,
            pe_evidence_stamp_sec = ep_evidence_stamp_sec p, pe_evaluation_stamp_sec = stamp, pe_age_sec = age,
            pe_cargo_lifecycle_id = ep_cargo_lifecycle_id p,
            pe_reason = ''pending_pose='' @ cargoEnvelopePoseSourceName (ep_source p) @ '';shape='' @
              cargoEnvelopeShapeSourceName (es_source s)\<rparr>)"

definition effective_config :: "PendingCargoEnvelopeConfig \<Rightarrow> PendingCargoEnvelopeConfig" where
  "effective_config c = (if envelope_validConfig c then c else default_PendingCargoEnvelopeConfig)"

text \<open>The ladder of poses, each with its maximal age, and the ladder of shapes.\<close>

definition select_pose ::
  "PendingCargoEnvelopeInput \<Rightarrow> PendingCargoEnvelopeConfig \<Rightarrow> CargoEnvelopePoseCandidate option" where
  "select_pose i c =
     (let usable = (\<lambda>p maximum. usablePose p (ei_stamp_sec i) maximum (ei_cargo_lifecycle_id i)) in
      if usable (ei_current_associated_pose i) (ec_maximum_candidate_age_sec c) then Some (ei_current_associated_pose i)
      else if usable (ei_short_term_track_pose i) (ec_maximum_candidate_age_sec c) then Some (ei_short_term_track_pose i)
      else if usable (ei_retired_track_pose i) (ec_maximum_retired_age_sec c) then Some (ei_retired_track_pose i)
      else if usable (ei_hook_last_offset_pose i) (ec_maximum_retired_age_sec c) then Some (ei_hook_last_offset_pose i)
      else if usable (ei_hook_default_pose i) (ec_maximum_candidate_age_sec c) then Some (ei_hook_default_pose i)
      else None)"

definition configured_shape ::
  "PendingCargoEnvelopeInput \<Rightarrow> PendingCargoEnvelopeConfig \<Rightarrow> CargoEnvelopeShapeCandidate" where
  "configured_shape i c =
     default_CargoEnvelopeShapeCandidate
       \<lparr>es_valid := True, es_length_m := ec_configured_length_m c, es_width_m := ec_configured_width_m c,
        es_height_m := ec_configured_height_m c, es_evidence_stamp_sec := ei_stamp_sec i,
        es_cargo_lifecycle_id := ei_cargo_lifecycle_id i,
        es_source := CargoEnvelopeShapeSource.CONFIGURED_CONSERVATIVE_DEFAULT\<rparr>"

definition select_shape ::
  "PendingCargoEnvelopeInput \<Rightarrow> PendingCargoEnvelopeConfig \<Rightarrow> CargoEnvelopeShapeCandidate" where
  "select_shape i c =
     (let usable = (\<lambda>s maximum. usableShape s (ei_stamp_sec i) maximum (ei_cargo_lifecycle_id i)) in
      if usable (ei_formal_frozen_shape i) (ec_maximum_retired_age_sec c) then ei_formal_frozen_shape i
      else if usable (ei_active_locked_shape i) (ec_maximum_candidate_age_sec c) then ei_active_locked_shape i
      else if usable (ei_current_tracked_bounded_shape i) (ec_candidate_shape_hold_sec c)
      then ei_current_tracked_bounded_shape i
      else if usable (ei_current_high_quality_shape i) (ec_maximum_candidate_age_sec c)
      then ei_current_high_quality_shape i
      else if usable (ei_retired_locked_shape i) (ec_maximum_retired_age_sec c) then ei_retired_locked_shape i
      else if usable (ei_static_origin_shape i) (ec_maximum_retired_age_sec c) then ei_static_origin_shape i
      else configured_shape i c)"

definition buildPendingCargoEnvelope ::
  "PendingCargoEnvelopeInput \<Rightarrow> PendingCargoEnvelopeConfig \<Rightarrow> PendingCargoEnvelope" where
  "buildPendingCargoEnvelope i requested =
     (let c = effective_config requested in
      if \<not> ei_hook_loaded i then no_PendingCargoEnvelope ''hook_not_loaded''
      else if \<not> isfinite (ei_stamp_sec i) \<or> ei_stamp_sec i \<le> Fin 0 \<or> ei_cargo_lifecycle_id i = 0
      then no_PendingCargoEnvelope ''evaluation_time_or_lifecycle_invalid''
      else case select_pose i c of
          None \<Rightarrow> no_PendingCargoEnvelope ''current_cargo_pose_unavailable''
        | Some pose \<Rightarrow> combinePoseAndShape pose (select_shape i c) c (ei_stamp_sec i))"

definition envelope_footprint :: "PendingCargoEnvelope \<Rightarrow> dbl \<Rightarrow> dbl \<Rightarrow> CargoObbFootprint" where
  "envelope_footprint e horizontal vertical =
     \<lparr>fp_valid = (pe_valid e \<and> non_negative horizontal \<and> non_negative vertical),
      fp_center_base = vec3_head2 (pe_center_base e), fp_length_m = pe_length_m e + Fin 2 * horizontal,
      fp_width_m = pe_width_m e + Fin 2 * horizontal, fp_yaw_base_rad = pe_yaw_base_rad e,
      fp_min_z = pe_bottom_z_base e - vertical, fp_max_z = pe_top_z_base e + vertical\<rparr>"

section \<open>Vertical plausibility\<close>

definition plausibility_input_ok :: "PendingCargoVerticalPlausibilityInput \<Rightarrow> bool" where
  "plausibility_input_ok i \<longleftrightarrow>
     vp_envelope_valid i \<and> isfinite (vp_center_z_base i) \<and> isfinite (vp_height_m i) \<and> \<not> vp_height_m i \<le> Fin 0 \<and>
     isfinite (vp_vertical_uncertainty_m i) \<and> \<not> vp_vertical_uncertainty_m i < Fin 0 \<and>
     isfinite (vp_minimum_height_m i) \<and> vp_maximum_height_m i \<noteq> NaN \<and> \<not> vp_minimum_height_m i < Fin 0 \<and>
     \<not> vp_maximum_height_m i < vp_minimum_height_m i \<and> isfinite (vp_maximum_ground_penetration_m i) \<and>
     \<not> vp_maximum_ground_penetration_m i < Fin 0 \<and> isfinite (vp_maximum_trusted_center_age_sec i) \<and>
     \<not> vp_maximum_trusted_center_age_sec i < Fin 0 \<and> isfinite (vp_maximum_trusted_center_z_delta_m i) \<and>
     \<not> vp_maximum_trusted_center_z_delta_m i < Fin 0"

definition ground_available :: "PendingCargoVerticalPlausibilityInput \<Rightarrow> bool" where
  "ground_available i \<longleftrightarrow> vp_local_ground_valid i \<and> isfinite (vp_local_ground_z_base i)"

definition hook_available :: "PendingCargoVerticalPlausibilityInput \<Rightarrow> bool" where
  "hook_available i \<longleftrightarrow> vp_hook_anchor_z_authoritative i \<and> isfinite (vp_hook_anchor_z_base i)"

definition trusted_available :: "PendingCargoVerticalPlausibilityInput \<Rightarrow> bool" where
  "trusted_available i \<longleftrightarrow>
     vp_trusted_center_valid i \<and> isfinite (vp_trusted_center_z_base i) \<and> isfinite (vp_trusted_center_age_sec i) \<and>
     Fin 0 \<le> vp_trusted_center_age_sec i \<and> vp_trusted_center_age_sec i \<le> vp_maximum_trusted_center_age_sec i"

definition evaluatePendingCargoVerticalPlausibility ::
  "PendingCargoVerticalPlausibilityInput \<Rightarrow> PendingCargoVerticalPlausibilityResult" where
  "evaluatePendingCargoVerticalPlausibility i =
     (let r = \<lparr>vr_valid = False, vr_bottom_z_base = NaN, vr_top_z_base = NaN, vr_reason = ''not_evaluated''\<rparr> in
      if \<not> plausibility_input_ok i then r\<lparr>vr_reason := ''retired_vertical_interval_invalid''\<rparr>
      else if vp_height_m i < vp_minimum_height_m i \<or> vp_maximum_height_m i < vp_height_m i
      then r\<lparr>vr_reason := ''retired_height_out_of_physical_range''\<rparr>
      else
        let bottom = vp_center_z_base i - Fin 0.5 * vp_height_m i; top = vp_center_z_base i + Fin 0.5 * vp_height_m i;
            r1 = r\<lparr>vr_bottom_z_base := bottom, vr_top_z_base := top\<rparr>;
            reference = (vp_current_lidar_pose_authoritative i \<or> ground_available i \<or> hook_available i);
            trusted_used = (\<not> reference \<and> trusted_available i) in
        if \<not> isfinite bottom \<or> \<not> isfinite top \<or> top \<le> bottom
        then r1\<lparr>vr_reason := ''retired_vertical_interval_invalid''\<rparr>
        else if ground_available i \<and> top + vp_vertical_uncertainty_m i \<le> vp_local_ground_z_base i
        then r1\<lparr>vr_reason := ''retired_pose_below_local_ground''\<rparr>
        else if ground_available i \<and>
                bottom + vp_vertical_uncertainty_m i < vp_local_ground_z_base i - vp_maximum_ground_penetration_m i
        then r1\<lparr>vr_reason := ''retired_pose_ground_penetration_excessive''\<rparr>
        else if hook_available i \<and>
                vp_hook_anchor_z_base i + vp_maximum_ground_penetration_m i < top - vp_vertical_uncertainty_m i
        then r1\<lparr>vr_reason := ''retired_pose_hook_geometry_inconsistent''\<rparr>
        else if trusted_used \<and> vp_maximum_trusted_center_z_delta_m i + vp_vertical_uncertainty_m i <
                \<bar>vp_center_z_base i - vp_trusted_center_z_base i\<bar>
        then r1\<lparr>vr_reason := ''retired_pose_trusted_center_discontinuity''\<rparr>
        else if \<not> reference \<and> \<not> trusted_used then r1\<lparr>vr_reason := ''retired_pose_ground_reference_unavailable''\<rparr>
        else r1\<lparr>vr_valid := True,
                vr_reason := (if vp_current_lidar_pose_authoritative i then ''current_lidar_pose_physically_plausible''
                              else if trusted_used then ''held_pose_matches_trusted_center''
                              else ''retired_pose_physically_plausible'')\<rparr>)"

section \<open>The effective envelope\<close>

text \<open>The effective envelope of a pending one, as both entry points fill it in.\<close>

definition fallback_envelope :: "PendingCargoEnvelope \<Rightarrow> EffectiveCargoEnvelope" where
  "fallback_envelope e =
     (no_EffectiveCargoEnvelope (pe_reason e))
       \<lparr>ee_valid := True, ee_fallback_active := True, ee_source := effectiveSource (pe_shape_source e),
        ee_pose_source := pe_pose_source e, ee_shape_source := pe_shape_source e,
        ee_footprint := envelope_footprint e (Fin 0) (Fin 0),
        ee_horizontal_uncertainty_m := pe_horizontal_uncertainty_m e,
        ee_vertical_uncertainty_m := pe_vertical_uncertainty_m e, ee_evidence_stamp_sec := pe_evidence_stamp_sec e,
        ee_age_sec := pe_age_sec e, ee_cargo_lifecycle_id := pe_cargo_lifecycle_id e\<rparr>"

definition composeEffectiveCargoEnvelope ::
  "CargoPresenceResult \<Rightarrow> CargoEnvelopePoseCandidate \<Rightarrow> CargoEnvelopeShapeCandidate \<Rightarrow> PendingCargoEnvelopeConfig \<Rightarrow>
   EffectiveCargoEnvelope" where
  "composeEffectiveCargoEnvelope presence p s requested =
     (if \<not> pr_cargo_present presence then no_EffectiveCargoEnvelope ''cargo_not_present''
      else
        let stamp = cpp_max (ep_evidence_stamp_sec p) (es_evidence_stamp_sec s);
            pending = combinePoseAndShape p s (effective_config requested) stamp
        in if \<not> pe_valid pending then no_EffectiveCargoEnvelope (pe_reason pending) else fallback_envelope pending)"

definition formal_evidence_fresh :: "dbl \<Rightarrow> dbl \<Rightarrow> dbl \<Rightarrow> bool" where
  "formal_evidence_fresh evaluation evidence maximum \<longleftrightarrow>
     isfinite evidence \<and> Fin 0 < evidence \<and> isfinite (evaluation - evidence) \<and>
     Fin (- 0.001) \<le> evaluation - evidence \<and> evaluation - evidence \<le> maximum"

definition formal_geometry_usable :: "RigidCargoGeometry \<Rightarrow> bool" where
  "formal_geometry_usable g \<longleftrightarrow>
     rz_valid g \<and> lk_valid (rz_shape g) \<and> lp_valid (rz_pose g) \<and> isfinite (rz_bottom_z_base g) \<and>
     isfinite (rz_top_z_base g) \<and> rz_bottom_z_base g < rz_top_z_base g"

definition resolveEffectiveCargoEnvelope ::
  "CargoPresenceResult \<Rightarrow> RigidCargoGeometry \<Rightarrow> PendingCargoEnvelope \<Rightarrow> CargoEnvelopeResolverConfig \<Rightarrow>
   EffectiveCargoEnvelope" where
  "resolveEffectiveCargoEnvelope presence g pending c =
     (if \<not> pr_cargo_present presence then no_EffectiveCargoEnvelope ''cargo_not_present''
      else if formal_geometry_usable g
      then
        let height_fresh = formal_evidence_fresh (rz_evaluation_stamp_sec g) (rz_height_evidence_stamp_sec g)
              (er_maximum_formal_height_age_sec c);
            pose_fresh = formal_evidence_fresh (rz_evaluation_stamp_sec g) (rz_pose_evidence_stamp_sec g)
              (er_maximum_formal_pose_age_sec c);
            pose_source = formalPoseSource (lp_source (rz_pose g))
        in \<lparr>ee_valid = True, ee_formal = True, ee_fallback_active = False,
            ee_can_authorize_clear = (pr_gravity_authoritative presence \<and> height_fresh \<and> pose_fresh \<and>
              pose_source \<noteq> CargoEnvelopePoseSource.NONE),
            ee_source = EffectiveCargoEnvelopeSource.FORMAL_FROZEN_GEOMETRY, ee_pose_source = pose_source,
            ee_shape_source = CargoEnvelopeShapeSource.FORMAL_FROZEN_GEOMETRY,
            ee_footprint = rigid_footprint g (rz_horizontal_uncertainty_m g),
            ee_horizontal_uncertainty_m = rz_horizontal_uncertainty_m g,
            ee_vertical_uncertainty_m = rz_vertical_uncertainty_m g,
            ee_evidence_stamp_sec = rz_pose_evidence_stamp_sec g,
            ee_age_sec = cpp_max (Fin 0) (rz_evaluation_stamp_sec g - rz_pose_evidence_stamp_sec g),
            ee_cargo_lifecycle_id = rz_track_id g,
            ee_reason = (if height_fresh \<and> pose_fresh then ''formal_frozen_geometry''
                         else if \<not> pose_fresh then ''formal_geometry_pose_evidence_stale''
                         else ''formal_geometry_height_evidence_stale'')\<rparr>
      else if pe_valid pending then fallback_envelope pending
      else no_EffectiveCargoEnvelope ''current_cargo_pose_unavailable'')"

section \<open>Lemmas\<close>

lemma effective_config_ok: "envelope_validConfig (effective_config c)"
  by (simp add: effective_config_def) (simp add: envelope_validConfig_def default_PendingCargoEnvelopeConfig_def)

lemma usable_pose_FinE:
  assumes "usablePose p stamp maximum lifecycle"
  obtains x y z yaw h v e where "ep_center_base p = \<lparr>v3x = Fin x, v3y = Fin y, v3z = Fin z\<rparr>"
    "ep_yaw_base_rad p = Fin yaw" "ep_horizontal_uncertainty_m p = Fin h" "0 \<le> h"
    "ep_vertical_uncertainty_m p = Fin v" "0 \<le> v" "ep_evidence_stamp_sec p = Fin e" "0 < e" "ep_valid p"
    "ep_source p \<noteq> CargoEnvelopePoseSource.NONE" "ep_cargo_lifecycle_id p = lifecycle"
    "Fin (- 0.001) \<le> stamp - Fin e" "stamp - Fin e \<le> maximum"
proof -
  have "vec3_allFinite (ep_center_base p)" using assms by (simp add: usablePose_def)
  then show ?thesis
    using assms unfolding usablePose_def usable_age_def isfinite_iff
    by (elim vec3_finiteE conjE exE) (simp add: not_less not_le that)
qed

text \<open>The measures of a shape the ladder may pick: positive and finite, with a non-negative uncertainty.\<close>

definition shape_sound :: "CargoEnvelopeShapeCandidate \<Rightarrow> bool" where
  "shape_sound s \<longleftrightarrow> es_valid s \<and>
     (\<exists>l w h yaw u. es_length_m s = Fin l \<and> 0 < l \<and> es_width_m s = Fin w \<and> 0 < w \<and> es_height_m s = Fin h \<and> 0 < h \<and>
       es_yaw_rad s = Fin yaw \<and> es_uncertainty_m s = Fin u \<and> 0 \<le> u)"

lemma usable_shape_sound: "usableShape s stamp maximum lifecycle \<Longrightarrow> shape_sound s"
  unfolding usableShape_def shape_sound_def isfinite_iff by (elim conjE exE) (simp add: not_less not_le)

lemma config_FinE:
  assumes "envelope_validConfig c"
  obtains l w h mh mv a r where "ec_configured_length_m c = Fin l" "0 < l" "ec_configured_width_m c = Fin w" "0 < w"
    "ec_configured_height_m c = Fin h" "0 < h" "ec_horizontal_margin_m c = Fin mh" "0 \<le> mh"
    "ec_vertical_margin_m c = Fin mv" "0 \<le> mv" "ec_maximum_candidate_age_sec c = Fin a" "0 \<le> a"
    "ec_maximum_retired_age_sec c = Fin r" "0 \<le> r"
  using assms unfolding envelope_validConfig_def non_negative_def isfinite_iff by (elim conjE exE) (simp add: that)

lemma configured_shape_sound: "envelope_validConfig c \<Longrightarrow> shape_sound (configured_shape i c)"
  by (erule config_FinE) (simp add: shape_sound_def configured_shape_def default_CargoEnvelopeShapeCandidate_def)

lemma select_shape_sound: "envelope_validConfig c \<Longrightarrow> shape_sound (select_shape i c)"
  using configured_shape_sound by (auto simp: select_shape_def Let_def intro: usable_shape_sound)

definition pose_ladder ::
  "PendingCargoEnvelopeInput \<Rightarrow> PendingCargoEnvelopeConfig \<Rightarrow> (CargoEnvelopePoseCandidate \<times> dbl) list" where
  "pose_ladder i c =
     [(ei_current_associated_pose i, ec_maximum_candidate_age_sec c),
      (ei_short_term_track_pose i, ec_maximum_candidate_age_sec c),
      (ei_retired_track_pose i, ec_maximum_retired_age_sec c),
      (ei_hook_last_offset_pose i, ec_maximum_retired_age_sec c),
      (ei_hook_default_pose i, ec_maximum_candidate_age_sec c)]"

abbreviation ladder_usable :: "PendingCargoEnvelopeInput \<Rightarrow> CargoEnvelopePoseCandidate \<times> dbl \<Rightarrow> bool" where
  "ladder_usable i \<equiv> \<lambda>(p, maximum). usablePose p (ei_stamp_sec i) maximum (ei_cargo_lifecycle_id i)"

lemma select_pose_find: "select_pose i c = map_option fst (find (ladder_usable i) (pose_ladder i c))"
  by (simp add: select_pose_def pose_ladder_def Let_def)

lemma find_usable:
  assumes "find P xs = Some x"
  shows "x \<in> set xs \<and> P x"
  using assms by (auto simp: find_Some_iff)

lemma find_first: "\<forall>x \<in> set earlier. \<not> P x \<Longrightarrow> P b \<Longrightarrow> find P (earlier @ b # later) = Some b"
  by (induction earlier) auto

lemma combined_valid [simp]: "pe_valid (combinePoseAndShape p s c stamp) \<longleftrightarrow> ep_valid p \<and> es_valid s"
  by (simp add: combinePoseAndShape_def no_PendingCargoEnvelope_def Let_def)

lemma unbuilt_invalid [simp]: "\<not> pe_valid (no_PendingCargoEnvelope r)"
  by (simp add: no_PendingCargoEnvelope_def)

text \<open>What a box must satisfy to be used: every number is finite, the sizes are positive, the bottom lies half a height
  below the centre and the top half a height above, the margins of the configuration are in the uncertainties.\<close>

definition envelope_wf :: "PendingCargoEnvelopeConfig \<Rightarrow> PendingCargoEnvelope \<Rightarrow> bool" where
  "envelope_wf c e \<longleftrightarrow>
     vec3_allFinite (pe_center_base e) \<and> isfinite (pe_yaw_base_rad e) \<and>
     (\<exists>l w h z. pe_length_m e = Fin l \<and> 0 < l \<and> pe_width_m e = Fin w \<and> 0 < w \<and> pe_height_m e = Fin h \<and> 0 < h \<and>
       v3z (pe_center_base e) = Fin z \<and> pe_bottom_z_base e = Fin (z - h / 2) \<and> pe_top_z_base e = Fin (z + h / 2)) \<and>
     (\<exists>a b. pe_horizontal_uncertainty_m e = Fin a \<and> ec_horizontal_margin_m c \<le> Fin a \<and>
       pe_vertical_uncertainty_m e = Fin b \<and> ec_vertical_margin_m c \<le> Fin b) \<and>
     pe_pose_source e \<noteq> CargoEnvelopePoseSource.NONE \<and> pe_source e \<noteq> PendingCargoEnvelopeSource.NONE"

lemma combined_source_some [simp]: "combinedSource p s \<noteq> PendingCargoEnvelopeSource.NONE"
  by (simp add: combinedSource_def)

lemma combined_wf:
  assumes "usablePose p stamp maximum lifecycle" and "shape_sound s" and "envelope_validConfig c"
  shows "envelope_wf c (combinePoseAndShape p s c stamp)"
proof -
  obtain l w h yaw u where s: "es_valid s" "es_length_m s = Fin l" "0 < l" "es_width_m s = Fin w" "0 < w"
      "es_height_m s = Fin h" "0 < h" "es_yaw_rad s = Fin yaw" "es_uncertainty_m s = Fin u" "0 \<le> u"
    using assms(2) unfolding shape_sound_def by blast
  show ?thesis
    by (rule usable_pose_FinE [OF assms(1)]; rule config_FinE [OF assms(3)])
      (simp add: s combinePoseAndShape_def envelope_wf_def vec3_allFinite_def Let_def)
qed

lemma built_from:
  assumes "pe_valid (buildPendingCargoEnvelope i requested)"
  shows "ei_hook_loaded i \<and> isfinite (ei_stamp_sec i) \<and> Fin 0 < ei_stamp_sec i \<and> ei_cargo_lifecycle_id i \<noteq> 0 \<and>
    (\<exists>p maximum. (p, maximum) \<in> set (pose_ladder i (effective_config requested)) \<and>
      usablePose p (ei_stamp_sec i) maximum (ei_cargo_lifecycle_id i) \<and>
      buildPendingCargoEnvelope i requested =
        combinePoseAndShape p (select_shape i (effective_config requested)) (effective_config requested) (ei_stamp_sec i))"
proof -
  have gate: "ei_hook_loaded i" "isfinite (ei_stamp_sec i)" "\<not> ei_stamp_sec i \<le> Fin 0" "ei_cargo_lifecycle_id i \<noteq> 0"
    and "select_pose i (effective_config requested) \<noteq> None"
    using assms by (auto simp: buildPendingCargoEnvelope_def Let_def split: if_splits option.splits)
  then obtain p where p: "select_pose i (effective_config requested) = Some p" by blast
  have stamp: "Fin 0 < ei_stamp_sec i" using gate(2,3) by (auto simp: isfinite_iff)
  obtain maximum where "(p, maximum) \<in> set (pose_ladder i (effective_config requested))"
      "usablePose p (ei_stamp_sec i) maximum (ei_cargo_lifecycle_id i)"
    using p unfolding select_pose_find by (auto dest!: find_usable)
  then show ?thesis using gate stamp p by (auto simp: buildPendingCargoEnvelope_def Let_def)
qed

section \<open>Properties\<close>

text \<open>A pending envelope that is valid is well formed whatever the candidates and the configuration were: centre and yaw
  are finite, length, width and height are finite and positive, bottom and top lie half a height below and above the
  centre, the uncertainties include the configured margins, and both its pose source and its source are named.\<close>

theorem pending_envelope_wf:
  assumes "pe_valid (buildPendingCargoEnvelope i requested)"
  shows "envelope_wf (effective_config requested) (buildPendingCargoEnvelope i requested)"
  using built_from [OF assms] combined_wf [OF _ select_shape_sound [OF effective_config_ok] effective_config_ok] by auto

definition demo_envelope_pose :: CargoEnvelopePoseCandidate where
  "demo_envelope_pose =
     default_CargoEnvelopePoseCandidate
       \<lparr>ep_valid := True, ep_evidence_stamp_sec := Fin 1, ep_cargo_lifecycle_id := 7,
        ep_source := RETIRED_TRACK_PREDICTION\<rparr>"

definition demo_envelope_input :: PendingCargoEnvelopeInput where
  "demo_envelope_input =
     \<lparr>ei_stamp_sec = Fin 3, ei_hook_loaded = True, ei_cargo_lifecycle_id = 7,
      ei_current_associated_pose = default_CargoEnvelopePoseCandidate,
      ei_short_term_track_pose = default_CargoEnvelopePoseCandidate, ei_retired_track_pose = demo_envelope_pose,
      ei_hook_last_offset_pose = default_CargoEnvelopePoseCandidate,
      ei_hook_default_pose = default_CargoEnvelopePoseCandidate,
      ei_formal_frozen_shape = default_CargoEnvelopeShapeCandidate,
      ei_active_locked_shape = default_CargoEnvelopeShapeCandidate,
      ei_current_high_quality_shape = default_CargoEnvelopeShapeCandidate,
      ei_current_tracked_bounded_shape = default_CargoEnvelopeShapeCandidate,
      ei_retired_locked_shape = default_CargoEnvelopeShapeCandidate,
      ei_static_origin_shape = default_CargoEnvelopeShapeCandidate\<rparr>"

lemma demo_default_config: "effective_config default_PendingCargoEnvelopeConfig = default_PendingCargoEnvelopeConfig"
  by (simp add: effective_config_def)

lemma demo_pose_selected:
  "select_pose demo_envelope_input default_PendingCargoEnvelopeConfig = Some demo_envelope_pose"
  by (simp add: select_pose_def demo_envelope_input_def demo_envelope_pose_def default_CargoEnvelopePoseCandidate_def
      default_PendingCargoEnvelopeConfig_def usablePose_def usable_age_def vec3_allFinite_def vec3_zero_def)

lemma demo_envelope_valid: "pe_valid (buildPendingCargoEnvelope demo_envelope_input default_PendingCargoEnvelopeConfig)"
  using select_shape_sound [OF effective_config_ok, of demo_envelope_input default_PendingCargoEnvelopeConfig]
  by (simp add: buildPendingCargoEnvelope_def demo_default_config demo_pose_selected)
    (simp add: demo_envelope_input_def demo_envelope_pose_def shape_sound_def)

theorem pending_envelope_wf_witness:
  "envelope_wf (effective_config default_PendingCargoEnvelopeConfig)
     (buildPendingCargoEnvelope demo_envelope_input default_PendingCargoEnvelopeConfig)"
  by (rule pending_envelope_wf [OF demo_envelope_valid])

text \<open>There is a pending envelope exactly when there is a pose: for any configuration, a valid envelope results if and
  only if the hook is loaded, the stamp is finite and positive, the lifecycle is not zero and some pose of the ladder
  is usable (named source, finite numbers, the lifecycle of the input, evidence no older than the limit of its rung). The
  first usable rung is taken: its centre, its evidence stamp and its source are those of the envelope. A missing shape never
  prevents an envelope and a configured size never replaces a missing pose.\<close>

theorem pending_envelope_iff_pose:
  "(pe_valid (buildPendingCargoEnvelope i requested) \<longleftrightarrow>
      ei_hook_loaded i \<and> isfinite (ei_stamp_sec i) \<and> Fin 0 < ei_stamp_sec i \<and> ei_cargo_lifecycle_id i \<noteq> 0 \<and>
      (\<exists>rung \<in> set (pose_ladder i (effective_config requested)). ladder_usable i rung)) \<and>
   (\<forall>p maximum later earlier. pe_valid (buildPendingCargoEnvelope i requested) \<and>
      pose_ladder i (effective_config requested) = earlier @ (p, maximum) # later \<and> ladder_usable i (p, maximum) \<and>
      (\<forall>rung \<in> set earlier. \<not> ladder_usable i rung) \<longrightarrow>
      pe_center_base (buildPendingCargoEnvelope i requested) = ep_center_base p \<and>
      pe_evidence_stamp_sec (buildPendingCargoEnvelope i requested) = ep_evidence_stamp_sec p \<and>
      pe_pose_source (buildPendingCargoEnvelope i requested) = ep_source p \<and>
      pe_cargo_lifecycle_id (buildPendingCargoEnvelope i requested) = ei_cargo_lifecycle_id i)"
proof -
  let ?c = "effective_config requested"
  have shape: "es_valid (select_shape i ?c)" using select_shape_sound [OF effective_config_ok] by (simp add: shape_sound_def)
  have valid: "pe_valid (buildPendingCargoEnvelope i requested)"
    if gate: "ei_hook_loaded i" "isfinite (ei_stamp_sec i)" "Fin 0 < ei_stamp_sec i" "ei_cargo_lifecycle_id i \<noteq> 0"
      "rung \<in> set (pose_ladder i ?c)" "ladder_usable i rung" for rung
  proof -
    obtain x where x: "find (ladder_usable i) (pose_ladder i ?c) = Some x"
      using gate(5,6) by (cases "find (ladder_usable i) (pose_ladder i ?c)") (auto simp: find_None_iff)
    then have "ladder_usable i x" by (simp add: find_usable)
    then have "ep_valid (fst x)" by (simp add: usablePose_def split: prod.splits)
    then show ?thesis
      using gate(1-4) x shape
      by (auto simp: buildPendingCargoEnvelope_def select_pose_find Let_def dest: dbl_less_imp_not_le)
  qed
  have first: "buildPendingCargoEnvelope i requested = combinePoseAndShape p (select_shape i ?c) ?c (ei_stamp_sec i)"
    if "pe_valid (buildPendingCargoEnvelope i requested)" "pose_ladder i ?c = earlier @ (p, maximum) # later"
      "ladder_usable i (p, maximum)" "\<forall>rung \<in> set earlier. \<not> ladder_usable i rung" for p maximum earlier later
  proof -
    have "find (ladder_usable i) (pose_ladder i ?c) = Some (p, maximum)"
      using that(2-4) by (simp add: find_first)
    then show ?thesis
      using that(1) by (auto simp: buildPendingCargoEnvelope_def select_pose_find Let_def split: if_splits)
  qed
  have iff: "pe_valid (buildPendingCargoEnvelope i requested) \<longleftrightarrow>
      ei_hook_loaded i \<and> isfinite (ei_stamp_sec i) \<and> Fin 0 < ei_stamp_sec i \<and> ei_cargo_lifecycle_id i \<noteq> 0 \<and>
      (\<exists>rung \<in> set (pose_ladder i ?c). ladder_usable i rung)"
  proof
    assume "pe_valid (buildPendingCargoEnvelope i requested)"
    from built_from [OF this] show "ei_hook_loaded i \<and> isfinite (ei_stamp_sec i) \<and> Fin 0 < ei_stamp_sec i \<and>
        ei_cargo_lifecycle_id i \<noteq> 0 \<and> (\<exists>rung \<in> set (pose_ladder i ?c). ladder_usable i rung)"
      by (auto intro!: bexI)
  qed (use valid in blast)
  have fields: "pe_center_base (combinePoseAndShape p (select_shape i ?c) ?c stamp) = ep_center_base p \<and>
      pe_evidence_stamp_sec (combinePoseAndShape p (select_shape i ?c) ?c stamp) = ep_evidence_stamp_sec p \<and>
      pe_pose_source (combinePoseAndShape p (select_shape i ?c) ?c stamp) = ep_source p \<and>
      pe_cargo_lifecycle_id (combinePoseAndShape p (select_shape i ?c) ?c stamp) = ei_cargo_lifecycle_id i"
    if "ladder_usable i (p, maximum)" for p maximum stamp
    using that shape by (simp add: combinePoseAndShape_def usablePose_def Let_def)
  show ?thesis using iff first fields by metis
qed

theorem pending_envelope_iff_pose_witness:
  "pe_pose_source (buildPendingCargoEnvelope demo_envelope_input default_PendingCargoEnvelopeConfig) =
     RETIRED_TRACK_PREDICTION"
proof -
  let ?ladder = "pose_ladder demo_envelope_input (effective_config default_PendingCargoEnvelopeConfig)"
  have first: "?ladder = take 2 ?ladder @ (demo_envelope_pose, Fin 8) # drop 3 ?ladder"
    unfolding pose_ladder_def demo_default_config
    by (simp add: demo_envelope_input_def default_PendingCargoEnvelopeConfig_def)
  have usable: "ladder_usable demo_envelope_input (demo_envelope_pose, Fin 8)"
    "\<forall>rung \<in> set (take 2 ?ladder). \<not> ladder_usable demo_envelope_input rung"
    by (simp_all add: pose_ladder_def demo_envelope_input_def demo_envelope_pose_def usablePose_def usable_age_def
        default_CargoEnvelopePoseCandidate_def vec3_allFinite_def vec3_zero_def)
  show ?thesis
    using conjunct2 [OF pending_envelope_iff_pose, rule_format, OF conjI [OF demo_envelope_valid conjI [OF first conjI [OF usable]]]]
    by (simp add: demo_envelope_pose_def)
qed

text \<open>C16. Only a fresh, gravity-backed formal geometry may authorise a clear: if the effective envelope of a rigid
  geometry built from a pose that was held through any propagations may authorise one, then the cargo
  is present and gravity is authoritative, the envelope is formal, the pose does not come from the installation, the
  evaluation is no further than both maximal ages from the last physical observation of the pose, and every corner of
  the rigid body lies in the footprint that is published.\<close>

theorem clear_needs_fresh_observation:
  assumes "ee_can_authorize_clear (resolveEffectiveCargoEnvelope presence
      (buildCurrentRigidCargoGeometry s (foldl hold_pose pose arguments) T track (Fin horizontal) vertical) pending c)"
  shows "let g = buildCurrentRigidCargoGeometry s (foldl hold_pose pose arguments) T track (Fin horizontal) vertical;
      e = resolveEffectiveCargoEnvelope presence g pending c in
    ee_formal e \<and> pr_cargo_present presence \<and> pr_gravity_authoritative presence \<and>
    lp_source (foldl hold_pose pose arguments) \<noteq> STATIC_INSTALLATION_FALLBACK \<and>
    (\<exists>now seen. rz_evaluation_stamp_sec g = Fin now \<and> lp_evidence_stamp_sec pose = Fin seen \<and> 0 < seen \<and>
      Fin (now - seen) \<le> er_maximum_formal_pose_age_sec c \<and> Fin (now - seen) \<le> er_maximum_formal_height_age_sec c) \<and>
    (\<forall>p \<in> set (rz_corners_base g). containsPointInCargoObbBase p (ee_footprint e) (Fin 0) (Fin 0))"
proof -
  let ?held = "foldl hold_pose pose arguments"
  let ?g = "buildCurrentRigidCargoGeometry s ?held T track (Fin horizontal) vertical"
  have cases: "pr_cargo_present presence" "formal_geometry_usable ?g"
    using assms by (auto simp: resolveEffectiveCargoEnvelope_def no_EffectiveCargoEnvelope_def fallback_envelope_def
        split: if_splits)
  then have valid: "rz_valid ?g" by (simp add: formal_geometry_usable_def)
  note built = built_cases [OF valid]
  have fields: "rz_pose ?g = ?held" "rz_evaluation_stamp_sec ?g = lp_evaluation_stamp_sec ?held"
    "rz_pose_evidence_stamp_sec ?g = lp_evidence_stamp_sec ?held"
    "rz_height_evidence_stamp_sec ?g = lp_evidence_stamp_sec ?held" "rz_horizontal_uncertainty_m ?g = Fin horizontal"
    "0 \<le> horizontal"
    using valid by (auto simp: buildCurrentRigidCargoGeometry_def rigid_unbuilt_def Let_def split: if_splits)
  have kept: "lp_evidence_stamp_sec ?held = lp_evidence_stamp_sec pose" using held_run_keeps [OF built(3)] by simp
  have fresh: "pr_gravity_authoritative presence" "lp_source ?held \<noteq> STATIC_INSTALLATION_FALLBACK"
    "formal_evidence_fresh (lp_evaluation_stamp_sec ?held) (lp_evidence_stamp_sec pose) (er_maximum_formal_pose_age_sec c)"
    "formal_evidence_fresh (lp_evaluation_stamp_sec ?held) (lp_evidence_stamp_sec pose) (er_maximum_formal_height_age_sec c)"
    using assms cases by (auto simp: resolveEffectiveCargoEnvelope_def fields kept Let_def)
  have parts: "isfinite (lp_evidence_stamp_sec pose)" "Fin 0 < lp_evidence_stamp_sec pose"
    "isfinite (lp_evaluation_stamp_sec ?held)"
    "lp_evaluation_stamp_sec ?held - lp_evidence_stamp_sec pose \<le> er_maximum_formal_pose_age_sec c"
    "lp_evaluation_stamp_sec ?held - lp_evidence_stamp_sec pose \<le> er_maximum_formal_height_age_sec c"
    using fresh(3,4) isfinite_minusD [of "lp_evaluation_stamp_sec ?held" "lp_evidence_stamp_sec pose"]
    by (simp_all add: formal_evidence_fresh_def)
  obtain now seen where times: "lp_evaluation_stamp_sec ?held = Fin now" "lp_evidence_stamp_sec pose = Fin seen"
    using parts(1,3) by (auto simp: isfinite_iff)
  have ages: "\<exists>now seen. lp_evaluation_stamp_sec ?held = Fin now \<and> lp_evidence_stamp_sec pose = Fin seen \<and> 0 < seen \<and>
      Fin (now - seen) \<le> er_maximum_formal_pose_age_sec c \<and> Fin (now - seen) \<le> er_maximum_formal_height_age_sec c"
    using parts unfolding times by simp
  have footprint: "ee_footprint (resolveEffectiveCargoEnvelope presence ?g pending c) = rigid_footprint ?g (Fin horizontal)"
    and formal: "ee_formal (resolveEffectiveCargoEnvelope presence ?g pending c)"
    using cases by (simp_all add: resolveEffectiveCargoEnvelope_def fields Let_def)
  show ?thesis
    unfolding Let_def fields(2)
    using cases(1) fresh(1,2) ages formal rigid_corners_inside [OF valid fields(6)] by (simp add: footprint)
qed

definition demo_resolver :: CargoEnvelopeResolverConfig where
  "demo_resolver =
     \<lparr>er_configured_length_m = Fin 1.5, er_configured_width_m = Fin 1, er_configured_height_m = Fin 1,
      er_configured_center_z_m = Fin (- 1.5), er_horizontal_uncertainty_m = Fin 1, er_vertical_uncertainty_m = Fin 0.5,
      er_maximum_formal_height_age_sec = Fin 0.5, er_maximum_formal_pose_age_sec = Fin 0.5\<rparr>"

theorem clear_needs_fresh_observation_witness:
  "list_all (\<lambda>p. containsPointInCargoObbBase p (ee_footprint (resolveEffectiveCargoEnvelope
       (default_CargoPresenceResult\<lparr>pr_cargo_present := True, pr_gravity_authoritative := True\<rparr>)
       (buildCurrentRigidCargoGeometry demo_shape demo_pose identity_transform 1 (Fin 0) (Fin 0))
       (no_PendingCargoEnvelope '''') demo_resolver)) (Fin 0) (Fin 0))
     (rz_corners_base (buildCurrentRigidCargoGeometry demo_shape demo_pose identity_transform 1 (Fin 0) (Fin 0)))"
proof -
  let ?g = "buildCurrentRigidCargoGeometry demo_shape demo_pose identity_transform 1 (Fin 0) (Fin 0)"
  let ?e = "resolveEffectiveCargoEnvelope (default_CargoPresenceResult\<lparr>pr_cargo_present := True,
    pr_gravity_authoritative := True\<rparr>) ?g (no_PendingCargoEnvelope '''') demo_resolver"
  note built = built_cases [OF demo_rigid_valid]
  have fields: "rz_shape ?g = demo_shape" "rz_pose ?g = demo_pose" "rz_evaluation_stamp_sec ?g = Fin 1"
    "rz_pose_evidence_stamp_sec ?g = Fin 1" "rz_height_evidence_stamp_sec ?g = Fin 1" "rz_bottom_z_base ?g = Fin (- 0.5)"
    "rz_top_z_base ?g = Fin 0.5"
    using built(1-4) by (simp_all add: buildCurrentRigidCargoGeometry_def demo_shape_def demo_pose_def
        default_LiveCargoPose_def vec3_zero_def Let_def)
  have "lk_valid demo_shape" "lp_valid demo_pose" "formalPoseSource (lp_source demo_pose) \<noteq> CargoEnvelopePoseSource.NONE"
    by (simp_all add: demo_shape_def demo_pose_def default_LiveCargoPose_def)
  then have "formal_geometry_usable ?g" "formalPoseSource (lp_source (rz_pose ?g)) \<noteq> CargoEnvelopePoseSource.NONE"
    using demo_rigid_valid by (simp_all add: formal_geometry_usable_def fields)
  then have "ee_can_authorize_clear ?e"
    by (simp add: resolveEffectiveCargoEnvelope_def fields formal_evidence_fresh_def demo_resolver_def Let_def)
  then have "ee_can_authorize_clear (resolveEffectiveCargoEnvelope (default_CargoPresenceResult\<lparr>pr_cargo_present := True,
    pr_gravity_authoritative := True\<rparr>) (buildCurrentRigidCargoGeometry demo_shape (foldl hold_pose demo_pose [])
      identity_transform 1 (Fin 0) (Fin 0)) (no_PendingCargoEnvelope '''') demo_resolver)" by simp
  from clear_needs_fresh_observation [OF this] show ?thesis by (simp add: Let_def list_all_iff)
qed

text \<open>A vertically plausible pose is backed by a physical reference and contradicts none: some reference is available (a
  current LiDAR pose, the local ground, the hook anchor, or, only without those, a recent trusted centre), and within the
  vertical uncertainty the box can be moved to sink no deeper than the allowed penetration below an available
  ground (and to reach above it), to stay below an available hook anchor, and to lie within the allowed distance of the trusted
  centre when that was the only reference.\<close>

theorem plausible_pose_backed:
  assumes "vr_valid (evaluatePendingCargoVerticalPlausibility i)"
  shows "\<exists>z h u pen delta. vp_center_z_base i = Fin z \<and> vp_height_m i = Fin h \<and> 0 < h \<and> vp_vertical_uncertainty_m i = Fin u \<and>
    vp_maximum_ground_penetration_m i = Fin pen \<and> vp_maximum_trusted_center_z_delta_m i = Fin delta \<and>
    vr_bottom_z_base (evaluatePendingCargoVerticalPlausibility i) = Fin (z - h / 2) \<and>
    vr_top_z_base (evaluatePendingCargoVerticalPlausibility i) = Fin (z + h / 2) \<and>
    (vp_current_lidar_pose_authoritative i \<or> ground_available i \<or> hook_available i \<or> trusted_available i) \<and>
    (ground_available i \<longrightarrow> (\<exists>g d. vp_local_ground_z_base i = Fin g \<and> \<bar>d\<bar> \<le> u \<and> g - pen \<le> z + d - h / 2 \<and> g < z + d + h / 2)) \<and>
    (hook_available i \<longrightarrow> (\<exists>k d. vp_hook_anchor_z_base i = Fin k \<and> \<bar>d\<bar> \<le> u \<and> z + d + h / 2 \<le> k + pen)) \<and>
    (\<not> vp_current_lidar_pose_authoritative i \<and> \<not> ground_available i \<and> \<not> hook_available i \<longrightarrow>
      (\<exists>t d. vp_trusted_center_z_base i = Fin t \<and> \<bar>d\<bar> \<le> u \<and> \<bar>z + d - t\<bar> \<le> delta))"
proof -
  let ?r = "evaluatePendingCargoVerticalPlausibility i"
  have ok: "plausibility_input_ok i" using assms by (auto simp: evaluatePendingCargoVerticalPlausibility_def Let_def split: if_splits)
  then obtain z h u pen delta where f: "vp_center_z_base i = Fin z" "vp_height_m i = Fin h" "0 < h"
      "vp_vertical_uncertainty_m i = Fin u" "0 \<le> u" "vp_maximum_ground_penetration_m i = Fin pen" "0 \<le> pen"
      "vp_maximum_trusted_center_z_delta_m i = Fin delta" "0 \<le> delta"
    unfolding plausibility_input_ok_def isfinite_iff by (elim conjE exE) (simp add: not_less not_le)
  have interval: "vr_bottom_z_base ?r = Fin (z - h / 2)" "vr_top_z_base ?r = Fin (z + h / 2)"
    using assms ok f by (auto simp: evaluatePendingCargoVerticalPlausibility_def Let_def split: if_splits)
  have some: "vp_current_lidar_pose_authoritative i \<or> ground_available i \<or> hook_available i \<or> trusted_available i"
    using assms by (auto simp: evaluatePendingCargoVerticalPlausibility_def Let_def split: if_splits)
  have ground: "\<exists>g d. vp_local_ground_z_base i = Fin g \<and> \<bar>d\<bar> \<le> u \<and> g - pen \<le> z + d - h / 2 \<and> g < z + d + h / 2"
    if available: "ground_available i"
  proof -
    obtain g where g: "vp_local_ground_z_base i = Fin g" using available by (auto simp: ground_available_def)
    have "\<not> z + h / 2 + u \<le> g" "\<not> z - h / 2 + u < g - pen"
      using assms ok f available g
      by (auto simp: evaluatePendingCargoVerticalPlausibility_def Let_def split: if_splits)
    then show ?thesis using g f(5) by (intro exI [of _ g] exI [of _ u]) simp
  qed
  have hook: "\<exists>k d. vp_hook_anchor_z_base i = Fin k \<and> \<bar>d\<bar> \<le> u \<and> z + d + h / 2 \<le> k + pen" if available: "hook_available i"
  proof -
    obtain k where k: "vp_hook_anchor_z_base i = Fin k" using available by (auto simp: hook_available_def)
    have "\<not> k + pen < z + h / 2 - u"
      using assms ok f available k by (auto simp: evaluatePendingCargoVerticalPlausibility_def Let_def split: if_splits)
    then show ?thesis using k f(5) by (intro exI [of _ k] exI [of _ "- u"]) simp
  qed
  have trusted: "\<exists>t d. vp_trusted_center_z_base i = Fin t \<and> \<bar>d\<bar> \<le> u \<and> \<bar>z + d - t\<bar> \<le> delta"
    if no_reference: "\<not> vp_current_lidar_pose_authoritative i" "\<not> ground_available i" "\<not> hook_available i"
  proof -
    have available: "trusted_available i" using some no_reference by blast
    then obtain t where t: "vp_trusted_center_z_base i = Fin t" by (auto simp: trusted_available_def)
    have near: "\<not> delta + u < \<bar>z - t\<bar>"
      using assms ok f available t no_reference
      by (auto simp: evaluatePendingCargoVerticalPlausibility_def Let_def split: if_splits)
    show ?thesis
      by (intro exI [of _ t] exI [of _ "if z \<le> t then min u (t - z) else - min u (z - t)"]) (use near t f(5,9) in auto)
  qed
  show ?thesis
    by (intro exI [of _ z] exI [of _ h] exI [of _ u] exI [of _ pen] exI [of _ delta])
      (use f interval some ground hook trusted in blast)
qed

theorem plausible_pose_backed_witness:
  "let i = \<lparr>vp_envelope_valid = True, vp_center_z_base = Fin 1, vp_height_m = Fin 1, vp_vertical_uncertainty_m = Fin 0.2,
      vp_minimum_height_m = Fin 0, vp_maximum_height_m = PInf, vp_local_ground_valid = True, vp_local_ground_z_base = Fin 0.4,
      vp_maximum_ground_penetration_m = Fin 0.5, vp_hook_anchor_z_authoritative = False, vp_hook_anchor_z_base = NaN,
      vp_current_lidar_pose_authoritative = False, vp_trusted_center_valid = False, vp_trusted_center_z_base = NaN,
      vp_trusted_center_age_sec = PInf, vp_maximum_trusted_center_age_sec = Fin 8,
      vp_maximum_trusted_center_z_delta_m = Fin 0.75\<rparr>
   in ground_available i \<and> vr_bottom_z_base (evaluatePendingCargoVerticalPlausibility i) = Fin (1 - 1 / 2)"
proof -
  let ?i = "\<lparr>vp_envelope_valid = True, vp_center_z_base = Fin 1, vp_height_m = Fin 1, vp_vertical_uncertainty_m = Fin 0.2,
      vp_minimum_height_m = Fin 0, vp_maximum_height_m = PInf, vp_local_ground_valid = True, vp_local_ground_z_base = Fin 0.4,
      vp_maximum_ground_penetration_m = Fin 0.5, vp_hook_anchor_z_authoritative = False, vp_hook_anchor_z_base = NaN,
      vp_current_lidar_pose_authoritative = False, vp_trusted_center_valid = False, vp_trusted_center_z_base = NaN,
      vp_trusted_center_age_sec = PInf, vp_maximum_trusted_center_age_sec = Fin 8,
      vp_maximum_trusted_center_z_delta_m = Fin 0.75\<rparr>"
  have "vr_valid (evaluatePendingCargoVerticalPlausibility ?i)"
    by (simp add: evaluatePendingCargoVerticalPlausibility_def plausibility_input_ok_def ground_available_def
        hook_available_def)
  from plausible_pose_backed [OF this] show ?thesis unfolding Let_def by (auto simp: ground_available_def)
qed

end
