(* ===== verification/Cargo_Capability.thy ===== *)
theory Cargo_Capability
  imports Domain_Contracts Cargo_Envelope
begin

text \<open>
  What a frame is allowed to claim about the cargo: the capability derivation
  (\<^verbatim>\<open>cargo_capability.hpp/.cpp\<close>), the per-frame snapshot of the cargo subsystem that feeds it
  (\<^verbatim>\<open>cargo_subsystem.hpp/.cpp\<close>), and the commit
  gate that binds a positive warning to the cargo identity of the same frame
  (\<^verbatim>\<open>cargo_frame_decision.hpp/.cpp\<close>).
\<close>

section \<open>Capability\<close>

record CargoCapabilityInput =
  cci_config_valid :: bool
  cci_external_output_authorized :: bool
  cci_cargo_identity_valid :: bool
  cci_lifecycle_valid :: bool
  cci_horizontal_envelope_valid :: bool
  cci_vertical_geometry_valid :: bool
  cci_vertical_authority :: CargoVerticalAuthority
  cci_cloud_fresh :: bool
  cci_positive_identity_authorized :: bool
  cci_formal_geometry_valid :: bool
  cci_formal_clear_contract_valid :: bool
  cci_formal_removal_contract_valid :: bool

record CargoCapability =
  cap_perception :: bool
  cap_tracking :: bool
  cap_positive_warning :: bool
  cap_formal_warning :: bool
  cap_clear :: bool
  cap_cargo_removal :: bool
  cap_map_eligibility :: bool
  cap_perception_reason :: string
  cap_warning_reason :: string

definition default_CargoCapability :: CargoCapability where
  "default_CargoCapability =
     \<lparr>cap_perception = False, cap_tracking = False, cap_positive_warning = False,
      cap_formal_warning = False, cap_clear = False, cap_cargo_removal = False,
      cap_map_eligibility = False, cap_perception_reason = ''not_evaluated'',
      cap_warning_reason = ''not_evaluated''\<rparr>"

definition no_capability :: "string \<Rightarrow> CargoCapability" where
  "no_capability reason =
     default_CargoCapability\<lparr>cap_perception_reason := reason, cap_warning_reason := reason\<rparr>"

definition deriveCargoCapability :: "CargoCapabilityInput \<Rightarrow> CargoCapability" where
  "deriveCargoCapability i =
     (if \<not> cci_config_valid i then no_capability ''config_invalid''
      else if \<not> cci_external_output_authorized i then no_capability ''external_output_not_authorized''
      else if \<not> cci_lifecycle_valid i \<or> \<not> cci_cargo_identity_valid i
      then no_capability ''cargo_identity_not_authorized''
      else if \<not> cci_horizontal_envelope_valid i then no_capability ''horizontal_envelope_invalid''
      else if \<not> cci_cloud_fresh i then no_capability ''obstacle_cloud_not_fresh''
      else
        let o1 = default_CargoCapability
              \<lparr>cap_perception := True, cap_tracking := True,
               cap_perception_reason := ''physical_perception_authorized''\<rparr>
        in if \<not> cci_vertical_geometry_valid i
           then o1\<lparr>cap_warning_reason := ''vertical_geometry_invalid''\<rparr>
           else if \<not> isSafetyAuthorizedCargoVerticalAuthority (cci_vertical_authority i)
           then o1\<lparr>cap_warning_reason := ''vertical_authority_not_safety_authorized''\<rparr>
           else
             let positive = cci_positive_identity_authorized i;
                 formal = cci_formal_geometry_valid i;
                 removal = (cci_formal_geometry_valid i \<and> cci_formal_removal_contract_valid i)
             in o1\<lparr>cap_positive_warning := positive, cap_formal_warning := formal,
                   cap_clear := (cci_formal_geometry_valid i \<and> cci_formal_clear_contract_valid i),
                   cap_cargo_removal := removal, cap_map_eligibility := removal,
                   cap_warning_reason :=
                     (if formal then ''formal_warning_authorized''
                      else if positive then ''positive_only_warning_authorized''
                      else ''warning_identity_not_authorized'')\<rparr>)"

section \<open>The subsystem snapshot\<close>

record CargoSubsystemFrameInput =
  fi_source_stamp_sec :: dbl
  fi_evaluation_stamp_sec :: dbl
  fi_frame_id :: string
  fi_cargo_lifecycle_id :: u64
  fi_cargo_track_id :: u64
  fi_envelope :: PendingCargoEnvelope
  fi_vertical_authority :: CargoVerticalAuthority
  fi_config_valid :: bool
  fi_external_output_authorized :: bool
  fi_identity_valid :: bool
  fi_lifecycle_valid :: bool
  fi_cloud_fresh :: bool
  fi_vertical_geometry_valid :: bool
  fi_positive_identity_authorized :: bool
  fi_formal_geometry_valid :: bool
  fi_formal_clear_contract_valid :: bool
  fi_formal_removal_contract_valid :: bool

record CargoSubsystemSnapshot =
  ss_track :: CargoTrackSnapshot
  ss_geometry :: CargoGeometryEstimate
  ss_envelope :: CargoSafetyEnvelope
  ss_capability :: CargoCapability

fun cargoContractSource :: "CargoEnvelopePoseSource \<Rightarrow> CargoContractSource" where
  "cargoContractSource CargoEnvelopePoseSource.CURRENT_ASSOCIATED_LIDAR =
     CargoContractSource.CURRENT_ASSOCIATED_LIDAR"
| "cargoContractSource SHORT_TERM_TRACK_PREDICTION = CargoContractSource.MOTION_PREDICTION"
| "cargoContractSource RETIRED_TRACK_PREDICTION = CargoContractSource.MOTION_PREDICTION"
| "cargoContractSource HOOK_PLUS_LAST_RELIABLE_OFFSET = CargoContractSource.MOTION_PREDICTION"
| "cargoContractSource HOOK_DEFAULT_OFFSET = CargoContractSource.MOTION_PREDICTION"
| "cargoContractSource CargoEnvelopePoseSource.NONE = CargoContractSource.UNKNOWN"

definition subsystem_track :: "CargoSubsystemFrameInput \<Rightarrow> CargoTrackSnapshot" where
  "subsystem_track i =
     (let e = fi_envelope i;
          valid = (fi_identity_valid i \<and> fi_lifecycle_valid i \<and> vec3_allFinite (pe_center_base e))
      in \<lparr>ts_source_stamp_sec = fi_source_stamp_sec i, ts_evaluation_stamp_sec = fi_evaluation_stamp_sec i,
          ts_frame_id = fi_frame_id i, ts_cargo_lifecycle_id = fi_cargo_lifecycle_id i,
          ts_cargo_track_id = fi_cargo_track_id i, ts_center = pe_center_base e,
          ts_uncertainty = \<lparr>v3x = pe_horizontal_uncertainty_m e, v3y = pe_horizontal_uncertainty_m e,
                            v3z = pe_vertical_uncertainty_m e\<rparr>,
          ts_source = cargoContractSource (pe_pose_source e), ts_valid = valid,
          ts_fresh = (valid \<and> fi_cloud_fresh i)\<rparr>)"

definition subsystem_geometry :: "CargoSubsystemFrameInput \<Rightarrow> CargoGeometryEstimate" where
  "subsystem_geometry i =
     (let e = fi_envelope i;
          t = subsystem_track i;
          horizontal = (ts_valid t \<and> isfinite (pe_length_m e) \<and> Fin 0 < pe_length_m e \<and>
                        isfinite (pe_width_m e) \<and> Fin 0 < pe_width_m e \<and> isfinite (pe_yaw_base_rad e));
          vertical = (fi_vertical_geometry_valid i \<and> isfinite (pe_bottom_z_base e) \<and>
                      isfinite (pe_top_z_base e) \<and> pe_bottom_z_base e < pe_top_z_base e)
      in \<lparr>ge_source_stamp_sec = fi_source_stamp_sec i, ge_evaluation_stamp_sec = fi_evaluation_stamp_sec i,
          ge_frame_id = fi_frame_id i, ge_cargo_lifecycle_id = fi_cargo_lifecycle_id i,
          ge_cargo_track_id = fi_cargo_track_id i, ge_length_m = pe_length_m e,
          ge_width_m = pe_width_m e, ge_yaw_rad = pe_yaw_base_rad e, ge_top_z_m = pe_top_z_base e,
          ge_bottom_z_m = pe_bottom_z_base e, ge_height_m = pe_height_m e,
          ge_uncertainty = ts_uncertainty t, ge_source = ts_source t,
          ge_vertical_authority = (if vertical then fi_vertical_authority i
                                   else CargoVerticalAuthority.INVALID),
          ge_horizontal_valid = horizontal, ge_vertical_valid = vertical,
          ge_fresh = (horizontal \<and> fi_cloud_fresh i)\<rparr>)"

definition subsystem_envelope :: "CargoSubsystemFrameInput \<Rightarrow> CargoSafetyEnvelope" where
  "subsystem_envelope i =
     (let e = fi_envelope i;
          t = subsystem_track i;
          g = subsystem_geometry i
      in \<lparr>se_source_stamp_sec = fi_source_stamp_sec i, se_evaluation_stamp_sec = fi_evaluation_stamp_sec i,
          se_frame_id = fi_frame_id i, se_cargo_lifecycle_id = fi_cargo_lifecycle_id i,
          se_cargo_track_id = fi_cargo_track_id i, se_center = vec3_head2 (pe_center_base e),
          se_nominal_length_m = pe_length_m e, se_nominal_width_m = pe_width_m e,
          se_conservative_length_m =
            cpp_max (Fin 0) (pe_length_m e + Fin 2 * pe_horizontal_uncertainty_m e),
          se_conservative_width_m =
            cpp_max (Fin 0) (pe_width_m e + Fin 2 * pe_horizontal_uncertainty_m e),
          se_yaw_rad = pe_yaw_base_rad e,
          se_safe_bottom_z_m = pe_bottom_z_base e - pe_vertical_uncertainty_m e,
          se_horizontal_uncertainty_m = pe_horizontal_uncertainty_m e,
          se_vertical_uncertainty_m = pe_vertical_uncertainty_m e, se_source = ts_source t,
          se_horizontal_valid = ge_horizontal_valid g, se_vertical_valid = ge_vertical_valid g,
          se_formal = fi_formal_geometry_valid i, se_fresh = ge_fresh g\<rparr>)"

definition capability_input :: "CargoSubsystemFrameInput \<Rightarrow> CargoCapabilityInput" where
  "capability_input i =
     \<lparr>cci_config_valid = fi_config_valid i,
      cci_external_output_authorized = fi_external_output_authorized i,
      cci_cargo_identity_valid = fi_identity_valid i, cci_lifecycle_valid = fi_lifecycle_valid i,
      cci_horizontal_envelope_valid = se_horizontal_valid (subsystem_envelope i),
      cci_vertical_geometry_valid = se_vertical_valid (subsystem_envelope i),
      cci_vertical_authority = ge_vertical_authority (subsystem_geometry i),
      cci_cloud_fresh = fi_cloud_fresh i,
      cci_positive_identity_authorized = fi_positive_identity_authorized i,
      cci_formal_geometry_valid = fi_formal_geometry_valid i,
      cci_formal_clear_contract_valid = fi_formal_clear_contract_valid i,
      cci_formal_removal_contract_valid = fi_formal_removal_contract_valid i\<rparr>"

definition default_CargoSubsystemSnapshot :: CargoSubsystemSnapshot where
  "default_CargoSubsystemSnapshot =
     \<lparr>ss_track = \<lparr>ts_source_stamp_sec = Fin 0, ts_evaluation_stamp_sec = Fin 0,
        ts_frame_id = ''base_link'', ts_cargo_lifecycle_id = 0, ts_cargo_track_id = 0,
        ts_center = vec3_zero, ts_uncertainty = vec3_zero, ts_source = CargoContractSource.UNKNOWN,
        ts_valid = False, ts_fresh = False\<rparr>,
      ss_geometry = \<lparr>ge_source_stamp_sec = Fin 0, ge_evaluation_stamp_sec = Fin 0,
        ge_frame_id = ''base_link'', ge_cargo_lifecycle_id = 0, ge_cargo_track_id = 0,
        ge_length_m = Fin 0, ge_width_m = Fin 0, ge_yaw_rad = Fin 0, ge_top_z_m = NaN,
        ge_bottom_z_m = NaN, ge_height_m = NaN, ge_uncertainty = vec3_zero,
        ge_source = CargoContractSource.UNKNOWN, ge_vertical_authority = CargoVerticalAuthority.INVALID,
        ge_horizontal_valid = False, ge_vertical_valid = False, ge_fresh = False\<rparr>,
      ss_envelope = \<lparr>se_source_stamp_sec = Fin 0, se_evaluation_stamp_sec = Fin 0,
        se_frame_id = ''base_link'', se_cargo_lifecycle_id = 0, se_cargo_track_id = 0,
        se_center = vec2_zero, se_nominal_length_m = Fin 0, se_nominal_width_m = Fin 0,
        se_conservative_length_m = Fin 0, se_conservative_width_m = Fin 0, se_yaw_rad = Fin 0,
        se_safe_bottom_z_m = NaN, se_horizontal_uncertainty_m = Fin 0, se_vertical_uncertainty_m = Fin 0,
        se_source = CargoContractSource.UNKNOWN, se_horizontal_valid = False, se_vertical_valid = False,
        se_formal = False, se_fresh = False\<rparr>,
      ss_capability = default_CargoCapability\<rparr>"

definition subsystem_reset :: "CargoSubsystemSnapshot \<Rightarrow> CargoSubsystemSnapshot" where
  "subsystem_reset s = default_CargoSubsystemSnapshot"

text \<open>The state of \<^verbatim>\<open>CargoSubsystem\<close> is the last snapshot, which \<^verbatim>\<open>update\<close> replaces and returns.\<close>

definition subsystem_update ::
  "(CargoSubsystemSnapshot, CargoSubsystemFrameInput, CargoSubsystemSnapshot) machine" where
  "subsystem_update s i =
     (let next_snapshot =
            \<lparr>ss_track = subsystem_track i, ss_geometry = subsystem_geometry i,
             ss_envelope = subsystem_envelope i,
             ss_capability = deriveCargoCapability (capability_input i)\<rparr>
      in (next_snapshot, next_snapshot))"

section \<open>Committing a frame\<close>

record CargoFrameDecision =
  fd_stamp_sec :: dbl
  fd_cargo_identity_confirmed_this_frame :: bool
  fd_cargo_identity_authorized :: bool
  fd_cargo_lifecycle_id :: u64
  fd_cargo_track_id :: u64
  fd_positive_warning_confirmed_this_frame :: bool
  fd_warning_code :: int
  fd_authoritative_hazard_valid :: bool
  fd_authoritative_warning_code :: int
  fd_warning_cargo_lifecycle_id :: u64
  fd_warning_cargo_track_id :: u64
  fd_obstacle_track_id :: u64

record CargoFrameCommitDecision =
  fc_authorized :: bool
  fc_status_code :: int
  fc_reason :: string

definition refuse_commit :: "string \<Rightarrow> CargoFrameCommitDecision" where
  "refuse_commit reason = \<lparr>fc_authorized = False, fc_status_code = 35, fc_reason = reason\<rparr>"

definition commitCargoFrameDecision :: "CargoFrameDecision \<Rightarrow> CargoFrameCommitDecision" where
  "commitCargoFrameDecision d =
     (if \<not> (fd_warning_code d = 17 \<or> fd_warning_code d = 18 \<or> fd_warning_code d = 29)
      then \<lparr>fc_authorized = True, fc_status_code = fd_warning_code d,
            fc_reason = ''no_positive_warning_to_commit''\<rparr>
      else if fd_warning_code d \<noteq> 29 \<and> \<not> fd_positive_warning_confirmed_this_frame d
      then refuse_commit ''positive_warning_not_confirmed''
      else if \<not> isfinite (fd_stamp_sec d) \<or> fd_stamp_sec d \<le> Fin 0
      then refuse_commit ''cargo_frame_stamp_invalid''
      else if \<not> fd_cargo_identity_authorized d \<or> fd_cargo_lifecycle_id d = 0 \<or> fd_cargo_track_id d = 0
      then refuse_commit ''cargo_identity_not_authorized''
      else if \<not> fd_authoritative_hazard_valid d \<or> fd_obstacle_track_id d = 0
      then refuse_commit ''authoritative_hazard_identity_missing''
      else if fd_authoritative_warning_code d \<noteq> fd_warning_code d
      then refuse_commit ''authoritative_hazard_code_mismatch''
      else if fd_warning_cargo_lifecycle_id d \<noteq> fd_cargo_lifecycle_id d \<or>
              fd_warning_cargo_track_id d \<noteq> fd_cargo_track_id d
      then refuse_commit ''authoritative_hazard_cargo_identity_mismatch''
      else \<lparr>fc_authorized = True, fc_status_code = fd_warning_code d,
            fc_reason = (if fd_cargo_identity_confirmed_this_frame d
                         then ''identity_and_positive_warning_committed_same_frame''
                         else ''retained_identity_and_positive_warning_committed'')\<rparr>)"

section \<open>Lemmas\<close>

text \<open>Capabilities form a chain: each one implies the weaker ones.\<close>

definition capability_ordered :: "CargoCapability \<Rightarrow> bool" where
  "capability_ordered c \<longleftrightarrow>
     (cap_clear c \<longrightarrow> cap_formal_warning c) \<and> (cap_cargo_removal c \<longrightarrow> cap_formal_warning c) \<and>
     (cap_map_eligibility c \<longleftrightarrow> cap_cargo_removal c) \<and>
     (cap_formal_warning c \<or> cap_positive_warning c \<longrightarrow> cap_tracking c) \<and>
     (cap_tracking c \<longleftrightarrow> cap_perception c)"

lemma capability_cases:
  "deriveCargoCapability i = no_capability r \<Longrightarrow> \<not> cap_perception (deriveCargoCapability i)"
  by (simp add: no_capability_def default_CargoCapability_def)

lemma derive_ordered: "capability_ordered (deriveCargoCapability i)"
  by (simp add: capability_ordered_def deriveCargoCapability_def no_capability_def
      default_CargoCapability_def Let_def)

lemma derive_warning:
  "cap_formal_warning (deriveCargoCapability i) \<or> cap_positive_warning (deriveCargoCapability i) \<Longrightarrow>
   cci_config_valid i \<and> cci_external_output_authorized i \<and> cci_lifecycle_valid i \<and>
   cci_cargo_identity_valid i \<and> cci_horizontal_envelope_valid i \<and> cci_cloud_fresh i \<and>
   cci_vertical_geometry_valid i \<and> isSafetyAuthorizedCargoVerticalAuthority (cci_vertical_authority i)"
  by (auto simp: deriveCargoCapability_def no_capability_def default_CargoCapability_def Let_def
      split: if_split_asm)

definition snapshot_sound :: "CargoSubsystemSnapshot \<Rightarrow> bool" where
  "snapshot_sound s \<longleftrightarrow> capability_ordered (ss_capability s) \<and>
     (cap_formal_warning (ss_capability s) \<or> cap_positive_warning (ss_capability s) \<longrightarrow>
        ts_valid (ss_track s) \<and> ts_fresh (ss_track s) \<and>
        ge_horizontal_valid (ss_geometry s) \<and> ge_vertical_valid (ss_geometry s) \<and>
        ge_bottom_z_m (ss_geometry s) < ge_top_z_m (ss_geometry s) \<and>
        isSafetyAuthorizedCargoVerticalAuthority (ge_vertical_authority (ss_geometry s)) \<and>
        se_fresh (ss_envelope s)) \<and>
     ts_cargo_lifecycle_id (ss_track s) = se_cargo_lifecycle_id (ss_envelope s) \<and>
     ts_cargo_track_id (ss_track s) = se_cargo_track_id (ss_envelope s)"

lemma update_sound: "snapshot_sound (snd (subsystem_update s i))"
  using derive_warning [of "capability_input i"] derive_ordered [of "capability_input i"]
  by (auto simp: snapshot_sound_def subsystem_update_def capability_input_def subsystem_envelope_def
      subsystem_geometry_def subsystem_track_def Let_def)

interpretation subsystem: contract_machine subsystem_update "\<lambda>_. True" snapshot_sound
  by unfold_locales (simp_all add: update_sound)

section \<open>Properties\<close>

text \<open>No warning without physical authority, in any run of the subsystem: every snapshot it returns
  orders its capabilities (clear and removal need the formal warning, warnings need perception), binds
  track and envelope to one cargo identity, and authorises a warning only with a valid, fresh track, a
  valid horizontal geometry, a top above its bottom and a vertical authority from a real physical
  source.\<close>

theorem subsystem_snapshots_sound:
  assumes "d \<in> set (run_outputs subsystem_update s is)"
  shows "snapshot_sound d"
  using subsystem.run_contract [OF TrueI assms] .

definition demo_frame :: CargoSubsystemFrameInput where
  "demo_frame =
     \<lparr>fi_source_stamp_sec = Fin 1, fi_evaluation_stamp_sec = Fin 1, fi_frame_id = ''base_link'',
      fi_cargo_lifecycle_id = 1, fi_cargo_track_id = 2,
      fi_envelope = (no_PendingCargoEnvelope [])
        \<lparr>pe_valid := True, pe_pose_source := CargoEnvelopePoseSource.CURRENT_ASSOCIATED_LIDAR, pe_length_m := Fin 2,
         pe_width_m := Fin 1, pe_height_m := Fin 1, pe_bottom_z_base := Fin 0, pe_top_z_base := Fin 1,
         pe_horizontal_uncertainty_m := Fin 0.1, pe_vertical_uncertainty_m := Fin 0.1\<rparr>,
      fi_vertical_authority = CargoVerticalAuthority.DIRECT_BOTTOM, fi_config_valid = True,
      fi_external_output_authorized = True, fi_identity_valid = True, fi_lifecycle_valid = True,
      fi_cloud_fresh = True, fi_vertical_geometry_valid = True, fi_positive_identity_authorized = True,
      fi_formal_geometry_valid = True, fi_formal_clear_contract_valid = True,
      fi_formal_removal_contract_valid = False\<rparr>"

theorem subsystem_snapshots_sound_witness:
  "cap_clear (ss_capability (snd (subsystem_update default_CargoSubsystemSnapshot demo_frame))) \<and>
   snapshot_sound (snd (subsystem_update default_CargoSubsystemSnapshot demo_frame))"
  using subsystem_snapshots_sound [of "snd (subsystem_update default_CargoSubsystemSnapshot demo_frame)" default_CargoSubsystemSnapshot "[demo_frame]"]
  by (simp add: subsystem_update_def deriveCargoCapability_def capability_input_def subsystem_envelope_def
      subsystem_geometry_def subsystem_track_def demo_frame_def no_PendingCargoEnvelope_def default_CargoCapability_def Let_def
      isSafetyAuthorizedCargoVerticalAuthority_def vec3_allFinite_def vec3_zero_def)

text \<open>A positive status is committed exactly with its own identity: for the codes 17, 18 and 29 the
  frame is authorised if and only if the stamp is valid, the cargo identity is authorised and
  non-zero, the authoritative hazard is valid, carries the same code and the same cargo
  lifecycle and track and names an obstacle track, and (for 17 and 18) the warning was confirmed in
  this frame; a refused frame carries the internal error 35.\<close>

theorem commit_positive_iff:
  assumes "fd_warning_code d \<in> {17, 18, 29}"
  shows "(fc_authorized (commitCargoFrameDecision d) \<longleftrightarrow>
      (fd_warning_code d = 29 \<or> fd_positive_warning_confirmed_this_frame d) \<and>
      isfinite (fd_stamp_sec d) \<and> Fin 0 < fd_stamp_sec d \<and>
      fd_cargo_identity_authorized d \<and> fd_cargo_lifecycle_id d \<noteq> 0 \<and> fd_cargo_track_id d \<noteq> 0 \<and>
      fd_authoritative_hazard_valid d \<and> fd_obstacle_track_id d \<noteq> 0 \<and>
      fd_authoritative_warning_code d = fd_warning_code d \<and>
      fd_warning_cargo_lifecycle_id d = fd_cargo_lifecycle_id d \<and>
      fd_warning_cargo_track_id d = fd_cargo_track_id d) \<and>
    fc_status_code (commitCargoFrameDecision d) =
      (if fc_authorized (commitCargoFrameDecision d) then fd_warning_code d else 35)"
proof -
  have stamp: "isfinite (fd_stamp_sec d) \<Longrightarrow> \<not> fd_stamp_sec d \<le> Fin 0 \<longleftrightarrow> Fin 0 < fd_stamp_sec d"
    by (auto simp: isfinite_iff)
  show ?thesis
    using assms stamp by (simp add: commitCargoFrameDecision_def refuse_commit_def) blast
qed

theorem commit_positive_iff_witness:
  "fc_authorized (commitCargoFrameDecision
     \<lparr>fd_stamp_sec = Fin 1, fd_cargo_identity_confirmed_this_frame = True,
      fd_cargo_identity_authorized = True, fd_cargo_lifecycle_id = 1, fd_cargo_track_id = 2,
      fd_positive_warning_confirmed_this_frame = True, fd_warning_code = 17,
      fd_authoritative_hazard_valid = True, fd_authoritative_warning_code = 17,
      fd_warning_cargo_lifecycle_id = 1, fd_warning_cargo_track_id = 2, fd_obstacle_track_id = 3\<rparr>)"
  by (subst commit_positive_iff [THEN conjunct1]) simp_all

end
