(* ===== verification/Fitness_Breaker.thy ===== *)
theory Fitness_Breaker
  imports Ndt_Machines
begin

text \<open>
  \<^verbatim>\<open>NdtFitnessCircuitBreaker\<close> (\<^verbatim>\<open>ndt_fitness_circuit_breaker.hpp/.cpp\<close>): a scan-matching measurement is rejected when its
  fitness is invalid or above an absolute ceiling, or stays above a threshold adapted to the recent
  baseline; the circuit closes again after enough good measurements. The deque is a list, oldest first.
\<close>

datatype NdtFitnessCircuitState = WARMING | CLOSED | OPEN

fun ndtFitnessCircuitStateName :: "NdtFitnessCircuitState \<Rightarrow> string" where
  "ndtFitnessCircuitStateName NdtFitnessCircuitState.WARMING = ''WARMING''"
| "ndtFitnessCircuitStateName NdtFitnessCircuitState.CLOSED = ''CLOSED''"
| "ndtFitnessCircuitStateName NdtFitnessCircuitState.OPEN = ''OPEN''"

record NdtFitnessCircuitBreakerConfig =
  bc_enabled :: bool
  bc_window_size :: nat
  bc_warmup_samples :: nat
  bc_minimum_adaptive_threshold :: dbl
  bc_hard_reject_threshold :: dbl
  bc_median_multiplier :: dbl
  bc_mad_multiplier :: dbl
  bc_minimum_mad :: dbl
  bc_recovery_threshold_ratio :: dbl
  bc_enter_confirmations :: int
  bc_recovery_confirmations :: int

definition default_NdtFitnessCircuitBreakerConfig :: NdtFitnessCircuitBreakerConfig where
  "default_NdtFitnessCircuitBreakerConfig =
     \<lparr>bc_enabled = True, bc_window_size = 120, bc_warmup_samples = 30,
      bc_minimum_adaptive_threshold = Fin 0.35, bc_hard_reject_threshold = Fin 2.0,
      bc_median_multiplier = Fin 2.0, bc_mad_multiplier = Fin 6.0, bc_minimum_mad = Fin 0.005,
      bc_recovery_threshold_ratio = Fin 0.70, bc_enter_confirmations = 3,
      bc_recovery_confirmations = 5\<rparr>"

record NdtFitnessCircuitDecision =
  bd_allow_measurement :: bool
  bd_circuit_open :: bool
  bd_transitioned_open :: bool
  bd_transitioned_closed :: bool
  bd_baseline_ready :: bool
  bd_adaptive_threshold :: dbl
  bd_recovery_threshold :: dbl
  bd_median :: dbl
  bd_mad :: dbl
  bd_bad_streak :: int
  bd_recovery_streak :: int
  bd_state :: NdtFitnessCircuitState
  bd_reason :: string

definition default_NdtFitnessCircuitDecision :: NdtFitnessCircuitDecision where
  "default_NdtFitnessCircuitDecision =
     \<lparr>bd_allow_measurement = True, bd_circuit_open = False, bd_transitioned_open = False,
      bd_transitioned_closed = False, bd_baseline_ready = False, bd_adaptive_threshold = Fin 0,
      bd_recovery_threshold = Fin 0, bd_median = Fin 0, bd_mad = Fin 0, bd_bad_streak = 0,
      bd_recovery_streak = 0, bd_state = NdtFitnessCircuitState.WARMING, bd_reason = ''warming''\<rparr>"

record NdtFitnessCircuitBreaker =
  br_config :: NdtFitnessCircuitBreakerConfig
  br_baseline :: "dbl list"
  br_open :: bool
  br_bad_streak :: int
  br_recovery_streak :: int

definition validBreakerConfig :: "NdtFitnessCircuitBreakerConfig \<Rightarrow> bool" where
  "validBreakerConfig c \<longleftrightarrow>
     10 \<le> bc_window_size c \<and> 5 \<le> bc_warmup_samples c \<and> bc_warmup_samples c \<le> bc_window_size c \<and>
     isfinite (bc_minimum_adaptive_threshold c) \<and> Fin 0 < bc_minimum_adaptive_threshold c \<and>
     isfinite (bc_hard_reject_threshold c) \<and>
     bc_minimum_adaptive_threshold c < bc_hard_reject_threshold c \<and>
     isfinite (bc_median_multiplier c) \<and> Fin 1 \<le> bc_median_multiplier c \<and>
     isfinite (bc_mad_multiplier c) \<and> Fin 0 < bc_mad_multiplier c \<and>
     isfinite (bc_minimum_mad c) \<and> Fin 0 < bc_minimum_mad c \<and>
     isfinite (bc_recovery_threshold_ratio c) \<and> Fin 0 < bc_recovery_threshold_ratio c \<and>
     bc_recovery_threshold_ratio c < Fin 1 \<and>
     2 \<le> bc_enter_confirmations c \<and> 2 \<le> bc_recovery_confirmations c"

definition medianOf :: "dbl list \<Rightarrow> dbl" where
  "medianOf values =
     (if values = [] then Fin 0
      else let middle = length values div 2;
               sorted_values = sort_key real_part values;
               upper = sorted_values ! middle
           in if length values mod 2 \<noteq> 0 then upper
              else Fin 0.5 * (sorted_values ! (middle - 1) + upper))"

definition breaker_reset :: "NdtFitnessCircuitBreaker \<Rightarrow> NdtFitnessCircuitBreaker" where
  "breaker_reset s = s\<lparr>br_baseline := [], br_open := False, br_bad_streak := 0, br_recovery_streak := 0\<rparr>"

definition breaker_setConfig ::
  "NdtFitnessCircuitBreakerConfig \<Rightarrow> NdtFitnessCircuitBreaker \<Rightarrow> NdtFitnessCircuitBreaker" where
  "breaker_setConfig c s =
     breaker_reset (s\<lparr>br_config := (if validBreakerConfig c then c
                                   else default_NdtFitnessCircuitBreakerConfig)\<rparr>)"

definition breaker_init :: "NdtFitnessCircuitBreakerConfig \<Rightarrow> NdtFitnessCircuitBreaker" where
  "breaker_init c = breaker_setConfig c
     \<lparr>br_config = default_NdtFitnessCircuitBreakerConfig, br_baseline = [], br_open = False,
      br_bad_streak = 0, br_recovery_streak = 0\<rparr>"

text \<open>\<^verbatim>\<open>appendBaseline\<close> pops from the front until the window fits.\<close>

definition appendBaseline :: "dbl \<Rightarrow> NdtFitnessCircuitBreaker \<Rightarrow> NdtFitnessCircuitBreaker" where
  "appendBaseline fitness s =
     (let b = br_baseline s @ [fitness]
      in s\<lparr>br_baseline := drop (length b - bc_window_size (br_config s)) b\<rparr>)"

definition computeBaseline :: "NdtFitnessCircuitBreaker \<Rightarrow> dbl \<times> dbl" where
  "computeBaseline s =
     (let median = medianOf (br_baseline s)
      in (median, medianOf (map (\<lambda>x. \<bar>x - median\<bar>) (br_baseline s))))"

definition baseline_ready :: "NdtFitnessCircuitBreaker \<Rightarrow> bool" where
  "baseline_ready s \<longleftrightarrow> bc_warmup_samples (br_config s) \<le> length (br_baseline s)"

definition adaptive_threshold :: "NdtFitnessCircuitBreaker \<Rightarrow> dbl" where
  "adaptive_threshold s =
     (let c = br_config s;
          (median, mad) = computeBaseline s;
          robust_threshold = cpp_max (median * bc_median_multiplier c)
            (median + bc_mad_multiplier c * cpp_max (bc_minimum_mad c) mad)
      in if baseline_ready s
         then cpp_clamp (cpp_max (bc_minimum_adaptive_threshold c) robust_threshold)
                (bc_minimum_adaptive_threshold c) (bc_hard_reject_threshold c)
         else bc_hard_reject_threshold c)"

definition recovery_threshold :: "NdtFitnessCircuitBreaker \<Rightarrow> dbl" where
  "recovery_threshold s =
     cpp_max (bc_minimum_mad (br_config s))
             (adaptive_threshold s * bc_recovery_threshold_ratio (br_config s))"

definition breaker_report :: "NdtFitnessCircuitBreaker \<Rightarrow> NdtFitnessCircuitDecision" where
  "breaker_report s =
     default_NdtFitnessCircuitDecision
       \<lparr>bd_median := fst (computeBaseline s), bd_mad := snd (computeBaseline s),
        bd_baseline_ready := baseline_ready s, bd_adaptive_threshold := adaptive_threshold s,
        bd_recovery_threshold := recovery_threshold s\<rparr>"

text \<open>The update while the circuit is open, and while it is closed.\<close>

definition breaker_open_step ::
  "(NdtFitnessCircuitBreaker, dbl, NdtFitnessCircuitDecision) machine" where
  "breaker_open_step s fitness =
     (let streak = (if fitness \<le> recovery_threshold s then br_recovery_streak s + 1 else 0)
      in if bc_recovery_confirmations (br_config s) \<le> streak
         then (appendBaseline fitness (s\<lparr>br_open := False, br_bad_streak := 0, br_recovery_streak := 0\<rparr>),
               (breaker_report s)
                 \<lparr>bd_allow_measurement := True, bd_transitioned_closed := True,
                  bd_state := NdtFitnessCircuitState.CLOSED, bd_reason := ''fitness_circuit_recovered'',
                  bd_bad_streak := 0, bd_recovery_streak := 0\<rparr>)
         else (s\<lparr>br_recovery_streak := streak\<rparr>,
               (breaker_report s)
                 \<lparr>bd_allow_measurement := False, bd_circuit_open := True,
                  bd_state := NdtFitnessCircuitState.OPEN,
                  bd_reason := ''fitness_circuit_recovery_pending'',
                  bd_bad_streak := br_bad_streak s, bd_recovery_streak := streak\<rparr>))"

definition breaker_closed_step ::
  "(NdtFitnessCircuitBreaker, dbl, NdtFitnessCircuitDecision) machine" where
  "breaker_closed_step s fitness =
     (if baseline_ready s \<and> adaptive_threshold s \<le> fitness
      then let bad = br_bad_streak s + 1
           in if bc_enter_confirmations (br_config s) \<le> bad
              then (s\<lparr>br_bad_streak := bad, br_recovery_streak := 0, br_open := True\<rparr>,
                    (breaker_report s)
                      \<lparr>bd_allow_measurement := False, bd_circuit_open := True, bd_transitioned_open := True,
                       bd_state := NdtFitnessCircuitState.OPEN,
                       bd_reason := ''adaptive_fitness_circuit_open'',
                       bd_bad_streak := bad, bd_recovery_streak := 0\<rparr>)
              else (s\<lparr>br_bad_streak := bad, br_recovery_streak := 0\<rparr>,
                    (breaker_report s)
                      \<lparr>bd_state := NdtFitnessCircuitState.CLOSED,
                       bd_reason := ''adaptive_fitness_confirmation_pending'',
                       bd_bad_streak := bad, bd_recovery_streak := 0\<rparr>)
      else let s1 = appendBaseline fitness (s\<lparr>br_bad_streak := 0, br_recovery_streak := 0\<rparr>);
               st = (if bc_warmup_samples (br_config s) \<le> length (br_baseline s1)
                     then NdtFitnessCircuitState.CLOSED else NdtFitnessCircuitState.WARMING)
           in (s1, (breaker_report s)
                     \<lparr>bd_state := st,
                      bd_reason := (if st = NdtFitnessCircuitState.WARMING
                                    then ''fitness_baseline_warming''
                                    else ''fitness_within_adaptive_limit'')\<rparr>))"

definition breaker_update :: "(NdtFitnessCircuitBreaker, dbl, NdtFitnessCircuitDecision) machine" where
  "breaker_update s fitness =
     (let invalid = (\<not> isfinite fitness \<or> fitness < Fin 0);
          hard_reject = (\<not> invalid \<and> bc_hard_reject_threshold (br_config s) \<le> fitness)
      in if \<not> bc_enabled (br_config s)
         then (let allow = (isfinite fitness \<and> Fin 0 \<le> fitness)
               in (s, default_NdtFitnessCircuitDecision
                        \<lparr>bd_allow_measurement := allow, bd_state := NdtFitnessCircuitState.CLOSED,
                         bd_reason := (if allow then ''fitness_circuit_disabled'' else ''invalid_fitness'')\<rparr>))
         else if invalid \<or> hard_reject
         then (s\<lparr>br_open := True, br_bad_streak := bc_enter_confirmations (br_config s),
                 br_recovery_streak := 0\<rparr>,
               (breaker_report s)
                 \<lparr>bd_transitioned_open := (\<not> br_open s), bd_allow_measurement := False,
                  bd_circuit_open := True, bd_state := NdtFitnessCircuitState.OPEN,
                  bd_bad_streak := bc_enter_confirmations (br_config s),
                  bd_reason := (if invalid then ''invalid_fitness_circuit_open''
                                else ''hard_fitness_limit_circuit_open'')\<rparr>)
         else if br_open s then breaker_open_step s fitness
         else breaker_closed_step s fitness)"

section \<open>Invariant\<close>

definition usable_fitness :: "NdtFitnessCircuitBreakerConfig \<Rightarrow> dbl \<Rightarrow> bool" where
  "usable_fitness c f \<longleftrightarrow> isfinite f \<and> Fin 0 \<le> f \<and> f < bc_hard_reject_threshold c"

definition breaker_inv :: "NdtFitnessCircuitBreaker \<Rightarrow> bool" where
  "breaker_inv s \<longleftrightarrow> validBreakerConfig (br_config s) \<and>
     length (br_baseline s) \<le> bc_window_size (br_config s) \<and>
     (\<forall>f \<in> set (br_baseline s). usable_fitness (br_config s) f) \<and>
     0 \<le> br_recovery_streak s \<and> 0 \<le> br_bad_streak s \<and>
     (\<not> br_open s \<longrightarrow> br_bad_streak s < bc_enter_confirmations (br_config s))"

section \<open>Lemmas\<close>

lemma append_simps [simp]:
  "br_config (appendBaseline f s) = br_config s" "br_open (appendBaseline f s) = br_open s"
  "br_bad_streak (appendBaseline f s) = br_bad_streak s"
  "br_recovery_streak (appendBaseline f s) = br_recovery_streak s"
  by (simp_all add: appendBaseline_def Let_def)

lemma append_baseline:
  "length (br_baseline (appendBaseline f s)) \<le> bc_window_size (br_config s)"
  "x \<in> set (br_baseline (appendBaseline f s)) \<Longrightarrow> x = f \<or> x \<in> set (br_baseline s)"
  by (auto simp: appendBaseline_def Let_def dest: in_set_dropD)

lemma append_inv:
  assumes "breaker_inv s" and "usable_fitness (br_config s) f"
  shows "breaker_inv (appendBaseline f (s\<lparr>br_open := False, br_bad_streak := 0, br_recovery_streak := 0\<rparr>))"
    "breaker_inv (appendBaseline f (s\<lparr>br_bad_streak := 0, br_recovery_streak := 0\<rparr>))"
  using assms append_baseline [where f = f and s = "s\<lparr>br_open := False, br_bad_streak := 0, br_recovery_streak := 0\<rparr>"]
    append_baseline [where f = f and s = "s\<lparr>br_bad_streak := 0, br_recovery_streak := 0\<rparr>"]
  by (auto simp: breaker_inv_def validBreakerConfig_def)

lemma default_config_valid: "validBreakerConfig default_NdtFitnessCircuitBreakerConfig"
  by (simp add: validBreakerConfig_def default_NdtFitnessCircuitBreakerConfig_def)

lemma breaker_init_inv [simp]: "breaker_inv (breaker_init c)"
  by (simp add: breaker_init_def breaker_setConfig_def breaker_reset_def breaker_inv_def
      default_config_valid) (auto simp: validBreakerConfig_def default_NdtFitnessCircuitBreakerConfig_def)

lemma usable_iff:
  assumes "validBreakerConfig c"
  shows "usable_fitness c f \<longleftrightarrow> \<not> (\<not> isfinite f \<or> f < Fin 0) \<and> \<not> bc_hard_reject_threshold c \<le> f"
  using assms by (auto simp: usable_fitness_def validBreakerConfig_def isfinite_iff)

text \<open>An update of an enabled breaker is a rejection or one of the two steps on a usable fitness.\<close>

lemma update_enabled:
  assumes "breaker_inv s" and "bc_enabled (br_config s)"
  shows "if usable_fitness (br_config s) f
    then breaker_update s f = (if br_open s then breaker_open_step s f else breaker_closed_step s f)
    else fst (breaker_update s f) = s\<lparr>br_open := True, br_bad_streak := bc_enter_confirmations (br_config s),
                 br_recovery_streak := 0\<rparr> \<and> \<not> bd_allow_measurement (snd (breaker_update s f)) \<and>
         bd_circuit_open (snd (breaker_update s f))"
proof -
  have u: "usable_fitness (br_config s) f \<longleftrightarrow>
      \<not> ((\<not> isfinite f \<or> f < Fin 0) \<or> \<not> (\<not> isfinite f \<or> f < Fin 0) \<and> bc_hard_reject_threshold (br_config s) \<le> f)"
    using usable_iff [of "br_config s" f] assms(1) by (auto simp: breaker_inv_def)
  show ?thesis using assms(2) unfolding u breaker_update_def Let_def by simp
qed

lemma reject_inv:
  "breaker_inv s \<Longrightarrow> breaker_inv (s\<lparr>br_open := True, br_bad_streak := bc_enter_confirmations (br_config s),
     br_recovery_streak := 0\<rparr>)"
  by (simp add: breaker_inv_def validBreakerConfig_def)

lemma open_step_inv:
  assumes "breaker_inv s" "usable_fitness (br_config s) f"
  shows "breaker_inv (fst (breaker_open_step s f))"
  using assms append_inv [OF assms] by (simp add: breaker_open_step_def Let_def breaker_inv_def)

lemma closed_step_inv:
  assumes "breaker_inv s" "usable_fitness (br_config s) f"
  shows "breaker_inv (fst (breaker_closed_step s f))"
  using assms append_inv [OF assms] by (simp add: breaker_closed_step_def Let_def breaker_inv_def)

lemma update_inv:
  assumes "breaker_inv s"
  shows "breaker_inv (fst (breaker_update s f))"
proof (cases "bc_enabled (br_config s)")
  case False
  then show ?thesis using assms by (simp add: breaker_update_def Let_def)
next
  case True
  show ?thesis
    using update_enabled [OF assms True, of f] assms reject_inv [OF assms]
      open_step_inv [OF assms, of f] closed_step_inv [OF assms, of f]
    by (simp split: if_split_asm)
qed

lemma breaker_update_config [simp]: "br_config (fst (breaker_update s f)) = br_config s"
  by (simp add: breaker_update_def breaker_open_step_def breaker_closed_step_def Let_def)

text \<open>The confirmation counter of the recovery: a closed circuit counts as recovered.\<close>

definition recovery_count :: "NdtFitnessCircuitBreaker \<Rightarrow> int" where
  "recovery_count s = (if br_open s then br_recovery_streak s else bc_recovery_confirmations (br_config s))"

lemma open_step_count:
  assumes "breaker_inv s" "br_open s"
  shows "recovery_count (fst (breaker_open_step s f)) \<le> recovery_count s + 1 \<and>
    (bd_allow_measurement (snd (breaker_open_step s f)) \<longrightarrow>
       bc_recovery_confirmations (br_config s) \<le> recovery_count (fst (breaker_open_step s f)))"
  using assms by (simp add: breaker_open_step_def recovery_count_def Let_def breaker_inv_def validBreakerConfig_def)

lemma closed_step_count:
  assumes "breaker_inv s" "\<not> br_open s"
  shows "recovery_count (fst (breaker_closed_step s f)) \<le> recovery_count s + 1 \<and>
    (bd_allow_measurement (snd (breaker_closed_step s f)) \<longrightarrow>
       bc_recovery_confirmations (br_config s) \<le> recovery_count (fst (breaker_closed_step s f)))"
  using assms by (simp add: breaker_closed_step_def recovery_count_def Let_def breaker_inv_def validBreakerConfig_def)

lemma update_count:
  assumes inv: "breaker_inv s" and en: "bc_enabled (br_config s)"
  shows "recovery_count (fst (breaker_update s f)) \<le> recovery_count s + 1 \<and>
    (bd_allow_measurement (snd (breaker_update s f)) \<longrightarrow> usable_fitness (br_config s) f \<and>
       bc_recovery_confirmations (br_config s) \<le> recovery_count (fst (breaker_update s f)))"
proof -
  have "0 \<le> recovery_count s" using inv by (simp add: recovery_count_def breaker_inv_def validBreakerConfig_def)
  then show ?thesis
    using update_enabled [OF inv en, of f] open_step_count [OF inv, of f] closed_step_count [OF inv, of f]
    by (cases "usable_fitness (br_config s) f"; cases "br_open s") (simp_all add: recovery_count_def)
qed

interpretation breaker: confirmation_machine breaker_update "\<lambda>s. breaker_inv s \<and> bc_enabled (br_config s)"
  recovery_count "\<lambda>s. bc_recovery_confirmations (br_config s)" bd_allow_measurement
  by unfold_locales (use update_inv update_count in auto)

interpretation breaker_state: invariant_machine breaker_update breaker_inv
  by unfold_locales (rule update_inv)

lemma median_finite:
  assumes "\<And>x. x \<in> set xs \<Longrightarrow> isfinite x"
  shows "isfinite (medianOf xs)"
proof -
  obtain ys where ys: "xs = map Fin ys" using all_finite_Fin assms by blast
  show ?thesis
  proof (cases "ys = []")
    case False
    then have "length ys div 2 < length ys" by (cases ys) auto
    then show ?thesis by (simp add: medianOf_def ys sort_key_Fin Let_def less_imp_diff_less)
  qed (simp add: medianOf_def ys)
qed

lemma isfinite_abs [simp]: "isfinite x \<Longrightarrow> isfinite \<bar>x\<bar>"
  by (auto simp: isfinite_iff)

lemma isfinite_mult [simp]: "isfinite x \<Longrightarrow> isfinite y \<Longrightarrow> isfinite (x * y)"
  by (auto simp: isfinite_iff)

lemma isfinite_cpp_max [simp]: "isfinite x \<Longrightarrow> isfinite y \<Longrightarrow> isfinite (cpp_max x (y::dbl))"
  by (simp add: cpp_max_def)

lemma threshold_bounds:
  assumes inv: "breaker_inv s"
  shows "bc_minimum_adaptive_threshold (br_config s) \<le> adaptive_threshold s \<and>
    adaptive_threshold s \<le> bc_hard_reject_threshold (br_config s)"
proof -
  have c: "validBreakerConfig (br_config s)" and b: "\<And>f. f \<in> set (br_baseline s) \<Longrightarrow> isfinite f"
    using inv by (auto simp: breaker_inv_def usable_fitness_def)
  have m: "isfinite (medianOf (br_baseline s))" using b by (rule median_finite)
  then have d: "isfinite (medianOf (map (\<lambda>x. \<bar>x - medianOf (br_baseline s)\<bar>) (br_baseline s)))"
    using b by (intro median_finite) auto
  have "isfinite (bc_minimum_adaptive_threshold (br_config s))" "isfinite (bc_hard_reject_threshold (br_config s))"
    "bc_minimum_adaptive_threshold (br_config s) \<le> bc_hard_reject_threshold (br_config s)"
    using c by (auto simp: validBreakerConfig_def isfinite_iff)
  moreover have "isfinite (bc_median_multiplier (br_config s))" "isfinite (bc_mad_multiplier (br_config s))"
    "isfinite (bc_minimum_mad (br_config s))"
    using c by (simp_all add: validBreakerConfig_def)
  moreover have "x \<le> x" if "isfinite x" for x :: dbl using that by (auto simp: isfinite_iff)
  ultimately show ?thesis
    using m d by (simp add: adaptive_threshold_def computeBaseline_def Let_def cpp_clamp_bounds)
qed

text \<open>Rejections in a row, below the hard limit, leave the baseline and so the threshold unchanged.\<close>

lemma bad_streak_run:
  assumes "breaker_inv s" and "bc_enabled (br_config s)" and "\<not> br_open s" and "baseline_ready s"
    and "\<And>f. f \<in> set fs \<Longrightarrow> adaptive_threshold s \<le> f \<and> usable_fitness (br_config s) f"
    and "br_bad_streak s + int (length fs) < bc_enter_confirmations (br_config s)"
  shows "run_state breaker_update s fs =
    s\<lparr>br_bad_streak := br_bad_streak s + int (length fs),
      br_recovery_streak := (if fs = [] then br_recovery_streak s else 0)\<rparr>"
  using assms
proof (induction fs arbitrary: s)
  case Nil
  then show ?case by simp
next
  case (Cons f fs)
  have f: "adaptive_threshold s \<le> f" "usable_fitness (br_config s) f" using Cons.prems(5) by auto
  let ?t = "s\<lparr>br_bad_streak := br_bad_streak s + 1, br_recovery_streak := 0\<rparr>"
  have step: "fst (breaker_update s f) = ?t"
    using update_enabled [OF Cons.prems(1,2), of f] f Cons.prems(3,4,6)
    by (simp add: breaker_closed_step_def Let_def)
  have same: "adaptive_threshold ?t = adaptive_threshold s" "baseline_ready ?t = baseline_ready s"
    by (simp_all add: adaptive_threshold_def baseline_ready_def computeBaseline_def Let_def)
  have inv: "breaker_inv ?t" using update_inv [OF Cons.prems(1), of f] step by simp
  have "run_state breaker_update ?t fs =
      ?t\<lparr>br_bad_streak := br_bad_streak ?t + int (length fs),
         br_recovery_streak := (if fs = [] then br_recovery_streak ?t else 0)\<rparr>"
    by (rule Cons.IH) (use inv Cons.prems same in auto)
  then show ?case using step by simp
qed

section \<open>Properties\<close>

text \<open>The breaker's state stays well formed in every run from every configuration: the baseline never
  exceeds its window and holds only finite, non-negative fitness values below the hard limit, the
  streak counters are non-negative and a closed circuit has fewer bad frames than it takes to open.\<close>

theorem breaker_reachable_inv:
  "breaker_inv (run_state breaker_update (breaker_init c) fs)"
  by (rule breaker_state.run_inv) simp

text \<open>What the breaker lets through: in every reachable state of an enabled breaker, an accepted measurement
  has a finite, non-negative fitness below the hard limit, and the adaptive threshold lies between
  its configured minimum and the hard limit.\<close>

theorem breaker_accepts_only_usable:
  assumes "bc_enabled (br_config s)" and "s = run_state breaker_update (breaker_init c) fs"
    and "bd_allow_measurement (snd (breaker_update s f))"
  shows "isfinite f \<and> Fin 0 \<le> f \<and> f < bc_hard_reject_threshold (br_config s) \<and>
    bc_minimum_adaptive_threshold (br_config s) \<le> adaptive_threshold s \<and>
    adaptive_threshold s \<le> bc_hard_reject_threshold (br_config s)"
proof -
  have inv: "breaker_inv s" unfolding assms(2) by (rule breaker_state.run_inv) simp
  show ?thesis using update_count [OF inv assms(1), of f] assms(3) threshold_bounds [OF inv]
    by (simp add: usable_fitness_def)
qed

lemma demo_breaker_allows:
  "bc_enabled (br_config (breaker_init default_NdtFitnessCircuitBreakerConfig)) \<and>
   bd_allow_measurement (snd (breaker_update (breaker_init default_NdtFitnessCircuitBreakerConfig) (Fin 0.1)))"
  by (simp add: breaker_update_def breaker_closed_step_def breaker_init_def breaker_setConfig_def breaker_reset_def
      default_config_valid baseline_ready_def breaker_report_def default_NdtFitnessCircuitDecision_def Let_def)
    (simp add: default_NdtFitnessCircuitBreakerConfig_def)

theorem breaker_accepts_only_usable_witness:
  "Fin 0.1 < bc_hard_reject_threshold (br_config (breaker_init default_NdtFitnessCircuitBreakerConfig))"
  using breaker_accepts_only_usable [of "breaker_init default_NdtFitnessCircuitBreakerConfig"
      default_NdtFitnessCircuitBreakerConfig "[]" "Fin 0.1"] demo_breaker_allows
  by simp

text \<open>An open circuit recovers slowly: from an open circuit with no recovery progress, the k-th further
  measurement can be accepted only if at least the configured number of recovery confirmations has
  passed.\<close>

theorem breaker_recovery_frames:
  assumes "breaker_inv s" and "bc_enabled (br_config s)" and "br_open s" and "br_recovery_streak s = 0"
    and "k < length fs" and "bd_allow_measurement (run_outputs breaker_update s fs ! k)"
  shows "bc_recovery_confirmations (br_config s) \<le> int k + 1"
  using assms by (intro breaker.positive_needs_frames [of s k fs]) (simp_all add: recovery_count_def)

definition demo_open_breaker :: NdtFitnessCircuitBreaker where
  "demo_open_breaker = fst (breaker_update (breaker_init default_NdtFitnessCircuitBreakerConfig) (Fin 3))"

lemma demo_open_breaker_eq:
  "demo_open_breaker = \<lparr>br_config = default_NdtFitnessCircuitBreakerConfig, br_baseline = [], br_open = True,
     br_bad_streak = 3, br_recovery_streak = 0\<rparr>"
  by (simp add: demo_open_breaker_def breaker_update_def breaker_init_def breaker_setConfig_def breaker_reset_def
      default_config_valid Let_def) (simp add: default_NdtFitnessCircuitBreakerConfig_def)

theorem breaker_recovery_frames_witness:
  "bd_allow_measurement (run_outputs breaker_update demo_open_breaker (replicate 5 (Fin 0.1)) ! 4) \<and>
   bc_recovery_confirmations (br_config demo_open_breaker) \<le> 5"
proof -
  have inv: "breaker_inv demo_open_breaker"
    unfolding demo_open_breaker_def by (intro update_inv) simp
  have allow: "bd_allow_measurement (run_outputs breaker_update demo_open_breaker (replicate 5 (Fin 0.1)) ! 4)"
    by (simp add: demo_open_breaker_eq breaker_update_def breaker_open_step_def Let_def numeral_eq_Suc
        recovery_threshold_def adaptive_threshold_def computeBaseline_def baseline_ready_def
        default_NdtFitnessCircuitBreakerConfig_def)
  show ?thesis
    using breaker_recovery_frames [OF inv _ _ _ _ allow] allow
    by (simp add: demo_open_breaker_eq default_NdtFitnessCircuitBreakerConfig_def)
qed

text \<open>Sustained degradation opens the circuit: from a closed, warmed-up state, as many usable measurements at or
  above the adaptive threshold as are missing to the configured number of confirmations make
  the last decision reject its measurement and leave the circuit open.\<close>

theorem breaker_opens_on_degradation:
  assumes "breaker_inv s" and "bc_enabled (br_config s)" and "\<not> br_open s" and "baseline_ready s"
    and "\<forall>f \<in> set (fs @ [g]). adaptive_threshold s \<le> f \<and> usable_fitness (br_config s) f"
    and "br_bad_streak s + int (length (fs @ [g])) = bc_enter_confirmations (br_config s)"
  shows "\<not> bd_allow_measurement (last (run_outputs breaker_update s (fs @ [g]))) \<and>
    br_open (run_state breaker_update s (fs @ [g]))"
proof -
  let ?t = "s\<lparr>br_bad_streak := br_bad_streak s + int (length fs),
      br_recovery_streak := (if fs = [] then br_recovery_streak s else 0)\<rparr>"
  have t: "run_state breaker_update s fs = ?t"
    using assms by (intro bad_streak_run) auto
  have same: "adaptive_threshold ?t = adaptive_threshold s" "baseline_ready ?t = baseline_ready s"
    by (simp_all add: adaptive_threshold_def baseline_ready_def computeBaseline_def Let_def)
  have inv: "breaker_inv ?t" using breaker_state.run_inv [OF assms(1), of fs] t by simp
  have "breaker_update ?t g = breaker_closed_step ?t g"
    using update_enabled [OF inv, of g] assms(2,3,5) by simp
  then show ?thesis
    using t same assms(4,5,6) by (simp add: run_outputs_append run_state_append breaker_closed_step_def Let_def)
qed

definition demo_warm_breaker :: NdtFitnessCircuitBreaker where
  "demo_warm_breaker = (breaker_init default_NdtFitnessCircuitBreakerConfig)\<lparr>br_baseline := replicate 30 (Fin 0.1)\<rparr>"

lemma demo_warm:
  "breaker_inv demo_warm_breaker" "baseline_ready demo_warm_breaker"
  "br_config demo_warm_breaker = default_NdtFitnessCircuitBreakerConfig"
  "\<not> br_open demo_warm_breaker" "br_bad_streak demo_warm_breaker = 0"
  using breaker_init_inv [of default_NdtFitnessCircuitBreakerConfig]
  by (simp_all add: demo_warm_breaker_def breaker_inv_def baseline_ready_def breaker_init_def
      breaker_setConfig_def breaker_reset_def default_config_valid)
    (simp_all add: default_NdtFitnessCircuitBreakerConfig_def usable_fitness_def)

lemma sort_key_replicate: "sort_key f (replicate n x) = replicate n x"
proof (induction n)
  case (Suc n)
  then show ?case by (cases n) simp_all
qed simp

lemma demo_warm_threshold: "adaptive_threshold demo_warm_breaker = Fin 0.35"
proof -
  have med: "medianOf (replicate 30 (Fin a)) = Fin a" for a
    by (simp add: medianOf_def sort_key_replicate Let_def)
  have base: "br_baseline demo_warm_breaker = replicate 30 (Fin 0.1)" by (simp add: demo_warm_breaker_def)
  have dev: "map (\<lambda>x. \<bar>x - Fin 0.1\<bar>) (replicate 30 (Fin 0.1)) = replicate 30 (Fin 0)"
    by (simp)
  have "computeBaseline demo_warm_breaker = (Fin 0.1, Fin 0)"
    unfolding computeBaseline_def Let_def base med dev ..
  then show ?thesis
    using demo_warm(2,3)
    by (simp add: adaptive_threshold_def Let_def) (simp add: default_NdtFitnessCircuitBreakerConfig_def cpp_clamp_def)
qed

theorem breaker_opens_on_degradation_witness:
  "br_open (run_state breaker_update demo_warm_breaker [Fin 1.9, Fin 1.9, Fin 1.9])"
  using breaker_opens_on_degradation [of demo_warm_breaker "[Fin 1.9, Fin 1.9]" "Fin 1.9"] demo_warm
  by (simp add: demo_warm_threshold) (simp add: default_NdtFitnessCircuitBreakerConfig_def usable_fitness_def)

end
