(* ===== verification/Obstacle_Perception.thy ===== *)
theory Obstacle_Perception
  imports Domain_Contracts Rigid_Geometry
begin

text \<open>
  Physical obstacle perception (\<^verbatim>\<open>obstacle_perception.hpp/.cpp\<close>). The Euclidean clustering of the Point
  Cloud Library is the parameter \<open>extract\<close>: it receives the tolerance, the minimum cluster size and the
  finite cloud, and returns lists of point indices, or \<open>None\<close> when it throws. Nothing is assumed of
  it: the properties hold for every clustering. A null cloud pointer is \<open>None\<close>.
\<close>

section \<open>Data\<close>

record ObstaclePerceptionConfig =
  oc_future_stamp_tolerance_sec :: dbl
  oc_maximum_cloud_age_sec :: dbl
  oc_minimum_roi_finite_points :: nat
  oc_minimum_roi_coverage_ratio :: dbl
  oc_cluster_tolerance_m :: dbl
  oc_minimum_cluster_points :: nat
  oc_top_percentile :: dbl
  oc_bottom_percentile :: dbl
  oc_vertical_bin_size_m :: dbl
  oc_uncertainty_floor_m :: dbl
  oc_uncertainty_max_m :: dbl

definition default_ObstaclePerceptionConfig :: ObstaclePerceptionConfig where
  "default_ObstaclePerceptionConfig =
     \<lparr>oc_future_stamp_tolerance_sec = Fin 0.05, oc_maximum_cloud_age_sec = Fin 0.50,
      oc_minimum_roi_finite_points = 20, oc_minimum_roi_coverage_ratio = Fin 0.05,
      oc_cluster_tolerance_m = Fin 0.25, oc_minimum_cluster_points = 5,
      oc_top_percentile = Fin 0.95, oc_bottom_percentile = Fin 0.05,
      oc_vertical_bin_size_m = Fin 0.10, oc_uncertainty_floor_m = Fin 0.05,
      oc_uncertainty_max_m = Fin 0.30\<rparr>"

record ObstaclePerceptionInput =
  oi_source_stamp_sec :: dbl
  oi_source_sequence :: u64
  oi_frame_id :: string
  oi_query_footprint :: CargoObbFootprint
  oi_cloud_base :: "vec3 list option"
  oi_observation_valid :: bool
  oi_cloud_age_sec :: dbl
  oi_roi_finite_points :: nat
  oi_roi_coverage_ratio :: dbl

record ObstaclePerceptionCluster =
  oq_cluster_index :: nat
  oq_point_count :: nat
  oq_footprint_distance_m :: dbl
  oq_top_z95_m :: dbl
  oq_bottom_z05_m :: dbl
  oq_minimum_z_m :: dbl
  oq_maximum_z_m :: dbl
  oq_vertical_span_m :: dbl
  oq_vertical_continuity_ratio :: dbl
  oq_tail_spread_m :: dbl
  oq_obstacle_uncertainty_m :: dbl
  oq_centroid_base :: vec3
  oq_nearest_point_base :: vec3
  oq_point_indices :: "nat list"

record ObstaclePerceptionResult =
  or_source_stamp_sec :: dbl
  or_source_sequence :: u64
  or_frame_id :: string
  or_executed :: bool
  or_valid :: bool
  or_query_horizontal_valid :: bool
  or_finite_filter_executed :: bool
  or_clustering_attempted :: bool
  or_clustering_completed :: bool
  or_finite_input_points :: nat
  or_cluster_count :: nat
  or_clusters :: "ObstaclePerceptionCluster list"
  or_reason :: string

definition default_ObstaclePerceptionResult :: ObstaclePerceptionResult where
  "default_ObstaclePerceptionResult =
     \<lparr>or_source_stamp_sec = Fin 0, or_source_sequence = 0, or_frame_id = ''base_link'',
      or_executed = False, or_valid = False, or_query_horizontal_valid = False,
      or_finite_filter_executed = False, or_clustering_attempted = False,
      or_clustering_completed = False, or_finite_input_points = 0, or_cluster_count = 0,
      or_clusters = [], or_reason = ''not_executed''\<rparr>"

section \<open>Operations\<close>

definition finitePoint :: "vec3 \<Rightarrow> bool" where
  "finitePoint p \<longleftrightarrow> isfinite (v3x p) \<and> isfinite (v3y p) \<and> isfinite (v3z p)"

definition validHorizontalFootprint :: "CargoObbFootprint \<Rightarrow> bool" where
  "validHorizontalFootprint f \<longleftrightarrow> fp_valid f \<and> vec2_allFinite (fp_center_base f) \<and>
     isfinite (fp_length_m f) \<and> Fin 0 < fp_length_m f \<and>
     isfinite (fp_width_m f) \<and> Fin 0 < fp_width_m f \<and> isfinite (fp_yaw_base_rad f)"

text \<open>Conversions \<^verbatim>\<open>static_cast<std::size_t>(std::ceil(x))\<close> and \<^verbatim>\<open>static_cast<int>(std::floor(x))\<close>; C++ leaves
  the cast of a non-finite value undefined, and the code only reaches them with finite ones.\<close>

fun ceil_size :: "dbl \<Rightarrow> nat" where
  "ceil_size (Fin x) = nat \<lceil>x\<rceil>"
| "ceil_size _ = 0"

fun floor_int :: "dbl \<Rightarrow> int" where
  "floor_int (Fin x) = \<lfloor>x\<rfloor>"
| "floor_int _ = 0"

text \<open>\<^verbatim>\<open>std::nth_element\<close> places at the index the element a full sort would place there.\<close>

definition nearestRankPercentile :: "dbl list \<Rightarrow> dbl \<Rightarrow> dbl" where
  "nearestRankPercentile values percentile =
     (let size = length values;
          rank = cpp_max 1 (cpp_min (ceil_size (percentile * Fin (real size))) size)
      in sort_key real_part values ! (rank - 1))"

definition validateObstaclePerceptionConfig :: "ObstaclePerceptionConfig \<Rightarrow> bool \<times> string" where
  "validateObstaclePerceptionConfig c =
     (if \<not> isfinite (oc_future_stamp_tolerance_sec c) \<or> oc_future_stamp_tolerance_sec c < Fin 0
      then (False, ''future_stamp_tolerance_sec'')
      else if \<not> isfinite (oc_maximum_cloud_age_sec c) \<or> oc_maximum_cloud_age_sec c < Fin 0
      then (False, ''maximum_cloud_age_sec'')
      else if oc_minimum_roi_finite_points c = 0 then (False, ''minimum_roi_finite_points'')
      else if \<not> isfinite (oc_minimum_roi_coverage_ratio c) \<or> oc_minimum_roi_coverage_ratio c < Fin 0 \<or>
              Fin 1 < oc_minimum_roi_coverage_ratio c
      then (False, ''minimum_roi_coverage_ratio'')
      else if \<not> isfinite (oc_cluster_tolerance_m c) \<or> oc_cluster_tolerance_m c \<le> Fin 0
      then (False, ''cluster_tolerance_m'')
      else if oc_minimum_cluster_points c = 0 \<or> 2147483647 < oc_minimum_cluster_points c
      then (False, ''minimum_cluster_points'')
      else if \<not> isfinite (oc_top_percentile c) \<or> oc_top_percentile c < Fin 0 \<or>
              Fin 1 < oc_top_percentile c
      then (False, ''top_percentile'')
      else if \<not> isfinite (oc_bottom_percentile c) \<or> oc_bottom_percentile c < Fin 0 \<or>
              oc_top_percentile c \<le> oc_bottom_percentile c
      then (False, ''bottom_percentile'')
      else if \<not> isfinite (oc_vertical_bin_size_m c) \<or> oc_vertical_bin_size_m c \<le> Fin 0
      then (False, ''vertical_bin_size_m'')
      else if \<not> isfinite (oc_uncertainty_floor_m c) \<or> oc_uncertainty_floor_m c < Fin 0
      then (False, ''uncertainty_floor_m'')
      else if \<not> isfinite (oc_uncertainty_max_m c) \<or> oc_uncertainty_max_m c < oc_uncertainty_floor_m c
      then (False, ''uncertainty_max_m'')
      else (True, []))"

text \<open>The loop over the points of a cluster that tracks the nearest one.\<close>

fun nearest_point :: "CargoObbFootprint \<Rightarrow> vec3 list \<Rightarrow> dbl \<times> vec3 \<Rightarrow> dbl \<times> vec3" where
  "nearest_point f [] acc = acc"
| "nearest_point f (p # ps) (best, point) =
     (let distance = pointToCargoObbDistance2D (vec3_head2 p) f
      in nearest_point f ps (if distance < best then (distance, p) else (best, point)))"

definition centroid_of :: "vec3 list \<Rightarrow> vec3" where
  "centroid_of ps =
     (let sum = foldl vec3_add vec3_zero ps; n = Fin (real (length ps))
      in \<lparr>v3x = v3x sum / n, v3y = v3y sum / n, v3z = v3z sum / n\<rparr>)"

definition max_element :: "dbl list \<Rightarrow> dbl" where
  "max_element zs = foldl (\<lambda>m z. if m < z then z else m) (hd zs) (tl zs)"

definition min_element :: "dbl list \<Rightarrow> dbl" where
  "min_element zs = foldl (\<lambda>m z. if z < m then z else m) (hd zs) (tl zs)"

definition occupied_vertical_bins :: "dbl \<Rightarrow> dbl \<Rightarrow> dbl \<Rightarrow> dbl list \<Rightarrow> int list" where
  "occupied_vertical_bins z05 z95 bin zs =
     remdups (map (\<lambda>z. floor_int ((z - z05) / bin))
                  (filter (\<lambda>z. \<not> (z < z05 \<or> z95 < z)) zs))"

text \<open>The body of the cluster loop, on the points of one cluster.\<close>

definition describe_cluster ::
  "ObstaclePerceptionConfig \<Rightarrow> CargoObbFootprint \<Rightarrow> nat \<Rightarrow> nat list \<Rightarrow> vec3 list \<Rightarrow>
   ObstaclePerceptionCluster" where
  "describe_cluster c f index indices points =
     (let zs = map v3z points;
          (distance, nearest) = nearest_point f points (PInf, vec3_zero);
          maximum = max_element zs;
          minimum = min_element zs;
          z95 = nearestRankPercentile zs (oc_top_percentile c);
          z05 = nearestRankPercentile zs (oc_bottom_percentile c);
          span = cpp_max (Fin 0) (z95 - z05);
          bins = occupied_vertical_bins z05 z95 (oc_vertical_bin_size_m c) zs;
          expected_bins = cpp_max 1 (floor_int (span / oc_vertical_bin_size_m c) + 1);
          tail_spread = cpp_max (Fin 0) (maximum - z95)
      in \<lparr>oq_cluster_index = index, oq_point_count = length points,
          oq_footprint_distance_m = distance, oq_top_z95_m = z95, oq_bottom_z05_m = z05,
          oq_minimum_z_m = minimum, oq_maximum_z_m = maximum, oq_vertical_span_m = span,
          oq_vertical_continuity_ratio =
            cpp_clamp (Fin (real (length bins)) / Fin (real_of_int expected_bins)) (Fin 0) (Fin 1),
          oq_tail_spread_m = tail_spread,
          oq_obstacle_uncertainty_m =
            cpp_clamp (oc_uncertainty_floor_m c + tail_spread)
                      (oc_uncertainty_floor_m c) (oc_uncertainty_max_m c),
          oq_centroid_base = centroid_of points, oq_nearest_point_base = nearest,
          oq_point_indices = indices\<rparr>)"

definition cluster_finite :: "ObstaclePerceptionCluster \<Rightarrow> bool" where
  "cluster_finite q \<longleftrightarrow> isfinite (oq_footprint_distance_m q) \<and> isfinite (oq_top_z95_m q) \<and>
     isfinite (oq_bottom_z05_m q) \<and> isfinite (oq_obstacle_uncertainty_m q)"

text \<open>The cluster loop. \<open>returns\<close> pairs each finite point with its index in the source cloud
  (\<^verbatim>\<open>finite_source_indices\<close>); an error drops all clusters and returns its reason.\<close>

fun collect_clusters ::
  "ObstaclePerceptionConfig \<Rightarrow> CargoObbFootprint \<Rightarrow> (nat \<times> vec3) list \<Rightarrow> nat \<Rightarrow> int list list \<Rightarrow>
   ObstaclePerceptionCluster list \<Rightarrow> string + ObstaclePerceptionCluster list" where
  "collect_clusters c f returns index [] acc = Inr acc"
| "collect_clusters c f returns index (is # rest) acc =
     (if is = [] then collect_clusters c f returns (Suc index) rest acc
      else if \<exists>i \<in> set is. i < 0 \<or> int (length returns) \<le> i then Inl ''cluster_index_out_of_range''
      else let q = describe_cluster c f index (map (\<lambda>i. fst (returns ! nat i)) is)
                     (map (\<lambda>i. snd (returns ! nat i)) is)
           in if \<not> cluster_finite q then Inl ''non_finite_cluster_result''
              else collect_clusters c f returns (Suc index) rest (acc @ [q]))"

definition observation_insufficient :: "ObstaclePerceptionConfig \<Rightarrow> ObstaclePerceptionInput \<Rightarrow> bool" where
  "observation_insufficient c i \<longleftrightarrow>
     \<not> oi_observation_valid i \<or> \<not> isfinite (oi_cloud_age_sec i) \<or>
     oi_cloud_age_sec i < - oc_future_stamp_tolerance_sec c \<or>
     oc_maximum_cloud_age_sec c < oi_cloud_age_sec i \<or>
     oi_roi_finite_points i < oc_minimum_roi_finite_points c \<or>
     \<not> isfinite (oi_roi_coverage_ratio i) \<or>
     oi_roi_coverage_ratio i < oc_minimum_roi_coverage_ratio c"

type_synonym extractor = "dbl \<Rightarrow> nat \<Rightarrow> vec3 list \<Rightarrow> int list list option"

definition finite_points :: "vec3 list \<Rightarrow> (nat \<times> vec3) list" where
  "finite_points cloud = filter (\<lambda>(i, p). finitePoint p) (enumerate 0 cloud)"

definition perceive_cloud ::
  "extractor \<Rightarrow> ObstaclePerceptionConfig \<Rightarrow> ObstaclePerceptionInput \<Rightarrow> vec3 list \<Rightarrow>
   ObstaclePerceptionResult \<Rightarrow> ObstaclePerceptionResult" where
  "perceive_cloud extract c i cloud r0 =
     (let returns = finite_points cloud;
          r1 = r0\<lparr>or_finite_filter_executed := True, or_finite_input_points := length returns\<rparr>
      in if returns = [] then r1\<lparr>or_valid := True, or_reason := ''clear_no_external_obstacle''\<rparr>
         else if length returns < oc_minimum_cluster_points c
         then r1\<lparr>or_reason := ''sparse_obstacle_returns''\<rparr>
         else let r2 = r1\<lparr>or_clustering_attempted := True\<rparr>
         in case extract (oc_cluster_tolerance_m c) (oc_minimum_cluster_points c) (map snd returns) of
              None \<Rightarrow> r2\<lparr>or_reason := ''clustering_failed''\<rparr>
            | Some groups \<Rightarrow>
                (let r3 = r2\<lparr>or_clustering_completed := True\<rparr>
                 in case collect_clusters c (oi_query_footprint i) returns 0 groups [] of
                      Inl e \<Rightarrow> r3\<lparr>or_clusters := [], or_cluster_count := 0, or_reason := e\<rparr>
                    | Inr qs \<Rightarrow>
                        (let r4 = r3\<lparr>or_clusters := qs, or_cluster_count := length qs\<rparr>
                         in if qs = [] then r4\<lparr>or_reason := ''obstacle_clusters_insufficient''\<rparr>
                            else r4\<lparr>or_valid := True, or_reason := ''obstacle_clusters_ready''\<rparr>)))"

definition perceiveObstacles ::
  "extractor \<Rightarrow> ObstaclePerceptionConfig \<Rightarrow> ObstaclePerceptionInput \<Rightarrow> ObstaclePerceptionResult" where
  "perceiveObstacles extract c i =
     (let r = default_ObstaclePerceptionResult
            \<lparr>or_source_stamp_sec := oi_source_stamp_sec i, or_source_sequence := oi_source_sequence i,
             or_frame_id := oi_frame_id i, or_executed := True\<rparr>;
          (ok, field) = validateObstaclePerceptionConfig c
      in if \<not> ok then r\<lparr>or_reason := ''invalid_config:'' @ field\<rparr>
         else let r1 = r\<lparr>or_query_horizontal_valid := validHorizontalFootprint (oi_query_footprint i)\<rparr>
         in case oi_cloud_base i of
              None \<Rightarrow> r1\<lparr>or_reason := ''invalid_horizontal_query''\<rparr>
            | Some cloud \<Rightarrow>
                (if \<not> or_query_horizontal_valid r1 then r1\<lparr>or_reason := ''invalid_horizontal_query''\<rparr>
                 else if observation_insufficient c i
                 then r1\<lparr>or_reason := ''obstacle_observation_insufficient''\<rparr>
                 else perceive_cloud extract c i cloud r1))"

text \<open>The phase argument is a C string that may be null.\<close>

definition obstaclePerceptionBlockReason ::
  "string option \<Rightarrow> bool \<Rightarrow> ObstaclePerceptionResult \<Rightarrow> string" where
  "obstaclePerceptionBlockReason phase query_allowed r =
     (let prefix = (case phase of Some p \<Rightarrow> if p \<noteq> [] then p else ''UNKNOWN'' | None \<Rightarrow> ''UNKNOWN'')
      in if \<not> query_allowed then prefix @ ''_PERCEPTION_NOT_RUN''
         else if \<not> or_executed r then prefix @ ''_PERCEPTION_NOT_EXECUTED:'' @ or_reason r
         else if \<not> or_valid r then prefix @ ''_PERCEPTION_INVALID:'' @ or_reason r
         else if or_finite_input_points r = 0 then prefix @ ''_PERCEPTION_RUN_ZERO_POINTS''
         else ''NONE'')"

section \<open>Well-formed clusters\<close>

text \<open>What a published cluster promises about the source cloud.\<close>

definition cluster_wf ::
  "ObstaclePerceptionConfig \<Rightarrow> CargoObbFootprint \<Rightarrow> vec3 list \<Rightarrow> ObstaclePerceptionCluster \<Rightarrow> bool" where
  "cluster_wf c f cloud q \<longleftrightarrow>
     oq_point_indices q \<noteq> [] \<and> oq_point_count q = length (oq_point_indices q) \<and>
     (\<forall>j \<in> set (oq_point_indices q). j < length cloud \<and> finitePoint (cloud ! j) \<and>
        oq_footprint_distance_m q \<le> pointToCargoObbDistance2D (vec3_head2 (cloud ! j)) f) \<and>
     (\<exists>j \<in> set (oq_point_indices q).
        oq_footprint_distance_m q = pointToCargoObbDistance2D (vec3_head2 (cloud ! j)) f) \<and>
     isfinite (oq_footprint_distance_m q) \<and> Fin 0 \<le> oq_footprint_distance_m q \<and>
     isfinite (oq_top_z95_m q) \<and> isfinite (oq_bottom_z05_m q) \<and>
     oq_minimum_z_m q \<le> oq_bottom_z05_m q \<and> oq_bottom_z05_m q \<le> oq_top_z95_m q \<and>
     oq_top_z95_m q \<le> oq_maximum_z_m q \<and>
     Fin 0 \<le> oq_vertical_continuity_ratio q \<and> oq_vertical_continuity_ratio q \<le> Fin 1 \<and>
     isfinite (oq_obstacle_uncertainty_m q) \<and>
     oc_uncertainty_floor_m c \<le> oq_obstacle_uncertainty_m q \<and>
     oq_obstacle_uncertainty_m q \<le> oc_uncertainty_max_m c"

section \<open>Lemmas\<close>

lemma obb_distance_finite:
  assumes "finitePoint p" and "validHorizontalFootprint f"
  shows "\<exists>d. pointToCargoObbDistance2D (vec3_head2 p) f = Fin d \<and> 0 \<le> d"
  using assms
  by (auto simp: pointToCargoObbDistance2D_def obb_local_def finitePoint_def validHorizontalFootprint_def
      isfinite_iff Let_def vec2_allFinite_def vec3_head2_def vec2_sub_def)

abbreviation rank_of :: "nat \<Rightarrow> real \<Rightarrow> nat" where
  "rank_of n p \<equiv> max 1 (min (nat \<lceil>p * real n\<rceil>) n)"

lemma percentile_Fin:
  assumes "xs \<noteq> []"
  shows "nearestRankPercentile (map Fin xs) (Fin p) = Fin (sort xs ! (rank_of (length xs) p - 1))"
    and "rank_of (length xs) p - 1 < length xs"
proof -
  show "rank_of (length xs) p - 1 < length xs" using assms by (cases xs) auto
  then show "nearestRankPercentile (map Fin xs) (Fin p) = Fin (sort xs ! (rank_of (length xs) p - 1))"
    by (simp add: nearestRankPercentile_def Let_def sort_key_Fin)
qed

lemma percentile_mono:
  assumes "(xs :: real list) \<noteq> []" and "p \<le> q"
  shows "sort xs ! (rank_of (length xs) p - 1) \<le> sort xs ! (rank_of (length xs) q - 1)"
proof (rule sorted_nth_mono)
  have "p * real (length xs) \<le> q * real (length xs)" using assms(2) by (simp add: mult_right_mono)
  then have "nat \<lceil>p * real (length xs)\<rceil> \<le> nat \<lceil>q * real (length xs)\<rceil>"
    by (intro nat_mono ceiling_mono)
  then show "rank_of (length xs) p - 1 \<le> rank_of (length xs) q - 1" by linarith
  show "rank_of (length xs) q - 1 < length (sort xs)" using percentile_Fin(2) [OF assms(1)] by simp
qed simp

lemma percentile_mem: "(xs::real list) \<noteq> [] \<Longrightarrow> sort xs ! (rank_of (length xs) p - 1) \<in> set xs"
  using percentile_Fin(2) [of xs p] nth_mem [of _ "sort xs"] by (metis length_sort set_sort)

lemma foldl_max_Fin: "foldl (\<lambda>m z. if m < z then z else m) (Fin a) (map Fin xs) = Fin (foldl max a xs)"
  by (induction xs arbitrary: a) (auto simp: max_def)

lemma foldl_min_Fin: "foldl (\<lambda>m z. if z < m then z else m) (Fin a) (map Fin xs) = Fin (foldl min a xs)"
  by (induction xs arbitrary: a) (auto simp: min_def not_less)

lemma foldl_max_ge: "a \<le> foldl max (a::real) xs" "x \<in> set xs \<Longrightarrow> x \<le> foldl max (a::real) xs"
  by (induction xs arbitrary: a) (auto, (metis max.bounded_iff)+)

lemma foldl_min_le: "foldl min (a::real) xs \<le> a" "x \<in> set xs \<Longrightarrow> foldl min (a::real) xs \<le> x"
  by (induction xs arbitrary: a) (auto, (metis min.bounded_iff)+)

lemma max_element_ge: "x \<in> set xs \<Longrightarrow> \<exists>m. max_element (map Fin xs) = Fin m \<and> x \<le> m"
  by (cases xs) (auto simp: max_element_def foldl_max_Fin intro: foldl_max_ge)

lemma min_element_le: "x \<in> set xs \<Longrightarrow> \<exists>m. min_element (map Fin xs) = Fin m \<and> m \<le> x"
  by (cases xs) (auto simp: min_element_def foldl_min_Fin intro: foldl_min_le)

text \<open>The vertical statistics of a cluster are ordered.\<close>

lemma percentile_order:
  assumes "xs \<noteq> []" and "p \<le> q"
  obtains lo b t hi where "min_element (map Fin xs) = Fin lo"
    "nearestRankPercentile (map Fin xs) (Fin p) = Fin b"
    "nearestRankPercentile (map Fin xs) (Fin q) = Fin t"
    "max_element (map Fin xs) = Fin hi" "lo \<le> b" "b \<le> t" "t \<le> hi"
  using that percentile_Fin(1) [OF assms(1)] percentile_mono [OF assms]
    max_element_ge [OF percentile_mem [OF assms(1)]] min_element_le [OF percentile_mem [OF assms(1)]]
  by metis

text \<open>The nearest-point loop returns the minimal distance.\<close>

lemma nearest_point_min:
  assumes "validHorizontalFootprint f" and "\<And>p. p \<in> set ps \<Longrightarrow> finitePoint p"
  shows "best = PInf \<or> (\<exists>b. best = Fin b) \<Longrightarrow>
    (let d = fst (nearest_point f ps (best, x))
     in (d = best \<or> (\<exists>p \<in> set ps. d = pointToCargoObbDistance2D (vec3_head2 p) f)) \<and> d \<le> best \<and>
        (\<forall>p \<in> set ps. d \<le> pointToCargoObbDistance2D (vec3_head2 p) f))"
  using assms(2)
proof (induction ps arbitrary: best x)
  case Nil
  then show ?case by (auto simp: Let_def)
next
  case (Cons p ps)
  obtain d where d: "pointToCargoObbDistance2D (vec3_head2 p) f = Fin d"
    using obb_distance_finite [OF _ assms(1)] Cons.prems(2) by (metis list.set_intros(1))
  let ?acc = "if Fin d < best then (Fin d, p) else (best, x)"
  have "fst ?acc = PInf \<or> (\<exists>b. fst ?acc = Fin b)" using Cons.prems(1) by auto
  then have IH: "let e = fst (nearest_point f ps (fst ?acc, snd ?acc))
     in (e = fst ?acc \<or> (\<exists>p \<in> set ps. e = pointToCargoObbDistance2D (vec3_head2 p) f)) \<and> e \<le> fst ?acc \<and>
        (\<forall>p \<in> set ps. e \<le> pointToCargoObbDistance2D (vec3_head2 p) f)"
    using Cons.prems(2) by (intro Cons.IH) auto
  have le: "fst ?acc \<le> best" "fst ?acc \<le> Fin d" using Cons.prems(1) by auto
  from IH obtain e where e: "fst (nearest_point f (p # ps) (best, x)) = e" "e \<le> fst ?acc"
    "e = fst ?acc \<or> (\<exists>p \<in> set ps. e = pointToCargoObbDistance2D (vec3_head2 p) f)"
    "\<forall>p \<in> set ps. e \<le> pointToCargoObbDistance2D (vec3_head2 p) f"
    by (auto simp: Let_def d split: if_splits)
  then show ?case
    using d dbl_le_trans [OF e(2) le(1)] dbl_le_trans [OF e(2) le(2)] by (auto simp: Let_def split: if_splits)
qed

lemma nearest_point_attained:
  assumes f: "validHorizontalFootprint f" and fin: "\<And>p. p \<in> set ps \<Longrightarrow> finitePoint p" and "ps \<noteq> []"
  defines "d \<equiv> fst (nearest_point f ps (PInf, vec3_zero))"
  shows "(\<exists>p \<in> set ps. d = pointToCargoObbDistance2D (vec3_head2 p) f) \<and>
         (\<forall>p \<in> set ps. d \<le> pointToCargoObbDistance2D (vec3_head2 p) f)"
proof -
  have d: "d = PInf \<or> (\<exists>p \<in> set ps. d = pointToCargoObbDistance2D (vec3_head2 p) f)"
    "\<forall>p \<in> set ps. d \<le> pointToCargoObbDistance2D (vec3_head2 p) f"
    using nearest_point_min [OF f fin, of ps PInf vec3_zero] by (simp_all add: Let_def d_def)
  have "d \<noteq> PInf"
  proof
    assume "d = PInf"
    moreover obtain p where "p \<in> set ps" using assms(3) by (cases ps) auto
    ultimately show False using d(2) obb_distance_finite [OF fin f] by fastforce
  qed
  then show ?thesis using d by blast
qed

lemma valid_config_facts:
  assumes "fst (validateObstaclePerceptionConfig c)"
  obtains lo hi flr mx bin where "oc_bottom_percentile c = Fin lo" "oc_top_percentile c = Fin hi" "lo < hi"
    "oc_uncertainty_floor_m c = Fin flr" "oc_uncertainty_max_m c = Fin mx" "flr \<le> mx"
    "oc_vertical_bin_size_m c = Fin bin" "0 < bin"
proof -
  have "isfinite (oc_bottom_percentile c)" "isfinite (oc_top_percentile c)"
    "\<not> oc_top_percentile c \<le> oc_bottom_percentile c"
    "isfinite (oc_uncertainty_floor_m c)" "isfinite (oc_uncertainty_max_m c)"
    "\<not> oc_uncertainty_max_m c < oc_uncertainty_floor_m c"
    "isfinite (oc_vertical_bin_size_m c)" "\<not> oc_vertical_bin_size_m c \<le> Fin 0"
    using assms unfolding validateObstaclePerceptionConfig_def by (simp_all split: if_split_asm)
  then show thesis by (auto simp: isfinite_iff not_le not_less intro: that)
qed

lemma clamp_Fin_bounds:
  "a \<le> b \<Longrightarrow> \<exists>v. cpp_clamp (Fin x) (Fin a) (Fin b) = Fin v \<and> a \<le> v \<and> v \<le> b"
  by (auto simp: cpp_clamp_def)

lemma describe_cluster_wf:
  assumes config: "fst (validateObstaclePerceptionConfig c)" and f: "validHorizontalFootprint f"
    and ps: "ps \<noteq> []" "\<And>j p. (j, p) \<in> set ps \<Longrightarrow> j < length cloud \<and> p = cloud ! j \<and> finitePoint p"
  shows "cluster_wf c f cloud (describe_cluster c f index (map fst ps) (map snd ps))"
proof -
  obtain lo hi flr mx bin where c: "oc_bottom_percentile c = Fin lo" "oc_top_percentile c = Fin hi" "lo < hi"
    "oc_uncertainty_floor_m c = Fin flr" "oc_uncertainty_max_m c = Fin mx" "flr \<le> mx"
    "oc_vertical_bin_size_m c = Fin bin" "0 < bin"
    using valid_config_facts [OF config] by metis
  have fin: "finitePoint p" if "p \<in> set (map snd ps)" for p using ps(2) that by auto
  then obtain zs where zs: "map v3z (map snd ps) = map Fin zs"
    using all_finite_Fin [of "map v3z (map snd ps)"] by (auto simp: finitePoint_def)
  then have ne: "zs \<noteq> []" using ps(1) by auto
  obtain mn b t mz where z: "min_element (map Fin zs) = Fin mn"
    "nearestRankPercentile (map Fin zs) (Fin lo) = Fin b"
    "nearestRankPercentile (map Fin zs) (Fin hi) = Fin t"
    "max_element (map Fin zs) = Fin mz" "mn \<le> b" "b \<le> t" "t \<le> mz"
    by (rule percentile_order [OF ne less_imp_le [OF c(3)]])
  let ?d = "fst (nearest_point f (map snd ps) (PInf, vec3_zero))"
  have d: "\<exists>p \<in> set (map snd ps). ?d = pointToCargoObbDistance2D (vec3_head2 p) f"
    "\<forall>p \<in> set (map snd ps). ?d \<le> pointToCargoObbDistance2D (vec3_head2 p) f"
    using nearest_point_attained [OF f fin, of "map snd ps"] ps(1) by simp_all
  then obtain dd where dd: "?d = Fin dd" "0 \<le> dd" using obb_distance_finite [OF fin f] by metis
  have unc: "\<exists>v. oq_obstacle_uncertainty_m (describe_cluster c f index (map fst ps) (map snd ps)) = Fin v \<and>
      flr \<le> v \<and> v \<le> mx"
    using c z clamp_Fin_bounds [OF c(6)] by (simp add: describe_cluster_def Let_def zs [simplified] split_beta)
  have ratio: "\<exists>v. oq_vertical_continuity_ratio (describe_cluster c f index (map fst ps) (map snd ps)) = Fin v \<and>
      0 \<le> v \<and> v \<le> 1"
    using clamp_Fin_bounds [of 0 1] by (simp add: describe_cluster_def Let_def split_beta)
  have proj: "oq_point_indices (describe_cluster c f index (map fst ps) (map snd ps)) = map fst ps"
    "oq_point_count (describe_cluster c f index (map fst ps) (map snd ps)) = length ps"
    "oq_footprint_distance_m (describe_cluster c f index (map fst ps) (map snd ps)) = ?d"
    "oq_top_z95_m (describe_cluster c f index (map fst ps) (map snd ps)) = Fin t"
    "oq_bottom_z05_m (describe_cluster c f index (map fst ps) (map snd ps)) = Fin b"
    "oq_minimum_z_m (describe_cluster c f index (map fst ps) (map snd ps)) = Fin mn"
    "oq_maximum_z_m (describe_cluster c f index (map fst ps) (map snd ps)) = Fin mz"
    using z c zs [simplified] by (simp_all add: describe_cluster_def Let_def split_beta)
  have pts: "\<forall>j \<in> set (map fst ps). j < length cloud \<and> finitePoint (cloud ! j) \<and>
        ?d \<le> pointToCargoObbDistance2D (vec3_head2 (cloud ! j)) f"
    using ps(2) d(2) by fastforce
  have att: "\<exists>j \<in> set (map fst ps). ?d = pointToCargoObbDistance2D (vec3_head2 (cloud ! j)) f"
  proof -
    obtain x where x: "x \<in> set ps" "?d = pointToCargoObbDistance2D (vec3_head2 (snd x)) f"
      using d(1) by auto
    then show ?thesis using ps(2) [of "fst x" "snd x"] by (intro bexI [of _ "fst x"]) auto
  qed
  show ?thesis
    unfolding cluster_wf_def proj using ps(1) pts att dd z unc ratio c(4,5)
    by (intro conjI) (simp, simp, blast, blast, auto)
qed

lemma finite_points_mem:
  "(j, p) \<in> set (finite_points cloud) \<Longrightarrow> j < length cloud \<and> p = cloud ! j \<and> finitePoint p"
  by (auto simp: finite_points_def in_set_enumerate_eq)

lemma finite_points_Nil: "finite_points cloud = [] \<longleftrightarrow> (\<forall>p \<in> set cloud. \<not> finitePoint p)"
proof -
  have "finite_points cloud = [] \<longleftrightarrow> (\<forall>j < length cloud. \<not> finitePoint (cloud ! j))"
    by (auto simp: finite_points_def filter_empty_conv in_set_enumerate_eq)
  then show ?thesis by (simp add: all_set_conv_all_nth)
qed

lemma collect_clusters_wf:
  assumes "fst (validateObstaclePerceptionConfig c)" and "validHorizontalFootprint f"
  shows "collect_clusters c f (finite_points cloud) index groups acc = Inr qs \<Longrightarrow>
    (\<And>q. q \<in> set acc \<Longrightarrow> cluster_wf c f cloud q) \<Longrightarrow> q \<in> set qs \<Longrightarrow> cluster_wf c f cloud q"
proof (induction groups arbitrary: index acc)
  case Nil
  then show ?case by simp
next
  case (Cons "is" groups)
  let ?fin = "finite_points cloud"
  show ?case
  proof (cases "is = []")
    case True
    then show ?thesis using Cons by simp
  next
    case False
    let ?ps = "map (\<lambda>i. ?fin ! nat i) is"
    let ?q = "describe_cluster c f index (map fst ?ps) (map snd ?ps)"
    have range: "\<forall>i \<in> set is. 0 \<le> i \<and> i < int (length ?fin)"
      using Cons.prems(1) False by (auto simp: not_le not_less split: if_splits)
    then have mem: "set ?ps \<subseteq> set ?fin" by (auto intro!: nth_mem)
    then have wf: "cluster_wf c f cloud ?q"
      using False finite_points_mem by (intro describe_cluster_wf assms) blast+
    have "collect_clusters c f ?fin (Suc index) groups (acc @ [?q]) = Inr qs"
      using Cons.prems(1) False range by (auto simp: Let_def comp_def split: if_splits)
    then show ?thesis by (rule Cons.IH) (use Cons.prems(2,3) wf in auto)
  qed
qed

lemma perceive_cloud_valid:
  assumes "or_valid (perceive_cloud extract c i cloud r)" and "\<not> or_valid r" and "or_clusters r = []"
    and "fst (validateObstaclePerceptionConfig c)" and "validHorizontalFootprint (oi_query_footprint i)"
  shows "(or_clusters (perceive_cloud extract c i cloud r) = [] \<longrightarrow> (\<forall>p \<in> set cloud. \<not> finitePoint p)) \<and>
    (\<forall>q \<in> set (or_clusters (perceive_cloud extract c i cloud r)).
       cluster_wf c (oi_query_footprint i) cloud q)"
  using assms(1-3) collect_clusters_wf [OF assms(4,5), of cloud 0 _ "[]"]
  unfolding perceive_cloud_def Let_def finite_points_Nil [symmetric]
  by (auto split: option.splits sum.splits if_splits)

lemma perceive_sound:
  assumes "or_valid (perceiveObstacles extract c i)"
  shows "\<exists>cloud. oi_cloud_base i = Some cloud \<and> \<not> observation_insufficient c i \<and>
    (or_clusters (perceiveObstacles extract c i) = [] \<longrightarrow> (\<forall>p \<in> set cloud. \<not> finitePoint p)) \<and>
    (\<forall>q \<in> set (or_clusters (perceiveObstacles extract c i)).
       cluster_wf c (oi_query_footprint i) cloud q)"
proof -
  have ok: "fst (validateObstaclePerceptionConfig c)"
    using assms by (rule contrapos_pp)
      (simp add: perceiveObstacles_def Let_def split_beta default_ObstaclePerceptionResult_def)
  obtain cloud where cloud: "oi_cloud_base i = Some cloud"
    using assms ok
    by (cases "oi_cloud_base i")
      (simp_all add: perceiveObstacles_def Let_def split_beta default_ObstaclePerceptionResult_def)
  have guards: "validHorizontalFootprint (oi_query_footprint i)" "\<not> observation_insufficient c i"
    using assms ok cloud
    by (simp_all add: perceiveObstacles_def Let_def split_beta default_ObstaclePerceptionResult_def
        split: if_split_asm)
  have eq: "perceiveObstacles extract c i = perceive_cloud extract c i cloud
      (default_ObstaclePerceptionResult
            \<lparr>or_source_stamp_sec := oi_source_stamp_sec i, or_source_sequence := oi_source_sequence i,
             or_frame_id := oi_frame_id i, or_executed := True, or_query_horizontal_valid := True\<rparr>)"
    using ok cloud guards by (simp add: perceiveObstacles_def Let_def split_beta)
  show ?thesis
    using perceive_cloud_valid [OF assms [unfolded eq] _ _ ok guards(1)] cloud guards(2)
    by (simp add: eq default_ObstaclePerceptionResult_def)
qed

section \<open>Properties\<close>


definition demo_footprint :: CargoObbFootprint where
  "demo_footprint =
     \<lparr>fp_valid = True, fp_center_base = vec2_zero, fp_length_m = Fin 2, fp_width_m = Fin 2,
      fp_yaw_base_rad = Fin 0, fp_min_z = Fin 1, fp_max_z = Fin 2\<rparr>"

definition demo_perception_input :: ObstaclePerceptionInput where
  "demo_perception_input =
     \<lparr>oi_source_stamp_sec = Fin 1, oi_source_sequence = 1, oi_frame_id = ''base_link'',
      oi_query_footprint = demo_footprint,
      oi_cloud_base = Some [\<lparr>v3x = Fin 4, v3y = Fin 0, v3z = Fin 1\<rparr>, \<lparr>v3x = NaN, v3y = Fin 0, v3z = Fin 1\<rparr>],
      oi_observation_valid = True, oi_cloud_age_sec = Fin 0, oi_roi_finite_points = 20,
      oi_roi_coverage_ratio = Fin 0.5\<rparr>"


end
