(* ===== verification/Safety_Evaluator.thy ===== *)
theory Safety_Evaluator
  imports Obstacle_Perception
begin

text \<open>
  The stateless raw safety evaluation of one frame: \<^verbatim>\<open>HazardEvaluator\<close> (\<^verbatim>\<open>hazard_evaluator.hpp/.cpp\<close>)
  judges one obstacle cluster against the conservative cargo bottom, and \<^verbatim>\<open>CargoSafetyEvaluator\<close>
  (\<^verbatim>\<open>cargo_safety_evaluator.hpp/.cpp\<close>) turns all clusters of a perception result into one raw code
  (14 clear, 17 level 1, 18 level 2) or a fault. The properties are the fail-closed contract of the
  code: a clear never hides a near, low cluster, resolved or not.
\<close>

section \<open>Hazard evaluation of one cluster\<close>

record HazardEvaluationInput =
  hi_source_stamp_sec :: dbl
  hi_cargo_lifecycle_id :: u64
  hi_cargo_track_id :: u64
  hi_obstacle_track_id :: u64
  hi_safe_bottom_z_m :: dbl
  hi_cargo_max_z_m :: dbl
  hi_overhead_separation_margin_m :: dbl
  hi_minimum_vertical_continuity_ratio :: dbl
  hi_vertical_geometry_valid :: bool

record HazardEvaluationResult =
  hz_assessment :: HazardAssessment
  hz_entirely_above_cargo :: bool
  hz_vertically_continuous :: bool
  hz_low_clearance :: bool
  hz_vertical_geometry_unresolved :: bool
  hz_reason :: string

definition default_HazardAssessment :: HazardAssessment where
  "default_HazardAssessment =
     \<lparr>ha_source_stamp_sec = Fin 0, ha_cargo_lifecycle_id = 0, ha_cargo_track_id = 0,
      ha_obstacle_track_id = 0, ha_footprint_distance_m = PInf, ha_obstacle_top_z_m = NaN,
      ha_safe_bottom_z_m = NaN, ha_conservative_clearance_m = NaN, ha_combined_uncertainty_m = NaN,
      ha_valid = False\<rparr>"

definition hazard_geometry_invalid :: "HazardEvaluationInput \<Rightarrow> ObstaclePerceptionCluster \<Rightarrow> bool" where
  "hazard_geometry_invalid i q \<longleftrightarrow>
     \<not> hi_vertical_geometry_valid i \<or> \<not> isfinite (hi_safe_bottom_z_m i) \<or>
     \<not> isfinite (hi_cargo_max_z_m i) \<or> \<not> isfinite (hi_overhead_separation_margin_m i) \<or>
     hi_overhead_separation_margin_m i < Fin 0 \<or>
     \<not> isfinite (hi_minimum_vertical_continuity_ratio i) \<or>
     hi_minimum_vertical_continuity_ratio i < Fin 0 \<or>
     Fin 1 < hi_minimum_vertical_continuity_ratio i \<or>
     \<not> isfinite (oq_footprint_distance_m q) \<or> \<not> isfinite (oq_top_z95_m q) \<or>
     \<not> isfinite (oq_bottom_z05_m q) \<or> \<not> isfinite (oq_obstacle_uncertainty_m q)"

definition HazardEvaluator_evaluate ::
  "HazardEvaluationInput \<Rightarrow> ObstaclePerceptionCluster \<Rightarrow> HazardEvaluationResult" where
  "HazardEvaluator_evaluate i q =
     (let a = default_HazardAssessment
            \<lparr>ha_source_stamp_sec := hi_source_stamp_sec i,
             ha_cargo_lifecycle_id := hi_cargo_lifecycle_id i,
             ha_cargo_track_id := hi_cargo_track_id i,
             ha_obstacle_track_id := hi_obstacle_track_id i,
             ha_footprint_distance_m := oq_footprint_distance_m q,
             ha_obstacle_top_z_m := oq_top_z95_m q,
             ha_safe_bottom_z_m := hi_safe_bottom_z_m i,
             ha_combined_uncertainty_m := oq_obstacle_uncertainty_m q\<rparr>
      in if hazard_geometry_invalid i q
         then \<lparr>hz_assessment = a, hz_entirely_above_cargo = False, hz_vertically_continuous = False,
               hz_low_clearance = False, hz_vertical_geometry_unresolved = False,
               hz_reason = ''hazard_geometry_invalid''\<rparr>
         else
           let clearance = hi_safe_bottom_z_m i - (oq_top_z95_m q + oq_obstacle_uncertainty_m q);
               above = (hi_cargo_max_z_m i + hi_overhead_separation_margin_m i < oq_bottom_z05_m q);
               continuous = (hi_minimum_vertical_continuity_ratio i \<le> oq_vertical_continuity_ratio q);
               low = (\<not> above \<and> continuous);
               valid = isfinite clearance
           in \<lparr>hz_assessment = a\<lparr>ha_conservative_clearance_m := clearance, ha_valid := valid\<rparr>,
               hz_entirely_above_cargo = above, hz_vertically_continuous = continuous,
               hz_low_clearance = low,
               hz_vertical_geometry_unresolved = (valid \<and> \<not> above \<and> \<not> continuous),
               hz_reason = (if valid
                            then (if low then ''low_clearance_geometry''
                                  else if above then ''overhead_geometry''
                                  else ''vertical_continuity_insufficient'')
                            else ''hazard_result_non_finite'')\<rparr>)"

section \<open>Frame evaluation: data\<close>

record CargoHeightState =
  hs_valid :: bool
  hs_stale :: bool
  hs_bottom_z :: dbl
  hs_bottom_uncertainty_m :: dbl
  hs_stamp_sec :: dbl

record CargoSafetyConfig =
  sc_level1_distance_m :: dbl
  sc_level2_distance_m :: dbl
  sc_minimum_vertical_clearance_m :: dbl
  sc_cargo_bottom_extra_margin_m :: dbl
  sc_future_stamp_tolerance_sec :: dbl
  sc_maximum_obstacle_cloud_age_sec :: dbl
  sc_minimum_roi_finite_points :: nat
  sc_minimum_roi_coverage_ratio :: dbl
  sc_obstacle_top_percentile :: dbl
  sc_obstacle_bottom_percentile :: dbl
  sc_obstacle_vertical_bin_size_m :: dbl
  sc_obstacle_min_vertical_continuity_ratio :: dbl
  sc_overhead_separation_margin_m :: dbl
  sc_obstacle_uncertainty_floor_m :: dbl
  sc_obstacle_uncertainty_max_m :: dbl
  sc_obstacle_cluster_tolerance_m :: dbl
  sc_obstacle_min_cluster_points :: nat
  sc_obstacle_max_cluster_points :: nat

definition default_CargoSafetyConfig :: CargoSafetyConfig where
  "default_CargoSafetyConfig =
     \<lparr>sc_level1_distance_m = Fin 3.0, sc_level2_distance_m = Fin 5.0,
      sc_minimum_vertical_clearance_m = Fin 0.80, sc_cargo_bottom_extra_margin_m = Fin 0.05,
      sc_future_stamp_tolerance_sec = Fin 0.05, sc_maximum_obstacle_cloud_age_sec = Fin 0.50,
      sc_minimum_roi_finite_points = 20, sc_minimum_roi_coverage_ratio = Fin 0.05,
      sc_obstacle_top_percentile = Fin 0.95, sc_obstacle_bottom_percentile = Fin 0.05,
      sc_obstacle_vertical_bin_size_m = Fin 0.10, sc_obstacle_min_vertical_continuity_ratio = Fin 0.45,
      sc_overhead_separation_margin_m = Fin 0.10, sc_obstacle_uncertainty_floor_m = Fin 0.05,
      sc_obstacle_uncertainty_max_m = Fin 0.30, sc_obstacle_cluster_tolerance_m = Fin 0.25,
      sc_obstacle_min_cluster_points = 5, sc_obstacle_max_cluster_points = 10000\<rparr>"

record CargoSafetyInput =
  si_source_stamp_sec :: dbl
  si_source_sequence :: u64
  si_frame_id :: string
  si_height :: CargoHeightState
  si_footprint_base :: CargoObbFootprint
  si_obstacle_cloud_base :: "vec3 list option"
  si_evaluation_time_sec :: dbl
  si_obstacle_observation_valid :: bool
  si_obstacle_cloud_age_sec :: dbl
  si_obstacle_roi_finite_points :: nat
  si_obstacle_roi_coverage_ratio :: dbl

record CargoSafetyClusterEvidence =
  ce_valid :: bool
  ce_cluster_index :: nat
  ce_point_count :: nat
  ce_warning_code :: int
  ce_footprint_distance_m :: dbl
  ce_obstacle_top_z95_m :: dbl
  ce_obstacle_bottom_z05_m :: dbl
  ce_obstacle_min_z_m :: dbl
  ce_obstacle_max_z_m :: dbl
  ce_obstacle_vertical_span_m :: dbl
  ce_vertical_continuity_ratio :: dbl
  ce_entirely_above_cargo :: bool
  ce_obstacle_tail_spread_m :: dbl
  ce_obstacle_uncertainty_m :: dbl
  ce_conservative_clearance_m :: dbl
  ce_vertical_geometry_unresolved :: bool
  ce_potential_warning_code :: int
  ce_centroid_base :: vec3
  ce_nearest_point_base :: vec3
  ce_point_indices :: "nat list"
  ce_source_validated :: bool
  ce_inside_xy_obb_ratio :: dbl
  ce_identity_match_ratio :: dbl
  ce_surface_band_ratio :: dbl
  ce_moves_with_cargo_score :: dbl
  ce_source_reason :: string
  ce_uncertainty_reason :: string

definition default_CargoSafetyClusterEvidence :: CargoSafetyClusterEvidence where
  "default_CargoSafetyClusterEvidence =
     \<lparr>ce_valid = False, ce_cluster_index = 0, ce_point_count = 0, ce_warning_code = 14,
      ce_footprint_distance_m = PInf, ce_obstacle_top_z95_m = NaN, ce_obstacle_bottom_z05_m = NaN,
      ce_obstacle_min_z_m = NaN, ce_obstacle_max_z_m = NaN, ce_obstacle_vertical_span_m = NaN,
      ce_vertical_continuity_ratio = Fin 0, ce_entirely_above_cargo = False,
      ce_obstacle_tail_spread_m = NaN, ce_obstacle_uncertainty_m = NaN,
      ce_conservative_clearance_m = NaN, ce_vertical_geometry_unresolved = False,
      ce_potential_warning_code = 0, ce_centroid_base = vec3_zero, ce_nearest_point_base = vec3_zero,
      ce_point_indices = [], ce_source_validated = True, ce_inside_xy_obb_ratio = Fin 0,
      ce_identity_match_ratio = Fin 0, ce_surface_band_ratio = Fin 0,
      ce_moves_with_cargo_score = Fin 0, ce_source_reason = ''ordinary_external_cluster'',
      ce_uncertainty_reason = []\<rparr>"

datatype CargoSafetyFault = NONE | CARGO_HEIGHT_INVALID | OBSTACLE_EVIDENCE_INVALID | INTERNAL_ERROR

datatype CargoSafetyEvidenceState =
  UNKNOWN | CLEAR | HAZARD_CONFIRMED | HAZARD_CANDIDATE | TRACK_CONFIRMATION_PENDING
  | SPARSE_PENDING | SOURCE_UNRESOLVED | HARD_FAULT | REVIEW_REQUIRED

record CargoSafetyResult =
  sr_input_valid :: bool
  sr_warning_valid :: bool
  sr_warning_code :: int
  sr_fault :: CargoSafetyFault
  sr_evidence_state :: CargoSafetyEvidenceState
  sr_height_stale :: bool
  sr_has_cluster_evidence :: bool
  sr_height_age_sec :: dbl
  sr_finite_input_points :: nat
  sr_self_cargo_points_removed :: nat
  sr_evaluated_cluster_count :: nat
  sr_most_dangerous_cluster :: CargoSafetyClusterEvidence
  sr_cluster_evidence :: "CargoSafetyClusterEvidence list"
  sr_reason :: string

definition default_CargoSafetyResult :: CargoSafetyResult where
  "default_CargoSafetyResult =
     \<lparr>sr_input_valid = False, sr_warning_valid = False, sr_warning_code = 0,
      sr_fault = CargoSafetyFault.NONE, sr_evidence_state = CargoSafetyEvidenceState.HARD_FAULT,
      sr_height_stale = False, sr_has_cluster_evidence = False, sr_height_age_sec = NaN,
      sr_finite_input_points = 0, sr_self_cargo_points_removed = 0, sr_evaluated_cluster_count = 0,
      sr_most_dangerous_cluster = default_CargoSafetyClusterEvidence, sr_cluster_evidence = [],
      sr_reason = ''invalid_input''\<rparr>"

section \<open>Frame evaluation: operations\<close>

definition finite_nonnegative ::
  "string \<Rightarrow> dbl \<Rightarrow> CargoConfigValidationResult \<Rightarrow> CargoConfigValidationResult" where
  "finite_nonnegative field v r =
     (if \<not> isfinite v then reject field ''non_finite'' r
      else if v < Fin 0 then reject field ''must_be_nonnegative'' r else r)"

definition ratio :: "string \<Rightarrow> dbl \<Rightarrow> CargoConfigValidationResult \<Rightarrow> CargoConfigValidationResult" where
  "ratio field v r =
     (if \<not> isfinite v then reject field ''non_finite'' r
      else if v < Fin 0 \<or> Fin 1 < v then reject field ''outside_0_1'' r else r)"

definition reject_if ::
  "bool \<Rightarrow> string \<Rightarrow> string \<Rightarrow> CargoConfigValidationResult \<Rightarrow> CargoConfigValidationResult" where
  "reject_if b field reason r = (if b then reject field reason r else r)"

definition validateCargoSafetyConfig :: "CargoSafetyConfig \<Rightarrow> CargoConfigValidationResult" where
  "validateCargoSafetyConfig c =
     (let r = validation_ok;
          r = finite_nonnegative ''level1_distance_m'' (sc_level1_distance_m c) r;
          r = finite_nonnegative ''level2_distance_m'' (sc_level2_distance_m c) r;
          r = reject_if (isfinite (sc_level1_distance_m c) \<and> isfinite (sc_level2_distance_m c) \<and>
                         sc_level2_distance_m c < sc_level1_distance_m c)
                ''level2_distance_m'' ''must_be_at_least_level1'' r;
          r = reject_if (\<not> isfinite (sc_minimum_vertical_clearance_m c))
                ''minimum_vertical_clearance_m'' ''non_finite'' r;
          r = finite_nonnegative ''cargo_bottom_extra_margin_m'' (sc_cargo_bottom_extra_margin_m c) r;
          r = finite_nonnegative ''future_stamp_tolerance_sec'' (sc_future_stamp_tolerance_sec c) r;
          r = finite_nonnegative ''maximum_obstacle_cloud_age_sec'' (sc_maximum_obstacle_cloud_age_sec c) r;
          r = reject_if (sc_minimum_roi_finite_points c = 0)
                ''minimum_roi_finite_points'' ''must_be_positive'' r;
          r = ratio ''minimum_roi_coverage_ratio'' (sc_minimum_roi_coverage_ratio c) r;
          r = ratio ''obstacle_top_percentile'' (sc_obstacle_top_percentile c) r;
          r = ratio ''obstacle_bottom_percentile'' (sc_obstacle_bottom_percentile c) r;
          r = reject_if (isfinite (sc_obstacle_top_percentile c) \<and>
                         isfinite (sc_obstacle_bottom_percentile c) \<and>
                         sc_obstacle_top_percentile c \<le> sc_obstacle_bottom_percentile c)
                ''obstacle_bottom_percentile'' ''must_be_below_top'' r;
          r = reject_if (\<not> isfinite (sc_obstacle_vertical_bin_size_m c) \<or>
                         sc_obstacle_vertical_bin_size_m c \<le> Fin 0)
                ''obstacle_vertical_bin_size_m'' ''must_be_positive'' r;
          r = ratio ''obstacle_min_vertical_continuity_ratio''
                (sc_obstacle_min_vertical_continuity_ratio c) r;
          r = finite_nonnegative ''overhead_separation_margin_m'' (sc_overhead_separation_margin_m c) r;
          r = finite_nonnegative ''obstacle_uncertainty_floor_m'' (sc_obstacle_uncertainty_floor_m c) r;
          r = finite_nonnegative ''obstacle_uncertainty_max_m'' (sc_obstacle_uncertainty_max_m c) r;
          r = reject_if (isfinite (sc_obstacle_uncertainty_floor_m c) \<and>
                         isfinite (sc_obstacle_uncertainty_max_m c) \<and>
                         sc_obstacle_uncertainty_max_m c < sc_obstacle_uncertainty_floor_m c)
                ''obstacle_uncertainty_max_m'' ''below_floor'' r;
          r = reject_if (\<not> isfinite (sc_obstacle_cluster_tolerance_m c) \<or>
                         sc_obstacle_cluster_tolerance_m c \<le> Fin 0)
                ''obstacle_cluster_tolerance_m'' ''must_be_positive'' r;
          r = reject_if (sc_obstacle_min_cluster_points c = 0)
                ''obstacle_min_cluster_points'' ''must_be_positive'' r;
          r = reject_if (sc_obstacle_max_cluster_points c < sc_obstacle_min_cluster_points c)
                ''obstacle_max_cluster_points'' ''below_minimum'' r
      in reject_if (2147483647 < sc_obstacle_max_cluster_points c)
           ''obstacle_max_cluster_points'' ''exceeds_int_range'' r)"

definition isValidFootprint :: "CargoObbFootprint \<Rightarrow> bool" where
  "isValidFootprint f \<longleftrightarrow> fp_valid f \<and> vec2_allFinite (fp_center_base f) \<and>
     isfinite (fp_length_m f) \<and> Fin 0 < fp_length_m f \<and> isfinite (fp_width_m f) \<and>
     Fin 0 < fp_width_m f \<and> isfinite (fp_yaw_base_rad f) \<and> isfinite (fp_min_z f) \<and>
     isfinite (fp_max_z f) \<and> fp_min_z f < fp_max_z f"

definition warningPriority :: "int \<Rightarrow> int" where
  "warningPriority code = (if code = 17 then 3 else if code = 18 then 2 else 1)"

definition isMoreDangerous :: "CargoSafetyClusterEvidence \<Rightarrow> CargoSafetyClusterEvidence \<Rightarrow> bool" where
  "isMoreDangerous a b =
     (let pa = warningPriority (ce_warning_code a); pb = warningPriority (ce_warning_code b)
      in if pa \<noteq> pb then pb < pa
         else if \<not> deq (ce_conservative_clearance_m a) (ce_conservative_clearance_m b)
         then ce_conservative_clearance_m a < ce_conservative_clearance_m b
         else if \<not> deq (ce_footprint_distance_m a) (ce_footprint_distance_m b)
         then ce_footprint_distance_m a < ce_footprint_distance_m b
         else ce_cluster_index a < ce_cluster_index b)"

text \<open>The body of the cluster loop up to the non-finite check, and the codes assigned after it.\<close>

definition conservative_bottom :: "CargoSafetyConfig \<Rightarrow> CargoSafetyInput \<Rightarrow> dbl" where
  "conservative_bottom c i =
     hs_bottom_z (si_height i) - hs_bottom_uncertainty_m (si_height i) - sc_cargo_bottom_extra_margin_m c"

definition cluster_hazard ::
  "CargoSafetyConfig \<Rightarrow> CargoSafetyInput \<Rightarrow> ObstaclePerceptionCluster \<Rightarrow> HazardEvaluationResult" where
  "cluster_hazard c i q = HazardEvaluator_evaluate
     \<lparr>hi_source_stamp_sec = si_source_stamp_sec i, hi_cargo_lifecycle_id = 0, hi_cargo_track_id = 0,
      hi_obstacle_track_id = 0, hi_safe_bottom_z_m = conservative_bottom c i,
      hi_cargo_max_z_m = fp_max_z (si_footprint_base i),
      hi_overhead_separation_margin_m = sc_overhead_separation_margin_m c,
      hi_minimum_vertical_continuity_ratio = sc_obstacle_min_vertical_continuity_ratio c,
      hi_vertical_geometry_valid = True\<rparr> q"

definition cluster_evidence_of ::
  "CargoSafetyConfig \<Rightarrow> CargoSafetyInput \<Rightarrow> ObstaclePerceptionCluster \<Rightarrow> CargoSafetyClusterEvidence" where
  "cluster_evidence_of c i q =
     (let h = cluster_hazard c i q;
          clearance = ha_conservative_clearance_m (hz_assessment h);
          distance = oq_footprint_distance_m q;
          low = (hz_low_clearance h \<and> clearance < sc_minimum_vertical_clearance_m c);
          blocker = (hz_vertical_geometry_unresolved h \<and>
                     clearance < sc_minimum_vertical_clearance_m c \<and>
                     distance \<le> sc_level2_distance_m c)
      in default_CargoSafetyClusterEvidence
           \<lparr>ce_valid := True, ce_cluster_index := oq_cluster_index q,
            ce_point_count := oq_point_count q, ce_point_indices := oq_point_indices q,
            ce_footprint_distance_m := distance, ce_nearest_point_base := oq_nearest_point_base q,
            ce_centroid_base := oq_centroid_base q, ce_obstacle_max_z_m := oq_maximum_z_m q,
            ce_obstacle_min_z_m := oq_minimum_z_m q, ce_obstacle_top_z95_m := oq_top_z95_m q,
            ce_obstacle_bottom_z05_m := oq_bottom_z05_m q,
            ce_obstacle_vertical_span_m := oq_vertical_span_m q,
            ce_vertical_continuity_ratio := oq_vertical_continuity_ratio q,
            ce_obstacle_tail_spread_m := oq_tail_spread_m q,
            ce_obstacle_uncertainty_m := oq_obstacle_uncertainty_m q,
            ce_uncertainty_reason := ''clamp(floor + max(0,z_max-z95), floor, max)'',
            ce_entirely_above_cargo := hz_entirely_above_cargo h,
            ce_conservative_clearance_m := clearance,
            ce_vertical_geometry_unresolved := hz_vertical_geometry_unresolved h,
            ce_warning_code :=
              (if low \<and> distance \<le> sc_level1_distance_m c then 17
               else if low \<and> sc_level1_distance_m c < distance \<and> distance \<le> sc_level2_distance_m c
               then 18 else 14),
            ce_potential_warning_code :=
              (if blocker then (if distance \<le> sc_level1_distance_m c then 17 else 18) else 0)\<rparr>)"

definition cluster_result_finite ::
  "CargoSafetyConfig \<Rightarrow> CargoSafetyInput \<Rightarrow> ObstaclePerceptionCluster \<Rightarrow> bool" where
  "cluster_result_finite c i q \<longleftrightarrow>
     ha_valid (hz_assessment (cluster_hazard c i q)) \<and> isfinite (oq_footprint_distance_m q) \<and>
     isfinite (oq_top_z95_m q) \<and> isfinite (oq_obstacle_uncertainty_m q) \<and>
     isfinite (ha_conservative_clearance_m (hz_assessment (cluster_hazard c i q)))"

text \<open>The cluster loop: \<open>Inl\<close> is the early return of a non-finite cluster.\<close>

fun cluster_loop ::
  "CargoSafetyConfig \<Rightarrow> CargoSafetyInput \<Rightarrow> ObstaclePerceptionCluster list \<Rightarrow> CargoSafetyResult \<Rightarrow>
   CargoSafetyResult + CargoSafetyResult" where
  "cluster_loop c i [] r = Inr r"
| "cluster_loop c i (q # qs) r =
     (if \<not> cluster_result_finite c i q
      then Inl (r\<lparr>sr_input_valid := False, sr_fault := CargoSafetyFault.INTERNAL_ERROR,
                  sr_reason := ''non_finite_cluster_result''\<rparr>)
      else let e = cluster_evidence_of c i q;
               r1 = r\<lparr>sr_evaluated_cluster_count := sr_evaluated_cluster_count r + 1,
                      sr_cluster_evidence := sr_cluster_evidence r @ [e]\<rparr>
           in cluster_loop c i qs
                (if \<not> sr_has_cluster_evidence r1 \<or> isMoreDangerous e (sr_most_dangerous_cluster r1)
                 then r1\<lparr>sr_most_dangerous_cluster := e, sr_has_cluster_evidence := True\<rparr>
                 else r1))"

text \<open>The H1 loop: the most dangerous unresolved cluster, if there is one.\<close>

fun unresolved_loop ::
  "CargoSafetyClusterEvidence list \<Rightarrow> CargoSafetyClusterEvidence option \<Rightarrow>
   CargoSafetyClusterEvidence option" where
  "unresolved_loop [] u = u"
| "unresolved_loop (e # es) u =
     (if ce_potential_warning_code e = 0 then unresolved_loop es u
      else case u of
             None \<Rightarrow> unresolved_loop es (Some e)
           | Some w \<Rightarrow>
               (let p = warningPriority (ce_potential_warning_code e);
                    pw = warningPriority (ce_potential_warning_code w)
                in unresolved_loop es
                     (if pw < p \<or> (p = pw \<and> ce_conservative_clearance_m e < ce_conservative_clearance_m w)
                      then Some e else Some w)))"

definition finish_evaluation :: "CargoSafetyResult \<Rightarrow> CargoSafetyResult" where
  "finish_evaluation r =
     (if \<not> sr_has_cluster_evidence r
      then r\<lparr>sr_input_valid := False, sr_warning_valid := False, sr_warning_code := 0,
             sr_fault := CargoSafetyFault.OBSTACLE_EVIDENCE_INVALID,
             sr_evidence_state := CargoSafetyEvidenceState.SPARSE_PENDING,
             sr_reason := ''obstacle_clusters_insufficient''\<rparr>
      else
        let code = ce_warning_code (sr_most_dangerous_cluster r);
            done = r\<lparr>sr_warning_valid := True, sr_warning_code := code,
                     sr_fault := CargoSafetyFault.NONE,
                     sr_evidence_state := (if code = 17 \<or> code = 18
                                           then CargoSafetyEvidenceState.HAZARD_CANDIDATE
                                           else CargoSafetyEvidenceState.CLEAR),
                     sr_reason := (if code = 17 then ''level1_low_clearance''
                                   else if code = 18 then ''level2_low_clearance'' else ''clear'')\<rparr>
        in case unresolved_loop (sr_cluster_evidence r) None of
             None \<Rightarrow> done
           | Some u \<Rightarrow>
               (if warningPriority code < warningPriority (ce_potential_warning_code u)
                then r\<lparr>sr_warning_valid := False, sr_warning_code := 0,
                       sr_fault := CargoSafetyFault.OBSTACLE_EVIDENCE_INVALID,
                       sr_evidence_state := CargoSafetyEvidenceState.SOURCE_UNRESOLVED,
                       sr_reason := ''vertical_continuity_insufficient_low_clearance'',
                       sr_most_dangerous_cluster := u\<rparr>
                else done))"

definition perception_fault :: "string \<Rightarrow> CargoSafetyFault" where
  "perception_fault reason =
     (if starts_with reason ''invalid_config:'' \<or> reason = ''clustering_failed'' \<or>
         reason = ''non_finite_cluster_result'' \<or> reason = ''invalid_horizontal_query''
      then CargoSafetyFault.INTERNAL_ERROR else CargoSafetyFault.OBSTACLE_EVIDENCE_INVALID)"

definition evaluate_perception ::
  "CargoSafetyConfig \<Rightarrow> CargoSafetyInput \<Rightarrow> ObstaclePerceptionResult \<Rightarrow> CargoSafetyResult" where
  "evaluate_perception c i p =
     (let r = default_CargoSafetyResult;
          h = si_height i
      in if \<not> cv_valid (validateCargoSafetyConfig c)
         then r\<lparr>sr_fault := CargoSafetyFault.INTERNAL_ERROR, sr_reason := ''invalid_config''\<rparr>
         else if \<not> isfinite (si_evaluation_time_sec i) \<or> si_obstacle_cloud_base i = None
         then r\<lparr>sr_fault := CargoSafetyFault.INTERNAL_ERROR, sr_reason := ''invalid_input''\<rparr>
         else if \<not> hs_valid h
         then r\<lparr>sr_fault := CargoSafetyFault.CARGO_HEIGHT_INVALID, sr_reason := ''height_invalid''\<rparr>
         else if \<not> isfinite (hs_bottom_z h) \<or> \<not> isfinite (hs_bottom_uncertainty_m h) \<or>
                 hs_bottom_uncertainty_m h < Fin 0 \<or> \<not> isfinite (hs_stamp_sec h)
         then r\<lparr>sr_fault := CargoSafetyFault.CARGO_HEIGHT_INVALID, sr_reason := ''invalid_height_values''\<rparr>
         else
           let age = si_evaluation_time_sec i - hs_stamp_sec h;
               r1 = r\<lparr>sr_height_age_sec := age\<rparr>
           in if age < - sc_future_stamp_tolerance_sec c
              then r1\<lparr>sr_fault := CargoSafetyFault.CARGO_HEIGHT_INVALID,
                      sr_reason := ''height_timestamp_in_future''\<rparr>
              else if hs_stale h
              then r1\<lparr>sr_height_stale := True, sr_fault := CargoSafetyFault.CARGO_HEIGHT_INVALID,
                      sr_reason := ''height_stale''\<rparr>
              else if \<not> isValidFootprint (si_footprint_base i)
              then r1\<lparr>sr_fault := CargoSafetyFault.INTERNAL_ERROR, sr_reason := ''invalid_input''\<rparr>
              else
                let r2 = r1\<lparr>sr_finite_input_points := or_finite_input_points p\<rparr>
                in if \<not> or_valid p
                   then r2\<lparr>sr_fault := perception_fault (or_reason p),
                           sr_evidence_state := CargoSafetyEvidenceState.SPARSE_PENDING,
                           sr_reason := or_reason p\<rparr>
                   else
                     let r3 = r2\<lparr>sr_input_valid := True\<rparr>
                     in if or_clusters p = []
                        then r3\<lparr>sr_warning_valid := True, sr_warning_code := 14,
                                sr_fault := CargoSafetyFault.NONE,
                                sr_evidence_state := CargoSafetyEvidenceState.CLEAR,
                                sr_reason := ''clear_no_external_obstacle''\<rparr>
                        else case cluster_loop c i (or_clusters p) r3 of
                               Inl bad \<Rightarrow> bad
                             | Inr r4 \<Rightarrow> finish_evaluation r4)"

definition perception_config :: "CargoSafetyConfig \<Rightarrow> ObstaclePerceptionConfig" where
  "perception_config c =
     default_ObstaclePerceptionConfig
       \<lparr>oc_future_stamp_tolerance_sec := sc_future_stamp_tolerance_sec c,
        oc_maximum_cloud_age_sec := sc_maximum_obstacle_cloud_age_sec c,
        oc_minimum_roi_finite_points := sc_minimum_roi_finite_points c,
        oc_minimum_roi_coverage_ratio := sc_minimum_roi_coverage_ratio c,
        oc_cluster_tolerance_m := sc_obstacle_cluster_tolerance_m c,
        oc_minimum_cluster_points := sc_obstacle_min_cluster_points c,
        oc_top_percentile := sc_obstacle_top_percentile c,
        oc_bottom_percentile := sc_obstacle_bottom_percentile c,
        oc_vertical_bin_size_m := sc_obstacle_vertical_bin_size_m c,
        oc_uncertainty_floor_m := sc_obstacle_uncertainty_floor_m c,
        oc_uncertainty_max_m := sc_obstacle_uncertainty_max_m c\<rparr>"

definition perception_input :: "CargoSafetyInput \<Rightarrow> ObstaclePerceptionInput" where
  "perception_input i =
     \<lparr>oi_source_stamp_sec = si_source_stamp_sec i, oi_source_sequence = si_source_sequence i,
      oi_frame_id = si_frame_id i, oi_query_footprint = si_footprint_base i,
      oi_cloud_base = si_obstacle_cloud_base i,
      oi_observation_valid = si_obstacle_observation_valid i,
      oi_cloud_age_sec = si_obstacle_cloud_age_sec i,
      oi_roi_finite_points = si_obstacle_roi_finite_points i,
      oi_roi_coverage_ratio = si_obstacle_roi_coverage_ratio i\<rparr>"

definition perceive :: "extractor \<Rightarrow> CargoSafetyConfig \<Rightarrow> CargoSafetyInput \<Rightarrow> ObstaclePerceptionResult" where
  "perceive extract c i = perceiveObstacles extract (perception_config c) (perception_input i)"

definition evaluate :: "extractor \<Rightarrow> CargoSafetyConfig \<Rightarrow> CargoSafetyInput \<Rightarrow> CargoSafetyResult" where
  "evaluate extract c i = evaluate_perception c i (perceive extract c i)"

section \<open>Specification of the severity of a cluster\<close>

text \<open>A cluster threatens the cargo when it is not entirely above it, leaves less than the required
  clearance below the conservative cargo bottom and is within the level-2 distance. Whether its
  vertical continuity could be established plays no role in the specification.\<close>

definition threatens :: "CargoSafetyConfig \<Rightarrow> CargoSafetyInput \<Rightarrow> ObstaclePerceptionCluster \<Rightarrow> bool" where
  "threatens c i q \<longleftrightarrow>
     \<not> fp_max_z (si_footprint_base i) + sc_overhead_separation_margin_m c < oq_bottom_z05_m q \<and>
     conservative_bottom c i - (oq_top_z95_m q + oq_obstacle_uncertainty_m q)
       < sc_minimum_vertical_clearance_m c \<and>
     oq_footprint_distance_m q \<le> sc_level2_distance_m c"

definition severity :: "CargoSafetyConfig \<Rightarrow> CargoSafetyInput \<Rightarrow> ObstaclePerceptionCluster \<Rightarrow> int" where
  "severity c i q =
     (if \<not> threatens c i q then 14
      else if oq_footprint_distance_m q \<le> sc_level1_distance_m c then 17 else 18)"

definition evidence_ok :: "CargoSafetyClusterEvidence \<Rightarrow> bool" where
  "evidence_ok e \<longleftrightarrow> isfinite (ce_conservative_clearance_m e) \<and> isfinite (ce_footprint_distance_m e)"

definition moreUnresolved :: "CargoSafetyClusterEvidence \<Rightarrow> CargoSafetyClusterEvidence \<Rightarrow> bool" where
  "moreUnresolved e w \<longleftrightarrow>
     (let p = warningPriority (ce_potential_warning_code e);
          pw = warningPriority (ce_potential_warning_code w)
      in pw < p \<or> (p = pw \<and> ce_conservative_clearance_m e < ce_conservative_clearance_m w))"

section \<open>Lemmas\<close>

interpretation worst: danger_ranking isMoreDangerous evidence_ok
proof
  fix x show "\<not> isMoreDangerous x x" by (simp add: isMoreDangerous_def Let_def)
next
  fix x y assume "evidence_ok x" "evidence_ok y" "isMoreDangerous x y"
  then show "\<not> isMoreDangerous y x"
    by (auto simp: isMoreDangerous_def evidence_ok_def Let_def isfinite_iff split: if_splits)
next
  fix x y z assume "evidence_ok x" "evidence_ok y" "evidence_ok z" "isMoreDangerous x z"
  then show "isMoreDangerous x y \<or> isMoreDangerous y z"
    by (auto simp: isMoreDangerous_def evidence_ok_def Let_def isfinite_iff split: if_splits)
qed

interpretation unresolved: danger_ranking moreUnresolved evidence_ok
  by unfold_locales (auto simp: moreUnresolved_def evidence_ok_def Let_def isfinite_iff)

lemma unresolved_loop_pick:
  "unresolved_loop es u = pick_worst moreUnresolved u (filter (\<lambda>e. ce_potential_warning_code e \<noteq> 0) es)"
  by (induction es u rule: unresolved_loop.induct)
    (auto simp: moreUnresolved_def Let_def split: option.splits)

abbreviation worst_of :: "CargoSafetyResult \<Rightarrow> CargoSafetyClusterEvidence option" where
  "worst_of r \<equiv> (if sr_has_cluster_evidence r then Some (sr_most_dangerous_cluster r) else None)"

lemma cluster_loop_Inr:
  "cluster_loop c i qs r = Inr r' \<Longrightarrow>
   sr_cluster_evidence r' = sr_cluster_evidence r @ map (cluster_evidence_of c i) qs \<and>
   worst_of r' = pick_worst isMoreDangerous (worst_of r) (map (cluster_evidence_of c i) qs) \<and>
   (\<forall>q \<in> set qs. cluster_result_finite c i q)"
proof (induction qs arbitrary: r)
  case Nil
  then show ?case by simp
next
  case (Cons q qs)
  then have fin: "cluster_result_finite c i q" by (auto split: if_splits)
  show ?case
    using Cons.IH Cons.prems fin
    by (cases "sr_has_cluster_evidence r"; cases "isMoreDangerous (cluster_evidence_of c i q) (sr_most_dangerous_cluster r)")
      (fastforce simp: Let_def)+
qed

lemma cluster_loop_Inl:
  "cluster_loop c i qs r = Inl r' \<Longrightarrow>
   sr_fault r' = CargoSafetyFault.INTERNAL_ERROR \<and> sr_warning_valid r' = sr_warning_valid r \<and>
   sr_warning_code r' = sr_warning_code r"
  by (induction qs arbitrary: r) (fastforce simp: Let_def split: if_splits)+

lemma priority_le_of_not_more:
  "\<not> isMoreDangerous e w \<Longrightarrow> warningPriority (ce_warning_code e) \<le> warningPriority (ce_warning_code w)"
  by (auto simp: isMoreDangerous_def Let_def split: if_splits)

lemma priority_le_of_not_unresolved:
  "\<not> moreUnresolved e w \<Longrightarrow>
   warningPriority (ce_potential_warning_code e) \<le> warningPriority (ce_potential_warning_code w)"
  by (auto simp: moreUnresolved_def Let_def)

lemma evidence_simps [simp]:
  "ce_conservative_clearance_m (cluster_evidence_of c i q) =
     ha_conservative_clearance_m (hz_assessment (cluster_hazard c i q))"
  "ce_footprint_distance_m (cluster_evidence_of c i q) = oq_footprint_distance_m q"
  by (simp_all add: cluster_evidence_of_def Let_def)

lemma finite_result_evidence_ok: "cluster_result_finite c i q \<Longrightarrow> evidence_ok (cluster_evidence_of c i q)"
  by (simp add: cluster_result_finite_def evidence_ok_def)

text \<open>On a finite cluster the hazard is exactly the geometry of the specification.\<close>

lemma finite_hazard:
  assumes "cluster_result_finite c i q"
  shows "ha_conservative_clearance_m (hz_assessment (cluster_hazard c i q)) =
           conservative_bottom c i - (oq_top_z95_m q + oq_obstacle_uncertainty_m q) \<and>
         hz_entirely_above_cargo (cluster_hazard c i q) =
           (fp_max_z (si_footprint_base i) + sc_overhead_separation_margin_m c < oq_bottom_z05_m q) \<and>
         hz_low_clearance (cluster_hazard c i q) =
           (\<not> hz_entirely_above_cargo (cluster_hazard c i q) \<and> hz_vertically_continuous (cluster_hazard c i q)) \<and>
         hz_vertical_geometry_unresolved (cluster_hazard c i q) =
           (\<not> hz_entirely_above_cargo (cluster_hazard c i q) \<and> \<not> hz_vertically_continuous (cluster_hazard c i q))"
  using assms
  by (auto simp: cluster_result_finite_def cluster_hazard_def HazardEvaluator_evaluate_def Let_def
      default_HazardAssessment_def split: if_splits)

lemma cluster_codes:
  assumes fin: "cluster_result_finite c i q"
    and l: "isfinite (sc_level1_distance_m c)" "isfinite (sc_level2_distance_m c)"
      "\<not> sc_level2_distance_m c < sc_level1_distance_m c"
  shows "ce_warning_code (cluster_evidence_of c i q) =
      (if hz_vertically_continuous (cluster_hazard c i q) then severity c i q else 14)"
    and "ce_potential_warning_code (cluster_evidence_of c i q) =
      (if threatens c i q \<and> \<not> hz_vertically_continuous (cluster_hazard c i q) then severity c i q else 0)"
proof -
  have d: "isfinite (oq_footprint_distance_m q)" using fin by (simp add: cluster_result_finite_def)
  have near: "oq_footprint_distance_m q \<le> sc_level1_distance_m c \<Longrightarrow>
      oq_footprint_distance_m q \<le> sc_level2_distance_m c"
    using d l by (auto simp: isfinite_iff)
  have far: "\<not> oq_footprint_distance_m q \<le> sc_level1_distance_m c \<longleftrightarrow>
      sc_level1_distance_m c < oq_footprint_distance_m q"
    using d l by (auto simp: isfinite_iff)
  show "ce_warning_code (cluster_evidence_of c i q) =
      (if hz_vertically_continuous (cluster_hazard c i q) then severity c i q else 14)"
    using finite_hazard [OF fin] near far
    by (auto simp: cluster_evidence_of_def Let_def severity_def threatens_def)
  show "ce_potential_warning_code (cluster_evidence_of c i q) =
      (if threatens c i q \<and> \<not> hz_vertically_continuous (cluster_hazard c i q) then severity c i q else 0)"
    using finite_hazard [OF fin]
    by (auto simp: cluster_evidence_of_def Let_def severity_def threatens_def)
qed

lemma reject_if_valid [simp]: "cv_valid (reject_if b f m r) \<longleftrightarrow> cv_valid r \<and> \<not> b"
  by (simp add: reject_if_def)

lemma finite_nonnegative_valid [simp]:
  "cv_valid (finite_nonnegative f v r) \<longleftrightarrow> cv_valid r \<and> isfinite v \<and> \<not> v < Fin 0"
  by (simp add: finite_nonnegative_def)

lemma ratio_valid [simp]:
  "cv_valid (ratio f v r) \<longleftrightarrow> cv_valid r \<and> isfinite v \<and> \<not> v < Fin 0 \<and> \<not> Fin 1 < v"
  by (simp add: ratio_def)

lemma safety_config_levels:
  assumes "cv_valid (validateCargoSafetyConfig c)"
  shows "isfinite (sc_level1_distance_m c)" "isfinite (sc_level2_distance_m c)"
      "\<not> sc_level2_distance_m c < sc_level1_distance_m c"
  using assms by (simp_all add: validateCargoSafetyConfig_def Let_def)

lemma worst_evidence:
  assumes "cluster_loop c i qs r = Inr r'" and "\<not> sr_has_cluster_evidence r" and "sr_cluster_evidence r = []"
    and "qs \<noteq> []"
  obtains q where "q \<in> set qs" "sr_has_cluster_evidence r'"
    "sr_most_dangerous_cluster r' = cluster_evidence_of c i q"
    "\<forall>p \<in> set qs. warningPriority (ce_warning_code (cluster_evidence_of c i p)) \<le>
       warningPriority (ce_warning_code (cluster_evidence_of c i q))"
proof -
  let ?es = "map (cluster_evidence_of c i) qs"
  have loop: "worst_of r' = pick_worst isMoreDangerous None ?es" "\<forall>q \<in> set qs. cluster_result_finite c i q"
    using cluster_loop_Inr [OF assms(1)] assms(2) by auto
  have "?es \<noteq> []" "\<And>e. e \<in> set ?es \<Longrightarrow> evidence_ok e"
    using assms(4) loop(2) finite_result_evidence_ok by auto
  from worst.pick_worst_None [OF this]
  obtain w where w: "pick_worst isMoreDangerous None ?es = Some w" "w \<in> set ?es"
    "\<forall>x \<in> set ?es. \<not> isMoreDangerous x w" by blast
  from w(2) obtain q where q: "q \<in> set qs" "w = cluster_evidence_of c i q" by auto
  show thesis
  proof (rule that [OF q(1)])
    show "sr_has_cluster_evidence r'" "sr_most_dangerous_cluster r' = cluster_evidence_of c i q"
      using loop(1) w(1) q(2) by (auto split: if_splits)
    show "\<forall>p \<in> set qs. warningPriority (ce_warning_code (cluster_evidence_of c i p)) \<le>
       warningPriority (ce_warning_code (cluster_evidence_of c i q))"
      using w(3) q(2) priority_le_of_not_more by auto
  qed
qed

lemma unresolved_max:
  assumes "\<And>e. e \<in> set es \<Longrightarrow> evidence_ok e"
  shows "case unresolved_loop es None of
      None \<Rightarrow> \<forall>e \<in> set es. ce_potential_warning_code e = 0
    | Some u \<Rightarrow> u \<in> set es \<and> ce_potential_warning_code u \<noteq> 0 \<and>
        (\<forall>e \<in> set es. ce_potential_warning_code e \<noteq> 0 \<longrightarrow>
           warningPriority (ce_potential_warning_code e) \<le> warningPriority (ce_potential_warning_code u))"
proof -
  let ?fs = "filter (\<lambda>e. ce_potential_warning_code e \<noteq> 0) es"
  show ?thesis
  proof (cases "?fs = []")
    case True
    then show ?thesis unfolding unresolved_loop_pick by (simp add: filter_empty_conv)
  next
    case False
    have "\<And>e. e \<in> set ?fs \<Longrightarrow> evidence_ok e" using assms by simp
    from unresolved.pick_worst_None [OF False this]
    show ?thesis unfolding unresolved_loop_pick using priority_le_of_not_unresolved by fastforce
  qed
qed

text \<open>The three ways a frame evaluation ends.\<close>

lemma evaluate_cases:
  obtains (fault) "\<not> sr_warning_valid (evaluate_perception c i p)" "sr_warning_code (evaluate_perception c i p) = 0"
      "sr_fault (evaluate_perception c i p) \<noteq> CargoSafetyFault.NONE"
    | (no_clusters) "or_valid p" "or_clusters p = []" "sr_warning_valid (evaluate_perception c i p)"
      "sr_warning_code (evaluate_perception c i p) = 14"
      "sr_fault (evaluate_perception c i p) = CargoSafetyFault.NONE"
    | (clusters) r4 q where "or_valid p" "cv_valid (validateCargoSafetyConfig c)"
      "evaluate_perception c i p = finish_evaluation r4"
      "sr_cluster_evidence r4 = map (cluster_evidence_of c i) (or_clusters p)"
      "\<forall>q \<in> set (or_clusters p). cluster_result_finite c i q"
      "q \<in> set (or_clusters p)" "sr_has_cluster_evidence r4"
      "sr_most_dangerous_cluster r4 = cluster_evidence_of c i q"
      "\<forall>p \<in> set (or_clusters p). warningPriority (ce_warning_code (cluster_evidence_of c i p)) \<le>
         warningPriority (ce_warning_code (cluster_evidence_of c i q))"
proof -
  let ?h = "si_height i"
  let ?r3 = "default_CargoSafetyResult
    \<lparr>sr_height_age_sec := si_evaluation_time_sec i - hs_stamp_sec ?h,
     sr_finite_input_points := or_finite_input_points p, sr_input_valid := True\<rparr>"
  let ?ok = "cv_valid (validateCargoSafetyConfig c) \<and>
    \<not> (\<not> isfinite (si_evaluation_time_sec i) \<or> si_obstacle_cloud_base i = None) \<and> hs_valid ?h \<and>
    \<not> (\<not> isfinite (hs_bottom_z ?h) \<or> \<not> isfinite (hs_bottom_uncertainty_m ?h) \<or>
       hs_bottom_uncertainty_m ?h < Fin 0 \<or> \<not> isfinite (hs_stamp_sec ?h)) \<and>
    \<not> si_evaluation_time_sec i - hs_stamp_sec ?h < - sc_future_stamp_tolerance_sec c \<and> \<not> hs_stale ?h \<and>
    isValidFootprint (si_footprint_base i) \<and> or_valid p"
  note defs = evaluate_perception_def Let_def default_CargoSafetyResult_def perception_fault_def
  show thesis
  proof (cases ?ok)
    case False
    then show thesis by (intro fault) (auto simp: defs)
  next
    case ok: True
    show thesis
    proof (cases "or_clusters p = []")
      case True
      with ok show thesis by (intro no_clusters) (simp_all add: defs)
    next
      case False
      have eq: "evaluate_perception c i p =
          (case cluster_loop c i (or_clusters p) ?r3 of Inl bad \<Rightarrow> bad | Inr r4 \<Rightarrow> finish_evaluation r4)"
        using ok False by (clarsimp simp: evaluate_perception_def Let_def)
      show thesis
      proof (cases "cluster_loop c i (or_clusters p) ?r3")
        case (Inl bad)
        with cluster_loop_Inl [OF Inl] eq show thesis
          by (intro fault) (simp_all add: default_CargoSafetyResult_def)
      next
        case (Inr r4)
        then obtain q where q: "q \<in> set (or_clusters p)" "sr_has_cluster_evidence r4"
          "sr_most_dangerous_cluster r4 = cluster_evidence_of c i q"
          "\<forall>p \<in> set (or_clusters p). warningPriority (ce_warning_code (cluster_evidence_of c i p)) \<le>
             warningPriority (ce_warning_code (cluster_evidence_of c i q))"
          by (rule worst_evidence) (use False in \<open>simp_all add: default_CargoSafetyResult_def\<close>)
        then show thesis
          using ok eq Inr cluster_loop_Inr [OF Inr]
          by (intro clusters [of r4 q]) (simp_all add: default_CargoSafetyResult_def)
      qed
    qed
  qed
qed

lemma severity_range: "severity c i q \<in> {14, 17, 18}"
  by (simp add: severity_def)

lemma code_range: "ce_warning_code (cluster_evidence_of c i q) \<in> {14, 17, 18}"
  by (simp add: cluster_evidence_of_def Let_def)

lemma priority_inj: "a \<in> {14, 17, 18} \<Longrightarrow> b \<in> {14, 17, 18} \<Longrightarrow>
  warningPriority a = warningPriority b \<longleftrightarrow> a = b"
  by (auto simp: warningPriority_def)

lemma finish_valid:
  assumes "sr_warning_valid (finish_evaluation r)" and "sr_has_cluster_evidence r"
    and "\<And>e. e \<in> set (sr_cluster_evidence r) \<Longrightarrow> evidence_ok e"
  shows "sr_warning_code (finish_evaluation r) = ce_warning_code (sr_most_dangerous_cluster r) \<and>
    (\<forall>e \<in> set (sr_cluster_evidence r). ce_potential_warning_code e \<noteq> 0 \<longrightarrow>
       warningPriority (ce_potential_warning_code e)
         \<le> warningPriority (ce_warning_code (sr_most_dangerous_cluster r)))"
  using assms(1,2) unresolved_max [of "sr_cluster_evidence r", OF assms(3)]
  by (fastforce simp: finish_evaluation_def Let_def split: option.splits if_split_asm)

lemma finish_contract:
  assumes "sr_has_cluster_evidence r"
  shows "sr_warning_valid (finish_evaluation r) \<and>
      sr_warning_code (finish_evaluation r) = ce_warning_code (sr_most_dangerous_cluster r) \<and>
      sr_fault (finish_evaluation r) = CargoSafetyFault.NONE \<or>
    \<not> sr_warning_valid (finish_evaluation r) \<and> sr_warning_code (finish_evaluation r) = 0 \<and>
      sr_fault (finish_evaluation r) \<noteq> CargoSafetyFault.NONE"
  using assms by (simp add: finish_evaluation_def Let_def split: option.split)

lemma severity_bound:
  assumes "sr_warning_valid (evaluate_perception c i p)"
  shows "let code = sr_warning_code (evaluate_perception c i p)
    in (\<forall>q \<in> set (or_clusters p). warningPriority (severity c i q) \<le> warningPriority code) \<and>
       (code = 14 \<longrightarrow> (\<forall>q \<in> set (or_clusters p). \<not> threatens c i q)) \<and>
       (code \<noteq> 14 \<longrightarrow> (\<exists>q \<in> set (or_clusters p). severity c i q = code))"
proof (cases rule: evaluate_cases [of c i p])
  case fault
  then show ?thesis using assms by simp
next
  case no_clusters
  then show ?thesis by (simp add: Let_def)
next
  case (clusters r4 w)
  let ?ev = "cluster_evidence_of c i"
  let ?code = "ce_warning_code (?ev w)"
  note lv = safety_config_levels [OF clusters(2)]
  have ok: "\<And>e. e \<in> set (sr_cluster_evidence r4) \<Longrightarrow> evidence_ok e"
    using clusters(4,5) finite_result_evidence_ok by auto
  have fv: "sr_warning_code (evaluate_perception c i p) = ?code"
    "\<forall>q \<in> set (or_clusters p). ce_potential_warning_code (?ev q) \<noteq> 0 \<longrightarrow>
       warningPriority (ce_potential_warning_code (?ev q)) \<le> warningPriority ?code"
    using finish_valid [OF assms [unfolded clusters(3)] clusters(7) ok] clusters(3,4,8) by auto
  have sev: "warningPriority (severity c i q) \<le> warningPriority ?code" if q: "q \<in> set (or_clusters p)" for q
  proof -
    have fin: "cluster_result_finite c i q" using clusters(5) q by blast
    show ?thesis
    proof (cases "hz_vertically_continuous (cluster_hazard c i q) \<or> \<not> threatens c i q")
      case True
      then have "ce_warning_code (?ev q) = severity c i q"
        using cluster_codes(1) [OF fin lv] by (auto simp: severity_def)
      then show ?thesis using clusters(9) q by fastforce
    next
      case False
      then have "ce_potential_warning_code (?ev q) = severity c i q" "severity c i q \<noteq> 0"
        using cluster_codes(2) [OF fin lv] severity_range [of c i q] by auto
      then show ?thesis using fv(2) q by fastforce
    qed
  qed
  have "\<not> threatens c i q" if "q \<in> set (or_clusters p)" "?code = 14" for q
    using sev [OF that(1)] that(2) by (simp add: severity_def warningPriority_def split: if_splits)
  moreover have "severity c i w = ?code" if "?code \<noteq> 14"
    using that cluster_codes(1) [OF _ lv] clusters(5,6) by (fastforce split: if_splits)
  ultimately show ?thesis using sev fv(1) clusters(6) by (auto simp: Let_def)
qed

lemma evaluation_clear:
  assumes "sr_warning_valid (evaluate_perception c i p)" and "sr_warning_code (evaluate_perception c i p) = 14"
  shows "\<forall>q \<in> set (or_clusters p). \<not> threatens c i q"
  using severity_bound [OF assms(1)] assms(2) by (simp add: Let_def)

definition demo_safety_config :: CargoSafetyConfig where
  "demo_safety_config = default_CargoSafetyConfig\<lparr>sc_obstacle_min_cluster_points := 1\<rparr>"

definition demo_safety_input :: "real \<Rightarrow> CargoSafetyInput" where
  "demo_safety_input x =
     \<lparr>si_source_stamp_sec = Fin 1, si_source_sequence = 1, si_frame_id = ''base_link'',
      si_height = \<lparr>hs_valid = True, hs_stale = False, hs_bottom_z = Fin 1,
                   hs_bottom_uncertainty_m = Fin 0, hs_stamp_sec = Fin 1\<rparr>,
      si_footprint_base = demo_footprint,
      si_obstacle_cloud_base = Some [\<lparr>v3x = Fin x, v3y = Fin 0, v3z = Fin 1\<rparr>],
      si_evaluation_time_sec = Fin 1, si_obstacle_observation_valid = True,
      si_obstacle_cloud_age_sec = Fin 0, si_obstacle_roi_finite_points = 20,
      si_obstacle_roi_coverage_ratio = Fin 0.5\<rparr>"

definition demo_cluster :: "real \<Rightarrow> ObstaclePerceptionCluster" where
  "demo_cluster d =
     \<lparr>oq_cluster_index = 0, oq_point_count = 1, oq_footprint_distance_m = Fin d, oq_top_z95_m = Fin 1,
      oq_bottom_z05_m = Fin 1, oq_minimum_z_m = Fin 1, oq_maximum_z_m = Fin 1, oq_vertical_span_m = Fin 0,
      oq_vertical_continuity_ratio = Fin 1, oq_tail_spread_m = Fin 0, oq_obstacle_uncertainty_m = Fin 0.05,
      oq_centroid_base = \<lparr>v3x = Fin (d + 1), v3y = Fin 0, v3z = Fin 1\<rparr>,
      oq_nearest_point_base = \<lparr>v3x = Fin (d + 1), v3y = Fin 0, v3z = Fin 1\<rparr>, oq_point_indices = [0]\<rparr>"

lemmas demo_safety_defs = demo_safety_config_def demo_safety_input_def demo_footprint_def
  default_CargoSafetyConfig_def default_ObstaclePerceptionConfig_def

lemma demo_perceive:
  assumes "1 \<le> d"
  shows "or_valid (perceive (\<lambda>_ _ ps. Some [map int [0..<length ps]]) demo_safety_config (demo_safety_input (d + 1))) \<and>
    or_clusters (perceive (\<lambda>_ _ ps. Some [map int [0..<length ps]]) demo_safety_config (demo_safety_input (d + 1))) =
      [demo_cluster d]"
  using assms
  by (simp add: demo_safety_defs demo_cluster_def perceive_def perception_config_def perception_input_def
      perceiveObstacles_def validateObstaclePerceptionConfig_def validHorizontalFootprint_def
      observation_insufficient_def perceive_cloud_def finite_points_def finitePoint_def describe_cluster_def
      cluster_finite_def nearestRankPercentile_def max_element_def min_element_def occupied_vertical_bins_def
      pointToCargoObbDistance2D_def obb_local_def Let_def cpp_clamp_def vec2_allFinite_def vec2_zero_def vec3_head2_def
      vec2_sub_def centroid_of_def vec3_add_def vec3_zero_def default_ObstaclePerceptionResult_def)

lemma demo_evaluate:
  assumes "1 \<le> d" and "or_valid p" and "or_clusters p = [demo_cluster d]"
  shows "sr_warning_valid (evaluate_perception demo_safety_config (demo_safety_input (d + 1)) p) \<and>
    sr_warning_code (evaluate_perception demo_safety_config (demo_safety_input (d + 1)) p) =
      (if d \<le> 3 then 17 else if d \<le> 5 then 18 else 14)"
  using assms
  by (simp add: demo_safety_defs demo_cluster_def evaluate_perception_def validateCargoSafetyConfig_def
      isValidFootprint_def cluster_result_finite_def cluster_hazard_def HazardEvaluator_evaluate_def
      hazard_geometry_invalid_def conservative_bottom_def cluster_evidence_of_def finish_evaluation_def
      default_CargoSafetyResult_def default_HazardAssessment_def default_CargoSafetyClusterEvidence_def
      Let_def vec2_allFinite_def vec2_zero_def)

section \<open>Properties\<close>

text \<open>C2. Fail-closed severity: when the evaluator publishes a valid code, every cluster of the
  perception result has at most the severity of that code in the specification, which ignores
  whether its vertical structure could be resolved; and a code 17 or 18 is the severity of one
  of the clusters. In particular a clear (14) is published only if no cluster threatens the cargo.\<close>

theorem evaluation_severity:
  assumes "sr_warning_valid (evaluate_perception c i p)"
  shows "let code = sr_warning_code (evaluate_perception c i p)
    in (\<forall>q \<in> set (or_clusters p). warningPriority (severity c i q) \<le> warningPriority code) \<and>
       (code = 14 \<longrightarrow> (\<forall>q \<in> set (or_clusters p). \<not> threatens c i q)) \<and>
       (code \<noteq> 14 \<longrightarrow> (\<exists>q \<in> set (or_clusters p). severity c i q = code))"
  using assms by (rule severity_bound)

theorem evaluation_severity_witness:
  "let p = default_ObstaclePerceptionResult\<lparr>or_valid := True, or_clusters := [demo_cluster 2]\<rparr>;
       r = evaluate_perception demo_safety_config (demo_safety_input 3) p
   in sr_warning_code r = 17 \<and>
      (\<exists>q \<in> set (or_clusters p). severity demo_safety_config (demo_safety_input 3) q = 17)"
proof -
  let ?p = "default_ObstaclePerceptionResult\<lparr>or_valid := True, or_clusters := [demo_cluster 2]\<rparr>"
  have v: "sr_warning_valid (evaluate_perception demo_safety_config (demo_safety_input 3) ?p)"
    "sr_warning_code (evaluate_perception demo_safety_config (demo_safety_input 3) ?p) = 17"
    using demo_evaluate [of 2 ?p] by simp_all
  show ?thesis using evaluation_severity [OF v(1)] v(2) unfolding Let_def by simp
qed
text \<open>Result contract of the evaluator on every branch: a valid result carries 14, 17 or 18 and no
  fault, and an invalid one carries code 0 and a fault, for every configuration, input and
  perception result.\<close>

theorem evaluation_contract:
  "let r = evaluate_perception c i p
   in (sr_warning_valid r \<and> sr_warning_code r \<in> {14, 17, 18} \<and> sr_fault r = CargoSafetyFault.NONE) \<or>
      (\<not> sr_warning_valid r \<and> sr_warning_code r = 0 \<and> sr_fault r \<noteq> CargoSafetyFault.NONE)"
proof (cases rule: evaluate_cases [of c i p])
  case (clusters r4 w)
  then show ?thesis
    using finish_contract [OF clusters(7)] code_range [of c i w] by (auto simp: Let_def)
qed (simp_all add: Let_def)

text \<open>C18. From the point cloud to the clear code: for every clustering routine, if the evaluator, fed by
  the perception of the same frame, publishes a valid clear (14), then a cloud was present and
  either it has no finite point, or no point of any cluster within the level-2 distance of the cargo
  footprint belongs to a cluster that is neither entirely above the cargo nor leaves the required clearance
  below the conservative cargo bottom.\<close>

theorem evaluate_clear_end_to_end:
  assumes "sr_warning_valid (evaluate extract c i)" and "sr_warning_code (evaluate extract c i) = 14"
  shows "\<exists>cloud. si_obstacle_cloud_base i = Some cloud \<and>
    (or_clusters (perceive extract c i) = [] \<longrightarrow> (\<forall>p \<in> set cloud. \<not> finitePoint p)) \<and>
    (\<forall>q \<in> set (or_clusters (perceive extract c i)). \<forall>j \<in> set (oq_point_indices q).
       j < length cloud \<and>
       (pointToCargoObbDistance2D (vec3_head2 (cloud ! j)) (si_footprint_base i) \<le> sc_level2_distance_m c \<longrightarrow>
        fp_max_z (si_footprint_base i) + sc_overhead_separation_margin_m c < oq_bottom_z05_m q \<or>
        \<not> conservative_bottom c i - (oq_top_z95_m q + oq_obstacle_uncertainty_m q)
            < sc_minimum_vertical_clearance_m c))"
proof -
  let ?p = "perceive extract c i"
  have valid: "or_valid ?p"
    using assms(1) by (cases rule: evaluate_cases [of c i ?p]) (simp_all add: evaluate_def)
  have clear: "\<forall>q \<in> set (or_clusters ?p). \<not> threatens c i q"
    using evaluation_clear [OF assms [unfolded evaluate_def]] .
  obtain cloud where cloud: "oi_cloud_base (perception_input i) = Some cloud"
    "or_clusters ?p = [] \<longrightarrow> (\<forall>p \<in> set cloud. \<not> finitePoint p)"
    "\<forall>q \<in> set (or_clusters ?p). cluster_wf (perception_config c) (oi_query_footprint (perception_input i)) cloud q"
    using perceive_sound [OF valid [unfolded perceive_def]] unfolding perceive_def by blast
  show ?thesis
  proof (intro exI conjI)
    show "si_obstacle_cloud_base i = Some cloud" using cloud(1) by (simp add: perception_input_def)
    show "or_clusters ?p = [] \<longrightarrow> (\<forall>p \<in> set cloud. \<not> finitePoint p)" by (rule cloud(2))
  next
    show "\<forall>q \<in> set (or_clusters ?p). \<forall>j \<in> set (oq_point_indices q). j < length cloud \<and>
       (pointToCargoObbDistance2D (vec3_head2 (cloud ! j)) (si_footprint_base i) \<le> sc_level2_distance_m c \<longrightarrow>
        fp_max_z (si_footprint_base i) + sc_overhead_separation_margin_m c < oq_bottom_z05_m q \<or>
        \<not> conservative_bottom c i - (oq_top_z95_m q + oq_obstacle_uncertainty_m q)
            < sc_minimum_vertical_clearance_m c)"
    proof (intro ballI)
      fix q j assume q: "q \<in> set (or_clusters ?p)" and j: "j \<in> set (oq_point_indices q)"
      have wf: "j < length cloud" "oq_footprint_distance_m q \<le>
          pointToCargoObbDistance2D (vec3_head2 (cloud ! j)) (si_footprint_base i)"
        using bspec [OF cloud(3) q] j by (simp_all add: cluster_wf_def perception_input_def)
      have "\<not> threatens c i q" using clear q by blast
      then show "j < length cloud \<and>
       (pointToCargoObbDistance2D (vec3_head2 (cloud ! j)) (si_footprint_base i) \<le> sc_level2_distance_m c \<longrightarrow>
        fp_max_z (si_footprint_base i) + sc_overhead_separation_margin_m c < oq_bottom_z05_m q \<or>
        \<not> conservative_bottom c i - (oq_top_z95_m q + oq_obstacle_uncertainty_m q)
            < sc_minimum_vertical_clearance_m c)"
        using wf dbl_le_trans [OF wf(2)] unfolding threatens_def by blast
    qed
  qed
qed

theorem evaluate_clear_end_to_end_witness:
  "sr_warning_code (evaluate (\<lambda>_ _ ps. Some [map int [0..<length ps]]) demo_safety_config (demo_safety_input 8)) = 14 \<and>
   (\<exists>cloud. si_obstacle_cloud_base (demo_safety_input 8) = Some cloud)"
proof -
  let ?x = "\<lambda>(_::dbl) (_::nat) (ps::vec3 list). Some [map int [0..<length ps]]"
  have p: "or_valid (perceive ?x demo_safety_config (demo_safety_input 8))"
    "or_clusters (perceive ?x demo_safety_config (demo_safety_input 8)) = [demo_cluster 7]"
    using demo_perceive [of 7] by simp_all
  have v: "sr_warning_valid (evaluate ?x demo_safety_config (demo_safety_input 8))"
    "sr_warning_code (evaluate ?x demo_safety_config (demo_safety_input 8)) = 14"
    using demo_evaluate [OF _ p] by (simp_all add: evaluate_def)
  show ?thesis using evaluate_clear_end_to_end [OF v] v(2) by blast
qed

end
