(* ===== verification/Avoidance_Decision.thy ===== *)
theory Avoidance_Decision
  imports Hook_Load_Policy Safety_Evaluator
begin

text \<open>
  The final protocol decision (\<^verbatim>\<open>avoidance_decision.hpp/.cpp\<close>, types in \<^verbatim>\<open>cargo_safety_evaluator.hpp\<close>):
  one code per frame out of 14 (clear), 17/18 (warnings), 29 (anomaly review) and the faults
  30 to 35 with their mask. \<^verbatim>\<open>deriveCargoSafetyDecisionPhase\<close> orders the authorities,
  \<^verbatim>\<open>composeCargoSafetyDecision\<close> builds the decision and \<^verbatim>\<open>AvoidanceDecisionOwner\<close> applies the review
  projection. Fault masks are 32-bit words, as in the message.
\<close>

definition kClear :: int where "kClear = 14"
definition kLevel1Warning :: int where "kLevel1Warning = 17"
definition kLevel2Warning :: int where "kLevel2Warning = 18"
definition kAnomalyReview :: int where "kAnomalyReview = 29"
definition kSystemNotReady :: int where "kSystemNotReady = 30"
definition kLocalizationInvalid :: int where "kLocalizationInvalid = 31"
definition kGravityInvalid :: int where "kGravityInvalid = 32"
definition kCargoInvalid :: int where "kCargoInvalid = 33"
definition kObstacleInvalid :: int where "kObstacleInvalid = 34"
definition kInternalError :: int where "kInternalError = 35"

definition kFaultStatusStale :: u32 where "kFaultStatusStale = 1"
definition kFaultLocalization :: u32 where "kFaultLocalization = 2"
definition kFaultGravity :: u32 where "kFaultGravity = 4"
definition kFaultCargo :: u32 where "kFaultCargo = 8"
definition kFaultObstacle :: u32 where "kFaultObstacle = 16"
definition kFaultInternal :: u32 where "kFaultInternal = 32"

lemmas protocol_codes = kClear_def kLevel1Warning_def kLevel2Warning_def kAnomalyReview_def
  kSystemNotReady_def kLocalizationInvalid_def kGravityInvalid_def kCargoInvalid_def
  kObstacleInvalid_def kInternalError_def

lemmas protocol_masks = kFaultStatusStale_def kFaultLocalization_def kFaultGravity_def
  kFaultCargo_def kFaultObstacle_def kFaultInternal_def

datatype CargoSafetyDecisionPhase =
  STARTUP_NOT_READY | LOCALIZATION_INVALID | GRAVITY_REQUIRED_INVALID
  | CARGO_EXPECTED_NOT_AUTHORITATIVE | CARGO_FORMAL_OBSTACLE_NOT_READY | SAFE_EMPTY
  | VALID_WARNING_OR_CLEAR | INTERNAL_CONTRACT_ERROR

record CargoSafetyDecisionInput =
  di_system_ready :: bool
  di_localization_valid :: bool
  di_hook_signal_role :: HookLoadSignalRole
  di_gravity_valid :: bool
  di_gravity_empty :: bool
  di_gravity_loaded :: bool
  di_gravity_conflict :: bool
  di_safe_empty :: bool
  di_hook_loaded :: bool
  di_cargo_fault :: bool
  di_obstacle_fault :: bool
  di_internal_fault :: bool
  di_warning_valid :: bool
  di_pending_positive_warning :: bool
  di_formal_cargo_valid :: bool
  di_formal_clear_authorized :: bool
  di_obstacle_evidence_ready :: bool
  di_warning_code :: int
  di_evidence_reason :: string

record CargoSafetyDecision =
  dc_valid :: bool
  dc_warning_valid :: bool
  dc_requested_code :: int
  dc_warning_code :: int
  dc_fault_code :: int
  dc_fault_mask :: u32
  dc_reason :: string

definition default_CargoSafetyDecision :: CargoSafetyDecision where
  "default_CargoSafetyDecision =
     \<lparr>dc_valid = False, dc_warning_valid = False, dc_requested_code = kSystemNotReady,
      dc_warning_code = 0, dc_fault_code = kSystemNotReady, dc_fault_mask = kFaultStatusStale,
      dc_reason = ''system_not_ready''\<rparr>"

record CargoAnomalyReviewProjection =
  rv_enabled :: bool
  rv_output_code :: int
  rv_event :: string

definition default_CargoAnomalyReviewProjection :: CargoAnomalyReviewProjection where
  "default_CargoAnomalyReviewProjection =
     \<lparr>rv_enabled = False, rv_output_code = kAnomalyReview, rv_event = ''NONE''\<rparr>"

definition gravity_required_unavailable :: "CargoSafetyDecisionInput \<Rightarrow> bool" where
  "gravity_required_unavailable i \<longleftrightarrow>
     di_hook_signal_role i = HookLoadSignalRole.REQUIRED \<and>
     (\<not> di_gravity_valid i \<or> (\<not> di_gravity_empty i \<and> \<not> di_gravity_loaded i))"

definition warning_code_known :: "CargoSafetyDecisionInput \<Rightarrow> bool" where
  "warning_code_known i \<longleftrightarrow>
     di_warning_code i \<in> {0, kClear, kLevel1Warning, kLevel2Warning, kAnomalyReview}"

definition positive_warning :: "CargoSafetyDecisionInput \<Rightarrow> bool" where
  "positive_warning i \<longleftrightarrow>
     di_warning_valid i \<and>
     (di_warning_code i = kLevel1Warning \<or> di_warning_code i = kLevel2Warning \<or>
      di_warning_code i = kAnomalyReview) \<and>
     di_obstacle_evidence_ready i \<and> (di_pending_positive_warning i \<or> di_formal_cargo_valid i) \<and>
     \<not> di_cargo_fault i \<and> \<not> di_obstacle_fault i"

definition formal_clear :: "CargoSafetyDecisionInput \<Rightarrow> bool" where
  "formal_clear i \<longleftrightarrow>
     di_warning_valid i \<and> di_warning_code i = kClear \<and> di_formal_clear_authorized i \<and>
     di_obstacle_evidence_ready i \<and> \<not> di_cargo_fault i \<and> \<not> di_obstacle_fault i \<and>
     \<not> di_gravity_conflict i"

definition safe_empty_authorized :: "CargoSafetyDecisionInput \<Rightarrow> bool" where
  "safe_empty_authorized i \<longleftrightarrow>
     (di_hook_signal_role i \<noteq> HookLoadSignalRole.REQUIRED \<or>
      (di_gravity_valid i \<and> di_gravity_empty i \<and> \<not> di_gravity_loaded i)) \<and>
     \<not> (di_hook_signal_role i = HookLoadSignalRole.AUXILIARY \<and> di_gravity_valid i \<and> di_gravity_loaded i) \<and>
     \<not> di_cargo_fault i \<and> \<not> di_obstacle_fault i"

definition deriveCargoSafetyDecisionPhase ::
  "CargoSafetyDecisionInput \<Rightarrow> CargoSafetyDecisionPhase \<times> string" where
  "deriveCargoSafetyDecisionPhase i =
     (if di_internal_fault i then (INTERNAL_CONTRACT_ERROR, ''explicit_internal_fault'')
      else if di_warning_valid i \<and> \<not> warning_code_known i
      then (INTERNAL_CONTRACT_ERROR, ''invalid_warning_protocol_code'')
      else if di_hook_signal_role i \<noteq> HookLoadSignalRole.DISABLED \<and> di_gravity_empty i \<and> di_gravity_loaded i
      then (INTERNAL_CONTRACT_ERROR, ''gravity_state_not_exclusive'')
      else if \<not> di_system_ready i then (STARTUP_NOT_READY, ''system_not_ready'')
      else if \<not> di_localization_valid i then (LOCALIZATION_INVALID, ''localization_unreliable'')
      else if gravity_required_unavailable i
      then (GRAVITY_REQUIRED_INVALID, ''required_gravity_unavailable'')
      else if positive_warning i
      then (VALID_WARNING_OR_CLEAR,
            if di_gravity_conflict i then ''gravity_lidar_conflict_hazard_retained'' else ''positive_hazard'')
      else if di_gravity_conflict i \<and> di_hook_signal_role i \<noteq> HookLoadSignalRole.DISABLED
      then (CARGO_EXPECTED_NOT_AUTHORITATIVE, ''gravity_lidar_conflict'')
      else if di_safe_empty i \<and> di_hook_loaded i
      then (INTERNAL_CONTRACT_ERROR, ''safe_empty_conflicts_with_hook_loaded'')
      else if di_safe_empty i \<and> di_formal_cargo_valid i
      then (INTERNAL_CONTRACT_ERROR, ''safe_empty_conflicts_with_formal_cargo'')
      else if di_safe_empty i \<and> di_cargo_fault i
      then (INTERNAL_CONTRACT_ERROR, ''safe_empty_conflicts_with_cargo_fault'')
      else if di_safe_empty i \<and> di_obstacle_fault i
      then (INTERNAL_CONTRACT_ERROR, ''safe_empty_conflicts_with_obstacle_fault'')
      else if di_formal_cargo_valid i
      then (if formal_clear i then (VALID_WARNING_OR_CLEAR, ''formal_live_static_clear'')
            else if di_cargo_fault i then (CARGO_EXPECTED_NOT_AUTHORITATIVE, ''formal_cargo_invalid'')
            else (CARGO_FORMAL_OBSTACLE_NOT_READY, ''formal_cargo_clear_authority_incomplete''))
      else if di_safe_empty i
      then (if safe_empty_authorized i then (SAFE_EMPTY, ''strict_lidar_empty_confirmed'')
            else (CARGO_EXPECTED_NOT_AUTHORITATIVE, ''safe_empty_authority_incomplete''))
      else (CARGO_EXPECTED_NOT_AUTHORITATIVE,
            if di_pending_positive_warning i then ''pending_hazard_not_authoritative''
            else ''cargo_expected_not_authoritative''))"

definition cargoSafetyDecisionSelfConsistent :: "CargoSafetyDecision \<Rightarrow> bool" where
  "cargoSafetyDecisionSelfConsistent d \<longleftrightarrow>
     (if dc_requested_code d \<in> {kClear, kLevel1Warning, kLevel2Warning, kAnomalyReview}
      then dc_valid d \<and> dc_warning_valid d \<and> dc_warning_code d = dc_requested_code d \<and>
           dc_fault_code d = 0 \<and> dc_fault_mask d = 0
      else \<not> dc_valid d \<and> \<not> dc_warning_valid d \<and> dc_warning_code d = 0 \<and>
           dc_requested_code d = dc_fault_code d \<and> kSystemNotReady \<le> dc_fault_code d \<and>
           dc_fault_code d \<le> kInternalError \<and> dc_fault_mask d \<noteq> 0)"

definition internal_error_decision :: "string \<Rightarrow> CargoSafetyDecision" where
  "internal_error_decision reason =
     default_CargoSafetyDecision
       \<lparr>dc_requested_code := kInternalError, dc_fault_code := kInternalError,
        dc_fault_mask := kFaultInternal, dc_reason := reason\<rparr>"

text \<open>The switch over the phase: warning code, fault code and fault mask.\<close>

fun phase_codes :: "CargoSafetyDecisionInput \<Rightarrow> CargoSafetyDecisionPhase \<Rightarrow> int \<times> int \<times> u32" where
  "phase_codes i STARTUP_NOT_READY = (0, kSystemNotReady, kFaultStatusStale)"
| "phase_codes i LOCALIZATION_INVALID = (0, kLocalizationInvalid, kFaultLocalization)"
| "phase_codes i GRAVITY_REQUIRED_INVALID = (0, kGravityInvalid, kFaultGravity)"
| "phase_codes i CARGO_EXPECTED_NOT_AUTHORITATIVE = (0, kCargoInvalid, kFaultCargo)"
| "phase_codes i CARGO_FORMAL_OBSTACLE_NOT_READY = (0, kObstacleInvalid, kFaultObstacle)"
| "phase_codes i SAFE_EMPTY = (kClear, 0, 0)"
| "phase_codes i VALID_WARNING_OR_CLEAR = (di_warning_code i, 0, 0)"
| "phase_codes i INTERNAL_CONTRACT_ERROR = (0, kInternalError, kFaultInternal)"

definition composeCargoSafetyDecision :: "CargoSafetyDecisionInput \<Rightarrow> CargoSafetyDecision" where
  "composeCargoSafetyDecision i =
     (let (phase, selection_reason) = deriveCargoSafetyDecisionPhase i;
          use_selection_reason = (phase = INTERNAL_CONTRACT_ERROR \<or> di_gravity_conflict i);
          reason = (if use_selection_reason \<or> di_evidence_reason i = [] then selection_reason
                    else di_evidence_reason i);
          (warning_code, fault_code, fault_mask) = phase_codes i phase;
          d = \<lparr>dc_valid = (fault_code = 0), dc_warning_valid = (fault_code = 0),
               dc_requested_code = (if fault_code \<noteq> 0 then fault_code else warning_code),
               dc_warning_code = warning_code, dc_fault_code = fault_code, dc_fault_mask = fault_mask,
               dc_reason = (if reason = [] then ''safety_decision'' else reason)\<rparr>
      in if \<not> cargoSafetyDecisionSelfConsistent d
         then internal_error_decision ''decision_self_consistency_failure''
         else d)"

definition decide :: "CargoSafetyDecisionInput \<Rightarrow> CargoAnomalyReviewProjection \<Rightarrow> CargoSafetyDecision" where
  "decide i review =
     (let d = composeCargoSafetyDecision i;
          d1 = (if rv_enabled review \<and> dc_requested_code d = kAnomalyReview \<and>
                   rv_output_code review \<noteq> kAnomalyReview
                then d\<lparr>dc_valid := False, dc_warning_valid := False, dc_warning_code := 0,
                       dc_requested_code := kObstacleInvalid, dc_fault_code := kObstacleInvalid,
                       dc_fault_mask := kFaultObstacle,
                       dc_reason := dc_reason d @ '';review_suppressed''\<rparr>
                else d);
          d2 = (if rv_enabled review \<and> rv_event review \<noteq> ''ACTIVE'' \<and> rv_event review \<noteq> ''NONE'' \<and>
                   rv_event review \<noteq> []
                then d1\<lparr>dc_reason := dc_reason d1 @ '';review_episode='' @ rv_event review\<rparr>
                else d1)
      in if \<not> cargoSafetyDecisionSelfConsistent d2
         then internal_error_decision ''final_decision_self_consistency_failure''
         else d2)"

definition decide_default :: "CargoSafetyDecisionInput \<Rightarrow> CargoSafetyDecision" where
  "decide_default i = decide i default_CargoAnomalyReviewProjection"

definition preview :: "CargoSafetyDecisionInput \<Rightarrow> CargoSafetyDecision" where
  "preview i = decide_default i"

section \<open>Lemmas\<close>

lemma positive_code: "positive_warning i \<Longrightarrow> di_warning_code i \<in> {17, 18, 29}"
  by (auto simp: positive_warning_def protocol_codes)

lemma warning_phase_code:
  "fst (deriveCargoSafetyDecisionPhase i) = VALID_WARNING_OR_CLEAR \<Longrightarrow> di_warning_code i \<in> {14, 17, 18, 29}"
  using positive_code [of i]
  by (auto simp: deriveCargoSafetyDecisionPhase_def formal_clear_def protocol_codes split: if_split_asm)

text \<open>The self-consistency check of the composition never fires: the composed codes are those of
  the phase.\<close>

lemma compose_codes:
  assumes "phase_codes i (fst (deriveCargoSafetyDecisionPhase i)) = (w, f, m)"
  shows "dc_warning_code (composeCargoSafetyDecision i) = w \<and> dc_fault_code (composeCargoSafetyDecision i) = f \<and>
    dc_fault_mask (composeCargoSafetyDecision i) = m \<and>
    dc_requested_code (composeCargoSafetyDecision i) = (if f \<noteq> 0 then f else w) \<and>
    dc_valid (composeCargoSafetyDecision i) = (f = 0) \<and> dc_warning_valid (composeCargoSafetyDecision i) = (f = 0)"
proof -
  have "(f, m) \<in> {(30, 1), (31, 2), (32, 4), (33, 8), (34, 16), (35, 32)} \<and> w = 0 \<or>
      f = 0 \<and> m = 0 \<and> w \<in> {14, 17, 18, 29}"
    using assms warning_phase_code [of i]
    by (cases "fst (deriveCargoSafetyDecisionPhase i)") (auto simp: protocol_codes protocol_masks)
  then have "cargoSafetyDecisionSelfConsistent
      \<lparr>dc_valid = (f = 0), dc_warning_valid = (f = 0), dc_requested_code = (if f \<noteq> 0 then f else w),
       dc_warning_code = w, dc_fault_code = f, dc_fault_mask = m, dc_reason = reason\<rparr>" for reason
    by (elim disjE conjE insertE emptyE) (simp_all add: cargoSafetyDecisionSelfConsistent_def protocol_codes)
  then show ?thesis
    using assms by (cases "f = 0") (simp_all add: composeCargoSafetyDecision_def Let_def split_beta)
qed

lemma compose_requested:
  "dc_requested_code (composeCargoSafetyDecision i) =
    (case fst (deriveCargoSafetyDecisionPhase i) of
       STARTUP_NOT_READY \<Rightarrow> 30 | LOCALIZATION_INVALID \<Rightarrow> 31 | GRAVITY_REQUIRED_INVALID \<Rightarrow> 32
     | CARGO_EXPECTED_NOT_AUTHORITATIVE \<Rightarrow> 33 | CARGO_FORMAL_OBSTACLE_NOT_READY \<Rightarrow> 34
     | SAFE_EMPTY \<Rightarrow> 14 | VALID_WARNING_OR_CLEAR \<Rightarrow> di_warning_code i | INTERNAL_CONTRACT_ERROR \<Rightarrow> 35)"
  using compose_codes [of i]
  by (cases "fst (deriveCargoSafetyDecisionPhase i)") (simp_all add: protocol_codes Let_def)

lemma compose_consistent: "cargoSafetyDecisionSelfConsistent (composeCargoSafetyDecision i)"
  by (simp add: composeCargoSafetyDecision_def Let_def split_beta cargoSafetyDecisionSelfConsistent_def
      internal_error_decision_def default_CargoSafetyDecision_def protocol_codes protocol_masks)

text \<open>Nor does the final one: the review projection either keeps the codes or replaces 29 by 34.\<close>

definition review_suppresses :: "CargoSafetyDecisionInput \<Rightarrow> CargoAnomalyReviewProjection \<Rightarrow> bool" where
  "review_suppresses i rv \<longleftrightarrow>
     rv_enabled rv \<and> dc_requested_code (composeCargoSafetyDecision i) = 29 \<and> rv_output_code rv \<noteq> 29"

lemma consistent_reason [simp]:
  "cargoSafetyDecisionSelfConsistent (d\<lparr>dc_reason := r\<rparr>) = cargoSafetyDecisionSelfConsistent d"
  by (simp add: cargoSafetyDecisionSelfConsistent_def)

lemma consistent_suppressed [simp]:
  "cargoSafetyDecisionSelfConsistent
     (d\<lparr>dc_valid := False, dc_warning_valid := False, dc_warning_code := 0,
        dc_requested_code := 34, dc_fault_code := 34, dc_fault_mask := 16\<rparr>)"
  by (simp add: cargoSafetyDecisionSelfConsistent_def protocol_codes protocol_masks)

lemma decide_codes_suppressed:
  assumes "review_suppresses i rv"
  shows "dc_requested_code (decide i rv) = 34 \<and> dc_fault_code (decide i rv) = 34 \<and>
    dc_fault_mask (decide i rv) = 16 \<and> dc_warning_code (decide i rv) = 0 \<and>
    \<not> dc_valid (decide i rv) \<and> \<not> dc_warning_valid (decide i rv)"
proof -
  have s: "rv_enabled rv \<and> dc_requested_code (composeCargoSafetyDecision i) = kAnomalyReview \<and>
      rv_output_code rv \<noteq> kAnomalyReview"
    using assms by (simp add: review_suppresses_def protocol_codes)
  show ?thesis
    unfolding decide_def Let_def if_P [OF s] by (simp add: protocol_codes protocol_masks)
qed

lemma decide_codes_kept:
  assumes "\<not> review_suppresses i rv"
  shows "dc_requested_code (decide i rv) = dc_requested_code (composeCargoSafetyDecision i) \<and>
    dc_fault_code (decide i rv) = dc_fault_code (composeCargoSafetyDecision i) \<and>
    dc_fault_mask (decide i rv) = dc_fault_mask (composeCargoSafetyDecision i) \<and>
    dc_warning_code (decide i rv) = dc_warning_code (composeCargoSafetyDecision i) \<and>
    dc_valid (decide i rv) = dc_valid (composeCargoSafetyDecision i) \<and>
    dc_warning_valid (decide i rv) = dc_warning_valid (composeCargoSafetyDecision i)"
proof -
  have s: "\<not> (rv_enabled rv \<and> dc_requested_code (composeCargoSafetyDecision i) = kAnomalyReview \<and>
      rv_output_code rv \<noteq> kAnomalyReview)"
    using assms by (simp add: review_suppresses_def protocol_codes)
  show ?thesis
    unfolding decide_def Let_def if_not_P [OF s] by (simp add: compose_consistent)
qed

lemma suppressed_29: "review_suppresses i rv \<Longrightarrow> dc_requested_code (composeCargoSafetyDecision i) = 29"
  by (simp add: review_suppresses_def)

lemma decide_requested_cases:
  "dc_requested_code (decide i rv) = dc_requested_code (composeCargoSafetyDecision i) \<or>
   review_suppresses i rv \<and> dc_requested_code (composeCargoSafetyDecision i) = 29 \<and>
   dc_requested_code (decide i rv) = 34"
  using decide_codes_suppressed [of i rv] decide_codes_kept [of i rv] suppressed_29 [of i rv] by blast

lemma clear_phase:
  assumes "dc_requested_code (composeCargoSafetyDecision i) = 14"
  shows "fst (deriveCargoSafetyDecisionPhase i) = SAFE_EMPTY \<or>
    fst (deriveCargoSafetyDecisionPhase i) = VALID_WARNING_OR_CLEAR \<and> di_warning_code i = 14"
  using assms by (cases "fst (deriveCargoSafetyDecisionPhase i)") (simp_all add: compose_requested)

definition ready_for_decision :: "CargoSafetyDecisionInput \<Rightarrow> bool" where
  "ready_for_decision i \<longleftrightarrow>
     \<not> di_internal_fault i \<and> di_system_ready i \<and> di_localization_valid i \<and>
     \<not> gravity_required_unavailable i \<and>
     \<not> (di_hook_signal_role i \<noteq> HookLoadSignalRole.DISABLED \<and> di_gravity_empty i \<and> di_gravity_loaded i)"

lemma phase_ready:
  "fst (deriveCargoSafetyDecisionPhase i) \<in> {SAFE_EMPTY, VALID_WARNING_OR_CLEAR} \<Longrightarrow> ready_for_decision i"
  by (auto simp: deriveCargoSafetyDecisionPhase_def ready_for_decision_def split: if_split_asm)

lemma phase_safe_empty:
  "fst (deriveCargoSafetyDecisionPhase i) = SAFE_EMPTY \<Longrightarrow>
   di_safe_empty i \<and> \<not> di_formal_cargo_valid i \<and> \<not> di_hook_loaded i \<and> safe_empty_authorized i \<and>
   \<not> positive_warning i \<and> (di_gravity_conflict i \<longrightarrow> di_hook_signal_role i = HookLoadSignalRole.DISABLED)"
  by (simp add: deriveCargoSafetyDecisionPhase_def split: if_split_asm)

lemma phase_formal_clear:
  "fst (deriveCargoSafetyDecisionPhase i) = VALID_WARNING_OR_CLEAR \<Longrightarrow> di_warning_code i = 14 \<Longrightarrow>
   di_formal_cargo_valid i \<and> formal_clear i"
  using positive_code [of i] by (simp add: deriveCargoSafetyDecisionPhase_def split: if_split_asm)

lemma decide_table:
  "let d = decide i rv
   in ((dc_fault_code d, dc_fault_mask d) \<in> {(30, 1), (31, 2), (32, 4), (33, 8), (34, 16), (35, 32)} \<and>
       dc_requested_code d = dc_fault_code d \<and> dc_warning_code d = 0 \<and> \<not> dc_valid d \<and> \<not> dc_warning_valid d \<or>
       dc_requested_code d \<in> {14, 17, 18, 29} \<and> dc_warning_code d = dc_requested_code d \<and>
       dc_fault_code d = 0 \<and> dc_fault_mask d = 0 \<and> dc_valid d \<and> dc_warning_valid d) \<and>
      (dc_requested_code d = 35 \<longleftrightarrow> fst (deriveCargoSafetyDecisionPhase i) = INTERNAL_CONTRACT_ERROR)"
proof (cases "review_suppresses i rv")
  case True
  then have "dc_requested_code (composeCargoSafetyDecision i) = 29" by (rule suppressed_29)
  then have "fst (deriveCargoSafetyDecisionPhase i) \<noteq> INTERNAL_CONTRACT_ERROR"
    by (auto simp: compose_requested)
  then show ?thesis using decide_codes_suppressed [OF True] by (simp add: Let_def)
next
  case False
  obtain w f m where c: "phase_codes i (fst (deriveCargoSafetyDecisionPhase i)) = (w, f, m)"
    using prod_cases3 by blast
  show ?thesis
    using decide_codes_kept [OF False] compose_codes [OF c] c warning_phase_code [of i]
    by (cases "fst (deriveCargoSafetyDecisionPhase i)") (auto simp: Let_def protocol_codes protocol_masks)
qed

lemma clear_authority:
  assumes "dc_requested_code (decide i rv) = 14"
  shows "ready_for_decision i \<and> \<not> di_cargo_fault i \<and> \<not> di_obstacle_fault i \<and>
    (di_safe_empty i \<and> \<not> di_formal_cargo_valid i \<and> \<not> di_hook_loaded i \<and> safe_empty_authorized i \<or>
     di_formal_cargo_valid i \<and> di_warning_valid i \<and> di_formal_clear_authorized i \<and>
     di_obstacle_evidence_ready i \<and> \<not> di_gravity_conflict i)"
proof -
  have "dc_requested_code (composeCargoSafetyDecision i) = 14"
    using assms decide_requested_cases [of i rv] by auto
  from clear_phase [OF this] show ?thesis
  proof
    assume p: "fst (deriveCargoSafetyDecisionPhase i) = SAFE_EMPTY"
    then show ?thesis using phase_safe_empty [OF p] phase_ready [of i] by (simp add: safe_empty_authorized_def)
  next
    assume p: "fst (deriveCargoSafetyDecisionPhase i) = VALID_WARNING_OR_CLEAR \<and> di_warning_code i = 14"
    then show ?thesis using phase_formal_clear [of i] phase_ready [of i] by (simp add: formal_clear_def)
  qed
qed

lemma positive_retained:
  assumes "ready_for_decision i" and "positive_warning i"
  shows "dc_requested_code (decide i rv) = (if review_suppresses i rv then 34 else di_warning_code i)"
proof -
  have "warning_code_known i" using positive_code [OF assms(2)] by (auto simp: warning_code_known_def protocol_codes)
  then have "fst (deriveCargoSafetyDecisionPhase i) = VALID_WARNING_OR_CLEAR"
    using assms by (auto simp: deriveCargoSafetyDecisionPhase_def ready_for_decision_def)
  then show ?thesis
    using decide_codes_suppressed [of i rv] decide_codes_kept [of i rv] by (simp add: compose_requested)
qed

lemma gravity_fault_char:
  "dc_requested_code (decide i rv) = 32 \<longleftrightarrow>
     \<not> di_internal_fault i \<and> (di_warning_valid i \<longrightarrow> warning_code_known i) \<and>
     \<not> (di_gravity_empty i \<and> di_gravity_loaded i) \<and> di_system_ready i \<and> di_localization_valid i \<and>
     di_hook_signal_role i = HookLoadSignalRole.REQUIRED \<and>
     (\<not> di_gravity_valid i \<or> (\<not> di_gravity_empty i \<and> \<not> di_gravity_loaded i))"
  (is "_ \<longleftrightarrow> ?unavailable")
proof -
  have "dc_requested_code (decide i rv) = 32 \<longleftrightarrow> dc_requested_code (composeCargoSafetyDecision i) = 32"
    using decide_requested_cases [of i rv] by auto
  also have "\<dots> \<longleftrightarrow> fst (deriveCargoSafetyDecisionPhase i) = GRAVITY_REQUIRED_INVALID"
    using warning_phase_code [of i]
    by (cases "fst (deriveCargoSafetyDecisionPhase i)") (auto simp: compose_requested)
  also have "\<dots> \<longleftrightarrow> ?unavailable"
    by (auto simp: deriveCargoSafetyDecisionPhase_def gravity_required_unavailable_def)
  finally show ?thesis .
qed

section \<open>Properties\<close>

text \<open>Every decision is one line of the protocol table: whatever the input and the review
  projection, the requested code, warning code, fault code, fault mask and validity flags are one of
  the ten rows of the protocol, and the internal-error row appears only when the phase is an
  internal contract error (the self-consistency fallbacks never fire).\<close>

theorem decide_protocol_table:
  "let d = decide i rv
   in ((dc_fault_code d, dc_fault_mask d) \<in> {(30, 1), (31, 2), (32, 4), (33, 8), (34, 16), (35, 32)} \<and>
       dc_requested_code d = dc_fault_code d \<and> dc_warning_code d = 0 \<and> \<not> dc_valid d \<and> \<not> dc_warning_valid d \<or>
       dc_requested_code d \<in> {14, 17, 18, 29} \<and> dc_warning_code d = dc_requested_code d \<and>
       dc_fault_code d = 0 \<and> dc_fault_mask d = 0 \<and> dc_valid d \<and> dc_warning_valid d) \<and>
      (dc_requested_code d = 35 \<longleftrightarrow> fst (deriveCargoSafetyDecisionPhase i) = INTERNAL_CONTRACT_ERROR)"
  by (rule decide_table)

text \<open>C13. A clear needs full authority: 14 is requested only when the system is ready, localisation is
  valid, a required load signal is available and exclusive, neither a cargo nor an obstacle fault is
  present, and either an empty hook is confirmed without any formal cargo or load signal against it,
  or a formal cargo has an authorised clear with ready obstacle evidence and no gravity conflict.
  No review projection can produce it otherwise.\<close>

theorem clear_needs_authority:
  assumes "dc_requested_code (decide i rv) = 14"
  shows "ready_for_decision i \<and> \<not> di_cargo_fault i \<and> \<not> di_obstacle_fault i \<and>
    (di_safe_empty i \<and> \<not> di_formal_cargo_valid i \<and> \<not> di_hook_loaded i \<and> safe_empty_authorized i \<or>
     di_formal_cargo_valid i \<and> di_warning_valid i \<and> di_formal_clear_authorized i \<and>
     di_obstacle_evidence_ready i \<and> \<not> di_gravity_conflict i)"
  using assms by (rule clear_authority)

definition demo_decision_input :: CargoSafetyDecisionInput where
  "demo_decision_input =
     \<lparr>di_system_ready = True, di_localization_valid = True,
      di_hook_signal_role = HookLoadSignalRole.REQUIRED, di_gravity_valid = True,
      di_gravity_empty = False, di_gravity_loaded = True, di_gravity_conflict = False,
      di_safe_empty = False, di_hook_loaded = True, di_cargo_fault = False, di_obstacle_fault = False,
      di_internal_fault = False, di_warning_valid = True, di_pending_positive_warning = False,
      di_formal_cargo_valid = True, di_formal_clear_authorized = True, di_obstacle_evidence_ready = True,
      di_warning_code = 14, di_evidence_reason = []\<rparr>"

lemma demo_phase: "fst (deriveCargoSafetyDecisionPhase demo_decision_input) = VALID_WARNING_OR_CLEAR"
  by (simp add: demo_decision_input_def deriveCargoSafetyDecisionPhase_def warning_code_known_def
      gravity_required_unavailable_def positive_warning_def formal_clear_def protocol_codes)

theorem clear_needs_authority_witness:
  "dc_requested_code (decide demo_decision_input default_CargoAnomalyReviewProjection) = 14 \<and>
   ready_for_decision demo_decision_input"
proof -
  have "\<not> review_suppresses demo_decision_input default_CargoAnomalyReviewProjection"
    by (simp add: review_suppresses_def default_CargoAnomalyReviewProjection_def)
  from decide_codes_kept [OF this]
  have "dc_requested_code (decide demo_decision_input default_CargoAnomalyReviewProjection) = 14"
    by (simp add: compose_requested demo_phase) (simp add: demo_decision_input_def)
  with clear_needs_authority [OF this] show ?thesis by simp
qed

text \<open>A live hazard is never masked: when the common prerequisites hold and a valid positive warning
  (17, 18 or 29) has ready obstacle evidence and no cargo or obstacle fault, it is requested as it
  is, also under a gravity conflict, an authorised clear or an empty-hook claim; the only change a review
  projection can make is to turn 29 into the obstacle fault 34.\<close>

theorem positive_warning_retained:
  assumes "ready_for_decision i" and "positive_warning i"
  shows "dc_requested_code (decide i rv) = (if review_suppresses i rv then 34 else di_warning_code i)"
  using assms by (rule positive_retained)

theorem positive_warning_retained_witness:
  "dc_requested_code (decide (demo_decision_input\<lparr>di_warning_code := 17, di_gravity_conflict := True\<rparr>)
     default_CargoAnomalyReviewProjection) = 17"
proof -
  let ?i = "demo_decision_input\<lparr>di_warning_code := 17, di_gravity_conflict := True\<rparr>"
  have "ready_for_decision ?i" "positive_warning ?i"
    by (simp_all add: demo_decision_input_def ready_for_decision_def gravity_required_unavailable_def
        positive_warning_def protocol_codes)
  from positive_warning_retained [OF this] show ?thesis
    by (simp add: review_suppresses_def default_CargoAnomalyReviewProjection_def demo_decision_input_def)
qed

text \<open>The gravity fault 32 belongs to the REQUIRED role alone: it is requested exactly when no
  internal contract error is found, the system is ready and localised, and a REQUIRED load signal is
  unavailable.\<close>

theorem gravity_fault_iff:
  "dc_requested_code (decide i rv) = 32 \<longleftrightarrow>
     \<not> di_internal_fault i \<and> (di_warning_valid i \<longrightarrow> warning_code_known i) \<and>
     \<not> (di_gravity_empty i \<and> di_gravity_loaded i) \<and> di_system_ready i \<and> di_localization_valid i \<and>
     di_hook_signal_role i = HookLoadSignalRole.REQUIRED \<and>
     (\<not> di_gravity_valid i \<or> (\<not> di_gravity_empty i \<and> \<not> di_gravity_loaded i))"
  by (rule gravity_fault_char)

theorem gravity_fault_iff_witness:
  "dc_requested_code (decide (demo_decision_input\<lparr>di_gravity_valid := False\<rparr>)
     default_CargoAnomalyReviewProjection) = 32"
  by (simp add: gravity_fault_iff) (simp add: demo_decision_input_def warning_code_known_def protocol_codes)

end
