(* ===== verification/Anomaly_Review.thy ===== *)
theory Anomaly_Review
  imports Ndt_Machines
begin

text \<open>
  \<^verbatim>\<open>AnomalyReviewEpisodeTracker\<close> (\<^verbatim>\<open>anomaly_review_episode_tracker.hpp/.cpp\<close>): a review candidate (29) becomes an
  active episode after enough confirmations of one identity key, lasts a bounded time and is then
  suppressed for a cooldown; standard warnings pass through and end the episode.
\<close>

record AnomalyReviewEpisodeConfig =
  ac_enter_confirm_frames :: int
  ac_maximum_active_sec :: dbl
  ac_reentry_cooldown_sec :: dbl

definition default_AnomalyReviewEpisodeConfig :: AnomalyReviewEpisodeConfig where
  "default_AnomalyReviewEpisodeConfig =
     \<lparr>ac_enter_confirm_frames = 2, ac_maximum_active_sec = Fin 1.5, ac_reentry_cooldown_sec = Fin 2\<rparr>"

record AnomalyReviewEpisodeKey =
  ak_cargo_lifecycle_id :: u64
  ak_cargo_track_id :: u64
  ak_obstacle_track_id :: u64
  ak_pose_generation :: u64
  ak_map_generation :: u64

definition key_eq :: "AnomalyReviewEpisodeKey \<Rightarrow> AnomalyReviewEpisodeKey \<Rightarrow> bool" where
  "key_eq a b \<longleftrightarrow> ak_cargo_lifecycle_id a = ak_cargo_lifecycle_id b \<and>
     ak_cargo_track_id a = ak_cargo_track_id b \<and> ak_obstacle_track_id a = ak_obstacle_track_id b \<and>
     ak_pose_generation a = ak_pose_generation b \<and> ak_map_generation a = ak_map_generation b"

definition default_AnomalyReviewEpisodeKey :: AnomalyReviewEpisodeKey where
  "default_AnomalyReviewEpisodeKey =
     \<lparr>ak_cargo_lifecycle_id = 0, ak_cargo_track_id = 0, ak_obstacle_track_id = 0,
      ak_pose_generation = 0, ak_map_generation = 0\<rparr>"

record AnomalyReviewEpisodeInput =
  ai_stamp_sec :: dbl
  ai_candidate_code :: int
  ai_key :: AnomalyReviewEpisodeKey

record AnomalyReviewEpisodeDecision =
  ad_output_code :: int
  ad_active :: bool
  ad_emit_event :: bool
  ad_event :: string
  ad_confirmation_count :: int

record AnomalyReviewEpisodeTracker =
  at_config :: AnomalyReviewEpisodeConfig
  at_has_stamp :: bool
  at_last_stamp_sec :: dbl
  at_last_output_code :: int
  at_pending :: bool
  at_pending_key :: AnomalyReviewEpisodeKey
  at_pending_confirmations :: int
  at_pending_since_sec :: dbl
  at_active :: bool
  at_active_key :: AnomalyReviewEpisodeKey
  at_active_since_sec :: dbl
  at_cooldown :: bool
  at_cooldown_key :: AnomalyReviewEpisodeKey
  at_cooldown_until_sec :: dbl

definition review_epsilon :: dbl where
  "review_epsilon = Fin 0.000001"

definition standardWarning :: "int \<Rightarrow> bool" where
  "standardWarning code \<longleftrightarrow> code = 17 \<or> code = 18"

definition validReviewConfig :: "AnomalyReviewEpisodeConfig \<Rightarrow> bool" where
  "validReviewConfig c \<longleftrightarrow> 1 \<le> ac_enter_confirm_frames c \<and>
     isfinite (ac_maximum_active_sec c) \<and> Fin 0 < ac_maximum_active_sec c \<and>
     isfinite (ac_reentry_cooldown_sec c) \<and> Fin 0 \<le> ac_reentry_cooldown_sec c"

definition review_reset :: "AnomalyReviewEpisodeTracker \<Rightarrow> AnomalyReviewEpisodeTracker" where
  "review_reset s =
     s\<lparr>at_has_stamp := False, at_last_stamp_sec := Fin 0, at_last_output_code := 34,
       at_pending := False, at_pending_confirmations := 0, at_pending_since_sec := Fin 0,
       at_active := False, at_active_since_sec := Fin 0, at_cooldown := False,
       at_cooldown_until_sec := Fin 0\<rparr>"

definition review_setConfig ::
  "AnomalyReviewEpisodeConfig \<Rightarrow> AnomalyReviewEpisodeTracker \<Rightarrow> AnomalyReviewEpisodeTracker" where
  "review_setConfig c s =
     review_reset (s\<lparr>at_config := (if validReviewConfig c then c else default_AnomalyReviewEpisodeConfig)\<rparr>)"

definition review_init :: "AnomalyReviewEpisodeConfig \<Rightarrow> AnomalyReviewEpisodeTracker" where
  "review_init c = review_setConfig c
     \<lparr>at_config = default_AnomalyReviewEpisodeConfig, at_has_stamp = False, at_last_stamp_sec = Fin 0,
      at_last_output_code = 34, at_pending = False, at_pending_key = default_AnomalyReviewEpisodeKey,
      at_pending_confirmations = 0, at_pending_since_sec = Fin 0, at_active = False,
      at_active_key = default_AnomalyReviewEpisodeKey, at_active_since_sec = Fin 0, at_cooldown = False,
      at_cooldown_key = default_AnomalyReviewEpisodeKey, at_cooldown_until_sec = Fin 0\<rparr>"

text \<open>Ending an episode or its confirmation.\<close>

definition end_episode :: "AnomalyReviewEpisodeTracker \<Rightarrow> AnomalyReviewEpisodeTracker" where
  "end_episode s = s\<lparr>at_pending := False, at_pending_confirmations := 0, at_active := False\<rparr>"

definition plain_decision :: "int \<Rightarrow> AnomalyReviewEpisodeDecision" where
  "plain_decision code =
     \<lparr>ad_output_code = code, ad_active = False, ad_emit_event = False, ad_event = ''NONE'',
      ad_confirmation_count = 0\<rparr>"

definition end_decision :: "AnomalyReviewEpisodeTracker \<Rightarrow> int \<Rightarrow> string \<Rightarrow> AnomalyReviewEpisodeDecision" where
  "end_decision s code event =
     (let emit = (at_active s \<or> at_pending s)
      in (plain_decision code)\<lparr>ad_emit_event := emit, ad_event := (if emit then event else ''NONE'')\<rparr>)"

text \<open>The update on a repeated stamp.\<close>

definition review_repeated ::
  "(AnomalyReviewEpisodeTracker, AnomalyReviewEpisodeInput, AnomalyReviewEpisodeDecision) machine" where
  "review_repeated s i =
     (if standardWarning (ai_candidate_code i)
      then ((end_episode s)\<lparr>at_cooldown := False, at_last_output_code := ai_candidate_code i\<rparr>,
            end_decision s (ai_candidate_code i) ''PROMOTE'')
      else if ai_candidate_code i \<noteq> 29
      then ((end_episode s)\<lparr>at_last_output_code := ai_candidate_code i\<rparr>,
            end_decision s (ai_candidate_code i) ''DISAPPEAR'')
      else (s, (plain_decision (at_last_output_code s))
                 \<lparr>ad_active := at_active s, ad_confirmation_count := at_pending_confirmations s,
                  ad_event := ''REPEATED_STAMP_IGNORED''\<rparr>))"

text \<open>The confirmation of a review candidate that is not active.\<close>

definition review_pending ::
  "(AnomalyReviewEpisodeTracker, AnomalyReviewEpisodeInput, AnomalyReviewEpisodeDecision) machine" where
  "review_pending s i =
     (let s1 = (if \<not> at_pending s \<or> \<not> key_eq (ai_key i) (at_pending_key s)
                then s\<lparr>at_pending := True, at_pending_key := ai_key i, at_pending_confirmations := 1,
                       at_pending_since_sec := ai_stamp_sec i\<rparr>
                else s\<lparr>at_pending_confirmations := at_pending_confirmations s + 1\<rparr>);
          count = at_pending_confirmations s1
      in if count < ac_enter_confirm_frames (at_config s1)
         then (s1\<lparr>at_last_output_code := 34\<rparr>,
               (plain_decision 34)\<lparr>ad_confirmation_count := count, ad_event := ''ENTER_PENDING''\<rparr>)
         else (s1\<lparr>at_active := True, at_active_key := at_pending_key s1,
                  at_active_since_sec := at_pending_since_sec s1, at_pending := False,
                  at_last_output_code := 29\<rparr>,
               (plain_decision 29)\<lparr>ad_confirmation_count := count, ad_active := True,
                                   ad_emit_event := True, ad_event := ''ENTER''\<rparr>))"

definition expire_cooldown ::
  "AnomalyReviewEpisodeTracker \<Rightarrow> AnomalyReviewEpisodeInput \<Rightarrow> AnomalyReviewEpisodeTracker" where
  "expire_cooldown s i =
     (if at_cooldown s \<and> at_cooldown_until_sec s \<le> ai_stamp_sec i then s\<lparr>at_cooldown := False\<rparr> else s)"

definition review_candidate ::
  "(AnomalyReviewEpisodeTracker, AnomalyReviewEpisodeInput, AnomalyReviewEpisodeDecision) machine" where
  "review_candidate s i =
     (if at_cooldown s \<and> key_eq (ai_key i) (at_cooldown_key s) \<and> ai_stamp_sec i < at_cooldown_until_sec s
      then (s\<lparr>at_last_output_code := 34\<rparr>, (plain_decision 34)\<lparr>ad_event := ''REENTRY_SUPPRESSED''\<rparr>)
      else
        let s1 = expire_cooldown s i
        in if at_active s1
           then (if \<not> key_eq (ai_key i) (at_active_key s1)
                 then review_pending (end_episode s1) i
                 else if ai_stamp_sec i - at_active_since_sec s1 \<le> ac_maximum_active_sec (at_config s1)
                 then (s1\<lparr>at_last_output_code := 29\<rparr>,
                       (plain_decision 29)\<lparr>ad_active := True,
                          ad_confirmation_count := at_pending_confirmations s1, ad_event := ''ACTIVE''\<rparr>)
                 else ((end_episode s1)\<lparr>at_cooldown := True, at_cooldown_key := ai_key i,
                         at_cooldown_until_sec := ai_stamp_sec i + ac_reentry_cooldown_sec (at_config s1),
                         at_last_output_code := 34\<rparr>,
                       (plain_decision 34)\<lparr>ad_emit_event := True, ad_event := ''TIMEOUT''\<rparr>))
           else review_pending s1 i)"

definition review_update ::
  "(AnomalyReviewEpisodeTracker, AnomalyReviewEpisodeInput, AnomalyReviewEpisodeDecision) machine" where
  "review_update s i =
     (if \<not> isfinite (ai_stamp_sec i) \<or> ai_stamp_sec i < Fin 0
      then (review_reset s, (plain_decision 34)\<lparr>ad_emit_event := True, ad_event := ''INVALID_STAMP''\<rparr>)
      else if at_has_stamp s \<and> ai_stamp_sec i + review_epsilon < at_last_stamp_sec s
      then ((review_reset s)\<lparr>at_has_stamp := True, at_last_stamp_sec := ai_stamp_sec i,
                             at_last_output_code := 34\<rparr>,
            (plain_decision 34)\<lparr>ad_emit_event := True, ad_event := ''TIME_ROLLBACK''\<rparr>)
      else if at_has_stamp s \<and> \<bar>ai_stamp_sec i - at_last_stamp_sec s\<bar> \<le> review_epsilon
      then review_repeated s i
      else
        let s1 = s\<lparr>at_has_stamp := True, at_last_stamp_sec := ai_stamp_sec i\<rparr>
        in if standardWarning (ai_candidate_code i)
           then ((end_episode s1)\<lparr>at_cooldown := False, at_last_output_code := ai_candidate_code i\<rparr>,
                 end_decision s1 (ai_candidate_code i) ''PROMOTE'')
           else if ai_candidate_code i \<noteq> 29
           then ((expire_cooldown (end_episode s1) i)\<lparr>at_last_output_code := ai_candidate_code i\<rparr>,
                 end_decision s1 (ai_candidate_code i) ''DISAPPEAR'')
           else review_candidate s1 i)"

section \<open>Lemmas\<close>

lemma key_eq_iff [simp]: "key_eq a b \<longleftrightarrow> a = b"
  by (cases a; cases b) (simp add: key_eq_def)

definition review_inv :: "AnomalyReviewEpisodeTracker \<Rightarrow> bool" where
  "review_inv s \<longleftrightarrow> 0 \<le> at_pending_confirmations s \<and>
     (at_active s \<longrightarrow> ac_enter_confirm_frames (at_config s) \<le> at_pending_confirmations s) \<and>
     (at_last_output_code s = 29 \<longrightarrow> ac_enter_confirm_frames (at_config s) \<le> at_pending_confirmations s)"

text \<open>What every step of the tracker satisfies, for the three steps it is composed of.\<close>

definition review_step_ok ::
  "AnomalyReviewEpisodeTracker \<Rightarrow> AnomalyReviewEpisodeTracker \<times> AnomalyReviewEpisodeDecision \<Rightarrow> bool" where
  "review_step_ok s r \<longleftrightarrow> review_inv (fst r) \<and> at_config (fst r) = at_config s \<and>
     at_pending_confirmations (fst r) \<le> at_pending_confirmations s + 1 \<and>
     (ad_output_code (snd r) = 29 \<longrightarrow>
        ac_enter_confirm_frames (at_config s) \<le> at_pending_confirmations (fst r))"

lemmas review_defs = review_step_ok_def review_inv_def plain_decision_def end_episode_def end_decision_def Let_def

lemma review_pending_ok: "0 \<le> at_pending_confirmations s \<Longrightarrow> \<not> at_active s \<Longrightarrow> review_step_ok s (review_pending s i)"
  by (simp add: review_pending_def review_defs)

lemma review_step_ok_mono:
  "review_step_ok t r \<Longrightarrow> at_config t = at_config s \<Longrightarrow>
   at_pending_confirmations t \<le> at_pending_confirmations s \<Longrightarrow> review_step_ok s r"
  by (simp add: review_step_ok_def)

lemma end_episode_simps [simp]:
  "at_config (end_episode s) = at_config s" "at_pending_confirmations (end_episode s) = 0"
  "\<not> at_active (end_episode s)" "\<not> at_pending (end_episode s)"
  "at_cooldown (end_episode s) = at_cooldown s" "at_cooldown_key (end_episode s) = at_cooldown_key s"
  "at_cooldown_until_sec (end_episode s) = at_cooldown_until_sec s"
  by (simp_all add: end_episode_def)

lemma expire_cooldown_simps [simp]:
  "at_config (expire_cooldown s i) = at_config s"
  "at_pending_confirmations (expire_cooldown s i) = at_pending_confirmations s"
  "at_active (expire_cooldown s i) = at_active s" "at_active_key (expire_cooldown s i) = at_active_key s"
  "at_active_since_sec (expire_cooldown s i) = at_active_since_sec s"
  "at_last_output_code (expire_cooldown s i) = at_last_output_code s"
  by (simp_all add: expire_cooldown_def)

lemma review_candidate_ok:
  assumes "review_inv s"
  shows "review_step_ok s (review_candidate s i)"
proof -
  have nonneg: "0 \<le> at_pending_confirmations s" using assms by (simp add: review_inv_def)
  have ended: "review_step_ok s (review_pending (end_episode (expire_cooldown s i)) i)"
    using nonneg by (intro review_step_ok_mono [OF review_pending_ok]) simp_all
  have fresh: "\<not> at_active s \<Longrightarrow> review_step_ok s (review_pending (expire_cooldown s i) i)"
    using nonneg by (intro review_step_ok_mono [OF review_pending_ok]) simp_all
  have "review_step_ok s (s\<lparr>at_last_output_code := 34\<rparr>, (plain_decision 34)\<lparr>ad_event := ''REENTRY_SUPPRESSED''\<rparr>)"
    using assms by (simp add: review_step_ok_def review_inv_def plain_decision_def)
  moreover have "at_active s \<Longrightarrow> review_step_ok s ((expire_cooldown s i)\<lparr>at_last_output_code := 29\<rparr>,
        (plain_decision 29)\<lparr>ad_active := True, ad_confirmation_count := n, ad_event := ''ACTIVE''\<rparr>)" for n
    using assms by (simp add: review_step_ok_def review_inv_def)
  moreover have "review_step_ok s ((end_episode (expire_cooldown s i))\<lparr>at_cooldown := True, at_cooldown_key := k,
        at_cooldown_until_sec := u, at_last_output_code := 34\<rparr>,
        (plain_decision 34)\<lparr>ad_emit_event := True, ad_event := ''TIMEOUT''\<rparr>)" for k u
    using nonneg by (simp add: review_step_ok_def review_inv_def plain_decision_def)
  ultimately show ?thesis
    using ended fresh by (simp only: review_candidate_def Let_def expire_cooldown_simps split: if_split) blast
qed

lemma review_repeated_ok: "review_inv s \<Longrightarrow> review_step_ok s (review_repeated s i)"
  by (simp add: review_repeated_def review_defs standardWarning_def)

lemma review_update_ok:
  assumes "review_inv s"
  shows "review_step_ok s (review_update s i)"
proof -
  let ?s1 = "s\<lparr>at_has_stamp := True, at_last_stamp_sec := ai_stamp_sec i\<rparr>"
  have "review_inv ?s1" using assms by (simp add: review_inv_def)
  then have "review_step_ok s (review_candidate ?s1 i)"
    by (intro review_step_ok_mono [OF review_candidate_ok]) simp_all
  moreover have "review_step_ok s (review_repeated s i)" using assms by (rule review_repeated_ok)
  moreover have nonneg: "0 \<le> at_pending_confirmations s" using assms by (simp add: review_inv_def)
  have "review_step_ok s (review_reset s, (plain_decision 34)\<lparr>ad_emit_event := True, ad_event := e\<rparr>)" for e
    using nonneg by (simp add: review_step_ok_def review_inv_def plain_decision_def review_reset_def)
  moreover have "review_step_ok s ((review_reset s)\<lparr>at_has_stamp := True, at_last_stamp_sec := ai_stamp_sec i,
      at_last_output_code := 34\<rparr>, (plain_decision 34)\<lparr>ad_emit_event := True, ad_event := e\<rparr>)" for e
    using nonneg by (simp add: review_step_ok_def review_inv_def plain_decision_def review_reset_def)
  moreover have "standardWarning c \<Longrightarrow> review_step_ok s ((end_episode ?s1)\<lparr>at_cooldown := False,
      at_last_output_code := c\<rparr>, end_decision ?s1 c e)" for c e
    using nonneg by (auto simp: review_defs standardWarning_def)
  moreover have "c \<noteq> 29 \<Longrightarrow> review_step_ok s ((expire_cooldown (end_episode ?s1) i)\<lparr>at_last_output_code := c\<rparr>,
      end_decision ?s1 c e)" for c e
    using nonneg by (simp add: review_step_ok_def review_inv_def end_decision_def plain_decision_def Let_def)
  ultimately show ?thesis
    by (simp only: review_update_def Let_def split: if_split) blast
qed

interpretation review: confirmation_machine review_update review_inv at_pending_confirmations
  "\<lambda>s. ac_enter_confirm_frames (at_config s)" "\<lambda>d. ad_output_code d = 29"
proof
  fix s i
  assume "review_inv s"
  from review_update_ok [OF this, of i] show "review_inv (fst (review_update s i))"
    "at_pending_confirmations (fst (review_update s i)) \<le> at_pending_confirmations s + 1"
    "ad_output_code (snd (review_update s i)) = 29 \<Longrightarrow>
      ac_enter_confirm_frames (at_config s) \<le> at_pending_confirmations (fst (review_update s i))"
    by (simp_all add: review_step_ok_def)
next
  fix s i
  show "ac_enter_confirm_frames (at_config (fst (review_update s i))) = ac_enter_confirm_frames (at_config s)"
    by (simp add: review_update_def review_repeated_def review_candidate_def review_pending_def
        review_reset_def Let_def end_episode_def)
qed

lemma init_review_inv [simp]: "review_inv (review_init c)" "at_pending_confirmations (review_init c) = 0"
  "at_config (review_init c) = (if validReviewConfig c then c else default_AnomalyReviewEpisodeConfig)"
  by (simp_all add: review_init_def review_setConfig_def review_reset_def review_inv_def)

text \<open>The cooldown of a key: what a timeout establishes and every later review of that key keeps.\<close>

definition cooling :: "AnomalyReviewEpisodeKey \<Rightarrow> dbl \<Rightarrow> AnomalyReviewEpisodeTracker \<Rightarrow> bool" where
  "cooling k u s \<longleftrightarrow> at_cooldown s \<and> at_cooldown_key s = k \<and> at_cooldown_until_sec s = u \<and>
     at_last_output_code s \<noteq> 29 \<and> at_has_stamp s"

lemma cooling_step:
  assumes cool: "cooling k u s"
    and i: "isfinite (ai_stamp_sec i)" "Fin 0 \<le> ai_stamp_sec i" "ai_stamp_sec i < u"
      "\<not> ai_stamp_sec i + review_epsilon < at_last_stamp_sec s"
      "\<not> standardWarning (ai_candidate_code i)" "ai_candidate_code i = 29 \<longrightarrow> ai_key i = k"
  shows "cooling k u (fst (review_update s i)) \<and> ad_output_code (snd (review_update s i)) \<noteq> 29 \<and>
    at_last_stamp_sec (fst (review_update s i)) \<in> {at_last_stamp_sec s, ai_stamp_sec i}"
proof -
  have u: "\<not> u \<le> ai_stamp_sec i" using i(3) by (rule dbl_less_imp_not_le)
  have nonneg: "\<not> ai_stamp_sec i < Fin 0" using i(1,2) by (auto simp: isfinite_iff)
  show ?thesis
    using cool i u nonneg
    by (simp add: review_update_def cooling_def review_repeated_def review_candidate_def Let_def
        end_decision_def plain_decision_def expire_cooldown_def end_episode_def)
qed

lemma cooling_run:
  assumes "cooling k u s" and "isfinite (at_last_stamp_sec s)"
    and "\<And>i. i \<in> set is \<Longrightarrow> isfinite (ai_stamp_sec i) \<and> Fin 0 \<le> ai_stamp_sec i \<and> ai_stamp_sec i < u \<and>
        at_last_stamp_sec s \<le> ai_stamp_sec i \<and> \<not> standardWarning (ai_candidate_code i) \<and>
        (ai_candidate_code i = 29 \<longrightarrow> ai_key i = k)"
    and "sorted_wrt (\<lambda>i j. ai_stamp_sec i \<le> ai_stamp_sec j) is"
  shows "\<forall>d \<in> set (run_outputs review_update s is). ad_output_code d \<noteq> 29"
  using assms
proof (induction "is" arbitrary: s)
  case Nil
  then show ?case by simp
next
  case (Cons i "is")
  note i = Cons.prems(3) [of i, simplified]
  have "\<not> ai_stamp_sec i + review_epsilon < at_last_stamp_sec s"
    using i Cons.prems(2) by (auto simp: isfinite_iff review_epsilon_def)
  then have step: "cooling k u (fst (review_update s i))" "ad_output_code (snd (review_update s i)) \<noteq> 29"
    "at_last_stamp_sec (fst (review_update s i)) \<in> {at_last_stamp_sec s, ai_stamp_sec i}"
    using cooling_step [OF Cons.prems(1)] i by blast+
  have "\<forall>d \<in> set (run_outputs review_update (fst (review_update s i)) is). ad_output_code d \<noteq> 29"
  proof (rule Cons.IH [OF step(1)])
    show "isfinite (at_last_stamp_sec (fst (review_update s i)))" using step(3) i Cons.prems(2) by auto
    show "sorted_wrt (\<lambda>i j. ai_stamp_sec i \<le> ai_stamp_sec j) is" using Cons.prems(4) by simp
    fix j assume "j \<in> set is"
    then show "isfinite (ai_stamp_sec j) \<and> Fin 0 \<le> ai_stamp_sec j \<and> ai_stamp_sec j < u \<and>
        at_last_stamp_sec (fst (review_update s i)) \<le> ai_stamp_sec j \<and> \<not> standardWarning (ai_candidate_code j) \<and>
        (ai_candidate_code j = 29 \<longrightarrow> ai_key j = k)"
      using Cons.prems(3) [of j] Cons.prems(4) step(3) by auto
  qed
  then show ?case using step(2) by simp
qed

lemma pending_not_timeout: "ad_event (snd (review_pending s i)) \<noteq> ''TIMEOUT''"
  by (simp add: review_pending_def Let_def)

lemma repeated_not_timeout: "ad_event (snd (review_repeated s i)) \<noteq> ''TIMEOUT''"
  by (simp add: review_repeated_def end_decision_def Let_def plain_decision_def)

lemma end_not_timeout:
  "ad_event (end_decision s c ''PROMOTE'') \<noteq> ''TIMEOUT''" "ad_event (end_decision s c ''DISAPPEAR'') \<noteq> ''TIMEOUT''"
  by (simp_all add: end_decision_def Let_def plain_decision_def)

lemma update_timeout:
  "ad_event (snd (review_update s i)) = ''TIMEOUT'' \<Longrightarrow> isfinite (ai_stamp_sec i) \<and>
   review_update s i = review_candidate (s\<lparr>at_has_stamp := True, at_last_stamp_sec := ai_stamp_sec i\<rparr>) i"
  by (auto simp: review_update_def Let_def plain_decision_def repeated_not_timeout end_not_timeout
      split: if_split_asm)

lemma candidate_timeout:
  "ad_event (snd (review_candidate s i)) = ''TIMEOUT'' \<Longrightarrow>
   fst (review_candidate s i) = (end_episode (expire_cooldown s i))\<lparr>at_cooldown := True, at_cooldown_key := ai_key i,
     at_cooldown_until_sec := ai_stamp_sec i + ac_reentry_cooldown_sec (at_config s), at_last_output_code := 34\<rparr>"
  by (auto simp: review_candidate_def Let_def plain_decision_def pending_not_timeout split: if_split_asm)

lemma timeout_cooling:
  assumes "ad_event (snd (review_update s i)) = ''TIMEOUT''"
  shows "cooling (ai_key i) (ai_stamp_sec i + ac_reentry_cooldown_sec (at_config s)) (fst (review_update s i)) \<and>
    at_last_stamp_sec (fst (review_update s i)) = ai_stamp_sec i \<and> isfinite (ai_stamp_sec i)"
proof -
  let ?s1 = "s\<lparr>at_has_stamp := True, at_last_stamp_sec := ai_stamp_sec i\<rparr>"
  have u: "isfinite (ai_stamp_sec i)" "review_update s i = review_candidate ?s1 i"
    using update_timeout [OF assms] by simp_all
  have "fst (review_update s i) = (end_episode (expire_cooldown ?s1 i))\<lparr>at_cooldown := True, at_cooldown_key := ai_key i,
     at_cooldown_until_sec := ai_stamp_sec i + ac_reentry_cooldown_sec (at_config s), at_last_output_code := 34\<rparr>"
    using candidate_timeout [of ?s1 i] assms u(2) by simp
  then show ?thesis using u(1) by (simp add: cooling_def end_episode_def expire_cooldown_def)
qed

section \<open>Properties\<close>

text \<open>A review is published only after its confirmations: under every configuration (an invalid one is
  replaced by the default), the k-th decision of a fresh tracker can output 29 only if at least
  the configured number of frames has been processed, repeated stamps included.\<close>

theorem review_needs_confirmations:
  assumes "k < length is" and "ad_output_code (run_outputs review_update (review_init c) is ! k) = 29"
  shows "ac_enter_confirm_frames (at_config (review_init c)) \<le> int k + 1"
  using review.positive_needs_frames [OF _ _ assms] by simp

definition demo_review :: "real \<Rightarrow> AnomalyReviewEpisodeInput" where
  "demo_review t = \<lparr>ai_stamp_sec = Fin t, ai_candidate_code = 29, ai_key = default_AnomalyReviewEpisodeKey\<rparr>"

lemmas review_eval = review_update_def review_candidate_def review_pending_def review_repeated_def
  review_init_def review_setConfig_def review_reset_def demo_review_def plain_decision_def Let_def
  default_AnomalyReviewEpisodeConfig_def validReviewConfig_def standardWarning_def review_epsilon_def
  expire_cooldown_def end_episode_def

theorem review_needs_confirmations_witness:
  "ad_output_code (run_outputs review_update (review_init default_AnomalyReviewEpisodeConfig)
     (map demo_review [1, 1.1]) ! 1) = 29 \<and>
   ac_enter_confirm_frames (at_config (review_init default_AnomalyReviewEpisodeConfig)) \<le> 2"
proof -
  have "ad_output_code (run_outputs review_update (review_init default_AnomalyReviewEpisodeConfig)
     (map demo_review [1, 1.1]) ! 1) = 29"
    by (simp add: review_eval)
  with review_needs_confirmations [OF _ this] show ?thesis by simp
qed

text \<open>A timed-out review stays silent for its cooldown: after a TIMEOUT decision at time t for a key,
  no decision outputs 29 while the inputs keep non-decreasing stamps below t plus the re-entry
  cooldown, contain no standard warning and every review candidate among them has that key.\<close>

theorem review_cooldown_silent:
  assumes "ad_event (snd (review_update s i)) = ''TIMEOUT''"
    and "\<forall>j \<in> set js. isfinite (ai_stamp_sec j) \<and> Fin 0 \<le> ai_stamp_sec j \<and> ai_stamp_sec i \<le> ai_stamp_sec j \<and>
        ai_stamp_sec j < ai_stamp_sec i + ac_reentry_cooldown_sec (at_config s) \<and>
        \<not> standardWarning (ai_candidate_code j) \<and> (ai_candidate_code j = 29 \<longrightarrow> ai_key j = ai_key i)"
    and "sorted_wrt (\<lambda>a b. ai_stamp_sec a \<le> ai_stamp_sec b) js"
  shows "\<forall>d \<in> set (run_outputs review_update (fst (review_update s i)) js). ad_output_code d \<noteq> 29"
  using timeout_cooling [OF assms(1)] assms(2,3) by (intro cooling_run) auto

definition demo_review_active :: AnomalyReviewEpisodeTracker where
  "demo_review_active = run_state review_update (review_init default_AnomalyReviewEpisodeConfig)
     (map demo_review [1, 1.1])"

theorem review_cooldown_silent_witness:
  "ad_event (snd (review_update demo_review_active (demo_review 3))) = ''TIMEOUT'' \<and>
   list_all (\<lambda>d. ad_output_code d \<noteq> 29)
     (run_outputs review_update (fst (review_update demo_review_active (demo_review 3)))
       (map demo_review [3.1, 4.9]))"
proof -
  have t: "ad_event (snd (review_update demo_review_active (demo_review 3))) = ''TIMEOUT''"
    "ac_reentry_cooldown_sec (at_config demo_review_active) = Fin 2"
    by (simp_all add: demo_review_active_def review_eval)
  have "\<forall>d \<in> set (run_outputs review_update (fst (review_update demo_review_active (demo_review 3)))
      (map demo_review [3.1, 4.9])). ad_output_code d \<noteq> 29"
    by (rule review_cooldown_silent [OF t(1)], simp_all only: t(2)) (simp_all add: demo_review_def standardWarning_def)
  with t(1) show ?thesis by (simp only: list_all_iff conj_absorb simp_thms)
qed

text \<open>Everything that is not a review passes through unchanged: with a valid stamp that is not a
  rollback, a candidate other than 29 is output as it is and ends the episode.\<close>

theorem review_transparent:
  assumes "isfinite (ai_stamp_sec i)" and "Fin 0 \<le> ai_stamp_sec i"
    and "at_has_stamp s \<longrightarrow> \<not> ai_stamp_sec i + review_epsilon < at_last_stamp_sec s"
    and "ai_candidate_code i \<noteq> 29"
  shows "ad_output_code (snd (review_update s i)) = ai_candidate_code i \<and>
    \<not> at_active (fst (review_update s i)) \<and> \<not> at_pending (fst (review_update s i))"
proof -
  have "\<not> ai_stamp_sec i < Fin 0" using assms(1,2) by (auto simp: isfinite_iff)
  then show ?thesis
    using assms
    by (cases "at_has_stamp s") (simp_all add: review_update_def review_repeated_def Let_def
        end_decision_def plain_decision_def end_episode_def expire_cooldown_def)
qed

theorem review_transparent_witness:
  "ad_output_code (snd (review_update demo_review_active ((demo_review 3)\<lparr>ai_candidate_code := 17\<rparr>))) = 17"
  using review_transparent [of "(demo_review 3)\<lparr>ai_candidate_code := 17\<rparr>" demo_review_active]
  by (simp add: demo_review_def demo_review_active_def review_eval)

end
