(* ===== verification/Alarm_Heartbeat.thy ===== *)
theory Alarm_Heartbeat
  imports Ndt_Machines
begin

text \<open>
  The last stage before the crane: \<^verbatim>\<open>cargo_alarm_heartbeat_node.cpp\<close>. \<^verbatim>\<open>validateStatusContract\<close> checks a received
  status message field by field and turns every contradiction into the internal error 35;
  \<^verbatim>\<open>AlarmStateMachine\<close> keeps the code to repeat at the heartbeat rate and falls back to 30 when the
  status or its source stamp is stale or a clock runs backwards. The ROS node around them is not modelled.
  The last three arguments of \<^verbatim>\<open>ingest\<close> are unused by the code and have no counterpart.
\<close>

unbundle bit_operations_syntax

section \<open>Status contract\<close>

record StatusContractInput =
  sci_schema_valid :: bool
  sci_valid :: bool
  sci_warning_valid :: bool
  sci_requested_code :: int
  sci_warning_code :: int
  sci_fault_code :: int
  sci_fault_mask :: u32
  sci_localization_valid :: bool
  sci_hook_signal_role :: int
  sci_hook_signal_valid :: bool
  sci_hook_signal_conflict :: bool
  sci_hook_load_state :: int
  sci_no_cargo_confirmed :: bool
  sci_cargo_valid :: bool
  sci_cargo_track_id :: u32
  sci_evidence_state :: int
  sci_obstacle_valid :: bool
  sci_obstacle_track_id :: u32
  sci_obstacle_validated_streak :: u32
  sci_obstacle_large_geometry_valid :: bool
  sci_obstacle_provenance_valid :: bool
  sci_confidence :: dbl
  sci_obstacle_count :: u32
  sci_nearest_obstacle_distance_m :: dbl
  sci_obstacle_top_z_map :: dbl
  sci_obstacle_uncertainty_m :: dbl
  sci_conservative_vertical_clearance_m :: dbl

record StatusContractResult =
  scr_code :: int
  scr_valid :: bool
  scr_clear_without_obstacle_geometry :: bool
  scr_reason :: string

record StatusContractConfig =
  scc_level1_distance_m :: dbl
  scc_level2_distance_m :: dbl
  scc_minimum_vertical_clearance_m :: dbl

definition default_StatusContractConfig :: StatusContractConfig where
  "default_StatusContractConfig =
     \<lparr>scc_level1_distance_m = Fin 3.0, scc_level2_distance_m = Fin 5.0,
      scc_minimum_vertical_clearance_m = Fin 0.80\<rparr>"

definition isValidStatusContractConfig :: "StatusContractConfig \<Rightarrow> bool" where
  "isValidStatusContractConfig c \<longleftrightarrow>
     isfinite (scc_level1_distance_m c) \<and> isfinite (scc_level2_distance_m c) \<and>
     isfinite (scc_minimum_vertical_clearance_m c) \<and> Fin 0 < scc_level1_distance_m c \<and>
     scc_level1_distance_m c < scc_level2_distance_m c \<and>
     Fin 0 \<le> scc_minimum_vertical_clearance_m c"

definition isAllowedCode :: "int \<Rightarrow> bool" where
  "isAllowedCode code \<longleftrightarrow> code = 14 \<or> code = 17 \<or> code = 18 \<or> code = 29 \<or> (30 \<le> code \<and> code \<le> 35)"

definition contract_result :: "int \<Rightarrow> bool \<Rightarrow> bool \<Rightarrow> string \<Rightarrow> StatusContractResult" where
  "contract_result code valid clear reason =
     \<lparr>scr_code = code, scr_valid = valid, scr_clear_without_obstacle_geometry = clear, scr_reason = reason\<rparr>"

definition contract_error :: "string \<Rightarrow> StatusContractResult" where
  "contract_error reason = contract_result 35 False False reason"

definition required_mask :: "int \<Rightarrow> u32" where
  "required_mask fault_code =
     (if fault_code = 30 then 1 else if fault_code = 31 then 2 else if fault_code = 32 then 4
      else if fault_code = 33 then 8 else if fault_code = 34 then 16
      else if fault_code = 35 then 32 else 0)"

definition validate_fault_status :: "StatusContractInput \<Rightarrow> StatusContractResult" where
  "validate_fault_status i =
     (let m = required_mask (sci_fault_code i)
      in if sci_requested_code i \<noteq> sci_fault_code i \<or> sci_warning_valid i \<or> sci_warning_code i \<noteq> 0 \<or>
            m = 0 \<or> (sci_fault_mask i AND m) = 0
         then contract_error ''fault_contract_mismatch''
         else if sci_fault_code i = 32 \<and> sci_hook_signal_role i \<noteq> 1
         then contract_error ''auxiliary_gravity_fault_forbidden''
         else contract_result (sci_fault_code i) True False ''fault_status'')"

definition hook_supports :: "StatusContractInput \<Rightarrow> int \<Rightarrow> bool" where
  "hook_supports i load_state \<longleftrightarrow>
     sci_hook_signal_role i \<noteq> 1 \<or> (sci_hook_signal_valid i \<and> sci_hook_load_state i = load_state)"

definition contract_safe_empty :: "StatusContractInput \<Rightarrow> bool" where
  "contract_safe_empty i \<longleftrightarrow>
     sci_localization_valid i \<and> hook_supports i 2 \<and> sci_no_cargo_confirmed i \<and> \<not> sci_cargo_valid i"

definition valid_loaded :: "StatusContractInput \<Rightarrow> bool" where
  "valid_loaded i \<longleftrightarrow>
     sci_localization_valid i \<and> hook_supports i 3 \<and> \<not> sci_no_cargo_confirmed i \<and> sci_cargo_valid i \<and>
     sci_obstacle_valid i"

definition provisional_positive_loaded :: "StatusContractInput \<Rightarrow> bool" where
  "provisional_positive_loaded i \<longleftrightarrow>
     sci_localization_valid i \<and> hook_supports i 3 \<and> \<not> sci_no_cargo_confirmed i \<and> \<not> sci_cargo_valid i \<and>
     sci_obstacle_valid i \<and> (sci_evidence_state i = 3 \<or> sci_evidence_state i = 8)"

definition provisional_track_contract :: "StatusContractInput \<Rightarrow> bool" where
  "provisional_track_contract i \<longleftrightarrow>
     0 < sci_cargo_track_id i \<and> 0 < sci_obstacle_track_id i \<and> 0 < sci_obstacle_validated_streak i \<and>
     sci_obstacle_large_geometry_valid i \<and> sci_obstacle_provenance_valid i \<and>
     isfinite (sci_confidence i) \<and> Fin 0 < sci_confidence i"

definition cluster_geometry_valid :: "StatusContractInput \<Rightarrow> bool" where
  "cluster_geometry_valid i \<longleftrightarrow>
     0 < sci_obstacle_count i \<and> isfinite (sci_nearest_obstacle_distance_m i) \<and>
     Fin 0 \<le> sci_nearest_obstacle_distance_m i \<and> isfinite (sci_obstacle_top_z_map i) \<and>
     isfinite (sci_obstacle_uncertainty_m i) \<and> Fin 0 \<le> sci_obstacle_uncertainty_m i \<and>
     isfinite (sci_conservative_vertical_clearance_m i)"

definition level1_geometry :: "StatusContractConfig \<Rightarrow> StatusContractInput \<Rightarrow> bool" where
  "level1_geometry c i \<longleftrightarrow>
     sci_nearest_obstacle_distance_m i \<le> scc_level1_distance_m c \<and>
     sci_conservative_vertical_clearance_m i < scc_minimum_vertical_clearance_m c"

definition level2_geometry :: "StatusContractConfig \<Rightarrow> StatusContractInput \<Rightarrow> bool" where
  "level2_geometry c i \<longleftrightarrow>
     scc_level1_distance_m c < sci_nearest_obstacle_distance_m i \<and>
     sci_nearest_obstacle_distance_m i \<le> scc_level2_distance_m c \<and>
     sci_conservative_vertical_clearance_m i < scc_minimum_vertical_clearance_m c"

definition safe_geometry :: "StatusContractConfig \<Rightarrow> StatusContractInput \<Rightarrow> bool" where
  "safe_geometry c i \<longleftrightarrow>
     scc_minimum_vertical_clearance_m c \<le> sci_conservative_vertical_clearance_m i \<or>
     scc_level2_distance_m c < sci_nearest_obstacle_distance_m i"

definition validate_clear_status :: "StatusContractConfig \<Rightarrow> StatusContractInput \<Rightarrow> StatusContractResult" where
  "validate_clear_status c i =
     (if contract_safe_empty i then contract_result 14 True True ''clear_status''
      else if \<not> valid_loaded i then contract_error ''clear_contract_mismatch''
      else if sci_obstacle_count i = 0 then contract_result 14 True True ''clear_status''
      else if \<not> cluster_geometry_valid i then contract_error ''clear_contract_mismatch''
      else if \<not> safe_geometry c i then contract_error ''clear_geometry_mismatch''
      else contract_result 14 True False ''clear_status'')"

definition validate_review_status :: "StatusContractInput \<Rightarrow> StatusContractResult" where
  "validate_review_status i =
     (if (\<not> valid_loaded i \<and> \<not> provisional_positive_loaded i) \<or> \<not> cluster_geometry_valid i
      then contract_error ''review_geometry_mismatch''
      else contract_result 29 True False ''anomaly_review_status'')"

definition validate_hazard_status :: "StatusContractConfig \<Rightarrow> StatusContractInput \<Rightarrow> StatusContractResult" where
  "validate_hazard_status c i =
     (if (\<not> valid_loaded i \<and> \<not> provisional_positive_loaded i) \<or>
         (provisional_positive_loaded i \<and> \<not> provisional_track_contract i) \<or>
         \<not> cluster_geometry_valid i \<or>
         (sci_warning_code i = 17 \<and> \<not> level1_geometry c i) \<or>
         (sci_warning_code i = 18 \<and> \<not> level2_geometry c i)
      then contract_error ''warning_geometry_mismatch''
      else contract_result (sci_warning_code i) True False ''hazard_status'')"

definition validateStatusContract :: "StatusContractConfig \<Rightarrow> StatusContractInput \<Rightarrow> StatusContractResult" where
  "validateStatusContract c i =
     (if \<not> isValidStatusContractConfig c then contract_error ''status_contract_config_invalid''
      else if \<not> sci_schema_valid i then contract_error ''schema_mismatch''
      else if \<not> (sci_hook_signal_role i = 0 \<or> sci_hook_signal_role i = 1 \<or> sci_hook_signal_role i = 2)
      then contract_error ''hook_role_invalid''
      else if \<not> (sci_warning_code i = 0 \<or> sci_warning_code i = 14 \<or> sci_warning_code i = 17 \<or>
                 sci_warning_code i = 18 \<or> sci_warning_code i = 29) \<or>
              \<not> (sci_fault_code i = 0 \<or> (30 \<le> sci_fault_code i \<and> sci_fault_code i \<le> 35)) \<or>
              \<not> isAllowedCode (sci_requested_code i)
      then contract_error ''unknown_status_code''
      else if sci_fault_code i \<noteq> 0 then validate_fault_status i
      else if sci_fault_mask i \<noteq> 0 \<or> \<not> sci_warning_valid i \<or> \<not> sci_valid i \<or>
              sci_requested_code i \<noteq> sci_warning_code i \<or> sci_warning_code i = 0
      then contract_error ''warning_contract_mismatch''
      else if sci_warning_code i = 14 then validate_clear_status c i
      else if sci_warning_code i = 29 then validate_review_status i
      else validate_hazard_status c i)"

section \<open>Alarm state machine\<close>

record AlarmStateMachine =
  am_stale_timeout_sec :: dbl
  am_current_code :: int
  am_has_status :: bool
  am_has_wall_observation :: bool
  am_has_source_stamp :: bool
  am_last_receipt_wall_sec :: dbl
  am_last_observed_wall_sec :: dbl
  am_last_source_stamp_sec :: dbl
  am_last_source_progress_wall_sec :: dbl

record AlarmResult =
  ar_code :: int
  ar_changed :: bool
  ar_reason :: string

definition kTimeEpsilonSec :: dbl where
  "kTimeEpsilonSec = Fin 0.000001"

definition sanitizePositive :: "dbl \<Rightarrow> dbl \<Rightarrow> dbl" where
  "sanitizePositive v fallback = (if isfinite v \<and> Fin 0 < v then v else fallback)"

definition alarm_init :: "dbl \<Rightarrow> AlarmStateMachine" where
  "alarm_init timeout =
     \<lparr>am_stale_timeout_sec = sanitizePositive timeout (Fin 0.8), am_current_code = 30,
      am_has_status = False, am_has_wall_observation = False, am_has_source_stamp = False,
      am_last_receipt_wall_sec = Fin 0, am_last_observed_wall_sec = Fin 0,
      am_last_source_stamp_sec = Fin 0, am_last_source_progress_wall_sec = Fin 0\<rparr>"

definition observeWallClock :: "AlarmStateMachine \<Rightarrow> dbl \<Rightarrow> AlarmStateMachine \<times> bool" where
  "observeWallClock s wall =
     (if \<not> isfinite wall \<or> wall < Fin 0 then (s, False)
      else if am_has_wall_observation s \<and> wall + kTimeEpsilonSec < am_last_observed_wall_sec s
      then (s\<lparr>am_last_observed_wall_sec := wall\<rparr>, False)
      else (s\<lparr>am_has_wall_observation := True, am_last_observed_wall_sec := wall\<rparr>, True))"

definition forceCode :: "AlarmStateMachine \<Rightarrow> int \<Rightarrow> string \<Rightarrow> AlarmStateMachine \<times> AlarmResult" where
  "forceCode s code reason =
     (s\<lparr>am_current_code := code\<rparr>,
      \<lparr>ar_code = code, ar_changed = (am_current_code s \<noteq> code), ar_reason = reason\<rparr>)"

definition alarm_ingest :: "AlarmStateMachine \<Rightarrow> int \<Rightarrow> dbl \<Rightarrow> dbl \<Rightarrow> AlarmStateMachine \<times> AlarmResult" where
  "alarm_ingest s requested_code wall source_stamp =
     (let (s0, ok) = observeWallClock s wall
      in if \<not> ok then forceCode s0 30 ''wall_time_rollback''
         else
           let s1 = s0\<lparr>am_has_status := True, am_last_receipt_wall_sec := wall\<rparr>
           in if \<not> isfinite source_stamp \<or> source_stamp \<le> Fin 0
              then forceCode s1 35 ''invalid_source_stamp''
              else if am_has_source_stamp s1 \<and> source_stamp + kTimeEpsilonSec < am_last_source_stamp_sec s1
              then forceCode (s1\<lparr>am_last_source_stamp_sec := source_stamp,
                                 am_last_source_progress_wall_sec := wall,
                                 am_has_source_stamp := True\<rparr>) 30 ''source_time_rollback''
              else
                let advanced = (\<not> am_has_source_stamp s1 \<or>
                                am_last_source_stamp_sec s1 + kTimeEpsilonSec < source_stamp);
                    s2 = (if advanced
                          then s1\<lparr>am_last_source_stamp_sec := source_stamp,
                                  am_last_source_progress_wall_sec := wall\<rparr> else s1);
                    s3 = s2\<lparr>am_has_source_stamp := True\<rparr>
                in if am_stale_timeout_sec s3 \<le> wall - am_last_source_progress_wall_sec s3 + kTimeEpsilonSec
                   then forceCode s3 30 ''source_stamp_stale''
                   else if \<not> isAllowedCode requested_code
                   then forceCode s3 35 ''unknown_status_code''
                   else if \<not> advanced
                   then (s3, \<lparr>ar_code = am_current_code s3, ar_changed = False,
                              ar_reason = ''duplicate_source_stamp''\<rparr>)
                   else forceCode s3 requested_code ''fresh_status'')"

definition alarm_tick :: "AlarmStateMachine \<Rightarrow> dbl \<Rightarrow> AlarmStateMachine \<times> AlarmResult" where
  "alarm_tick s wall =
     (let (s0, ok) = observeWallClock s wall
      in if \<not> ok then forceCode s0 30 ''wall_time_rollback''
         else if \<not> am_has_status s0 then forceCode s0 30 ''no_status''
         else if am_stale_timeout_sec s0 \<le> wall - am_last_receipt_wall_sec s0 + kTimeEpsilonSec
         then forceCode s0 30 ''status_stale''
         else if am_stale_timeout_sec s0 \<le> wall - am_last_source_progress_wall_sec s0 + kTimeEpsilonSec
         then forceCode s0 30 ''source_stamp_stale''
         else (s0, \<lparr>ar_code = am_current_code s0, ar_changed = False, ar_reason = ''heartbeat''\<rparr>))"

text \<open>The node calls \<^verbatim>\<open>ingest\<close> for each message and \<^verbatim>\<open>tick\<close> for each heartbeat, in any order.\<close>

datatype AlarmEvent = Ingest (requested: int) (wall: dbl) (source: dbl) | Heartbeat (wall: dbl)

fun alarm_step :: "AlarmStateMachine \<Rightarrow> AlarmEvent \<Rightarrow> AlarmStateMachine \<times> AlarmResult" where
  "alarm_step s (Ingest code w src) = alarm_ingest s code w src"
| "alarm_step s (Heartbeat w) = alarm_tick s w"

section \<open>Lemmas\<close>

lemma observe_simps [simp]:
  "am_current_code (fst (observeWallClock s w)) = am_current_code s"
  "am_has_status (fst (observeWallClock s w)) = am_has_status s"
  "am_has_source_stamp (fst (observeWallClock s w)) = am_has_source_stamp s"
  "am_last_receipt_wall_sec (fst (observeWallClock s w)) = am_last_receipt_wall_sec s"
  "am_last_source_stamp_sec (fst (observeWallClock s w)) = am_last_source_stamp_sec s"
  "am_last_source_progress_wall_sec (fst (observeWallClock s w)) = am_last_source_progress_wall_sec s"
  "am_stale_timeout_sec (fst (observeWallClock s w)) = am_stale_timeout_sec s"
  by (simp_all add: observeWallClock_def)

lemma observe_finite: "snd (observeWallClock s w) \<Longrightarrow> isfinite w"
  by (simp add: observeWallClock_def split: if_split_asm)

text \<open>What one step guarantees: the reported code is the stored one, and a code other than the fallbacks 30
  and 35 is either newly requested or stored since an unchanged source progress that is not stale.\<close>

definition alarm_step_ok :: "AlarmStateMachine \<Rightarrow> AlarmEvent \<Rightarrow> AlarmStateMachine \<times> AlarmResult \<Rightarrow> bool" where
  "alarm_step_ok s e r \<longleftrightarrow>
     ar_code (snd r) = am_current_code (fst r) \<and>
     am_stale_timeout_sec (fst r) = am_stale_timeout_sec s \<and>
     (am_last_source_progress_wall_sec (fst r) = am_last_source_progress_wall_sec s \<or>
      am_last_source_progress_wall_sec (fst r) = wall e \<and> isfinite (wall e)) \<and>
     (am_current_code (fst r) \<notin> {30, 35} \<longrightarrow>
        isfinite (wall e) \<and>
        \<not> am_stale_timeout_sec s \<le> wall e - am_last_source_progress_wall_sec (fst r) + kTimeEpsilonSec \<and>
        (am_current_code (fst r) = am_current_code s \<and>
         am_last_source_progress_wall_sec (fst r) = am_last_source_progress_wall_sec s \<or>
         isAllowedCode (am_current_code (fst r)) \<and>
         (\<exists>src. e = Ingest (am_current_code (fst r)) (am_last_source_progress_wall_sec (fst r)) src)))"

lemma tick_ok: "alarm_step_ok s (Heartbeat w) (alarm_tick s w)"
  using observe_finite [of s w]
  by (simp add: alarm_tick_def alarm_step_ok_def forceCode_def Let_def split_beta)

lemma ingest_ok: "alarm_step_ok s (Ingest code w src) (alarm_ingest s code w src)"
proof -
  let ?s0 = "fst (observeWallClock s w)"
  show ?thesis
  proof (cases "snd (observeWallClock s w)")
    case False
    then show ?thesis by (simp add: alarm_ingest_def alarm_step_ok_def forceCode_def Let_def split_beta)
  next
    case True
    then have "isfinite w" by (rule observe_finite)
    with True show ?thesis
      by (cases "am_has_source_stamp s"; cases "am_last_source_stamp_sec s + kTimeEpsilonSec < src")
        (simp_all add: alarm_ingest_def alarm_step_ok_def forceCode_def Let_def split_beta)
  qed
qed

lemma alarm_step_satisfies: "alarm_step_ok s e (alarm_step s e)"
  by (cases e) (simp_all add: tick_ok ingest_ok)

definition alarm_inv :: "AlarmStateMachine \<Rightarrow> bool" where
  "alarm_inv s \<longleftrightarrow> isAllowedCode (am_current_code s) \<and> isfinite (am_last_source_progress_wall_sec s) \<and>
     isfinite (am_stale_timeout_sec s)"

lemma alarm_step_inv: "alarm_inv s \<Longrightarrow> alarm_inv (fst (alarm_step s e))"
  using alarm_step_satisfies [of s e] by (auto simp: alarm_inv_def alarm_step_ok_def isAllowedCode_def)

interpretation alarm: contract_machine alarm_step alarm_inv "\<lambda>r. isAllowedCode (ar_code r)"
proof
  fix s e assume "alarm_inv s"
  then show "alarm_inv (fst (alarm_step s e))" by (rule alarm_step_inv)
  then show "isAllowedCode (ar_code (snd (alarm_step s e)))"
    using alarm_step_satisfies [of s e] by (simp add: alarm_inv_def alarm_step_ok_def)
qed

lemma alarm_init_inv [simp]: "alarm_inv (alarm_init t)"
  by (simp add: alarm_inv_def alarm_init_def isAllowedCode_def sanitizePositive_def)

text \<open>The run invariant: the stored code, unless a fallback, was requested by a processed message whose
  receipt is the last source progress.\<close>

definition code_backed :: "AlarmStateMachine \<Rightarrow> AlarmEvent list \<Rightarrow> bool" where
  "code_backed s es \<longleftrightarrow> (am_current_code s \<notin> {30, 35} \<longrightarrow>
     (\<exists>src. Ingest (am_current_code s) (am_last_source_progress_wall_sec s) src \<in> set es))"

lemma code_backed_step:
  assumes "code_backed s es"
  shows "code_backed (fst (alarm_step s e)) (es @ [e])"
  unfolding code_backed_def
proof
  let ?t = "fst (alarm_step s e)"
  assume nf: "am_current_code ?t \<notin> {30, 35}"
  then have "am_current_code ?t = am_current_code s \<and>
         am_last_source_progress_wall_sec ?t = am_last_source_progress_wall_sec s \<or>
         (\<exists>src. e = Ingest (am_current_code ?t) (am_last_source_progress_wall_sec ?t) src)"
    using alarm_step_satisfies [of s e] unfolding alarm_step_ok_def by blast
  then show "\<exists>src. Ingest (am_current_code ?t) (am_last_source_progress_wall_sec ?t) src \<in> set (es @ [e])"
  proof
    assume "am_current_code ?t = am_current_code s \<and>
         am_last_source_progress_wall_sec ?t = am_last_source_progress_wall_sec s"
    then show ?thesis using assms nf by (simp add: code_backed_def) blast
  next
    assume "\<exists>src. e = Ingest (am_current_code ?t) (am_last_source_progress_wall_sec ?t) src"
    then obtain src where "e = Ingest (am_current_code ?t) (am_last_source_progress_wall_sec ?t) src" by blast
    then have "Ingest (am_current_code ?t) (am_last_source_progress_wall_sec ?t) src \<in> set (es @ [e])"
      by (metis in_set_conv_decomp)
    then show ?thesis by blast
  qed
qed

lemma run_code_backed: "code_backed (run_state alarm_step (alarm_init t) es) es"
proof (induction es rule: rev_induct)
  case Nil
  then show ?case by (simp add: code_backed_def alarm_init_def)
next
  case (snoc e es)
  then show ?case using code_backed_step by (simp add: run_state_append)
qed

lemma run_timeout: "am_stale_timeout_sec (run_state alarm_step s es) = am_stale_timeout_sec s"
proof (induction es arbitrary: s)
  case (Cons e es)
  then show ?case using alarm_step_satisfies [of s e] by (simp add: alarm_step_ok_def)
qed simp

text \<open>The contract an accepted status satisfies, branch by branch.\<close>

definition accepted_ok :: "StatusContractConfig \<Rightarrow> StatusContractInput \<Rightarrow> StatusContractResult \<Rightarrow> bool" where
  "accepted_ok c i r \<longleftrightarrow>
     (if scr_valid r
      then scr_code r = sci_requested_code i \<and>
        (scr_code r = 14 \<longrightarrow> sci_localization_valid i \<and>
           (contract_safe_empty i \<or> valid_loaded i \<and> (sci_obstacle_count i = 0 \<or> safe_geometry c i))) \<and>
        (scr_code r = 17 \<longrightarrow> level1_geometry c i) \<and> (scr_code r = 18 \<longrightarrow> level2_geometry c i) \<and>
        (scr_code r \<in> {17, 18} \<longrightarrow>
           valid_loaded i \<or> provisional_positive_loaded i \<and> provisional_track_contract i)
      else scr_code r = 35)"

lemma error_ok [simp]: "accepted_ok c i (contract_error m)" "\<not> scr_valid (contract_error m)"
  "scr_code (contract_error m) = 35"
  by (simp_all add: accepted_ok_def contract_error_def contract_result_def)

lemma result_simps [simp]: "scr_valid (contract_result k v e m) = v" "scr_code (contract_result k v e m) = k"
  by (simp_all add: contract_result_def)

lemma fault_status_ok:
  "30 \<le> sci_fault_code i \<Longrightarrow> accepted_ok c i (validate_fault_status i)"
  by (auto simp: validate_fault_status_def accepted_ok_def Let_def)

lemma clear_status_ok:
  "sci_requested_code i = 14 \<Longrightarrow> accepted_ok c i (validate_clear_status c i)"
  by (simp add: validate_clear_status_def accepted_ok_def contract_safe_empty_def valid_loaded_def)

lemma review_status_ok:
  "sci_requested_code i = 29 \<Longrightarrow> accepted_ok c i (validate_review_status i)"
  by (simp add: validate_review_status_def accepted_ok_def)

lemma hazard_status_ok:
  "sci_warning_code i \<in> {17, 18} \<Longrightarrow> sci_requested_code i = sci_warning_code i \<Longrightarrow>
   accepted_ok c i (validate_hazard_status c i)"
  by (auto simp: validate_hazard_status_def accepted_ok_def)

lemma validate_ok: "accepted_ok c i (validateStatusContract c i)"
proof -
  have "sci_fault_code i \<noteq> 0 \<Longrightarrow> (sci_fault_code i = 0 \<or> (30 \<le> sci_fault_code i \<and> sci_fault_code i \<le> 35)) \<Longrightarrow>
      accepted_ok c i (validate_fault_status i)"
    using fault_status_ok by simp
  moreover have "sci_requested_code i = sci_warning_code i \<Longrightarrow> sci_warning_code i = 14 \<Longrightarrow>
      accepted_ok c i (validate_clear_status c i)"
    using clear_status_ok by simp
  moreover have "sci_requested_code i = sci_warning_code i \<Longrightarrow> sci_warning_code i = 29 \<Longrightarrow>
      accepted_ok c i (validate_review_status i)"
    using review_status_ok by simp
  moreover have "sci_requested_code i = sci_warning_code i \<Longrightarrow> sci_warning_code i = 17 \<or> sci_warning_code i = 18 \<Longrightarrow>
      accepted_ok c i (validate_hazard_status c i)"
    using hazard_status_ok by blast
  ultimately show ?thesis
    by (auto simp: validateStatusContract_def)
qed

lemma validate_guards:
  "scr_valid (validateStatusContract c i) \<Longrightarrow>
   sci_schema_valid i \<and> isValidStatusContractConfig c \<and> (sci_fault_code i = 0 \<longrightarrow> sci_fault_mask i = 0) \<and>
   (sci_fault_code i \<noteq> 0 \<longrightarrow> sci_requested_code i = sci_fault_code i \<and> 30 \<le> sci_fault_code i)"
  by (auto simp: validateStatusContract_def validate_fault_status_def Let_def split: if_split_asm)

section \<open>Properties\<close>

text \<open>C12. No alarm code outlives its message: in every interleaving of messages and heartbeats, a reported code
  other than the fallbacks 30 and 35 was requested by a message processed before or at that event,
  and less than the stale timeout has passed between the receipt of that message and the
  event.\<close>

theorem heartbeat_backed:
  assumes "k < length es" and "code = ar_code (run_outputs alarm_step (alarm_init t) es ! k)"
    and "code \<notin> {30, 35}"
  shows "\<exists>w src. Ingest code w src \<in> set (take (Suc k) es) \<and>
    wall (es ! k) - w + kTimeEpsilonSec < am_stale_timeout_sec (alarm_init t)"
proof -
  let ?s = "run_state alarm_step (alarm_init t) (take k es)"
  let ?r = "alarm_step ?s (es ! k)"
  have ok: "alarm_step_ok ?s (es ! k) ?r" by (rule alarm_step_satisfies)
  have code: "code = am_current_code (fst ?r)"
    using assms(1,2) ok by (simp add: run_outputs_nth alarm_step_ok_def)
  have prefix: "take (Suc k) es = take k es @ [es ! k]" using assms(1) by (rule take_Suc_conv_app_nth)
  have backed: "code_backed (fst ?r) (take (Suc k) es)"
    unfolding prefix using run_code_backed by (rule code_backed_step)
  have inv: "alarm_inv (fst ?r)" by (intro alarm_step_inv alarm.run_inv alarm_init_inv)
  have fresh: "isfinite (wall (es ! k))" "\<not> am_stale_timeout_sec (alarm_init t) \<le>
      wall (es ! k) - am_last_source_progress_wall_sec (fst ?r) + kTimeEpsilonSec"
    using ok code assms(3) by (auto simp: alarm_step_ok_def run_timeout)
  have "isfinite (am_stale_timeout_sec (alarm_init t))" using alarm_init_inv by (simp add: alarm_inv_def)
  then have "wall (es ! k) - am_last_source_progress_wall_sec (fst ?r) + kTimeEpsilonSec
      < am_stale_timeout_sec (alarm_init t)"
    using fresh inv by (auto simp: alarm_inv_def isfinite_iff kTimeEpsilonSec_def)
  then show ?thesis using backed code assms(3) by (auto simp: code_backed_def)
qed

lemmas alarm_eval = alarm_ingest_def alarm_tick_def observeWallClock_def forceCode_def alarm_init_def sanitizePositive_def
  kTimeEpsilonSec_def isAllowedCode_def Let_def

theorem heartbeat_backed_witness:
  "17 = ar_code (run_outputs alarm_step (alarm_init (Fin 0.8)) [Ingest 17 (Fin 10) (Fin 9), Heartbeat (Fin 10.5)] ! 1) \<and>
   (\<exists>w src. Ingest 17 w src \<in> set [Ingest 17 (Fin 10) (Fin 9), Heartbeat (Fin 10.5)] \<and>
      wall (Heartbeat (Fin 10.5)) - w + kTimeEpsilonSec < am_stale_timeout_sec (alarm_init (Fin 0.8)))"
proof -
  have c: "17 = ar_code (run_outputs alarm_step (alarm_init (Fin 0.8)) [Ingest 17 (Fin 10) (Fin 9), Heartbeat (Fin 10.5)] ! 1)"
    by (simp add: alarm_eval)
  from heartbeat_backed [OF _ c] c show ?thesis by simp
qed

text \<open>Only protocol codes reach the crane, whatever is requested and whatever the clocks do.\<close>

lemma heartbeat_codes_allowed:
  assumes "r \<in> set (run_outputs alarm_step (alarm_init t) es)"
  shows "isAllowedCode (ar_code r)"
  using alarm.run_contract [OF alarm_init_inv assms] .

text \<open>An accepted status means what it says: the result is valid exactly with the requested code, any
  contradiction yields 35; an accepted clear has valid localisation and no fault and either a confirmed
  empty hook or a loaded cargo with no obstacle or safe obstacle geometry; an accepted 17 or 18 has
  the distance and clearance of its level and a loaded or track-backed provisional cargo.\<close>

theorem status_contract_sound:
  "let r = validateStatusContract c i
   in (\<not> scr_valid r \<longrightarrow> scr_code r = 35) \<and>
      (scr_valid r \<longrightarrow> scr_code r = sci_requested_code i \<and> sci_schema_valid i \<and>
        (scr_code r = 14 \<longrightarrow> sci_localization_valid i \<and> sci_fault_mask i = 0 \<and>
           (contract_safe_empty i \<or> valid_loaded i \<and> (sci_obstacle_count i = 0 \<or> safe_geometry c i))) \<and>
        (scr_code r = 17 \<longrightarrow> level1_geometry c i) \<and> (scr_code r = 18 \<longrightarrow> level2_geometry c i) \<and>
        (scr_code r \<in> {17, 18} \<longrightarrow>
           valid_loaded i \<or> provisional_positive_loaded i \<and> provisional_track_contract i))"
  using validate_ok [of c i] validate_guards [of c i]
  by (cases "scr_valid (validateStatusContract c i)") (auto simp: accepted_ok_def Let_def)

definition demo_status :: StatusContractInput where
  "demo_status =
     \<lparr>sci_schema_valid = True, sci_valid = True, sci_warning_valid = True, sci_requested_code = 17,
      sci_warning_code = 17, sci_fault_code = 0, sci_fault_mask = 0, sci_localization_valid = True,
      sci_hook_signal_role = 1, sci_hook_signal_valid = True, sci_hook_signal_conflict = False,
      sci_hook_load_state = 3, sci_no_cargo_confirmed = False, sci_cargo_valid = True,
      sci_cargo_track_id = 1, sci_evidence_state = 2, sci_obstacle_valid = True, sci_obstacle_track_id = 1,
      sci_obstacle_validated_streak = 3, sci_obstacle_large_geometry_valid = True,
      sci_obstacle_provenance_valid = True, sci_confidence = Fin 1, sci_obstacle_count = 1,
      sci_nearest_obstacle_distance_m = Fin 2, sci_obstacle_top_z_map = Fin 1,
      sci_obstacle_uncertainty_m = Fin 0.05, sci_conservative_vertical_clearance_m = Fin 0.1\<rparr>"

theorem status_contract_sound_witness:
  "scr_code (validateStatusContract default_StatusContractConfig demo_status) = 17 \<and>
   level1_geometry default_StatusContractConfig demo_status"
proof -
  have "scr_valid (validateStatusContract default_StatusContractConfig demo_status)"
    by (simp add: validateStatusContract_def isValidStatusContractConfig_def default_StatusContractConfig_def
        demo_status_def isAllowedCode_def validate_hazard_status_def valid_loaded_def hook_supports_def
        provisional_positive_loaded_def cluster_geometry_valid_def level1_geometry_def)
  then show ?thesis
    using status_contract_sound [of default_StatusContractConfig demo_status]
    by (simp add: Let_def) (simp add: demo_status_def)
qed

end
