(* ===== verification/Cpp_Text.thy ===== *)
theory Cpp_Text
  imports Ndt_Machines "HOL-Library.Char_ord"
begin

unbundle bit_operations_syntax

text \<open>
  Text and hashing as the sources use them: decimal output of integers (\<^verbatim>\<open>stream << n\<close>), the
  parsers \<^verbatim>\<open>std::stoul\<close>, \<^verbatim>\<open>std::stoull\<close> and \<^verbatim>\<open>std::stoll\<close>, fixed-width hexadecimal output, comma-separated lines
  (\<^verbatim>\<open>std::getline\<close> with a delimiter) and the byte step of the FNV-1a hash that several components
  write out. The output of floating-point numbers depends on their binary format, which \<open>dbl\<close> does not
  have; it is an argument of the definitions that print one.
\<close>

section \<open>Decimal integers\<close>

definition digit_char :: "nat \<Rightarrow> char" where
  "digit_char d = char_of (48 + d)"

definition is_digit :: "char \<Rightarrow> bool" where
  "is_digit c \<longleftrightarrow> (of_char c :: nat) \<in> {48..57}"

definition digit_val :: "char \<Rightarrow> nat" where
  "digit_val c = of_char c - 48"

fun print_nat :: "nat \<Rightarrow> string" where
  "print_nat n = (if n < 10 then [digit_char n] else print_nat (n div 10) @ [digit_char (n mod 10)])"

declare print_nat.simps [simp del]

definition print_int :: "int \<Rightarrow> string" where
  "print_int i = (if i < 0 then CHR ''-'' # print_nat (nat (- i)) else print_nat (nat i))"

definition digits_value :: "string \<Rightarrow> nat" where
  "digits_value s = foldl (\<lambda>a c. 10 * a + digit_val c) 0 s"

text \<open>The characters \<^verbatim>\<open>isspace\<close> accepts in the C locale.\<close>

definition is_space :: "char \<Rightarrow> bool" where
  "is_space c \<longleftrightarrow> (of_char c :: nat) \<in> {9..13} \<or> c = CHR '' ''"

text \<open>The common part of the integer parsers: leading white space, an optional sign and the longest
  run of digits; what follows is ignored. \<open>None\<close> is \<^verbatim>\<open>std::invalid_argument\<close>.\<close>

definition parse_digits :: "string \<Rightarrow> nat option" where
  "parse_digits s = (let ds = takeWhile is_digit s in if ds = [] then None else Some (digits_value ds))"

definition parse_signed :: "string \<Rightarrow> (bool \<times> nat) option" where
  "parse_signed s =
     (case dropWhile is_space s of
        c # cs \<Rightarrow> if c = CHR ''-'' then map_option (Pair True) (parse_digits cs)
                  else if c = CHR ''+'' then map_option (Pair False) (parse_digits cs)
                  else map_option (Pair False) (parse_digits (c # cs))
      | [] \<Rightarrow> None)"

text \<open>\<^verbatim>\<open>std::stoul\<close> and \<^verbatim>\<open>std::stoull\<close> (both 64 bits wide on the target): a value out of range throws, a
  negated one wraps around.\<close>

definition stoull :: "string \<Rightarrow> u64 option" where
  "stoull s =
     (case parse_signed s of
        Some (neg, n) \<Rightarrow> if 2 ^ 64 \<le> n then None else Some (if neg then - of_nat n else of_nat n)
      | None \<Rightarrow> None)"

definition stoll :: "string \<Rightarrow> int option" where
  "stoll s =
     (case parse_signed s of
        Some (neg, n) \<Rightarrow> (let i = (if neg then - int n else int n)
                           in if i < - (2 ^ 63) \<or> 2 ^ 63 \<le> i then None else Some i)
      | None \<Rightarrow> None)"

section \<open>Hexadecimal output\<close>

definition hex_char :: "nat \<Rightarrow> char" where
  "hex_char d = char_of (if d < 10 then 48 + d else 87 + d)"

text \<open>\<^verbatim>\<open>std::hex << std::setfill('0') << std::setw(n)\<close> for a value of at most \<open>n\<close> hexadecimal digits.\<close>

definition print_hex :: "nat \<Rightarrow> 'a::len word \<Rightarrow> string" where
  "print_hex n w = map (\<lambda>i. hex_char (unat (drop_bit (4 * i) w AND 15))) (rev [0..<n])"

section \<open>Separated text\<close>

text \<open>\<^verbatim>\<open>while (std::getline(stream, field, d)) fields.push_back(field)\<close>: a trailing empty field is not
  produced.\<close>

fun getline_all :: "char \<Rightarrow> string \<Rightarrow> string list" where
  "getline_all d [] = []"
| "getline_all d (c # cs) =
     (if c = d then [] # getline_all d cs
      else case getline_all d cs of
             [] \<Rightarrow> [[c]]
           | f # fs \<Rightarrow> (c # f) # fs)"

fun join_with :: "char \<Rightarrow> string list \<Rightarrow> string" where
  "join_with d [] = []"
| "join_with d [f] = f"
| "join_with d (f # fs) = f @ d # join_with d fs"

section \<open>FNV-1a\<close>

definition fnv_offset :: u64 where
  "fnv_offset = 1469598103934665603"

definition fnv_prime :: u64 where
  "fnv_prime = 1099511628211"

definition fnv_byte :: "u64 \<Rightarrow> u64 \<Rightarrow> u64" where
  "fnv_byte h b = (h XOR b) * fnv_prime"

text \<open>The eight bytes of a value, least significant first.\<close>

definition fnv_mix :: "u64 \<Rightarrow> u64 \<Rightarrow> u64" where
  "fnv_mix h v = foldl (\<lambda>h i. fnv_byte h (drop_bit (8 * i) v AND 0xFF)) h [0..<8]"

section \<open>Lemmas\<close>

lemma digit_char_simps [simp]:
  "d < 10 \<Longrightarrow> is_digit (digit_char d)"
  "d < 10 \<Longrightarrow> digit_val (digit_char d) = d"
  by (simp_all add: is_digit_def digit_char_def digit_val_def)

lemma print_nat_digits: "c \<in> set (print_nat n) \<Longrightarrow> is_digit c"
proof (induction n rule: print_nat.induct)
  case (1 n)
  show ?case
  proof (cases "n < 10")
    case True
    then show ?thesis using "1.prems" by (simp add: print_nat.simps [of n])
  next
    case False
    then show ?thesis using 1 by (auto simp: print_nat.simps [of n])
  qed
qed

lemma print_nat_nonempty [simp]: "print_nat n \<noteq> []"
  by (simp add: print_nat.simps [of n])

lemma digits_value_snoc: "digits_value (s @ [c]) = 10 * digits_value s + digit_val c"
  by (simp add: digits_value_def)

lemma digits_value_print_nat [simp]: "digits_value (print_nat n) = n"
proof (induction n rule: print_nat.induct)
  case (1 n)
  show ?case
  proof (cases "n < 10")
    case True
    then show ?thesis by (simp add: print_nat.simps [of n] digits_value_def)
  next
    case False
    then show ?thesis using "1.IH" by (simp add: print_nat.simps [of n] digits_value_snoc)
  qed
qed

lemma not_digit_special:
  "is_digit c \<Longrightarrow> c \<noteq> CHR ''-''" "is_digit c \<Longrightarrow> c \<noteq> CHR ''+''" "is_digit c \<Longrightarrow> c \<noteq> CHR '',''"
  "is_digit c \<Longrightarrow> c \<noteq> CHR 0x0A" "is_digit c \<Longrightarrow> \<not> is_space c"
  by (auto simp: is_digit_def is_space_def)

lemma parse_digits_print_nat: "parse_digits (print_nat n) = Some n"
proof -
  have "takeWhile is_digit (print_nat n) = print_nat n"
    by (auto intro: print_nat_digits)
  then show ?thesis
    unfolding parse_digits_def Let_def by (simp only: print_nat_nonempty if_False digits_value_print_nat)
qed

lemma dropWhile_space_print_nat: "dropWhile is_space (print_nat n) = print_nat n"
proof -
  have "\<not> is_space (hd (print_nat n))"
    using print_nat_digits [of "hd (print_nat n)" n] not_digit_special by simp
  then show ?thesis by (cases "print_nat n") auto
qed

lemma parse_signed_print_nat: "parse_signed (print_nat n) = Some (False, n)"
proof -
  obtain c cs where p: "print_nat n = c # cs" by (cases "print_nat n") auto
  have "is_digit c" using print_nat_digits [of c n] p by simp
  then have "c \<noteq> CHR ''-''" "c \<noteq> CHR ''+''" by (auto simp: not_digit_special)
  then show ?thesis
    using parse_digits_print_nat [of n] dropWhile_space_print_nat [of n]
    by (simp add: parse_signed_def p)
qed

lemma parse_signed_print_int: "parse_signed (print_int i) = Some (i < 0, nat \<bar>i\<bar>)"
proof (cases "i < 0")
  case True
  then have "dropWhile is_space (print_int i) = print_int i"
    by (simp add: print_int_def is_space_def)
  then show ?thesis
    using True by (simp add: parse_signed_def print_int_def parse_digits_print_nat)
next
  case False
  then show ?thesis by (simp add: print_int_def parse_signed_print_nat)
qed

lemma stoull_print_nat: "stoull (print_nat (unat w)) = Some (w :: u64)"
proof -
  have "unat w < 2 ^ LENGTH(64)" by (rule unsigned_less)
  then show ?thesis by (simp add: stoull_def parse_signed_print_nat)
qed

lemma stoll_print_int: "- (2 ^ 63) \<le> i \<Longrightarrow> i < 2 ^ 63 \<Longrightarrow> stoll (print_int i) = Some i"
  by (simp add: stoll_def parse_signed_print_int)

lemma print_nat_plain: "CHR '','' \<notin> set (print_nat n)" "CHR 0x0A \<notin> set (print_nat n)"
  using print_nat_digits not_digit_special by blast+

lemma print_int_plain: "CHR '','' \<notin> set (print_int i)" "CHR 0x0A \<notin> set (print_int i)" "print_int i \<noteq> []"
  by (simp_all add: print_int_def print_nat_plain)

lemma getline_all_field:
  "d \<notin> set f \<Longrightarrow> getline_all d (f @ d # rest) = f # getline_all d rest"
  by (induction f) auto

lemma getline_all_last: "d \<notin> set f \<Longrightarrow> f \<noteq> [] \<Longrightarrow> getline_all d f = [f]"
proof (induction f)
  case (Cons c f)
  then show ?case by (cases "f = []") auto
qed simp

text \<open>Splitting a joined line gives back its fields.\<close>

lemma getline_all_join:
  assumes "fs \<noteq> []" and "\<And>f. f \<in> set fs \<Longrightarrow> d \<notin> set f" and "last fs \<noteq> []"
  shows "getline_all d (join_with d fs) = fs"
  using assms
proof (induction d fs rule: join_with.induct)
  case (3 d f g fs)
  then show ?case by (simp add: getline_all_field)
qed (simp_all add: getline_all_last)

lemma length_print_hex [simp]: "length (print_hex n w) = n"
  by (simp add: print_hex_def)

end
