(* ===== verification/Rail_Authority.thy ===== *)
theory Rail_Authority
  imports Cpp_Text Domain_Contracts
begin

text \<open>
  The pose authority of the rail-mounted crane (\<^verbatim>\<open>rail_localization_authority.cpp\<close>) and the authority
  context of a frame (\<^verbatim>\<open>frame_authority_context.hpp\<close>). The yaw of the crane is fixed by a verified reference; scan matching
  may propose a yaw, but only an explicit transition changes the authority.

  \<^verbatim>\<open>normalizeAngle\<close> is a pair of loops that never end on an infinite argument, so its model returns an
  option. The 17-digit output of the yaw in the canonical text of a reference is the argument \<open>fmt\<close>;
  no property depends on how it prints.
\<close>

section \<open>Angles\<close>

partial_function (option) normalize_down :: "dbl \<Rightarrow> dbl option" where
  "normalize_down a = (if Fin pi < a then normalize_down (a - Fin (2 * pi)) else Some a)"

partial_function (option) normalize_up :: "dbl \<Rightarrow> dbl option" where
  "normalize_up a = (if a \<le> Fin (- pi) then normalize_up (a + Fin (2 * pi)) else Some a)"

definition normalizeAngle :: "dbl \<Rightarrow> dbl option" where
  "normalizeAngle a = Option.bind (normalize_down a) normalize_up"

section \<open>Modes, sources and their names\<close>

datatype YawAuthorityMode = LEGACY | SHADOW | RAIL_AUTHORITY

datatype YawReferenceSource = NEW_MAP_BOOTSTRAP_REFERENCE | CONFIG_SITE_REFERENCE | VERIFIED_MAP_SESSION

datatype YawAuthorityTransitionReason =
  INITIALIZE_FRESH_MAP | LOAD_VERIFIED_SESSION | EXPLICIT_MAP_FRAME_MIGRATION | RESET

datatype LocalizationFailureClass =
  NONE | RECOVERABLE_TRACKING_DEGRADATION | TEMPORARY_OBSERVABILITY_LOSS | TARGET_DATA_UNAVAILABLE |
  NONRECOVERABLE_REFERENCE_CONFIG | NONRECOVERABLE_MAP_IDENTITY | INTERNAL_CONTRACT_ERROR

datatype RegistrationTargetSource =
  UNKNOWN | GLOBAL_MAP | CROPPED_ACTIVE_MAP | LOCALIZATION_MAP | PERSISTENT_MAP

fun yawAuthorityModeName :: "YawAuthorityMode \<Rightarrow> string" where
  "yawAuthorityModeName YawAuthorityMode.LEGACY = ''LEGACY''"
| "yawAuthorityModeName YawAuthorityMode.SHADOW = ''SHADOW''"
| "yawAuthorityModeName YawAuthorityMode.RAIL_AUTHORITY = ''RAIL_AUTHORITY''"

fun yawReferenceSourceName :: "YawReferenceSource \<Rightarrow> string" where
  "yawReferenceSourceName NEW_MAP_BOOTSTRAP_REFERENCE = ''NEW_MAP_BOOTSTRAP_REFERENCE''"
| "yawReferenceSourceName CONFIG_SITE_REFERENCE = ''CONFIG_SITE_REFERENCE''"
| "yawReferenceSourceName VERIFIED_MAP_SESSION = ''VERIFIED_MAP_SESSION''"

definition yawReferenceSourceFromName :: "string \<Rightarrow> YawReferenceSource option" where
  "yawReferenceSourceFromName name =
     (if name = ''NEW_MAP_BOOTSTRAP_REFERENCE'' then Some NEW_MAP_BOOTSTRAP_REFERENCE
      else if name = ''CONFIG_SITE_REFERENCE'' then Some CONFIG_SITE_REFERENCE
      else if name = ''VERIFIED_MAP_SESSION'' then Some VERIFIED_MAP_SESSION
      else None)"

fun yawAuthorityTransitionReasonName :: "YawAuthorityTransitionReason \<Rightarrow> string" where
  "yawAuthorityTransitionReasonName INITIALIZE_FRESH_MAP = ''INITIALIZE_FRESH_MAP''"
| "yawAuthorityTransitionReasonName LOAD_VERIFIED_SESSION = ''LOAD_VERIFIED_SESSION''"
| "yawAuthorityTransitionReasonName EXPLICIT_MAP_FRAME_MIGRATION = ''EXPLICIT_MAP_FRAME_MIGRATION''"
| "yawAuthorityTransitionReasonName RESET = ''RESET''"

fun localizationFailureClassName :: "LocalizationFailureClass \<Rightarrow> string" where
  "localizationFailureClassName LocalizationFailureClass.NONE = ''NONE''"
| "localizationFailureClassName RECOVERABLE_TRACKING_DEGRADATION = ''RECOVERABLE_TRACKING_DEGRADATION''"
| "localizationFailureClassName TEMPORARY_OBSERVABILITY_LOSS = ''TEMPORARY_OBSERVABILITY_LOSS''"
| "localizationFailureClassName TARGET_DATA_UNAVAILABLE = ''TARGET_DATA_UNAVAILABLE''"
| "localizationFailureClassName NONRECOVERABLE_REFERENCE_CONFIG = ''NONRECOVERABLE_REFERENCE_CONFIG''"
| "localizationFailureClassName NONRECOVERABLE_MAP_IDENTITY = ''NONRECOVERABLE_MAP_IDENTITY''"
| "localizationFailureClassName LocalizationFailureClass.INTERNAL_CONTRACT_ERROR = ''INTERNAL_CONTRACT_ERROR''"

fun registrationTargetSourceName :: "RegistrationTargetSource \<Rightarrow> string" where
  "registrationTargetSourceName RegistrationTargetSource.UNKNOWN = ''UNKNOWN''"
| "registrationTargetSourceName GLOBAL_MAP = ''GLOBAL_MAP''"
| "registrationTargetSourceName CROPPED_ACTIVE_MAP = ''CROPPED_ACTIVE_MAP''"
| "registrationTargetSourceName LOCALIZATION_MAP = ''LOCALIZATION_MAP''"
| "registrationTargetSourceName PERSISTENT_MAP = ''PERSISTENT_MAP''"

section \<open>Yaw references\<close>

record RailYawReference =
  yr_schema_version :: u32
  yr_verified :: bool
  yr_rail_yaw_in_map_rad :: dbl
  yr_source :: YawReferenceSource
  yr_map_frame_uuid :: string
  yr_map_frame_id :: string
  yr_base_frame_id :: string
  yr_map_frame_convention_id :: string
  yr_sensor_rig_calibration_id :: string
  yr_reference_uuid :: string
  yr_reference_hash :: string

definition default_RailYawReference :: RailYawReference where
  "default_RailYawReference =
     \<lparr>yr_schema_version = 1, yr_verified = False, yr_rail_yaw_in_map_rad = Fin 0,
      yr_source = NEW_MAP_BOOTSTRAP_REFERENCE, yr_map_frame_uuid = [], yr_map_frame_id = ''map'',
      yr_base_frame_id = ''base_link'', yr_map_frame_convention_id = [],
      yr_sensor_rig_calibration_id = [], yr_reference_uuid = [], yr_reference_hash = []\<rparr>"

definition fnv1a64 :: "string \<Rightarrow> u64" where
  "fnv1a64 text = foldl (\<lambda>h c. fnv_byte h (of_nat (of_char c))) fnv_offset text"

definition canonicalReference :: "(dbl \<Rightarrow> string) \<Rightarrow> RailYawReference \<Rightarrow> string option" where
  "canonicalReference fmt r =
     map_option (\<lambda>yaw.
       ''schema='' @ print_nat (unat (yr_schema_version r)) @
       '';verified='' @ (if yr_verified r then ''1'' else ''0'') @
       '';yaw='' @ fmt yaw @
       '';source='' @ yawReferenceSourceName (yr_source r) @
       '';map_frame_uuid='' @ yr_map_frame_uuid r @
       '';map_frame_id='' @ yr_map_frame_id r @
       '';base_frame_id='' @ yr_base_frame_id r @
       '';convention='' @ yr_map_frame_convention_id r @
       '';sensor_rig='' @ yr_sensor_rig_calibration_id r @
       '';reference_uuid='' @ yr_reference_uuid r)
     (normalizeAngle (yr_rail_yaw_in_map_rad r))"

definition hex64 :: "u64 \<Rightarrow> string" where
  "hex64 v = print_hex 16 v"

definition semanticYawReferenceHash :: "(dbl \<Rightarrow> string) \<Rightarrow> RailYawReference \<Rightarrow> string option" where
  "semanticYawReferenceHash fmt r = map_option (\<lambda>t. hex64 (fnv1a64 t)) (canonicalReference fmt r)"

text \<open>The result and the text written to the optional reason argument.\<close>

definition validateRailYawReference :: "(dbl \<Rightarrow> string) \<Rightarrow> RailYawReference \<Rightarrow> bool \<times> string" where
  "validateRailYawReference fmt r =
     (if yr_schema_version r \<noteq> 1 then (False, ''unsupported_yaw_reference_schema'')
      else if \<not> yr_verified r then (False, ''yaw_reference_not_verified'')
      else if \<not> isfinite (yr_rail_yaw_in_map_rad r) then (False, ''yaw_reference_nonfinite'')
      else if yr_map_frame_uuid r = [] \<or> yr_reference_uuid r = [] then (False, ''yaw_reference_identity_missing'')
      else if Some (yr_reference_hash r) \<noteq> semanticYawReferenceHash fmt r
      then (False, ''yaw_reference_hash_mismatch'')
      else (True, ''ok''))"

section \<open>The yaw authority\<close>

record RailYawAuthority =
  ra_valid :: bool
  ra_reference :: RailYawReference
  ra_generation :: u64
  ra_last_proposal_yaw_rad :: dbl
  ra_last_proposal_stamp_sec :: dbl
  ra_last_transition_reason :: YawAuthorityTransitionReason

definition rail_init :: RailYawAuthority where
  "rail_init =
     \<lparr>ra_valid = False, ra_reference = default_RailYawReference, ra_generation = 0,
      ra_last_proposal_yaw_rad = Fin 0, ra_last_proposal_stamp_sec = Fin 0,
      ra_last_transition_reason = RESET\<rparr>"

definition next_generation :: "u64 \<Rightarrow> u64" where
  "next_generation g = (if g + 1 = 0 then g + 1 + 1 else g + 1)"

text \<open>The normalisation runs on a yaw the validation found finite, so it returns (\<open>normalizeAngle_finite\<close>)
  and the branch for a loop that does not end is never taken.\<close>

definition assignReference ::
  "(dbl \<Rightarrow> string) \<Rightarrow> RailYawReference \<Rightarrow> YawAuthorityTransitionReason \<Rightarrow> RailYawAuthority \<Rightarrow>
   RailYawAuthority \<times> bool" where
  "assignReference fmt r reason s =
     (if \<not> fst (validateRailYawReference fmt r) then (s, False)
      else case normalizeAngle (yr_rail_yaw_in_map_rad r) of
             None \<Rightarrow> (s, False)
           | Some yaw \<Rightarrow>
               (s\<lparr>ra_reference := r\<lparr>yr_rail_yaw_in_map_rad := yaw\<rparr>, ra_valid := True,
                  ra_generation := next_generation (ra_generation s),
                  ra_last_transition_reason := reason\<rparr>, True))"

definition initialize ::
  "(dbl \<Rightarrow> string) \<Rightarrow> RailYawReference \<Rightarrow> YawAuthorityTransitionReason \<Rightarrow> RailYawAuthority \<Rightarrow>
   RailYawAuthority \<times> bool" where
  "initialize fmt r reason s =
     (if ra_valid s then (s, False)
      else if reason \<noteq> INITIALIZE_FRESH_MAP \<and> reason \<noteq> LOAD_VERIFIED_SESSION then (s, False)
      else assignReference fmt r reason s)"

definition explicitMapFrameMigration ::
  "(dbl \<Rightarrow> string) \<Rightarrow> RailYawReference \<Rightarrow> RailYawAuthority \<Rightarrow> RailYawAuthority \<times> bool" where
  "explicitMapFrameMigration fmt r s =
     (if \<not> ra_valid s then (s, False) else assignReference fmt r EXPLICIT_MAP_FRAME_MIGRATION s)"

definition resetForFrameSession :: "RailYawAuthority \<Rightarrow> RailYawAuthority" where
  "resetForFrameSession s =
     s\<lparr>ra_valid := False, ra_reference := default_RailYawReference,
       ra_generation := next_generation (ra_generation s),
       ra_last_proposal_stamp_sec := Fin 0, ra_last_transition_reason := RESET\<rparr>"

definition observeProposalYaw :: "dbl \<Rightarrow> dbl \<Rightarrow> RailYawAuthority \<Rightarrow> RailYawAuthority" where
  "observeProposalYaw yaw stamp s =
     (let s1 = (if isfinite yaw
                then (case normalizeAngle yaw of
                        Some y \<Rightarrow> s\<lparr>ra_last_proposal_yaw_rad := y\<rparr> | None \<Rightarrow> s)
                else s)
      in if isfinite stamp \<and> ra_last_proposal_stamp_sec s1 < stamp
         then s1\<lparr>ra_last_proposal_stamp_sec := stamp\<rparr> else s1)"

definition observeRelocalizationProposalYaw :: "dbl \<Rightarrow> dbl \<Rightarrow> RailYawAuthority \<Rightarrow> RailYawAuthority" where
  "observeRelocalizationProposalYaw yaw stamp s = observeProposalYaw yaw stamp s"

definition handleTimestampRollback :: "dbl \<Rightarrow> RailYawAuthority \<Rightarrow> RailYawAuthority" where
  "handleTimestampRollback stamp s =
     s\<lparr>ra_last_proposal_stamp_sec := (if isfinite stamp then stamp else Fin 0)\<rparr>"

text \<open>The calls the node makes, in the order in which they arrive, with the success flag of the
  transitions.\<close>

datatype rail_event =
  Initialize RailYawReference YawAuthorityTransitionReason
| Migrate RailYawReference
| ResetSession
| Propose dbl dbl
| ProposeRelocalization dbl dbl
| Rollback dbl

fun rail_step :: "(dbl \<Rightarrow> string) \<Rightarrow> (RailYawAuthority, rail_event, bool) machine" where
  "rail_step fmt s (Initialize r reason) = initialize fmt r reason s"
| "rail_step fmt s (Migrate r) = explicitMapFrameMigration fmt r s"
| "rail_step fmt s ResetSession = (resetForFrameSession s, True)"
| "rail_step fmt s (Propose yaw stamp) = (observeProposalYaw yaw stamp s, True)"
| "rail_step fmt s (ProposeRelocalization yaw stamp) = (observeRelocalizationProposalYaw yaw stamp s, True)"
| "rail_step fmt s (Rollback stamp) = (handleTimestampRollback stamp s, True)"

section \<open>Mode latch and target identity\<close>

record YawAuthorityModeLatch =
  yl_initialized :: bool
  yl_mode :: YawAuthorityMode
  yl_frame_session_id :: u64

definition latch_init :: YawAuthorityModeLatch where
  "latch_init = \<lparr>yl_initialized = False, yl_mode = YawAuthorityMode.LEGACY, yl_frame_session_id = 0\<rparr>"

definition latch_initialize ::
  "YawAuthorityModeLatch \<Rightarrow> YawAuthorityMode \<times> u64 \<Rightarrow> YawAuthorityModeLatch \<times> bool" where
  "latch_initialize s a =
     (let (mode, session) = a; s1 = \<lparr>yl_initialized = True, yl_mode = mode, yl_frame_session_id = session\<rparr>
      in if session = 0 then (s, False)
         else if \<not> yl_initialized s then (s1, True)
         else if session = yl_frame_session_id s then (s, mode = yl_mode s)
         else (s\<lparr>yl_mode := mode, yl_frame_session_id := session\<rparr>, True))"

record RegistrationTargetIdentityInput =
  rt_source :: RegistrationTargetSource
  rt_content_version :: u64
  rt_map_rebuild_generation :: u64
  rt_map_frame_uuid :: string
  rt_crop_identity :: string

definition makeRegistrationTargetSnapshotId :: "RegistrationTargetIdentityInput \<Rightarrow> u64" where
  "makeRegistrationTargetSnapshotId i =
     (let id = fnv1a64 (registrationTargetSourceName (rt_source i) @ '';'' @
            print_nat (unat (rt_content_version i)) @ '';'' @
            print_nat (unat (rt_map_rebuild_generation i)) @ '';'' @
            rt_map_frame_uuid i @ '';'' @ rt_crop_identity i)
      in if id = 0 then 1 else id)"

section \<open>Localisation health\<close>

record RailLocalizationHealthInput =
  rh_mode :: YawAuthorityMode
  rh_raw_ndt_proposal_healthy :: bool
  rh_yaw_reference_valid :: bool
  rh_target_identity_valid :: bool
  rh_fixed_xy_valid :: bool
  rh_ekf_measurement_accepted :: bool
  rh_rail_fitness_allow_measurement :: bool
  rh_rail_fitness_baseline_ready :: bool
  rh_reference_failure_nonrecoverable :: bool
  rh_map_identity_failure_nonrecoverable :: bool
  rh_internal_contract_error :: bool
  rh_prediction_continuity_valid :: bool

record LocalizationAuthorityHealth =
  lh_authoritative_frame_healthy :: bool
  lh_odom_continuity_valid :: bool
  lh_safety_localization_authorized :: bool
  lh_map_mutation_authorized :: bool
  lh_increment_relocalization_bad_frames :: bool
  lh_request_relocalization :: bool
  lh_watchdog_restart_authorized :: bool
  lh_failure_class :: LocalizationFailureClass
  lh_reason :: string

definition default_LocalizationAuthorityHealth :: LocalizationAuthorityHealth where
  "default_LocalizationAuthorityHealth =
     \<lparr>lh_authoritative_frame_healthy = False, lh_odom_continuity_valid = False,
      lh_safety_localization_authorized = False, lh_map_mutation_authorized = False,
      lh_increment_relocalization_bad_frames = False, lh_request_relocalization = False,
      lh_watchdog_restart_authorized = False, lh_failure_class = LocalizationFailureClass.NONE,
      lh_reason = ''not_evaluated''\<rparr>"

definition legacy_health :: "RailLocalizationHealthInput \<Rightarrow> LocalizationAuthorityHealth" where
  "legacy_health i =
     (let ok = rh_raw_ndt_proposal_healthy i in
      \<lparr>lh_authoritative_frame_healthy = ok,
       lh_odom_continuity_valid = (ok \<or> rh_prediction_continuity_valid i),
       lh_safety_localization_authorized = ok, lh_map_mutation_authorized = ok,
       lh_increment_relocalization_bad_frames = (\<not> ok), lh_request_relocalization = (\<not> ok),
       lh_watchdog_restart_authorized = (\<not> ok),
       lh_failure_class = (if ok then LocalizationFailureClass.NONE else RECOVERABLE_TRACKING_DEGRADATION),
       lh_reason = (if ok then ''legacy_registration_healthy'' else ''legacy_registration_degraded'')\<rparr>)"

definition evaluateRailLocalizationHealth :: "RailLocalizationHealthInput \<Rightarrow> LocalizationAuthorityHealth" where
  "evaluateRailLocalizationHealth i =
     (let d = default_LocalizationAuthorityHealth in
      if rh_mode i \<noteq> YawAuthorityMode.RAIL_AUTHORITY then legacy_health i
      else if rh_internal_contract_error i
      then d\<lparr>lh_failure_class := LocalizationFailureClass.INTERNAL_CONTRACT_ERROR,
             lh_reason := ''rail_internal_contract_error''\<rparr>
      else if rh_reference_failure_nonrecoverable i \<or> \<not> rh_yaw_reference_valid i
      then d\<lparr>lh_failure_class := NONRECOVERABLE_REFERENCE_CONFIG, lh_reason := ''rail_yaw_reference_invalid''\<rparr>
      else if rh_map_identity_failure_nonrecoverable i
      then d\<lparr>lh_failure_class := NONRECOVERABLE_MAP_IDENTITY, lh_reason := ''rail_map_identity_invalid''\<rparr>
      else if \<not> rh_target_identity_valid i
      then d\<lparr>lh_odom_continuity_valid := rh_prediction_continuity_valid i,
             lh_failure_class := TARGET_DATA_UNAVAILABLE, lh_reason := ''rail_target_unavailable''\<rparr>
      else if \<not> rh_fixed_xy_valid i \<or> \<not> rh_rail_fitness_allow_measurement i
      then d\<lparr>lh_odom_continuity_valid := rh_prediction_continuity_valid i,
             lh_increment_relocalization_bad_frames := True, lh_request_relocalization := True,
             lh_watchdog_restart_authorized := True,
             lh_failure_class := RECOVERABLE_TRACKING_DEGRADATION, lh_reason := ''rail_tracking_degraded''\<rparr>
      else let d1 = d\<lparr>lh_odom_continuity_valid := True\<rparr> in
        if \<not> rh_ekf_measurement_accepted i \<or> \<not> rh_rail_fitness_baseline_ready i
        then d1\<lparr>lh_failure_class := TEMPORARY_OBSERVABILITY_LOSS,
                lh_reason := (if \<not> rh_rail_fitness_baseline_ready i then ''rail_fitness_baseline_warming''
                              else ''rail_ekf_measurement_temporarily_rejected'')\<rparr>
        else d1\<lparr>lh_authoritative_frame_healthy := True, lh_safety_localization_authorized := True,
                lh_map_mutation_authorized := True, lh_failure_class := LocalizationFailureClass.NONE,
                lh_reason := ''rail_localization_authority_healthy''\<rparr>)"

section \<open>The authority context of a frame\<close>

text \<open>The runtime pose of the frame takes no part in the tests and is left out.\<close>

record FrameAuthorityContext =
  fa_pose_identity :: PoseAuthorityIdentity
  fa_localization_health :: LocalizationAuthorityHealth
  fa_failure_class :: LocalizationFailureClass
  fa_source_stamp_sec :: dbl
  fa_rail_authority_mode :: bool
  fa_observability_map_mutation_authorized :: bool

definition safetyAuthorized :: "FrameAuthorityContext \<Rightarrow> bool" where
  "safetyAuthorized f \<longleftrightarrow>
     lh_safety_localization_authorized (fa_localization_health f) \<and>
     (\<not> fa_rail_authority_mode f \<or> validForRail (fa_pose_identity f))"

definition mapMutationAuthorized :: "FrameAuthorityContext \<Rightarrow> bool" where
  "mapMutationAuthorized f \<longleftrightarrow>
     lh_map_mutation_authorized (fa_localization_health f) \<and>
     fa_observability_map_mutation_authorized f \<and>
     (\<not> fa_rail_authority_mode f \<or> validForRail (fa_pose_identity f))"

definition safetyFrameAuthorityMatches ::
  "FrameAuthorityContext \<Rightarrow> TemporalEvidenceAuthority \<Rightarrow> TemporalEvidenceAuthority \<Rightarrow> bool" where
  "safetyFrameAuthorityMatches f cargo obstacle \<longleftrightarrow>
     safetyAuthorized f \<and> te_valid cargo \<and> te_valid obstacle \<and>
     samePoseAuthorityIdentity (fa_pose_identity f) (te_pose_identity cargo) \<and>
     samePoseAuthorityIdentity (fa_pose_identity f) (te_pose_identity obstacle)"

section \<open>Lemmas\<close>

lemma normalize_down_stop: "a \<le> pi \<Longrightarrow> normalize_down (Fin a) = Some (Fin a)"
  by (simp add: normalize_down.simps)

lemma normalize_up_stop: "- pi < a \<Longrightarrow> normalize_up (Fin a) = Some (Fin a)"
  by (simp add: normalize_up.simps)

lemma normalize_down_finite:
  "\<exists>y k. normalize_down (Fin a) = Some (Fin y) \<and> y \<le> pi \<and> y = a - 2 * pi * of_int k"
proof (induction "nat \<lceil>a - pi\<rceil>" arbitrary: a rule: less_induct)
  case less
  show ?case
  proof (cases "a \<le> pi")
    case True
    then show ?thesis by (intro exI [of _ a] exI [of _ 0]) (simp add: normalize_down_stop)
  next
    case False
    have "nat \<lceil>(a - 2 * pi) - pi\<rceil> < nat \<lceil>a - pi\<rceil>"
      using False pi_ge_two by linarith
    from less [OF this] obtain y and k :: int where y: "normalize_down (Fin (a - 2 * pi)) = Some (Fin y)" "y \<le> pi"
      "y = a - 2 * pi - 2 * pi * of_int k" by blast
    show ?thesis
      using False y by (intro exI [of _ y] exI [of _ "k + 1"]) (simp add: normalize_down.simps [of "Fin a"] algebra_simps)
  qed
qed

lemma normalize_up_finite:
  "a \<le> pi \<Longrightarrow>
   \<exists>y k. normalize_up (Fin a) = Some (Fin y) \<and> - pi < y \<and> y \<le> pi \<and> y = a - 2 * pi * of_int k"
proof (induction "nat \<lceil>- a\<rceil>" arbitrary: a rule: less_induct)
  case less
  show ?case
  proof (cases "- pi < a")
    case True
    then show ?thesis using less.prems
      by (intro exI [of _ a] exI [of _ 0]) (simp add: normalize_up_stop)
  next
    case False
    have "nat \<lceil>- (a + 2 * pi)\<rceil> < nat \<lceil>- a\<rceil>" "a + 2 * pi \<le> pi"
      using False pi_ge_two by linarith+
    from less.hyps [OF this] obtain y and k :: int where
      y: "normalize_up (Fin (a + 2 * pi)) = Some (Fin y)" "- pi < y" "y \<le> pi"
      "y = a + 2 * pi - 2 * pi * of_int k" by blast
    show ?thesis
      using False y by (intro exI [of _ y] exI [of _ "k - 1"]) (simp add: normalize_up.simps [of "Fin a"] algebra_simps)
  qed
qed

lemma normalizeAngle_finite:
  "\<exists>y k. normalizeAngle (Fin a) = Some (Fin y) \<and> - pi < y \<and> y \<le> pi \<and> y = a - 2 * pi * of_int k"
proof -
  obtain y and k :: int where y: "normalize_down (Fin a) = Some (Fin y)" "y \<le> pi" "y = a - 2 * pi * of_int k"
    using normalize_down_finite by blast
  obtain z and l :: int where z: "normalize_up (Fin y) = Some (Fin z)" "- pi < z" "z \<le> pi" "z = y - 2 * pi * of_int l"
    using normalize_up_finite [OF y(2)] by blast
  have "normalizeAngle (Fin a) = Some (Fin z)" using y(1) z(1) by (simp add: normalizeAngle_def)
  moreover have "z = a - 2 * pi * of_int (k + l)" using y(3) z(4) by (simp add: algebra_simps)
  ultimately show ?thesis using z by blast
qed

lemma normalizeAngle_id: "- pi < y \<Longrightarrow> y \<le> pi \<Longrightarrow> normalizeAngle (Fin y) = Some (Fin y)"
  by (simp add: normalizeAngle_def normalize_down_stop normalize_up_stop)

lemma normalizeAngle_isfinite:
  "isfinite a \<Longrightarrow> \<exists>y. normalizeAngle a = Some (Fin y) \<and> - pi < y \<and> y \<le> pi"
  using normalizeAngle_finite by (auto simp: isfinite_iff)

lemma normalize_down_not_PInf: "normalize_down a = Some y \<Longrightarrow> a \<noteq> PInf"
proof (rule normalize_down.raw_induct [where P = "\<lambda>a y. a \<noteq> PInf"])
  fix f :: "dbl \<Rightarrow> dbl option" and a y
  assume IH: "\<And>a y. f a = Some y \<Longrightarrow> a \<noteq> PInf"
    and r: "(if Fin pi < a then f (a - Fin (2 * pi)) else Some a) = Some y"
  show "a \<noteq> PInf"
  proof
    assume "a = PInf"
    then have "f PInf = Some y" using r by simp
    then show False using IH by blast
  qed
qed

lemma normalize_up_not_NInf: "normalize_up a = Some y \<Longrightarrow> a \<noteq> NInf"
proof (rule normalize_up.raw_induct [where P = "\<lambda>a y. a \<noteq> NInf"])
  fix f :: "dbl \<Rightarrow> dbl option" and a y
  assume IH: "\<And>a y. f a = Some y \<Longrightarrow> a \<noteq> NInf"
    and r: "(if a \<le> Fin (- pi) then f (a + Fin (2 * pi)) else Some a) = Some y"
  show "a \<noteq> NInf"
  proof
    assume "a = NInf"
    then have "f NInf = Some y" using r by simp
    then show False using IH by blast
  qed
qed

lemma normalizeAngle_infinite: "normalizeAngle PInf = None" "normalizeAngle NInf = None"
proof -
  have "normalize_down PInf = None" using normalize_down_not_PInf by (cases "normalize_down PInf") auto
  then show "normalizeAngle PInf = None" by (simp add: normalizeAngle_def)
  have "normalize_up NInf = None" using normalize_up_not_NInf by (cases "normalize_up NInf") auto
  then show "normalizeAngle NInf = None" by (simp add: normalizeAngle_def normalize_down.simps)
qed

lemma next_generation_simps [simp]: "next_generation g \<noteq> g" "next_generation g \<noteq> 0"
proof -
  show "next_generation g \<noteq> g"
  proof (cases "g + 1 = 0")
    case True
    then have "g = - 1" by (simp add: eq_neg_iff_add_eq_0)
    then show ?thesis by (simp add: next_generation_def)
  qed (simp add: next_generation_def)
  show "next_generation g \<noteq> 0" by (simp add: next_generation_def)
qed

text \<open>What consumers of the authority read.\<close>

definition authority_view ::
  "RailYawAuthority \<Rightarrow> bool \<times> RailYawReference \<times> u64 \<times> YawAuthorityTransitionReason" where
  "authority_view s = (ra_valid s, ra_reference s, ra_generation s, ra_last_transition_reason s)"

fun is_transition :: "rail_event \<Rightarrow> bool" where
  "is_transition (Propose _ _) = False"
| "is_transition (ProposeRelocalization _ _) = False"
| "is_transition (Rollback _) = False"
| "is_transition _ = True"

lemma observe_view [simp]: "authority_view (observeProposalYaw yaw stamp s) = authority_view s"
  by (simp add: observeProposalYaw_def authority_view_def Let_def split: option.split)

lemma rollback_view [simp]: "authority_view (handleTimestampRollback stamp s) = authority_view s"
  by (simp add: handleTimestampRollback_def authority_view_def)

lemma quiet_step: "\<not> is_transition e \<Longrightarrow> authority_view (fst (rail_step fmt s e)) = authority_view s"
  by (cases e) (simp_all add: observeRelocalizationProposalYaw_def)

lemma transition_view:
  "authority_view s = authority_view t \<Longrightarrow> is_transition e \<Longrightarrow>
   authority_view (fst (rail_step fmt s e)) = authority_view (fst (rail_step fmt t e))"
  by (cases e) (simp_all add: authority_view_def initialize_def explicitMapFrameMigration_def assignReference_def
      resetForFrameSession_def split: option.split)

lemma assign_cases:
  "assignReference fmt r reason s = (s, False) \<or>
   (\<exists>y. fst (validateRailYawReference fmt r) \<and> normalizeAngle (yr_rail_yaw_in_map_rad r) = Some (Fin y) \<and>
      - pi < y \<and> y \<le> pi \<and>
      assignReference fmt r reason s =
        (s\<lparr>ra_reference := r\<lparr>yr_rail_yaw_in_map_rad := Fin y\<rparr>, ra_valid := True,
           ra_generation := next_generation (ra_generation s), ra_last_transition_reason := reason\<rparr>, True))"
proof (cases "fst (validateRailYawReference fmt r)")
  case True
  then have "isfinite (yr_rail_yaw_in_map_rad r)" by (simp add: validateRailYawReference_def split: if_split_asm)
  then show ?thesis using True normalizeAngle_isfinite by (force simp: assignReference_def)
next
  case False
  then show ?thesis by (simp add: assignReference_def)
qed

text \<open>A reference stays verified when its yaw is normalised, because the hash is taken over the
  normalised yaw.\<close>

lemma validate_normalized:
  assumes "fst (validateRailYawReference fmt r)" and "normalizeAngle (yr_rail_yaw_in_map_rad r) = Some (Fin y)"
    and "- pi < y" and "y \<le> pi"
  shows "fst (validateRailYawReference fmt (r\<lparr>yr_rail_yaw_in_map_rad := Fin y\<rparr>))"
proof -
  have "semanticYawReferenceHash fmt (r\<lparr>yr_rail_yaw_in_map_rad := Fin y\<rparr>) = semanticYawReferenceHash fmt r"
    using assms(2) normalizeAngle_id [OF assms(3,4)] by (simp add: semanticYawReferenceHash_def canonicalReference_def)
  then show ?thesis using assms(1) by (simp add: validateRailYawReference_def split: if_split_asm)
qed

definition rail_inv :: "(dbl \<Rightarrow> string) \<Rightarrow> RailYawAuthority \<Rightarrow> bool" where
  "rail_inv fmt s \<longleftrightarrow>
     (ra_valid s \<longrightarrow> fst (validateRailYawReference fmt (ra_reference s)) \<and> ra_generation s \<noteq> 0 \<and>
        (\<exists>y. yr_rail_yaw_in_map_rad (ra_reference s) = Fin y \<and> - pi < y \<and> y \<le> pi))"

lemma rail_inv_init [simp]: "rail_inv fmt rail_init"
  by (simp add: rail_inv_def rail_init_def)

lemma rail_inv_view: "authority_view s = authority_view t \<Longrightarrow> rail_inv fmt s = rail_inv fmt t"
  by (simp add: rail_inv_def authority_view_def)

lemma rail_inv_assign: "rail_inv fmt s \<Longrightarrow> rail_inv fmt (fst (assignReference fmt r reason s))"
  using assign_cases [of fmt r reason s] validate_normalized by (auto simp: rail_inv_def)

interpretation rail: invariant_machine "rail_step fmt" "rail_inv fmt" for fmt
proof
  fix s e assume inv: "rail_inv fmt s"
  show "rail_inv fmt (fst (rail_step fmt s e))"
  proof (cases "is_transition e")
    case True
    then show ?thesis using inv rail_inv_assign
      by (cases e) (auto simp: initialize_def explicitMapFrameMigration_def resetForFrameSession_def rail_inv_def)
  next
    case False
    then show ?thesis using inv rail_inv_view [OF quiet_step] by blast
  qed
qed

lemma assign_generation:
  "ra_generation (fst (assignReference fmt r reason s)) = ra_generation s \<Longrightarrow> fst (assignReference fmt r reason s) = s"
  using assign_cases [of fmt r reason s] by auto

lemma rail_step_generation:
  assumes "ra_generation (fst (rail_step fmt s e)) = ra_generation s"
  shows "authority_view (fst (rail_step fmt s e)) = authority_view s"
proof (cases "is_transition e")
  case True
  then show ?thesis using assms
    by (cases e) (auto simp: initialize_def explicitMapFrameMigration_def resetForFrameSession_def assign_generation)
qed (rule quiet_step)

section \<open>Properties\<close>


text \<open>Scan matching cannot move the yaw authority: in every sequence of calls, dropping every proposal,
  relocalisation proposal and time rollback changes neither the validity nor the reference, the
  generation or the transition reason at the end.\<close>

theorem rail_proposals_powerless:
  "authority_view (run_state (rail_step fmt) s es) =
   authority_view (run_state (rail_step fmt) s (filter is_transition es))"
proof -
  have "authority_view s = authority_view t \<Longrightarrow>
    authority_view (run_state (rail_step fmt) s es) =
    authority_view (run_state (rail_step fmt) t (filter is_transition es))" for s t
  proof (induction es arbitrary: s t)
    case (Cons e es)
    show ?case
    proof (cases "is_transition e")
      case True
      then show ?thesis using Cons.IH [OF transition_view [OF Cons.prems True]] by simp
    next
      case False
      then show ?thesis using Cons.IH [of "fst (rail_step fmt s e)" t] Cons.prems by (simp add: quiet_step)
    qed
  qed simp
  then show ?thesis by simp
qed

text \<open>The authority is always backed and its generation identifies it: in every reachable state, a valid
  authority holds a reference that still passes its own validation (its hash is over the
  normalised yaw) with a yaw in the principal range, and a call that leaves the generation
  as it is leaves validity and reference as they are, also when the 64-bit generation wraps around.\<close>

theorem rail_authority_backed:
  "let s = run_state (rail_step fmt) rail_init es; s' = fst (rail_step fmt s e)
   in (ra_valid s \<longrightarrow> fst (validateRailYawReference fmt (ra_reference s)) \<and> ra_generation s \<noteq> 0 \<and>
        (\<exists>y. yr_rail_yaw_in_map_rad (ra_reference s) = Fin y \<and> - pi < y \<and> y \<le> pi)) \<and>
      (ra_generation s' = ra_generation s \<longrightarrow> ra_valid s' = ra_valid s \<and> ra_reference s' = ra_reference s)"
  using rail.run_inv [OF rail_inv_init, of fmt es]
    rail_step_generation [of fmt "run_state (rail_step fmt) rail_init es" e]
  by (simp add: Let_def rail_inv_def authority_view_def)

definition demo_reference :: RailYawReference where
  "demo_reference =
     (let r = default_RailYawReference\<lparr>yr_verified := True, yr_map_frame_uuid := ''m'', yr_reference_uuid := ''r''\<rparr>
      in r\<lparr>yr_reference_hash := the (semanticYawReferenceHash (\<lambda>_. ''0'') r)\<rparr>)"

lemma demo_reference_valid: "fst (validateRailYawReference (\<lambda>_. ''0'') demo_reference)"
  by (simp add: demo_reference_def default_RailYawReference_def validateRailYawReference_def Let_def
      semanticYawReferenceHash_def canonicalReference_def normalizeAngle_id)

theorem rail_authority_backed_witness:
  "let s = run_state (rail_step (\<lambda>_. ''0'')) rail_init [Initialize demo_reference INITIALIZE_FRESH_MAP]
   in ra_valid s \<and> fst (validateRailYawReference (\<lambda>_. ''0'') (ra_reference s)) \<and> ra_generation s \<noteq> 0"
proof -
  let ?s = "run_state (rail_step (\<lambda>_. ''0'')) rail_init [Initialize demo_reference INITIALIZE_FRESH_MAP]"
  have "normalizeAngle (yr_rail_yaw_in_map_rad demo_reference) = Some (Fin 0)"
    by (simp add: demo_reference_def default_RailYawReference_def Let_def normalizeAngle_id)
  then have "ra_valid ?s"
    using demo_reference_valid by (simp add: initialize_def assignReference_def rail_init_def)
  then show ?thesis
    using rail_authority_backed [of "\<lambda>_. ''0''" "[Initialize demo_reference INITIALIZE_FRESH_MAP]"]
    by (simp only: Let_def simp_thms)
qed

text \<open>What a frame may do follows from the health evaluation in every mode: the frame is authoritative exactly
  when it may be used for safety and for the map; relocalisation bad frames, relocalisation requests
  and watchdog restarts are granted together, only for a recoverable degradation and never to an authoritative frame; and
  under rail authority the frame is authoritative exactly when no contract, reference or map identity error is
  present and target identity, fixed position, fitness, its baseline and the filter update are all good.\<close>

theorem rail_health_table:
  "let d = evaluateRailLocalizationHealth i
   in lh_safety_localization_authorized d = lh_authoritative_frame_healthy d \<and>
      lh_map_mutation_authorized d = lh_authoritative_frame_healthy d \<and>
      lh_authoritative_frame_healthy d = (lh_failure_class d = LocalizationFailureClass.NONE) \<and>
      lh_request_relocalization d = (lh_failure_class d = RECOVERABLE_TRACKING_DEGRADATION) \<and>
      lh_increment_relocalization_bad_frames d = lh_request_relocalization d \<and>
      lh_watchdog_restart_authorized d = lh_request_relocalization d \<and>
      (rh_mode i = YawAuthorityMode.RAIL_AUTHORITY \<longrightarrow>
        lh_authoritative_frame_healthy d =
          (\<not> rh_internal_contract_error i \<and> \<not> rh_reference_failure_nonrecoverable i \<and> rh_yaw_reference_valid i \<and>
           \<not> rh_map_identity_failure_nonrecoverable i \<and> rh_target_identity_valid i \<and> rh_fixed_xy_valid i \<and>
           rh_rail_fitness_allow_measurement i \<and> rh_ekf_measurement_accepted i \<and>
           rh_rail_fitness_baseline_ready i))"
  by (simp add: evaluateRailLocalizationHealth_def legacy_health_def default_LocalizationAuthorityHealth_def Let_def)
    blast

definition demo_health :: RailLocalizationHealthInput where
  "demo_health =
     \<lparr>rh_mode = YawAuthorityMode.RAIL_AUTHORITY, rh_raw_ndt_proposal_healthy = False, rh_yaw_reference_valid = True,
      rh_target_identity_valid = True, rh_fixed_xy_valid = True, rh_ekf_measurement_accepted = True,
      rh_rail_fitness_allow_measurement = True, rh_rail_fitness_baseline_ready = True,
      rh_reference_failure_nonrecoverable = False, rh_map_identity_failure_nonrecoverable = False,
      rh_internal_contract_error = False, rh_prediction_continuity_valid = True\<rparr>"

theorem rail_health_table_witness:
  "rh_mode demo_health = YawAuthorityMode.RAIL_AUTHORITY \<and>
   lh_authoritative_frame_healthy (evaluateRailLocalizationHealth demo_health)"
proof -
  have "rh_mode demo_health = YawAuthorityMode.RAIL_AUTHORITY" "\<not> rh_internal_contract_error demo_health"
    "\<not> rh_reference_failure_nonrecoverable demo_health" "rh_yaw_reference_valid demo_health"
    "\<not> rh_map_identity_failure_nonrecoverable demo_health" "rh_target_identity_valid demo_health"
    "rh_fixed_xy_valid demo_health" "rh_rail_fitness_allow_measurement demo_health"
    "rh_ekf_measurement_accepted demo_health" "rh_rail_fitness_baseline_ready demo_health"
    by (simp_all add: demo_health_def)
  then show ?thesis using rail_health_table [of demo_health] unfolding Let_def by blast
qed

end
