(* ===== verification/Relocalization.thy ===== *)
theory Relocalization
  imports Ndt_Machines Rail_Authority
begin

text \<open>
  Recovery of a lost pose. \<^verbatim>\<open>relocalization_confirmation_policy.cpp\<close> decides whether a result of the
  background relocaliser may be used; \<^verbatim>\<open>NdtSlamNode::consumeRelocalizationResult\<close> and
  \<^verbatim>\<open>NdtSlamNode::updateRelocalization\<close> (\<^verbatim>\<open>ndt_slam.cpp\<close>) keep the recovery state, and the services, the loop
  closure, a map replacement and a time rollback rewrite it. Poses are values of a type \<open>'p\<close> with the Sophus
  operations the code calls collected in the record \<open>se3_ops\<close>, an argument of every definition that uses
  them. The background worker, the search of the map, the fixed-yaw solver and the pose constraints enter as
  the outcomes the node reads. The counters of type \<^verbatim>\<open>int\<close> are integers.
\<close>

section \<open>Data\<close>

record 'p se3_ops =
  se3_translation :: "'p \<Rightarrow> vec3"
  se3_rotation :: "'p \<Rightarrow> nat \<Rightarrow> nat \<Rightarrow> dbl"
  se3_mul :: "'p \<Rightarrow> 'p \<Rightarrow> 'p"
  se3_inverse :: "'p \<Rightarrow> 'p"
  se3_identity :: 'p
  se3_of_translation :: "vec3 \<Rightarrow> 'p"

datatype RelocalizationMode = LOCAL | GLOBAL

datatype RelocalizationState =
  IDLE | DEGRADED | SEARCHING_LOCAL | SEARCHING_GLOBAL | CONFIRMING | COOLDOWN

datatype RelocalizationConfirmationOutcome =
  DISCARD_IDENTITY | DISCARD_DUPLICATE | DISCARD_STALE | DISCARD_INVALID | CONFIRMING | CONFIRMED

text \<open>The members of \<^verbatim>\<open>RelocalizationResult\<close> that are read after the worker returned it; the two clouds for the
  fixed-yaw check stand for whether they are present and non-empty.\<close>

record 'p RelocalizationResult =
  rr_valid :: bool
  rr_frame_index :: u64
  rr_map_generation :: u64
  rr_pose_version :: u64
  rr_stamp_sec :: dbl
  rr_mode :: RelocalizationMode
  rr_reference_pose :: 'p
  rr_pose :: 'p
  rr_fitness :: dbl
  rr_probability :: dbl
  rr_fixed_yaw_source :: bool
  rr_fixed_yaw_target :: bool
  rr_fixed_yaw_verified :: bool
  rr_target_snapshot_id :: u64
  rr_yaw_authority_generation :: u64
  rr_yaw_reference_hash :: string
  rr_reason :: string

record RelocalizationConfirmationConfig =
  rc_required_confirmations :: int
  rc_maximum_age_frames :: u64
  rc_maximum_age_sec :: dbl
  rc_maximum_translation_delta_m :: dbl
  rc_maximum_yaw_delta_deg :: dbl

definition default_RelocalizationConfirmationConfig :: RelocalizationConfirmationConfig where
  "default_RelocalizationConfirmationConfig =
     \<lparr>rc_required_confirmations = 2, rc_maximum_age_frames = 15, rc_maximum_age_sec = Fin 1.5,
      rc_maximum_translation_delta_m = Fin 0.5, rc_maximum_yaw_delta_deg = Fin 5\<rparr>"

record 'p RelocalizationConfirmationInput =
  ri_result :: "'p RelocalizationResult"
  ri_current_frame_index :: u64
  ri_current_stamp_sec :: dbl
  ri_expected_map_generation :: u64
  ri_expected_pose_version :: u64
  ri_expected_yaw_authority_generation :: u64
  ri_expected_yaw_reference_hash :: string
  ri_last_result_frame :: u64
  ri_previous_confirmation_count :: int
  ri_previous_correction :: 'p

record 'p RelocalizationConfirmationDecision =
  rd_outcome :: RelocalizationConfirmationOutcome
  rd_update_last_result_frame :: bool
  rd_last_result_frame :: u64
  rd_confirmation_count :: int
  rd_correction :: 'p
  rd_reason :: string

definition default_RelocalizationConfirmationDecision :: "'p se3_ops \<Rightarrow> 'p RelocalizationConfirmationDecision" where
  "default_RelocalizationConfirmationDecision S =
     \<lparr>rd_outcome = DISCARD_INVALID, rd_update_last_result_frame = False, rd_last_result_frame = 0,
      rd_confirmation_count = 0, rd_correction = se3_identity S, rd_reason = ''not_evaluated''\<rparr>"

section \<open>The confirmation policy\<close>

definition poseFinite :: "'p se3_ops \<Rightarrow> 'p \<Rightarrow> bool" where
  "poseFinite S p \<longleftrightarrow>
     vec3_allFinite (se3_translation S p) \<and>
     list_all (\<lambda>i. list_all (\<lambda>j. isfinite (se3_rotation S p i j)) [0, 1, 2]) [0, 1, 2]"

definition yawOf :: "'p se3_ops \<Rightarrow> 'p \<Rightarrow> dbl" where
  "yawOf S p = datan2 (se3_rotation S p 1 0) (se3_rotation S p 0 0)"

definition validConfirmationConfig :: "RelocalizationConfirmationConfig \<Rightarrow> bool" where
  "validConfirmationConfig c \<longleftrightarrow>
     2 \<le> rc_required_confirmations c \<and> 0 < rc_maximum_age_frames c \<and>
     isfinite (rc_maximum_age_sec c) \<and> Fin 0 < rc_maximum_age_sec c \<and>
     isfinite (rc_maximum_translation_delta_m c) \<and> Fin 0 < rc_maximum_translation_delta_m c \<and>
     isfinite (rc_maximum_yaw_delta_deg c) \<and> Fin 0 < rc_maximum_yaw_delta_deg c"

definition result_stale ::
  "RelocalizationConfirmationConfig \<Rightarrow> u64 \<Rightarrow> dbl \<Rightarrow> 'p RelocalizationResult \<Rightarrow> bool" where
  "result_stale c frame stamp r \<longleftrightarrow>
     (let age = stamp - rr_stamp_sec r; future = frame < rr_frame_index r in
      future \<or> (\<not> future \<and> rc_maximum_age_frames c < frame - rr_frame_index r) \<or>
      \<not> isfinite age \<or> age < Fin (- 0.05) \<or> rc_maximum_age_sec c < age)"

definition correction_distance :: "'p se3_ops \<Rightarrow> 'p \<Rightarrow> 'p \<Rightarrow> dbl" where
  "correction_distance S p q =
     vec2_norm (vec2_sub (vec3_head2 (se3_translation S p)) (vec3_head2 (se3_translation S q)))"

definition correction_yaw_delta_deg :: "'p se3_ops \<Rightarrow> 'p \<Rightarrow> 'p \<Rightarrow> dbl" where
  "correction_yaw_delta_deg S p q =
     (let d = yawOf S p - yawOf S q in \<bar>datan2 (dsin d) (dcos d)\<bar> * Fin 180 / Fin pi)"

text \<open>The tail both policies share: a correction that agrees with the previous one extends the count, any other
  restarts it.\<close>

definition confirm_step ::
  "RelocalizationConfirmationConfig \<Rightarrow> 'p RelocalizationConfirmationInput \<Rightarrow> bool \<Rightarrow> string \<Rightarrow> string \<Rightarrow> string \<Rightarrow>
   'p RelocalizationConfirmationDecision \<Rightarrow> 'p RelocalizationConfirmationDecision" where
  "confirm_step c i consistent confirmed extended restarted d =
     (let n = (if consistent then ri_previous_confirmation_count i + 1 else 1);
          done = rc_required_confirmations c \<le> n
      in d\<lparr>rd_confirmation_count := n,
           rd_outcome := (if done then CONFIRMED else RelocalizationConfirmationOutcome.CONFIRMING),
           rd_reason := (if done then confirmed else if consistent then extended else restarted)\<rparr>)"

definition evaluateRelocalizationConfirmation ::
  "'p se3_ops \<Rightarrow> 'p RelocalizationConfirmationInput \<Rightarrow> RelocalizationConfirmationConfig \<Rightarrow>
   'p RelocalizationConfirmationDecision" where
  "evaluateRelocalizationConfirmation S i c =
     (let d = default_RelocalizationConfirmationDecision S; r = ri_result i;
          d1 = d\<lparr>rd_update_last_result_frame := True, rd_last_result_frame := rr_frame_index r\<rparr>;
          correction = se3_mul S (rr_pose r) (se3_inverse S (rr_reference_pose r))
      in if \<not> validConfirmationConfig c \<or> \<not> isfinite (ri_current_stamp_sec i) \<or> ri_current_stamp_sec i \<le> Fin 0
         then d\<lparr>rd_reason := ''invalid_confirmation_policy_input''\<rparr>
         else if rr_map_generation r \<noteq> ri_expected_map_generation i \<or>
                 rr_pose_version r \<noteq> ri_expected_pose_version i
         then d\<lparr>rd_outcome := DISCARD_IDENTITY, rd_reason := ''stale_map_or_pose_generation_discarded''\<rparr>
         else if rr_frame_index r \<le> ri_last_result_frame i
         then d\<lparr>rd_outcome := DISCARD_DUPLICATE, rd_reason := ''duplicate_or_out_of_order_result''\<rparr>
         else if result_stale c (ri_current_frame_index i) (ri_current_stamp_sec i) r
         then d1\<lparr>rd_outcome := DISCARD_STALE, rd_reason := ''stale_result_discarded''\<rparr>
         else if \<not> rr_valid r
         then d1\<lparr>rd_outcome := DISCARD_INVALID,
                 rd_reason := (if rr_reason r = [] then ''relocalization_candidate_invalid'' else rr_reason r)\<rparr>
         else if \<not> isfinite (rr_fitness r) \<or> \<not> isfinite (rr_probability r) \<or> \<not> poseFinite S (rr_pose r) \<or>
                 \<not> poseFinite S (rr_reference_pose r)
         then d1\<lparr>rd_outcome := DISCARD_INVALID, rd_reason := ''nonfinite_relocalization_candidate''\<rparr>
         else if \<not> poseFinite S correction
         then d1\<lparr>rd_outcome := DISCARD_INVALID, rd_reason := ''nonfinite_relocalization_correction''\<rparr>
         else confirm_step c i
                (0 < ri_previous_confirmation_count i \<and> poseFinite S (ri_previous_correction i) \<and>
                 correction_distance S correction (ri_previous_correction i) \<le> rc_maximum_translation_delta_m c \<and>
                 correction_yaw_delta_deg S correction (ri_previous_correction i) \<le> rc_maximum_yaw_delta_deg c)
                ''relocalization_candidate_confirmed'' ''relocalization_candidate_consistent''
                ''relocalization_confirmation_restarted'' (d1\<lparr>rd_correction := correction\<rparr>))"

definition rail_identity_verified :: "'p RelocalizationConfirmationInput \<Rightarrow> bool" where
  "rail_identity_verified i \<longleftrightarrow>
     (let r = ri_result i in
      rr_fixed_yaw_verified r \<and> rr_target_snapshot_id r \<noteq> 0 \<and>
      rr_yaw_authority_generation r = ri_expected_yaw_authority_generation i \<and>
      rr_yaw_reference_hash r \<noteq> [] \<and> rr_yaw_reference_hash r = ri_expected_yaw_reference_hash i)"

definition rail_correction_xy :: "'p se3_ops \<Rightarrow> 'p RelocalizationResult \<Rightarrow> vec2" where
  "rail_correction_xy S r =
     vec2_sub (vec3_head2 (se3_translation S (rr_pose r))) (vec3_head2 (se3_translation S (rr_reference_pose r)))"

definition evaluateRailRelocalizationConfirmation ::
  "'p se3_ops \<Rightarrow> 'p RelocalizationConfirmationInput \<Rightarrow> RelocalizationConfirmationConfig \<Rightarrow>
   'p RelocalizationConfirmationDecision" where
  "evaluateRailRelocalizationConfirmation S i c =
     (let d = default_RelocalizationConfirmationDecision S; r = ri_result i;
          d1 = d\<lparr>rd_update_last_result_frame := True, rd_last_result_frame := rr_frame_index r\<rparr>;
          xy = rail_correction_xy S r;
          correction = se3_of_translation S \<lparr>v3x = v2x xy, v3y = v2y xy, v3z = Fin 0\<rparr>
      in if rc_required_confirmations c < 2 \<or> rc_maximum_age_frames c = 0 \<or> \<not> isfinite (rc_maximum_age_sec c) \<or>
            rc_maximum_age_sec c \<le> Fin 0 \<or> \<not> isfinite (rc_maximum_translation_delta_m c) \<or>
            rc_maximum_translation_delta_m c \<le> Fin 0 \<or> \<not> isfinite (ri_current_stamp_sec i) \<or>
            ri_current_stamp_sec i \<le> Fin 0
         then d\<lparr>rd_reason := ''invalid_rail_confirmation_policy_input''\<rparr>
         else if rr_map_generation r \<noteq> ri_expected_map_generation i \<or>
                 rr_pose_version r \<noteq> ri_expected_pose_version i
         then d\<lparr>rd_outcome := DISCARD_IDENTITY, rd_reason := ''stale_rail_map_or_pose_generation_discarded''\<rparr>
         else if \<not> rail_identity_verified i
         then d\<lparr>rd_outcome := DISCARD_IDENTITY, rd_reason := ''rail_fixed_yaw_or_reference_identity_unverified''\<rparr>
         else if rr_frame_index r \<le> ri_last_result_frame i
         then d\<lparr>rd_outcome := DISCARD_DUPLICATE, rd_reason := ''duplicate_or_out_of_order_rail_result''\<rparr>
         else if result_stale c (ri_current_frame_index i) (ri_current_stamp_sec i) r
         then d1\<lparr>rd_outcome := DISCARD_STALE, rd_reason := ''stale_rail_result_discarded''\<rparr>
         else if \<not> rr_valid r \<or> \<not> isfinite (rr_fitness r) \<or> \<not> poseFinite S (rr_pose r) \<or>
                 \<not> poseFinite S (rr_reference_pose r)
         then d1\<lparr>rd_outcome := DISCARD_INVALID, rd_reason := ''invalid_rail_relocalization_candidate''\<rparr>
         else if \<not> vec2_allFinite xy
         then d1\<lparr>rd_outcome := DISCARD_INVALID, rd_reason := ''nonfinite_rail_xy_correction''\<rparr>
         else confirm_step c i
                (0 < ri_previous_confirmation_count i \<and> poseFinite S (ri_previous_correction i) \<and>
                 vec2_norm (vec2_sub xy (vec3_head2 (se3_translation S (ri_previous_correction i)))) \<le>
                   rc_maximum_translation_delta_m c)
                ''rail_xy_candidate_confirmed'' ''rail_xy_candidate_consistent'' ''rail_xy_confirmation_restarted''
                (d1\<lparr>rd_correction := correction\<rparr>))"

section \<open>The recovery state of the node\<close>

record RelocalizationParams =
  rp_enabled :: bool
  rp_trigger_frames :: int
  rp_global_trigger_frames :: int
  rp_confirm_frames :: int
  rp_request_interval_frames :: int
  rp_result_max_age_frames :: int
  rp_result_max_age_sec :: dbl
  rp_global_result_max_age_frames :: int
  rp_global_result_max_age_sec :: dbl
  rp_cooldown_frames :: int
  rp_confirm_translation_m :: dbl
  rp_confirm_yaw_deg :: dbl

definition default_RelocalizationParams :: RelocalizationParams where
  "default_RelocalizationParams =
     \<lparr>rp_enabled = True, rp_trigger_frames = 5, rp_global_trigger_frames = 15, rp_confirm_frames = 2,
      rp_request_interval_frames = 3, rp_result_max_age_frames = 8, rp_result_max_age_sec = Fin 0.5,
      rp_global_result_max_age_frames = 120, rp_global_result_max_age_sec = Fin 12, rp_cooldown_frames = 12,
      rp_confirm_translation_m = Fin 0.35, rp_confirm_yaw_deg = Fin 5\<rparr>"

text \<open>The values \<^verbatim>\<open>loadParameters\<close> keeps of what the configuration file says.\<close>

definition load_relocalization_params :: "RelocalizationParams \<Rightarrow> RelocalizationParams" where
  "load_relocalization_params y =
     (let trigger = cpp_max 2 (rp_trigger_frames y);
          age_frames = cpp_max 2 (rp_result_max_age_frames y);
          age_sec = cpp_max (Fin 0.1) (rp_result_max_age_sec y)
      in \<lparr>rp_enabled = rp_enabled y, rp_trigger_frames = trigger,
          rp_global_trigger_frames = cpp_max trigger (rp_global_trigger_frames y),
          rp_confirm_frames = cpp_clamp (rp_confirm_frames y) 2 5,
          rp_request_interval_frames = cpp_max 1 (rp_request_interval_frames y),
          rp_result_max_age_frames = age_frames, rp_result_max_age_sec = age_sec,
          rp_global_result_max_age_frames = cpp_max age_frames (rp_global_result_max_age_frames y),
          rp_global_result_max_age_sec = cpp_max age_sec (rp_global_result_max_age_sec y),
          rp_cooldown_frames = cpp_max 1 (rp_cooldown_frames y),
          rp_confirm_translation_m = rp_confirm_translation_m y, rp_confirm_yaw_deg = rp_confirm_yaw_deg y\<rparr>)"

record 'p RelocalizationNode =
  rn_state :: RelocalizationState
  rn_bad_frames :: int
  rn_good_frames :: int
  rn_confirmation_count :: int
  rn_last_submit_frame :: u64
  rn_cooldown_until_frame :: u64
  rn_last_result_frame :: u64
  rn_force_global :: bool
  rn_pose_reliable :: bool
  rn_invalid_safety_published :: bool
  rn_confirmation_pose :: 'p

definition reloc_init :: "'p se3_ops \<Rightarrow> 'p RelocalizationNode" where
  "reloc_init S =
     \<lparr>rn_state = IDLE, rn_bad_frames = 0, rn_good_frames = 0, rn_confirmation_count = 0, rn_last_submit_frame = 0,
      rn_cooldown_until_frame = 0, rn_last_result_frame = 0, rn_force_global = False, rn_pose_reliable = True,
      rn_invalid_safety_published = False, rn_confirmation_pose = se3_identity S\<rparr>"

text \<open>What \<^verbatim>\<open>consumeRelocalizationResult\<close> reads besides the recovery state: the frame, the worker's result, the yaw
  authority, the outcome of the fixed-yaw solver, the current generations and the current pose.\<close>

record 'p RelocalizationReading =
  rg_frame_index :: u64
  rg_stamp_sec :: dbl
  rg_result :: "'p RelocalizationResult"
  rg_yaw_mode :: YawAuthorityMode
  rg_rail_authority :: RailYawAuthority
  rg_map_frame_uuid :: string
  rg_solver_target_snapshot_id :: u64
  rg_solver_valid :: bool
  rg_solver_fitness :: dbl
  rg_solver_pose :: 'p
  rg_solver_reason :: string
  rg_map_rebuild_generation :: u64
  rg_keyframe_pose_version :: u64
  rg_current_pose :: 'p

definition rail_verify_result :: "'p RelocalizationReading \<Rightarrow> 'p RelocalizationResult" where
  "rail_verify_result g =
     (let r = rg_result g; a = rg_rail_authority g in
      if rg_yaw_mode g = RAIL_AUTHORITY \<and> rr_valid r then
        if \<not> ra_valid a \<or> yr_map_frame_uuid (ra_reference a) \<noteq> rg_map_frame_uuid g \<or>
           \<not> rr_fixed_yaw_source r \<or> \<not> rr_fixed_yaw_target r
        then r\<lparr>rr_valid := False, rr_reason := ''rail_relocalization_fixed_yaw_input_unavailable''\<rparr>
        else if \<not> rg_solver_valid g \<or> \<not> isfinite (rg_solver_fitness g)
        then r\<lparr>rr_valid := False,
               rr_reason := ''rail_relocalization_fixed_yaw_verify_failed:'' @ rg_solver_reason g\<rparr>
        else r\<lparr>rr_pose := rg_solver_pose g, rr_fitness := rg_solver_fitness g, rr_fixed_yaw_verified := True,
               rr_target_snapshot_id := rg_solver_target_snapshot_id g,
               rr_yaw_authority_generation := ra_generation a,
               rr_yaw_reference_hash := yr_reference_hash (ra_reference a),
               rr_reason := ''rail_relocalization_fixed_yaw_verified''\<rparr>
      else r)"

definition confirmation_config ::
  "RelocalizationParams \<Rightarrow> 'p RelocalizationResult \<Rightarrow> RelocalizationConfirmationConfig" where
  "confirmation_config P r =
     \<lparr>rc_required_confirmations = rp_confirm_frames P,
      rc_maximum_age_frames = of_int (if rr_mode r = GLOBAL then rp_global_result_max_age_frames P
                                      else rp_result_max_age_frames P),
      rc_maximum_age_sec = (if rr_mode r = GLOBAL then rp_global_result_max_age_sec P else rp_result_max_age_sec P),
      rc_maximum_translation_delta_m = rp_confirm_translation_m P,
      rc_maximum_yaw_delta_deg = rp_confirm_yaw_deg P\<rparr>"

definition confirmation_input ::
  "'p RelocalizationNode \<Rightarrow> 'p RelocalizationReading \<Rightarrow> 'p RelocalizationConfirmationInput" where
  "confirmation_input n g =
     \<lparr>ri_result = rail_verify_result g, ri_current_frame_index = rg_frame_index g,
      ri_current_stamp_sec = rg_stamp_sec g, ri_expected_map_generation = rg_map_rebuild_generation g,
      ri_expected_pose_version = rg_keyframe_pose_version g,
      ri_expected_yaw_authority_generation = ra_generation (rg_rail_authority g),
      ri_expected_yaw_reference_hash =
        (if ra_valid (rg_rail_authority g) then yr_reference_hash (ra_reference (rg_rail_authority g)) else []),
      ri_last_result_frame = rn_last_result_frame n, ri_previous_confirmation_count = rn_confirmation_count n,
      ri_previous_correction = rn_confirmation_pose n\<rparr>"

definition confirmation_decision ::
  "'p se3_ops \<Rightarrow> RelocalizationParams \<Rightarrow> 'p RelocalizationNode \<Rightarrow> 'p RelocalizationReading \<Rightarrow>
   'p RelocalizationConfirmationDecision" where
  "confirmation_decision S P n g =
     (let c = confirmation_config P (rail_verify_result g); i = confirmation_input n g in
      if rg_yaw_mode g = RAIL_AUTHORITY then evaluateRailRelocalizationConfirmation S i c
      else evaluateRelocalizationConfirmation S i c)"

text \<open>The pose handed to \<^verbatim>\<open>applyRelocalizedPose\<close>: the motion since the job is kept. In rail mode its yaw, roll,
  pitch and height are then replaced by the rail constraint.\<close>

definition recovered_pose :: "'p se3_ops \<Rightarrow> 'p RelocalizationReading \<Rightarrow> 'p" where
  "recovered_pose S g =
     (let r = rail_verify_result g; t = se3_translation S (rg_current_pose g) in
      if rg_yaw_mode g = RAIL_AUTHORITY then
        se3_of_translation S
          (let xy = vec2_add (vec3_head2 (se3_translation S (rr_pose r)))
                      (vec2_sub (vec3_head2 t) (vec3_head2 (se3_translation S (rr_reference_pose r))))
           in t\<lparr>v3x := v2x xy, v3y := v2y xy\<rparr>)
      else se3_mul S (rr_pose r) (se3_mul S (se3_inverse S (rr_reference_pose r)) (rg_current_pose g)))"

definition consumeRelocalizationResult ::
  "'p se3_ops \<Rightarrow> RelocalizationParams \<Rightarrow> 'p RelocalizationNode \<Rightarrow> 'p RelocalizationReading option \<Rightarrow>
   'p RelocalizationNode \<times> 'p option" where
  "consumeRelocalizationResult S P n taken =
     (if \<not> rp_enabled P then (n, None) else
      case taken of
        None \<Rightarrow> (n, None)
      | Some g \<Rightarrow>
          if rn_state n = IDLE \<and> rn_pose_reliable n \<and> \<not> rn_force_global n then (n, None)
          else
            let d = confirmation_decision S P n g;
                n1 = (if rd_update_last_result_frame d then n\<lparr>rn_last_result_frame := rd_last_result_frame d\<rparr> else n)
            in if rd_outcome d = DISCARD_DUPLICATE then (n1, None)
               else if rd_outcome d \<in> {DISCARD_IDENTITY, DISCARD_STALE, DISCARD_INVALID}
               then (n1\<lparr>rn_confirmation_count := 0, rn_confirmation_pose := se3_identity S, rn_state := DEGRADED\<rparr>, None)
               else
                 let n2 = n1\<lparr>rn_confirmation_pose := rd_correction d, rn_confirmation_count := rd_confirmation_count d,
                             rn_state := RelocalizationState.CONFIRMING\<rparr>
                 in if rd_outcome d = CONFIRMED
                    then (n2\<lparr>rn_confirmation_count := 0, rn_bad_frames := 0, rn_good_frames := 0,
                             rn_force_global := False, rn_pose_reliable := True, rn_state := COOLDOWN,
                             rn_cooldown_until_frame := rg_frame_index g + of_int (rp_cooldown_frames P)\<rparr>,
                          Some (recovered_pose S g))
                    else (n2, None))"

text \<open>What \<^verbatim>\<open>updateRelocalization\<close> reads: the frame, its health, and the outcomes of the background worker and
  of the search for a map and for seeds.\<close>

record RelocalizationFrame =
  rf_frame_index :: u64
  rf_ndt_healthy :: bool
  rf_worker_busy :: bool
  rf_map_available :: bool
  rf_seeds_empty :: bool
  rf_submitted :: bool

text \<open>The last part of the method: a search job is submitted unless one is running or was submitted recently.\<close>

definition submit_search ::
  "RelocalizationParams \<Rightarrow> 'p RelocalizationNode \<Rightarrow> RelocalizationFrame \<Rightarrow> 'p RelocalizationNode" where
  "submit_search P n f =
     (let global = (rn_force_global n \<or> rp_global_trigger_frames P \<le> rn_bad_frames n) in
      if rf_worker_busy f \<or>
         rf_frame_index f < rn_last_submit_frame n + of_int (rp_request_interval_frames P)
      then n
      else if \<not> rf_map_available f then n
      else if rf_seeds_empty f \<or> \<not> rf_submitted f then n
      else n\<lparr>rn_last_submit_frame := rf_frame_index f,
             rn_state := (if global then SEARCHING_GLOBAL else SEARCHING_LOCAL)\<rparr>)"

text \<open>The degraded branch: the pose loses its authority and a search is started.\<close>

definition degrade_and_search ::
  "RelocalizationParams \<Rightarrow> 'p RelocalizationNode \<Rightarrow> RelocalizationFrame \<Rightarrow> 'p RelocalizationNode" where
  "degrade_and_search P n f =
     (if \<not> rn_force_global n \<and> rn_bad_frames n < rp_trigger_frames P then n
      else
        let n1 = (if rn_pose_reliable n
                  then n\<lparr>rn_pose_reliable := False, rn_invalid_safety_published := True\<rparr> else n)
        in submit_search P (n1\<lparr>rn_state := DEGRADED\<rparr>) f)"

definition updateRelocalization ::
  "RelocalizationParams \<Rightarrow> 'p RelocalizationNode \<Rightarrow> RelocalizationFrame \<Rightarrow> 'p RelocalizationNode" where
  "updateRelocalization P n f =
     (if \<not> rp_enabled P then n
      else if rf_ndt_healthy f \<and> rn_pose_reliable n \<and> rn_state n = COOLDOWN
      then (let n1 = n\<lparr>rn_bad_frames := 0, rn_good_frames := 0\<rparr> in
            if rn_cooldown_until_frame n \<le> rf_frame_index f then n1\<lparr>rn_state := IDLE\<rparr> else n1)
      else if rf_ndt_healthy f \<and> \<not> rn_force_global n
      then (let n1 = n\<lparr>rn_good_frames := rn_good_frames n + 1\<rparr> in
            if rn_state n = IDLE then n1\<lparr>rn_bad_frames := 0\<rparr>
            else if 3 \<le> rn_good_frames n1
            then n1\<lparr>rn_bad_frames := 0, rn_confirmation_count := 0, rn_pose_reliable := True, rn_state := COOLDOWN,
                    rn_cooldown_until_frame := rf_frame_index f + of_int (rp_cooldown_frames P),
                    rn_good_frames := 0\<rparr>
            else degrade_and_search P n1 f)
      else degrade_and_search P (n\<lparr>rn_good_frames := 0, rn_bad_frames := rn_bad_frames n + 1\<rparr>) f)"

text \<open>The other writers of the recovery state.\<close>

definition relocalizeService :: "'p se3_ops \<Rightarrow> RelocalizationParams \<Rightarrow> 'p RelocalizationNode \<Rightarrow> 'p RelocalizationNode" where
  "relocalizeService S P n =
     (if \<not> rp_enabled P then n
      else n\<lparr>rn_confirmation_count := 0, rn_confirmation_pose := se3_identity S, rn_last_submit_frame := 0,
             rn_force_global := True\<rparr>)"

definition loop_closure_degraded :: "'p RelocalizationNode \<Rightarrow> 'p RelocalizationNode" where
  "loop_closure_degraded n =
     n\<lparr>rn_pose_reliable := False, rn_good_frames := 0, rn_bad_frames := 0, rn_state := DEGRADED,
       rn_invalid_safety_published := True\<rparr>"

definition resetService :: "'p se3_ops \<Rightarrow> 'p RelocalizationNode \<Rightarrow> 'p RelocalizationNode" where
  "resetService S n =
     n\<lparr>rn_force_global := False, rn_state := IDLE, rn_pose_reliable := True, rn_invalid_safety_published := False,
       rn_bad_frames := 0, rn_good_frames := 0, rn_confirmation_count := 0,
       rn_confirmation_pose := se3_identity S, rn_last_submit_frame := 0, rn_last_result_frame := 0,
       rn_cooldown_until_frame := 0\<rparr>"

definition runtime_map_replaced ::
  "'p se3_ops \<Rightarrow> RelocalizationParams \<Rightarrow> 'p RelocalizationNode \<Rightarrow> 'p RelocalizationNode" where
  "runtime_map_replaced S P n =
     n\<lparr>rn_confirmation_count := 0, rn_confirmation_pose := se3_identity S, rn_last_submit_frame := 0,
       rn_last_result_frame := 0,
       rn_bad_frames := (if rp_enabled P then rp_global_trigger_frames P else 0), rn_good_frames := 0,
       rn_cooldown_until_frame := 0, rn_force_global := rp_enabled P, rn_pose_reliable := (\<not> rp_enabled P),
       rn_state := (if rp_enabled P then DEGRADED else IDLE), rn_invalid_safety_published := rp_enabled P\<rparr>"

definition time_epoch_reset :: "'p RelocalizationNode \<Rightarrow> 'p RelocalizationNode" where
  "time_epoch_reset n =
     n\<lparr>rn_bad_frames := 0, rn_good_frames := 0, rn_confirmation_count := 0, rn_last_submit_frame := 0,
       rn_last_result_frame := 0, rn_cooldown_until_frame := 0, rn_force_global := False, rn_state := IDLE,
       rn_pose_reliable := True, rn_invalid_safety_published := False\<rparr>"

text \<open>The gate of the map commit.\<close>

definition relocalization_commit_ok :: "'p RelocalizationNode \<Rightarrow> u64 \<Rightarrow> bool" where
  "relocalization_commit_ok n frame \<longleftrightarrow>
     rn_pose_reliable n \<and> rn_cooldown_until_frame n \<le> frame \<and>
     rn_state n \<noteq> SEARCHING_LOCAL \<and> rn_state n \<noteq> SEARCHING_GLOBAL \<and> rn_state n \<noteq> RelocalizationState.CONFIRMING"

text \<open>The events that reach the recovery state, in the order the node serialises them; the answer is the pose a
  confirmed relocalisation installs.\<close>

datatype 'p reloc_event =
  Consume "'p RelocalizationReading option"
| Update RelocalizationFrame
| ServiceRelocalize
| LoopClosure
| ServiceReset
| MapReplaced
| TimeRollback

primrec reloc_step ::
  "'p se3_ops \<Rightarrow> RelocalizationParams \<Rightarrow> 'p RelocalizationNode \<Rightarrow> 'p reloc_event \<Rightarrow> 'p RelocalizationNode \<times> 'p option" where
  "reloc_step S P n (Consume taken) = consumeRelocalizationResult S P n taken"
| "reloc_step S P n (Update f) = (updateRelocalization P n f, None)"
| "reloc_step S P n ServiceRelocalize = (relocalizeService S P n, None)"
| "reloc_step S P n LoopClosure = (loop_closure_degraded n, None)"
| "reloc_step S P n ServiceReset = (resetService S n, None)"
| "reloc_step S P n MapReplaced = (runtime_map_replaced S P n, None)"
| "reloc_step S P n TimeRollback = (time_epoch_reset n, None)"

section \<open>Specification\<close>

text \<open>The correction a reading proposes, and its horizontal part as the policies compare it.\<close>

definition reading_correction :: "'p se3_ops \<Rightarrow> 'p RelocalizationReading \<Rightarrow> 'p" where
  "reading_correction S g =
     (let r = rail_verify_result g; xy = rail_correction_xy S r in
      if rg_yaw_mode g = RAIL_AUTHORITY then se3_of_translation S \<lparr>v3x = v2x xy, v3y = v2y xy, v3z = Fin 0\<rparr>
      else se3_mul S (rr_pose r) (se3_inverse S (rr_reference_pose r)))"

definition reading_xy :: "'p se3_ops \<Rightarrow> 'p RelocalizationReading \<Rightarrow> vec2" where
  "reading_xy S g =
     (if rg_yaw_mode g = RAIL_AUTHORITY then rail_correction_xy S (rail_verify_result g)
      else vec3_head2 (se3_translation S (reading_correction S g)))"

text \<open>A reading that may count: it belongs to the current map and poses, is fresh, valid and finite, and in rail
  mode its pose was verified at the authoritative yaw.\<close>

definition reading_usable :: "'p se3_ops \<Rightarrow> RelocalizationParams \<Rightarrow> 'p RelocalizationReading \<Rightarrow> bool" where
  "reading_usable S P g \<longleftrightarrow>
     (let r = rail_verify_result g in
      rr_map_generation r = rg_map_rebuild_generation g \<and> rr_pose_version r = rg_keyframe_pose_version g \<and>
      \<not> result_stale (confirmation_config P r) (rg_frame_index g) (rg_stamp_sec g) r \<and>
      rr_valid r \<and> isfinite (rr_fitness r) \<and> poseFinite S (rr_pose r) \<and> poseFinite S (rr_reference_pose r) \<and>
      (rg_yaw_mode g = RAIL_AUTHORITY \<longrightarrow>
         ra_valid (rg_rail_authority g) \<and> rr_fixed_yaw_verified r \<and>
         rr_yaw_reference_hash r = yr_reference_hash (ra_reference (rg_rail_authority g))))"

definition readings_agree ::
  "'p se3_ops \<Rightarrow> RelocalizationParams \<Rightarrow> 'p RelocalizationReading \<Rightarrow> 'p RelocalizationReading \<Rightarrow> bool" where
  "readings_agree S P a b \<longleftrightarrow>
     rr_frame_index (rg_result a) < rr_frame_index (rg_result b) \<and>
     vec2_norm (vec2_sub (reading_xy S b) (vec3_head2 (se3_translation S (reading_correction S a)))) \<le>
       rp_confirm_translation_m P \<and>
     (rg_yaw_mode b \<noteq> RAIL_AUTHORITY \<longrightarrow>
        correction_yaw_delta_deg S (reading_correction S b) (reading_correction S a) \<le> rp_confirm_yaw_deg P)"

fun event_reading :: "'p reloc_event \<Rightarrow> 'p RelocalizationReading option" where
  "event_reading (Consume taken) = taken"
| "event_reading _ = None"

definition event_usable :: "'p se3_ops \<Rightarrow> RelocalizationParams \<Rightarrow> 'p reloc_event \<Rightarrow> bool" where
  "event_usable S P e \<longleftrightarrow> (case event_reading e of Some g \<Rightarrow> reading_usable S P g | None \<Rightarrow> False)"

definition events_agree :: "'p se3_ops \<Rightarrow> RelocalizationParams \<Rightarrow> 'p reloc_event \<Rightarrow> 'p reloc_event \<Rightarrow> bool" where
  "events_agree S P e e' \<longleftrightarrow>
     (case (event_reading e, event_reading e') of (Some a, Some b) \<Rightarrow> readings_agree S P a b | _ \<Rightarrow> False)"

text \<open>The readings a recovery state stands for.\<close>

definition reloc_window ::
  "'p se3_ops \<Rightarrow> RelocalizationParams \<Rightarrow> 'p RelocalizationNode \<Rightarrow> 'p reloc_event list \<Rightarrow> bool" where
  "reloc_window S P n xs \<longleftrightarrow>
     rn_confirmation_count n = int (length xs) \<and>
     (xs \<noteq> [] \<longrightarrow> (\<exists>g. last xs = Consume (Some g) \<and> rn_confirmation_pose n = reading_correction S g \<and>
        rn_last_result_frame n = rr_frame_index (rg_result g)))"

section \<open>Lemmas\<close>

lemma rail_verify_keeps [simp]:
  "rr_frame_index (rail_verify_result g) = rr_frame_index (rg_result g)"
  by (simp add: rail_verify_result_def Let_def)

abbreviation is_discard :: "RelocalizationConfirmationOutcome \<Rightarrow> bool" where
  "is_discard d \<equiv> d \<in> {DISCARD_IDENTITY, DISCARD_STALE, DISCARD_INVALID}"

definition confirm_consistent ::
  "'p se3_ops \<Rightarrow> RelocalizationParams \<Rightarrow> 'p RelocalizationNode \<Rightarrow> 'p RelocalizationReading \<Rightarrow> bool" where
  "confirm_consistent S P n g \<longleftrightarrow>
     0 < rn_confirmation_count n \<and>
     vec2_norm (vec2_sub (reading_xy S g) (vec3_head2 (se3_translation S (rn_confirmation_pose n)))) \<le>
       rp_confirm_translation_m P \<and>
     (rg_yaw_mode g \<noteq> RAIL_AUTHORITY \<longrightarrow>
        correction_yaw_delta_deg S (reading_correction S g) (rn_confirmation_pose n) \<le> rp_confirm_yaw_deg P)"

text \<open>What an accepted result tells, for each policy.\<close>

definition accepted :: "'p RelocalizationConfirmationDecision \<Rightarrow> bool" where
  "accepted d \<longleftrightarrow> rd_outcome d = CONFIRMED \<or> rd_outcome d = RelocalizationConfirmationOutcome.CONFIRMING"

lemma accepted_simps [simp]:
  "\<not> accepted (default_RelocalizationConfirmationDecision S)"
  "accepted (d\<lparr>rd_reason := r\<rparr>) = accepted d"
  "\<not> accepted (d\<lparr>rd_outcome := DISCARD_IDENTITY\<rparr>)"
  "\<not> accepted (d\<lparr>rd_outcome := DISCARD_DUPLICATE\<rparr>)"
  "\<not> accepted (d\<lparr>rd_outcome := DISCARD_STALE\<rparr>)"
  "\<not> accepted (d\<lparr>rd_outcome := DISCARD_INVALID\<rparr>)"
  "accepted (confirm_step c i b x y z d)"
  by (simp_all add: accepted_def default_RelocalizationConfirmationDecision_def confirm_step_def Let_def)

lemma accepted_if: "\<not> accepted x \<Longrightarrow> accepted (if b then x else y) \<longleftrightarrow> \<not> b \<and> accepted y"
  by simp

lemma confirm_step_facts:
  "rd_confirmation_count (confirm_step c i b x y z d) = (if b then ri_previous_confirmation_count i + 1 else 1)"
  "rd_outcome (confirm_step c i b x y z d) = CONFIRMED \<longleftrightarrow>
     rc_required_confirmations c \<le> rd_confirmation_count (confirm_step c i b x y z d)"
  "rd_correction (confirm_step c i b x y z d) = rd_correction d"
  "rd_update_last_result_frame (confirm_step c i b x y z d) = rd_update_last_result_frame d"
  "rd_last_result_frame (confirm_step c i b x y z d) = rd_last_result_frame d"
  by (simp_all add: confirm_step_def Let_def)

lemma free_accepted:
  assumes "accepted (evaluateRelocalizationConfirmation S i c)"
  obtains b x y z d where
    "evaluateRelocalizationConfirmation S i c = confirm_step c i b x y z d"
    "rd_correction d = se3_mul S (rr_pose (ri_result i)) (se3_inverse S (rr_reference_pose (ri_result i)))"
    "rd_update_last_result_frame d" "rd_last_result_frame d = rr_frame_index (ri_result i)"
    "2 \<le> rc_required_confirmations c"
    "rr_map_generation (ri_result i) = ri_expected_map_generation i"
    "rr_pose_version (ri_result i) = ri_expected_pose_version i"
    "ri_last_result_frame i < rr_frame_index (ri_result i)"
    "\<not> result_stale c (ri_current_frame_index i) (ri_current_stamp_sec i) (ri_result i)"
    "rr_valid (ri_result i)" "isfinite (rr_fitness (ri_result i))"
    "poseFinite S (rr_pose (ri_result i))" "poseFinite S (rr_reference_pose (ri_result i))"
    "b \<Longrightarrow> 0 < ri_previous_confirmation_count i \<and>
       correction_distance S (rd_correction d) (ri_previous_correction i) \<le> rc_maximum_translation_delta_m c \<and>
       correction_yaw_delta_deg S (rd_correction d) (ri_previous_correction i) \<le> rc_maximum_yaw_delta_deg c"
proof -
  have g: "validConfirmationConfig c" "isfinite (ri_current_stamp_sec i)" "\<not> ri_current_stamp_sec i \<le> Fin 0"
    "rr_map_generation (ri_result i) = ri_expected_map_generation i"
    "rr_pose_version (ri_result i) = ri_expected_pose_version i"
    "\<not> rr_frame_index (ri_result i) \<le> ri_last_result_frame i"
    "\<not> result_stale c (ri_current_frame_index i) (ri_current_stamp_sec i) (ri_result i)"
    "rr_valid (ri_result i)" "isfinite (rr_fitness (ri_result i))" "isfinite (rr_probability (ri_result i))"
    "poseFinite S (rr_pose (ri_result i))" "poseFinite S (rr_reference_pose (ri_result i))"
    "poseFinite S (se3_mul S (rr_pose (ri_result i)) (se3_inverse S (rr_reference_pose (ri_result i))))"
    using assms unfolding evaluateRelocalizationConfirmation_def Let_def
    by (simp_all add: accepted_if del: if_split cong: if_cong)
  let ?k = "se3_mul S (rr_pose (ri_result i)) (se3_inverse S (rr_reference_pose (ri_result i)))"
  have eq: "evaluateRelocalizationConfirmation S i c = confirm_step c i
      (0 < ri_previous_confirmation_count i \<and> poseFinite S (ri_previous_correction i) \<and>
       correction_distance S ?k (ri_previous_correction i) \<le> rc_maximum_translation_delta_m c \<and>
       correction_yaw_delta_deg S ?k (ri_previous_correction i) \<le> rc_maximum_yaw_delta_deg c)
      ''relocalization_candidate_confirmed'' ''relocalization_candidate_consistent''
      ''relocalization_confirmation_restarted''
      (default_RelocalizationConfirmationDecision S
         \<lparr>rd_update_last_result_frame := True, rd_last_result_frame := rr_frame_index (ri_result i),
          rd_correction := ?k\<rparr>)"
    using g unfolding evaluateRelocalizationConfirmation_def Let_def by (simp only: if_False not_True_eq_False simp_thms)
  show thesis
    by (rule that [OF eq]) (use g in \<open>simp_all add: validConfirmationConfig_def not_le\<close>)
qed

lemma rail_evaluates:
  assumes "\<not> rc_required_confirmations c < 2" "rc_maximum_age_frames c \<noteq> 0" "isfinite (rc_maximum_age_sec c)"
    "\<not> rc_maximum_age_sec c \<le> Fin 0" "isfinite (rc_maximum_translation_delta_m c)"
    "\<not> rc_maximum_translation_delta_m c \<le> Fin 0"
    "isfinite (ri_current_stamp_sec i)" "\<not> ri_current_stamp_sec i \<le> Fin 0"
    "rr_map_generation (ri_result i) = ri_expected_map_generation i"
    "rr_pose_version (ri_result i) = ri_expected_pose_version i" "rail_identity_verified i"
    "\<not> rr_frame_index (ri_result i) \<le> ri_last_result_frame i"
    "\<not> result_stale c (ri_current_frame_index i) (ri_current_stamp_sec i) (ri_result i)"
    "rr_valid (ri_result i)" "isfinite (rr_fitness (ri_result i))"
    "poseFinite S (rr_pose (ri_result i))" "poseFinite S (rr_reference_pose (ri_result i))"
    "vec2_allFinite (rail_correction_xy S (ri_result i))"
  shows "evaluateRailRelocalizationConfirmation S i c = confirm_step c i
      (0 < ri_previous_confirmation_count i \<and> poseFinite S (ri_previous_correction i) \<and>
       vec2_norm (vec2_sub (rail_correction_xy S (ri_result i))
         (vec3_head2 (se3_translation S (ri_previous_correction i)))) \<le> rc_maximum_translation_delta_m c)
      ''rail_xy_candidate_confirmed'' ''rail_xy_candidate_consistent'' ''rail_xy_confirmation_restarted''
      (default_RelocalizationConfirmationDecision S
         \<lparr>rd_update_last_result_frame := True, rd_last_result_frame := rr_frame_index (ri_result i),
          rd_correction := se3_of_translation S
            \<lparr>v3x = v2x (rail_correction_xy S (ri_result i)), v3y = v2y (rail_correction_xy S (ri_result i)),
             v3z = Fin 0\<rparr>\<rparr>)"
  using assms unfolding evaluateRailRelocalizationConfirmation_def Let_def
  by (simp only: if_False not_True_eq_False simp_thms)

lemma rail_accepted:
  assumes "accepted (evaluateRailRelocalizationConfirmation S i c)"
  obtains b x y z d where
    "evaluateRailRelocalizationConfirmation S i c = confirm_step c i b x y z d"
    "rd_correction d = se3_of_translation S
       \<lparr>v3x = v2x (rail_correction_xy S (ri_result i)), v3y = v2y (rail_correction_xy S (ri_result i)), v3z = Fin 0\<rparr>"
    "rd_update_last_result_frame d" "rd_last_result_frame d = rr_frame_index (ri_result i)"
    "2 \<le> rc_required_confirmations c"
    "rr_map_generation (ri_result i) = ri_expected_map_generation i"
    "rr_pose_version (ri_result i) = ri_expected_pose_version i"
    "rail_identity_verified i"
    "ri_last_result_frame i < rr_frame_index (ri_result i)"
    "\<not> result_stale c (ri_current_frame_index i) (ri_current_stamp_sec i) (ri_result i)"
    "rr_valid (ri_result i)" "isfinite (rr_fitness (ri_result i))"
    "poseFinite S (rr_pose (ri_result i))" "poseFinite S (rr_reference_pose (ri_result i))"
    "b \<Longrightarrow> 0 < ri_previous_confirmation_count i \<and>
       vec2_norm (vec2_sub (rail_correction_xy S (ri_result i))
         (vec3_head2 (se3_translation S (ri_previous_correction i)))) \<le> rc_maximum_translation_delta_m c"
proof -
  have g: "\<not> rc_required_confirmations c < 2" "rc_maximum_age_frames c \<noteq> 0" "isfinite (rc_maximum_age_sec c)"
    "\<not> rc_maximum_age_sec c \<le> Fin 0" "isfinite (rc_maximum_translation_delta_m c)"
    "\<not> rc_maximum_translation_delta_m c \<le> Fin 0"
    "isfinite (ri_current_stamp_sec i)" "\<not> ri_current_stamp_sec i \<le> Fin 0"
    "rr_map_generation (ri_result i) = ri_expected_map_generation i"
    "rr_pose_version (ri_result i) = ri_expected_pose_version i"
    "rail_identity_verified i"
    "\<not> rr_frame_index (ri_result i) \<le> ri_last_result_frame i"
    "\<not> result_stale c (ri_current_frame_index i) (ri_current_stamp_sec i) (ri_result i)"
    "rr_valid (ri_result i)" "isfinite (rr_fitness (ri_result i))"
    "poseFinite S (rr_pose (ri_result i))" "poseFinite S (rr_reference_pose (ri_result i))"
    "vec2_allFinite (rail_correction_xy S (ri_result i))"
    using assms unfolding evaluateRailRelocalizationConfirmation_def Let_def
    by (simp_all add: accepted_if del: if_split cong: if_cong)
  show thesis
    by (rule that [OF rail_evaluates]) (use g in \<open>simp_all add: not_le\<close>)
qed

text \<open>Both policies together, on what the node hands them.\<close>

lemma decision_accepted:
  fixes n :: "'p RelocalizationNode"
  defines "D \<equiv> \<lambda>S P (n :: 'p RelocalizationNode) g. confirmation_decision S P n g"
  assumes "accepted (D S P n g)"
  shows "reading_usable S P g" (is ?usable)
    and "rn_last_result_frame n < rr_frame_index (rg_result g)" (is ?frame)
    and "rd_update_last_result_frame (D S P n g)" (is ?update)
    and "rd_last_result_frame (D S P n g) = rr_frame_index (rg_result g)" (is ?last)
    and "rd_correction (D S P n g) = reading_correction S g" (is ?correction)
    and "2 \<le> rp_confirm_frames P" (is ?two)
    and "rd_outcome (D S P n g) = CONFIRMED \<longleftrightarrow> rp_confirm_frames P \<le> rd_confirmation_count (D S P n g)" (is ?confirmed)
    and "rd_confirmation_count (D S P n g) = 1 \<or>
      rd_confirmation_count (D S P n g) = rn_confirmation_count n + 1 \<and> confirm_consistent S P n g" (is ?count)
proof -
  have "?usable \<and> ?frame \<and> ?update \<and> ?last \<and> ?correction \<and> ?two \<and> ?confirmed \<and> ?count"
  proof (cases "rg_yaw_mode g = RAIL_AUTHORITY")
    case True
    then have acc: "accepted (evaluateRailRelocalizationConfirmation S (confirmation_input n g)
        (confirmation_config P (rail_verify_result g)))"
      using assms by (simp add: confirmation_decision_def Let_def)
    show ?thesis
      by (rule rail_accepted [OF acc])
        (auto simp: D_def confirmation_decision_def Let_def True confirm_step_facts reading_usable_def
          reading_correction_def reading_xy_def confirm_consistent_def confirmation_config_def confirmation_input_def
          rail_identity_verified_def split: if_splits)
  next
    case False
    then have acc: "accepted (evaluateRelocalizationConfirmation S (confirmation_input n g)
        (confirmation_config P (rail_verify_result g)))"
      using assms by (simp add: confirmation_decision_def Let_def)
    show ?thesis
      by (rule free_accepted [OF acc])
        (auto simp: D_def confirmation_decision_def Let_def False confirm_step_facts reading_usable_def
          reading_correction_def reading_xy_def confirm_consistent_def confirmation_config_def confirmation_input_def
          correction_distance_def)
  qed
  then show ?usable ?frame ?update ?last ?correction ?two ?confirmed ?count by blast+
qed

lemma duplicate_keeps_frame:
  "rd_outcome (confirmation_decision S P n g) = DISCARD_DUPLICATE \<Longrightarrow>
   \<not> rd_update_last_result_frame (confirmation_decision S P n g)"
proof -
  have keep: "rd_outcome d = DISCARD_DUPLICATE \<longrightarrow> \<not> rd_update_last_result_frame d \<Longrightarrow>
      rd_outcome x = DISCARD_DUPLICATE \<longrightarrow> \<not> rd_update_last_result_frame x \<Longrightarrow>
      rd_outcome (if b then d else x) = DISCARD_DUPLICATE \<longrightarrow> \<not> rd_update_last_result_frame (if b then d else x)"
    for b and d x :: "'a RelocalizationConfirmationDecision" by simp
  have "rd_outcome (confirmation_decision S P n g) = DISCARD_DUPLICATE \<longrightarrow>
      \<not> rd_update_last_result_frame (confirmation_decision S P n g)"
    unfolding confirmation_decision_def evaluateRelocalizationConfirmation_def
      evaluateRailRelocalizationConfirmation_def Let_def
    by (intro keep) (simp_all add: default_RelocalizationConfirmationDecision_def confirm_step_def Let_def)
  then show "rd_outcome (confirmation_decision S P n g) = DISCARD_DUPLICATE \<Longrightarrow> ?thesis" by blast
qed

text \<open>The four ways a consumed result can go.\<close>

lemma consume_cases:
  obtains (ignored) "consumeRelocalizationResult S P n taken = (n, None)"
  | (discarded) g m where "taken = Some g" "rn_confirmation_count m = 0" "rn_state m = DEGRADED"
      "rn_pose_reliable m = rn_pose_reliable n" "rn_good_frames m = rn_good_frames n"
      "rn_bad_frames m = rn_bad_frames n" "rn_force_global m = rn_force_global n"
      "consumeRelocalizationResult S P n taken = (m, None)"
  | (confirming) g m where "taken = Some g" "accepted (confirmation_decision S P n g)"
      "rd_outcome (confirmation_decision S P n g) \<noteq> CONFIRMED"
      "rn_confirmation_count m = rd_confirmation_count (confirmation_decision S P n g)"
      "rn_confirmation_pose m = reading_correction S g" "rn_last_result_frame m = rr_frame_index (rg_result g)"
      "rn_state m = RelocalizationState.CONFIRMING" "rn_pose_reliable m = rn_pose_reliable n"
      "rn_good_frames m = rn_good_frames n" "rn_bad_frames m = rn_bad_frames n"
      "rn_force_global m = rn_force_global n" "consumeRelocalizationResult S P n taken = (m, None)"
  | (confirmed) g m where "taken = Some g" "accepted (confirmation_decision S P n g)" "rp_enabled P"
      "rd_outcome (confirmation_decision S P n g) = CONFIRMED"
      "rn_confirmation_count m = 0" "rn_state m = COOLDOWN" "rn_pose_reliable m" "rn_good_frames m = 0"
      "rn_bad_frames m = 0" "\<not> rn_force_global m"
      "rn_cooldown_until_frame m = rg_frame_index g + of_int (rp_cooldown_frames P)"
      "consumeRelocalizationResult S P n taken = (m, Some (recovered_pose S g))"
proof (cases "rp_enabled P \<and> taken \<noteq> None \<and> \<not> (rn_state n = IDLE \<and> rn_pose_reliable n \<and> \<not> rn_force_global n)")
  case False
  then show thesis by (intro ignored) (auto simp: consumeRelocalizationResult_def split: option.splits)
next
  case True
  then obtain g where g: "taken = Some g" by blast
  let ?d = "confirmation_decision S P n g"
  note unfolds = consumeRelocalizationResult_def Let_def g
  consider (dup) "rd_outcome ?d = DISCARD_DUPLICATE" | (disc) "rd_outcome ?d \<in> {DISCARD_IDENTITY, DISCARD_STALE, DISCARD_INVALID}"
    | (fin) "rd_outcome ?d = CONFIRMED" | (part) "rd_outcome ?d = RelocalizationConfirmationOutcome.CONFIRMING"
    by (cases "rd_outcome ?d") auto
  then show thesis
  proof cases
    case dup
    then show thesis using True duplicate_keeps_frame [OF dup] by (intro ignored) (auto simp: unfolds)
  next
    case disc
    then show thesis using True g by (intro discarded [OF g, of "fst (consumeRelocalizationResult S P n taken)"]) (auto simp: unfolds)
  next
    case fin
    then have acc: "accepted ?d" by (simp add: accepted_def)
    show thesis using True fin by (intro confirmed [OF g acc, of "fst (consumeRelocalizationResult S P n taken)"]) (auto simp: unfolds)
  next
    case part
    then have acc: "accepted ?d" by (simp add: accepted_def)
    show thesis using True part decision_accepted(3-5) [OF acc] by (intro confirming [OF g acc, of "fst (consumeRelocalizationResult S P n taken)"]) (auto simp: unfolds)
  qed
qed

lemma accepted_evolves:
  assumes "reloc_window S P n xs" and acc: "accepted (confirmation_decision S P n g)"
  shows "\<exists>ys. evolves (event_usable S P) (events_agree S P) xs (Consume (Some g)) ys \<and> ys \<noteq> [] \<and>
    last ys = Consume (Some g) \<and> int (length ys) = rd_confirmation_count (confirmation_decision S P n g)"
proof (cases "rd_confirmation_count (confirmation_decision S P n g) = 1")
  case True
  then show ?thesis using decision_accepted(1) [OF acc]
    by (intro exI [of _ "[Consume (Some g)]"]) (simp add: evolves_def event_usable_def)
next
  case False
  then have c: "rd_confirmation_count (confirmation_decision S P n g) = rn_confirmation_count n + 1"
    "confirm_consistent S P n g" using decision_accepted(8) [OF acc] by auto
  then have "xs \<noteq> []" using assms(1) by (auto simp: reloc_window_def confirm_consistent_def)
  then obtain g0 where g0: "last xs = Consume (Some g0)" "rn_confirmation_pose n = reading_correction S g0"
    "rn_last_result_frame n = rr_frame_index (rg_result g0)" using assms(1) by (auto simp: reloc_window_def)
  have "events_agree S P (last xs) (Consume (Some g))"
    using c(2) g0 decision_accepted(2) [OF acc]
    by (simp add: events_agree_def readings_agree_def confirm_consistent_def)
  then show ?thesis using \<open>xs \<noteq> []\<close> c(1) assms(1) decision_accepted(1) [OF acc]
    by (intro exI [of _ "xs @ [Consume (Some g)]"]) (simp add: evolves_def event_usable_def reloc_window_def)
qed

lemma update_keeps_confirmation:
  "rn_confirmation_count (updateRelocalization P n f) \<in> {0, rn_confirmation_count n}"
  "rn_confirmation_pose (updateRelocalization P n f) = rn_confirmation_pose n"
  "rn_last_result_frame (updateRelocalization P n f) = rn_last_result_frame n"
  by (simp_all add: updateRelocalization_def degrade_and_search_def submit_search_def Let_def)

lemma reloc_window_empty [simp]: "reloc_window S P n [] \<longleftrightarrow> rn_confirmation_count n = 0"
  by (auto simp: reloc_window_def)

lemma reloc_window_step:
  assumes w: "reloc_window S P n xs"
  shows "\<exists>ys. reloc_window S P (fst (reloc_step S P n e)) ys \<and>
    evolves (event_usable S P) (events_agree S P) xs e ys"
proof -
  have dropped: "rn_confirmation_count (fst (reloc_step S P n e)) = 0 \<Longrightarrow> ?thesis"
    by (intro exI [of _ "[]"]) (simp add: evolves_def)
  have kept: "rn_confirmation_count (fst (reloc_step S P n e)) = rn_confirmation_count n \<Longrightarrow>
      rn_confirmation_pose (fst (reloc_step S P n e)) = rn_confirmation_pose n \<Longrightarrow>
      rn_last_result_frame (fst (reloc_step S P n e)) = rn_last_result_frame n \<Longrightarrow> ?thesis"
    using w by (intro exI [of _ xs]) (simp add: evolves_def reloc_window_def)
  show ?thesis
  proof (cases e)
    case (Consume taken)
    show ?thesis
    proof (rule consume_cases [of S P n taken])
      assume "consumeRelocalizationResult S P n taken = (n, None)"
      then show ?thesis using Consume by (intro kept) simp_all
    next
      fix m assume "rn_confirmation_count m = 0" "consumeRelocalizationResult S P n taken = (m, None)"
      then show ?thesis using Consume by (intro dropped) simp
    next
      fix g m assume g: "taken = Some g" and acc: "accepted (confirmation_decision S P n g)"
        and m: "rn_confirmation_count m = rd_confirmation_count (confirmation_decision S P n g)"
        "rn_confirmation_pose m = reading_correction S g" "rn_last_result_frame m = rr_frame_index (rg_result g)"
        "consumeRelocalizationResult S P n taken = (m, None)"
      from accepted_evolves [OF w acc] obtain ys where
        "evolves (event_usable S P) (events_agree S P) xs (Consume (Some g)) ys" "ys \<noteq> []"
        "last ys = Consume (Some g)" "int (length ys) = rd_confirmation_count (confirmation_decision S P n g)"
        by blast
      then show ?thesis using Consume g m by (intro exI [of _ ys]) (simp add: reloc_window_def)
    next
      fix g m assume "rn_confirmation_count m = 0"
        "consumeRelocalizationResult S P n taken = (m, Some (recovered_pose S g))"
      then show ?thesis using Consume by (intro dropped) simp
    qed
  next
    case (Update f)
    show ?thesis
    proof (cases "rn_confirmation_count (updateRelocalization P n f) = 0")
      case True
      then show ?thesis using Update by (intro dropped) simp
    next
      case False
      then show ?thesis using Update update_keeps_confirmation [of P n f] by (intro kept) simp_all
    qed
  next
    case ServiceRelocalize
    then show ?thesis by (cases "rp_enabled P") (intro dropped kept; simp add: relocalizeService_def)+
  next
    case LoopClosure
    then show ?thesis by (intro kept) (simp_all add: loop_closure_degraded_def)
  qed (rule dropped; simp add: resetService_def runtime_map_replaced_def time_epoch_reset_def)+
qed

interpretation recovery: evidence_machine "reloc_step S P" "reloc_window S P" "event_usable S P" "events_agree S P"
    "\<lambda>pose. pose \<noteq> None" "max 2 (rp_confirm_frames P)" for S P
proof
  fix n xs and e :: "'a reloc_event"
  assume w: "reloc_window S P n xs"
  show "\<exists>ys. reloc_window S P (fst (reloc_step S P n e)) ys \<and> evolves (event_usable S P) (events_agree S P) xs e ys"
    by (rule reloc_window_step [OF w])
  assume pos: "snd (reloc_step S P n e) \<noteq> None"
  then obtain taken where e: "e = Consume taken" by (cases e) auto
  show "\<exists>ys. evolves (event_usable S P) (events_agree S P) xs e ys \<and> max 2 (rp_confirm_frames P) \<le> int (length ys)"
  proof (rule consume_cases [of S P n taken])
    fix g assume g: "taken = Some g" and acc: "accepted (confirmation_decision S P n g)"
      and fin: "rd_outcome (confirmation_decision S P n g) = CONFIRMED"
    from accepted_evolves [OF w acc] obtain ys where
      "evolves (event_usable S P) (events_agree S P) xs (Consume (Some g)) ys"
      "int (length ys) = rd_confirmation_count (confirmation_decision S P n g)" by blast
    then show ?thesis using e g fin decision_accepted(6,7) [OF acc] by (intro exI [of _ ys]) simp
  qed (use pos e in simp_all)
qed

section \<open>Recovery of the pose\<close>

text \<open>The number of healthy localisation updates since the last unhealthy one.\<close>

definition streak_step :: "nat \<Rightarrow> 'p reloc_event \<Rightarrow> nat" where
  "streak_step k e = (case e of Update f \<Rightarrow> if rf_ndt_healthy f then Suc k else 0 | _ \<Rightarrow> k)"

definition healthy_streak :: "'p reloc_event list \<Rightarrow> nat" where
  "healthy_streak es = foldl streak_step 0 es"

definition streak_inv :: "RelocalizationParams \<Rightarrow> 'p RelocalizationNode \<Rightarrow> nat \<Rightarrow> bool" where
  "streak_inv P n k \<longleftrightarrow> rn_good_frames n \<le> int k \<and> (rp_enabled P \<or> rn_good_frames n = 0)"

lemma submit_search_keeps [simp]:
  "rn_good_frames (submit_search P n f) = rn_good_frames n"
  "rn_bad_frames (submit_search P n f) = rn_bad_frames n"
  "rn_pose_reliable (submit_search P n f) = rn_pose_reliable n"
  "rn_force_global (submit_search P n f) = rn_force_global n"
  "rn_state n \<noteq> IDLE \<Longrightarrow> rn_state (submit_search P n f) \<noteq> IDLE"
  by (simp_all add: submit_search_def Let_def)

lemma degrade_and_search_keeps [simp]:
  "rn_good_frames (degrade_and_search P n f) = rn_good_frames n"
  "rn_bad_frames (degrade_and_search P n f) = rn_bad_frames n"
  "rn_force_global (degrade_and_search P n f) = rn_force_global n"
  "\<not> rn_pose_reliable n \<Longrightarrow> \<not> rn_pose_reliable (degrade_and_search P n f)"
  by (simp_all add: degrade_and_search_def Let_def)

lemma degrade_after_trigger:
  "rp_trigger_frames P \<le> rn_bad_frames n \<Longrightarrow>
   \<not> rn_pose_reliable (degrade_and_search P n f) \<and> rn_state (degrade_and_search P n f) \<noteq> IDLE"
  by (simp add: degrade_and_search_def Let_def)

lemma consume_keeps_streak:
  assumes "streak_inv P n k"
  shows "streak_inv P (fst (consumeRelocalizationResult S P n taken)) k"
  by (rule consume_cases [of S P n taken]) (use assms in \<open>auto simp: streak_inv_def\<close>)

lemma streak_inv_step: "streak_inv P n k \<Longrightarrow> streak_inv P (fst (reloc_step S P n e)) (streak_step k e)"
proof (cases e)
  case (Consume taken)
  then show "streak_inv P n k \<Longrightarrow> ?thesis" using consume_keeps_streak by (simp add: streak_step_def)
next
  case (Update f)
  have "rn_good_frames (updateRelocalization P n f) \<in>
      {if rf_ndt_healthy f then rn_good_frames n + 1 else 0, if rp_enabled P then 0 else rn_good_frames n}"
    by (cases "rf_ndt_healthy f"; cases "rp_enabled P") (simp_all add: updateRelocalization_def Let_def)
  moreover have "\<not> rp_enabled P \<Longrightarrow> updateRelocalization P n f = n" by (simp add: updateRelocalization_def)
  ultimately show "streak_inv P n k \<Longrightarrow> ?thesis"
    using Update by (auto simp: streak_step_def streak_inv_def split: if_splits)
qed (auto simp: streak_inv_def streak_step_def relocalizeService_def loop_closure_degraded_def resetService_def
      runtime_map_replaced_def time_epoch_reset_def)

lemma run_streak: "streak_inv P (run_state (reloc_step S P) (reloc_init S) es) (healthy_streak es)"
proof (induction es rule: rev_induct)
  case Nil
  show ?case by (simp add: streak_inv_def healthy_streak_def reloc_init_def)
next
  case (snoc e es)
  show ?case using streak_inv_step [OF snoc.IH] by (simp add: run_state_append healthy_streak_def)
qed

text \<open>One event makes an unreliable pose reliable only in these ways.\<close>

lemma regained_step:
  assumes inv: "streak_inv P n k" and "\<not> rn_pose_reliable n"
    and "rn_pose_reliable (fst (reloc_step S P n e))"
  shows "snd (reloc_step S P n e) \<noteq> None \<or>
    (\<exists>f. e = Update f \<and> rf_ndt_healthy f \<and> 3 \<le> streak_step k e) \<or>
    e = ServiceReset \<or> e = TimeRollback \<or> (e = MapReplaced \<and> \<not> rp_enabled P)"
proof (cases e)
  case (Consume taken)
  then show ?thesis using assms(2,3) by (cases rule: consume_cases [of S P n taken]) auto
next
  case (Update f)
  have "rf_ndt_healthy f \<and> 2 \<le> rn_good_frames n"
  proof (rule ccontr)
    assume "\<not> ?thesis"
    then have "\<not> rn_pose_reliable (updateRelocalization P n f)"
      using assms(2) by (auto simp: updateRelocalization_def Let_def)
    then show False using assms(3) Update by simp
  qed
  then show ?thesis using inv Update by (simp add: streak_step_def streak_inv_def)
qed (use assms in \<open>simp_all add: relocalizeService_def loop_closure_degraded_def resetService_def
      runtime_map_replaced_def time_epoch_reset_def split: if_splits\<close>)

lemma unhealthy_update:
  assumes "rp_enabled P" and "\<not> rf_ndt_healthy f"
  shows "rn_bad_frames (updateRelocalization P n f) = rn_bad_frames n + 1"
    and "rp_trigger_frames P \<le> rn_bad_frames n + 1 \<Longrightarrow>
      \<not> rn_pose_reliable (updateRelocalization P n f) \<and> rn_state (updateRelocalization P n f) \<noteq> IDLE"
  using assms degrade_after_trigger [of P "n\<lparr>rn_good_frames := 0, rn_bad_frames := rn_bad_frames n + 1\<rparr>" f]
  by (simp_all add: updateRelocalization_def)

lemma unhealthy_run:
  assumes "rp_enabled P" and "\<forall>f \<in> set fs. \<not> rf_ndt_healthy f"
  shows "rn_bad_frames (run_state (reloc_step S P) n (map Update fs)) = rn_bad_frames n + int (length fs)"
  using assms(2)
proof (induction fs arbitrary: n)
  case (Cons f fs)
  then show ?case using unhealthy_update(1) [OF assms(1), of f n] by simp
qed simp

section \<open>Properties\<close>

text \<open>Poses without rotation, for the concrete runs below.\<close>

definition planar_ops :: "vec3 se3_ops" where
  "planar_ops =
     \<lparr>se3_translation = (\<lambda>p. p), se3_rotation = (\<lambda>p i j. Fin (if i = j then 1 else 0)),
      se3_mul = (\<lambda>p q. \<lparr>v3x = v3x p + v3x q, v3y = v3y p + v3y q, v3z = v3z p + v3z q\<rparr>),
      se3_inverse = (\<lambda>p. \<lparr>v3x = - v3x p, v3y = - v3y p, v3z = - v3z p\<rparr>), se3_identity = vec3_zero,
      se3_of_translation = (\<lambda>t. t)\<rparr>"

definition demo_pose :: "real \<Rightarrow> vec3" where
  "demo_pose x = \<lparr>v3x = Fin x, v3y = Fin 0, v3z = Fin 0\<rparr>"

definition demo_reading :: "u64 \<Rightarrow> dbl \<Rightarrow> vec3 RelocalizationReading" where
  "demo_reading frame stamp =
     \<lparr>rg_frame_index = frame, rg_stamp_sec = stamp,
      rg_result = \<lparr>rr_valid = True, rr_frame_index = frame, rr_map_generation = 4, rr_pose_version = 2,
        rr_stamp_sec = stamp, rr_mode = LOCAL, rr_reference_pose = demo_pose 1, rr_pose = demo_pose 3,
        rr_fitness = Fin 0.2, rr_probability = Fin 0.9, rr_fixed_yaw_source = True, rr_fixed_yaw_target = True,
        rr_fixed_yaw_verified = False, rr_target_snapshot_id = 0, rr_yaw_authority_generation = 0,
        rr_yaw_reference_hash = [], rr_reason = []\<rparr>,
      rg_yaw_mode = RAIL_AUTHORITY,
      rg_rail_authority = rail_init\<lparr>ra_valid := True,
        ra_reference := default_RailYawReference\<lparr>yr_map_frame_uuid := ''m'', yr_reference_hash := ''h''\<rparr>\<rparr>,
      rg_map_frame_uuid = ''m'', rg_solver_target_snapshot_id = 9, rg_solver_valid = True, rg_solver_fitness = Fin 0.1,
      rg_solver_pose = demo_pose 3, rg_solver_reason = [], rg_map_rebuild_generation = 4, rg_keyframe_pose_version = 2,
      rg_current_pose = demo_pose 1\<rparr>"

definition demo_unhealthy :: "u64 \<Rightarrow> RelocalizationFrame" where
  "demo_unhealthy frame =
     \<lparr>rf_frame_index = frame, rf_ndt_healthy = False, rf_worker_busy = False, rf_map_available = True,
      rf_seeds_empty = False, rf_submitted = True\<rparr>"

definition demo_healthy :: "u64 \<Rightarrow> RelocalizationFrame" where
  "demo_healthy frame = demo_unhealthy frame\<lparr>rf_ndt_healthy := True\<rparr>"

text \<open>The demo run: a requested global search whose second consistent result is installed.\<close>

definition demo_recovery :: "vec3 reloc_event list" where
  "demo_recovery = [ServiceRelocalize, Consume (Some (demo_reading 1 (Fin 1))), Consume (Some (demo_reading 2 (Fin 2)))]"

lemma demo_reading_sel:
  "rg_frame_index (demo_reading f t) = f" "rg_stamp_sec (demo_reading f t) = t"
  "rg_yaw_mode (demo_reading f t) = RAIL_AUTHORITY" "rg_map_rebuild_generation (demo_reading f t) = 4"
  "rg_keyframe_pose_version (demo_reading f t) = 2" "ra_valid (rg_rail_authority (demo_reading f t))"
  "ra_generation (rg_rail_authority (demo_reading f t)) = 0"
  "yr_reference_hash (ra_reference (rg_rail_authority (demo_reading f t))) = ''h''"
  "rr_frame_index (rg_result (demo_reading f t)) = f"
  by (simp_all add: demo_reading_def rail_init_def)

lemma demo_verified_sel:
  "rr_valid (rail_verify_result (demo_reading f t))" "rr_frame_index (rail_verify_result (demo_reading f t)) = f"
  "rr_map_generation (rail_verify_result (demo_reading f t)) = 4"
  "rr_pose_version (rail_verify_result (demo_reading f t)) = 2"
  "rr_stamp_sec (rail_verify_result (demo_reading f t)) = t" "rr_mode (rail_verify_result (demo_reading f t)) = LOCAL"
  "rr_reference_pose (rail_verify_result (demo_reading f t)) = demo_pose 1"
  "rr_pose (rail_verify_result (demo_reading f t)) = demo_pose 3"
  "rr_fitness (rail_verify_result (demo_reading f t)) = Fin 0.1"
  "rr_fixed_yaw_verified (rail_verify_result (demo_reading f t))"
  "rr_target_snapshot_id (rail_verify_result (demo_reading f t)) = 9"
  "rr_yaw_authority_generation (rail_verify_result (demo_reading f t)) = 0"
  "rr_yaw_reference_hash (rail_verify_result (demo_reading f t)) = ''h''"
  by (simp_all add: rail_verify_result_def demo_reading_def default_RailYawReference_def rail_init_def Let_def)

lemmas demo_sel = demo_reading_sel demo_verified_sel

lemma demo_pose_finite: "poseFinite planar_ops (demo_pose x)"
  by (simp add: poseFinite_def planar_ops_def demo_pose_def cpp_simps)

lemma demo_xy: "rail_correction_xy planar_ops (rail_verify_result (demo_reading f t)) = \<lparr>v2x = Fin 2, v2y = Fin 0\<rparr>"
  by (simp add: rail_correction_xy_def demo_sel planar_ops_def demo_pose_def cpp_simps)

lemma demo_decision:
  assumes "rn_last_result_frame n < f" and "0 < t"
  shows "confirmation_decision planar_ops default_RelocalizationParams n (demo_reading f (Fin t)) =
    confirm_step (confirmation_config default_RelocalizationParams (rail_verify_result (demo_reading f (Fin t))))
      (confirmation_input n (demo_reading f (Fin t)))
      (0 < rn_confirmation_count n \<and> poseFinite planar_ops (rn_confirmation_pose n) \<and>
       vec2_norm (vec2_sub \<lparr>v2x = Fin 2, v2y = Fin 0\<rparr> (vec3_head2 (rn_confirmation_pose n))) \<le> Fin 0.35)
      ''rail_xy_candidate_confirmed'' ''rail_xy_candidate_consistent'' ''rail_xy_confirmation_restarted''
      (default_RelocalizationConfirmationDecision planar_ops
         \<lparr>rd_update_last_result_frame := True, rd_last_result_frame := f, rd_correction := demo_pose 2\<rparr>)"
proof -
  let ?c = "confirmation_config default_RelocalizationParams (rail_verify_result (demo_reading f (Fin t)))"
  let ?i = "confirmation_input n (demo_reading f (Fin t))"
  have c: "rc_required_confirmations ?c = 2" "rc_maximum_age_frames ?c = 8" "rc_maximum_age_sec ?c = Fin 0.5"
    "rc_maximum_translation_delta_m ?c = Fin 0.35"
    by (simp_all add: confirmation_config_def demo_sel default_RelocalizationParams_def)
  have i: "ri_result ?i = rail_verify_result (demo_reading f (Fin t))" "ri_current_frame_index ?i = f"
    "ri_current_stamp_sec ?i = Fin t" "ri_expected_map_generation ?i = 4" "ri_expected_pose_version ?i = 2"
    "ri_expected_yaw_authority_generation ?i = 0" "ri_expected_yaw_reference_hash ?i = ''h''"
    "ri_last_result_frame ?i = rn_last_result_frame n" "ri_previous_confirmation_count ?i = rn_confirmation_count n"
    "ri_previous_correction ?i = rn_confirmation_pose n"
    by (simp_all add: confirmation_input_def demo_sel)
  have "evaluateRailRelocalizationConfirmation planar_ops ?i ?c = confirm_step ?c ?i
      (0 < ri_previous_confirmation_count ?i \<and> poseFinite planar_ops (ri_previous_correction ?i) \<and>
       vec2_norm (vec2_sub (rail_correction_xy planar_ops (ri_result ?i))
         (vec3_head2 (se3_translation planar_ops (ri_previous_correction ?i)))) \<le> rc_maximum_translation_delta_m ?c)
      ''rail_xy_candidate_confirmed'' ''rail_xy_candidate_consistent'' ''rail_xy_confirmation_restarted''
      (default_RelocalizationConfirmationDecision planar_ops
         \<lparr>rd_update_last_result_frame := True, rd_last_result_frame := rr_frame_index (ri_result ?i),
          rd_correction := se3_of_translation planar_ops
            \<lparr>v3x = v2x (rail_correction_xy planar_ops (ri_result ?i)),
             v3y = v2y (rail_correction_xy planar_ops (ri_result ?i)), v3z = Fin 0\<rparr>\<rparr>)"
    by (rule rail_evaluates)
      (use assms in \<open>simp_all add: c i demo_sel demo_xy demo_pose_finite rail_identity_verified_def result_stale_def
        vec2_allFinite_def not_le Let_def\<close>)
  moreover have "se3_translation planar_ops p = p" "se3_of_translation planar_ops p = p" for p
    by (simp_all add: planar_ops_def)
  ultimately show ?thesis
    by (simp add: confirmation_decision_def demo_sel demo_xy c i demo_pose_def Let_def)
qed

lemma demo_recovery_installs:
  "run_outputs (reloc_step planar_ops default_RelocalizationParams) (reloc_init planar_ops) demo_recovery ! 2 \<noteq> None"
proof -
  let ?P = default_RelocalizationParams
  have enabled: "rp_enabled ?P" and two: "rp_confirm_frames ?P = 2" by (simp_all add: default_RelocalizationParams_def)
  define n0 :: "vec3 RelocalizationNode" where "n0 = relocalizeService planar_ops ?P (reloc_init planar_ops)"
  have n0: "rn_force_global n0" "rn_confirmation_count n0 = 0" "rn_last_result_frame n0 = 0"
    by (simp_all add: n0_def relocalizeService_def reloc_init_def enabled)
  define n1 where "n1 = fst (consumeRelocalizationResult planar_ops ?P n0 (Some (demo_reading 1 (Fin 1))))"
  have n1: "rn_state n1 = RelocalizationState.CONFIRMING" "rn_confirmation_count n1 = 1" "rn_last_result_frame n1 = 1"
    "rn_confirmation_pose n1 = demo_pose 2"
    by (simp_all add: n1_def consumeRelocalizationResult_def enabled n0 demo_decision confirm_step_def
        confirmation_config_def two confirmation_input_def Let_def)
  have near: "vec2_norm (vec2_sub \<lparr>v2x = Fin 2, v2y = Fin 0\<rparr> (vec3_head2 (demo_pose 2))) \<le> Fin 0.35"
    by (simp add: demo_pose_def cpp_simps)
  have "snd (consumeRelocalizationResult planar_ops ?P n1 (Some (demo_reading 2 (Fin 2)))) \<noteq> None"
    using near by (simp add: consumeRelocalizationResult_def enabled n1 demo_decision demo_pose_finite confirm_step_def
        confirmation_config_def two confirmation_input_def Let_def)
  then show ?thesis
    by (simp add: demo_recovery_def n0_def n1_def eval_nat_numeral)
qed

definition demo_self_recovery :: "vec3 reloc_event list" where
  "demo_self_recovery =
     [LoopClosure, Update (demo_healthy 1), Update (demo_healthy 2), Update (demo_healthy 3)]"

text \<open>C14. No single search result moves the pose: whenever the node installs a relocalised pose, the consumed results
  contain a chain of at least two and at least the configured number of readings, each of the current map and
  pose generation, fresh, valid, finite and (in rail mode) verified at the authoritative yaw, with strictly
  increasing frame numbers and corrections that agree within the configured tolerances.\<close>

theorem relocalization_backed:
  assumes "k < length es" and "run_outputs (reloc_step S P) (reloc_init S) es ! k \<noteq> None"
  shows "\<exists>ys. subseq ys (take (Suc k) es) \<and> list_all (event_usable S P) ys \<and> successively (events_agree S P) ys \<and>
    2 \<le> length ys \<and> rp_confirm_frames P \<le> int (length ys)"
  using recovery.positive_backed [of S P "reloc_init S" k es] assms by (auto simp: reloc_init_def)

theorem relocalization_backed_witness:
  "run_outputs (reloc_step planar_ops default_RelocalizationParams) (reloc_init planar_ops) demo_recovery ! 2 \<noteq> None \<and>
   (\<exists>ys. subseq ys (take (Suc 2) demo_recovery) \<and>
      list_all (event_usable planar_ops default_RelocalizationParams) ys \<and>
      successively (events_agree planar_ops default_RelocalizationParams) ys \<and>
      2 \<le> length ys \<and> rp_confirm_frames default_RelocalizationParams \<le> int (length ys))"
proof -
  have len: "2 < length demo_recovery" by (simp add: demo_recovery_def)
  show ?thesis using demo_recovery_installs relocalization_backed [OF len demo_recovery_installs] by blast
qed

text \<open>C15. A pose that lost its reliability regains it only by a confirmed relocalisation, by three healthy
  localisation updates with no unhealthy one between them, by an operator reset or a time rollback that starts a new
  session, or by a map replacement with relocalisation switched off.\<close>

theorem pose_reliability_regained:
  assumes "k < length es" and "\<not> rn_pose_reliable (run_state (reloc_step S P) (reloc_init S) (take k es))"
    and "rn_pose_reliable (run_state (reloc_step S P) (reloc_init S) (take (Suc k) es))"
  shows "run_outputs (reloc_step S P) (reloc_init S) es ! k \<noteq> None \<or>
    (\<exists>f. es ! k = Update f \<and> rf_ndt_healthy f \<and> 3 \<le> healthy_streak (take (Suc k) es)) \<or>
    es ! k = ServiceReset \<or> es ! k = TimeRollback \<or> (es ! k = MapReplaced \<and> \<not> rp_enabled P)"
  using regained_step [where e = "es ! k" and S = S, OF run_streak [of P S "take k es"]] assms
  by (simp add: take_Suc_conv_app_nth run_state_append run_outputs_nth healthy_streak_def)

theorem pose_reliability_regained_witness:
  "\<not> rn_pose_reliable (run_state (reloc_step planar_ops default_RelocalizationParams) (reloc_init planar_ops)
      (take 3 demo_self_recovery)) \<and>
   rn_pose_reliable (run_state (reloc_step planar_ops default_RelocalizationParams) (reloc_init planar_ops)
      (take (Suc 3) demo_self_recovery)) \<and>
   3 \<le> healthy_streak (take (Suc 3) demo_self_recovery)"
proof -
  have k: "3 < length demo_self_recovery" by (simp add: demo_self_recovery_def)
  have states: "\<not> rn_pose_reliable (run_state (reloc_step planar_ops default_RelocalizationParams) (reloc_init planar_ops)
      (take 3 demo_self_recovery))"
    "rn_pose_reliable (run_state (reloc_step planar_ops default_RelocalizationParams) (reloc_init planar_ops)
      (take (Suc 3) demo_self_recovery))"
    "run_outputs (reloc_step planar_ops default_RelocalizationParams) (reloc_init planar_ops) demo_self_recovery ! 3 = None"
    by (simp_all add: demo_self_recovery_def eval_nat_numeral updateRelocalization_def degrade_and_search_def
        loop_closure_degraded_def reloc_init_def demo_healthy_def demo_unhealthy_def default_RelocalizationParams_def Let_def)
  then show ?thesis using pose_reliability_regained [OF k states(1,2)]
    by (simp add: demo_self_recovery_def eval_nat_numeral)
qed

text \<open>Localisation degrades in bounded time: from any state with a non-negative counter, the configured number of
  unhealthy updates in a row leaves the pose unreliable and the recovery out of its idle state.\<close>

theorem unhealthy_frames_degrade:
  assumes "rp_enabled P" and "0 \<le> rn_bad_frames n" and "fs \<noteq> []" and "rp_trigger_frames P \<le> int (length fs)"
    and "\<forall>f \<in> set fs. \<not> rf_ndt_healthy f"
  shows "\<not> rn_pose_reliable (run_state (reloc_step S P) n (map Update fs)) \<and>
    rn_state (run_state (reloc_step S P) n (map Update fs)) \<noteq> IDLE"
proof -
  obtain gs f where fs: "fs = gs @ [f]" using assms(3) by (cases fs rule: rev_cases) auto
  have "rn_bad_frames (run_state (reloc_step S P) n (map Update gs)) = rn_bad_frames n + int (length gs)"
    using unhealthy_run [OF assms(1), of gs S n] assms(5) by (simp add: fs)
  then show ?thesis
    using unhealthy_update(2) [OF assms(1), of f "run_state (reloc_step S P) n (map Update gs)"] assms(2,4,5)
    by (simp add: fs run_state_append)
qed

theorem unhealthy_frames_degrade_witness:
  "\<not> rn_pose_reliable (run_state (reloc_step planar_ops default_RelocalizationParams) (reloc_init planar_ops)
     (map Update (map demo_unhealthy [1, 2, 3, 4, 5])))"
  using unhealthy_frames_degrade [of default_RelocalizationParams "reloc_init planar_ops"
      "map demo_unhealthy [1, 2, 3, 4, 5]" planar_ops]
  by (simp add: default_RelocalizationParams_def reloc_init_def demo_unhealthy_def)

end
