(* ===== verification/Safety_Status.thy ===== *)
theory Safety_Status
  imports Avoidance_Decision Anomaly_Review Alarm_Heartbeat Relocalization
begin

text \<open>
  Producer and consumer of the safety status. \<^verbatim>\<open>NdtSlamNode::composeCargoSafetyStatus\<close> (\<^verbatim>\<open>ndt_slam.cpp\<close>) combines the
  hook evidence, the evaluator's verdict, the anomaly-review episode and the avoidance decision
  into one status message; \<^verbatim>\<open>AlarmHeartbeatNode::statusCallback\<close> (\<^verbatim>\<open>cargo_alarm_heartbeat_node.cpp\<close>) validates
  the message and feeds the alarm state machine. The two run in different processes and agree only through
  the message, so the properties here are the compatibility of the two ends. Of the message, the fields
  the two functions read or write are modelled; the members of the node that the producer reads form
  the record \<open>SafetyStatusContext\<close>.
\<close>

record CargoSafetyStatus =
  st_stamp_sec :: dbl
  st_schema_version :: int
  st_valid :: bool
  st_warning_valid :: bool
  st_requested_alarm_code :: int
  st_warning_code :: int
  st_fault_code :: int
  st_fault_mask :: u32
  st_localization_valid :: bool
  st_hook_signal_role :: int
  st_hook_signal_valid :: bool
  st_hook_signal_conflict :: bool
  st_cargo_valid :: bool
  st_cargo_track_id :: u32
  st_obstacle_track_id :: u32
  st_obstacle_validated_streak :: u32
  st_obstacle_large_geometry_valid :: bool
  st_obstacle_provenance_valid :: bool
  st_hook_load_state :: int
  st_hook_voltage :: dbl
  st_no_cargo_confirmed :: bool
  st_cargo_bottom_z_map :: dbl
  st_cargo_bottom_uncertainty_m :: dbl
  st_obstacle_valid :: bool
  st_obstacle_count :: u32
  st_nearest_obstacle_distance_m :: dbl
  st_obstacle_top_z_map :: dbl
  st_obstacle_uncertainty_m :: dbl
  st_conservative_vertical_clearance_m :: dbl
  st_confidence :: dbl
  st_evidence_state :: int
  st_reason :: string

record SafetyStatusContext =
  cx_running :: bool
  cx_tracking_lost :: bool
  cx_relocalization_pose_reliable :: bool
  cx_relocalization_state :: RelocalizationState
  cx_relocalization_enabled :: bool
  cx_hook_load_signal_role :: HookLoadSignalRole
  cx_hook_load_signal_role_config_valid :: bool
  cx_cargo_safety_config_error :: bool
  cx_cargo_lifecycle_id :: u64
  cx_avoidance_pose_generation :: u64
  cx_static_evidence_epoch :: u64

text \<open>The arguments of \<^verbatim>\<open>composeCargoSafetyStatus\<close> besides the message.\<close>

record SafetyStatusArgs =
  sa_visual_conflict :: bool
  sa_evaluator_fault :: CargoSafetyFault
  sa_warning_code :: int
  sa_warning_valid :: bool
  sa_evidence_reason :: string
  sa_evidence_initialized :: bool
  sa_provisional_positive_warning :: bool
  sa_formal_clear_authorized :: bool
  sa_apply_anomaly_review_episode :: bool

section \<open>The producer\<close>

fun hook_role_value :: "HookLoadSignalRole \<Rightarrow> int" where
  "hook_role_value HookLoadSignalRole.DISABLED = 0"
| "hook_role_value HookLoadSignalRole.REQUIRED = 1"
| "hook_role_value HookLoadSignalRole.AUXILIARY = 2"

text \<open>The cast of the message byte to \<^verbatim>\<open>HookLoadState\<close>; a byte without an enumerator compares unequal to
  EMPTY and LOADED, which is all the evidence policy asks.\<close>

definition hook_state_of :: "int \<Rightarrow> HookLoadState" where
  "hook_state_of b =
     (if b = 2 then HookLoadState.EMPTY else if b = 3 then HookLoadState.LOADED
      else if b = 1 then HookLoadState.INHIBIT else HookLoadState.UNKNOWN)"

definition status_gravity_valid :: "CargoSafetyStatus \<Rightarrow> bool" where
  "status_gravity_valid st \<longleftrightarrow>
     st_hook_signal_valid st \<and> isfinite (st_hook_voltage st) \<and>
     (st_hook_load_state st = 2 \<or> st_hook_load_state st = 3)"

definition status_localization_valid :: "SafetyStatusContext \<Rightarrow> bool" where
  "status_localization_valid x \<longleftrightarrow>
     \<not> cx_tracking_lost x \<and> cx_relocalization_pose_reliable x \<and>
     (cx_relocalization_state x = IDLE \<or> \<not> cx_relocalization_enabled x)"

definition status_hook_evidence ::
  "SafetyStatusContext \<Rightarrow> CargoSafetyStatus \<Rightarrow> SafetyStatusArgs \<Rightarrow> HookLoadEvidenceDecision" where
  "status_hook_evidence x st a = evaluateHookLoadEvidence
     \<lparr>he_role = cx_hook_load_signal_role x, he_gravity_valid = status_gravity_valid st,
      he_gravity_state = hook_state_of (st_hook_load_state st), he_lidar_cargo_valid = st_cargo_valid st,
      he_lidar_no_cargo_confirmed = (st_no_cargo_confirmed st \<and> \<not> sa_visual_conflict a),
      he_lidar_track_locked = st_cargo_valid st, he_lidar_geometry_valid = st_cargo_valid st,
      he_lidar_height_valid = st_cargo_valid st\<rparr>"

definition status_warning_code_valid :: "SafetyStatusArgs \<Rightarrow> bool" where
  "status_warning_code_valid a \<longleftrightarrow>
     sa_warning_code a = 14 \<or> sa_warning_code a = 17 \<or> sa_warning_code a = 18 \<or> sa_warning_code a = 29"

definition finite_contract_error :: "CargoSafetyStatus \<Rightarrow> bool" where
  "finite_contract_error st \<longleftrightarrow>
     (st_cargo_valid st \<and>
      (\<not> isfinite (st_cargo_bottom_z_map st) \<or> \<not> isfinite (st_cargo_bottom_uncertainty_m st))) \<or>
     (st_obstacle_valid st \<and> 0 < st_obstacle_count st \<and>
      (\<not> isfinite (st_nearest_obstacle_distance_m st) \<or> \<not> isfinite (st_obstacle_top_z_map st) \<or>
       \<not> isfinite (st_obstacle_uncertainty_m st) \<or>
       \<not> isfinite (st_conservative_vertical_clearance_m st)))"

definition status_internal_fault ::
  "SafetyStatusContext \<Rightarrow> CargoSafetyStatus \<Rightarrow> SafetyStatusArgs \<Rightarrow> bool" where
  "status_internal_fault x st a \<longleftrightarrow>
     cx_cargo_safety_config_error x \<or> \<not> cx_hook_load_signal_role_config_valid x \<or>
     sa_evaluator_fault a = CargoSafetyFault.INTERNAL_ERROR \<or>
     (sa_warning_valid a \<and> \<not> status_warning_code_valid a) \<or> finite_contract_error st"

definition use_provisional_warning ::
  "SafetyStatusContext \<Rightarrow> CargoSafetyStatus \<Rightarrow> SafetyStatusArgs \<Rightarrow> bool" where
  "use_provisional_warning x st a \<longleftrightarrow>
     sa_provisional_positive_warning a \<and> status_localization_valid x \<and> status_gravity_valid st \<and>
     st_hook_load_state st = 3 \<and> \<not> status_internal_fault x st a \<and> sa_warning_valid a \<and>
     (sa_warning_code a = 17 \<or> sa_warning_code a = 18 \<or> sa_warning_code a = 29)"

definition status_decision_input ::
  "SafetyStatusContext \<Rightarrow> CargoSafetyStatus \<Rightarrow> SafetyStatusArgs \<Rightarrow> CargoSafetyDecisionInput" where
  "status_decision_input x st a =
     (let gravity = status_gravity_valid st;
          h = status_hook_evidence x st a;
          role = cx_hook_load_signal_role x;
          hook_empty = (gravity \<and> st_hook_load_state st = 2);
          safe_empty = hd_lidar_empty_accepted h;
          lidar_cargo_accepted = hd_lidar_cargo_accepted h;
          provisional = use_provisional_warning x st a
      in \<lparr>di_system_ready = (cx_running x \<and> \<not> deq (st_stamp_sec st) (Fin 0) \<and> sa_evidence_initialized a),
          di_localization_valid = status_localization_valid x,
          di_hook_signal_role = role, di_gravity_valid = gravity,
          di_gravity_empty = (gravity \<and> st_hook_load_state st = 2),
          di_gravity_loaded = (gravity \<and> st_hook_load_state st = 3),
          di_gravity_conflict = hd_gravity_conflict h, di_safe_empty = safe_empty,
          di_hook_loaded = (role \<noteq> HookLoadSignalRole.DISABLED \<and> gravity \<and> st_hook_load_state st = 3),
          di_cargo_fault =
            ((role = HookLoadSignalRole.REQUIRED \<and> hook_empty \<and> sa_visual_conflict a) \<or>
             (\<not> safe_empty \<and> sa_evaluator_fault a = CargoSafetyFault.CARGO_HEIGHT_INVALID)),
          di_obstacle_fault =
            (lidar_cargo_accepted \<and>
             (\<not> st_obstacle_valid st \<or>
              sa_evaluator_fault a = CargoSafetyFault.OBSTACLE_EVIDENCE_INVALID)),
          di_internal_fault = status_internal_fault x st a,
          di_warning_valid = (sa_warning_valid a \<and> status_warning_code_valid a),
          di_pending_positive_warning = provisional,
          di_formal_cargo_valid = lidar_cargo_accepted,
          di_formal_clear_authorized = sa_formal_clear_authorized a,
          di_obstacle_evidence_ready =
            (sa_warning_valid a \<and> status_warning_code_valid a \<and> (st_obstacle_valid st \<or> provisional)),
          di_warning_code = sa_warning_code a,
          di_evidence_reason =
            (if cx_cargo_safety_config_error x then ''cargo_safety_config_invalid''
             else if sa_warning_valid a \<and> \<not> status_warning_code_valid a then ''warning_contract_invalid''
             else if finite_contract_error st then ''non_finite_safety_status''
             else if hd_gravity_conflict h then ''gravity_lidar_conflict:'' @ sa_evidence_reason a
             else sa_evidence_reason a)\<rparr>)"

text \<open>The review episode: the preview drives the tracker, and its output is projected only for a review.\<close>

definition review_projection ::
  "SafetyStatusContext \<Rightarrow> CargoSafetyStatus \<Rightarrow> SafetyStatusArgs \<Rightarrow> AnomalyReviewEpisodeTracker \<Rightarrow>
   AnomalyReviewEpisodeTracker \<times> CargoAnomalyReviewProjection" where
  "review_projection x st a tracker =
     (let code = dc_requested_code (preview (status_decision_input x st a))
      in if sa_apply_anomaly_review_episode a
         then let (tracker', r) = review_update tracker
                    \<lparr>ai_stamp_sec = st_stamp_sec st, ai_candidate_code = code,
                     ai_key = \<lparr>ak_cargo_lifecycle_id = cx_cargo_lifecycle_id x,
                               ak_cargo_track_id = ucast (st_cargo_track_id st),
                               ak_obstacle_track_id = ucast (st_obstacle_track_id st),
                               ak_pose_generation = cx_avoidance_pose_generation x,
                               ak_map_generation = cx_static_evidence_epoch x\<rparr>\<rparr>
              in (tracker',
                  if code = kAnomalyReview
                  then \<lparr>rv_enabled = True, rv_output_code = ad_output_code r, rv_event = ad_event r\<rparr>
                  else default_CargoAnomalyReviewProjection)
         else (tracker, default_CargoAnomalyReviewProjection))"

definition final_evidence_state :: "int \<Rightarrow> int \<Rightarrow> bool \<Rightarrow> bool \<Rightarrow> int \<Rightarrow> int" where
  "final_evidence_state current warning_code provisional suppressed final_code =
     (let e = (if provisional then (if warning_code = 29 then 8 else 3) else current)
      in if suppressed then 7
         else if kSystemNotReady \<le> final_code \<and> final_code \<noteq> kObstacleInvalid then 7
         else if e = 0
         then (if final_code = kClear then 1
               else if final_code = kLevel1Warning \<or> final_code = kLevel2Warning then 2
               else if final_code = kAnomalyReview then 8 else 7)
         else e)"

definition composeCargoSafetyStatus ::
  "SafetyStatusContext \<Rightarrow> AnomalyReviewEpisodeTracker \<Rightarrow> CargoSafetyStatus \<Rightarrow> SafetyStatusArgs \<Rightarrow>
   AnomalyReviewEpisodeTracker \<times> CargoSafetyStatus" where
  "composeCargoSafetyStatus x tracker st a =
     (let i = status_decision_input x st a;
          code = dc_requested_code (preview i);
          (tracker', rv) = review_projection x st a tracker;
          d = decide i rv;
          suppressed = (code = kAnomalyReview \<and> dc_requested_code d \<noteq> kAnomalyReview)
      in (tracker',
          st\<lparr>st_hook_signal_role := hook_role_value (cx_hook_load_signal_role x),
             st_hook_signal_conflict := hd_gravity_conflict (status_hook_evidence x st a),
             st_localization_valid := status_localization_valid x,
             st_valid := dc_valid d, st_warning_valid := dc_warning_valid d,
             st_requested_alarm_code := dc_requested_code d, st_warning_code := dc_warning_code d,
             st_fault_code := dc_fault_code d, st_fault_mask := dc_fault_mask d,
             st_reason := dc_reason d,
             st_evidence_state := final_evidence_state (st_evidence_state st) (sa_warning_code a)
               (use_provisional_warning x st a) suppressed (dc_requested_code d)\<rparr>))"

section \<open>The consumer\<close>

definition contract_input_of :: "CargoSafetyStatus \<Rightarrow> StatusContractInput" where
  "contract_input_of st =
     \<lparr>sci_schema_valid = (st_schema_version st = 7), sci_valid = st_valid st,
      sci_warning_valid = st_warning_valid st, sci_requested_code = st_requested_alarm_code st,
      sci_warning_code = st_warning_code st, sci_fault_code = st_fault_code st,
      sci_fault_mask = st_fault_mask st, sci_localization_valid = st_localization_valid st,
      sci_hook_signal_role = st_hook_signal_role st, sci_hook_signal_valid = st_hook_signal_valid st,
      sci_hook_signal_conflict = st_hook_signal_conflict st,
      sci_hook_load_state = st_hook_load_state st, sci_no_cargo_confirmed = st_no_cargo_confirmed st,
      sci_cargo_valid = st_cargo_valid st, sci_cargo_track_id = st_cargo_track_id st,
      sci_evidence_state = st_evidence_state st, sci_obstacle_valid = st_obstacle_valid st,
      sci_obstacle_track_id = st_obstacle_track_id st,
      sci_obstacle_validated_streak = st_obstacle_validated_streak st,
      sci_obstacle_large_geometry_valid = st_obstacle_large_geometry_valid st,
      sci_obstacle_provenance_valid = st_obstacle_provenance_valid st,
      sci_confidence = st_confidence st, sci_obstacle_count = st_obstacle_count st,
      sci_nearest_obstacle_distance_m = st_nearest_obstacle_distance_m st,
      sci_obstacle_top_z_map = st_obstacle_top_z_map st,
      sci_obstacle_uncertainty_m = st_obstacle_uncertainty_m st,
      sci_conservative_vertical_clearance_m = st_conservative_vertical_clearance_m st\<rparr>"

text \<open>The part of \<^verbatim>\<open>statusCallback\<close> that changes the alarm: the last accepted message, which is kept for
  logging only, is not modelled.\<close>

definition statusCallback ::
  "StatusContractConfig \<Rightarrow> AlarmStateMachine \<Rightarrow> CargoSafetyStatus \<Rightarrow> dbl \<Rightarrow> AlarmStateMachine \<times> AlarmResult" where
  "statusCallback c s st wall_now =
     alarm_ingest s (scr_code (validateStatusContract c (contract_input_of st))) wall_now (st_stamp_sec st)"

section \<open>Lemmas\<close>

abbreviation composed ::
  "SafetyStatusContext \<Rightarrow> AnomalyReviewEpisodeTracker \<Rightarrow> CargoSafetyStatus \<Rightarrow> SafetyStatusArgs \<Rightarrow> CargoSafetyStatus" where
  "composed x t st a \<equiv> snd (composeCargoSafetyStatus x t st a)"

abbreviation final_decision ::
  "SafetyStatusContext \<Rightarrow> AnomalyReviewEpisodeTracker \<Rightarrow> CargoSafetyStatus \<Rightarrow> SafetyStatusArgs \<Rightarrow> CargoSafetyDecision" where
  "final_decision x t st a \<equiv> decide (status_decision_input x st a) (snd (review_projection x st a t))"

lemma composed_simps [simp]:
  "st_requested_alarm_code (composed x t st a) = dc_requested_code (final_decision x t st a)"
  "st_warning_code (composed x t st a) = dc_warning_code (final_decision x t st a)"
  "st_fault_code (composed x t st a) = dc_fault_code (final_decision x t st a)"
  "st_fault_mask (composed x t st a) = dc_fault_mask (final_decision x t st a)"
  "st_valid (composed x t st a) = dc_valid (final_decision x t st a)"
  "st_warning_valid (composed x t st a) = dc_warning_valid (final_decision x t st a)"
  "st_hook_signal_role (composed x t st a) = hook_role_value (cx_hook_load_signal_role x)"
  "st_localization_valid (composed x t st a) = status_localization_valid x"
  "st_schema_version (composed x t st a) = st_schema_version st"
  "st_hook_signal_valid (composed x t st a) = st_hook_signal_valid st"
  "st_hook_load_state (composed x t st a) = st_hook_load_state st"
  "st_no_cargo_confirmed (composed x t st a) = st_no_cargo_confirmed st"
  "st_cargo_valid (composed x t st a) = st_cargo_valid st"
  "st_obstacle_valid (composed x t st a) = st_obstacle_valid st"
  "st_obstacle_count (composed x t st a) = st_obstacle_count st"
  "st_stamp_sec (composed x t st a) = st_stamp_sec st"
  by (simp_all add: composeCargoSafetyStatus_def Let_def split_beta)

lemma hook_role_known [simp]:
  "hook_role_value r = 0 \<or> hook_role_value r = 1 \<or> hook_role_value r = 2"
  "hook_role_value r = 1 \<longleftrightarrow> r = HookLoadSignalRole.REQUIRED"
  by (cases r; simp)+

lemma input_role: "di_hook_signal_role (status_decision_input x st a) = cx_hook_load_signal_role x"
  by (simp add: status_decision_input_def Let_def)

text \<open>The final decision, as one line of the protocol table.\<close>

lemma final_cases:
  obtains (fault) f m where "dc_fault_code (final_decision x t st a) = f" "dc_fault_mask (final_decision x t st a) = m"
      "dc_requested_code (final_decision x t st a) = f" "dc_warning_code (final_decision x t st a) = 0"
      "\<not> dc_warning_valid (final_decision x t st a)"
      "f = 30 \<and> m = 1 \<or> f = 31 \<and> m = 2 \<or> f = 32 \<and> m = 4 \<or> f = 33 \<and> m = 8 \<or> f = 34 \<and> m = 16 \<or> f = 35 \<and> m = 32"
    | (warning) w where "dc_fault_code (final_decision x t st a) = 0" "dc_fault_mask (final_decision x t st a) = 0"
      "dc_requested_code (final_decision x t st a) = w" "dc_warning_code (final_decision x t st a) = w"
      "dc_warning_valid (final_decision x t st a)" "dc_valid (final_decision x t st a)"
      "w = 14 \<or> w = 17 \<or> w = 18 \<or> w = 29"
  using decide_table [of "status_decision_input x st a" "snd (review_projection x st a t)"]
  unfolding Let_def by auto

lemma validate_fault_reached:
  assumes "isValidStatusContractConfig c" and "st_schema_version st = 7"
    and "dc_fault_code (final_decision x t st a) \<noteq> 0"
  shows "scr_valid (validateStatusContract c (contract_input_of (composed x t st a))) \<and>
    scr_code (validateStatusContract c (contract_input_of (composed x t st a))) =
      dc_fault_code (final_decision x t st a)"
proof (cases rule: final_cases [of x st a t])
  case warning
  then show ?thesis using assms(3) by simp
next
  case (fault f m)
  have gravity: "f = 32 \<Longrightarrow> hook_role_value (cx_hook_load_signal_role x) = 1"
    using gravity_fault_char [of "status_decision_input x st a" "snd (review_projection x st a t)"] fault(3)
    by (simp add: input_role)
  let ?i = "contract_input_of (composed x t st a)"
  have i: "sci_fault_code ?i = f" "sci_fault_mask ?i = m" "sci_requested_code ?i = f" "sci_warning_code ?i = 0"
    "\<not> sci_warning_valid ?i" "sci_schema_valid ?i" "sci_hook_signal_role ?i = hook_role_value (cx_hook_load_signal_role x)"
    using fault assms(2) by (simp_all add: contract_input_of_def)
  have range: "30 \<le> f" "f \<le> 35" "isAllowedCode f" using fault(6) by (auto simp: isAllowedCode_def)
  have mask: "required_mask f \<noteq> 0" "m AND required_mask f \<noteq> 0"
    using fault(6) by (auto simp: required_mask_def)
  have "validateStatusContract c ?i = validate_fault_status ?i"
    using assms(1) i range hook_role_known(1) [of "cx_hook_load_signal_role x"]
    by (simp add: validateStatusContract_def)
  moreover have "validate_fault_status ?i = contract_result f True False ''fault_status''"
    using i mask gravity by (auto simp: validate_fault_status_def Let_def)
  ultimately show ?thesis using fault(1) by simp
qed

lemma validate_clear_reached:
  assumes "isValidStatusContractConfig c" and "st_schema_version st = 7"
    and "dc_requested_code (final_decision x t st a) = 14"
  shows "validateStatusContract c (contract_input_of (composed x t st a)) =
    validate_clear_status c (contract_input_of (composed x t st a))"
proof (cases rule: final_cases [of x st a t])
  case (fault f m)
  then show ?thesis using assms(3) by auto
next
  case (warning w)
  then show ?thesis
    using assms hook_role_known(1) [of "cx_hook_load_signal_role x"]
    by (simp add: validateStatusContract_def contract_input_of_def isAllowedCode_def)
qed

lemma empty_accepted:
  "di_safe_empty (status_decision_input x st a) \<longleftrightarrow>
     st_no_cargo_confirmed st \<and> \<not> sa_visual_conflict a \<and> \<not> st_cargo_valid st \<and>
     (cx_hook_load_signal_role x = HookLoadSignalRole.REQUIRED \<longrightarrow>
        status_gravity_valid st \<and> hook_state_of (st_hook_load_state st) = HookLoadState.EMPTY)"
  by (auto simp: status_decision_input_def status_hook_evidence_def evaluateHookLoadEvidence_def Let_def)

lemma cargo_accepted:
  "di_formal_cargo_valid (status_decision_input x st a) \<longleftrightarrow>
     st_cargo_valid st \<and>
     (cx_hook_load_signal_role x = HookLoadSignalRole.REQUIRED \<longrightarrow>
        status_gravity_valid st \<and> hook_state_of (st_hook_load_state st) = HookLoadState.LOADED)"
  by (auto simp: status_decision_input_def status_hook_evidence_def evaluateHookLoadEvidence_def Let_def)

lemma hook_state_iff [simp]:
  "hook_state_of b = HookLoadState.EMPTY \<longleftrightarrow> b = 2" "hook_state_of b = HookLoadState.LOADED \<longleftrightarrow> b = 3"
  by (simp_all add: hook_state_of_def)

lemma clear_facts:
  assumes "dc_requested_code (final_decision x t st a) = 14"
  shows "status_localization_valid x \<and>
    (if st_cargo_valid st
     then st_obstacle_valid st \<and> hook_supports (contract_input_of (composed x t st a)) 3
     else st_no_cargo_confirmed st \<and> hook_supports (contract_input_of (composed x t st a)) 2)"
proof -
  let ?i = "status_decision_input x st a"
  have auth: "ready_for_decision ?i \<and> \<not> di_cargo_fault ?i \<and> \<not> di_obstacle_fault ?i \<and>
    (di_safe_empty ?i \<and> \<not> di_formal_cargo_valid ?i \<and> \<not> di_hook_loaded ?i \<and> safe_empty_authorized ?i \<or>
     di_formal_cargo_valid ?i \<and> di_warning_valid ?i \<and> di_formal_clear_authorized ?i \<and>
     di_obstacle_evidence_ready ?i \<and> \<not> di_gravity_conflict ?i)"
    using assms by (rule clear_authority)
  have loc: "status_localization_valid x"
    using auth by (simp add: ready_for_decision_def status_decision_input_def Let_def)
  have hook: "hook_supports (contract_input_of (composed x t st a)) n \<longleftrightarrow>
      (cx_hook_load_signal_role x \<noteq> HookLoadSignalRole.REQUIRED \<or>
       st_hook_signal_valid st \<and> st_hook_load_state st = n)" for n
    by (simp add: hook_supports_def contract_input_of_def)
  have obs: "di_formal_cargo_valid ?i \<and> \<not> di_obstacle_fault ?i \<longrightarrow> st_obstacle_valid st"
    by (simp add: status_decision_input_def Let_def)
  show ?thesis
    using auth loc obs empty_accepted [of x st a] cargo_accepted [of x st a]
    by (auto simp: hook status_gravity_valid_def)
qed

section \<open>Properties\<close>


definition demo_context :: SafetyStatusContext where
  "demo_context =
     \<lparr>cx_running = True, cx_tracking_lost = False, cx_relocalization_pose_reliable = True,
      cx_relocalization_state = IDLE, cx_relocalization_enabled = True,
      cx_hook_load_signal_role = HookLoadSignalRole.REQUIRED,
      cx_hook_load_signal_role_config_valid = True, cx_cargo_safety_config_error = False,
      cx_cargo_lifecycle_id = 1, cx_avoidance_pose_generation = 1, cx_static_evidence_epoch = 1\<rparr>"

definition demo_message :: CargoSafetyStatus where
  "demo_message =
     \<lparr>st_stamp_sec = Fin 5, st_schema_version = 7, st_valid = False, st_warning_valid = False,
      st_requested_alarm_code = 0, st_warning_code = 0, st_fault_code = 0, st_fault_mask = 0,
      st_localization_valid = False, st_hook_signal_role = 0, st_hook_signal_valid = True,
      st_hook_signal_conflict = False, st_cargo_valid = False, st_cargo_track_id = 0,
      st_obstacle_track_id = 0, st_obstacle_validated_streak = 0,
      st_obstacle_large_geometry_valid = False, st_obstacle_provenance_valid = False,
      st_hook_load_state = 2, st_hook_voltage = Fin 1, st_no_cargo_confirmed = True,
      st_cargo_bottom_z_map = Fin 0, st_cargo_bottom_uncertainty_m = Fin 0, st_obstacle_valid = False,
      st_obstacle_count = 0, st_nearest_obstacle_distance_m = NaN, st_obstacle_top_z_map = NaN,
      st_obstacle_uncertainty_m = NaN, st_conservative_vertical_clearance_m = NaN,
      st_confidence = Fin 1, st_evidence_state = 0, st_reason = []\<rparr>"

definition demo_args :: SafetyStatusArgs where
  "demo_args =
     \<lparr>sa_visual_conflict = False, sa_evaluator_fault = CargoSafetyFault.NONE, sa_warning_code = 0,
      sa_warning_valid = False, sa_evidence_reason = [], sa_evidence_initialized = True,
      sa_provisional_positive_warning = False, sa_formal_clear_authorized = False,
      sa_apply_anomaly_review_episode = False\<rparr>"

lemmas demo_status_defs = status_decision_input_def status_hook_evidence_def evaluateHookLoadEvidence_def
  status_gravity_valid_def status_localization_valid_def status_internal_fault_def finite_contract_error_def
  status_warning_code_valid_def use_provisional_warning_def hook_state_of_def demo_context_def demo_message_def
  demo_args_def

lemma demo_projection:
  "snd (review_projection x st demo_args t) = default_CargoAnomalyReviewProjection"
  by (simp add: review_projection_def demo_args_def Let_def)

lemma decide_without_review:
  "dc_requested_code (decide i default_CargoAnomalyReviewProjection) = dc_requested_code (composeCargoSafetyDecision i)"
  by (rule decide_codes_kept [THEN conjunct1])
    (simp add: review_suppresses_def default_CargoAnomalyReviewProjection_def)

lemma demo_phases:
  "fst (deriveCargoSafetyDecisionPhase (status_decision_input demo_context demo_message demo_args)) = SAFE_EMPTY"
  "fst (deriveCargoSafetyDecisionPhase
     (status_decision_input demo_context (demo_message\<lparr>st_hook_signal_valid := False\<rparr>) demo_args)) =
   GRAVITY_REQUIRED_INVALID"
  by (simp_all add: deriveCargoSafetyDecisionPhase_def demo_status_defs Let_def gravity_required_unavailable_def
      positive_warning_def safe_empty_authorized_def)

lemma demo_contract: "isValidStatusContractConfig default_StatusContractConfig"
  by (simp add: isValidStatusContractConfig_def default_StatusContractConfig_def)


text \<open>A composed clear is accepted: without a valid cargo always (the confirmed empty hook satisfies the
  consumer's empty contract), and with a valid cargo exactly when the message does not also claim that
  there is no cargo and its obstacle geometry is absent or finite and safe.\<close>

theorem composed_clear_accepted:
  assumes "isValidStatusContractConfig c" and "st_schema_version st = 7"
    and "st_requested_alarm_code (snd (composeCargoSafetyStatus x t st a)) = 14"
  shows "let i = contract_input_of (snd (composeCargoSafetyStatus x t st a));
             r = validateStatusContract c i
         in scr_valid r \<longleftrightarrow>
            (st_cargo_valid st \<longrightarrow> \<not> st_no_cargo_confirmed st \<and>
               (st_obstacle_count st = 0 \<or> cluster_geometry_valid i \<and> safe_geometry c i))"
proof -
  let ?i = "contract_input_of (composed x t st a)"
  have v: "validateStatusContract c ?i = validate_clear_status c ?i"
    using assms by (intro validate_clear_reached) simp_all
  have f: "status_localization_valid x" "if st_cargo_valid st then st_obstacle_valid st \<and> hook_supports ?i 3
      else st_no_cargo_confirmed st \<and> hook_supports ?i 2"
    using clear_facts [of x st a t] assms(3) by simp_all
  have s: "sci_localization_valid ?i = status_localization_valid x" "sci_cargo_valid ?i = st_cargo_valid st"
    "sci_no_cargo_confirmed ?i = st_no_cargo_confirmed st" "sci_obstacle_valid ?i = st_obstacle_valid st"
    "sci_obstacle_count ?i = st_obstacle_count st"
    by (simp_all add: contract_input_of_def)
  show ?thesis
    unfolding Let_def v using f s
    by (cases "st_cargo_valid st") (simp_all add: validate_clear_status_def contract_safe_empty_def valid_loaded_def)
qed

theorem composed_clear_accepted_witness:
  "st_requested_alarm_code (snd (composeCargoSafetyStatus demo_context
     (review_init default_AnomalyReviewEpisodeConfig) demo_message demo_args)) = 14 \<and>
   scr_valid (validateStatusContract default_StatusContractConfig (contract_input_of
     (snd (composeCargoSafetyStatus demo_context (review_init default_AnomalyReviewEpisodeConfig)
       demo_message demo_args))))"
proof -
  let ?t = "review_init default_AnomalyReviewEpisodeConfig"
  let ?st = "snd (composeCargoSafetyStatus demo_context ?t demo_message demo_args)"
  have r: "st_requested_alarm_code ?st = 14"
    by (simp add: demo_projection decide_without_review compose_requested demo_phases)
  have "st_schema_version demo_message = 7" "\<not> st_cargo_valid demo_message" by (simp_all add: demo_message_def)
  with composed_clear_accepted [OF demo_contract _ r] r show ?thesis by (simp only: Let_def) simp
qed

text \<open>The review episode only weakens a review: the code of the composed status is the one previewed
  without the tracker, except that a previewed 29 becomes the obstacle fault 34 exactly when the
  episode is applied and the tracker does not output 29 for it.\<close>

theorem composed_review_fail_safe:
  "let i = status_decision_input x st a;
       p = dc_requested_code (preview i);
       rv = snd (review_projection x st a t)
   in st_requested_alarm_code (snd (composeCargoSafetyStatus x t st a)) =
        (if p = 29 \<and> sa_apply_anomaly_review_episode a \<and> rv_output_code rv \<noteq> 29 then 34 else p)"
proof -
  let ?i = "status_decision_input x st a"
  let ?rv = "snd (review_projection x st a t)"
  have p: "dc_requested_code (preview ?i) = dc_requested_code (composeCargoSafetyDecision ?i)"
    by (simp add: preview_def decide_default_def decide_without_review)
  have e: "rv_enabled ?rv \<longleftrightarrow> sa_apply_anomaly_review_episode a \<and> dc_requested_code (preview ?i) = 29"
    by (simp add: review_projection_def Let_def split_beta default_CargoAnomalyReviewProjection_def kAnomalyReview_def)
  have "dc_requested_code (final_decision x t st a) =
      (if review_suppresses ?i ?rv then 34 else dc_requested_code (composeCargoSafetyDecision ?i))"
    using decide_codes_suppressed [of ?i ?rv] decide_codes_kept [of ?i ?rv] by simp
  then show ?thesis using p e by (simp add: Let_def review_suppresses_def)
qed

end
