(* ===== verification/Pending_Static_Hazard.thy ===== *)
theory Pending_Static_Hazard
  imports Cpp_Text Domain_Contracts
begin

unbundle bit_operations_syntax

text \<open>
  Confirmation of static hazards for a cargo that is still pending (\<^verbatim>\<open>pending_static_hazard_tracker.cpp\<close>).
  A hazard is authorised once enough frames in a row have matched one region of the static map; a region
  is a set of cell keys, and two observations belong together when they share enough cells. Cell keys of type
  \<^verbatim>\<open>std::int64_t\<close> are integers.
\<close>

section \<open>Data\<close>

record PendingStaticHazardTrackerConfig =
  kc_minimum_confirmations :: int
  kc_maximum_observation_gap_sec :: dbl
  kc_minimum_cell_overlap :: dbl

definition default_PendingStaticHazardTrackerConfig :: PendingStaticHazardTrackerConfig where
  "default_PendingStaticHazardTrackerConfig =
     \<lparr>kc_minimum_confirmations = 3, kc_maximum_observation_gap_sec = Fin 0.6,
      kc_minimum_cell_overlap = Fin 0.2\<rparr>"

record PendingStaticHazardObservation =
  ko_stamp_sec :: dbl
  ko_cargo_lifecycle_id :: u64
  ko_map_generation :: u64
  ko_authority_valid :: bool
  ko_query_valid :: bool
  ko_query_bounded :: bool
  ko_hazard :: bool
  ko_warning_code :: int
  ko_matched_cell_keys :: "int list"
  ko_pose_authority :: TemporalEvidenceAuthority

record PendingStaticHazardDecision =
  kd_valid :: bool
  kd_hazard_observed :: bool
  kd_authorized :: bool
  kd_warning_code :: int
  kd_obstacle_id :: u32
  kd_confirmations :: int
  kd_far_field_confirmations :: int
  kd_far_field_history_valid :: bool
  kd_cell_overlap :: dbl
  kd_reason :: string
  kd_pose_authority :: TemporalEvidenceAuthority

definition default_PendingStaticHazardDecision :: PendingStaticHazardDecision where
  "default_PendingStaticHazardDecision =
     \<lparr>kd_valid = False, kd_hazard_observed = False, kd_authorized = False, kd_warning_code = 0,
      kd_obstacle_id = 0, kd_confirmations = 0, kd_far_field_confirmations = 0,
      kd_far_field_history_valid = False, kd_cell_overlap = Fin 0, kd_reason = ''not_evaluated'',
      kd_pose_authority = default_TemporalEvidenceAuthority\<rparr>"

record PendingStaticHazardTracker =
  kt_config :: PendingStaticHazardTrackerConfig
  kt_active :: bool
  kt_last_stamp_sec :: dbl
  kt_cargo_lifecycle_id :: u64
  kt_map_generation :: u64
  kt_obstacle_id :: u32
  kt_confirmations :: int
  kt_far_field_confirmations :: int
  kt_far_field_history_valid :: bool
  kt_matched_cell_keys :: "int list"
  kt_pose_authority :: TemporalEvidenceAuthority

section \<open>Helpers\<close>

definition hazard_stamp_epsilon :: dbl where
  [cpp_simps]: "hazard_stamp_epsilon = Fin 0.0001"

definition warningCode :: "int \<Rightarrow> bool" where
  "warningCode code \<longleftrightarrow> code = 17 \<or> code = 18"

definition validHazardConfig :: "PendingStaticHazardTrackerConfig \<Rightarrow> bool" where
  "validHazardConfig c \<longleftrightarrow>
     2 \<le> kc_minimum_confirmations c \<and>
     isfinite (kc_maximum_observation_gap_sec c) \<and> Fin 0 < kc_maximum_observation_gap_sec c \<and>
     isfinite (kc_minimum_cell_overlap c) \<and> Fin 0 < kc_minimum_cell_overlap c \<and>
     kc_minimum_cell_overlap c \<le> Fin 1"

definition normalizeCells :: "int list \<Rightarrow> int list" where
  "normalizeCells cells = remdups_adj (sort cells)"

fun intersectionCount :: "int list \<Rightarrow> int list \<Rightarrow> nat" where
  "intersectionCount [] right = 0"
| "intersectionCount left [] = 0"
| "intersectionCount (l # left) (r # right) =
     (if l < r then intersectionCount left (r # right)
      else if r < l then intersectionCount (l # left) right
      else Suc (intersectionCount left right))"

definition cellOverlap :: "int list \<Rightarrow> int list \<Rightarrow> dbl" where
  "cellOverlap left right =
     (let denominator = min (length left) (length right)
      in if denominator = 0 then Fin 0
         else Fin (real (intersectionCount left right)) / Fin (real denominator))"

definition makeStaticObstacleId :: "u64 \<Rightarrow> int list \<Rightarrow> u32" where
  "makeStaticObstacleId generation cells =
     (let hash = foldl (\<lambda>h cell. fnv_mix h (of_int cell)) (fnv_mix fnv_offset generation) cells
      in 0x80000000 OR ucast ((hash XOR drop_bit 32 hash) AND 0x7FFFFFFF))"

section \<open>The tracker\<close>

definition hazard_reset :: "PendingStaticHazardTracker \<Rightarrow> PendingStaticHazardTracker" where
  "hazard_reset s =
     s\<lparr>kt_active := False, kt_last_stamp_sec := Fin 0, kt_cargo_lifecycle_id := 0, kt_map_generation := 0,
       kt_obstacle_id := 0, kt_confirmations := 0, kt_far_field_confirmations := 0,
       kt_far_field_history_valid := False, kt_matched_cell_keys := [],
       kt_pose_authority := default_TemporalEvidenceAuthority\<rparr>"

definition hazard_setConfig ::
  "PendingStaticHazardTrackerConfig \<Rightarrow> PendingStaticHazardTracker \<Rightarrow> PendingStaticHazardTracker" where
  "hazard_setConfig c s =
     hazard_reset (s\<lparr>kt_config := (if validHazardConfig c then c else default_PendingStaticHazardTrackerConfig)\<rparr>)"

definition hazard_init :: "PendingStaticHazardTrackerConfig \<Rightarrow> PendingStaticHazardTracker" where
  "hazard_init c =
     hazard_setConfig c
       \<lparr>kt_config = default_PendingStaticHazardTrackerConfig, kt_active = False, kt_last_stamp_sec = Fin 0,
        kt_cargo_lifecycle_id = 0, kt_map_generation = 0, kt_obstacle_id = 0, kt_confirmations = 0,
        kt_far_field_confirmations = 0, kt_far_field_history_valid = False, kt_matched_cell_keys = [],
        kt_pose_authority = default_TemporalEvidenceAuthority\<rparr>"

definition hazard_observed :: "PendingStaticHazardObservation \<Rightarrow> bool" where
  "hazard_observed ob \<longleftrightarrow> ko_hazard ob \<and> warningCode (ko_warning_code ob)"

definition evidence_valid :: "PendingStaticHazardObservation \<Rightarrow> bool" where
  "evidence_valid ob \<longleftrightarrow>
     ko_cargo_lifecycle_id ob \<noteq> 0 \<and> ko_map_generation ob \<noteq> 0 \<and> ko_authority_valid ob \<and>
     ko_query_valid ob \<and> ko_query_bounded ob \<and> hazard_observed ob \<and>
     ko_matched_cell_keys ob \<noteq> [] \<and> te_valid (ko_pose_authority ob)"

definition evidence_reason :: "PendingStaticHazardObservation \<Rightarrow> string" where
  "evidence_reason ob =
     (if \<not> ko_authority_valid ob then ''static_authority_not_valid''
      else if \<not> ko_query_valid ob \<or> \<not> ko_query_bounded ob then ''static_query_not_reliable''
      else if \<not> hazard_observed ob then ''no_static_positive_hazard''
      else ''static_hazard_identity_missing'')"

definition same_context :: "PendingStaticHazardTracker \<Rightarrow> PendingStaticHazardObservation \<Rightarrow> bool" where
  "same_context s ob \<longleftrightarrow>
     kt_active s \<and> ko_cargo_lifecycle_id ob = kt_cargo_lifecycle_id s \<and>
     ko_map_generation ob = kt_map_generation s \<and>
     sameTemporalEvidenceAuthority (ko_pose_authority ob) (kt_pose_authority s) \<and>
     ko_stamp_sec ob - kt_last_stamp_sec s \<le> kc_maximum_observation_gap_sec (kt_config s) + hazard_stamp_epsilon \<and>
     kc_minimum_cell_overlap (kt_config s) \<le> cellOverlap (ko_matched_cell_keys ob) (kt_matched_cell_keys s)"

text \<open>The part of the decision that is copied from the tracker.\<close>

definition hazard_report ::
  "PendingStaticHazardTracker \<Rightarrow> int \<Rightarrow> string \<Rightarrow> PendingStaticHazardDecision \<Rightarrow> PendingStaticHazardDecision" where
  "hazard_report s code pending d =
     d\<lparr>kd_warning_code := code, kd_obstacle_id := kt_obstacle_id s, kd_confirmations := kt_confirmations s,
       kd_far_field_confirmations := kt_far_field_confirmations s,
       kd_far_field_history_valid := kt_far_field_history_valid s, kd_pose_authority := kt_pose_authority s,
       kd_authorized := (kc_minimum_confirmations (kt_config s) \<le> kt_confirmations s),
       kd_reason := (if kc_minimum_confirmations (kt_config s) \<le> kt_confirmations s
                     then ''static_pending_hazard_authorized'' else pending)\<rparr>"

definition hazard_accept ::
  "PendingStaticHazardTracker \<Rightarrow> PendingStaticHazardObservation \<Rightarrow> PendingStaticHazardTracker" where
  "hazard_accept s ob =
     (let s1 = (if \<not> same_context s ob
                then s\<lparr>kt_active := True, kt_cargo_lifecycle_id := ko_cargo_lifecycle_id ob,
                       kt_map_generation := ko_map_generation ob,
                       kt_obstacle_id := makeStaticObstacleId (ko_map_generation ob) (ko_matched_cell_keys ob),
                       kt_confirmations := 1,
                       kt_far_field_confirmations := (if ko_warning_code ob = 18 then 1 else 0),
                       kt_far_field_history_valid := False, kt_pose_authority := ko_pose_authority ob\<rparr>
                else s\<lparr>kt_confirmations := kt_confirmations s + 1,
                       kt_far_field_confirmations :=
                         (if ko_warning_code ob = 18 then kt_far_field_confirmations s + 1
                          else kt_far_field_confirmations s)\<rparr>);
          s2 = (if kc_minimum_confirmations (kt_config s1) \<le> kt_far_field_confirmations s1
                then s1\<lparr>kt_far_field_history_valid := True\<rparr> else s1)
      in s2\<lparr>kt_last_stamp_sec := ko_stamp_sec ob, kt_matched_cell_keys := ko_matched_cell_keys ob,
            kt_pose_authority := ko_pose_authority ob\<rparr>)"

text \<open>The frame after the evidence was found valid; the cells are normalised already.\<close>

definition hazard_evidence ::
  "PendingStaticHazardTracker \<Rightarrow> PendingStaticHazardObservation \<Rightarrow> PendingStaticHazardDecision \<Rightarrow>
   PendingStaticHazardTracker \<times> PendingStaticHazardDecision" where
  "hazard_evidence s0 ob d0 =
     (let s = (if kt_active s0 \<and> ko_stamp_sec ob + hazard_stamp_epsilon < kt_last_stamp_sec s0
               then hazard_reset s0 else s0);
          overlap = (if kt_active s then cellOverlap (ko_matched_cell_keys ob) (kt_matched_cell_keys s) else Fin 0);
          d = d0\<lparr>kd_cell_overlap := overlap\<rparr>
      in if same_context s ob \<and> ko_stamp_sec ob \<le> kt_last_stamp_sec s + hazard_stamp_epsilon
         then (s, hazard_report s (ko_warning_code ob) ''repeated_static_hazard_stamp'' d)
         else let s' = hazard_accept s ob
              in (s', hazard_report s' (ko_warning_code ob) ''static_pending_hazard_confirmation_pending'' d))"

definition hazard_update ::
  "(PendingStaticHazardTracker, PendingStaticHazardObservation, PendingStaticHazardDecision) machine" where
  "hazard_update s observation =
     (let d = default_PendingStaticHazardDecision in
      if \<not> validHazardConfig (kt_config s) \<or> \<not> isfinite (ko_stamp_sec observation) \<or>
         ko_stamp_sec observation \<le> Fin 0
      then (hazard_reset s, d\<lparr>kd_reason := ''invalid_static_hazard_tracker_input''\<rparr>)
      else
        let ob = observation\<lparr>ko_matched_cell_keys := normalizeCells (ko_matched_cell_keys observation)\<rparr>;
            d1 = d\<lparr>kd_valid := True, kd_hazard_observed := hazard_observed ob\<rparr>
        in if \<not> evidence_valid ob
           then (hazard_reset s, d1\<lparr>kd_reason := evidence_reason ob\<rparr>)
           else hazard_evidence s ob d1)"

section \<open>Lemmas\<close>

lemma normalizeCells_facts [simp]:
  "sorted (normalizeCells xs)" "distinct (normalizeCells xs)" "set (normalizeCells xs) = set xs"
  by (simp_all add: normalizeCells_def sorted_remdups_adj distinct_remdups_adj_sorted)

lemma length_normalizeCells: "length (normalizeCells xs) = card (set xs)"
  using distinct_card [OF normalizeCells_facts(2), of xs] by simp

text \<open>The two-pointer loop counts the common elements of two sorted lists without repetitions.\<close>

lemma intersectionCount_card:
  "sorted l \<Longrightarrow> distinct l \<Longrightarrow> sorted r \<Longrightarrow> distinct r \<Longrightarrow> intersectionCount l r = card (set l \<inter> set r)"
proof (induction l r rule: intersectionCount.induct)
  case (3 l left r right)
  show ?case
  proof (cases "l < r")
    case True
    then have "set (l # left) \<inter> set (r # right) = set left \<inter> set (r # right)"
      using "3.prems" by auto
    then show ?thesis using True 3 by simp
  next
    case ge: False
    show ?thesis
    proof (cases "r < l")
      case True
      then have "set (l # left) \<inter> set (r # right) = set (l # left) \<inter> set right"
        using "3.prems" by auto
      then show ?thesis using ge True 3 by simp
    next
      case False
      then have "l = r" using ge by simp
      then have "set (l # left) \<inter> set (r # right) = insert l (set left \<inter> set right)" by auto
      moreover have "l \<notin> set left" using "3.prems" by simp
      ultimately show ?thesis using ge False 3 by simp
    qed
  qed
qed simp_all

lemma static_obstacle_id_namespace: "bit (makeStaticObstacleId g cells) 31"
  by (simp add: makeStaticObstacleId_def Let_def bit_or_iff bit_numeral_word_iff)

definition hazard_usable :: "PendingStaticHazardObservation \<Rightarrow> bool" where
  "hazard_usable ob \<longleftrightarrow> isfinite (ko_stamp_sec ob) \<and> Fin 0 < ko_stamp_sec ob \<and> evidence_valid ob"

definition hazard_linked ::
  "PendingStaticHazardTrackerConfig \<Rightarrow> PendingStaticHazardObservation \<Rightarrow> PendingStaticHazardObservation \<Rightarrow> bool" where
  "hazard_linked c a b \<longleftrightarrow>
     ko_cargo_lifecycle_id b = ko_cargo_lifecycle_id a \<and> ko_map_generation b = ko_map_generation a \<and>
     te_pose_identity (ko_pose_authority b) = te_pose_identity (ko_pose_authority a) \<and>
     ko_stamp_sec a + hazard_stamp_epsilon < ko_stamp_sec b \<and>
     ko_stamp_sec b - ko_stamp_sec a \<le> kc_maximum_observation_gap_sec c + hazard_stamp_epsilon \<and>
     kc_minimum_cell_overlap c \<le>
       cellOverlap (normalizeCells (ko_matched_cell_keys b)) (normalizeCells (ko_matched_cell_keys a))"

text \<open>The evidence a tracker state stands for.\<close>

definition hazard_window ::
  "PendingStaticHazardTrackerConfig \<Rightarrow> PendingStaticHazardTracker \<Rightarrow> PendingStaticHazardObservation list \<Rightarrow> bool" where
  "hazard_window c s xs \<longleftrightarrow>
     kt_config s = c \<and> kt_confirmations s = int (length xs) \<and>
     (if kt_active s
      then xs \<noteq> [] \<and> hazard_usable (last xs) \<and> kt_last_stamp_sec s = ko_stamp_sec (last xs) \<and>
        kt_cargo_lifecycle_id s = ko_cargo_lifecycle_id (last xs) \<and>
        kt_map_generation s = ko_map_generation (last xs) \<and>
        kt_matched_cell_keys s = normalizeCells (ko_matched_cell_keys (last xs)) \<and>
        kt_pose_authority s = ko_pose_authority (last xs)
      else xs = [])"

lemma hazard_window_reset: "hazard_window c s xs \<Longrightarrow> hazard_window c (hazard_reset s) []"
  by (simp add: hazard_window_def hazard_reset_def)

lemma evidence_valid_normalized [simp]:
  "evidence_valid (ob\<lparr>ko_matched_cell_keys := normalizeCells (ko_matched_cell_keys ob)\<rparr>) = evidence_valid ob"
proof -
  have "normalizeCells xs = [] \<longleftrightarrow> xs = []" for xs
    using normalizeCells_facts(3) [of xs] by (metis set_empty)
  then show ?thesis by (simp add: evidence_valid_def hazard_observed_def)
qed

lemma accept_fresh:
  assumes "kt_config s = c" and "hazard_usable ob" and "\<not> same_context s (ob\<lparr>ko_matched_cell_keys := normalizeCells (ko_matched_cell_keys ob)\<rparr>)"
  shows "hazard_window c (hazard_accept s (ob\<lparr>ko_matched_cell_keys := normalizeCells (ko_matched_cell_keys ob)\<rparr>)) [ob]"
  using assms by (simp add: hazard_accept_def hazard_window_def Let_def)

lemma accept_linked:
  assumes "hazard_window c s xs" and "hazard_usable ob"
    and "same_context s (ob\<lparr>ko_matched_cell_keys := normalizeCells (ko_matched_cell_keys ob)\<rparr>)"
    and "\<not> ko_stamp_sec ob \<le> kt_last_stamp_sec s + hazard_stamp_epsilon"
  shows "hazard_window c (hazard_accept s (ob\<lparr>ko_matched_cell_keys := normalizeCells (ko_matched_cell_keys ob)\<rparr>)) (xs @ [ob]) \<and>
    xs \<noteq> [] \<and> hazard_linked c (last xs) ob"
proof -
  have act: "kt_active s" using assms(3) by (simp add: same_context_def)
  then have xs: "xs \<noteq> []" "hazard_usable (last xs)" "kt_last_stamp_sec s = ko_stamp_sec (last xs)"
    using assms(1) by (simp_all add: hazard_window_def)
  have "ko_stamp_sec (last xs) + hazard_stamp_epsilon < ko_stamp_sec ob"
    using assms(2,4) xs by (auto simp: hazard_usable_def isfinite_iff hazard_stamp_epsilon_def)
  then show ?thesis
    using assms(1,2,3) act xs
    by (simp add: hazard_accept_def hazard_window_def hazard_linked_def same_context_def Let_def
        sameTemporalEvidenceAuthority_iff)
qed

lemma hazard_evidence_step:
  assumes w: "hazard_window c s xs" and u: "hazard_usable ob"
  defines "nb \<equiv> ob\<lparr>ko_matched_cell_keys := normalizeCells (ko_matched_cell_keys ob)\<rparr>"
  shows "\<exists>ys. hazard_window c (fst (hazard_evidence s nb d)) ys \<and>
    evolves hazard_usable (hazard_linked c) xs ob ys \<and>
    (kd_authorized (snd (hazard_evidence s nb d)) \<longrightarrow> kc_minimum_confirmations c \<le> int (length ys))"
proof -
  have stamp: "ko_stamp_sec nb = ko_stamp_sec ob" by (simp add: nb_def)
  define s1 where "s1 = (if kt_active s \<and> ko_stamp_sec ob + hazard_stamp_epsilon < kt_last_stamp_sec s
    then hazard_reset s else s)"
  obtain zs where zs: "hazard_window c s1 zs" "zs = [] \<or> zs = xs"
  proof (cases "s1 = s")
    case True
    then show ?thesis using that [of xs] w by simp
  next
    case False
    then have "s1 = hazard_reset s" by (simp add: s1_def split: if_split_asm)
    then show ?thesis using that [of "[]"] hazard_window_reset [OF w] by simp
  qed
  have cfg: "kt_config s1 = c" using zs(1) by (simp add: hazard_window_def)
  show ?thesis
  proof (cases "same_context s1 nb \<and> ko_stamp_sec ob \<le> kt_last_stamp_sec s1 + hazard_stamp_epsilon")
    case True
    then have "fst (hazard_evidence s nb d) = s1"
      "kd_authorized (snd (hazard_evidence s nb d)) = (kc_minimum_confirmations c \<le> kt_confirmations s1)"
      using cfg by (simp_all add: hazard_evidence_def s1_def [symmetric] stamp Let_def hazard_report_def)
    then show ?thesis
      using zs by (intro exI [of _ zs]) (auto simp: evolves_def hazard_window_def)
  next
    case False
    then have r: "fst (hazard_evidence s nb d) = hazard_accept s1 nb"
      "kd_authorized (snd (hazard_evidence s nb d)) =
        (kc_minimum_confirmations (kt_config (hazard_accept s1 nb)) \<le> kt_confirmations (hazard_accept s1 nb))"
      by (auto simp: hazard_evidence_def s1_def [symmetric] stamp Let_def hazard_report_def)
    obtain ys where ys: "hazard_window c (hazard_accept s1 nb) ys" "evolves hazard_usable (hazard_linked c) zs ob ys"
    proof (cases "same_context s1 nb")
      case True
      then show ?thesis
        using accept_linked [OF zs(1) u] False u that [of "zs @ [ob]"] by (auto simp: evolves_def nb_def)
    next
      case False
      then show ?thesis using accept_fresh [OF cfg u] u that [of "[ob]"] by (auto simp: evolves_def nb_def)
    qed
    have "kt_config (hazard_accept s1 nb) = c" "kt_confirmations (hazard_accept s1 nb) = int (length ys)"
      using ys(1) by (simp_all add: hazard_window_def)
    moreover have "evolves hazard_usable (hazard_linked c) xs ob ys"
      using ys(2) zs(2) by (auto simp: evolves_def)
    ultimately show ?thesis using r ys(1) by (intro exI [of _ ys]) simp
  qed
qed

interpretation hazard: held_evidence_machine hazard_update "hazard_window c" hazard_usable "hazard_linked c"
    kd_authorized "kc_minimum_confirmations c" for c
proof
  fix s xs and ob :: PendingStaticHazardObservation
  assume w: "hazard_window c s xs"
  define nb where "nb = ob\<lparr>ko_matched_cell_keys := normalizeCells (ko_matched_cell_keys ob)\<rparr>"
  have ev: "evidence_valid nb = evidence_valid ob" by (simp add: nb_def)
  show "\<exists>ys. hazard_window c (fst (hazard_update s ob)) ys \<and> evolves hazard_usable (hazard_linked c) xs ob ys \<and>
    (kd_authorized (snd (hazard_update s ob)) \<longrightarrow> kc_minimum_confirmations c \<le> int (length ys))"
  proof (cases "validHazardConfig (kt_config s) \<and> isfinite (ko_stamp_sec ob) \<and> \<not> ko_stamp_sec ob \<le> Fin 0 \<and> evidence_valid ob")
    case True
    then have u: "hazard_usable ob" by (auto simp: hazard_usable_def isfinite_iff)
    obtain d where "hazard_update s ob = hazard_evidence s nb d"
      using True ev by (auto simp: hazard_update_def nb_def Let_def)
    then show ?thesis using hazard_evidence_step [OF w u] by (simp add: nb_def)
  next
    case False
    then have "fst (hazard_update s ob) = hazard_reset s" "\<not> kd_authorized (snd (hazard_update s ob))"
      using ev by (auto simp: hazard_update_def nb_def Let_def default_PendingStaticHazardDecision_def)
    then show ?thesis using hazard_window_reset [OF w] by (intro exI [of _ "[]"]) (simp add: evolves_def)
  qed
qed

lemma hazard_init_window: "hazard_window (kt_config (hazard_init c)) (hazard_init c) []"
  by (simp add: hazard_window_def hazard_init_def hazard_setConfig_def hazard_reset_def)

lemma hazard_init_config: "validHazardConfig (kt_config (hazard_init c))"
  by (simp add: hazard_init_def hazard_setConfig_def hazard_reset_def validHazardConfig_def
      default_PendingStaticHazardTrackerConfig_def)

lemma authorized_code:
  "kd_authorized (snd (hazard_update s ob)) \<Longrightarrow>
   kd_warning_code (snd (hazard_update s ob)) = ko_warning_code ob \<and> hazard_usable ob"
proof -
  assume a: "kd_authorized (snd (hazard_update s ob))"
  define nb where "nb = ob\<lparr>ko_matched_cell_keys := normalizeCells (ko_matched_cell_keys ob)\<rparr>"
  have c: "isfinite (ko_stamp_sec ob)" "\<not> ko_stamp_sec ob \<le> Fin 0" "evidence_valid ob"
    using a by (auto simp: hazard_update_def Let_def default_PendingStaticHazardDecision_def split: if_split_asm)
  obtain d where "hazard_update s ob = hazard_evidence s nb d"
    using a c by (auto simp: hazard_update_def nb_def Let_def default_PendingStaticHazardDecision_def split: if_split_asm)
  then show ?thesis
    using c by (auto simp: hazard_evidence_def hazard_report_def Let_def nb_def hazard_usable_def isfinite_iff)
qed

section \<open>Properties\<close>

text \<open>A pending static hazard is authorised only on repeated independent evidence: if the k-th decision of a
  fresh tracker is authorised, its code is the code 17 or 18 of the k-th observation, and among the
  observations so far there is a chain of at least the configured number of confirmations (two or
  more), each valid on its own, of one cargo lifecycle, map generation and pose authority, with stamps that increase
  by no more than the configured gap and map regions that overlap as required.\<close>

theorem pending_hazard_backed:
  assumes "k < length is" and "kd_authorized (run_outputs hazard_update (hazard_init c) is ! k)"
  shows "kd_warning_code (run_outputs hazard_update (hazard_init c) is ! k) = ko_warning_code (is ! k) \<and>
    ko_warning_code (is ! k) \<in> {17, 18} \<and>
    (\<exists>ys. subseq ys (take (Suc k) is) \<and> list_all hazard_usable ys \<and>
       successively (hazard_linked (kt_config (hazard_init c))) ys \<and>
       kc_minimum_confirmations (kt_config (hazard_init c)) \<le> int (length ys) \<and> 2 \<le> length ys)"
proof -
  let ?c = "kt_config (hazard_init c)"
  obtain ys where ys: "subseq ys (take (Suc k) is)" "list_all hazard_usable ys" "successively (hazard_linked ?c) ys"
    "kc_minimum_confirmations ?c \<le> int (length ys)"
    using hazard.positive_backed [OF hazard_init_window assms] by blast
  have "2 \<le> length ys" using hazard_init_config [of c] ys(4) by (simp add: validHazardConfig_def)
  moreover have "kd_warning_code (run_outputs hazard_update (hazard_init c) is ! k) = ko_warning_code (is ! k) \<and>
      hazard_usable (is ! k)"
    using authorized_code assms by (simp add: run_outputs_nth)
  ultimately show ?thesis
    using ys by (auto simp: hazard_usable_def evidence_valid_def hazard_observed_def warningCode_def)
qed

definition demo_observation :: "real \<Rightarrow> PendingStaticHazardObservation" where
  "demo_observation t =
     \<lparr>ko_stamp_sec = Fin t, ko_cargo_lifecycle_id = 1, ko_map_generation = 1, ko_authority_valid = True,
      ko_query_valid = True, ko_query_bounded = True, ko_hazard = True, ko_warning_code = 17,
      ko_matched_cell_keys = [7, 3, 7], ko_pose_authority = default_TemporalEvidenceAuthority\<lparr>te_valid := True\<rparr>\<rparr>"

lemma demo_hazard_authorized:
  "kd_authorized (run_outputs hazard_update (hazard_init default_PendingStaticHazardTrackerConfig)
     (map demo_observation [1, 1.1, 1.2]) ! 2)"
  by (simp add: hazard_update_def hazard_init_def hazard_setConfig_def validHazardConfig_def
      default_PendingStaticHazardTrackerConfig_def hazard_reset_def demo_observation_def evidence_valid_def
      hazard_observed_def warningCode_def hazard_evidence_def same_context_def hazard_accept_def hazard_report_def
      hazard_stamp_epsilon_def normalizeCells_def cellOverlap_def sameTemporalEvidenceAuthority_iff
      default_PendingStaticHazardDecision_def Let_def)

theorem pending_hazard_backed_witness:
  "\<exists>ys. subseq ys (map demo_observation [1, 1.1, 1.2]) \<and> list_all hazard_usable ys \<and> 2 \<le> length ys"
  using pending_hazard_backed [OF _ demo_hazard_authorized] by auto

text \<open>The overlap of two regions is what it says: on the normalised cell lists, the two-pointer loop
  computes the number of common cells over the size of the smaller set, a ratio between 0 and 1, and 0
  if a region is empty.\<close>

theorem cellOverlap_reference:
  "cellOverlap (normalizeCells a) (normalizeCells b) =
     Fin (real (card (set a \<inter> set b)) / real (min (card (set a)) (card (set b)))) \<and>
   card (set a \<inter> set b) \<le> min (card (set a)) (card (set b))"
proof -
  have "intersectionCount (normalizeCells a) (normalizeCells b) = card (set a \<inter> set b)"
    by (simp add: intersectionCount_card)
  then show ?thesis
    by (auto simp: cellOverlap_def length_normalizeCells Let_def min_def intro: card_mono)
qed

end
