(* ===== verification/Stationary_Motion.thy ===== *)
theory Stationary_Motion
  imports Ndt_Machines
begin

text \<open>
  The stationary-motion policy (\<^verbatim>\<open>stationary_motion_policy.cpp\<close>): it recognises that the crane stands still, holds
  the pose at an anchor, releases the hold on sustained motion and lets the pose catch up in
  bounded steps. Maps may be written only while it reports motion. The deque of motion
  samples is a list with the oldest sample first.
\<close>

section \<open>Data\<close>

datatype RuntimeMotionState = MOVING | STATIONARY_HOLD | MOVING_CONFIRM | CATCH_UP

fun runtimeMotionStateName :: "RuntimeMotionState \<Rightarrow> string" where
  "runtimeMotionStateName MOVING = ''MOVING''"
| "runtimeMotionStateName STATIONARY_HOLD = ''STATIONARY_HOLD''"
| "runtimeMotionStateName MOVING_CONFIRM = ''MOVING_CONFIRM''"
| "runtimeMotionStateName CATCH_UP = ''CATCH_UP''"

record StationaryMotionPolicyConfig =
  mc_enter_confirm_frames :: int
  mc_enter_max_raw_increment_m :: dbl
  mc_enter_max_speed_mps :: dbl
  mc_exit_confirm_frames :: int
  mc_exit_min_increment_m :: dbl
  mc_exit_cumulative_motion_m :: dbl
  mc_exit_direction_cosine_min :: dbl
  mc_exit_evidence_window_sec :: dbl
  mc_exit_min_speed_mps :: dbl
  mc_exit_force_anchor_drift_m :: dbl
  mc_moving_confirm_timeout_sec :: dbl
  mc_catch_up_max_step_m :: dbl
  mc_catch_up_complete_error_m :: dbl
  mc_catch_up_confirm_frames :: int
  mc_timestamp_epsilon_sec :: dbl

definition default_StationaryMotionPolicyConfig :: StationaryMotionPolicyConfig where
  "default_StationaryMotionPolicyConfig =
     \<lparr>mc_enter_confirm_frames = 20, mc_enter_max_raw_increment_m = Fin 0.015, mc_enter_max_speed_mps = Fin 0.03,
      mc_exit_confirm_frames = 3, mc_exit_min_increment_m = Fin 0.02, mc_exit_cumulative_motion_m = Fin 0.15,
      mc_exit_direction_cosine_min = Fin 0.8, mc_exit_evidence_window_sec = Fin 1.5,
      mc_exit_min_speed_mps = Fin 0.01, mc_exit_force_anchor_drift_m = Fin 0.3,
      mc_moving_confirm_timeout_sec = Fin 1.5, mc_catch_up_max_step_m = Fin 0.08,
      mc_catch_up_complete_error_m = Fin 0.03, mc_catch_up_confirm_frames = 2,
      mc_timestamp_epsilon_sec = Fin 0.000001\<rparr>"

record StationaryMotionInput =
  mi_stamp_sec :: dbl
  mi_ndt_converged :: bool
  mi_ndt_accepted :: bool
  mi_prediction_only :: bool
  mi_registration_quality_valid :: bool
  mi_severe_degeneracy :: bool
  mi_raw_position :: vec2
  mi_filtered_position :: vec2
  mi_filtered_velocity :: vec2
  mi_raw_increment_m :: dbl
  mi_allowed_physical_step_m :: dbl

record StationaryMotionDecision =
  md_state :: RuntimeMotionState
  md_apply_stationary_hold :: bool
  md_apply_position_constraint :: bool
  md_allow_local_map_update :: bool
  md_allow_persistent_map_commit :: bool
  md_movement_confirmed :: bool
  md_start_catch_up :: bool
  md_constrained_position :: vec2
  md_catch_up_step_m :: dbl
  md_reason :: string

record MotionSample =
  ms_stamp_sec :: dbl
  ms_raw_position :: vec2

record StationaryMotionPolicy =
  mp_config :: StationaryMotionPolicyConfig
  mp_state :: RuntimeMotionState
  mp_has_last_stamp :: bool
  mp_last_stamp_sec :: dbl
  mp_has_last_raw_position :: bool
  mp_last_raw_position :: vec2
  mp_anchor_position :: vec2
  mp_raw_anchor_position :: vec2
  mp_accumulated_motion :: vec2
  mp_confirmed_path_length_m :: dbl
  mp_motion_samples :: "MotionSample list"
  mp_movement_confirm_start_stamp_sec :: dbl
  mp_stationary_enter_count :: int
  mp_movement_confirm_count :: int
  mp_catch_up_complete_count :: int

section \<open>Configuration and reset\<close>

definition sanitize_config :: "StationaryMotionPolicyConfig \<Rightarrow> StationaryMotionPolicyConfig" where
  "sanitize_config c =
     (let min_increment = cpp_max (Fin 0) (mc_exit_min_increment_m c);
          cumulative = cpp_max min_increment (mc_exit_cumulative_motion_m c);
          window = cpp_max (Fin 0.1) (mc_exit_evidence_window_sec c)
      in \<lparr>mc_enter_confirm_frames = cpp_max 1 (mc_enter_confirm_frames c),
          mc_enter_max_raw_increment_m = cpp_max (Fin 0) (mc_enter_max_raw_increment_m c),
          mc_enter_max_speed_mps = cpp_max (Fin 0) (mc_enter_max_speed_mps c),
          mc_exit_confirm_frames = cpp_max 1 (mc_exit_confirm_frames c),
          mc_exit_min_increment_m = min_increment,
          mc_exit_cumulative_motion_m = cumulative,
          mc_exit_direction_cosine_min = cpp_clamp (mc_exit_direction_cosine_min c) (Fin (- 1)) (Fin 1),
          mc_exit_evidence_window_sec = window,
          mc_exit_min_speed_mps = cpp_max (Fin 0) (mc_exit_min_speed_mps c),
          mc_exit_force_anchor_drift_m = cpp_max cumulative (mc_exit_force_anchor_drift_m c),
          mc_moving_confirm_timeout_sec = cpp_max window (mc_moving_confirm_timeout_sec c),
          mc_catch_up_max_step_m = cpp_max (Fin 0.000001) (mc_catch_up_max_step_m c),
          mc_catch_up_complete_error_m = cpp_max (Fin 0) (mc_catch_up_complete_error_m c),
          mc_catch_up_confirm_frames = cpp_max 1 (mc_catch_up_confirm_frames c),
          mc_timestamp_epsilon_sec = cpp_max (Fin 0) (mc_timestamp_epsilon_sec c)\<rparr>)"

definition motion_setConfig :: "StationaryMotionPolicyConfig \<Rightarrow> StationaryMotionPolicy \<Rightarrow> StationaryMotionPolicy" where
  "motion_setConfig c s = s\<lparr>mp_config := sanitize_config c\<rparr>"

text \<open>The member initialisers, which \<^verbatim>\<open>reset\<close> restores, and a policy that was constructed and configured.\<close>

definition motion_reset :: "StationaryMotionPolicy \<Rightarrow> StationaryMotionPolicy" where
  "motion_reset s =
     \<lparr>mp_config = mp_config s, mp_state = MOVING, mp_has_last_stamp = False, mp_last_stamp_sec = Fin 0,
      mp_has_last_raw_position = False, mp_last_raw_position = vec2_zero, mp_anchor_position = vec2_zero,
      mp_raw_anchor_position = vec2_zero, mp_accumulated_motion = vec2_zero,
      mp_confirmed_path_length_m = Fin 0, mp_motion_samples = [],
      mp_movement_confirm_start_stamp_sec = Fin 0, mp_stationary_enter_count = 0,
      mp_movement_confirm_count = 0, mp_catch_up_complete_count = 0\<rparr>"

definition motion_init :: "StationaryMotionPolicyConfig \<Rightarrow> StationaryMotionPolicy" where
  "motion_init c =
     motion_setConfig c
       \<lparr>mp_config = default_StationaryMotionPolicyConfig, mp_state = MOVING, mp_has_last_stamp = False,
        mp_last_stamp_sec = Fin 0, mp_has_last_raw_position = False, mp_last_raw_position = vec2_zero,
        mp_anchor_position = vec2_zero, mp_raw_anchor_position = vec2_zero, mp_accumulated_motion = vec2_zero,
        mp_confirmed_path_length_m = Fin 0, mp_motion_samples = [],
        mp_movement_confirm_start_stamp_sec = Fin 0, mp_stationary_enter_count = 0,
        mp_movement_confirm_count = 0, mp_catch_up_complete_count = 0\<rparr>"

section \<open>Tests and helpers\<close>

definition isFreshTimestamp :: "StationaryMotionPolicy \<Rightarrow> dbl \<Rightarrow> bool" where
  "isFreshTimestamp s stamp \<longleftrightarrow>
     isfinite stamp \<and>
     (\<not> mp_has_last_stamp s \<or> mp_last_stamp_sec s + mc_timestamp_epsilon_sec (mp_config s) < stamp)"

definition isReliableMeasurement :: "StationaryMotionInput \<Rightarrow> bool" where
  "isReliableMeasurement i \<longleftrightarrow>
     mi_ndt_converged i \<and> mi_ndt_accepted i \<and> \<not> mi_prediction_only i \<and> mi_registration_quality_valid i \<and>
     \<not> mi_severe_degeneracy i \<and> vec2_allFinite (mi_raw_position i) \<and> vec2_allFinite (mi_filtered_position i) \<and>
     vec2_allFinite (mi_filtered_velocity i) \<and> isfinite (mi_raw_increment_m i) \<and>
     isfinite (mi_allowed_physical_step_m i) \<and> Fin 0 < mi_allowed_physical_step_m i \<and>
     mi_raw_increment_m i \<le> mi_allowed_physical_step_m i + Fin 0.000000001"

definition enterStationary :: "StationaryMotionInput \<Rightarrow> StationaryMotionPolicy \<Rightarrow> StationaryMotionPolicy" where
  "enterStationary i s =
     s\<lparr>mp_state := STATIONARY_HOLD, mp_anchor_position := mi_filtered_position i,
       mp_raw_anchor_position := mi_raw_position i, mp_accumulated_motion := vec2_zero,
       mp_confirmed_path_length_m := Fin 0,
       mp_motion_samples := [\<lparr>ms_stamp_sec = mi_stamp_sec i, ms_raw_position = mi_raw_position i\<rparr>],
       mp_movement_confirm_start_stamp_sec := Fin 0, mp_movement_confirm_count := 0,
       mp_catch_up_complete_count := 0\<rparr>"

definition beginMovementConfirmation :: "dbl \<Rightarrow> StationaryMotionPolicy \<Rightarrow> StationaryMotionPolicy" where
  "beginMovementConfirmation stamp s =
     s\<lparr>mp_state := MOVING_CONFIRM, mp_movement_confirm_start_stamp_sec := stamp, mp_catch_up_complete_count := 0\<rparr>"

definition rejectMovementEvidence :: "StationaryMotionInput \<Rightarrow> StationaryMotionPolicy \<Rightarrow> StationaryMotionPolicy" where
  "rejectMovementEvidence i s =
     s\<lparr>mp_state := STATIONARY_HOLD, mp_anchor_position := mi_filtered_position i,
       mp_raw_anchor_position := mi_raw_position i, mp_accumulated_motion := vec2_zero,
       mp_confirmed_path_length_m := Fin 0,
       mp_motion_samples :=
         (if vec2_allFinite (mi_raw_position i) \<and> isfinite (mi_stamp_sec i)
          then [\<lparr>ms_stamp_sec = mi_stamp_sec i, ms_raw_position = mi_raw_position i\<rparr>] else []),
       mp_movement_confirm_start_stamp_sec := Fin 0, mp_movement_confirm_count := 0,
       mp_catch_up_complete_count := 0\<rparr>"

fun prune_samples :: "dbl \<Rightarrow> MotionSample list \<Rightarrow> MotionSample list" where
  "prune_samples minimum (a # b # c # rest) =
     (if ms_stamp_sec b < minimum then prune_samples minimum (b # c # rest) else a # b # c # rest)"
| "prune_samples minimum xs = xs"

definition pruneMotionSamples :: "dbl \<Rightarrow> StationaryMotionPolicy \<Rightarrow> StationaryMotionPolicy" where
  "pruneMotionSamples stamp s =
     s\<lparr>mp_motion_samples := prune_samples (stamp - mc_exit_evidence_window_sec (mp_config s)) (mp_motion_samples s)\<rparr>"

definition appendMotionSample :: "dbl \<Rightarrow> vec2 \<Rightarrow> StationaryMotionPolicy \<Rightarrow> StationaryMotionPolicy" where
  "appendMotionSample stamp raw s =
     (if \<not> isfinite stamp \<or> \<not> vec2_allFinite raw then s
      else if mp_motion_samples s \<noteq> [] \<and>
              stamp \<le> ms_stamp_sec (last (mp_motion_samples s)) + mc_timestamp_epsilon_sec (mp_config s)
      then s
      else pruneMotionSamples stamp
             (s\<lparr>mp_motion_samples := mp_motion_samples s @ [\<lparr>ms_stamp_sec = stamp, ms_raw_position = raw\<rparr>]\<rparr>))"

definition baseDecision :: "StationaryMotionPolicy \<Rightarrow> StationaryMotionInput \<Rightarrow> StationaryMotionDecision" where
  "baseDecision s i =
     (let moving = (mp_state s = MOVING \<and> isReliableMeasurement i) in
      \<lparr>md_state = mp_state s,
       md_apply_stationary_hold = (mp_state s = STATIONARY_HOLD),
       md_apply_position_constraint = (mp_state s = STATIONARY_HOLD \<or> mp_state s = CATCH_UP),
       md_allow_local_map_update = moving, md_allow_persistent_map_commit = moving,
       md_movement_confirmed = False, md_start_catch_up = False,
       md_constrained_position =
         (if mp_state s = STATIONARY_HOLD then mp_anchor_position s else mi_filtered_position i),
       md_catch_up_step_m = Fin 0, md_reason = ''RESET''\<rparr>)"

section \<open>The update\<close>

definition stationary_evidence :: "StationaryMotionPolicyConfig \<Rightarrow> StationaryMotionInput \<Rightarrow> bool" where
  "stationary_evidence c i \<longleftrightarrow>
     isReliableMeasurement i \<and>
     mi_raw_increment_m i \<le> mc_enter_max_raw_increment_m c + Fin 0.000000001 \<and>
     vec2_norm (mi_filtered_velocity i) \<le> mc_enter_max_speed_mps c + Fin 0.000000001"

definition update_moving ::
  "StationaryMotionPolicy \<Rightarrow> StationaryMotionInput \<Rightarrow> StationaryMotionPolicy \<times> StationaryMotionDecision" where
  "update_moving s i =
     (let still = stationary_evidence (mp_config s) i;
          s1 = s\<lparr>mp_stationary_enter_count := (if still then mp_stationary_enter_count s + 1 else 0)\<rparr>
      in if mc_enter_confirm_frames (mp_config s1) \<le> mp_stationary_enter_count s1
         then let s2 = enterStationary i s1 in (s2, (baseDecision s2 i)\<lparr>md_reason := ''STATIONARY_CONFIRMED''\<rparr>)
         else (s1, (baseDecision s1 i)\<lparr>md_reason :=
                 (if still then ''STATIONARY_ENTRY_PENDING''
                  else if isReliableMeasurement i then ''MOVING'' else ''UNRELIABLE_MEASUREMENT'')\<rparr>))"

definition catch_up_step :: "StationaryMotionPolicyConfig \<Rightarrow> StationaryMotionInput \<Rightarrow> dbl \<times> dbl" where
  "catch_up_step c i =
     (let error_norm = vec2_norm (vec2_sub (mi_raw_position i) (mi_filtered_position i))
      in (error_norm, cpp_min error_norm (mc_catch_up_max_step_m c)))"

definition update_catch_up ::
  "StationaryMotionPolicy \<Rightarrow> StationaryMotionInput \<Rightarrow> StationaryMotionPolicy \<times> StationaryMotionDecision" where
  "update_catch_up s i =
     (let d0 = baseDecision s i in
      if \<not> isReliableMeasurement i
      then (s\<lparr>mp_catch_up_complete_count := 0\<rparr>,
            d0\<lparr>md_constrained_position := mi_filtered_position i, md_reason := ''CATCH_UP_WAIT_RELIABLE''\<rparr>)
      else
        let error = vec2_sub (mi_raw_position i) (mi_filtered_position i);
            (error_norm, step) = catch_up_step (mp_config s) i;
            d1 = (if Fin 0.000000000001 < error_norm
                  then d0\<lparr>md_constrained_position :=
                            vec2_add (mi_filtered_position i) (vec2_scale error (step / error_norm))\<rparr>
                  else d0);
            d2 = d1\<lparr>md_catch_up_step_m := step, md_reason := ''CATCH_UP_BOUNDED''\<rparr>;
            residual = cpp_max (Fin 0) (error_norm - step);
            s1 = s\<lparr>mp_catch_up_complete_count :=
                     (if residual \<le> mc_catch_up_complete_error_m (mp_config s) + Fin 0.000000001
                      then mp_catch_up_complete_count s + 1 else 0)\<rparr>
        in if mc_catch_up_confirm_frames (mp_config s1) \<le> mp_catch_up_complete_count s1
           then let s2 = s1\<lparr>mp_state := MOVING, mp_stationary_enter_count := 0, mp_movement_confirm_count := 0,
                            mp_accumulated_motion := vec2_zero, mp_confirmed_path_length_m := Fin 0\<rparr>
                in (s2, (baseDecision s2 i)
                          \<lparr>md_state := mp_state s2, md_allow_local_map_update := False,
                           md_allow_persistent_map_commit := False,
                           md_reason := ''CATCH_UP_COMPLETE_RELEASE_GUARD''\<rparr>)
           else (s1, d2))"

fun path_length :: "MotionSample list \<Rightarrow> dbl \<Rightarrow> dbl" where
  "path_length (a # b # rest) acc =
     path_length (b # rest) (acc + vec2_norm (vec2_sub (ms_raw_position b) (ms_raw_position a)))"
| "path_length _ acc = acc"

text \<open>The evidence window after the frame's sample was taken: net motion, path length and duration.\<close>

definition window_motion :: "MotionSample list \<Rightarrow> vec2 \<times> dbl \<times> dbl" where
  "window_motion xs =
     (if 2 \<le> length xs
      then (vec2_sub (ms_raw_position (last xs)) (ms_raw_position (hd xs)), path_length xs (Fin 0),
            ms_stamp_sec (last xs) - ms_stamp_sec (hd xs))
      else (vec2_zero, Fin 0, Fin 0))"

definition direction_coherence :: "MotionSample list \<Rightarrow> dbl" where
  "direction_coherence xs =
     (let (net, path, _) = window_motion xs
      in if Fin 0.000000000001 < path then vec2_norm net / path else Fin 0)"

definition window_speed :: "MotionSample list \<Rightarrow> dbl" where
  "window_speed xs =
     (let (net, _, duration) = window_motion xs
      in if Fin 0.000001 < duration then vec2_norm net / duration else Fin 0)"

definition confirmed_by_window :: "StationaryMotionPolicyConfig \<Rightarrow> MotionSample list \<Rightarrow> int \<Rightarrow> bool" where
  "confirmed_by_window c xs count \<longleftrightarrow>
     mc_exit_confirm_frames c \<le> count \<and>
     mc_exit_cumulative_motion_m c \<le> vec2_norm (fst (window_motion xs)) + Fin 0.000000001 \<and>
     mc_exit_direction_cosine_min c \<le> direction_coherence xs + Fin 0.000000001 \<and>
     mc_exit_min_speed_mps c \<le> window_speed xs + Fin 0.000000001"

definition anchor_drift :: "StationaryMotionPolicy \<Rightarrow> StationaryMotionInput \<Rightarrow> dbl" where
  "anchor_drift s i =
     (if vec2_allFinite (mi_raw_position i)
      then vec2_norm (vec2_sub (mi_raw_position i) (mp_raw_anchor_position s)) else Fin 0)"

definition forced_anchor_release :: "StationaryMotionPolicyConfig \<Rightarrow> dbl \<Rightarrow> int \<Rightarrow> bool" where
  "forced_anchor_release c drift count \<longleftrightarrow>
     mc_exit_confirm_frames c \<le> count \<and> mc_exit_force_anchor_drift_m c \<le> drift + Fin 0.000000001"

text \<open>Taking the sample and refreshing the window members.\<close>

definition take_sample ::
  "StationaryMotionPolicy \<Rightarrow> StationaryMotionInput \<Rightarrow> bool \<Rightarrow> StationaryMotionPolicy" where
  "take_sample s i plausible =
     (let s1 = (if plausible then appendMotionSample (mi_stamp_sec i) (mi_raw_position i) s
                else pruneMotionSamples (mi_stamp_sec i) s);
          (net, path, _) = window_motion (mp_motion_samples s1)
      in s1\<lparr>mp_accumulated_motion := net, mp_confirmed_path_length_m := path,
            mp_movement_confirm_count :=
              (if mp_motion_samples s1 = [] then 0 else int (length (mp_motion_samples s1)) - 1)\<rparr>)"

definition update_holding ::
  "StationaryMotionPolicy \<Rightarrow> StationaryMotionInput \<Rightarrow> bool \<Rightarrow> StationaryMotionPolicy \<times> StationaryMotionDecision" where
  "update_holding s i plausible =
     (let drift = anchor_drift s i;
          s1 = take_sample s i plausible;
          c = mp_config s1;
          xs = mp_motion_samples s1;
          count = mp_movement_confirm_count s1;
          s2 = (if mp_state s1 = STATIONARY_HOLD \<and> plausible \<and>
                   mc_exit_min_increment_m c \<le> mp_confirmed_path_length_m s1 + Fin 0.000000001
                then beginMovementConfirmation (mi_stamp_sec i) s1 else s1)
      in if confirmed_by_window c xs count \<or> forced_anchor_release c drift count
         then let s3 = s2\<lparr>mp_state := CATCH_UP, mp_catch_up_complete_count := 0\<rparr>
              in (s3, (baseDecision s3 i)
                        \<lparr>md_movement_confirmed := True, md_start_catch_up := True,
                         md_constrained_position := mi_filtered_position i,
                         md_reason := (if confirmed_by_window c xs count then ''MOVEMENT_CONFIRMED_START_CATCH_UP''
                                       else ''ANCHOR_DRIFT_FAILSAFE_START_CATCH_UP'')\<rparr>)
         else if mp_state s2 = MOVING_CONFIRM
         then (if mc_moving_confirm_timeout_sec c < mi_stamp_sec i - mp_movement_confirm_start_stamp_sec s2 \<and>
                  drift < mc_exit_cumulative_motion_m c \<and>
                  direction_coherence xs < mc_exit_direction_cosine_min c
               then let s3 = rejectMovementEvidence i s2
                    in (s3, (baseDecision s3 i)\<lparr>md_reason := ''DRIFT_ONLY_REJECTED''\<rparr>)
               else (s2, (baseDecision s2 i)\<lparr>md_reason :=
                       (if plausible then ''MOVEMENT_CONFIRM_PENDING'' else ''MOVEMENT_CONFIRM_GAP'')\<rparr>))
         else (s2, (baseDecision s2 i)\<lparr>md_reason :=
                 (if isReliableMeasurement i then ''STATIONARY_HOLD'' else ''UNRELIABLE_MOVE_EVIDENCE'')\<rparr>))"

definition physically_plausible :: "StationaryMotionPolicy \<Rightarrow> StationaryMotionInput \<Rightarrow> bool" where
  "physically_plausible s i \<longleftrightarrow>
     isReliableMeasurement i \<and> mp_has_last_raw_position s \<and>
     vec2_norm (vec2_sub (mi_raw_position i) (mp_last_raw_position s))
       \<le> mi_allowed_physical_step_m i + Fin 0.000000001"

definition motion_update ::
  "(StationaryMotionPolicy, StationaryMotionInput, StationaryMotionDecision) machine" where
  "motion_update s i =
     (if \<not> isFreshTimestamp s (mi_stamp_sec i)
      then (s, (baseDecision s i)\<lparr>md_reason := ''DUPLICATE_OR_NONFINITE_STAMP''\<rparr>)
      else
        let plausible = physically_plausible s i;
            s0 = s\<lparr>mp_has_last_stamp := True, mp_last_stamp_sec := mi_stamp_sec i\<rparr>;
            s1 = (if isReliableMeasurement i
                  then s0\<lparr>mp_has_last_raw_position := True, mp_last_raw_position := mi_raw_position i\<rparr> else s0)
        in case mp_state s1 of
             MOVING \<Rightarrow> update_moving s1 i
           | CATCH_UP \<Rightarrow> update_catch_up s1 i
           | _ \<Rightarrow> update_holding s1 i plausible)"

section \<open>Lemmas\<close>

lemmas motion_update_defs = update_moving_def update_catch_up_def update_holding_def Let_def

text \<open>The members set before the dispatch on the state.\<close>

definition note_frame :: "StationaryMotionPolicy \<Rightarrow> StationaryMotionInput \<Rightarrow> StationaryMotionPolicy" where
  "note_frame s i =
     (let s0 = s\<lparr>mp_has_last_stamp := True, mp_last_stamp_sec := mi_stamp_sec i\<rparr>
      in if isReliableMeasurement i
         then s0\<lparr>mp_has_last_raw_position := True, mp_last_raw_position := mi_raw_position i\<rparr> else s0)"

lemma note_frame_simps [simp]:
  "mp_state (note_frame s i) = mp_state s" "mp_config (note_frame s i) = mp_config s"
  "mp_has_last_stamp (note_frame s i)" "mp_last_stamp_sec (note_frame s i) = mi_stamp_sec i"
  "mp_stationary_enter_count (note_frame s i) = mp_stationary_enter_count s"
  "mp_motion_samples (note_frame s i) = mp_motion_samples s"
  "mp_raw_anchor_position (note_frame s i) = mp_raw_anchor_position s"
  by (simp_all add: note_frame_def Let_def)

lemma motion_update_cases:
  obtains (stale) "\<not> isFreshTimestamp s (mi_stamp_sec i)"
      "motion_update s i = (s, (baseDecision s i)\<lparr>md_reason := ''DUPLICATE_OR_NONFINITE_STAMP''\<rparr>)"
  | (moving) "isFreshTimestamp s (mi_stamp_sec i)" "mp_state s = MOVING"
      "motion_update s i = update_moving (note_frame s i) i"
  | (catching) "isFreshTimestamp s (mi_stamp_sec i)" "mp_state s = CATCH_UP"
      "motion_update s i = update_catch_up (note_frame s i) i"
  | (holding) "isFreshTimestamp s (mi_stamp_sec i)" "mp_state s = STATIONARY_HOLD \<or> mp_state s = MOVING_CONFIRM"
      "motion_update s i = update_holding (note_frame s i) i (physically_plausible s i)"
proof (cases "isFreshTimestamp s (mi_stamp_sec i)")
  case False
  then show ?thesis using stale by (simp add: motion_update_def)
next
  case True
  have "motion_update s i =
      (case mp_state (note_frame s i) of
         MOVING \<Rightarrow> update_moving (note_frame s i) i
       | CATCH_UP \<Rightarrow> update_catch_up (note_frame s i) i
       | _ \<Rightarrow> update_holding (note_frame s i) i (physically_plausible s i))"
    using True by (simp only: motion_update_def note_frame_def Let_def not_not if_False if_True simp_thms)
  then show ?thesis
    using True moving catching holding by (cases "mp_state s") simp_all
qed

lemma base_allow [simp]:
  "md_allow_local_map_update (baseDecision s i) = (mp_state s = MOVING \<and> isReliableMeasurement i)"
  "md_allow_persistent_map_commit (baseDecision s i) = (mp_state s = MOVING \<and> isReliableMeasurement i)"
  "md_state (baseDecision s i) = mp_state s" "md_start_catch_up (baseDecision s i) = False"
  by (simp_all add: baseDecision_def Let_def)

lemma enter_state [simp]: "mp_state (enterStationary i s) = STATIONARY_HOLD"
  "mp_config (enterStationary i s) = mp_config s"
  "mp_motion_samples (enterStationary i s) = [\<lparr>ms_stamp_sec = mi_stamp_sec i, ms_raw_position = mi_raw_position i\<rparr>]"
  by (simp_all add: enterStationary_def)

lemma begin_simps [simp]: "mp_state (beginMovementConfirmation t s) = MOVING_CONFIRM"
  "mp_config (beginMovementConfirmation t s) = mp_config s"
  "mp_motion_samples (beginMovementConfirmation t s) = mp_motion_samples s"
  by (simp_all add: beginMovementConfirmation_def)

lemma reject_simps [simp]: "mp_state (rejectMovementEvidence i s) = STATIONARY_HOLD"
  "mp_config (rejectMovementEvidence i s) = mp_config s"
  by (simp_all add: rejectMovementEvidence_def)

lemma prune_config [simp]: "mp_config (pruneMotionSamples t s) = mp_config s"
  "mp_state (pruneMotionSamples t s) = mp_state s"
  by (simp_all add: pruneMotionSamples_def)

lemma append_config [simp]: "mp_config (appendMotionSample t p s) = mp_config s"
  "mp_state (appendMotionSample t p s) = mp_state s"
  by (simp_all add: appendMotionSample_def)

lemma take_sample_simps [simp]:
  "mp_config (take_sample s i p) = mp_config s" "mp_state (take_sample s i p) = mp_state s"
  by (simp_all add: take_sample_def Let_def split_beta)

lemma holding_no_map:
  assumes "mp_state s \<noteq> MOVING"
  shows "\<not> md_allow_local_map_update (snd (update_holding s i p))"
    "\<not> md_allow_persistent_map_commit (snd (update_holding s i p))"
  using assms by (simp_all add: update_holding_def Let_def)

lemma catching_no_map:
  assumes "mp_state s = CATCH_UP"
  shows "\<not> md_allow_local_map_update (snd (update_catch_up s i))"
    "\<not> md_allow_persistent_map_commit (snd (update_catch_up s i))"
  using assms by (simp_all add: update_catch_up_def Let_def split_beta)

lemma moving_map:
  assumes "mp_state s = MOVING" and "md_allow_local_map_update (snd (update_moving s i)) \<or>
    md_allow_persistent_map_commit (snd (update_moving s i))"
  shows "isReliableMeasurement i \<and> md_state (snd (update_moving s i)) = MOVING \<and>
    mp_state (fst (update_moving s i)) = MOVING"
  using assms by (simp add: update_moving_def Let_def split: if_split_asm)

lemma motion_update_config [simp]: "mp_config (fst (motion_update s i)) = mp_config s"
  by (cases rule: motion_update_cases [of s i])
    (simp_all add: update_moving_def update_catch_up_def update_holding_def Let_def split_beta)

text \<open>The motion samples of a policy: finite stamps that increase by more than the tolerance.\<close>

definition samples_ok :: "dbl \<Rightarrow> MotionSample list \<Rightarrow> bool" where
  "samples_ok eps xs \<longleftrightarrow>
     list_all (\<lambda>x. isfinite (ms_stamp_sec x)) xs \<and>
     successively (\<lambda>a b. ms_stamp_sec a + eps < ms_stamp_sec b) xs"

definition motion_inv :: "StationaryMotionPolicyConfig \<Rightarrow> StationaryMotionPolicy \<Rightarrow> bool" where
  "motion_inv c s \<longleftrightarrow> mp_config s = sanitize_config c \<and>
     samples_ok (mc_timestamp_epsilon_sec (sanitize_config c)) (mp_motion_samples s)"

lemma samples_ok_Nil [simp]: "samples_ok eps []"
  by (simp add: samples_ok_def)

lemma samples_ok_single: "isfinite t \<Longrightarrow> samples_ok eps [\<lparr>ms_stamp_sec = t, ms_raw_position = p\<rparr>]"
  by (simp add: samples_ok_def)

lemma samples_ok_tl: "samples_ok eps (a # xs) \<Longrightarrow> samples_ok eps xs"
  by (cases xs) (simp_all add: samples_ok_def)

lemma samples_ok_prune: "samples_ok eps xs \<Longrightarrow> samples_ok eps (prune_samples m xs)"
  by (induction m xs rule: prune_samples.induct) (auto dest: samples_ok_tl)

lemma epsilon_cases: "(\<exists>e. mc_timestamp_epsilon_sec (sanitize_config c) = Fin e \<and> 0 \<le> e) \<or>
    mc_timestamp_epsilon_sec (sanitize_config c) = PInf"
  by (cases "mc_timestamp_epsilon_sec c") (auto simp: sanitize_config_def Let_def cpp_max_def)

lemma samples_ok_snoc:
  assumes "samples_ok (mc_timestamp_epsilon_sec (sanitize_config c)) xs" and "isfinite t"
    and "xs \<noteq> [] \<Longrightarrow> \<not> t \<le> ms_stamp_sec (last xs) + mc_timestamp_epsilon_sec (sanitize_config c)"
  shows "samples_ok (mc_timestamp_epsilon_sec (sanitize_config c)) (xs @ [\<lparr>ms_stamp_sec = t, ms_raw_position = p\<rparr>])"
proof (cases "xs = []")
  case True
  then show ?thesis using assms(2) by (simp add: samples_ok_def)
next
  case False
  then have "isfinite (ms_stamp_sec (last xs))"
    using assms(1) by (simp add: samples_ok_def list_all_iff)
  then have "ms_stamp_sec (last xs) + mc_timestamp_epsilon_sec (sanitize_config c) < t"
    using assms(2) assms(3) [OF False] epsilon_cases [of c] by (auto simp: isfinite_iff)
  then show ?thesis
    using assms(1,2) False by (simp add: samples_ok_def successively_append_iff)
qed

lemma motion_inv_take:
  assumes "motion_inv c s"
  shows "motion_inv c (take_sample s i p)"
proof -
  have cfg: "mp_config s = sanitize_config c"
    and ok: "samples_ok (mc_timestamp_epsilon_sec (sanitize_config c)) (mp_motion_samples s)"
    using assms by (simp_all add: motion_inv_def)
  have "samples_ok (mc_timestamp_epsilon_sec (sanitize_config c))
      (mp_motion_samples (appendMotionSample (mi_stamp_sec i) (mi_raw_position i) s))"
    using ok cfg by (auto simp: appendMotionSample_def pruneMotionSamples_def intro!: samples_ok_prune samples_ok_snoc samples_ok_single)
  moreover have "samples_ok (mc_timestamp_epsilon_sec (sanitize_config c))
      (mp_motion_samples (pruneMotionSamples (mi_stamp_sec i) s))"
    using ok by (simp add: pruneMotionSamples_def samples_ok_prune)
  ultimately show ?thesis
    using cfg by (simp add: motion_inv_def take_sample_def Let_def split_beta)
qed

lemma holding_samples:
  "mp_motion_samples (fst (update_holding s i p)) = mp_motion_samples (take_sample s i p) \<or>
   mp_motion_samples (fst (update_holding s i p)) = [\<lparr>ms_stamp_sec = mi_stamp_sec i, ms_raw_position = mi_raw_position i\<rparr>] \<or>
   mp_motion_samples (fst (update_holding s i p)) = []"
  by (simp add: update_holding_def Let_def rejectMovementEvidence_def)

lemma holding_config: "mp_config (fst (update_holding s i p)) = mp_config s"
  by (simp add: update_holding_def Let_def)

lemma motion_inv_holding:
  assumes "motion_inv c s" and "isfinite (mi_stamp_sec i)"
  shows "motion_inv c (fst (update_holding s i p))"
  using holding_samples [of s i p] motion_inv_take [OF assms(1), of i p] assms
  by (auto simp: motion_inv_def holding_config samples_ok_single)

interpretation motion: invariant_machine motion_update "motion_inv c" for c
proof
  fix s i assume inv: "motion_inv c s"
  then have note_inv: "motion_inv c (note_frame s i)" by (simp add: motion_inv_def)
  show "motion_inv c (fst (motion_update s i))"
  proof (cases rule: motion_update_cases [of s i])
    case stale
    then show ?thesis using inv by simp
  next
    case moving
    then have "isfinite (mi_stamp_sec i)" by (simp add: isFreshTimestamp_def)
    then show ?thesis using moving(3) note_inv
      by (simp add: update_moving_def Let_def motion_inv_def samples_ok_single)
  next
    case catching
    then show ?thesis using note_inv by (simp add: update_catch_up_def Let_def split_beta motion_inv_def)
  next
    case holding
    then show ?thesis using motion_inv_holding [OF note_inv] by (simp add: isFreshTimestamp_def)
  qed
qed

lemma motion_init_inv: "motion_inv c (motion_init c)"
  by (simp add: motion_inv_def motion_init_def motion_setConfig_def)

lemma vec2_norm_Fin: "vec2_norm \<lparr>v2x = Fin a, v2y = Fin b\<rparr> = Fin (sqrt (a * a + b * b))"
  by (simp add: vec2_norm_def not_sum_squares_lt_zero)

text \<open>A step along the error vector: its length is the step, and what remains is the rest of the error.\<close>

lemma scaled_step:
  fixes a b u v m :: real
  defines "n \<equiv> sqrt ((a - u) * (a - u) + (b - v) * (b - v))"
  assumes "0 < n" and "0 < m"
  defines "k \<equiv> min n m / n"
  shows "sqrt (((u + (a - u) * k) - u) * ((u + (a - u) * k) - u) + ((v + (b - v) * k) - v) * ((v + (b - v) * k) - v)) = min n m"
    and "sqrt ((a - (u + (a - u) * k)) * (a - (u + (a - u) * k)) + (b - (v + (b - v) * k)) * (b - (v + (b - v) * k))) = n - min n m"
proof -
  have k: "0 \<le> k" "k \<le> 1" "k * n = min n m" using assms by (simp_all add: k_def)
  have sq: "sqrt (((a - u) * r) * ((a - u) * r) + ((b - v) * r) * ((b - v) * r)) = r * n" if "0 \<le> r" for r
  proof -
    have "((a - u) * r) * ((a - u) * r) + ((b - v) * r) * ((b - v) * r) = r\<^sup>2 * ((a - u) * (a - u) + (b - v) * (b - v))"
      by (simp add: power2_eq_square algebra_simps)
    then show ?thesis using that by (simp add: real_sqrt_mult n_def)
  qed
  show "sqrt (((u + (a - u) * k) - u) * ((u + (a - u) * k) - u) + ((v + (b - v) * k) - v) * ((v + (b - v) * k) - v)) = min n m"
    using sq [OF k(1)] k(3) by simp
  have e: "a - (u + (a - u) * k) = (a - u) * (1 - k)" "b - (v + (b - v) * k) = (b - v) * (1 - k)"
    by (simp_all add: algebra_simps)
  show "sqrt ((a - (u + (a - u) * k)) * (a - (u + (a - u) * k)) + (b - (v + (b - v) * k)) * (b - (v + (b - v) * k))) = n - min n m"
    unfolding e using sq [of "1 - k"] k by (simp add: algebra_simps)
qed

text \<open>The window of frames that show standstill while the policy is moving.\<close>

definition standstill_window ::
  "StationaryMotionPolicyConfig \<Rightarrow> StationaryMotionPolicy \<Rightarrow> StationaryMotionInput list \<Rightarrow> bool" where
  "standstill_window c s xs \<longleftrightarrow>
     mp_config s = c \<and>
     (mp_state s = MOVING \<longrightarrow>
        mp_stationary_enter_count s = int (length xs) \<and>
        (xs \<noteq> [] \<longrightarrow> mp_has_last_stamp s \<and> mp_last_stamp_sec s = mi_stamp_sec (last xs)))"

definition follows :: "StationaryMotionPolicyConfig \<Rightarrow> StationaryMotionInput \<Rightarrow> StationaryMotionInput \<Rightarrow> bool" where
  "follows c a b \<longleftrightarrow> mi_stamp_sec a + mc_timestamp_epsilon_sec c < mi_stamp_sec b"

abbreviation entered :: "StationaryMotionDecision \<Rightarrow> bool" where
  "entered d \<equiv> md_reason d = ''STATIONARY_CONFIRMED''"

lemma catch_release:
  assumes "mp_state s = CATCH_UP"
  shows "\<not> entered (snd (update_catch_up s i)) \<and>
    (mp_state (fst (update_catch_up s i)) = MOVING \<longrightarrow> mp_stationary_enter_count (fst (update_catch_up s i)) = 0)"
  using assms by (simp add: update_catch_up_def Let_def split_beta)

lemma hold_release_state:
  assumes "mp_state s = STATIONARY_HOLD \<or> mp_state s = MOVING_CONFIRM"
  shows "\<not> entered (snd (update_holding s i p)) \<and> mp_state (fst (update_holding s i p)) \<noteq> MOVING"
  using assms by (auto simp: update_holding_def Let_def)

lemma moving_step:
  assumes "mp_state s = MOVING" and "standstill_window c s xs" and fresh: "isFreshTimestamp s (mi_stamp_sec i)"
  shows "\<exists>ys. standstill_window c (fst (update_moving (note_frame s i) i)) ys \<and>
    evolves (stationary_evidence c) (follows c) xs i ys \<and>
    (entered (snd (update_moving (note_frame s i) i)) \<longrightarrow> mc_enter_confirm_frames c \<le> int (length ys))"
proof (cases "stationary_evidence c i")
  case True
  let ?ys = "xs @ [i]"
  have w: "mp_config s = c" "mp_stationary_enter_count s = int (length xs)"
    using assms by (simp_all add: standstill_window_def)
  have "xs \<noteq> [] \<longrightarrow> follows c (last xs) i"
    using assms by (auto simp: standstill_window_def isFreshTimestamp_def follows_def)
  then have "evolves (stationary_evidence c) (follows c) xs i ?ys" using True by (auto simp: evolves_def)
  moreover have "standstill_window c (fst (update_moving (note_frame s i) i)) ?ys"
    using w True assms(1) by (simp add: update_moving_def standstill_window_def Let_def)
  moreover have "entered (snd (update_moving (note_frame s i) i)) \<longrightarrow> mc_enter_confirm_frames c \<le> int (length ?ys)"
    using w True by (simp add: update_moving_def Let_def)
  ultimately show ?thesis by blast
next
  case False
  have w: "mp_config s = c" using assms by (simp add: standstill_window_def)
  have "standstill_window c (fst (update_moving (note_frame s i) i)) []"
    using w False by (simp add: update_moving_def standstill_window_def Let_def)
  moreover have "entered (snd (update_moving (note_frame s i) i)) \<longrightarrow> mc_enter_confirm_frames c \<le> int (length [])"
    using w False by (simp add: update_moving_def Let_def)
  ultimately show ?thesis by (intro exI [of _ "[]"]) (simp add: evolves_def)
qed

interpretation standstill: held_evidence_machine motion_update "standstill_window c" "stationary_evidence c" "follows c"
    entered "mc_enter_confirm_frames c" for c
proof
  fix s xs i
  assume w: "standstill_window c s xs"
  show "\<exists>ys. standstill_window c (fst (motion_update s i)) ys \<and> evolves (stationary_evidence c) (follows c) xs i ys \<and>
    (entered (snd (motion_update s i)) \<longrightarrow> mc_enter_confirm_frames c \<le> int (length ys))"
  proof (cases rule: motion_update_cases [of s i])
    case stale
    then show ?thesis using w by (intro exI [of _ xs]) (simp add: evolves_def)
  next
    case moving
    then show ?thesis using moving_step w by simp
  next
    case catching
    then have "standstill_window c (fst (motion_update s i)) []" "\<not> entered (snd (motion_update s i))"
      using w catch_release [of "note_frame s i" i] motion_update_config [of s i]
      by (simp_all add: standstill_window_def)
    then show ?thesis by (intro exI [of _ "[]"]) (simp add: evolves_def)
  next
    case holding
    then have "standstill_window c (fst (motion_update s i)) []" "\<not> entered (snd (motion_update s i))"
      using w hold_release_state [of "note_frame s i" i] motion_update_config [of s i]
      by (simp_all add: standstill_window_def)
    then show ?thesis by (intro exI [of _ "[]"]) (simp add: evolves_def)
  qed
qed

lemma holding_release:
  assumes "md_start_catch_up (snd (update_holding s i p))"
  shows "confirmed_by_window (mp_config s) (mp_motion_samples (take_sample s i p))
       (mp_movement_confirm_count (take_sample s i p)) \<or>
     forced_anchor_release (mp_config s) (anchor_drift s i) (mp_movement_confirm_count (take_sample s i p))"
    and "mp_motion_samples (fst (update_holding s i p)) = mp_motion_samples (take_sample s i p)"
    and "mp_state (fst (update_holding s i p)) = CATCH_UP"
  using assms by (auto simp: update_holding_def Let_def split: if_split_asm)

lemma take_sample_count:
  "mp_movement_confirm_count (take_sample s i p) =
     (if mp_motion_samples (take_sample s i p) = [] then 0 else int (length (mp_motion_samples (take_sample s i p))) - 1)"
  by (simp add: take_sample_def Let_def split_beta)

lemma start_only_from_hold: "md_start_catch_up (snd (motion_update s i)) \<Longrightarrow>
    isFreshTimestamp s (mi_stamp_sec i) \<and> (mp_state s = STATIONARY_HOLD \<or> mp_state s = MOVING_CONFIRM) \<and>
    motion_update s i = update_holding (note_frame s i) i (physically_plausible s i)"
  by (cases rule: motion_update_cases [of s i])
    (auto simp: update_moving_def update_catch_up_def Let_def split_beta split: if_split_asm)

lemma anchor_drift_note [simp]: "anchor_drift (note_frame s i) i = anchor_drift s i"
  by (simp add: anchor_drift_def)

lemma exit_frames_pos: "1 \<le> mc_exit_confirm_frames (sanitize_config c)"
  by (simp add: sanitize_config_def Let_def)

section \<open>Properties\<close>

text \<open>Maps are written only while the crane is known to move: whatever the state, an update that allows a local map
  update or a persistent commit starts and ends in MOVING with a reliable measurement; so no frame of a hold,
  of a movement confirmation or of a catch-up, its release frame included, reaches a map.\<close>

theorem motion_map_frozen:
  assumes "md_allow_local_map_update (snd (motion_update s i)) \<or> md_allow_persistent_map_commit (snd (motion_update s i))"
  shows "mp_state s = MOVING \<and> mp_state (fst (motion_update s i)) = MOVING \<and>
    md_state (snd (motion_update s i)) = MOVING \<and> isReliableMeasurement i"
  using assms
proof (cases rule: motion_update_cases [of s i])
  case moving
  then show ?thesis using assms moving_map [of "note_frame s i" i] by simp
next
  case catching
  then show ?thesis using assms catching_no_map [of "note_frame s i" i] by simp
next
  case holding
  then show ?thesis using assms holding_no_map [of "note_frame s i" i] by auto
qed simp

definition demo_motion :: "real \<Rightarrow> real \<Rightarrow> StationaryMotionInput" where
  "demo_motion t x =
     \<lparr>mi_stamp_sec = Fin t, mi_ndt_converged = True, mi_ndt_accepted = True, mi_prediction_only = False,
      mi_registration_quality_valid = True, mi_severe_degeneracy = False,
      mi_raw_position = \<lparr>v2x = Fin x, v2y = Fin 0\<rparr>, mi_filtered_position = \<lparr>v2x = Fin 0, v2y = Fin 0\<rparr>,
      mi_filtered_velocity = \<lparr>v2x = Fin 0, v2y = Fin 0\<rparr>, mi_raw_increment_m = Fin 0,
      mi_allowed_physical_step_m = Fin 1\<rparr>"

lemma demo_motion_reliable: "isReliableMeasurement (demo_motion t x)"
  by (simp add: isReliableMeasurement_def demo_motion_def vec2_allFinite_def)

theorem motion_map_frozen_witness:
  "md_allow_local_map_update (snd (motion_update (motion_init default_StationaryMotionPolicyConfig) (demo_motion 1 0))) \<and>
   mp_state (motion_init default_StationaryMotionPolicyConfig) = MOVING"
proof -
  have "md_allow_local_map_update (snd (motion_update (motion_init default_StationaryMotionPolicyConfig) (demo_motion 1 0)))"
    by (simp add: motion_update_def motion_init_def motion_setConfig_def isFreshTimestamp_def update_moving_def Let_def
        demo_motion_reliable sanitize_config_def default_StationaryMotionPolicyConfig_def)
  then show ?thesis using motion_map_frozen by blast
qed

lemma catch_up_point:
  fixes a b u v m n :: real
  assumes n: "n = sqrt ((a - u) * (a - u) + (b - v) * (b - v))"
    and raw: "raw = \<lparr>v2x = Fin a, v2y = Fin b\<rparr>" and filtered: "filtered = \<lparr>v2x = Fin u, v2y = Fin v\<rparr>" and pos: "0 < n" "0 < m"
  shows "vec2_norm (vec2_sub (vec2_add filtered (vec2_scale (vec2_sub raw filtered) (Fin (min n m) / Fin n))) filtered) =
      Fin (min n m)"
    and "vec2_norm (vec2_sub raw (vec2_add filtered (vec2_scale (vec2_sub raw filtered) (Fin (min n m) / Fin n)))) =
      Fin (n - min n m)"
proof -
  have q: "vec2_add filtered (vec2_scale (vec2_sub raw filtered) (Fin (min n m) / Fin n)) =
      \<lparr>v2x = Fin (u + (a - u) * (min n m / n)), v2y = Fin (v + (b - v) * (min n m / n))\<rparr>"
    using pos by (simp add: raw filtered vec2_add_def vec2_scale_def vec2_sub_def)
  show "vec2_norm (vec2_sub (vec2_add filtered (vec2_scale (vec2_sub raw filtered) (Fin (min n m) / Fin n))) filtered) =
      Fin (min n m)"
    unfolding q using scaled_step(1) [where a = a and b = b and u = u and v = v and m = m] pos
    by (simp add: raw filtered vec2_norm_Fin vec2_sub_def n)
  show "vec2_norm (vec2_sub raw (vec2_add filtered (vec2_scale (vec2_sub raw filtered) (Fin (min n m) / Fin n)))) =
      Fin (n - min n m)"
    unfolding q using scaled_step(2) [where a = a and b = b and u = u and v = v and m = m] pos
    by (simp add: raw filtered vec2_norm_Fin vec2_sub_def n)
qed

text \<open>The pose catches up in bounded steps: in CATCH_UP with a finite filtered position and a finite step limit,
  the constrained position is never farther from the filtered one than the limit, and on a bounded step with a visible error
  it lies on the way to the measured position, with exactly the reported step gained.\<close>

theorem catch_up_bounded:
  assumes "mp_state s = CATCH_UP" and "isFreshTimestamp s (mi_stamp_sec i)"
    and "mc_catch_up_max_step_m (mp_config s) = Fin m" and "0 < m" and "vec2_allFinite (mi_filtered_position i)"
  shows "vec2_norm (vec2_sub (md_constrained_position (snd (motion_update s i))) (mi_filtered_position i)) \<le> Fin m \<and>
    (md_reason (snd (motion_update s i)) = ''CATCH_UP_BOUNDED'' \<and>
     Fin 0.000000000001 < vec2_norm (vec2_sub (mi_raw_position i) (mi_filtered_position i)) \<longrightarrow>
       vec2_norm (vec2_sub (mi_raw_position i) (md_constrained_position (snd (motion_update s i)))) =
       vec2_norm (vec2_sub (mi_raw_position i) (mi_filtered_position i)) - md_catch_up_step_m (snd (motion_update s i)))"
proof -
  obtain u v where f: "mi_filtered_position i = \<lparr>v2x = Fin u, v2y = Fin v\<rparr>"
    using assms(5) by (cases "mi_filtered_position i") (auto simp: vec2_allFinite_def isfinite_iff)
  have r: "motion_update s i = update_catch_up (note_frame s i) i"
    using assms(1,2) by (cases rule: motion_update_cases [of s i]) simp_all
  have zero: "vec2_norm (vec2_sub (mi_filtered_position i) (mi_filtered_position i)) = Fin 0"
    by (simp add: f vec2_norm_def vec2_sub_def)
  show ?thesis
  proof (cases "isReliableMeasurement i")
    case False
    then show ?thesis using zero assms(4) by (simp add: r update_catch_up_def Let_def)
  next
    case True
    obtain a b where p: "mi_raw_position i = \<lparr>v2x = Fin a, v2y = Fin b\<rparr>"
      using True by (cases "mi_raw_position i") (auto simp: isReliableMeasurement_def vec2_allFinite_def isfinite_iff)
    define n where "n = sqrt ((a - u) * (a - u) + (b - v) * (b - v))"
    have n: "vec2_norm (vec2_sub (mi_raw_position i) (mi_filtered_position i)) = Fin n"
      by (simp add: p f vec2_norm_Fin vec2_sub_def n_def)
    let ?d = "snd (motion_update s i)"
    let ?q = "vec2_add (mi_filtered_position i)
      (vec2_scale (vec2_sub (mi_raw_position i) (mi_filtered_position i)) (Fin (min n m) / Fin n))"
    have d: "md_constrained_position ?d = mi_filtered_position i \<and> md_reason ?d \<noteq> ''CATCH_UP_BOUNDED'' \<or>
        md_reason ?d = ''CATCH_UP_BOUNDED'' \<and> md_catch_up_step_m ?d = Fin (min n m) \<and>
        md_constrained_position ?d = (if 0.000000000001 < n then ?q else mi_filtered_position i)"
      using True n assms(1,3)
      by (simp add: r update_catch_up_def catch_up_step_def Let_def split_beta baseDecision_def)
    show ?thesis
    proof (cases "0.000000000001 < n")
      case True
      have "(0::real) < 0.000000000001" by simp
      from this True have pos: "0 < n" by (rule less_trans)
      have "vec2_norm (vec2_sub ?q (mi_filtered_position i)) = Fin (min n m)"
          "vec2_norm (vec2_sub (mi_raw_position i) ?q) = Fin (n - min n m)"
        using catch_up_point [OF n_def p f pos assms(4)] by simp_all
      then show ?thesis using d True zero n assms(4) by (auto simp: min_def)
    next
      case False
      then show ?thesis using d zero n assms(4) by auto
    qed
  qed
qed

definition demo_catching :: StationaryMotionPolicy where
  "demo_catching = (motion_init default_StationaryMotionPolicyConfig)\<lparr>mp_state := CATCH_UP\<rparr>"

theorem catch_up_bounded_witness:
  "vec2_norm (vec2_sub (md_constrained_position (snd (motion_update demo_catching (demo_motion 1 1))))
     (mi_filtered_position (demo_motion 1 1))) \<le> Fin 0.08"
proof -
  have "mp_state demo_catching = CATCH_UP" "isFreshTimestamp demo_catching (mi_stamp_sec (demo_motion 1 1))"
    "mc_catch_up_max_step_m (mp_config demo_catching) = Fin 0.08" "vec2_allFinite (mi_filtered_position (demo_motion 1 1))"
    by (simp_all add: demo_catching_def motion_init_def motion_setConfig_def isFreshTimestamp_def demo_motion_def
        sanitize_config_def default_StationaryMotionPolicyConfig_def Let_def vec2_allFinite_def max_def)
  then show ?thesis using catch_up_bounded [of demo_catching "demo_motion 1 1" "0.08"] by simp
qed

text \<open>A hold needs repeated standstill: if the k-th decision of a freshly configured policy confirms standstill,
  then among the frames so far there is a chain, with stamps increasing by more than the
  tolerance, of at least the configured number of reliable frames whose measured increment and speed are
  below the limits.\<close>

theorem standstill_needs_frames:
  assumes "k < length is" and "entered (run_outputs motion_update (motion_init c) is ! k)"
  shows "\<exists>ys. subseq ys (take (Suc k) is) \<and> list_all (stationary_evidence (sanitize_config c)) ys \<and>
    successively (follows (sanitize_config c)) ys \<and>
    mc_enter_confirm_frames (sanitize_config c) \<le> int (length ys) \<and> 1 \<le> length ys"
proof -
  have w: "standstill_window (sanitize_config c) (motion_init c) []"
    by (simp add: standstill_window_def motion_init_def motion_setConfig_def)
  have "1 \<le> mc_enter_confirm_frames (sanitize_config c)" by (simp add: sanitize_config_def Let_def)
  then show ?thesis using standstill.positive_backed [OF w assms] by fastforce
qed

definition demo_quick :: StationaryMotionPolicyConfig where
  "demo_quick = default_StationaryMotionPolicyConfig\<lparr>mc_enter_confirm_frames := 2\<rparr>"

theorem standstill_needs_frames_witness:
  "\<exists>ys. subseq ys [demo_motion 1 0, demo_motion 2 0] \<and> list_all (stationary_evidence (sanitize_config demo_quick)) ys \<and>
     2 \<le> length ys"
proof -
  have still: "stationary_evidence (sanitize_config demo_quick) (demo_motion t 0)" for t
    using demo_motion_reliable [of t 0]
    by (simp add: stationary_evidence_def sanitize_config_def Let_def demo_quick_def
        default_StationaryMotionPolicyConfig_def max_def) (simp add: demo_motion_def vec2_norm_Fin)
  have req: "mc_enter_confirm_frames (sanitize_config demo_quick) = 2"
    "mc_timestamp_epsilon_sec (sanitize_config demo_quick) = Fin 0.000001"
    by (simp_all add: sanitize_config_def demo_quick_def default_StationaryMotionPolicyConfig_def Let_def max_def)
  have t: "mi_stamp_sec (demo_motion t x) = Fin t" for t x by (simp add: demo_motion_def)
  have "entered (run_outputs motion_update (motion_init demo_quick) [demo_motion 1 0, demo_motion 2 0] ! 1)"
    by (simp add: motion_update_def motion_init_def motion_setConfig_def isFreshTimestamp_def t update_moving_def
        still req Let_def)
  then show ?thesis using standstill_needs_frames [of 1 "[demo_motion 1 0, demo_motion 2 0]" demo_quick] req by auto
qed

text \<open>A hold is released only by sustained motion: in every state reachable from a configured policy, a decision
  that starts the catch-up comes from a hold or a movement confirmation, and the evidence window then holds more samples
  than the configured confirmations, with finite stamps that increase by more than the tolerance; and either
  net motion, direction coherence and speed of that window reach their limits, or the
  drift from the anchor reaches the forced-release distance.\<close>

theorem hold_release_needs_motion:
  fixes s i c
  assumes "s = run_state motion_update (motion_init c) is" and "md_start_catch_up (snd (motion_update s i))"
  shows "(mp_state s = STATIONARY_HOLD \<or> mp_state s = MOVING_CONFIRM) \<and>
    mp_state (fst (motion_update s i)) = CATCH_UP \<and>
    (let xs = mp_motion_samples (fst (motion_update s i)) in
      mc_exit_confirm_frames (sanitize_config c) + 1 \<le> int (length xs) \<and> 2 \<le> length xs \<and>
      samples_ok (mc_timestamp_epsilon_sec (sanitize_config c)) xs \<and>
      (confirmed_by_window (sanitize_config c) xs (int (length xs) - 1) \<or>
       mc_exit_force_anchor_drift_m (sanitize_config c) \<le> anchor_drift s i + Fin 0.000000001))"
proof -
  have inv: "motion_inv c s" using motion.run_inv [OF motion_init_inv] assms(1) by simp
  then have cfg: "mp_config s = sanitize_config c" by (simp add: motion_inv_def)
  let ?t = "take_sample (note_frame s i) i (physically_plausible s i)"
  have start: "mp_state s = STATIONARY_HOLD \<or> mp_state s = MOVING_CONFIRM"
    and upd: "motion_update s i = update_holding (note_frame s i) i (physically_plausible s i)"
    using start_only_from_hold [OF assms(2)] by simp_all
  have rel: "confirmed_by_window (sanitize_config c) (mp_motion_samples ?t) (mp_movement_confirm_count ?t) \<or>
      forced_anchor_release (sanitize_config c) (anchor_drift s i) (mp_movement_confirm_count ?t)"
    and xs: "mp_motion_samples (fst (motion_update s i)) = mp_motion_samples ?t"
    and st: "mp_state (fst (motion_update s i)) = CATCH_UP"
    using holding_release [of "note_frame s i" i "physically_plausible s i"] assms(2) cfg by (simp_all add: upd)
  have "1 \<le> mp_movement_confirm_count ?t"
    using rel exit_frames_pos [of c] by (auto simp: confirmed_by_window_def forced_anchor_release_def)
  then have count: "mp_movement_confirm_count ?t = int (length (mp_motion_samples ?t)) - 1"
    "2 \<le> length (mp_motion_samples ?t)"
    using take_sample_count [of "note_frame s i" i "physically_plausible s i"] by (auto split: if_split_asm)
  moreover have "samples_ok (mc_timestamp_epsilon_sec (sanitize_config c)) (mp_motion_samples ?t)"
    using motion.step_inv [OF inv, of i] xs by (simp add: motion_inv_def)
  ultimately show ?thesis
    using start st rel xs by (auto simp: confirmed_by_window_def forced_anchor_release_def Let_def)
qed

definition demo_release :: StationaryMotionPolicyConfig where
  "demo_release = default_StationaryMotionPolicyConfig\<lparr>mc_enter_confirm_frames := 1, mc_exit_confirm_frames := 1\<rparr>"

definition demo_held :: StationaryMotionPolicy where
  "demo_held = run_state motion_update (motion_init demo_release) [demo_motion 1 0]"

lemma demo_held_state:
  "mp_config demo_held = sanitize_config demo_release" "mp_state demo_held = STATIONARY_HOLD"
  "mp_has_last_stamp demo_held" "mp_last_stamp_sec demo_held = Fin 1" "mp_has_last_raw_position demo_held"
  "mp_last_raw_position demo_held = \<lparr>v2x = Fin 0, v2y = Fin 0\<rparr>"
  "mp_raw_anchor_position demo_held = \<lparr>v2x = Fin 0, v2y = Fin 0\<rparr>"
  "mp_motion_samples demo_held = [\<lparr>ms_stamp_sec = Fin 1, ms_raw_position = \<lparr>v2x = Fin 0, v2y = Fin 0\<rparr>\<rparr>]"
  by (simp_all add: demo_held_def motion_update_def motion_init_def motion_setConfig_def isFreshTimestamp_def
      update_moving_def Let_def stationary_evidence_def demo_motion_reliable enterStationary_def)
    (simp_all add: demo_motion_def vec2_norm_Fin sanitize_config_def demo_release_def
      default_StationaryMotionPolicyConfig_def Let_def max_def)

lemma holding_confirmed:
  "confirmed_by_window (mp_config s) (mp_motion_samples (take_sample s i p)) (mp_movement_confirm_count (take_sample s i p)) \<Longrightarrow>
   md_start_catch_up (snd (update_holding s i p))"
  by (simp add: update_holding_def Let_def)

lemma demo_release_limits:
  "mc_exit_confirm_frames (sanitize_config demo_release) = 1"
  "mc_exit_cumulative_motion_m (sanitize_config demo_release) = Fin 0.15"
  "mc_exit_direction_cosine_min (sanitize_config demo_release) = Fin 0.8"
  "mc_exit_min_speed_mps (sanitize_config demo_release) = Fin 0.01"
  "mc_timestamp_epsilon_sec (sanitize_config demo_release) = Fin 0.000001"
  by (simp_all add: sanitize_config_def demo_release_def default_StationaryMotionPolicyConfig_def Let_def
      cpp_clamp_def)

theorem hold_release_needs_motion_witness:
  "md_start_catch_up (snd (motion_update demo_held (demo_motion 2 0.5))) \<and>
   mp_state (fst (motion_update demo_held (demo_motion 2 0.5))) = CATCH_UP"
proof -
  let ?i = "demo_motion 2 0.5"
  let ?xs = "[\<lparr>ms_stamp_sec = Fin 1, ms_raw_position = \<lparr>v2x = Fin 0, v2y = Fin 0\<rparr>\<rparr>,
    \<lparr>ms_stamp_sec = Fin 2, ms_raw_position = \<lparr>v2x = Fin 0.5, v2y = Fin 0\<rparr>\<rparr>]"
  have i: "mi_stamp_sec (demo_motion t x) = Fin t" "mi_raw_position (demo_motion t x) = \<lparr>v2x = Fin x, v2y = Fin 0\<rparr>"
    "mi_allowed_physical_step_m (demo_motion t x) = Fin 1" for t x by (simp_all add: demo_motion_def)
  have half: "sqrt (1 / 4) = (1 / 2 :: real)" by (simp add: real_sqrt_divide)
  have "isFreshTimestamp demo_held (mi_stamp_sec ?i)"
    by (simp add: isFreshTimestamp_def demo_held_state demo_release_limits i)
  then have upd: "motion_update demo_held ?i = update_holding (note_frame demo_held ?i) ?i (physically_plausible demo_held ?i)"
    using demo_held_state(2) by (cases rule: motion_update_cases [of demo_held ?i]) simp_all
  have "physically_plausible demo_held ?i"
    by (simp add: physically_plausible_def demo_motion_reliable demo_held_state i vec2_sub_def vec2_norm_Fin half)
  moreover have xs: "mp_motion_samples (take_sample (note_frame demo_held ?i) ?i True) = ?xs"
    by (simp add: take_sample_def appendMotionSample_def pruneMotionSamples_def Let_def split_beta demo_held_state
        demo_release_limits i vec2_allFinite_def)
  moreover have "confirmed_by_window (sanitize_config demo_release) ?xs 1"
    by (simp add: confirmed_by_window_def demo_release_limits window_motion_def direction_coherence_def
        window_speed_def vec2_sub_def vec2_norm_Fin half)
  ultimately have "md_start_catch_up (snd (motion_update demo_held ?i))"
    using holding_confirmed [of "note_frame demo_held ?i" ?i True] take_sample_count [of "note_frame demo_held ?i" ?i True]
      upd by (simp add: demo_held_state)
  then show ?thesis using hold_release_needs_motion [OF demo_held_def] by blast
qed

end
