(* ===== verification/Std_Map.thy ===== *)
theory Std_Map
  imports Ndt_Machines
begin

text \<open>
  \<^verbatim>\<open>std::map\<close> as the sources use it: an association list in strictly ascending key order, the order of its iterators.
  \<open>smap_put\<close> is the assignment \<^verbatim>\<open>m[k] = v\<close>, \<open>smap_erase\<close> is \<^verbatim>\<open>m.erase(k)\<close>, \<open>map_of\<close> is \<^verbatim>\<open>find\<close>; \<^verbatim>\<open>emplace\<close> is a lookup
  followed by \<open>smap_put\<close> where the key is new. The locale \<open>std_map\<close> is the interface its clients rely on.
\<close>

type_synonym ('k, 'v) smap = "('k \<times> 'v) list"

fun smap_put :: "'k::linorder \<Rightarrow> 'v \<Rightarrow> ('k, 'v) smap \<Rightarrow> ('k, 'v) smap" where
  "smap_put k v [] = [(k, v)]"
| "smap_put k v ((a, b) # m) =
     (if k < a then (k, v) # (a, b) # m else if k = a then (k, v) # m else (a, b) # smap_put k v m)"

definition smap_erase :: "'k \<Rightarrow> ('k, 'v) smap \<Rightarrow> ('k, 'v) smap" where
  "smap_erase k m = filter (\<lambda>e. fst e \<noteq> k) m"

definition smap_ok :: "('k::linorder, 'v) smap \<Rightarrow> bool" where
  "smap_ok m \<longleftrightarrow> sorted_wrt (<) (map fst m)"

section \<open>The interface\<close>

locale std_map =
  fixes empty :: 'm
    and put :: "'k \<Rightarrow> 'v \<Rightarrow> 'm \<Rightarrow> 'm"
    and erase :: "'k \<Rightarrow> 'm \<Rightarrow> 'm"
    and find :: "'m \<Rightarrow> 'k \<Rightarrow> 'v option"
    and ok :: "'m \<Rightarrow> bool"
  assumes find_empty: "find empty k = None"
    and find_put: "ok m \<Longrightarrow> find (put k v m) l = (if l = k then Some v else find m l)"
    and find_erase: "ok m \<Longrightarrow> find (erase k m) l = (if l = k then None else find m l)"
    and ok_empty: "ok empty"
    and ok_put: "ok m \<Longrightarrow> ok (put k v m)"
    and ok_erase: "ok m \<Longrightarrow> ok (erase k m)"
begin

lemma ok_erase_all: "ok m \<Longrightarrow> ok (fold erase ks m)"
  by (induction ks arbitrary: m) (auto intro: ok_erase)

lemma find_erase_all: "ok m \<Longrightarrow> find (fold erase ks m) l = (if l \<in> set ks then None else find m l)"
  by (induction ks arbitrary: m) (auto simp: find_erase ok_erase)

text \<open>A map filled from a list holds the last value written for each key.\<close>

lemma ok_fill: "ok m \<Longrightarrow> ok (fold (\<lambda>(k, v). put k v) es m)"
  by (induction es arbitrary: m) (auto intro: ok_put)

lemma find_fill:
  "ok m \<Longrightarrow> distinct (map fst es) \<Longrightarrow>
   find (fold (\<lambda>(k, v). put k v) es m) l = (case map_of es l of Some v \<Rightarrow> Some v | None \<Rightarrow> find m l)"
proof (induction es arbitrary: m)
  case (Cons e es)
  obtain k v where e: "e = (k, v)" by (cases e)
  have "map_of es k = None" using Cons.prems(2) e by (simp add: map_of_eq_None_iff)
  then show ?case using Cons e by (auto simp: ok_put find_put split: option.splits)
qed simp

end

section \<open>The ascending list\<close>

lemma smap_ok_simps [simp]: "smap_ok []" "smap_ok ((k, v) # m) \<longleftrightarrow> (\<forall>l \<in> fst ` set m. k < l) \<and> smap_ok m"
  by (auto simp: smap_ok_def)

lemma smap_ok_distinct: "smap_ok m \<Longrightarrow> distinct (map fst m)"
  by (auto simp: smap_ok_def strict_sorted_iff)

lemma keys_put: "fst ` set (smap_put k v m) = insert k (fst ` set m)"
  by (induction k v m rule: smap_put.induct) auto

lemma smap_ok_put: "smap_ok m \<Longrightarrow> smap_ok (smap_put k v m)"
proof (induction k v m rule: smap_put.induct)
  case (2 k v a b m)
  then show ?case using keys_put [of k v m] by force
qed simp

lemma smap_ok_filter: "smap_ok m \<Longrightarrow> smap_ok (filter P m)"
  by (induction m) auto

lemma smap_ok_map: "smap_ok (map (\<lambda>(k, v). (k, f k v)) m) \<longleftrightarrow> smap_ok m"
  by (induction m) force+

lemma find_smap_put: "map_of (smap_put k v m) l = (if l = k then Some v else map_of m l)"
  by (induction k v m rule: smap_put.induct) auto

lemma find_smap_erase: "map_of (smap_erase k m) l = (if l = k then None else map_of m l)"
  by (induction m) (auto simp: smap_erase_def)

interpretation smap: std_map "[] :: ('k::linorder, 'v) smap" smap_put smap_erase map_of smap_ok
  by unfold_locales (simp_all add: find_smap_put find_smap_erase smap_ok_put, simp add: smap_erase_def smap_ok_filter)

lemma smap_find_iff: "smap_ok m \<Longrightarrow> map_of m k = Some v \<longleftrightarrow> (k, v) \<in> set m"
  by (simp add: smap_ok_distinct)

lemma smap_find_filter:
  "smap_ok m \<Longrightarrow> map_of (filter (\<lambda>(k, v). P v) m) k =
     (case map_of m k of Some v \<Rightarrow> if P v then Some v else None | None \<Rightarrow> None)"
proof (induction m)
  case (Cons e m)
  obtain a b where e: "e = (a, b)" by (cases e)
  have "map_of m a = None" using Cons.prems e by (auto simp: map_of_eq_None_iff)
  then show ?case using Cons e by auto
qed simp

text \<open>Filling an empty map from a list in ascending key order copies the list.\<close>

lemma smap_put_last: "\<forall>l \<in> fst ` set m. l < k \<Longrightarrow> smap_put k v m = m @ [(k, v)]"
  by (induction m) force+

end
