(* ===== verification/Static_Evidence.thy ===== *)
theory Static_Evidence
  imports Std_Map Cpp_Text
begin

unbundle bit_operations_syntax

text \<open>
  The index of static map evidence (\<^verbatim>\<open>static_obstacle_evidence_index.cpp\<close>) and the authorisations derived from it
  (\<^verbatim>\<open>static_evidence_authorization.hpp\<close>). The index counts, per cell of a horizontal grid, in how many completed clean
  builds the cell was seen occupied; a cell that is confirmed by a clean build and was seen often and long enough
  is mature. Safety queries read an immutable snapshot of the confirmed cells. Cells of type \<^verbatim>\<open>std::int64_t\<close> are
  integers, \<^verbatim>\<open>std::map\<close> is an ascending association list, the key sets handed in are ascending lists. The mutex
  serialises the operations, so each is one step; the snapshot exists from construction on.
\<close>

section \<open>Data\<close>

datatype StaticEvidenceAuthority = RUNTIME_MATURE | OPERATOR_APPROVED_BASELINE | UNVERIFIED_LOADED_CLEAN

fun staticEvidenceAuthorityName :: "StaticEvidenceAuthority \<Rightarrow> string" where
  "staticEvidenceAuthorityName RUNTIME_MATURE = ''RUNTIME_MATURE''"
| "staticEvidenceAuthorityName OPERATOR_APPROVED_BASELINE = ''OPERATOR_APPROVED_BASELINE''"
| "staticEvidenceAuthorityName UNVERIFIED_LOADED_CLEAN = ''UNVERIFIED_LOADED_CLEAN''"

fun authority_code :: "StaticEvidenceAuthority \<Rightarrow> nat" where
  "authority_code RUNTIME_MATURE = 0"
| "authority_code OPERATOR_APPROVED_BASELINE = 1"
| "authority_code UNVERIFIED_LOADED_CLEAN = 2"

datatype ExternalProvenance =
  NONE | OUTSIDE_CARGO_SHELL_ONLY | PRE_CARGO_OCCUPANCY | STATIC_MAP_MATCH | CARGO_MOVED_AWAY_PERSISTENCE |
  DUAL_LIDAR_CONSENSUS

record StaticObstacleEvidenceConfig =
  ec_cell_size_m :: dbl
  ec_minimum_observations :: u32
  ec_minimum_stable_duration_sec :: dbl
  ec_minimum_cell_overlap :: dbl
  ec_minimum_iou :: dbl
  ec_minimum_height_overlap :: dbl
  ec_height_tolerance_m :: dbl
  ec_minimum_matched_cells :: nat
  ec_maximum_query_area_cells :: nat
  ec_pre_cargo_minimum_sequence_gap :: u64
  ec_maximum_observation_gap_sec :: dbl
  ec_maximum_observation_sequence_gap :: u64

definition default_StaticObstacleEvidenceConfig :: StaticObstacleEvidenceConfig where
  "default_StaticObstacleEvidenceConfig =
     \<lparr>ec_cell_size_m = Fin 0.25, ec_minimum_observations = 4, ec_minimum_stable_duration_sec = Fin 1,
      ec_minimum_cell_overlap = Fin 0.6, ec_minimum_iou = Fin 0.45, ec_minimum_height_overlap = Fin 0.5,
      ec_height_tolerance_m = Fin 0.1, ec_minimum_matched_cells = 6, ec_maximum_query_area_cells = 4096,
      ec_pre_cargo_minimum_sequence_gap = 2, ec_maximum_observation_gap_sec = Fin 30,
      ec_maximum_observation_sequence_gap = 2\<rparr>"

record StaticEvidenceCellGeometry =
  eg_min_z :: dbl
  eg_max_z :: dbl

record StaticEvidenceCell =
  sc_key :: int
  sc_consecutive_observation_count :: u32
  sc_total_observation_count :: u64
  sc_first_seen_sec :: dbl
  sc_last_seen_sec :: dbl
  sc_consecutive_stable_duration_sec :: dbl
  sc_min_z :: dbl
  sc_max_z :: dbl
  sc_clean_map_confirmed :: bool
  sc_temporally_mature :: bool
  sc_first_observation_sequence :: u64
  sc_last_observation_sequence :: u64
  sc_last_observed_objects_version :: u64
  sc_last_clean_confirmed_version :: u64
  sc_last_invalidated_version :: u64
  sc_map_generation :: u64

definition default_StaticEvidenceCell :: StaticEvidenceCell where
  "default_StaticEvidenceCell =
     \<lparr>sc_key = 0, sc_consecutive_observation_count = 0, sc_total_observation_count = 0, sc_first_seen_sec = Fin 0,
      sc_last_seen_sec = Fin 0, sc_consecutive_stable_duration_sec = Fin 0, sc_min_z = Fin 0, sc_max_z = Fin 0,
      sc_clean_map_confirmed = False, sc_temporally_mature = False, sc_first_observation_sequence = 0,
      sc_last_observation_sequence = 0, sc_last_observed_objects_version = 0, sc_last_clean_confirmed_version = 0,
      sc_last_invalidated_version = 0, sc_map_generation = 0\<rparr>"

definition kSchemaVersion :: u32 where
  "kSchemaVersion = 3"

record StaticEvidenceSnapshot =
  sn_schema_version :: u32
  sn_map_generation :: u64
  sn_revision :: u64
  sn_latest_observation_sequence :: u64
  sn_source_stamp_sec :: dbl
  sn_cell_size_m :: dbl
  sn_authority :: StaticEvidenceAuthority
  sn_cells :: "(int, StaticEvidenceCell) smap"

record StaticEvidenceDiagnostics =
  dg_working_cells :: nat
  dg_clean_confirmed_cells :: nat
  dg_temporally_mature_cells :: nat
  dg_pending_observation_count :: nat
  dg_pending_stable_duration :: nat
  dg_reset_by_time_gap :: u64
  dg_reset_by_sequence_gap :: u64
  dg_invalidated_by_tombstone :: u64
  dg_generation_mismatch :: u64
  dg_height_invalid :: u64
  dg_not_in_view :: u64
  dg_observed_free :: u64
  dg_observed_occupied :: u64
  dg_streak_histogram :: "(u32, nat) smap"

definition default_StaticEvidenceDiagnostics :: StaticEvidenceDiagnostics where
  "default_StaticEvidenceDiagnostics =
     \<lparr>dg_working_cells = 0, dg_clean_confirmed_cells = 0, dg_temporally_mature_cells = 0,
      dg_pending_observation_count = 0, dg_pending_stable_duration = 0, dg_reset_by_time_gap = 0,
      dg_reset_by_sequence_gap = 0, dg_invalidated_by_tombstone = 0, dg_generation_mismatch = 0,
      dg_height_invalid = 0, dg_not_in_view = 0, dg_observed_free = 0, dg_observed_occupied = 0,
      dg_streak_histogram = []\<rparr>"

record StaticProvenanceQuery =
  pq_occupied_map_cells :: "int list"
  pq_min_z_map :: dbl
  pq_max_z_map :: dbl
  pq_cargo_track_start_sequence :: u64
  pq_expected_map_generation :: u64

record StaticProvenanceDecision =
  pd_provenance :: ExternalProvenance
  pd_authority :: StaticEvidenceAuthority
  pd_authorized :: bool
  pd_matched_cell_ratio :: dbl
  pd_matched_iou :: dbl
  pd_height_overlap :: dbl
  pd_stable_observation_count :: u32
  pd_stable_age_sec :: dbl
  pd_map_generation :: u64
  pd_expected_map_generation :: u64
  pd_index_revision :: u64
  pd_index_latest_observation_sequence :: u64
  pd_cargo_track_start_sequence :: u64
  pd_index_cell_count :: nat
  pd_query_cell_count :: nat
  pd_matched_cell_count :: nat
  pd_spatially_matched_cell_count :: nat
  pd_reason :: string

definition default_StaticProvenanceDecision :: StaticProvenanceDecision where
  "default_StaticProvenanceDecision =
     \<lparr>pd_provenance = NONE, pd_authority = UNVERIFIED_LOADED_CLEAN, pd_authorized = False,
      pd_matched_cell_ratio = Fin 0, pd_matched_iou = Fin 0, pd_height_overlap = Fin 0,
      pd_stable_observation_count = 0, pd_stable_age_sec = Fin 0, pd_map_generation = 0,
      pd_expected_map_generation = 0, pd_index_revision = 0, pd_index_latest_observation_sequence = 0,
      pd_cargo_track_start_sequence = 0, pd_index_cell_count = 0, pd_query_cell_count = 0,
      pd_matched_cell_count = 0, pd_spatially_matched_cell_count = 0, pd_reason = ''static_index_empty''\<rparr>"

record StaticEvidenceMutationResult =
  mr_confirmed_cells :: nat
  mr_invalidated_cells :: nat
  mr_snapshot_cells :: nat
  mr_revision :: u64

definition default_StaticEvidenceMutationResult :: StaticEvidenceMutationResult where
  "default_StaticEvidenceMutationResult =
     \<lparr>mr_confirmed_cells = 0, mr_invalidated_cells = 0, mr_snapshot_cells = 0, mr_revision = 0\<rparr>"

record PreparedStaticEvidenceInstall =
  pi_map_generation :: u64
  pi_latest_observation_sequence :: u64
  pi_revision :: u64
  pi_authority :: StaticEvidenceAuthority
  pi_working_cells :: "(int, StaticEvidenceCell) smap"
  pi_snapshot :: StaticEvidenceSnapshot

record StaticObstacleEvidenceIndex =
  ix_config :: StaticObstacleEvidenceConfig
  ix_working_cells :: "(int, StaticEvidenceCell) smap"
  ix_invalidated_versions :: "(int, u64) smap"
  ix_observed_free_tombstones :: "int set"
  ix_working_generation :: u64
  ix_latest_observation_sequence :: u64
  ix_revision :: u64
  ix_last_observation_stamp_sec :: dbl
  ix_authority :: StaticEvidenceAuthority
  ix_diagnostics_totals :: StaticEvidenceDiagnostics
  ix_snapshot :: StaticEvidenceSnapshot

section \<open>Helpers\<close>

definition evidence_stamp_epsilon :: dbl where
  "evidence_stamp_epsilon = Fin 0.0001"

definition validEvidenceConfig :: "StaticObstacleEvidenceConfig \<Rightarrow> bool" where
  "validEvidenceConfig c \<longleftrightarrow>
     isfinite (ec_cell_size_m c) \<and> Fin 0 < ec_cell_size_m c \<and> 0 < ec_minimum_observations c \<and>
     isfinite (ec_minimum_stable_duration_sec c) \<and> Fin 0 \<le> ec_minimum_stable_duration_sec c \<and>
     isfinite (ec_minimum_cell_overlap c) \<and> Fin 0 < ec_minimum_cell_overlap c \<and> ec_minimum_cell_overlap c \<le> Fin 1 \<and>
     isfinite (ec_minimum_iou c) \<and> Fin 0 < ec_minimum_iou c \<and> ec_minimum_iou c \<le> Fin 1 \<and>
     isfinite (ec_minimum_height_overlap c) \<and> Fin 0 < ec_minimum_height_overlap c \<and>
     ec_minimum_height_overlap c \<le> Fin 1 \<and>
     isfinite (ec_height_tolerance_m c) \<and> Fin 0 \<le> ec_height_tolerance_m c \<and>
     0 < ec_minimum_matched_cells c \<and> ec_minimum_matched_cells c \<le> ec_maximum_query_area_cells c \<and>
     ec_maximum_query_area_cells c \<le> 65536 \<and>
     isfinite (ec_maximum_observation_gap_sec c) \<and> Fin 0 < ec_maximum_observation_gap_sec c \<and>
     0 < ec_maximum_observation_sequence_gap c"

definition intervalOverlapRatio :: "dbl \<Rightarrow> dbl \<Rightarrow> dbl \<Rightarrow> dbl \<Rightarrow> dbl \<Rightarrow> dbl" where
  "intervalOverlapRatio query_min query_max cell_min cell_max tolerance_m =
     (if \<not> isfinite query_min \<or> \<not> isfinite query_max \<or> \<not> isfinite cell_min \<or> \<not> isfinite cell_max \<or>
         query_max < query_min \<or> cell_max < cell_min \<or> \<not> isfinite tolerance_m \<or> tolerance_m < Fin 0
      then Fin 0
      else
        let overlap = cpp_max (Fin 0) (cpp_min (query_max + tolerance_m) (cell_max + tolerance_m) -
                                        cpp_max (query_min - tolerance_m) (cell_min - tolerance_m));
            denominator = cpp_max (Fin 0.05) (cpp_min (query_max - query_min + Fin 2 * tolerance_m)
                                                (cell_max - cell_min + Fin 2 * tolerance_m))
        in cpp_clamp (overlap / denominator) (Fin 0) (Fin 1))"

definition packStaticEvidenceCell :: "32 word \<Rightarrow> 32 word \<Rightarrow> int" where
  "packStaticEvidenceCell x y = sint (push_bit 32 (ucast x :: u64) OR ucast y)"

definition unpackStaticEvidenceCell :: "int \<Rightarrow> 32 word \<times> 32 word" where
  "unpackStaticEvidenceCell key =
     (let packed = (word_of_int key :: u64) in (ucast (drop_bit 32 packed), ucast packed))"

text \<open>The cell of a point, if its coordinates fit.\<close>

fun cell_index :: "dbl \<Rightarrow> 32 word option" where
  "cell_index (Fin a) = (if a < - (2 ^ 31) \<or> 2 ^ 31 - 1 < a then None else Some (word_of_int \<lfloor>a\<rfloor>))"
| "cell_index _ = None"

definition add_point_geometry ::
  "dbl \<Rightarrow> vec3 \<Rightarrow> (int, StaticEvidenceCellGeometry) smap \<Rightarrow> (int, StaticEvidenceCellGeometry) smap" where
  "add_point_geometry cell_size p cells =
     (if \<not> vec3_allFinite p then cells
      else case (cell_index (v3x p / cell_size), cell_index (v3y p / cell_size)) of
        (Some x, Some y) \<Rightarrow>
          let key = packStaticEvidenceCell x y in
          (case map_of cells key of
             None \<Rightarrow> smap_put key \<lparr>eg_min_z = v3z p, eg_max_z = v3z p\<rparr> cells
           | Some g \<Rightarrow> smap_put key \<lparr>eg_min_z = cpp_min (eg_min_z g) (v3z p),
                                     eg_max_z = cpp_max (eg_max_z g) (v3z p)\<rparr> cells)
      | _ \<Rightarrow> cells)"

definition buildStaticEvidenceCellGeometry :: "vec3 list \<Rightarrow> dbl \<Rightarrow> (int, StaticEvidenceCellGeometry) smap" where
  "buildStaticEvidenceCellGeometry points cell_size =
     (if \<not> isfinite cell_size \<or> cell_size \<le> Fin 0 then [] else fold (add_point_geometry cell_size) points [])"

section \<open>The index\<close>

definition publishSnapshotLocked :: "dbl \<Rightarrow> StaticObstacleEvidenceIndex \<Rightarrow> StaticObstacleEvidenceIndex" where
  "publishSnapshotLocked stamp s =
     (let revision = (if ix_revision s + 1 = 0 then 1 else ix_revision s + 1) in
      s\<lparr>ix_revision := revision,
        ix_snapshot := \<lparr>sn_schema_version = kSchemaVersion, sn_map_generation = ix_working_generation s,
          sn_revision = revision, sn_latest_observation_sequence = ix_latest_observation_sequence s,
          sn_source_stamp_sec = stamp, sn_cell_size_m = ec_cell_size_m (ix_config s), sn_authority = ix_authority s,
          sn_cells = filter (\<lambda>(k, c). sc_clean_map_confirmed c) (ix_working_cells s)\<rparr>\<rparr>)"

definition evidence_setConfig :: "StaticObstacleEvidenceConfig \<Rightarrow> StaticObstacleEvidenceIndex" where
  "evidence_setConfig c =
     (let config = (if validEvidenceConfig c then c else default_StaticObstacleEvidenceConfig) in
      \<lparr>ix_config = config, ix_working_cells = [], ix_invalidated_versions = [], ix_observed_free_tombstones = {},
       ix_working_generation = 0, ix_latest_observation_sequence = 0, ix_revision = 0,
       ix_last_observation_stamp_sec = Fin 0, ix_authority = RUNTIME_MATURE,
       ix_diagnostics_totals = default_StaticEvidenceDiagnostics,
       ix_snapshot = \<lparr>sn_schema_version = kSchemaVersion, sn_map_generation = 0, sn_revision = 0,
         sn_latest_observation_sequence = 0, sn_source_stamp_sec = Fin 0, sn_cell_size_m = ec_cell_size_m config,
         sn_authority = RUNTIME_MATURE, sn_cells = []\<rparr>\<rparr>)"

definition evidence_reset :: "u64 \<Rightarrow> StaticObstacleEvidenceIndex \<Rightarrow> StaticObstacleEvidenceIndex" where
  "evidence_reset generation s =
     publishSnapshotLocked (Fin 0)
       (s\<lparr>ix_working_cells := [], ix_invalidated_versions := [], ix_observed_free_tombstones := {},
          ix_working_generation := generation, ix_latest_observation_sequence := 0,
          ix_last_observation_stamp_sec := Fin 0, ix_authority := RUNTIME_MATURE,
          ix_diagnostics_totals := default_StaticEvidenceDiagnostics\<rparr>)"

definition isTemporallyMatureLocked :: "StaticObstacleEvidenceConfig \<Rightarrow> u64 \<Rightarrow> StaticEvidenceCell \<Rightarrow> bool" where
  "isTemporallyMatureLocked c generation cell \<longleftrightarrow>
     sc_clean_map_confirmed cell \<and> sc_map_generation cell = generation \<and>
     ec_minimum_observations c \<le> sc_consecutive_observation_count cell \<and>
     ec_minimum_stable_duration_sec c \<le> sc_consecutive_stable_duration_sec cell + evidence_stamp_epsilon"

definition mature_if_due :: "StaticObstacleEvidenceConfig \<Rightarrow> u64 \<Rightarrow> StaticEvidenceCell \<Rightarrow> StaticEvidenceCell" where
  "mature_if_due c generation cell =
     (if \<not> sc_temporally_mature cell \<and> isTemporallyMatureLocked c generation cell
      then cell\<lparr>sc_temporally_mature := True\<rparr> else cell)"

text \<open>The counters of the diagnostics.\<close>

abbreviation count_diag ::
  "(StaticEvidenceDiagnostics \<Rightarrow> StaticEvidenceDiagnostics) \<Rightarrow> StaticObstacleEvidenceIndex \<Rightarrow> StaticObstacleEvidenceIndex" where
  "count_diag f s \<equiv> s\<lparr>ix_diagnostics_totals := f (ix_diagnostics_totals s)\<rparr>"

text \<open>One visible free cell, and one occupied cell, of a clean build; the flag says whether the snapshot changed.\<close>

definition observe_free ::
  "int list \<Rightarrow> int \<Rightarrow> StaticObstacleEvidenceIndex \<times> bool \<Rightarrow> StaticObstacleEvidenceIndex \<times> bool" where
  "observe_free observable key sb =
     (let s = fst sb in
      if key \<notin> set observable then sb
      else case map_of (ix_working_cells s) key of
        None \<Rightarrow> sb
      | Some _ \<Rightarrow>
          (count_diag (\<lambda>d. d\<lparr>dg_observed_free := dg_observed_free d + 1,
                             dg_invalidated_by_tombstone := dg_invalidated_by_tombstone d + 1\<rparr>)
             (s\<lparr>ix_observed_free_tombstones := insert key (ix_observed_free_tombstones s),
                ix_working_cells := smap_erase key (ix_working_cells s)\<rparr>), True))"

definition sequence_gap :: "u64 \<Rightarrow> StaticEvidenceCell \<Rightarrow> u64" where
  "sequence_gap latest cell =
     (if sc_last_observation_sequence cell < latest then latest - sc_last_observation_sequence cell else 0)"

definition continuous_observation :: "StaticObstacleEvidenceConfig \<Rightarrow> dbl \<Rightarrow> u64 \<Rightarrow> StaticEvidenceCell \<Rightarrow> bool" where
  "continuous_observation c stamp latest cell \<longleftrightarrow>
     (let delta = stamp - sc_last_seen_sec cell in
      isfinite delta \<and> evidence_stamp_epsilon < delta \<and> delta \<le> ec_maximum_observation_gap_sec c \<and>
      sequence_gap latest cell = 1)"

text \<open>The streak of a cell that was known before: extended, restarted, reset or paused.\<close>

definition restreak_cell ::
  "StaticObstacleEvidenceConfig \<Rightarrow> dbl \<Rightarrow> u64 \<Rightarrow> StaticEvidenceCellGeometry \<Rightarrow> StaticEvidenceCell \<Rightarrow> StaticEvidenceCell" where
  "restreak_cell c stamp latest g cell =
     (let gap = sequence_gap latest cell;
          cell1 =
            (if continuous_observation c stamp latest cell
             then cell\<lparr>sc_consecutive_stable_duration_sec :=
                    sc_consecutive_stable_duration_sec cell + (stamp - sc_last_seen_sec cell)\<rparr>
             else if gap = 1 \<and> \<not> sc_temporally_mature cell
             then cell\<lparr>sc_consecutive_observation_count := 0, sc_consecutive_stable_duration_sec := Fin 0,
                       sc_first_seen_sec := stamp, sc_first_observation_sequence := latest,
                       sc_min_z := eg_min_z g, sc_max_z := eg_max_z g\<rparr>
             else if gap = 0 \<and> \<not> sc_temporally_mature cell
             then cell\<lparr>sc_consecutive_observation_count := 0, sc_consecutive_stable_duration_sec := Fin 0\<rparr>
             else cell)
      in cell1\<lparr>sc_min_z := cpp_min (sc_min_z cell1) (eg_min_z g), sc_max_z := cpp_max (sc_max_z cell1) (eg_max_z g)\<rparr>)"

definition restreak_diag ::
  "StaticObstacleEvidenceConfig \<Rightarrow> dbl \<Rightarrow> u64 \<Rightarrow> StaticEvidenceCell \<Rightarrow> StaticEvidenceDiagnostics \<Rightarrow> StaticEvidenceDiagnostics" where
  "restreak_diag c stamp latest cell d =
     (let gap = sequence_gap latest cell in
      if continuous_observation c stamp latest cell then d
      else if gap = 1 \<and> \<not> sc_temporally_mature cell then d\<lparr>dg_reset_by_time_gap := dg_reset_by_time_gap d + 1\<rparr>
      else if gap = 0 \<and> \<not> sc_temporally_mature cell
      then d\<lparr>dg_reset_by_sequence_gap := dg_reset_by_sequence_gap d + 1\<rparr>
      else d)"

definition new_cell :: "int \<Rightarrow> dbl \<Rightarrow> u64 \<Rightarrow> StaticEvidenceCellGeometry \<Rightarrow> StaticEvidenceCell" where
  "new_cell key stamp latest g =
     default_StaticEvidenceCell\<lparr>sc_key := key, sc_first_seen_sec := stamp, sc_first_observation_sequence := latest,
       sc_min_z := eg_min_z g, sc_max_z := eg_max_z g\<rparr>"

definition count_observation :: "dbl \<Rightarrow> u64 \<Rightarrow> u64 \<Rightarrow> u64 \<Rightarrow> StaticEvidenceCell \<Rightarrow> StaticEvidenceCell" where
  "count_observation stamp latest objects_version generation cell =
     cell\<lparr>sc_consecutive_observation_count :=
            (if sc_consecutive_observation_count cell < - 1 then sc_consecutive_observation_count cell + 1
             else sc_consecutive_observation_count cell),
          sc_total_observation_count :=
            (if sc_total_observation_count cell < - 1 then sc_total_observation_count cell + 1
             else sc_total_observation_count cell),
          sc_last_seen_sec := stamp, sc_last_observation_sequence := latest,
          sc_last_observed_objects_version := objects_version, sc_map_generation := generation\<rparr>"

text \<open>The cell after an occupied observation, from the cell stored before it.\<close>

definition observed_cell ::
  "StaticObstacleEvidenceConfig \<Rightarrow> dbl \<Rightarrow> u64 \<Rightarrow> u64 \<Rightarrow> u64 \<Rightarrow> int \<Rightarrow> StaticEvidenceCellGeometry \<Rightarrow>
   StaticEvidenceCell option \<Rightarrow> StaticEvidenceCell" where
  "observed_cell c stamp latest objects_version generation key g stored =
     count_observation stamp latest objects_version generation
       (case stored of None \<Rightarrow> new_cell key stamp latest g | Some cell \<Rightarrow> restreak_cell c stamp latest g cell)"

definition observe_occupied ::
  "int list \<Rightarrow> int list \<Rightarrow> dbl \<Rightarrow> u64 \<Rightarrow> u64 \<Rightarrow> int \<times> StaticEvidenceCellGeometry \<Rightarrow>
   StaticObstacleEvidenceIndex \<times> bool \<Rightarrow> StaticObstacleEvidenceIndex \<times> bool" where
  "observe_occupied observable freed stamp generation objects_version item sb =
     (let s = fst sb; key = fst item; g = snd item; latest = ix_latest_observation_sequence s;
          stored = map_of (ix_working_cells s) key;
          counted = observed_cell (ix_config s) stamp latest objects_version generation key g stored;
          cell = mature_if_due (ix_config s) (ix_working_generation s) counted
      in if (observable \<noteq> [] \<and> key \<notin> set observable) \<or> key \<in> set freed then sb
         else if \<not> isfinite (eg_min_z g) \<or> \<not> isfinite (eg_max_z g) \<or> eg_max_z g < eg_min_z g
         then (count_diag (\<lambda>d. d\<lparr>dg_height_invalid := dg_height_invalid d + 1\<rparr>) s, snd sb)
         else
           (count_diag (\<lambda>d. (case stored of None \<Rightarrow> (\<lambda>d. d)
                               | Some old \<Rightarrow> restreak_diag (ix_config s) stamp latest old)
                             (d\<lparr>dg_observed_occupied := dg_observed_occupied d + 1\<rparr>))
              (s\<lparr>ix_observed_free_tombstones := ix_observed_free_tombstones s - {key},
                 ix_working_cells := smap_put key cell (ix_working_cells s)\<rparr>),
            snd sb \<or> sc_temporally_mature cell \<noteq> sc_temporally_mature counted))"

definition next_sequence :: "u64 \<Rightarrow> u64" where
  "next_sequence n = (if n + 1 = 0 then 1 else n + 1)"

definition observeCleanBuildCells ::
  "(int, StaticEvidenceCellGeometry) smap \<Rightarrow> int list \<Rightarrow> int list \<Rightarrow> dbl \<Rightarrow> u64 \<Rightarrow> u64 \<Rightarrow>
   StaticObstacleEvidenceIndex \<Rightarrow> StaticObstacleEvidenceIndex \<times> bool" where
  "observeCleanBuildCells occupied observable freed stamp generation objects_version s =
     (if \<not> isfinite stamp \<or> stamp \<le> Fin 0 then (s, False)
      else if ix_working_generation s \<noteq> generation
      then (count_diag (\<lambda>d. d\<lparr>dg_generation_mismatch := dg_generation_mismatch d + 1\<rparr>) s, False)
      else if Fin 0 < ix_last_observation_stamp_sec s \<and>
              stamp \<le> ix_last_observation_stamp_sec s + evidence_stamp_epsilon
      then (if stamp + evidence_stamp_epsilon < ix_last_observation_stamp_sec s
            then s\<lparr>ix_last_observation_stamp_sec := stamp\<rparr> else s, False)
      else
        let s1 = s\<lparr>ix_last_observation_stamp_sec := stamp,
                   ix_latest_observation_sequence := next_sequence (ix_latest_observation_sequence s)\<rparr>;
            unseen = length (filter (\<lambda>(k, c). k \<notin> set observable) (ix_working_cells s));
            s2 = count_diag (\<lambda>d. d\<lparr>dg_not_in_view := dg_not_in_view d + of_nat unseen\<rparr>) s1;
            (s3, changed3) = fold (observe_free observable) freed (s2, False);
            (s4, changed) =
              fold (observe_occupied observable freed stamp generation objects_version) occupied (s3, changed3)
        in (if changed \<or> occupied \<noteq> [] \<or> freed \<noteq> [] then publishSnapshotLocked stamp s4 else s4, changed))"

definition observeFilteredCells ::
  "(int, StaticEvidenceCellGeometry) smap \<Rightarrow> dbl \<Rightarrow> u64 \<Rightarrow> u64 \<Rightarrow> StaticObstacleEvidenceIndex \<Rightarrow>
   StaticObstacleEvidenceIndex \<times> bool" where
  "observeFilteredCells cells stamp generation objects_version s =
     observeCleanBuildCells cells (map fst cells) [] stamp generation objects_version s"

text \<open>The loop over the cells a build denies, shared by the two mutations.\<close>

definition deny_cell ::
  "u64 \<Rightarrow> int \<Rightarrow> StaticObstacleEvidenceIndex \<times> nat \<Rightarrow> StaticObstacleEvidenceIndex \<times> nat" where
  "deny_cell version key sn =
     (let s = fst sn;
          tombstone = (case map_of (ix_invalidated_versions s) key of Some v \<Rightarrow> v | None \<Rightarrow> 0)
      in (count_diag (\<lambda>d. d\<lparr>dg_invalidated_by_tombstone := dg_invalidated_by_tombstone d + 1\<rparr>)
            (s\<lparr>ix_invalidated_versions := smap_put key (cpp_max tombstone version) (ix_invalidated_versions s),
               ix_working_cells := smap_erase key (ix_working_cells s)\<rparr>),
          snd sn + (if map_of (ix_working_cells s) key = None then 0 else 1)))"

definition mutation_result :: "nat \<Rightarrow> nat \<Rightarrow> StaticObstacleEvidenceIndex \<Rightarrow> StaticEvidenceMutationResult" where
  "mutation_result confirmed invalidated s =
     \<lparr>mr_confirmed_cells = confirmed, mr_invalidated_cells = invalidated,
      mr_snapshot_cells = length (sn_cells (ix_snapshot s)), mr_revision = sn_revision (ix_snapshot s)\<rparr>"

definition invalidateCells ::
  "int list \<Rightarrow> u64 \<Rightarrow> dbl \<Rightarrow> u64 \<Rightarrow> StaticObstacleEvidenceIndex \<Rightarrow>
   StaticObstacleEvidenceIndex \<times> StaticEvidenceMutationResult" where
  "invalidateCells denied version stamp generation s =
     (if version = 0 then (s, default_StaticEvidenceMutationResult)
      else if ix_working_generation s \<noteq> generation
      then (count_diag (\<lambda>d. d\<lparr>dg_generation_mismatch := dg_generation_mismatch d + 1\<rparr>) s,
            default_StaticEvidenceMutationResult)
      else
        let (s1, n) = fold (deny_cell version) denied (s, 0);
            s2 = (if denied \<noteq> [] then publishSnapshotLocked stamp s1 else s1)
        in (s2, mutation_result 0 n s2))"

definition confirmed_cell ::
  "StaticObstacleEvidenceIndex \<Rightarrow> dbl \<Rightarrow> u64 \<Rightarrow> u64 \<Rightarrow> u64 option \<Rightarrow> int \<Rightarrow> StaticEvidenceCellGeometry \<Rightarrow>
   StaticEvidenceCell option \<Rightarrow> StaticEvidenceCell" where
  "confirmed_cell s stamp generation version tombstone key g stored =
     (let latest = ix_latest_observation_sequence s;
          cell = (case stored of
             None \<Rightarrow> default_StaticEvidenceCell\<lparr>sc_key := key, sc_first_seen_sec := stamp, sc_last_seen_sec := stamp,
               sc_first_observation_sequence := latest, sc_last_observation_sequence := latest,
               sc_min_z := eg_min_z g, sc_max_z := eg_max_z g, sc_map_generation := generation\<rparr>
           | Some old \<Rightarrow> old\<lparr>sc_min_z := cpp_min (sc_min_z old) (eg_min_z g),
                            sc_max_z := cpp_max (sc_max_z old) (eg_max_z g)\<rparr>)
      in mature_if_due (ix_config s) (ix_working_generation s)
           (cell\<lparr>sc_clean_map_confirmed := True,
                 sc_last_clean_confirmed_version := cpp_max (sc_last_clean_confirmed_version cell) version,
                 sc_last_invalidated_version := (case tombstone of None \<Rightarrow> 0 | Some v \<Rightarrow> v)\<rparr>))"

definition confirm_cell ::
  "int list \<Rightarrow> dbl \<Rightarrow> u64 \<Rightarrow> u64 \<Rightarrow> int \<times> StaticEvidenceCellGeometry \<Rightarrow>
   StaticObstacleEvidenceIndex \<times> nat \<Rightarrow> StaticObstacleEvidenceIndex \<times> nat" where
  "confirm_cell denied stamp generation version item sn =
     (let s = fst sn; key = fst item; tombstone = map_of (ix_invalidated_versions s) key in
      if key \<in> ix_observed_free_tombstones s \<or> key \<in> set denied \<or>
         (case tombstone of Some v \<Rightarrow> version \<le> v | None \<Rightarrow> False)
      then sn
      else (s\<lparr>ix_working_cells := smap_put key
                (confirmed_cell s stamp generation version tombstone key (snd item) (map_of (ix_working_cells s) key))
                (ix_working_cells s)\<rparr>,
            snd sn + 1))"

definition confirmCleanCells ::
  "(int, StaticEvidenceCellGeometry) smap \<Rightarrow> int list \<Rightarrow> dbl \<Rightarrow> u64 \<Rightarrow> u64 \<Rightarrow> StaticObstacleEvidenceIndex \<Rightarrow>
   StaticObstacleEvidenceIndex \<times> StaticEvidenceMutationResult" where
  "confirmCleanCells clean denied stamp generation version s =
     (if version = 0 then (s, default_StaticEvidenceMutationResult)
      else if ix_working_generation s \<noteq> generation
      then (count_diag (\<lambda>d. d\<lparr>dg_generation_mismatch := dg_generation_mismatch d + 1\<rparr>) s,
            default_StaticEvidenceMutationResult)
      else
        let (s1, invalidated) = fold (deny_cell version) denied (s, 0);
            (s2, confirmed) = fold (confirm_cell denied stamp generation version) clean (s1, 0);
            s3 = publishSnapshotLocked stamp s2
        in (s3, mutation_result confirmed invalidated s3))"

definition setSnapshotAuthority :: "StaticEvidenceAuthority \<Rightarrow> StaticObstacleEvidenceIndex \<Rightarrow> StaticObstacleEvidenceIndex" where
  "setSnapshotAuthority authority s =
     publishSnapshotLocked (ix_last_observation_stamp_sec s) (s\<lparr>ix_authority := authority\<rparr>)"

definition matureCellCount :: "StaticObstacleEvidenceIndex \<Rightarrow> nat" where
  "matureCellCount s =
     length (filter (\<lambda>(k, c). sc_clean_map_confirmed c \<and> sc_temporally_mature c \<and>
       sc_map_generation c = sn_map_generation (ix_snapshot s)) (sn_cells (ix_snapshot s)))"

text \<open>One cell of the diagnostics report.\<close>

definition diagnose_cell ::
  "StaticObstacleEvidenceConfig \<Rightarrow> int \<times> StaticEvidenceCell \<Rightarrow> StaticEvidenceDiagnostics \<Rightarrow> StaticEvidenceDiagnostics" where
  "diagnose_cell c item d =
     (let cell = snd item;
          clean = sc_clean_map_confirmed cell;
          mature = (clean \<and> sc_temporally_mature cell);
          d1 = (if clean then d\<lparr>dg_clean_confirmed_cells := dg_clean_confirmed_cells d + 1\<rparr> else d);
          d2 = (if mature then d1\<lparr>dg_temporally_mature_cells := dg_temporally_mature_cells d1 + 1\<rparr>
                else if clean then
                  let d3 = (if sc_consecutive_observation_count cell < ec_minimum_observations c
                            then d1\<lparr>dg_pending_observation_count := dg_pending_observation_count d1 + 1\<rparr> else d1)
                  in if sc_consecutive_stable_duration_sec cell + evidence_stamp_epsilon < ec_minimum_stable_duration_sec c
                     then d3\<lparr>dg_pending_stable_duration := dg_pending_stable_duration d3 + 1\<rparr> else d3
                else d1);
          n = sc_consecutive_observation_count cell;
          seen = (case map_of (dg_streak_histogram d2) n of Some k \<Rightarrow> k | None \<Rightarrow> 0)
      in d2\<lparr>dg_streak_histogram := smap_put n (seen + 1) (dg_streak_histogram d2)\<rparr>)"

definition diagnostics :: "StaticObstacleEvidenceIndex \<Rightarrow> StaticEvidenceDiagnostics" where
  "diagnostics s =
     fold (diagnose_cell (ix_config s)) (ix_working_cells s)
       ((ix_diagnostics_totals s)\<lparr>dg_working_cells := length (ix_working_cells s)\<rparr>)"

section \<open>Invariant\<close>

text \<open>A stored cell: it carries its key and the current generation; maturity rests on a clean confirmation and on
  enough observations over a long enough time; a confirmation is younger than every denial of the cell.\<close>

definition mature_backed :: "StaticObstacleEvidenceConfig \<Rightarrow> StaticEvidenceCell \<Rightarrow> bool" where
  "mature_backed c cell \<longleftrightarrow>
     (sc_temporally_mature cell \<longrightarrow>
        sc_clean_map_confirmed cell \<and> ec_minimum_observations c \<le> sc_consecutive_observation_count cell \<and>
        ec_minimum_stable_duration_sec c \<le> sc_consecutive_stable_duration_sec cell + evidence_stamp_epsilon)"

definition cell_ok :: "StaticObstacleEvidenceConfig \<Rightarrow> u64 \<Rightarrow> u64 option \<Rightarrow> int \<Rightarrow> StaticEvidenceCell \<Rightarrow> bool" where
  "cell_ok c generation tombstone key cell \<longleftrightarrow>
     sc_key cell = key \<and> sc_map_generation cell = generation \<and> mature_backed c cell \<and>
     (sc_clean_map_confirmed cell \<longrightarrow>
        (case tombstone of None \<Rightarrow> True | Some v \<Rightarrow> v < sc_last_clean_confirmed_version cell))"

definition cells_ok :: "StaticObstacleEvidenceIndex \<Rightarrow> bool" where
  "cells_ok s \<longleftrightarrow>
     smap_ok (ix_working_cells s) \<and> smap_ok (ix_invalidated_versions s) \<and>
     (\<forall>key cell. map_of (ix_working_cells s) key = Some cell \<longrightarrow>
        cell_ok (ix_config s) (ix_working_generation s) (map_of (ix_invalidated_versions s) key) key cell)"

definition snapshot_current :: "StaticObstacleEvidenceIndex \<Rightarrow> bool" where
  "snapshot_current s \<longleftrightarrow>
     sn_cells (ix_snapshot s) = filter (\<lambda>(k, c). sc_clean_map_confirmed c) (ix_working_cells s) \<and>
     sn_map_generation (ix_snapshot s) = ix_working_generation s \<and> sn_authority (ix_snapshot s) = ix_authority s"

definition index_inv :: "StaticObstacleEvidenceIndex \<Rightarrow> bool" where
  "index_inv s \<longleftrightarrow> cells_ok s \<and> snapshot_current s"

section \<open>Cell keys\<close>

lemma pack_high: "ucast (drop_bit 32 (push_bit 32 (ucast (x :: 32 word) :: u64) OR ucast (y :: 32 word))) = x"
  by (rule bit_word_eqI) (auto simp: bit_simps dest: bit_imp_le_length)

lemma pack_low: "ucast (push_bit 32 (ucast (x :: 32 word) :: u64) OR ucast (y :: 32 word)) = y"
  by (rule bit_word_eqI) (auto simp add: bit_simps)

lemma unpack_pack: "unpackStaticEvidenceCell (packStaticEvidenceCell x y) = (x, y)"
  unfolding unpackStaticEvidenceCell_def packStaticEvidenceCell_def Let_def of_int_sint scast_id pack_high pack_low by (rule refl)

lemma join_halves: "push_bit 32 (ucast (ucast (drop_bit 32 w) :: 32 word)) OR ucast (ucast w :: 32 word) = (w :: u64)"
  by (rule bit_word_eqI) (auto simp: bit_simps)

lemma pack_unpack:
  "- (2 ^ 63) \<le> key \<Longrightarrow> key < 2 ^ 63 \<Longrightarrow> case_prod packStaticEvidenceCell (unpackStaticEvidenceCell key) = key"
  by (simp add: unpackStaticEvidenceCell_def packStaticEvidenceCell_def join_halves Let_def signed_of_int signed_take_bit_int_eq_self)

section \<open>Lemmas\<close>

lemma publish_keeps [simp]:
  "ix_config (publishSnapshotLocked t s) = ix_config s"
  "ix_working_cells (publishSnapshotLocked t s) = ix_working_cells s"
  "ix_invalidated_versions (publishSnapshotLocked t s) = ix_invalidated_versions s"
  "ix_observed_free_tombstones (publishSnapshotLocked t s) = ix_observed_free_tombstones s"
  "ix_working_generation (publishSnapshotLocked t s) = ix_working_generation s"
  "ix_authority (publishSnapshotLocked t s) = ix_authority s"
  by (simp_all add: publishSnapshotLocked_def Let_def)

lemma publish_current [simp]: "snapshot_current (publishSnapshotLocked t s)"
  by (simp add: snapshot_current_def publishSnapshotLocked_def Let_def)

lemma cells_ok_publish [simp]: "cells_ok (publishSnapshotLocked t s) = cells_ok s"
  by (simp add: cells_ok_def)

lemma cells_ok_put:
  assumes "cells_ok s" and "cell_ok (ix_config s) (ix_working_generation s) (map_of (ix_invalidated_versions s) key) key cell"
  shows "cells_ok (s\<lparr>ix_working_cells := smap_put key cell (ix_working_cells s)\<rparr>)"
  using assms by (auto simp: cells_ok_def smap_ok_put find_smap_put)

lemma smap_ok_erase [simp]: "smap_ok m \<Longrightarrow> smap_ok (smap_erase k m)"
  by (rule smap.ok_erase)

lemma duration_extends:
  "a \<le> x + evidence_stamp_epsilon \<Longrightarrow> isfinite d \<Longrightarrow> evidence_stamp_epsilon < d \<Longrightarrow>
   a \<le> (x + d) + evidence_stamp_epsilon"
  by (cases a; cases x) (auto simp: evidence_stamp_epsilon_def isfinite_iff)

lemma new_cell_ok:
  "mature_backed c (new_cell key t l g)" "\<not> sc_clean_map_confirmed (new_cell key t l g)" "sc_key (new_cell key t l g) = key"
  by (simp_all add: mature_backed_def new_cell_def default_StaticEvidenceCell_def)

lemma mature_if_due_backed:
  "mature_backed c cell \<Longrightarrow> mature_backed c (mature_if_due c generation cell)"
  by (simp add: mature_backed_def mature_if_due_def isTemporallyMatureLocked_def)

lemma mature_if_due_keeps [simp]:
  "sc_key (mature_if_due c g cell) = sc_key cell"
  "sc_map_generation (mature_if_due c g cell) = sc_map_generation cell"
  "sc_clean_map_confirmed (mature_if_due c g cell) = sc_clean_map_confirmed cell"
  "sc_last_clean_confirmed_version (mature_if_due c g cell) = sc_last_clean_confirmed_version cell"
  "sc_consecutive_observation_count (mature_if_due c g cell) = sc_consecutive_observation_count cell"
  by (simp_all add: mature_if_due_def)

lemma restreak_keeps [simp]:
  "sc_key (restreak_cell c t l g cell) = sc_key cell"
  "sc_clean_map_confirmed (restreak_cell c t l g cell) = sc_clean_map_confirmed cell"
  "sc_temporally_mature (restreak_cell c t l g cell) = sc_temporally_mature cell"
  "sc_last_clean_confirmed_version (restreak_cell c t l g cell) = sc_last_clean_confirmed_version cell"
  by (simp_all add: restreak_cell_def Let_def)

lemma restreak_mature:
  assumes "mature_backed c cell"
  shows "mature_backed c (restreak_cell c t l g cell)"
  using assms duration_extends
  by (auto simp: mature_backed_def restreak_cell_def continuous_observation_def Let_def)

lemma count_observation_keeps [simp]:
  "sc_key (count_observation t l ov gen cell) = sc_key cell"
  "sc_map_generation (count_observation t l ov gen cell) = gen"
  "sc_clean_map_confirmed (count_observation t l ov gen cell) = sc_clean_map_confirmed cell"
  "sc_last_clean_confirmed_version (count_observation t l ov gen cell) = sc_last_clean_confirmed_version cell"
  by (simp_all add: count_observation_def)

lemma saturating_inc: "n \<le> m \<Longrightarrow> n \<le> (if (m::u32) < - 1 then m + 1 else m)"
proof -
  have "unat (- 1 :: u32) = 4294967295" by (simp add: unsigned_minus_1_eq_mask mask_eq_exp_minus_1)
  then show "n \<le> m \<Longrightarrow> ?thesis" by (auto simp: word_less_nat_alt word_le_nat_alt unat_word_ariths)
qed

lemma count_observation_mature: "mature_backed c cell \<Longrightarrow> mature_backed c (count_observation t l ov gen cell)"
  using saturating_inc [of "ec_minimum_observations c" "sc_consecutive_observation_count cell"]
  by (simp add: mature_backed_def count_observation_def)

lemma observed_cell_ok:
  assumes "\<And>old. stored = Some old \<Longrightarrow> cell_ok c gen tomb key old"
  shows "cell_ok c gen tomb key (mature_if_due c gen (observed_cell c t l ov gen key g stored))"
proof (cases stored)
  case None
  then show ?thesis
    by (auto simp: cell_ok_def observed_cell_def new_cell_ok intro!: mature_if_due_backed count_observation_mature)
next
  case (Some old)
  then show ?thesis using assms [OF Some]
    by (auto simp: cell_ok_def observed_cell_def split: option.splits
        intro!: mature_if_due_backed count_observation_mature restreak_mature)
qed

lemma confirmed_cell_ok:
  assumes "\<And>old. stored = Some old \<Longrightarrow> cell_ok (ix_config s) gen tomb key old"
    and "gen = ix_working_generation s" and "\<And>v. tomb = Some v \<Longrightarrow> v < version"
  shows "cell_ok (ix_config s) gen tomb key (confirmed_cell s t gen version tomb key g stored)"
proof -
  have mx: "v < version \<Longrightarrow> v < cpp_max x version" for v x :: u64
    by (auto simp: cpp_max_def)
  have conf: "mature_backed c old \<Longrightarrow>
      mature_backed c (old\<lparr>sc_min_z := a, sc_max_z := b, sc_clean_map_confirmed := True,
        sc_last_clean_confirmed_version := v, sc_last_invalidated_version := w\<rparr>)" for c old a b v w
    by (simp add: mature_backed_def)
  have fresh: "mature_backed c (default_StaticEvidenceCell\<lparr>sc_key := key, sc_first_seen_sec := a, sc_last_seen_sec := a,
        sc_first_observation_sequence := n, sc_last_observation_sequence := n, sc_min_z := x, sc_max_z := y,
        sc_map_generation := m, sc_clean_map_confirmed := True, sc_last_clean_confirmed_version := v,
        sc_last_invalidated_version := w\<rparr>)" for c a n x y m v w
    by (simp add: mature_backed_def default_StaticEvidenceCell_def)
  show ?thesis using assms mx
    by (cases stored) (auto simp: cell_ok_def confirmed_cell_def Let_def fresh
        split: option.splits intro!: mature_if_due_backed conf)
qed

text \<open>The loops keep the stored cells well formed and touch neither the configuration, the generation, the authority
  nor the snapshot.\<close>

definition same_frame :: "StaticObstacleEvidenceIndex \<Rightarrow> StaticObstacleEvidenceIndex \<Rightarrow> bool" where
  "same_frame s s' \<longleftrightarrow>
     ix_config s' = ix_config s \<and> ix_working_generation s' = ix_working_generation s \<and>
     ix_authority s' = ix_authority s \<and> ix_snapshot s' = ix_snapshot s"

lemma same_frame_refl [simp]: "same_frame s s"
  by (simp add: same_frame_def)

lemma same_frame_trans [trans]: "same_frame a b \<Longrightarrow> same_frame b c \<Longrightarrow> same_frame a c"
  by (simp add: same_frame_def)

lemma fold_keeps:
  assumes "\<And>x sb. x \<in> set xs \<Longrightarrow> cells_ok (fst sb) \<Longrightarrow> gen = ix_working_generation (fst sb) \<Longrightarrow>
      cells_ok (fst (f x sb)) \<and> same_frame (fst sb) (fst (f x sb))"
    and "cells_ok (fst sb)" and "gen = ix_working_generation (fst sb)"
  shows "cells_ok (fst (fold f xs sb)) \<and> same_frame (fst sb) (fst (fold f xs sb))"
  using assms
proof (induction xs arbitrary: sb)
  case (Cons x xs)
  have step: "cells_ok (fst (f x sb))" "same_frame (fst sb) (fst (f x sb))" using Cons.prems by auto
  then have "gen = ix_working_generation (fst (f x sb))" using Cons.prems(3) by (simp add: same_frame_def)
  then have "cells_ok (fst (fold f xs (f x sb))) \<and> same_frame (fst (f x sb)) (fst (fold f xs (f x sb)))"
    using Cons.IH [of "f x sb"] Cons.prems(1) step(1) by simp
  then show ?case using step(2) same_frame_trans by auto
qed simp

lemma cells_ok_erase:
  "cells_ok s \<Longrightarrow> cells_ok (s\<lparr>ix_working_cells := smap_erase key (ix_working_cells s)\<rparr>)"
  by (auto simp: cells_ok_def find_smap_erase)

lemma cells_ok_irrelevant [simp]:
  "cells_ok (s\<lparr>ix_diagnostics_totals := d\<rparr>) = cells_ok s"
  "cells_ok (s\<lparr>ix_observed_free_tombstones := t\<rparr>) = cells_ok s"
  "cells_ok (s\<lparr>ix_last_observation_stamp_sec := x\<rparr>) = cells_ok s"
  "cells_ok (s\<lparr>ix_latest_observation_sequence := n\<rparr>) = cells_ok s"
  "cells_ok (s\<lparr>ix_authority := a\<rparr>) = cells_ok s"
  by (simp_all add: cells_ok_def)

lemma observe_free_keeps:
  "cells_ok (fst sb) \<Longrightarrow> cells_ok (fst (observe_free observable key sb)) \<and>
   same_frame (fst sb) (fst (observe_free observable key sb))"
  using cells_ok_erase [of "fst sb" key]
  by (auto simp: observe_free_def Let_def same_frame_def cells_ok_def split: option.splits)

lemma observe_occupied_keeps:
  assumes "cells_ok (fst sb)" and "generation = ix_working_generation (fst sb)"
  shows "cells_ok (fst (observe_occupied observable freed t generation ov item sb)) \<and>
    same_frame (fst sb) (fst (observe_occupied observable freed t generation ov item sb))"
proof -
  let ?s = "fst sb"
  let ?cell = "mature_if_due (ix_config ?s) generation
    (observed_cell (ix_config ?s) t (ix_latest_observation_sequence ?s) ov generation (fst item) (snd item)
      (map_of (ix_working_cells ?s) (fst item)))"
  have "cell_ok (ix_config ?s) generation (map_of (ix_invalidated_versions ?s) (fst item)) (fst item) ?cell"
    using assms by (intro observed_cell_ok) (auto simp: cells_ok_def)
  then have "cells_ok (?s\<lparr>ix_working_cells := smap_put (fst item) ?cell (ix_working_cells ?s)\<rparr>)"
    using assms cells_ok_put by simp
  then have "cells_ok (?s\<lparr>ix_observed_free_tombstones := x,
      ix_working_cells := smap_put (fst item) ?cell (ix_working_cells ?s)\<rparr>)" for x
    by (simp add: cells_ok_def)
  then show ?thesis using assms by (simp add: observe_occupied_def Let_def same_frame_def)
qed

lemma deny_cell_keeps:
  assumes "cells_ok (fst sn)"
  shows "cells_ok (fst (deny_cell version key sn)) \<and> same_frame (fst sn) (fst (deny_cell version key sn))"
  using assms
  by (auto simp: deny_cell_def Let_def same_frame_def cells_ok_def find_smap_put find_smap_erase smap_ok_put)

lemma confirm_cell_keeps:
  assumes "cells_ok (fst sn)" and "generation = ix_working_generation (fst sn)"
  shows "cells_ok (fst (confirm_cell denied t generation version item sn)) \<and>
    same_frame (fst sn) (fst (confirm_cell denied t generation version item sn))"
proof (cases "fst item \<in> ix_observed_free_tombstones (fst sn) \<or> fst item \<in> set denied \<or>
    (case map_of (ix_invalidated_versions (fst sn)) (fst item) of Some v \<Rightarrow> version \<le> v | None \<Rightarrow> False)")
  case True
  then show ?thesis using assms by (simp add: confirm_cell_def Let_def)
next
  case False
  let ?s = "fst sn"
  let ?tomb = "map_of (ix_invalidated_versions ?s) (fst item)"
  let ?cell = "confirmed_cell ?s t generation version ?tomb (fst item) (snd item) (map_of (ix_working_cells ?s) (fst item))"
  have "cell_ok (ix_config ?s) generation ?tomb (fst item) ?cell"
    using assms False by (intro confirmed_cell_ok) (auto simp: cells_ok_def split: option.splits)
  then have "cells_ok (?s\<lparr>ix_working_cells := smap_put (fst item) ?cell (ix_working_cells ?s)\<rparr>)"
    using assms cells_ok_put by simp
  then show ?thesis using False by (simp add: confirm_cell_def Let_def same_frame_def)
qed

lemma deny_loop:
  assumes "cells_ok s"
  shows "cells_ok (fst (fold (deny_cell version) denied (s, n))) \<and>
    same_frame s (fst (fold (deny_cell version) denied (s, n)))"
proof -
  have "cells_ok (fst (fold (deny_cell version) denied (s, n))) \<and>
      same_frame (fst (s, n)) (fst (fold (deny_cell version) denied (s, n)))"
    by (rule fold_keeps [where gen = "ix_working_generation s"]) (erule deny_cell_keeps, use assms in simp_all)
  then show ?thesis by simp
qed

lemma confirm_loop:
  assumes "cells_ok s" and "generation = ix_working_generation s"
  shows "cells_ok (fst (fold (confirm_cell denied t generation version) clean (s, n)))"
proof -
  have "cells_ok (fst (fold (confirm_cell denied t generation version) clean (s, n))) \<and>
      same_frame (fst (s, n)) (fst (fold (confirm_cell denied t generation version) clean (s, n)))"
    by (rule fold_keeps [where gen = generation]) (erule (1) confirm_cell_keeps, use assms in simp_all)
  then show ?thesis by simp
qed

lemma free_loop:
  assumes "cells_ok s"
  shows "cells_ok (fst (fold (observe_free observable) freed (s, b))) \<and>
    same_frame s (fst (fold (observe_free observable) freed (s, b)))"
proof -
  have "cells_ok (fst (fold (observe_free observable) freed (s, b))) \<and>
      same_frame (fst (s, b)) (fst (fold (observe_free observable) freed (s, b)))"
    by (rule fold_keeps [where gen = "ix_working_generation s"]) (erule observe_free_keeps, use assms in simp_all)
  then show ?thesis by simp
qed

lemma occupied_loop:
  assumes "cells_ok s" and "generation = ix_working_generation s"
  shows "cells_ok (fst (fold (observe_occupied observable freed t generation ov) items (s, b)))"
proof -
  have "cells_ok (fst (fold (observe_occupied observable freed t generation ov) items (s, b))) \<and>
      same_frame (fst (s, b)) (fst (fold (observe_occupied observable freed t generation ov) items (s, b)))"
    by (rule fold_keeps [where gen = generation]) (erule (1) observe_occupied_keeps, use assms in simp_all)
  then show ?thesis by simp
qed

section \<open>Every operation keeps the invariant\<close>

lemma evidence_setConfig_inv: "index_inv (evidence_setConfig c)"
  by (simp add: index_inv_def cells_ok_def snapshot_current_def evidence_setConfig_def Let_def)

lemma evidence_reset_inv: "index_inv (evidence_reset generation s)"
  by (simp add: index_inv_def evidence_reset_def) (simp add: cells_ok_def)

lemma setSnapshotAuthority_inv: "index_inv s \<Longrightarrow> index_inv (setSnapshotAuthority a s)"
  by (simp add: index_inv_def setSnapshotAuthority_def)

lemma snapshot_current_irrelevant [simp]:
  "snapshot_current (s\<lparr>ix_diagnostics_totals := d\<rparr>) = snapshot_current s"
  "snapshot_current (s\<lparr>ix_last_observation_stamp_sec := x\<rparr>) = snapshot_current s"
  "snapshot_current (s\<lparr>ix_latest_observation_sequence := n\<rparr>) = snapshot_current s"
  by (simp_all add: snapshot_current_def)

lemma invalidateCells_inv:
  assumes "index_inv s"
  shows "index_inv (fst (invalidateCells denied version t generation s))"
proof (cases "denied = []")
  case True
  then show ?thesis using assms by (simp add: invalidateCells_def index_inv_def)
next
  case False
  then show ?thesis using assms deny_loop [of s version denied 0]
    by (auto simp: invalidateCells_def index_inv_def split_beta Let_def)
qed

lemma confirmCleanCells_inv:
  assumes "index_inv s"
  shows "index_inv (fst (confirmCleanCells clean denied t generation version s))"
proof (cases "version = 0 \<or> ix_working_generation s \<noteq> generation")
  case True
  then show ?thesis using assms by (auto simp: confirmCleanCells_def index_inv_def)
next
  case False
  let ?s1 = "fst (fold (deny_cell version) denied (s, 0))"
  have 1: "cells_ok ?s1" "same_frame s ?s1" using assms deny_loop by (auto simp: index_inv_def)
  then have "cells_ok (fst (fold (confirm_cell denied t generation version) clean (?s1, 0)))"
    using False by (intro confirm_loop) (simp_all add: same_frame_def)
  then show ?thesis using False by (simp add: confirmCleanCells_def split_beta Let_def index_inv_def)
qed

lemma observeCleanBuildCells_inv:
  assumes "index_inv s"
  shows "index_inv (fst (observeCleanBuildCells occupied observable freed t generation ov s))"
proof (cases "isfinite t \<and> \<not> t \<le> Fin 0 \<and> ix_working_generation s = generation \<and>
    \<not> (Fin 0 < ix_last_observation_stamp_sec s \<and> t \<le> ix_last_observation_stamp_sec s + evidence_stamp_epsilon)")
  case False
  then show ?thesis using assms by (auto simp: observeCleanBuildCells_def index_inv_def)
next
  case True
  define s2 where "s2 = count_diag (\<lambda>d. d\<lparr>dg_not_in_view := dg_not_in_view d +
      of_nat (length (filter (\<lambda>(k, c). k \<notin> set observable) (ix_working_cells s)))\<rparr>)
    (s\<lparr>ix_last_observation_stamp_sec := t,
       ix_latest_observation_sequence := next_sequence (ix_latest_observation_sequence s)\<rparr>)"
  define r3 where "r3 = fold (observe_free observable) freed (s2, False)"
  define r4 where "r4 = fold (observe_occupied observable freed t generation ov) occupied r3"
  have eq: "fst (observeCleanBuildCells occupied observable freed t generation ov s) =
      (if snd r4 \<or> occupied \<noteq> [] \<or> freed \<noteq> [] then publishSnapshotLocked t (fst r4) else fst r4)"
    using True by (auto simp: observeCleanBuildCells_def Let_def split_beta s2_def r3_def r4_def)
  have s2: "cells_ok s2" "snapshot_current s2" "ix_working_generation s2 = generation"
    using assms True by (simp_all add: s2_def index_inv_def)
  have r3: "cells_ok (fst r3)" "same_frame s2 (fst r3)"
    using free_loop [OF s2(1), of observable freed False] by (simp_all add: r3_def)
  then have r4: "cells_ok (fst r4)"
    using occupied_loop [of "fst r3" generation observable freed t ov occupied "snd r3"] s2(3)
    by (simp add: r4_def same_frame_def)
  show ?thesis
  proof (cases "occupied = [] \<and> freed = []")
    case True
    then show ?thesis using eq s2 by (simp add: r3_def r4_def index_inv_def)
  next
    case False
    then show ?thesis using eq r4 by (auto simp: index_inv_def)
  qed
qed

end
