(* ===== verification/Static_Query.thy ===== *)
theory Static_Query
  imports Static_Evidence
begin

text \<open>
  The safety query of the static index (\<^verbatim>\<open>StaticObstacleEvidenceIndex::query\<close>) and the authorisations derived from a
  snapshot's authority (\<^verbatim>\<open>static_evidence_authorization.hpp\<close>). The query walks the bounding box of the asked cells and
  counts the stored cells that are stable at the asked height; it authorises an obstacle as part of the static map
  when enough of the asked cells are.
\<close>

section \<open>The query\<close>

definition stable_history ::
  "StaticObstacleEvidenceConfig \<Rightarrow> StaticEvidenceAuthority \<Rightarrow> u64 \<Rightarrow> StaticEvidenceCell \<Rightarrow> bool" where
  "stable_history c authority generation cell \<longleftrightarrow>
     (let operator_approved = (authority = OPERATOR_APPROVED_BASELINE) in
      sc_clean_map_confirmed cell \<and> authority \<noteq> UNVERIFIED_LOADED_CLEAN \<and>
      (sc_temporally_mature cell \<or> operator_approved) \<and> sc_map_generation cell = generation \<and>
      (operator_approved \<or>
       ec_minimum_observations c \<le> sc_consecutive_observation_count cell \<and>
       ec_minimum_stable_duration_sec c \<le> sc_consecutive_stable_duration_sec cell + evidence_stamp_epsilon))"

definition pre_cargo_cell :: "StaticObstacleEvidenceConfig \<Rightarrow> u64 \<Rightarrow> StaticEvidenceCell \<Rightarrow> bool" where
  "pre_cargo_cell c start cell \<longleftrightarrow>
     0 < start \<and> 0 < sc_first_observation_sequence cell \<and> sc_first_observation_sequence cell \<le> start \<and>
     ec_pre_cargo_minimum_sequence_gap c \<le> start - sc_first_observation_sequence cell"

definition cell_height_ratio ::
  "StaticObstacleEvidenceConfig \<Rightarrow> StaticProvenanceQuery \<Rightarrow> StaticEvidenceCell \<Rightarrow> dbl" where
  "cell_height_ratio c q cell =
     intervalOverlapRatio (pq_min_z_map q) (pq_max_z_map q) (sc_min_z cell) (sc_max_z cell) (ec_height_tolerance_m c)"

definition stable_cell ::
  "StaticObstacleEvidenceConfig \<Rightarrow> StaticEvidenceAuthority \<Rightarrow> StaticProvenanceQuery \<Rightarrow> StaticEvidenceCell \<Rightarrow> bool" where
  "stable_cell c authority q cell \<longleftrightarrow>
     stable_history c authority (pq_expected_map_generation q) cell \<and>
     ec_minimum_height_overlap c \<le> cell_height_ratio c q cell"

record QueryTally =
  qt_matched :: nat
  qt_pre_cargo_matched :: nat
  qt_local_evidence :: nat
  qt_local_pre_cargo :: nat
  qt_spatially_matched :: nat
  qt_minimum_height_ratio :: dbl
  qt_minimum_observations :: u32
  qt_minimum_stable_age :: dbl

definition initial_tally :: QueryTally where
  "initial_tally =
     \<lparr>qt_matched = 0, qt_pre_cargo_matched = 0, qt_local_evidence = 0, qt_local_pre_cargo = 0, qt_spatially_matched = 0,
      qt_minimum_height_ratio = Fin 1, qt_minimum_observations = - 1, qt_minimum_stable_age = PInf\<rparr>"

text \<open>One cell of the bounding box.\<close>

definition tally_cell ::
  "StaticObstacleEvidenceConfig \<Rightarrow> StaticEvidenceSnapshot \<Rightarrow> StaticProvenanceQuery \<Rightarrow> int set \<Rightarrow> int \<Rightarrow> QueryTally \<Rightarrow> QueryTally" where
  "tally_cell c sn q asked key t =
     (case map_of (sn_cells sn) key of
        None \<Rightarrow> t
      | Some cell \<Rightarrow>
          let ratio = cell_height_ratio c q cell;
              history = stable_history c (sn_authority sn) (pq_expected_map_generation q) cell;
              t1 = (if history \<and> key \<in> asked then t\<lparr>qt_spatially_matched := qt_spatially_matched t + 1\<rparr> else t);
              pre = pre_cargo_cell c (pq_cargo_track_start_sequence q) cell
          in if \<not> (history \<and> ec_minimum_height_overlap c \<le> ratio) then t1
             else
               let t2 = t1\<lparr>qt_local_evidence := qt_local_evidence t1 + 1,
                           qt_local_pre_cargo := qt_local_pre_cargo t1 + (if pre then 1 else 0)\<rparr>
               in if key \<notin> asked then t2
                  else t2\<lparr>qt_matched := qt_matched t2 + 1,
                          qt_pre_cargo_matched := qt_pre_cargo_matched t2 + (if pre then 1 else 0),
                          qt_minimum_height_ratio := cpp_min (qt_minimum_height_ratio t2) ratio,
                          qt_minimum_observations :=
                            cpp_min (qt_minimum_observations t2) (sc_consecutive_observation_count cell),
                          qt_minimum_stable_age :=
                            cpp_min (qt_minimum_stable_age t2) (sc_consecutive_stable_duration_sec cell)\<rparr>)"

text \<open>The bounding box of the asked cells, folded the way the loop does.\<close>

definition extend_box :: "int \<Rightarrow> int \<times> int \<times> int \<times> int \<Rightarrow> int \<times> int \<times> int \<times> int" where
  "extend_box key b =
     (let (min_x, max_x, min_y, max_y) = b; (x, y) = unpackStaticEvidenceCell key
      in (cpp_min min_x (sint x), cpp_max max_x (sint x), cpp_min min_y (sint y), cpp_max max_y (sint y)))"

definition query_box :: "int list \<Rightarrow> int \<times> int \<times> int \<times> int" where
  "query_box keys = fold extend_box keys (2147483647, - 2147483648, 2147483647, - 2147483648)"

definition box_keys :: "int \<times> int \<times> int \<times> int \<Rightarrow> int list" where
  "box_keys b =
     (let (min_x, max_x, min_y, max_y) = b
      in concat (map (\<lambda>x. map (\<lambda>y. packStaticEvidenceCell (word_of_int x) (word_of_int y)) [min_y..max_y]) [min_x..max_x]))"

definition box_allowed :: "StaticObstacleEvidenceConfig \<Rightarrow> int \<times> int \<times> int \<times> int \<Rightarrow> bool" where
  "box_allowed c b \<longleftrightarrow>
     (let (min_x, max_x, min_y, max_y) = b; width = max_x - min_x + 1; height = max_y - min_y + 1;
          area = int (ec_maximum_query_area_cells c)
      in 0 < width \<and> 0 < height \<and> width \<le> area \<and> height \<le> area \<and> width * height \<le> area)"

definition count_ratio :: "nat \<Rightarrow> nat \<Rightarrow> dbl" where
  "count_ratio denominator count =
     (if denominator = 0 then Fin 0 else Fin (real count) / Fin (real denominator))"

definition count_iou :: "nat \<Rightarrow> nat \<Rightarrow> nat \<Rightarrow> dbl" where
  "count_iou query_size intersection evidence_size =
     (let union_size = query_size + evidence_size - intersection
      in if union_size = 0 then Fin 0 else Fin (real intersection) / Fin (real union_size))"

text \<open>The part of the decision that is filled before the cells are looked at, and the verdict on the tally.\<close>

definition query_frame :: "StaticEvidenceSnapshot \<Rightarrow> StaticProvenanceQuery \<Rightarrow> StaticProvenanceDecision" where
  "query_frame sn q =
     default_StaticProvenanceDecision
       \<lparr>pd_expected_map_generation := pq_expected_map_generation q,
        pd_cargo_track_start_sequence := pq_cargo_track_start_sequence q, pd_authority := sn_authority sn,
        pd_map_generation := sn_map_generation sn, pd_index_revision := sn_revision sn,
        pd_index_latest_observation_sequence := sn_latest_observation_sequence sn,
        pd_index_cell_count := length (sn_cells sn)\<rparr>"

definition query_verdict ::
  "StaticObstacleEvidenceConfig \<Rightarrow> StaticEvidenceSnapshot \<Rightarrow> nat \<Rightarrow> QueryTally \<Rightarrow> StaticProvenanceDecision \<Rightarrow>
   StaticProvenanceDecision" where
  "query_verdict c sn asked_size t d =
     (let matched = qt_matched t;
          d1 = d\<lparr>pd_matched_cell_ratio := count_ratio asked_size matched,
                 pd_matched_iou := count_iou asked_size matched (qt_local_evidence t), pd_matched_cell_count := matched,
                 pd_spatially_matched_cell_count := qt_spatially_matched t,
                 pd_height_overlap := (if 0 < matched then qt_minimum_height_ratio t else Fin 0),
                 pd_stable_observation_count := (if 0 < matched then qt_minimum_observations t else 0),
                 pd_stable_age_sec := (if 0 < matched then qt_minimum_stable_age t else Fin 0)\<rparr>;
          pre_ratio = count_ratio asked_size (qt_pre_cargo_matched t);
          pre_iou = count_iou asked_size (qt_pre_cargo_matched t) (qt_local_pre_cargo t)
      in if ec_minimum_matched_cells c \<le> qt_pre_cargo_matched t \<and> ec_minimum_cell_overlap c \<le> pre_ratio
         then d1\<lparr>pd_provenance := PRE_CARGO_OCCUPANCY, pd_authorized := True, pd_matched_cell_ratio := pre_ratio,
                 pd_matched_iou := pre_iou, pd_reason := ''pre_cargo_occupancy_confirmed''\<rparr>
         else if ec_minimum_matched_cells c \<le> matched \<and> ec_minimum_cell_overlap c \<le> pd_matched_cell_ratio d1
         then d1\<lparr>pd_provenance := STATIC_MAP_MATCH, pd_authorized := True,
                 pd_reason := (if sn_authority sn = OPERATOR_APPROVED_BASELINE
                               then ''operator_approved_static_map_match'' else ''static_map_match_confirmed'')\<rparr>
         else d1\<lparr>pd_reason := (if 0 < qt_spatially_matched t \<and> matched = 0 then ''static_map_height_mismatch''
                               else if matched < ec_minimum_matched_cells c
                               then ''static_map_insufficient_matched_cells''
                               else ''static_map_query_coverage_below_threshold'')\<rparr>)"

definition query_snapshot ::
  "StaticObstacleEvidenceConfig \<Rightarrow> StaticEvidenceSnapshot \<Rightarrow> StaticProvenanceQuery \<Rightarrow> StaticProvenanceDecision" where
  "query_snapshot c sn q =
     (let d = query_frame sn q; asked = remdups_adj (sort (pq_occupied_map_cells q));
          d1 = d\<lparr>pd_query_cell_count := length asked\<rparr>; b = query_box asked
      in if sn_cells sn = [] then d
         else if sn_map_generation sn \<noteq> pq_expected_map_generation q
         then d\<lparr>pd_reason := ''static_index_generation_mismatch''\<rparr>
         else if sn_authority sn = UNVERIFIED_LOADED_CLEAN
         then d\<lparr>pd_reason := ''static_index_unverified_loaded_clean''\<rparr>
         else if \<not> isfinite (pq_min_z_map q) \<or> \<not> isfinite (pq_max_z_map q) \<or> pq_max_z_map q < pq_min_z_map q \<or>
                 pq_occupied_map_cells q = []
         then d\<lparr>pd_reason := ''static_index_query_invalid''\<rparr>
         else if \<not> box_allowed c b then d1\<lparr>pd_reason := ''static_index_query_area_exceeded''\<rparr>
         else query_verdict c sn (length asked)
                (fold (tally_cell c sn q (set asked)) (box_keys b) initial_tally) d1)"

definition static_query :: "StaticObstacleEvidenceIndex \<Rightarrow> StaticProvenanceQuery \<Rightarrow> StaticProvenanceDecision" where
  "static_query s q = query_snapshot (ix_config s) (ix_snapshot s) q"

section \<open>Authorisation of static evidence\<close>

record StaticEvidenceAuthorization =
  sz_diagnostic_height_allowed :: bool
  sz_formal_origin_authorized :: bool
  sz_formal_thickness_authorized :: bool
  sz_official_static_risk_authorized :: bool
  sz_official_clear_authorized :: bool

definition authorizeStaticEvidence :: "StaticEvidenceAuthority \<Rightarrow> StaticEvidenceAuthorization" where
  "authorizeStaticEvidence a =
     (let formal = (a = RUNTIME_MATURE \<or> a = OPERATOR_APPROVED_BASELINE) in
      \<lparr>sz_diagnostic_height_allowed = True, sz_formal_origin_authorized = formal,
       sz_formal_thickness_authorized = formal, sz_official_static_risk_authorized = formal,
       sz_official_clear_authorized = formal\<rparr>)"

definition evaluateStaticConflictContextAuthority ::
  "bool \<Rightarrow> u64 \<Rightarrow> u64 \<Rightarrow> StaticEvidenceAuthority \<Rightarrow> bool \<Rightarrow> bool \<times> string" where
  "evaluateStaticConflictContextAuthority present generation expected_epoch authority pose_valid =
     (if \<not> pose_valid then (False, ''pose_authority_invalid'')
      else if \<not> present then (False, ''static_snapshot_missing'')
      else if authority = UNVERIFIED_LOADED_CLEAN then (False, ''static_authority_unverified'')
      else if generation \<noteq> expected_epoch then (False, ''static_evidence_epoch_mismatch'')
      else (True, ''none''))"

section \<open>Lemmas\<close>

definition cell_counts :: "StaticObstacleEvidenceConfig \<Rightarrow> StaticEvidenceSnapshot \<Rightarrow> StaticProvenanceQuery \<Rightarrow> int \<Rightarrow> bool" where
  "cell_counts c sn q key \<longleftrightarrow>
     (case map_of (sn_cells sn) key of Some cell \<Rightarrow> stable_cell c (sn_authority sn) q cell | None \<Rightarrow> False)"

definition cell_counts_pre :: "StaticObstacleEvidenceConfig \<Rightarrow> StaticEvidenceSnapshot \<Rightarrow> StaticProvenanceQuery \<Rightarrow> int \<Rightarrow> bool" where
  "cell_counts_pre c sn q key \<longleftrightarrow>
     cell_counts c sn q key \<and>
     (case map_of (sn_cells sn) key of
        Some cell \<Rightarrow> pre_cargo_cell c (pq_cargo_track_start_sequence q) cell | None \<Rightarrow> False)"

lemma tally_step:
  "qt_matched (tally_cell c sn q asked key t) = qt_matched t + (if key \<in> asked \<and> cell_counts c sn q key then 1 else 0)"
  "qt_pre_cargo_matched (tally_cell c sn q asked key t) =
     qt_pre_cargo_matched t + (if key \<in> asked \<and> cell_counts_pre c sn q key then 1 else 0)"
  by (auto simp: tally_cell_def cell_counts_def cell_counts_pre_def stable_cell_def Let_def split: option.splits)

lemma tally_counts:
  "qt_matched (fold (tally_cell c sn q asked) keys t) =
     qt_matched t + length (filter (\<lambda>k. k \<in> asked \<and> cell_counts c sn q k) keys)"
  "qt_pre_cargo_matched (fold (tally_cell c sn q asked) keys t) =
     qt_pre_cargo_matched t + length (filter (\<lambda>k. k \<in> asked \<and> cell_counts_pre c sn q k) keys)"
  by (induction keys arbitrary: t) (auto simp: tally_step)

lemma sint_word_of_int_32:
  assumes "- 2147483648 \<le> x" and "x \<le> 2147483647"
  shows "sint (word_of_int x :: 32 word) = x"
proof -
  have "x < 2147483648" using assms(2) by linarith
  then have "signed_take_bit 31 x = x" using assms(1) by (simp add: signed_take_bit_int_eq_self)
  then show ?thesis by (simp add: signed_of_int)
qed

lemma pack_inj: "packStaticEvidenceCell x y = packStaticEvidenceCell x' y' \<longleftrightarrow> x = x' \<and> y = y'"
  by (metis unpack_pack prod.inject)

lemma box_keys_distinct:
  assumes "- 2147483648 \<le> min_x" "max_x \<le> 2147483647" "- 2147483648 \<le> min_y" "max_y \<le> 2147483647" "min_y \<le> max_y"
  shows "distinct (box_keys (min_x, max_x, min_y, max_y))"
proof -
  have inj: "word_of_int x = (word_of_int x' :: 32 word) \<longleftrightarrow> x = x'"
    if "lo \<le> x" "x \<le> hi" "lo \<le> x'" "x' \<le> hi" "- 2147483648 \<le> lo" "hi \<le> 2147483647" for x x' lo hi
  proof
    assume eq: "word_of_int x = (word_of_int x' :: 32 word)"
    have "sint (word_of_int x :: 32 word) = x" by (rule sint_word_of_int_32) (use that in linarith)+
    moreover have "sint (word_of_int x' :: 32 word) = x'" by (rule sint_word_of_int_32) (use that in linarith)+
    ultimately show "x = x'" using eq by metis
  qed simp
  have "inj_on (\<lambda>y. packStaticEvidenceCell x (word_of_int y)) {min_y..max_y}" for x
    using inj [of min_y _ max_y] assms by (auto simp: inj_on_def pack_inj)
  moreover have "inj_on (\<lambda>x. map (\<lambda>y. packStaticEvidenceCell (word_of_int x) (word_of_int y)) [min_y..max_y]) {min_x..max_x}"
    using inj [of min_x _ max_x] assms by (auto simp: inj_on_def pack_inj)
  ultimately show ?thesis
    unfolding box_keys_def prod.case Let_def by (intro distinct_concat) (auto simp: distinct_map pack_inj)
qed

text \<open>The box: it stays within the range of the indices and holds every asked cell.\<close>

definition in_box :: "int \<times> int \<times> int \<times> int \<Rightarrow> int \<Rightarrow> bool" where
  "in_box b key \<longleftrightarrow>
     (let (min_x, max_x, min_y, max_y) = b; (x, y) = unpackStaticEvidenceCell key
      in min_x \<le> sint x \<and> sint x \<le> max_x \<and> min_y \<le> sint y \<and> sint y \<le> max_y)"

definition box_range :: "int \<times> int \<times> int \<times> int \<Rightarrow> bool" where
  "box_range b \<longleftrightarrow>
     (let (min_x, max_x, min_y, max_y) = b
      in - 2147483648 \<le> min_x \<and> max_x \<le> 2147483647 \<and> - 2147483648 \<le> min_y \<and> max_y \<le> 2147483647)"

lemma sint_range_32: "- 2147483648 \<le> sint (x :: 32 word)" "sint (x :: 32 word) \<le> 2147483647"
  using sint_greater_eq [of x] sint_less [of x] by simp_all

lemma extend_box_range: "box_range b \<Longrightarrow> box_range (extend_box key b)"
  using sint_range_32 by (cases b; cases "unpackStaticEvidenceCell key") (auto simp: box_range_def extend_box_def min_def max_def)

lemma extend_box_holds: "in_box (extend_box key b) key" "in_box b k \<Longrightarrow> in_box (extend_box key b) k"
  by (cases b; cases "unpackStaticEvidenceCell key"; cases "unpackStaticEvidenceCell k"; auto simp: in_box_def extend_box_def)+

lemma fold_box:
  "box_range b \<Longrightarrow> box_range (fold extend_box keys b)"
  "k \<in> set keys \<or> in_box b k \<Longrightarrow> in_box (fold extend_box keys b) k"
proof (induction keys arbitrary: b)
  case (Cons key keys)
  { case 1 then show ?case using Cons.IH(1) [OF extend_box_range] by simp }
  { case 2
    then have "k \<in> set keys \<or> in_box (extend_box key b) k"
      using extend_box_holds(1) [of key b] extend_box_holds(2) [of b k key] by auto
    then show ?case using Cons.IH(2) by simp }
qed simp_all

lemma query_box_range: "box_range (query_box keys)"
  unfolding query_box_def by (rule fold_box) (simp add: box_range_def)

lemma query_box_holds: "k \<in> set keys \<Longrightarrow> in_box (query_box keys) k"
  unfolding query_box_def by (rule fold_box) simp

lemma box_keys_hold:
  assumes "in_box b key" and "- (2 ^ 63) \<le> key" and "key < 2 ^ 63"
  shows "key \<in> set (box_keys b)"
proof -
  obtain min_x max_x min_y max_y where b: "b = (min_x, max_x, min_y, max_y)" by (cases b)
  obtain x y where u: "unpackStaticEvidenceCell key = (x, y)" by (cases "unpackStaticEvidenceCell key")
  have "packStaticEvidenceCell x y = key" using pack_unpack [OF assms(2,3)] u by simp
  then have key: "key = packStaticEvidenceCell (word_of_int (sint x)) (word_of_int (sint y))" by simp
  have "sint x \<in> set [min_x..max_x]" "sint y \<in> set [min_y..max_y]"
    using assms(1) by (simp_all add: in_box_def b u)
  then show ?thesis unfolding box_keys_def b prod.case Let_def set_concat set_map key
    by (intro UN_I [OF imageI] image_eqI [OF refl]) (simp_all only: set_map, rule image_eqI [OF refl])
qed

lemma allowed_box_distinct: "box_allowed c (query_box keys) \<Longrightarrow> distinct (box_keys (query_box keys))"
proof -
  assume allowed: "box_allowed c (query_box keys)"
  obtain min_x max_x min_y max_y where b: "query_box keys = (min_x, max_x, min_y, max_y)" by (cases "query_box keys")
  show ?thesis unfolding b
    by (rule box_keys_distinct)
      (use query_box_range [of keys] allowed in \<open>simp_all only: b box_allowed_def box_range_def Let_def prod.case\<close>, linarith)
qed

text \<open>What the counting loop computes, without the loop.\<close>

abbreviation asked_cells :: "StaticProvenanceQuery \<Rightarrow> int set" where
  "asked_cells q \<equiv> set (pq_occupied_map_cells q)"

lemma asked_list: "set (remdups_adj (sort xs)) = set xs" "length (remdups_adj (sort xs)) = card (set (xs :: int list))"
proof -
  have "distinct (remdups_adj (sort xs))" by (simp add: distinct_remdups_adj_sorted)
  then have "card (set (remdups_adj (sort xs))) = length (remdups_adj (sort xs))" by (rule distinct_card)
  then show "set (remdups_adj (sort xs)) = set xs" "length (remdups_adj (sort xs)) = card (set xs)" by simp_all
qed

lemma matched_subset:
  assumes "box_allowed c (query_box keys)"
  shows "length (filter (\<lambda>k. k \<in> A \<and> P k) (box_keys (query_box keys))) =
    card {k \<in> A. P k \<and> k \<in> set (box_keys (query_box keys))}"
proof -
  have "length (filter (\<lambda>k. k \<in> A \<and> P k) (box_keys (query_box keys))) =
      card (set (filter (\<lambda>k. k \<in> A \<and> P k) (box_keys (query_box keys))))"
    using distinct_card [OF distinct_filter [OF allowed_box_distinct [OF assms]]] by (rule sym)
  also have "set (filter (\<lambda>k. k \<in> A \<and> P k) (box_keys (query_box keys))) =
      {k \<in> A. P k \<and> k \<in> set (box_keys (query_box keys))}" by auto
  finally show ?thesis .
qed

abbreviation final_tally :: "StaticObstacleEvidenceConfig \<Rightarrow> StaticEvidenceSnapshot \<Rightarrow> StaticProvenanceQuery \<Rightarrow> QueryTally" where
  "final_tally c sn q \<equiv>
     fold (tally_cell c sn q (asked_cells q)) (box_keys (query_box (remdups_adj (sort (pq_occupied_map_cells q)))))
       initial_tally"

text \<open>The guards of the query.\<close>

definition query_admissible ::
  "StaticObstacleEvidenceConfig \<Rightarrow> StaticEvidenceSnapshot \<Rightarrow> StaticProvenanceQuery \<Rightarrow> bool" where
  "query_admissible c sn q \<longleftrightarrow>
     sn_cells sn \<noteq> [] \<and> sn_map_generation sn = pq_expected_map_generation q \<and>
     sn_authority sn \<noteq> UNVERIFIED_LOADED_CLEAN \<and> isfinite (pq_min_z_map q) \<and> isfinite (pq_max_z_map q) \<and>
     \<not> pq_max_z_map q < pq_min_z_map q \<and> pq_occupied_map_cells q \<noteq> [] \<and>
     box_allowed c (query_box (remdups_adj (sort (pq_occupied_map_cells q))))"

lemma query_admitted:
  "query_admissible c sn q \<Longrightarrow> query_snapshot c sn q =
     query_verdict c sn (card (asked_cells q)) (final_tally c sn q)
       ((query_frame sn q)\<lparr>pd_query_cell_count := card (asked_cells q)\<rparr>)"
  by (simp add: query_snapshot_def query_admissible_def Let_def asked_list)

lemma query_refused: "\<not> query_admissible c sn q \<Longrightarrow> \<not> pd_authorized (query_snapshot c sn q)"
  by (auto simp: query_snapshot_def query_admissible_def query_frame_def default_StaticProvenanceDecision_def Let_def)

lemma verdict_authorized:
  assumes "\<not> pd_authorized d"
  shows "pd_authorized (query_verdict c sn n t d) \<longleftrightarrow>
    ec_minimum_matched_cells c \<le> qt_pre_cargo_matched t \<and> ec_minimum_cell_overlap c \<le> count_ratio n (qt_pre_cargo_matched t) \<or>
    ec_minimum_matched_cells c \<le> qt_matched t \<and> ec_minimum_cell_overlap c \<le> count_ratio n (qt_matched t)"
  using assms by (simp add: query_verdict_def Let_def)

text \<open>The cells that support an authorised query.\<close>

lemma query_support:
  assumes "pd_authorized (query_snapshot c sn q)"
  shows "query_admissible c sn q \<and> (\<exists>K \<subseteq> asked_cells q. ec_minimum_matched_cells c \<le> card K \<and>
    ec_minimum_cell_overlap c \<le> count_ratio (card (asked_cells q)) (card K) \<and> (\<forall>k \<in> K. cell_counts c sn q k))"
proof -
  have adm: "query_admissible c sn q" using assms query_refused by blast
  then have allowed: "box_allowed c (query_box (remdups_adj (sort (pq_occupied_map_cells q))))"
    by (simp add: query_admissible_def)
  let ?keys = "box_keys (query_box (remdups_adj (sort (pq_occupied_map_cells q))))"
  let ?pre = "{k \<in> asked_cells q. cell_counts_pre c sn q k \<and> k \<in> set ?keys}"
  let ?all = "{k \<in> asked_cells q. cell_counts c sn q k \<and> k \<in> set ?keys}"
  have counts: "qt_pre_cargo_matched (final_tally c sn q) = card ?pre" "qt_matched (final_tally c sn q) = card ?all"
    using matched_subset [OF allowed] by (simp_all add: tally_counts initial_tally_def)
  have "\<not> pd_authorized ((query_frame sn q)\<lparr>pd_query_cell_count := card (asked_cells q)\<rparr>)"
    by (simp add: query_frame_def default_StaticProvenanceDecision_def)
  from verdict_authorized [OF this] have
    "ec_minimum_matched_cells c \<le> card ?pre \<and> ec_minimum_cell_overlap c \<le> count_ratio (card (asked_cells q)) (card ?pre) \<or>
     ec_minimum_matched_cells c \<le> card ?all \<and> ec_minimum_cell_overlap c \<le> count_ratio (card (asked_cells q)) (card ?all)"
    using assms query_admitted [OF adm] counts by simp
  then show ?thesis
  proof
    assume "ec_minimum_matched_cells c \<le> card ?pre \<and> ec_minimum_cell_overlap c \<le> count_ratio (card (asked_cells q)) (card ?pre)"
    then show ?thesis using adm by (intro conjI exI [of _ ?pre]) (auto simp: cell_counts_pre_def)
  next
    assume "ec_minimum_matched_cells c \<le> card ?all \<and> ec_minimum_cell_overlap c \<le> count_ratio (card (asked_cells q)) (card ?all)"
    then show ?thesis using adm by (intro conjI exI [of _ ?all]) auto
  qed
qed

lemma snapshot_find:
  assumes "index_inv s"
  shows "map_of (sn_cells (ix_snapshot s)) key = Some cell \<longleftrightarrow>
    map_of (ix_working_cells s) key = Some cell \<and> sc_clean_map_confirmed cell"
  using assms
  by (auto simp: index_inv_def snapshot_current_def cells_ok_def smap_find_filter split: option.splits if_splits)

text \<open>A small index: one cell seen in two clean builds and then confirmed.\<close>

definition demo_evidence_config :: StaticObstacleEvidenceConfig where
  "demo_evidence_config =
     default_StaticObstacleEvidenceConfig\<lparr>ec_minimum_observations := 2, ec_minimum_matched_cells := 1\<rparr>"

definition demo_geometry :: StaticEvidenceCellGeometry where
  "demo_geometry = \<lparr>eg_min_z = Fin 0, eg_max_z = Fin 2\<rparr>"

definition demo_cell :: StaticEvidenceCell where
  "demo_cell =
     \<lparr>sc_key = 0, sc_consecutive_observation_count = 2, sc_total_observation_count = 2, sc_first_seen_sec = Fin 1,
      sc_last_seen_sec = Fin 3, sc_consecutive_stable_duration_sec = Fin 2, sc_min_z = Fin 0, sc_max_z = Fin 2,
      sc_clean_map_confirmed = True, sc_temporally_mature = True, sc_first_observation_sequence = 1,
      sc_last_observation_sequence = 2, sc_last_observed_objects_version = 1, sc_last_clean_confirmed_version = 1,
      sc_last_invalidated_version = 0, sc_map_generation = 5\<rparr>"

definition demo_index :: StaticObstacleEvidenceIndex where
  "demo_index =
     publishSnapshotLocked (Fin 3)
       \<lparr>ix_config = demo_evidence_config, ix_working_cells = [(0, demo_cell)], ix_invalidated_versions = [],
        ix_observed_free_tombstones = {}, ix_working_generation = 5, ix_latest_observation_sequence = 2,
        ix_revision = 3, ix_last_observation_stamp_sec = Fin 3, ix_authority = RUNTIME_MATURE,
        ix_diagnostics_totals = default_StaticEvidenceDiagnostics,
        ix_snapshot = \<lparr>sn_schema_version = 3, sn_map_generation = 5, sn_revision = 3,
          sn_latest_observation_sequence = 2, sn_source_stamp_sec = Fin 3, sn_cell_size_m = Fin 0.25,
          sn_authority = RUNTIME_MATURE, sn_cells = []\<rparr>\<rparr>"

definition demo_query :: StaticProvenanceQuery where
  "demo_query =
     \<lparr>pq_occupied_map_cells = [0], pq_min_z_map = Fin 0, pq_max_z_map = Fin 2, pq_cargo_track_start_sequence = 0,
      pq_expected_map_generation = 5\<rparr>"

lemma demo_index_inv: "index_inv demo_index"
proof -
  have "mature_backed demo_evidence_config demo_cell"
    by (simp add: mature_backed_def demo_evidence_config_def default_StaticObstacleEvidenceConfig_def demo_cell_def
        evidence_stamp_epsilon_def)
  then show ?thesis
    by (simp add: index_inv_def demo_index_def cells_ok_def cell_ok_def) (simp add: demo_cell_def)
qed

lemma demo_stable: "stable_cell demo_evidence_config RUNTIME_MATURE demo_query demo_cell"
  by (simp add: stable_cell_def stable_history_def demo_evidence_config_def default_StaticObstacleEvidenceConfig_def
      demo_cell_def demo_query_def evidence_stamp_epsilon_def cell_height_ratio_def intervalOverlapRatio_def
      cpp_clamp_def Let_def)

lemma demo_snapshot:
  "sn_cells (ix_snapshot demo_index) = [(0, demo_cell)]" "sn_authority (ix_snapshot demo_index) = RUNTIME_MATURE"
  "sn_map_generation (ix_snapshot demo_index) = 5" "ix_config demo_index = demo_evidence_config"
  "ix_authority demo_index = RUNTIME_MATURE"
  by (simp_all add: demo_index_def publishSnapshotLocked_def demo_cell_def)

lemma demo_box: "query_box [0] = (0, 0, 0, 0)"
  by (simp add: query_box_def extend_box_def unpackStaticEvidenceCell_def Let_def)

lemma demo_admissible: "query_admissible (ix_config demo_index) (ix_snapshot demo_index) demo_query"
  by (simp add: query_admissible_def demo_snapshot demo_query_def demo_box box_allowed_def demo_evidence_config_def
      default_StaticObstacleEvidenceConfig_def)

lemma demo_counts: "cell_counts (ix_config demo_index) (ix_snapshot demo_index) demo_query 0"
  by (simp add: cell_counts_def demo_snapshot demo_stable)

lemma demo_authorized: "pd_authorized (static_query demo_index demo_query)"
proof -
  have "box_keys (0, 0, 0, 0) = [0]" by (simp add: box_keys_def packStaticEvidenceCell_def)
  then have "qt_matched (final_tally (ix_config demo_index) (ix_snapshot demo_index) demo_query) = 1"
    using demo_counts by (simp add: tally_step demo_query_def demo_box initial_tally_def)
  moreover have "\<not> pd_authorized ((query_frame (ix_snapshot demo_index) demo_query)\<lparr>pd_query_cell_count := 1\<rparr>)"
    by (simp add: query_frame_def default_StaticProvenanceDecision_def)
  moreover have "card (asked_cells demo_query) = 1" by (simp add: demo_query_def)
  moreover have "ec_minimum_matched_cells (ix_config demo_index) = 1"
    "ec_minimum_cell_overlap (ix_config demo_index) = Fin 0.6"
    by (simp_all add: demo_snapshot demo_evidence_config_def default_StaticObstacleEvidenceConfig_def)
  ultimately show ?thesis
    unfolding static_query_def query_admitted [OF demo_admissible] by (simp add: verdict_authorized count_ratio_def)
qed

section \<open>Properties\<close>

text \<open>C30. Static provenance is never granted without evidence. When a query on an index in a reachable state is
  authorised, the snapshot's authority is verified and its generation is the expected one, and at least the required number
  of the asked cells, covering at least the required share of them, are stored clean-confirmed cells of the current
  generation with enough height overlap; unless an operator approved the baseline, each of them has been observed often and
  long enough and was confirmed after every denial of the cell.\<close>

theorem static_query_sound:
  assumes inv: "index_inv s" and auth: "pd_authorized (static_query s q)"
  shows "ix_authority s \<noteq> UNVERIFIED_LOADED_CLEAN \<and> ix_working_generation s = pq_expected_map_generation q \<and>
    (\<exists>K \<subseteq> asked_cells q. ec_minimum_matched_cells (ix_config s) \<le> card K \<and>
       ec_minimum_cell_overlap (ix_config s) \<le> count_ratio (card (asked_cells q)) (card K) \<and>
       (\<forall>k \<in> K. \<exists>cell. map_of (ix_working_cells s) k = Some cell \<and> sc_clean_map_confirmed cell \<and>
          sc_map_generation cell = pq_expected_map_generation q \<and>
          ec_minimum_height_overlap (ix_config s) \<le> cell_height_ratio (ix_config s) q cell \<and>
          (\<forall>v. map_of (ix_invalidated_versions s) k = Some v \<longrightarrow> v < sc_last_clean_confirmed_version cell) \<and>
          (ix_authority s = RUNTIME_MATURE \<longrightarrow>
             ec_minimum_observations (ix_config s) \<le> sc_consecutive_observation_count cell \<and>
             ec_minimum_stable_duration_sec (ix_config s) \<le>
               sc_consecutive_stable_duration_sec cell + evidence_stamp_epsilon)))"
proof -
  have snap: "sn_authority (ix_snapshot s) = ix_authority s" "sn_map_generation (ix_snapshot s) = ix_working_generation s"
    using inv by (simp_all add: index_inv_def snapshot_current_def)
  from query_support [OF auth [unfolded static_query_def]] obtain K where
    adm: "query_admissible (ix_config s) (ix_snapshot s) q" and K: "K \<subseteq> asked_cells q"
    "ec_minimum_matched_cells (ix_config s) \<le> card K"
    "ec_minimum_cell_overlap (ix_config s) \<le> count_ratio (card (asked_cells q)) (card K)"
    "\<forall>k \<in> K. cell_counts (ix_config s) (ix_snapshot s) q k" by blast
  have tomb: "v < sc_last_clean_confirmed_version cell"
    if "map_of (ix_working_cells s) k = Some cell" "sc_clean_map_confirmed cell"
      "map_of (ix_invalidated_versions s) k = Some v" for k cell v
  proof -
    have "cell_ok (ix_config s) (ix_working_generation s) (map_of (ix_invalidated_versions s) k) k cell"
      using inv that(1) by (simp add: index_inv_def cells_ok_def)
    then show ?thesis using that by (simp add: cell_ok_def)
  qed
  have cells: "\<exists>cell. map_of (ix_working_cells s) k = Some cell \<and> sc_clean_map_confirmed cell \<and>
      stable_cell (ix_config s) (ix_authority s) q cell" if k: "k \<in> K" for k
  proof -
    obtain cell where "map_of (sn_cells (ix_snapshot s)) k = Some cell" "stable_cell (ix_config s) (ix_authority s) q cell"
      using bspec [OF K(4) k] snap(1) by (auto simp: cell_counts_def split: option.splits)
    then show ?thesis using snapshot_find [OF inv, of k cell] by blast
  qed
  show ?thesis
  proof (intro conjI exI [of _ K] ballI)
    fix k assume "k \<in> K"
    then obtain cell where cell: "map_of (ix_working_cells s) k = Some cell" "sc_clean_map_confirmed cell"
      "stable_cell (ix_config s) (ix_authority s) q cell" using cells by blast
    then show "\<exists>cell. map_of (ix_working_cells s) k = Some cell \<and> sc_clean_map_confirmed cell \<and>
          sc_map_generation cell = pq_expected_map_generation q \<and>
          ec_minimum_height_overlap (ix_config s) \<le> cell_height_ratio (ix_config s) q cell \<and>
          (\<forall>v. map_of (ix_invalidated_versions s) k = Some v \<longrightarrow> v < sc_last_clean_confirmed_version cell) \<and>
          (ix_authority s = RUNTIME_MATURE \<longrightarrow>
             ec_minimum_observations (ix_config s) \<le> sc_consecutive_observation_count cell \<and>
             ec_minimum_stable_duration_sec (ix_config s) \<le>
               sc_consecutive_stable_duration_sec cell + evidence_stamp_epsilon)"
      using tomb by (intro exI [of _ cell]) (auto simp: stable_cell_def stable_history_def Let_def)
  qed (use adm K snap in \<open>auto simp: query_admissible_def\<close>)
qed

theorem static_query_sound_witness:
  "pd_authorized (static_query demo_index demo_query) \<and>
   (\<exists>K \<subseteq> asked_cells demo_query. ec_minimum_matched_cells (ix_config demo_index) \<le> card K)"
  using static_query_sound [OF demo_index_inv demo_authorized] demo_authorized by blast

text \<open>The bounding-box loop is a set intersection: for asked keys within the 64-bit range, an admissible query reports
  as matched exactly the number of asked cells that are stored and stable at the asked height, independent of
  repetitions and of the order of the keys.\<close>

theorem static_query_counts:
  assumes "query_admissible (ix_config s) (ix_snapshot s) q"
    and "\<forall>k \<in> asked_cells q. - (2 ^ 63) \<le> k \<and> k < 2 ^ 63"
  shows "pd_matched_cell_count (static_query s q) =
    card {k \<in> asked_cells q. cell_counts (ix_config s) (ix_snapshot s) q k}"
proof -
  let ?asked = "remdups_adj (sort (pq_occupied_map_cells q))"
  have allowed: "box_allowed (ix_config s) (query_box ?asked)" using assms(1) by (simp add: query_admissible_def)
  have "k \<in> set (box_keys (query_box ?asked))" if "k \<in> asked_cells q" for k
    using that assms(2) query_box_holds [of k ?asked] by (intro box_keys_hold) (auto simp: asked_list)
  then have "{k \<in> asked_cells q. cell_counts (ix_config s) (ix_snapshot s) q k \<and> k \<in> set (box_keys (query_box ?asked))} =
      {k \<in> asked_cells q. cell_counts (ix_config s) (ix_snapshot s) q k}" by blast
  then show ?thesis
    using query_admitted [OF assms(1)] matched_subset [OF allowed, of "asked_cells q" "cell_counts (ix_config s) (ix_snapshot s) q"]
    by (simp add: static_query_def query_verdict_def Let_def tally_counts initial_tally_def)
qed

theorem static_query_counts_witness:
  "pd_matched_cell_count (static_query demo_index demo_query) = 1"
proof -
  have "{k \<in> asked_cells demo_query. cell_counts (ix_config demo_index) (ix_snapshot demo_index) demo_query k} = {0}"
    using demo_counts by (auto simp: demo_query_def)
  then show ?thesis using static_query_counts [OF demo_admissible] by (simp add: demo_query_def)
qed

end
