(* ===== verification/Session_Digest.thy ===== *)
theory Session_Digest
  imports Static_Query
begin

unbundle bit_operations_syntax

text \<open>
  Integrity of saved map sessions (\<^verbatim>\<open>map_session_snapshot.cpp\<close>): the streaming SHA-256 of the class \<^verbatim>\<open>Sha256\<close>, the digest of
  a file read in pieces (\<^verbatim>\<open>MapSessionSnapshot::sha256File\<close>), the test that a manifest path stays inside the session
  directory, and the choice of the points that may enter the static height field. The reference is the one-shot
  definition of the standard: pad the message, cut it into blocks of 64 bytes and compress them in order.
\<close>

section \<open>SHA-256\<close>

type_synonym byte = "8 word"

text \<open>The round constants in decimal, eight to a line.\<close>

definition kSha256Round :: "u32 list" where
  "kSha256Round =
     [1116352408, 1899447441, 3049323471, 3921009573, 961987163, 1508970993, 2453635748, 2870763221,
      3624381080, 310598401, 607225278, 1426881987, 1925078388, 2162078206, 2614888103, 3248222580,
      3835390401, 4022224774, 264347078, 604807628, 770255983, 1249150122, 1555081692, 1996064986,
      2554220882, 2821834349, 2952996808, 3210313671, 3336571891, 3584528711, 113926993, 338241895,
      666307205, 773529912, 1294757372, 1396182291, 1695183700, 1986661051, 2177026350, 2456956037,
      2730485921, 2820302411, 3259730800, 3345764771, 3516065817, 3600352804, 4094571909, 275423344,
      430227734, 506948616, 659060556, 883997877, 958139571, 1322822218, 1537002063, 1747873779,
      1955562222, 2024104815, 2227730452, 2361852424, 2428436474, 2756734187, 3204031479, 3329325298]"

definition rotateRight :: "u32 \<Rightarrow> nat \<Rightarrow> u32" where
  "rotateRight value amount = drop_bit amount value OR push_bit (32 - amount) value"

definition initial_state :: "u32 list" where
  "initial_state =
     [0x6a09e667, 0xbb67ae85, 0x3c6ef372, 0xa54ff53a, 0x510e527f, 0x9b05688c, 0x1f83d9ab, 0x5be0cd19]"

definition block_word :: "byte list \<Rightarrow> nat \<Rightarrow> u32" where
  "block_word block i =
     push_bit 24 (ucast (block ! (4 * i))) OR push_bit 16 (ucast (block ! (4 * i + 1))) OR
     push_bit 8 (ucast (block ! (4 * i + 2))) OR ucast (block ! (4 * i + 3))"

definition schedule_step :: "u32 list \<Rightarrow> nat \<Rightarrow> u32 list" where
  "schedule_step words i =
     (let s0 = rotateRight (words ! (i - 15)) 7 XOR rotateRight (words ! (i - 15)) 18 XOR drop_bit 3 (words ! (i - 15));
          s1 = rotateRight (words ! (i - 2)) 17 XOR rotateRight (words ! (i - 2)) 19 XOR drop_bit 10 (words ! (i - 2))
      in words @ [words ! (i - 16) + s0 + words ! (i - 7) + s1])"

definition message_schedule :: "byte list \<Rightarrow> u32 list" where
  "message_schedule block = foldl schedule_step (map (block_word block) [0..<16]) [16..<64]"

text \<open>The eight working variables of a round, \<open>a\<close> to \<open>h\<close>, as a list.\<close>

definition sha_round :: "u32 list \<Rightarrow> u32 list \<Rightarrow> nat \<Rightarrow> u32 list" where
  "sha_round words v i =
     (let a = v ! 0; b = v ! 1; c = v ! 2; d = v ! 3; e = v ! 4; f = v ! 5; g = v ! 6; h = v ! 7;
          s1 = rotateRight e 6 XOR rotateRight e 11 XOR rotateRight e 25;
          choice = (e AND f) XOR (NOT e AND g);
          t1 = h + s1 + choice + kSha256Round ! i + words ! i;
          s0 = rotateRight a 2 XOR rotateRight a 13 XOR rotateRight a 22;
          majority = (a AND b) XOR (a AND c) XOR (b AND c);
          t2 = s0 + majority
      in [t1 + t2, a, b, c, d + t1, e, f, g])"

definition sha_transform :: "u32 list \<Rightarrow> byte list \<Rightarrow> u32 list" where
  "sha_transform state block =
     (let words = message_schedule block; v = foldl (sha_round words) state [0..<64] in map2 (+) state v)"

record Sha256 =
  sh_state :: "u32 list"
  sh_buffer :: "byte list"
  sh_buffer_size :: nat
  sh_bit_count :: u64

definition sha_init :: Sha256 where
  "sha_init = \<lparr>sh_state = initial_state, sh_buffer = replicate 64 0, sh_buffer_size = 0, sh_bit_count = 0\<rparr>"

text \<open>\<^verbatim>\<open>buffer_[buffer_size_++] = b\<close>.\<close>

definition sha_store :: "byte \<Rightarrow> Sha256 \<Rightarrow> Sha256" where
  "sha_store b s = s\<lparr>sh_buffer := (sh_buffer s)[sh_buffer_size s := b], sh_buffer_size := sh_buffer_size s + 1\<rparr>"

definition sha_flush :: "Sha256 \<Rightarrow> Sha256" where
  "sha_flush s = s\<lparr>sh_state := sha_transform (sh_state s) (sh_buffer s), sh_buffer_size := 0\<rparr>"

definition sha_update_byte :: "Sha256 \<Rightarrow> byte \<Rightarrow> Sha256" where
  "sha_update_byte s b =
     (let s1 = (sha_store b s)\<lparr>sh_bit_count := sh_bit_count s + 8\<rparr>
      in if sh_buffer_size s1 = 64 then sha_flush s1 else s1)"

definition sha_update :: "byte list \<Rightarrow> Sha256 \<Rightarrow> Sha256" where
  "sha_update data s = foldl sha_update_byte s data"

text \<open>\<^verbatim>\<open>while (buffer_size_ < n) buffer_[buffer_size_++] = 0U\<close>.\<close>

function fill_to :: "nat \<Rightarrow> Sha256 \<Rightarrow> Sha256" where
  "fill_to n s = (if sh_buffer_size s < n then fill_to n (sha_store 0 s) else s)"
  by auto
termination by (relation "measure (\<lambda>(n, s). n - sh_buffer_size s)") (auto simp: sha_store_def)

declare fill_to.simps [simp del]

definition length_bytes :: "u64 \<Rightarrow> byte list" where
  "length_bytes n = map (\<lambda>shift. ucast (drop_bit shift n AND 0xFF)) [56, 48, 40, 32, 24, 16, 8, 0]"

definition digest_text :: "u32 list \<Rightarrow> string" where
  "digest_text state = concat (map (print_hex 8) state)"

definition sha_finish :: "Sha256 \<Rightarrow> string" where
  "sha_finish s =
     (let s1 = sha_store 0x80 s;
          s2 = (if 56 < sh_buffer_size s1 then sha_flush (fill_to 64 s1) else s1);
          s3 = fill_to 56 s2;
          s4 = foldl (\<lambda>s b. sha_store b s) s3 (length_bytes (sh_bit_count s3))
      in digest_text (sh_state (sha_flush s4)))"

text \<open>\<open>reads\<close> are the pieces the stream delivered until it ended, \<open>eof\<close> whether it ended at the end of the file.\<close>

definition sha256File :: "byte list list option \<Rightarrow> bool \<Rightarrow> string + string" where
  "sha256File reads eof =
     (case reads of
        None \<Rightarrow> Inl ''hash_open_failed''
      | Some pieces \<Rightarrow>
          if \<not> eof then Inl ''hash_read_failed''
          else Inr (sha_finish (foldl (\<lambda>s piece. if piece = [] then s else sha_update piece s) sha_init pieces)))"

section \<open>The reference\<close>

fun blocks64 :: "byte list \<Rightarrow> byte list list" where
  "blocks64 xs = (if length xs < 64 then [] else take 64 xs # blocks64 (drop 64 xs))"

declare blocks64.simps [simp del]

text \<open>The number of zero bytes that brings the message, the end marker and the eight length bytes to full blocks.\<close>

definition pad_zeros :: "nat \<Rightarrow> nat" where
  "pad_zeros n = (119 - n mod 64) mod 64"

definition pad_message :: "byte list \<Rightarrow> byte list" where
  "pad_message msg = msg @ [0x80] @ replicate (pad_zeros (length msg)) 0 @ length_bytes (of_nat (8 * length msg))"

definition sha256_reference :: "byte list \<Rightarrow> string" where
  "sha256_reference msg = digest_text (foldl sha_transform initial_state (blocks64 (pad_message msg)))"

section \<open>Lemmas\<close>

lemma blocks64_concat:
  "\<forall>b \<in> set bs. length b = 64 \<Longrightarrow> length r < 64 \<Longrightarrow> blocks64 (concat bs @ r) = bs"
proof (induction bs)
  case Nil
  then show ?case by (simp add: blocks64.simps)
next
  case (Cons b bs)
  then show ?case by (simp add: blocks64.simps [of "b @ concat bs @ r"])
qed

text \<open>The buffer holds these bytes.\<close>

definition holds :: "byte list \<Rightarrow> Sha256 \<Rightarrow> bool" where
  "holds r s \<longleftrightarrow> length (sh_buffer s) = 64 \<and> sh_buffer_size s = length r \<and> take (length r) (sh_buffer s) = r"

lemma store_holds:
  assumes "holds r s" and "length r < 64"
  shows "holds (r @ [b]) (sha_store b s)"
  using assms by (simp add: holds_def sha_store_def take_Suc_conv_app_nth)

lemma store_keeps [simp]: "sh_state (sha_store b s) = sh_state s" "sh_bit_count (sha_store b s) = sh_bit_count s"
  by (simp_all add: sha_store_def)

lemma stores_hold:
  "holds r s \<Longrightarrow> length r + length bs \<le> 64 \<Longrightarrow> holds (r @ bs) (foldl (\<lambda>s b. sha_store b s) s bs) \<and>
   sh_state (foldl (\<lambda>s b. sha_store b s) s bs) = sh_state s"
proof (induction bs arbitrary: r s)
  case (Cons b bs)
  then show ?case using Cons.IH [of "r @ [b]" "sha_store b s"] store_holds [of r s b] by simp
qed simp

lemma fill_holds:
  "holds r s \<Longrightarrow> length r \<le> n \<Longrightarrow> n \<le> 64 \<Longrightarrow> holds (r @ replicate (n - length r) 0) (fill_to n s) \<and>
   sh_state (fill_to n s) = sh_state s \<and> sh_bit_count (fill_to n s) = sh_bit_count s"
proof (induction n s arbitrary: r rule: fill_to.induct)
  case (1 n s)
  show ?case
  proof (cases "length r < n")
    case True
    then have "n - length r = Suc (n - length (r @ [0 :: byte]))" by simp
    moreover have "sh_buffer_size s < n" using "1.prems" True by (simp add: holds_def)
    ultimately show ?thesis
      using "1.IH" [of "r @ [0]"] store_holds [of r s 0] "1.prems" True
      by (simp add: fill_to.simps [of n s] replicate_append_same [symmetric])
  next
    case False
    then show ?thesis using "1.prems" by (simp add: fill_to.simps [of n s] holds_def)
  qed
qed

lemma flush_holds:
  assumes "holds r s" and "length r = 64"
  shows "holds [] (sha_flush s) \<and> sh_state (sha_flush s) = sha_transform (sh_state s) r \<and>
    sh_bit_count (sha_flush s) = sh_bit_count s"
  using assms by (auto simp: holds_def sha_flush_def)

text \<open>What the hash has absorbed: full blocks compressed in order, the rest in the buffer.\<close>

definition absorbed :: "byte list \<Rightarrow> Sha256 \<Rightarrow> bool" where
  "absorbed msg s \<longleftrightarrow>
     (\<exists>bs r. msg = concat bs @ r \<and> (\<forall>b \<in> set bs. length b = 64) \<and> length r < 64 \<and> holds r s \<and>
        sh_state s = foldl sha_transform initial_state bs \<and> sh_bit_count s = of_nat (8 * length msg))"

lemma absorbed_init: "absorbed [] sha_init"
  by (auto simp: absorbed_def holds_def sha_init_def intro!: exI [of _ "[]"])

lemma absorbed_byte:
  assumes "absorbed msg s"
  shows "absorbed (msg @ [b]) (sha_update_byte s b)"
proof -
  obtain bs r where a: "msg = concat bs @ r" "\<forall>b \<in> set bs. length b = 64" "length r < 64" "holds r s"
    "sh_state s = foldl sha_transform initial_state bs" "sh_bit_count s = of_nat (8 * length msg)"
    using assms by (auto simp: absorbed_def)
  define s1 where "s1 = (sha_store b s)\<lparr>sh_bit_count := sh_bit_count s + 8\<rparr>"
  have s1: "holds (r @ [b]) s1" "sh_state s1 = sh_state s" "sh_bit_count s1 = of_nat (8 * length (msg @ [b]))"
    using store_holds [OF a(4,3), of b] a(6) by (simp_all add: s1_def holds_def algebra_simps)
  have eq: "sha_update_byte s b = (if length (r @ [b]) = 64 then sha_flush s1 else s1)"
    using s1(1) by (simp add: sha_update_byte_def Let_def s1_def [symmetric] holds_def)
  show ?thesis
  proof (cases "length (r @ [b]) = 64")
    case True
    have "msg @ [b] = concat (bs @ [r @ [b]]) @ []" using a(1) by simp
    then show ?thesis unfolding absorbed_def
      using flush_holds [OF s1(1) True] eq s1 a True
      by (intro exI [of _ "bs @ [r @ [b]]"] exI [of _ "[]"]) auto
  next
    case False
    then show ?thesis unfolding absorbed_def
      using eq s1 a by (intro exI [of _ bs] exI [of _ "r @ [b]"]) auto
  qed
qed

lemma absorbed_update: "absorbed msg s \<Longrightarrow> absorbed (msg @ data) (sha_update data s)"
proof (induction data arbitrary: msg s)
  case (Cons b data)
  then show ?case using absorbed_byte [of msg s b] Cons.IH [of "msg @ [b]" "sha_update_byte s b"]
    by (simp add: sha_update_def)
qed (simp add: sha_update_def)

lemma length_length_bytes [simp]: "length (length_bytes n) = 8"
  by (simp add: length_bytes_def)

text \<open>The last one or two blocks.\<close>

lemma finish_short:
  assumes "holds r s" and "length r < 56"
  shows "sha_finish s = digest_text (sha_transform (sh_state s)
    (r @ [0x80] @ replicate (55 - length r) 0 @ length_bytes (sh_bit_count s)))"
proof -
  let ?s1 = "sha_store 0x80 s"
  have 1: "holds (r @ [0x80]) ?s1" using assms by (intro store_holds) auto
  have size: "sh_buffer_size ?s1 = length r + 1" using 1 by (simp add: holds_def)
  have 3: "holds ((r @ [0x80]) @ replicate (56 - length (r @ [0x80 :: byte])) 0) (fill_to 56 ?s1)"
    "sh_state (fill_to 56 ?s1) = sh_state s" "sh_bit_count (fill_to 56 ?s1) = sh_bit_count s"
    using fill_holds [OF 1, of 56] assms(2) by auto
  let ?s4 = "foldl (\<lambda>s b. sha_store b s) (fill_to 56 ?s1) (length_bytes (sh_bit_count (fill_to 56 ?s1)))"
  have 4: "holds (((r @ [0x80]) @ replicate (56 - length (r @ [0x80 :: byte])) 0) @ length_bytes (sh_bit_count s)) ?s4"
    "sh_state ?s4 = sh_state s"
    using stores_hold [OF 3(1), of "length_bytes (sh_bit_count (fill_to 56 ?s1))"] 3 assms(2) by auto
  have "sh_state (sha_flush ?s4) = sha_transform (sh_state s)
      (((r @ [0x80]) @ replicate (56 - length (r @ [0x80 :: byte])) 0) @ length_bytes (sh_bit_count s))"
    using flush_holds [OF 4(1)] 4(2) assms(2) by simp
  then show ?thesis using size assms(2) by (simp add: sha_finish_def Let_def)
qed

lemma finish_long:
  assumes "holds r s" and "56 \<le> length r" and "length r < 64"
  shows "sha_finish s = digest_text (sha_transform (sha_transform (sh_state s)
    (r @ [0x80] @ replicate (63 - length r) 0)) (replicate 56 0 @ length_bytes (sh_bit_count s)))"
proof -
  let ?s1 = "sha_store 0x80 s"
  have 1: "holds (r @ [0x80]) ?s1" using assms by (intro store_holds) auto
  have size: "sh_buffer_size ?s1 = length r + 1" using 1 by (simp add: holds_def)
  have f: "holds ((r @ [0x80]) @ replicate (64 - length (r @ [0x80 :: byte])) 0) (fill_to 64 ?s1)"
    "sh_state (fill_to 64 ?s1) = sh_state s" "sh_bit_count (fill_to 64 ?s1) = sh_bit_count s"
    using fill_holds [OF 1, of 64] assms by auto
  let ?s2 = "sha_flush (fill_to 64 ?s1)"
  have 2: "holds [] ?s2" "sh_state ?s2 = sha_transform (sh_state s) ((r @ [0x80]) @ replicate (64 - length (r @ [0x80 :: byte])) 0)"
    "sh_bit_count ?s2 = sh_bit_count s"
    using flush_holds [OF f(1)] f assms by simp_all
  have 3: "holds ([] @ replicate (56 - length ([] :: byte list)) 0) (fill_to 56 ?s2)"
    "sh_state (fill_to 56 ?s2) = sh_state ?s2" "sh_bit_count (fill_to 56 ?s2) = sh_bit_count s"
    using fill_holds [OF 2(1), of 56] 2 by auto
  let ?s4 = "foldl (\<lambda>s b. sha_store b s) (fill_to 56 ?s2) (length_bytes (sh_bit_count (fill_to 56 ?s2)))"
  have 4: "holds (([] @ replicate (56 - length ([] :: byte list)) 0) @ length_bytes (sh_bit_count s)) ?s4"
    "sh_state ?s4 = sh_state ?s2"
    using stores_hold [OF 3(1), of "length_bytes (sh_bit_count (fill_to 56 ?s2))"] 3 by auto
  have "sh_state (sha_flush ?s4) = sha_transform (sh_state ?s2) (replicate 56 0 @ length_bytes (sh_bit_count s))"
    using flush_holds [OF 4(1)] 4(2) by simp
  then show ?thesis using size assms(2) 2(2) by (simp add: sha_finish_def Let_def)
qed

lemma pad_zeros_split:
  assumes "msg = concat bs @ r" and "\<forall>b \<in> set bs. length b = 64" and "length r < 64"
  shows "pad_zeros (length msg) = (if length r < 56 then 55 - length r else 119 - length r)"
proof -
  have "length (concat bs) = 64 * length bs" using assms(2) by (induction bs) auto
  then have "length msg mod 64 = length r" using assms(1,3) by simp
  then show ?thesis using assms(3) by (simp add: pad_zeros_def mod_if)
qed

lemma finish_absorbed:
  assumes "absorbed msg s"
  shows "sha_finish s = sha256_reference msg"
proof -
  obtain bs r where a: "msg = concat bs @ r" "\<forall>b \<in> set bs. length b = 64" "length r < 64" "holds r s"
    "sh_state s = foldl sha_transform initial_state bs" "sh_bit_count s = of_nat (8 * length msg)"
    using assms by (auto simp: absorbed_def)
  note zeros = pad_zeros_split [OF a(1-3)]
  show ?thesis
  proof (cases "length r < 56")
    case True
    let ?last = "r @ [0x80] @ replicate (55 - length r) 0 @ length_bytes (sh_bit_count s)"
    have "pad_message msg = concat (bs @ [?last]) @ []" using a(1,6) zeros True by (simp add: pad_message_def)
    moreover have "length ?last = 64" using True by simp
    ultimately have "blocks64 (pad_message msg) = bs @ [?last]" using blocks64_concat [of "bs @ [?last]" "[]"] a(2) by simp
    then show ?thesis using finish_short [OF a(4) True] a(5) by (simp add: sha256_reference_def)
  next
    case False
    let ?one = "r @ [0x80] @ replicate (63 - length r) 0"
    let ?two = "replicate 56 0 @ length_bytes (sh_bit_count s)"
    have "replicate (119 - length r) (0 :: byte) = replicate (63 - length r) 0 @ replicate 56 0"
      using a(3) by (simp add: replicate_add [symmetric])
    then have "pad_message msg = concat (bs @ [?one, ?two]) @ []" using a(1,6) zeros False by (simp add: pad_message_def)
    moreover have "length ?one = 64" "length ?two = 64" using False a(3) by simp_all
    ultimately have "blocks64 (pad_message msg) = bs @ [?one, ?two]"
      using blocks64_concat [of "bs @ [?one, ?two]" "[]"] a(2) by simp
    then show ?thesis using finish_long [OF a(4) _ a(3)] False a(5) by (simp add: sha256_reference_def)
  qed
qed

lemma sha256File_pieces: "sha256File (Some pieces) True = Inr (sha256_reference (concat pieces))"
proof -
  have "absorbed (msg @ concat pieces) (foldl (\<lambda>s piece. if piece = [] then s else sha_update piece s) s pieces)"
    if "absorbed msg s" for msg s
    using that
  proof (induction pieces arbitrary: msg s)
    case (Cons piece pieces)
    then show ?case
      using Cons.IH [OF absorbed_update [OF Cons.prems, of piece]] Cons.IH [OF Cons.prems] by simp
  qed simp
  from finish_absorbed [OF this [OF absorbed_init]] show ?thesis by (simp add: sha256File_def)
qed

lemma length_rounds: "length v = 8 \<Longrightarrow> length (foldl (sha_round words) v is) = 8"
proof (induction "is" arbitrary: v)
  case (Cons i "is")
  have "length (sha_round words v i) = 8" by (simp add: sha_round_def Let_def)
  then show ?case using Cons.IH by simp
qed simp

section \<open>Properties\<close>

text \<open>C33. The streaming hash is the one-shot SHA-256: whatever pieces a file is read in, its digest is the reference digest
  of the concatenated bytes, for messages of every length (the number of padding blocks included); a file that cannot be
  opened or read to its end gives no digest.\<close>

theorem sha256File_reference:
  "sha256File reads eof =
     (case reads of None \<Rightarrow> Inl ''hash_open_failed''
      | Some pieces \<Rightarrow> if eof then Inr (sha256_reference (concat pieces)) else Inl ''hash_read_failed'')"
proof (cases reads)
  case (Some pieces)
  then show ?thesis using sha256File_pieces [of pieces] by (cases eof) (simp_all add: sha256File_def)
qed (simp add: sha256File_def)

end
