(* ===== verification/Static_Store.thy ===== *)
theory Static_Store
  imports Static_Query
begin

text \<open>
  Persistence of the static index: \<^verbatim>\<open>saveSnapshot\<close>, \<^verbatim>\<open>loadSnapshotCandidate\<close>, \<^verbatim>\<open>prepareSnapshotInstall\<close>,
  \<^verbatim>\<open>installPreparedSnapshot\<close> and their compositions, and the index as a machine over all its operations. The file system is
  a map from paths to contents; whether a stream opens, stays good and can be renamed are arguments. An exception of the
  number parsers is the reason \<^verbatim>\<open>index_parse_failed\<close>. The decimal output of floating-point numbers with 9 and with 17
  significant digits and its parsers \<^verbatim>\<open>std::stof\<close> and \<^verbatim>\<open>std::stod\<close> are arguments; that a number survives being
  printed and parsed is a hypothesis of the properties that need it, and of those only.
\<close>

section \<open>Saving\<close>

definition snapshot_header :: "(dbl \<Rightarrow> string) \<Rightarrow> (dbl \<Rightarrow> string) \<Rightarrow> StaticEvidenceSnapshot \<Rightarrow> string list" where
  "snapshot_header fmt9 fmt17 sn =
     [''NDT_STATIC_EVIDENCE_INDEX'', print_nat (unat (sn_schema_version sn)), fmt9 (sn_cell_size_m sn),
      print_nat (unat (sn_map_generation sn)), print_nat (unat (sn_revision sn)),
      print_nat (unat (sn_latest_observation_sequence sn)), fmt17 (sn_source_stamp_sec sn),
      print_nat (authority_code (sn_authority sn))]"

definition cell_fields :: "(dbl \<Rightarrow> string) \<Rightarrow> (dbl \<Rightarrow> string) \<Rightarrow> StaticEvidenceCell \<Rightarrow> string list" where
  "cell_fields fmt9 fmt17 c =
     [print_int (sc_key c), print_nat (unat (sc_consecutive_observation_count c)),
      print_nat (unat (sc_total_observation_count c)), fmt17 (sc_first_seen_sec c), fmt17 (sc_last_seen_sec c),
      fmt17 (sc_consecutive_stable_duration_sec c), fmt9 (sc_min_z c), fmt9 (sc_max_z c),
      print_nat (unat (sc_first_observation_sequence c)), print_nat (unat (sc_last_observation_sequence c)),
      print_nat (unat (sc_last_observed_objects_version c)), print_nat (unat (sc_last_clean_confirmed_version c)),
      print_nat (unat (sc_last_invalidated_version c)), print_nat (if sc_temporally_mature c then 1 else 0)]"

definition csv_line :: "string list \<Rightarrow> string" where
  "csv_line cols = join_with (CHR '','') cols @ [CHR 0x0A]"

definition snapshot_text :: "(dbl \<Rightarrow> string) \<Rightarrow> (dbl \<Rightarrow> string) \<Rightarrow> StaticEvidenceSnapshot \<Rightarrow> string" where
  "snapshot_text fmt9 fmt17 sn =
     csv_line (snapshot_header fmt9 fmt17 sn) @
     concat (map (\<lambda>(k, c). csv_line (cell_fields fmt9 fmt17 c)) (sn_cells sn))"

type_synonym file_system = "string \<Rightarrow> string option"

text \<open>The result is the file system and the reason, \<open>Inr\<close> for success.\<close>

definition saveSnapshot ::
  "(dbl \<Rightarrow> string) \<Rightarrow> (dbl \<Rightarrow> string) \<Rightarrow> StaticEvidenceSnapshot option \<Rightarrow> string \<Rightarrow> bool \<Rightarrow> bool \<Rightarrow> bool \<Rightarrow> file_system \<Rightarrow>
   file_system \<times> (string + string)" where
  "saveSnapshot fmt9 fmt17 current path opens stream_ok renames fs =
     (case current of
        None \<Rightarrow> (fs, Inl ''snapshot_unavailable'')
      | Some sn \<Rightarrow>
          let temporary = path @ ''.tmp'' in
          if \<not> opens then (fs, Inl ''open_failed'')
          else if \<not> stream_ok \<or> \<not> renames then (fs(temporary := None), Inl ''atomic_replace_failed'')
          else (fs(temporary := None, path := Some (snapshot_text fmt9 fmt17 sn)), Inr ''saved''))"

section \<open>Loading\<close>

definition ebind :: "'e + 'a \<Rightarrow> ('a \<Rightarrow> 'e + 'b) \<Rightarrow> 'e + 'b" where
  "ebind x f = (case x of Inl e \<Rightarrow> Inl e | Inr a \<Rightarrow> f a)"

lemma ebind_simps [simp]: "ebind (Inl e) f = Inl e" "ebind (Inr a) f = f a"
  by (simp_all add: ebind_def)

definition parsed :: "(string \<Rightarrow> 'a option) \<Rightarrow> string \<Rightarrow> string + 'a" where
  "parsed f s = (case f s of None \<Rightarrow> Inl ''index_parse_failed'' | Some a \<Rightarrow> Inr a)"

definition splitCsv :: "string \<Rightarrow> string list" where
  "splitCsv line = getline_all (CHR '','') line"

text \<open>The checks on a parsed cell.\<close>

definition loaded_cell_valid :: "StaticObstacleEvidenceConfig \<Rightarrow> StaticEvidenceCell \<Rightarrow> bool" where
  "loaded_cell_valid cfg c \<longleftrightarrow>
     \<not> (\<not> isfinite (sc_first_seen_sec c) \<or> \<not> isfinite (sc_last_seen_sec c) \<or>
        \<not> isfinite (sc_consecutive_stable_duration_sec c) \<or> \<not> isfinite (sc_min_z c) \<or> \<not> isfinite (sc_max_z c) \<or>
        sc_consecutive_stable_duration_sec c < Fin 0 \<or> sc_max_z c < sc_min_z c \<or>
        sc_consecutive_observation_count c = 0 \<or>
        sc_total_observation_count c < ucast (sc_consecutive_observation_count c) \<or>
        sc_last_observation_sequence c < sc_first_observation_sequence c \<or>
        (sc_temporally_mature c \<and>
         (sc_consecutive_observation_count c < ec_minimum_observations cfg \<or>
          sc_consecutive_stable_duration_sec c + evidence_stamp_epsilon < ec_minimum_stable_duration_sec cfg)))"

definition load_cell ::
  "(string \<Rightarrow> dbl option) \<Rightarrow> (string \<Rightarrow> dbl option) \<Rightarrow> StaticObstacleEvidenceConfig \<Rightarrow> u64 \<Rightarrow> string list \<Rightarrow>
   string + StaticEvidenceCell" where
  "load_cell stof stod cfg generation cols =
     (if length cols \<noteq> 14 then Inl ''index_cell_invalid'' else
      ebind (parsed stoll (cols ! 0)) (\<lambda>key.
      ebind (parsed stoull (cols ! 1)) (\<lambda>count.
      if 4294967295 < count then Inl ''index_observation_count_invalid'' else
      ebind (parsed stoull (cols ! 2)) (\<lambda>total.
      ebind (parsed stod (cols ! 3)) (\<lambda>first_seen.
      ebind (parsed stod (cols ! 4)) (\<lambda>last_seen.
      ebind (parsed stod (cols ! 5)) (\<lambda>duration.
      ebind (parsed stof (cols ! 6)) (\<lambda>min_z.
      ebind (parsed stof (cols ! 7)) (\<lambda>max_z.
      ebind (parsed stoull (cols ! 8)) (\<lambda>first_sequence.
      ebind (parsed stoull (cols ! 9)) (\<lambda>last_sequence.
      ebind (parsed stoull (cols ! 10)) (\<lambda>objects_version.
      ebind (parsed stoull (cols ! 11)) (\<lambda>clean_version.
      ebind (parsed stoull (cols ! 12)) (\<lambda>invalidated_version.
      ebind (parsed stoull (cols ! 13)) (\<lambda>mature_value.
      if 1 < mature_value then Inl ''index_temporal_maturity_invalid'' else
      let cell = \<lparr>sc_key = key, sc_consecutive_observation_count = ucast count, sc_total_observation_count = total,
             sc_first_seen_sec = first_seen, sc_last_seen_sec = last_seen,
             sc_consecutive_stable_duration_sec = duration, sc_min_z = min_z, sc_max_z = max_z,
             sc_clean_map_confirmed = True, sc_temporally_mature = (mature_value = 1),
             sc_first_observation_sequence = first_sequence, sc_last_observation_sequence = last_sequence,
             sc_last_observed_objects_version = objects_version, sc_last_clean_confirmed_version = clean_version,
             sc_last_invalidated_version = invalidated_version, sc_map_generation = generation\<rparr>
      in if loaded_cell_valid cfg cell then Inr cell else Inl ''index_cell_nonfinite'')))))))))))))))"

fun load_cells ::
  "(string \<Rightarrow> dbl option) \<Rightarrow> (string \<Rightarrow> dbl option) \<Rightarrow> StaticObstacleEvidenceConfig \<Rightarrow> u64 \<Rightarrow> string list \<Rightarrow>
   (int, StaticEvidenceCell) smap \<Rightarrow> u64 \<Rightarrow> string + (int, StaticEvidenceCell) smap \<times> u64" where
  "load_cells stof stod cfg generation [] loaded latest = Inr (loaded, latest)"
| "load_cells stof stod cfg generation (line # lines) loaded latest =
     (if line = [] then load_cells stof stod cfg generation lines loaded latest
      else ebind (load_cell stof stod cfg generation (splitCsv line)) (\<lambda>cell.
        if map_of loaded (sc_key cell) \<noteq> None then Inl ''index_duplicate_cell''
        else load_cells stof stod cfg generation lines (smap_put (sc_key cell) cell loaded)
               (cpp_max latest (sc_last_observation_sequence cell))))"

definition authority_of_code :: "u64 \<Rightarrow> StaticEvidenceAuthority" where
  "authority_of_code n =
     (if n = 0 then RUNTIME_MATURE else if n = 1 then OPERATOR_APPROVED_BASELINE else UNVERIFIED_LOADED_CLEAN)"

text \<open>The authority field is optional; without it the file counts as runtime evidence.\<close>

definition load_authority :: "string list \<Rightarrow> string + StaticEvidenceAuthority" where
  "load_authority header =
     (if length header = 8 then
        ebind (parsed stoull (header ! 7)) (\<lambda>code.
          if 2 < code then Inl ''index_authority_invalid'' else Inr (authority_of_code code))
      else Inr RUNTIME_MATURE)"

definition loadSnapshotCandidate ::
  "(string \<Rightarrow> dbl option) \<Rightarrow> (string \<Rightarrow> dbl option) \<Rightarrow> StaticObstacleEvidenceConfig \<Rightarrow> string option \<Rightarrow> u64 \<Rightarrow> u64 \<Rightarrow>
   string + StaticEvidenceSnapshot" where
  "loadSnapshotCandidate stof stod cfg content expected_generation expected_revision =
     (case content of None \<Rightarrow> Inl ''index_missing'' | Some text \<Rightarrow>
      case getline_all (CHR 0x0A) text of [] \<Rightarrow> Inl ''index_header_missing'' | line # lines \<Rightarrow>
      let header = splitCsv line in
      if (length header \<noteq> 7 \<and> length header \<noteq> 8) \<or> header ! 0 \<noteq> ''NDT_STATIC_EVIDENCE_INDEX''
      then Inl ''index_header_invalid''
      else
        ebind (parsed stoull (header ! 1)) (\<lambda>schema.
        ebind (parsed stof (header ! 2)) (\<lambda>cell_size.
        ebind (parsed stoull (header ! 3)) (\<lambda>generation.
        ebind (parsed stoull (header ! 4)) (\<lambda>revision.
        ebind (load_authority header) (\<lambda>authority.
        if (ucast schema :: u32) \<noteq> kSchemaVersion \<or> Fin 0.00001 < \<bar>cell_size - ec_cell_size_m cfg\<bar> \<or> generation = 0 \<or>
           revision = 0 \<or> generation \<noteq> expected_generation \<or> revision \<noteq> expected_revision
        then Inl ''index_schema_or_resolution_mismatch''
        else
          ebind (parsed stoull (header ! 5)) (\<lambda>latest.
          ebind (parsed stod (header ! 6)) (\<lambda>stamp.
          if \<not> isfinite stamp \<or> stamp < Fin 0 then Inl ''index_source_stamp_invalid''
          else
            ebind (load_cells stof stod cfg generation lines [] latest) (\<lambda>(loaded, latest').
            Inr \<lparr>sn_schema_version = ucast schema, sn_map_generation = generation, sn_revision = revision,
                 sn_latest_observation_sequence = latest', sn_source_stamp_sec = stamp, sn_cell_size_m = cell_size,
                 sn_authority = authority, sn_cells = loaded\<rparr>)))))))))"

section \<open>Installing\<close>

definition with_generation :: "u64 \<Rightarrow> (int, StaticEvidenceCell) smap \<Rightarrow> (int, StaticEvidenceCell) smap" where
  "with_generation generation m = map (\<lambda>(k, c). (k, c\<lparr>sc_map_generation := generation\<rparr>)) m"

definition prepareSnapshotInstall ::
  "StaticObstacleEvidenceConfig \<Rightarrow> StaticEvidenceSnapshot \<Rightarrow> u64 \<Rightarrow> string + PreparedStaticEvidenceInstall" where
  "prepareSnapshotInstall cfg candidate generation =
     (if sn_schema_version candidate \<noteq> kSchemaVersion \<or>
         Fin 0.00001 < \<bar>sn_cell_size_m candidate - ec_cell_size_m cfg\<bar> \<or> sn_revision candidate = 0 \<or> generation = 0
      then Inl ''candidate_schema_or_generation_invalid''
      else Inr \<lparr>pi_map_generation = generation,
                pi_latest_observation_sequence = sn_latest_observation_sequence candidate,
                pi_revision = sn_revision candidate, pi_authority = sn_authority candidate,
                pi_working_cells = with_generation generation (sn_cells candidate),
                pi_snapshot = candidate\<lparr>sn_map_generation := generation,
                  sn_cells := with_generation generation (sn_cells candidate)\<rparr>\<rparr>)"

text \<open>The install; a generation that changed since the preparation is written into every cell.\<close>

definition installPreparedSnapshot ::
  "PreparedStaticEvidenceInstall \<Rightarrow> u64 \<Rightarrow> StaticObstacleEvidenceIndex \<Rightarrow> StaticObstacleEvidenceIndex" where
  "installPreparedSnapshot p0 generation s =
     (let p = (if generation \<noteq> 0 \<and> generation \<noteq> pi_map_generation p0
               then p0\<lparr>pi_map_generation := generation,
                       pi_working_cells := with_generation generation (pi_working_cells p0),
                       pi_snapshot := (pi_snapshot p0)\<lparr>sn_map_generation := generation,
                         sn_cells := with_generation generation (sn_cells (pi_snapshot p0))\<rparr>\<rparr>
               else p0)
      in s\<lparr>ix_working_cells := pi_working_cells p, ix_invalidated_versions := [], ix_observed_free_tombstones := {},
           ix_working_generation := pi_map_generation p, ix_authority := pi_authority p,
           ix_latest_observation_sequence := pi_latest_observation_sequence p, ix_revision := pi_revision p,
           ix_last_observation_stamp_sec := Fin 0, ix_snapshot := pi_snapshot p\<rparr>)"

definition restoreSnapshotWithoutRevisionIncrement ::
  "StaticEvidenceSnapshot \<Rightarrow> u64 \<Rightarrow> StaticObstacleEvidenceIndex \<Rightarrow> StaticObstacleEvidenceIndex \<times> (string + string)" where
  "restoreSnapshotWithoutRevisionIncrement candidate generation s =
     (case prepareSnapshotInstall (ix_config s) candidate generation of
        Inl reason \<Rightarrow> (s, Inl reason)
      | Inr p \<Rightarrow> (installPreparedSnapshot p 0 s, Inr ''restored_exact_revision''))"

definition loadSnapshot ::
  "(string \<Rightarrow> dbl option) \<Rightarrow> (string \<Rightarrow> dbl option) \<Rightarrow> string option \<Rightarrow> u64 \<Rightarrow> u64 \<Rightarrow> u64 \<Rightarrow> StaticObstacleEvidenceIndex \<Rightarrow>
   StaticObstacleEvidenceIndex \<times> (string + string)" where
  "loadSnapshot stof stod content generation expected_generation expected_revision s =
     (case loadSnapshotCandidate stof stod (ix_config s) content expected_generation expected_revision of
        Inl reason \<Rightarrow> (s, Inl reason)
      | Inr candidate \<Rightarrow> restoreSnapshotWithoutRevisionIncrement candidate generation s)"

section \<open>The index over all its operations\<close>

datatype evidence_op =
  Reset u64
| Observe "(int, StaticEvidenceCellGeometry) smap" "int list" "int list" dbl u64 u64
| Invalidate "int list" u64 dbl u64
| Confirm "(int, StaticEvidenceCellGeometry) smap" "int list" dbl u64 u64
| Authority StaticEvidenceAuthority
| Load "string option" u64 u64 u64

fun apply_op ::
  "(string \<Rightarrow> dbl option) \<Rightarrow> (string \<Rightarrow> dbl option) \<Rightarrow> StaticObstacleEvidenceIndex \<Rightarrow> evidence_op \<Rightarrow>
   StaticObstacleEvidenceIndex" where
  "apply_op stof stod s (Reset g) = evidence_reset g s"
| "apply_op stof stod s (Observe occupied observable freed t g ov) =
     fst (observeCleanBuildCells occupied observable freed t g ov s)"
| "apply_op stof stod s (Invalidate denied v t g) = fst (invalidateCells denied v t g s)"
| "apply_op stof stod s (Confirm clean denied t g v) = fst (confirmCleanCells clean denied t g v s)"
| "apply_op stof stod s (Authority a) = setSnapshotAuthority a s"
| "apply_op stof stod s (Load content g expected_g expected_r) =
     fst (loadSnapshot stof stod content g expected_g expected_r s)"

text \<open>What a reader sees after each operation.\<close>

definition evidence_step ::
  "(string \<Rightarrow> dbl option) \<Rightarrow> (string \<Rightarrow> dbl option) \<Rightarrow>
   (StaticObstacleEvidenceIndex, evidence_op, StaticEvidenceSnapshot) machine" where
  "evidence_step stof stod s e = (apply_op stof stod s e, ix_snapshot (apply_op stof stod s e))"

definition candidate_ok :: "StaticObstacleEvidenceConfig \<Rightarrow> (int, StaticEvidenceCell) smap \<Rightarrow> bool" where
  "candidate_ok cfg m \<longleftrightarrow>
     smap_ok m \<and> (\<forall>k c. map_of m k = Some c \<longrightarrow> sc_key c = k \<and> sc_clean_map_confirmed c \<and> mature_backed cfg c)"

lemma ebind_Inr: "ebind x f = Inr b \<longleftrightarrow> (\<exists>a. x = Inr a \<and> f a = Inr b)"
  by (cases x) simp_all

lemma if_Inr: "(if b then Inl e else x) = Inr a \<longleftrightarrow> \<not> b \<and> x = Inr a"
  by simp

lemma loaded_valid_mature:
  assumes "loaded_cell_valid cfg c" and "sc_clean_map_confirmed c" and "isfinite (ec_minimum_stable_duration_sec cfg)"
  shows "mature_backed cfg c"
  using assms by (auto simp: loaded_cell_valid_def mature_backed_def isfinite_iff evidence_stamp_epsilon_def not_less)

lemma load_cell_sound:
  assumes "load_cell stof stod cfg g cols = Inr c" and "isfinite (ec_minimum_stable_duration_sec cfg)"
  shows "sc_clean_map_confirmed c \<and> mature_backed cfg c"
proof -
  have "sc_clean_map_confirmed c \<and> loaded_cell_valid cfg c"
    using assms(1) unfolding load_cell_def Let_def ebind_Inr if_Inr
    by (auto split: if_splits)
  then show ?thesis using loaded_valid_mature assms(2) by blast
qed

lemma load_cells_ok:
  assumes "isfinite (ec_minimum_stable_duration_sec cfg)"
  shows "candidate_ok cfg loaded \<Longrightarrow> load_cells stof stod cfg g ls loaded latest = Inr (m, n) \<Longrightarrow> candidate_ok cfg m"
proof (induction ls arbitrary: loaded latest)
  case (Cons line ls)
  show ?case
  proof (cases "line = []")
    case True
    then show ?thesis using Cons by simp
  next
    case False
    then obtain c where c: "load_cell stof stod cfg g (splitCsv line) = Inr c"
      "load_cells stof stod cfg g ls (smap_put (sc_key c) c loaded) (cpp_max latest (sc_last_observation_sequence c)) = Inr (m, n)"
      using Cons.prems(2) by (auto simp: ebind_Inr split: if_splits)
    then have "candidate_ok cfg (smap_put (sc_key c) c loaded)"
      using Cons.prems(1) load_cell_sound [OF c(1) assms] by (auto simp: candidate_ok_def smap_ok_put find_smap_put)
    then show ?thesis using Cons.IH c(2) by blast
  qed
qed simp

lemma load_candidate_ok:
  assumes "loadSnapshotCandidate stof stod cfg content g r = Inr sn" and "isfinite (ec_minimum_stable_duration_sec cfg)"
  shows "candidate_ok cfg (sn_cells sn)"
proof -
  obtain gen ls latest latest' where "load_cells stof stod cfg gen ls [] latest = Inr (sn_cells sn, latest')"
    using assms(1) unfolding loadSnapshotCandidate_def
    by (auto simp: ebind_Inr if_Inr Let_def split: option.splits list.splits)
  then show ?thesis using load_cells_ok [OF assms(2), of "[]"] by (simp add: candidate_ok_def)
qed

lemma find_with_generation:
  "map_of (with_generation g m) k = map_option (\<lambda>c. c\<lparr>sc_map_generation := g\<rparr>) (map_of m k)"
  by (induction m) (auto simp: with_generation_def)

lemma with_generation_ok: "smap_ok (with_generation g m) = smap_ok m"
  unfolding with_generation_def using smap_ok_map [of "\<lambda>k c. c\<lparr>sc_map_generation := g\<rparr>" m] by simp

lemma with_generation_again [simp]: "with_generation g (with_generation g' m) = with_generation g m"
  by (induction m) (auto simp: with_generation_def)

lemma clean_filter_all:
  assumes "candidate_ok cfg m"
  shows "filter (\<lambda>(k, c). sc_clean_map_confirmed c) (with_generation g m) = with_generation g m"
proof (rule filter_True)
  show "\<forall>e \<in> set (with_generation g m). case e of (k, c) \<Rightarrow> sc_clean_map_confirmed c"
    using assms by (auto simp: candidate_ok_def with_generation_def smap_find_iff)
qed

lemma install_inv:
  assumes "candidate_ok (ix_config s) m" and "pi_working_cells p = with_generation (pi_map_generation p) m"
    and "sn_cells (pi_snapshot p) = with_generation (pi_map_generation p) m"
    and "sn_map_generation (pi_snapshot p) = pi_map_generation p" and "sn_authority (pi_snapshot p) = pi_authority p"
  shows "index_inv (installPreparedSnapshot p g s)"
proof -
  have gen_free: "mature_backed c (x\<lparr>sc_map_generation := h\<rparr>) = mature_backed c x" for c x h
    by (simp add: mature_backed_def)
  show ?thesis
    using assms
    by (auto simp: installPreparedSnapshot_def Let_def index_inv_def cells_ok_def snapshot_current_def cell_ok_def
        with_generation_ok find_with_generation candidate_ok_def gen_free clean_filter_all [OF assms(1)])
qed

lemma restore_inv:
  assumes "candidate_ok (ix_config s) (sn_cells candidate)" and "index_inv s"
  shows "index_inv (fst (restoreSnapshotWithoutRevisionIncrement candidate g s))"
  using assms
  by (auto simp: restoreSnapshotWithoutRevisionIncrement_def prepareSnapshotInstall_def intro!: install_inv)

lemma loop_configs:
  "ix_config (fst (fold (observe_free observable) freed sb)) = ix_config (fst sb)"
  "ix_config (fst (fold (observe_occupied observable freed t g ov) occupied sb)) = ix_config (fst sb)"
  "ix_config (fst (fold (deny_cell v) denied sn)) = ix_config (fst sn)"
  "ix_config (fst (fold (confirm_cell denied t g v) clean sn)) = ix_config (fst sn)"
proof -
  show "ix_config (fst (fold (observe_free observable) freed sb)) = ix_config (fst sb)"
    by (induction freed arbitrary: sb) (auto simp: observe_free_def Let_def split: option.splits)
  show "ix_config (fst (fold (observe_occupied observable freed t g ov) occupied sb)) = ix_config (fst sb)"
    by (induction occupied arbitrary: sb) (auto simp: observe_occupied_def Let_def)
  show "ix_config (fst (fold (deny_cell v) denied sn)) = ix_config (fst sn)"
    by (induction denied arbitrary: sn) (auto simp: deny_cell_def Let_def)
  show "ix_config (fst (fold (confirm_cell denied t g v) clean sn)) = ix_config (fst sn)"
    by (induction clean arbitrary: sn) (auto simp: confirm_cell_def Let_def)
qed

lemma op_config [simp]: "ix_config (apply_op stof stod s e) = ix_config s"
  by (cases e) (simp_all add: evidence_reset_def observeCleanBuildCells_def invalidateCells_def confirmCleanCells_def
      setSnapshotAuthority_def loadSnapshot_def restoreSnapshotWithoutRevisionIncrement_def installPreparedSnapshot_def
      loop_configs split_beta Let_def split: sum.splits)

lemma op_inv:
  assumes "index_inv s" and "isfinite (ec_minimum_stable_duration_sec (ix_config s))"
  shows "index_inv (apply_op stof stod s e)"
proof (cases e)
  case (Load content g expected_g expected_r)
  then show ?thesis
    using assms load_candidate_ok [of stof stod "ix_config s" content expected_g expected_r]
    by (auto simp: loadSnapshot_def intro: restore_inv split: sum.splits)
qed (use assms in \<open>simp_all add: evidence_reset_inv observeCleanBuildCells_inv invalidateCells_inv
      confirmCleanCells_inv setSnapshotAuthority_inv\<close>)

text \<open>What every published snapshot satisfies.\<close>

definition snapshot_sound :: "StaticObstacleEvidenceConfig \<Rightarrow> StaticEvidenceSnapshot \<Rightarrow> bool" where
  "snapshot_sound cfg sn \<longleftrightarrow>
     smap_ok (sn_cells sn) \<and>
     (\<forall>(k, c) \<in> set (sn_cells sn). sc_key c = k \<and> sc_clean_map_confirmed c \<and>
        sc_map_generation c = sn_map_generation sn \<and> mature_backed cfg c)"

lemma index_snapshot_sound:
  assumes "index_inv s"
  shows "snapshot_sound (ix_config s) (ix_snapshot s)"
proof -
  have ok: "smap_ok (ix_working_cells s)" using assms by (simp add: index_inv_def cells_ok_def)
  have "cell_ok (ix_config s) (ix_working_generation s) (map_of (ix_invalidated_versions s) k) k c"
    if "(k, c) \<in> set (ix_working_cells s)" for k c
    using assms that smap_find_iff [OF ok] by (auto simp: index_inv_def cells_ok_def)
  then show ?thesis
    using assms ok by (auto simp: snapshot_sound_def index_inv_def snapshot_current_def smap_ok_filter cell_ok_def)
qed

definition store_inv :: "StaticObstacleEvidenceConfig \<Rightarrow> StaticObstacleEvidenceIndex \<Rightarrow> bool" where
  "store_inv cfg s \<longleftrightarrow> index_inv s \<and> ix_config s = cfg \<and> validEvidenceConfig cfg"

interpretation store: contract_machine "evidence_step stof stod" "store_inv cfg" "snapshot_sound cfg" for stof stod cfg
proof
  fix s e
  assume "store_inv cfg s"
  then show "store_inv cfg (fst (evidence_step stof stod s e))"
    by (auto simp: evidence_step_def store_inv_def validEvidenceConfig_def intro: op_inv)
  then show "snapshot_sound cfg (snd (evidence_step stof stod s e))"
    using index_snapshot_sound by (fastforce simp: evidence_step_def store_inv_def)
qed

lemma validEvidenceConfig_default: "validEvidenceConfig default_StaticObstacleEvidenceConfig"
  by (simp add: validEvidenceConfig_def default_StaticObstacleEvidenceConfig_def)

lemma store_init: "store_inv (ix_config (evidence_setConfig c)) (evidence_setConfig c)"
  using evidence_setConfig_inv [of c] validEvidenceConfig_default
  by (simp add: store_inv_def) (simp add: evidence_setConfig_def Let_def)

section \<open>Denied cells\<close>

text \<open>A cell that was denied at a version and not confirmed since.\<close>

definition held_out :: "u64 \<Rightarrow> int \<Rightarrow> StaticObstacleEvidenceIndex \<Rightarrow> bool" where
  "held_out v key s \<longleftrightarrow>
     (\<exists>w \<ge> v. map_of (ix_invalidated_versions s) key = Some w) \<and>
     (\<forall>c. map_of (ix_working_cells s) key = Some c \<longrightarrow> \<not> sc_clean_map_confirmed c)"

text \<open>The operations that cannot lift a denial: no new session, and no clean build younger than it.\<close>

fun stale_op :: "u64 \<Rightarrow> evidence_op \<Rightarrow> bool" where
  "stale_op v (Reset g) = False"
| "stale_op v (Load content g eg er) = False"
| "stale_op v (Confirm clean denied t g version) = (version \<le> v)"
| "stale_op v _ = True"

lemma held_out_free: "held_out v key (fst sb) \<Longrightarrow> held_out v key (fst (observe_free observable k sb))"
  by (auto simp: held_out_def observe_free_def Let_def find_smap_erase split: option.splits)

lemma observed_cell_clean:
  "sc_clean_map_confirmed (observed_cell c t l ov g k geo stored) =
     (case stored of None \<Rightarrow> False | Some old \<Rightarrow> sc_clean_map_confirmed old)"
  by (cases stored) (simp_all add: observed_cell_def new_cell_ok)

lemma held_out_occupied:
  "held_out v key (fst sb) \<Longrightarrow> held_out v key (fst (observe_occupied observable freed t g ov item sb))"
  by (auto simp: held_out_def observe_occupied_def Let_def find_smap_put observed_cell_clean split: option.splits)

lemma held_out_deny: "held_out v key (fst sn) \<Longrightarrow> held_out v key (fst (deny_cell version k sn))"
  by (auto simp: held_out_def deny_cell_def Let_def find_smap_put find_smap_erase cpp_max_def)

lemma held_out_confirm:
  "version \<le> v \<Longrightarrow> held_out v key (fst sn) \<Longrightarrow> held_out v key (fst (confirm_cell denied t g version item sn))"
proof (cases "fst item = key")
  case True
  assume "version \<le> v" and held: "held_out v key (fst sn)"
  then obtain w where "map_of (ix_invalidated_versions (fst sn)) key = Some w" "version \<le> w"
    by (auto simp: held_out_def)
  then have "confirm_cell denied t g version item sn = sn" using True by (simp add: confirm_cell_def)
  then show ?thesis using held by simp
next
  case False
  assume "held_out v key (fst sn)"
  then show ?thesis using False by (simp add: held_out_def confirm_cell_def Let_def find_smap_put)
qed

lemma held_out_fold:
  assumes "\<And>x sb. held_out v key (fst sb) \<Longrightarrow> held_out v key (fst (f x sb))" and "held_out v key (fst sb)"
  shows "held_out v key (fst (fold f xs sb))"
  using assms(2)
proof (induction xs arbitrary: sb)
  case (Cons x xs)
  show ?case using Cons.IH [OF assms(1) [OF Cons.prems]] by simp
qed simp

lemma held_out_publish [simp]: "held_out v key (publishSnapshotLocked t s) = held_out v key s"
  by (simp add: held_out_def)

lemma held_out_irrelevant [simp]:
  "held_out v key (s\<lparr>ix_diagnostics_totals := d\<rparr>) = held_out v key s"
  "held_out v key (s\<lparr>ix_last_observation_stamp_sec := x\<rparr>) = held_out v key s"
  "held_out v key (s\<lparr>ix_latest_observation_sequence := n\<rparr>) = held_out v key s"
  "held_out v key (s\<lparr>ix_authority := a\<rparr>) = held_out v key s"
  by (simp_all add: held_out_def)

lemma held_out_step: "stale_op v e \<Longrightarrow> held_out v key s \<Longrightarrow> held_out v key (apply_op stof stod s e)"
proof (induction e)
  case (Confirm clean denied t g version)
  have "held_out v key (fst (fold (deny_cell version) denied (s, 0)))"
    by (rule held_out_fold) (erule held_out_deny, use Confirm in simp)
  then have "held_out v key (fst (fold (confirm_cell denied t g version) clean
      (fst (fold (deny_cell version) denied (s, 0)), 0)))"
    by (intro held_out_fold held_out_confirm) (use Confirm in simp_all)
  then show ?case using Confirm by (simp add: confirmCleanCells_def split_beta Let_def)
next
  case (Observe occupied observable freed t g ov)
  then have "held_out v key (fst (fold (observe_occupied observable freed t g ov) occupied
      (fold (observe_free observable) freed (s\<lparr>ix_last_observation_stamp_sec := x, ix_latest_observation_sequence := n,
         ix_diagnostics_totals := d\<rparr>, b))))" for x n d b
    by (intro held_out_fold held_out_occupied held_out_free) simp_all
  then show ?case using Observe by (simp add: observeCleanBuildCells_def split_beta Let_def)
next
  case (Invalidate denied w t g)
  then have "held_out v key (fst (fold (deny_cell w) denied (s, 0)))"
    by (intro held_out_fold held_out_deny) simp_all
  then show ?case using Invalidate by (simp add: invalidateCells_def split_beta Let_def)
qed (simp_all add: setSnapshotAuthority_def)

lemma deny_holds_out: "held_out v key (fst (deny_cell v key sn))"
  by (auto simp: held_out_def deny_cell_def Let_def find_smap_put find_smap_erase cpp_max_def)

lemma denied_held_out:
  "key \<in> set denied \<Longrightarrow> held_out v key (fst (fold (deny_cell v) denied sn))"
proof (induction denied arbitrary: sn)
  case (Cons k denied)
  show ?case
  proof (cases "k = key")
    case True
    then show ?thesis using held_out_fold [of v key "deny_cell v", OF held_out_deny deny_holds_out] by simp
  next
    case False
    then show ?thesis using Cons by simp
  qed
qed simp

lemma held_out_run:
  "\<forall>e \<in> set es. stale_op v e \<Longrightarrow> held_out v key s \<Longrightarrow> held_out v key (run_state (evidence_step stof stod) s es)"
proof (induction es arbitrary: s)
  case (Cons e es)
  then show ?case using held_out_step [of v e key s stof stod] by (simp add: evidence_step_def)
qed simp

lemma held_out_snapshot:
  assumes "index_inv s" and "held_out v key s"
  shows "key \<notin> fst ` set (sn_cells (ix_snapshot s))"
proof
  assume "key \<in> fst ` set (sn_cells (ix_snapshot s))"
  then obtain c where "(key, c) \<in> set (sn_cells (ix_snapshot s))" by auto
  then have "(key, c) \<in> set (ix_working_cells s)" "sc_clean_map_confirmed c"
    using assms(1) by (auto simp: index_inv_def snapshot_current_def)
  then show False
    using assms smap_find_iff [of "ix_working_cells s" key c] by (auto simp: index_inv_def cells_ok_def held_out_def)
qed

section \<open>Round trip\<close>

text \<open>A value that survives being printed by \<open>fmt\<close> and parsed by \<open>stox\<close>, and does not disturb the line format.\<close>

definition text_faithful :: "(dbl \<Rightarrow> string) \<Rightarrow> (string \<Rightarrow> dbl option) \<Rightarrow> dbl \<Rightarrow> bool" where
  "text_faithful fmt stox x \<longleftrightarrow> stox (fmt x) = Some x \<and> CHR '','' \<notin> set (fmt x) \<and> CHR 0x0A \<notin> set (fmt x)"

definition cell_faithful ::
  "(dbl \<Rightarrow> string) \<Rightarrow> (dbl \<Rightarrow> string) \<Rightarrow> (string \<Rightarrow> dbl option) \<Rightarrow> (string \<Rightarrow> dbl option) \<Rightarrow> StaticEvidenceCell \<Rightarrow> bool" where
  "cell_faithful fmt9 fmt17 stof stod c \<longleftrightarrow>
     text_faithful fmt17 stod (sc_first_seen_sec c) \<and> text_faithful fmt17 stod (sc_last_seen_sec c) \<and>
     text_faithful fmt17 stod (sc_consecutive_stable_duration_sec c) \<and>
     text_faithful fmt9 stof (sc_min_z c) \<and> text_faithful fmt9 stof (sc_max_z c)"

lemma stoull_print: "n < 2 ^ 64 \<Longrightarrow> stoull (print_nat n) = Some (of_nat n)"
  by (simp add: stoull_def parse_signed_print_nat)

lemma unat_ucast_u32: "unat (ucast (w :: u32) :: u64) = unat w"
proof -
  have "unat w < 2 ^ LENGTH(32)" by (rule unsigned_less)
  then show ?thesis by (simp add: unsigned_ucast_eq take_bit_nat_eq_self)
qed

lemma ucast_ucast_u32: "ucast (ucast (w :: u32) :: u64) = w"
  by (rule bit_word_eqI) (simp add: bit_simps)

lemma stoull_print_u32: "stoull (print_nat (unat (w :: u32))) = Some (ucast w)"
proof -
  have "unat w < 2 ^ LENGTH(32)" by (rule unsigned_less)
  then show ?thesis by (simp add: stoull_def parse_signed_print_nat unsigned_ucast_eq)
qed

lemma split_cell_fields:
  assumes "cell_faithful fmt9 fmt17 stof stod c"
  shows "splitCsv (join_with (CHR '','') (cell_fields fmt9 fmt17 c)) = cell_fields fmt9 fmt17 c"
  unfolding splitCsv_def
  by (rule getline_all_join)
    (use assms in \<open>auto simp: cell_fields_def cell_faithful_def text_faithful_def print_nat_plain print_int_plain\<close>)

text \<open>Parsing a printed cell gives the cell back, as a clean-confirmed one, provided it passes the checks.\<close>

lemma load_cell_fields:
  assumes "cell_faithful fmt9 fmt17 stof stod c" and "- (2 ^ 63) \<le> sc_key c" and "sc_key c < 2 ^ 63"
    and "sc_clean_map_confirmed c" and "sc_map_generation c = g"
  shows "load_cell stof stod cfg g (cell_fields fmt9 fmt17 c) =
    (if loaded_cell_valid cfg c then Inr c else Inl ''index_cell_nonfinite'')"
proof -
  have count: "\<not> 4294967295 < (ucast (sc_consecutive_observation_count c) :: u64)"
    using unsigned_less [of "sc_consecutive_observation_count c", where 'a = nat]
    by (simp add: word_less_nat_alt unat_ucast_u32)
  have mature: "stoull (print_nat 1) = Some 1" "stoull (print_nat (Suc 0)) = Some 1" "stoull (print_nat 0) = Some 0"
    by (simp_all add: stoull_print)
  have same: "\<lparr>sc_key = sc_key c, sc_consecutive_observation_count = sc_consecutive_observation_count c,
      sc_total_observation_count = sc_total_observation_count c, sc_first_seen_sec = sc_first_seen_sec c,
      sc_last_seen_sec = sc_last_seen_sec c,
      sc_consecutive_stable_duration_sec = sc_consecutive_stable_duration_sec c, sc_min_z = sc_min_z c,
      sc_max_z = sc_max_z c, sc_clean_map_confirmed = True, sc_temporally_mature = sc_temporally_mature c,
      sc_first_observation_sequence = sc_first_observation_sequence c,
      sc_last_observation_sequence = sc_last_observation_sequence c,
      sc_last_observed_objects_version = sc_last_observed_objects_version c,
      sc_last_clean_confirmed_version = sc_last_clean_confirmed_version c,
      sc_last_invalidated_version = sc_last_invalidated_version c, sc_map_generation = g\<rparr> = c"
    using assms(4,5) by (cases c) simp
  show ?thesis
    using assms(1) count same
    by (cases "sc_temporally_mature c") (simp_all add: load_cell_def cell_fields_def parsed_def stoll_print_int [OF assms(2,3)] stoull_print_nat
        stoull_print_u32 mature cell_faithful_def text_faithful_def ucast_ucast_u32 Let_def)
qed

lemma getline_all_lines: "\<forall>f \<in> set fs. d \<notin> set f \<Longrightarrow> getline_all d (concat (map (\<lambda>f. f @ [d]) fs)) = fs"
  by (induction fs) (auto simp: getline_all_field)

lemma set_join_with: "set (join_with d fs) \<subseteq> insert d (\<Union> (set ` set fs))"
  by (induction d fs rule: join_with.induct) auto

lemma cell_line_plain:
  assumes "cell_faithful fmt9 fmt17 stof stod c"
  shows "CHR 0x0A \<notin> set (join_with (CHR '','') (cell_fields fmt9 fmt17 c))"
    and "join_with (CHR '','') (cell_fields fmt9 fmt17 c) \<noteq> []"
proof -
  have "\<forall>f \<in> set (cell_fields fmt9 fmt17 c). CHR 0x0A \<notin> set f"
    using assms by (auto simp: cell_fields_def cell_faithful_def text_faithful_def print_nat_plain print_int_plain)
  then show "CHR 0x0A \<notin> set (join_with (CHR '','') (cell_fields fmt9 fmt17 c))"
    using set_join_with [of "CHR '',''" "cell_fields fmt9 fmt17 c"] by auto
  show "join_with (CHR '','') (cell_fields fmt9 fmt17 c) \<noteq> []" by (simp add: cell_fields_def)
qed

text \<open>A cell as the loader needs it.\<close>

definition stored_cell_ok :: "StaticObstacleEvidenceConfig \<Rightarrow> u64 \<Rightarrow> int \<Rightarrow> StaticEvidenceCell \<Rightarrow> bool" where
  "stored_cell_ok cfg g k c \<longleftrightarrow>
     sc_key c = k \<and> - (2 ^ 63) \<le> k \<and> k < 2 ^ 63 \<and> sc_clean_map_confirmed c \<and> sc_map_generation c = g"

abbreviation cell_text :: "(dbl \<Rightarrow> string) \<Rightarrow> (dbl \<Rightarrow> string) \<Rightarrow> int \<times> StaticEvidenceCell \<Rightarrow> string" where
  "cell_text fmt9 fmt17 e \<equiv> join_with (CHR '','') (cell_fields fmt9 fmt17 (snd e))"

lemma load_cell_line:
  assumes "cell_faithful fmt9 fmt17 stof stod c" and "stored_cell_ok cfg g k c"
  shows "load_cell stof stod cfg g (splitCsv (cell_text fmt9 fmt17 (k, c))) =
    (if loaded_cell_valid cfg c then Inr c else Inl ''index_cell_nonfinite'')"
  using load_cell_fields [OF assms(1), of g cfg] assms(2)
  by (simp add: split_cell_fields [OF assms(1)] stored_cell_ok_def)

lemma load_cells_prefix:
  assumes "smap_ok (loaded @ m)" and "\<forall>(k, c) \<in> set m. cell_faithful fmt9 fmt17 stof stod c \<and> stored_cell_ok cfg g k c \<and>
      loaded_cell_valid cfg c \<and> sc_last_observation_sequence c \<le> latest"
  shows "load_cells stof stod cfg g (map (cell_text fmt9 fmt17) m @ rest) loaded latest =
    load_cells stof stod cfg g rest (loaded @ m) latest"
  using assms
proof (induction m arbitrary: loaded)
  case (Cons e m)
  obtain k c where e: "e = (k, c)" by (cases e)
  have c: "cell_faithful fmt9 fmt17 stof stod c" "stored_cell_ok cfg g k c" "loaded_cell_valid cfg c"
    "cpp_max latest (sc_last_observation_sequence c) = latest"
    using Cons.prems(2) by (auto simp: e cpp_max_def)
  have key: "sc_key c = k" using c(2) by (simp add: stored_cell_ok_def)
  have before: "\<forall>l \<in> fst ` set loaded. l < k"
    using Cons.prems(1) by (auto simp: smap_ok_def e sorted_wrt_append)
  then have new: "map_of loaded k = None" by (auto simp: map_of_eq_None_iff)
  have "load_cells stof stod cfg g (map (cell_text fmt9 fmt17) (e # m) @ rest) loaded latest =
      load_cells stof stod cfg g (map (cell_text fmt9 fmt17) m @ rest) (loaded @ [(k, c)]) latest"
    using load_cell_line [OF c(1,2)] cell_line_plain(2) [OF c(1)] c(3,4) new key
    by (simp add: e smap_put_last [OF before])
  then show ?case using Cons by (simp add: e)
qed simp

definition snapshot_faithful ::
  "(dbl \<Rightarrow> string) \<Rightarrow> (dbl \<Rightarrow> string) \<Rightarrow> (string \<Rightarrow> dbl option) \<Rightarrow> (string \<Rightarrow> dbl option) \<Rightarrow> StaticEvidenceSnapshot \<Rightarrow> bool" where
  "snapshot_faithful fmt9 fmt17 stof stod sn \<longleftrightarrow>
     text_faithful fmt9 stof (sn_cell_size_m sn) \<and> text_faithful fmt17 stod (sn_source_stamp_sec sn) \<and>
     (\<forall>(k, c) \<in> set (sn_cells sn). cell_faithful fmt9 fmt17 stof stod c)"

definition header_ok :: "StaticObstacleEvidenceConfig \<Rightarrow> StaticEvidenceSnapshot \<Rightarrow> bool" where
  "header_ok cfg sn \<longleftrightarrow>
     sn_schema_version sn = kSchemaVersion \<and> sn_map_generation sn \<noteq> 0 \<and> sn_revision sn \<noteq> 0 \<and>
     \<not> Fin 0.00001 < \<bar>sn_cell_size_m sn - ec_cell_size_m cfg\<bar> \<and> isfinite (sn_source_stamp_sec sn) \<and>
     \<not> sn_source_stamp_sec sn < Fin 0"

text \<open>The loader on a saved file: the header is accepted and the cell lines are read one by one.\<close>

lemma load_saved:
  assumes "snapshot_faithful fmt9 fmt17 stof stod sn" and "header_ok cfg sn"
  shows "loadSnapshotCandidate stof stod cfg (Some (snapshot_text fmt9 fmt17 sn)) (sn_map_generation sn) (sn_revision sn) =
    ebind (load_cells stof stod cfg (sn_map_generation sn) (map (cell_text fmt9 fmt17) (sn_cells sn)) []
        (sn_latest_observation_sequence sn))
      (\<lambda>(loaded, latest). Inr (sn\<lparr>sn_latest_observation_sequence := latest, sn_cells := loaded\<rparr>))"
proof -
  let ?head = "join_with (CHR '','') (snapshot_header fmt9 fmt17 sn)"
  have hdr: "\<forall>f \<in> set (snapshot_header fmt9 fmt17 sn). CHR '','' \<notin> set f \<and> CHR 0x0A \<notin> set f"
    using assms(1) by (auto simp: snapshot_header_def snapshot_faithful_def text_faithful_def print_nat_plain)
  then have nl: "CHR 0x0A \<notin> set ?head" using set_join_with [of "CHR '',''" "snapshot_header fmt9 fmt17 sn"] by auto
  have cols: "splitCsv ?head = snapshot_header fmt9 fmt17 sn"
    unfolding splitCsv_def by (rule getline_all_join) (use hdr in \<open>auto simp: snapshot_header_def\<close>)
  have content: "snapshot_text fmt9 fmt17 sn = concat (map (\<lambda>f. f @ [CHR 0x0A]) (?head # map (cell_text fmt9 fmt17) (sn_cells sn)))"
    by (simp add: snapshot_text_def csv_line_def case_prod_unfold comp_def)
  have "\<forall>f \<in> set (?head # map (cell_text fmt9 fmt17) (sn_cells sn)). CHR 0x0A \<notin> set f"
    using assms(1) nl cell_line_plain(1) by (auto simp: snapshot_faithful_def)
  then have lines: "getline_all (CHR 0x0A) (snapshot_text fmt9 fmt17 sn) = ?head # map (cell_text fmt9 fmt17) (sn_cells sn)"
    unfolding content by (rule getline_all_lines)
  have authority: "load_authority (snapshot_header fmt9 fmt17 sn) = Inr (sn_authority sn)"
    by (cases "sn_authority sn") (simp_all add: load_authority_def snapshot_header_def parsed_def stoull_print authority_of_code_def)
  have parse: "parsed stoull (print_nat (unat (sn_schema_version sn))) = Inr (ucast (sn_schema_version sn))"
    "parsed stof (fmt9 (sn_cell_size_m sn)) = Inr (sn_cell_size_m sn)"
    "parsed stod (fmt17 (sn_source_stamp_sec sn)) = Inr (sn_source_stamp_sec sn)"
    "parsed stoull (print_nat (unat w)) = Inr (w :: u64)" for w
    using assms(1) by (simp_all add: parsed_def stoull_print_u32 stoull_print_nat snapshot_faithful_def text_faithful_def)
  have cols_nth: "length (snapshot_header fmt9 fmt17 sn) = 8"
    "snapshot_header fmt9 fmt17 sn ! 0 = ''NDT_STATIC_EVIDENCE_INDEX''"
    "snapshot_header fmt9 fmt17 sn ! 1 = print_nat (unat (sn_schema_version sn))"
    "snapshot_header fmt9 fmt17 sn ! 2 = fmt9 (sn_cell_size_m sn)"
    "snapshot_header fmt9 fmt17 sn ! 3 = print_nat (unat (sn_map_generation sn))"
    "snapshot_header fmt9 fmt17 sn ! 4 = print_nat (unat (sn_revision sn))"
    "snapshot_header fmt9 fmt17 sn ! 5 = print_nat (unat (sn_latest_observation_sequence sn))"
    "snapshot_header fmt9 fmt17 sn ! 6 = fmt17 (sn_source_stamp_sec sn)"
    by (simp_all add: snapshot_header_def)
  have same: "\<lparr>sn_schema_version = kSchemaVersion, sn_map_generation = sn_map_generation sn,
      sn_revision = sn_revision sn, sn_latest_observation_sequence = l, sn_source_stamp_sec = sn_source_stamp_sec sn,
      sn_cell_size_m = sn_cell_size_m sn, sn_authority = sn_authority sn, sn_cells = m\<rparr> =
      sn\<lparr>sn_latest_observation_sequence := l, sn_cells := m\<rparr>" for l m
    using assms(2) by (cases sn) (simp add: header_ok_def)
  show ?thesis
    using assms(2)
    unfolding loadSnapshotCandidate_def option.case lines list.case Let_def cols authority cols_nth parse ebind_simps
    by (simp add: ucast_ucast_u32 header_ok_def same)
qed

text \<open>An index whose first operation is the confirmation of one cell.\<close>

definition fresh_index ::
  "StaticObstacleEvidenceConfig \<Rightarrow> int \<Rightarrow> StaticEvidenceCellGeometry \<Rightarrow> dbl \<Rightarrow> u64 \<Rightarrow> u64 \<Rightarrow> StaticObstacleEvidenceIndex" where
  "fresh_index c key geo t g v =
     fst (confirmCleanCells [(key, geo)] [] t g v (evidence_reset g (evidence_setConfig c)))"

lemma reset_fields:
  "ix_working_generation (evidence_reset g s) = g" "ix_working_cells (evidence_reset g s) = []"
  "ix_invalidated_versions (evidence_reset g s) = []" "ix_observed_free_tombstones (evidence_reset g s) = {}"
  "ix_config (evidence_reset g s) = ix_config s" "ix_revision (evidence_reset g (evidence_setConfig c)) = 1"
  by (simp_all add: evidence_reset_def) (simp add: publishSnapshotLocked_def evidence_setConfig_def Let_def)

lemma fresh_index_unfold:
  assumes "v \<noteq> 0"
  shows "\<exists>cell s. fresh_index c key geo t g v = publishSnapshotLocked t s \<and>
    ix_working_cells s = [(key, cell)] \<and> ix_working_generation s = g \<and> ix_revision s = 1 \<and>
    ix_config s = ix_config (evidence_setConfig c) \<and>
    sc_key cell = key \<and> sc_consecutive_observation_count cell = 0 \<and> sc_clean_map_confirmed cell \<and> sc_map_generation cell = g"
proof -
  let ?r = "evidence_reset g (evidence_setConfig c)"
  let ?cell = "confirmed_cell ?r t g v None key geo None"
  have "fresh_index c key geo t g v = publishSnapshotLocked t (?r\<lparr>ix_working_cells := [(key, ?cell)]\<rparr>)"
    using assms by (simp add: fresh_index_def confirmCleanCells_def reset_fields confirm_cell_def Let_def)
  moreover have "sc_key ?cell = key" "sc_consecutive_observation_count ?cell = 0" "sc_clean_map_confirmed ?cell"
    "sc_map_generation ?cell = g"
    by (simp_all add: confirmed_cell_def default_StaticEvidenceCell_def Let_def)
  ultimately show ?thesis
    by (intro exI [of _ ?cell] exI [of _ "?r\<lparr>ix_working_cells := [(key, ?cell)]\<rparr>"]) (simp add: reset_fields)
qed

lemma fresh_index_cells:
  assumes "v \<noteq> 0" and "- (2 ^ 63) \<le> key" and "key < 2 ^ 63"
  shows "\<exists>cell. sn_cells (ix_snapshot (fresh_index c key geo t g v)) = [(key, cell)] \<and>
    sc_consecutive_observation_count cell = 0 \<and> stored_cell_ok (ix_config (fresh_index c key geo t g v)) g key cell"
  using fresh_index_unfold [OF assms(1), of c key geo t g] assms(2,3)
  by (auto simp: publishSnapshotLocked_def stored_cell_ok_def Let_def)

lemma fresh_index_generation: "v \<noteq> 0 \<Longrightarrow> sn_map_generation (ix_snapshot (fresh_index c key geo t g v)) = g"
  using fresh_index_unfold [of v c key geo t g] by (auto simp: publishSnapshotLocked_def Let_def)

lemma config_cell_size: "isfinite (ec_cell_size_m (ix_config (evidence_setConfig c)))"
  by (simp add: evidence_setConfig_def validEvidenceConfig_def default_StaticObstacleEvidenceConfig_def Let_def)

lemma fresh_index_header:
  assumes "g \<noteq> 0" and "v \<noteq> 0" and "isfinite t" and "\<not> t < Fin 0"
  shows "header_ok (ix_config (fresh_index c key geo t g v)) (ix_snapshot (fresh_index c key geo t g v))"
  using fresh_index_unfold [OF assms(2), of c key geo t g] assms config_cell_size [of c]
  by (auto simp: publishSnapshotLocked_def header_ok_def isfinite_iff Let_def)

text \<open>Printers and parsers for the five numbers of the concrete runs.\<close>

definition demo_fmt :: "dbl \<Rightarrow> string" where
  "demo_fmt x =
     (if x = Fin 0.25 then ''q'' else if x = Fin 1 then ''1'' else if x = Fin 2 then ''2'' else if x = Fin 3 then ''3''
      else ''0'')"

definition demo_parse :: "string \<Rightarrow> dbl option" where
  "demo_parse t =
     (if t = ''q'' then Some (Fin 0.25) else if t = ''1'' then Some (Fin 1) else if t = ''2'' then Some (Fin 2)
      else if t = ''3'' then Some (Fin 3) else if t = ''0'' then Some (Fin 0) else None)"

lemma demo_faithful:
  "text_faithful demo_fmt demo_parse (Fin 0.25)" "text_faithful demo_fmt demo_parse (Fin 0)"
  "text_faithful demo_fmt demo_parse (Fin 1)" "text_faithful demo_fmt demo_parse (Fin 2)"
  "text_faithful demo_fmt demo_parse (Fin 3)"
  by (simp_all add: text_faithful_def demo_fmt_def demo_parse_def)

lemma demo_config_kept: "ix_config (evidence_setConfig demo_evidence_config) = demo_evidence_config"
  by (simp add: evidence_setConfig_def validEvidenceConfig_def demo_evidence_config_def
      default_StaticObstacleEvidenceConfig_def Let_def)

abbreviation demo_fresh :: StaticObstacleEvidenceIndex where
  "demo_fresh \<equiv> fresh_index demo_evidence_config 0 demo_geometry (Fin 1) 5 1"

lemma demo_fresh_faithful: "snapshot_faithful demo_fmt demo_fmt demo_parse demo_parse (ix_snapshot demo_fresh)"
proof -
  have size: "ec_cell_size_m (ix_config (evidence_setConfig demo_evidence_config)) = Fin 0.25"
    unfolding demo_config_kept by (simp add: demo_evidence_config_def default_StaticObstacleEvidenceConfig_def)
  let ?r = "evidence_reset 5 (evidence_setConfig demo_evidence_config)"
  let ?cell = "confirmed_cell ?r (Fin 1) 5 1 None 0 demo_geometry None"
  have "demo_fresh = publishSnapshotLocked (Fin 1) (?r\<lparr>ix_working_cells := [(0, ?cell)]\<rparr>)"
    by (simp add: fresh_index_def confirmCleanCells_def reset_fields confirm_cell_def Let_def)
  moreover have "sc_first_seen_sec ?cell = Fin 1" "sc_last_seen_sec ?cell = Fin 1" "sc_min_z ?cell = Fin 0"
    "sc_max_z ?cell = Fin 2" "sc_consecutive_stable_duration_sec ?cell = Fin 0"
    by (simp_all add: confirmed_cell_def default_StaticEvidenceCell_def mature_if_due_def demo_geometry_def Let_def)
  ultimately show ?thesis
    using demo_faithful size
    by (simp add: snapshot_faithful_def cell_faithful_def publishSnapshotLocked_def reset_fields Let_def)
qed

section \<open>Properties\<close>

text \<open>C36. Whatever sequence of resets, clean builds, denials, confirmations, authority changes and file loads (of any
  content) runs on an index, every snapshot a reader can see after an operation is sound: its keys are in order and
  match the cells, every cell is clean-confirmed and of the snapshot's generation, and every mature cell has the required
  number of observations over the required time.\<close>

theorem published_snapshots_sound:
  assumes "sn \<in> set (run_outputs (evidence_step stof stod) (evidence_setConfig c) es)"
  shows "snapshot_sound (ix_config (evidence_setConfig c)) sn"
  using store.run_contract [OF store_init assms] .

theorem published_snapshots_sound_witness:
  "sn_cells (ix_snapshot demo_fresh) \<noteq> [] \<and>
   snapshot_sound (ix_config (evidence_setConfig demo_evidence_config)) (ix_snapshot demo_fresh)"
proof -
  have "ix_snapshot demo_fresh \<in> set (run_outputs (evidence_step demo_parse demo_parse)
      (evidence_setConfig demo_evidence_config) [Reset 5, Confirm [(0, demo_geometry)] [] (Fin 1) 5 1])"
    by (simp add: evidence_step_def fresh_index_def)
  then show ?thesis
    using published_snapshots_sound fresh_index_cells [of 1 0 demo_evidence_config demo_geometry "Fin 1" 5] by fastforce
qed

text \<open>A denial beats every older clean build: after a cell was denied at a build version, no later sequence of
  observations, denials, authority changes and confirmations by builds of that version or an older one brings the cell
  back into the snapshot the safety queries read.\<close>

theorem denied_cell_stays_out:
  assumes "store_inv cfg s" and "v \<noteq> 0" and "ix_working_generation s = g" and "key \<in> set denied"
    and "\<forall>e \<in> set es. stale_op v e"
  shows "key \<notin> fst ` set (sn_cells (ix_snapshot
    (run_state (evidence_step stof stod) (fst (invalidateCells denied v t g s)) es)))"
proof -
  let ?s = "fst (invalidateCells denied v t g s)"
  have "denied \<noteq> []" using assms(4) by auto
  then have "held_out v key ?s"
    using denied_held_out [OF assms(4), of v "(s, 0)"] assms(2,3) by (simp add: invalidateCells_def split_beta Let_def)
  then have held: "held_out v key (run_state (evidence_step stof stod) ?s es)" using held_out_run assms(5) by blast
  have "store_inv cfg ?s"
    using store.step_inv [of cfg s stof stod "Invalidate denied v t g"] assms(1) by (simp add: evidence_step_def)
  then have "store_inv cfg (run_state (evidence_step stof stod) ?s es)" by (rule store.run_inv)
  then show ?thesis using held_out_snapshot held by (auto simp: store_inv_def)
qed

theorem denied_cell_stays_out_witness:
  "0 \<in> fst ` set (sn_cells (ix_snapshot demo_index)) \<and>
   0 \<notin> fst ` set (sn_cells (ix_snapshot (run_state (evidence_step demo_parse demo_parse)
     (fst (invalidateCells [0] 2 (Fin 4) 5 demo_index))
     [Observe [(0, demo_geometry)] [0] [] (Fin 5) 5 1, Confirm [(0, demo_geometry)] [] (Fin 5) 5 2])))"
proof -
  have "store_inv demo_evidence_config demo_index"
    using demo_index_inv by (simp add: store_inv_def demo_snapshot validEvidenceConfig_def demo_evidence_config_def
        default_StaticObstacleEvidenceConfig_def)
  moreover have "ix_working_generation demo_index = 5" by (simp add: demo_index_def)
  ultimately show ?thesis
    using denied_cell_stays_out [of demo_evidence_config demo_index 2 5 0 "[0]"
        "[Observe [(0, demo_geometry)] [0] [] (Fin 5) 5 1, Confirm [(0, demo_geometry)] [] (Fin 5) 5 2]" demo_parse demo_parse "Fin 4"]
    by (simp add: demo_snapshot)
qed

text \<open>C31. Saving and loading is a round trip: if the printed floating-point values of a snapshot parse back to themselves and
  the snapshot is one the loader can accept, then after a successful save the file at the path loads, and the loaded snapshot
  is the saved one, field by field.\<close>

theorem snapshot_roundtrip:
  assumes "saveSnapshot fmt9 fmt17 (Some sn) path opens stream_ok renames fs = (fs', Inr reason)"
    and "snapshot_faithful fmt9 fmt17 stof stod sn" and "header_ok cfg sn" and "smap_ok (sn_cells sn)"
    and "\<forall>(k, c) \<in> set (sn_cells sn). stored_cell_ok cfg (sn_map_generation sn) k c \<and> loaded_cell_valid cfg c \<and>
      sc_last_observation_sequence c \<le> sn_latest_observation_sequence sn"
  shows "loadSnapshotCandidate stof stod cfg (fs' path) (sn_map_generation sn) (sn_revision sn) = Inr sn"
proof -
  have "fs' path = Some (snapshot_text fmt9 fmt17 sn)"
    using assms(1) by (auto simp: saveSnapshot_def Let_def split: if_splits)
  moreover have "load_cells stof stod cfg (sn_map_generation sn) (map (cell_text fmt9 fmt17) (sn_cells sn) @ []) []
      (sn_latest_observation_sequence sn) = Inr (sn_cells sn, sn_latest_observation_sequence sn)"
    by (subst load_cells_prefix) (use assms(2,4,5) in \<open>auto simp: snapshot_faithful_def\<close>)
  ultimately show ?thesis using load_saved [OF assms(2,3)] by simp
qed

theorem snapshot_roundtrip_witness:
  "loadSnapshotCandidate demo_parse demo_parse demo_evidence_config
     (fst (saveSnapshot demo_fmt demo_fmt (Some (ix_snapshot demo_index)) ''p'' True True True (\<lambda>_. None)) ''p'')
     (sn_map_generation (ix_snapshot demo_index)) (sn_revision (ix_snapshot demo_index)) = Inr (ix_snapshot demo_index)"
proof -
  let ?sn = "ix_snapshot demo_index"
  have faithful: "snapshot_faithful demo_fmt demo_fmt demo_parse demo_parse ?sn"
    using demo_faithful by (simp add: snapshot_faithful_def demo_index_def publishSnapshotLocked_def cell_faithful_def
        demo_cell_def demo_evidence_config_def default_StaticObstacleEvidenceConfig_def Let_def)
  have header: "header_ok demo_evidence_config ?sn"
    by (simp add: header_ok_def demo_index_def publishSnapshotLocked_def demo_evidence_config_def
        default_StaticObstacleEvidenceConfig_def Let_def)
  have cell: "stored_cell_ok demo_evidence_config (sn_map_generation ?sn) 0 demo_cell"
    "loaded_cell_valid demo_evidence_config demo_cell"
    "sc_last_observation_sequence demo_cell \<le> sn_latest_observation_sequence ?sn"
    by (simp_all add: stored_cell_ok_def loaded_cell_valid_def demo_snapshot demo_cell_def demo_evidence_config_def
        default_StaticObstacleEvidenceConfig_def evidence_stamp_epsilon_def demo_index_def publishSnapshotLocked_def Let_def)
  show ?thesis
    by (rule snapshot_roundtrip [of demo_fmt demo_fmt ?sn "''p''" True True True "\<lambda>_. None"
          "fst (saveSnapshot demo_fmt demo_fmt (Some ?sn) ''p'' True True True (\<lambda>_. None))" "''saved''"])
      (use faithful header cell in \<open>simp_all add: saveSnapshot_def demo_snapshot\<close>)
qed



end
