(* ===== verification/Map_Session.thy ===== *)
theory Map_Session
  imports Session_Digest Static_Store Rail_Authority
begin

text \<open>
  Verification of a saved map session (\<^verbatim>\<open>MapSessionSnapshot::loadVerified\<close>) and the choice of the points of a session that may
  enter the static height field (\<^verbatim>\<open>selectStaticHeightPointsForAuthority\<close>). The manifest is read by \<^verbatim>\<open>yaml-cpp\<close>; the record
  \<open>SessionManifest\<close> holds the values \<^verbatim>\<open>as<T>(default)\<close> returns, the default where a key is absent. The descriptive fields
  (commit, branch, counters) are copied without a check and left out. The files of the session directory are a map from
  relative paths to bytes. Reading a point cloud is the argument \<open>pcd\<close>, with its number of points. \<open>fmt\<close> is the decimal output
  of the yaw in the reference hash.
\<close>

section \<open>Paths\<close>

text \<open>The components \<^verbatim>\<open>std::filesystem::path\<close> iterates over; the empty ones do not matter to the test.\<close>

definition path_parts :: "string \<Rightarrow> string list" where
  "path_parts name = getline_all (CHR ''/'') name"

definition safeRelativePath :: "string \<Rightarrow> bool" where
  "safeRelativePath name \<longleftrightarrow> name \<noteq> [] \<and> hd name \<noteq> CHR ''/'' \<and> \<not> list_ex (\<lambda>part. part = ''..'') (path_parts name)"

section \<open>The manifest\<close>

record ManifestFile =
  mf_path :: string
  mf_sha256 :: string
  mf_points :: u64

record ExtraFile =
  xf_path :: string
  xf_sha256 :: string
  xf_bytes :: u64

record SessionManifest =
  mn_schema :: string
  mn_schema_version :: u32
  mn_complete :: bool
  mn_map_uuid :: string
  mn_frame_id :: string
  mn_map_frame_uuid :: string
  mn_base_frame_id :: string
  mn_map_frame_convention_id :: string
  mn_sensor_rig_calibration_id :: string
  mn_yaw_reference :: RailYawReference
  mn_yaw_source :: string
  mn_static_revision :: u64
  mn_static_map_generation :: u64
  mn_static_authority :: string
  mn_registration :: ManifestFile
  mn_display :: ManifestFile
  mn_ground :: ManifestFile
  mn_objects_raw :: ManifestFile
  mn_objects_clean :: ManifestFile
  mn_static_evidence :: ManifestFile
  mn_display_full :: ManifestFile
  mn_extra_files :: "ExtraFile list option"

record 'c LoadedSession =
  ls_map_frame_uuid :: string
  ls_yaw_reference :: RailYawReference
  ls_rail_write_authorized :: bool
  ls_static_authority :: StaticEvidenceAuthority
  ls_static_revision :: u64
  ls_static_source_generation :: u64
  ls_registration :: 'c
  ls_display :: 'c
  ls_ground :: 'c
  ls_objects_raw :: 'c
  ls_objects_clean :: 'c
  ls_static_evidence_path :: string

type_synonym session_files = "string \<Rightarrow> byte list option"

text \<open>The digest the code compares; a file that cannot be read has the empty digest.\<close>

definition file_digest :: "session_files \<Rightarrow> string \<Rightarrow> string" where
  "file_digest fs rel =
     (case sha256File (map_option (\<lambda>bytes. [bytes]) (fs rel)) True of Inl _ \<Rightarrow> [] | Inr d \<Rightarrow> d)"

section \<open>Verification\<close>

definition yaw_reference_ok :: "(dbl \<Rightarrow> string) \<Rightarrow> SessionManifest \<Rightarrow> string \<Rightarrow> RailYawReference \<Rightarrow> bool" where
  "yaw_reference_ok fmt m map_frame_uuid r \<longleftrightarrow>
     yr_map_frame_uuid r = map_frame_uuid \<and> yr_map_frame_id r = mn_frame_id m \<and>
     yr_base_frame_id r = mn_base_frame_id m \<and> yr_map_frame_convention_id r = mn_map_frame_convention_id m \<and>
     yr_sensor_rig_calibration_id r = mn_sensor_rig_calibration_id m \<and> fst (validateRailYawReference fmt r)"

text \<open>The text appended to the rejection: the reason of the validation, empty when an identity test failed before it.\<close>

definition yaw_reference_reason :: "(dbl \<Rightarrow> string) \<Rightarrow> SessionManifest \<Rightarrow> string \<Rightarrow> RailYawReference \<Rightarrow> string" where
  "yaw_reference_reason fmt m map_frame_uuid r =
     (if yr_map_frame_uuid r \<noteq> map_frame_uuid \<or> yr_map_frame_id r \<noteq> mn_frame_id m \<or>
         yr_base_frame_id r \<noteq> mn_base_frame_id m \<or> yr_map_frame_convention_id r \<noteq> mn_map_frame_convention_id m \<or>
         yr_sensor_rig_calibration_id r \<noteq> mn_sensor_rig_calibration_id m
      then [] else snd (validateRailYawReference fmt r))"

text \<open>The yaw reference and whether it authorises writing; a legacy manifest has none.\<close>

definition load_yaw_reference ::
  "(dbl \<Rightarrow> string) \<Rightarrow> SessionManifest \<Rightarrow> string \<Rightarrow> string + RailYawReference \<times> bool" where
  "load_yaw_reference fmt m map_frame_uuid =
     (if mn_schema_version m < 2 then Inr (default_RailYawReference, False)
      else case yawReferenceSourceFromName (mn_yaw_source m) of
        None \<Rightarrow> Inl ''yaw_reference_source_invalid''
      | Some source \<Rightarrow>
          let r = (mn_yaw_reference m)\<lparr>yr_source := source\<rparr> in
          if \<not> yr_verified r then Inr (r, False)
          else if yaw_reference_ok fmt m map_frame_uuid r then Inr (r, True)
          else Inl (''yaw_reference_identity_invalid:'' @ yaw_reference_reason fmt m map_frame_uuid r))"

definition authority_of_name :: "string \<Rightarrow> string + StaticEvidenceAuthority" where
  "authority_of_name name =
     (if name = ''RUNTIME_MATURE'' then Inr RUNTIME_MATURE
      else if name = ''OPERATOR_APPROVED_BASELINE'' then Inr OPERATOR_APPROVED_BASELINE
      else if name = ''UNVERIFIED_LOADED_CLEAN'' then Inr UNVERIFIED_LOADED_CLEAN
      else Inl ''static_authority_invalid'')"

definition extra_file_ok :: "session_files \<Rightarrow> ExtraFile \<Rightarrow> bool" where
  "extra_file_ok fs x \<longleftrightarrow>
     safeRelativePath (xf_path x) \<and> length (xf_sha256 x) = 64 \<and> file_digest fs (xf_path x) = xf_sha256 x \<and>
     (case fs (xf_path x) of Some bytes \<Rightarrow> of_nat (length bytes) = xf_bytes x | None \<Rightarrow> False)"

fun check_extra_files :: "session_files \<Rightarrow> ExtraFile list \<Rightarrow> string + unit" where
  "check_extra_files fs [] = Inr ()"
| "check_extra_files fs (x # xs) =
     (if extra_file_ok fs x then check_extra_files fs xs else Inl (''extra_file_contract_invalid:'' @ xf_path x))"

definition load_layer ::
  "(byte list \<Rightarrow> 'c option) \<Rightarrow> ('c \<Rightarrow> u64) \<Rightarrow> session_files \<Rightarrow> string \<Rightarrow> ManifestFile \<Rightarrow> string + 'c" where
  "load_layer pcd points fs key file =
     (if \<not> safeRelativePath (mf_path file) \<or> length (mf_sha256 file) \<noteq> 64 then Inl (''file_contract_invalid:'' @ key)
      else if file_digest fs (mf_path file) \<noteq> mf_sha256 file then Inl (''hash_mismatch:'' @ key)
      else case Option.bind (fs (mf_path file)) pcd of
        None \<Rightarrow> Inl (''pcd_invalid:'' @ key)
      | Some cloud \<Rightarrow> if points cloud \<noteq> mf_points file then Inl (''pcd_invalid:'' @ key) else Inr cloud)"

definition loadVerified ::
  "(dbl \<Rightarrow> string) \<Rightarrow> (byte list \<Rightarrow> 'c option) \<Rightarrow> ('c \<Rightarrow> u64) \<Rightarrow> session_files \<Rightarrow> SessionManifest option \<Rightarrow>
   string + 'c LoadedSession" where
  "loadVerified fmt pcd points fs manifest =
     (case manifest of None \<Rightarrow> Inl ''manifest_missing'' | Some m \<Rightarrow>
      if mn_schema m \<noteq> ''ndt_slam_map_session'' \<or> (mn_schema_version m \<noteq> 2 \<and> mn_schema_version m \<noteq> 1) \<or> \<not> mn_complete m
      then Inl ''manifest_schema_or_completeness_invalid''
      else if mn_map_uuid m = [] \<or> mn_frame_id m = [] then Inl ''manifest_identity_invalid''
      else
        let map_frame_uuid = (if 2 \<le> mn_schema_version m then mn_map_frame_uuid m else mn_map_uuid m) in
        if map_frame_uuid = [] then Inl ''map_frame_identity_missing'' else
        ebind (load_yaw_reference fmt m map_frame_uuid) (\<lambda>(reference, rail_write).
        ebind (authority_of_name (mn_static_authority m)) (\<lambda>authority.
        case mn_extra_files m of None \<Rightarrow> Inl ''extra_file_manifest_missing'' | Some extras \<Rightarrow>
        ebind (check_extra_files fs extras) (\<lambda>_.
        ebind (load_layer pcd points fs ''registration'' (mn_registration m)) (\<lambda>registration.
        ebind (load_layer pcd points fs ''display'' (mn_display m)) (\<lambda>display.
        ebind (load_layer pcd points fs ''ground'' (mn_ground m)) (\<lambda>ground.
        ebind (load_layer pcd points fs ''objects_raw'' (mn_objects_raw m)) (\<lambda>objects_raw.
        ebind (load_layer pcd points fs ''objects_clean'' (mn_objects_clean m)) (\<lambda>objects_clean.
        if \<not> safeRelativePath (mf_path (mn_static_evidence m)) \<or>
           file_digest fs (mf_path (mn_static_evidence m)) \<noteq> mf_sha256 (mn_static_evidence m)
        then Inl ''hash_mismatch:static_evidence''
        else if \<not> safeRelativePath (mf_path (mn_display_full m)) \<or>
           file_digest fs (mf_path (mn_display_full m)) \<noteq> mf_sha256 (mn_display_full m) \<or>
           mf_sha256 (mn_display_full m) \<noteq> mf_sha256 (mn_display m)
        then Inl ''display_full_contract_invalid''
        else Inr \<lparr>ls_map_frame_uuid = map_frame_uuid, ls_yaw_reference = reference,
                  ls_rail_write_authorized = rail_write, ls_static_authority = authority,
                  ls_static_revision = mn_static_revision m,
                  ls_static_source_generation = mn_static_map_generation m, ls_registration = registration,
                  ls_display = display, ls_ground = ground, ls_objects_raw = objects_raw,
                  ls_objects_clean = objects_clean,
                  ls_static_evidence_path = mf_path (mn_static_evidence m)\<rparr>)))))))))"

section \<open>Points for the static height field\<close>

text \<open>The cast to a 32-bit index; a quotient out of its range, for which the C++ cast is undefined, wraps around here.\<close>

fun floor_cell :: "dbl \<Rightarrow> 32 word" where
  "floor_cell (Fin a) = word_of_int \<lfloor>a\<rfloor>"
| "floor_cell _ = 0"

definition point_authorized :: "StaticEvidenceSnapshot \<Rightarrow> vec3 \<Rightarrow> bool" where
  "point_authorized sn p \<longleftrightarrow>
     (if sn_authority sn = UNVERIFIED_LOADED_CLEAN then True
      else case map_of (sn_cells sn) (packStaticEvidenceCell (floor_cell (v3x p / sn_cell_size_m sn))
                                        (floor_cell (v3y p / sn_cell_size_m sn))) of
        None \<Rightarrow> False
      | Some c \<Rightarrow> sc_clean_map_confirmed c \<and> sc_map_generation c = sn_map_generation sn \<and>
          (sn_authority sn = OPERATOR_APPROVED_BASELINE \<or>
           (sn_authority sn = RUNTIME_MATURE \<and> sc_temporally_mature c)))"

definition selectStaticHeightPointsForAuthority :: "vec3 list \<Rightarrow> StaticEvidenceSnapshot \<Rightarrow> vec3 list" where
  "selectStaticHeightPointsForAuthority points sn =
     (if \<not> isfinite (sn_cell_size_m sn) \<or> sn_cell_size_m sn \<le> Fin 0 then []
      else filter (\<lambda>p. isfinite (v3x p) \<and> isfinite (v3y p) \<and> isfinite (v3z p) \<and> point_authorized sn p) points)"

section \<open>Specification\<close>

text \<open>How the operating system resolves a relative path below a directory, symbolic links apart.\<close>

fun resolve_parts :: "string list \<Rightarrow> string list \<Rightarrow> string list" where
  "resolve_parts dir [] = dir"
| "resolve_parts dir (p # ps) =
     (if p = [] \<or> p = ''.'' then resolve_parts dir ps
      else if p = ''..'' then resolve_parts (butlast dir) ps
      else resolve_parts (dir @ [p]) ps)"

definition stays_inside :: "string \<Rightarrow> bool" where
  "stays_inside name \<longleftrightarrow> (\<forall>dir. prefix dir (resolve_parts dir (path_parts name)))"

text \<open>A layer whose file is present, unchanged and complete.\<close>

definition layer_intact ::
  "(byte list \<Rightarrow> 'c option) \<Rightarrow> ('c \<Rightarrow> u64) \<Rightarrow> session_files \<Rightarrow> ManifestFile \<Rightarrow> 'c \<Rightarrow> bool" where
  "layer_intact pcd points fs file cloud \<longleftrightarrow>
     stays_inside (mf_path file) \<and>
     (\<exists>bytes. fs (mf_path file) = Some bytes \<and> sha256_reference bytes = mf_sha256 file \<and> pcd bytes = Some cloud \<and>
        points cloud = mf_points file)"

section \<open>Lemmas\<close>

lemma resolve_inside: "''..'' \<notin> set ps \<Longrightarrow> prefix dir (resolve_parts dir ps)"
proof (induction ps arbitrary: dir)
  case (Cons p ps)
  then show ?case using prefix_order.trans [of dir "dir @ [p]"] by auto
qed simp

lemma safe_path_inside: "safeRelativePath name \<Longrightarrow> stays_inside name"
  using resolve_inside by (auto simp: safeRelativePath_def stays_inside_def list_ex_iff)

lemma file_digest_reference:
  "file_digest fs rel = (case fs rel of None \<Rightarrow> [] | Some bytes \<Rightarrow> sha256_reference bytes)"
  using sha256File_pieces [of "[the (fs rel)]"]
  by (cases "fs rel") (simp_all add: file_digest_def sha256File_def)

lemma digest_length: "length (sha256_reference bytes) = 64"
proof -
  have "length (foldl sha_transform initial_state bs) = 8" for bs
  proof -
    have "length (foldl sha_transform st bs) = 8" if "length st = 8" for st :: "u32 list"
      using that by (induction bs arbitrary: st) (auto simp: sha_transform_def Let_def length_rounds)
    then show ?thesis by (simp add: initial_state_def)
  qed
  then show ?thesis by (simp add: sha256_reference_def digest_text_def length_concat comp_def sum_list_triv)
qed

lemma load_layer_intact:
  assumes "load_layer pcd points fs key file = Inr cloud"
  shows "layer_intact pcd points fs file cloud"
proof -
  have "safeRelativePath (mf_path file)" "length (mf_sha256 file) = 64" "file_digest fs (mf_path file) = mf_sha256 file"
    "Option.bind (fs (mf_path file)) pcd = Some cloud" "points cloud = mf_points file"
    using assms by (auto simp: load_layer_def split: if_splits option.splits)
  then show ?thesis
    by (cases "fs (mf_path file)") (auto simp: layer_intact_def safe_path_inside file_digest_reference)
qed

lemma check_extra_files_ok: "check_extra_files fs xs = Inr u \<Longrightarrow> x \<in> set xs \<Longrightarrow> extra_file_ok fs x"
  by (induction xs) (auto split: if_splits)

lemma extra_file_intact:
  assumes "extra_file_ok fs x"
  shows "stays_inside (xf_path x) \<and> (\<exists>bytes. fs (xf_path x) = Some bytes \<and> sha256_reference bytes = xf_sha256 x \<and>
    of_nat (length bytes) = xf_bytes x)"
  using assms by (auto simp: extra_file_ok_def safe_path_inside file_digest_reference split: option.splits)

lemma loaded_yaw_reference:
  assumes "load_yaw_reference fmt m uuid = Inr (r, True)"
  shows "fst (validateRailYawReference fmt r) \<and> yr_map_frame_uuid r = uuid \<and> yr_map_frame_id r = mn_frame_id m"
  using assms by (auto simp: load_yaw_reference_def yaw_reference_ok_def Let_def split: if_splits option.splits)

lemma loadVerified_parts:
  assumes "loadVerified fmt pcd points fs (Some m) = Inr l"
  obtains extras where
    "mn_complete m" "mn_extra_files m = Some extras" "check_extra_files fs extras = Inr ()"
    "load_yaw_reference fmt m (ls_map_frame_uuid l) = Inr (ls_yaw_reference l, ls_rail_write_authorized l)"
    "authority_of_name (mn_static_authority m) = Inr (ls_static_authority l)"
    "load_layer pcd points fs ''registration'' (mn_registration m) = Inr (ls_registration l)"
    "load_layer pcd points fs ''display'' (mn_display m) = Inr (ls_display l)"
    "load_layer pcd points fs ''ground'' (mn_ground m) = Inr (ls_ground l)"
    "load_layer pcd points fs ''objects_raw'' (mn_objects_raw m) = Inr (ls_objects_raw l)"
    "load_layer pcd points fs ''objects_clean'' (mn_objects_clean m) = Inr (ls_objects_clean l)"
    "safeRelativePath (mf_path (mn_static_evidence m))"
    "file_digest fs (mf_path (mn_static_evidence m)) = mf_sha256 (mn_static_evidence m)"
    "ls_static_evidence_path l = mf_path (mn_static_evidence m)"
    "safeRelativePath (mf_path (mn_display_full m))"
    "file_digest fs (mf_path (mn_display_full m)) = mf_sha256 (mn_display_full m)"
    "mf_sha256 (mn_display_full m) = mf_sha256 (mn_display m)"
  using assms
  by (auto simp: loadVerified_def Let_def ebind_Inr split: if_splits option.splits prod.splits)


section \<open>Properties\<close>

text \<open>C32. A session that is loaded is the one that was saved, as far as its layers go: each of the five point clouds was
  read from a file inside the session directory whose SHA-256 is the digest of the manifest and that has the number of
  points the manifest states; every extra file is present with its digest and its length; the static evidence file, when
  it is present, and the full display file carry their digests; and permission to write rail data comes only
  with a verified yaw reference whose own hash, map frame and map identity are those of the manifest.\<close>

theorem loaded_session_intact:
  assumes "loadVerified fmt pcd points fs (Some m) = Inr l"
  shows "mn_complete m \<and>
    layer_intact pcd points fs (mn_registration m) (ls_registration l) \<and>
    layer_intact pcd points fs (mn_display m) (ls_display l) \<and>
    layer_intact pcd points fs (mn_ground m) (ls_ground l) \<and>
    layer_intact pcd points fs (mn_objects_raw m) (ls_objects_raw l) \<and>
    layer_intact pcd points fs (mn_objects_clean m) (ls_objects_clean l) \<and>
    (\<exists>extras. mn_extra_files m = Some extras \<and>
       (\<forall>x\<in>set extras. stays_inside (xf_path x) \<and>
          (\<exists>bytes. fs (xf_path x) = Some bytes \<and> sha256_reference bytes = xf_sha256 x \<and>
             of_nat (length bytes) = xf_bytes x))) \<and>
    stays_inside (ls_static_evidence_path l) \<and>
    (\<forall>bytes. fs (ls_static_evidence_path l) = Some bytes \<longrightarrow>
       sha256_reference bytes = mf_sha256 (mn_static_evidence m)) \<and>
    stays_inside (mf_path (mn_display_full m)) \<and>
    (\<exists>bytes. fs (mf_path (mn_display_full m)) = Some bytes \<and> sha256_reference bytes = mf_sha256 (mn_display m)) \<and>
    (ls_rail_write_authorized l \<longrightarrow>
       fst (validateRailYawReference fmt (ls_yaw_reference l)) \<and>
       yr_map_frame_uuid (ls_yaw_reference l) = ls_map_frame_uuid l \<and>
       yr_map_frame_id (ls_yaw_reference l) = mn_frame_id m)"
  using assms
proof (rule loadVerified_parts)
  fix extras
  assume complete: "mn_complete m" and extras: "mn_extra_files m = Some extras" "check_extra_files fs extras = Inr ()"
    and yaw: "load_yaw_reference fmt m (ls_map_frame_uuid l) = Inr (ls_yaw_reference l, ls_rail_write_authorized l)"
    and layers: "load_layer pcd points fs ''registration'' (mn_registration m) = Inr (ls_registration l)"
      "load_layer pcd points fs ''display'' (mn_display m) = Inr (ls_display l)"
      "load_layer pcd points fs ''ground'' (mn_ground m) = Inr (ls_ground l)"
      "load_layer pcd points fs ''objects_raw'' (mn_objects_raw m) = Inr (ls_objects_raw l)"
      "load_layer pcd points fs ''objects_clean'' (mn_objects_clean m) = Inr (ls_objects_clean l)"
    and static: "safeRelativePath (mf_path (mn_static_evidence m))"
      "file_digest fs (mf_path (mn_static_evidence m)) = mf_sha256 (mn_static_evidence m)"
      "ls_static_evidence_path l = mf_path (mn_static_evidence m)"
    and full: "safeRelativePath (mf_path (mn_display_full m))"
      "file_digest fs (mf_path (mn_display_full m)) = mf_sha256 (mn_display_full m)"
      "mf_sha256 (mn_display_full m) = mf_sha256 (mn_display m)"
  have intact: "layer_intact pcd points fs (mn_display m) (ls_display l)" by (rule load_layer_intact [OF layers(2)])
  then have digest: "length (mf_sha256 (mn_display m)) = 64" unfolding layer_intact_def using digest_length by metis
  have full_bytes: "\<exists>bytes. fs (mf_path (mn_display_full m)) = Some bytes \<and> sha256_reference bytes = mf_sha256 (mn_display m)"
    using full(2,3) digest by (auto simp: file_digest_reference split: option.splits)
  have extras_intact: "\<forall>x\<in>set extras. stays_inside (xf_path x) \<and>
      (\<exists>bytes. fs (xf_path x) = Some bytes \<and> sha256_reference bytes = xf_sha256 x \<and> of_nat (length bytes) = xf_bytes x)"
    using check_extra_files_ok [OF extras(2)] extra_file_intact by blast
  have rail: "ls_rail_write_authorized l \<longrightarrow>
       fst (validateRailYawReference fmt (ls_yaw_reference l)) \<and>
       yr_map_frame_uuid (ls_yaw_reference l) = ls_map_frame_uuid l \<and>
       yr_map_frame_id (ls_yaw_reference l) = mn_frame_id m"
    using loaded_yaw_reference [of fmt m "ls_map_frame_uuid l" "ls_yaw_reference l"] yaw by auto
  have static_bytes: "\<forall>bytes. fs (ls_static_evidence_path l) = Some bytes \<longrightarrow>
      sha256_reference bytes = mf_sha256 (mn_static_evidence m)"
    using static by (auto simp: file_digest_reference)
  show ?thesis
    using complete layers [THEN load_layer_intact] extras(1) extras_intact static_bytes full_bytes rail
      safe_path_inside [OF static(1)] safe_path_inside [OF full(1)] static(3) by auto
qed

text \<open>The static height field of an index that does not hold an unverified map is built from confirmed ground only:
  a point is selected when it is finite and its cell is stored, clean-confirmed and of the snapshot's generation; for a
  runtime-mature index that cell has moreover the required number of observations over the required time. Whatever
  sequence of operations published the snapshot.\<close>

theorem static_height_points_backed:
  assumes "sn \<in> set (run_outputs (evidence_step stof stod) (evidence_setConfig c) es)"
    and "sn_authority sn \<noteq> UNVERIFIED_LOADED_CLEAN"
    and "p \<in> set (selectStaticHeightPointsForAuthority points sn)"
  shows "p \<in> set points \<and> isfinite (v3x p) \<and> isfinite (v3y p) \<and> isfinite (v3z p) \<and>
    (\<exists>x y cell. map_of (sn_cells sn) (packStaticEvidenceCell x y) = Some cell \<and>
       x = floor_cell (v3x p / sn_cell_size_m sn) \<and> y = floor_cell (v3y p / sn_cell_size_m sn) \<and>
       sc_clean_map_confirmed cell \<and> sc_map_generation cell = sn_map_generation sn \<and>
       (sn_authority sn = RUNTIME_MATURE \<longrightarrow>
          ec_minimum_observations (ix_config (evidence_setConfig c)) \<le> sc_consecutive_observation_count cell \<and>
          ec_minimum_stable_duration_sec (ix_config (evidence_setConfig c)) \<le>
            sc_consecutive_stable_duration_sec cell + evidence_stamp_epsilon))"
proof -
  have sound: "snapshot_sound (ix_config (evidence_setConfig c)) sn"
    by (rule store.run_contract [OF store_init assms(1)])
  have point: "p \<in> set points" "isfinite (v3x p)" "isfinite (v3y p)" "isfinite (v3z p)" "point_authorized sn p"
    using assms(3) by (auto simp: selectStaticHeightPointsForAuthority_def split: if_splits)
  let ?key = "packStaticEvidenceCell (floor_cell (v3x p / sn_cell_size_m sn)) (floor_cell (v3y p / sn_cell_size_m sn))"
  obtain cell where cell: "map_of (sn_cells sn) ?key = Some cell" "sc_clean_map_confirmed cell"
      "sc_map_generation cell = sn_map_generation sn" "sn_authority sn = RUNTIME_MATURE \<longrightarrow> sc_temporally_mature cell"
    using point(5) assms(2) by (auto simp: point_authorized_def split: option.splits)
  then have "mature_backed (ix_config (evidence_setConfig c)) cell"
    using sound map_of_SomeD [OF cell(1)] by (auto simp: snapshot_sound_def)
  then show ?thesis using point cell by (auto simp: mature_backed_def)
qed

text \<open>A session of empty files under rail authority: its five clouds share one file.\<close>

definition demo_file :: ManifestFile where
  "demo_file = \<lparr>mf_path = ''a.pcd'', mf_sha256 = sha256_reference [], mf_points = 0\<rparr>"

definition demo_manifest :: "ManifestFile \<Rightarrow> SessionManifest" where
  "demo_manifest evidence =
     \<lparr>mn_schema = ''ndt_slam_map_session'', mn_schema_version = 2, mn_complete = True, mn_map_uuid = ''u'',
      mn_frame_id = yr_map_frame_id demo_reference, mn_map_frame_uuid = yr_map_frame_uuid demo_reference,
      mn_base_frame_id = yr_base_frame_id demo_reference,
      mn_map_frame_convention_id = yr_map_frame_convention_id demo_reference,
      mn_sensor_rig_calibration_id = yr_sensor_rig_calibration_id demo_reference,
      mn_yaw_reference = demo_reference, mn_yaw_source = ''NEW_MAP_BOOTSTRAP_REFERENCE'', mn_static_revision = 1,
      mn_static_map_generation = 1, mn_static_authority = ''RUNTIME_MATURE'', mn_registration = demo_file,
      mn_display = demo_file, mn_ground = demo_file, mn_objects_raw = demo_file, mn_objects_clean = demo_file,
      mn_static_evidence = evidence, mn_display_full = demo_file,
      mn_extra_files = Some [\<lparr>xf_path = ''a.pcd'', xf_sha256 = sha256_reference [], xf_bytes = 0\<rparr>]\<rparr>"

definition demo_files :: session_files where
  "demo_files = [''a.pcd'' \<mapsto> []]"


definition demo_session :: "ManifestFile \<Rightarrow> unit LoadedSession" where
  "demo_session evidence =
     \<lparr>ls_map_frame_uuid = ''m'', ls_yaw_reference = demo_reference, ls_rail_write_authorized = True,
      ls_static_authority = RUNTIME_MATURE, ls_static_revision = 1, ls_static_source_generation = 1,
      ls_registration = (), ls_display = (), ls_ground = (), ls_objects_raw = (), ls_objects_clean = (),
      ls_static_evidence_path = mf_path evidence\<rparr>"

lemma demo_yaw:
  "load_yaw_reference (\<lambda>_. ''0'') (demo_manifest evidence) ''m'' = Inr (demo_reference, True)"
  using demo_reference_valid
  by (simp add: load_yaw_reference_def demo_manifest_def yawReferenceSourceFromName_def yaw_reference_ok_def
      demo_reference_def default_RailYawReference_def Let_def)

lemma demo_layer: "load_layer (\<lambda>_. Some ()) (\<lambda>_. 0) demo_files key demo_file = Inr ()"
  by (simp add: load_layer_def demo_file_def demo_files_def file_digest_reference digest_length safeRelativePath_def
      path_parts_def)

lemma demo_loads:
  assumes "safeRelativePath (mf_path evidence)" "file_digest demo_files (mf_path evidence) = mf_sha256 evidence"
  shows "loadVerified (\<lambda>_. ''0'') (\<lambda>_. Some ()) (\<lambda>_. 0) demo_files (Some (demo_manifest evidence)) =
    Inr (demo_session evidence)"
proof -
  let ?m = "demo_manifest evidence"
  have m: "mn_schema ?m = ''ndt_slam_map_session''" "mn_schema_version ?m = 2" "mn_complete ?m" "mn_map_uuid ?m = ''u''"
    "mn_frame_id ?m = ''map''" "mn_map_frame_uuid ?m = ''m''" "mn_static_revision ?m = 1" "mn_static_map_generation ?m = 1"
    "mn_static_authority ?m = ''RUNTIME_MATURE''" "mn_registration ?m = demo_file" "mn_display ?m = demo_file"
    "mn_ground ?m = demo_file" "mn_objects_raw ?m = demo_file" "mn_objects_clean ?m = demo_file"
    "mn_static_evidence ?m = evidence" "mn_display_full ?m = demo_file"
    "mn_extra_files ?m = Some [\<lparr>xf_path = ''a.pcd'', xf_sha256 = sha256_reference [], xf_bytes = 0\<rparr>]"
    by (simp_all add: demo_manifest_def demo_reference_def default_RailYawReference_def Let_def)
  have extras: "extra_file_ok demo_files \<lparr>xf_path = ''a.pcd'', xf_sha256 = sha256_reference [], xf_bytes = 0\<rparr>"
    by (simp add: extra_file_ok_def demo_files_def file_digest_reference digest_length safeRelativePath_def path_parts_def)
  have demo: "safeRelativePath (mf_path demo_file)" "file_digest demo_files (mf_path demo_file) = mf_sha256 demo_file"
    by (simp_all add: demo_file_def demo_files_def file_digest_reference safeRelativePath_def path_parts_def)
  show ?thesis
    unfolding loadVerified_def option.case m Let_def
    by (simp add: demo_yaw demo_layer extras m(3) demo assms authority_of_name_def demo_session_def)
qed

theorem loaded_session_intact_witness:
  "ls_rail_write_authorized (demo_session demo_file) \<and>
   layer_intact (\<lambda>_. Some ()) (\<lambda>_. 0) demo_files demo_file (ls_registration (demo_session demo_file)) \<and>
   fst (validateRailYawReference (\<lambda>_. ''0'') (ls_yaw_reference (demo_session demo_file)))"
proof -
  have "safeRelativePath (mf_path demo_file)" "file_digest demo_files (mf_path demo_file) = mf_sha256 demo_file"
    by (simp_all add: demo_file_def demo_files_def file_digest_reference safeRelativePath_def path_parts_def)
  note loaded = loaded_session_intact [OF demo_loads [OF this]]
  have "ls_rail_write_authorized (demo_session demo_file)" by (simp add: demo_session_def)
  moreover have "mn_registration (demo_manifest demo_file) = demo_file" by (simp add: demo_manifest_def)
  ultimately show ?thesis using loaded by metis
qed


definition demo_approved :: StaticEvidenceSnapshot where
  "demo_approved = ix_snapshot (setSnapshotAuthority OPERATOR_APPROVED_BASELINE demo_fresh)"

definition demo_point :: vec3 where
  "demo_point = \<lparr>v3x = Fin 0, v3y = Fin 0, v3z = Fin 1\<rparr>"

theorem static_height_points_backed_witness:
  "demo_point \<in> set (selectStaticHeightPointsForAuthority [demo_point] demo_approved) \<and>
   (\<exists>x y cell. map_of (sn_cells demo_approved) (packStaticEvidenceCell x y) = Some cell \<and> sc_clean_map_confirmed cell)"
proof -
  let ?ops = "[Reset 5, Confirm [(0, demo_geometry)] [] (Fin 1) 5 1, Authority OPERATOR_APPROVED_BASELINE]"
  have run: "demo_approved \<in> set (run_outputs (evidence_step demo_parse demo_parse) (evidence_setConfig demo_evidence_config) ?ops)"
    by (simp add: evidence_step_def fresh_index_def demo_approved_def)
  have size: "ec_cell_size_m (ix_config (evidence_setConfig demo_evidence_config)) = Fin 0.25"
    unfolding demo_config_kept by (simp add: demo_evidence_config_def default_StaticObstacleEvidenceConfig_def)
  have key: "packStaticEvidenceCell 0 0 = 0" by (simp add: packStaticEvidenceCell_def)
  obtain cell s where fresh: "demo_fresh = publishSnapshotLocked (Fin 1) s" "ix_working_cells s = [(0, cell)]"
      "ix_working_generation s = 5" "ix_config s = ix_config (evidence_setConfig demo_evidence_config)"
      "sc_clean_map_confirmed cell" "sc_map_generation cell = 5"
    using fresh_index_unfold [of 1 demo_evidence_config 0 demo_geometry "Fin 1" 5] by auto
  then have sn: "sn_authority demo_approved = OPERATOR_APPROVED_BASELINE" "sn_cell_size_m demo_approved = Fin 0.25"
      "sn_cells demo_approved = [(0, cell)]" "sn_map_generation demo_approved = 5"
    using size by (simp_all add: demo_approved_def setSnapshotAuthority_def publishSnapshotLocked_def Let_def)
  have picked: "demo_point \<in> set (selectStaticHeightPointsForAuthority [demo_point] demo_approved)"
    using sn fresh(5,6) key
    by (simp add: selectStaticHeightPointsForAuthority_def point_authorized_def demo_point_def)
  have "sn_authority demo_approved \<noteq> UNVERIFIED_LOADED_CLEAN" using sn by simp
  from static_height_points_backed [OF run this picked] picked show ?thesis by blast
qed

end
