(* ===== verification/Flood_Fill.thy ===== *)
theory Flood_Fill
  imports Main
begin

text \<open>
  The breadth-first flood fill the point-cloud components use on their occupancy grids: a set of visited cells, a
  queue of cells still to be expanded, and a neighbourhood. The function is generic in the cells and in the neighbourhood;
  the lemmas characterise its result as the part of the admissible cells that can be reached from the seeds
  through admissible cells, and bound it by the admissible cells.
\<close>

lemma flood_measure:
  assumes "filter (\<lambda>n. n \<in> set allowed \<and> n \<notin> set visited) ns \<noteq> []"
  shows "card (set allowed - (set visited \<union> {n \<in> set ns. n \<in> set allowed \<and> n \<notin> set visited})) <
    card (set allowed - set visited)"
proof (rule psubset_card_mono)
  obtain x where "x \<in> set ns" "x \<in> set allowed" "x \<notin> set visited" using assms by (auto simp: filter_empty_conv)
  then show "set allowed - (set visited \<union> {n \<in> set ns. n \<in> set allowed \<and> n \<notin> set visited}) \<subset> set allowed - set visited"
    by auto
qed simp

text \<open>One step takes the front of the queue and appends its admissible neighbours that were not visited.\<close>

function flood :: "('a \<Rightarrow> 'a list) \<Rightarrow> 'a list \<Rightarrow> 'a list \<Rightarrow> 'a list \<Rightarrow> 'a list" where
  "flood nb allowed visited [] = visited"
| "flood nb allowed visited (c # pending) =
     (let fresh = remdups (filter (\<lambda>n. n \<in> set allowed \<and> n \<notin> set visited) (nb c))
      in flood nb allowed (visited @ fresh) (pending @ fresh))"
  by pat_completeness auto

termination
proof (relation "measures [\<lambda>(nb, allowed, visited, pending). card (set allowed - set visited),
    \<lambda>(nb, allowed, visited, pending). length pending]", goal_cases)
  case (2 nb allowed visited c pending fresh)
  show ?case
  proof (cases "filter (\<lambda>n. n \<in> set allowed \<and> n \<notin> set visited) (nb c) = []")
    case False
    then show ?thesis using flood_measure [OF False] 2 by simp
  qed (simp add: 2)
qed simp

declare flood.simps(2) [simp del]

definition fill :: "('a \<Rightarrow> 'a list) \<Rightarrow> 'a list \<Rightarrow> 'a \<Rightarrow> 'a list" where
  "fill nb allowed seed = flood nb allowed [seed] [seed]"

section \<open>The component of a seed\<close>

definition grid_step :: "('a \<Rightarrow> 'a list) \<Rightarrow> 'a list \<Rightarrow> ('a \<times> 'a) set" where
  "grid_step nb allowed = {(c, n). n \<in> set (nb c) \<and> n \<in> set allowed}"

lemma flood_extends: "set visited \<subseteq> set (flood nb allowed visited pending)"
proof (induction nb allowed visited pending rule: flood.induct)
  case (2 nb allowed visited c pending)
  show ?case using 2 [OF refl] by (simp only: flood.simps(2) Let_def) simp
qed simp

lemma flood_reachable:
  assumes "set visited \<subseteq> (grid_step nb allowed)\<^sup>* `` S" and "set pending \<subseteq> set visited"
  shows "set (flood nb allowed visited pending) \<subseteq> (grid_step nb allowed)\<^sup>* `` S"
  using assms
proof (induction nb allowed visited pending rule: flood.induct)
  case (2 nb allowed visited c pending)
  let ?fresh = "remdups (filter (\<lambda>n. n \<in> set allowed \<and> n \<notin> set visited) (nb c))"
  have "c \<in> (grid_step nb allowed)\<^sup>* `` S" using 2(2,3) by auto
  then have "set ?fresh \<subseteq> (grid_step nb allowed)\<^sup>* `` S"
    by (auto simp: grid_step_def intro: rtrancl_into_rtrancl)
  then have "set (visited @ ?fresh) \<subseteq> (grid_step nb allowed)\<^sup>* `` S" "set (pending @ ?fresh) \<subseteq> set (visited @ ?fresh)"
    using 2(2,3) by auto
  then show ?case using 2(1) [OF refl] by (simp only: flood.simps(2) Let_def)
qed simp

text \<open>Closure: a visited cell that is not waiting in the queue has all its admissible neighbours visited.\<close>

lemma flood_closed:
  assumes "\<forall>c \<in> set visited - set pending. \<forall>n. (c, n) \<in> grid_step nb allowed \<longrightarrow> n \<in> set visited"
    and "c \<in> set (flood nb allowed visited pending)" and "(c, n) \<in> grid_step nb allowed"
  shows "n \<in> set (flood nb allowed visited pending)"
  using assms
proof (induction nb allowed visited pending rule: flood.induct)
  case (2 nb allowed visited q pending)
  let ?fresh = "remdups (filter (\<lambda>n. n \<in> set allowed \<and> n \<notin> set visited) (nb q))"
  have step: "flood nb allowed visited (q # pending) = flood nb allowed (visited @ ?fresh) (pending @ ?fresh)"
    by (simp only: flood.simps(2) Let_def)
  have closed: "\<forall>d \<in> set (visited @ ?fresh) - set (pending @ ?fresh). \<forall>m. (d, m) \<in> grid_step nb allowed \<longrightarrow> m \<in> set (visited @ ?fresh)"
  proof (intro ballI allI impI)
    fix d m assume d: "d \<in> set (visited @ ?fresh) - set (pending @ ?fresh)" and edge: "(d, m) \<in> grid_step nb allowed"
    show "m \<in> set (visited @ ?fresh)"
    proof (cases "d = q")
      case True
      then show ?thesis using edge by (simp add: grid_step_def)
    next
      case False
      then have "d \<in> set visited - set (q # pending)" using d by auto
      then have "m \<in> set visited" using 2(2) edge by blast
      then show ?thesis by simp
    qed
  qed
  show ?case unfolding step by (rule 2(1) [OF refl closed 2(3) [unfolded step] 2(4)])
qed simp

lemma fill_reachable: "set (fill nb allowed seed) = (grid_step nb allowed)\<^sup>* `` {seed}"
proof
  show "set (fill nb allowed seed) \<subseteq> (grid_step nb allowed)\<^sup>* `` {seed}"
    unfolding fill_def by (rule flood_reachable) auto
  have "n \<in> set (fill nb allowed seed)" if "(seed, n) \<in> (grid_step nb allowed)\<^sup>*" for n
    using that
  proof (induction rule: rtrancl_induct)
    case base
    then show ?case using flood_extends [of "[seed]"] by (auto simp: fill_def)
  next
    case (step y z)
    then show ?case unfolding fill_def by (intro flood_closed [of _ _ _ _ y z]) auto
  qed
  then show "(grid_step nb allowed)\<^sup>* `` {seed} \<subseteq> set (fill nb allowed seed)" by auto
qed

lemma flood_allowed: "set visited \<subseteq> set allowed \<Longrightarrow> set (flood nb allowed visited pending) \<subseteq> set allowed"
proof (induction nb allowed visited pending rule: flood.induct)
  case (2 nb allowed visited c pending)
  then have "set (visited @ remdups (filter (\<lambda>n. n \<in> set allowed \<and> n \<notin> set visited) (nb c))) \<subseteq> set allowed" by auto
  then show ?case using 2(1) [OF refl] by (simp only: flood.simps(2) Let_def)
qed simp

lemma flood_distinct: "distinct visited \<Longrightarrow> distinct (flood nb allowed visited pending)"
proof (induction nb allowed visited pending rule: flood.induct)
  case (2 nb allowed visited c pending)
  then have "distinct (visited @ remdups (filter (\<lambda>n. n \<in> set allowed \<and> n \<notin> set visited) (nb c)))" by auto
  then show ?case using 2(1) [OF refl] by (simp only: flood.simps(2) Let_def)
qed simp

lemma fill_distinct: "distinct (fill nb allowed seed)"
  by (simp add: fill_def flood_distinct)

lemma fill_allowed: "seed \<in> set allowed \<Longrightarrow> set (fill nb allowed seed) \<subseteq> set allowed"
  unfolding fill_def by (rule flood_allowed) simp

end
