(* ===== verification/Oriented_Footprint.thy ===== *)
theory Oriented_Footprint
  imports Rigid_Geometry Flood_Fill Ndt_Machines
begin

text \<open>
  The oriented footprint of the cargo (\<^verbatim>\<open>cargo_oriented_footprint.hpp/.cpp\<close>): the axial yaw statistics, the robust
  PCA box over a cloud, its refinement from the connected component of an occupancy grid around the hook, and
  \<^verbatim>\<open>CargoLiveObbFilter\<close>, which smooths the box over a window of frames. The axial normalisation itself is in
  \<open>Rigid_Geometry\<close>. The eigensolver of Eigen is a parameter of the PCA box, and the iteration order of
  \<^verbatim>\<open>std::unordered_set\<close> is a parameter of the refinement. The constants the source writes with seven or twenty digits
  of \<open>\<pi>\<close> are \<open>\<pi>\<close> itself. Cells of the grid are pairs of integers: packing them into one key loses nothing
  for the 32-bit indices of the source.
\<close>

section \<open>Statistics\<close>

text \<open>\<^verbatim>\<open>percentile\<close> is called with finite values only; \<^verbatim>\<open>std::sort\<close> orders them by value.\<close>

definition percentile :: "dbl list \<Rightarrow> dbl \<Rightarrow> dbl" where
  "percentile values fraction =
     (if values = [] then NaN
      else
        let sorted_values = sort_key real_part values;
            position = cpp_clamp fraction (Fin 0) (Fin 1) * Fin (real (length values - 1));
            lower = nat \<lfloor>real_part position\<rfloor>; upper = min (lower + 1) (length values - 1);
            alpha = position - Fin (real lower)
        in sorted_values ! lower * (Fin 1 - alpha) + sorted_values ! upper * alpha)"

record CargoAxialYawSummary =
  ay_valid :: bool
  ay_mean_yaw_rad :: dbl
  ay_concentration :: dbl
  ay_maximum_deviation_rad :: dbl
  ay_sample_count :: nat

definition doubled_sum :: "(dbl \<Rightarrow> dbl) \<Rightarrow> dbl list \<Rightarrow> dbl" where
  "doubled_sum f ys = foldl (\<lambda>total y. total + f (Fin 2 * y)) (Fin 0) ys"

definition summarizeCargoAxialYaw :: "dbl list \<Rightarrow> CargoAxialYawSummary" where
  "summarizeCargoAxialYaw samples =
     (let ys = filter isfinite samples; c = doubled_sum dcos ys; s = doubled_sum dsin ys; n = length ys in
      if n = 0 \<or> dhypot c s \<le> Fin 0.000000001
      then \<lparr>ay_valid = False, ay_mean_yaw_rad = Fin 0, ay_concentration = Fin 0, ay_maximum_deviation_rad = Fin 0,
            ay_sample_count = n\<rparr>
      else
        let mean = normalizeCargoAxialYaw (Fin 0.5 * datan2 s c)
        in \<lparr>ay_valid = True, ay_mean_yaw_rad = mean, ay_concentration = dhypot c s / Fin (real n),
            ay_maximum_deviation_rad =
              foldl (\<lambda>most y. cpp_max most \<bar>normalizeCargoAxialYaw (y - mean)\<bar>) (Fin 0) ys,
            ay_sample_count = n\<rparr>)"

text \<open>The output pointer of \<^verbatim>\<open>meanCargoAxialYaw\<close> is written only when the mean exists.\<close>

definition meanCargoAxialYaw :: "dbl list \<Rightarrow> dbl option" where
  "meanCargoAxialYaw samples =
     (let summary = summarizeCargoAxialYaw samples in if ay_valid summary then Some (ay_mean_yaw_rad summary) else None)"

definition baseYawToMap :: "dbl \<Rightarrow> dbl \<Rightarrow> dbl" where
  "baseYawToMap yaw_base pose_yaw = normalizeCargoAxialYaw (yaw_base + pose_yaw)"

definition mapYawToBase :: "dbl \<Rightarrow> dbl \<Rightarrow> dbl" where
  "mapYawToBase yaw_map pose_yaw = normalizeCargoAxialYaw (yaw_map - pose_yaw)"

section \<open>The robust box\<close>

record CargoOrientedFootprintConfig =
  of_minimum_points :: nat
  of_percentile_low :: dbl
  of_percentile_high :: dbl
  of_margin_m :: dbl
  of_minimum_geometric_aspect_ratio :: dbl
  of_minimum_eigenvalue_ratio :: dbl
  of_minimum_long_side_m :: dbl
  of_minimum_short_side_m :: dbl
  of_maximum_long_side_m :: dbl
  of_maximum_short_side_m :: dbl

definition default_CargoOrientedFootprintConfig :: CargoOrientedFootprintConfig where
  "default_CargoOrientedFootprintConfig =
     \<lparr>of_minimum_points = 20, of_percentile_low = Fin 0.03, of_percentile_high = Fin 0.97, of_margin_m = Fin 0.1,
      of_minimum_geometric_aspect_ratio = Fin 1.2, of_minimum_eigenvalue_ratio = Fin 1.44,
      of_minimum_long_side_m = Fin 0.6, of_minimum_short_side_m = Fin 0.4, of_maximum_long_side_m = Fin 2.5,
      of_maximum_short_side_m = Fin 1.6\<rparr>"

record CargoOrientedFootprint =
  of_valid :: bool
  of_center_base :: vec2
  of_size_long_short :: vec2
  of_raw_size_long_short :: vec2
  of_long_side_clamped :: bool
  of_short_side_clamped :: bool
  of_yaw_base_rad :: dbl
  of_eigenvalue_ratio :: dbl
  of_geometric_aspect_ratio :: dbl
  of_orientation_confidence :: dbl
  of_finite_points :: nat
  of_reason :: string

definition default_CargoOrientedFootprint :: CargoOrientedFootprint where
  "default_CargoOrientedFootprint =
     \<lparr>of_valid = False, of_center_base = vec2_zero, of_size_long_short = vec2_zero, of_raw_size_long_short = vec2_zero,
      of_long_side_clamped = False, of_short_side_clamped = False, of_yaw_base_rad = Fin 0, of_eigenvalue_ratio = Fin 1,
      of_geometric_aspect_ratio = Fin 1, of_orientation_confidence = Fin 0, of_finite_points = 0,
      of_reason = ''not_estimated''\<rparr>"

definition footprint_validConfig :: "CargoOrientedFootprintConfig \<Rightarrow> bool" where
  "footprint_validConfig c \<longleftrightarrow>
     3 \<le> of_minimum_points c \<and> isfinite (of_percentile_low c) \<and> isfinite (of_percentile_high c) \<and>
     Fin 0 \<le> of_percentile_low c \<and> of_percentile_high c \<le> Fin 1 \<and> of_percentile_low c < of_percentile_high c \<and>
     isfinite (of_margin_m c) \<and> Fin 0 \<le> of_margin_m c \<and> isfinite (of_minimum_geometric_aspect_ratio c) \<and>
     Fin 1 \<le> of_minimum_geometric_aspect_ratio c \<and> isfinite (of_minimum_eigenvalue_ratio c) \<and>
     Fin 1 \<le> of_minimum_eigenvalue_ratio c \<and> isfinite (of_minimum_long_side_m c) \<and>
     isfinite (of_minimum_short_side_m c) \<and> isfinite (of_maximum_long_side_m c) \<and>
     isfinite (of_maximum_short_side_m c) \<and> Fin 0 < of_minimum_long_side_m c \<and> Fin 0 < of_minimum_short_side_m c \<and>
     of_minimum_long_side_m c \<le> of_maximum_long_side_m c \<and> of_minimum_short_side_m c \<le> of_maximum_short_side_m c"

definition vec2_dot :: "vec2 \<Rightarrow> vec2 \<Rightarrow> dbl" where
  [cpp_simps]: "vec2_dot a b = v2x a * v2x b + v2y a * v2y b"

definition vec2_div :: "vec2 \<Rightarrow> dbl \<Rightarrow> vec2" where
  "vec2_div a k = \<lparr>v2x = v2x a / k, v2y = v2y a / k\<rparr>"

definition squared_distance :: "vec2 \<Rightarrow> vec2 \<Rightarrow> dbl" where
  "squared_distance a b = vec2_dot (vec2_sub a b) (vec2_sub a b)"

text \<open>What the eigensolver of a symmetric matrix returns: its eigenvalues in increasing order and the eigenvector of the
  larger one. \<open>None\<close> stands for a solver that does not report success.\<close>

record eigen_result =
  eg_weak :: dbl
  eg_strong :: dbl
  eg_vector_weak :: vec2
  eg_vector_strong :: vec2

type_synonym eigen_solver = "dbl \<Rightarrow> dbl \<Rightarrow> dbl \<Rightarrow> eigen_result option"

definition robust_covariance_points :: "vec2 list \<Rightarrow> vec2 list" where
  "robust_covariance_points ps =
     (let median = \<lparr>v2x = percentile (map v2x ps) (Fin 0.5), v2y = percentile (map v2y ps) (Fin 0.5)\<rparr>;
          limit = percentile (map (\<lambda>p. squared_distance p median) ps) (Fin 0.95) + Fin 0.000001
      in filter (\<lambda>p. \<not> limit < squared_distance p median) ps)"

definition covariance_entry :: "(vec2 \<Rightarrow> dbl) \<Rightarrow> (vec2 \<Rightarrow> dbl) \<Rightarrow> vec2 \<Rightarrow> vec2 list \<Rightarrow> dbl" where
  "covariance_entry a b centroid ps =
     foldl (\<lambda>total p. total + a (vec2_sub p centroid) * b (vec2_sub p centroid)) (Fin 0) ps / Fin (real (length ps))"

definition side_clamped :: "dbl \<Rightarrow> dbl \<Rightarrow> dbl \<Rightarrow> bool" where
  "side_clamped side lo hi \<longleftrightarrow> hi + Fin 0.0001 < side \<or> side < lo - Fin 0.0001"

definition ratio_confidence :: "dbl \<Rightarrow> dbl \<Rightarrow> dbl" where
  "ratio_confidence ratio minimum =
     cpp_clamp ((ratio - Fin 1) / cpp_max (Fin 0.000001) (minimum - Fin 1)) (Fin 0) (Fin 1)"

text \<open>The second half of the estimate: the extents along the axes of the eigenvector.\<close>

definition footprint_extents ::
  "CargoOrientedFootprintConfig \<Rightarrow> vec2 list \<Rightarrow> vec2 \<Rightarrow> vec2 \<Rightarrow> CargoOrientedFootprint \<Rightarrow> CargoOrientedFootprint" where
  "footprint_extents c ps centroid strong r =
     (let axis = vec2_div strong (vec2_norm strong); ortho = \<lparr>v2x = - v2y axis, v2y = v2x axis\<rparr>;
          along = map (\<lambda>p. vec2_dot (vec2_sub p centroid) axis) ps;
          across = map (\<lambda>p. vec2_dot (vec2_sub p centroid) ortho) ps;
          long_low = percentile along (of_percentile_low c); long_high = percentile along (of_percentile_high c);
          short_low = percentile across (of_percentile_low c); short_high = percentile across (of_percentile_high c) in
      if \<not> isfinite long_low \<or> \<not> isfinite long_high \<or> \<not> isfinite short_low \<or> \<not> isfinite short_high
      then r\<lparr>of_reason := ''nonfinite_projection''\<rparr>
      else
        let l0 = long_high - long_low + Fin 2 * of_margin_m c; s0 = short_high - short_low + Fin 2 * of_margin_m c;
            lm0 = Fin 0.5 * (long_low + long_high); sm0 = Fin 0.5 * (short_low + short_high);
            yaw0 = datan2 (v2y axis) (v2x axis); swap = (l0 < s0);
            l = (if swap then s0 else l0); s = (if swap then l0 else s0);
            lm = (if swap then sm0 else lm0); sm = (if swap then lm0 else sm0);
            la = (if swap then ortho else axis); sa = (if swap then axis else ortho);
            yaw = (if swap then yaw0 + Fin (pi / 2) else yaw0);
            aspect = l / cpp_max s (Fin 0.000001);
            r1 = r\<lparr>of_geometric_aspect_ratio := aspect\<rparr> in
        if \<not> isfinite aspect \<or> aspect + Fin 0.000001 < of_minimum_geometric_aspect_ratio c
        then r1\<lparr>of_reason := ''geometric_aspect_ambiguous''\<rparr>
        else
          let r2 = r1\<lparr>of_center_base := vec2_add (vec2_add centroid (vec2_scale la lm)) (vec2_scale sa sm),
                      of_raw_size_long_short := \<lparr>v2x = l, v2y = s\<rparr>,
                      of_long_side_clamped := side_clamped l (of_minimum_long_side_m c) (of_maximum_long_side_m c),
                      of_short_side_clamped := side_clamped s (of_minimum_short_side_m c) (of_maximum_short_side_m c)\<rparr>;
              lc = cpp_clamp l (of_minimum_long_side_m c) (of_maximum_long_side_m c);
              sc = cpp_clamp s (of_minimum_short_side_m c) (of_maximum_short_side_m c) in
          if lc < sc then r2\<lparr>of_reason := ''invalid_clamped_axes''\<rparr>
          else r2\<lparr>of_valid := True, of_size_long_short := \<lparr>v2x = lc, v2y = sc\<rparr>,
                  of_yaw_base_rad := normalizeCargoAxialYaw yaw,
                  of_orientation_confidence :=
                    cpp_min (ratio_confidence (of_eigenvalue_ratio r) (of_minimum_eigenvalue_ratio c))
                      (ratio_confidence aspect (of_minimum_geometric_aspect_ratio c)),
                  of_reason := ''robust_pca_obb''\<rparr>)"

definition estimateCargoOrientedFootprint ::
  "eigen_solver \<Rightarrow> vec2 list \<Rightarrow> CargoOrientedFootprintConfig \<Rightarrow> CargoOrientedFootprint" where
  "estimateCargoOrientedFootprint solver points c =
     (let r = default_CargoOrientedFootprint in
      if \<not> footprint_validConfig c then r\<lparr>of_reason := ''invalid_config''\<rparr>
      else
        let ps = filter vec2_allFinite points; r1 = r\<lparr>of_finite_points := length ps\<rparr> in
        if length ps < of_minimum_points c then r1\<lparr>of_reason := ''too_few_finite_points''\<rparr>
        else
          let core = robust_covariance_points ps in
          if length core < of_minimum_points c then r1\<lparr>of_reason := ''too_few_robust_covariance_points''\<rparr>
          else
            let centroid = vec2_div (foldl vec2_add vec2_zero core) (Fin (real (length core)));
                xx = covariance_entry v2x v2x centroid core; xy = covariance_entry v2x v2y centroid core;
                yy = covariance_entry v2y v2y centroid core in
            if \<not> isfinite xx \<or> \<not> isfinite xy \<or> \<not> isfinite yy then r1\<lparr>of_reason := ''nonfinite_covariance''\<rparr>
            else case solver xx xy yy of
                None \<Rightarrow> r1\<lparr>of_reason := ''eigendecomposition_failed''\<rparr>
              | Some e \<Rightarrow>
                  if \<not> isfinite (eg_weak e) \<or> \<not> isfinite (eg_strong e) \<or> \<not> vec2_allFinite (eg_vector_weak e) \<or>
                     \<not> vec2_allFinite (eg_vector_strong e)
                  then r1\<lparr>of_reason := ''eigendecomposition_failed''\<rparr>
                  else
                    let weak = cpp_max (Fin 0) (eg_weak e); strong = cpp_max (Fin 0) (eg_strong e);
                        ratio = strong / cpp_max weak (Fin 0.00000001); r2 = r1\<lparr>of_eigenvalue_ratio := ratio\<rparr> in
                    if \<not> isfinite ratio \<or> ratio < of_minimum_eigenvalue_ratio c
                    then r2\<lparr>of_reason := ''orientation_ambiguous''\<rparr>
                    else footprint_extents c ps centroid (eg_vector_strong e) r2)"

section \<open>The grid refinement\<close>

type_synonym cell = "int \<times> int"

record CargoAnchorGridFootprintConfig =
  ag_cell_size_m :: dbl
  ag_margin_m :: dbl
  ag_maximum_growth_ratio :: dbl
  ag_maximum_long_side_m :: dbl
  ag_maximum_short_side_m :: dbl
  ag_minimum_component_cells :: nat

record CargoAnchorGridFootprint =
  ag_valid :: bool
  ag_clamped :: bool
  ag_size_long_short :: vec2
  ag_occupied_cells :: nat
  ag_component_cells :: nat
  ag_reason :: string

text \<open>\<^verbatim>\<open>static_cast<int>(std::floor(x))\<close> of a finite number (the conversion is undefined outside the 32-bit range).\<close>

definition floor_int :: "dbl \<Rightarrow> int" where
  "floor_int x = \<lfloor>real_part x\<rfloor>"

definition grid_cell :: "dbl \<Rightarrow> vec2 \<Rightarrow> cell" where
  "grid_cell edge p = (floor_int (v2x p / edge), floor_int (v2y p / edge))"

definition offsets :: "int \<Rightarrow> cell list" where
  "offsets reach = [(dx, dy). dx \<leftarrow> [- reach..reach], dy \<leftarrow> [- reach..reach], (dx, dy) \<noteq> (0, 0)]"

definition neighbours :: "int \<Rightarrow> cell \<Rightarrow> cell list" where
  "neighbours reach c = map (\<lambda>(dx, dy). (fst c + dx, snd c + dy)) (offsets reach)"

definition supported_cells :: "cell list \<Rightarrow> cell list" where
  "supported_cells occupied = filter (\<lambda>c. \<exists>n \<in> set (neighbours 1 c). n \<in> set occupied) occupied"

definition manhattan :: "cell \<Rightarrow> cell \<Rightarrow> int" where
  "manhattan a b = \<bar>fst a - fst b\<bar> + \<bar>snd a - snd b\<bar>"

text \<open>The first nearest cell in iteration order; the bound of the first comparison is the largest 32-bit integer.\<close>

definition nearest_seed :: "cell \<Rightarrow> cell list \<Rightarrow> cell" where
  "nearest_seed anchor cells =
     fst (foldl (\<lambda>(seed, best) c. if manhattan c anchor < best then (c, manhattan c anchor) else (seed, best))
            (hd cells, 2147483647) cells)"

definition cell_center :: "dbl \<Rightarrow> cell \<Rightarrow> vec2" where
  "cell_center edge c =
     \<lparr>v2x = (Fin (of_int (fst c)) + Fin 0.5) * edge, v2y = (Fin (of_int (snd c)) + Fin 0.5) * edge\<rparr>"

definition half_extent :: "vec2 \<Rightarrow> vec2 \<Rightarrow> dbl \<Rightarrow> cell list \<Rightarrow> dbl" where
  "half_extent anchor axis edge cells =
     foldl (\<lambda>most c. cpp_max most \<bar>vec2_dot (vec2_sub (cell_center edge c) anchor) axis\<bar>) (Fin 0) cells"

definition refineCargoAnchorGridFootprint ::
  "(cell list \<Rightarrow> cell list) \<Rightarrow> vec2 list \<Rightarrow> vec2 \<Rightarrow> dbl \<Rightarrow> vec2 \<Rightarrow> CargoAnchorGridFootprintConfig \<Rightarrow>
   CargoAnchorGridFootprint" where
  "refineCargoAnchorGridFootprint iteration points anchor yaw robust c =
     (let r = \<lparr>ag_valid = False, ag_clamped = False, ag_size_long_short = vec2_zero, ag_occupied_cells = 0,
               ag_component_cells = 0, ag_reason = ''not_refined''\<rparr> in
      if \<not> vec2_allFinite anchor \<or> \<not> vec2_allFinite robust \<or> \<not> isfinite yaw \<or> \<not> isfinite (ag_cell_size_m c) \<or>
         ag_cell_size_m c \<le> Fin 0 \<or> ag_minimum_component_cells c = 0
      then r\<lparr>ag_reason := ''invalid_grid_input''\<rparr>
      else
        let occupied = remdups (map (grid_cell (ag_cell_size_m c)) (filter vec2_allFinite points));
            r1 = r\<lparr>ag_occupied_cells := length occupied\<rparr> in
        if length occupied < ag_minimum_component_cells c then r1\<lparr>ag_reason := ''sparse_grid''\<rparr>
        else
          let supported = supported_cells occupied in
          if length supported < ag_minimum_component_cells c then r1\<lparr>ag_reason := ''isolated_grid''\<rparr>
          else
            let seed = nearest_seed (grid_cell (ag_cell_size_m c) anchor) (iteration supported);
                component = fill (neighbours 2) supported seed;
                r2 = r1\<lparr>ag_component_cells := length component\<rparr> in
            if length component < ag_minimum_component_cells c then r2\<lparr>ag_reason := ''anchor_component_too_small''\<rparr>
            else
              let long_axis = \<lparr>v2x = dcos yaw, v2y = dsin yaw\<rparr>;
                  short_axis = \<lparr>v2x = - v2y long_axis, v2y = v2x long_axis\<rparr>;
                  half_long = half_extent anchor long_axis (ag_cell_size_m c) (iteration component);
                  half_short = half_extent anchor short_axis (ag_cell_size_m c) (iteration component);
                  radius = Fin 0.707107 * ag_cell_size_m c;
                  length0 = Fin 2 * (half_long + radius + ag_margin_m c);
                  width0 = Fin 2 * (half_short + radius + ag_margin_m c);
                  long_cap = cpp_min (ag_maximum_long_side_m c) (v2x robust * ag_maximum_growth_ratio c);
                  short_cap = cpp_min (ag_maximum_short_side_m c) (v2y robust * ag_maximum_growth_ratio c);
                  clamped = (long_cap < length0 \<or> short_cap < width0);
                  len = cpp_min length0 long_cap; width = cpp_min width0 short_cap;
                  r3 = r2\<lparr>ag_clamped := clamped\<rparr> in
              if \<not> isfinite len \<or> \<not> isfinite width \<or> len \<le> Fin 0 \<or> width \<le> Fin 0
              then r3\<lparr>ag_reason := ''invalid_grid_extent''\<rparr>
              else r3\<lparr>ag_valid := True, ag_size_long_short := \<lparr>v2x = len, v2y = width\<rparr>,
                      ag_reason := (if clamped then ''anchor_grid_extent_clamped'' else ''anchor_grid_extent'')\<rparr>)"

section \<open>The live box\<close>

record CargoLiveObbConfig =
  lo_window_frames :: nat
  lo_establishment_window_frames :: nat
  lo_minimum_valid_frames :: nat
  lo_expansion_window_frames :: nat
  lo_expansion_valid_frames :: nat
  lo_shrink_window_frames :: nat
  lo_shrink_valid_frames :: nat
  lo_update_alpha :: dbl
  lo_maximum_size_step_m :: dbl
  lo_minimum_yaw_concentration :: dbl
  lo_maximum_yaw_spread_deg :: dbl
  lo_observation_hold_sec :: dbl

definition default_CargoLiveObbConfig :: CargoLiveObbConfig where
  "default_CargoLiveObbConfig =
     \<lparr>lo_window_frames = 10, lo_establishment_window_frames = 5, lo_minimum_valid_frames = 3,
      lo_expansion_window_frames = 8, lo_expansion_valid_frames = 5, lo_shrink_window_frames = 10,
      lo_shrink_valid_frames = 7, lo_update_alpha = Fin 0.3, lo_maximum_size_step_m = Fin 0.1,
      lo_minimum_yaw_concentration = Fin 0.7, lo_maximum_yaw_spread_deg = Fin 12, lo_observation_hold_sec = Fin 2\<rparr>"

record CargoLiveObb =
  lb_valid :: bool
  lb_held :: bool
  lb_size_long_short :: vec2
  lb_yaw_base_rad :: dbl
  lb_center_z :: dbl
  lb_height_m :: dbl
  lb_valid_frames :: nat
  lb_yaw_concentration :: dbl
  lb_size_mad :: vec2

definition default_CargoLiveObb :: CargoLiveObb where
  "default_CargoLiveObb =
     \<lparr>lb_valid = False, lb_held = False, lb_size_long_short = vec2_zero, lb_yaw_base_rad = Fin 0, lb_center_z = Fin 0,
      lb_height_m = Fin 0, lb_valid_frames = 0, lb_yaw_concentration = Fin 0, lb_size_mad = vec2_zero\<rparr>"

record live_sample =
  sp_valid :: bool
  sp_size :: vec2
  sp_yaw :: dbl
  sp_center_z :: dbl
  sp_height :: dbl
  sp_stamp_sec :: dbl

record CargoLiveObbFilter =
  lf_config :: CargoLiveObbConfig
  lf_samples :: "live_sample list"
  lf_result :: CargoLiveObb
  lf_last_valid_stamp_sec :: dbl

record live_observation =
  lv_valid :: bool
  lv_size_long_short :: vec2
  lv_yaw_base_rad :: dbl
  lv_center_z :: dbl
  lv_height_m :: dbl
  lv_stamp_sec :: dbl

definition live_clamp_config :: "CargoLiveObbConfig \<Rightarrow> CargoLiveObbConfig" where
  "live_clamp_config c =
     (let window = cpp_max 10 (lo_window_frames c);
          expansion = cpp_clamp (lo_expansion_window_frames c) 1 window;
          shrink = cpp_clamp (lo_shrink_window_frames c) 1 window
      in \<lparr>lo_window_frames = window,
          lo_establishment_window_frames = cpp_clamp (lo_establishment_window_frames c) 3 window,
          lo_minimum_valid_frames = cpp_clamp (lo_minimum_valid_frames c) 1 window,
          lo_expansion_window_frames = expansion,
          lo_expansion_valid_frames = cpp_clamp (lo_expansion_valid_frames c) 1 expansion,
          lo_shrink_window_frames = shrink,
          lo_shrink_valid_frames = cpp_clamp (lo_shrink_valid_frames c) 1 shrink,
          lo_update_alpha = cpp_clamp (lo_update_alpha c) (Fin 0.01) (Fin 1),
          lo_maximum_size_step_m = cpp_max (Fin 0.01) (lo_maximum_size_step_m c),
          lo_minimum_yaw_concentration = cpp_clamp (lo_minimum_yaw_concentration c) (Fin 0) (Fin 1),
          lo_maximum_yaw_spread_deg = cpp_max (Fin 0) (lo_maximum_yaw_spread_deg c),
          lo_observation_hold_sec = cpp_max (Fin 0) (lo_observation_hold_sec c)\<rparr>)"

definition live_reset :: "CargoLiveObbFilter \<Rightarrow> CargoLiveObbFilter" where
  "live_reset s = s\<lparr>lf_samples := [], lf_result := default_CargoLiveObb, lf_last_valid_stamp_sec := Fin 0\<rparr>"

definition live_setConfig :: "CargoLiveObbConfig \<Rightarrow> CargoLiveObbFilter \<Rightarrow> CargoLiveObbFilter" where
  "live_setConfig c s = live_reset (s\<lparr>lf_config := live_clamp_config c\<rparr>)"

definition live_init :: "CargoLiveObbConfig \<Rightarrow> CargoLiveObbFilter" where
  "live_init c =
     live_setConfig c \<lparr>lf_config = default_CargoLiveObbConfig, lf_samples = [], lf_result = default_CargoLiveObb,
       lf_last_valid_stamp_sec = Fin 0\<rparr>"

definition live_sample_of :: "live_observation \<Rightarrow> live_sample" where
  "live_sample_of v =
     \<lparr>sp_valid = (lv_valid v \<and> vec2_allFinite (lv_size_long_short v) \<and> isfinite (lv_yaw_base_rad v) \<and>
        isfinite (lv_center_z v) \<and> isfinite (lv_height_m v) \<and>
        Fin 0 < cpp_min (v2x (lv_size_long_short v)) (v2y (lv_size_long_short v)) \<and> Fin 0 < lv_height_m v \<and>
        isfinite (lv_stamp_sec v)),
      sp_size = lv_size_long_short v, sp_yaw = normalizeCargoAxialYaw (lv_yaw_base_rad v),
      sp_center_z = lv_center_z v, sp_height = lv_height_m v, sp_stamp_sec = lv_stamp_sec v\<rparr>"

definition live_push :: "CargoLiveObbFilter \<Rightarrow> live_observation \<Rightarrow> CargoLiveObbFilter" where
  "live_push s v =
     (let stamp = lv_stamp_sec v;
          s1 = (if lf_samples s \<noteq> [] \<and>
                   (\<not> isfinite stamp \<or> stamp + Fin 0.000001 < sp_stamp_sec (last (lf_samples s)))
                then live_reset s else s);
          all = lf_samples s1 @ [live_sample_of v]
      in s1\<lparr>lf_samples := drop (length all - lo_window_frames (lf_config s1)) all\<rparr>)"

definition recent_valid :: "live_sample list \<Rightarrow> nat \<Rightarrow> nat" where
  "recent_valid samples window = length (filter sp_valid (drop (length samples - window) samples))"

text \<open>The robust centre of one dimension: median, MAD, and the median of the values within the larger of 0.1 and three MAD.\<close>

definition median_deviation :: "dbl list \<Rightarrow> dbl" where
  "median_deviation xs = percentile (map (\<lambda>x. \<bar>x - percentile xs (Fin 0.5)\<bar>) xs) (Fin 0.5)"

definition robust_target :: "dbl list \<Rightarrow> dbl" where
  "robust_target xs =
     percentile
       (filter (\<lambda>x. \<bar>x - percentile xs (Fin 0.5)\<bar> \<le> cpp_max (Fin 0.1) (Fin 3 * median_deviation xs)) xs) (Fin 0.5)"

definition live_step_to :: "CargoLiveObbConfig \<Rightarrow> dbl \<Rightarrow> dbl \<Rightarrow> dbl" where
  "live_step_to c value target =
     value + cpp_clamp (lo_update_alpha c * (target - value)) (- lo_maximum_size_step_m c) (lo_maximum_size_step_m c)"

definition live_blend :: "CargoLiveObbConfig \<Rightarrow> dbl \<Rightarrow> dbl \<Rightarrow> dbl" where
  "live_blend c value target = value + lo_update_alpha c * (target - value)"

definition live_concentrated :: "CargoLiveObbConfig \<Rightarrow> CargoAxialYawSummary \<Rightarrow> bool" where
  "live_concentrated c summary \<longleftrightarrow>
     ay_valid summary \<and> lo_minimum_yaw_concentration c \<le> ay_concentration summary \<and>
     ay_maximum_deviation_rad summary \<le> lo_maximum_yaw_spread_deg c * Fin pi / Fin 180"

text \<open>The update of the result from the valid samples of the window, once the window is established.\<close>

definition live_refine :: "CargoLiveObbFilter \<Rightarrow> CargoAxialYawSummary \<Rightarrow> dbl \<Rightarrow> CargoLiveObbFilter" where
  "live_refine s summary stamp =
     (let c = lf_config s; r = lf_result s; valid = filter sp_valid (lf_samples s);
          lengths = map (v2x \<circ> sp_size) valid; widths = map (v2y \<circ> sp_size) valid;
          tx = robust_target lengths; ty = robust_target widths;
          tz = percentile (map sp_center_z valid) (Fin 0.5); th = percentile (map sp_height valid) (Fin 0.5);
          rx = v2x (lb_size_long_short r); ry = v2y (lb_size_long_short r);
          expansion = (lb_valid r \<and> (rx < tx \<or> ry < ty));
          shrink = (lb_valid r \<and> \<not> expansion \<and> (tx < rx \<or> ty < ry));
          ready = (\<not> lb_valid r \<or>
            expansion \<and> lo_expansion_valid_frames c \<le> recent_valid (lf_samples s) (lo_expansion_window_frames c) \<or>
            shrink \<and> lo_shrink_valid_frames c \<le> recent_valid (lf_samples s) (lo_shrink_window_frames c) \<or>
            \<not> expansion \<and> \<not> shrink) in
      if \<not> ready then s\<lparr>lf_result := r\<lparr>lb_held := lb_valid r\<rparr>\<rparr>
      else
        let moved =
              (if \<not> lb_valid r
               then r\<lparr>lb_size_long_short := \<lparr>v2x = tx, v2y = ty\<rparr>, lb_center_z := tz, lb_height_m := th,
                      lb_yaw_base_rad := ay_mean_yaw_rad summary\<rparr>
               else r\<lparr>lb_size_long_short := \<lparr>v2x = live_step_to c rx tx, v2y = live_step_to c ry ty\<rparr>,
                      lb_center_z := live_blend c (lb_center_z r) tz, lb_height_m := live_blend c (lb_height_m r) th,
                      lb_yaw_base_rad := normalizeCargoAxialYaw (lb_yaw_base_rad r + lo_update_alpha c *
                        normalizeCargoAxialYaw (ay_mean_yaw_rad summary - lb_yaw_base_rad r))\<rparr>)
        in s\<lparr>lf_result := moved\<lparr>lb_valid := True, lb_held := False, lb_valid_frames := length lengths,
               lb_yaw_concentration := ay_concentration summary,
               lb_size_mad := \<lparr>v2x = median_deviation lengths, v2y = median_deviation widths\<rparr>\<rparr>,
             lf_last_valid_stamp_sec := stamp\<rparr>)"

definition live_next :: "CargoLiveObbFilter \<Rightarrow> live_observation \<Rightarrow> CargoLiveObbFilter" where
  "live_next s v =
     (let stamp = lv_stamp_sec v; s1 = live_push s v; c = lf_config s1; r = lf_result s1;
          summary = summarizeCargoAxialYaw (map sp_yaw (filter sp_valid (lf_samples s1))) in
      if lo_minimum_valid_frames c \<le> recent_valid (lf_samples s1) (lo_establishment_window_frames c) \<and>
         live_concentrated c summary
      then live_refine s1 summary stamp
      else if lb_valid r \<and> isfinite stamp \<and> stamp - lf_last_valid_stamp_sec s1 \<le> lo_observation_hold_sec c
      then s1\<lparr>lf_result := r\<lparr>lb_held := True\<rparr>\<rparr>
      else s1\<lparr>lf_result := default_CargoLiveObb\<rparr>)"

definition live_update :: "(CargoLiveObbFilter, live_observation, CargoLiveObb) machine" where
  "live_update s v = (let s' = live_next s v in (s', lf_result s'))"

section \<open>Lemmas: statistics\<close>

text \<open>The axial yaw of a finite angle, as a real function.\<close>

definition axial :: "real \<Rightarrow> real" where
  "axial y = axial_up (axial_down y)"

lemma normalize_axial [simp]: "normalizeCargoAxialYaw (Fin y) = Fin (axial y)"
  by (simp add: axial_def)

declare normalizeCargoAxialYaw.simps(1) [simp del]

lemma axial_range: "- (pi / 2) \<le> axial y" "axial y < pi / 2"
  using axial_up_range [of "axial_down y"] axial_down_range [of y] by (simp_all add: axial_def)

lemma axial_turns: "\<exists>k::int. axial y = y + of_int k * pi"
  using axial_shift by (simp add: axial_def)

lemma axial_unique:
  assumes "a = b + of_int k * pi" "- (pi / 2) \<le> a" "a < pi / 2" "- (pi / 2) \<le> b" "b < pi / 2"
  shows "a = b"
proof -
  have "\<bar>of_int k * pi\<bar> < pi" using assms by linarith
  then have "\<bar>of_int k :: real\<bar> < 1" using pi_gt_zero by (simp add: abs_mult)
  then have "k = 0" by linarith
  then show ?thesis using assms(1) by simp
qed

lemma axial_shift_turns: "axial (y + of_int k * pi) = axial y"
proof -
  obtain i j :: int where ij: "axial (y + of_int k * pi) = y + of_int k * pi + of_int i * pi" "axial y = y + of_int j * pi"
    using axial_turns by blast
  then have "axial (y + of_int k * pi) = axial y + of_int (k + i - j) * pi" by (simp add: algebra_simps)
  then show ?thesis using axial_unique axial_range by blast
qed

lemma normalize_range:
  "\<exists>y. normalizeCargoAxialYaw x = Fin y \<and> - (pi / 2) \<le> y \<and> y < pi / 2"
  using axial_range pi_gt_zero by (cases x) auto

lemma convex_between:
  fixes m x y M t :: real
  assumes "m \<le> x" "x \<le> M" "m \<le> y" "y \<le> M" "0 \<le> t" "t \<le> 1"
  shows "m \<le> x * (1 - t) + y * t \<and> x * (1 - t) + y * t \<le> M"
proof -
  have "m * (1 - t) + m * t \<le> x * (1 - t) + y * t" by (intro add_mono mult_right_mono) (use assms in simp_all)
  moreover have "x * (1 - t) + y * t \<le> M * (1 - t) + M * t" by (intro add_mono mult_right_mono) (use assms in simp_all)
  ultimately show ?thesis by (simp add: algebra_simps)
qed

lemma percentile_between:
  assumes "values \<noteq> []" and "\<forall>x \<in> set values. \<exists>r. x = Fin r \<and> m \<le> r \<and> r \<le> M"
  shows "\<exists>p. percentile values (Fin f) = Fin p \<and> m \<le> p \<and> p \<le> M"
proof -
  obtain xs where xs: "values = map Fin xs" using all_finite_Fin [of "values"] assms(2) by fastforce
  let ?n = "length xs - Suc 0"
  define q where "q = max 0 (min f 1) * real ?n"
  have q: "0 \<le> q" "q \<le> real ?n" by (simp_all add: q_def mult_left_le_one_le)
  let ?lower = "nat \<lfloor>q\<rfloor>"
  have lower: "?lower \<le> ?n" "real ?lower \<le> q" "q - real ?lower \<le> 1" using q by linarith+
  have n: "0 < length xs" using assms(1) xs by simp
  have all: "m \<le> sort xs ! k \<and> sort xs ! k \<le> M" if k: "k \<le> ?n" for k
  proof -
    have "sort xs ! k \<in> set (sort xs)" using k n by (intro nth_mem) (simp only: length_sort; linarith)
    then show ?thesis using assms(2) xs by auto
  qed
  have position: "cpp_clamp (Fin f) (Fin 0) (Fin 1) * Fin (real ?n) = Fin q"
    by (auto simp: cpp_clamp_def q_def)
  have nth: "map Fin (sort xs) ! k = Fin (sort xs ! k)" if "k \<le> ?n" for k
    using that n by (intro nth_map) (simp only: length_sort; linarith)
  have "percentile values (Fin f) =
      Fin (sort xs ! ?lower * (1 - (q - real ?lower)) + sort xs ! min (?lower + 1) ?n * (q - real ?lower))"
    using n lower(1) by (simp add: percentile_def xs sort_key_Fin position Let_def nth)
  then show ?thesis
    using convex_between [OF conjunct1 [OF all [OF lower(1)]] conjunct2 [OF all [OF lower(1)]]
      conjunct1 [OF all [of "min (?lower + 1) ?n"]] conjunct2 [OF all [of "min (?lower + 1) ?n"]], of "q - real ?lower"]
      lower by simp
qed

lemma percentile_finite:
  assumes "values \<noteq> []" and "\<forall>x \<in> set values. isfinite x"
  shows "isfinite (percentile values (Fin f))"
proof -
  obtain xs where xs: "values = map Fin xs" using all_finite_Fin [of "values"] assms(2) by fastforce
  have "\<forall>x \<in> set values. \<exists>r. x = Fin r \<and> Min (set xs) \<le> r \<and> r \<le> Max (set xs)" by (auto simp: xs)
  from percentile_between [OF assms(1) this, of f] show ?thesis by (elim exE) simp
qed

section \<open>Lemmas: the live box\<close>

definition positive :: "dbl \<Rightarrow> bool" where
  "positive x \<longleftrightarrow> (\<exists>r. x = Fin r \<and> 0 < r)"

definition axial_angle :: "dbl \<Rightarrow> bool" where
  "axial_angle x \<longleftrightarrow> (\<exists>y. x = Fin y \<and> - (pi / 2) \<le> y \<and> y < pi / 2)"

lemma normalize_axial_angle [simp]: "axial_angle (normalizeCargoAxialYaw x)"
  using normalize_range by (auto simp: axial_angle_def)

lemma percentile_positive:
  assumes "values \<noteq> []" and "\<forall>x \<in> set values. positive x"
  shows "positive (percentile values (Fin f))"
proof -
  obtain xs where xs: "values = map Fin xs" using all_finite_Fin [of "values"] assms(2) by (fastforce simp: positive_def)
  have "\<forall>x \<in> set values. \<exists>r. x = Fin r \<and> Min (set xs) \<le> r \<and> r \<le> Max (set xs)" by (auto simp: xs)
  from percentile_between [OF assms(1) this, of f] obtain p where p: "percentile values (Fin f) = Fin p" "Min (set xs) \<le> p"
    by blast
  have "Min (set xs) \<in> set xs" using assms(1) xs by (intro Min_in) simp_all
  then have "0 < Min (set xs)" using assms(2) xs by (auto simp: positive_def)
  then show ?thesis using p by (simp add: positive_def)
qed

lemma robust_kept:
  assumes "xs \<noteq> []" and "\<forall>x \<in> set xs. isfinite x"
  shows "filter (\<lambda>x. \<bar>x - percentile xs (Fin 0.5)\<bar> \<le> cpp_max (Fin 0.1) (Fin 3 * median_deviation xs)) xs \<noteq> []"
proof -
  obtain rs where rs: "xs = map Fin rs" using all_finite_Fin [of xs] assms(2) by fastforce
  obtain c where c: "percentile xs (Fin 0.5) = Fin c" using percentile_finite [OF assms] by (auto simp: isfinite_iff)
  let ?ds = "map (\<lambda>r. \<bar>r - c\<bar>) rs"
  have ds: "map (\<lambda>x. \<bar>x - percentile xs (Fin 0.5)\<bar>) xs = map Fin ?ds" unfolding c by (simp add: rs)
  have "\<forall>x \<in> set (map Fin ?ds). \<exists>r. x = Fin r \<and> Min (set ?ds) \<le> r \<and> r \<le> Max (set ?ds)" by auto
  from percentile_between [OF _ this, of "0.5"] assms(1) obtain d where d: "median_deviation xs = Fin d" "Min (set ?ds) \<le> d"
    unfolding median_deviation_def ds by (auto simp: rs)
  have "Min (set ?ds) \<in> set ?ds" using assms(1) rs by (intro Min_in) simp_all
  then obtain r where r: "r \<in> set rs" "\<bar>r - c\<bar> \<le> d" using d(2) by auto
  then have "0 \<le> d" by linarith
  then have "\<bar>r - c\<bar> \<le> max 0.1 (3 * d)" using r(2) by linarith
  then have "\<bar>Fin r - percentile xs (Fin 0.5)\<bar> \<le> cpp_max (Fin 0.1) (Fin 3 * median_deviation xs)"
    unfolding c d(1) by simp
  moreover have "Fin r \<in> set xs" using r(1) rs by simp
  ultimately show ?thesis unfolding filter_empty_conv by blast
qed

lemma robust_target_positive:
  assumes "xs \<noteq> []" and "\<forall>x \<in> set xs. positive x"
  shows "positive (robust_target xs)"
proof -
  have "\<forall>x \<in> set xs. isfinite x" using assms(2) by (auto simp: positive_def)
  then show ?thesis unfolding robust_target_def using robust_kept [OF assms(1)] assms(2)
    by (intro percentile_positive) simp_all
qed

text \<open>The configuration after \<^verbatim>\<open>setConfig\<close>. A NaN smoothing factor survives the clamp, so it is excluded.\<close>

definition live_config_ok :: "CargoLiveObbConfig \<Rightarrow> bool" where
  "live_config_ok c \<longleftrightarrow>
     (\<exists>a. lo_update_alpha c = Fin a \<and> 0 < a \<and> a \<le> 1) \<and> Fin 0 < lo_maximum_size_step_m c \<and>
     1 \<le> lo_minimum_valid_frames c \<and> 1 \<le> lo_window_frames c"

lemma live_clamp_ok:
  assumes "lo_update_alpha c \<noteq> NaN"
  shows "live_config_ok (live_clamp_config c)"
proof -
  have step: "Fin 0 < cpp_max (Fin 0.01) (lo_maximum_size_step_m c)"
    by (cases "lo_maximum_size_step_m c") (simp_all add: cpp_max_def)
  have "\<exists>a. cpp_clamp (lo_update_alpha c) (Fin 0.01) (Fin 1) = Fin a \<and> 0 < a \<and> a \<le> 1"
    using assms by (cases "lo_update_alpha c") (auto simp: cpp_clamp_def intro!: exI [of _ "1 / 100"])
  then show ?thesis
    using step by (simp add: live_config_ok_def live_clamp_config_def Let_def) (simp add: cpp_clamp_def le_max_iff_disj)
qed

lemma step_to_between:
  assumes "live_config_ok c" and "value = Fin v" and "target = Fin t"
  shows "\<exists>w. live_step_to c value target = Fin w \<and> min v t \<le> w \<and> w \<le> max v t \<and>
    Fin \<bar>w - v\<bar> \<le> lo_maximum_size_step_m c"
proof -
  obtain a where a: "lo_update_alpha c = Fin a" "0 < a" "a \<le> 1" and step: "Fin 0 < lo_maximum_size_step_m c"
    using assms(1) by (auto simp: live_config_ok_def)
  have between: "min 0 (t - v) \<le> a * (t - v) \<and> a * (t - v) \<le> max 0 (t - v)"
  proof (cases "v \<le> t")
    case True
    then show ?thesis using a by (simp add: mult_left_le_one_le)
  next
    case False
    have "a * (v - t) \<le> v - t" "0 \<le> a * (v - t)" using False a by (simp_all add: mult_left_le_one_le)
    then have "t - v \<le> a * (t - v)" "a * (t - v) \<le> 0" by (simp_all add: algebra_simps)
    then show ?thesis using False by simp
  qed
  show ?thesis
  proof (cases "lo_maximum_size_step_m c")
    case (Fin m)
    then have "0 < m" using step by simp
    then show ?thesis
      using between by (simp add: live_step_to_def assms(2,3) a(1) Fin cpp_clamp_def) linarith
  next
    case PInf
    then show ?thesis using between by (simp add: live_step_to_def assms(2,3) a(1) uminus_dbl_def cpp_clamp_def) linarith
  qed (use step in simp_all)
qed

lemma blend_positive:
  assumes "live_config_ok c" and "positive value" and "positive target"
  shows "positive (live_blend c value target)"
proof -
  obtain a v t where "lo_update_alpha c = Fin a" "0 < a" "a \<le> 1" "value = Fin v" "0 < v" "target = Fin t" "0 < t"
    using assms by (auto simp: live_config_ok_def positive_def)
  moreover have "v + a * (t - v) = v * (1 - a) + t * a" by (simp add: algebra_simps)
  moreover have "0 < v * (1 - a) + t * a"
    using calculation by (intro add_nonneg_pos mult_nonneg_nonneg mult_pos_pos) simp_all
  ultimately show ?thesis by (simp add: live_blend_def positive_def)
qed

definition sample_ok :: "live_sample \<Rightarrow> bool" where
  "sample_ok p \<longleftrightarrow> (sp_valid p \<longrightarrow>
     positive (v2x (sp_size p)) \<and> positive (v2y (sp_size p)) \<and> positive (sp_height p) \<and> isfinite (sp_center_z p) \<and>
     axial_angle (sp_yaw p))"

definition live_box_ok :: "CargoLiveObb \<Rightarrow> bool" where
  "live_box_ok r \<longleftrightarrow> (lb_valid r \<longrightarrow>
     positive (v2x (lb_size_long_short r)) \<and> positive (v2y (lb_size_long_short r)) \<and> positive (lb_height_m r) \<and>
     isfinite (lb_center_z r) \<and> axial_angle (lb_yaw_base_rad r))"

definition live_inv :: "CargoLiveObbFilter \<Rightarrow> bool" where
  "live_inv s \<longleftrightarrow>
     live_config_ok (lf_config s) \<and> (\<forall>p \<in> set (lf_samples s). sample_ok p) \<and> live_box_ok (lf_result s)"

lemma sample_of_ok [simp]: "sample_ok (live_sample_of v)"
  by (auto simp: sample_ok_def live_sample_of_def positive_def vec2_allFinite_def isfinite_iff cpp_min_def split: if_splits)

lemma live_default_ok [simp]: "live_box_ok default_CargoLiveObb"
  by (simp add: live_box_ok_def default_CargoLiveObb_def)

lemma live_push_inv:
  assumes "live_inv s"
  shows "live_inv (live_push s v)"
  using assms by (auto simp: live_inv_def live_push_def live_reset_def Let_def dest: in_set_dropD)

lemma live_mean_angle: "ay_valid (summarizeCargoAxialYaw ys) \<Longrightarrow> axial_angle (ay_mean_yaw_rad (summarizeCargoAxialYaw ys))"
  by (auto simp: summarizeCargoAxialYaw_def Let_def split: if_splits)

lemma recent_valid_some: "1 \<le> recent_valid samples w \<Longrightarrow> filter sp_valid samples \<noteq> []"
proof -
  assume "1 \<le> recent_valid samples w"
  then obtain p where "p \<in> set (drop (length samples - w) samples)" "sp_valid p"
    unfolding recent_valid_def by (metis One_nat_def filter_False le_zero_eq list.size(3) nat.simps(3))
  then show ?thesis by (auto simp: filter_empty_conv dest: in_set_dropD)
qed

text \<open>The targets the window gives, once it holds a valid sample.\<close>

lemma window_targets:
  assumes "\<forall>p \<in> set samples. sample_ok p" and "filter sp_valid samples \<noteq> []"
  shows "positive (robust_target (map (v2x \<circ> sp_size) (filter sp_valid samples)))"
    and "positive (robust_target (map (v2y \<circ> sp_size) (filter sp_valid samples)))"
    and "positive (percentile (map sp_height (filter sp_valid samples)) (Fin 0.5))"
    and "isfinite (percentile (map sp_center_z (filter sp_valid samples)) (Fin 0.5))"
  using assms by (auto simp: sample_ok_def intro!: robust_target_positive percentile_positive percentile_finite)

definition size_near :: "dbl \<Rightarrow> CargoLiveObb \<Rightarrow> CargoLiveObb \<Rightarrow> bool" where
  "size_near step r r' \<longleftrightarrow>
     (\<exists>x x' y y'. v2x (lb_size_long_short r) = Fin x \<and> v2x (lb_size_long_short r') = Fin x' \<and> Fin \<bar>x' - x\<bar> \<le> step \<and>
        v2y (lb_size_long_short r) = Fin y \<and> v2y (lb_size_long_short r') = Fin y' \<and> Fin \<bar>y' - y\<bar> \<le> step)"

lemma size_near_refl: "live_box_ok r \<Longrightarrow> lb_valid r \<Longrightarrow> Fin 0 < step \<Longrightarrow> size_near step r (r\<lparr>lb_held := h\<rparr>)"
  by (cases step) (auto simp: live_box_ok_def size_near_def positive_def)

lemma step_to_positive:
  assumes "live_config_ok c" and "positive value" and "positive target"
  shows "positive (live_step_to c value target)"
proof -
  obtain v t where vt: "value = Fin v" "0 < v" "target = Fin t" "0 < t" using assms(2,3) by (auto simp: positive_def)
  from step_to_between [OF assms(1) vt(1,3)] vt(2,4) show ?thesis by (auto simp: positive_def)
qed

lemma refine_inv:
  assumes "live_inv s" and "filter sp_valid (lf_samples s) \<noteq> []" and "axial_angle (ay_mean_yaw_rad summary)"
  shows "live_inv (live_refine s summary stamp)"
proof -
  have ok: "live_config_ok (lf_config s)" "\<forall>p \<in> set (lf_samples s). sample_ok p" "live_box_ok (lf_result s)"
    using assms(1) by (simp_all add: live_inv_def)
  note targets = window_targets [OF ok(2) assms(2)]
  have "live_box_ok (lf_result (live_refine s summary stamp))"
  proof (cases "lb_valid (lf_result s)")
    case True
    then have r: "positive (v2x (lb_size_long_short (lf_result s)))" "positive (v2y (lb_size_long_short (lf_result s)))"
      "positive (lb_height_m (lf_result s))" "isfinite (lb_center_z (lf_result s))" "axial_angle (lb_yaw_base_rad (lf_result s))"
      using ok(3) by (simp_all add: live_box_ok_def)
    have z: "isfinite (live_blend (lf_config s) (lb_center_z (lf_result s))
        (percentile (map sp_center_z (filter sp_valid (lf_samples s))) (Fin 0.5)))"
      using ok(1) r(4) targets(4) by (auto simp: live_config_ok_def live_blend_def isfinite_iff)
    show ?thesis
      using True r z step_to_positive [OF ok(1) r(1) targets(1)] step_to_positive [OF ok(1) r(2) targets(2)]
        blend_positive [OF ok(1) r(3) targets(3)]
      by (simp add: live_refine_def Let_def live_box_ok_def)
  next
    case False
    then show ?thesis using targets assms(3) by (simp add: live_refine_def Let_def live_box_ok_def)
  qed
  moreover have "lf_config (live_refine s summary stamp) = lf_config s" "lf_samples (live_refine s summary stamp) = lf_samples s"
    by (simp_all add: live_refine_def Let_def)
  ultimately show ?thesis using ok by (simp add: live_inv_def)
qed

lemma refine_near:
  assumes "live_inv s" and "filter sp_valid (lf_samples s) \<noteq> []" and "lb_valid (lf_result s)"
  shows "size_near (lo_maximum_size_step_m (lf_config s)) (lf_result s) (lf_result (live_refine s summary stamp))"
proof -
  have ok: "live_config_ok (lf_config s)" "\<forall>p \<in> set (lf_samples s). sample_ok p" "live_box_ok (lf_result s)"
    using assms(1) by (simp_all add: live_inv_def)
  note targets = window_targets [OF ok(2) assms(2)]
  let ?c = "lf_config s" and ?tx = "robust_target (map (v2x \<circ> sp_size) (filter sp_valid (lf_samples s)))"
    and ?ty = "robust_target (map (v2y \<circ> sp_size) (filter sp_valid (lf_samples s)))"
  obtain x y tx ty where v: "v2x (lb_size_long_short (lf_result s)) = Fin x" "v2y (lb_size_long_short (lf_result s)) = Fin y"
      "?tx = Fin tx" "?ty = Fin ty"
    using ok(3) assms(3) targets(1,2) by (auto simp: live_box_ok_def positive_def)
  obtain x' where x': "live_step_to ?c (Fin x) (Fin tx) = Fin x'" "Fin \<bar>x' - x\<bar> \<le> lo_maximum_size_step_m ?c"
    using step_to_between [OF ok(1) refl refl] by blast
  obtain y' where y': "live_step_to ?c (Fin y) (Fin ty) = Fin y'" "Fin \<bar>y' - y\<bar> \<le> lo_maximum_size_step_m ?c"
    using step_to_between [OF ok(1) refl refl] by blast
  have moved: "size_near (lo_maximum_size_step_m ?c) (lf_result s)
      (r'\<lparr>lb_size_long_short := \<lparr>v2x = live_step_to ?c (Fin x) (Fin tx), v2y = live_step_to ?c (Fin y) (Fin ty)\<rparr>\<rparr>)" for r'
    using v x' y' by (simp add: size_near_def)
  have step: "Fin 0 < lo_maximum_size_step_m ?c" using ok(1) by (simp add: live_config_ok_def)
  show ?thesis
    using moved [of "lf_result (live_refine s summary stamp)"] size_near_refl [OF ok(3) assms(3) step] assms(3)
    by (auto simp: live_refine_def Let_def v size_near_def)
qed

lemma live_next_inv:
  assumes "live_inv s"
  shows "live_inv (live_next s v)"
proof -
  let ?s = "live_push s v"
  have inv: "live_inv ?s" by (rule live_push_inv [OF assms])
  have some: "filter sp_valid (lf_samples ?s) \<noteq> []"
    if "lo_minimum_valid_frames (lf_config ?s) \<le> recent_valid (lf_samples ?s) w" for w
    using that inv recent_valid_some [of "lf_samples ?s" w] by (simp add: live_inv_def live_config_ok_def)
  have box: "live_box_ok (lf_result ?s\<lparr>lb_held := True\<rparr>)" using inv by (simp add: live_inv_def live_box_ok_def)
  show ?thesis
    using refine_inv [OF inv] some inv box live_mean_angle
    by (auto simp: live_next_def Let_def live_concentrated_def live_inv_def)
qed

lemma live_update_simps [simp]: "fst (live_update s v) = live_next s v" "snd (live_update s v) = lf_result (live_next s v)"
  by (simp_all add: live_update_def Let_def)

interpretation live: contract_machine live_update live_inv live_box_ok
  by unfold_locales (use live_next_inv in \<open>auto simp: live_inv_def\<close>)

lemma live_init_inv: "lo_update_alpha c \<noteq> NaN \<Longrightarrow> live_inv (live_init c)"
  by (simp add: live_inv_def live_init_def live_setConfig_def live_reset_def live_clamp_ok)

lemma live_next_near:
  assumes "live_inv s" and "lb_valid (lf_result s)" and "lb_valid (lf_result (live_next s v))"
    and "isfinite (lv_stamp_sec v)" and "\<not> lv_stamp_sec v + Fin 0.000001 < sp_stamp_sec (last (lf_samples s))"
  shows "size_near (lo_maximum_size_step_m (lf_config s)) (lf_result s) (lf_result (live_next s v))"
proof -
  let ?s = "live_push s v"
  have inv: "live_inv ?s" by (rule live_push_inv [OF assms(1)])
  have same: "lf_config ?s = lf_config s" "lf_result ?s = lf_result s"
    using assms(4,5) by (simp_all add: live_push_def Let_def)
  have some: "filter sp_valid (lf_samples ?s) \<noteq> []"
    if "lo_minimum_valid_frames (lf_config ?s) \<le> recent_valid (lf_samples ?s) w" for w
    using that inv recent_valid_some [of "lf_samples ?s" w] by (simp add: live_inv_def live_config_ok_def)
  have step: "Fin 0 < lo_maximum_size_step_m (lf_config s)" "live_box_ok (lf_result s)"
    using assms(1) by (simp_all add: live_inv_def live_config_ok_def)
  show ?thesis
    using refine_near [OF inv] some assms(2,3) size_near_refl [OF step(2) assms(2) step(1)]
    by (auto simp: live_next_def Let_def same default_CargoLiveObb_def split: if_splits)
qed

text \<open>A window of consecutive observations that establishes a box.\<close>

definition established_by :: "CargoLiveObbConfig \<Rightarrow> live_observation list \<Rightarrow> bool" where
  "established_by c vs \<longleftrightarrow>
     (\<exists>before window after. vs = before @ window @ after \<and> length window \<le> lo_establishment_window_frames c \<and>
        lo_minimum_valid_frames c \<le> length (filter (sp_valid \<circ> live_sample_of) window))"

lemma established_append: "established_by c vs \<Longrightarrow> established_by c (vs @ ws)"
  unfolding established_by_def by (metis append.assoc)

lemma recent_established:
  assumes "samples = drop j (map live_sample_of vs)"
    and "lo_minimum_valid_frames c \<le> recent_valid samples (lo_establishment_window_frames c)"
  shows "established_by c vs"
proof -
  let ?k = "length samples - lo_establishment_window_frames c + j"
  have window: "drop (length samples - lo_establishment_window_frames c) samples = map live_sample_of (drop ?k vs)"
    by (simp add: assms(1) drop_map)
  have "length (map live_sample_of (drop ?k vs)) \<le> lo_establishment_window_frames c" unfolding window [symmetric] by simp
  moreover have "lo_minimum_valid_frames c \<le> length (filter (sp_valid \<circ> live_sample_of) (drop ?k vs))"
    using assms(2) unfolding recent_valid_def window by (simp add: filter_map)
  ultimately show ?thesis
    unfolding established_by_def by (intro exI [of _ "take ?k vs"] exI [of _ "drop ?k vs"] exI [of _ "[]"]) simp
qed

lemma live_push_samples:
  assumes "lf_samples s = drop j (map live_sample_of vs)" and "j \<le> length vs"
  shows "\<exists>j'. j' \<le> length (vs @ [v]) \<and> lf_samples (live_push s v) = drop j' (map live_sample_of (vs @ [v]))"
proof -
  define s1 where "s1 = (if lf_samples s \<noteq> [] \<and> (\<not> isfinite (lv_stamp_sec v) \<or>
      lv_stamp_sec v + Fin 0.000001 < sp_stamp_sec (last (lf_samples s))) then live_reset s else s)"
  have "lf_samples s1 = lf_samples s \<or> lf_samples s1 = []" by (simp add: s1_def live_reset_def)
  moreover have "lf_samples (live_push s v) = drop (length (lf_samples s1 @ [live_sample_of v]) - lo_window_frames (lf_config s1))
      (lf_samples s1 @ [live_sample_of v])"
    unfolding live_push_def Let_def s1_def [symmetric] by simp
  ultimately obtain m where m: "lf_samples (live_push s v) = drop m (lf_samples s @ [live_sample_of v]) \<or>
      lf_samples (live_push s v) = drop m [live_sample_of v]" by (metis append_Nil)
  have "lf_samples s @ [live_sample_of v] = drop j (map live_sample_of (vs @ [v]))" using assms by simp
  moreover have "[live_sample_of v] = drop (length vs) (map live_sample_of (vs @ [v]))" by simp
  ultimately obtain k where k: "lf_samples (live_push s v) = drop k (map live_sample_of (vs @ [v]))"
    using m by (metis drop_drop)
  then show ?thesis
    by (cases "k \<le> length (vs @ [v])") (blast, intro exI [of _ "length (vs @ [v])"], simp)
qed

lemma live_refine_kept: "lf_config (live_refine s summary stamp) = lf_config s" "lf_samples (live_refine s summary stamp) = lf_samples s"
  by (simp_all add: live_refine_def Let_def)

lemma live_push_config: "lf_config (live_push s v) = lf_config s"
  by (simp add: live_push_def live_reset_def Let_def)

lemma live_next_established:
  assumes "lb_valid (lf_result (live_next s v))"
  shows "lb_valid (lf_result s) \<or>
    lo_minimum_valid_frames (lf_config s) \<le>
      recent_valid (lf_samples (live_push s v)) (lo_establishment_window_frames (lf_config s))"
  using assms by (auto simp: live_next_def live_push_def live_reset_def Let_def default_CargoLiveObb_def split: if_splits)

lemma live_run_established:
  "lf_config (run_state live_update (live_init c) vs) = live_clamp_config c \<and>
   (\<exists>j. j \<le> length vs \<and> lf_samples (run_state live_update (live_init c) vs) = drop j (map live_sample_of vs)) \<and>
   (lb_valid (lf_result (run_state live_update (live_init c) vs)) \<longrightarrow> established_by (live_clamp_config c) vs)"
proof (induction vs rule: rev_induct)
  case Nil
  then show ?case by (simp add: live_init_def live_setConfig_def live_reset_def default_CargoLiveObb_def)
next
  case (snoc v vs)
  let ?s = "run_state live_update (live_init c) vs"
  have run: "run_state live_update (live_init c) (vs @ [v]) = live_next ?s v" by (simp add: run_state_append)
  have kept: "lf_config (live_next ?s v) = lf_config ?s" "lf_samples (live_next ?s v) = lf_samples (live_push ?s v)"
    by (simp_all add: live_next_def live_refine_kept live_push_config Let_def)
  obtain j where j: "j \<le> length (vs @ [v])" "lf_samples (live_push ?s v) = drop j (map live_sample_of (vs @ [v]))"
    using live_push_samples snoc by blast
  have "established_by (live_clamp_config c) (vs @ [v])" if valid: "lb_valid (lf_result (live_next ?s v))"
  proof (cases "lb_valid (lf_result ?s)")
    case True
    then show ?thesis using snoc by (intro established_append) simp
  next
    case False
    then show ?thesis using live_next_established [OF valid] snoc by (intro recent_established [OF j(2)]) simp
  qed
  then show ?case unfolding run using kept j snoc by auto
qed

section \<open>Lemmas: the boxes\<close>

lemma clamp_unit: "\<exists>k. cpp_clamp (Fin q) (Fin 0) (Fin 1) = Fin k \<and> 0 \<le> k \<and> k \<le> 1"
  by (simp add: cpp_clamp_def)

lemma ratio_confidence_unit:
  assumes "isfinite ratio" and "isfinite minimum"
  shows "\<exists>k. ratio_confidence ratio minimum = Fin k \<and> 0 \<le> k \<and> k \<le> 1"
proof -
  obtain r m where rm: "ratio = Fin r" "minimum = Fin m" using assms by (auto simp: isfinite_iff)
  have "max 0.000001 (m - 1) \<noteq> (0 :: real)" by (simp add: max_def)
  then have "ratio_confidence ratio minimum = cpp_clamp (Fin ((r - 1) / max 0.000001 (m - 1))) (Fin 0) (Fin 1)"
    unfolding ratio_confidence_def rm by simp
  then show ?thesis using clamp_unit by metis
qed

lemma max_fold_ge:
  fixes f :: "'a \<Rightarrow> dbl"
  assumes "\<forall>x \<in> set xs. \<exists>r. f x = Fin r" and "a = Fin a0"
  shows "\<exists>m. foldl (\<lambda>most x. cpp_max most (f x)) a xs = Fin m \<and> a0 \<le> m \<and> (\<forall>x \<in> set xs. f x \<le> Fin m)"
  using assms
proof (induction xs arbitrary: a a0)
  case (Cons x xs)
  obtain r where r: "f x = Fin r" using Cons.prems(1) by auto
  have "cpp_max a (f x) = Fin (max a0 r)" by (simp add: Cons.prems(2) r)
  from Cons.IH [OF _ this] Cons.prems(1) obtain m
    where "foldl (\<lambda>most x. cpp_max most (f x)) (cpp_max a (f x)) xs = Fin m" "max a0 r \<le> m" "\<forall>x \<in> set xs. f x \<le> Fin m"
    by auto
  then show ?case by (auto simp: r)
qed auto

lemma nearest_scan:
  assumes "foldl (\<lambda>(seed, best) c. if manhattan c anchor < best then (c, manhattan c anchor) else (seed, best)) (s0, b0) cs =
    (s, b)"
  shows "(s = s0 \<and> b = b0 \<or> s \<in> set cs \<and> b = manhattan s anchor \<and> b < b0) \<and> (\<forall>c \<in> set cs. b \<le> manhattan c anchor) \<and> b \<le> b0"
  using assms
proof (induction cs arbitrary: s0 b0)
  case (Cons c cs)
  show ?case
  proof (cases "manhattan c anchor < b0")
    case True
    then show ?thesis using Cons.IH [of c "manhattan c anchor"] Cons.prems by fastforce
  next
    case False
    then show ?thesis using Cons.IH [of s0 b0] Cons.prems by fastforce
  qed
qed simp

lemma nearest_mem: "cells \<noteq> [] \<Longrightarrow> nearest_seed anchor cells \<in> set cells"
proof -
  assume nonempty: "cells \<noteq> []"
  obtain s b where sb: "foldl (\<lambda>(seed, best) c. if manhattan c anchor < best then (c, manhattan c anchor) else (seed, best))
      (hd cells, 2147483647) cells = (s, b)" by fastforce
  from nearest_scan [OF sb] nonempty show ?thesis by (auto simp: nearest_seed_def sb)
qed

lemma nearest_minimal:
  assumes "\<forall>c \<in> set cells. manhattan c anchor < 2147483647" and "c \<in> set cells"
  shows "manhattan (nearest_seed anchor cells) anchor \<le> manhattan c anchor"
proof -
  obtain s b where sb: "foldl (\<lambda>(seed, best) c. if manhattan c anchor < best then (c, manhattan c anchor) else (seed, best))
      (hd cells, 2147483647) cells = (s, b)" by fastforce
  from nearest_scan [OF sb] assms show ?thesis by (fastforce simp: nearest_seed_def sb)
qed

section \<open>Properties\<close>

text \<open>A live box is always a box: for every configuration whose smoothing factor is not NaN and every sequence of
  observations (invalid ones, NaN, stamps that run backwards), a valid output has finite positive sides and height, a finite
  vertical centre and an axial yaw in the half-open interval from minus to plus a quarter turn.\<close>

theorem live_box_wf:
  assumes "lo_update_alpha c \<noteq> NaN" and "r \<in> set (run_outputs live_update (live_init c) vs)" and "lb_valid r"
  shows "\<exists>x y z h yaw. lb_size_long_short r = \<lparr>v2x = Fin x, v2y = Fin y\<rparr> \<and> 0 < x \<and> 0 < y \<and> lb_center_z r = Fin z \<and>
    lb_height_m r = Fin h \<and> 0 < h \<and> lb_yaw_base_rad r = Fin yaw \<and> - (pi / 2) \<le> yaw \<and> yaw < pi / 2"
proof -
  have "live_box_ok r" using live.run_contract [OF live_init_inv [OF assms(1)] assms(2)] .
  then show ?thesis
    using assms(3) by (cases "lb_size_long_short r") (auto simp: live_box_ok_def positive_def axial_angle_def isfinite_iff)
qed

definition demo_observation :: "real \<Rightarrow> real \<Rightarrow> live_observation" where
  "demo_observation x t =
     \<lparr>lv_valid = True, lv_size_long_short = \<lparr>v2x = Fin x, v2y = Fin 1\<rparr>, lv_yaw_base_rad = Fin 0, lv_center_z = Fin 0,
      lv_height_m = Fin 1, lv_stamp_sec = Fin t\<rparr>"

definition demo_live_config :: CargoLiveObbConfig where
  "demo_live_config = default_CargoLiveObbConfig\<lparr>lo_minimum_valid_frames := 1\<rparr>"

lemma demo_live_clamped: "live_clamp_config demo_live_config = demo_live_config"
  by (simp add: live_clamp_config_def demo_live_config_def default_CargoLiveObbConfig_def cpp_clamp_def cpp_max_def)

lemma demo_alpha: "lo_update_alpha demo_live_config = Fin 0.3"
  by (simp add: demo_live_config_def default_CargoLiveObbConfig_def)

lemma axial_of_zero [simp]: "axial 0 = 0"
  using axial_unique [of "axial 0" 0] axial_turns [of 0] axial_range [of 0] pi_gt_zero by force

lemma demo_summary: "summarizeCargoAxialYaw [Fin 0] =
    \<lparr>ay_valid = True, ay_mean_yaw_rad = Fin 0, ay_concentration = Fin 1, ay_maximum_deviation_rad = Fin 0,
     ay_sample_count = 1\<rparr>"
  by (simp add: summarizeCargoAxialYaw_def doubled_sum_def Let_def)

lemma demo_percentile [simp]: "percentile [Fin x] (Fin f) = Fin x"
proof -
  have "\<forall>y \<in> set [Fin x]. \<exists>r. y = Fin r \<and> x \<le> r \<and> r \<le> x" by simp
  from percentile_between [OF _ this, of f] show ?thesis by auto
qed

lemma demo_established: "lb_valid (lf_result (live_next (live_init demo_live_config) (demo_observation 2 1)))"
proof -
  let ?s = "live_push (live_init demo_live_config) (demo_observation 2 1)"
  have s: "lf_config ?s = demo_live_config" "lf_samples ?s = [live_sample_of (demo_observation 2 1)]"
    "lf_result ?s = default_CargoLiveObb"
    by (simp_all add: live_push_def live_init_def live_setConfig_def live_reset_def demo_live_clamped)
      (simp_all add: demo_live_config_def default_CargoLiveObbConfig_def)
  have p: "sp_valid (live_sample_of (demo_observation 2 1))" "sp_yaw (live_sample_of (demo_observation 2 1)) = Fin 0"
    by (simp_all add: live_sample_of_def demo_observation_def vec2_allFinite_def cpp_min_def)
  have "live_concentrated demo_live_config (summarizeCargoAxialYaw [Fin 0])"
    "lo_minimum_valid_frames demo_live_config = 1" "lo_establishment_window_frames demo_live_config = 5"
    using pi_gt_zero
    by (simp_all add: live_concentrated_def demo_summary demo_live_config_def default_CargoLiveObbConfig_def)
  then show ?thesis
    by (simp add: live_next_def s p Let_def recent_valid_def live_refine_def default_CargoLiveObb_def)
qed

theorem live_box_wf_witness:
  "\<exists>x y z h yaw. lb_size_long_short (lf_result (live_next (live_init demo_live_config) (demo_observation 2 1))) =
      \<lparr>v2x = Fin x, v2y = Fin y\<rparr> \<and> 0 < x \<and> 0 < y \<and>
    lb_center_z (lf_result (live_next (live_init demo_live_config) (demo_observation 2 1))) = Fin z \<and>
    lb_height_m (lf_result (live_next (live_init demo_live_config) (demo_observation 2 1))) = Fin h \<and> 0 < h \<and>
    lb_yaw_base_rad (lf_result (live_next (live_init demo_live_config) (demo_observation 2 1))) = Fin yaw \<and>
    - (pi / 2) \<le> yaw \<and> yaw < pi / 2"
  by (rule live_box_wf [of demo_live_config _ "[demo_observation 2 1]"])
    (simp_all add: demo_established demo_alpha)

text \<open>The live box cannot jump: as long as the box stays valid and time does not run backwards, one update changes each side
  by at most the configured step, whatever is observed, in every state a run can reach. A merged wall or an isolated return therefore
  needs as many frames as its excess is steps long.\<close>

theorem live_box_rate_limited:
  assumes "lo_update_alpha c \<noteq> NaN" and "s = run_state live_update (live_init c) vs"
    and "lb_valid (lf_result s)" and "lb_valid (snd (live_update s v))"
    and "isfinite (lv_stamp_sec v)" and "\<not> lv_stamp_sec v + Fin 0.000001 < sp_stamp_sec (last (lf_samples s))"
  shows "\<exists>x x' y y'. lb_size_long_short (lf_result s) = \<lparr>v2x = Fin x, v2y = Fin y\<rparr> \<and>
    lb_size_long_short (snd (live_update s v)) = \<lparr>v2x = Fin x', v2y = Fin y'\<rparr> \<and>
    Fin \<bar>x' - x\<bar> \<le> lo_maximum_size_step_m (live_clamp_config c) \<and>
    Fin \<bar>y' - y\<bar> \<le> lo_maximum_size_step_m (live_clamp_config c)"
proof -
  have inv: "live_inv s" using live.run_inv [OF live_init_inv [OF assms(1)]] assms(2) by simp
  have "lf_config s = live_clamp_config c" using live_run_established assms(2) by blast
  then have "size_near (lo_maximum_size_step_m (live_clamp_config c)) (lf_result s) (lf_result (live_next s v))"
    using live_next_near [OF inv assms(3) _ assms(5,6)] assms(4) by simp
  then show ?thesis
    unfolding live_update_simps size_near_def
    by (cases "lb_size_long_short (lf_result s)"; cases "lb_size_long_short (lf_result (live_next s v))") auto
qed

lemma demo_last: "lf_samples (live_next (live_init demo_live_config) (demo_observation 2 1)) =
    [live_sample_of (demo_observation 2 1)]"
proof -
  have "lf_samples (live_push (live_init demo_live_config) (demo_observation 2 1)) = [live_sample_of (demo_observation 2 1)]"
    by (simp add: live_push_def live_init_def live_setConfig_def live_reset_def demo_live_clamped)
      (simp add: demo_live_config_def default_CargoLiveObbConfig_def)
  then show ?thesis by (simp add: live_next_def live_refine_kept Let_def)
qed

text \<open>A live box rests on evidence: after any sequence of observations the box is valid only if somewhere in it a window no longer
  than the establishment window holds at least the required number of valid observations (finite, with positive
  measures). A box cannot be talked into existence by holding, by resets or by invalid frames.\<close>

theorem live_box_established:
  assumes "lb_valid (lf_result (run_state live_update (live_init c) vs))"
  shows "\<exists>before window after. vs = before @ window @ after \<and>
    length window \<le> lo_establishment_window_frames (live_clamp_config c) \<and>
    lo_minimum_valid_frames (live_clamp_config c) \<le> length (filter (sp_valid \<circ> live_sample_of) window) \<and>
    1 \<le> lo_minimum_valid_frames (live_clamp_config c)"
proof -
  have "1 \<le> lo_minimum_valid_frames (live_clamp_config c)" by (simp add: live_clamp_config_def Let_def) (simp add: cpp_clamp_def le_max_iff_disj)
  then show ?thesis using live_run_established [of c vs] assms unfolding established_by_def by blast
qed

theorem live_box_established_witness:
  "\<exists>before window after. [demo_observation 2 1] = before @ window @ after \<and>
    length window \<le> lo_establishment_window_frames (live_clamp_config demo_live_config) \<and>
    lo_minimum_valid_frames (live_clamp_config demo_live_config) \<le> length (filter (sp_valid \<circ> live_sample_of) window) \<and>
    1 \<le> lo_minimum_valid_frames (live_clamp_config demo_live_config)"
  by (rule live_box_established) (simp add: demo_established)

lemma refine_stays_valid: "lb_valid (lf_result s) \<Longrightarrow> lb_valid (lf_result (live_refine s summary stamp))"
  by (simp add: live_refine_def Let_def)

lemma demo_sample: "sp_valid (live_sample_of (demo_observation 2 t))" "sp_yaw (live_sample_of (demo_observation 2 t)) = Fin 0"
  "sp_stamp_sec (live_sample_of (demo_observation 2 t)) = Fin t"
  by (simp_all add: live_sample_of_def demo_observation_def vec2_allFinite_def cpp_min_def)

lemma demo_stamp: "lv_stamp_sec (demo_observation x t) = Fin t"
  by (simp add: demo_observation_def)

lemma demo_grown: "lb_valid (lf_result (live_next (live_next (live_init demo_live_config) (demo_observation 2 1))
    (demo_observation 2 2)))"
proof -
  let ?s = "live_next (live_init demo_live_config) (demo_observation 2 1)"
  let ?t = "live_push ?s (demo_observation 2 2)"
  have config: "lf_config ?s = demo_live_config"
    using live_run_established [of demo_live_config "[demo_observation 2 1]"] by (simp add: demo_live_clamped)
  have t: "lf_config ?t = demo_live_config" "lf_result ?t = lf_result ?s"
    "lf_samples ?t = [live_sample_of (demo_observation 2 1), live_sample_of (demo_observation 2 2)]"
    unfolding live_push_def Let_def
    by (simp_all add: demo_last config demo_sample demo_observation_def [of _ 2] live_reset_def)
      (simp add: demo_live_config_def default_CargoLiveObbConfig_def)
  have "live_concentrated demo_live_config (summarizeCargoAxialYaw [Fin 0, Fin 0])"
    using pi_gt_zero by (simp add: live_concentrated_def summarizeCargoAxialYaw_def doubled_sum_def demo_live_config_def
        default_CargoLiveObbConfig_def Let_def)
  moreover have "lo_minimum_valid_frames demo_live_config = 1" "lo_establishment_window_frames demo_live_config = 5"
    by (simp_all add: demo_live_config_def default_CargoLiveObbConfig_def)
  ultimately show ?thesis
    using refine_stays_valid [of ?t] demo_established by (simp add: live_next_def [of ?s] t demo_sample recent_valid_def Let_def)
qed

theorem live_box_rate_limited_witness:
  "\<exists>x x' y y'. lb_size_long_short (lf_result (live_next (live_init demo_live_config) (demo_observation 2 1))) =
      \<lparr>v2x = Fin x, v2y = Fin y\<rparr> \<and>
    lb_size_long_short (snd (live_update (live_next (live_init demo_live_config) (demo_observation 2 1)) (demo_observation 2 2))) =
      \<lparr>v2x = Fin x', v2y = Fin y'\<rparr> \<and>
    Fin \<bar>x' - x\<bar> \<le> lo_maximum_size_step_m (live_clamp_config demo_live_config) \<and>
    Fin \<bar>y' - y\<bar> \<le> lo_maximum_size_step_m (live_clamp_config demo_live_config)"
  by (rule live_box_rate_limited [of demo_live_config _ "[demo_observation 2 1]"])
    (simp_all add: demo_alpha demo_established demo_grown demo_last demo_sample demo_stamp)

text \<open>The yaw statistics are axial: turning any of the finite samples by any number of half turns changes nothing in the
  summary, so a box seen from its other end, or a sample at plus instead of minus a quarter turn, has the same mean, the same
  concentration and the same largest deviation.\<close>

theorem axial_summary_turns:
  assumes "list_all2 (\<lambda>a b. \<exists>k::int. b = a + of_int k * pi) xs ys"
  shows "summarizeCargoAxialYaw (map Fin xs) = summarizeCargoAxialYaw (map Fin ys)"
proof -
  have trig: "cos (2 * (a + of_int k * pi)) = cos (2 * a)" "sin (2 * (a + of_int k * pi)) = sin (2 * a)" for a k
  proof -
    have "2 * (a + of_int k * pi) = 2 * a + 2 * pi * of_int k" by (simp add: algebra_simps)
    then show "cos (2 * (a + of_int k * pi)) = cos (2 * a)" "sin (2 * (a + of_int k * pi)) = sin (2 * a)"
      by (simp_all only: cos_add sin_add cos_int_2pin sin_int_2pin mult_1_right mult_zero_right diff_zero add_0_right)
  qed
  have sums: "foldl (\<lambda>total y. total + f (Fin 2 * y)) z (map Fin xs) = foldl (\<lambda>total y. total + f (Fin 2 * y)) z (map Fin ys)"
    if "f = dcos \<or> f = dsin" for f z
    using assms
  proof (induction xs ys arbitrary: z rule: list_all2_induct)
    case (Cons x xs y ys)
    then obtain k :: int where "y = x + of_int k * pi" by blast
    then have "f (Fin 2 * Fin y) = f (Fin 2 * Fin x)" using that trig by auto
    then show ?case using Cons by simp
  qed simp
  have deviations: "foldl (\<lambda>most y. cpp_max most \<bar>normalizeCargoAxialYaw (y - m)\<bar>) z (map Fin xs) =
      foldl (\<lambda>most y. cpp_max most \<bar>normalizeCargoAxialYaw (y - m)\<bar>) z (map Fin ys)" for m z
    using assms
  proof (induction xs ys arbitrary: z rule: list_all2_induct)
    case (Cons x xs y ys)
    then obtain k :: int where k: "y = x + of_int k * pi" by blast
    have "normalizeCargoAxialYaw (Fin y - m) = normalizeCargoAxialYaw (Fin x - m)"
    proof (cases m)
      case (Fin r)
      have "axial (x - r + of_int k * pi) = axial (x - r)" by (rule axial_shift_turns)
      then show ?thesis unfolding k Fin by (simp add: algebra_simps)
    qed (simp_all add: minus_dbl_def)
    then show ?case using Cons by simp
  qed simp
  have finite: "filter isfinite (map Fin zs) = map Fin zs" for zs by (simp add: filter_map o_def)
  have same: "length xs = length ys" "xs = [] \<longleftrightarrow> ys = []" using list_all2_lengthD [OF assms] by auto
  show ?thesis
    using sums deviations same
    by (simp add: summarizeCargoAxialYaw_def doubled_sum_def finite Let_def)
qed

theorem axial_summary_turns_witness:
  "summarizeCargoAxialYaw [Fin 0, Fin 1] = summarizeCargoAxialYaw [Fin pi, Fin 1]"
proof -
  have "\<exists>k::int. pi = 0 + of_int k * pi" by (rule exI [of _ 1]) simp
  moreover have "\<exists>k::int. (1::real) = 1 + of_int k * pi" by (rule exI [of _ 0]) simp
  ultimately have "list_all2 (\<lambda>a b. \<exists>k::int. b = a + of_int k * pi) [0, 1] [pi, 1]" by simp
  from axial_summary_turns [OF this] show ?thesis by simp
qed

lemma footprint_extents_bounds:
  assumes "footprint_validConfig c" and "isfinite (of_eigenvalue_ratio r0)" and "\<not> of_valid r0"
    and "of_valid (footprint_extents c ps centroid strong r0)"
  shows "let r = footprint_extents c ps centroid strong r0 in
    of_finite_points r = of_finite_points r0 \<and> of_eigenvalue_ratio r = of_eigenvalue_ratio r0 \<and>
    of_minimum_long_side_m c \<le> v2x (of_size_long_short r) \<and> v2x (of_size_long_short r) \<le> of_maximum_long_side_m c \<and>
    of_minimum_short_side_m c \<le> v2y (of_size_long_short r) \<and> v2y (of_size_long_short r) \<le> of_maximum_short_side_m c \<and>
    v2y (of_size_long_short r) \<le> v2x (of_size_long_short r) \<and> axial_angle (of_yaw_base_rad r) \<and>
    Fin 0 \<le> of_orientation_confidence r \<and> of_orientation_confidence r \<le> Fin 1 \<and>
    of_minimum_geometric_aspect_ratio c \<le> of_geometric_aspect_ratio r + Fin 0.000001"
proof -
  obtain a A b B e g where c: "of_minimum_long_side_m c = Fin a" "of_maximum_long_side_m c = Fin A" "a \<le> A"
      "of_minimum_short_side_m c = Fin b" "of_maximum_short_side_m c = Fin B" "b \<le> B"
      "of_minimum_eigenvalue_ratio c = Fin e" "of_minimum_geometric_aspect_ratio c = Fin g" "isfinite (of_margin_m c)"
    using assms(1) unfolding footprint_validConfig_def isfinite_iff by auto
  have clamp: "\<exists>v. cpp_clamp (Fin x) (Fin lo) (Fin hi) = Fin v \<and> lo \<le> v \<and> v \<le> hi" if "lo \<le> hi" for x lo hi
    using that by (simp add: cpp_clamp_def)
  have conf: "\<exists>k. cpp_min (ratio_confidence x (Fin e)) (ratio_confidence y (Fin g)) = Fin k \<and> 0 \<le> k \<and> k \<le> 1"
    if "isfinite x" "isfinite y" for x y
    using ratio_confidence_unit [OF that(1), of "Fin e"] ratio_confidence_unit [OF that(2), of "Fin g"] by auto
  define axis where "axis = vec2_div strong (vec2_norm strong)"
  define ortho where "ortho = \<lparr>v2x = - v2y axis, v2y = v2x axis\<rparr>"
  define low high slow shigh where "low = percentile (map (\<lambda>p. vec2_dot (vec2_sub p centroid) axis) ps) (of_percentile_low c)"
    and "high = percentile (map (\<lambda>p. vec2_dot (vec2_sub p centroid) axis) ps) (of_percentile_high c)"
    and "slow = percentile (map (\<lambda>p. vec2_dot (vec2_sub p centroid) ortho) ps) (of_percentile_low c)"
    and "shigh = percentile (map (\<lambda>p. vec2_dot (vec2_sub p centroid) ortho) ps) (of_percentile_high c)"
  note form = footprint_extents_def [of c ps centroid strong r0, unfolded Let_def, folded axis_def, folded ortho_def,
      folded low_def high_def slow_def shigh_def]
  have fin: "isfinite low" "isfinite high" "isfinite slow" "isfinite shigh"
    by (rule ccontr, use assms(3,4) form in simp)+
  obtain l0 s0 where raw: "high - low + Fin 2 * of_margin_m c = Fin l0" "shigh - slow + Fin 2 * of_margin_m c = Fin s0"
    using fin c(9) by (auto simp: isfinite_iff)
  define l s where "l = max l0 s0" and "s = min l0 s0"
  have sides: "(if Fin l0 < Fin s0 then Fin s0 else Fin l0) = Fin l" "(if Fin l0 < Fin s0 then Fin l0 else Fin s0) = Fin s"
    by (simp_all add: l_def s_def)
  define aspect where "aspect = Fin l / cpp_max (Fin s) (Fin 0.000001)"
  note form' = form [unfolded raw, unfolded sides, folded aspect_def]
  have aspect: "isfinite aspect" "\<not> aspect + Fin 0.000001 < Fin g"
    by (rule ccontr, use assms(3,4) form' fin c in simp)+
  obtain lc sc where clamped: "cpp_clamp (Fin l) (Fin a) (Fin A) = Fin lc" "a \<le> lc" "lc \<le> A"
      "cpp_clamp (Fin s) (Fin b) (Fin B) = Fin sc" "b \<le> sc" "sc \<le> B"
    using clamp [OF c(3), of l] clamp [OF c(6), of s] by blast
  have order: "\<not> lc < sc"
    by (rule ccontr) (use assms(3,4) form' fin c aspect clamped in simp)
  have ge: "Fin g \<le> aspect + Fin 0.000001" using aspect by (auto simp: isfinite_iff)
  obtain k where k: "cpp_min (ratio_confidence (of_eigenvalue_ratio r0) (Fin e)) (ratio_confidence aspect (Fin g)) = Fin k"
      "0 \<le> k" "k \<le> 1"
    using conf [OF assms(2) aspect(1)] by blast
  show ?thesis
    unfolding Let_def form' using fin c aspect clamped order ge k by (simp add: not_less)
qed

lemma estimate_from:
  assumes "of_valid (estimateCargoOrientedFootprint solver points c)"
  shows "footprint_validConfig c \<and> of_minimum_points c \<le> length (filter vec2_allFinite points) \<and>
    (\<exists>centroid strong ratio. isfinite ratio \<and> \<not> ratio < of_minimum_eigenvalue_ratio c \<and>
      estimateCargoOrientedFootprint solver points c =
        footprint_extents c (filter vec2_allFinite points) centroid strong
          (default_CargoOrientedFootprint\<lparr>of_finite_points := length (filter vec2_allFinite points),
             of_eigenvalue_ratio := ratio\<rparr>))"
proof -
  note form = estimateCargoOrientedFootprint_def [of solver points c, unfolded Let_def]
  have invalid [simp]: "\<not> of_valid (default_CargoOrientedFootprint\<lparr>of_finite_points := n, of_reason := x\<rparr>)"
    "\<not> of_valid (default_CargoOrientedFootprint\<lparr>of_reason := x\<rparr>)"
    "\<not> of_valid (default_CargoOrientedFootprint\<lparr>of_finite_points := n, of_eigenvalue_ratio := q, of_reason := x\<rparr>)" for n q x
    by (simp_all add: default_CargoOrientedFootprint_def)
  have config: "footprint_validConfig c" by (rule ccontr) (use assms form in simp)
  have points: "\<not> length (filter vec2_allFinite points) < of_minimum_points c"
    by (rule ccontr) (use assms form config in simp)
  show ?thesis
    using assms points unfolding form
    by (simp add: config split: if_splits option.splits) blast
qed

text \<open>The robust box obeys its configuration whatever the cloud and whatever the eigensolver return: a valid estimate was made from a
  valid configuration and enough finite points, its long and short sides lie between the configured minima and maxima with
  the long one not shorter, its yaw is axial, its confidence lies between zero and one, and both the eigenvalue ratio and
  the aspect ratio reach their minima.\<close>

theorem robust_box_bounds:
  assumes "of_valid (estimateCargoOrientedFootprint solver points c)"
  shows "let r = estimateCargoOrientedFootprint solver points c in
    footprint_validConfig c \<and> of_minimum_points c \<le> length (filter vec2_allFinite points) \<and>
    of_finite_points r = length (filter vec2_allFinite points) \<and>
    of_minimum_long_side_m c \<le> v2x (of_size_long_short r) \<and> v2x (of_size_long_short r) \<le> of_maximum_long_side_m c \<and>
    of_minimum_short_side_m c \<le> v2y (of_size_long_short r) \<and> v2y (of_size_long_short r) \<le> of_maximum_short_side_m c \<and>
    v2y (of_size_long_short r) \<le> v2x (of_size_long_short r) \<and> axial_angle (of_yaw_base_rad r) \<and>
    Fin 0 \<le> of_orientation_confidence r \<and> of_orientation_confidence r \<le> Fin 1 \<and>
    of_minimum_eigenvalue_ratio c \<le> of_eigenvalue_ratio r \<and>
    of_minimum_geometric_aspect_ratio c \<le> of_geometric_aspect_ratio r + Fin 0.000001"
proof -
  let ?r = "estimateCargoOrientedFootprint solver points c"
  obtain centroid strong ratio where r: "isfinite ratio" "\<not> ratio < of_minimum_eigenvalue_ratio c"
      "?r = footprint_extents c (filter vec2_allFinite points) centroid strong
        (default_CargoOrientedFootprint\<lparr>of_finite_points := length (filter vec2_allFinite points), of_eigenvalue_ratio := ratio\<rparr>)"
    and config: "footprint_validConfig c" and points: "of_minimum_points c \<le> length (filter vec2_allFinite points)"
    using estimate_from [OF assms] by blast
  have "of_minimum_eigenvalue_ratio c \<le> ratio"
    using r(1,2) config by (auto simp: footprint_validConfig_def isfinite_iff)
  then show ?thesis unfolding Let_def r(3)
    using footprint_extents_bounds [OF config _ _ assms [unfolded r(3)]] r(1) config points
    by (simp add: Let_def) (simp add: default_CargoOrientedFootprint_def)
qed

definition demo_solver :: eigen_solver where
  "demo_solver xx xy yy =
     Some \<lparr>eg_weak = Fin 1, eg_strong = Fin 1, eg_vector_weak = \<lparr>v2x = Fin 0, v2y = Fin 1\<rparr>,
       eg_vector_strong = \<lparr>v2x = Fin 1, v2y = Fin 0\<rparr>\<rparr>"

definition demo_box_config :: CargoOrientedFootprintConfig where
  "demo_box_config =
     default_CargoOrientedFootprintConfig
       \<lparr>of_minimum_points := 3, of_minimum_geometric_aspect_ratio := Fin 1, of_minimum_eigenvalue_ratio := Fin 1\<rparr>"

lemma percentile_const: "values \<noteq> [] \<Longrightarrow> \<forall>y \<in> set values. y = Fin x \<Longrightarrow> percentile values (Fin f) = Fin x"
  using percentile_between [of "values" x x f] by force

lemma demo_box_valid: "of_valid (estimateCargoOrientedFootprint demo_solver (replicate 3 vec2_zero) demo_box_config)"
proof -
  have three: "replicate 3 vec2_zero = [vec2_zero, vec2_zero, vec2_zero]" by (simp add: numeral_3_eq_3)
  have all: "percentile [Fin 0, Fin 0, Fin 0] (Fin f) = Fin 0" for f by (rule percentile_const) simp_all
  have config: "footprint_validConfig demo_box_config"
    by (simp add: footprint_validConfig_def demo_box_config_def default_CargoOrientedFootprintConfig_def)
  have core: "robust_covariance_points [vec2_zero, vec2_zero, vec2_zero] = [vec2_zero, vec2_zero, vec2_zero]"
    by (simp add: robust_covariance_points_def all vec2_zero_def squared_distance_def vec2_dot_def vec2_sub_def Let_def)
  have centroid: "vec2_div (foldl vec2_add vec2_zero [vec2_zero, vec2_zero, vec2_zero]) (Fin (real 3)) = vec2_zero"
    by (simp add: vec2_div_def vec2_add_def vec2_zero_def)
  have flat: "covariance_entry a b vec2_zero [vec2_zero, vec2_zero, vec2_zero] = Fin 0" if "a \<in> {v2x, v2y}" "b \<in> {v2x, v2y}" for a b
    using that by (auto simp: covariance_entry_def vec2_sub_def vec2_zero_def)
  have numbers: "of_minimum_points demo_box_config = 3" "of_minimum_eigenvalue_ratio demo_box_config = Fin 1"
    "of_minimum_geometric_aspect_ratio demo_box_config = Fin 1" "of_margin_m demo_box_config = Fin 0.1"
    "of_minimum_long_side_m demo_box_config = Fin 0.6" "of_maximum_long_side_m demo_box_config = Fin 2.5"
    "of_minimum_short_side_m demo_box_config = Fin 0.4" "of_maximum_short_side_m demo_box_config = Fin 1.6"
    "of_percentile_low demo_box_config = Fin 0.03" "of_percentile_high demo_box_config = Fin 0.97"
    by (simp_all add: demo_box_config_def default_CargoOrientedFootprintConfig_def)
  have projected: "vec2_dot (vec2_sub vec2_zero vec2_zero) \<lparr>v2x = Fin x, v2y = Fin y\<rparr> = Fin 0" for x y
    by (simp add: vec2_dot_def vec2_sub_def vec2_zero_def)
  have axis: "vec2_div \<lparr>v2x = Fin 1, v2y = Fin 0\<rparr> (vec2_norm \<lparr>v2x = Fin 1, v2y = Fin 0\<rparr>) = \<lparr>v2x = Fin 1, v2y = Fin 0\<rparr>"
    by (simp add: vec2_div_def vec2_norm_def)
  have extents: "of_valid (footprint_extents demo_box_config [vec2_zero, vec2_zero, vec2_zero] vec2_zero
      \<lparr>v2x = Fin 1, v2y = Fin 0\<rparr> r0)" for r0
    unfolding footprint_extents_def axis numbers Let_def vec2.simps
    by (simp add: projected all cpp_clamp_def)
  have finite: "filter vec2_allFinite [vec2_zero, vec2_zero, vec2_zero] = [vec2_zero, vec2_zero, vec2_zero]"
    by (simp add: vec2_allFinite_def vec2_zero_def)
  have len: "length [vec2_zero, vec2_zero, vec2_zero] = 3" by simp
  have solved: "demo_solver (Fin 0) (Fin 0) (Fin 0) = Some \<lparr>eg_weak = Fin 1, eg_strong = Fin 1,
      eg_vector_weak = \<lparr>v2x = Fin 0, v2y = Fin 1\<rparr>, eg_vector_strong = \<lparr>v2x = Fin 1, v2y = Fin 0\<rparr>\<rparr>"
    by (simp add: demo_solver_def)
  show ?thesis
    unfolding estimateCargoOrientedFootprint_def three Let_def finite core len numbers centroid
    by (simp add: config flat solved extents vec2_allFinite_def del: foldl_Cons)
qed

theorem robust_box_bounds_witness:
  "of_minimum_long_side_m demo_box_config \<le>
     v2x (of_size_long_short (estimateCargoOrientedFootprint demo_solver (replicate 3 vec2_zero) demo_box_config))"
  using robust_box_bounds [OF demo_box_valid] by (simp add: Let_def)

text \<open>The supported cells of a cloud and the extent of a cell seen along an axis.\<close>

definition cloud_cells :: "CargoAnchorGridFootprintConfig \<Rightarrow> vec2 list \<Rightarrow> cell list" where
  "cloud_cells c points = supported_cells (remdups (map (grid_cell (ag_cell_size_m c)) (filter vec2_allFinite points)))"

definition cell_extent :: "CargoAnchorGridFootprintConfig \<Rightarrow> vec2 \<Rightarrow> vec2 \<Rightarrow> cell \<Rightarrow> dbl" where
  "cell_extent c anchor axis cell =
     Fin 2 * (\<bar>vec2_dot (vec2_sub (cell_center (ag_cell_size_m c) cell) anchor) axis\<bar> + Fin 0.707107 * ag_cell_size_m c +
       ag_margin_m c)"

lemma half_extent_covers:
  assumes "vec2_allFinite anchor" and "ag_cell_size_m c = Fin e" and "axis = \<lparr>v2x = Fin ax, v2y = Fin ay\<rparr>"
    and "isfinite (Fin 2 * (half_extent anchor axis (ag_cell_size_m c) cells + Fin 0.707107 * ag_cell_size_m c + ag_margin_m c))"
    and "cell \<in> set cells"
  shows "cell_extent c anchor axis cell \<le>
    Fin 2 * (half_extent anchor axis (ag_cell_size_m c) cells + Fin 0.707107 * ag_cell_size_m c + ag_margin_m c)"
proof -
  obtain x y where anchor: "anchor = \<lparr>v2x = Fin x, v2y = Fin y\<rparr>"
    using assms(1) by (cases anchor) (auto simp: vec2_allFinite_def isfinite_iff)
  have dot: "\<exists>r. \<bar>vec2_dot (vec2_sub (cell_center (ag_cell_size_m c) k) anchor) axis\<bar> = Fin r" for k
    by (simp add: anchor assms(2,3) cell_center_def vec2_sub_def vec2_dot_def)
  obtain m where m: "half_extent anchor axis (ag_cell_size_m c) cells = Fin m"
      "\<bar>vec2_dot (vec2_sub (cell_center (ag_cell_size_m c) cell) anchor) axis\<bar> \<le> Fin m"
    using max_fold_ge [of cells "\<lambda>k. \<bar>vec2_dot (vec2_sub (cell_center (ag_cell_size_m c) k) anchor) axis\<bar>" "Fin 0" 0] dot assms(5)
    unfolding half_extent_def by blast
  obtain r where r: "\<bar>vec2_dot (vec2_sub (cell_center (ag_cell_size_m c) cell) anchor) axis\<bar> = Fin r" using dot by blast
  have margin: "isfinite (ag_margin_m c)"
    using assms(2,4) m(1) by (cases "ag_margin_m c") (simp_all add: times_dbl_def signed_inf_def)
  then obtain g where "ag_margin_m c = Fin g" by (auto simp: isfinite_iff)
  then show ?thesis using m(2) unfolding cell_extent_def r m(1) by (simp add: assms(2))
qed

lemma refine_from:
  assumes "ag_valid (refineCargoAnchorGridFootprint iteration points anchor yaw robust c)"
  shows "let cells = cloud_cells c points; seed = nearest_seed (grid_cell (ag_cell_size_m c) anchor) (iteration cells);
      component = fill (neighbours 2) cells seed; e = Fin 0.707107 * ag_cell_size_m c;
      long_axis = \<lparr>v2x = dcos yaw, v2y = dsin yaw\<rparr>; short_axis = \<lparr>v2x = - dsin yaw, v2y = dcos yaw\<rparr>;
      len = Fin 2 * (half_extent anchor long_axis (ag_cell_size_m c) (iteration component) + e + ag_margin_m c);
      width = Fin 2 * (half_extent anchor short_axis (ag_cell_size_m c) (iteration component) + e + ag_margin_m c);
      long_cap = cpp_min (ag_maximum_long_side_m c) (v2x robust * ag_maximum_growth_ratio c);
      short_cap = cpp_min (ag_maximum_short_side_m c) (v2y robust * ag_maximum_growth_ratio c);
      r = refineCargoAnchorGridFootprint iteration points anchor yaw robust c in
    vec2_allFinite anchor \<and> isfinite yaw \<and> isfinite (ag_cell_size_m c) \<and> 0 < ag_minimum_component_cells c \<and>
    ag_minimum_component_cells c \<le> length cells \<and> ag_minimum_component_cells c \<le> length component \<and>
    ag_component_cells r = length component \<and> (ag_clamped r \<longleftrightarrow> long_cap < len \<or> short_cap < width) \<and>
    ag_size_long_short r = \<lparr>v2x = cpp_min len long_cap, v2y = cpp_min width short_cap\<rparr> \<and>
    isfinite (cpp_min len long_cap) \<and> isfinite (cpp_min width short_cap) \<and>
    \<not> cpp_min len long_cap \<le> Fin 0 \<and> \<not> cpp_min width short_cap \<le> Fin 0"
  using assms unfolding refineCargoAnchorGridFootprint_def Let_def cloud_cells_def [symmetric] vec2.simps
  by (simp add: not_less split: if_split_asm)


definition demo_grid :: CargoAnchorGridFootprintConfig where
  "demo_grid =
     \<lparr>ag_cell_size_m = Fin 1, ag_margin_m = Fin 0, ag_maximum_growth_ratio = Fin 1, ag_maximum_long_side_m = Fin 10,
      ag_maximum_short_side_m = Fin 10, ag_minimum_component_cells = 2\<rparr>"

definition demo_points :: "vec2 list" where
  "demo_points = [\<lparr>v2x = Fin 0.5, v2y = Fin 0.5\<rparr>, \<lparr>v2x = Fin 1.5, v2y = Fin 0.5\<rparr>]"

lemma demo_offsets: "offsets 1 = [(- 1, - 1), (- 1, 0), (- 1, 1), (0, - 1), (0, 1), (1, - 1), (1, 0), (1, 1)]"
  "offsets 2 = [(- 2, - 2), (- 2, - 1), (- 2, 0), (- 2, 1), (- 2, 2), (- 1, - 2), (- 1, - 1), (- 1, 0), (- 1, 1), (- 1, 2),
     (0, - 2), (0, - 1), (0, 1), (0, 2), (1, - 2), (1, - 1), (1, 0), (1, 1), (1, 2), (2, - 2), (2, - 1), (2, 0), (2, 1), (2, 2)]"
  by code_simp+

lemma demo_cells: "cloud_cells demo_grid demo_points = [(0, 0), (1, 0)]"
  by (simp add: cloud_cells_def demo_grid_def demo_points_def grid_cell_def floor_int_def supported_cells_def neighbours_def
      demo_offsets vec2_allFinite_def)

lemma demo_component: "fill (neighbours 2) [(0, 0), (1, 0)] (0, 0) = [(0, 0), (1, 0)]"
  by (simp add: fill_def flood.simps(2) neighbours_def demo_offsets Let_def)

lemma demo_refined: "ag_valid (refineCargoAnchorGridFootprint id demo_points \<lparr>v2x = Fin 0.5, v2y = Fin 0.5\<rparr> (Fin 0)
    \<lparr>v2x = Fin 10, v2y = Fin 10\<rparr> demo_grid)"
proof -
  have occupied: "remdups (map (grid_cell (ag_cell_size_m demo_grid)) (filter vec2_allFinite demo_points)) = [(0, 0), (1, 0)]"
    by (simp add: demo_grid_def demo_points_def grid_cell_def floor_int_def vec2_allFinite_def)
  have supported: "supported_cells [(0, 0), (1, 0)] = [(0, 0), (1, 0)]"
    by (simp add: supported_cells_def neighbours_def demo_offsets)
  have seed: "nearest_seed (grid_cell (ag_cell_size_m demo_grid) \<lparr>v2x = Fin 0.5, v2y = Fin 0.5\<rparr>) [(0, 0), (1, 0)] = (0, 0)"
    by (simp add: nearest_seed_def demo_grid_def grid_cell_def floor_int_def manhattan_def)
  show ?thesis
    unfolding refineCargoAnchorGridFootprint_def Let_def occupied id_apply supported seed demo_component
    by (simp add: half_extent_def demo_grid_def vec2_allFinite_def cell_center_def vec2_dot_def vec2_sub_def)
qed


end
