(* ===== verification/Track_Policy.thy ===== *)
theory Track_Policy
  imports Oriented_Footprint Hook_Load_Policy
begin

text \<open>
  The policy of the cargo track (\<^verbatim>\<open>cargo_track_policy.hpp/.cpp\<close>): which evidence may lock the cargo, when a retired
  lock may be rearmed, how candidates are scored and ranked, whether a detection belongs to the predicted box, which
  centre is the reference, how well the points support the frozen box, when a provisional track becomes a formal lock, and
  where the bottom is when only the top is seen. All functions are pure.
\<close>

section \<open>Physical authority to lock\<close>

datatype CargoLockAuthoritySource = NONE | GRAVITY_LOADED | LIDAR_SUSPENDED | LIFT_FROM_ORIGIN

fun cargoLockAuthoritySourceName :: "CargoLockAuthoritySource \<Rightarrow> string" where
  "cargoLockAuthoritySourceName CargoLockAuthoritySource.NONE = ''NONE''"
| "cargoLockAuthoritySourceName GRAVITY_LOADED = ''GRAVITY_LOADED''"
| "cargoLockAuthoritySourceName LIDAR_SUSPENDED = ''LIDAR_SUSPENDED''"
| "cargoLockAuthoritySourceName LIFT_FROM_ORIGIN = ''LIFT_FROM_ORIGIN''"

record CargoPhysicalLockAuthorityInput =
  pl_signal_role :: HookLoadSignalRole
  pl_gravity_valid :: bool
  pl_gravity_state :: HookLoadState
  pl_ground_clearance_m :: dbl
  pl_minimum_ground_clearance_m :: dbl
  pl_lift_from_origin_m :: dbl
  pl_minimum_lift_from_origin_m :: dbl
  pl_suspension_confirm_frames :: int
  pl_lift_confirm_frames :: int
  pl_required_lidar_confirm_frames :: int

record CargoPhysicalLockAuthorityDecision =
  pk_allowed :: bool
  pk_source :: CargoLockAuthoritySource
  pk_gravity_conflict :: bool
  pk_reason :: string

definition evaluateCargoPhysicalLockAuthority ::
  "CargoPhysicalLockAuthorityInput \<Rightarrow> CargoPhysicalLockAuthorityDecision" where
  "evaluateCargoPhysicalLockAuthority i =
     (let loaded = (pl_gravity_valid i \<and> pl_gravity_state i = HookLoadState.LOADED);
          empty = (pl_gravity_valid i \<and> pl_gravity_state i = HookLoadState.EMPTY);
          required = cpp_max 1 (pl_required_lidar_confirm_frames i);
          suspended = (isfinite (pl_ground_clearance_m i) \<and>
            pl_minimum_ground_clearance_m i \<le> pl_ground_clearance_m i \<and> required \<le> pl_suspension_confirm_frames i);
          lifted = (isfinite (pl_lift_from_origin_m i) \<and>
            pl_minimum_lift_from_origin_m i \<le> pl_lift_from_origin_m i \<and> required \<le> pl_lift_confirm_frames i) in
      if loaded \<and> pl_signal_role i \<noteq> HookLoadSignalRole.DISABLED
      then \<lparr>pk_allowed = True, pk_source = GRAVITY_LOADED, pk_gravity_conflict = False, pk_reason = ''gravity_loaded''\<rparr>
      else if pl_signal_role i = HookLoadSignalRole.REQUIRED
      then \<lparr>pk_allowed = False, pk_source = CargoLockAuthoritySource.NONE, pk_gravity_conflict = False,
            pk_reason = ''required_gravity_not_loaded''\<rparr>
      else if lifted
      then \<lparr>pk_allowed = True, pk_source = LIFT_FROM_ORIGIN, pk_gravity_conflict = empty,
            pk_reason = (if empty then ''lidar_lift_overrides_auxiliary_empty'' else ''lidar_lift_from_origin'')\<rparr>
      else if suspended
      then \<lparr>pk_allowed = True, pk_source = LIDAR_SUSPENDED, pk_gravity_conflict = empty,
            pk_reason = (if empty then ''lidar_suspended_overrides_auxiliary_empty'' else ''lidar_suspended'')\<rparr>
      else \<lparr>pk_allowed = False, pk_source = CargoLockAuthoritySource.NONE, pk_gravity_conflict = empty,
            pk_reason = (if empty then ''auxiliary_empty_requires_independent_lift''
                         else ''lidar_physical_authority_unconfirmed'')\<rparr>)"

section \<open>Rearming\<close>

record CargoRearmInput =
  rm_empty_confirmed :: bool
  rm_rearm_age_sec :: dbl
  rm_minimum_empty_confirm_sec :: dbl
  rm_gravity_valid :: bool
  rm_gravity_state :: HookLoadState
  rm_gravity_state_at_clear :: HookLoadState
  rm_candidate_valid :: bool
  rm_independent_suspension_evidence :: bool
  rm_candidate_score_margin :: dbl
  rm_minimum_score_margin :: dbl
  rm_retired_identity_confidence :: dbl
  rm_maximum_retired_identity_confidence :: dbl

record CargoRearmDecision =
  rx_allowed :: bool
  rx_reason :: string

definition evaluateCargoRearm :: "CargoRearmInput \<Rightarrow> CargoRearmDecision" where
  "evaluateCargoRearm i =
     (if \<not> isfinite (rm_rearm_age_sec i) \<or> rm_rearm_age_sec i < Fin 0 \<or>
         \<not> isfinite (rm_minimum_empty_confirm_sec i) \<or> rm_minimum_empty_confirm_sec i < Fin 0 \<or>
         \<not> isfinite (rm_candidate_score_margin i) \<or> \<not> isfinite (rm_minimum_score_margin i) \<or>
         \<not> isfinite (rm_retired_identity_confidence i) \<or> \<not> isfinite (rm_maximum_retired_identity_confidence i)
      then \<lparr>rx_allowed = False, rx_reason = ''invalid_rearm_input''\<rparr>
      else if rm_empty_confirmed i \<and> rm_minimum_empty_confirm_sec i \<le> rm_rearm_age_sec i
      then \<lparr>rx_allowed = True, rx_reason = ''confirmed_empty''\<rparr>
      else if rm_gravity_valid i \<and> rm_gravity_state i = HookLoadState.EMPTY \<and>
              rm_minimum_empty_confirm_sec i \<le> rm_rearm_age_sec i
      then \<lparr>rx_allowed = True,
            rx_reason = (if rm_candidate_valid i then ''gravity_empty_rearm_lidar_conflict_retained''
                         else ''gravity_empty_rearm'')\<rparr>
      else if rm_gravity_valid i \<and> rm_gravity_state i = HookLoadState.LOADED \<and>
              rm_gravity_state_at_clear i \<noteq> HookLoadState.LOADED
      then \<lparr>rx_allowed = True, rx_reason = ''new_gravity_loaded_edge''\<rparr>
      else if rm_candidate_valid i \<and> rm_independent_suspension_evidence i \<and>
              rm_minimum_score_margin i \<le> rm_candidate_score_margin i \<and>
              rm_retired_identity_confidence i < rm_maximum_retired_identity_confidence i
      then \<lparr>rx_allowed = True, rx_reason = ''independent_suspended_candidate''\<rparr>
      else \<lparr>rx_allowed = False, rx_reason = ''rearm_evidence_missing''\<rparr>)"

section \<open>Candidates\<close>

record CargoCandidateDescriptor =
  cd_component_id :: int
  cd_center :: vec3
  cd_size :: vec3
  cd_yaw_rad :: dbl
  cd_orientation_confidence :: dbl
  cd_point_count :: nat
  cd_suspension_evidence :: bool

definition vec3_minCoeff :: "vec3 \<Rightarrow> dbl" where
  "vec3_minCoeff v = cpp_min (cpp_min (v3x v) (v3y v)) (v3z v)"

definition validDescriptor :: "CargoCandidateDescriptor \<Rightarrow> bool" where
  "validDescriptor d \<longleftrightarrow>
     0 \<le> cd_component_id d \<and> vec3_allFinite (cd_center d) \<and> vec3_allFinite (cd_size d) \<and>
     Fin 0 < vec3_minCoeff (cd_size d) \<and> v3y (cd_size d) \<le> v3x (cd_size d) \<and> isfinite (cd_yaw_rad d) \<and>
     isfinite (cd_orientation_confidence d) \<and> Fin 0 \<le> cd_orientation_confidence d \<and>
     cd_orientation_confidence d \<le> Fin 1 \<and> 0 < cd_point_count d"

definition unitScore :: "dbl \<Rightarrow> dbl \<Rightarrow> dbl" where
  "unitScore value limit =
     (if \<not> isfinite value \<or> \<not> isfinite limit \<or> limit \<le> Fin 0 then Fin 0
      else cpp_clamp (Fin 1 - value / limit) (Fin 0) (Fin 1))"

definition relativeError :: "dbl \<Rightarrow> dbl \<Rightarrow> dbl" where
  "relativeError value reference =
     (if \<not> isfinite value \<or> \<not> isfinite reference \<or> value \<le> Fin 0 \<or> reference \<le> Fin 0 then PInf
      else \<bar>value - reference\<bar> / reference)"

definition cpp_max3 :: "dbl \<Rightarrow> dbl \<Rightarrow> dbl \<Rightarrow> dbl" where
  "cpp_max3 a b c = cpp_max (cpp_max a b) c"

definition projectHalfExtents :: "CargoCandidateDescriptor \<Rightarrow> dbl \<Rightarrow> vec2" where
  "projectHalfExtents box reference_yaw =
     (let delta = cd_yaw_rad box - reference_yaw; cosine = \<bar>dcos delta\<bar>; sine = \<bar>dsin delta\<bar>
      in \<lparr>v2x = Fin 0.5 * (cosine * v3x (cd_size box) + sine * v3y (cd_size box)),
          v2y = Fin 0.5 * (sine * v3x (cd_size box) + cosine * v3y (cd_size box))\<rparr>)"

text \<open>A displacement in the frame of a yaw: along the long and the short side.\<close>

definition yaw_frame :: "dbl \<Rightarrow> vec2 \<Rightarrow> vec2" where
  "yaw_frame yaw d =
     \<lparr>v2x = dcos yaw * v2x d + dsin yaw * v2y d, v2y = - dsin yaw * v2x d + dcos yaw * v2y d\<rparr>"

definition cargoOrientedOverlapRatio :: "CargoCandidateDescriptor \<Rightarrow> CargoCandidateDescriptor \<Rightarrow> dbl" where
  "cargoOrientedOverlapRatio lhs rhs =
     (if \<not> validDescriptor lhs \<or> \<not> validDescriptor rhs then Fin 0
      else
        let d = yaw_frame (cd_yaw_rad lhs) (vec2_sub (vec3_head2 (cd_center rhs)) (vec3_head2 (cd_center lhs)));
            half = projectHalfExtents rhs (cd_yaw_rad lhs);
            ix = cpp_max (Fin 0) (Fin 0.5 * v3x (cd_size lhs) + v2x half - \<bar>v2x d\<bar>);
            iy = cpp_max (Fin 0) (Fin 0.5 * v3y (cd_size lhs) + v2y half - \<bar>v2y d\<bar>);
            smaller = cpp_min (v3x (cd_size lhs) * v3y (cd_size lhs)) (v3x (cd_size rhs) * v3y (cd_size rhs))
        in if Fin 0.000001 < smaller then cpp_clamp (ix * iy / smaller) (Fin 0) (Fin 1) else Fin 0)"

definition cargoCandidateContainsHookAnchor :: "CargoCandidateDescriptor \<Rightarrow> vec2 \<Rightarrow> dbl \<Rightarrow> bool" where
  "cargoCandidateContainsHookAnchor c hook margin =
     (if \<not> validDescriptor c \<or> \<not> vec2_allFinite hook \<or> \<not> isfinite margin \<or> margin < Fin 0 then False
      else
        let d = yaw_frame (cd_yaw_rad c) (vec2_sub hook (vec3_head2 (cd_center c)))
        in \<bar>v2x d\<bar> \<le> Fin 0.5 * v3x (cd_size c) + margin \<and> \<bar>v2y d\<bar> \<le> Fin 0.5 * v3y (cd_size c) + margin)"

record CargoCandidateIdentityContext =
  ck_hook_center :: vec2
  ck_hook_region_radius_m :: dbl
  ck_require_hook_containment :: bool
  ck_hook_containment_margin_m :: dbl
  ck_maximum_hook_center_distance_m :: dbl
  ck_size_aware_hook_gate :: bool
  ck_learned_cargo_to_hook_offset_valid :: bool
  ck_learned_cargo_to_hook_offset :: vec2
  ck_hook_xy_uncertainty_m :: dbl
  ck_maximum_dynamic_hook_center_distance_m :: dbl
  ck_maximum_hook_normalized_offset :: dbl
  ck_strong_point_count :: nat
  ck_predicted_track_valid :: bool
  ck_predicted_center :: vec3
  ck_predicted_size :: vec3
  ck_predicted_yaw_rad :: dbl
  ck_association_radius_m :: dbl

record CargoCandidateIdentityScore =
  cs_valid :: bool
  cs_component_id :: int
  cs_hook_distance_score :: dbl
  cs_hook_normalized_offset :: dbl
  cs_hook_association_residual_m :: dbl
  cs_hook_dynamic_gate_m :: dbl
  cs_predicted_center_score :: dbl
  cs_overlap_score :: dbl
  cs_shape_confidence :: dbl
  cs_motion_confidence :: dbl
  cs_suspension_confidence :: dbl
  cs_point_support_confidence :: dbl
  cs_identity_confidence :: dbl
  cs_overall_lock_confidence :: dbl
  cs_reason :: string

definition default_CargoCandidateIdentityScore :: CargoCandidateIdentityScore where
  "default_CargoCandidateIdentityScore =
     \<lparr>cs_valid = False, cs_component_id = - 1, cs_hook_distance_score = Fin 0, cs_hook_normalized_offset = PInf,
      cs_hook_association_residual_m = PInf, cs_hook_dynamic_gate_m = PInf, cs_predicted_center_score = Fin 0,
      cs_overlap_score = Fin 0, cs_shape_confidence = Fin 0, cs_motion_confidence = Fin 0,
      cs_suspension_confidence = Fin 0, cs_point_support_confidence = Fin 0, cs_identity_confidence = Fin 0,
      cs_overall_lock_confidence = Fin 0, cs_reason = ''not_evaluated''\<rparr>"

text \<open>The gate around the hook.\<close>

definition hook_dynamic_gate :: "CargoCandidateDescriptor \<Rightarrow> CargoCandidateIdentityContext \<Rightarrow> dbl" where
  "hook_dynamic_gate c x =
     (let base = (if isfinite (ck_maximum_hook_center_distance_m x)
                  then cpp_max (Fin 0) (ck_maximum_hook_center_distance_m x) else ck_hook_region_radius_m x);
          allowance = (if ck_size_aware_hook_gate x then Fin 0.35 * cpp_max (v3x (cd_size c)) (v3y (cd_size c)) else Fin 0);
          maximum = cpp_max base (ck_maximum_dynamic_hook_center_distance_m x)
      in if ck_size_aware_hook_gate x
         then cpp_min (base + allowance + cpp_max (Fin 0) (ck_hook_xy_uncertainty_m x)) maximum else base)"

definition hook_association_residual :: "CargoCandidateDescriptor \<Rightarrow> CargoCandidateIdentityContext \<Rightarrow> dbl" where
  "hook_association_residual c x =
     vec2_norm (vec2_sub (vec3_head2 (cd_center c))
       (if ck_learned_cargo_to_hook_offset_valid x \<and> vec2_allFinite (ck_learned_cargo_to_hook_offset x)
        then vec2_add (ck_hook_center x) (ck_learned_cargo_to_hook_offset x) else ck_hook_center x))"

definition hook_gated_distance :: "CargoCandidateDescriptor \<Rightarrow> CargoCandidateIdentityContext \<Rightarrow> dbl" where
  "hook_gated_distance c x =
     (if ck_learned_cargo_to_hook_offset_valid x then hook_association_residual c x
      else vec2_norm (vec2_sub (vec3_head2 (cd_center c)) (ck_hook_center x)))"

definition hook_normalized_offset :: "CargoCandidateDescriptor \<Rightarrow> CargoCandidateIdentityContext \<Rightarrow> dbl" where
  "hook_normalized_offset c x =
     (let d = yaw_frame (cd_yaw_rad c) (vec2_sub (ck_hook_center x) (vec3_head2 (cd_center c)))
      in cpp_max (\<bar>v2x d\<bar> / cpp_max (Fin 0.05) (Fin 0.5 * v3x (cd_size c)))
           (\<bar>v2y d\<bar> / cpp_max (Fin 0.05) (Fin 0.5 * v3y (cd_size c))))"

definition predicted_track_usable :: "CargoCandidateIdentityContext \<Rightarrow> bool" where
  "predicted_track_usable x \<longleftrightarrow>
     ck_predicted_track_valid x \<and> vec3_allFinite (ck_predicted_center x) \<and> vec3_allFinite (ck_predicted_size x) \<and>
     Fin 0 < vec3_minCoeff (ck_predicted_size x)"

text \<open>A candidate moved onto a predicted box.\<close>

definition predicted_descriptor :: "CargoCandidateDescriptor \<Rightarrow> vec3 \<Rightarrow> vec3 \<Rightarrow> dbl \<Rightarrow> CargoCandidateDescriptor" where
  "predicted_descriptor c center sz yaw =
     c\<lparr>cd_component_id := 0, cd_center := center, cd_size := sz, cd_yaw_rad := yaw, cd_orientation_confidence := Fin 1,
       cd_point_count := 1\<rparr>"

definition score_with_track ::
  "CargoCandidateDescriptor \<Rightarrow> CargoCandidateIdentityContext \<Rightarrow> CargoCandidateIdentityScore \<Rightarrow> CargoCandidateIdentityScore" where
  "score_with_track c x s =
     (let center = unitScore (vec2_norm (vec2_sub (vec3_head2 (cd_center c)) (vec3_head2 (ck_predicted_center x))))
            (cpp_max (Fin 0.05) (ck_association_radius_m x));
          overlap = cargoOrientedOverlapRatio
            (predicted_descriptor c (ck_predicted_center x) (ck_predicted_size x) (ck_predicted_yaw_rad x)) c;
          shape = cpp_min (cs_shape_confidence s)
            (unitScore (cpp_max3 (relativeError (v3x (cd_size c)) (v3x (ck_predicted_size x)))
               (relativeError (v3y (cd_size c)) (v3y (ck_predicted_size x)))
               (relativeError (v3z (cd_size c)) (v3z (ck_predicted_size x)))) (Fin 0.75))
      in s\<lparr>cs_predicted_center_score := center, cs_overlap_score := overlap, cs_shape_confidence := shape,
           cs_motion_confidence := center,
           cs_identity_confidence := Fin 0.3 * center + Fin 0.25 * overlap + Fin 0.25 * shape +
             Fin 0.2 * unitScore \<bar>normalizeCargoAxialYaw (cd_yaw_rad c - ck_predicted_yaw_rad x)\<bar> (Fin 0.7)\<rparr>)"

definition score_without_track :: "CargoCandidateIdentityScore \<Rightarrow> CargoCandidateIdentityScore" where
  "score_without_track s =
     s\<lparr>cs_predicted_center_score := cs_hook_distance_score s, cs_overlap_score := Fin 0,
       cs_motion_confidence := cs_hook_distance_score s,
       cs_identity_confidence := Fin 0.6 * cs_hook_distance_score s + Fin 0.27 * cs_suspension_confidence s +
         Fin 0.13 * cs_shape_confidence s\<rparr>"

definition scoreCargoCandidateIdentity ::
  "CargoCandidateDescriptor \<Rightarrow> CargoCandidateIdentityContext \<Rightarrow> CargoCandidateIdentityScore" where
  "scoreCargoCandidateIdentity c x =
     (let s = default_CargoCandidateIdentityScore\<lparr>cs_component_id := cd_component_id c\<rparr> in
      if \<not> validDescriptor c \<or> \<not> vec2_allFinite (ck_hook_center x) \<or> \<not> isfinite (ck_hook_region_radius_m x) \<or>
         ck_hook_region_radius_m x \<le> Fin 0
      then s\<lparr>cs_reason := ''invalid_candidate_or_context''\<rparr>
      else if ck_require_hook_containment x \<and>
              \<not> cargoCandidateContainsHookAnchor c (ck_hook_center x) (ck_hook_containment_margin_m x)
      then s\<lparr>cs_reason := ''hook_anchor_outside_candidate_obb''\<rparr>
      else
        let gate = hook_dynamic_gate c x; gated = hook_gated_distance c x;
            s1 = s\<lparr>cs_hook_association_residual_m := hook_association_residual c x, cs_hook_dynamic_gate_m := gate\<rparr> in
        if \<not> isfinite gate \<or> gate \<le> Fin 0 \<or> gate < gated
        then s1\<lparr>cs_reason := ''candidate_center_too_far_from_hook_anchor''\<rparr>
        else
          let offset = hook_normalized_offset c x; s2 = s1\<lparr>cs_hook_normalized_offset := offset\<rparr> in
          if isfinite (ck_maximum_hook_normalized_offset x) \<and>
             (ck_maximum_hook_normalized_offset x \<le> Fin 0 \<or> ck_maximum_hook_normalized_offset x < offset)
          then s2\<lparr>cs_reason := ''hook_anchor_outside_candidate_central_region''\<rparr>
          else
            let s3 = s2\<lparr>cs_hook_distance_score := unitScore gated (cpp_max gate (Fin 0.05)),
                        cs_point_support_confidence :=
                          cpp_clamp (Fin (real (cd_point_count c)) / Fin (real (cpp_max 1 (ck_strong_point_count x))))
                            (Fin 0) (Fin 1),
                        cs_suspension_confidence := (if cd_suspension_evidence c then Fin 1 else Fin 0.35),
                        cs_shape_confidence :=
                          cpp_clamp (Fin 0.5 * cd_orientation_confidence c +
                            Fin 0.5 * unitScore (v3y (cd_size c) / v3x (cd_size c)) (Fin 1)) (Fin 0) (Fin 1)\<rparr>;
                s4 = (if predicted_track_usable x then score_with_track c x s3 else score_without_track s3)
            in s4\<lparr>cs_overall_lock_confidence :=
                    cpp_clamp (Fin 0.35 * cs_identity_confidence s4 + Fin 0.2 * cs_shape_confidence s4 +
                      Fin 0.15 * cd_orientation_confidence c + Fin 0.15 * cs_motion_confidence s4 +
                      Fin 0.15 * cs_suspension_confidence s4) (Fin 0) (Fin 1),
                  cs_valid := True, cs_reason := ''scored''\<rparr>)"

section \<open>Ranking\<close>

record CargoCandidateRanking =
  cr_valid :: bool
  cr_top1 :: CargoCandidateIdentityScore
  cr_top2 :: CargoCandidateIdentityScore
  cr_top1_rank :: dbl
  cr_top2_rank :: dbl
  cr_margin :: dbl

definition default_CargoCandidateRanking :: CargoCandidateRanking where
  "default_CargoCandidateRanking =
     \<lparr>cr_valid = False, cr_top1 = default_CargoCandidateIdentityScore, cr_top2 = default_CargoCandidateIdentityScore,
      cr_top1_rank = Fin 0, cr_top2_rank = Fin 0, cr_margin = Fin 0\<rparr>"

definition candidate_rank :: "CargoCandidateIdentityScore \<Rightarrow> dbl" where
  "candidate_rank s = cs_identity_confidence s + Fin 0.25 * cs_overall_lock_confidence s"

definition rank_step :: "CargoCandidateRanking \<Rightarrow> CargoCandidateIdentityScore \<Rightarrow> CargoCandidateRanking" where
  "rank_step r s =
     (if \<not> cs_valid s then r
      else if \<not> cr_valid r \<or> cr_top1_rank r < candidate_rank s
      then r\<lparr>cr_top2 := cr_top1 r, cr_top2_rank := cr_top1_rank r, cr_top1 := s, cr_top1_rank := candidate_rank s,
             cr_valid := True\<rparr>
      else if \<not> cs_valid (cr_top2 r) \<or> cr_top2_rank r < candidate_rank s
      then r\<lparr>cr_top2 := s, cr_top2_rank := candidate_rank s\<rparr>
      else r)"

definition rankCargoCandidateIdentityScores :: "CargoCandidateIdentityScore list \<Rightarrow> CargoCandidateRanking" where
  "rankCargoCandidateIdentityScores scores =
     (let r = foldl rank_step default_CargoCandidateRanking scores
      in r\<lparr>cr_margin := (if cr_valid r then cr_top1_rank r - cr_top2_rank r else Fin 0)\<rparr>)"

section \<open>Association with the predicted box\<close>

record CargoAssociationInput =
  ax_candidate :: CargoCandidateDescriptor
  ax_previous_center :: vec3
  ax_velocity :: vec3
  ax_locked_size :: vec3
  ax_locked_yaw_rad :: dbl
  ax_sensor_dt_sec :: dbl
  ax_base_center_gate_m :: dbl
  ax_max_xy_speed_mps :: dbl
  ax_max_z_speed_mps :: dbl
  ax_horizontal_uncertainty_m :: dbl
  ax_vertical_uncertainty_m :: dbl
  ax_horizontal_tracking_residual_m :: dbl
  ax_vertical_tracking_residual_m :: dbl
  ax_velocity_model_uncertainty_mps :: dbl
  ax_maximum_xy_gate_m :: dbl
  ax_maximum_z_gate_m :: dbl
  ax_minimum_overlap_ratio :: dbl
  ax_maximum_shape_relative_error :: dbl
  ax_maximum_axial_yaw_error_rad :: dbl
  ax_use_shape_as_hard_gate :: bool
  ax_use_yaw_as_hard_gate :: bool
  ax_strict_reacquisition :: bool

record CargoAssociationDecision =
  aq_accepted :: bool
  aq_predicted_center :: vec3
  aq_dynamic_xy_gate_m :: dbl
  aq_dynamic_z_gate_m :: dbl
  aq_center_residual_xy_m :: dbl
  aq_center_residual_z_m :: dbl
  aq_overlap_ratio :: dbl
  aq_length_relative_error :: dbl
  aq_width_relative_error :: dbl
  aq_height_relative_error :: dbl
  aq_axial_yaw_error_rad :: dbl
  aq_yaw_used_as_hard_gate :: bool
  aq_reason :: string

definition default_CargoAssociationDecision :: CargoAssociationDecision where
  "default_CargoAssociationDecision =
     \<lparr>aq_accepted = False, aq_predicted_center = vec3_zero, aq_dynamic_xy_gate_m = Fin 0, aq_dynamic_z_gate_m = Fin 0,
      aq_center_residual_xy_m = Fin 0, aq_center_residual_z_m = Fin 0, aq_overlap_ratio = Fin 0,
      aq_length_relative_error = Fin 0, aq_width_relative_error = Fin 0, aq_height_relative_error = Fin 0,
      aq_axial_yaw_error_rad = Fin 0, aq_yaw_used_as_hard_gate = True, aq_reason = ''not_evaluated''\<rparr>"

definition association_input_ok :: "CargoAssociationInput \<Rightarrow> bool" where
  "association_input_ok i \<longleftrightarrow>
     validDescriptor (ax_candidate i) \<and> vec3_allFinite (ax_previous_center i) \<and> vec3_allFinite (ax_velocity i) \<and>
     vec3_allFinite (ax_locked_size i) \<and> \<not> vec3_minCoeff (ax_locked_size i) \<le> Fin 0 \<and> isfinite (ax_sensor_dt_sec i) \<and>
     \<not> ax_sensor_dt_sec i < Fin 0 \<and> isfinite (ax_locked_yaw_rad i) \<and> isfinite (ax_maximum_xy_gate_m i) \<and>
     isfinite (ax_maximum_z_gate_m i) \<and> \<not> ax_maximum_xy_gate_m i \<le> Fin 0 \<and> \<not> ax_maximum_z_gate_m i \<le> Fin 0"

definition bounded_velocity :: "CargoAssociationInput \<Rightarrow> vec3" where
  "bounded_velocity i =
     (let v = ax_velocity i; speed = vec2_norm (vec3_head2 v);
          xy = (if ax_max_xy_speed_mps i < speed \<and> Fin 0.000001 < speed
                then vec2_scale (vec3_head2 v) (ax_max_xy_speed_mps i / speed) else vec3_head2 v)
      in \<lparr>v3x = v2x xy, v3y = v2y xy, v3z = cpp_clamp (v3z v) (- ax_max_z_speed_mps i) (ax_max_z_speed_mps i)\<rparr>)"

definition evaluateCargoPredictedAssociation :: "CargoAssociationInput \<Rightarrow> CargoAssociationDecision" where
  "evaluateCargoPredictedAssociation i =
     (let d = default_CargoAssociationDecision; c = ax_candidate i in
      if \<not> association_input_ok i then d\<lparr>aq_reason := ''invalid_association_input''\<rparr>
      else
        let dt = ax_sensor_dt_sec i; predicted = vec3_add (ax_previous_center i) (vec3_scale (bounded_velocity i) dt);
            model = cpp_max (Fin 0) (ax_velocity_model_uncertainty_mps i) * dt;
            xy_gate = cpp_min (ax_maximum_xy_gate_m i)
              (ax_base_center_gate_m i + model + ax_horizontal_uncertainty_m i + ax_horizontal_tracking_residual_m i);
            z_gate = cpp_min (ax_maximum_z_gate_m i)
              (ax_base_center_gate_m i + model + ax_vertical_uncertainty_m i + ax_vertical_tracking_residual_m i);
            residual = vec3_sub (cd_center c) predicted; xy = vec2_norm (vec3_head2 residual); z = \<bar>v3z residual\<bar>;
            d1 = d\<lparr>aq_predicted_center := predicted, aq_dynamic_xy_gate_m := xy_gate, aq_dynamic_z_gate_m := z_gate,
                   aq_center_residual_xy_m := xy, aq_center_residual_z_m := z\<rparr> in
        if xy_gate < xy then d1\<lparr>aq_reason := ''predicted_center_too_far''\<rparr>
        else if z_gate < z then d1\<lparr>aq_reason := ''predicted_vertical_too_far''\<rparr>
        else
          let overlap = cargoOrientedOverlapRatio
                (predicted_descriptor c predicted (ax_locked_size i) (ax_locked_yaw_rad i)) c;
              length_error = relativeError (v3x (cd_size c)) (v3x (ax_locked_size i));
              width_error = relativeError (v3y (cd_size c)) (v3y (ax_locked_size i));
              height_error = relativeError (v3z (cd_size c)) (v3z (ax_locked_size i));
              yaw_error = \<bar>normalizeCargoAxialYaw (cd_yaw_rad c - ax_locked_yaw_rad i)\<bar>;
              d2 = d1\<lparr>aq_overlap_ratio := overlap, aq_length_relative_error := length_error,
                      aq_width_relative_error := width_error, aq_height_relative_error := height_error,
                      aq_axial_yaw_error_rad := yaw_error, aq_yaw_used_as_hard_gate := ax_use_yaw_as_hard_gate i\<rparr>;
              shape_limit = (if ax_strict_reacquisition i then Fin 0.75 * ax_maximum_shape_relative_error i
                             else ax_maximum_shape_relative_error i);
              yaw_limit = (if ax_strict_reacquisition i then Fin 0.75 * ax_maximum_axial_yaw_error_rad i
                           else ax_maximum_axial_yaw_error_rad i) in
          if ax_use_shape_as_hard_gate i \<and> shape_limit < cpp_max3 length_error width_error height_error
          then d2\<lparr>aq_reason := ''predicted_shape_mismatch''\<rparr>
          else if ax_use_yaw_as_hard_gate i \<and> yaw_limit < yaw_error then d2\<lparr>aq_reason := ''predicted_yaw_mismatch''\<rparr>
          else if overlap < ax_minimum_overlap_ratio i then d2\<lparr>aq_reason := ''predicted_obb_overlap_low''\<rparr>
          else d2\<lparr>aq_accepted := True,
                  aq_reason := (if ax_strict_reacquisition i then ''strict_reacquisition_match''
                                else ''predicted_obb_match'')\<rparr>)"

section \<open>The reference centre\<close>

datatype CargoCenterReferenceSource = NONE | FILTERED_POSE | FILTERED_PREDICTION | TRUSTED_COMPLETE_MEASUREMENT

fun cargoCenterReferenceSourceName :: "CargoCenterReferenceSource \<Rightarrow> string" where
  "cargoCenterReferenceSourceName CargoCenterReferenceSource.NONE = ''NONE''"
| "cargoCenterReferenceSourceName FILTERED_POSE = ''FILTERED_POSE''"
| "cargoCenterReferenceSourceName FILTERED_PREDICTION = ''FILTERED_PREDICTION''"
| "cargoCenterReferenceSourceName TRUSTED_COMPLETE_MEASUREMENT = ''TRUSTED_COMPLETE_MEASUREMENT''"

record CargoCenterReferenceInput =
  nf_detected_center :: vec2
  nf_filtered_pose_valid :: bool
  nf_filtered_center :: vec2
  nf_filtered_prediction_valid :: bool
  nf_filtered_predicted_center :: vec2
  nf_trusted_complete_measurement_valid :: bool
  nf_trusted_complete_measurement_center :: vec2
  nf_trusted_complete_measurement_age_sec :: dbl
  nf_maximum_trusted_measurement_age_sec :: dbl

record CargoCenterReferenceDecision =
  nd_valid :: bool
  nd_source :: CargoCenterReferenceSource
  nd_center :: vec2
  nd_selected_distance_m :: dbl
  nd_filtered_distance_m :: dbl
  nd_predicted_distance_m :: dbl
  nd_trusted_measurement_distance_m :: dbl

definition default_CargoCenterReferenceDecision :: CargoCenterReferenceDecision where
  "default_CargoCenterReferenceDecision =
     \<lparr>nd_valid = False, nd_source = CargoCenterReferenceSource.NONE, nd_center = vec2_zero, nd_selected_distance_m = PInf,
      nd_filtered_distance_m = PInf, nd_predicted_distance_m = PInf, nd_trusted_measurement_distance_m = PInf\<rparr>"

text \<open>The distance of a reference, infinite when it is not enabled or not finite; and the selection.\<close>

definition reference_distance :: "vec2 \<Rightarrow> bool \<Rightarrow> vec2 \<Rightarrow> dbl" where
  "reference_distance detected enabled center =
     (if enabled \<and> vec2_allFinite center then vec2_norm (vec2_sub detected center) else PInf)"

definition consider_reference ::
  "vec2 \<Rightarrow> bool \<Rightarrow> vec2 \<Rightarrow> CargoCenterReferenceSource \<Rightarrow> CargoCenterReferenceDecision \<Rightarrow> CargoCenterReferenceDecision" where
  "consider_reference detected enabled center source d =
     (let distance = reference_distance detected enabled center in
      if \<not> enabled \<or> \<not> vec2_allFinite center \<or> \<not> isfinite distance then d
      else if \<not> nd_valid d \<or> distance < nd_selected_distance_m d
      then d\<lparr>nd_valid := True, nd_source := source, nd_center := center, nd_selected_distance_m := distance\<rparr>
      else d)"

definition trusted_measurement_fresh :: "CargoCenterReferenceInput \<Rightarrow> bool" where
  "trusted_measurement_fresh i \<longleftrightarrow>
     nf_trusted_complete_measurement_valid i \<and> isfinite (nf_trusted_complete_measurement_age_sec i) \<and>
     Fin 0 \<le> nf_trusted_complete_measurement_age_sec i \<and>
     nf_trusted_complete_measurement_age_sec i \<le> nf_maximum_trusted_measurement_age_sec i"

definition selectCargoCenterReference :: "CargoCenterReferenceInput \<Rightarrow> CargoCenterReferenceDecision" where
  "selectCargoCenterReference i =
     (let detected = nf_detected_center i in
      if \<not> vec2_allFinite detected \<or> \<not> isfinite (nf_maximum_trusted_measurement_age_sec i) \<or>
         nf_maximum_trusted_measurement_age_sec i < Fin 0
      then default_CargoCenterReferenceDecision
      else
        let d1 = consider_reference detected (nf_filtered_pose_valid i) (nf_filtered_center i) FILTERED_POSE
              default_CargoCenterReferenceDecision;
            d2 = consider_reference detected (nf_filtered_prediction_valid i) (nf_filtered_predicted_center i)
              FILTERED_PREDICTION d1;
            d3 = consider_reference detected (trusted_measurement_fresh i) (nf_trusted_complete_measurement_center i)
              TRUSTED_COMPLETE_MEASUREMENT d2
        in d3\<lparr>nd_filtered_distance_m :=
                 reference_distance detected (nf_filtered_pose_valid i) (nf_filtered_center i),
              nd_predicted_distance_m :=
                 reference_distance detected (nf_filtered_prediction_valid i) (nf_filtered_predicted_center i),
              nd_trusted_measurement_distance_m :=
                 reference_distance detected (trusted_measurement_fresh i) (nf_trusted_complete_measurement_center i)\<rparr>)"

section \<open>Support of the frozen box\<close>

record CargoFrozenObbSupportInput =
  ob_points :: "vec3 list"
  ob_predicted_center :: vec3
  ob_locked_size :: vec3
  ob_locked_yaw_rad :: dbl
  ob_horizontal_margin_m :: dbl
  ob_vertical_margin_m :: dbl

record CargoFrozenObbSupport =
  ou_valid :: bool
  ou_finite_points :: nat
  ou_inside_points :: nat
  ou_inside_ratio :: dbl
  ou_long_axis_coverage_ratio :: dbl
  ou_short_axis_coverage_ratio :: dbl
  ou_vertical_coverage_ratio :: dbl
  ou_reason :: string

text \<open>A point in the frame of the box.\<close>

definition obb_frame :: "CargoFrozenObbSupportInput \<Rightarrow> vec3 \<Rightarrow> vec3" where
  "obb_frame i p =
     (let d = vec3_sub p (ob_predicted_center i); f = yaw_frame (ob_locked_yaw_rad i) (vec3_head2 d)
      in \<lparr>v3x = v2x f, v3y = v2y f, v3z = v3z d\<rparr>)"

definition obb_inside :: "CargoFrozenObbSupportInput \<Rightarrow> vec3 \<Rightarrow> bool" where
  "obb_inside i q \<longleftrightarrow>
     \<bar>v3x q\<bar> \<le> Fin 0.5 * v3x (ob_locked_size i) + ob_horizontal_margin_m i \<and>
     \<bar>v3y q\<bar> \<le> Fin 0.5 * v3y (ob_locked_size i) + ob_horizontal_margin_m i \<and>
     \<bar>v3z q\<bar> \<le> Fin 0.5 * v3z (ob_locked_size i) + ob_vertical_margin_m i"

definition coverage :: "dbl list \<Rightarrow> dbl \<Rightarrow> dbl" where
  "coverage cs side =
     cpp_clamp ((foldl cpp_max NInf cs - foldl cpp_min PInf cs) / side) (Fin 0) (Fin 1)"

definition evaluateCargoFrozenObbSupport :: "CargoFrozenObbSupportInput \<Rightarrow> CargoFrozenObbSupport" where
  "evaluateCargoFrozenObbSupport i =
     (let r = \<lparr>ou_valid = False, ou_finite_points = 0, ou_inside_points = 0, ou_inside_ratio = Fin 0,
               ou_long_axis_coverage_ratio = Fin 0, ou_short_axis_coverage_ratio = Fin 0,
               ou_vertical_coverage_ratio = Fin 0, ou_reason = ''not_evaluated''\<rparr> in
      if \<not> vec3_allFinite (ob_predicted_center i) \<or> \<not> vec3_allFinite (ob_locked_size i) \<or>
         vec3_minCoeff (ob_locked_size i) \<le> Fin 0 \<or> \<not> isfinite (ob_locked_yaw_rad i) \<or>
         \<not> isfinite (ob_horizontal_margin_m i) \<or> \<not> isfinite (ob_vertical_margin_m i) \<or>
         ob_horizontal_margin_m i < Fin 0 \<or> ob_vertical_margin_m i < Fin 0
      then r\<lparr>ou_reason := ''invalid_locked_obb_support_input''\<rparr>
      else
        let finite_points = filter vec3_allFinite (ob_points i);
            inside = filter (obb_inside i) (map (obb_frame i) finite_points);
            r1 = r\<lparr>ou_finite_points := length finite_points, ou_inside_points := length inside\<rparr> in
        if finite_points = [] \<or> inside = [] then r1\<lparr>ou_reason := ''no_locked_obb_point_support''\<rparr>
        else r1\<lparr>ou_valid := True,
                ou_inside_ratio := Fin (real (length inside)) / Fin (real (length finite_points)),
                ou_long_axis_coverage_ratio := coverage (map v3x inside) (v3x (ob_locked_size i)),
                ou_short_axis_coverage_ratio := coverage (map v3y inside) (v3y (ob_locked_size i)),
                ou_vertical_coverage_ratio := coverage (map v3z inside) (v3z (ob_locked_size i)),
                ou_reason := ''locked_obb_point_support''\<rparr>)"

section \<open>From a provisional track to a formal lock\<close>

record CargoProvisionalLockConfig =
  pv_minimum_frames :: nat
  pv_maximum_center_step_m :: dbl
  pv_maximum_shape_cv :: dbl
  pv_minimum_length_m :: dbl
  pv_minimum_width_m :: dbl
  pv_minimum_height_m :: dbl
  pv_minimum_orientation_concentration :: dbl
  pv_minimum_identity_confidence :: dbl
  pv_minimum_overall_lock_confidence :: dbl

record CargoProvisionalLockSummary =
  py_formal_lock_allowed :: bool
  py_median_center :: vec3
  py_median_size :: vec3
  py_axial_yaw_rad :: dbl
  py_orientation_confidence :: dbl
  py_shape_confidence :: dbl
  py_motion_confidence :: dbl
  py_identity_confidence :: dbl
  py_suspension_confidence :: dbl
  py_overall_lock_confidence :: dbl
  py_reason :: string

definition default_CargoProvisionalLockSummary :: CargoProvisionalLockSummary where
  "default_CargoProvisionalLockSummary =
     \<lparr>py_formal_lock_allowed = False, py_median_center = vec3_zero, py_median_size = vec3_zero, py_axial_yaw_rad = Fin 0,
      py_orientation_confidence = Fin 0, py_shape_confidence = Fin 0, py_motion_confidence = Fin 0,
      py_identity_confidence = Fin 0, py_suspension_confidence = Fin 0, py_overall_lock_confidence = Fin 0,
      py_reason = ''not_evaluated''\<rparr>"

text \<open>\<^verbatim>\<open>median\<close> is called with finite values only; it takes the upper of the two middle values.\<close>

definition track_median :: "dbl list \<Rightarrow> dbl" where
  "track_median values = (if values = [] then Fin 0 else sort_key real_part values ! (length values div 2))"

definition relative_spread :: "dbl list \<Rightarrow> dbl" where
  "relative_spread values =
     (if Fin 0.000001 < track_median values
      then track_median (map (\<lambda>x. \<bar>x - track_median values\<bar>) values) / track_median values else Fin 1)"

definition maximum_step :: "vec3 list \<Rightarrow> dbl" where
  "maximum_step centers =
     foldl (\<lambda>most (previous, current). cpp_max most (vec3_norm (vec3_sub current previous))) (Fin 0)
       (zip centers (tl centers))"

definition mean_of :: "dbl list \<Rightarrow> dbl" where
  "mean_of values = foldl (+) (Fin 0) values / Fin (real (length values))"

definition physical_bounds_ok :: "vec3 \<Rightarrow> vec3 \<Rightarrow> CargoProvisionalLockConfig \<Rightarrow> bool" where
  "physical_bounds_ok center sz c \<longleftrightarrow>
     vec3_allFinite center \<and> vec3_allFinite sz \<and> isfinite (pv_minimum_length_m c) \<and> isfinite (pv_minimum_width_m c) \<and>
     isfinite (pv_minimum_height_m c) \<and> \<not> pv_minimum_length_m c \<le> Fin 0 \<and> \<not> pv_minimum_width_m c \<le> Fin 0 \<and>
     \<not> pv_minimum_height_m c \<le> Fin 0 \<and> \<not> v3x sz < pv_minimum_length_m c \<and> \<not> v3y sz < pv_minimum_width_m c \<and>
     \<not> v3z sz < pv_minimum_height_m c \<and> \<not> v3x sz < v3y sz"

definition summarizeCargoProvisionalLock ::
  "CargoCandidateDescriptor list \<Rightarrow> CargoCandidateIdentityScore list \<Rightarrow> CargoProvisionalLockConfig \<Rightarrow>
   CargoProvisionalLockSummary" where
  "summarizeCargoProvisionalLock observations scores c =
     (let r = default_CargoProvisionalLockSummary in
      if length observations < pv_minimum_frames c \<or> length observations \<noteq> length scores
      then r\<lparr>py_reason := ''insufficient_provisional_frames''\<rparr>
      else if \<exists>(d, s) \<in> set (zip observations scores). \<not> validDescriptor d \<or> \<not> cs_valid s
      then r\<lparr>py_reason := ''invalid_provisional_observation''\<rparr>
      else
        let along = (\<lambda>f. map (f \<circ> cd_center) observations); sizes = (\<lambda>f. map (f \<circ> cd_size) observations);
            center = \<lparr>v3x = track_median (along v3x), v3y = track_median (along v3y), v3z = track_median (along v3z)\<rparr>;
            sz = \<lparr>v3x = track_median (sizes v3x), v3y = track_median (sizes v3y), v3z = track_median (sizes v3z)\<rparr>;
            r1 = r\<lparr>py_median_center := center, py_median_size := sz\<rparr> in
        if \<not> physical_bounds_ok center sz c then r1\<lparr>py_reason := ''formal_shape_out_of_physical_bounds''\<rparr>
        else
          let yaw = summarizeCargoAxialYaw (map cd_yaw_rad observations);
              spread = cpp_max3 (relative_spread (sizes v3x)) (relative_spread (sizes v3y)) (relative_spread (sizes v3z));
              step = maximum_step (map cd_center observations);
              shape = unitScore spread (cpp_max (Fin 0.001) (pv_maximum_shape_cv c));
              motion = unitScore step (cpp_max (Fin 0.001) (pv_maximum_center_step_m c));
              identity = mean_of (map cs_identity_confidence scores);
              suspension = mean_of (map cs_suspension_confidence scores);
              overall = cpp_clamp (Fin 0.3 * identity + Fin 0.25 * shape + Fin 0.2 * ay_concentration yaw +
                Fin 0.15 * motion + Fin 0.1 * suspension) (Fin 0) (Fin 1);
              r2 = r1\<lparr>py_axial_yaw_rad := ay_mean_yaw_rad yaw, py_orientation_confidence := ay_concentration yaw,
                      py_shape_confidence := shape, py_motion_confidence := motion, py_identity_confidence := identity,
                      py_suspension_confidence := suspension, py_overall_lock_confidence := overall\<rparr> in
          if \<not> ay_valid yaw \<or> ay_concentration yaw < pv_minimum_orientation_concentration c
          then r2\<lparr>py_reason := ''orientation_not_concentrated''\<rparr>
          else if identity < pv_minimum_identity_confidence c then r2\<lparr>py_reason := ''identity_confidence_low''\<rparr>
          else if pv_maximum_shape_cv c < spread then r2\<lparr>py_reason := ''shape_spread_high''\<rparr>
          else if pv_maximum_center_step_m c < step then r2\<lparr>py_reason := ''motion_discontinuous''\<rparr>
          else if overall < pv_minimum_overall_lock_confidence c then r2\<lparr>py_reason := ''overall_lock_confidence_low''\<rparr>
          else r2\<lparr>py_formal_lock_allowed := True, py_reason := ''formal_lock_confirmed''\<rparr>)"

section \<open>Yaw quantisation and the height from the top\<close>

fun quantizeCargoAxialYawToOrthogonal :: "dbl \<Rightarrow> dbl" where
  "quantizeCargoAxialYawToOrthogonal (Fin y) =
     (if \<bar>normalizeCargoAxialYaw (Fin y)\<bar> < Fin (pi / 4) then Fin 0
      else if normalizeCargoAxialYaw (Fin y) < Fin 0 then Fin (- (pi / 2)) else Fin (pi / 2))"
| "quantizeCargoAxialYawToOrthogonal _ = Fin 0"

record CargoTopSurfaceHeightInput =
  tp_frozen_thickness_m :: dbl
  tp_top_valid :: bool
  tp_top_z_base :: dbl
  tp_direct_bottom_valid :: bool
  tp_direct_bottom_z_base :: dbl
  tp_top_bottom_agreement_m :: dbl

record CargoTopSurfaceHeightResult =
  tq_valid :: bool
  tq_used_top_surface :: bool
  tq_bottom_corroborated :: bool
  tq_center_z_base :: dbl
  tq_bottom_z_base :: dbl
  tq_top_z_base :: dbl
  tq_reason :: string

definition evaluateCargoTopSurfaceHeight :: "CargoTopSurfaceHeightInput \<Rightarrow> CargoTopSurfaceHeightResult" where
  "evaluateCargoTopSurfaceHeight i =
     (let r = \<lparr>tq_valid = False, tq_used_top_surface = False, tq_bottom_corroborated = False, tq_center_z_base = Fin 0,
               tq_bottom_z_base = Fin 0, tq_top_z_base = Fin 0, tq_reason = ''invalid_height_evidence''\<rparr>;
          thickness = tp_frozen_thickness_m i; half = Fin 0.5 * thickness; direct = tp_direct_bottom_z_base i in
      if \<not> isfinite thickness \<or> thickness \<le> Fin 0 \<or> \<not> isfinite (tp_top_bottom_agreement_m i) \<or>
         tp_top_bottom_agreement_m i < Fin 0
      then r\<lparr>tq_reason := ''invalid_frozen_thickness''\<rparr>
      else if tp_top_valid i \<and> isfinite (tp_top_z_base i)
      then
        let derived = tp_top_z_base i - thickness;
            corroborated = (tp_direct_bottom_valid i \<and> isfinite direct \<and>
              \<bar>direct - derived\<bar> \<le> tp_top_bottom_agreement_m i);
            bottom = (if corroborated then Fin 0.8 * derived + Fin 0.2 * direct else derived);
            top = (if corroborated then bottom + thickness else tp_top_z_base i); center = bottom + half
        in r\<lparr>tq_used_top_surface := True, tq_bottom_corroborated := corroborated, tq_bottom_z_base := bottom,
             tq_top_z_base := top, tq_center_z_base := center,
             tq_valid := isfinite center \<and> isfinite bottom \<and> isfinite top,
             tq_reason := (if corroborated then ''top_surface_with_bottom_corroboration''
                           else ''top_surface_minus_frozen_thickness'')\<rparr>
      else if tp_direct_bottom_valid i \<and> isfinite direct
      then r\<lparr>tq_bottom_z_base := direct, tq_top_z_base := direct + thickness, tq_center_z_base := direct + half,
             tq_reason := ''direct_bottom_fallback'', tq_valid := True\<rparr>
      else r)"

section \<open>Point support does not choose the cargo\<close>

text \<open>A score or a ranking without the point support.\<close>

definition without_support :: "CargoCandidateIdentityScore \<Rightarrow> CargoCandidateIdentityScore" where
  "without_support s = s\<lparr>cs_point_support_confidence := Fin 0\<rparr>"

definition rank_without_support :: "CargoCandidateRanking \<Rightarrow> CargoCandidateRanking" where
  "rank_without_support r = r\<lparr>cr_top1 := without_support (cr_top1 r), cr_top2 := without_support (cr_top2 r)\<rparr>"

lemma without_support_simps [simp]:
  "cs_valid (without_support s) = cs_valid s" "candidate_rank (without_support s) = candidate_rank s"
  "cs_component_id (without_support s) = cs_component_id s" "without_support (without_support s) = without_support s"
  by (simp_all add: without_support_def candidate_rank_def)

lemma count_irrelevant:
  assumes "0 < cd_point_count c" and "0 < n"
  shows "validDescriptor (c\<lparr>cd_point_count := n\<rparr>) = validDescriptor c"
    and "cargoOrientedOverlapRatio d (c\<lparr>cd_point_count := n\<rparr>) = cargoOrientedOverlapRatio d c"
  using assms by (simp_all add: validDescriptor_def cargoOrientedOverlapRatio_def projectHalfExtents_def)

lemma count_irrelevant_hook:
  assumes "0 < cd_point_count c" and "0 < n"
  shows "cargoCandidateContainsHookAnchor (c\<lparr>cd_point_count := n\<rparr>) h m = cargoCandidateContainsHookAnchor c h m"
    and "hook_dynamic_gate (c\<lparr>cd_point_count := n\<rparr>) x = hook_dynamic_gate c x"
    and "hook_gated_distance (c\<lparr>cd_point_count := n\<rparr>) x = hook_gated_distance c x"
    and "hook_association_residual (c\<lparr>cd_point_count := n\<rparr>) x = hook_association_residual c x"
    and "hook_normalized_offset (c\<lparr>cd_point_count := n\<rparr>) x = hook_normalized_offset c x"
    and "predicted_descriptor (c\<lparr>cd_point_count := n\<rparr>) v w y = predicted_descriptor c v w y"
  using assms count_irrelevant(1) [OF assms]
  by (simp_all add: cargoCandidateContainsHookAnchor_def hook_dynamic_gate_def hook_gated_distance_def
      hook_association_residual_def hook_normalized_offset_def predicted_descriptor_def)

lemma track_count:
  assumes "0 < cd_point_count c" and "0 < n"
  shows "score_with_track (c\<lparr>cd_point_count := n\<rparr>) x s = score_with_track c x s"
  unfolding score_with_track_def Let_def count_irrelevant [OF assms] count_irrelevant_hook [OF assms] by simp

lemma track_support:
  "score_with_track c x (s\<lparr>cs_point_support_confidence := p\<rparr>) = (score_with_track c x s)\<lparr>cs_point_support_confidence := p\<rparr>"
  "score_without_track (s\<lparr>cs_point_support_confidence := p\<rparr>) = (score_without_track s)\<lparr>cs_point_support_confidence := p\<rparr>"
  by (simp_all add: score_with_track_def score_without_track_def Let_def)

text \<open>The score with a free entry for the point support.\<close>

definition score_entry :: "CargoCandidateDescriptor \<Rightarrow> CargoCandidateIdentityContext \<Rightarrow> CargoCandidateIdentityScore \<Rightarrow> dbl \<Rightarrow>
    CargoCandidateIdentityScore" where
  "score_entry c x s3 p =
     (let s4 = (if predicted_track_usable x then score_with_track c x (s3\<lparr>cs_point_support_confidence := p\<rparr>)
                else score_without_track (s3\<lparr>cs_point_support_confidence := p\<rparr>))
      in s4\<lparr>cs_overall_lock_confidence :=
              cpp_clamp (Fin 0.35 * cs_identity_confidence s4 + Fin 0.2 * cs_shape_confidence s4 +
                Fin 0.15 * cd_orientation_confidence c + Fin 0.15 * cs_motion_confidence s4 +
                Fin 0.15 * cs_suspension_confidence s4) (Fin 0) (Fin 1),
            cs_valid := True, cs_reason := ''scored''\<rparr>)"

lemma score_entry_support: "without_support (score_entry c x s p) = without_support (score_entry c x s q)"
  by (cases "predicted_track_usable x") (simp_all add: score_entry_def track_support without_support_def)

definition score_base :: "CargoCandidateDescriptor \<Rightarrow> CargoCandidateIdentityContext \<Rightarrow> CargoCandidateIdentityScore" where
  "score_base c x = default_CargoCandidateIdentityScore
     \<lparr>cs_component_id := cd_component_id c, cs_hook_association_residual_m := hook_association_residual c x,
      cs_hook_dynamic_gate_m := hook_dynamic_gate c x, cs_hook_normalized_offset := hook_normalized_offset c x,
      cs_hook_distance_score := unitScore (hook_gated_distance c x) (cpp_max (hook_dynamic_gate c x) (Fin 0.05)),
      cs_suspension_confidence := (if cd_suspension_evidence c then Fin 1 else Fin 0.35),
      cs_shape_confidence := cpp_clamp (Fin 0.5 * cd_orientation_confidence c +
        Fin 0.5 * unitScore (v3y (cd_size c) / v3x (cd_size c)) (Fin 1)) (Fin 0) (Fin 1)\<rparr>"

lemma score_base_count:
  assumes "0 < cd_point_count c" and "0 < n"
  shows "score_base (c\<lparr>cd_point_count := n\<rparr>) x = score_base c x"
  unfolding score_base_def count_irrelevant_hook [OF assms] by simp

lemma score_entry_count:
  assumes "0 < cd_point_count c" and "0 < n"
  shows "score_entry (c\<lparr>cd_point_count := n\<rparr>) x s p = score_entry c x s p"
  unfolding score_entry_def track_count [OF assms] by simp

definition score_rejected :: "CargoCandidateDescriptor \<Rightarrow> CargoCandidateIdentityContext \<Rightarrow> bool" where
  "score_rejected c x \<longleftrightarrow>
     \<not> validDescriptor c \<or> \<not> vec2_allFinite (ck_hook_center x) \<or> \<not> isfinite (ck_hook_region_radius_m x) \<or>
     ck_hook_region_radius_m x \<le> Fin 0 \<or>
     ck_require_hook_containment x \<and> \<not> cargoCandidateContainsHookAnchor c (ck_hook_center x) (ck_hook_containment_margin_m x) \<or>
     \<not> isfinite (hook_dynamic_gate c x) \<or> hook_dynamic_gate c x \<le> Fin 0 \<or> hook_dynamic_gate c x < hook_gated_distance c x \<or>
     isfinite (ck_maximum_hook_normalized_offset x) \<and> (ck_maximum_hook_normalized_offset x \<le> Fin 0 \<or>
       ck_maximum_hook_normalized_offset x < hook_normalized_offset c x)"

lemma score_scored:
  assumes "\<not> score_rejected c x"
  shows "scoreCargoCandidateIdentity c x = score_entry c x (score_base c x)
    (cpp_clamp (Fin (real (cd_point_count c)) / Fin (real (cpp_max 1 (ck_strong_point_count x)))) (Fin 0) (Fin 1))"
proof -
  have guards:
    "(\<not> validDescriptor c \<or> \<not> vec2_allFinite (ck_hook_center x) \<or> \<not> isfinite (ck_hook_region_radius_m x) \<or>
      ck_hook_region_radius_m x \<le> Fin 0) = False"
    "(ck_require_hook_containment x \<and>
      \<not> cargoCandidateContainsHookAnchor c (ck_hook_center x) (ck_hook_containment_margin_m x)) = False"
    "(\<not> isfinite (hook_dynamic_gate c x) \<or> hook_dynamic_gate c x \<le> Fin 0 \<or>
      hook_dynamic_gate c x < hook_gated_distance c x) = False"
    "(isfinite (ck_maximum_hook_normalized_offset x) \<and> (ck_maximum_hook_normalized_offset x \<le> Fin 0 \<or>
      ck_maximum_hook_normalized_offset x < hook_normalized_offset c x)) = False"
    using assms unfolding score_rejected_def by argo+
  show ?thesis
    unfolding scoreCargoCandidateIdentity_def Let_def guards if_False score_entry_def score_base_def
    by (simp add: default_CargoCandidateIdentityScore_def)
qed

lemma score_count:
  assumes "0 < cd_point_count c" and "0 < n"
  shows "without_support (scoreCargoCandidateIdentity (c\<lparr>cd_point_count := n\<rparr>) x) =
         without_support (scoreCargoCandidateIdentity c x)"
proof -
  note irrelevant = count_irrelevant [OF assms] count_irrelevant_hook [OF assms] score_base_count [OF assms]
    score_entry_count [OF assms]
  define g1 where "g1 \<longleftrightarrow> \<not> validDescriptor c \<or> \<not> vec2_allFinite (ck_hook_center x) \<or>
    \<not> isfinite (ck_hook_region_radius_m x) \<or> ck_hook_region_radius_m x \<le> Fin 0"
  define g2 where "g2 \<longleftrightarrow> ck_require_hook_containment x \<and>
    \<not> cargoCandidateContainsHookAnchor c (ck_hook_center x) (ck_hook_containment_margin_m x)"
  define g3 where "g3 \<longleftrightarrow> \<not> isfinite (hook_dynamic_gate c x) \<or> hook_dynamic_gate c x \<le> Fin 0 \<or>
    hook_dynamic_gate c x < hook_gated_distance c x"
  define g4 where "g4 \<longleftrightarrow> isfinite (ck_maximum_hook_normalized_offset x) \<and>
    (ck_maximum_hook_normalized_offset x \<le> Fin 0 \<or> ck_maximum_hook_normalized_offset x < hook_normalized_offset c x)"
  have same: "score_rejected (c\<lparr>cd_point_count := n\<rparr>) x = score_rejected c x"
    unfolding score_rejected_def irrelevant by simp
  show ?thesis
  proof (cases "score_rejected c x")
    case True
    then consider "g1" | "\<not> g1" "g2" | "\<not> g1" "\<not> g2" "g3" | "\<not> g1" "\<not> g2" "\<not> g3" "g4"
      unfolding g1_def g2_def g3_def g4_def score_rejected_def by argo
    then have "scoreCargoCandidateIdentity (c\<lparr>cd_point_count := n\<rparr>) x = scoreCargoCandidateIdentity c x"
      unfolding scoreCargoCandidateIdentity_def Let_def irrelevant CargoCandidateDescriptor.simps g1_def [symmetric]
        g2_def [symmetric] g3_def [symmetric] g4_def [symmetric]
      by cases simp_all
    then show ?thesis by simp
  next
    case False
    then show ?thesis using score_scored [of c x] score_scored [of "c\<lparr>cd_point_count := n\<rparr>" x] same
      by (simp only: irrelevant) (simp add: score_entry_support)
  qed
qed

lemma rank_step_support:
  "rank_without_support (rank_step r s) = rank_step (rank_without_support r) (without_support s)"
  by (auto simp: rank_step_def rank_without_support_def)

lemma rank_support:
  "rank_without_support (rankCargoCandidateIdentityScores ss) =
   rankCargoCandidateIdentityScores (map without_support ss)"
proof -
  have fold: "rank_without_support (foldl rank_step r ss) =
      foldl rank_step (rank_without_support r) (map without_support ss)" for r
    by (induction ss arbitrary: r) (simp_all add: rank_step_support)
  have start: "rank_without_support default_CargoCandidateRanking = default_CargoCandidateRanking"
    by (simp add: rank_without_support_def default_CargoCandidateRanking_def without_support_def
        default_CargoCandidateIdentityScore_def)
  have margin: "rank_without_support (r\<lparr>cr_margin := m\<rparr>) = (rank_without_support r)\<lparr>cr_margin := m\<rparr>"
    "cr_valid (rank_without_support r) = cr_valid r" "cr_top1_rank (rank_without_support r) = cr_top1_rank r"
    "cr_top2_rank (rank_without_support r) = cr_top2_rank r" for r m
    by (simp_all add: rank_without_support_def)
  show ?thesis
    unfolding rankCargoCandidateIdentityScores_def Let_def margin fold [symmetric, of default_CargoCandidateRanking, unfolded start]
    by (simp add: margin fold [of default_CargoCandidateRanking, unfolded start, symmetric])
qed

text \<open>How many points support a candidate never decides which candidate is the cargo: two lists of candidates that
  differ only in their (positive) point counts are ranked alike, with the same winner and runner-up up to the recorded
  point support, the same ranks and the same margin. This is the promise of the header, that point support is a quality
  measure and never grants authority to select the owner.\<close>

theorem ranking_ignores_point_support:
  assumes "list_all2 (\<lambda>c n. 0 < cd_point_count c \<and> 0 < n) cs ns"
  shows "rank_without_support (rankCargoCandidateIdentityScores
           (map (\<lambda>(c, n). scoreCargoCandidateIdentity (c\<lparr>cd_point_count := n\<rparr>) x) (zip cs ns))) =
         rank_without_support (rankCargoCandidateIdentityScores (map (\<lambda>c. scoreCargoCandidateIdentity c x) cs))"
proof -
  have "map without_support (map (\<lambda>(c, n). scoreCargoCandidateIdentity (c\<lparr>cd_point_count := n\<rparr>) x) (zip cs ns)) =
      map without_support (map (\<lambda>c. scoreCargoCandidateIdentity c x) cs)"
    using assms by (induction rule: list_all2_induct) (simp_all add: score_count)
  then show ?thesis by (simp only: rank_support)
qed

definition demo_cargo :: "real \<Rightarrow> nat \<Rightarrow> CargoCandidateDescriptor" where
  "demo_cargo x n =
     \<lparr>cd_component_id = 1, cd_center = \<lparr>v3x = Fin x, v3y = Fin 0, v3z = Fin 5\<rparr>,
      cd_size = \<lparr>v3x = Fin 2, v3y = Fin 1, v3z = Fin 1\<rparr>, cd_yaw_rad = Fin 0, cd_orientation_confidence = Fin 1,
      cd_point_count = n, cd_suspension_evidence = True\<rparr>"

definition demo_rank_context :: CargoCandidateIdentityContext where
  "demo_rank_context =
     \<lparr>ck_hook_center = vec2_zero, ck_hook_region_radius_m = Fin 3, ck_require_hook_containment = False,
      ck_hook_containment_margin_m = Fin 0, ck_maximum_hook_center_distance_m = Fin 3, ck_size_aware_hook_gate = False,
      ck_learned_cargo_to_hook_offset_valid = False, ck_learned_cargo_to_hook_offset = vec2_zero,
      ck_hook_xy_uncertainty_m = Fin 0, ck_maximum_dynamic_hook_center_distance_m = Fin 3,
      ck_maximum_hook_normalized_offset = PInf, ck_strong_point_count = 10, ck_predicted_track_valid = False,
      ck_predicted_center = vec3_zero, ck_predicted_size = vec3_zero, ck_predicted_yaw_rad = Fin 0,
      ck_association_radius_m = Fin 1\<rparr>"

theorem ranking_ignores_point_support_witness:
  "cr_margin (rankCargoCandidateIdentityScores
     [scoreCargoCandidateIdentity (demo_cargo 0 5) demo_rank_context, scoreCargoCandidateIdentity (demo_cargo 1 400) demo_rank_context]) =
   cr_margin (rankCargoCandidateIdentityScores
     [scoreCargoCandidateIdentity (demo_cargo 0 50) demo_rank_context, scoreCargoCandidateIdentity (demo_cargo 1 50) demo_rank_context])"
  using arg_cong [OF ranking_ignores_point_support [of "[demo_cargo 0 50, demo_cargo 1 50]" "[5, 400]" demo_rank_context],
      of cr_margin]
  by (simp add: demo_cargo_def rank_without_support_def)

section \<open>The two best candidates\<close>

text \<open>The two largest of a list of ranks; a missing one counts as 0.\<close>

definition top_two :: "real list \<Rightarrow> real \<times> real" where
  "top_two xs = (case rev (sort xs) of [] \<Rightarrow> (0, 0) | [a] \<Rightarrow> (a, 0) | a # b # _ \<Rightarrow> (a, b))"

definition valid_ranks :: "CargoCandidateIdentityScore list \<Rightarrow> real list" where
  "valid_ranks ss = map (real_part \<circ> candidate_rank) (filter cs_valid ss)"

definition ranking_state :: "CargoCandidateIdentityScore list \<Rightarrow> CargoCandidateRanking \<Rightarrow> bool" where
  "ranking_state ss r \<longleftrightarrow>
     (case valid_ranks ss of
        [] \<Rightarrow> r = default_CargoCandidateRanking
      | x # xs \<Rightarrow> cr_valid r \<and> cr_top1 r \<in> set ss \<and> cs_valid (cr_top1 r) \<and> candidate_rank (cr_top1 r) = cr_top1_rank r \<and>
          cr_top1_rank r = Fin (fst (top_two (x # xs))) \<and> cr_top2_rank r = Fin (snd (top_two (x # xs))) \<and>
          (cs_valid (cr_top2 r) \<longleftrightarrow> xs \<noteq> []))"

lemma insort_append_above: "\<forall>y \<in> set ys. z \<le> y \<Longrightarrow> insort z (xs @ ys) = insort z xs @ (ys :: real list)"
  by (induction xs) (cases ys; auto)+

lemma sort_snoc: "sort (xs @ [z]) = insort z (sort (xs :: real list))"
proof -
  have "foldr insort xs (insort z []) = insort z (foldr insort xs [])" by (induction xs) (simp_all add: insort_left_comm)
  then show ?thesis by (simp add: sort_key_def)
qed

lemma top_two_snoc:
  assumes "xs \<noteq> []"
  shows "top_two (xs @ [z]) =
    (if fst (top_two xs) < z then (z, fst (top_two xs))
     else if length xs = 1 \<or> snd (top_two xs) < z then (fst (top_two xs), z) else top_two xs)"
proof (cases "rev (sort xs)")
  case Nil
  then show ?thesis using assms by (metis length_0_conv length_rev length_sort)
next
  case (Cons a r)
  then have front: "sort xs = rev r @ [a]" by (metis rev_rev_ident rev.simps(2))
  show ?thesis
  proof (cases r)
    case Nil
    then have one: "length xs = 1" using front by (metis length_sort length_append_singleton length_rev list.size(3) One_nat_def)
    show ?thesis using front Nil one by (simp add: top_two_def sort_snoc)
  next
    case two: (Cons b w)
    then have form: "sort xs = rev w @ [b, a]" using front by simp
    have more: "length xs \<noteq> 1" using arg_cong [OF form, of length] by simp
    have sorted: "b \<le> a" "\<forall>y \<in> set w. y \<le> b" using sorted_sort [of xs] unfolding form by (auto simp: sorted_append)
    consider "a < z" | "z \<le> a" "b < z" | "z \<le> b" using sorted(1) by linarith
    then show ?thesis
    proof cases
      case 1
      then have "insort z (sort xs) = rev w @ [b, a, z]"
        using sorted_insort_is_snoc [OF sorted_sort [of xs], of z] sorted unfolding form by fastforce
      then show ?thesis using 1 by (simp add: top_two_def sort_snoc form)
    next
      case 2
      then have "insort z (sort xs) = insort z (rev w @ [b]) @ [a]" using insort_append_above [of "[a]" z "rev w @ [b]"] form by simp
      also have "insort z (rev w @ [b]) = rev w @ [b, z]"
        using sorted_insort_is_snoc [of "rev w @ [b]" z] 2 sorted sorted_sort [of xs] unfolding form
        by (fastforce simp: sorted_append)
      finally show ?thesis using 2 more by (simp add: top_two_def sort_snoc form)
    next
      case 3
      then have "insort z (sort xs) = insort z (rev w) @ [b, a]" using insort_append_above [of "[b, a]" z "rev w"] form sorted by simp
      then show ?thesis using 3 more sorted by (simp add: top_two_def sort_snoc form)
    qed
  qed
qed

lemma valid_ranks_snoc:
  "valid_ranks (ss @ [s]) = valid_ranks ss @ (if cs_valid s then [real_part (candidate_rank s)] else [])"
  by (simp add: valid_ranks_def)

lemma ranking_state_snoc:
  assumes "ranking_state ss r" and "cs_valid s \<Longrightarrow> isfinite (candidate_rank s)"
  shows "ranking_state (ss @ [s]) (rank_step r s)"
proof (cases "cs_valid s")
  case False
  then show ?thesis using assms(1) by (auto simp: ranking_state_def valid_ranks_snoc rank_step_def split: list.splits)
next
  case True
  obtain z where z: "candidate_rank s = Fin z" using assms(2) [OF True] by (auto simp: isfinite_iff)
  show ?thesis
  proof (cases "valid_ranks ss")
    case Nil
    then show ?thesis
      using assms(1) True z
      by (simp add: ranking_state_def valid_ranks_snoc rank_step_def default_CargoCandidateRanking_def
          default_CargoCandidateIdentityScore_def top_two_def)
  next
    case (Cons x xs)
    have st: "cr_valid r" "cr_top1 r \<in> set ss" "cs_valid (cr_top1 r)" "candidate_rank (cr_top1 r) = cr_top1_rank r"
      "cr_top1_rank r = Fin (fst (top_two (x # xs)))" "cr_top2_rank r = Fin (snd (top_two (x # xs)))"
      "cs_valid (cr_top2 r) \<longleftrightarrow> xs \<noteq> []"
      using assms(1) Cons by (auto simp: ranking_state_def)
    show ?thesis
      using top_two_snoc [of "x # xs" z] st z True Cons
      by (cases "xs = []") (auto simp: ranking_state_def valid_ranks_snoc rank_step_def)
  qed
qed

lemma ranking_state_run:
  assumes "\<forall>s \<in> set ss. cs_valid s \<longrightarrow> isfinite (candidate_rank s)"
  shows "ranking_state ss (foldl rank_step default_CargoCandidateRanking ss)"
  using assms
proof (induction ss rule: rev_induct)
  case Nil
  show ?case by (simp add: ranking_state_def valid_ranks_def)
next
  case (snoc s ss)
  then show ?case using ranking_state_snoc [of ss] by simp
qed

text \<open>The ranking is the specification "take the two best": with finite ranks, no valid score gives no ranking; otherwise
  the winner is one of the scores, its rank is the maximum, the runner-up's rank is the maximum of the others (0 when
  there is no other), and the margin is their difference.\<close>

theorem ranking_top_two:
  assumes "\<forall>s \<in> set ss. cs_valid s \<longrightarrow> isfinite (candidate_rank s)"
  defines "r \<equiv> rankCargoCandidateIdentityScores ss"
  shows "if valid_ranks ss = [] then r = default_CargoCandidateRanking
    else cr_valid r \<and> cr_top1 r \<in> set ss \<and> cs_valid (cr_top1 r) \<and> candidate_rank (cr_top1 r) = cr_top1_rank r \<and>
         (case top_two (valid_ranks ss) of (a, b) \<Rightarrow>
            cr_top1_rank r = Fin a \<and> cr_top2_rank r = Fin b \<and> cr_margin r = Fin (a - b))"
proof -
  have st: "ranking_state ss (foldl rank_step default_CargoCandidateRanking ss)"
    using assms(1) by (rule ranking_state_run)
  show ?thesis
  proof (cases "valid_ranks ss")
    case Nil
    then show ?thesis
      using st by (simp add: r_def rankCargoCandidateIdentityScores_def ranking_state_def default_CargoCandidateRanking_def)
  next
    case (Cons x xs)
    define f where "f = foldl rank_step default_CargoCandidateRanking ss"
    obtain a b where ab: "top_two (x # xs) = (a, b)" by fastforce
    have f: "cr_valid f" "cr_top1 f \<in> set ss" "cs_valid (cr_top1 f)" "candidate_rank (cr_top1 f) = Fin a"
      "cr_top1_rank f = Fin a" "cr_top2_rank f = Fin b"
      using st Cons ab by (auto simp: ranking_state_def f_def [symmetric])
    have r: "r = f\<lparr>cr_margin := Fin (a - b)\<rparr>"
      using f by (simp add: r_def rankCargoCandidateIdentityScores_def f_def [symmetric])
    show ?thesis using f by (simp add: r Cons ab)
  qed
qed

definition demo_score :: "int \<Rightarrow> real \<Rightarrow> CargoCandidateIdentityScore" where
  "demo_score n x = default_CargoCandidateIdentityScore
     \<lparr>cs_component_id := n, cs_valid := True, cs_identity_confidence := Fin x\<rparr>"

theorem ranking_top_two_witness:
  "cr_margin (rankCargoCandidateIdentityScores [demo_score 1 (1 / 4), demo_score 2 (3 / 4), demo_score 3 (1 / 2)]) = Fin (1 / 4)"
proof -
  have rank: "candidate_rank (demo_score n x) = Fin x" and v: "cs_valid (demo_score n x)" for n x
    by (simp_all add: candidate_rank_def demo_score_def default_CargoCandidateIdentityScore_def)
  have ranks: "valid_ranks [demo_score 1 (1 / 4), demo_score 2 (3 / 4), demo_score 3 (1 / 2)] = [1 / 4, 3 / 4, 1 / 2]"
    by (simp add: valid_ranks_def rank v)
  show ?thesis
    using ranking_top_two [of "[demo_score 1 (1 / 4), demo_score 2 (3 / 4), demo_score 3 (1 / 2)]"]
    by (simp add: rank v ranks top_two_def)
qed
section \<open>What an accepted association guarantees\<close>

lemma min_le_finite: "isfinite a \<Longrightarrow> cpp_min a b \<le> (a :: dbl)"
  by (cases a; cases b) (auto simp: cpp_min_def)

lemma not_less_min: "isfinite g \<Longrightarrow> \<not> cpp_min g b < Fin x \<Longrightarrow> Fin x \<le> g"
  by (cases g; cases b) (auto simp: cpp_min_def split: if_splits)

lemma accepted_facts:
  assumes "aq_accepted (evaluateCargoPredictedAssociation i)"
  defines "d \<equiv> evaluateCargoPredictedAssociation i"
  shows "association_input_ok i"
    and "aq_predicted_center d = vec3_add (ax_previous_center i) (vec3_scale (bounded_velocity i) (ax_sensor_dt_sec i))"
    and "\<exists>u. \<not> cpp_min (ax_maximum_xy_gate_m i) u <
           vec2_norm (vec3_head2 (vec3_sub (cd_center (ax_candidate i)) (aq_predicted_center d)))"
    and "\<exists>u. \<not> cpp_min (ax_maximum_z_gate_m i) u < \<bar>v3z (vec3_sub (cd_center (ax_candidate i)) (aq_predicted_center d))\<bar>"
    and "\<not> cargoOrientedOverlapRatio (predicted_descriptor (ax_candidate i) (aq_predicted_center d) (ax_locked_size i)
           (ax_locked_yaw_rad i)) (ax_candidate i) < ax_minimum_overlap_ratio i"
  using assms(1) unfolding d_def evaluateCargoPredictedAssociation_def Let_def default_CargoAssociationDecision_def
  by (auto split: if_splits)

lemma association_FinE:
  assumes "association_input_ok i"
  obtains dt gxy gz where "ax_sensor_dt_sec i = Fin dt" "0 \<le> dt" "ax_maximum_xy_gate_m i = Fin gxy"
    "ax_maximum_z_gate_m i = Fin gz" "vec3_allFinite (cd_center (ax_candidate i))" "vec3_allFinite (ax_previous_center i)"
    "vec3_allFinite (ax_velocity i)"
proof -
  have fin: "isfinite (ax_sensor_dt_sec i)" "isfinite (ax_maximum_xy_gate_m i)" "isfinite (ax_maximum_z_gate_m i)"
    and rest: "\<not> ax_sensor_dt_sec i < Fin 0" "vec3_allFinite (cd_center (ax_candidate i))"
      "vec3_allFinite (ax_previous_center i)" "vec3_allFinite (ax_velocity i)"
    using assms by (simp_all add: association_input_ok_def validDescriptor_def)
  then show ?thesis using that by (auto simp: isfinite_iff not_less)
qed

lemma bounded_velocity_limit:
  assumes "vec3_allFinite (ax_velocity i)" "ax_max_xy_speed_mps i = Fin vxy" "0 \<le> vxy" "ax_max_z_speed_mps i = Fin vz"
    "0 \<le> vz"
  shows "within_rate (bounded_velocity i) vxy vz"
proof -
  have "bounded_velocity i = limitCargoPoseResidualByRate (ax_velocity i) (Fin 1) (Fin vxy) (Fin vz) (Fin 0)"
    using assms by (simp add: bounded_velocity_def limitCargoPoseResidualByRate_def Let_def)
  then show ?thesis using limit_within_rate [OF assms(3,5) order_refl zero_less_one assms(1)] by simp
qed

text \<open>A detection that is associated with the predicted cargo lies where the cargo can have got to: with non-negative
  speed limits, an accepted candidate is at most the speed limit times the sensor interval plus the maximum gate away from
  the previous centre, horizontally and vertically, whatever velocity, uncertainty and residual the caller put into the
  dynamic gates; and its overlap with the predicted box is not below the required one. (A horizontal speed limit
  below a micrometre per second is not enforced below that.)\<close>

theorem association_bounded:
  assumes "aq_accepted (evaluateCargoPredictedAssociation i)"
    and "ax_max_xy_speed_mps i = Fin vxy" "0 \<le> vxy" "ax_max_z_speed_mps i = Fin vz" "0 \<le> vz"
  shows "\<exists>dt gxy gz a b c. ax_sensor_dt_sec i = Fin dt \<and> ax_maximum_xy_gate_m i = Fin gxy \<and> ax_maximum_z_gate_m i = Fin gz \<and>
    vec3_sub (cd_center (ax_candidate i)) (ax_previous_center i) = \<lparr>v3x = Fin a, v3y = Fin b, v3z = Fin c\<rparr> \<and>
    sqrt (a * a + b * b) \<le> max vxy 0.000001 * dt + gxy \<and> \<bar>c\<bar> \<le> vz * dt + gz \<and>
    \<not> cargoOrientedOverlapRatio (predicted_descriptor (ax_candidate i)
        (aq_predicted_center (evaluateCargoPredictedAssociation i)) (ax_locked_size i) (ax_locked_yaw_rad i))
        (ax_candidate i) < ax_minimum_overlap_ratio i"
proof -
  note facts = accepted_facts [OF assms(1)]
  obtain dt gxy gz where f: "ax_sensor_dt_sec i = Fin dt" "0 \<le> dt" "ax_maximum_xy_gate_m i = Fin gxy"
    "ax_maximum_z_gate_m i = Fin gz" "vec3_allFinite (cd_center (ax_candidate i))" "vec3_allFinite (ax_previous_center i)"
    "vec3_allFinite (ax_velocity i)"
    using facts(1) by (rule association_FinE)
  obtain p q r where v: "bounded_velocity i = \<lparr>v3x = Fin p, v3y = Fin q, v3z = Fin r\<rparr>"
      "sqrt (p * p + q * q) \<le> max vxy 0.000001" "\<bar>r\<bar> \<le> vz"
    using bounded_velocity_limit [OF f(7) assms(2-)] by (auto simp: within_rate_def)
  obtain x y z where c: "cd_center (ax_candidate i) = \<lparr>v3x = Fin x, v3y = Fin y, v3z = Fin z\<rparr>" using f(5) by (rule vec3_finiteE)
  obtain x0 y0 z0 where c0: "ax_previous_center i = \<lparr>v3x = Fin x0, v3y = Fin y0, v3z = Fin z0\<rparr>" using f(6) by (rule vec3_finiteE)
  let ?a = "x - (x0 + p * dt)" and ?b = "y - (y0 + q * dt)" and ?c = "z - (z0 + r * dt)"
  have residual: "vec3_sub (cd_center (ax_candidate i)) (aq_predicted_center (evaluateCargoPredictedAssociation i)) =
      \<lparr>v3x = Fin ?a, v3y = Fin ?b, v3z = Fin ?c\<rparr>"
    unfolding facts(2) by (simp add: c c0 v(1) f(1) vec3_sub_def vec3_add_def vec3_scale_def)
  have norm: "vec2_norm (vec3_head2 \<lparr>v3x = Fin ?a, v3y = Fin ?b, v3z = Fin ?c\<rparr>) = Fin (sqrt (?a * ?a + ?b * ?b))"
    using sum_squares_ge_zero [of ?a ?b] by (simp add: vec2_norm_def vec3_head2_def not_less)
  have xy: "sqrt (?a * ?a + ?b * ?b) \<le> gxy" and cz: "\<bar>?c\<bar> \<le> gz"
    using facts(3,4) unfolding residual norm f(3,4) by (auto dest!: not_less_min [rotated])
  have "sqrt ((x - x0) * (x - x0) + (y - y0) * (y - y0)) \<le> sqrt (?a * ?a + ?b * ?b) + sqrt (p * dt * (p * dt) + q * dt * (q * dt))"
    using norm2_triangle [of ?a "p * dt" ?b "q * dt"] by (simp add: algebra_simps)
  also have "\<dots> \<le> gxy + dt * max vxy 0.000001"
    using xy v(2) scaled_norm [OF f(2), of p q] mult_left_mono [OF v(2) f(2)] by (intro add_mono) simp_all
  finally have one: "sqrt ((x - x0) * (x - x0) + (y - y0) * (y - y0)) \<le> max vxy 0.000001 * dt + gxy"
    by (simp only: mult.commute add.commute)
  have "\<bar>r * dt\<bar> \<le> vz * dt" using v(3) f(2) by (simp add: abs_mult mult_right_mono)
  then have two: "\<bar>z - z0\<bar> \<le> vz * dt + gz" using cz by (simp add: abs_le_iff)
  have "vec3_sub (cd_center (ax_candidate i)) (ax_previous_center i) = \<lparr>v3x = Fin (x - x0), v3y = Fin (y - y0), v3z = Fin (z - z0)\<rparr>"
    by (simp add: c c0 vec3_sub_def)
  then show ?thesis using f(1,3,4) one two facts(5) by blast
qed

definition demo_association :: CargoAssociationInput where
  "demo_association =
     \<lparr>ax_candidate = demo_cargo 1 20, ax_previous_center = \<lparr>v3x = Fin 0, v3y = Fin 0, v3z = Fin 5\<rparr>,
      ax_velocity = \<lparr>v3x = Fin 1, v3y = Fin 0, v3z = Fin 0\<rparr>, ax_locked_size = \<lparr>v3x = Fin 2, v3y = Fin 1, v3z = Fin 1\<rparr>,
      ax_locked_yaw_rad = Fin 0, ax_sensor_dt_sec = Fin 1, ax_base_center_gate_m = Fin 1, ax_max_xy_speed_mps = Fin 2,
      ax_max_z_speed_mps = Fin 1, ax_horizontal_uncertainty_m = Fin 0, ax_vertical_uncertainty_m = Fin 0,
      ax_horizontal_tracking_residual_m = Fin 0, ax_vertical_tracking_residual_m = Fin 0,
      ax_velocity_model_uncertainty_mps = Fin 0, ax_maximum_xy_gate_m = Fin 2, ax_maximum_z_gate_m = Fin 1,
      ax_minimum_overlap_ratio = Fin 0, ax_maximum_shape_relative_error = Fin 1, ax_maximum_axial_yaw_error_rad = Fin 1,
      ax_use_shape_as_hard_gate = False, ax_use_yaw_as_hard_gate = False, ax_strict_reacquisition = False\<rparr>"

lemma overlap_not_negative: "\<not> cargoOrientedOverlapRatio a b < Fin 0"
proof -
  have "\<not> cpp_clamp v (Fin 0) (Fin 1) < Fin 0" for v by (cases v) (simp_all add: cpp_clamp_def)
  then show ?thesis by (simp add: cargoOrientedOverlapRatio_def Let_def)
qed

lemma demo_accepted: "aq_accepted (evaluateCargoPredictedAssociation demo_association)"
proof -
  have ok: "association_input_ok demo_association"
    by (simp add: association_input_ok_def demo_association_def demo_cargo_def validDescriptor_def vec3_allFinite_def
        vec3_minCoeff_def)
  have norm: "vec2_norm \<lparr>v2x = Fin 1, v2y = Fin 0\<rparr> = Fin 1" "vec2_norm \<lparr>v2x = Fin 0, v2y = Fin 0\<rparr> = Fin 0"
    by (simp_all add: vec2_norm_def)
  have v: "bounded_velocity demo_association = \<lparr>v3x = Fin 1, v3y = Fin 0, v3z = Fin 0\<rparr>"
    by (simp add: bounded_velocity_def demo_association_def Let_def vec3_head2_def norm cpp_clamp_def)
  show ?thesis
    unfolding evaluateCargoPredictedAssociation_def Let_def v
    using ok overlap_not_negative
    by (simp add: demo_association_def demo_cargo_def vec3_add_def vec3_scale_def vec3_sub_def vec3_head2_def norm
        default_CargoAssociationDecision_def)
qed

theorem association_bounded_witness:
  "\<exists>a b c. vec3_sub (cd_center (demo_cargo 1 20)) \<lparr>v3x = Fin 0, v3y = Fin 0, v3z = Fin 5\<rparr> = \<lparr>v3x = Fin a, v3y = Fin b, v3z = Fin c\<rparr> \<and>
     sqrt (a * a + b * b) \<le> 4 \<and> \<bar>c\<bar> \<le> 2"
proof -
  have sel: "ax_max_xy_speed_mps demo_association = Fin 2" "ax_max_z_speed_mps demo_association = Fin 1"
    "ax_candidate demo_association = demo_cargo 1 20" "ax_previous_center demo_association = \<lparr>v3x = Fin 0, v3y = Fin 0, v3z = Fin 5\<rparr>"
    "ax_sensor_dt_sec demo_association = Fin 1" "ax_maximum_xy_gate_m demo_association = Fin 2"
    "ax_maximum_z_gate_m demo_association = Fin 1"
    by (simp_all add: demo_association_def)
  show ?thesis
    using association_bounded [OF demo_accepted sel(1) _ sel(2)] unfolding sel by auto
qed

section \<open>What a formal lock guarantees\<close>

lemma half_above_median:
  assumes "xs \<noteq> []" and "m \<le> sort xs ! (length xs div 2)"
  shows "length xs \<le> 2 * length (filter (\<lambda>x. m \<le> x) (xs :: real list))"
proof -
  let ?k = "length xs div 2" and ?s = "sort xs"
  have k: "?k < length ?s" using assms(1) by simp
  have above: "m \<le> x" if x: "x \<in> set (drop ?k ?s)" for x
  proof -
    obtain j where j: "j < length ?s - ?k" "x = ?s ! (?k + j)"
      using x k by (auto simp: in_set_conv_nth)
    have "?s ! ?k \<le> ?s ! (?k + j)" using j(1) by (intro sorted_nth_mono) auto
    then show ?thesis using assms(2) j(2) by simp
  qed
  have "length xs - ?k = length (filter (\<lambda>x. m \<le> x) (drop ?k ?s))" using above by simp
  also have "\<dots> \<le> length (filter (\<lambda>x. m \<le> x) ?s)"
    by (metis append_take_drop_id filter_append le_add2 length_append)
  also have "\<dots> = length (filter (\<lambda>x. m \<le> x) xs)" by (simp add: filter_sort)
  finally show ?thesis by linarith
qed

lemma median_Fin: "xs \<noteq> [] \<Longrightarrow> track_median (map Fin xs) = Fin (sort xs ! (length xs div 2))"
  by (simp add: track_median_def sort_key_Fin)

lemma half_above_limit:
  assumes "\<forall>x \<in> set ds. isfinite (f x)" and "ds \<noteq> []" and "isfinite m" and "\<not> track_median (map f ds) < m"
  shows "length ds \<le> 2 * length (filter (\<lambda>d. m \<le> f d) ds)"
proof -
  obtain r where r: "m = Fin r" using assms(3) by (auto simp: isfinite_iff)
  define g where "g = real_part \<circ> f"
  have f: "f d = Fin (g d)" if d: "d \<in> set ds" for d using assms(1) d by (simp add: g_def Fin_real_part)
  have map: "map f ds = map Fin (map g ds)" using f by simp
  have filt: "filter (\<lambda>d. m \<le> f d) ds = filter (\<lambda>d. r \<le> g d) ds" using f r by (intro filter_cong) simp_all
  have "r \<le> sort (map g ds) ! (length (map g ds) div 2)"
    using assms(2,4) median_Fin [of "map g ds"] unfolding map r by (simp add: not_less del: map_map)
  then have "length (map g ds) \<le> 2 * length (filter (\<lambda>x. r \<le> x) (map g ds))"
    using assms(2) by (intro half_above_median) simp_all
  then show ?thesis by (simp add: filt filter_map comp_def)
qed

lemma step_below_maximum:
  assumes "\<forall>v \<in> set vs. vec3_allFinite v" and "\<not> limit < maximum_step vs" and "Suc k < length vs"
  shows "\<not> limit < vec3_norm (vec3_sub (vs ! Suc k) (vs ! k))"
proof -
  let ?f = "\<lambda>p. vec3_norm (vec3_sub (snd p) (fst p))"
  have fin: "\<exists>r. ?f p = Fin r" if p: "p \<in> set (zip vs (tl vs))" for p
  proof -
    have mem: "fst p \<in> set vs" "snd p \<in> set vs"
      using p set_zip_leftD [of "fst p" "snd p" vs "tl vs"] set_zip_rightD [of "fst p" "snd p" vs "tl vs"]
      by (cases vs; simp)+
    obtain a b c where d: "vec3_sub (snd p) (fst p) = \<lparr>v3x = Fin a, v3y = Fin b, v3z = Fin c\<rparr>"
      using vec3_sub_finite [of "snd p" "fst p"] assms(1) mem by (blast elim: vec3_finiteE)
    have "0 \<le> a * a + b * b + c * c" by (intro add_nonneg_nonneg) simp_all
    then show ?thesis by (simp add: vec3_norm_def d not_less)
  qed
  have "maximum_step vs = foldl (\<lambda>most p. cpp_max most (?f p)) (Fin 0) (zip vs (tl vs))"
    unfolding maximum_step_def by (intro foldl_cong refl) (auto simp: case_prod_beta)
  then obtain m where m: "maximum_step vs = Fin m" "\<forall>p \<in> set (zip vs (tl vs)). ?f p \<le> Fin m"
    using max_fold_ge [of "zip vs (tl vs)" ?f "Fin 0" 0] fin by auto
  have "(vs ! k, vs ! Suc k) \<in> set (zip vs (tl vs))"
    using assms(3) by (auto simp: in_set_zip nth_tl intro!: exI [of _ k])
  then have "vec3_norm (vec3_sub (vs ! Suc k) (vs ! k)) \<le> Fin m" using m(2) by fastforce
  then show ?thesis using assms(2) m(1) by (cases limit; cases "vec3_norm (vec3_sub (vs ! Suc k) (vs ! k))") auto
qed

lemma formal_lock_facts:
  assumes "py_formal_lock_allowed (summarizeCargoProvisionalLock ds ss c)"
  shows "pv_minimum_frames c \<le> length ds" "length ss = length ds"
    "\<forall>(d, s) \<in> set (zip ds ss). validDescriptor d \<and> cs_valid s"
    "\<not> pv_maximum_center_step_m c < maximum_step (map cd_center ds)"
    "physical_bounds_ok (py_median_center (summarizeCargoProvisionalLock ds ss c))
       \<lparr>v3x = track_median (map (v3x \<circ> cd_size) ds), v3y = track_median (map (v3y \<circ> cd_size) ds),
        v3z = track_median (map (v3z \<circ> cd_size) ds)\<rparr> c"
  using assms unfolding summarizeCargoProvisionalLock_def Let_def default_CargoProvisionalLockSummary_def
  by (auto split: if_splits)

text \<open>C19. A formal lock is backed by the observed frames: the required number of frames was seen, every observation and every
  identity score is valid, there is at least one frame, in at least half of the frames each dimension reaches the configured
  minimum, and no two consecutive frames are farther apart than the largest admitted centre step.\<close>

theorem formal_lock_backed:
  assumes "py_formal_lock_allowed (summarizeCargoProvisionalLock ds ss c)"
  shows "pv_minimum_frames c \<le> length ds \<and> ds \<noteq> [] \<and> length ss = length ds \<and>
    (\<forall>d \<in> set ds. validDescriptor d) \<and> (\<forall>s \<in> set ss. cs_valid s) \<and>
    length ds \<le> 2 * length (filter (\<lambda>d. pv_minimum_length_m c \<le> v3x (cd_size d)) ds) \<and>
    length ds \<le> 2 * length (filter (\<lambda>d. pv_minimum_width_m c \<le> v3y (cd_size d)) ds) \<and>
    length ds \<le> 2 * length (filter (\<lambda>d. pv_minimum_height_m c \<le> v3z (cd_size d)) ds) \<and>
    (\<forall>k. Suc k < length ds \<longrightarrow>
       \<not> pv_maximum_center_step_m c < vec3_norm (vec3_sub (cd_center (ds ! Suc k)) (cd_center (ds ! k))))"
proof -
  note facts = formal_lock_facts [OF assms]
  have valid: "\<forall>d \<in> set ds. validDescriptor d" "\<forall>s \<in> set ss. cs_valid s"
    using facts(2,3) by (metis (mono_tags, lifting) case_prodD in_set_impl_in_set_zip1 in_set_impl_in_set_zip2)+
  have fin: "\<forall>d \<in> set ds. isfinite (v3x (cd_size d)) \<and> isfinite (v3y (cd_size d)) \<and> isfinite (v3z (cd_size d)) \<and>
      vec3_allFinite (cd_center d)"
    using valid(1) by (auto simp: validDescriptor_def vec3_allFinite_def)
  have bounds: "isfinite (pv_minimum_length_m c)" "isfinite (pv_minimum_width_m c)" "isfinite (pv_minimum_height_m c)"
      "\<not> pv_minimum_length_m c \<le> Fin 0" "\<not> track_median (map (v3x \<circ> cd_size) ds) < pv_minimum_length_m c"
      "\<not> track_median (map (v3y \<circ> cd_size) ds) < pv_minimum_width_m c"
      "\<not> track_median (map (v3z \<circ> cd_size) ds) < pv_minimum_height_m c"
    using facts(5) by (simp_all add: physical_bounds_ok_def)
  have some: "ds \<noteq> []"
    using bounds(1,4,5) by (auto simp: track_median_def isfinite_iff)
  note half = half_above_limit [OF _ some]
  have "length ds \<le> 2 * length (filter (\<lambda>d. pv_minimum_length_m c \<le> (v3x \<circ> cd_size) d) ds)"
    "length ds \<le> 2 * length (filter (\<lambda>d. pv_minimum_width_m c \<le> (v3y \<circ> cd_size) d) ds)"
    "length ds \<le> 2 * length (filter (\<lambda>d. pv_minimum_height_m c \<le> (v3z \<circ> cd_size) d) ds)"
    using half [of "v3x \<circ> cd_size"] half [of "v3y \<circ> cd_size"] half [of "v3z \<circ> cd_size"] fin bounds by (simp_all only: comp_def) blast+
  moreover have "\<forall>k. Suc k < length ds \<longrightarrow>
      \<not> pv_maximum_center_step_m c < vec3_norm (vec3_sub (cd_center (ds ! Suc k)) (cd_center (ds ! k)))"
    using step_below_maximum [of "map cd_center ds" "pv_maximum_center_step_m c"] fin facts(4) by fastforce
  ultimately show ?thesis using facts(1,2) valid some by simp
qed

definition demo_lock_config :: CargoProvisionalLockConfig where
  "demo_lock_config =
     \<lparr>pv_minimum_frames = 2, pv_maximum_center_step_m = Fin 1, pv_maximum_shape_cv = Fin 1, pv_minimum_length_m = Fin 1,
      pv_minimum_width_m = Fin 1, pv_minimum_height_m = Fin 1, pv_minimum_orientation_concentration = Fin 0,
      pv_minimum_identity_confidence = Fin 0, pv_minimum_overall_lock_confidence = Fin 0\<rparr>"

lemma demo_axial_pair: "summarizeCargoAxialYaw [Fin 0, Fin 0] =
    \<lparr>ay_valid = True, ay_mean_yaw_rad = Fin 0, ay_concentration = Fin 1, ay_maximum_deviation_rad = Fin 0,
     ay_sample_count = 2\<rparr>"
  by (simp add: summarizeCargoAxialYaw_def doubled_sum_def Let_def)

lemma demo_locked:
  "py_formal_lock_allowed (summarizeCargoProvisionalLock [demo_cargo 0 5, demo_cargo 1 5] [demo_score 1 1, demo_score 1 1]
     demo_lock_config)"
proof -
  let ?ds = "[demo_cargo 0 5, demo_cargo 1 5]"
  have med: "track_median [Fin a, Fin a] = Fin a" for a by (simp add: track_median_def)
  have centre: "track_median [Fin 0, Fin 1] = Fin 1" by (simp add: track_median_def)
  have sizes: "map (v3x \<circ> cd_size) ?ds = [Fin 2, Fin 2]" "map (v3y \<circ> cd_size) ?ds = [Fin 1, Fin 1]"
    "map (v3z \<circ> cd_size) ?ds = [Fin 1, Fin 1]" "map (v3x \<circ> cd_center) ?ds = [Fin 0, Fin 1]"
    "map (v3y \<circ> cd_center) ?ds = [Fin 0, Fin 0]" "map (v3z \<circ> cd_center) ?ds = [Fin 5, Fin 5]"
    "map cd_yaw_rad ?ds = [Fin 0, Fin 0]"
    by (simp_all add: demo_cargo_def)
  have spread: "relative_spread [Fin 2, Fin 2] = Fin 0" "relative_spread [Fin 1, Fin 1] = Fin 0"
    by (simp_all add: relative_spread_def med)
  have step: "maximum_step (map cd_center ?ds) = Fin 1"
    by (simp add: maximum_step_def demo_cargo_def vec3_norm_def vec3_sub_def)
  have valid: "validDescriptor (demo_cargo x 5)" "cs_valid (demo_score 1 1)" for x
    by (simp_all add: validDescriptor_def demo_cargo_def vec3_allFinite_def vec3_minCoeff_def demo_score_def)
  have mean: "mean_of (map cs_identity_confidence [demo_score 1 1, demo_score 1 1]) = Fin 1"
    "mean_of (map cs_suspension_confidence [demo_score 1 1, demo_score 1 1]) = Fin 0"
    by (simp_all add: mean_of_def demo_score_def default_CargoCandidateIdentityScore_def)
  have unit: "unitScore (Fin 0) (cpp_max (Fin 0.001) (Fin 1)) = Fin 1" "unitScore (Fin 1) (cpp_max (Fin 0.001) (Fin 1)) = Fin 0"
    by (simp_all add: unitScore_def cpp_clamp_def)
  have clamp: "\<not> cpp_clamp v (Fin 0) (Fin 1) < Fin 0" for v by (cases v) (simp_all add: cpp_clamp_def)
  have physical: "physical_bounds_ok \<lparr>v3x = Fin 1, v3y = Fin 0, v3z = Fin 5\<rparr> \<lparr>v3x = Fin 2, v3y = Fin 1, v3z = Fin 1\<rparr> demo_lock_config"
    by (simp add: physical_bounds_ok_def demo_lock_config_def vec3_allFinite_def)
  have config: "pv_minimum_frames demo_lock_config = 2" "pv_maximum_center_step_m demo_lock_config = Fin 1"
    "pv_maximum_shape_cv demo_lock_config = Fin 1" "pv_minimum_orientation_concentration demo_lock_config = Fin 0"
    "pv_minimum_identity_confidence demo_lock_config = Fin 0" "pv_minimum_overall_lock_confidence demo_lock_config = Fin 0"
    by (simp_all add: demo_lock_config_def)
  show ?thesis
    unfolding summarizeCargoProvisionalLock_def Let_def sizes med centre spread step mean config unit demo_axial_pair
    using valid physical clamp by (simp add: cpp_max3_def unit)
qed

theorem formal_lock_backed_witness:
  "\<not> Fin 1 < vec3_norm (vec3_sub (cd_center (demo_cargo 1 5)) (cd_center (demo_cargo 0 5)))"
proof -
  have "pv_maximum_center_step_m demo_lock_config = Fin 1" by (simp add: demo_lock_config_def)
  then have "\<forall>k. Suc k < 2 \<longrightarrow> \<not> Fin 1 < vec3_norm (vec3_sub (cd_center ([demo_cargo 0 5, demo_cargo 1 5] ! Suc k))
      (cd_center ([demo_cargo 0 5, demo_cargo 1 5] ! k)))"
    using formal_lock_backed [OF demo_locked] by (simp only: list.size One_nat_def numeral_2_eq_2 add_0 plus_nat.simps) blast
  from spec [OF this, of 0] show ?thesis by simp
qed

end
