(* ===== verification/Static_Height.thy ===== *)
theory Static_Height
  imports Static_Query Oriented_Footprint "HOL-Library.Product_Lexorder"
begin

text \<open>
  The sparse height field of the static map (\<^verbatim>\<open>static_height_field.hpp/.cpp\<close>): per cell of the horizontal grid up to a few
  vertical layers of object points and the height of the floor below, the interpolation of the floor, and the safety query
  over an oriented box with its exclusions. The LDLT solver of Eigen is a parameter of the construction (a function from the
  normal equations to the plane). Casts of cell coordinates to 32 bits wrap; the sources leave them undefined out of range.
\<close>

section \<open>Data\<close>

text \<open>A layer of a cell, ordered by cell and layer.\<close>

datatype StaticHeightLayerNodeId = NodeId (nid_cell_key: int) (nid_layer_index: nat)

instantiation StaticHeightLayerNodeId :: linorder
begin

definition less_StaticHeightLayerNodeId :: "StaticHeightLayerNodeId \<Rightarrow> StaticHeightLayerNodeId \<Rightarrow> bool" where
  "less_StaticHeightLayerNodeId a b \<longleftrightarrow>
     nid_cell_key a < nid_cell_key b \<or> nid_cell_key a = nid_cell_key b \<and> nid_layer_index a < nid_layer_index b"

definition less_eq_StaticHeightLayerNodeId :: "StaticHeightLayerNodeId \<Rightarrow> StaticHeightLayerNodeId \<Rightarrow> bool" where
  "less_eq_StaticHeightLayerNodeId a b \<longleftrightarrow> a < b \<or> a = (b :: StaticHeightLayerNodeId)"

instance
  by standard
    (auto simp: less_StaticHeightLayerNodeId_def less_eq_StaticHeightLayerNodeId_def intro: StaticHeightLayerNodeId.expand)

end

record StaticHeightFieldConfig =
  hk_cell_size_m :: dbl
  hk_z_bin_m :: dbl
  hk_maximum_layers_per_cell :: nat
  hk_minimum_points_per_layer :: nat
  hk_maximum_merge_gap_m :: dbl
  hk_ground_fit_min_z_m :: dbl
  hk_ground_fit_max_z_m :: dbl
  hk_support_neighbor_inner_m :: dbl
  hk_support_neighbor_outer_m :: dbl
  hk_minimum_support_uncertainty_m :: dbl
  hk_default_support_uncertainty_m :: dbl
  hk_maximum_support_uncertainty_m :: dbl
  hk_maximum_query_area_cells :: nat

definition default_StaticHeightFieldConfig :: StaticHeightFieldConfig where
  "default_StaticHeightFieldConfig =
     \<lparr>hk_cell_size_m = Fin 0.25, hk_z_bin_m = Fin 0.1, hk_maximum_layers_per_cell = 3, hk_minimum_points_per_layer = 6,
      hk_maximum_merge_gap_m = Fin 0.18, hk_ground_fit_min_z_m = Fin (- 0.25), hk_ground_fit_max_z_m = Fin 0.25,
      hk_support_neighbor_inner_m = Fin 0.3, hk_support_neighbor_outer_m = Fin 0.8,
      hk_minimum_support_uncertainty_m = Fin 0.08, hk_default_support_uncertainty_m = Fin 0.12,
      hk_maximum_support_uncertainty_m = Fin 0.25, hk_maximum_query_area_cells = 4096\<rparr>"

record StaticHeightLayer =
  hl_z_low :: dbl
  hl_z_high :: dbl
  hl_z05 :: dbl
  hl_z50 :: dbl
  hl_z95 :: dbl
  hl_roughness_m :: dbl
  hl_uncertainty_m :: dbl
  hl_point_count :: u32
  hl_observation_count :: u32
  hl_authority :: StaticEvidenceAuthority

record StaticSupportSurfaceCell =
  su_valid :: bool
  su_interpolated :: bool
  su_elevated_or_misclassified :: bool
  su_z :: dbl
  su_variance_m2 :: dbl
  su_uncertainty_m :: dbl
  su_point_count :: u32

definition default_StaticSupportSurfaceCell :: StaticSupportSurfaceCell where
  "default_StaticSupportSurfaceCell =
     \<lparr>su_valid = False, su_interpolated = False, su_elevated_or_misclassified = False, su_z = Fin 0,
      su_variance_m2 = Fin 0, su_uncertainty_m = Fin 0.12, su_point_count = 0\<rparr>"

record StaticHeightCell =
  hx_key :: int
  hx_layers :: "StaticHeightLayer list"
  hx_support :: StaticSupportSurfaceCell

record StaticHeightFieldBuildResult =
  hb_valid :: bool
  hb_reason :: string
  hb_finite_object_points :: nat
  hb_finite_ground_points :: nat
  hb_occupied_cells :: nat
  hb_layer_count :: nat
  hb_support_cells :: nat
  hb_elevated_ground_points :: nat
  hb_support_plane :: vec3
  hb_support_residual_std_m :: dbl

definition default_StaticHeightFieldBuildResult :: StaticHeightFieldBuildResult where
  "default_StaticHeightFieldBuildResult =
     \<lparr>hb_valid = False, hb_reason = ''not_built'', hb_finite_object_points = 0, hb_finite_ground_points = 0,
      hb_occupied_cells = 0, hb_layer_count = 0, hb_support_cells = 0, hb_elevated_ground_points = 0,
      hb_support_plane = vec3_zero, hb_support_residual_std_m = Fin 0\<rparr>"

record StaticHeightQuery =
  hq_center_map :: vec2
  hq_length_m :: dbl
  hq_width_m :: dbl
  hq_yaw_map_rad :: dbl
  hq_shell_m :: dbl
  hq_minimum_z :: dbl
  hq_maximum_z :: dbl
  hq_maximum_cells :: nat
  hq_excluded_members :: "StaticHeightLayerNodeId list"
  hq_excluded_component_id :: u64
  hq_excluded_component_generation :: u64
  hq_exclusion_authorized :: bool
  hq_cargo_self_exclusion_authorized :: bool
  hq_cargo_self_length_m :: dbl
  hq_cargo_self_width_m :: dbl
  hq_cargo_self_minimum_z :: dbl
  hq_cargo_self_maximum_z :: dbl

record StaticHeightQueryResult =
  hn_valid :: bool
  hn_bounded :: bool
  hn_reason :: string
  hn_queried_cells :: nat
  hn_matched_cells :: nat
  hn_matched_layers :: nat
  hn_covered_cells :: nat
  hn_raw_covered_cells :: nat
  hn_effective_external_covered_cells :: nat
  hn_excluded_origin_cells :: nat
  hn_excluded_cargo_self_cells :: nat
  hn_excluded_layer_count :: nat
  hn_excluded_cargo_self_layer_count :: nat
  hn_clear_shell_queried_cells :: nat
  hn_clear_shell_covered_cells :: nat
  hn_coverage_ratio :: dbl
  hn_effective_coverage_ratio :: dbl
  hn_clear_shell_coverage_ratio :: dbl
  hn_nearest_horizontal_distance_m :: dbl
  hn_highest_z95_m :: dbl
  hn_highest_uncertainty_m :: dbl
  hn_strongest_authority :: StaticEvidenceAuthority
  hn_matched_cell_keys :: "int list"

definition default_StaticHeightQueryResult :: StaticHeightQueryResult where
  "default_StaticHeightQueryResult =
     \<lparr>hn_valid = False, hn_bounded = True, hn_reason = ''not_queried'', hn_queried_cells = 0, hn_matched_cells = 0,
      hn_matched_layers = 0, hn_covered_cells = 0, hn_raw_covered_cells = 0, hn_effective_external_covered_cells = 0,
      hn_excluded_origin_cells = 0, hn_excluded_cargo_self_cells = 0, hn_excluded_layer_count = 0,
      hn_excluded_cargo_self_layer_count = 0, hn_clear_shell_queried_cells = 0, hn_clear_shell_covered_cells = 0,
      hn_coverage_ratio = Fin 0, hn_effective_coverage_ratio = Fin 0, hn_clear_shell_coverage_ratio = Fin 0,
      hn_nearest_horizontal_distance_m = PInf, hn_highest_z95_m = NInf, hn_highest_uncertainty_m = Fin 0,
      hn_strongest_authority = UNVERIFIED_LOADED_CLEAN, hn_matched_cell_keys = []\<rparr>"

record StaticHeightField =
  ht_config :: StaticHeightFieldConfig
  ht_cells :: "(int, StaticHeightCell) smap"
  ht_support_plane :: vec3
  ht_support_plane_valid :: bool
  ht_map_generation :: u64

section \<open>Configuration, quantiles and cells\<close>

definition height_validConfig :: "StaticHeightFieldConfig \<Rightarrow> bool" where
  "height_validConfig c \<longleftrightarrow>
     isfinite (hk_cell_size_m c) \<and> Fin 0 < hk_cell_size_m c \<and> isfinite (hk_z_bin_m c) \<and> Fin 0 < hk_z_bin_m c \<and>
     0 < hk_maximum_layers_per_cell c \<and> hk_maximum_layers_per_cell c \<le> 8 \<and> 0 < hk_minimum_points_per_layer c \<and>
     isfinite (hk_maximum_merge_gap_m c) \<and> hk_z_bin_m c \<le> hk_maximum_merge_gap_m c \<and>
     hk_ground_fit_min_z_m c < hk_ground_fit_max_z_m c \<and> hk_support_neighbor_inner_m c \<le> hk_support_neighbor_outer_m c \<and>
     Fin 0 < hk_minimum_support_uncertainty_m c \<and>
     hk_minimum_support_uncertainty_m c \<le> hk_maximum_support_uncertainty_m c \<and> 0 < hk_maximum_query_area_cells c"

definition quantile :: "dbl list \<Rightarrow> dbl \<Rightarrow> dbl" where
  "quantile sorted_values q =
     (if sorted_values = [] then Fin 0
      else
        let position = cpp_clamp q (Fin 0) (Fin 1) * Fin (real (length sorted_values - 1));
            low = nat \<lfloor>real_part position\<rfloor>; high = nat \<lceil>real_part position\<rceil>; fraction = position - Fin (real low)
        in sorted_values ! low * (Fin 1 - fraction) + sorted_values ! high * fraction)"

fun grid_coord :: "dbl \<Rightarrow> 32 word" where
  "grid_coord (Fin a) = word_of_int \<lfloor>a\<rfloor>"
| "grid_coord _ = 0"

definition keyFor :: "vec2 \<Rightarrow> dbl \<Rightarrow> int" where
  "keyFor xy cell_size = packStaticEvidenceCell (grid_coord (v2x xy / cell_size)) (grid_coord (v2y xy / cell_size))"

definition centerFor :: "int \<Rightarrow> dbl \<Rightarrow> vec2" where
  "centerFor key cell_size =
     (let (x, y) = unpackStaticEvidenceCell key
      in \<lparr>v2x = (Fin (real_of_int (sint x)) + Fin 0.5) * cell_size, v2y = (Fin (real_of_int (sint y)) + Fin 0.5) * cell_size\<rparr>)"

fun height_authorityRank :: "StaticEvidenceAuthority \<Rightarrow> nat" where
  "height_authorityRank RUNTIME_MATURE = 3"
| "height_authorityRank OPERATOR_APPROVED_BASELINE = 2"
| "height_authorityRank UNVERIFIED_LOADED_CLEAN = 1"

definition height_clear :: "StaticHeightField \<Rightarrow> StaticHeightField" where
  "height_clear f = f\<lparr>ht_cells := [], ht_support_plane := vec3_zero, ht_support_plane_valid := False, ht_map_generation := 0\<rparr>"

definition height_setConfig :: "StaticHeightField \<Rightarrow> StaticHeightFieldConfig \<Rightarrow> StaticHeightField" where
  "height_setConfig f c =
     height_clear (f\<lparr>ht_config := (if height_validConfig c then c else default_StaticHeightFieldConfig)\<rparr>)"

definition height_init :: "StaticHeightFieldConfig \<Rightarrow> StaticHeightField" where
  "height_init c = height_setConfig
     \<lparr>ht_config = default_StaticHeightFieldConfig, ht_cells = [], ht_support_plane = vec3_zero,
      ht_support_plane_valid = False, ht_map_generation = 0\<rparr> c"

definition height_cell :: "StaticHeightField \<Rightarrow> int \<Rightarrow> StaticHeightCell option" where
  "height_cell f key = map_of (ht_cells f) key"

definition layerCount :: "StaticHeightField \<Rightarrow> nat" where
  "layerCount f = sum_list (map (\<lambda>(k, c). length (hx_layers c)) (ht_cells f))"

section \<open>Construction: layers\<close>

text \<open>The values of the finite points of a cell, in the order of the points; \<^verbatim>\<open>values[key].push_back(z)\<close>.\<close>

definition smap_push :: "'k::linorder \<Rightarrow> 'v \<Rightarrow> ('k, 'v list) smap \<Rightarrow> ('k, 'v list) smap" where
  "smap_push k v m = smap_put k ((case map_of m k of Some vs \<Rightarrow> vs | None \<Rightarrow> []) @ [v]) m"

definition heights_by_cell :: "dbl \<Rightarrow> vec3 list \<Rightarrow> (int, dbl list) smap" where
  "heights_by_cell cell_size points =
     fold (\<lambda>p. smap_push (keyFor (vec3_head2 p) cell_size) (v3z p)) points []"

text \<open>Ascending values are cut where the gap exceeds the limit.\<close>

definition extend_clusters :: "dbl \<Rightarrow> dbl list list \<Rightarrow> dbl \<Rightarrow> dbl list list" where
  "extend_clusters gap clusters z =
     (if clusters = [] \<or> gap < z - last (last clusters) then clusters @ [[z]]
      else butlast clusters @ [last clusters @ [z]])"

definition height_clusters :: "dbl \<Rightarrow> dbl list \<Rightarrow> dbl list list" where
  "height_clusters gap values = foldl (extend_clusters gap) [] values"

definition layer_clusters :: "StaticHeightFieldConfig \<Rightarrow> dbl list \<Rightarrow> dbl list list" where
  "layer_clusters c heights =
     (let clusters = filter (\<lambda>k. hk_minimum_points_per_layer c \<le> length k)
            (height_clusters (hk_maximum_merge_gap_m c) (sort_key real_part heights)) in
      if hk_maximum_layers_per_cell c < length clusters
      then sort_key (\<lambda>k. real_part (hd k))
             (take (hk_maximum_layers_per_cell c) (sort_key (\<lambda>k. - int (length k)) clusters))
      else clusters)"

definition mean_square :: "dbl list \<Rightarrow> dbl \<Rightarrow> dbl" where
  "mean_square values center =
     foldl (\<lambda>v z. v + (z - center) * (z - center)) (Fin 0) values / Fin (real (length values))"

definition layer_of :: "StaticHeightFieldConfig \<Rightarrow> StaticEvidenceAuthority \<Rightarrow> u32 \<Rightarrow> dbl list \<Rightarrow> StaticHeightLayer" where
  "layer_of c authority observations cluster =
     (let z50 = quantile cluster (Fin 0.5); roughness = dsqrt (mean_square cluster z50)
      in \<lparr>hl_z_low = hd cluster, hl_z_high = last cluster, hl_z05 = quantile cluster (Fin 0.05), hl_z50 = z50,
          hl_z95 = quantile cluster (Fin 0.95), hl_roughness_m = roughness,
          hl_uncertainty_m = cpp_max (Fin 0.5 * hk_z_bin_m c) (roughness / dsqrt (Fin (real (length cluster)))),
          hl_point_count = of_nat (length cluster), hl_observation_count = observations, hl_authority = authority\<rparr>)"

definition object_cells ::
  "StaticHeightFieldConfig \<Rightarrow> StaticEvidenceAuthority \<Rightarrow> u32 \<Rightarrow> vec3 list \<Rightarrow> (int, StaticHeightCell) smap" where
  "object_cells c authority observations points =
     fold (\<lambda>(key, heights) m.
         let clusters = layer_clusters c heights in
         if clusters = [] then m
         else smap_put key \<lparr>hx_key = key, hx_layers = map (layer_of c authority observations) clusters,
                            hx_support = default_StaticSupportSurfaceCell\<rparr> m)
       (heights_by_cell (hk_cell_size_m c) points) []"

section \<open>Construction: the floor\<close>

text \<open>The normal equations of the plane through the points: the sums of the outer products of \<^verbatim>\<open>(x, y, 1)\<close>, upper triangle,
  and the right-hand side.\<close>

record normal_equations =
  ne_xx :: dbl
  ne_xy :: dbl
  ne_x1 :: dbl
  ne_yy :: dbl
  ne_y1 :: dbl
  ne_11 :: dbl
  ne_rhs :: vec3

definition zero_equations :: normal_equations where
  "zero_equations =
     \<lparr>ne_xx = Fin 0, ne_xy = Fin 0, ne_x1 = Fin 0, ne_yy = Fin 0, ne_y1 = Fin 0, ne_11 = Fin 0, ne_rhs = vec3_zero\<rparr>"

definition add_equation :: "normal_equations \<Rightarrow> vec3 \<Rightarrow> normal_equations" where
  "add_equation e p =
     (let x = v3x p; y = v3y p
      in \<lparr>ne_xx = ne_xx e + x * x, ne_xy = ne_xy e + x * y, ne_x1 = ne_x1 e + x, ne_yy = ne_yy e + y * y,
          ne_y1 = ne_y1 e + y, ne_11 = ne_11 e + Fin 1,
          ne_rhs = vec3_add (ne_rhs e) (vec3_scale \<lparr>v3x = x, v3y = y, v3z = Fin 1\<rparr> (v3z p))\<rparr>)"

type_synonym plane_solver = "normal_equations \<Rightarrow> vec3"

definition plane_height :: "vec3 \<Rightarrow> dbl \<Rightarrow> dbl \<Rightarrow> dbl" where
  "plane_height plane x y = v3x plane * x + v3y plane * y + v3z plane"

definition plane_residual :: "vec3 \<Rightarrow> vec3 \<Rightarrow> dbl" where
  "plane_residual plane p = \<bar>v3z p - plane_height plane (v3x p) (v3y p)\<bar>"

text \<open>At most three rounds of fitting and trimming; \<^verbatim>\<open>n\<close> counts the rounds left.\<close>

fun fit_plane :: "plane_solver \<Rightarrow> vec3 list \<Rightarrow> nat \<Rightarrow> vec3 list \<Rightarrow> vec3 \<Rightarrow> vec3" where
  "fit_plane solve floor_points 0 inliers plane = plane"
| "fit_plane solve floor_points (Suc n) inliers plane =
     (if length inliers < 3 then plane
      else
        let p = solve (foldl add_equation zero_equations inliers) in
        if \<not> vec3_allFinite p then plane
        else
          let residuals = sort_key real_part (map (plane_residual p) floor_points);
              threshold = cpp_clamp (Fin 3 * Fin 1.4826 * quantile residuals (Fin 0.5)) (Fin 0.05) (Fin 0.25)
          in fit_plane solve floor_points n (filter (\<lambda>q. plane_residual p q \<le> threshold) floor_points) p)"

definition floor_candidates :: "StaticHeightFieldConfig \<Rightarrow> vec3 list \<Rightarrow> vec3 list" where
  "floor_candidates c ground =
     filter (\<lambda>p. vec3_allFinite p \<and> hk_ground_fit_min_z_m c \<le> v3z p \<and> v3z p \<le> hk_ground_fit_max_z_m c) ground"

definition support_of :: "StaticHeightFieldConfig \<Rightarrow> dbl list \<Rightarrow> StaticSupportSurfaceCell" where
  "support_of c heights =
     (let values = sort_key real_part heights; z = quantile values (Fin 0.2); variance = mean_square values z
      in default_StaticSupportSurfaceCell
           \<lparr>su_valid := True, su_z := z, su_variance_m2 := variance,
            su_uncertainty_m := cpp_clamp (dsqrt variance) (hk_minimum_support_uncertainty_m c)
              (hk_maximum_support_uncertainty_m c),
            su_point_count := of_nat (length values)\<rparr>)"

definition put_support :: "int \<Rightarrow> StaticSupportSurfaceCell \<Rightarrow> (int, StaticHeightCell) smap \<Rightarrow> (int, StaticHeightCell) smap" where
  "put_support key support m =
     smap_put key (case map_of m key of
         Some cell \<Rightarrow> cell\<lparr>hx_key := key, hx_support := support\<rparr>
       | None \<Rightarrow> \<lparr>hx_key = key, hx_layers = [], hx_support = support\<rparr>) m"

definition height_build ::
  "plane_solver \<Rightarrow> StaticHeightField \<Rightarrow> vec3 list \<Rightarrow> vec3 list \<Rightarrow> StaticEvidenceAuthority \<Rightarrow> u32 \<Rightarrow> u64 \<Rightarrow>
   StaticHeightField \<times> StaticHeightFieldBuildResult" where
  "height_build solve f object_points ground_points authority observations generation =
     (let f0 = (height_clear f)\<lparr>ht_map_generation := generation\<rparr>; c = ht_config f0; r0 = default_StaticHeightFieldBuildResult in
      if \<not> height_validConfig c then (f0, r0\<lparr>hb_reason := ''invalid_config''\<rparr>)
      else
        let objects = filter vec3_allFinite object_points; ground = filter vec3_allFinite ground_points;
            cells = object_cells c authority observations objects;
            candidates = floor_candidates c ground;
            fitted = 3 \<le> length candidates;
            plane = (if fitted then fit_plane solve candidates 3 candidates vec3_zero else vec3_zero);
            plane_valid = fitted \<and> vec3_allFinite plane;
            residual = (\<lambda>p. v3z p - (if plane_valid then plane_height plane (v3x p) (v3y p) else Fin 0));
            floor_points = filter (\<lambda>p. \<bar>residual p\<bar> \<le> Fin 0.25) ground;
            squares = foldl (\<lambda>total p. total + residual p * residual p) (Fin 0) floor_points;
            supports = heights_by_cell (hk_cell_size_m c) floor_points;
            cells' = fold (\<lambda>(key, heights). put_support key (support_of c heights)) supports cells;
            r = r0\<lparr>hb_finite_object_points := length objects, hb_finite_ground_points := length ground,
                   hb_occupied_cells := length cells,
                   hb_layer_count := sum_list (map (\<lambda>(k, cell). length (hx_layers cell)) cells),
                   hb_support_cells := length supports,
                   hb_elevated_ground_points := length ground - length floor_points, hb_support_plane := plane,
                   hb_support_residual_std_m := (if floor_points = [] then Fin 0
                     else dsqrt (squares / Fin (real (length floor_points)))),
                   hb_valid := cells' \<noteq> [],
                   hb_reason := (if cells' \<noteq> [] then ''complete'' else ''no_finite_layers_or_support'')\<rparr>
        in (f0\<lparr>ht_cells := cells', ht_support_plane := plane, ht_support_plane_valid := plane_valid\<rparr>, r))"

section \<open>The floor at a point\<close>

record SupportSums =
  sw_weight :: dbl
  sw_z :: dbl
  sw_variance :: dbl
  sw_points :: u32

definition support_distance :: "StaticHeightFieldConfig \<Rightarrow> int \<Rightarrow> int \<Rightarrow> dbl" where
  "support_distance c dx dy = hk_cell_size_m c * dhypot (Fin (real_of_int dx)) (Fin (real_of_int dy))"

definition add_neighbor :: "StaticHeightField \<Rightarrow> 32 word \<times> 32 word \<Rightarrow> int \<times> int \<Rightarrow> SupportSums \<Rightarrow> SupportSums" where
  "add_neighbor f origin d s =
     (let (dx, dy) = d; distance = support_distance (ht_config f) dx dy in
      if distance < hk_support_neighbor_inner_m (ht_config f) \<or> hk_support_neighbor_outer_m (ht_config f) < distance then s
      else case height_cell f (packStaticEvidenceCell (fst origin + word_of_int dx) (snd origin + word_of_int dy)) of
          None \<Rightarrow> s
        | Some cell \<Rightarrow>
            if \<not> su_valid (hx_support cell) then s
            else
              let weight = Fin 1 / cpp_max (Fin 0.05) distance
              in s\<lparr>sw_weight := sw_weight s + weight, sw_z := sw_z s + weight * su_z (hx_support cell),
                   sw_variance := sw_variance s + weight * su_variance_m2 (hx_support cell),
                   sw_points := sw_points s + su_point_count (hx_support cell)\<rparr>)"

fun ceil_int :: "dbl \<Rightarrow> int" where
  "ceil_int (Fin x) = \<lceil>x\<rceil>"
| "ceil_int _ = 0"

definition support_offsets :: "int \<Rightarrow> (int \<times> int) list" where
  "support_offsets radius = concat (map (\<lambda>dx. map (Pair dx) [- radius..radius]) [- radius..radius])"

definition supportAt :: "StaticHeightField \<Rightarrow> vec2 \<Rightarrow> StaticSupportSurfaceCell" where
  "supportAt f xy =
     (let c = ht_config f; direct_key = keyFor xy (hk_cell_size_m c); r = default_StaticSupportSurfaceCell;
          radius = ceil_int (hk_support_neighbor_outer_m c / hk_cell_size_m c);
          s = fold (add_neighbor f (unpackStaticEvidenceCell direct_key)) (support_offsets radius)
            \<lparr>sw_weight = Fin 0, sw_z = Fin 0, sw_variance = Fin 0, sw_points = 0\<rparr>;
          neighbors = (if Fin 0 < sw_weight s
            then r\<lparr>su_point_count := sw_points s, su_valid := True, su_interpolated := True,
                   su_z := sw_z s / sw_weight s, su_variance_m2 := sw_variance s / sw_weight s,
                   su_uncertainty_m := cpp_clamp
                     (cpp_max (hk_default_support_uncertainty_m c) (dsqrt (sw_variance s / sw_weight s)))
                     (hk_minimum_support_uncertainty_m c) (hk_maximum_support_uncertainty_m c)\<rparr>
            else if ht_support_plane_valid f
            then r\<lparr>su_point_count := sw_points s, su_valid := True, su_interpolated := True,
                   su_z := plane_height (ht_support_plane f) (v2x xy) (v2y xy),
                   su_uncertainty_m := hk_maximum_support_uncertainty_m c\<rparr>
            else r\<lparr>su_point_count := sw_points s\<rparr>)
      in case height_cell f direct_key of
           Some cell \<Rightarrow> if su_valid (hx_support cell) then hx_support cell else neighbors
         | None \<Rightarrow> neighbors)"
section \<open>The query\<close>

definition height_query_ok :: "StaticHeightQuery \<Rightarrow> bool" where
  "height_query_ok q \<longleftrightarrow>
     vec2_allFinite (hq_center_map q) \<and> isfinite (hq_length_m q) \<and> isfinite (hq_width_m q) \<and>
     isfinite (hq_yaw_map_rad q) \<and> isfinite (hq_shell_m q) \<and> \<not> hq_length_m q \<le> Fin 0 \<and> \<not> hq_width_m q \<le> Fin 0 \<and>
     \<not> hq_shell_m q < Fin 0 \<and> \<not> hq_maximum_z q < hq_minimum_z q \<and>
     (hq_cargo_self_exclusion_authorized q \<longrightarrow>
        isfinite (hq_cargo_self_length_m q) \<and> isfinite (hq_cargo_self_width_m q) \<and>
        isfinite (hq_cargo_self_minimum_z q) \<and> isfinite (hq_cargo_self_maximum_z q) \<and>
        \<not> hq_cargo_self_length_m q \<le> Fin 0 \<and> \<not> hq_cargo_self_width_m q \<le> Fin 0 \<and>
        \<not> hq_cargo_self_maximum_z q < hq_cargo_self_minimum_z q)"

text \<open>The cells around the query, \<^verbatim>\<open>x\<close> in the outer loop.\<close>

definition query_bounds :: "StaticHeightField \<Rightarrow> StaticHeightQuery \<Rightarrow> int \<times> int \<times> int \<times> int" where
  "query_bounds f q =
     (let half_diagonal = Fin 0.5 * dhypot (hq_length_m q) (hq_width_m q) + hq_shell_m q;
          coord = (\<lambda>a. floor_int (a / hk_cell_size_m (ht_config f))); c = hq_center_map q
      in (coord (v2x c - half_diagonal), coord (v2x c + half_diagonal), coord (v2y c - half_diagonal),
          coord (v2y c + half_diagonal)))"

definition query_maximum_cells :: "StaticHeightField \<Rightarrow> StaticHeightQuery \<Rightarrow> nat" where
  "query_maximum_cells f q =
     (if hq_maximum_cells q = 0 then hk_maximum_query_area_cells (ht_config f)
      else min (hq_maximum_cells q) (hk_maximum_query_area_cells (ht_config f)))"

definition query_bounded :: "nat \<Rightarrow> int \<times> int \<times> int \<times> int \<Rightarrow> bool" where
  "query_bounded maximum_cells b \<longleftrightarrow>
     (let (min_x, max_x, min_y, max_y) = b; width = max_x - min_x + 1; height = max_y - min_y + 1
      in 0 < width \<and> 0 < height \<and> width \<le> int maximum_cells \<and> height \<le> int maximum_cells \<and>
         width * height \<le> int maximum_cells)"

definition query_coords :: "int \<times> int \<times> int \<times> int \<Rightarrow> (int \<times> int) list" where
  "query_coords b =
     (let (min_x, max_x, min_y, max_y) = b in concat (map (\<lambda>x. map (Pair x) [min_y..max_y]) [min_x..max_x]))"

definition coord_key :: "int \<times> int \<Rightarrow> int" where
  "coord_key xy = packStaticEvidenceCell (word_of_int (fst xy)) (word_of_int (snd xy))"

text \<open>The centre of a cell in the frame of the query, and its distance to the box.\<close>

definition query_local :: "StaticHeightField \<Rightarrow> StaticHeightQuery \<Rightarrow> int \<Rightarrow> vec2" where
  "query_local f q key =
     (let d = vec2_sub (centerFor key (hk_cell_size_m (ht_config f))) (hq_center_map q);
          cosine = dcos (hq_yaw_map_rad q); sine = dsin (hq_yaw_map_rad q)
      in \<lparr>v2x = cosine * v2x d + sine * v2y d, v2y = - sine * v2x d + cosine * v2y d\<rparr>)"

definition query_distance :: "StaticHeightField \<Rightarrow> StaticHeightQuery \<Rightarrow> int \<Rightarrow> dbl" where
  "query_distance f q key =
     (let l = query_local f q key
      in dhypot (cpp_max (\<bar>v2x l\<bar> - Fin 0.5 * hq_length_m q) (Fin 0)) (cpp_max (\<bar>v2y l\<bar> - Fin 0.5 * hq_width_m q) (Fin 0)))"

definition in_shell :: "StaticHeightField \<Rightarrow> StaticHeightQuery \<Rightarrow> int \<Rightarrow> bool" where
  "in_shell f q key \<longleftrightarrow> \<not> hq_shell_m q + Fin 0.5 * hk_cell_size_m (ht_config f) < query_distance f q key"

definition exclusion_identity_valid :: "StaticHeightField \<Rightarrow> StaticHeightQuery \<Rightarrow> bool" where
  "exclusion_identity_valid f q \<longleftrightarrow>
     hq_exclusion_authorized q \<and> hq_excluded_component_id q \<noteq> 0 \<and> hq_excluded_component_generation q \<noteq> 0 \<and>
     hq_excluded_component_generation q = ht_map_generation f"

definition inside_cargo_self_xy :: "StaticHeightField \<Rightarrow> StaticHeightQuery \<Rightarrow> int \<Rightarrow> bool" where
  "inside_cargo_self_xy f q key \<longleftrightarrow>
     (let l = query_local f q key; half_cell = Fin 0.5 * hk_cell_size_m (ht_config f)
      in hq_cargo_self_exclusion_authorized q \<and> \<bar>v2x l\<bar> \<le> Fin 0.5 * hq_cargo_self_length_m q + half_cell \<and>
         \<bar>v2y l\<bar> \<le> Fin 0.5 * hq_cargo_self_width_m q + half_cell)"

text \<open>The three fates of a layer.\<close>

definition excluded_origin :: "StaticHeightField \<Rightarrow> StaticHeightQuery \<Rightarrow> int \<Rightarrow> nat \<Rightarrow> bool" where
  "excluded_origin f q key index \<longleftrightarrow> exclusion_identity_valid f q \<and> NodeId key index \<in> set (hq_excluded_members q)"

definition excluded_self :: "StaticHeightField \<Rightarrow> StaticHeightQuery \<Rightarrow> int \<Rightarrow> StaticHeightLayer \<Rightarrow> bool" where
  "excluded_self f q key l \<longleftrightarrow>
     inside_cargo_self_xy f q key \<and> hq_cargo_self_minimum_z q \<le> hl_z95 l \<and> hl_z05 l \<le> hq_cargo_self_maximum_z q"

definition layer_matches :: "StaticHeightQuery \<Rightarrow> StaticHeightLayer \<Rightarrow> bool" where
  "layer_matches q l \<longleftrightarrow> \<not> (hl_z95 l < hq_minimum_z q \<or> hq_maximum_z q < hl_z05 l)"

definition query_layer ::
  "StaticHeightField \<Rightarrow> StaticHeightQuery \<Rightarrow> int \<Rightarrow> nat \<times> StaticHeightLayer \<Rightarrow> StaticHeightQueryResult \<Rightarrow>
   StaticHeightQueryResult" where
  "query_layer f q key il r =
     (let (index, l) = il in
      if excluded_origin f q key index then r\<lparr>hn_excluded_layer_count := hn_excluded_layer_count r + 1\<rparr>
      else if excluded_self f q key l
      then r\<lparr>hn_excluded_layer_count := hn_excluded_layer_count r + 1,
             hn_excluded_cargo_self_layer_count := hn_excluded_cargo_self_layer_count r + 1\<rparr>
      else if \<not> layer_matches q l then r
      else
        let r1 = r\<lparr>hn_matched_layers := hn_matched_layers r + 1,
                   hn_nearest_horizontal_distance_m := cpp_min (hn_nearest_horizontal_distance_m r) (query_distance f q key)\<rparr>;
            r2 = (if hn_highest_z95_m r1 < hl_z95 l
                  then r1\<lparr>hn_highest_z95_m := hl_z95 l, hn_highest_uncertainty_m := hl_uncertainty_m l\<rparr> else r1)
        in if height_authorityRank (hn_strongest_authority r2) < height_authorityRank (hl_authority l)
           then r2\<lparr>hn_strongest_authority := hl_authority l\<rparr> else r2)"

definition query_cell ::
  "StaticHeightField \<Rightarrow> StaticHeightQuery \<Rightarrow> int \<times> int \<Rightarrow> StaticHeightQueryResult \<Rightarrow> StaticHeightQueryResult" where
  "query_cell f q xy r =
     (let key = coord_key xy; r1 = r\<lparr>hn_queried_cells := hn_queried_cells r + 1\<rparr> in
      if \<not> in_shell f q key then r1
      else
        let r2 = r1\<lparr>hn_clear_shell_queried_cells := hn_clear_shell_queried_cells r1 + 1\<rparr> in
        case height_cell f key of
          None \<Rightarrow> r2
        | Some cell \<Rightarrow>
            let covered = su_valid (hx_support cell) \<or> hx_layers cell \<noteq> [];
                layers = enumerate 0 (hx_layers cell);
                by_origin = (\<exists>(i, l) \<in> set layers. excluded_origin f q key i);
                by_self = (\<exists>(i, l) \<in> set layers. \<not> excluded_origin f q key i \<and> excluded_self f q key l);
                has_external = (\<exists>(i, l) \<in> set layers. \<not> excluded_origin f q key i \<and> \<not> excluded_self f q key l);
                has_match = (\<exists>(i, l) \<in> set layers. \<not> excluded_origin f q key i \<and> \<not> excluded_self f q key l \<and> layer_matches q l);
                r3 = fold (query_layer f q key) layers
                  (if covered then r2\<lparr>hn_raw_covered_cells := hn_raw_covered_cells r2 + 1\<rparr> else r2);
                r4 = r3\<lparr>hn_excluded_origin_cells := hn_excluded_origin_cells r3 + (if by_origin then 1 else 0),
                        hn_excluded_cargo_self_cells := hn_excluded_cargo_self_cells r3 + (if by_self then 1 else 0)\<rparr>;
                effective = \<not> (by_origin \<or> by_self) \<and> (su_valid (hx_support cell) \<or> has_external);
                r5 = (if effective
                      then r4\<lparr>hn_effective_external_covered_cells := hn_effective_external_covered_cells r4 + 1,
                              hn_clear_shell_covered_cells := hn_clear_shell_covered_cells r4 + 1\<rparr> else r4)
            in if has_match
               then r5\<lparr>hn_matched_cells := hn_matched_cells r5 + 1, hn_matched_cell_keys := hn_matched_cell_keys r5 @ [key]\<rparr>
               else r5)"

definition cell_ratio :: "nat \<Rightarrow> nat \<Rightarrow> dbl" where
  "cell_ratio count among = (if 0 < among then Fin (real count) / Fin (real among) else Fin 0)"

definition query_height :: "StaticHeightField \<Rightarrow> StaticHeightQuery \<Rightarrow> StaticHeightQueryResult" where
  "query_height f q =
     (let r0 = default_StaticHeightQueryResult; b = query_bounds f q in
      if \<not> height_query_ok q then r0\<lparr>hn_reason := ''invalid_query''\<rparr>
      else if \<not> query_bounded (query_maximum_cells f q) b
      then r0\<lparr>hn_bounded := False, hn_reason := ''query_area_exceeded''\<rparr>
      else
        let r = fold (query_cell f q) (query_coords b) r0;
            effective = cell_ratio (hn_effective_external_covered_cells r) (hn_clear_shell_queried_cells r)
        in r\<lparr>hn_valid := True, hn_covered_cells := hn_effective_external_covered_cells r,
             hn_effective_coverage_ratio := effective,
             hn_clear_shell_coverage_ratio := cell_ratio (hn_clear_shell_covered_cells r) (hn_clear_shell_queried_cells r),
             hn_coverage_ratio := effective,
             hn_reason := (if 0 < hn_matched_cells r then ''matched''
                           else if 0 < hn_excluded_cargo_self_layer_count r then ''cargo_self_layers_excluded''
                           else ''clear_in_bounds'')\<rparr>)"

section \<open>What the query counts\<close>

lemma query_layer_keep:
  "hn_matched_cell_keys (query_layer f q key il r) = hn_matched_cell_keys r"
  "hn_matched_cells (query_layer f q key il r) = hn_matched_cells r"
  "hn_queried_cells (query_layer f q key il r) = hn_queried_cells r"
  "hn_raw_covered_cells (query_layer f q key il r) = hn_raw_covered_cells r"
  "hn_effective_external_covered_cells (query_layer f q key il r) = hn_effective_external_covered_cells r"
  "hn_clear_shell_queried_cells (query_layer f q key il r) = hn_clear_shell_queried_cells r"
  "hn_clear_shell_covered_cells (query_layer f q key il r) = hn_clear_shell_covered_cells r"
  by (simp_all add: query_layer_def Let_def split_beta)

lemma query_layer_keeps:
  "hn_matched_cell_keys (fold (query_layer f q key) layers r) = hn_matched_cell_keys r"
  "hn_matched_cells (fold (query_layer f q key) layers r) = hn_matched_cells r"
  "hn_queried_cells (fold (query_layer f q key) layers r) = hn_queried_cells r"
  "hn_raw_covered_cells (fold (query_layer f q key) layers r) = hn_raw_covered_cells r"
  "hn_effective_external_covered_cells (fold (query_layer f q key) layers r) = hn_effective_external_covered_cells r"
  "hn_clear_shell_queried_cells (fold (query_layer f q key) layers r) = hn_clear_shell_queried_cells r"
  "hn_clear_shell_covered_cells (fold (query_layer f q key) layers r) = hn_clear_shell_covered_cells r"
  by (induction layers arbitrary: r) (simp_all add: query_layer_keep)

text \<open>The layers a query has to report: not excluded and in the vertical interval.\<close>

definition reported_layer :: "StaticHeightField \<Rightarrow> StaticHeightQuery \<Rightarrow> int \<Rightarrow> nat \<Rightarrow> StaticHeightLayer \<Rightarrow> bool" where
  "reported_layer f q key i l \<longleftrightarrow> \<not> excluded_origin f q key i \<and> \<not> excluded_self f q key l \<and> layer_matches q l"

definition reported_cell :: "StaticHeightField \<Rightarrow> StaticHeightQuery \<Rightarrow> int \<Rightarrow> bool" where
  "reported_cell f q key \<longleftrightarrow> in_shell f q key \<and>
     (case height_cell f key of
        None \<Rightarrow> False
      | Some cell \<Rightarrow> list_ex (\<lambda>(i, l). reported_layer f q key i l) (enumerate 0 (hx_layers cell)))"

definition self_cell :: "StaticHeightField \<Rightarrow> StaticHeightQuery \<Rightarrow> int \<Rightarrow> bool" where
  "self_cell f q key \<longleftrightarrow> in_shell f q key \<and>
     (case height_cell f key of
        None \<Rightarrow> False
      | Some cell \<Rightarrow> list_ex (\<lambda>(i, l). \<not> excluded_origin f q key i \<and> excluded_self f q key l) (enumerate 0 (hx_layers cell)))"

text \<open>The counters of the loop in their order.\<close>

definition counts_ok :: "StaticHeightQueryResult \<Rightarrow> bool" where
  "counts_ok r \<longleftrightarrow>
     hn_matched_cells r = length (hn_matched_cell_keys r) \<and> hn_matched_cells r \<le> hn_raw_covered_cells r \<and>
     hn_clear_shell_covered_cells r = hn_effective_external_covered_cells r \<and>
     hn_effective_external_covered_cells r \<le> hn_raw_covered_cells r \<and>
     hn_raw_covered_cells r \<le> hn_clear_shell_queried_cells r \<and> hn_clear_shell_queried_cells r \<le> hn_queried_cells r"

lemma query_cell_keys:
  "hn_matched_cell_keys (query_cell f q xy r) =
     hn_matched_cell_keys r @ (if reported_cell f q (coord_key xy) then [coord_key xy] else [])"
  unfolding query_cell_def reported_cell_def reported_layer_def Let_def
  by (simp add: query_layer_keeps list_ex_iff split: option.split)

lemma query_cell_queried: "hn_queried_cells (query_cell f q xy r) = hn_queried_cells r + 1"
  by (simp add: query_cell_def Let_def query_layer_keeps split: option.split)

lemma query_cell_counts:
  assumes "counts_ok r"
  shows "counts_ok (query_cell f q xy r)"
proof -
  have some: "hx_layers cell \<noteq> []" if k: "(i, l) \<in> set (enumerate 0 (hx_layers cell))" for i l cell
    using k by (cases "hx_layers cell") simp_all
  show ?thesis
    using assms some
    by (auto simp: query_cell_def counts_ok_def Let_def query_layer_keeps split: option.split)
qed

lemma query_fold_keys:
  "hn_matched_cell_keys (fold (query_cell f q) coords r) =
     hn_matched_cell_keys r @ filter (reported_cell f q) (map coord_key coords)"
  by (induction coords arbitrary: r) (simp_all add: query_cell_keys)

lemma query_fold_counts: "counts_ok r \<Longrightarrow> counts_ok (fold (query_cell f q) coords r)"
  by (induction coords arbitrary: r) (simp_all add: query_cell_counts)

lemma query_fold_queried: "hn_queried_cells (fold (query_cell f q) coords r) = hn_queried_cells r + length coords"
  by (induction coords arbitrary: r) (simp_all add: query_cell_queried)

text \<open>The count of layers excluded as part of the cargo itself is positive as soon as there is one.\<close>

lemma layer_self_mono:
  "hn_excluded_cargo_self_layer_count r \<le> hn_excluded_cargo_self_layer_count (query_layer f q key il r)"
  by (simp add: query_layer_def Let_def split_beta)

lemma layers_self_mono:
  "hn_excluded_cargo_self_layer_count r \<le> hn_excluded_cargo_self_layer_count (fold (query_layer f q key) layers r)"
  by (induction layers arbitrary: r) (auto intro: order_trans [OF layer_self_mono])

lemma layers_self_count:
  assumes "list_ex (\<lambda>(i, l). \<not> excluded_origin f q key i \<and> excluded_self f q key l) layers"
  shows "0 < hn_excluded_cargo_self_layer_count (fold (query_layer f q key) layers r)"
  using assms
proof (induction layers arbitrary: r)
  case (Cons il layers)
  show ?case
  proof (cases "case il of (i, l) \<Rightarrow> \<not> excluded_origin f q key i \<and> excluded_self f q key l")
    case True
    then have "0 < hn_excluded_cargo_self_layer_count (query_layer f q key il r)"
      by (auto simp: query_layer_def Let_def split_beta)
    then show ?thesis using layers_self_mono [of "query_layer f q key il r" f q key layers] by simp
  next
    case False
    then show ?thesis using Cons by auto
  qed
qed simp

lemma cell_self_count:
  "hn_excluded_cargo_self_layer_count r \<le> hn_excluded_cargo_self_layer_count (query_cell f q xy r)"
  "self_cell f q (coord_key xy) \<Longrightarrow> 0 < hn_excluded_cargo_self_layer_count (query_cell f q xy r)"
proof -
  have upd: "hn_excluded_cargo_self_layer_count (if b then s\<lparr>hn_raw_covered_cells := n\<rparr> else s) =
      hn_excluded_cargo_self_layer_count s" for b s n by simp
  show "hn_excluded_cargo_self_layer_count r \<le> hn_excluded_cargo_self_layer_count (query_cell f q xy r)"
    by (auto simp: query_cell_def Let_def upd split: option.split intro!: order_trans [OF _ layers_self_mono])
  show "0 < hn_excluded_cargo_self_layer_count (query_cell f q xy r)" if k: "self_cell f q (coord_key xy)"
    using k by (auto simp: query_cell_def self_cell_def Let_def split: option.splits intro!: layers_self_count)
qed

lemma query_fold_self_mono:
  "hn_excluded_cargo_self_layer_count r \<le> hn_excluded_cargo_self_layer_count (fold (query_cell f q) coords r)"
  by (induction coords arbitrary: r) (auto intro: order_trans [OF cell_self_count(1)])

lemma query_fold_self:
  assumes "list_ex (self_cell f q) (map coord_key coords)"
  shows "0 < hn_excluded_cargo_self_layer_count (fold (query_cell f q) coords r)"
  using assms
proof (induction coords arbitrary: r)
  case (Cons xy coords)
  show ?case
  proof (cases "self_cell f q (coord_key xy)")
    case True
    then show ?thesis
      using less_le_trans [OF cell_self_count(2) query_fold_self_mono [of "query_cell f q xy r" f q coords]] by simp
  next
    case False
    then show ?thesis using Cons by simp
  qed
qed simp

section \<open>Points and cells of the query\<close>

text \<open>The horizontal distance of a displacement to the box around the origin.\<close>

definition box_distance :: "real \<Rightarrow> real \<Rightarrow> real \<Rightarrow> real \<Rightarrow> real \<Rightarrow> real" where
  "box_distance yaw l w dx dy =
     sqrt (excess (l / 2) (local_x yaw dx dy) * excess (l / 2) (local_x yaw dx dy) +
       excess (w / 2) (local_y yaw dx dy) * excess (w / 2) (local_y yaw dx dy))"

lemma excess_lipschitz: "excess h (a + b) \<le> excess h a + \<bar>b\<bar>"
  by (auto simp: excess_def)

lemma local_norm:
  "local_x yaw a b * local_x yaw a b + local_y yaw a b * local_y yaw a b = a * a + b * b"
proof -
  have "cos yaw * cos yaw + sin yaw * sin yaw = 1" by simp
  then show ?thesis unfolding local_x_def local_y_def by algebra
qed

lemma local_add:
  "local_x yaw (a + c) (b + d) = local_x yaw a b + local_x yaw c d"
  "local_y yaw (a + c) (b + d) = local_y yaw a b + local_y yaw c d"
  by (simp_all add: local_x_def local_y_def algebra_simps)

lemma norm2_mono: "0 \<le> a \<Longrightarrow> a \<le> c \<Longrightarrow> 0 \<le> b \<Longrightarrow> b \<le> d \<Longrightarrow> sqrt (a * a + b * b) \<le> sqrt (c * c + d * (d :: real))"
  by (intro real_sqrt_le_mono add_mono mult_mono) auto

lemma box_distance_lipschitz:
  "box_distance yaw l w (a + c) (b + d) \<le> box_distance yaw l w a b + sqrt (c * c + d * d)"
proof -
  let ?ex = "excess (l / 2) (local_x yaw a b)" and ?ey = "excess (w / 2) (local_y yaw a b)"
  let ?mx = "\<bar>local_x yaw c d\<bar>" and ?my = "\<bar>local_y yaw c d\<bar>"
  have "box_distance yaw l w (a + c) (b + d) \<le> sqrt ((?ex + ?mx) * (?ex + ?mx) + (?ey + ?my) * (?ey + ?my))"
    unfolding box_distance_def local_add by (intro norm2_mono excess_nonneg excess_lipschitz)
  also have "\<dots> \<le> sqrt (?ex * ?ex + ?ey * ?ey) + sqrt (?mx * ?mx + ?my * ?my)" by (rule norm2_triangle)
  also have "?mx * ?mx + ?my * ?my = c * c + d * d" using local_norm [of yaw c d] by simp
  finally show ?thesis by (simp only: box_distance_def)
qed

lemma norm_below_box:
  assumes "0 \<le> l" and "0 \<le> w"
  shows "sqrt (a * a + b * b) \<le> box_distance yaw l w a b + sqrt (l * l + w * w) / 2"
proof -
  let ?x = "\<bar>local_x yaw a b\<bar>" and ?y = "\<bar>local_y yaw a b\<bar>"
  let ?ex = "excess (l / 2) (local_x yaw a b)" and ?ey = "excess (w / 2) (local_y yaw a b)"
  have "sqrt (a * a + b * b) = sqrt (?x * ?x + ?y * ?y)" using local_norm [of yaw a b] by simp
  also have "\<dots> \<le> sqrt ((?ex + l / 2) * (?ex + l / 2) + (?ey + w / 2) * (?ey + w / 2))"
    by (intro norm2_mono) (auto simp: excess_def)
  also have "\<dots> \<le> sqrt (?ex * ?ex + ?ey * ?ey) + sqrt (l / 2 * (l / 2) + w / 2 * (w / 2))" by (rule norm2_triangle)
  also have "l / 2 * (l / 2) + w / 2 * (w / 2) = (l * l + w * w) / (2 * 2)" by (simp add: field_simps)
  also have "sqrt ((l * l + w * w) / (2 * 2)) = sqrt (l * l + w * w) / 2"
    using real_sqrt_abs2 [of 2] by (simp only: real_sqrt_divide abs_numeral)
  finally show ?thesis by (simp only: box_distance_def)
qed

text \<open>The numbers of a query and of a field.\<close>

definition height_query_is ::
  "StaticHeightField \<Rightarrow> StaticHeightQuery \<Rightarrow> real \<Rightarrow> real \<Rightarrow> real \<Rightarrow> real \<Rightarrow> real \<Rightarrow> real \<Rightarrow> real \<Rightarrow> bool" where
  "height_query_is f q h cx cy l w yaw shell \<longleftrightarrow>
     hk_cell_size_m (ht_config f) = Fin h \<and> hq_center_map q = \<lparr>v2x = Fin cx, v2y = Fin cy\<rparr> \<and> hq_length_m q = Fin l \<and>
     hq_width_m q = Fin w \<and> hq_yaw_map_rad q = Fin yaw \<and> hq_shell_m q = Fin shell"

definition coord_ok :: "int \<Rightarrow> bool" where
  "coord_ok x \<longleftrightarrow> - 2147483648 \<le> x \<and> x \<le> 2147483647"

lemma center_of_coord:
  assumes "coord_ok x" and "coord_ok y"
  shows "centerFor (coord_key (x, y)) (Fin h) = \<lparr>v2x = Fin ((of_int x + 0.5) * h), v2y = Fin ((of_int y + 0.5) * h)\<rparr>"
  using assms unfolding centerFor_def coord_key_def coord_ok_def
  by (simp only: unpack_pack fst_conv snd_conv prod.case Let_def) (simp add: sint_word_of_int_32)

lemma key_of_point:
  assumes "0 < h"
  shows "keyFor \<lparr>v2x = Fin px, v2y = Fin py\<rparr> (Fin h) = coord_key (\<lfloor>px / h\<rfloor>, \<lfloor>py / h\<rfloor>)"
  using assms by (simp add: keyFor_def coord_key_def)

lemma distance_of_coord:
  assumes "height_query_is f q h cx cy l w yaw shell" and "0 < h" and "coord_ok x" and "coord_ok y"
  shows "query_distance f q (coord_key (x, y)) =
    Fin (box_distance yaw l w ((of_int x + 0.5) * h - cx) ((of_int y + 0.5) * h - cy))"
  using assms(1,2) unfolding height_query_is_def
  by (simp add: query_distance_def query_local_def center_of_coord [OF assms(3,4)] vec2_sub_def box_distance_def
      local_x_def local_y_def excess_def Let_def)

lemma cell_half:
  assumes "0 < h"
  shows "\<bar>(of_int \<lfloor>p / h\<rfloor> + 0.5) * h - p\<bar> \<le> h / 2"
proof -
  have "p / h - 1 < of_int \<lfloor>p / h\<rfloor>" "of_int \<lfloor>p / h\<rfloor> \<le> p / h" by linarith+
  then have "(p / h - 1) * h < of_int \<lfloor>p / h\<rfloor> * h" "of_int \<lfloor>p / h\<rfloor> * h \<le> p / h * h"
    using assms by (intro mult_strict_right_mono mult_right_mono; simp)+
  moreover have "p / h * h = p" "(p / h - 1) * h = p - h" using assms by (simp_all add: algebra_simps)
  moreover have "(of_int \<lfloor>p / h\<rfloor> + 0.5) * h - p = of_int \<lfloor>p / h\<rfloor> * h - p + h / 2" by (simp add: algebra_simps)
  ultimately show ?thesis by linarith
qed

lemma floor_between:
  assumes "0 < h" and "\<bar>p - c\<bar> \<le> r"
  shows "\<lfloor>(c - r) / h\<rfloor> \<le> \<lfloor>p / h\<rfloor>" and "\<lfloor>p / h\<rfloor> \<le> \<lfloor>(c + r) / h\<rfloor>"
  using assms by (auto intro!: floor_mono divide_right_mono)

text \<open>Every point close enough to the box lies in a cell that the query visits and takes into account.\<close>

lemma near_point_visited:
  assumes "height_query_is f q h cx cy l w yaw shell" and "0 < h" and "0 < l" and "0 < w"
    and "box_distance yaw l w (px - cx) (py - cy) + sqrt (h * h / 2) \<le> shell + h / 2"
    and "coord_ok \<lfloor>px / h\<rfloor>" and "coord_ok \<lfloor>py / h\<rfloor>"
  shows "(\<lfloor>px / h\<rfloor>, \<lfloor>py / h\<rfloor>) \<in> set (query_coords (query_bounds f q))"
    and "in_shell f q (coord_key (\<lfloor>px / h\<rfloor>, \<lfloor>py / h\<rfloor>))"
proof -
  let ?r = "sqrt (l * l + w * w) / 2 + shell"
  have "h / 2 = sqrt (h / 2 * (h / 2))" using assms(2) by (simp only: real_sqrt_abs2)
  also have "\<dots> \<le> sqrt (h * h / 2)" by (intro real_sqrt_le_mono) (simp add: field_simps)
  finally have close: "box_distance yaw l w (px - cx) (py - cy) \<le> shell" using assms(5) by linarith
  have norm: "sqrt ((px - cx) * (px - cx) + (py - cy) * (py - cy)) \<le> ?r"
    using norm_below_box [of l w "px - cx" "py - cy" yaw] assms(3,4) close by linarith
  have parts: "\<bar>a\<bar> \<le> sqrt (a * a + b * b)" "\<bar>b\<bar> \<le> sqrt (a * a + b * b)" for a b :: real
    by (simp_all add: real_le_rsqrt power2_eq_square)
  have px: "\<bar>px - cx\<bar> \<le> ?r" using order_trans [OF parts(1) norm] .
  have py: "\<bar>py - cy\<bar> \<le> ?r" using order_trans [OF parts(2) norm] .
  have bounds: "query_bounds f q = (\<lfloor>(cx - ?r) / h\<rfloor>, \<lfloor>(cx + ?r) / h\<rfloor>, \<lfloor>(cy - ?r) / h\<rfloor>, \<lfloor>(cy + ?r) / h\<rfloor>)"
    using assms(1,2) by (simp add: query_bounds_def height_query_is_def floor_int_def)
  show "(\<lfloor>px / h\<rfloor>, \<lfloor>py / h\<rfloor>) \<in> set (query_coords (query_bounds f q))"
    unfolding bounds query_coords_def Let_def prod.case
    using floor_between [OF assms(2) px] floor_between [OF assms(2) py] by (auto intro!: bexI [of _ "\<lfloor>px / h\<rfloor>"])
  let ?x = "(of_int \<lfloor>px / h\<rfloor> + 0.5) * h" and ?y = "(of_int \<lfloor>py / h\<rfloor> + 0.5) * h"
  have "sqrt ((?x - px) * (?x - px) + (?y - py) * (?y - py)) \<le> sqrt (h / 2 * (h / 2) + h / 2 * (h / 2))"
    using norm2_mono [of "\<bar>?x - px\<bar>" "h / 2" "\<bar>?y - py\<bar>" "h / 2"] cell_half [OF assms(2)] by simp
  also have "h / 2 * (h / 2) + h / 2 * (h / 2) = h * h / 2" by (simp add: field_simps)
  finally have offset: "sqrt ((?x - px) * (?x - px) + (?y - py) * (?y - py)) \<le> sqrt (h * h / 2)" .
  have "px - cx + (?x - px) = ?x - cx" "py - cy + (?y - py) = ?y - cy" by simp_all
  then have "box_distance yaw l w (?x - cx) (?y - cy) \<le> box_distance yaw l w (px - cx) (py - cy) +
      sqrt ((?x - px) * (?x - px) + (?y - py) * (?y - py))"
    using box_distance_lipschitz [of yaw l w "px - cx" "?x - px" "py - cy" "?y - py"] by (simp only:)
  then have "box_distance yaw l w (?x - cx) (?y - cy) \<le> shell + h / 2" using offset assms(5) by linarith
  then show "in_shell f q (coord_key (\<lfloor>px / h\<rfloor>, \<lfloor>py / h\<rfloor>))"
    using assms(1,2) unfolding in_shell_def distance_of_coord [OF assms(1,2,6,7)] height_query_is_def by simp
qed

section \<open>What a query answers\<close>

lemma query_default_ok: "counts_ok default_StaticHeightQueryResult"
  by (simp add: counts_ok_def default_StaticHeightQueryResult_def)

lemma query_valid_fields:
  assumes "hn_valid (query_height f q)"
  defines "r \<equiv> fold (query_cell f q) (query_coords (query_bounds f q)) default_StaticHeightQueryResult"
  shows "height_query_ok q"
    and "hn_matched_cell_keys (query_height f q) = hn_matched_cell_keys r"
    and "hn_matched_cells (query_height f q) = hn_matched_cells r"
    and "hn_queried_cells (query_height f q) = hn_queried_cells r"
    and "hn_covered_cells (query_height f q) = hn_effective_external_covered_cells r"
    and "hn_clear_shell_queried_cells (query_height f q) = hn_clear_shell_queried_cells r"
    and "hn_coverage_ratio (query_height f q) =
           cell_ratio (hn_effective_external_covered_cells r) (hn_clear_shell_queried_cells r)"
    and "hn_reason (query_height f q) =
           (if 0 < hn_matched_cells r then ''matched''
            else if 0 < hn_excluded_cargo_self_layer_count r then ''cargo_self_layers_excluded'' else ''clear_in_bounds'')"
  using assms(1) by (auto simp: query_height_def r_def default_StaticHeightQueryResult_def Let_def split: if_splits)

lemma cell_ratio_unit: "m \<le> n \<Longrightarrow> \<exists>x. cell_ratio m n = Fin x \<and> 0 \<le> x \<and> x \<le> 1"
  by (simp add: cell_ratio_def)

text \<open>A valid query is exact: the reported cells are, in the order of the walk, exactly the cells in reach of the box that hold a
  layer in the vertical interval which is neither an excluded member of the authorised origin component nor part of the
  authorised cargo itself; every cell of the walk is counted once, no more cells count as covered than are in
  reach, and the coverage is a number between 0 and 1.\<close>

theorem height_query_exact:
  assumes "hn_valid (query_height f q)"
  shows "hn_matched_cell_keys (query_height f q) = filter (reported_cell f q) (map coord_key (query_coords (query_bounds f q))) \<and>
    hn_matched_cells (query_height f q) = length (hn_matched_cell_keys (query_height f q)) \<and>
    hn_queried_cells (query_height f q) = length (query_coords (query_bounds f q)) \<and>
    hn_covered_cells (query_height f q) \<le> hn_clear_shell_queried_cells (query_height f q) \<and>
    hn_clear_shell_queried_cells (query_height f q) \<le> hn_queried_cells (query_height f q) \<and>
    (\<exists>x. hn_coverage_ratio (query_height f q) = Fin x \<and> 0 \<le> x \<and> x \<le> 1)"
proof -
  note fields = query_valid_fields [OF assms]
  have counts: "counts_ok (fold (query_cell f q) (query_coords (query_bounds f q)) default_StaticHeightQueryResult)"
    using query_default_ok by (rule query_fold_counts)
  show ?thesis
    unfolding fields query_fold_keys query_fold_queried
    using counts cell_ratio_unit
    by (auto simp: counts_ok_def query_fold_keys query_fold_queried default_StaticHeightQueryResult_def)
qed

text \<open>C21. A clear of the static map is sound: if a valid query over a field with cell size \<open>h\<close> answers that its box is clear,
  then around every point whose distance to the box plus the half diagonal of a cell is at most the shell plus half
  a cell, the stored layers in the vertical interval are all members of the origin component whose exclusion the caller
  authorised for the current generation of the map. (Cells are selected by the distance of their centre, so points in the
  outermost fifth of a cell of the shell are not covered.)\<close>

theorem height_clear_sound:
  assumes "hn_valid (query_height f q)" and "hn_reason (query_height f q) = ''clear_in_bounds''"
    and "height_query_is f q h cx cy l w yaw shell" and "0 < h"
    and "box_distance yaw l w (px - cx) (py - cy) + sqrt (h * h / 2) \<le> shell + h / 2"
    and "coord_ok \<lfloor>px / h\<rfloor>" and "coord_ok \<lfloor>py / h\<rfloor>"
    and "height_cell f (keyFor \<lparr>v2x = Fin px, v2y = Fin py\<rparr> (Fin h)) = Some cell" and "i < length (hx_layers cell)"
    and "layer_matches q (hx_layers cell ! i)"
  shows "exclusion_identity_valid f q \<and> NodeId (keyFor \<lparr>v2x = Fin px, v2y = Fin py\<rparr> (Fin h)) i \<in> set (hq_excluded_members q)"
proof -
  let ?key = "coord_key (\<lfloor>px / h\<rfloor>, \<lfloor>py / h\<rfloor>)" and ?coords = "query_coords (query_bounds f q)"
  note fields = query_valid_fields [OF assms(1)] and key = key_of_point [OF assms(4), of px py]
  have size_pos: "0 < l" "0 < w" using fields(1) assms(3) by (auto simp: height_query_ok_def height_query_is_def not_le)
  note near = near_point_visited [OF assms(3,4) size_pos assms(5-7)]
  have none: "hn_matched_cells (fold (query_cell f q) ?coords default_StaticHeightQueryResult) = 0"
    "hn_excluded_cargo_self_layer_count (fold (query_cell f q) ?coords default_StaticHeightQueryResult) = 0"
    using assms(2) unfolding fields(8) by (auto split: if_splits)
  have "counts_ok (fold (query_cell f q) ?coords default_StaticHeightQueryResult)"
    using query_default_ok by (rule query_fold_counts)
  then have "\<not> reported_cell f q ?key"
    using none(1) near(1) by (auto simp: counts_ok_def query_fold_keys filter_empty_conv)
  moreover have "\<not> self_cell f q ?key"
    using none(2) near(1) query_fold_self [of f q ?coords default_StaticHeightQueryResult] by (auto simp: list_ex_iff)
  moreover have "(i, hx_layers cell ! i) \<in> set (enumerate 0 (hx_layers cell))"
    using assms(9) by (auto simp: in_set_enumerate_eq)
  ultimately have "excluded_origin f q ?key i"
    using near(2) assms(8,10) unfolding key
    by (fastforce simp: reported_cell_def self_cell_def reported_layer_def list_ex_iff)
  then show ?thesis unfolding key by (simp add: excluded_origin_def)
qed

definition demo_height_layer :: StaticHeightLayer where
  "demo_height_layer =
     \<lparr>hl_z_low = Fin 0, hl_z_high = Fin 1, hl_z05 = Fin 0, hl_z50 = Fin 0.5, hl_z95 = Fin 1, hl_roughness_m = Fin 0.1,
      hl_uncertainty_m = Fin 0.1, hl_point_count = 9, hl_observation_count = 4, hl_authority = RUNTIME_MATURE\<rparr>"

text \<open>A field with cells of ten metres and one layer, and a query for a box of three by four metres inside the cell.\<close>

definition demo_field :: StaticHeightField where
  "demo_field =
     \<lparr>ht_config = default_StaticHeightFieldConfig\<lparr>hk_cell_size_m := Fin 10\<rparr>,
      ht_cells = [(0, \<lparr>hx_key = 0, hx_layers = [demo_height_layer], hx_support = default_StaticSupportSurfaceCell\<rparr>)],
      ht_support_plane = vec3_zero, ht_support_plane_valid = False, ht_map_generation = 7\<rparr>"

definition demo_height_query :: "StaticHeightLayerNodeId list \<Rightarrow> StaticHeightQuery" where
  "demo_height_query members =
     \<lparr>hq_center_map = \<lparr>v2x = Fin 5, v2y = Fin 5\<rparr>, hq_length_m = Fin 4, hq_width_m = Fin 3, hq_yaw_map_rad = Fin 0,
      hq_shell_m = Fin (21 / 10), hq_minimum_z = Fin 0, hq_maximum_z = Fin 2, hq_maximum_cells = 0, hq_excluded_members = members,
      hq_excluded_component_id = 3, hq_excluded_component_generation = 7, hq_exclusion_authorized = True,
      hq_cargo_self_exclusion_authorized = False, hq_cargo_self_length_m = Fin 0, hq_cargo_self_width_m = Fin 0,
      hq_cargo_self_minimum_z = Fin 0, hq_cargo_self_maximum_z = Fin 0\<rparr>"

lemma demo_query_is: "height_query_is demo_field (demo_height_query ms) 10 5 5 4 3 0 (21 / 10)"
  by (simp add: height_query_is_def demo_field_def demo_height_query_def default_StaticHeightFieldConfig_def)

lemma demo_bounds: "query_bounds demo_field (demo_height_query ms) = (0, 0, 0, 0)"
proof -
  have "sqrt (4 * 4 + 3 * 3) = (5 :: real)" using real_sqrt_abs2 [of 5] by simp
  then show ?thesis
    by (simp add: query_bounds_def demo_field_def demo_height_query_def default_StaticHeightFieldConfig_def floor_int_def
        floor_eq_iff)
qed

lemma demo_coords: "query_coords (query_bounds demo_field (demo_height_query ms)) = [(0, 0)]"
  by (simp add: demo_bounds query_coords_def)

lemma demo_key: "coord_key (0, 0) = 0"
  by (simp add: coord_key_def packStaticEvidenceCell_def)

lemma demo_distance: "query_distance demo_field (demo_height_query ms) 0 = Fin 0"
proof -
  have "query_distance demo_field (demo_height_query ms) (coord_key (0, 0)) = Fin (box_distance 0 4 3 0 0)"
    by (subst distance_of_coord [OF demo_query_is]) (simp_all add: coord_ok_def)
  then show ?thesis by (simp add: demo_key box_distance_def local_x_def local_y_def excess_def)
qed

lemma demo_in_shell: "in_shell demo_field (demo_height_query ms) 0"
  by (simp add: in_shell_def demo_distance) (simp add: demo_field_def demo_height_query_def default_StaticHeightFieldConfig_def)

lemma demo_cell:
  "height_cell demo_field 0 = Some \<lparr>hx_key = 0, hx_layers = [demo_height_layer], hx_support = default_StaticSupportSurfaceCell\<rparr>"
  by (simp add: height_cell_def demo_field_def)

lemma demo_query_valid: "hn_valid (query_height demo_field (demo_height_query ms))"
proof -
  have "height_query_ok (demo_height_query ms)"
    by (simp add: height_query_ok_def demo_height_query_def vec2_allFinite_def)
  moreover have "query_bounded (query_maximum_cells demo_field (demo_height_query ms)) (0, 0, 0, 0)"
    by (simp add: query_bounded_def query_maximum_cells_def demo_field_def demo_height_query_def
        default_StaticHeightFieldConfig_def)
  ultimately show ?thesis by (simp add: query_height_def demo_bounds Let_def)
qed

lemma demo_not_self: "\<not> excluded_self demo_field (demo_height_query ms) 0 l"
  by (simp add: excluded_self_def inside_cargo_self_xy_def demo_height_query_def Let_def)

lemma demo_matches: "layer_matches (demo_height_query ms) demo_height_layer"
  by (simp add: layer_matches_def demo_height_query_def demo_height_layer_def)

theorem height_query_exact_witness: "hn_matched_cell_keys (query_height demo_field (demo_height_query [])) = [0]"
proof -
  have "\<not> excluded_origin demo_field (demo_height_query []) 0 0" by (simp add: excluded_origin_def demo_height_query_def)
  then have "reported_cell demo_field (demo_height_query []) 0"
    by (simp add: reported_cell_def reported_layer_def demo_in_shell demo_cell demo_not_self demo_matches)
  then show ?thesis using height_query_exact [OF demo_query_valid [of "[]"]] by (simp add: demo_coords demo_key)
qed

theorem height_clear_sound_witness:
  "hn_reason (query_height demo_field (demo_height_query [NodeId 0 0])) = ''clear_in_bounds'' \<and>
   exclusion_identity_valid demo_field (demo_height_query [NodeId 0 0])"
proof -
  let ?q = "demo_height_query [NodeId 0 0]"
  have excluded: "excluded_origin demo_field ?q 0 0"
    by (simp add: excluded_origin_def exclusion_identity_valid_def demo_height_query_def demo_field_def)
  have clear: "hn_reason (query_height demo_field ?q) = ''clear_in_bounds''"
    using excluded
    by (simp add: query_valid_fields(8) [OF demo_query_valid] demo_coords query_cell_def demo_key demo_in_shell demo_cell
        query_layer_def Let_def default_StaticHeightQueryResult_def)
  have key: "keyFor \<lparr>v2x = Fin 5, v2y = Fin 5\<rparr> (Fin 10) = 0"
    using key_of_point [of 10 5 5] by (simp add: demo_key floor_eq_iff)
  have "sqrt 50 \<le> (71 / 10 :: real)" by (intro real_le_lsqrt) (simp_all add: power2_eq_square)
  then have near: "box_distance 0 4 3 (5 - 5) (5 - 5) + sqrt (10 * 10 / 2) \<le> 21 / 10 + 10 / (2 :: real)"
    by (simp add: box_distance_def local_x_def local_y_def excess_def)
  have "exclusion_identity_valid demo_field ?q"
    using height_clear_sound [OF demo_query_valid clear demo_query_is _ near, of _ 0] key demo_cell demo_matches
    by (simp add: coord_ok_def floor_eq_iff)
  then show ?thesis using clear by simp
qed

section \<open>Quantiles of an ascending list\<close>

definition interpolate :: "real list \<Rightarrow> real \<Rightarrow> real" where
  "interpolate xs p = xs ! nat \<lfloor>p\<rfloor> * (1 - (p - real (nat \<lfloor>p\<rfloor>))) + xs ! nat \<lceil>p\<rceil> * (p - real (nat \<lfloor>p\<rfloor>))"

lemma quantile_Fin:
  assumes "xs \<noteq> []" and "0 \<le> q" and "q \<le> 1"
  shows "quantile (map Fin xs) (Fin q) = Fin (interpolate xs (q * real (length xs - 1)))"
proof -
  let ?p = "q * real (length xs - 1)"
  have n: "0 < length xs" using assms(1) by simp
  have p: "0 \<le> ?p" "?p \<le> real (length xs - 1)" using assms(2,3) by (simp_all add: mult_left_le_one_le)
  have "nat \<lfloor>?p\<rfloor> < length xs" "nat \<lceil>?p\<rceil> < length xs" using p n by linarith+
  then show ?thesis
    using assms by (simp add: quantile_def cpp_clamp_def interpolate_def Let_def not_less)
qed

lemma interpolate_between:
  assumes "sorted xs" and "0 \<le> p" and "p \<le> real (length xs - 1)" and "xs \<noteq> []"
  shows "xs ! nat \<lfloor>p\<rfloor> \<le> interpolate xs p" and "interpolate xs p \<le> xs ! nat \<lceil>p\<rceil>"
proof -
  define f where "f = p - real (nat \<lfloor>p\<rfloor>)"
  have f: "0 \<le> f" "f \<le> 1" using assms(2) unfolding f_def by linarith+
  have "nat \<lceil>p\<rceil> < length xs" using assms(3,4) by (cases xs) (auto, linarith)
  then have le: "xs ! nat \<lfloor>p\<rfloor> \<le> xs ! nat \<lceil>p\<rceil>" using assms(1) by (intro sorted_nth_mono) linarith+
  have eq: "interpolate xs p = xs ! nat \<lfloor>p\<rfloor> + f * (xs ! nat \<lceil>p\<rceil> - xs ! nat \<lfloor>p\<rfloor>)"
    by (simp add: interpolate_def f_def algebra_simps)
  have "0 \<le> f * (xs ! nat \<lceil>p\<rceil> - xs ! nat \<lfloor>p\<rfloor>)" using f le by simp
  moreover have "f * (xs ! nat \<lceil>p\<rceil> - xs ! nat \<lfloor>p\<rfloor>) \<le> xs ! nat \<lceil>p\<rceil> - xs ! nat \<lfloor>p\<rfloor>"
    using f le by (simp add: mult_left_le_one_le)
  ultimately show "xs ! nat \<lfloor>p\<rfloor> \<le> interpolate xs p" "interpolate xs p \<le> xs ! nat \<lceil>p\<rceil>" unfolding eq by linarith+
qed

lemma interpolate_mono:
  assumes "sorted xs" and "0 \<le> p" and "p \<le> q" and "q \<le> real (length xs - 1)" and "xs \<noteq> []"
  shows "interpolate xs p \<le> interpolate xs q"
proof (cases "\<lfloor>p\<rfloor> = \<lfloor>q\<rfloor>")
  case False
  then have "nat \<lceil>p\<rceil> \<le> nat \<lfloor>q\<rfloor>" using assms(2,3) by linarith
  moreover have "nat \<lfloor>q\<rfloor> < length xs" using assms(2-5) by (cases xs) (auto, linarith)
  ultimately have "xs ! nat \<lceil>p\<rceil> \<le> xs ! nat \<lfloor>q\<rfloor>" using assms(1) by (intro sorted_nth_mono)
  then show ?thesis using interpolate_between [of xs p] interpolate_between [of xs q] assms by linarith
next
  case True
  show ?thesis
  proof (cases "p = q")
    case False
    have less: "p < q" using assms(3) False by linarith
    have up: "\<lceil>q\<rceil> = \<lfloor>q\<rfloor> + 1" using less True by linarith
    have at: "interpolate xs p = xs ! nat \<lfloor>q\<rfloor> + (p - real (nat \<lfloor>q\<rfloor>)) * (xs ! nat (\<lfloor>q\<rfloor> + 1) - xs ! nat \<lfloor>q\<rfloor>)"
    proof (cases "p = of_int \<lfloor>q\<rfloor>")
      case True
      then show ?thesis using \<open>\<lfloor>p\<rfloor> = \<lfloor>q\<rfloor>\<close> assms(2) by (simp add: interpolate_def)
    next
      case False
      then have "\<lceil>p\<rceil> = \<lfloor>q\<rfloor> + 1" using True by linarith
      then show ?thesis using True by (simp add: interpolate_def algebra_simps)
    qed
    have "nat \<lfloor>q\<rfloor> \<le> nat (\<lfloor>q\<rfloor> + 1)" "nat (\<lfloor>q\<rfloor> + 1) < length xs"
      using up assms(2-5) by (cases xs; auto; linarith)+
    then have "0 \<le> xs ! nat (\<lfloor>q\<rfloor> + 1) - xs ! nat \<lfloor>q\<rfloor>" using sorted_nth_mono [OF assms(1)] by simp
    then have "(p - real (nat \<lfloor>q\<rfloor>)) * (xs ! nat (\<lfloor>q\<rfloor> + 1) - xs ! nat \<lfloor>q\<rfloor>) \<le>
        (q - real (nat \<lfloor>q\<rfloor>)) * (xs ! nat (\<lfloor>q\<rfloor> + 1) - xs ! nat \<lfloor>q\<rfloor>)"
      using less by (intro mult_right_mono) auto
    then show ?thesis unfolding at by (simp add: interpolate_def up algebra_simps)
  qed simp
qed

lemma quantile_ordered:
  assumes "sorted xs" and "xs \<noteq> []"
  obtains a b c where "quantile (map Fin xs) (Fin 0.05) = Fin a" "quantile (map Fin xs) (Fin 0.5) = Fin b"
    "quantile (map Fin xs) (Fin 0.95) = Fin c" "hd xs \<le> a" "a \<le> b" "b \<le> c" "c \<le> last xs"
proof -
  let ?n = "real (length xs - 1)"
  have n: "0 \<le> ?n" by simp
  have q: "quantile (map Fin xs) (Fin 0.05) = Fin (interpolate xs (0.05 * ?n))"
    "quantile (map Fin xs) (Fin 0.5) = Fin (interpolate xs (0.5 * ?n))"
    "quantile (map Fin xs) (Fin 0.95) = Fin (interpolate xs (0.95 * ?n))"
    by (rule quantile_Fin; use assms(2) in simp)+
  have ends: "interpolate xs 0 = hd xs" "interpolate xs ?n = last xs"
    using assms(2) by (simp_all add: interpolate_def hd_conv_nth last_conv_nth)
  have "interpolate xs 0 \<le> interpolate xs (0.05 * ?n)" "interpolate xs (0.05 * ?n) \<le> interpolate xs (0.5 * ?n)"
    "interpolate xs (0.5 * ?n) \<le> interpolate xs (0.95 * ?n)" "interpolate xs (0.95 * ?n) \<le> interpolate xs ?n"
    by (rule interpolate_mono; use assms n in \<open>simp; linarith?\<close>)+
  then show ?thesis using that q ends by metis
qed

section \<open>Layers of a built field\<close>

text \<open>Clusters as lists of reals: non-empty, ascending, and every later one higher than every earlier one by more than the gap.\<close>

definition separated :: "real \<Rightarrow> real list \<Rightarrow> real list \<Rightarrow> bool" where
  "separated gap xs ys \<longleftrightarrow> (\<forall>x \<in> set xs. \<forall>y \<in> set ys. gap < y - x)"

definition clusters_ok :: "real \<Rightarrow> real list list \<Rightarrow> bool" where
  "clusters_ok gap ks \<longleftrightarrow> (\<forall>k \<in> set ks. k \<noteq> [] \<and> sorted k) \<and> sorted_wrt (separated gap) ks"

lemma last_concat: "ks \<noteq> [] \<Longrightarrow> last ks \<noteq> [] \<Longrightarrow> last (concat ks) = last (last ks)"
  by (induction ks rule: rev_induct) simp_all

lemma extend_clusters_Fin:
  assumes "clusters_ok gap ks" and "sorted (concat ks @ [z])" and "0 \<le> gap"
  shows "\<exists>ks'. extend_clusters (Fin gap) (map (map Fin) ks) (Fin z) = map (map Fin) ks' \<and> clusters_ok gap ks' \<and>
    concat ks' = concat ks @ [z]"
proof (cases ks rule: rev_cases)
  case Nil
  then show ?thesis by (intro exI [of _ "[[z]]"]) (simp add: extend_clusters_def clusters_ok_def)
next
  case (snoc front k)
  have k: "k \<noteq> []" "sorted k" using assms(1) snoc by (auto simp: clusters_ok_def)
  have below: "x \<le> z" if x: "x \<in> set k" for x using assms(2) snoc x by (simp add: sorted_append)
  have "sorted (butlast k @ [last k])" "set k = set (butlast k @ [last k])" using k by simp_all
  then have below_last: "x \<le> last k" if x: "x \<in> set k" for x
    using x by (simp only: sorted_append set_append) auto
  have front_k: "separated gap f k" if f: "f \<in> set front" for f
    using assms(1) snoc f by (simp add: clusters_ok_def sorted_wrt_append)
  have last_in: "last k \<in> set k" using k by simp
  show ?thesis
  proof (cases "gap < z - last k")
    case True
    have "separated gap f [z]" if f: "f \<in> set front" for f
      using front_k [OF f] last_in below [OF last_in] unfolding separated_def by fastforce
    moreover have "separated gap k [z]" using True below_last unfolding separated_def by force
    ultimately have "clusters_ok gap (ks @ [[z]])"
      using assms(1) snoc by (auto simp: clusters_ok_def sorted_wrt_append)
    then show ?thesis
      using True snoc k by (intro exI [of _ "ks @ [[z]]"]) (simp add: extend_clusters_def last_map)
  next
    case False
    have "separated gap f (k @ [z])" if f: "f \<in> set front" for f
      using front_k [OF f] last_in below [OF last_in] unfolding separated_def by fastforce
    moreover have "sorted (k @ [z])" using k below by (simp add: sorted_append)
    ultimately have "clusters_ok gap (front @ [k @ [z]])"
      using assms(1) snoc by (auto simp: clusters_ok_def sorted_wrt_append)
    then show ?thesis
      using False snoc k by (intro exI [of _ "front @ [k @ [z]]"]) (simp add: extend_clusters_def last_map)
  qed
qed

lemma height_clusters_Fin:
  assumes "sorted xs" and "0 \<le> gap"
  shows "\<exists>ks. height_clusters (Fin gap) (map Fin xs) = map (map Fin) ks \<and> clusters_ok gap ks \<and> concat ks = xs"
  using assms(1)
proof (induction xs rule: rev_induct)
  case Nil
  then show ?case by (intro exI [of _ "[]"]) (simp add: height_clusters_def clusters_ok_def)
next
  case (snoc z xs)
  then obtain ks where ks: "height_clusters (Fin gap) (map Fin xs) = map (map Fin) ks" "clusters_ok gap ks" "concat ks = xs"
    by (auto simp: sorted_append)
  then show ?case
    using extend_clusters_Fin [OF ks(2) _ assms(2), of z] snoc.prems by (auto simp: height_clusters_def)
qed

lemma sorted_wrt_separated_take:
  assumes "clusters_ok gap ks" and "0 \<le> gap" and "distinct js" and "set js \<subseteq> set ks" and "sorted (map hd js)"
  shows "clusters_ok gap js"
proof -
  have ok: "\<forall>k \<in> set ks. k \<noteq> [] \<and> sorted k" and sep: "sorted_wrt (separated gap) ks"
    using assms(1) by (simp_all add: clusters_ok_def)
  have either: "separated gap a b \<or> separated gap b a" if k: "a \<in> set ks" "b \<in> set ks" "a \<noteq> b" for a b
  proof -
    obtain i j where ij: "i < length ks" "j < length ks" "a = ks ! i" "b = ks ! j" using k by (metis in_set_conv_nth)
    then have "i < j \<or> j < i" using k(3) by (metis linorder_neqE_nat)
    then show ?thesis using sep ij by (auto simp: sorted_wrt_iff_nth_less)
  qed
  have "sorted_wrt (separated gap) js"
    unfolding sorted_wrt_iff_nth_less
  proof (intro allI impI)
    fix i j assume ij: "i < j" "j < length js"
    let ?a = "js ! i" and ?b = "js ! j"
    have mem: "?a \<in> set ks" "?b \<in> set ks" "?a \<noteq> ?b"
      using assms(3,4) ij nth_mem [of i js] nth_mem [of j js] by (auto simp: nth_eq_iff_index_eq)
    have "hd ?a \<le> hd ?b" using assms(5) ij by (simp add: sorted_iff_nth_mono_less)
    moreover have "hd ?a \<in> set ?a" "hd ?b \<in> set ?b" using ok mem by auto
    ultimately have "\<not> separated gap ?b ?a" using assms(2) unfolding separated_def by force
    then show "separated gap ?a ?b" using either [OF mem] by blast
  qed
  then show ?thesis using ok assms(4) by (auto simp: clusters_ok_def)
qed

lemma clusters_distinct:
  assumes "clusters_ok gap ks" and "0 \<le> gap"
  shows "distinct ks"
proof -
  have "ks ! i \<noteq> ks ! j" if k: "i < j" "j < length ks" for i j
  proof
    assume eq: "ks ! i = ks ! j"
    have "separated gap (ks ! i) (ks ! j)" using assms(1) k by (simp add: clusters_ok_def sorted_wrt_iff_nth_less)
    moreover have "ks ! j \<noteq> []" using assms(1) k by (simp add: clusters_ok_def)
    ultimately show False using eq assms(2) unfolding separated_def by (metis diff_self hd_in_set not_le)
  qed
  then show ?thesis unfolding distinct_conv_nth by (metis linorder_neqE_nat)
qed

lemma clusters_ok_filter: "clusters_ok gap ks \<Longrightarrow> clusters_ok gap (filter P ks)"
  by (auto simp: clusters_ok_def sorted_wrt_filter)

lemma sort_key_map_Fin: "sort_key f (map (map Fin) ks) = map (map Fin) (sort_key (f \<circ> map Fin) ks)"
proof -
  have ins: "insort_key f (map Fin x) (map (map Fin) ys) = map (map Fin) (insort_key (f \<circ> map Fin) x ys)" for x ys
    by (induction ys) auto
  show ?thesis by (induction ks) (simp_all add: ins del: comp_apply)
qed

lemma sort_key_agree: "\<forall>k \<in> set ks. f k = g k \<Longrightarrow> sort_key f ks = sort_key g ks"
proof -
  have ins: "insort_key f x ys = insort_key g x ys" if k: "f x = g x" "\<forall>y \<in> set ys. f y = g y" for x ys
    using k by (induction ys) auto
  show "sort_key f ks = sort_key g ks" if k: "\<forall>k \<in> set ks. f k = g k"
    using k by (induction ks) (simp_all add: ins)
qed

text \<open>The clusters that become layers: at most as many as configured, each with enough points, still separated.\<close>

lemma layer_clusters_Fin:
  assumes "hk_maximum_merge_gap_m c = Fin gap" and "0 \<le> gap"
  shows "\<exists>ks. layer_clusters c (map Fin xs) = map (map Fin) ks \<and> clusters_ok gap ks \<and>
    length ks \<le> hk_maximum_layers_per_cell c \<and> (\<forall>k \<in> set ks. hk_minimum_points_per_layer c \<le> length k \<and> set k \<subseteq> set xs)"
proof -
  obtain ks where ks: "height_clusters (Fin gap) (map Fin (sort xs)) = map (map Fin) ks" "clusters_ok gap ks"
      "concat ks = sort xs"
    using height_clusters_Fin [OF sorted_sort [of xs] assms(2)] by blast
  define js where "js = filter (\<lambda>k. hk_minimum_points_per_layer c \<le> length k) ks"
  have js: "clusters_ok gap js" "\<forall>k \<in> set js. hk_minimum_points_per_layer c \<le> length k \<and> set k \<subseteq> set xs"
    using ks(2) arg_cong [OF ks(3), of set] by (auto simp: js_def clusters_ok_filter)
  have filt: "filter (\<lambda>k. hk_minimum_points_per_layer c \<le> length k) (map (map Fin) ks) = map (map Fin) js"
    by (simp add: js_def filter_map comp_def)
  show ?thesis
  proof (cases "hk_maximum_layers_per_cell c < length js")
    case False
    then show ?thesis using js
      by (intro exI [of _ js]) (simp add: layer_clusters_def assms(1) sort_key_Fin ks(1) filt)
  next
    case True
    let ?big = "take (hk_maximum_layers_per_cell c) (sort_key (\<lambda>k. - int (length k)) js)"
    let ?ls = "sort_key hd ?big"
    have "hd (map Fin k) = Fin (hd k)" if k: "k \<in> set js" for k
      using js(1) k by (auto simp: clusters_ok_def hd_map)
    then have key: "sort_key (\<lambda>k. real_part (hd (map Fin k))) ?big = ?ls"
      by (intro sort_key_agree) (metis in_set_takeD real_part.simps(1) set_sort)
    have sub: "set ?ls \<subseteq> set js" by (auto dest: in_set_takeD)
    have "distinct ?ls" using clusters_distinct [OF js(1) assms(2)] by (simp add: distinct_take)
    then have "clusters_ok gap ?ls"
      using sub by (intro sorted_wrt_separated_take [OF js(1) assms(2)]) simp_all
    moreover have "length ?ls \<le> hk_maximum_layers_per_cell c" by simp
    moreover have "layer_clusters c (map Fin xs) = map (map Fin) ?ls"
      using True by (simp add: layer_clusters_def assms(1) sort_key_Fin ks(1) filt sort_key_map_Fin comp_def take_map key)
    ultimately show ?thesis using js(2) sub by blast
  qed
qed

definition layer_wf :: "StaticHeightLayer \<Rightarrow> bool" where
  "layer_wf l \<longleftrightarrow> (\<exists>lo a b d hi. hl_z_low l = Fin lo \<and> hl_z05 l = Fin a \<and> hl_z50 l = Fin b \<and> hl_z95 l = Fin d \<and>
     hl_z_high l = Fin hi \<and> lo \<le> a \<and> a \<le> b \<and> b \<le> d \<and> d \<le> hi)"

definition height_cell_wf :: "StaticHeightFieldConfig \<Rightarrow> int \<Rightarrow> StaticHeightCell \<Rightarrow> bool" where
  "height_cell_wf c key cell \<longleftrightarrow>
     hx_key cell = key \<and> length (hx_layers cell) \<le> hk_maximum_layers_per_cell c \<and> list_all layer_wf (hx_layers cell) \<and>
     sorted_wrt (\<lambda>l m. hk_maximum_merge_gap_m c < hl_z_low m - hl_z_high l) (hx_layers cell) \<and>
     (hx_layers cell \<noteq> [] \<or> su_valid (hx_support cell))"

definition height_cells_wf :: "StaticHeightFieldConfig \<Rightarrow> (int, StaticHeightCell) smap \<Rightarrow> bool" where
  "height_cells_wf c m \<longleftrightarrow> smap_ok m \<and> (\<forall>(key, cell) \<in> set m. height_cell_wf c key cell)"

lemma set_smap_put: "set (smap_put k v m) \<subseteq> insert (k, v) (set m)"
  by (induction k v m rule: smap_put.induct) auto

lemma height_cells_wf_put: "height_cells_wf c m \<Longrightarrow> height_cell_wf c key cell \<Longrightarrow> height_cells_wf c (smap_put key cell m)"
  using set_smap_put [of key cell m] by (auto simp: height_cells_wf_def smap_ok_put)

lemma smap_push_finite:
  assumes "\<forall>e \<in> set m. list_all isfinite (snd e)" and "isfinite v"
  shows "\<forall>e \<in> set (smap_push key v m). list_all isfinite (snd e)"
proof -
  define old where "old = (case map_of m key of Some vs \<Rightarrow> vs | None \<Rightarrow> [])"
  have "list_all isfinite old"
    unfolding old_def using assms(1) map_of_SomeD [of m key] by (cases "map_of m key") fastforce+
  then have "\<forall>e \<in> insert (key, old @ [v]) (set m). list_all isfinite (snd e)" using assms by simp
  then show ?thesis using set_smap_put [of key "old @ [v]" m] unfolding smap_push_def old_def by blast
qed

lemma heights_finite:
  assumes "\<forall>p \<in> set ps. vec3_allFinite p"
  shows "\<forall>e \<in> set (heights_by_cell h ps). list_all isfinite (snd e)"
proof -
  have run: "\<forall>e \<in> set (fold (\<lambda>p. smap_push (keyFor (vec3_head2 p) h) (v3z p)) ps m). list_all isfinite (snd e)"
    if k: "\<forall>e \<in> set m. list_all isfinite (snd e)" for m
    using assms k
  proof (induction ps arbitrary: m)
    case (Cons p ps)
    have "isfinite (v3z p)" "\<forall>p \<in> set ps. vec3_allFinite p" using Cons.prems(1) by (simp_all add: vec3_allFinite_def)
    from Cons.IH [OF this(2) smap_push_finite [OF Cons.prems(2) this(1)]] show ?case by (simp only: fold_simps comp_apply)
  qed simp
  show ?thesis unfolding heights_by_cell_def by (rule run) simp
qed

lemma layer_of_wf:
  assumes "k \<noteq> []" and "sorted k"
  shows "layer_wf (layer_of c a n (map Fin k))" "hl_z_low (layer_of c a n (map Fin k)) = Fin (hd k)"
    "hl_z_high (layer_of c a n (map Fin k)) = Fin (last k)"
proof -
  show ends: "hl_z_low (layer_of c a n (map Fin k)) = Fin (hd k)" "hl_z_high (layer_of c a n (map Fin k)) = Fin (last k)"
    using assms(1) by (simp_all add: layer_of_def hd_map last_map Let_def)
  obtain x y z where "quantile (map Fin k) (Fin 0.05) = Fin x" "quantile (map Fin k) (Fin 0.5) = Fin y"
    "quantile (map Fin k) (Fin 0.95) = Fin z" "hd k \<le> x" "x \<le> y" "y \<le> z" "z \<le> last k"
    using assms(2,1) by (rule quantile_ordered)
  then show "layer_wf (layer_of c a n (map Fin k))"
    unfolding layer_wf_def using ends by (simp add: layer_of_def Let_def)
qed

lemma object_cell_wf:
  assumes "height_validConfig c" and "list_all isfinite zs" and "layer_clusters c zs \<noteq> []"
  shows "height_cell_wf c key \<lparr>hx_key = key, hx_layers = map (layer_of c a n) (layer_clusters c zs), hx_support = s\<rparr>"
proof -
  obtain gap where gap: "hk_maximum_merge_gap_m c = Fin gap" "0 \<le> gap"
    using assms(1) by (auto simp: height_validConfig_def isfinite_iff)
  obtain xs where xs: "zs = map Fin xs" using all_finite_Fin [of zs] assms(2) by (auto simp: list_all_iff)
  obtain ks where ks: "layer_clusters c zs = map (map Fin) ks" "clusters_ok gap ks" "length ks \<le> hk_maximum_layers_per_cell c"
    using layer_clusters_Fin [OF gap, of xs] xs by auto
  have each: "k \<noteq> [] \<and> sorted k" if k: "k \<in> set ks" for k using ks(2) k by (simp add: clusters_ok_def)
  have "gap < hd b - last a" if k: "separated gap a b" "a \<in> set ks" "b \<in> set ks" for a b
    using k each by (auto simp: separated_def)
  then have "sorted_wrt (\<lambda>a b. gap < hd b - last a) ks"
    using ks(2) unfolding clusters_ok_def by (auto intro: sorted_wrt_mono_rel [rotated])
  then have "sorted_wrt (\<lambda>l m. hk_maximum_merge_gap_m c < hl_z_low m - hl_z_high l) (map (layer_of c a n) (map (map Fin) ks))"
    unfolding sorted_wrt_map gap
    by (rule sorted_wrt_mono_rel [rotated]) (simp add: layer_of_wf each)
  moreover have "list_all layer_wf (map (layer_of c a n) (map (map Fin) ks))"
    using each by (auto simp: list_all_iff layer_of_wf)
  ultimately show ?thesis using ks assms(3) by (simp add: height_cell_wf_def)
qed

lemma object_cells_wf:
  assumes "height_validConfig c" and "\<forall>p \<in> set ps. vec3_allFinite p"
  shows "height_cells_wf c (object_cells c a n ps)"
proof -
  have step: "height_cells_wf c (fold (\<lambda>(key, heights) m.
         let clusters = layer_clusters c heights in
         if clusters = [] then m
         else smap_put key \<lparr>hx_key = key, hx_layers = map (layer_of c a n) clusters,
                            hx_support = default_StaticSupportSurfaceCell\<rparr> m) es m)"
    if k: "\<forall>e \<in> set es. list_all isfinite (snd e)" "height_cells_wf c m" for es m
    using k
  proof (induction es arbitrary: m)
    case (Cons e es)
    obtain key zs where e: "e = (key, zs)" by (cases e)
    show ?case
      using Cons e object_cell_wf [OF assms(1), of zs key a n] by (simp add: Let_def height_cells_wf_put)
  qed simp
  show ?thesis
    unfolding object_cells_def
    by (rule step) (use heights_finite [OF assms(2)] in \<open>auto simp: height_cells_wf_def\<close>)
qed

lemma put_support_wf:
  assumes "height_cells_wf c m" and "su_valid s"
  shows "height_cells_wf c (put_support key s m)"
proof (cases "map_of m key")
  case None
  then show ?thesis
    using assms by (simp add: put_support_def height_cells_wf_put height_cell_wf_def)
next
  case (Some cell)
  then have "height_cell_wf c key cell" using assms(1) by (auto simp: height_cells_wf_def dest!: map_of_SomeD)
  then show ?thesis using assms Some by (simp add: put_support_def height_cells_wf_put height_cell_wf_def)
qed

text \<open>A built field is well formed, whatever the points and whatever the plane solver answers: its cells are in
  ascending key order under their own key; every cell has a layer or a floor and no more layers than configured; every layer has
  ordered finite heights (lowest point, 5, 50 and 95 per cent, highest point), and the layers of a cell are ascending and
  farther apart than the merge gap.\<close>

theorem built_field_wf:
  assumes "hb_valid (snd (height_build solve f objects ground authority observations generation))"
  shows "height_cells_wf (ht_config f) (ht_cells (fst (height_build solve f objects ground authority observations generation)))"
proof -
  have config: "height_validConfig (ht_config f)"
    using assms by (auto simp: height_build_def height_clear_def default_StaticHeightFieldBuildResult_def Let_def split: if_splits)
  have supports: "height_cells_wf (ht_config f) (fold (\<lambda>(key, heights). put_support key (support_of (ht_config f) heights)) es m)"
    if k: "height_cells_wf (ht_config f) m" for es m
    using k by (induction es arbitrary: m) (auto simp: put_support_wf support_of_def Let_def)
  have objects: "height_cells_wf (ht_config f) (object_cells (ht_config f) authority observations (filter vec3_allFinite objects))"
    by (rule object_cells_wf [OF config]) simp
  show ?thesis
    using supports [OF objects] config by (simp add: height_build_def height_clear_def Let_def)
qed

theorem built_field_wf_witness:
  "height_cells_wf default_StaticHeightFieldConfig
     (ht_cells (fst (height_build (\<lambda>_. vec3_zero) (height_init default_StaticHeightFieldConfig) [] [vec3_zero] RUNTIME_MATURE 1 7)))"
proof -
  have config: "height_validConfig default_StaticHeightFieldConfig"
    by (simp add: height_validConfig_def default_StaticHeightFieldConfig_def)
  have init: "ht_config (height_init default_StaticHeightFieldConfig) = default_StaticHeightFieldConfig"
    by (simp add: height_init_def height_setConfig_def height_clear_def)
  have "hb_valid (snd (height_build (\<lambda>_. vec3_zero) (height_init default_StaticHeightFieldConfig) [] [vec3_zero] RUNTIME_MATURE 1 7))"
    using config
    by (simp add: height_build_def height_clear_def init Let_def object_cells_def heights_by_cell_def floor_candidates_def
        vec3_zero_def vec3_allFinite_def vec3_head2_def smap_push_def put_support_def)
  from built_field_wf [OF this] show ?thesis by (simp only: init)
qed

end
