(* ===== verification/Height_Components.thy ===== *)
theory Height_Components
  imports Static_Height
begin

text \<open>
  Connected components of the height field (\<^verbatim>\<open>static_height_component_extractor.hpp/.cpp\<close>): layers of neighbouring cells
  are linked when they have the same authority and similar heights; the components near the hook become the candidates
  for the origin of a lift. The walk is the flood fill of \<open>Flood_Fill\<close>; the eigensolver of Eigen is a parameter, as in
  \<open>Oriented_Footprint\<close>. The final order compares finite numbers only, so its keys are their real values.
\<close>

section \<open>Data\<close>

record StaticHeightComponentExtractorConfig =
  hu_neighbor_height_center_tolerance_m :: dbl
  hu_neighbor_interval_gap_tolerance_m :: dbl
  hu_maximum_support_height_difference_m :: dbl
  hu_maximum_component_cells :: nat
  hu_minimum_component_cells :: nat
  hu_maximum_anchor_distance_m :: dbl
  hu_minimum_candidate_overlap :: dbl

definition default_StaticHeightComponentExtractorConfig :: StaticHeightComponentExtractorConfig where
  "default_StaticHeightComponentExtractorConfig =
     \<lparr>hu_neighbor_height_center_tolerance_m = Fin 0.18, hu_neighbor_interval_gap_tolerance_m = Fin 0.12,
      hu_maximum_support_height_difference_m = Fin 0.18, hu_maximum_component_cells = 4096,
      hu_minimum_component_cells = 3, hu_maximum_anchor_distance_m = Fin 2, hu_minimum_candidate_overlap = Fin 0.15\<rparr>"

record StaticHeightComponentQuery =
  hv_hook_anchor_map :: vec2
  hv_candidate_valid :: bool
  hv_candidate_center_map :: vec2
  hv_candidate_length_m :: dbl
  hv_candidate_width_m :: dbl
  hv_candidate_yaw_map_rad :: dbl
  hv_expected_top_valid :: bool
  hv_expected_top_z_map :: dbl
  hv_map_generation :: u64
  hv_previous_component_id :: u64

record StaticHeightComponent =
  hp_valid :: bool
  hp_component_id :: u64
  hp_map_generation :: u64
  hp_authority :: StaticEvidenceAuthority
  hp_predates_cargo_lifecycle :: bool
  hp_members :: "StaticHeightLayerNodeId list"
  hp_center_map :: vec2
  hp_length_m :: dbl
  hp_width_m :: dbl
  hp_yaw_map_rad :: dbl
  hp_top_z95_map :: dbl
  hp_support_z_map :: dbl
  hp_uncertainty_m :: dbl
  hp_hook_anchor_distance_m :: dbl
  hp_candidate_overlap :: dbl
  hp_anchor_overlap :: dbl
  hp_point_count :: nat
  hp_reason :: string

definition default_StaticHeightComponent :: StaticHeightComponent where
  "default_StaticHeightComponent =
     \<lparr>hp_valid = False, hp_component_id = 0, hp_map_generation = 0, hp_authority = UNVERIFIED_LOADED_CLEAN,
      hp_predates_cargo_lifecycle = False, hp_members = [], hp_center_map = vec2_zero, hp_length_m = Fin 0,
      hp_width_m = Fin 0, hp_yaw_map_rad = Fin 0, hp_top_z95_map = Fin 0, hp_support_z_map = Fin 0,
      hp_uncertainty_m = Fin 0, hp_hook_anchor_distance_m = Fin 0, hp_candidate_overlap = Fin 0,
      hp_anchor_overlap = Fin 0, hp_point_count = 0, hp_reason = ''invalid''\<rparr>"

definition extractor_validConfig :: "StaticHeightComponentExtractorConfig \<Rightarrow> bool" where
  "extractor_validConfig c \<longleftrightarrow>
     isfinite (hu_neighbor_height_center_tolerance_m c) \<and> Fin 0 \<le> hu_neighbor_height_center_tolerance_m c \<and>
     isfinite (hu_neighbor_interval_gap_tolerance_m c) \<and> Fin 0 \<le> hu_neighbor_interval_gap_tolerance_m c \<and>
     isfinite (hu_maximum_support_height_difference_m c) \<and> Fin 0 \<le> hu_maximum_support_height_difference_m c \<and>
     0 < hu_maximum_component_cells c \<and> 0 < hu_minimum_component_cells c \<and>
     hu_minimum_component_cells c \<le> hu_maximum_component_cells c \<and> isfinite (hu_maximum_anchor_distance_m c) \<and>
     Fin 0 < hu_maximum_anchor_distance_m c \<and> isfinite (hu_minimum_candidate_overlap c) \<and>
     Fin 0 \<le> hu_minimum_candidate_overlap c \<and> hu_minimum_candidate_overlap c \<le> Fin 1"

definition extractor_setConfig :: "StaticHeightComponentExtractorConfig \<Rightarrow> StaticHeightComponentExtractorConfig" where
  "extractor_setConfig c = (if extractor_validConfig c then c else default_StaticHeightComponentExtractorConfig)"

section \<open>The graph of the layers\<close>

definition intervalGap :: "StaticHeightLayer \<Rightarrow> StaticHeightLayer \<Rightarrow> dbl" where
  "intervalGap a b =
     (if hl_z05 b \<le> hl_z95 a \<and> hl_z05 a \<le> hl_z95 b then Fin 0
      else cpp_max (hl_z05 a) (hl_z05 b) - cpp_min (hl_z95 a) (hl_z95 b))"

definition insideObb :: "vec2 \<Rightarrow> vec2 \<Rightarrow> dbl \<Rightarrow> dbl \<Rightarrow> dbl \<Rightarrow> dbl \<Rightarrow> bool" where
  "insideObb point center length_m width_m yaw margin \<longleftrightarrow>
     (let d = vec2_sub point center; x = dcos yaw * v2x d + dsin yaw * v2y d; y = - dsin yaw * v2x d + dcos yaw * v2y d
      in \<bar>x\<bar> \<le> Fin 0.5 * length_m + margin \<and> \<bar>y\<bar> \<le> Fin 0.5 * width_m + margin)"

definition stableComponentId :: "StaticHeightLayerNodeId list \<Rightarrow> StaticEvidenceAuthority \<Rightarrow> u64" where
  "stableComponentId members authority =
     (let hash = foldl (\<lambda>h m. fnv_mix (fnv_mix h (of_int (nid_cell_key m))) (of_nat (nid_layer_index m)))
            (fnv_mix fnv_offset (of_nat (authority_code authority))) members
      in if hash = 0 then 1 else hash)"

text \<open>The median with the mean of the two middle values for an even number; values are finite.\<close>

definition height_median :: "dbl list \<Rightarrow> dbl" where
  "height_median values =
     (if values = [] then NaN
      else
        let ordered = sort_key real_part values; middle = length values div 2
        in if even (length values) then Fin 0.5 * (ordered ! (middle - 1) + ordered ! middle) else ordered ! middle)"

fun extractor_authorityRank :: "StaticEvidenceAuthority \<Rightarrow> nat" where
  "extractor_authorityRank RUNTIME_MATURE = 2"
| "extractor_authorityRank OPERATOR_APPROVED_BASELINE = 3"
| "extractor_authorityRank UNVERIFIED_LOADED_CLEAN = 1"

text \<open>The authorised layers near the hook, in the order of the map.\<close>

definition near_anchor :: "StaticHeightComponentExtractorConfig \<Rightarrow> StaticHeightField \<Rightarrow> vec2 \<Rightarrow> int \<Rightarrow> bool" where
  "near_anchor c f anchor key \<longleftrightarrow>
     (let h = hk_cell_size_m (ht_config f)
      in \<not> hu_maximum_anchor_distance_m c + h < vec2_norm (vec2_sub (centerFor key h) anchor))"

definition layer_nodes ::
  "StaticHeightComponentExtractorConfig \<Rightarrow> StaticHeightField \<Rightarrow> vec2 \<Rightarrow> (StaticHeightLayerNodeId \<times> StaticHeightLayer) list" where
  "layer_nodes c f anchor =
     concat (map (\<lambda>(key, cell).
         if near_anchor c f anchor key
         then map (\<lambda>(i, l). (NodeId key i, l))
                (filter (\<lambda>(i, l). sz_formal_origin_authorized (authorizeStaticEvidence (hl_authority l)))
                  (enumerate 0 (hx_layers cell)))
         else []) (ht_cells f))"

definition linked_layers ::
  "StaticHeightComponentExtractorConfig \<Rightarrow> StaticHeightField \<Rightarrow> StaticHeightLayerNodeId \<Rightarrow> StaticHeightLayer \<Rightarrow>
   StaticHeightCell \<Rightarrow> StaticHeightLayer \<Rightarrow> bool" where
  "linked_layers c f current current_layer cell layer \<longleftrightarrow>
     hl_authority layer = hl_authority current_layer \<and>
     \<not> hu_neighbor_height_center_tolerance_m c < \<bar>hl_z50 layer - hl_z50 current_layer\<bar> \<and>
     \<not> hu_neighbor_interval_gap_tolerance_m c < intervalGap layer current_layer \<and>
     \<not> (case height_cell f (nid_cell_key current) of
          None \<Rightarrow> False
        | Some current_cell \<Rightarrow>
            su_valid (hx_support current_cell) \<and> su_valid (hx_support cell) \<and>
            hu_maximum_support_height_difference_m c < \<bar>su_z (hx_support current_cell) - su_z (hx_support cell)\<bar>)"

definition cell_offsets :: "(int \<times> int) list" where
  "cell_offsets = [(- 1, - 1), (- 1, 0), (- 1, 1), (0, - 1), (0, 1), (1, - 1), (1, 0), (1, 1)]"

definition node_neighbors ::
  "StaticHeightComponentExtractorConfig \<Rightarrow> StaticHeightField \<Rightarrow> (StaticHeightLayerNodeId \<times> StaticHeightLayer) list \<Rightarrow>
   StaticHeightLayerNodeId \<Rightarrow> StaticHeightLayerNodeId list" where
  "node_neighbors c f nodes current =
     (case map_of nodes current of
        None \<Rightarrow> []
      | Some current_layer \<Rightarrow>
          let (x, y) = unpackStaticEvidenceCell (nid_cell_key current) in
          concat (map (\<lambda>(dx, dy).
            let key = packStaticEvidenceCell (x + word_of_int dx) (y + word_of_int dy) in
            case height_cell f key of
              None \<Rightarrow> []
            | Some cell \<Rightarrow>
                filter (\<lambda>n. case map_of nodes n of None \<Rightarrow> False
                          | Some layer \<Rightarrow> linked_layers c f current current_layer cell layer)
                  (map (NodeId key) [0..<length (hx_layers cell)])) cell_offsets))"

section \<open>From a connected set to a component\<close>

definition unique_cells :: "StaticHeightLayerNodeId list \<Rightarrow> int list" where
  "unique_cells members = remdups_adj (sort (map nid_cell_key members))"

text \<open>The principal axis, the first unit vector when the solver fails.\<close>

definition long_axis_of :: "eigen_solver \<Rightarrow> vec2 \<Rightarrow> vec2 list \<Rightarrow> vec2" where
  "long_axis_of solver center centers =
     (case solver (covariance_entry v2x v2x center centers) (covariance_entry v2x v2y center centers)
             (covariance_entry v2y v2y center centers) of
        None \<Rightarrow> \<lparr>v2x = Fin 1, v2y = Fin 0\<rparr>
      | Some e \<Rightarrow>
          if vec2_allFinite (eg_vector_weak e) \<and> vec2_allFinite (eg_vector_strong e)
          then if Fin 0 < vec2_dot (eg_vector_strong e) (eg_vector_strong e)
               then vec2_div (eg_vector_strong e) (vec2_norm (eg_vector_strong e)) else eg_vector_strong e
          else \<lparr>v2x = Fin 1, v2y = Fin 0\<rparr>)"

definition component_box ::
  "eigen_solver \<Rightarrow> dbl \<Rightarrow> vec2 list \<Rightarrow> StaticHeightComponent \<Rightarrow> StaticHeightComponent" where
  "component_box solver cell_size centers p =
     (let center = vec2_div (foldl vec2_add vec2_zero centers) (Fin (real (length centers)));
          axis = long_axis_of solver center centers; ortho = \<lparr>v2x = - v2y axis, v2y = v2x axis\<rparr>;
          along = map (\<lambda>x. vec2_dot (vec2_sub x center) axis) centers;
          across = map (\<lambda>x. vec2_dot (vec2_sub x center) ortho) centers;
          min_long = foldl cpp_min PInf along; max_long = foldl cpp_max NInf along;
          min_short = foldl cpp_min PInf across; max_short = foldl cpp_max NInf across;
          l = max_long - min_long + cell_size; w = max_short - min_short + cell_size;
          yaw = normalizeCargoAxialYaw (datan2 (v2y axis) (v2x axis))
      in p\<lparr>hp_center_map := vec2_add (vec2_add center (vec2_scale axis (Fin 0.5 * (min_long + max_long))))
             (vec2_scale ortho (Fin 0.5 * (min_short + max_short))),
           hp_length_m := (if l < w then w else l), hp_width_m := (if l < w then l else w),
           hp_yaw_map_rad := (if l < w then normalizeCargoAxialYaw (yaw + Fin (pi / 2)) else yaw)\<rparr>)"

definition component_heights ::
  "StaticHeightField \<Rightarrow> dbl list \<Rightarrow> dbl list \<Rightarrow> StaticHeightComponent \<Rightarrow> StaticHeightComponent" where
  "component_heights f tops supports p =
     (let p1 = p\<lparr>hp_top_z95_map := height_median tops, hp_support_z_map := height_median supports\<rparr>;
          s = supportAt f (hp_center_map p1) in
      if isfinite (hp_support_z_map p1) \<or> \<not> su_valid s then p1
      else p1\<lparr>hp_support_z_map := su_z s, hp_uncertainty_m := cpp_max (hp_uncertainty_m p1) (su_uncertainty_m s)\<rparr>)"

definition component_overlaps ::
  "StaticHeightField \<Rightarrow> StaticHeightComponentQuery \<Rightarrow> vec2 list \<Rightarrow> StaticHeightComponent \<Rightarrow> StaticHeightComponent" where
  "component_overlaps f q centers p =
     (let h = hk_cell_size_m (ht_config f);
          p1 = p\<lparr>hp_hook_anchor_distance_m := vec2_norm (vec2_sub (hp_center_map p) (hv_hook_anchor_map q)),
                 hp_anchor_overlap :=
                   (if insideObb (hv_hook_anchor_map q) (hp_center_map p) (hp_length_m p) (hp_width_m p) (hp_yaw_map_rad p) h
                    then Fin 1 else Fin 0)\<rparr> in
      if hv_candidate_valid q \<and> vec2_allFinite (hv_candidate_center_map q) \<and> Fin 0 < hv_candidate_length_m q \<and>
         Fin 0 < hv_candidate_width_m q
      then p1\<lparr>hp_candidate_overlap :=
             Fin (real (length (filter (\<lambda>x. insideObb x (hv_candidate_center_map q) (hv_candidate_length_m q)
               (hv_candidate_width_m q) (hv_candidate_yaw_map_rad q) (Fin 0.5 * h)) centers))) /
             Fin (real (length centers))\<rparr>
      else p1)"

definition component_valid ::
  "StaticHeightComponentExtractorConfig \<Rightarrow> StaticHeightComponentQuery \<Rightarrow> StaticHeightComponent \<Rightarrow> bool" where
  "component_valid c q p \<longleftrightarrow>
     vec2_allFinite (hp_center_map p) \<and> isfinite (hp_top_z95_map p) \<and> isfinite (hp_support_z_map p) \<and>
     hp_support_z_map p < hp_top_z95_map p \<and> hp_hook_anchor_distance_m p \<le> hu_maximum_anchor_distance_m c \<and>
     (\<not> hv_candidate_valid q \<or> hu_minimum_candidate_overlap c \<le> hp_candidate_overlap p)"

definition component_of ::
  "eigen_solver \<Rightarrow> StaticHeightComponentExtractorConfig \<Rightarrow> StaticHeightField \<Rightarrow> StaticHeightComponentQuery \<Rightarrow>
   (StaticHeightLayerNodeId \<times> StaticHeightLayer) list \<Rightarrow> StaticHeightLayerNodeId list \<Rightarrow> StaticHeightComponent" where
  "component_of solver c f q nodes found =
     (let members = sort found; cells = unique_cells found; h = hk_cell_size_m (ht_config f);
          layers = map (\<lambda>m. the (map_of nodes m)) members; authority = hl_authority (hd layers);
          centers = map (\<lambda>key. centerFor key h) cells;
          supports = concat (map (\<lambda>key. case height_cell f key of None \<Rightarrow> []
            | Some cell \<Rightarrow> if su_valid (hx_support cell) then [su_z (hx_support cell)] else []) cells);
          p = component_overlaps f q centers (component_heights f (map hl_z95 layers) supports
                (component_box solver h centers (default_StaticHeightComponent
                  \<lparr>hp_members := members, hp_map_generation := hv_map_generation q, hp_authority := authority,
                   hp_component_id := stableComponentId members authority,
                   hp_point_count := sum_list (map (unat \<circ> hl_point_count) layers),
                   hp_uncertainty_m := foldl cpp_max (Fin 0) (map hl_uncertainty_m layers)\<rparr>)));
          valid = component_valid c q p
      in p\<lparr>hp_valid := valid,
           hp_reason := (if valid then ''connected_layer_component'' else ''component_constraints_failed'')\<rparr>)"

section \<open>The extraction\<close>

text \<open>One seed: the connected set of the nodes not visited so far. A set larger than the limit is walked to its end and dropped.\<close>

definition extract_seed ::
  "eigen_solver \<Rightarrow> StaticHeightComponentExtractorConfig \<Rightarrow> StaticHeightField \<Rightarrow> StaticHeightComponentQuery \<Rightarrow>
   (StaticHeightLayerNodeId \<times> StaticHeightLayer) list \<Rightarrow> StaticHeightLayerNodeId \<Rightarrow>
   StaticHeightLayerNodeId list \<times> StaticHeightComponent list \<Rightarrow> StaticHeightLayerNodeId list \<times> StaticHeightComponent list" where
  "extract_seed solver c f q nodes seed s =
     (let (visited, components) = s in
      if seed \<in> set visited then s
      else
        let found = fill (node_neighbors c f nodes) (filter (\<lambda>n. n \<notin> set visited) (map fst nodes)) seed;
            visited' = visited @ found; p = component_of solver c f q nodes found in
        if hu_maximum_component_cells c < length found \<or> length (unique_cells found) < hu_minimum_component_cells c \<or>
           \<not> hp_valid p
        then (visited', components) else (visited', components @ [p]))"

definition candidate_size_error :: "StaticHeightComponentQuery \<Rightarrow> StaticHeightComponent \<Rightarrow> dbl" where
  "candidate_size_error q p =
     (if \<not> hv_candidate_valid q \<or> hv_candidate_length_m q \<le> Fin 0 \<or> hv_candidate_width_m q \<le> Fin 0 then Fin 0
      else cpp_min (\<bar>hp_length_m p - hv_candidate_length_m q\<bar> + \<bar>hp_width_m p - hv_candidate_width_m q\<bar>)
             (\<bar>hp_length_m p - hv_candidate_width_m q\<bar> + \<bar>hp_width_m p - hv_candidate_length_m q\<bar>))"

text \<open>The descending lexicographic order of the result, as an ascending key.\<close>

definition component_key :: "StaticHeightComponentQuery \<Rightarrow> StaticHeightComponent \<Rightarrow>
    real \<times> real \<times> real \<times> real \<times> int \<times> int \<times> int \<times> real" where
  "component_key q p =
     (- real_part (hp_candidate_overlap p), real_part (hp_hook_anchor_distance_m p),
      real_part (if hv_expected_top_valid q then \<bar>hp_top_z95_map p - hv_expected_top_z_map q\<bar> else Fin 0),
      real_part (candidate_size_error q p), - int (extractor_authorityRank (hp_authority p)), - int (hp_point_count p),
      (if hp_component_id p = hv_previous_component_id q then - 1 else 0), - real_part (hp_anchor_overlap p))"

definition extract_components ::
  "eigen_solver \<Rightarrow> StaticHeightComponentExtractorConfig \<Rightarrow> StaticHeightField \<Rightarrow> StaticHeightComponentQuery \<Rightarrow>
   StaticHeightComponent list" where
  "extract_components solver c f q =
     (if \<not> vec2_allFinite (hv_hook_anchor_map q) \<or> hv_map_generation q = 0 \<or> ht_map_generation f \<noteq> hv_map_generation q
      then []
      else
        let nodes = layer_nodes c f (hv_hook_anchor_map q)
        in sort_key (component_key q) (snd (fold (extract_seed solver c f q nodes) (map fst nodes) ([], []))))"

section \<open>The members of a component\<close>

lemma component_of_fields [simp]:
  "hp_members (component_of solver c f q nodes found) = sort found"
  "hp_map_generation (component_of solver c f q nodes found) = hv_map_generation q"
  "hp_authority (component_of solver c f q nodes found) = hl_authority (the (map_of nodes (hd (sort found))))"
    if "found \<noteq> []"
proof -
  have "sort found \<noteq> []" using that by (metis length_sort length_0_conv)
  then show "hp_members (component_of solver c f q nodes found) = sort found"
    "hp_map_generation (component_of solver c f q nodes found) = hv_map_generation q"
    "hp_authority (component_of solver c f q nodes found) = hl_authority (the (map_of nodes (hd (sort found))))"
    by (simp_all add: component_of_def component_overlaps_def component_heights_def component_box_def Let_def hd_map)
qed

lemma component_of_id: "hp_component_id (component_of solver c f q nodes found) \<noteq> 0"
  by (simp add: component_of_def component_overlaps_def component_heights_def component_box_def stableComponentId_def Let_def)

lemma component_of_valid:
  "hp_valid (component_of solver c f q nodes found) \<Longrightarrow> component_valid c q (component_of solver c f q nodes found)"
  by (simp add: component_of_def component_valid_def Let_def)

lemma layer_node:
  assumes "map_of (layer_nodes c f anchor) n = Some l"
  shows "\<exists>cell. (nid_cell_key n, cell) \<in> set (ht_cells f) \<and> near_anchor c f anchor (nid_cell_key n) \<and>
    nid_layer_index n < length (hx_layers cell) \<and> l = hx_layers cell ! nid_layer_index n \<and>
    sz_formal_origin_authorized (authorizeStaticEvidence (hl_authority l))"
  using map_of_SomeD [OF assms]
  by (cases n) (auto simp: layer_nodes_def in_set_enumerate_eq split: if_splits)

lemma node_neighbors_iff:
  "b \<in> set (node_neighbors c f nodes a) \<longleftrightarrow>
     (\<exists>la lb x y d cell. map_of nodes a = Some la \<and> map_of nodes b = Some lb \<and>
        unpackStaticEvidenceCell (nid_cell_key a) = (x, y) \<and> d \<in> set cell_offsets \<and>
        nid_cell_key b = packStaticEvidenceCell (x + word_of_int (fst d)) (y + word_of_int (snd d)) \<and>
        height_cell f (nid_cell_key b) = Some cell \<and> nid_layer_index b < length (hx_layers cell) \<and>
        linked_layers c f a la cell lb)"
  (is "_ \<longleftrightarrow> ?R")
proof -
  obtain key i where b: "b = NodeId key i" by (cases b)
  show ?thesis
  proof (cases "map_of nodes a")
    case (Some la)
    obtain x y where xy: "unpackStaticEvidenceCell (nid_cell_key a) = (x, y)" by (cases "unpackStaticEvidenceCell (nid_cell_key a)")
    show ?thesis
      unfolding node_neighbors_def Some xy b by (auto simp: Let_def split: option.splits) (force split: option.splits)+
  qed (simp add: node_neighbors_def)
qed

text \<open>A link keeps the authority, so a connected set has one.\<close>

lemma neighbors_authority:
  "b \<in> set (node_neighbors c f nodes a) \<Longrightarrow>
   hl_authority (the (map_of nodes b)) = hl_authority (the (map_of nodes a)) \<and> b \<in> fst ` set nodes"
  by (force simp: node_neighbors_iff linked_layers_def dest: map_of_SomeD)

section \<open>The walk over the seeds\<close>

definition linked :: "StaticHeightComponentExtractorConfig \<Rightarrow> StaticHeightField \<Rightarrow> (StaticHeightLayerNodeId \<times> StaticHeightLayer) list \<Rightarrow>
    (StaticHeightLayerNodeId \<times> StaticHeightLayerNodeId) set" where
  "linked c f nodes = {(a, b). b \<in> set (node_neighbors c f nodes a)}"

lemma reached_authority:
  "(a, b) \<in> (linked c f nodes)\<^sup>* \<Longrightarrow> hl_authority (the (map_of nodes b)) = hl_authority (the (map_of nodes a))"
proof (induction rule: rtrancl_induct)
  case (step y z)
  then show ?case using neighbors_authority [of z c f nodes y] by (simp add: linked_def)
qed simp

definition component_from ::
  "eigen_solver \<Rightarrow> StaticHeightComponentExtractorConfig \<Rightarrow> StaticHeightField \<Rightarrow> StaticHeightComponentQuery \<Rightarrow>
   (StaticHeightLayerNodeId \<times> StaticHeightLayer) list \<Rightarrow> StaticHeightLayerNodeId list \<Rightarrow> StaticHeightComponent \<Rightarrow> bool" where
  "component_from solver c f q nodes found p \<longleftrightarrow>
     found \<noteq> [] \<and> distinct found \<and> set found \<subseteq> fst ` set nodes \<and> p = component_of solver c f q nodes found \<and> hp_valid p \<and>
     length found \<le> hu_maximum_component_cells c \<and> hu_minimum_component_cells c \<le> length (unique_cells found) \<and>
     (\<exists>seed \<in> set found. \<forall>m \<in> set found. (seed, m) \<in> (linked c f nodes)\<^sup>*)"

lemma component_from_members: "component_from solver c f q nodes found p \<Longrightarrow> hp_members p = sort found \<and> hp_members p \<noteq> []"
  unfolding component_from_def by (metis component_of_fields(1) length_0_conv length_sort)

definition seeds_inv ::
  "eigen_solver \<Rightarrow> StaticHeightComponentExtractorConfig \<Rightarrow> StaticHeightField \<Rightarrow> StaticHeightComponentQuery \<Rightarrow>
   (StaticHeightLayerNodeId \<times> StaticHeightLayer) list \<Rightarrow>
   StaticHeightLayerNodeId list \<times> StaticHeightComponent list \<Rightarrow> bool" where
  "seeds_inv solver c f q nodes s \<longleftrightarrow>
     (\<forall>p \<in> set (snd s). set (hp_members p) \<subseteq> set (fst s) \<and> (\<exists>found. component_from solver c f q nodes found p)) \<and>
     sorted_wrt (\<lambda>p r. set (hp_members p) \<inter> set (hp_members r) = {}) (snd s)"

lemma fill_fresh:
  fixes c f
  assumes "seed \<in> fst ` set nodes" and "seed \<notin> set visited"
  defines "found \<equiv> fill (node_neighbors c f nodes) (filter (\<lambda>n. n \<notin> set visited) (map fst nodes)) seed"
  shows "seed \<in> set found" "distinct found" "set found \<subseteq> fst ` set nodes - set visited"
    "m \<in> set found \<Longrightarrow> (seed, m) \<in> (linked c f nodes)\<^sup>*"
proof -
  let ?allowed = "filter (\<lambda>n. n \<notin> set visited) (map fst nodes)"
  have "grid_step (node_neighbors c f nodes) ?allowed \<subseteq> linked c f nodes" by (auto simp: grid_step_def linked_def)
  then have "(grid_step (node_neighbors c f nodes) ?allowed)\<^sup>* \<subseteq> (linked c f nodes)\<^sup>*" by (rule rtrancl_mono)
  then show "m \<in> set found \<Longrightarrow> (seed, m) \<in> (linked c f nodes)\<^sup>*" by (auto simp: found_def fill_reachable)
  show "seed \<in> set found" by (auto simp: found_def fill_reachable)
  show "distinct found" by (simp add: found_def fill_distinct)
  have "set found \<subseteq> set ?allowed" unfolding found_def by (rule fill_allowed) (use assms(1,2) in auto)
  then show "set found \<subseteq> fst ` set nodes - set visited" by auto
qed

lemma extract_seed_inv:
  assumes "seeds_inv solver c f q nodes s" and "seed \<in> fst ` set nodes"
  shows "seeds_inv solver c f q nodes (extract_seed solver c f q nodes seed s)"
proof (cases "seed \<in> set (fst s)")
  case False
  obtain visited ps where s: "s = (visited, ps)" by (cases s)
  define found where "found = fill (node_neighbors c f nodes) (filter (\<lambda>n. n \<notin> set visited) (map fst nodes)) seed"
  have found: "seed \<in> set found" "distinct found" "set found \<subseteq> fst ` set nodes - set visited"
    "\<And>m. m \<in> set found \<Longrightarrow> (seed, m) \<in> (linked c f nodes)\<^sup>*"
    using fill_fresh [OF assms(2), where visited = visited and c = c and f = f] False s unfolding found_def by auto
  let ?p = "component_of solver c f q nodes found"
  have ne: "found \<noteq> []" using found(1) by auto
  have inv: "\<And>p. p \<in> set ps \<Longrightarrow> set (hp_members p) \<subseteq> set visited \<and> (\<exists>found. component_from solver c f q nodes found p)"
    "sorted_wrt (\<lambda>p r. set (hp_members p) \<inter> set (hp_members r) = {}) ps"
    using assms(1) by (simp_all add: seeds_inv_def s)
  have keep: "seeds_inv solver c f q nodes (visited @ found, ps)"
    using inv by (auto simp: seeds_inv_def)
  have "component_from solver c f q nodes found ?p"
    if "\<not> hu_maximum_component_cells c < length found" "\<not> length (unique_cells found) < hu_minimum_component_cells c" "hp_valid ?p"
    using that found ne by (auto simp: component_from_def)
  moreover have "set (hp_members p) \<inter> set found = {}" if k: "p \<in> set ps" for p using inv(1) [OF k] found(3) by auto
  ultimately have "seeds_inv solver c f q nodes (visited @ found, ps @ [?p])"
    if "\<not> hu_maximum_component_cells c < length found" "\<not> length (unique_cells found) < hu_minimum_component_cells c" "hp_valid ?p"
    using that inv ne by (auto simp: seeds_inv_def sorted_wrt_append)
  then show ?thesis
    using keep False s by (auto simp: extract_seed_def Let_def found_def)
qed (use assms(1) in \<open>cases s, simp add: extract_seed_def\<close>)

lemma seeds_run:
  "seeds_inv solver c f q nodes s \<Longrightarrow> set seeds \<subseteq> fst ` set nodes \<Longrightarrow>
   seeds_inv solver c f q nodes (fold (extract_seed solver c f q nodes) seeds s)"
  by (induction seeds arbitrary: s) (auto simp: extract_seed_inv)

lemma extracted:
  assumes "p \<in> set (extract_components solver c f q)"
  shows "\<exists>found. component_from solver c f q (layer_nodes c f (hv_hook_anchor_map q)) found p"
    "ht_map_generation f = hv_map_generation q" "vec2_allFinite (hv_hook_anchor_map q)"
proof -
  let ?nodes = "layer_nodes c f (hv_hook_anchor_map q)"
  have "seeds_inv solver c f q ?nodes (fold (extract_seed solver c f q ?nodes) (map fst ?nodes) ([], []))"
    by (rule seeds_run) (auto simp: seeds_inv_def)
  then show "\<exists>found. component_from solver c f q ?nodes found p"
    using assms by (auto simp: extract_components_def seeds_inv_def Let_def split: if_splits)
  show "ht_map_generation f = hv_map_generation q" "vec2_allFinite (hv_hook_anchor_map q)"
    using assms by (auto simp: extract_components_def split: if_splits)
qed

section \<open>The extracted components\<close>

lemma unique_cells_card: "length (unique_cells ms) = card (nid_cell_key ` set ms)"
proof -
  have "distinct (remdups_adj xs)" if "sorted xs" for xs :: "int list"
    using that by (induction xs rule: remdups_adj.induct) auto
  then have "distinct (unique_cells ms)" by (simp add: unique_cells_def)
  moreover have "set (unique_cells ms) = nid_cell_key ` set ms" by (simp add: unique_cells_def)
  ultimately show ?thesis using distinct_card by metis
qed

text \<open>C22. Every component the extractor returns is sound: it has a non-zero id, the generation of the field, a top above
  its support and an anchor distance within the limit; its members are distinct, no more than the limit and in at least the
  minimum number of cells; each member is an existing layer of the field near the hook with the authority of the component, which
  may be used for a formal origin, and all of them are linked to one seed.\<close>

theorem height_component_sound:
  assumes "p \<in> set (extract_components solver c f q)"
  shows "hp_valid p \<and> hp_component_id p \<noteq> 0 \<and> hp_map_generation p = ht_map_generation f \<and>
    isfinite (hp_top_z95_map p) \<and> hp_support_z_map p < hp_top_z95_map p \<and>
    hp_hook_anchor_distance_m p \<le> hu_maximum_anchor_distance_m c \<and>
    (hv_candidate_valid q \<longrightarrow> hu_minimum_candidate_overlap c \<le> hp_candidate_overlap p) \<and>
    hp_members p \<noteq> [] \<and> sorted (hp_members p) \<and> distinct (hp_members p) \<and>
    length (hp_members p) \<le> hu_maximum_component_cells c \<and>
    hu_minimum_component_cells c \<le> card (nid_cell_key ` set (hp_members p)) \<and>
    sz_formal_origin_authorized (authorizeStaticEvidence (hp_authority p)) \<and>
    (\<forall>m \<in> set (hp_members p). \<exists>cell. (nid_cell_key m, cell) \<in> set (ht_cells f) \<and>
       near_anchor c f (hv_hook_anchor_map q) (nid_cell_key m) \<and> nid_layer_index m < length (hx_layers cell) \<and>
       hl_authority (hx_layers cell ! nid_layer_index m) = hp_authority p) \<and>
    (\<exists>seed \<in> set (hp_members p). \<forall>m \<in> set (hp_members p).
       (seed, m) \<in> (linked c f (layer_nodes c f (hv_hook_anchor_map q)))\<^sup>*)"
proof -
  let ?nodes = "layer_nodes c f (hv_hook_anchor_map q)"
  obtain found where found: "component_from solver c f q ?nodes found p" using extracted(1) [OF assms] ..
  then have ne: "found \<noteq> []" and p: "p = component_of solver c f q ?nodes found" by (simp_all add: component_from_def)
  have members: "hp_members p = sort found" using p ne by simp
  have valid: "component_valid c q p" using found component_of_valid by (simp add: component_from_def) metis
  obtain seed where seed: "seed \<in> set found" "\<And>m. m \<in> set found \<Longrightarrow> (seed, m) \<in> (linked c f ?nodes)\<^sup>*"
    using found by (auto simp: component_from_def)
  have same: "hl_authority (the (map_of ?nodes m)) = hl_authority (the (map_of ?nodes seed))" if m: "m \<in> set found" for m
    using reached_authority [OF seed(2) [OF m]] .
  have "hd (sort found) \<in> set found" using ne by (metis hd_in_set length_sort length_0_conv set_sort)
  then have authority: "hp_authority p = hl_authority (the (map_of ?nodes m))" if m: "m \<in> set found" for m
    using same [OF m] same [of "hd (sort found)"] p ne by simp
  have layer: "\<exists>cell. (nid_cell_key m, cell) \<in> set (ht_cells f) \<and>
       near_anchor c f (hv_hook_anchor_map q) (nid_cell_key m) \<and> nid_layer_index m < length (hx_layers cell) \<and>
       hl_authority (hx_layers cell ! nid_layer_index m) = hp_authority p \<and>
       sz_formal_origin_authorized (authorizeStaticEvidence (hp_authority p))" if m: "m \<in> set found" for m
  proof -
    have "m \<in> fst ` set ?nodes" using found m by (auto simp: component_from_def)
    then obtain l where l: "map_of ?nodes m = Some l" using map_of_eq_None_iff [of ?nodes m] by (cases "map_of ?nodes m") auto
    from layer_node [OF this] show ?thesis using authority [OF m] l by auto
  qed
  have plain: "hp_component_id p \<noteq> 0" "hp_map_generation p = ht_map_generation f"
    using p ne extracted(2) [OF assms] by (simp_all add: component_of_id)
  have sizes: "hp_valid p" "distinct found" "length found \<le> hu_maximum_component_cells c"
    "hu_minimum_component_cells c \<le> card (nid_cell_key ` set found)"
    using found unfolding component_from_def unique_cells_card by blast+
  have nonempty: "sort found \<noteq> []" using ne by (metis length_sort length_0_conv)
  have authorised: "sz_formal_origin_authorized (authorizeStaticEvidence (hp_authority p))" using layer [OF seed(1)] by blast
  show ?thesis
    unfolding members set_sort using valid layer seed plain sizes nonempty authorised
    by (simp add: component_valid_def) blast
qed

section \<open>Whole components\<close>

lemma dbl_distance_commute: "\<bar>a - b\<bar> = \<bar>b - (a :: dbl)\<bar>"
  by (cases a; cases b) (simp_all add: abs_minus_commute abs_dbl_def minus_dbl_def plus_dbl_def uminus_dbl_def)

lemma intervalGap_commute: "layer_wf a \<Longrightarrow> layer_wf b \<Longrightarrow> intervalGap a b = intervalGap b a"
  by (auto simp: layer_wf_def intervalGap_def cpp_max_def cpp_min_def)

definition field_ok :: "StaticHeightField \<Rightarrow> bool" where
  "field_ok f \<longleftrightarrow> height_cells_wf (ht_config f) (ht_cells f) \<and>
     list_all (\<lambda>(key, cell). - (2 ^ 63) \<le> key \<and> key < 2 ^ 63) (ht_cells f)"

lemma field_node:
  assumes "field_ok f" and "map_of (layer_nodes c f anchor) n = Some l"
  shows "\<exists>cell. height_cell f (nid_cell_key n) = Some cell \<and> nid_layer_index n < length (hx_layers cell) \<and> layer_wf l \<and>
    - (2 ^ 63) \<le> nid_cell_key n \<and> nid_cell_key n < 2 ^ 63"
proof -
  obtain cell where cell: "(nid_cell_key n, cell) \<in> set (ht_cells f)" "nid_layer_index n < length (hx_layers cell)"
    "l = hx_layers cell ! nid_layer_index n"
    using layer_node [OF assms(2)] by blast
  have ok: "smap_ok (ht_cells f)" "height_cell_wf (ht_config f) (nid_cell_key n) cell"
    "- (2 ^ 63) \<le> nid_cell_key n" "nid_cell_key n < 2 ^ 63"
    using assms(1) cell(1) by (auto simp: field_ok_def height_cells_wf_def list_all_iff)
  then have "height_cell f (nid_cell_key n) = Some cell" unfolding height_cell_def using smap_find_iff cell(1) by metis
  moreover have "layer_wf l" using ok(2) cell(2,3) by (simp add: height_cell_wf_def list_all_iff)
  ultimately show ?thesis using ok cell(2) by blast
qed

lemma offsets_sym: "d \<in> set cell_offsets \<Longrightarrow> (- fst d, - snd d) \<in> set cell_offsets"
proof -
  have "list_all (\<lambda>d. (- fst d, - snd d) \<in> set cell_offsets) cell_offsets" by (simp add: cell_offsets_def)
  then show "d \<in> set cell_offsets \<Longrightarrow> (- fst d, - snd d) \<in> set cell_offsets" by (simp add: list_all_iff)
qed

lemma linked_sym:
  assumes "field_ok f" and "(a, b) \<in> linked c f (layer_nodes c f anchor)"
  shows "(b, a) \<in> linked c f (layer_nodes c f anchor)"
proof -
  let ?nodes = "layer_nodes c f anchor"
  obtain la lb x y d cell where n: "map_of ?nodes a = Some la" "map_of ?nodes b = Some lb"
    "unpackStaticEvidenceCell (nid_cell_key a) = (x, y)" "d \<in> set cell_offsets"
    "nid_cell_key b = packStaticEvidenceCell (x + word_of_int (fst d)) (y + word_of_int (snd d))"
    "height_cell f (nid_cell_key b) = Some cell" "linked_layers c f a la cell lb"
    using assms(2) by (auto simp: linked_def node_neighbors_iff)
  obtain own where own: "height_cell f (nid_cell_key a) = Some own" "nid_layer_index a < length (hx_layers own)" "layer_wf la"
    "- (2 ^ 63) \<le> nid_cell_key a" "nid_cell_key a < 2 ^ 63"
    using field_node [OF assms(1) n(1)] by blast
  have wf: "layer_wf lb" using field_node [OF assms(1) n(2)] by blast
  have "unpackStaticEvidenceCell (nid_cell_key b) = (x + word_of_int (fst d), y + word_of_int (snd d))"
    by (simp add: n(5) unpack_pack)
  moreover have "(- fst d, - snd d) \<in> set cell_offsets" by (rule offsets_sym [OF n(4)])
  moreover have "nid_cell_key a = packStaticEvidenceCell (x + word_of_int (fst d) + word_of_int (- fst d))
      (y + word_of_int (snd d) + word_of_int (- snd d))"
    using pack_unpack [OF own(4,5)] n(3) by simp
  moreover have "linked_layers c f b lb own la"
  proof -
    note swap = intervalGap_commute [OF own(3) wf] dbl_distance_commute [of "hl_z50 la" "hl_z50 lb"]
      dbl_distance_commute [of "su_z (hx_support own)" "su_z (hx_support cell)"]
    show ?thesis using n(7) unfolding linked_layers_def own(1) n(6) option.case swap by auto
  qed
  ultimately show ?thesis using n(1,2) own(1,2) unfolding linked_def node_neighbors_iff mem_Collect_eq prod.case
    by (intro exI [of _ lb] exI [of _ la] exI [of _ "x + word_of_int (fst d)"] exI [of _ "y + word_of_int (snd d)"]
        exI [of _ "(- fst d, - snd d)"] exI [of _ own]) (simp only: fst_conv snd_conv simp_thms)
qed

text \<open>The visited nodes are closed under links, and so is every connected set found among the others.\<close>

definition link_closed :: "StaticHeightComponentExtractorConfig \<Rightarrow> StaticHeightField \<Rightarrow> (StaticHeightLayerNodeId \<times> StaticHeightLayer) list \<Rightarrow>
    StaticHeightLayerNodeId list \<Rightarrow> bool" where
  "link_closed c f nodes ms \<longleftrightarrow> (\<forall>m \<in> set ms. \<forall>n. (m, n) \<in> linked c f nodes \<longrightarrow> n \<in> set ms)"

lemma fill_closed:
  assumes "field_ok f" and "seed \<in> fst ` set nodes" and "seed \<notin> set visited"
    and "nodes = layer_nodes c f anchor" and "link_closed c f nodes visited"
  shows "link_closed c f nodes (fill (node_neighbors c f nodes) (filter (\<lambda>n. n \<notin> set visited) (map fst nodes)) seed)"
proof -
  let ?allowed = "filter (\<lambda>n. n \<notin> set visited) (map fst nodes)"
  let ?found = "fill (node_neighbors c f nodes) ?allowed seed"
  have "n \<in> set ?found" if m: "m \<in> set ?found" "(m, n) \<in> linked c f nodes" for m n
  proof -
    have "m \<notin> set visited" using fill_fresh(3) [OF assms(2,3)] m(1) by blast
    moreover have "(n, m) \<in> linked c f nodes" using linked_sym [OF assms(1)] m(2) assms(4) by blast
    ultimately have "n \<notin> set visited" using assms(5) by (auto simp: link_closed_def)
    moreover have "n \<in> fst ` set nodes" using m(2) neighbors_authority by (auto simp: linked_def)
    ultimately have "(m, n) \<in> grid_step (node_neighbors c f nodes) ?allowed" using m(2) by (auto simp: grid_step_def linked_def)
    then show ?thesis using m(1) unfolding fill_reachable by (auto intro: rtrancl_into_rtrancl)
  qed
  then show ?thesis by (simp add: link_closed_def)
qed

definition whole_inv :: "StaticHeightComponentExtractorConfig \<Rightarrow> StaticHeightField \<Rightarrow> (StaticHeightLayerNodeId \<times> StaticHeightLayer) list \<Rightarrow>
    StaticHeightLayerNodeId list \<times> StaticHeightComponent list \<Rightarrow> bool" where
  "whole_inv c f nodes s \<longleftrightarrow> link_closed c f nodes (fst s) \<and> (\<forall>p \<in> set (snd s). link_closed c f nodes (hp_members p))"

lemma whole_run:
  assumes "field_ok f" and "nodes = layer_nodes c f anchor" and "set seeds \<subseteq> fst ` set nodes" and "whole_inv c f nodes s"
  shows "whole_inv c f nodes (fold (extract_seed solver c f q nodes) seeds s)"
  using assms(3,4)
proof (induction seeds arbitrary: s)
  case (Cons seed seeds)
  have "whole_inv c f nodes (extract_seed solver c f q nodes seed s)"
  proof (cases "seed \<in> set (fst s)")
    case False
    obtain visited ps where s: "s = (visited, ps)" by (cases s)
    define found where "found = fill (node_neighbors c f nodes) (filter (\<lambda>n. n \<notin> set visited) (map fst nodes)) seed"
    have "link_closed c f nodes found"
      unfolding found_def by (rule fill_closed [OF assms(1) _ _ assms(2)]) (use Cons.prems False s in \<open>auto simp: whole_inv_def\<close>)
    moreover have "found \<noteq> []" unfolding found_def using fill_fresh(1) [of seed nodes visited c f] Cons.prems(1) False s by force
    ultimately show ?thesis
      using Cons.prems(2) False unfolding s extract_seed_def
      by (auto simp: whole_inv_def link_closed_def Let_def found_def [symmetric])
  qed (use Cons.prems(2) in \<open>cases s, simp add: extract_seed_def\<close>)
  then show ?case using Cons.IH Cons.prems(1) by simp
qed simp

text \<open>C23. On a well-formed field no connected set is cut into pieces: two returned components that share a member are
  equal, no component is returned twice, and a component contains every layer that is linked to one of its members; a set
  larger than the limit cannot come back as smaller components.\<close>

theorem height_components_whole:
  assumes "field_ok f"
  shows "distinct (map hp_members (extract_components solver c f q)) \<and>
    (\<forall>p \<in> set (extract_components solver c f q).
      (\<forall>r \<in> set (extract_components solver c f q). set (hp_members p) \<inter> set (hp_members r) \<noteq> {} \<longrightarrow> p = r) \<and>
      (\<forall>m \<in> set (hp_members p). \<forall>n. (m, n) \<in> linked c f (layer_nodes c f (hv_hook_anchor_map q)) \<longrightarrow> n \<in> set (hp_members p)))"
proof (cases "extract_components solver c f q = []")
  case False
  let ?nodes = "layer_nodes c f (hv_hook_anchor_map q)"
  let ?s = "fold (extract_seed solver c f q ?nodes) (map fst ?nodes) ([], [])"
  have ps: "extract_components solver c f q = sort_key (component_key q) (snd ?s)"
    using False by (auto simp: extract_components_def Let_def split: if_splits)
  have "seeds_inv solver c f q ?nodes ?s" by (rule seeds_run) (auto simp: seeds_inv_def)
  then have apart: "sorted_wrt (\<lambda>p r. set (hp_members p) \<inter> set (hp_members r) = {}) (snd ?s)"
    and from_fill: "\<forall>p \<in> set (snd ?s). hp_members p \<noteq> []"
    unfolding seeds_inv_def using component_from_members by blast+
  have pairs: "distinct (map hp_members ps) \<and> (\<forall>p \<in> set ps. \<forall>r \<in> set ps. set (hp_members p) \<inter> set (hp_members r) \<noteq> {} \<longrightarrow> p = r)"
    if "sorted_wrt (\<lambda>p r. set (hp_members p) \<inter> set (hp_members r) = {}) ps" "\<forall>p \<in> set ps. hp_members p \<noteq> []" for ps
    using that
  proof (induction ps)
    case (Cons p ps)
    then show ?case by (auto simp: Int_commute)
  qed simp
  have "whole_inv c f ?nodes ?s" by (rule whole_run [OF assms refl]) (auto simp: whole_inv_def link_closed_def)
  then have closed: "\<forall>p \<in> set (snd ?s). link_closed c f ?nodes (hp_members p)" by (simp add: whole_inv_def)
  have "distinct (map hp_members (sort_key (component_key q) (snd ?s)))"
    using pairs [OF apart from_fill] by (simp add: distinct_map)
  then show ?thesis using pairs [OF apart from_fill] closed unfolding ps by (auto simp: link_closed_def)
qed simp

section \<open>An example\<close>

definition demo_component_field :: StaticHeightField where
  "demo_component_field = demo_field
     \<lparr>ht_cells := [(0, \<lparr>hx_key = 0, hx_layers = [demo_height_layer],
                         hx_support = default_StaticSupportSurfaceCell\<lparr>su_valid := True, su_z := Fin 0\<rparr>\<rparr>)]\<rparr>"

definition demo_extractor_config :: StaticHeightComponentExtractorConfig where
  "demo_extractor_config = default_StaticHeightComponentExtractorConfig\<lparr>hu_minimum_component_cells := 1\<rparr>"

definition demo_component_query :: StaticHeightComponentQuery where
  "demo_component_query =
     \<lparr>hv_hook_anchor_map = \<lparr>v2x = Fin 5, v2y = Fin 5\<rparr>, hv_candidate_valid = False, hv_candidate_center_map = vec2_zero,
      hv_candidate_length_m = Fin 0, hv_candidate_width_m = Fin 0, hv_candidate_yaw_map_rad = Fin 0,
      hv_expected_top_valid = False, hv_expected_top_z_map = Fin 0, hv_map_generation = 7, hv_previous_component_id = 0\<rparr>"

lemma demo_cell_size [simp]: "hk_cell_size_m (ht_config demo_component_field) = Fin 10"
  by (simp add: demo_component_field_def demo_field_def default_StaticHeightFieldConfig_def)

lemma demo_center: "centerFor 0 (Fin 10) = \<lparr>v2x = Fin 5, v2y = Fin 5\<rparr>"
  by (simp add: centerFor_def unpackStaticEvidenceCell_def Let_def)

lemma demo_nodes: "layer_nodes demo_extractor_config demo_component_field \<lparr>v2x = Fin 5, v2y = Fin 5\<rparr> = [(NodeId 0 0, demo_height_layer)]"
proof -
  have near: "near_anchor demo_extractor_config demo_component_field \<lparr>v2x = Fin 5, v2y = Fin 5\<rparr> 0"
    unfolding near_anchor_def Let_def demo_cell_size demo_center
    by (simp add: demo_extractor_config_def default_StaticHeightComponentExtractorConfig_def vec2_sub_def vec2_norm_def)
  have "ht_cells demo_component_field = [(0, \<lparr>hx_key = 0, hx_layers = [demo_height_layer],
      hx_support = default_StaticSupportSurfaceCell\<lparr>su_valid := True, su_z := Fin 0\<rparr>\<rparr>)]"
    by (simp add: demo_component_field_def)
  moreover have "sz_formal_origin_authorized (authorizeStaticEvidence (hl_authority demo_height_layer))"
    by (simp add: demo_height_layer_def authorizeStaticEvidence_def)
  ultimately show ?thesis using near by (simp add: layer_nodes_def)
qed

lemma fill_single: "fill nb [n] n = [n]"
proof -
  have "set (fill nb [n] n) \<subseteq> {n}" using fill_allowed [of n "[n]" nb] by simp
  moreover have "n \<in> set (fill nb [n] n)" by (auto simp: fill_reachable)
  ultimately have "set (fill nb [n] n) = set [n]" by auto
  then have "length (fill nb [n] n) = 1" using distinct_card [OF fill_distinct [of nb "[n]" n]] by simp
  then show ?thesis using \<open>set (fill nb [n] n) = set [n]\<close> by (cases "fill nb [n] n") auto
qed

definition demo_component :: StaticHeightComponent where
  "demo_component = component_of (\<lambda>_ _ _. None) demo_extractor_config demo_component_field demo_component_query
     [(NodeId 0 0, demo_height_layer)] [NodeId 0 0]"

lemma demo_component_fields: "hp_valid demo_component" "hp_members demo_component = [NodeId 0 0]"
proof -
  have cells: "unique_cells [NodeId 0 0] = [0]" by (simp add: unique_cells_def)
  have cell: "height_cell demo_component_field 0 = Some \<lparr>hx_key = 0, hx_layers = [demo_height_layer],
      hx_support = default_StaticSupportSurfaceCell\<lparr>su_valid := True, su_z := Fin 0\<rparr>\<rparr>"
    by (simp add: height_cell_def demo_component_field_def)
  show "hp_members demo_component = [NodeId 0 0]" by (simp add: demo_component_def)
  show "hp_valid demo_component"
    unfolding demo_component_def component_of_def cells Let_def
    by (simp add: cell demo_center component_box_def long_axis_of_def component_heights_def component_overlaps_def component_valid_def
        Let_def height_median_def demo_height_layer_def default_StaticHeightComponent_def demo_component_query_def vec2_add_def
        vec2_sub_def vec2_scale_def vec2_div_def vec2_dot_def vec2_zero_def vec2_norm_def vec2_allFinite_def cpp_max_def cpp_min_def
        demo_extractor_config_def default_StaticHeightComponentExtractorConfig_def)
qed

lemma demo_extracted:
  "extract_components (\<lambda>_ _ _. None) demo_extractor_config demo_component_field demo_component_query = [demo_component]"
proof -
  have anchor: "hv_hook_anchor_map demo_component_query = \<lparr>v2x = Fin 5, v2y = Fin 5\<rparr>"
    "hv_map_generation demo_component_query = 7" "ht_map_generation demo_component_field = 7"
    by (simp_all add: demo_component_query_def demo_component_field_def demo_field_def)
  have config: "hu_maximum_component_cells demo_extractor_config = 4096" "hu_minimum_component_cells demo_extractor_config = 1"
    by (simp_all add: demo_extractor_config_def default_StaticHeightComponentExtractorConfig_def)
  show ?thesis
    using demo_component_fields(1)
    by (simp add: extract_components_def anchor vec2_allFinite_def demo_nodes extract_seed_def fill_single Let_def config
        unique_cells_def flip: demo_component_def)
qed

theorem height_component_sound_witness: "hp_support_z_map demo_component < hp_top_z95_map demo_component \<and> hp_members demo_component = [NodeId 0 0]"
  using height_component_sound [of demo_component "\<lambda>_ _ _. None" demo_extractor_config demo_component_field demo_component_query]
  by (simp add: demo_extracted demo_component_fields)

theorem height_components_whole_witness:
  "distinct (map hp_members (extract_components (\<lambda>_ _ _. None) demo_extractor_config demo_component_field demo_component_query)) \<and>
   field_ok demo_component_field"
proof -
  have "field_ok demo_component_field"
    by (simp add: field_ok_def demo_component_field_def demo_field_def height_cells_wf_def height_cell_wf_def layer_wf_def
        demo_height_layer_def default_StaticHeightFieldConfig_def) (rule exI [of _ "1 / 2"], simp)
  then show ?thesis using height_components_whole by blast
qed

end
