(* ===== verification/Preload_Baseline.thy ===== *)
theory Preload_Baseline
  imports Height_Components
begin

text \<open>
  The baseline of a cargo before it is lifted (\<^verbatim>\<open>cargo_preload_baseline_tracker.hpp/.cpp\<close>): while the hook is empty, the
  static height component under it is collected in a window; a full window of one physical component with a stable
  thickness gives the baseline. The class is a record of its members and \<open>preload_update\<close> its method.
\<close>

section \<open>Data\<close>

record CargoPreloadBaselineConfig =
  pv_allow_moving_mature_static :: bool
  pv_minimum_confirm_frames :: int
  pv_window_frames :: int
  pv_maximum_observation_gap_sec :: dbl
  pv_maximum_center_step_m :: dbl
  pv_maximum_thickness_step_m :: dbl
  pv_maximum_thickness_mad_m :: dbl
  pv_maximum_size_relative_step :: dbl
  pv_maximum_anchor_component_distance_m :: dbl
  pv_minimum_occupied_cells :: nat
  pv_maximum_component_uncertainty_m :: dbl

definition default_CargoPreloadBaselineConfig :: CargoPreloadBaselineConfig where
  "default_CargoPreloadBaselineConfig =
     \<lparr>pv_allow_moving_mature_static = True, pv_minimum_confirm_frames = 5, pv_window_frames = 8,
      pv_maximum_observation_gap_sec = Fin 0.5, pv_maximum_center_step_m = Fin 0.35, pv_maximum_thickness_step_m = Fin 0.25,
      pv_maximum_thickness_mad_m = Fin 0.1, pv_maximum_size_relative_step = Fin 0.3,
      pv_maximum_anchor_component_distance_m = Fin 0.5, pv_minimum_occupied_cells = 6,
      pv_maximum_component_uncertainty_m = Fin 0.2\<rparr>"

record CargoPreloadBaselineInput =
  pw_stamp_sec :: dbl
  pw_hook_empty :: bool
  pw_localization_valid :: bool
  pw_stationary :: bool
  pw_independently_mature_static :: bool
  pw_component :: StaticHeightComponent

record CargoPreloadBaselineResult =
  pr_valid :: bool
  pr_ready :: bool
  pr_confirm_frames :: int
  pr_window_valid_frames :: int
  pr_thickness_m :: dbl
  pr_thickness_mad_m :: dbl
  pr_occupied_cells :: nat
  pr_spatially_consistent :: bool
  pr_component :: StaticHeightComponent
  pr_reason :: string

definition default_CargoPreloadBaselineResult :: CargoPreloadBaselineResult where
  "default_CargoPreloadBaselineResult =
     \<lparr>pr_valid = False, pr_ready = False, pr_confirm_frames = 0, pr_window_valid_frames = 0, pr_thickness_m = Fin 0,
      pr_thickness_mad_m = Fin 0, pr_occupied_cells = 0, pr_spatially_consistent = False,
      pr_component = default_StaticHeightComponent, pr_reason = ''not_initialized''\<rparr>"

record CargoPreloadBaselineTracker =
  px_config :: CargoPreloadBaselineConfig
  px_result :: CargoPreloadBaselineResult
  px_window :: "StaticHeightComponent list"
  px_last_stamp_sec :: dbl

section \<open>Tests on one input\<close>

definition preload_validConfig :: "CargoPreloadBaselineConfig \<Rightarrow> bool" where
  "preload_validConfig c \<longleftrightarrow>
     3 \<le> pv_minimum_confirm_frames c \<and> pv_minimum_confirm_frames c \<le> pv_window_frames c \<and>
     isfinite (pv_maximum_observation_gap_sec c) \<and> Fin 0 < pv_maximum_observation_gap_sec c \<and>
     isfinite (pv_maximum_center_step_m c) \<and> Fin 0 < pv_maximum_center_step_m c \<and>
     isfinite (pv_maximum_thickness_step_m c) \<and> Fin 0 < pv_maximum_thickness_step_m c \<and>
     isfinite (pv_maximum_thickness_mad_m c) \<and> Fin 0 \<le> pv_maximum_thickness_mad_m c \<and>
     isfinite (pv_maximum_size_relative_step c) \<and> Fin 0 \<le> pv_maximum_size_relative_step c \<and>
     isfinite (pv_maximum_anchor_component_distance_m c) \<and> Fin 0 < pv_maximum_anchor_component_distance_m c \<and>
     0 < pv_minimum_occupied_cells c \<and> isfinite (pv_maximum_component_uncertainty_m c) \<and>
     Fin 0 < pv_maximum_component_uncertainty_m c"

definition finiteComponent :: "StaticHeightComponent \<Rightarrow> bool" where
  "finiteComponent p \<longleftrightarrow>
     hp_valid p \<and> vec2_allFinite (hp_center_map p) \<and> isfinite (hp_length_m p) \<and> Fin 0 < hp_length_m p \<and>
     isfinite (hp_width_m p) \<and> Fin 0 < hp_width_m p \<and> isfinite (hp_top_z95_map p) \<and> isfinite (hp_support_z_map p) \<and>
     hp_support_z_map p < hp_top_z95_map p \<and> isfinite (hp_uncertainty_m p) \<and> Fin 0 \<le> hp_uncertainty_m p \<and>
     hp_authority p \<noteq> UNVERIFIED_LOADED_CLEAN \<and> hp_members p \<noteq> []"

text \<open>The median of the file: the upper one of the two middle values; values are finite.\<close>

definition preload_median :: "dbl list \<Rightarrow> dbl" where
  "preload_median values = (if values = [] then Fin 0 else sort_key real_part values ! (length values div 2))"

definition thickness_of :: "StaticHeightComponent \<Rightarrow> dbl" where
  "thickness_of p = hp_top_z95_map p - hp_support_z_map p"

text \<open>The early returns of the update after the time test, with their reasons; an admitted input has none.\<close>

definition preload_refusal :: "CargoPreloadBaselineConfig \<Rightarrow> CargoPreloadBaselineInput \<Rightarrow> string option" where
  "preload_refusal c i =
     (let p = pw_component i;
          motion_authorized = pw_stationary i \<or> pv_allow_moving_mature_static c \<and> pw_independently_mature_static i in
      if \<not> pw_hook_empty i then Some ''hook_not_empty''
      else if \<not> pw_localization_valid i then Some ''localization_invalid''
      else if \<not> motion_authorized then Some ''base_not_stationary_or_mature''
      else if \<not> finiteComponent p then Some ''authoritative_component_invalid''
      else if \<not> isfinite (hp_hook_anchor_distance_m p) \<or>
              pv_maximum_anchor_component_distance_m c < hp_hook_anchor_distance_m p
      then Some ''anchor_component_spatially_uncertain''
      else if length (hp_members p) < pv_minimum_occupied_cells c then Some ''baseline_spatial_coverage_insufficient''
      else if pv_maximum_component_uncertainty_m c < hp_uncertainty_m p then Some ''baseline_uncertainty_exceeded''
      else None)"

definition relative_size :: "(StaticHeightComponent \<Rightarrow> dbl) \<Rightarrow> StaticHeightComponent \<Rightarrow> StaticHeightComponent \<Rightarrow> dbl" where
  "relative_size f previous p = \<bar>f p - f previous\<bar> / cpp_max (f previous) (Fin 0.05)"

definition same_physical_component ::
  "CargoPreloadBaselineConfig \<Rightarrow> StaticHeightComponent \<Rightarrow> StaticHeightComponent \<Rightarrow> bool" where
  "same_physical_component c previous p \<longleftrightarrow>
     hp_map_generation p = hp_map_generation previous \<and> hp_component_id p = hp_component_id previous \<and>
     vec2_norm (vec2_sub (hp_center_map p) (hp_center_map previous)) \<le> pv_maximum_center_step_m c \<and>
     \<bar>thickness_of p - thickness_of previous\<bar> \<le> pv_maximum_thickness_step_m c \<and>
     cpp_max (relative_size hp_length_m previous p) (relative_size hp_width_m previous p) \<le> pv_maximum_size_relative_step c"

section \<open>The class\<close>

definition preload_reset :: "CargoPreloadBaselineTracker \<Rightarrow> CargoPreloadBaselineTracker" where
  "preload_reset s = s\<lparr>px_result := default_CargoPreloadBaselineResult, px_window := [], px_last_stamp_sec := Fin 0\<rparr>"

definition preload_setConfig :: "CargoPreloadBaselineTracker \<Rightarrow> CargoPreloadBaselineConfig \<Rightarrow> CargoPreloadBaselineTracker" where
  "preload_setConfig s c =
     preload_reset (s\<lparr>px_config := (if preload_validConfig c then c else default_CargoPreloadBaselineConfig)\<rparr>)"

definition preload_init :: "CargoPreloadBaselineConfig \<Rightarrow> CargoPreloadBaselineTracker" where
  "preload_init c = preload_setConfig
     \<lparr>px_config = default_CargoPreloadBaselineConfig, px_result = default_CargoPreloadBaselineResult, px_window = [],
      px_last_stamp_sec = Fin 0\<rparr> c"

text \<open>The window after an admitted component: it starts anew when the component is another one, and keeps the newest frames.\<close>

definition preload_window :: "CargoPreloadBaselineConfig \<Rightarrow> StaticHeightComponent list \<Rightarrow> StaticHeightComponent \<Rightarrow>
    StaticHeightComponent list" where
  "preload_window c ws p =
     (let kept = (if ws \<noteq> [] \<and> \<not> same_physical_component c (last ws) p then [] else ws) @ [p]
      in drop (length kept - nat (pv_window_frames c)) kept)"

definition preload_result :: "CargoPreloadBaselineConfig \<Rightarrow> StaticHeightComponent list \<Rightarrow> CargoPreloadBaselineResult" where
  "preload_result c ws =
     (let thicknesses = map thickness_of ws; thickness = preload_median thicknesses;
          mad = preload_median (map (\<lambda>x. \<bar>x - thickness\<bar>) thicknesses);
          confirm = (if mad \<le> pv_maximum_thickness_mad_m c then int (length ws) else 0);
          ready = pv_minimum_confirm_frames c \<le> confirm; p = last ws
      in \<lparr>pr_valid = True, pr_ready = ready, pr_confirm_frames = confirm, pr_window_valid_frames = int (length ws),
          pr_thickness_m = thickness, pr_thickness_mad_m = mad, pr_occupied_cells = length (hp_members p),
          pr_spatially_consistent = True,
          pr_component = p\<lparr>hp_top_z95_map := preload_median (map hp_top_z95_map ws),
             hp_support_z_map := preload_median (map hp_support_z_map ws),
             hp_center_map := \<lparr>v2x = preload_median (map (\<lambda>w. v2x (hp_center_map w)) ws),
                               v2y = preload_median (map (\<lambda>w. v2y (hp_center_map w)) ws)\<rparr>,
             hp_length_m := preload_median (map hp_length_m ws), hp_width_m := preload_median (map hp_width_m ws),
             hp_uncertainty_m := cpp_max (hp_uncertainty_m p) mad\<rparr>,
          pr_reason = (if ready then ''preload_baseline_ready''
                       else if mad \<le> pv_maximum_thickness_mad_m c then ''preload_baseline_confirmation_pending''
                       else ''preload_baseline_thickness_unstable'')\<rparr>)"

definition preload_next :: "CargoPreloadBaselineTracker \<Rightarrow> CargoPreloadBaselineInput \<Rightarrow> CargoPreloadBaselineTracker" where
  "preload_next s i =
     (if \<not> isfinite (pw_stamp_sec i) \<or> pw_stamp_sec i \<le> Fin 0 \<or>
         Fin 0 < px_last_stamp_sec s \<and> pw_stamp_sec i \<le> px_last_stamp_sec s
      then (preload_reset s)\<lparr>px_result := default_CargoPreloadBaselineResult
              \<lparr>pr_reason := ''source_time_invalid_or_rollback''\<rparr>\<rparr>
      else
        let gap = Fin 0 < px_last_stamp_sec s \<and>
              pv_maximum_observation_gap_sec (px_config s) < pw_stamp_sec i - px_last_stamp_sec s;
            s1 = s\<lparr>px_last_stamp_sec := pw_stamp_sec i, px_window := (if gap then [] else px_window s)\<rparr> in
        case preload_refusal (px_config s) i of
          Some reason \<Rightarrow> s1\<lparr>px_window := [], px_result := default_CargoPreloadBaselineResult\<lparr>pr_reason := reason\<rparr>\<rparr>
        | None \<Rightarrow>
            let ws = preload_window (px_config s) (px_window s1) (pw_component i)
            in s1\<lparr>px_window := ws, px_result := preload_result (px_config s) ws\<rparr>)"

definition preload_update ::
  "CargoPreloadBaselineTracker \<Rightarrow> CargoPreloadBaselineInput \<Rightarrow> CargoPreloadBaselineTracker \<times> CargoPreloadBaselineResult" where
  "preload_update s i = (let s' = preload_next s i in (s', px_result s'))"

section \<open>The chain behind a baseline\<close>

definition preload_usable :: "CargoPreloadBaselineConfig \<Rightarrow> CargoPreloadBaselineInput \<Rightarrow> bool" where
  "preload_usable c i \<longleftrightarrow> isfinite (pw_stamp_sec i) \<and> Fin 0 < pw_stamp_sec i \<and> preload_refusal c i = None"

definition preload_linked :: "CargoPreloadBaselineConfig \<Rightarrow> CargoPreloadBaselineInput \<Rightarrow> CargoPreloadBaselineInput \<Rightarrow> bool" where
  "preload_linked c i j \<longleftrightarrow>
     pw_stamp_sec i < pw_stamp_sec j \<and> \<not> pv_maximum_observation_gap_sec c < pw_stamp_sec j - pw_stamp_sec i \<and>
     same_physical_component c (pw_component i) (pw_component j)"

definition preload_evidence :: "CargoPreloadBaselineConfig \<Rightarrow> CargoPreloadBaselineTracker \<Rightarrow> CargoPreloadBaselineInput list \<Rightarrow> bool" where
  "preload_evidence c s xs \<longleftrightarrow>
     px_config s = c \<and> preload_validConfig c \<and> (\<exists>n. px_window s = drop n (map pw_component xs)) \<and> (px_window s = [] \<longleftrightarrow> xs = []) \<and>
     (xs \<noteq> [] \<longrightarrow> px_last_stamp_sec s = pw_stamp_sec (last xs) \<and> Fin 0 < px_last_stamp_sec s \<and> isfinite (px_last_stamp_sec s))"

lemma preload_window_evidence:
  assumes "0 < pv_window_frames c" and "ws = drop n (map pw_component xs)" and "ws = [] \<longleftrightarrow> xs = []"
  shows "\<exists>ys. (\<exists>m. preload_window c ws (pw_component i) = drop m (map pw_component ys)) \<and>
    preload_window c ws (pw_component i) \<noteq> [] \<and>
    (ys = [i] \<or> ys = xs @ [i] \<and> xs \<noteq> [] \<and> same_physical_component c (pw_component (last xs)) (pw_component i))"
proof (cases "xs = []")
  case True
  then have "preload_window c ws (pw_component i) = drop 0 (map pw_component [i])"
    using assms by (simp add: preload_window_def)
  then show ?thesis by (intro exI [of _ "[i]"]) (auto intro: exI [of _ 0])
next
  case False
  then have ws: "ws \<noteq> []" and n: "n < length xs" using assms(2,3) by auto
  have last: "last ws = pw_component (last xs)" using ws False n by (simp add: assms(2) last_drop last_map)
  show ?thesis
  proof (cases "same_physical_component c (last ws) (pw_component i)")
    case True
    let ?kept = "ws @ [pw_component i]"
    have "preload_window c ws (pw_component i) = drop (length ?kept - nat (pv_window_frames c)) ?kept"
      using True by (simp add: preload_window_def)
    moreover have "?kept = drop n (map pw_component (xs @ [i]))" using n by (simp add: assms(2))
    ultimately have "preload_window c ws (pw_component i) =
        drop (length ?kept - nat (pv_window_frames c) + n) (map pw_component (xs @ [i]))"
      by (simp only: drop_drop)
    moreover have "preload_window c ws (pw_component i) \<noteq> []"
      using True assms(1) by (simp add: preload_window_def)
    ultimately show ?thesis using True \<open>xs \<noteq> []\<close> last by metis
  next
    case False
    then have "preload_window c ws (pw_component i) = drop 0 (map pw_component [i])"
      using assms(1) ws by (simp add: preload_window_def)
    then show ?thesis by (intro exI [of _ "[i]"]) (auto intro: exI [of _ 0])
  qed
qed

lemma preload_ready_length: "pr_ready (preload_result c ws) \<Longrightarrow> 0 < pv_minimum_confirm_frames c \<Longrightarrow>
   pv_minimum_confirm_frames c \<le> int (length ws)"
  by (auto simp: preload_result_def Let_def split: if_splits)

lemma preload_default_not_ready [simp]: "\<not> pr_ready default_CargoPreloadBaselineResult"
  by (simp add: default_CargoPreloadBaselineResult_def)

lemma preload_step:
  assumes "preload_evidence c s xs"
  shows "\<exists>ys. preload_evidence c (preload_next s i) ys \<and> evolves (preload_usable c) (preload_linked c) xs i ys \<and>
    (pr_ready (px_result (preload_next s i)) \<longrightarrow> pv_minimum_confirm_frames c \<le> int (length ys))"
proof -
  have c: "px_config s = c" "preload_validConfig c" and sizes: "0 < pv_minimum_confirm_frames c" "0 < pv_window_frames c"
    using assms by (auto simp: preload_evidence_def preload_validConfig_def)
  define dropped where "dropped = (\<not> isfinite (pw_stamp_sec i) \<or> pw_stamp_sec i \<le> Fin 0 \<or>
         Fin 0 < px_last_stamp_sec s \<and> pw_stamp_sec i \<le> px_last_stamp_sec s)"
  show ?thesis
  proof (cases "dropped \<or> preload_refusal c i \<noteq> None")
    case True
    then have "preload_evidence c (preload_next s i) []" "\<not> pr_ready (px_result (preload_next s i))"
      using c by (auto simp: preload_next_def dropped_def preload_evidence_def preload_reset_def Let_def split: option.splits)
    then show ?thesis by (intro exI [of _ "[]"]) (simp add: evolves_def)
  next
    case False
    let ?gap = "Fin 0 < px_last_stamp_sec s \<and> pv_maximum_observation_gap_sec c < pw_stamp_sec i - px_last_stamp_sec s"
    define xs' where "xs' = (if ?gap then [] else xs)"
    define ws where "ws = (if ?gap then [] else px_window s)"
    have stamp: "isfinite (pw_stamp_sec i)" "Fin 0 < pw_stamp_sec i"
      using False by (auto simp: dropped_def isfinite_iff)
    have next_eq: "preload_next s i = s\<lparr>px_last_stamp_sec := pw_stamp_sec i, px_window := preload_window c ws (pw_component i),
        px_result := preload_result c (preload_window c ws (pw_component i))\<rparr>"
      using False c by (auto simp: preload_next_def dropped_def ws_def Let_def)
    obtain n where n: "px_window s = drop n (map pw_component xs)" "px_window s = [] \<longleftrightarrow> xs = []"
      using assms by (auto simp: preload_evidence_def)
    have ws: "ws = drop (if ?gap then 0 else n) (map pw_component xs')" "ws = [] \<longleftrightarrow> xs' = []"
      using n by (simp_all add: ws_def xs'_def)
    from preload_window_evidence [OF sizes(2) ws, of i] obtain ys m where
      ys: "preload_window c ws (pw_component i) = drop m (map pw_component ys)" "preload_window c ws (pw_component i) \<noteq> []"
      "ys = [i] \<or> ys = xs' @ [i] \<and> xs' \<noteq> [] \<and> same_physical_component c (pw_component (last xs')) (pw_component i)"
      by blast
    have "preload_linked c (last xs) i" if k: "xs' \<noteq> []" "same_physical_component c (pw_component (last xs')) (pw_component i)"
    proof -
      have xs: "xs' = xs" "\<not> ?gap" using k(1) by (auto simp: xs'_def split: if_splits)
      then have last: "px_last_stamp_sec s = pw_stamp_sec (last xs)" "Fin 0 < px_last_stamp_sec s" "isfinite (px_last_stamp_sec s)"
        using assms k(1) by (auto simp: preload_evidence_def)
      moreover have "pw_stamp_sec (last xs) < pw_stamp_sec i"
        using False stamp(1) last by (auto simp: dropped_def isfinite_iff)
      ultimately show ?thesis using k(2) xs by (simp add: preload_linked_def)
    qed
    moreover have "preload_usable c i" using stamp False by (simp add: preload_usable_def)
    ultimately have "evolves (preload_usable c) (preload_linked c) xs i ys"
      using ys(3) by (auto simp: evolves_def xs'_def split: if_splits)
    moreover have "preload_evidence c (preload_next s i) ys"
      using ys c stamp unfolding next_eq preload_evidence_def by auto
    moreover have "pv_minimum_confirm_frames c \<le> int (length ys)" if "pr_ready (px_result (preload_next s i))"
      using preload_ready_length [of c "preload_window c ws (pw_component i)"] that sizes(1) unfolding next_eq ys(1) by simp
    ultimately show ?thesis by blast
  qed
qed

interpretation preload: held_evidence_machine preload_update "preload_evidence c" "preload_usable c" "preload_linked c"
  pr_ready "pv_minimum_confirm_frames c" for c
  by unfold_locales (use preload_step in \<open>simp add: preload_update_def Let_def\<close>)

lemma preload_default_valid: "preload_validConfig default_CargoPreloadBaselineConfig"
  by (simp add: preload_validConfig_def default_CargoPreloadBaselineConfig_def)

lemma preload_init_evidence: "preload_evidence (px_config (preload_init c)) (preload_init c) []"
  using preload_default_valid
  by (simp add: preload_evidence_def preload_init_def preload_setConfig_def preload_reset_def)

text \<open>A ready baseline rests on a chain of at least \<^verbatim>\<open>minimum_confirm_frames\<close> of the frames received so far: in each the
  hook was empty, localisation valid, the crane at rest or the map mature, and the component passed every test; stamps
  increase by at most the observation gap, and consecutive components are the same one (generation, id, centre, thickness and
  size within their steps).\<close>

theorem preload_baseline_backed:
  assumes "k < length is" and "pr_ready (run_outputs preload_update (preload_init c) is ! k)"
  shows "\<exists>ys. subseq ys (take (Suc k) is) \<and> list_all (preload_usable (px_config (preload_init c))) ys \<and>
    successively (preload_linked (px_config (preload_init c))) ys \<and>
    pv_minimum_confirm_frames (px_config (preload_init c)) \<le> int (length ys)"
  using preload.positive_backed [OF preload_init_evidence assms] .

section \<open>The thickness of a baseline\<close>

lemma half_below_median:
  assumes "xs \<noteq> []" and "sort xs ! (length xs div 2) \<le> m"
  shows "length xs < 2 * length (filter (\<lambda>x. x \<le> m) (xs :: real list))"
proof -
  let ?k = "Suc (length xs div 2)" and ?s = "sort xs"
  have k: "?k \<le> length ?s" using assms(1) by (cases xs) auto
  have below: "x \<le> m" if x: "x \<in> set (take ?k ?s)" for x
  proof -
    obtain j where j: "j < ?k" "x = ?s ! j" using x k by (auto simp: in_set_conv_nth)
    have "?s ! j \<le> ?s ! (length xs div 2)" using j(1) k by (intro sorted_nth_mono) auto
    then show ?thesis using assms(2) j(2) by simp
  qed
  have "?k = length (filter (\<lambda>x. x \<le> m) (take ?k ?s))" using below k by simp
  also have "\<dots> \<le> length (filter (\<lambda>x. x \<le> m) ?s)"
    by (metis append_take_drop_id filter_append le_add1 length_append)
  also have "\<dots> = length (filter (\<lambda>x. x \<le> m) xs)" by (simp add: filter_sort)
  finally show ?thesis by linarith
qed

lemma preload_median_Fin: "xs \<noteq> [] \<Longrightarrow> preload_median (map Fin xs) = Fin (sort xs ! (length xs div 2))"
  by (simp add: preload_median_def sort_key_Fin)

text \<open>C24. The thickness of a ready baseline is one of the thicknesses in its window and positive, and more than half of the
  window's thicknesses differ from it by no more than the configured deviation.\<close>

theorem preload_thickness_stable:
  assumes "pr_ready (preload_result c ws)" and "preload_validConfig c" and "list_all finiteComponent ws"
  shows "(\<exists>w \<in> set ws. pr_thickness_m (preload_result c ws) = thickness_of w) \<and> Fin 0 < pr_thickness_m (preload_result c ws) \<and>
    length ws < 2 * length (filter (\<lambda>w. \<bar>thickness_of w - pr_thickness_m (preload_result c ws)\<bar> \<le> pv_maximum_thickness_mad_m c) ws)"
proof -
  have ws: "ws \<noteq> []" using preload_ready_length [OF assms(1)] assms(2) by (auto simp: preload_validConfig_def)
  define t where "t = real_part \<circ> thickness_of"
  have t: "thickness_of w = Fin (t w)" "0 < t w" if w: "w \<in> set ws" for w
    using assms(3) w by (auto simp: list_all_iff finiteComponent_def thickness_of_def t_def isfinite_iff)
  let ?xs = "map t ws" let ?d = "sort ?xs ! (length ws div 2)"
  have map: "map thickness_of ws = map Fin ?xs" using t(1) by simp
  have thickness: "pr_thickness_m (preload_result c ws) = Fin ?d"
    using preload_median_Fin [of ?xs] ws unfolding preload_result_def Let_def map by (simp del: map_map)
  have "?d \<in> set (sort ?xs)" using ws by (intro nth_mem) simp
  then obtain w where w: "w \<in> set ws" "?d = t w" by auto
  obtain r where r: "pv_maximum_thickness_mad_m c = Fin r" using assms(2) by (auto simp: preload_validConfig_def isfinite_iff)
  let ?ds = "map (\<lambda>w. \<bar>t w - ?d\<bar>) ws"
  have deviations: "map (\<lambda>x. \<bar>x - Fin ?d\<bar>) (map thickness_of ws) = map Fin ?ds" using t(1) by simp
  have "pr_thickness_mad_m (preload_result c ws) = preload_median (map (\<lambda>x. \<bar>x - pr_thickness_m (preload_result c ws)\<bar>) (map thickness_of ws))"
    by (simp add: preload_result_def Let_def)
  also have "\<dots> = Fin (sort ?ds ! (length ws div 2))"
    unfolding thickness deviations using preload_median_Fin [of ?ds] ws by (simp del: map_map)
  finally have mad: "pr_thickness_mad_m (preload_result c ws) = Fin (sort ?ds ! (length ws div 2))" .
  have "pr_thickness_mad_m (preload_result c ws) \<le> pv_maximum_thickness_mad_m c"
    using assms(1,2) by (auto simp: preload_result_def Let_def preload_validConfig_def split: if_splits)
  then have "length ?ds < 2 * length (filter (\<lambda>x. x \<le> r) ?ds)"
    using ws unfolding mad r by (intro half_below_median) simp_all
  moreover have "filter (\<lambda>w. \<bar>thickness_of w - Fin ?d\<bar> \<le> Fin r) ws = filter (\<lambda>w. \<bar>t w - ?d\<bar> \<le> r) ws"
    using t(1) by (intro filter_cong) simp_all
  ultimately have "length ws < 2 * length (filter (\<lambda>w. \<bar>thickness_of w - Fin ?d\<bar> \<le> Fin r) ws)"
    by (simp add: filter_map comp_def)
  then show ?thesis unfolding thickness r using w t by auto
qed

section \<open>An example\<close>

definition demo_preload_config :: CargoPreloadBaselineConfig where
  "demo_preload_config = default_CargoPreloadBaselineConfig\<lparr>pv_minimum_confirm_frames := 3, pv_minimum_occupied_cells := 1\<rparr>"

definition demo_baseline_component :: StaticHeightComponent where
  "demo_baseline_component = default_StaticHeightComponent
     \<lparr>hp_valid := True, hp_authority := RUNTIME_MATURE, hp_members := [NodeId 0 0], hp_length_m := Fin 1, hp_width_m := Fin 1,
      hp_top_z95_map := Fin 2\<rparr>"

definition demo_preload_input :: "real \<Rightarrow> CargoPreloadBaselineInput" where
  "demo_preload_input t =
     \<lparr>pw_stamp_sec = Fin t, pw_hook_empty = True, pw_localization_valid = True, pw_stationary = True,
      pw_independently_mature_static = False, pw_component = demo_baseline_component\<rparr>"

lemma demo_preload_config_kept: "px_config (preload_init demo_preload_config) = demo_preload_config"
  by (simp add: preload_init_def preload_setConfig_def preload_reset_def preload_validConfig_def demo_preload_config_def
      default_CargoPreloadBaselineConfig_def)

lemma demo_refusal: "preload_refusal demo_preload_config (demo_preload_input t) = None"
  by (simp add: preload_refusal_def demo_preload_input_def demo_preload_config_def default_CargoPreloadBaselineConfig_def
      finiteComponent_def demo_baseline_component_def default_StaticHeightComponent_def vec2_allFinite_def vec2_zero_def Let_def)

lemma demo_same: "same_physical_component demo_preload_config demo_baseline_component demo_baseline_component"
  by (simp add: same_physical_component_def demo_preload_config_def default_CargoPreloadBaselineConfig_def thickness_of_def
      demo_baseline_component_def default_StaticHeightComponent_def vec2_zero_def vec2_sub_def vec2_norm_def relative_size_def
      cpp_max_def)

definition demo_collected :: "nat \<Rightarrow> real \<Rightarrow> CargoPreloadBaselineTracker \<Rightarrow> bool" where
  "demo_collected n u s \<longleftrightarrow> px_config s = demo_preload_config \<and> px_last_stamp_sec s = Fin u \<and>
     px_window s = replicate n demo_baseline_component"

lemma demo_preload_next:
  assumes "demo_collected n u s" and "0 \<le> u" and "u < t" and "t \<le> u + 1 / 2 \<or> u = 0" and "n < 3"
  shows "demo_collected (Suc n) t (preload_next s (demo_preload_input t)) \<and>
    px_result (preload_next s (demo_preload_input t)) = preload_result demo_preload_config (replicate (Suc n) demo_baseline_component)"
proof -
  have stamp: "pw_stamp_sec (demo_preload_input t) = Fin t" "pw_component (demo_preload_input t) = demo_baseline_component"
    by (simp_all add: demo_preload_input_def)
  have limits: "pv_maximum_observation_gap_sec demo_preload_config = Fin (1 / 2)" "pv_window_frames demo_preload_config = 8"
    by (simp_all add: demo_preload_config_def default_CargoPreloadBaselineConfig_def)
  have last: "last (replicate n demo_baseline_component) = demo_baseline_component" if "n \<noteq> 0" using that by simp
  have "preload_window demo_preload_config (replicate n demo_baseline_component) demo_baseline_component = replicate (Suc n) demo_baseline_component"
    using assms(5) last demo_same by (cases "n = 0") (simp_all add: preload_window_def limits replicate_append_same)
  moreover have "\<not> (Fin 0 < px_last_stamp_sec s \<and> pv_maximum_observation_gap_sec demo_preload_config < Fin t - px_last_stamp_sec s)"
    using assms(1,4) by (auto simp: limits demo_collected_def)
  ultimately have "preload_next s (demo_preload_input t) = s\<lparr>px_last_stamp_sec := Fin t,
      px_window := replicate (Suc n) demo_baseline_component,
      px_result := preload_result demo_preload_config (replicate (Suc n) demo_baseline_component)\<rparr>"
    using assms(1-3) by (auto simp: preload_next_def stamp demo_refusal demo_collected_def Let_def)
  then show ?thesis using assms(1) by (simp add: demo_collected_def)
qed

lemma demo_ready: "pr_ready (preload_result demo_preload_config (replicate 3 demo_baseline_component))"
  by (simp add: preload_result_def Let_def preload_median_def thickness_of_def numeral_3_eq_3 demo_preload_config_def
      default_CargoPreloadBaselineConfig_def demo_baseline_component_def default_StaticHeightComponent_def)

theorem preload_baseline_backed_witness:
  "let is = [demo_preload_input 1, demo_preload_input (3 / 2), demo_preload_input 2];
       r = run_outputs preload_update (preload_init demo_preload_config) is ! 2
   in pr_ready r \<and> (\<exists>ys. subseq ys is \<and> 3 \<le> length ys \<and> list_all (preload_usable demo_preload_config) ys)"
proof -
  let ?is = "[demo_preload_input 1, demo_preload_input (3 / 2), demo_preload_input 2]"
  let ?s0 = "preload_init demo_preload_config"
  let ?s1 = "preload_next ?s0 (demo_preload_input 1)" let ?s2 = "preload_next ?s1 (demo_preload_input (3 / 2))"
  have "demo_collected 0 0 ?s0"
    using demo_preload_config_kept
    by (simp add: demo_collected_def) (simp add: preload_init_def preload_setConfig_def preload_reset_def)
  from demo_preload_next [OF this, of 1] have "demo_collected 1 1 ?s1" by simp
  from demo_preload_next [OF this, of "3 / 2"] have "demo_collected 2 (3 / 2) ?s2" by (simp add: numeral_2_eq_2)
  from demo_preload_next [OF this, of 2] have "px_result (preload_next ?s2 (demo_preload_input 2)) =
      preload_result demo_preload_config (replicate 3 demo_baseline_component)" by (simp add: numeral_3_eq_3 numeral_2_eq_2)
  then have r: "pr_ready (run_outputs preload_update ?s0 ?is ! 2)"
    using demo_ready by (simp add: preload_update_def Let_def numeral_3_eq_3)
  have "pv_minimum_confirm_frames demo_preload_config = 3" by (simp add: demo_preload_config_def)
  then show ?thesis
    using preload_baseline_backed [of 2 ?is demo_preload_config] r by (fastforce simp: demo_preload_config_kept)
qed

theorem preload_thickness_stable_witness:
  "pr_thickness_m (preload_result demo_preload_config (replicate 3 demo_baseline_component)) = Fin 2"
proof -
  have "preload_validConfig demo_preload_config" "list_all finiteComponent (replicate 3 demo_baseline_component)"
    by (simp_all add: preload_validConfig_def demo_preload_config_def default_CargoPreloadBaselineConfig_def list_all_iff
        finiteComponent_def demo_baseline_component_def default_StaticHeightComponent_def vec2_allFinite_def vec2_zero_def)
  from preload_thickness_stable [OF demo_ready this] show ?thesis
    by (auto simp: thickness_of_def demo_baseline_component_def default_StaticHeightComponent_def)
qed

end
