(* ===== verification/Lift_Origin.thy ===== *)
theory Lift_Origin
  imports Height_Components
begin

text \<open>
  The origin of a lift (\<^verbatim>\<open>cargo_lift_origin_binder.hpp/.cpp\<close>): when the hook becomes loaded, the cargo is bound to a
  candidate component under the hook; the lift is confirmed when the observed top rises above the origin, the
  thickness when the support under the origin is revealed. \<open>lift_update\<close> is the method of the class, cut at its comments:
  time and hook tests, rebinding, binding, evaluation.
\<close>

section \<open>Data\<close>

datatype CargoLiftEventState =
  IDLE | PRELOAD_BASELINE_READY | LOAD_DETECTED | ORIGIN_BINDING | LIFT_CONFIRMING | THICKNESS_CONFIRMING | GEOMETRY_FROZEN
  | TRANSPORT | PLACEMENT_CONFIRMING | LOADED_REACQUIRE | INVALID

fun cargoLiftEventStateName :: "CargoLiftEventState \<Rightarrow> string" where
  "cargoLiftEventStateName IDLE = ''IDLE''"
| "cargoLiftEventStateName PRELOAD_BASELINE_READY = ''PRELOAD_BASELINE_READY''"
| "cargoLiftEventStateName LOAD_DETECTED = ''LOAD_DETECTED''"
| "cargoLiftEventStateName ORIGIN_BINDING = ''ORIGIN_BINDING''"
| "cargoLiftEventStateName LIFT_CONFIRMING = ''LIFT_CONFIRMING''"
| "cargoLiftEventStateName THICKNESS_CONFIRMING = ''THICKNESS_CONFIRMING''"
| "cargoLiftEventStateName GEOMETRY_FROZEN = ''GEOMETRY_FROZEN''"
| "cargoLiftEventStateName TRANSPORT = ''TRANSPORT''"
| "cargoLiftEventStateName PLACEMENT_CONFIRMING = ''PLACEMENT_CONFIRMING''"
| "cargoLiftEventStateName LOADED_REACQUIRE = ''LOADED_REACQUIRE''"
| "cargoLiftEventStateName INVALID = ''INVALID''"

datatype CargoOriginCandidateSource =
  RETIRED_FORMAL_SHAPE | OPERATOR_APPROVED_BASELINE | RUNTIME_MATURE_STATIC | CONFIGURED_ENVELOPE

record CargoLiftOriginConfig =
  lc_maximum_anchor_distance_m :: dbl
  lc_minimum_significant_change_m :: dbl
  lc_significance_sigma :: dbl
  lc_minimum_source_coverage :: dbl
  lc_minimum_top_coverage :: dbl
  lc_minimum_revealed_support_coverage :: dbl
  lc_lift_confirm_frames :: int
  lc_thickness_confirm_frames :: int
  lc_maximum_observation_gap_sec :: dbl
  lc_maximum_source_age_sec :: dbl
  lc_minimum_height_m :: dbl
  lc_maximum_height_m :: dbl

definition default_CargoLiftOriginConfig :: CargoLiftOriginConfig where
  "default_CargoLiftOriginConfig =
     \<lparr>lc_maximum_anchor_distance_m = Fin 2, lc_minimum_significant_change_m = Fin 0.15, lc_significance_sigma = Fin 3,
      lc_minimum_source_coverage = Fin 0.35, lc_minimum_top_coverage = Fin 0.2,
      lc_minimum_revealed_support_coverage = Fin 0.25, lc_lift_confirm_frames = 4, lc_thickness_confirm_frames = 5,
      lc_maximum_observation_gap_sec = Fin 0.5, lc_maximum_source_age_sec = Fin 0.5, lc_minimum_height_m = Fin 0.3,
      lc_maximum_height_m = Fin 5\<rparr>"

record CargoOriginCandidate =
  ln_component_id :: u64
  ln_source :: CargoOriginCandidateSource
  ln_authority :: StaticEvidenceAuthority
  ln_predates_cargo_lifecycle :: bool
  ln_center_map :: vec2
  ln_length_m :: dbl
  ln_width_m :: dbl
  ln_yaw_map_rad :: dbl
  ln_top_z95_map :: dbl
  ln_support_z_map :: dbl
  ln_uncertainty_m :: dbl
  ln_occupied_cells :: nat
  ln_point_count :: nat
  ln_map_generation :: u64
  ln_members :: "StaticHeightLayerNodeId list"
  ln_hook_anchor_distance_m :: dbl
  ln_candidate_overlap :: dbl
  ln_anchor_overlap :: dbl

definition default_CargoOriginCandidate :: CargoOriginCandidate where
  "default_CargoOriginCandidate =
     \<lparr>ln_component_id = 0, ln_source = CONFIGURED_ENVELOPE, ln_authority = UNVERIFIED_LOADED_CLEAN,
      ln_predates_cargo_lifecycle = False, ln_center_map = vec2_zero, ln_length_m = Fin 0, ln_width_m = Fin 0,
      ln_yaw_map_rad = Fin 0, ln_top_z95_map = NaN, ln_support_z_map = NaN, ln_uncertainty_m = Fin 0.2,
      ln_occupied_cells = 0, ln_point_count = 0, ln_map_generation = 0, ln_members = [], ln_hook_anchor_distance_m = Fin 0,
      ln_candidate_overlap = Fin 0, ln_anchor_overlap = Fin 0\<rparr>"

record CargoLiftOriginInput =
  lu_stamp_sec :: dbl
  lu_hook_signal_valid :: bool
  lu_hook_loaded :: bool
  lu_hook_was_empty :: bool
  lu_node_started_loaded :: bool
  lu_anchor_valid :: bool
  lu_hook_anchor_map :: vec2
  lu_candidates :: "CargoOriginCandidate list"
  lu_current_top_valid :: bool
  lu_current_top_stamp_sec :: dbl
  lu_current_top_z_map :: dbl
  lu_current_top_uncertainty_m :: dbl
  lu_source_coverage :: dbl
  lu_top_coverage :: dbl
  lu_revealed_support_valid :: bool
  lu_revealed_support_stamp_sec :: dbl
  lu_revealed_support_z_map :: dbl
  lu_revealed_support_coverage :: dbl

record CargoLiftOriginResult =
  lw_valid :: bool
  lw_lift_confirmed :: bool
  lw_thickness_ready :: bool
  lw_state :: CargoLiftEventState
  lw_origin :: CargoOriginCandidate
  lw_lift_delta_m :: dbl
  lw_change_threshold_m :: dbl
  lw_static_thickness_m :: dbl
  lw_revealed_thickness_m :: dbl
  lw_lift_confirm_count :: int
  lw_thickness_confirm_count :: int
  lw_reason :: string

definition default_CargoLiftOriginResult :: CargoLiftOriginResult where
  "default_CargoLiftOriginResult =
     \<lparr>lw_valid = False, lw_lift_confirmed = False, lw_thickness_ready = False, lw_state = IDLE,
      lw_origin = default_CargoOriginCandidate, lw_lift_delta_m = Fin 0, lw_change_threshold_m = Fin 0.15,
      lw_static_thickness_m = NaN, lw_revealed_thickness_m = NaN, lw_lift_confirm_count = 0, lw_thickness_confirm_count = 0,
      lw_reason = ''idle''\<rparr>"

record CargoLiftOriginBinder =
  lx_config :: CargoLiftOriginConfig
  lx_result :: CargoLiftOriginResult
  lx_previous_loaded :: bool
  lx_last_stamp_sec :: dbl
  lx_last_valid_lift_stamp_sec :: dbl
  lx_last_valid_thickness_stamp_sec :: dbl
  lx_last_consumed_support_stamp_sec :: dbl
  lx_last_consumed_top_stamp_sec :: dbl
  lx_bound_component_id :: u64

section \<open>Candidates\<close>

definition lift_validConfig :: "CargoLiftOriginConfig \<Rightarrow> bool" where
  "lift_validConfig c \<longleftrightarrow>
     Fin 0 < lc_maximum_anchor_distance_m c \<and> Fin 0 < lc_minimum_significant_change_m c \<and> Fin 0 < lc_significance_sigma c \<and>
     Fin 0 \<le> lc_minimum_source_coverage c \<and> lc_minimum_source_coverage c \<le> Fin 1 \<and>
     Fin 0 \<le> lc_minimum_top_coverage c \<and> lc_minimum_top_coverage c \<le> Fin 1 \<and>
     Fin 0 \<le> lc_minimum_revealed_support_coverage c \<and> lc_minimum_revealed_support_coverage c \<le> Fin 1 \<and>
     0 < lc_lift_confirm_frames c \<and> 0 < lc_thickness_confirm_frames c \<and> Fin 0 < lc_maximum_observation_gap_sec c \<and>
     Fin 0 \<le> lc_maximum_source_age_sec c \<and> lc_minimum_height_m c < lc_maximum_height_m c"

fun sourcePriority :: "CargoOriginCandidateSource \<Rightarrow> int" where
  "sourcePriority OPERATOR_APPROVED_BASELINE = 4"
| "sourcePriority RUNTIME_MATURE_STATIC = 3"
| "sourcePriority RETIRED_FORMAL_SHAPE = 2"
| "sourcePriority CONFIGURED_ENVELOPE = 1"

definition formalStaticOrigin :: "CargoOriginCandidate \<Rightarrow> bool" where
  "formalStaticOrigin p \<longleftrightarrow>
     sz_formal_origin_authorized (authorizeStaticEvidence (ln_authority p)) \<and>
     (ln_source p = OPERATOR_APPROVED_BASELINE \<or> ln_source p = RUNTIME_MATURE_STATIC \<and> ln_predates_cargo_lifecycle p)"

definition origin_usable :: "CargoLiftOriginConfig \<Rightarrow> CargoOriginCandidate \<Rightarrow> bool" where
  "origin_usable c p \<longleftrightarrow>
     (let height = ln_top_z95_map p - ln_support_z_map p;
          provisional_source = (ln_source p = RETIRED_FORMAL_SHAPE \<or> ln_source p = CONFIGURED_ENVELOPE);
          authority_valid = (provisional_source \<or> formalStaticOrigin p) in
      vec2_allFinite (ln_center_map p) \<and> isfinite (ln_length_m p) \<and> Fin 0 < ln_length_m p \<and> isfinite (ln_width_m p) \<and>
      Fin 0 < ln_width_m p \<and> isfinite (ln_yaw_map_rad p) \<and> isfinite (ln_top_z95_map p) \<and> isfinite (ln_support_z_map p) \<and>
      isfinite (ln_uncertainty_m p) \<and> Fin 0 \<le> ln_uncertainty_m p \<and> authority_valid \<and> isfinite height \<and>
      lc_minimum_height_m c \<le> height \<and> height \<le> lc_maximum_height_m c)"

definition candidateScore :: "CargoLiftOriginInput \<Rightarrow> CargoOriginCandidate \<Rightarrow> dbl" where
  "candidateScore i p =
     (let distance = vec2_norm (vec2_sub (ln_center_map p) (lu_hook_anchor_map i));
          top_error = (if lu_current_top_valid i then \<bar>ln_top_z95_map p - lu_current_top_z_map i\<bar> else Fin 0) in
      (if formalStaticOrigin p then Fin 1000 else Fin 0) + Fin 100 * ln_candidate_overlap p + Fin 20 * ln_anchor_overlap p -
      Fin 5 * distance - top_error + Fin 2 * Fin (real_of_int (sourcePriority (ln_source p))) +
      Fin 0.001 * Fin (real (ln_point_count p)))"

definition origin_in_reach :: "CargoLiftOriginConfig \<Rightarrow> CargoLiftOriginInput \<Rightarrow> CargoOriginCandidate \<Rightarrow> bool" where
  "origin_in_reach c i p \<longleftrightarrow>
     origin_usable c p \<and>
     \<not> lc_maximum_anchor_distance_m c < vec2_norm (vec2_sub (ln_center_map p) (lu_hook_anchor_map i))"

text \<open>The loop \<^verbatim>\<open>if (!best || score > best_score) best = candidate\<close> over the candidates that pass the test.\<close>

definition best_candidate :: "(CargoOriginCandidate \<Rightarrow> dbl) \<Rightarrow> (CargoOriginCandidate \<Rightarrow> bool) \<Rightarrow> CargoOriginCandidate list \<Rightarrow>
    CargoOriginCandidate option" where
  "best_candidate score ok ps = pick_worst (\<lambda>x b. score b < score x) None (filter ok ps)"

section \<open>The method\<close>

definition lift_reset :: "CargoLiftOriginBinder \<Rightarrow> CargoLiftOriginBinder" where
  "lift_reset s = s\<lparr>lx_result := default_CargoLiftOriginResult, lx_previous_loaded := False, lx_last_stamp_sec := Fin 0,
     lx_last_valid_lift_stamp_sec := Fin 0, lx_last_valid_thickness_stamp_sec := Fin 0,
     lx_last_consumed_support_stamp_sec := Fin 0, lx_last_consumed_top_stamp_sec := Fin 0, lx_bound_component_id := 0\<rparr>"

definition lift_setConfig :: "CargoLiftOriginBinder \<Rightarrow> CargoLiftOriginConfig \<Rightarrow> CargoLiftOriginBinder" where
  "lift_setConfig s c = lift_reset (s\<lparr>lx_config := (if lift_validConfig c then c else default_CargoLiftOriginConfig)\<rparr>)"

definition lift_init :: "CargoLiftOriginConfig \<Rightarrow> CargoLiftOriginBinder" where
  "lift_init c = lift_setConfig
     \<lparr>lx_config = default_CargoLiftOriginConfig, lx_result = default_CargoLiftOriginResult, lx_previous_loaded = False,
      lx_last_stamp_sec = Fin 0, lx_last_valid_lift_stamp_sec = Fin 0, lx_last_valid_thickness_stamp_sec = Fin 0,
      lx_last_consumed_support_stamp_sec = Fin 0, lx_last_consumed_top_stamp_sec = Fin 0, lx_bound_component_id = 0\<rparr> c"

text \<open>A gap between frames breaks the confirmation windows that are not complete.\<close>

definition lift_gap :: "CargoLiftOriginBinder \<Rightarrow> CargoLiftOriginBinder" where
  "lift_gap s =
     (let r = lx_result s;
          s1 = (if lw_lift_confirmed r then s
                else s\<lparr>lx_result := r\<lparr>lw_lift_confirm_count := 0\<rparr>, lx_last_valid_lift_stamp_sec := Fin 0,
                       lx_last_consumed_top_stamp_sec := Fin 0\<rparr>)
      in if lw_thickness_ready r then s1
         else s1\<lparr>lx_result := (lx_result s1)\<lparr>lw_thickness_confirm_count := 0\<rparr>, lx_last_valid_thickness_stamp_sec := Fin 0,
                 lx_last_consumed_support_stamp_sec := Fin 0\<rparr>)"

definition lift_drop_stamps :: "CargoLiftOriginBinder \<Rightarrow> CargoLiftOriginBinder" where
  "lift_drop_stamps s = s\<lparr>lx_last_valid_lift_stamp_sec := Fin 0, lx_last_valid_thickness_stamp_sec := Fin 0,
     lx_last_consumed_support_stamp_sec := Fin 0, lx_last_consumed_top_stamp_sec := Fin 0\<rparr>"

definition thickness_of_origin :: "CargoOriginCandidate \<Rightarrow> dbl" where
  "thickness_of_origin p = ln_top_z95_map p - ln_support_z_map p"

text \<open>A bound origin must stay among the candidates; a provisional one gives way to a formal one.\<close>

definition lift_rebind :: "CargoLiftOriginBinder \<Rightarrow> CargoLiftOriginInput \<Rightarrow> CargoLiftOriginBinder" where
  "lift_rebind s i =
     (let r = lx_result s; c = lx_config s in
      if \<not> lw_valid r then s
      else if \<not> list_ex (\<lambda>p. ln_component_id p = ln_component_id (lw_origin r) \<and> ln_source p = ln_source (lw_origin r) \<and>
                 origin_usable c p) (lu_candidates i)
      then lift_drop_stamps (s\<lparr>lx_result := default_CargoLiftOriginResult
             \<lparr>lw_state := INVALID, lw_reason := ''origin_identity_changed''\<rparr>, lx_bound_component_id := 0\<rparr>)
      else if formalStaticOrigin (lw_origin r) then s
      else case best_candidate (candidateScore i) (\<lambda>p. origin_in_reach c i p \<and> formalStaticOrigin p) (lu_candidates i) of
             None \<Rightarrow> s
           | Some upgrade \<Rightarrow>
               lift_drop_stamps (s\<lparr>lx_result := default_CargoLiftOriginResult
                 \<lparr>lw_origin := upgrade, lw_valid := True, lw_state := ORIGIN_BINDING,
                  lw_static_thickness_m := thickness_of_origin upgrade, lw_reason := ''formal_static_origin_upgraded''\<rparr>,
                 lx_bound_component_id := ln_component_id upgrade\<rparr>))"

definition lift_bind :: "CargoLiftOriginBinder \<Rightarrow> CargoLiftOriginInput \<Rightarrow> CargoLiftOriginBinder" where
  "lift_bind s i =
     (let state = (if lu_node_started_loaded i \<and> \<not> lu_hook_was_empty i then LOADED_REACQUIRE else LOAD_DETECTED);
          r = default_CargoLiftOriginResult\<lparr>lw_state := state\<rparr>; bound = lx_bound_component_id s in
      if \<not> lu_anchor_valid i \<or> \<not> vec2_allFinite (lu_hook_anchor_map i)
      then s\<lparr>lx_result := r\<lparr>lw_state := INVALID, lw_reason := ''hook_anchor_invalid''\<rparr>\<rparr>
      else case best_candidate (\<lambda>p. candidateScore i p + (if ln_component_id p = bound then Fin 10 else Fin 0))
                  (origin_in_reach (lx_config s) i) (lu_candidates i) of
             None \<Rightarrow> s\<lparr>lx_result := r\<lparr>lw_state := INVALID, lw_reason := ''no_local_authorized_origin_candidate''\<rparr>\<rparr>
           | Some selected \<Rightarrow>
               s\<lparr>lx_result := r\<lparr>lw_origin := selected, lw_valid := True,
                   lw_static_thickness_m := thickness_of_origin selected, lw_state := ORIGIN_BINDING,
                   lw_reason := (if lu_node_started_loaded i then ''loaded_origin_reacquired'' else ''lift_origin_bound'')\<rparr>,
                 lx_bound_component_id := ln_component_id selected, lx_last_consumed_support_stamp_sec := Fin 0,
                 lx_last_consumed_top_stamp_sec := Fin 0\<rparr>)"

text \<open>The evidence of a frame about a bound origin.\<close>

definition change_threshold :: "CargoLiftOriginConfig \<Rightarrow> CargoOriginCandidate \<Rightarrow> CargoLiftOriginInput \<Rightarrow> dbl" where
  "change_threshold c p i =
     cpp_max (lc_minimum_significant_change_m c)
       (lc_significance_sigma c * dsqrt (ln_uncertainty_m p * ln_uncertainty_m p +
          lu_current_top_uncertainty_m i * lu_current_top_uncertainty_m i))"

definition source_fresh :: "CargoLiftOriginConfig \<Rightarrow> CargoLiftOriginInput \<Rightarrow> dbl \<Rightarrow> bool" where
  "source_fresh c i stamp \<longleftrightarrow> isfinite stamp \<and> Fin 0 < stamp \<and> \<bar>lu_stamp_sec i - stamp\<bar> \<le> lc_maximum_source_age_sec c"

definition top_valid :: "CargoLiftOriginConfig \<Rightarrow> CargoLiftOriginInput \<Rightarrow> bool" where
  "top_valid c i \<longleftrightarrow>
     lu_current_top_valid i \<and> source_fresh c i (lu_current_top_stamp_sec i) \<and> isfinite (lu_current_top_z_map i) \<and>
     lc_minimum_source_coverage c \<le> lu_source_coverage i \<and> lc_minimum_top_coverage c \<le> lu_top_coverage i"

definition lifted :: "CargoLiftOriginConfig \<Rightarrow> CargoOriginCandidate \<Rightarrow> CargoLiftOriginInput \<Rightarrow> bool" where
  "lifted c p i \<longleftrightarrow> top_valid c i \<and> change_threshold c p i \<le> lu_current_top_z_map i - ln_top_z95_map p"

definition revealed :: "CargoLiftOriginConfig \<Rightarrow> CargoOriginCandidate \<Rightarrow> CargoLiftOriginInput \<Rightarrow> bool" where
  "revealed c p i \<longleftrightarrow>
     lu_revealed_support_valid i \<and> source_fresh c i (lu_revealed_support_stamp_sec i) \<and>
     isfinite (lu_revealed_support_z_map i) \<and> lc_minimum_revealed_support_coverage c \<le> lu_revealed_support_coverage i \<and>
     change_threshold c p i \<le> ln_top_z95_map p - lu_revealed_support_z_map i"

definition thickness_valid :: "CargoLiftOriginConfig \<Rightarrow> CargoOriginCandidate \<Rightarrow> CargoLiftOriginInput \<Rightarrow> bool" where
  "thickness_valid c p i \<longleftrightarrow>
     revealed c p i \<and> lc_minimum_height_m c \<le> ln_top_z95_map p - lu_revealed_support_z_map i \<and>
     ln_top_z95_map p - lu_revealed_support_z_map i \<le> lc_maximum_height_m c"

definition kEvidenceStampEpsilonSec :: dbl where
  "kEvidenceStampEpsilonSec = Fin 0.000001"

text \<open>The lift window.\<close>

definition lift_count :: "CargoLiftOriginBinder \<Rightarrow> CargoLiftOriginInput \<Rightarrow> CargoLiftOriginBinder" where
  "lift_count s i =
     (let r = lx_result s; c = lx_config s; up = lifted c (lw_origin r) i;
          advanced = (up \<and> lx_last_consumed_top_stamp_sec s + kEvidenceStampEpsilonSec < lu_current_top_stamp_sec i);
          late = (Fin 0 < lx_last_valid_lift_stamp_sec s \<and>
                  lc_maximum_observation_gap_sec c < lu_stamp_sec i - lx_last_valid_lift_stamp_sec s);
          s1 = (if advanced
                then s\<lparr>lx_result := r\<lparr>lw_lift_confirm_count := (if late then 0 else lw_lift_confirm_count r) + 1\<rparr>,
                       lx_last_valid_lift_stamp_sec := lu_stamp_sec i,
                       lx_last_consumed_top_stamp_sec := lu_current_top_stamp_sec i\<rparr>
                else if \<not> up
                then s\<lparr>lx_result := r\<lparr>lw_lift_confirm_count := 0\<rparr>, lx_last_valid_lift_stamp_sec := Fin 0\<rparr>
                else s)
      in if lc_lift_confirm_frames c \<le> lw_lift_confirm_count (lx_result s1)
         then s1\<lparr>lx_result := (lx_result s1)\<lparr>lw_lift_confirmed := True\<rparr>\<rparr> else s1)"

text \<open>The thickness window.\<close>

definition thickness_count :: "CargoLiftOriginBinder \<Rightarrow> CargoLiftOriginInput \<Rightarrow> CargoLiftOriginBinder" where
  "thickness_count s i =
     (let r = lx_result s; c = lx_config s; p = lw_origin r; ok = thickness_valid c p i;
          advanced = (ok \<and> lx_last_consumed_support_stamp_sec s + kEvidenceStampEpsilonSec < lu_revealed_support_stamp_sec i);
          late = (Fin 0 < lx_last_valid_thickness_stamp_sec s \<and>
                  lc_maximum_observation_gap_sec c < lu_stamp_sec i - lx_last_valid_thickness_stamp_sec s);
          s1 = (if advanced
                then s\<lparr>lx_result := r\<lparr>lw_thickness_confirm_count := (if late then 0 else lw_thickness_confirm_count r) + 1,
                         lw_revealed_thickness_m := ln_top_z95_map p - lu_revealed_support_z_map i\<rparr>,
                       lx_last_valid_thickness_stamp_sec := lu_stamp_sec i,
                       lx_last_consumed_support_stamp_sec := lu_revealed_support_stamp_sec i\<rparr>
                else if \<not> ok
                then s\<lparr>lx_result := r\<lparr>lw_thickness_confirm_count := 0\<rparr>, lx_last_valid_thickness_stamp_sec := Fin 0\<rparr>
                else s);
          r1 = (lx_result s1)\<lparr>lw_state := THICKNESS_CONFIRMING,
                 lw_reason := (if \<not> ok then ''lift_confirmed_revealed_thickness_invalid''
                               else if advanced then ''lift_confirmed_thickness_pending''
                               else ''waiting_for_new_support_evidence'')\<rparr>
      in s1\<lparr>lx_result := (if lc_thickness_confirm_frames c \<le> lw_thickness_confirm_count r1
                          then r1\<lparr>lw_thickness_ready := True\<rparr> else r1)\<rparr>)"

definition lift_evaluate :: "CargoLiftOriginBinder \<Rightarrow> CargoLiftOriginInput \<Rightarrow> CargoLiftOriginBinder" where
  "lift_evaluate s i =
     (let c = lx_config s; r = lx_result s; p = lw_origin r;
          s1 = s\<lparr>lx_previous_loaded := True,
                 lx_result := r\<lparr>lw_change_threshold_m := change_threshold c p i,
                   lw_lift_delta_m := (if top_valid c i then lu_current_top_z_map i - ln_top_z95_map p else lw_lift_delta_m r)\<rparr>\<rparr>;
          s2 = (if lw_lift_confirmed r then s1 else lift_count s1 i) in
      if \<not> lw_lift_confirmed (lx_result s2)
      then s2\<lparr>lx_last_valid_thickness_stamp_sec := Fin 0,
              lx_result := (lx_result s2)\<lparr>lw_thickness_confirm_count := 0, lw_state := LIFT_CONFIRMING,
                lw_reason := (if lifted c p i \<and> \<not> lx_last_consumed_top_stamp_sec s + kEvidenceStampEpsilonSec < lu_current_top_stamp_sec i
                              then ''waiting_for_new_top_evidence'' else ''lift_confirmation_pending'')\<rparr>\<rparr>
      else
        let s3 = (if lw_thickness_ready (lx_result s2) then s2 else thickness_count s2 i)
        in if lw_thickness_ready (lx_result s3)
           then s3\<lparr>lx_result := (lx_result s3)\<lparr>lw_state := GEOMETRY_FROZEN, lw_reason := ''origin_and_revealed_thickness_confirmed''\<rparr>\<rparr>
           else s3)"

text \<open>The part for a loaded hook.\<close>

definition lift_loaded :: "CargoLiftOriginBinder \<Rightarrow> CargoLiftOriginInput \<Rightarrow> CargoLiftOriginBinder" where
  "lift_loaded s i =
     (let load_edge = (\<not> lx_previous_loaded s \<or> lu_hook_was_empty i); s1 = lift_rebind s i; r1 = lx_result s1;
          s2 = (if \<not> lw_valid r1 \<and> (load_edge \<or> lu_node_started_loaded i \<or> lw_state r1 = INVALID) then lift_bind s1 i else s1)
      in if \<not> lw_valid (lx_result s2) then s2\<lparr>lx_previous_loaded := True\<rparr> else lift_evaluate s2 i)"

definition lift_time_bad :: "CargoLiftOriginBinder \<Rightarrow> CargoLiftOriginInput \<Rightarrow> bool" where
  "lift_time_bad s i \<longleftrightarrow>
     \<not> isfinite (lu_stamp_sec i) \<or> lu_stamp_sec i \<le> Fin 0 \<or>
     Fin 0 < lx_last_stamp_sec s \<and> lu_stamp_sec i \<le> lx_last_stamp_sec s"

definition lift_gap_seen :: "CargoLiftOriginBinder \<Rightarrow> CargoLiftOriginInput \<Rightarrow> bool" where
  "lift_gap_seen s i \<longleftrightarrow>
     Fin 0 < lx_last_stamp_sec s \<and> lc_maximum_observation_gap_sec (lx_config s) < lu_stamp_sec i - lx_last_stamp_sec s"

definition lift_invalidate :: "string \<Rightarrow> CargoLiftOriginBinder \<Rightarrow> CargoLiftOriginInput \<Rightarrow> CargoLiftOriginBinder" where
  "lift_invalidate reason s i =
     s\<lparr>lx_result := (lx_result s)\<lparr>lw_state := INVALID, lw_valid := False, lw_reason := reason\<rparr>,
       lx_previous_loaded := lu_hook_loaded i\<rparr>"

definition lift_next :: "CargoLiftOriginBinder \<Rightarrow> CargoLiftOriginInput \<Rightarrow> CargoLiftOriginBinder" where
  "lift_next s i =
     (if lift_time_bad s i
      then (lift_invalidate ''source_time_invalid_or_rollback'' s i)
             \<lparr>lx_last_stamp_sec := lu_stamp_sec i, lx_last_consumed_support_stamp_sec := Fin 0, lx_last_consumed_top_stamp_sec := Fin 0\<rparr>
      else
        let s1 = s\<lparr>lx_last_stamp_sec := lu_stamp_sec i\<rparr>; s2 = (if lift_gap_seen s i then lift_gap s1 else s1) in
        if \<not> lu_hook_signal_valid i then lift_invalidate ''hook_signal_invalid'' s2 i
        else if \<not> lu_hook_loaded i
        then let ready = (lu_anchor_valid i \<and> lu_candidates i \<noteq> [])
             in s2\<lparr>lx_result := default_CargoLiftOriginResult
                     \<lparr>lw_state := (if ready then PRELOAD_BASELINE_READY else IDLE),
                      lw_reason := (if ready then ''preload_baseline_ready'' else ''waiting_for_preload_baseline'')\<rparr>,
                   lx_previous_loaded := False, lx_last_consumed_support_stamp_sec := Fin 0,
                   lx_last_consumed_top_stamp_sec := Fin 0\<rparr>
        else lift_loaded s2 i)"

definition lift_update :: "CargoLiftOriginBinder \<Rightarrow> CargoLiftOriginInput \<Rightarrow> CargoLiftOriginBinder \<times> CargoLiftOriginResult" where
  "lift_update s i = (let s' = lift_next s i in (s', lx_result s'))"

section \<open>Windows of stamped evidence\<close>

text \<open>Both confirmations count frames in the same way: the counter, the stamp of the last counted frame and the stamp of the
  source it consumed stand for the list of counted frames.\<close>

definition stamped_window :: "(CargoLiftOriginInput \<Rightarrow> dbl) \<Rightarrow> int \<Rightarrow> dbl \<Rightarrow> dbl \<Rightarrow> CargoLiftOriginInput list \<Rightarrow> bool" where
  "stamped_window src n frame_stamp source_stamp xs \<longleftrightarrow>
     n = int (length xs) \<and> (xs \<noteq> [] \<longrightarrow> frame_stamp = lu_stamp_sec (last xs) \<and> source_stamp = src (last xs))"

definition frames_linked :: "CargoLiftOriginConfig \<Rightarrow> (CargoLiftOriginInput \<Rightarrow> dbl) \<Rightarrow> CargoLiftOriginInput \<Rightarrow>
    CargoLiftOriginInput \<Rightarrow> bool" where
  "frames_linked c src i j \<longleftrightarrow>
     lu_stamp_sec i < lu_stamp_sec j \<and> \<not> lc_maximum_observation_gap_sec c < lu_stamp_sec j - lu_stamp_sec i \<and>
     src i + kEvidenceStampEpsilonSec < src j"

definition before :: "CargoLiftOriginInput list \<Rightarrow> dbl \<Rightarrow> bool" where
  "before xs t \<longleftrightarrow> (xs \<noteq> [] \<longrightarrow> Fin 0 < lu_stamp_sec (last xs) \<and> lu_stamp_sec (last xs) < t)"

lemma stamped_step:
  fixes c :: CargoLiftOriginConfig
  assumes "stamped_window src n lv lc xs" and "before xs (lu_stamp_sec i)" and "ok \<Longrightarrow> U i"
  defines "advanced \<equiv> ok \<and> lc + kEvidenceStampEpsilonSec < src i"
  defines "late \<equiv> Fin 0 < lv \<and> lc_maximum_observation_gap_sec c < lu_stamp_sec i - lv"
  shows "\<exists>ys. stamped_window src (if advanced then (if late then 0 else n) + 1 else if \<not> ok then 0 else n)
      (if advanced then lu_stamp_sec i else if \<not> ok then Fin 0 else lv) (if advanced then src i else lc) ys \<and>
    evolves U (frames_linked c src) xs i ys"
proof (cases "advanced \<and> \<not> late \<and> xs \<noteq> []")
  case True
  then have "frames_linked c src (last xs) i"
    using assms(1,2) by (simp add: frames_linked_def stamped_window_def before_def advanced_def late_def)
  then show ?thesis
    using True assms(1,3) by (intro exI [of _ "xs @ [i]"]) (simp add: stamped_window_def evolves_def advanced_def)
next
  case False
  show ?thesis
  proof (cases advanced)
    case True
    then have "(if late then 0 else n) = 0" using False assms(1) by (auto simp: stamped_window_def)
    then show ?thesis
      using True assms(3) by (intro exI [of _ "[i]"]) (simp add: stamped_window_def evolves_def advanced_def)
  next
    case False
    then show ?thesis
      using assms(1) by (intro exI [of _ "if ok then xs else []"]) (simp add: stamped_window_def evolves_def)
  qed
qed

section \<open>The lift window\<close>

definition frame_ok :: "CargoLiftOriginInput \<Rightarrow> bool" where
  "frame_ok i \<longleftrightarrow> isfinite (lu_stamp_sec i) \<and> Fin 0 < lu_stamp_sec i \<and> lu_hook_signal_valid i \<and> lu_hook_loaded i"

definition lift_frame :: "CargoLiftOriginConfig \<Rightarrow> CargoOriginCandidate \<Rightarrow> CargoLiftOriginInput \<Rightarrow> bool" where
  "lift_frame c p i \<longleftrightarrow> frame_ok i \<and> lifted c p i"

abbreviation lift_linked :: "CargoLiftOriginConfig \<Rightarrow> CargoLiftOriginInput \<Rightarrow> CargoLiftOriginInput \<Rightarrow> bool" where
  "lift_linked c \<equiv> frames_linked c lu_current_top_stamp_sec"

definition lift_core :: "CargoLiftOriginConfig \<Rightarrow> CargoOriginCandidate \<Rightarrow> CargoLiftOriginBinder \<Rightarrow> CargoLiftOriginInput list \<Rightarrow> bool" where
  "lift_core c p s xs \<longleftrightarrow>
     lx_config s = c \<and>
     (if lw_valid (lx_result s) \<and> lw_origin (lx_result s) = p
      then if lw_lift_confirmed (lx_result s) then lc_lift_confirm_frames c \<le> int (length xs)
           else stamped_window lu_current_top_stamp_sec (lw_lift_confirm_count (lx_result s)) (lx_last_valid_lift_stamp_sec s)
                  (lx_last_consumed_top_stamp_sec s) xs
      else xs = [])"

lemma fresh_result [simp]:
  "\<not> lw_valid default_CargoLiftOriginResult" "\<not> lw_lift_confirmed default_CargoLiftOriginResult"
  "\<not> lw_thickness_ready default_CargoLiftOriginResult" "lw_lift_confirm_count default_CargoLiftOriginResult = 0"
  "lw_thickness_confirm_count default_CargoLiftOriginResult = 0"
  by (simp_all add: default_CargoLiftOriginResult_def)

lemma stamped_Nil [simp]: "stamped_window src n lv lc [] \<longleftrightarrow> n = 0"
  by (auto simp: stamped_window_def)

lemma lift_gap_core: "lift_core c p s xs \<Longrightarrow> \<exists>ys \<in> {xs, []}. lift_core c p (lift_gap s) ys"
  by (auto simp: lift_core_def lift_gap_def Let_def split: if_splits)

lemma lift_rebind_core: "lift_core c p s xs \<Longrightarrow> \<exists>ys \<in> {xs, []}. lift_core c p (lift_rebind s i) ys"
  by (auto simp: lift_core_def lift_rebind_def lift_drop_stamps_def Let_def split: option.splits)

lemma lift_bind_core: "lx_config s = c \<Longrightarrow> lift_core c p (lift_bind s i) []"
  by (auto simp: lift_core_def lift_bind_def Let_def split: option.splits)

text \<open>What the thickness part leaves alone.\<close>

lemma thickness_count_keeps [simp]:
  "lx_config (thickness_count s i) = lx_config s" "lw_valid (lx_result (thickness_count s i)) = lw_valid (lx_result s)"
  "lw_origin (lx_result (thickness_count s i)) = lw_origin (lx_result s)"
  "lw_lift_confirmed (lx_result (thickness_count s i)) = lw_lift_confirmed (lx_result s)"
  by (simp_all add: thickness_count_def Let_def)

lemma lift_count_fields [simp]:
  "lx_config (lift_count s i) = lx_config s" "lw_valid (lx_result (lift_count s i)) = lw_valid (lx_result s)"
  "lw_origin (lx_result (lift_count s i)) = lw_origin (lx_result s)"
  "lw_thickness_ready (lx_result (lift_count s i)) = lw_thickness_ready (lx_result s)"
  "lw_thickness_confirm_count (lx_result (lift_count s i)) = lw_thickness_confirm_count (lx_result s)"
  "lx_last_valid_thickness_stamp_sec (lift_count s i) = lx_last_valid_thickness_stamp_sec s"
  "lx_last_consumed_support_stamp_sec (lift_count s i) = lx_last_consumed_support_stamp_sec s"
  by (simp_all add: lift_count_def Let_def)

lemma lift_count_core:
  assumes "lift_core c p s xs" and "lw_valid (lx_result s)" and "\<not> lw_lift_confirmed (lx_result s)"
    and "before xs (lu_stamp_sec i)" and "frame_ok i"
  shows "\<exists>ys. lift_core c p (lift_count s i) ys \<and> evolves (lift_frame c p) (lift_linked c) xs i ys"
proof (cases "lw_origin (lx_result s) = p")
  case False
  then show ?thesis using assms(1,2) by (intro exI [of _ "[]"]) (simp add: lift_core_def evolves_def)
next
  case True
  have window: "stamped_window lu_current_top_stamp_sec (lw_lift_confirm_count (lx_result s)) (lx_last_valid_lift_stamp_sec s)
                  (lx_last_consumed_top_stamp_sec s) xs"
    and c: "lx_config s = c"
    using True assms(1-3) by (simp_all add: lift_core_def)
  have ok: "lifted c p i \<Longrightarrow> lift_frame c p i" using assms(5) by (simp add: lift_frame_def)
  let ?advanced = "lifted c p i \<and> lx_last_consumed_top_stamp_sec s + kEvidenceStampEpsilonSec < lu_current_top_stamp_sec i"
  let ?late = "Fin 0 < lx_last_valid_lift_stamp_sec s \<and>
    lc_maximum_observation_gap_sec c < lu_stamp_sec i - lx_last_valid_lift_stamp_sec s"
  have counted: "lw_lift_confirm_count (lx_result (lift_count s i)) = (if ?advanced then (if ?late then 0 else
      lw_lift_confirm_count (lx_result s)) + 1 else if \<not> lifted c p i then 0 else lw_lift_confirm_count (lx_result s))"
    "lx_last_valid_lift_stamp_sec (lift_count s i) = (if ?advanced then lu_stamp_sec i else if \<not> lifted c p i then Fin 0
      else lx_last_valid_lift_stamp_sec s)"
    "lx_last_consumed_top_stamp_sec (lift_count s i) = (if ?advanced then lu_current_top_stamp_sec i
      else lx_last_consumed_top_stamp_sec s)"
    using True c by (simp_all add: lift_count_def Let_def)
  from stamped_step [OF window assms(4), of "lifted c p i" "lift_frame c p" c, OF ok] obtain ys where
    ys: "stamped_window lu_current_top_stamp_sec (lw_lift_confirm_count (lx_result (lift_count s i)))
      (lx_last_valid_lift_stamp_sec (lift_count s i)) (lx_last_consumed_top_stamp_sec (lift_count s i)) ys"
    "evolves (lift_frame c p) (lift_linked c) xs i ys"
    unfolding counted by blast
  have "lw_lift_confirmed (lx_result (lift_count s i)) \<longleftrightarrow> lc_lift_confirm_frames c \<le> lw_lift_confirm_count (lx_result (lift_count s i))"
    using assms(3) c by (simp add: lift_count_def Let_def)
  then have "lift_core c p (lift_count s i) ys"
    using ys(1) True assms(2) c by (auto simp: lift_core_def stamped_window_def)
  then show ?thesis using ys(2) by blast
qed

section \<open>The method on a window\<close>

lemma last_stamp_kept [simp]:
  "lx_last_stamp_sec (lift_drop_stamps s) = lx_last_stamp_sec s"
  "lx_last_stamp_sec (lift_count s i) = lx_last_stamp_sec s"
  "lx_last_stamp_sec (thickness_count s i) = lx_last_stamp_sec s"
  by (simp_all add: lift_drop_stamps_def lift_count_def thickness_count_def Let_def)

lemma last_stamp_bound [simp]: "lx_last_stamp_sec (lift_bind s i) = lx_last_stamp_sec s"
  by (simp add: lift_bind_def Let_def split: option.split)

lemma last_stamp_rebound [simp]: "lx_last_stamp_sec (lift_rebind s i) = lx_last_stamp_sec s"
  by (simp add: lift_rebind_def Let_def split: option.split)

lemma last_stamp_evaluated [simp]: "lx_last_stamp_sec (lift_evaluate s i) = lx_last_stamp_sec s"
  by (simp add: lift_evaluate_def Let_def)

lemma last_stamp_loaded [simp]: "lx_last_stamp_sec (lift_loaded s i) = lx_last_stamp_sec s"
  by (simp add: lift_loaded_def Let_def)

text \<open>What the method needs of a window in order to carry it: the parts of the method drop it or keep it, the
  evaluation of a bound origin evolves it by the frame.\<close>

locale binder_window =
  fixes cfg :: CargoLiftOriginConfig
    and core :: "CargoLiftOriginBinder \<Rightarrow> CargoLiftOriginInput list \<Rightarrow> bool"
    and usable :: "CargoLiftOriginInput \<Rightarrow> bool"
    and linked :: "CargoLiftOriginInput \<Rightarrow> CargoLiftOriginInput \<Rightarrow> bool"
    and positive :: "CargoLiftOriginResult \<Rightarrow> bool"
    and required :: int
  assumes core_config: "core s xs \<Longrightarrow> lx_config s = cfg"
    and core_frame: "core (s\<lparr>lx_last_stamp_sec := t, lx_previous_loaded := b\<rparr>) xs \<longleftrightarrow> core s xs"
    and core_unbound: "lx_config s = cfg \<Longrightarrow> \<not> lw_valid (lx_result s) \<Longrightarrow> core s []"
    and core_gap: "core s xs \<Longrightarrow> \<exists>ys \<in> {xs, []}. core (lift_gap s) ys"
    and core_rebind: "core s xs \<Longrightarrow> \<exists>ys \<in> {xs, []}. core (lift_rebind s i) ys"
    and core_bind: "lx_config s = cfg \<Longrightarrow> core (lift_bind s i) []"
    and core_evaluate: "core s xs \<Longrightarrow> lw_valid (lx_result s) \<Longrightarrow> before xs (lu_stamp_sec i) \<Longrightarrow> frame_ok i \<Longrightarrow>
      \<exists>ys. core (lift_evaluate s i) ys \<and> evolves usable linked xs i ys"
    and core_positive: "core s xs \<Longrightarrow> positive (lx_result s) \<Longrightarrow> required \<le> int (length xs)"
begin

definition window :: "CargoLiftOriginBinder \<Rightarrow> CargoLiftOriginInput list \<Rightarrow> bool" where
  "window s xs \<longleftrightarrow> core s xs \<and>
     (xs \<noteq> [] \<longrightarrow> (\<exists>a b. lu_stamp_sec (last xs) = Fin a \<and> lx_last_stamp_sec s = Fin b \<and> 0 < a \<and> a \<le> b))"

lemma evolves_kept: "zs \<in> {xs, []} \<Longrightarrow> evolves usable linked zs i ys \<Longrightarrow> evolves usable linked xs i ys"
  by (auto simp: evolves_def)

lemma before_kept: "zs \<in> {xs, []} \<Longrightarrow> before xs t \<Longrightarrow> before zs t"
  by (auto simp: before_def)

lemma loaded_core:
  assumes "core s xs" and "before xs (lu_stamp_sec i)" and "frame_ok i"
  shows "\<exists>ys. core (lift_loaded s i) ys \<and> evolves usable linked xs i ys"
proof -
  obtain zs where zs: "zs \<in> {xs, []}" "core (lift_rebind s i) zs" using core_rebind [OF assms(1)] by blast
  define s2 where "s2 = (if \<not> lw_valid (lx_result (lift_rebind s i)) \<and> (\<not> lx_previous_loaded s \<or> lu_hook_was_empty i \<or>
      lu_node_started_loaded i \<or> lw_state (lx_result (lift_rebind s i)) = INVALID)
    then lift_bind (lift_rebind s i) i else lift_rebind s i)"
  have "\<exists>us \<in> {xs, []}. core s2 us"
    using zs core_bind [OF core_config [OF zs(2)], of i] by (auto simp: s2_def)
  then obtain us where us: "us \<in> {xs, []}" "core s2 us" by blast
  have loaded: "lift_loaded s i = (if \<not> lw_valid (lx_result s2) then s2\<lparr>lx_previous_loaded := True\<rparr> else lift_evaluate s2 i)"
    by (simp add: lift_loaded_def s2_def Let_def)
  show ?thesis
  proof (cases "lw_valid (lx_result s2)")
    case True
    from core_evaluate [OF us(2) True before_kept [OF us(1) assms(2)] assms(3)] obtain ys where
      "core (lift_evaluate s2 i) ys" "evolves usable linked us i ys" by blast
    then show ?thesis using True loaded evolves_kept [OF us(1)] by auto
  next
    case False
    have "core (s2\<lparr>lx_last_stamp_sec := lx_last_stamp_sec s2, lx_previous_loaded := True\<rparr>) us"
      unfolding core_frame by (rule us(2))
    then show ?thesis using False us(1) unfolding loaded by (intro exI [of _ us]) (auto simp: evolves_def)
  qed
qed

lemma next_window:
  assumes "window s xs"
  shows "\<exists>ys. window (lift_next s i) ys \<and> evolves usable linked xs i ys"
proof -
  have cfg: "lx_config s = cfg" using assms core_config by (auto simp: window_def)
  have none: ?thesis if "lx_config (lift_next s i) = cfg" "\<not> lw_valid (lx_result (lift_next s i))"
    using core_unbound [OF that] by (intro exI [of _ "[]"]) (simp add: window_def evolves_def)
  define s2 where "s2 = (let s1 = s\<lparr>lx_last_stamp_sec := lu_stamp_sec i\<rparr> in if lift_gap_seen s i then lift_gap s1 else s1)"
  have s2: "lx_last_stamp_sec s2 = lu_stamp_sec i" "lx_config s2 = cfg" using cfg by (simp_all add: s2_def lift_gap_def Let_def)
  show ?thesis
  proof (cases "\<not> lift_time_bad s i \<and> lu_hook_signal_valid i \<and> lu_hook_loaded i")
    case False
    then have "lx_config (lift_next s i) = cfg \<and> \<not> lw_valid (lx_result (lift_next s i))"
      using cfg by (auto simp: lift_next_def lift_invalidate_def lift_gap_def Let_def)
    then show ?thesis using none by blast
  next
    case True
    then obtain t where t: "lu_stamp_sec i = Fin t" "0 < t" by (auto simp: lift_time_bad_def isfinite_iff)
    have ok: "frame_ok i" using True t by (simp add: frame_ok_def)
    have before: "before xs (lu_stamp_sec i)"
      using assms True t by (auto simp: before_def window_def lift_time_bad_def)
    have "core (s\<lparr>lx_last_stamp_sec := lu_stamp_sec i, lx_previous_loaded := lx_previous_loaded s\<rparr>) xs"
      using assms unfolding core_frame window_def by blast
    then have "\<exists>zs \<in> {xs, []}. core s2 zs" using core_gap by (auto simp: s2_def Let_def)
    then obtain zs where zs: "zs \<in> {xs, []}" "core s2 zs" by blast
    obtain ys where ys: "core (lift_loaded s2 i) ys" "evolves usable linked zs i ys"
      using loaded_core [OF zs(2) before_kept [OF zs(1) before] ok] by blast
    have next_eq: "lift_next s i = lift_loaded s2 i" using True by (simp add: lift_next_def s2_def Let_def)
    have stamp: "lx_last_stamp_sec (lift_loaded s2 i) = Fin t"
      using s2(1) t(1) by simp
    have "\<exists>a. lu_stamp_sec (last ys) = Fin a \<and> 0 < a \<and> a \<le> t" if "ys \<noteq> []"
      using that ys(2) zs(1) assms before t by (auto simp: evolves_def window_def before_def)
    then have "window (lift_next s i) ys" using ys(1) stamp unfolding next_eq window_def by auto
    then show ?thesis using evolves_kept [OF zs(1) ys(2)] by blast
  qed
qed

end

sublocale binder_window \<subseteq> held_evidence_machine lift_update window usable linked positive required
proof
  fix s xs i assume "window s xs"
  then obtain ys where ys: "window (lift_next s i) ys" "evolves usable linked xs i ys" using next_window by blast
  then have "positive (lx_result (lift_next s i)) \<longrightarrow> required \<le> int (length ys)"
    using core_positive by (auto simp: window_def)
  then show "\<exists>ys. window (fst (lift_update s i)) ys \<and> evolves usable linked xs i ys \<and>
      (positive (snd (lift_update s i)) \<longrightarrow> required \<le> int (length ys))"
    using ys by (auto simp: lift_update_def Let_def)
qed

section \<open>Both confirmations\<close>

definition lift_positive :: "CargoOriginCandidate \<Rightarrow> CargoLiftOriginResult \<Rightarrow> bool" where
  "lift_positive p r \<longleftrightarrow> lw_valid r \<and> lw_origin r = p \<and> lw_lift_confirmed r"

definition thickness_positive :: "CargoOriginCandidate \<Rightarrow> CargoLiftOriginResult \<Rightarrow> bool" where
  "thickness_positive p r \<longleftrightarrow> lw_valid r \<and> lw_origin r = p \<and> lw_thickness_ready r"

lemma evaluate_config [simp]: "lx_config (lift_evaluate s i) = lx_config s"
  by (simp add: lift_evaluate_def Let_def)

lemma evaluate_origin [simp]:
  "lw_valid (lx_result (lift_evaluate s i)) = lw_valid (lx_result s)"
  "lw_origin (lx_result (lift_evaluate s i)) = lw_origin (lx_result s)"
  by (simp_all add: lift_evaluate_def Let_def)

text \<open>The record the evaluation starts with: threshold and height difference are written, the windows are not.\<close>

definition observed :: "CargoLiftOriginBinder \<Rightarrow> CargoLiftOriginInput \<Rightarrow> CargoLiftOriginBinder" where
  "observed s i = s\<lparr>lx_previous_loaded := True,
     lx_result := (lx_result s)\<lparr>lw_change_threshold_m := change_threshold (lx_config s) (lw_origin (lx_result s)) i,
       lw_lift_delta_m := (if top_valid (lx_config s) i then lu_current_top_z_map i - ln_top_z95_map (lw_origin (lx_result s))
                           else lw_lift_delta_m (lx_result s))\<rparr>\<rparr>"

lemma observed_fields [simp]:
  "lx_config (observed s i) = lx_config s" "lw_valid (lx_result (observed s i)) = lw_valid (lx_result s)"
  "lw_origin (lx_result (observed s i)) = lw_origin (lx_result s)"
  "lw_lift_confirmed (lx_result (observed s i)) = lw_lift_confirmed (lx_result s)"
  "lw_thickness_ready (lx_result (observed s i)) = lw_thickness_ready (lx_result s)"
  "lw_lift_confirm_count (lx_result (observed s i)) = lw_lift_confirm_count (lx_result s)"
  "lw_thickness_confirm_count (lx_result (observed s i)) = lw_thickness_confirm_count (lx_result s)"
  "lx_last_valid_lift_stamp_sec (observed s i) = lx_last_valid_lift_stamp_sec s"
  "lx_last_consumed_top_stamp_sec (observed s i) = lx_last_consumed_top_stamp_sec s"
  "lx_last_valid_thickness_stamp_sec (observed s i) = lx_last_valid_thickness_stamp_sec s"
  "lx_last_consumed_support_stamp_sec (observed s i) = lx_last_consumed_support_stamp_sec s"
  by (simp_all add: observed_def)

definition counted :: "CargoLiftOriginBinder \<Rightarrow> CargoLiftOriginInput \<Rightarrow> CargoLiftOriginBinder" where
  "counted s i = (if lw_lift_confirmed (lx_result s) then observed s i else lift_count (observed s i) i)"

lemma counted_fields [simp]:
  "lx_config (counted s i) = lx_config s" "lw_valid (lx_result (counted s i)) = lw_valid (lx_result s)"
  "lw_origin (lx_result (counted s i)) = lw_origin (lx_result s)"
  "lw_thickness_ready (lx_result (counted s i)) = lw_thickness_ready (lx_result s)"
  "lw_thickness_confirm_count (lx_result (counted s i)) = lw_thickness_confirm_count (lx_result s)"
  "lx_last_valid_thickness_stamp_sec (counted s i) = lx_last_valid_thickness_stamp_sec s"
  "lx_last_consumed_support_stamp_sec (counted s i) = lx_last_consumed_support_stamp_sec s"
  by (simp_all add: counted_def)

text \<open>How the evaluation ends.\<close>

lemma lift_evaluate_cases:
  obtains (pending) "\<not> lw_lift_confirmed (lx_result (counted s i))" "\<not> lw_lift_confirmed (lx_result (lift_evaluate s i))"
      "lw_thickness_ready (lx_result (lift_evaluate s i)) = lw_thickness_ready (lx_result s)"
      "lw_thickness_confirm_count (lx_result (lift_evaluate s i)) = 0"
      "lw_lift_confirm_count (lx_result (lift_evaluate s i)) = lw_lift_confirm_count (lx_result (counted s i))"
      "lx_last_valid_lift_stamp_sec (lift_evaluate s i) = lx_last_valid_lift_stamp_sec (counted s i)"
      "lx_last_consumed_top_stamp_sec (lift_evaluate s i) = lx_last_consumed_top_stamp_sec (counted s i)"
  | (frozen) "lw_lift_confirmed (lx_result (counted s i))" "lw_lift_confirmed (lx_result (lift_evaluate s i))"
      "lw_thickness_ready (lx_result s)" "lw_thickness_ready (lx_result (lift_evaluate s i))"
  | (measured) "lw_lift_confirmed (lx_result (counted s i))" "lw_lift_confirmed (lx_result (lift_evaluate s i))"
      "\<not> lw_thickness_ready (lx_result s)"
      "lw_thickness_ready (lx_result (lift_evaluate s i)) = lw_thickness_ready (lx_result (thickness_count (counted s i) i))"
      "lw_thickness_confirm_count (lx_result (lift_evaluate s i)) = lw_thickness_confirm_count (lx_result (thickness_count (counted s i) i))"
      "lx_last_valid_thickness_stamp_sec (lift_evaluate s i) = lx_last_valid_thickness_stamp_sec (thickness_count (counted s i) i)"
      "lx_last_consumed_support_stamp_sec (lift_evaluate s i) = lx_last_consumed_support_stamp_sec (thickness_count (counted s i) i)"
proof -
  have unfolded: "lift_evaluate s i =
     (if \<not> lw_lift_confirmed (lx_result (counted s i))
      then (counted s i)\<lparr>lx_last_valid_thickness_stamp_sec := Fin 0,
              lx_result := (lx_result (counted s i))\<lparr>lw_thickness_confirm_count := 0, lw_state := LIFT_CONFIRMING,
                lw_reason := (if lifted (lx_config s) (lw_origin (lx_result s)) i \<and>
                    \<not> lx_last_consumed_top_stamp_sec s + kEvidenceStampEpsilonSec < lu_current_top_stamp_sec i
                  then ''waiting_for_new_top_evidence'' else ''lift_confirmation_pending'')\<rparr>\<rparr>
      else
        let s3 = (if lw_thickness_ready (lx_result s) then counted s i else thickness_count (counted s i) i)
        in if lw_thickness_ready (lx_result s3)
           then s3\<lparr>lx_result := (lx_result s3)\<lparr>lw_state := GEOMETRY_FROZEN, lw_reason := ''origin_and_revealed_thickness_confirmed''\<rparr>\<rparr>
           else s3)"
    by (simp add: lift_evaluate_def counted_def observed_def Let_def cong: if_cong)
  consider "\<not> lw_lift_confirmed (lx_result (counted s i))"
    | "lw_lift_confirmed (lx_result (counted s i))" "lw_thickness_ready (lx_result s)"
    | "lw_lift_confirmed (lx_result (counted s i))" "\<not> lw_thickness_ready (lx_result s)" by blast
  then show ?thesis
  proof cases
    case 1
    then show ?thesis by (intro pending) (simp_all add: unfolded)
  next
    case 2
    then show ?thesis by (intro frozen) (simp_all add: unfolded Let_def)
  next
    case 3
    then show ?thesis by (intro measured) (simp_all add: unfolded Let_def)
  qed
qed

lemma lift_core_observed: "lift_core c p (observed s i) xs \<longleftrightarrow> lift_core c p s xs"
  by (simp add: lift_core_def)

lemma lift_core_evaluate:
  assumes "lift_core c p s xs" and "lw_valid (lx_result s)" and "before xs (lu_stamp_sec i)" and "frame_ok i"
  shows "\<exists>ys. lift_core c p (lift_evaluate s i) ys \<and> evolves (lift_frame c p) (lift_linked c) xs i ys"
proof -
  have "\<exists>ys. lift_core c p (counted s i) ys \<and> evolves (lift_frame c p) (lift_linked c) xs i ys"
  proof (cases "lw_lift_confirmed (lx_result s)")
    case True
    then have "lift_core c p (counted s i) xs" using assms(1) by (simp add: counted_def lift_core_observed)
    then show ?thesis by (intro exI [of _ xs]) (simp add: evolves_def)
  next
    case False
    then show ?thesis
      using lift_count_core [of c p "observed s i" xs i] assms by (simp add: counted_def lift_core_observed)
  qed
  then obtain ys where ys: "lift_core c p (counted s i) ys" "evolves (lift_frame c p) (lift_linked c) xs i ys" by blast
  then have "lift_core c p (lift_evaluate s i) ys"
    by (cases rule: lift_evaluate_cases [of s i]) (auto simp: lift_core_def)
  then show ?thesis using ys(2) by blast
qed

interpretation lift: binder_window c "lift_core c p" "lift_frame c p" "lift_linked c" "lift_positive p" "lc_lift_confirm_frames c"
  for c p
proof
  show "lift_core c p s xs \<Longrightarrow> lx_config s = c" for s xs by (simp add: lift_core_def)
  show "lift_core c p (s\<lparr>lx_last_stamp_sec := t, lx_previous_loaded := b\<rparr>) xs \<longleftrightarrow> lift_core c p s xs" for s t b xs
    by (simp add: lift_core_def)
  show "lx_config s = c \<Longrightarrow> \<not> lw_valid (lx_result s) \<Longrightarrow> lift_core c p s []" for s by (simp add: lift_core_def)
  show "lift_core c p s xs \<Longrightarrow> lift_positive p (lx_result s) \<Longrightarrow> lc_lift_confirm_frames c \<le> int (length xs)" for s xs
    by (simp add: lift_core_def lift_positive_def)
qed (fact lift_gap_core lift_rebind_core lift_bind_core lift_core_evaluate)+

definition thickness_frame :: "CargoLiftOriginConfig \<Rightarrow> CargoOriginCandidate \<Rightarrow> CargoLiftOriginInput \<Rightarrow> bool" where
  "thickness_frame c p i \<longleftrightarrow> frame_ok i \<and> thickness_valid c p i"

abbreviation thickness_linked :: "CargoLiftOriginConfig \<Rightarrow> CargoLiftOriginInput \<Rightarrow> CargoLiftOriginInput \<Rightarrow> bool" where
  "thickness_linked c \<equiv> frames_linked c lu_revealed_support_stamp_sec"

definition thickness_core :: "CargoLiftOriginConfig \<Rightarrow> CargoOriginCandidate \<Rightarrow> CargoLiftOriginBinder \<Rightarrow> CargoLiftOriginInput list \<Rightarrow> bool" where
  "thickness_core c p s xs \<longleftrightarrow>
     lx_config s = c \<and>
     (if lw_valid (lx_result s) \<and> lw_origin (lx_result s) = p
      then if lw_thickness_ready (lx_result s)
           then lw_lift_confirmed (lx_result s) \<and> lc_thickness_confirm_frames c \<le> int (length xs)
           else stamped_window lu_revealed_support_stamp_sec (lw_thickness_confirm_count (lx_result s))
                  (lx_last_valid_thickness_stamp_sec s) (lx_last_consumed_support_stamp_sec s) xs
      else xs = [])"

lemma thickness_gap_core: "thickness_core c p s xs \<Longrightarrow> \<exists>ys \<in> {xs, []}. thickness_core c p (lift_gap s) ys"
  by (auto simp: thickness_core_def lift_gap_def Let_def split: if_splits)

lemma thickness_rebind_core: "thickness_core c p s xs \<Longrightarrow> \<exists>ys \<in> {xs, []}. thickness_core c p (lift_rebind s i) ys"
  by (auto simp: thickness_core_def lift_rebind_def lift_drop_stamps_def Let_def split: option.splits)

lemma thickness_bind_core: "lx_config s = c \<Longrightarrow> thickness_core c p (lift_bind s i) []"
  by (auto simp: thickness_core_def lift_bind_def Let_def split: option.splits)

lemma thickness_count_core:
  assumes "thickness_core c p s xs" and "lw_valid (lx_result s)" and "\<not> lw_thickness_ready (lx_result s)"
    and "lw_lift_confirmed (lx_result s)" and "before xs (lu_stamp_sec i)" and "frame_ok i"
  shows "\<exists>ys. thickness_core c p (thickness_count s i) ys \<and> evolves (thickness_frame c p) (thickness_linked c) xs i ys"
proof (cases "lw_origin (lx_result s) = p")
  case False
  then show ?thesis using assms(1,2) by (intro exI [of _ "[]"]) (simp add: thickness_core_def evolves_def)
next
  case True
  have window: "stamped_window lu_revealed_support_stamp_sec (lw_thickness_confirm_count (lx_result s))
      (lx_last_valid_thickness_stamp_sec s) (lx_last_consumed_support_stamp_sec s) xs"
    and c: "lx_config s = c"
    using True assms(1-3) by (simp_all add: thickness_core_def)
  have ok: "thickness_valid c p i \<Longrightarrow> thickness_frame c p i" using assms(6) by (simp add: thickness_frame_def)
  let ?advanced = "thickness_valid c p i \<and> lx_last_consumed_support_stamp_sec s + kEvidenceStampEpsilonSec < lu_revealed_support_stamp_sec i"
  let ?late = "Fin 0 < lx_last_valid_thickness_stamp_sec s \<and>
    lc_maximum_observation_gap_sec c < lu_stamp_sec i - lx_last_valid_thickness_stamp_sec s"
  have counted: "lw_thickness_confirm_count (lx_result (thickness_count s i)) = (if ?advanced then (if ?late then 0 else
      lw_thickness_confirm_count (lx_result s)) + 1 else if \<not> thickness_valid c p i then 0 else lw_thickness_confirm_count (lx_result s))"
    "lx_last_valid_thickness_stamp_sec (thickness_count s i) = (if ?advanced then lu_stamp_sec i else if \<not> thickness_valid c p i then Fin 0
      else lx_last_valid_thickness_stamp_sec s)"
    "lx_last_consumed_support_stamp_sec (thickness_count s i) = (if ?advanced then lu_revealed_support_stamp_sec i
      else lx_last_consumed_support_stamp_sec s)"
    using True c by (simp_all add: thickness_count_def Let_def)
  from stamped_step [OF window assms(5), of "thickness_valid c p i" "thickness_frame c p" c, OF ok] obtain ys where
    ys: "stamped_window lu_revealed_support_stamp_sec (lw_thickness_confirm_count (lx_result (thickness_count s i)))
      (lx_last_valid_thickness_stamp_sec (thickness_count s i)) (lx_last_consumed_support_stamp_sec (thickness_count s i)) ys"
    "evolves (thickness_frame c p) (thickness_linked c) xs i ys"
    unfolding counted by blast
  have "lw_thickness_ready (lx_result (thickness_count s i)) \<longleftrightarrow>
      lc_thickness_confirm_frames c \<le> lw_thickness_confirm_count (lx_result (thickness_count s i))"
    using assms(3) c by (simp add: thickness_count_def Let_def)
  then have "thickness_core c p (thickness_count s i) ys"
    using ys(1) True assms(2,4) c by (auto simp: thickness_core_def stamped_window_def)
  then show ?thesis using ys(2) by blast
qed

lemma thickness_core_evaluate:
  assumes "thickness_core c p s xs" and "lw_valid (lx_result s)" and "before xs (lu_stamp_sec i)" and "frame_ok i"
  shows "\<exists>ys. thickness_core c p (lift_evaluate s i) ys \<and> evolves (thickness_frame c p) (thickness_linked c) xs i ys"
proof (cases rule: lift_evaluate_cases [of s i])
  case pending
  have "lw_lift_confirmed (lx_result s) \<Longrightarrow> lw_lift_confirmed (lx_result (counted s i))" by (simp add: counted_def)
  then show ?thesis
    using pending assms(1,2) by (intro exI [of _ "[]"]) (auto simp: thickness_core_def evolves_def split: if_splits)
next
  case frozen
  then show ?thesis
    using assms(1,2) by (intro exI [of _ xs]) (auto simp: thickness_core_def evolves_def)
next
  case measured
  have "thickness_core c p (counted s i) xs"
    using assms(1) measured(3) by (simp add: thickness_core_def)
  from thickness_count_core [OF this _ _ measured(1) assms(3,4)] obtain ys where
    ys: "thickness_core c p (thickness_count (counted s i) i) ys" "evolves (thickness_frame c p) (thickness_linked c) xs i ys"
    using assms(2) measured(3) by auto
  then have "thickness_core c p (lift_evaluate s i) ys"
    using measured by (auto simp: thickness_core_def)
  then show ?thesis using ys(2) by blast
qed

interpretation thickness: binder_window c "thickness_core c p" "thickness_frame c p" "thickness_linked c" "thickness_positive p"
  "lc_thickness_confirm_frames c" for c p
proof
  show "thickness_core c p s xs \<Longrightarrow> lx_config s = c" for s xs by (simp add: thickness_core_def)
  show "thickness_core c p (s\<lparr>lx_last_stamp_sec := t, lx_previous_loaded := b\<rparr>) xs \<longleftrightarrow> thickness_core c p s xs" for s t b xs
    by (simp add: thickness_core_def)
  show "lx_config s = c \<Longrightarrow> \<not> lw_valid (lx_result s) \<Longrightarrow> thickness_core c p s []" for s by (simp add: thickness_core_def)
  show "thickness_core c p s xs \<Longrightarrow> thickness_positive p (lx_result s) \<Longrightarrow> lc_thickness_confirm_frames c \<le> int (length xs)" for s xs
    by (simp add: thickness_core_def thickness_positive_def)
qed (fact thickness_gap_core thickness_rebind_core thickness_bind_core thickness_core_evaluate)+

lemma lift_init_windows:
  "lift.window (lx_config (lift_init c)) p (lift_init c) []" "thickness.window (lx_config (lift_init c)) p (lift_init c) []"
  by (simp_all add: lift.window_def thickness.window_def lift_core_def thickness_core_def lift_init_def lift_setConfig_def lift_reset_def)

text \<open>C25. A confirmed lift of a valid result rests on a chain of at least \<^verbatim>\<open>lift_confirm_frames\<close> of the frames received so
  far: each has a loaded hook with a valid signal and a fresh, covered top at least the change threshold above the top of the
  origin the result names; the frames follow each other within the observation gap, and each brings a newer top observation.\<close>

theorem lift_confirmed_backed:
  assumes "k < length is" and "lw_valid (run_outputs lift_update (lift_init c) is ! k)"
    and "lw_lift_confirmed (run_outputs lift_update (lift_init c) is ! k)"
  shows "\<exists>ys. subseq ys (take (Suc k) is) \<and>
    list_all (lift_frame (lx_config (lift_init c)) (lw_origin (run_outputs lift_update (lift_init c) is ! k))) ys \<and>
    successively (lift_linked (lx_config (lift_init c))) ys \<and>
    lc_lift_confirm_frames (lx_config (lift_init c)) \<le> int (length ys)"
  by (rule lift.positive_backed [OF lift_init_windows(1) assms(1)]) (simp add: lift_positive_def assms(2,3))

text \<open>A ready thickness of a valid result rests on a chain of at least \<^verbatim>\<open>thickness_confirm_frames\<close> of the frames received
  so far: each has a loaded hook and a fresh, covered support revealed below the origin the result names, by at least the
  change threshold and by a height within the configured limits; each brings a newer observation of the support.\<close>

theorem thickness_ready_backed:
  assumes "k < length is" and "lw_valid (run_outputs lift_update (lift_init c) is ! k)"
    and "lw_thickness_ready (run_outputs lift_update (lift_init c) is ! k)"
  shows "\<exists>ys. subseq ys (take (Suc k) is) \<and>
    list_all (thickness_frame (lx_config (lift_init c)) (lw_origin (run_outputs lift_update (lift_init c) is ! k))) ys \<and>
    successively (thickness_linked (lx_config (lift_init c))) ys \<and>
    lc_thickness_confirm_frames (lx_config (lift_init c)) \<le> int (length ys)"
  by (rule thickness.positive_backed [OF lift_init_windows(2) assms(1)]) (simp add: thickness_positive_def assms(2,3))

section \<open>An example\<close>

definition demo_lift_config :: CargoLiftOriginConfig where
  "demo_lift_config = default_CargoLiftOriginConfig\<lparr>lc_lift_confirm_frames := 2, lc_thickness_confirm_frames := 1\<rparr>"

definition demo_origin :: CargoOriginCandidate where
  "demo_origin = default_CargoOriginCandidate
     \<lparr>ln_component_id := 3, ln_source := OPERATOR_APPROVED_BASELINE, ln_authority := StaticEvidenceAuthority.OPERATOR_APPROVED_BASELINE,
      ln_length_m := Fin 1, ln_width_m := Fin 1, ln_top_z95_map := Fin 1, ln_support_z_map := Fin 0, ln_uncertainty_m := Fin 0\<rparr>"

definition demo_lift_input :: "real \<Rightarrow> CargoLiftOriginInput" where
  "demo_lift_input t =
     \<lparr>lu_stamp_sec = Fin t, lu_hook_signal_valid = True, lu_hook_loaded = True, lu_hook_was_empty = False,
      lu_node_started_loaded = False, lu_anchor_valid = True, lu_hook_anchor_map = vec2_zero, lu_candidates = [demo_origin],
      lu_current_top_valid = True, lu_current_top_stamp_sec = Fin t, lu_current_top_z_map = Fin 2,
      lu_current_top_uncertainty_m = Fin 0, lu_source_coverage = Fin 1, lu_top_coverage = Fin 1,
      lu_revealed_support_valid = True, lu_revealed_support_stamp_sec = Fin t, lu_revealed_support_z_map = Fin 0,
      lu_revealed_support_coverage = Fin 1\<rparr>"

lemma demo_lift_config_kept: "lx_config (lift_init demo_lift_config) = demo_lift_config"
  by (simp add: lift_init_def lift_setConfig_def lift_reset_def lift_validConfig_def demo_lift_config_def default_CargoLiftOriginConfig_def)

lemma demo_limits [simp]:
  "lc_lift_confirm_frames demo_lift_config = 2" "lc_thickness_confirm_frames demo_lift_config = 1"
  "lc_maximum_observation_gap_sec demo_lift_config = Fin (1 / 2)"
  by (simp_all add: demo_lift_config_def default_CargoLiftOriginConfig_def)

lemma demo_input_fields [simp]:
  "lu_stamp_sec (demo_lift_input t) = Fin t" "lu_hook_signal_valid (demo_lift_input t)" "lu_hook_loaded (demo_lift_input t)"
  "\<not> lu_node_started_loaded (demo_lift_input t)" "lu_anchor_valid (demo_lift_input t)" "lu_candidates (demo_lift_input t) = [demo_origin]"
  "vec2_allFinite (lu_hook_anchor_map (demo_lift_input t))" "lu_current_top_stamp_sec (demo_lift_input t) = Fin t"
  "lu_revealed_support_stamp_sec (demo_lift_input t) = Fin t"
  by (simp_all add: demo_lift_input_def vec2_allFinite_def vec2_zero_def)

lemma demo_origin_ok:
  "origin_usable demo_lift_config demo_origin" "formalStaticOrigin demo_origin" "origin_in_reach demo_lift_config (demo_lift_input t) demo_origin"
proof -
  show formal: "formalStaticOrigin demo_origin" by (simp add: formalStaticOrigin_def demo_origin_def authorizeStaticEvidence_def)
  show usable: "origin_usable demo_lift_config demo_origin"
    using formal by (simp add: origin_usable_def Let_def) (simp add: demo_origin_def demo_lift_config_def default_CargoLiftOriginConfig_def
        default_CargoOriginCandidate_def vec2_allFinite_def vec2_zero_def)
  show "origin_in_reach demo_lift_config (demo_lift_input t) demo_origin"
    using usable by (simp add: origin_in_reach_def) (simp add: demo_origin_def demo_lift_config_def default_CargoLiftOriginConfig_def
        default_CargoOriginCandidate_def demo_lift_input_def vec2_zero_def vec2_sub_def vec2_norm_def)
qed

lemma demo_evidence: "0 < t \<Longrightarrow> lifted demo_lift_config demo_origin (demo_lift_input t)"
  "0 < t \<Longrightarrow> thickness_valid demo_lift_config demo_origin (demo_lift_input t)"
  by (simp_all add: lifted_def thickness_valid_def revealed_def top_valid_def source_fresh_def change_threshold_def demo_lift_config_def
      default_CargoLiftOriginConfig_def demo_origin_def default_CargoOriginCandidate_def demo_lift_input_def)

lemma demo_bound:
  assumes "lx_config s = demo_lift_config"
  shows "lift_bind s (demo_lift_input t) = s\<lparr>lx_result := default_CargoLiftOriginResult
     \<lparr>lw_state := ORIGIN_BINDING, lw_origin := demo_origin, lw_valid := True, lw_static_thickness_m := thickness_of_origin demo_origin,
      lw_reason := ''lift_origin_bound''\<rparr>, lx_bound_component_id := 3, lx_last_consumed_support_stamp_sec := Fin 0,
     lx_last_consumed_top_stamp_sec := Fin 0\<rparr>"
proof -
  have "ln_component_id demo_origin = 3" by (simp add: demo_origin_def)
  then show ?thesis
    using demo_origin_ok(3) [of t] by (simp add: lift_bind_def best_candidate_def assms Let_def default_CargoLiftOriginResult_def)
qed

lemma counted_advanced:
  assumes "\<not> lw_lift_confirmed (lx_result s)" and "lifted (lx_config s) (lw_origin (lx_result s)) i"
    and "lx_last_consumed_top_stamp_sec s + kEvidenceStampEpsilonSec < lu_current_top_stamp_sec i"
    and "\<not> (Fin 0 < lx_last_valid_lift_stamp_sec s \<and>
      lc_maximum_observation_gap_sec (lx_config s) < lu_stamp_sec i - lx_last_valid_lift_stamp_sec s)"
  shows "lw_lift_confirm_count (lx_result (counted s i)) = lw_lift_confirm_count (lx_result s) + 1"
    "lw_lift_confirmed (lx_result (counted s i)) \<longleftrightarrow> lc_lift_confirm_frames (lx_config s) \<le> lw_lift_confirm_count (lx_result s) + 1"
    "lx_last_valid_lift_stamp_sec (counted s i) = lu_stamp_sec i"
    "lx_last_consumed_top_stamp_sec (counted s i) = lu_current_top_stamp_sec i"
  using assms by (auto simp: counted_def lift_count_def Let_def)

text \<open>After the first frame the origin is bound and one frame is counted; the second confirms lift and thickness.\<close>

lemma demo_first:
  defines "s \<equiv> lift_next (lift_init demo_lift_config) (demo_lift_input 1)"
  shows "lx_config s = demo_lift_config" "lw_valid (lx_result s)" "lw_origin (lx_result s) = demo_origin"
    "\<not> lw_lift_confirmed (lx_result s)" "\<not> lw_thickness_ready (lx_result s)" "lw_lift_confirm_count (lx_result s) = 1"
    "lw_thickness_confirm_count (lx_result s) = 0" "lx_last_stamp_sec s = Fin 1" "lx_last_consumed_top_stamp_sec s = Fin 1"
    "lx_last_consumed_support_stamp_sec s = Fin 0" "lx_last_valid_lift_stamp_sec s = Fin 1"
proof -
  let ?s0 = "(lift_init demo_lift_config)\<lparr>lx_last_stamp_sec := Fin 1\<rparr>" let ?i = "demo_lift_input 1"
  have s0: "lx_config ?s0 = demo_lift_config" "\<not> lw_valid (lx_result ?s0)" "\<not> lx_previous_loaded ?s0"
    "lx_last_stamp_sec (lift_init demo_lift_config) = Fin 0" "lx_last_valid_lift_stamp_sec ?s0 = Fin 0"
    using demo_lift_config_kept by simp_all (simp_all add: lift_init_def lift_setConfig_def lift_reset_def)
  define b where "b = lift_bind ?s0 ?i"
  have b: "lx_config b = demo_lift_config" "lw_valid (lx_result b)" "lw_origin (lx_result b) = demo_origin"
    "\<not> lw_lift_confirmed (lx_result b)" "\<not> lw_thickness_ready (lx_result b)" "lw_lift_confirm_count (lx_result b) = 0"
    "lx_last_stamp_sec b = Fin 1" "lx_last_consumed_top_stamp_sec b = Fin 0" "lx_last_consumed_support_stamp_sec b = Fin 0"
    "lx_last_valid_lift_stamp_sec b = Fin 0"
    unfolding b_def demo_bound [OF s0(1)] using s0(5) demo_lift_config_kept by simp_all
  have "s = lift_loaded ?s0 ?i"
    unfolding s_def using s0(4) by (simp add: lift_next_def lift_time_bad_def lift_gap_seen_def Let_def)
  also have "\<dots> = lift_evaluate b ?i"
    using s0(2,3) b(2) unfolding b_def by (simp add: lift_loaded_def lift_rebind_def Let_def)
  finally have s: "s = lift_evaluate b ?i" .
  note c = counted_advanced [of b ?i, OF b(4)]
  have advanced: "lw_lift_confirm_count (lx_result (counted b ?i)) = 1" "\<not> lw_lift_confirmed (lx_result (counted b ?i))"
    "lx_last_valid_lift_stamp_sec (counted b ?i) = Fin 1" "lx_last_consumed_top_stamp_sec (counted b ?i) = Fin 1"
    using demo_evidence(1) [of 1] by (subst c; simp add: b kEvidenceStampEpsilonSec_def)+
  show "lx_config s = demo_lift_config" "lw_valid (lx_result s)" "lw_origin (lx_result s) = demo_origin" "lx_last_stamp_sec s = Fin 1"
    using b by (simp_all add: s)
  show "\<not> lw_lift_confirmed (lx_result s)" "\<not> lw_thickness_ready (lx_result s)" "lw_lift_confirm_count (lx_result s) = 1"
    "lw_thickness_confirm_count (lx_result s) = 0" "lx_last_consumed_top_stamp_sec s = Fin 1" "lx_last_valid_lift_stamp_sec s = Fin 1"
    unfolding s using advanced b(5) by (cases rule: lift_evaluate_cases [of b ?i]; simp)+
  show "lx_last_consumed_support_stamp_sec s = Fin 0"
    unfolding s using advanced(2) b(9) by (simp add: lift_evaluate_def counted_def observed_def b(4) Let_def)
qed

lemma demo_second:
  defines "r \<equiv> lx_result (lift_next (lift_next (lift_init demo_lift_config) (demo_lift_input 1)) (demo_lift_input (5 / 4)))"
  shows "lw_valid r" "lw_origin r = demo_origin" "lw_lift_confirmed r" "lw_thickness_ready r"
proof -
  define s where "s = lift_next (lift_init demo_lift_config) (demo_lift_input 1)"
  let ?i = "demo_lift_input (5 / 4)"
  note s = demo_first [folded s_def]
  define b where "b = s\<lparr>lx_last_stamp_sec := Fin (5 / 4)\<rparr>"
  have b: "lx_config b = demo_lift_config" "lw_valid (lx_result b)" "lw_origin (lx_result b) = demo_origin"
    "\<not> lw_lift_confirmed (lx_result b)" "\<not> lw_thickness_ready (lx_result b)" "lw_lift_confirm_count (lx_result b) = 1"
    "lx_last_consumed_top_stamp_sec b = Fin 1" "lx_last_consumed_support_stamp_sec b = Fin 0"
    "lx_last_valid_lift_stamp_sec b = Fin 1" "lw_thickness_confirm_count (lx_result b) = 0"
    using s by (simp_all add: b_def)
  have "lift_rebind b ?i = b" using b demo_origin_ok(1,2) by (simp add: lift_rebind_def Let_def)
  then have "lift_loaded b ?i = lift_evaluate b ?i" using b by (simp add: lift_loaded_def Let_def)
  then have r: "r = lx_result (lift_evaluate b ?i)"
    unfolding r_def s_def [symmetric] b_def using s(1,8) by (simp add: lift_next_def lift_time_bad_def lift_gap_seen_def Let_def)
  note c = counted_advanced [of b ?i, OF b(4)]
  have advanced: "lw_lift_confirmed (lx_result (counted b ?i))"
    using demo_evidence(1) [of "5 / 4"] by (subst c) (simp_all add: b kEvidenceStampEpsilonSec_def)
  have "lw_thickness_ready (lx_result (thickness_count (counted b ?i) ?i))"
    using demo_evidence(2) [of "5 / 4"] b(8,10) by (auto simp: thickness_count_def b kEvidenceStampEpsilonSec_def Let_def)
  then show "lw_lift_confirmed r" "lw_thickness_ready r"
    unfolding r using advanced b(5) by (cases rule: lift_evaluate_cases [of b ?i]; simp)+
  show "lw_valid r" "lw_origin r = demo_origin" using b by (simp_all add: r)
qed

lemma demo_run: "run_outputs lift_update (lift_init demo_lift_config) [demo_lift_input 1, demo_lift_input (5 / 4)] ! 1 =
    lx_result (lift_next (lift_next (lift_init demo_lift_config) (demo_lift_input 1)) (demo_lift_input (5 / 4)))"
  by (simp add: lift_update_def Let_def)

theorem lift_confirmed_backed_witness:
  "lw_lift_confirmed (run_outputs lift_update (lift_init demo_lift_config) [demo_lift_input 1, demo_lift_input (5 / 4)] ! 1) \<and>
   (\<exists>ys. list_all (lift_frame demo_lift_config demo_origin) ys \<and> successively (lift_linked demo_lift_config) ys \<and> 2 \<le> length ys)"
  using lift_confirmed_backed [of 1 "[demo_lift_input 1, demo_lift_input (5 / 4)]" demo_lift_config] demo_second
  unfolding demo_run by (auto simp: demo_lift_config_kept)

theorem thickness_ready_backed_witness:
  "lw_thickness_ready (run_outputs lift_update (lift_init demo_lift_config) [demo_lift_input 1, demo_lift_input (5 / 4)] ! 1) \<and>
   (\<exists>ys. list_all (thickness_frame demo_lift_config demo_origin) ys \<and> 1 \<le> length ys)"
  using thickness_ready_backed [of 1 "[demo_lift_input 1, demo_lift_input (5 / 4)]" demo_lift_config] demo_second
  unfolding demo_run by (auto simp: demo_lift_config_kept)

section \<open>The bound origin\<close>

lemma pick_worst_mem: "pick_worst better b xs = Some w \<Longrightarrow> b = Some w \<or> w \<in> set xs"
  by (induction better b xs rule: pick_worst.induct) (auto split: if_splits)

lemma best_candidate_mem: "best_candidate score ok ps = Some p \<Longrightarrow> p \<in> set ps \<and> ok p"
  by (auto simp: best_candidate_def dest: pick_worst_mem)

lemma best_candidate_some: "p \<in> set ps \<Longrightarrow> ok p \<Longrightarrow> best_candidate score ok ps \<noteq> None"
proof -
  have some: "pick_worst better (Some b) xs \<noteq> None" for better and b :: CargoOriginCandidate and xs
    by (induction xs arbitrary: b) auto
  assume "p \<in> set ps" "ok p"
  then obtain q qs where "filter ok ps = q # qs" by (cases "filter ok ps") (auto simp: filter_empty_conv)
  then show ?thesis using some by (simp add: best_candidate_def)
qed

text \<open>Where the origin of a valid result comes from.\<close>

definition origin_seen :: "CargoLiftOriginConfig \<Rightarrow> CargoLiftOriginInput list \<Rightarrow> CargoOriginCandidate \<Rightarrow> bool" where
  "origin_seen c is p \<longleftrightarrow> (\<exists>i \<in> set is. p \<in> set (lu_candidates i) \<and> origin_in_reach c i p \<and> lu_hook_loaded i)"

lemma rebind_origin:
  "lw_valid (lx_result (lift_rebind s i)) \<Longrightarrow> lu_hook_loaded i \<Longrightarrow>
   lw_valid (lx_result s) \<and> lw_origin (lx_result (lift_rebind s i)) = lw_origin (lx_result s) \<or>
   origin_seen (lx_config s) [i] (lw_origin (lx_result (lift_rebind s i)))"
  by (auto simp: lift_rebind_def lift_drop_stamps_def origin_seen_def Let_def dest: best_candidate_mem split: if_splits option.splits)

lemma bind_origin:
  "lw_valid (lx_result (lift_bind s i)) \<Longrightarrow> lu_hook_loaded i \<Longrightarrow>
   origin_seen (lx_config s) [i] (lw_origin (lx_result (lift_bind s i)))"
  by (auto simp: lift_bind_def origin_seen_def Let_def dest: best_candidate_mem split: if_splits option.splits)

lemma rebind_config [simp]: "lx_config (lift_rebind s i) = lx_config s"
  by (simp add: lift_rebind_def lift_drop_stamps_def Let_def split: option.split)

lemma gap_origin [simp]:
  "lx_config (lift_gap s) = lx_config s" "lw_valid (lx_result (lift_gap s)) = lw_valid (lx_result s)"
  "lw_origin (lx_result (lift_gap s)) = lw_origin (lx_result s)"
  by (simp_all add: lift_gap_def Let_def)

lemma loaded_origin:
  assumes "lw_valid (lx_result (lift_loaded s i))" and "lu_hook_loaded i"
  shows "lw_valid (lx_result s) \<and> lw_origin (lx_result (lift_loaded s i)) = lw_origin (lx_result s) \<or>
    origin_seen (lx_config s) [i] (lw_origin (lx_result (lift_loaded s i)))"
  using assms rebind_origin [of s i] bind_origin [of "lift_rebind s i" i]
  by (auto simp: lift_loaded_def Let_def split: if_splits)

lemma loaded_config [simp]: "lx_config (lift_loaded s i) = lx_config s"
  by (simp add: lift_loaded_def lift_bind_def Let_def split: option.split)

lemma next_config [simp]: "lx_config (lift_next s i) = lx_config s"
  by (simp add: lift_next_def lift_invalidate_def Let_def)

lemma next_origin:
  assumes "lw_valid (lx_result (lift_next s i))"
  shows "lw_valid (lx_result s) \<and> lw_origin (lx_result (lift_next s i)) = lw_origin (lx_result s) \<or>
    origin_seen (lx_config s) [i] (lw_origin (lx_result (lift_next s i)))"
proof -
  define s2 where "s2 = (let s1 = s\<lparr>lx_last_stamp_sec := lu_stamp_sec i\<rparr> in if lift_gap_seen s i then lift_gap s1 else s1)"
  have s2: "lx_config s2 = lx_config s" "lw_valid (lx_result s2) = lw_valid (lx_result s)"
    "lw_origin (lx_result s2) = lw_origin (lx_result s)"
    by (simp_all add: s2_def Let_def)
  have "lift_next s i = lift_loaded s2 i \<and> lu_hook_loaded i"
    using assms by (auto simp: lift_next_def lift_invalidate_def s2_def Let_def split: if_splits)
  then show ?thesis using assms loaded_origin [of s2 i] s2 by auto
qed

lemma lift_run_snoc: "run_state lift_update s (is @ [i]) = lift_next (run_state lift_update s is) i"
  by (simp add: run_state_append lift_update_def Let_def)

lemma lift_run_config: "lx_config (run_state lift_update s is) = lx_config s"
  by (induction "is" rule: rev_induct) (simp_all add: lift_run_snoc)

lemma origin_run:
  assumes "\<not> lw_valid (lx_result s)" and "lw_valid (lx_result (run_state lift_update s is))"
  shows "origin_seen (lx_config s) is (lw_origin (lx_result (run_state lift_update s is)))"
  using assms(2)
proof (induction "is" rule: rev_induct)
  case Nil
  then show ?case using assms(1) by simp
next
  case (snoc i "is")
  from next_origin [OF snoc.prems [unfolded lift_run_snoc]] show ?case
    using snoc.IH by (auto simp: lift_run_snoc lift_run_config origin_seen_def)
qed

text \<open>C26. The origin of a valid result was a candidate of a frame received so far with a loaded hook; it passed every test
  of a usable candidate and was within the anchor distance of the hook of that frame, so an origin from the static map has an
  authority for formal origins. Its thickness is ready only after the lift is confirmed.\<close>

theorem lift_origin_sound:
  assumes "k < length is" and "lw_valid (run_outputs lift_update (lift_init c) is ! k)"
  shows "(\<exists>i \<in> set (take (Suc k) is). lw_origin (run_outputs lift_update (lift_init c) is ! k) \<in> set (lu_candidates i) \<and>
      lu_hook_loaded i \<and> origin_in_reach (lx_config (lift_init c)) i (lw_origin (run_outputs lift_update (lift_init c) is ! k))) \<and>
    (lw_thickness_ready (run_outputs lift_update (lift_init c) is ! k) \<longrightarrow> lw_lift_confirmed (run_outputs lift_update (lift_init c) is ! k))"
proof -
  let ?r = "run_outputs lift_update (lift_init c) is ! k"
  have run: "?r = lx_result (run_state lift_update (lift_init c) (take (Suc k) is))"
    using assms(1) by (simp add: run_outputs_nth take_Suc_conv_app_nth lift_run_snoc) (simp add: lift_update_def Let_def)
  have start: "\<not> lw_valid (lx_result (lift_init c))" by (simp add: lift_init_def lift_setConfig_def lift_reset_def)
  have "origin_seen (lx_config (lift_init c)) (take (Suc k) is) (lw_origin ?r)"
    using origin_run [OF start] assms(2) unfolding run by blast
  moreover obtain xs where "thickness.window (lx_config (lift_init c)) (lw_origin ?r) (run_state lift_update (lift_init c) (take (Suc k) is)) xs"
    using thickness.run_window [OF lift_init_windows(2)] by blast
  then have "lw_thickness_ready ?r \<longrightarrow> lw_lift_confirmed ?r"
    using assms(2) unfolding thickness.window_def thickness_core_def run by auto
  ultimately show ?thesis by (auto simp: origin_seen_def)
qed

theorem lift_origin_sound_witness:
  "\<exists>i \<in> set [demo_lift_input 1, demo_lift_input (5 / 4)]. demo_origin \<in> set (lu_candidates i) \<and> origin_in_reach demo_lift_config i demo_origin"
  using lift_origin_sound [of 1 "[demo_lift_input 1, demo_lift_input (5 / 4)]" demo_lift_config] demo_second
  unfolding demo_run by (auto simp: demo_lift_config_kept)

text \<open>A provisional origin does not outlive a formal one: if the origin was bound before the frame, the frame still lists it and
  has a formal static candidate within reach, then the origin after the frame is a formal one.\<close>

theorem formal_origin_wins:
  assumes "lw_valid (lx_result s)" and "\<not> lift_time_bad s i" and "lu_hook_signal_valid i" and "lu_hook_loaded i"
    and "q \<in> set (lu_candidates i)" and "ln_component_id q = ln_component_id (lw_origin (lx_result s))"
    and "ln_source q = ln_source (lw_origin (lx_result s))" and "origin_usable (lx_config s) q"
    and "p \<in> set (lu_candidates i)" and "origin_in_reach (lx_config s) i p" and "formalStaticOrigin p"
  shows "lw_valid (snd (lift_update s i)) \<and> formalStaticOrigin (lw_origin (snd (lift_update s i)))"
proof -
  define s2 where "s2 = (let s1 = s\<lparr>lx_last_stamp_sec := lu_stamp_sec i\<rparr> in if lift_gap_seen s i then lift_gap s1 else s1)"
  have s2: "lx_config s2 = lx_config s" "lw_valid (lx_result s2)" "lw_origin (lx_result s2) = lw_origin (lx_result s)"
    using assms(1) by (simp_all add: s2_def Let_def)
  have next_eq: "lift_next s i = lift_loaded s2 i" using assms(2-4) by (simp add: lift_next_def s2_def Let_def)
  have present: "list_ex (\<lambda>q. ln_component_id q = ln_component_id (lw_origin (lx_result s2)) \<and>
      ln_source q = ln_source (lw_origin (lx_result s2)) \<and> origin_usable (lx_config s2) q) (lu_candidates i)"
    using assms(5-8) s2 by (auto simp: list_ex_iff)
  have "lw_valid (lx_result (lift_rebind s2 i)) \<and> formalStaticOrigin (lw_origin (lx_result (lift_rebind s2 i)))"
  proof (cases "formalStaticOrigin (lw_origin (lx_result s2))")
    case True
    then show ?thesis using present s2(2) by (simp add: lift_rebind_def Let_def)
  next
    case False
    obtain u where u: "best_candidate (candidateScore i) (\<lambda>p. origin_in_reach (lx_config s2) i p \<and> formalStaticOrigin p) (lu_candidates i) = Some u"
      using best_candidate_some [OF assms(9), of "\<lambda>p. origin_in_reach (lx_config s2) i p \<and> formalStaticOrigin p" "candidateScore i"]
        assms(10,11) s2(1) by auto
    then have "lift_rebind s2 i = lift_drop_stamps (s2\<lparr>lx_result := default_CargoLiftOriginResult
                 \<lparr>lw_origin := u, lw_valid := True, lw_state := ORIGIN_BINDING,
                  lw_static_thickness_m := thickness_of_origin u, lw_reason := ''formal_static_origin_upgraded''\<rparr>,
                 lx_bound_component_id := ln_component_id u\<rparr>)"
      using False present s2(2) by (simp add: lift_rebind_def Let_def)
    then show ?thesis using best_candidate_mem [OF u] by (simp add: lift_drop_stamps_def)
  qed
  then show ?thesis by (simp add: lift_update_def next_eq lift_loaded_def Let_def)
qed

theorem formal_origin_wins_witness:
  "formalStaticOrigin (lw_origin (snd (lift_update (lift_next (lift_init demo_lift_config) (demo_lift_input 1)) (demo_lift_input (5 / 4)))))"
proof -
  note s = demo_first
  show ?thesis
    by (rule conjunct2 [OF formal_origin_wins [where q = demo_origin and p = demo_origin]])
      (use s demo_origin_ok in \<open>simp_all add: lift_time_bad_def\<close>)
qed

end
