(* ===== verification/Motion_Corridor.thy ===== *)
theory Motion_Corridor
  imports Oriented_Footprint
begin

text \<open>
  The spatial filter of obstacles (\<^verbatim>\<open>cargo_motion_corridor.hpp/.cpp\<close>): which obstacles the cargo can meet on its way. Near
  obstacles and obstacles of a cargo without a direction are always eligible; the others must lie in the corridor ahead of
  the cargo and in its forward sector. Angles of the sector are degrees.
\<close>

section \<open>Data\<close>

datatype CargoSafetySpatialMode = RADIAL_FALLBACK | MOTION_CORRIDOR | STATIONARY_GUARD

fun cargoSafetySpatialModeName :: "CargoSafetySpatialMode \<Rightarrow> string" where
  "cargoSafetySpatialModeName MOTION_CORRIDOR = ''MOTION_CORRIDOR''"
| "cargoSafetySpatialModeName STATIONARY_GUARD = ''STATIONARY_GUARD''"
| "cargoSafetySpatialModeName RADIAL_FALLBACK = ''RADIAL_FALLBACK''"

record CargoMotionCorridorConfig =
  mv_enabled :: bool
  mv_immediate_near_field_m :: dbl
  mv_minimum_motion_speed_mps :: dbl
  mv_prediction_horizon_sec :: dbl
  mv_minimum_prediction_distance_m :: dbl
  mv_forward_half_angle_deg :: dbl
  mv_lateral_margin_m :: dbl
  mv_rear_margin_m :: dbl
  mv_velocity_alpha :: dbl
  mv_maximum_velocity_sample_gap_sec :: dbl

definition default_CargoMotionCorridorConfig :: CargoMotionCorridorConfig where
  "default_CargoMotionCorridorConfig =
     \<lparr>mv_enabled = True, mv_immediate_near_field_m = Fin 0.3, mv_minimum_motion_speed_mps = Fin 0.05,
      mv_prediction_horizon_sec = Fin 3, mv_minimum_prediction_distance_m = Fin 8, mv_forward_half_angle_deg = Fin 45,
      mv_lateral_margin_m = Fin 0.3, mv_rear_margin_m = Fin 0.3, mv_velocity_alpha = Fin 0.35,
      mv_maximum_velocity_sample_gap_sec = Fin 0.8\<rparr>"

record CargoMotionCorridorInput =
  mu_cargo_center_map :: vec2
  mu_cargo_velocity_map :: vec2
  mu_velocity_valid :: bool
  mu_cargo_length_m :: dbl
  mu_cargo_width_m :: dbl
  mu_cargo_yaw_map_rad :: dbl
  mu_horizontal_uncertainty_m :: dbl
  mu_obstacle_nearest_map :: vec2
  mu_obstacle_centroid_map :: vec2
  mu_current_footprint_distance_m :: dbl
  mu_acquisition_only :: bool

record CargoMotionCorridorDecision =
  mw_valid :: bool
  mw_eligible :: bool
  mw_mode :: CargoSafetySpatialMode
  mw_speed_mps :: dbl
  mw_along_track_m :: dbl
  mw_lateral_distance_m :: dbl
  mw_corridor_half_width_m :: dbl
  mw_forward_angle_deg :: dbl
  mw_reason :: string

definition default_CargoMotionCorridorDecision :: CargoMotionCorridorDecision where
  "default_CargoMotionCorridorDecision =
     \<lparr>mw_valid = False, mw_eligible = True, mw_mode = RADIAL_FALLBACK, mw_speed_mps = Fin 0, mw_along_track_m = Fin 0,
      mw_lateral_distance_m = Fin 0, mw_corridor_half_width_m = Fin 0, mw_forward_angle_deg = Fin 180,
      mw_reason = ''not_evaluated''\<rparr>"

definition corridor_validConfig :: "CargoMotionCorridorConfig \<Rightarrow> bool" where
  "corridor_validConfig c \<longleftrightarrow>
     isfinite (mv_immediate_near_field_m c) \<and> Fin 0 \<le> mv_immediate_near_field_m c \<and>
     isfinite (mv_minimum_motion_speed_mps c) \<and> Fin 0 \<le> mv_minimum_motion_speed_mps c \<and>
     isfinite (mv_prediction_horizon_sec c) \<and> Fin 0 < mv_prediction_horizon_sec c \<and>
     isfinite (mv_minimum_prediction_distance_m c) \<and> Fin 0 < mv_minimum_prediction_distance_m c \<and>
     isfinite (mv_forward_half_angle_deg c) \<and> Fin 0 < mv_forward_half_angle_deg c \<and> mv_forward_half_angle_deg c \<le> Fin 90 \<and>
     isfinite (mv_lateral_margin_m c) \<and> Fin 0 \<le> mv_lateral_margin_m c \<and>
     isfinite (mv_rear_margin_m c) \<and> Fin 0 \<le> mv_rear_margin_m c \<and>
     isfinite (mv_velocity_alpha c) \<and> Fin 0 \<le> mv_velocity_alpha c \<and> mv_velocity_alpha c \<le> Fin 1 \<and>
     isfinite (mv_maximum_velocity_sample_gap_sec c) \<and> Fin 0 < mv_maximum_velocity_sample_gap_sec c"

section \<open>The forward sector\<close>

fun dacos :: "dbl \<Rightarrow> dbl" where
  "dacos (Fin a) = (if - 1 \<le> a \<and> a \<le> 1 then Fin (arccos a) else NaN)"
| "dacos _ = NaN"

text \<open>The result and the value written to \<^verbatim>\<open>absolute_angle_deg\<close>.\<close>

definition cargoPointInForwardSector :: "vec2 \<Rightarrow> vec2 \<Rightarrow> vec2 \<Rightarrow> dbl \<Rightarrow> dbl \<Rightarrow> dbl \<Rightarrow> bool \<times> dbl" where
  "cargoPointInForwardSector center forward point half_angle footprint_distance near_field =
     (if \<not> vec2_allFinite center \<or> \<not> vec2_allFinite forward \<or> \<not> vec2_allFinite point \<or> \<not> isfinite half_angle \<or>
         half_angle \<le> Fin 0 \<or> Fin 90 < half_angle \<or> \<not> isfinite footprint_distance \<or> footprint_distance < Fin 0 \<or>
         \<not> isfinite near_field \<or> near_field < Fin 0
      then (False, Fin 180)
      else if footprint_distance \<le> near_field then (True, Fin 0)
      else
        let direction_norm = vec2_norm forward; relative = vec2_sub point center; relative_norm = vec2_norm relative in
        if \<not> isfinite direction_norm \<or> direction_norm \<le> Fin 0.00001 \<or> \<not> isfinite relative_norm then (False, Fin 180)
        else if relative_norm \<le> Fin 0.00001 then (True, Fin 0)
        else
          let cosine = cpp_clamp (vec2_dot forward relative / (direction_norm * relative_norm)) (Fin (- 1)) (Fin 1);
              angle = dacos cosine * Fin (180 / pi)
          in (angle \<le> half_angle + Fin 0.0001, angle))"

section \<open>The corridor\<close>

definition corridor_input_ok :: "CargoMotionCorridorInput \<Rightarrow> bool" where
  "corridor_input_ok i \<longleftrightarrow>
     vec2_allFinite (mu_cargo_center_map i) \<and> vec2_allFinite (mu_cargo_velocity_map i) \<and>
     vec2_allFinite (mu_obstacle_nearest_map i) \<and> vec2_allFinite (mu_obstacle_centroid_map i) \<and>
     isfinite (mu_cargo_length_m i) \<and> \<not> mu_cargo_length_m i \<le> Fin 0 \<and> isfinite (mu_cargo_width_m i) \<and>
     \<not> mu_cargo_width_m i \<le> Fin 0 \<and> isfinite (mu_cargo_yaw_map_rad i) \<and> isfinite (mu_horizontal_uncertainty_m i) \<and>
     \<not> mu_horizontal_uncertainty_m i < Fin 0 \<and> isfinite (mu_current_footprint_distance_m i) \<and>
     \<not> mu_current_footprint_distance_m i < Fin 0"

definition corridor_direction :: "CargoMotionCorridorInput \<Rightarrow> vec2" where
  "corridor_direction i = vec2_div (mu_cargo_velocity_map i) (vec2_norm (mu_cargo_velocity_map i))"

text \<open>Half the extent of the cargo along a direction.\<close>

definition projected_half_extent :: "CargoMotionCorridorInput \<Rightarrow> vec2 \<Rightarrow> dbl" where
  "projected_half_extent i d =
     (let long_axis = \<lparr>v2x = dcos (mu_cargo_yaw_map_rad i), v2y = dsin (mu_cargo_yaw_map_rad i)\<rparr>;
          short_axis = \<lparr>v2x = - v2y long_axis, v2y = v2x long_axis\<rparr>
      in Fin 0.5 * (\<bar>vec2_dot d long_axis\<bar> * mu_cargo_length_m i + \<bar>vec2_dot d short_axis\<bar> * mu_cargo_width_m i))"

definition corridor_half_width :: "CargoMotionCorridorConfig \<Rightarrow> CargoMotionCorridorInput \<Rightarrow> dbl" where
  "corridor_half_width c i =
     (let d = corridor_direction i
      in projected_half_extent i \<lparr>v2x = - v2y d, v2y = v2x d\<rparr> + mu_horizontal_uncertainty_m i + mv_lateral_margin_m c)"

definition corridor_length :: "CargoMotionCorridorConfig \<Rightarrow> CargoMotionCorridorInput \<Rightarrow> dbl" where
  "corridor_length c i =
     cpp_max (vec2_norm (mu_cargo_velocity_map i) * mv_prediction_horizon_sec c) (mv_minimum_prediction_distance_m c)"

text \<open>The lambda \<^verbatim>\<open>inside_corridor\<close> with its two outputs.\<close>

definition inside_corridor :: "CargoMotionCorridorConfig \<Rightarrow> CargoMotionCorridorInput \<Rightarrow> vec2 \<Rightarrow> bool \<times> dbl \<times> dbl" where
  "inside_corridor c i point =
     (let d = corridor_direction i; relative = vec2_sub point (mu_cargo_center_map i); extent = projected_half_extent i d;
          along = vec2_dot relative d; lateral = \<bar>v2x relative * v2y d - v2y relative * v2x d\<bar>
      in (- extent - mu_horizontal_uncertainty_m i - mv_rear_margin_m c \<le> along \<and>
          along \<le> extent + mu_horizontal_uncertainty_m i + corridor_length c i \<and>
          lateral \<le> corridor_half_width c i, along, lateral))"

definition point_in_sector :: "CargoMotionCorridorConfig \<Rightarrow> CargoMotionCorridorInput \<Rightarrow> vec2 \<Rightarrow> bool \<times> dbl" where
  "point_in_sector c i point =
     cargoPointInForwardSector (mu_cargo_center_map i) (corridor_direction i) point (mv_forward_half_angle_deg c)
       (mu_current_footprint_distance_m i) (mv_immediate_near_field_m c)"

text \<open>The part for a moving cargo and an obstacle outside the near field.\<close>

definition corridor_decide ::
  "CargoMotionCorridorConfig \<Rightarrow> CargoMotionCorridorInput \<Rightarrow> CargoMotionCorridorDecision \<Rightarrow> CargoMotionCorridorDecision" where
  "corridor_decide c i d =
     (let (nearest_inside, nearest_along, nearest_lateral) = inside_corridor c i (mu_obstacle_nearest_map i);
          (centroid_inside, centroid_along, centroid_lateral) = inside_corridor c i (mu_obstacle_centroid_map i);
          (nearest_in_sector, nearest_angle) = point_in_sector c i (mu_obstacle_nearest_map i);
          (centroid_in_sector, centroid_angle) = point_in_sector c i (mu_obstacle_centroid_map i);
          nearest_eligible = (nearest_inside \<and> nearest_in_sector); centroid_eligible = (centroid_inside \<and> centroid_in_sector);
          eligible = (nearest_eligible \<or> centroid_eligible); use_nearest = (nearest_eligible \<or> \<not> centroid_eligible)
      in d\<lparr>mw_corridor_half_width_m := corridor_half_width c i, mw_eligible := eligible,
           mw_along_track_m := (if use_nearest then nearest_along else centroid_along),
           mw_lateral_distance_m := (if use_nearest then nearest_lateral else centroid_lateral),
           mw_forward_angle_deg := (if use_nearest then nearest_angle else centroid_angle),
           mw_reason := (if eligible then ''obstacle_inside_forward_motion_sector''
                         else if \<not> nearest_in_sector \<and> \<not> centroid_in_sector then ''obstacle_outside_forward_sector''
                         else ''obstacle_outside_motion_corridor'')\<rparr>)"

definition evaluateCargoMotionCorridor ::
  "CargoMotionCorridorConfig \<Rightarrow> CargoMotionCorridorInput \<Rightarrow> CargoMotionCorridorDecision" where
  "evaluateCargoMotionCorridor c i =
     (if \<not> corridor_validConfig c \<or> \<not> corridor_input_ok i
      then default_CargoMotionCorridorDecision\<lparr>mw_reason := ''invalid_corridor_input_radial_fallback''\<rparr>
      else
        let d = default_CargoMotionCorridorDecision\<lparr>mw_valid := True, mw_speed_mps := vec2_norm (mu_cargo_velocity_map i)\<rparr> in
        if \<not> mv_enabled c \<or> \<not> mu_velocity_valid i
        then d\<lparr>mw_reason :=
               (if mu_acquisition_only i
                then if mv_enabled c then ''motion_unavailable_radial_acquisition'' else ''motion_corridor_disabled_radial_acquisition''
                else if mv_enabled c then ''motion_unavailable_radial_fallback'' else ''motion_corridor_disabled_radial_fallback'')\<rparr>
        else if mw_speed_mps d < mv_minimum_motion_speed_mps c
        then d\<lparr>mw_corridor_half_width_m := mv_immediate_near_field_m c + mu_horizontal_uncertainty_m i,
               mw_reason := (if mu_acquisition_only i then ''stationary_radial_acquisition''
                             else ''stationary_confirmed_hazard_radial_fallback'')\<rparr>
        else if mu_current_footprint_distance_m i \<le> mv_immediate_near_field_m c
        then d\<lparr>mw_mode := MOTION_CORRIDOR, mw_reason := ''immediate_near_field''\<rparr>
        else corridor_decide c i (d\<lparr>mw_mode := MOTION_CORRIDOR\<rparr>))"

section \<open>What is never hidden\<close>

text \<open>C27. An obstacle is hidden only from a cargo with a valid motion: the configuration and the input passed their tests, the
  filter is enabled, the velocity valid and at least the minimum speed, and the obstacle outside the near field. In every
  other case, invalid inputs included, it stays eligible.\<close>

theorem corridor_hides_only_distant:
  assumes "\<not> mw_eligible (evaluateCargoMotionCorridor c i)"
  shows "corridor_validConfig c \<and> corridor_input_ok i \<and> mv_enabled c \<and> mu_velocity_valid i \<and>
    mv_minimum_motion_speed_mps c \<le> vec2_norm (mu_cargo_velocity_map i) \<and>
    mv_immediate_near_field_m c < mu_current_footprint_distance_m i"
proof -
  have facts: "corridor_validConfig c" "corridor_input_ok i" "mv_enabled c" "mu_velocity_valid i"
    "\<not> vec2_norm (mu_cargo_velocity_map i) < mv_minimum_motion_speed_mps c"
    "\<not> mu_current_footprint_distance_m i \<le> mv_immediate_near_field_m c"
    using assms by (auto simp: evaluateCargoMotionCorridor_def default_CargoMotionCorridorDecision_def Let_def split: if_splits)
  moreover have "isfinite (vec2_norm (mu_cargo_velocity_map i))"
    using facts(2) by (auto simp: corridor_input_ok_def vec2_allFinite_def vec2_norm_def isfinite_iff not_sum_squares_lt_zero)
  ultimately show ?thesis
    by (auto simp: corridor_validConfig_def corridor_input_ok_def isfinite_iff not_less not_le)
qed

definition demo_corridor_input :: CargoMotionCorridorInput where
  "demo_corridor_input =
     \<lparr>mu_cargo_center_map = vec2_zero, mu_cargo_velocity_map = \<lparr>v2x = Fin 1, v2y = Fin 0\<rparr>, mu_velocity_valid = True,
      mu_cargo_length_m = Fin 6.2, mu_cargo_width_m = Fin 1, mu_cargo_yaw_map_rad = Fin (pi / 2),
      mu_horizontal_uncertainty_m = Fin 0, mu_obstacle_nearest_map = \<lparr>v2x = Fin 1.25, v2y = Fin 3\<rparr>,
      mu_obstacle_centroid_map = \<lparr>v2x = Fin 1.25, v2y = Fin 3\<rparr>, mu_current_footprint_distance_m = Fin 0.75,
      mu_acquisition_only = False\<rparr>"

lemma demo_corridor_ok: "corridor_validConfig default_CargoMotionCorridorConfig" "corridor_input_ok demo_corridor_input"
  by (simp_all add: corridor_validConfig_def default_CargoMotionCorridorConfig_def corridor_input_ok_def demo_corridor_input_def
      vec2_allFinite_def vec2_zero_def)

section \<open>The swept footprint\<close>

text \<open>The point of the plane a corner or an inner point \<open>(x, y)\<close> of the cargo's box reaches after \<open>t\<close> seconds of its motion.\<close>

definition swept :: "CargoMotionCorridorInput \<Rightarrow> real \<Rightarrow> vec2 \<Rightarrow> bool" where
  "swept i t q \<longleftrightarrow>
     (\<exists>x y. \<bar>x\<bar> \<le> real_part (mu_cargo_length_m i) / 2 \<and> \<bar>y\<bar> \<le> real_part (mu_cargo_width_m i) / 2 \<and>
       q = \<lparr>v2x = Fin (real_part (v2x (mu_cargo_center_map i)) + (x * cos (real_part (mu_cargo_yaw_map_rad i)) -
                    y * sin (real_part (mu_cargo_yaw_map_rad i))) + real_part (v2x (mu_cargo_velocity_map i)) * t),
            v2y = Fin (real_part (v2y (mu_cargo_center_map i)) + (x * sin (real_part (mu_cargo_yaw_map_rad i)) +
                    y * cos (real_part (mu_cargo_yaw_map_rad i))) + real_part (v2y (mu_cargo_velocity_map i)) * t)\<rparr>)"

lemma weighted_bound:
  fixes x y a b l w :: real
  assumes "\<bar>x\<bar> \<le> l / 2" and "\<bar>y\<bar> \<le> w / 2"
  shows "\<bar>x * a + y * b\<bar> \<le> 1 / 2 * (\<bar>a\<bar> * l + \<bar>b\<bar> * w)"
proof -
  have "\<bar>x * a\<bar> \<le> l / 2 * \<bar>a\<bar>" "\<bar>y * b\<bar> \<le> w / 2 * \<bar>b\<bar>"
    unfolding abs_mult using assms by (simp_all only: mult_right_mono abs_ge_zero)
  then show ?thesis using abs_triangle_ineq [of "x * a" "y * b"] by (simp add: algebra_simps)
qed

lemma corridor_FinE:
  assumes "corridor_validConfig c" and "corridor_input_ok i"
  obtains cx cy vx vy l w yaw u T m lat rear where
    "mu_cargo_center_map i = \<lparr>v2x = Fin cx, v2y = Fin cy\<rparr>" "mu_cargo_velocity_map i = \<lparr>v2x = Fin vx, v2y = Fin vy\<rparr>"
    "mu_cargo_length_m i = Fin l" "mu_cargo_width_m i = Fin w" "mu_cargo_yaw_map_rad i = Fin yaw"
    "mu_horizontal_uncertainty_m i = Fin u" "mv_prediction_horizon_sec c = Fin T" "mv_minimum_prediction_distance_m c = Fin m"
    "mv_lateral_margin_m c = Fin lat" "mv_rear_margin_m c = Fin rear" "0 \<le> u" "0 \<le> lat" "0 \<le> rear" "0 < T"
proof -
  have v: "\<exists>a b. p = \<lparr>v2x = Fin a, v2y = Fin b\<rparr>" if "vec2_allFinite p" for p
    using that by (cases p) (auto simp: vec2_allFinite_def isfinite_iff)
  show ?thesis
    using assms v [of "mu_cargo_center_map i"] v [of "mu_cargo_velocity_map i"] that
    by (auto simp: corridor_validConfig_def corridor_input_ok_def isfinite_iff)
qed

lemma swept_inside:
  assumes "corridor_validConfig c" and "corridor_input_ok i" and "Fin 0 < vec2_norm (mu_cargo_velocity_map i)"
    and "swept i t q" and "0 \<le> t" and "Fin t \<le> mv_prediction_horizon_sec c"
  shows "fst (inside_corridor c i q)"
proof -
  obtain cx cy vx vy l w yaw u T m lat rear where f:
    "mu_cargo_center_map i = \<lparr>v2x = Fin cx, v2y = Fin cy\<rparr>" "mu_cargo_velocity_map i = \<lparr>v2x = Fin vx, v2y = Fin vy\<rparr>"
    "mu_cargo_length_m i = Fin l" "mu_cargo_width_m i = Fin w" "mu_cargo_yaw_map_rad i = Fin yaw"
    "mu_horizontal_uncertainty_m i = Fin u" "mv_prediction_horizon_sec c = Fin T" "mv_minimum_prediction_distance_m c = Fin m"
    "mv_lateral_margin_m c = Fin lat" "mv_rear_margin_m c = Fin rear" "0 \<le> u" "0 \<le> lat" "0 \<le> rear" "0 < T"
    using corridor_FinE [OF assms(1,2)] by blast
  define n where "n = sqrt (vx * vx + vy * vy)"
  define dx dy where "dx = vx / n" and "dy = vy / n"
  have norm: "vec2_norm (mu_cargo_velocity_map i) = Fin n"
    by (simp add: f vec2_norm_def n_def not_sum_squares_lt_zero)
  have n: "0 < n" using assms(3) norm by simp
  have d: "corridor_direction i = \<lparr>v2x = Fin dx, v2y = Fin dy\<rparr>"
    unfolding corridor_direction_def norm using n by (simp add: vec2_div_def f dx_def dy_def)
  obtain x y where xy: "\<bar>x\<bar> \<le> l / 2" "\<bar>y\<bar> \<le> w / 2"
    "q = \<lparr>v2x = Fin (cx + (x * cos yaw - y * sin yaw) + vx * t), v2y = Fin (cy + (x * sin yaw + y * cos yaw) + vy * t)\<rparr>"
    using assms(4) by (auto simp: swept_def f)
  define extent where "extent = 1 / 2 * (\<bar>dx * cos yaw + dy * sin yaw\<bar> * l + \<bar>dx * - sin yaw + dy * cos yaw\<bar> * w)"
  define half where "half = 1 / 2 * (\<bar>- dy * cos yaw + dx * sin yaw\<bar> * l + \<bar>- dy * - sin yaw + dx * cos yaw\<bar> * w)"
  have proj: "projected_half_extent i (corridor_direction i) = Fin extent"
    "projected_half_extent i \<lparr>v2x = - v2y (corridor_direction i), v2y = v2x (corridor_direction i)\<rparr> = Fin half"
    by (simp_all add: projected_half_extent_def d f vec2_dot_def extent_def half_def)
  have v: "vx = n * dx" "vy = n * dy" using n by (simp_all add: dx_def dy_def)
  have "n * n = vx * vx + vy * vy" by (simp add: n_def)
  then have "n * n * (dx * dx + dy * dy) = n * n" unfolding v by algebra
  then have unit: "dx * dx + dy * dy = 1" using n by simp
  have relative: "vec2_sub q (mu_cargo_center_map i) =
      \<lparr>v2x = Fin ((x * cos yaw - y * sin yaw) + vx * t), v2y = Fin ((x * sin yaw + y * cos yaw) + vy * t)\<rparr>"
    by (simp add: f xy(3) vec2_sub_def)
  define along where "along = ((x * cos yaw - y * sin yaw) + vx * t) * dx + ((x * sin yaw + y * cos yaw) + vy * t) * dy"
  have "along = x * (dx * cos yaw + dy * sin yaw) + y * (dx * - sin yaw + dy * cos yaw) + n * t * (dx * dx + dy * dy)"
    unfolding along_def v by algebra
  then have along: "\<bar>along - n * t\<bar> \<le> extent"
    using weighted_bound [OF xy(1,2), of "dx * cos yaw + dy * sin yaw" "dx * - sin yaw + dy * cos yaw"] unit
    by (simp add: extent_def)
  define lateral where "lateral = ((x * cos yaw - y * sin yaw) + vx * t) * dy - ((x * sin yaw + y * cos yaw) + vy * t) * dx"
  have "lateral = - (x * (- dy * cos yaw + dx * sin yaw) + y * (- dy * - sin yaw + dx * cos yaw))"
    unfolding lateral_def v by algebra
  then have "\<bar>lateral\<bar> = \<bar>x * (- dy * cos yaw + dx * sin yaw) + y * (- dy * - sin yaw + dx * cos yaw)\<bar>"
    by (simp only: abs_minus_cancel)
  then have lateral: "\<bar>lateral\<bar> \<le> half"
    unfolding half_def by (simp only: weighted_bound [OF xy(1,2)])
  have "0 \<le> n * t" "n * t \<le> n * T" using n assms(5,6) f(7) by (simp_all add: mult_left_mono)
  then have "- extent - u - rear \<le> along" "along \<le> extent + u + max (n * T) m" "\<bar>lateral\<bar> \<le> half + u + lat"
    using along lateral f(11-13) by linarith+
  then show ?thesis
    unfolding inside_corridor_def Let_def fst_conv corridor_length_def corridor_half_width_def proj norm relative
    by (simp add: d f vec2_dot_def along_def lateral_def)
qed

text \<open>C28. The corridor covers the swept footprint: an obstacle whose nearest point or centroid the box of the cargo reaches
  within the prediction horizon at its present velocity, and that lies in the forward sector, is eligible, whatever the yaw
  of the cargo.\<close>

theorem corridor_covers_sweep:
  assumes "Fin 0 < vec2_norm (mu_cargo_velocity_map i)" and "swept i t q" and "0 \<le> t" and "Fin t \<le> mv_prediction_horizon_sec c"
    and "q \<in> {mu_obstacle_nearest_map i, mu_obstacle_centroid_map i}" and "fst (point_in_sector c i q)"
  shows "mw_eligible (evaluateCargoMotionCorridor c i)"
proof (rule ccontr)
  assume hidden: "\<not> mw_eligible (evaluateCargoMotionCorridor c i)"
  from corridor_hides_only_distant [OF this] have ok: "corridor_validConfig c" "corridor_input_ok i" by simp_all
  have "fst (inside_corridor c i q)" by (rule swept_inside [OF ok assms(1-4)])
  moreover have "evaluateCargoMotionCorridor c i = corridor_decide c i (default_CargoMotionCorridorDecision
      \<lparr>mw_valid := True, mw_speed_mps := vec2_norm (mu_cargo_velocity_map i), mw_mode := MOTION_CORRIDOR\<rparr>)"
    using hidden by (auto simp: evaluateCargoMotionCorridor_def default_CargoMotionCorridorDecision_def Let_def split: if_splits)
  ultimately show False using hidden assms(5,6) by (auto simp: corridor_decide_def split_beta Let_def)
qed

section \<open>Limits of the filter\<close>

lemma arccos_above_third: "c \<le> 1 / 2 \<Longrightarrow> - 1 \<le> c \<Longrightarrow> 60 \<le> arccos c * (180 / pi)"
proof -
  assume c: "c \<le> 1 / 2" "- 1 \<le> c"
  have "arccos (1 / 2) = pi / 3" using arccos_cos [of "pi / 3"] by (simp add: cos_60)
  moreover have "arccos (1 / 2) \<le> arccos c" using c by (intro arccos_le_mono [THEN iffD2]) auto
  ultimately have "pi / 3 * (180 / pi) \<le> arccos c * (180 / pi)" by (intro mult_right_mono) auto
  then show ?thesis by simp
qed

lemma demo_speed: "vec2_norm (mu_cargo_velocity_map demo_corridor_input) = Fin 1"
  by (simp add: demo_corridor_input_def vec2_norm_def)

lemma demo_swept: "swept demo_corridor_input (3 / 4) (mu_obstacle_nearest_map demo_corridor_input)"
  unfolding swept_def by (rule exI [of _ 3], rule exI [of _ "- 1 / 2"]) (simp add: demo_corridor_input_def vec2_zero_def)

lemma demo_hidden: "\<not> mw_eligible (evaluateCargoMotionCorridor default_CargoMotionCorridorConfig demo_corridor_input)"
proof -
  let ?c = default_CargoMotionCorridorConfig and ?i = demo_corridor_input
  have root: "sqrt (169 / 16) = (13 / 4 :: real)" by (rule real_sqrt_unique) (simp_all add: power2_eq_square)
  have sector: "\<not> fst (point_in_sector ?c ?i \<lparr>v2x = Fin 1.25, v2y = Fin 3\<rparr>)"
    using arccos_above_third [of "5 / 13"]
    by (simp add: point_in_sector_def cargoPointInForwardSector_def corridor_direction_def demo_speed vec2_div_def Let_def)
      (simp add: demo_corridor_input_def default_CargoMotionCorridorConfig_def vec2_allFinite_def vec2_zero_def vec2_sub_def
        vec2_norm_def vec2_dot_def cpp_clamp_def root)
  have "\<not> mw_eligible (corridor_decide ?c ?i d)" for d
    using sector by (simp add: corridor_decide_def split_beta Let_def) (simp add: demo_corridor_input_def)
  then show ?thesis
    using demo_corridor_ok demo_speed unfolding evaluateCargoMotionCorridor_def
    by (simp add: Let_def) (simp add: demo_corridor_input_def default_CargoMotionCorridorConfig_def)
qed

text \<open>Beside the corridor the forward sector decides: with the default configuration, a wide cargo hides an obstacle its
  front reaches in less than a second, because the direction to the obstacle is more than 45 degrees off the motion although
  the obstacle lies in the swept footprint and outside the near field.\<close>

theorem sector_hides_swept_obstacle:
  "swept demo_corridor_input (3 / 4) (mu_obstacle_nearest_map demo_corridor_input) \<and>
   fst (inside_corridor default_CargoMotionCorridorConfig demo_corridor_input (mu_obstacle_nearest_map demo_corridor_input)) \<and>
   \<not> mw_eligible (evaluateCargoMotionCorridor default_CargoMotionCorridorConfig demo_corridor_input)"
proof -
  have "fst (inside_corridor default_CargoMotionCorridorConfig demo_corridor_input (mu_obstacle_nearest_map demo_corridor_input))"
    by (rule swept_inside [OF demo_corridor_ok _ demo_swept]) (simp_all add: demo_speed default_CargoMotionCorridorConfig_def)
  then show ?thesis using demo_swept demo_hidden by blast
qed

text \<open>C29. A minimum speed of zero, which the configuration test admits, hides every obstacle outside the near field from a
  cargo that stands still with a valid velocity: the direction is then zero divided by zero and no comparison with it holds.\<close>

theorem zero_speed_hides:
  assumes "corridor_validConfig c" and "corridor_input_ok i" and "mv_enabled c" and "mu_velocity_valid i"
    and "mv_minimum_motion_speed_mps c = Fin 0" and "mu_cargo_velocity_map i = vec2_zero"
    and "mv_immediate_near_field_m c < mu_current_footprint_distance_m i"
  shows "\<not> mw_eligible (evaluateCargoMotionCorridor c i)"
proof -
  have speed: "vec2_norm (mu_cargo_velocity_map i) = Fin 0" by (simp add: assms(6) vec2_norm_def vec2_zero_def)
  have "corridor_direction i = \<lparr>v2x = NaN, v2y = NaN\<rparr>"
    by (simp add: corridor_direction_def speed vec2_div_def) (simp add: assms(6) vec2_zero_def divide_dbl_def signed_inf_def)
  then have "\<not> fst (point_in_sector c i q)" for q
    by (simp add: point_in_sector_def cargoPointInForwardSector_def vec2_allFinite_def)
  then have "\<not> mw_eligible (corridor_decide c i d)" for d
    by (simp add: corridor_decide_def split_beta Let_def)
  moreover have "\<not> mu_current_footprint_distance_m i \<le> mv_immediate_near_field_m c" using assms(7) dbl_less_imp_not_le by blast
  ultimately show ?thesis using assms speed unfolding evaluateCargoMotionCorridor_def by (simp add: Let_def)
qed

section \<open>Examples\<close>

theorem corridor_hides_only_distant_witness:
  "mv_immediate_near_field_m default_CargoMotionCorridorConfig < mu_current_footprint_distance_m demo_corridor_input"
  using corridor_hides_only_distant [OF demo_hidden] by blast

definition demo_ahead_input :: CargoMotionCorridorInput where
  "demo_ahead_input = demo_corridor_input
     \<lparr>mu_obstacle_nearest_map := \<lparr>v2x = Fin 1.25, v2y = Fin 0\<rparr>, mu_obstacle_centroid_map := \<lparr>v2x = Fin 1.25, v2y = Fin 0\<rparr>\<rparr>"

theorem corridor_covers_sweep_witness:
  "mw_eligible (evaluateCargoMotionCorridor default_CargoMotionCorridorConfig demo_ahead_input) \<and>
   fst (point_in_sector default_CargoMotionCorridorConfig demo_ahead_input (mu_obstacle_nearest_map demo_ahead_input))"
proof -
  let ?q = "mu_obstacle_nearest_map demo_ahead_input"
  have speed: "vec2_norm (mu_cargo_velocity_map demo_ahead_input) = Fin 1"
    using demo_speed by (simp add: demo_ahead_input_def)
  have swept: "swept demo_ahead_input (3 / 4) ?q"
    unfolding swept_def
    by (rule exI [of _ 0], rule exI [of _ "- 1 / 2"]) (simp add: demo_ahead_input_def demo_corridor_input_def vec2_zero_def)
  have root: "sqrt (25 / 16) = (5 / 4 :: real)" by (rule real_sqrt_unique) (simp_all add: power2_eq_square)
  have sector: "fst (point_in_sector default_CargoMotionCorridorConfig demo_ahead_input ?q)"
    by (simp add: point_in_sector_def cargoPointInForwardSector_def corridor_direction_def speed vec2_div_def Let_def)
      (simp add: demo_ahead_input_def demo_corridor_input_def default_CargoMotionCorridorConfig_def vec2_allFinite_def vec2_zero_def
        vec2_sub_def vec2_norm_def vec2_dot_def cpp_clamp_def root)
  show ?thesis
    using swept sector corridor_covers_sweep [of demo_ahead_input "3 / 4" ?q default_CargoMotionCorridorConfig]
    by (simp add: speed default_CargoMotionCorridorConfig_def)
qed

definition demo_standing_config :: CargoMotionCorridorConfig where
  "demo_standing_config = default_CargoMotionCorridorConfig\<lparr>mv_minimum_motion_speed_mps := Fin 0\<rparr>"

definition demo_standing_input :: CargoMotionCorridorInput where
  "demo_standing_input = demo_ahead_input\<lparr>mu_cargo_velocity_map := vec2_zero\<rparr>"

theorem zero_speed_hides_witness: "\<not> mw_eligible (evaluateCargoMotionCorridor demo_standing_config demo_standing_input)"
  by (rule zero_speed_hides)
    (simp_all add: demo_standing_config_def demo_standing_input_def demo_ahead_input_def demo_corridor_input_def
      default_CargoMotionCorridorConfig_def corridor_validConfig_def corridor_input_ok_def vec2_allFinite_def vec2_zero_def)

end
