(* ===== verification/Avoidance_Fusion.thy ===== *)
theory Avoidance_Fusion
  imports Cargo_Envelope Static_Query
begin

text \<open>
  The fusion of the two sources of obstacles (\<^verbatim>\<open>cargo_avoidance_fusion.cpp\<close>): the live clusters and the
  certified static map. Whatever the crane is told passes this function: it grants 14 (clear), selects the hazard
  behind 17 and 18, sends unproven hazards to review (29) and reports the faults 31, 33 and 34.

  Every boolean local variable of the function is a definition over its input. The function itself is split where
  the source has its three phases: the metrics of the frame, a cargo that is only pending, a formal cargo.

  Shown: what a clear, a warning and a review rest on, that the reported code, distance and clearance are those of
  one source, that no usable hazard is passed over, and the one kind of input for which a reported hazard is lost.
\<close>

section \<open>Data\<close>

datatype PendingWarningPromotionPolicy = DISABLED | EVIDENCE_BACKED_ONLY | LEGACY_ANY_PENDING

fun pendingWarningPromotionPolicyName :: "PendingWarningPromotionPolicy \<Rightarrow> string" where
  "pendingWarningPromotionPolicyName DISABLED = ''DISABLED''"
| "pendingWarningPromotionPolicyName EVIDENCE_BACKED_ONLY = ''EVIDENCE_BACKED_ONLY''"
| "pendingWarningPromotionPolicyName LEGACY_ANY_PENDING = ''LEGACY_ANY_PENDING''"

record CargoAvoidanceSourceRisk =
  ya_available :: bool
  ya_reliable :: bool
  ya_hazard :: bool
  ya_warning_code :: int
  ya_distance_m :: dbl
  ya_clearance_m :: dbl
  ya_coverage :: dbl
  ya_cargo_lifecycle_id :: u64
  ya_cargo_track_id :: u64
  ya_obstacle_track_id :: u64
  ya_pose_generation :: u64
  ya_map_generation :: u64
  ya_obstacle_top_z_map :: dbl
  ya_uncertainty_m :: dbl
  ya_confidence :: dbl
  ya_far_field_history_valid :: bool
  ya_provenance_valid :: bool
  ya_certified_static_provenance :: bool
  ya_validated_streak :: int
  ya_reason :: string

definition default_CargoAvoidanceSourceRisk :: CargoAvoidanceSourceRisk where
  "default_CargoAvoidanceSourceRisk =
     \<lparr>ya_available = False, ya_reliable = False, ya_hazard = False, ya_warning_code = 0, ya_distance_m = PInf,
      ya_clearance_m = NaN, ya_coverage = Fin 0, ya_cargo_lifecycle_id = 0, ya_cargo_track_id = 0,
      ya_obstacle_track_id = 0, ya_pose_generation = 0, ya_map_generation = 0, ya_obstacle_top_z_map = NaN,
      ya_uncertainty_m = NaN, ya_confidence = Fin 0, ya_far_field_history_valid = False, ya_provenance_valid = False,
      ya_certified_static_provenance = False, ya_validated_streak = 0, ya_reason = ''''\<rparr>"

datatype CargoAvoidanceHazardSource = NONE | LIVE | STATIC_MAP

datatype CargoWarningAuthority = NONE | POSITIVE_ONLY | FORMAL

record AuthoritativeCargoHazard =
  yh_valid :: bool
  yh_source :: CargoAvoidanceHazardSource
  yh_warning_code :: int
  yh_distance_m :: dbl
  yh_clearance_m :: dbl
  yh_cargo_lifecycle_id :: u64
  yh_cargo_track_id :: u64
  yh_obstacle_track_id :: u64
  yh_pose_generation :: u64
  yh_map_generation :: u64
  yh_obstacle_top_z_map :: dbl
  yh_uncertainty_m :: dbl
  yh_confidence :: dbl
  yh_far_field_history_valid :: bool
  yh_provenance_valid :: bool
  yh_certified_static_provenance :: bool
  yh_validated_streak :: int

definition default_AuthoritativeCargoHazard :: AuthoritativeCargoHazard where
  "default_AuthoritativeCargoHazard =
     \<lparr>yh_valid = False, yh_source = CargoAvoidanceHazardSource.NONE, yh_warning_code = 0, yh_distance_m = PInf,
      yh_clearance_m = NaN, yh_cargo_lifecycle_id = 0, yh_cargo_track_id = 0, yh_obstacle_track_id = 0,
      yh_pose_generation = 0, yh_map_generation = 0, yh_obstacle_top_z_map = NaN, yh_uncertainty_m = NaN,
      yh_confidence = Fin 0, yh_far_field_history_valid = False, yh_provenance_valid = False,
      yh_certified_static_provenance = False, yh_validated_streak = 0\<rparr>"

record CargoAvoidanceFusionConfig =
  yc_minimum_live_coverage_for_clear :: dbl
  yc_pending_warning_promotion_policy :: PendingWarningPromotionPolicy
  yc_pending_minimum_obstacle_confirmations :: int
  yc_pending_minimum_authority_confidence :: dbl
  yc_allow_static_only_pending_warning :: bool

definition default_CargoAvoidanceFusionConfig :: CargoAvoidanceFusionConfig where
  "default_CargoAvoidanceFusionConfig =
     \<lparr>yc_minimum_live_coverage_for_clear = Fin 0.05, yc_pending_warning_promotion_policy = EVIDENCE_BACKED_ONLY,
      yc_pending_minimum_obstacle_confirmations = 3, yc_pending_minimum_authority_confidence = Fin 0.55,
      yc_allow_static_only_pending_warning = True\<rparr>"

record CargoAvoidanceFusionInput =
  yi_localization_valid :: bool
  yi_warning_motion_authorized :: bool
  yi_live_near_field_history_authorized :: bool
  yi_static_near_field_history_authorized :: bool
  yi_static_hazard_track_confirmed :: bool
  yi_anomaly_review_candidate :: bool
  yi_anomaly_review_live :: bool
  yi_anomaly_review_static :: bool
  yi_anomaly_review_reason :: string
  yi_anomaly_review_distance_m :: dbl
  yi_anomaly_review_clearance_m :: dbl
  yi_warning_candidate_present :: bool
  yi_warning_candidate_code :: int
  yi_formal_cargo_geometry_valid :: bool
  yi_formal_cargo_bottom_valid :: bool
  yi_formal_clear_authorized :: bool
  yi_pending_envelope_valid :: bool
  yi_pending_envelope_source :: PendingCargoEnvelopeSource
  yi_pending_pose_source :: CargoEnvelopePoseSource
  yi_pending_recognition_state_allows_warning :: bool
  yi_pending_warning_query_allowed :: bool
  yi_pending_pose_physically_plausible :: bool
  yi_pending_warning_state_reason :: string
  yi_pending_self_evidence_valid :: bool
  yi_pending_external_separation_valid :: bool
  yi_pending_external_obstacle_authorized :: bool
  yi_pending_external_obstacle_track_id :: u64
  yi_pending_external_obstacle_confirmations :: int
  yi_pending_external_provenance_valid :: bool
  yi_pending_external_geometry_valid :: bool
  yi_pending_authority_confidence :: dbl
  yi_pending_static_obstacle_authorized :: bool
  yi_pending_static_obstacle_id :: u32
  yi_pending_static_obstacle_confirmations :: int
  yi_pending_static_provenance_valid :: bool
  yi_pending_static_authority_confidence :: dbl
  yi_live_obstacle_origin_resolved :: bool
  yi_static_session_manifest_valid :: bool
  yi_static_session_hash_valid :: bool
  yi_static_session_uuid_valid :: bool
  yi_static_risk_contract_valid :: bool
  yi_static_clear_contract_valid :: bool
  yi_static_authority :: StaticEvidenceAuthority
  yi_live :: CargoAvoidanceSourceRisk
  yi_static_map :: CargoAvoidanceSourceRisk

definition default_CargoAvoidanceFusionInput :: CargoAvoidanceFusionInput where
  "default_CargoAvoidanceFusionInput =
     \<lparr>yi_localization_valid = False, yi_warning_motion_authorized = True, yi_live_near_field_history_authorized = True,
      yi_static_near_field_history_authorized = True, yi_static_hazard_track_confirmed = True,
      yi_anomaly_review_candidate = False, yi_anomaly_review_live = False, yi_anomaly_review_static = False,
      yi_anomaly_review_reason = '''', yi_anomaly_review_distance_m = PInf, yi_anomaly_review_clearance_m = NaN,
      yi_warning_candidate_present = False, yi_warning_candidate_code = 0, yi_formal_cargo_geometry_valid = False,
      yi_formal_cargo_bottom_valid = False, yi_formal_clear_authorized = False, yi_pending_envelope_valid = False,
      yi_pending_envelope_source = PendingCargoEnvelopeSource.NONE, yi_pending_pose_source = CargoEnvelopePoseSource.NONE,
      yi_pending_recognition_state_allows_warning = False, yi_pending_warning_query_allowed = False,
      yi_pending_pose_physically_plausible = False,
      yi_pending_warning_state_reason = ''recognition_state_not_warning_authorized'',
      yi_pending_self_evidence_valid = False, yi_pending_external_separation_valid = False,
      yi_pending_external_obstacle_authorized = False, yi_pending_external_obstacle_track_id = 0,
      yi_pending_external_obstacle_confirmations = 0, yi_pending_external_provenance_valid = False,
      yi_pending_external_geometry_valid = False, yi_pending_authority_confidence = Fin 0,
      yi_pending_static_obstacle_authorized = False, yi_pending_static_obstacle_id = 0,
      yi_pending_static_obstacle_confirmations = 0, yi_pending_static_provenance_valid = False,
      yi_pending_static_authority_confidence = Fin 0, yi_live_obstacle_origin_resolved = True,
      yi_static_session_manifest_valid = False, yi_static_session_hash_valid = False, yi_static_session_uuid_valid = False,
      yi_static_risk_contract_valid = False, yi_static_clear_contract_valid = False,
      yi_static_authority = UNVERIFIED_LOADED_CLEAN, yi_live = default_CargoAvoidanceSourceRisk,
      yi_static_map = default_CargoAvoidanceSourceRisk\<rparr>"

record CargoAvoidanceFusionResult =
  yo_official_valid :: bool
  yo_official_code :: int
  yo_reason :: string
  yo_distance_m :: dbl
  yo_clearance_m :: dbl
  yo_risk_live :: bool
  yo_risk_static :: bool
  yo_map_live_conflict :: bool
  yo_motion_not_authoritative :: bool
  yo_anomaly_review :: bool
  yo_anomaly_review_live :: bool
  yo_anomaly_review_static :: bool
  yo_pending_warning_authorized :: bool
  yo_pending_live_warning_authorized :: bool
  yo_pending_static_warning_authorized :: bool
  yo_pending_authority_reason :: string
  yo_provisional_status :: string
  yo_authoritative_hazard :: AuthoritativeCargoHazard
  yo_warning_authority :: CargoWarningAuthority

definition default_CargoAvoidanceFusionResult :: CargoAvoidanceFusionResult where
  "default_CargoAvoidanceFusionResult =
     \<lparr>yo_official_valid = False, yo_official_code = 33, yo_reason = ''cargo_recognition_or_geometry_invalid'',
      yo_distance_m = PInf, yo_clearance_m = NaN, yo_risk_live = False, yo_risk_static = False,
      yo_map_live_conflict = False, yo_motion_not_authoritative = False, yo_anomaly_review = False,
      yo_anomaly_review_live = False, yo_anomaly_review_static = False, yo_pending_warning_authorized = False,
      yo_pending_live_warning_authorized = False, yo_pending_static_warning_authorized = False,
      yo_pending_authority_reason = ''not_evaluated'', yo_provisional_status = ''UNKNOWN'',
      yo_authoritative_hazard = default_AuthoritativeCargoHazard, yo_warning_authority = CargoWarningAuthority.NONE\<rparr>"

section \<open>Codes and the selection of one hazard\<close>

definition kFusionClear :: int where "kFusionClear = 14"
definition kNear3m :: int where "kNear3m = 17"
definition kNear5m :: int where "kNear5m = 18"
definition kFusionReview :: int where "kFusionReview = 29"
definition kLocalizationInvalid :: int where "kLocalizationInvalid = 31"
definition kCargoInvalid :: int where "kCargoInvalid = 33"
definition kObstacleInvalid :: int where "kObstacleInvalid = 34"

lemmas fusion_codes = kFusionClear_def kNear3m_def kNear5m_def kFusionReview_def kLocalizationInvalid_def kCargoInvalid_def
  kObstacleInvalid_def

definition kMinimumVerticalClearanceM :: dbl where "kMinimumVerticalClearanceM = Fin 0.80"

definition fusion_warningCode :: "int \<Rightarrow> bool" where
  "fusion_warningCode code \<longleftrightarrow> code = kNear3m \<or> code = kNear5m"

definition lowClearance :: "dbl \<Rightarrow> bool" where
  "lowClearance clearance_m \<longleftrightarrow> isfinite clearance_m \<and> clearance_m < kMinimumVerticalClearanceM"

definition moreSevere :: "int \<Rightarrow> int \<Rightarrow> int" where
  "moreSevere lhs rhs =
     (if lhs = kNear3m \<or> rhs = kNear3m then kNear3m else if lhs = kNear5m \<or> rhs = kNear5m then kNear5m else 0)"

definition combineMetric :: "dbl \<Rightarrow> dbl \<Rightarrow> dbl" where
  "combineMetric v output = (if \<not> isfinite v then output else if \<not> isfinite output then v else cpp_min output v)"

text \<open>The copy of a source's record into the selected hazard, and the tests a record has to pass.\<close>

definition hazard_of :: "CargoAvoidanceHazardSource \<Rightarrow> int \<Rightarrow> CargoAvoidanceSourceRisk \<Rightarrow> AuthoritativeCargoHazard" where
  "hazard_of source code risk =
     \<lparr>yh_valid = True, yh_source = source, yh_warning_code = code, yh_distance_m = ya_distance_m risk,
      yh_clearance_m = ya_clearance_m risk, yh_cargo_lifecycle_id = ya_cargo_lifecycle_id risk,
      yh_cargo_track_id = ya_cargo_track_id risk, yh_obstacle_track_id = ya_obstacle_track_id risk,
      yh_pose_generation = ya_pose_generation risk, yh_map_generation = ya_map_generation risk,
      yh_obstacle_top_z_map = ya_obstacle_top_z_map risk, yh_uncertainty_m = ya_uncertainty_m risk,
      yh_confidence = ya_confidence risk, yh_far_field_history_valid = ya_far_field_history_valid risk,
      yh_provenance_valid = ya_provenance_valid risk,
      yh_certified_static_provenance = ya_certified_static_provenance risk,
      yh_validated_streak = ya_validated_streak risk\<rparr>"

definition selectable :: "CargoAvoidanceSourceRisk \<Rightarrow> bool" where
  "selectable risk \<longleftrightarrow> ya_hazard risk \<and> fusion_warningCode (ya_warning_code risk) \<and> isfinite (ya_distance_m risk) \<and>
     \<not> ya_distance_m risk \<le> Fin 0 \<and> lowClearance (ya_clearance_m risk)"

definition consider_hazard ::
  "CargoAvoidanceHazardSource \<Rightarrow> CargoAvoidanceSourceRisk \<Rightarrow> AuthoritativeCargoHazard \<Rightarrow> AuthoritativeCargoHazard" where
  "consider_hazard source risk selected =
     (if \<not> selectable risk then selected
      else let more_severe = ya_warning_code risk = kNear3m \<and> yh_warning_code selected \<noteq> kNear3m;
               same_severity_nearer = ya_warning_code risk = yh_warning_code selected \<and>
                 ya_distance_m risk < yh_distance_m selected
           in if \<not> yh_valid selected \<or> more_severe \<or> same_severity_nearer
              then hazard_of source (ya_warning_code risk) risk else selected)"

definition selectHazard ::
  "bool \<Rightarrow> CargoAvoidanceSourceRisk \<Rightarrow> bool \<Rightarrow> CargoAvoidanceSourceRisk \<Rightarrow> AuthoritativeCargoHazard" where
  "selectHazard allow_live live allow_static static_map =
     (let s0 = default_AuthoritativeCargoHazard;
          s1 = if allow_live then consider_hazard LIVE live s0 else s0
      in if allow_static then consider_hazard STATIC_MAP static_map s1 else s1)"

definition consider_review ::
  "CargoAvoidanceHazardSource \<Rightarrow> CargoAvoidanceSourceRisk \<Rightarrow> AuthoritativeCargoHazard \<Rightarrow> AuthoritativeCargoHazard" where
  "consider_review source risk selected =
     (if \<not> selectable risk then selected
      else if yh_valid selected \<and> yh_distance_m selected \<le> ya_distance_m risk then selected
      else hazard_of source kFusionReview risk)"

definition selectReviewHazard ::
  "bool \<Rightarrow> CargoAvoidanceSourceRisk \<Rightarrow> bool \<Rightarrow> CargoAvoidanceSourceRisk \<Rightarrow> AuthoritativeCargoHazard" where
  "selectReviewHazard allow_live live allow_static static_map =
     (let s0 = default_AuthoritativeCargoHazard;
          s1 = if allow_live then consider_review LIVE live s0 else s0
      in if allow_static then consider_review STATIC_MAP static_map s1 else s1)"

definition applySelectedHazard :: "AuthoritativeCargoHazard \<Rightarrow> CargoAvoidanceFusionResult \<Rightarrow> CargoAvoidanceFusionResult" where
  "applySelectedHazard hazard result =
     (if \<not> yh_valid hazard then result\<lparr>yo_authoritative_hazard := hazard\<rparr>
      else result\<lparr>yo_authoritative_hazard := hazard, yo_official_code := yh_warning_code hazard,
                  yo_distance_m := yh_distance_m hazard, yo_clearance_m := yh_clearance_m hazard\<rparr>)"

section \<open>What a pending cargo may warn of\<close>

definition pendingSourceCanCarryIdentity :: "PendingCargoEnvelopeSource \<Rightarrow> bool" where
  "pendingSourceCanCarryIdentity source \<longleftrightarrow> source = CURRENT_CANDIDATE \<or> source = ACTIVE_LOCKED_TRACK \<or>
     source = RETIRED_FORMAL_SHAPE \<or> source = LIFT_ORIGIN_CANDIDATE"

definition pendingPoseCanCarryIdentity :: "CargoEnvelopePoseSource \<Rightarrow> bool" where
  "pendingPoseCanCarryIdentity source \<longleftrightarrow> source = CargoEnvelopePoseSource.CURRENT_ASSOCIATED_LIDAR \<or>
     source = SHORT_TERM_TRACK_PREDICTION \<or> source = RETIRED_TRACK_PREDICTION \<or> source = HOOK_PLUS_LAST_RELIABLE_OFFSET"

definition state_reason :: "CargoAvoidanceFusionInput \<Rightarrow> string \<Rightarrow> string" where
  "state_reason i fallback =
     (if yi_pending_warning_state_reason i = '''' then fallback else yi_pending_warning_state_reason i)"

definition authorizePendingWarning ::
  "CargoAvoidanceFusionInput \<Rightarrow> CargoAvoidanceFusionConfig \<Rightarrow> bool \<times> string" where
  "authorizePendingWarning i c =
     (if \<not> yi_pending_recognition_state_allows_warning i
      then (False, state_reason i ''recognition_state_not_warning_authorized'')
      else if \<not> yi_pending_pose_physically_plausible i then (False, state_reason i ''pending_pose_physically_implausible'')
      else if \<not> yi_pending_warning_query_allowed i then (False, ''pending_warning_query_not_authorized'')
      else if yc_pending_warning_promotion_policy c = DISABLED then (False, ''policy_disabled'')
      else if \<not> pendingSourceCanCarryIdentity (yi_pending_envelope_source i)
      then (False, ''envelope_source_not_identity_backed'')
      else if \<not> pendingPoseCanCarryIdentity (yi_pending_pose_source i) then (False, ''pose_source_not_identity_backed'')
      else if \<not> yi_pending_self_evidence_valid i then (False, ''cargo_self_evidence_missing'')
      else if \<not> yi_pending_external_separation_valid i then (False, ''cargo_external_separation_unresolved'')
      else if \<not> yi_pending_external_obstacle_authorized i \<or> yi_pending_external_obstacle_track_id i = 0
      then (False, ''external_obstacle_identity_missing'')
      else if yi_pending_external_obstacle_confirmations i < yc_pending_minimum_obstacle_confirmations c
      then (False, ''external_obstacle_confirmation_pending'')
      else if \<not> yi_pending_external_provenance_valid i then (False, ''external_obstacle_provenance_invalid'')
      else if yc_pending_warning_promotion_policy c = LEGACY_ANY_PENDING
      then (True, ''legacy_identity_and_external_track_confirmed'')
      else if \<not> yi_pending_external_geometry_valid i then (False, ''external_obstacle_geometry_invalid'')
      else if \<not> isfinite (yi_pending_authority_confidence i) \<or>
              yi_pending_authority_confidence i < yc_pending_minimum_authority_confidence c
      then (False, ''pending_authority_confidence_low'')
      else (True, ''identity_and_external_obstacle_confirmed''))"

definition authorizePendingStaticWarning ::
  "CargoAvoidanceFusionInput \<Rightarrow> CargoAvoidanceFusionConfig \<Rightarrow> bool \<times> string" where
  "authorizePendingStaticWarning i c =
     (if \<not> yc_allow_static_only_pending_warning c then (False, ''static_pending_warning_policy_disabled'')
      else if \<not> yi_pending_recognition_state_allows_warning i
      then (False, state_reason i ''recognition_state_not_warning_authorized'')
      else if \<not> yi_pending_pose_physically_plausible i then (False, state_reason i ''pending_pose_physically_implausible'')
      else if \<not> yi_pending_warning_query_allowed i then (False, ''pending_warning_query_not_authorized'')
      else if yc_pending_warning_promotion_policy c = DISABLED then (False, ''policy_disabled'')
      else if \<not> pendingSourceCanCarryIdentity (yi_pending_envelope_source i)
      then (False, ''envelope_source_not_identity_backed'')
      else if \<not> pendingPoseCanCarryIdentity (yi_pending_pose_source i) then (False, ''pose_source_not_identity_backed'')
      else if \<not> yi_pending_self_evidence_valid i then (False, ''cargo_self_evidence_missing'')
      else if \<not> isfinite (yi_pending_authority_confidence i) \<or>
              yi_pending_authority_confidence i < yc_pending_minimum_authority_confidence c
      then (False, ''pending_cargo_identity_confidence_low'')
      else if \<not> yi_pending_static_obstacle_authorized i \<or> yi_pending_static_obstacle_id i = 0
      then (False, ''static_obstacle_identity_missing'')
      else if yi_pending_static_obstacle_confirmations i < yc_pending_minimum_obstacle_confirmations c
      then (False, ''static_obstacle_confirmation_pending'')
      else if \<not> yi_pending_static_provenance_valid i then (False, ''static_obstacle_provenance_invalid'')
      else if \<not> isfinite (yi_pending_static_authority_confidence i) \<or>
              yi_pending_static_authority_confidence i < yc_pending_minimum_authority_confidence c
      then (False, ''static_obstacle_authority_confidence_low'')
      else (True, ''identity_and_static_obstacle_confirmed''))"

section \<open>The conditions of a frame\<close>

definition formal_cargo :: "CargoAvoidanceFusionInput \<Rightarrow> bool" where
  "formal_cargo i \<longleftrightarrow> yi_formal_cargo_geometry_valid i \<and> yi_formal_cargo_bottom_valid i"

definition static_risk_contract :: "CargoAvoidanceFusionInput \<Rightarrow> bool" where
  "static_risk_contract i \<longleftrightarrow>
     (yi_static_session_manifest_valid i \<and> yi_static_session_hash_valid i \<and> yi_static_session_uuid_valid i) \<and>
     yi_static_risk_contract_valid i \<and>
     sz_official_static_risk_authorized (authorizeStaticEvidence (yi_static_authority i))"

definition live_reliable :: "CargoAvoidanceFusionInput \<Rightarrow> bool" where
  "live_reliable i \<longleftrightarrow> ya_available (yi_live i) \<and> ya_reliable (yi_live i)"

definition static_reliable :: "CargoAvoidanceFusionInput \<Rightarrow> bool" where
  "static_reliable i \<longleftrightarrow> static_risk_contract i \<and> ya_available (yi_static_map i) \<and> ya_reliable (yi_static_map i) \<and>
     ya_certified_static_provenance (yi_static_map i)"

definition unresolved_embedded_live_hazard :: "CargoAvoidanceFusionInput \<Rightarrow> bool" where
  "unresolved_embedded_live_hazard i \<longleftrightarrow> live_reliable i \<and> ya_hazard (yi_live i) \<and>
     fusion_warningCode (ya_warning_code (yi_live i)) \<and> \<not> yi_live_obstacle_origin_resolved i"

definition risk_live :: "CargoAvoidanceFusionInput \<Rightarrow> bool" where
  "risk_live i \<longleftrightarrow> live_reliable i \<and> yi_live_obstacle_origin_resolved i \<and> ya_hazard (yi_live i) \<and>
     fusion_warningCode (ya_warning_code (yi_live i)) \<and> lowClearance (ya_clearance_m (yi_live i))"

definition static_hazard_observed :: "CargoAvoidanceFusionInput \<Rightarrow> bool" where
  "static_hazard_observed i \<longleftrightarrow> static_reliable i \<and> ya_hazard (yi_static_map i) \<and>
     fusion_warningCode (ya_warning_code (yi_static_map i)) \<and> lowClearance (ya_clearance_m (yi_static_map i))"

definition risk_static :: "CargoAvoidanceFusionInput \<Rightarrow> bool" where
  "risk_static i \<longleftrightarrow> static_hazard_observed i \<and> yi_static_hazard_track_confirmed i"

definition live_clear_observed :: "CargoAvoidanceFusionConfig \<Rightarrow> CargoAvoidanceFusionInput \<Rightarrow> bool" where
  "live_clear_observed c i \<longleftrightarrow> live_reliable i \<and> yi_live_obstacle_origin_resolved i \<and> \<not> risk_live i \<and>
     yc_minimum_live_coverage_for_clear c \<le> ya_coverage (yi_live i)"

definition warning_candidate :: "CargoAvoidanceFusionInput \<Rightarrow> bool" where
  "warning_candidate i \<longleftrightarrow> risk_live i \<or> risk_static i \<or>
     (yi_warning_candidate_present i \<and> fusion_warningCode (yi_warning_candidate_code i))"

definition live_warning_without_history :: "CargoAvoidanceFusionInput \<Rightarrow> bool" where
  "live_warning_without_history i \<longleftrightarrow>
     (risk_live i \<and> fusion_warningCode (ya_warning_code (yi_live i))) \<and> \<not> yi_live_near_field_history_authorized i"

definition static_warning_without_history :: "CargoAvoidanceFusionInput \<Rightarrow> bool" where
  "static_warning_without_history i \<longleftrightarrow>
     (risk_static i \<and> fusion_warningCode (ya_warning_code (yi_static_map i))) \<and> \<not> yi_static_near_field_history_authorized i"

definition static_warning_independently_proven :: "CargoAvoidanceFusionConfig \<Rightarrow> CargoAvoidanceFusionInput \<Rightarrow> bool" where
  "static_warning_independently_proven c i \<longleftrightarrow>
     static_warning_without_history i \<and> risk_static i \<and> ya_certified_static_provenance (yi_static_map i) \<and>
     (if formal_cargo i then static_risk_contract i \<and> yi_static_hazard_track_confirmed i
      else fst (authorizePendingStaticWarning i c))"

definition live_standard_risk :: "CargoAvoidanceFusionInput \<Rightarrow> bool" where
  "live_standard_risk i \<longleftrightarrow> risk_live i \<and> \<not> live_warning_without_history i \<and> \<not> yi_anomaly_review_live i"

definition static_standard_risk :: "CargoAvoidanceFusionConfig \<Rightarrow> CargoAvoidanceFusionInput \<Rightarrow> bool" where
  "static_standard_risk c i \<longleftrightarrow>
     risk_static i \<and> (\<not> static_warning_without_history i \<or> static_warning_independently_proven c i)"

definition static_far_history_review :: "CargoAvoidanceFusionConfig \<Rightarrow> CargoAvoidanceFusionInput \<Rightarrow> bool" where
  "static_far_history_review c i \<longleftrightarrow> static_warning_without_history i \<and> \<not> static_warning_independently_proven c i"

definition unresolved_far_history_review :: "CargoAvoidanceFusionConfig \<Rightarrow> CargoAvoidanceFusionInput \<Rightarrow> bool" where
  "unresolved_far_history_review c i \<longleftrightarrow> live_warning_without_history i \<or> static_far_history_review c i"

definition unresolved_static_hazard :: "CargoAvoidanceFusionInput \<Rightarrow> bool" where
  "unresolved_static_hazard i \<longleftrightarrow> ya_available (yi_static_map i) \<and> ya_reliable (yi_static_map i) \<and>
     ya_hazard (yi_static_map i) \<and> fusion_warningCode (ya_warning_code (yi_static_map i)) \<and>
     lowClearance (ya_clearance_m (yi_static_map i)) \<and> \<not> risk_static i"

definition anomaly_review_geometry_valid :: "CargoAvoidanceFusionInput \<Rightarrow> bool" where
  "anomaly_review_geometry_valid i \<longleftrightarrow> isfinite (yi_anomaly_review_distance_m i) \<and>
     yi_anomaly_review_distance_m i \<le> Fin 5 \<and> lowClearance (yi_anomaly_review_clearance_m i)"

section \<open>The fusion\<close>

definition fusion_metrics :: "CargoAvoidanceFusionInput \<Rightarrow> CargoAvoidanceFusionResult \<Rightarrow> CargoAvoidanceFusionResult" where
  "fusion_metrics i r =
     (let r1 = (if live_reliable i \<and> yi_live_obstacle_origin_resolved i
                then r\<lparr>yo_distance_m := combineMetric (ya_distance_m (yi_live i)) (yo_distance_m r),
                       yo_clearance_m := combineMetric (ya_clearance_m (yi_live i)) (yo_clearance_m r)\<rparr>
                else r)
      in if static_reliable i
         then r1\<lparr>yo_distance_m := combineMetric (ya_distance_m (yi_static_map i)) (yo_distance_m r1),
                 yo_clearance_m := combineMetric (ya_clearance_m (yi_static_map i)) (yo_clearance_m r1)\<rparr>
         else r1)"

definition review_failed :: "CargoAvoidanceFusionResult \<Rightarrow> CargoAvoidanceFusionResult" where
  "review_failed r = r\<lparr>yo_official_valid := False, yo_official_code := kObstacleInvalid, yo_anomaly_review := False,
     yo_anomaly_review_live := False, yo_anomaly_review_static := False,
     yo_reason := ''review_hazard_identity_or_metrics_invalid'', yo_provisional_status := ''SOURCE_UNRESOLVED'',
     yo_pending_authority_reason := ''review_hazard_identity_or_metrics_invalid''\<rparr>"

definition review_source :: "CargoAvoidanceFusionResult \<Rightarrow> CargoAvoidanceFusionResult" where
  "review_source r = r\<lparr>yo_anomaly_review_live := yh_source (yo_authoritative_hazard r) = LIVE,
     yo_anomaly_review_static := yh_source (yo_authoritative_hazard r) = STATIC_MAP\<rparr>"

definition apply_unresolved_far_history_review ::
  "CargoAvoidanceFusionConfig \<Rightarrow> CargoAvoidanceFusionInput \<Rightarrow> CargoAvoidanceFusionResult \<Rightarrow> CargoAvoidanceFusionResult" where
  "apply_unresolved_far_history_review c i r =
     (let r1 = r\<lparr>yo_official_valid := True, yo_official_code := kFusionReview, yo_anomaly_review := True,
                 yo_anomaly_review_live := live_warning_without_history i,
                 yo_anomaly_review_static := static_far_history_review c i,
                 yo_reason := ''review_warning_without_true_far_history'', yo_provisional_status := ''REVIEW_REQUIRED'',
                 yo_pending_authority_reason := ''warning_without_true_far_history''\<rparr>;
          r2 = applySelectedHazard (selectReviewHazard (live_warning_without_history i) (yi_live i)
                 (static_far_history_review c i) (yi_static_map i)) r1
      in if \<not> yh_valid (yo_authoritative_hazard r2) then review_failed r2 else review_source r2)"

definition pending_standard_warning ::
  "CargoAvoidanceFusionConfig \<Rightarrow> CargoAvoidanceFusionInput \<Rightarrow> CargoAvoidanceFusionResult \<Rightarrow> CargoAvoidanceFusionResult" where
  "pending_standard_warning c i r =
     (let lr = live_standard_risk i; sr = static_standard_risk c i;
          provisional = moreSevere (if lr then ya_warning_code (yi_live i) else 0)
                                   (if sr then ya_warning_code (yi_static_map i) else 0);
          live_reason = (if lr then snd (authorizePendingWarning i c) else ''live_hazard_not_present'');
          static_reason = (if sr then snd (authorizePendingStaticWarning i c) else ''static_hazard_not_present'');
          pl = (lr \<and> fst (authorizePendingWarning i c)); ps = (sr \<and> fst (authorizePendingStaticWarning i c));
          r1 = r\<lparr>yo_provisional_status := (if provisional = kNear3m then ''NEAR_3M'' else ''NEAR_5M''),
                 yo_pending_live_warning_authorized := pl, yo_pending_static_warning_authorized := ps,
                 yo_pending_warning_authorized := pl \<or> ps\<rparr>
      in if pl \<or> ps
         then let r2 = applySelectedHazard (selectHazard pl (yi_live i) ps (yi_static_map i)) r1
              in if \<not> yh_valid (yo_authoritative_hazard r2)
                 then r2\<lparr>yo_official_valid := False, yo_official_code := kObstacleInvalid,
                         yo_pending_warning_authorized := False, yo_pending_live_warning_authorized := False,
                         yo_pending_static_warning_authorized := False,
                         yo_pending_authority_reason := ''authorized_hazard_metrics_invalid'',
                         yo_reason := ''pending_hazard_not_authorized:authorized_hazard_metrics_invalid''\<rparr>
                 else let r3 = r2\<lparr>yo_warning_authority := POSITIVE_ONLY, yo_official_valid := True\<rparr>
                      in if pl \<and> ps
                         then r3\<lparr>yo_pending_authority_reason := ''live_and_static_pending_hazard_confirmed'',
                                 yo_reason := ''pending_live_and_static_warning_authorized''\<rparr>
                         else if pl
                         then r3\<lparr>yo_pending_authority_reason := live_reason, yo_reason := ''pending_live_warning_authorized''\<rparr>
                         else r3\<lparr>yo_pending_authority_reason := static_reason,
                                 yo_reason := ''pending_static_warning_authorized''\<rparr>
         else let why = (if lr \<and> sr then ''live='' @ live_reason @ '';static='' @ static_reason
                         else if lr then live_reason else static_reason)
              in r1\<lparr>yo_pending_authority_reason := why, yo_reason := ''pending_hazard_not_authorized:'' @ why\<rparr>)"

definition fuse_pending ::
  "CargoAvoidanceFusionConfig \<Rightarrow> CargoAvoidanceFusionInput \<Rightarrow> CargoAvoidanceFusionResult \<Rightarrow> CargoAvoidanceFusionResult" where
  "fuse_pending c i r0 =
     (let r = r0\<lparr>yo_official_code := kCargoInvalid, yo_reason := ''cargo_recognition_or_geometry_invalid''\<rparr>;
          refuse = (\<lambda>status prefix why. r\<lparr>yo_provisional_status := status, yo_pending_authority_reason := why,
                                          yo_reason := prefix @ why\<rparr>)
      in if \<not> yi_pending_envelope_valid i then r\<lparr>yo_provisional_status := ''UNKNOWN''\<rparr>
         else if \<not> yi_pending_recognition_state_allows_warning i
         then refuse ''WARNING_AUTHORITY_REVOKED'' ''pending_warning_state_revoked:''
                (state_reason i ''recognition_state_not_warning_authorized'')
         else if \<not> yi_pending_pose_physically_plausible i
         then refuse ''POSE_REJECTED'' ''pending_hazard_not_authorized:''
                (state_reason i ''pending_pose_physically_implausible'')
         else if \<not> yi_pending_warning_query_allowed i
         then refuse ''QUERY_NOT_AUTHORIZED'' ''pending_hazard_not_authorized:'' ''pending_warning_query_not_authorized''
         else if unresolved_embedded_live_hazard i \<and> \<not> risk_static i
         then refuse ''SOURCE_UNRESOLVED'' ''pending_hazard_not_authorized:'' ''embedded_obstacle_origin_unresolved''
         else if live_standard_risk i \<or> static_standard_risk c i then pending_standard_warning c i r
         else if unresolved_far_history_review c i then apply_unresolved_far_history_review c i r
         else r\<lparr>yo_provisional_status := ''CLEAR_NOT_AUTHORIZED'', yo_pending_authority_reason := ''no_positive_hazard''\<rparr>)"

definition formal_warning ::
  "CargoAvoidanceFusionConfig \<Rightarrow> CargoAvoidanceFusionInput \<Rightarrow> CargoAvoidanceFusionResult \<Rightarrow> CargoAvoidanceFusionResult" where
  "formal_warning c i r =
     (let lr = live_standard_risk i; sr = static_standard_risk c i;
          r1 = applySelectedHazard (selectHazard lr (yi_live i) sr (yi_static_map i)) r
      in if \<not> yh_valid (yo_authoritative_hazard r1)
         then r1\<lparr>yo_official_code := kObstacleInvalid, yo_reason := ''authorized_hazard_metrics_invalid''\<rparr>
         else r1\<lparr>yo_warning_authority := FORMAL, yo_official_valid := True,
                 yo_reason := (if yo_map_live_conflict r1 then ''MAP_LIVE_CONFLICT_static_hazard_retained''
                               else if lr \<and> sr then ''live_and_static_hazard''
                               else if lr then ''live_hazard'' else ''static_hazard'')\<rparr>)"

definition anomaly_review ::
  "CargoAvoidanceFusionInput \<Rightarrow> CargoAvoidanceFusionResult \<Rightarrow> CargoAvoidanceFusionResult" where
  "anomaly_review i r =
     (let why = (if yi_anomaly_review_reason i = '''' then ''avoidance_anomaly_review_required'' else yi_anomaly_review_reason i);
          r1 = r\<lparr>yo_official_valid := True, yo_official_code := kFusionReview, yo_anomaly_review := True,
                 yo_anomaly_review_live := yi_anomaly_review_live i, yo_anomaly_review_static := yi_anomaly_review_static i,
                 yo_reason := why, yo_provisional_status := ''REVIEW_REQUIRED'', yo_pending_authority_reason := why,
                 yo_distance_m := yi_anomaly_review_distance_m i, yo_clearance_m := yi_anomaly_review_clearance_m i\<rparr>;
          r2 = applySelectedHazard (selectReviewHazard (yi_anomaly_review_live i) (yi_live i)
                 (yi_anomaly_review_static i) (yi_static_map i)) r1
      in if \<not> yh_valid (yo_authoritative_hazard r2) then review_failed r2 else review_source r2)"

definition fuse_formal ::
  "CargoAvoidanceFusionConfig \<Rightarrow> CargoAvoidanceFusionInput \<Rightarrow> CargoAvoidanceFusionResult \<Rightarrow> CargoAvoidanceFusionResult" where
  "fuse_formal c i r =
     (if live_standard_risk i \<or> static_standard_risk c i then formal_warning c i r
      else if unresolved_far_history_review c i then apply_unresolved_far_history_review c i r
      else if yi_anomaly_review_candidate i \<and> anomaly_review_geometry_valid i then anomaly_review i r
      else if unresolved_embedded_live_hazard i
      then r\<lparr>yo_official_code := kObstacleInvalid, yo_reason := ''embedded_obstacle_origin_unresolved''\<rparr>
      else if yi_warning_candidate_present i \<and> fusion_warningCode (yi_warning_candidate_code i)
      then r\<lparr>yo_official_code := kObstacleInvalid, yo_reason := ''warning_candidate_source_not_authorized''\<rparr>
      else if \<not> yi_formal_clear_authorized i
      then r\<lparr>yo_official_code := kCargoInvalid, yo_reason := ''formal_cargo_clear_not_authorized''\<rparr>
      else if \<not> live_clear_observed c i
      then r\<lparr>yo_official_code := kObstacleInvalid, yo_reason := ''live_roi_not_reliable_for_clear''\<rparr>
      else if unresolved_static_hazard i
      then r\<lparr>yo_official_code := kObstacleInvalid, yo_reason := ''unverified_static_hazard_blocks_clear''\<rparr>
      else r\<lparr>yo_official_valid := True, yo_official_code := kFusionClear, yo_reason := ''formal_live_clear''\<rparr>)"

text \<open>The result after the metrics, with the flags of the frame, and the function as a whole.\<close>

definition fusion_frame :: "CargoAvoidanceFusionConfig \<Rightarrow> CargoAvoidanceFusionInput \<Rightarrow> CargoAvoidanceFusionResult" where
  "fusion_frame c i =
     (fusion_metrics i (default_CargoAvoidanceFusionResult\<lparr>yo_risk_live := risk_live i, yo_risk_static := risk_static i\<rparr>))
       \<lparr>yo_map_live_conflict := risk_static i \<and> live_clear_observed c i\<rparr>"

definition fuseCargoAvoidanceRisk ::
  "CargoAvoidanceFusionConfig \<Rightarrow> CargoAvoidanceFusionInput \<Rightarrow> CargoAvoidanceFusionResult" where
  "fuseCargoAvoidanceRisk c i =
     (if \<not> yi_localization_valid i
      then default_CargoAvoidanceFusionResult\<lparr>yo_official_code := kLocalizationInvalid, yo_reason := ''localization_invalid''\<rparr>
      else let r = fusion_frame c i
           in if static_hazard_observed i \<and> \<not> yi_static_hazard_track_confirmed i \<and> \<not> risk_live i \<and>
                 \<not> yi_warning_candidate_present i
              then r\<lparr>yo_official_code := kObstacleInvalid, yo_reason := ''static_hazard_track_confirmation_pending'',
                     yo_provisional_status := ''TRACK_CONFIRMATION_PENDING'',
                     yo_pending_authority_reason := ''static_hazard_track_confirmation_pending''\<rparr>
              else let r1 = (if warning_candidate i \<and> \<not> yi_warning_motion_authorized i
                             then r\<lparr>yo_motion_not_authoritative := True\<rparr> else r)
                   in if \<not> formal_cargo i then fuse_pending c i r1 else fuse_formal c i r1)"

section \<open>The selected hazard\<close>

lemma hazard_of_simps [simp]:
  "yh_valid (hazard_of src k r)" "yh_source (hazard_of src k r) = src" "yh_warning_code (hazard_of src k r) = k"
  "yh_distance_m (hazard_of src k r) = ya_distance_m r" "yh_clearance_m (hazard_of src k r) = ya_clearance_m r"
  by (simp_all add: hazard_of_def)

lemma default_hazard [simp]: "\<not> yh_valid default_AuthoritativeCargoHazard"
  by (simp add: default_AuthoritativeCargoHazard_def)

text \<open>Both selections choose among the allowed and selectable sources, and choose one as soon as there is one.\<close>

definition offered :: "bool \<Rightarrow> CargoAvoidanceSourceRisk \<Rightarrow> bool \<Rightarrow> CargoAvoidanceSourceRisk \<Rightarrow>
    (CargoAvoidanceHazardSource \<times> CargoAvoidanceSourceRisk) set" where
  "offered al l as s = {(src, r). selectable r \<and> (al \<and> src = LIVE \<and> r = l \<or> as \<and> src = STATIC_MAP \<and> r = s)}"

lemma selectHazard_valid: "yh_valid (selectHazard al l as s) \<longleftrightarrow> offered al l as s \<noteq> {}"
  by (auto simp: selectHazard_def consider_hazard_def offered_def Let_def)

lemma selectReviewHazard_valid: "yh_valid (selectReviewHazard al l as s) \<longleftrightarrow> offered al l as s \<noteq> {}"
  by (auto simp: selectReviewHazard_def consider_review_def offered_def Let_def)

lemma consider_from:
  "consider_hazard src r h = h \<or> selectable r \<and> consider_hazard src r h = hazard_of src (ya_warning_code r) r"
  "consider_review src r h = h \<or> selectable r \<and> consider_review src r h = hazard_of src kFusionReview r"
  by (simp_all add: consider_hazard_def consider_review_def Let_def)

lemma selectHazard_from:
  assumes "yh_valid (selectHazard al l as s)"
  obtains src r where "(src, r) \<in> offered al l as s" "selectHazard al l as s = hazard_of src (ya_warning_code r) r"
proof -
  let ?h = "if al then consider_hazard LIVE l default_AuthoritativeCargoHazard else default_AuthoritativeCargoHazard"
  have step: "selectHazard al l as s = (if as then consider_hazard STATIC_MAP s ?h else ?h)" by (simp add: selectHazard_def Let_def)
  show ?thesis
    using consider_from(1) [of STATIC_MAP s ?h] consider_from(1) [of LIVE l default_AuthoritativeCargoHazard] assms that [of STATIC_MAP s] that [of LIVE l]
    unfolding step by (auto simp: offered_def split: if_split_asm)
qed

lemma selectReviewHazard_from:
  assumes "yh_valid (selectReviewHazard al l as s)"
  obtains src r where "(src, r) \<in> offered al l as s" "selectReviewHazard al l as s = hazard_of src kFusionReview r"
proof -
  let ?h = "if al then consider_review LIVE l default_AuthoritativeCargoHazard else default_AuthoritativeCargoHazard"
  have step: "selectReviewHazard al l as s = (if as then consider_review STATIC_MAP s ?h else ?h)" by (simp add: selectReviewHazard_def Let_def)
  show ?thesis
    using consider_from(2) [of STATIC_MAP s ?h] consider_from(2) [of LIVE l default_AuthoritativeCargoHazard] assms that [of STATIC_MAP s] that [of LIVE l]
    unfolding step by (auto simp: offered_def split: if_split_asm)
qed

lemma selectable_code: "selectable r \<Longrightarrow> ya_warning_code r = kNear3m \<or> ya_warning_code r = kNear5m"
  by (simp add: selectable_def fusion_warningCode_def)

lemma selectable_distance: "selectable r \<Longrightarrow> \<exists>d. ya_distance_m r = Fin d \<and> 0 < d"
  by (auto simp: selectable_def isfinite_iff)

text \<open>No offered hazard is more severe than the selected one, and none of the same severity is nearer.\<close>

definition at_least_as_dangerous :: "AuthoritativeCargoHazard \<Rightarrow> CargoAvoidanceSourceRisk \<Rightarrow> bool" where
  "at_least_as_dangerous h r \<longleftrightarrow> yh_valid h \<and> (yh_warning_code h = kNear3m \<or> yh_warning_code h = ya_warning_code r) \<and>
     (yh_warning_code h = ya_warning_code r \<longrightarrow> yh_distance_m h \<le> ya_distance_m r)"

lemma consider_hazard_keeps:
  assumes "at_least_as_dangerous h r" and "selectable r" and "yh_distance_m h = Fin d"
  shows "at_least_as_dangerous (consider_hazard src q h) r"
proof (cases "selectable q")
  case True
  then show ?thesis
    using assms selectable_distance [OF True] selectable_distance [OF assms(2)] selectable_code [OF True] selectable_code [OF assms(2)]
    by (auto simp: consider_hazard_def at_least_as_dangerous_def Let_def fusion_codes)
qed (use assms in \<open>simp add: consider_hazard_def\<close>)

lemma consider_hazard_covers:
  assumes "selectable r" and "yh_valid h \<Longrightarrow> \<exists>d. yh_distance_m h = Fin d"
    and "yh_valid h \<Longrightarrow> yh_warning_code h = kNear3m \<or> yh_warning_code h = kNear5m"
  shows "at_least_as_dangerous (consider_hazard src r h) r"
  using assms selectable_distance [OF assms(1)] selectable_code [OF assms(1)]
  by (cases "yh_valid h") (auto simp: consider_hazard_def at_least_as_dangerous_def Let_def fusion_codes)

lemma selectHazard_worst:
  assumes "(src, r) \<in> offered al l as s"
  shows "at_least_as_dangerous (selectHazard al l as s) r"
proof -
  let ?h = "if al then consider_hazard LIVE l default_AuthoritativeCargoHazard else default_AuthoritativeCargoHazard"
  have h: "\<exists>d. yh_distance_m ?h = Fin d" "yh_warning_code ?h = kNear3m \<or> yh_warning_code ?h = kNear5m" if "yh_valid ?h"
    using that selectable_distance [of l] selectable_code [of l] by (auto simp: consider_hazard_def Let_def split: if_split_asm)
  show ?thesis
  proof (cases "as \<and> r = s")
    case True
    then show ?thesis
      using assms consider_hazard_covers [of s ?h STATIC_MAP] h by (auto simp: offered_def selectHazard_def Let_def split: if_split_asm)
  next
    case False
    then have r: "al" "r = l" "selectable l" using assms by (auto simp: offered_def)
    have "at_least_as_dangerous ?h r" using r consider_hazard_covers [of l default_AuthoritativeCargoHazard LIVE] by simp
    then show ?thesis
      using r h consider_hazard_keeps [of ?h r _ STATIC_MAP s] by (auto simp: selectHazard_def Let_def at_least_as_dangerous_def)
  qed
qed

lemma apply_valid [simp]: "yo_authoritative_hazard (applySelectedHazard h r) = h"
  by (simp add: applySelectedHazard_def)

lemma apply_official [simp]: "yo_official_valid (applySelectedHazard h r) = yo_official_valid r"
  by (simp add: applySelectedHazard_def)

lemma apply_copies:
  assumes "yh_valid h"
  shows "yo_official_code (applySelectedHazard h r) = yh_warning_code h" "yo_distance_m (applySelectedHazard h r) = yh_distance_m h"
    "yo_clearance_m (applySelectedHazard h r) = yh_clearance_m h"
  using assms by (simp_all add: applySelectedHazard_def)

section \<open>The answers\<close>

lemma fusion_metrics_simps [simp]:
  "yo_official_valid (fusion_metrics i r) = yo_official_valid r" "yo_official_code (fusion_metrics i r) = yo_official_code r"
  "yo_authoritative_hazard (fusion_metrics i r) = yo_authoritative_hazard r"
  "yo_warning_authority (fusion_metrics i r) = yo_warning_authority r" "yo_anomaly_review (fusion_metrics i r) = yo_anomaly_review r"
  by (simp_all add: fusion_metrics_def Let_def)

lemma fusion_frame_simps [simp]:
  "\<not> yo_official_valid (fusion_frame c i)" "yo_official_code (fusion_frame c i) = 33"
  "yo_authoritative_hazard (fusion_frame c i) = default_AuthoritativeCargoHazard"
  "yo_warning_authority (fusion_frame c i) = CargoWarningAuthority.NONE" "\<not> yo_anomaly_review (fusion_frame c i)"
  by (simp_all add: fusion_frame_def default_CargoAvoidanceFusionResult_def)

text \<open>What every branch hands out: a refusal, a review, a warning or a clear, with the sources it may name.\<close>

definition refused :: "CargoAvoidanceFusionResult \<Rightarrow> bool" where
  "refused r \<longleftrightarrow> \<not> yo_official_valid r \<and> \<not> yh_valid (yo_authoritative_hazard r) \<and> yo_official_code r \<in> {31, 33, 34} \<and>
     yo_warning_authority r = CargoWarningAuthority.NONE"

definition copies :: "CargoAvoidanceFusionResult \<Rightarrow> CargoAvoidanceHazardSource \<Rightarrow> CargoAvoidanceSourceRisk \<Rightarrow> bool" where
  "copies r src q \<longleftrightarrow> yo_official_valid r \<and> yo_authoritative_hazard r = hazard_of src (yo_official_code r) q \<and>
     yo_distance_m r = ya_distance_m q \<and> yo_clearance_m r = ya_clearance_m q"

definition reviewed :: "CargoAvoidanceFusionResult \<Rightarrow> CargoAvoidanceHazardSource \<Rightarrow> CargoAvoidanceSourceRisk \<Rightarrow> bool" where
  "reviewed r src q \<longleftrightarrow> copies r src q \<and> yo_official_code r = 29 \<and> yo_anomaly_review r \<and>
     yo_warning_authority r = CargoWarningAuthority.NONE"

definition warned ::
  "CargoWarningAuthority \<Rightarrow> CargoAvoidanceFusionResult \<Rightarrow> CargoAvoidanceHazardSource \<Rightarrow> CargoAvoidanceSourceRisk \<Rightarrow> bool" where
  "warned a r src q \<longleftrightarrow> copies r src q \<and> yo_official_code r = ya_warning_code q \<and> yo_warning_authority r = a"

lemma far_history_review_cases:
  assumes "yo_warning_authority r = CargoWarningAuthority.NONE"
  obtains (refused) "refused (apply_unresolved_far_history_review c i r)"
  | (review) src q where "reviewed (apply_unresolved_far_history_review c i r) src q"
      "(src, q) \<in> offered (live_warning_without_history i) (yi_live i) (static_far_history_review c i) (yi_static_map i)"
proof (cases "yh_valid (selectReviewHazard (live_warning_without_history i) (yi_live i) (static_far_history_review c i) (yi_static_map i))")
  case True
  then obtain src q where q: "(src, q) \<in> offered (live_warning_without_history i) (yi_live i) (static_far_history_review c i) (yi_static_map i)"
    "selectReviewHazard (live_warning_without_history i) (yi_live i) (static_far_history_review c i) (yi_static_map i) =
       hazard_of src kFusionReview q" by (rule selectReviewHazard_from)
  then show ?thesis
    using assms by (intro review [of src q])
      (simp_all add: apply_unresolved_far_history_review_def review_source_def reviewed_def copies_def Let_def apply_copies
        fusion_codes, simp_all add: applySelectedHazard_def)
next
  case False
  then show ?thesis
    using assms by (intro refused) (simp add: apply_unresolved_far_history_review_def review_failed_def refused_def Let_def fusion_codes,
      simp add: applySelectedHazard_def)
qed

lemma anomaly_review_cases:
  assumes "yo_warning_authority r = CargoWarningAuthority.NONE"
  obtains (refused) "refused (anomaly_review i r)"
  | (review) src q where "reviewed (anomaly_review i r) src q"
      "(src, q) \<in> offered (yi_anomaly_review_live i) (yi_live i) (yi_anomaly_review_static i) (yi_static_map i)"
proof (cases "yh_valid (selectReviewHazard (yi_anomaly_review_live i) (yi_live i) (yi_anomaly_review_static i) (yi_static_map i))")
  case True
  then obtain src q where q: "(src, q) \<in> offered (yi_anomaly_review_live i) (yi_live i) (yi_anomaly_review_static i) (yi_static_map i)"
    "selectReviewHazard (yi_anomaly_review_live i) (yi_live i) (yi_anomaly_review_static i) (yi_static_map i) = hazard_of src kFusionReview q"
    by (rule selectReviewHazard_from)
  then show ?thesis
    using assms by (intro review [of src q])
      (simp_all add: anomaly_review_def review_source_def reviewed_def copies_def Let_def apply_copies fusion_codes, simp_all add: applySelectedHazard_def)
next
  case False
  then show ?thesis
    using assms by (intro refused) (simp add: anomaly_review_def review_failed_def refused_def Let_def fusion_codes, simp add: applySelectedHazard_def)
qed

lemma formal_warning_cases:
  assumes "yo_warning_authority r = CargoWarningAuthority.NONE" and "\<not> yo_official_valid r"
  obtains (refused) "refused (formal_warning c i r)"
      "offered (live_standard_risk i) (yi_live i) (static_standard_risk c i) (yi_static_map i) = {}"
  | (warned) src q where "warned FORMAL (formal_warning c i r) src q"
      "(src, q) \<in> offered (live_standard_risk i) (yi_live i) (static_standard_risk c i) (yi_static_map i)"
proof (cases "yh_valid (selectHazard (live_standard_risk i) (yi_live i) (static_standard_risk c i) (yi_static_map i))")
  case True
  then obtain src q where q: "(src, q) \<in> offered (live_standard_risk i) (yi_live i) (static_standard_risk c i) (yi_static_map i)"
    "selectHazard (live_standard_risk i) (yi_live i) (static_standard_risk c i) (yi_static_map i) = hazard_of src (ya_warning_code q) q"
    by (rule selectHazard_from)
  then show ?thesis
    by (intro warned [of src q]) (simp_all add: formal_warning_def warned_def copies_def Let_def apply_copies)
next
  case False
  then show ?thesis
    using assms by (intro refused) (simp_all add: formal_warning_def refused_def Let_def fusion_codes selectHazard_valid,
      simp add: applySelectedHazard_def)
qed

definition pending_live :: "CargoAvoidanceFusionConfig \<Rightarrow> CargoAvoidanceFusionInput \<Rightarrow> bool" where
  "pending_live c i \<longleftrightarrow> live_standard_risk i \<and> fst (authorizePendingWarning i c)"

definition pending_static :: "CargoAvoidanceFusionConfig \<Rightarrow> CargoAvoidanceFusionInput \<Rightarrow> bool" where
  "pending_static c i \<longleftrightarrow> static_standard_risk c i \<and> fst (authorizePendingStaticWarning i c)"

lemma pending_warning_cases:
  assumes "yo_warning_authority r = CargoWarningAuthority.NONE" and "\<not> yo_official_valid r" and "yo_official_code r = 33"
    and "\<not> yh_valid (yo_authoritative_hazard r)"
  obtains (refused) "refused (pending_standard_warning c i r)"
      "offered (pending_live c i) (yi_live i) (pending_static c i) (yi_static_map i) = {}"
  | (warned) src q where "warned POSITIVE_ONLY (pending_standard_warning c i r) src q"
      "(src, q) \<in> offered (pending_live c i) (yi_live i) (pending_static c i) (yi_static_map i)"
proof (cases "yh_valid (selectHazard (pending_live c i) (yi_live i) (pending_static c i) (yi_static_map i))")
  case True
  then obtain src q where q: "(src, q) \<in> offered (pending_live c i) (yi_live i) (pending_static c i) (yi_static_map i)"
    "selectHazard (pending_live c i) (yi_live i) (pending_static c i) (yi_static_map i) = hazard_of src (ya_warning_code q) q"
    by (rule selectHazard_from)
  from q(1) have "pending_live c i \<or> pending_static c i" by (auto simp: offered_def)
  with q show ?thesis
    by (intro warned [of src q])
      (simp_all add: pending_standard_warning_def warned_def copies_def Let_def apply_copies flip: pending_live_def pending_static_def)
next
  case False
  then show ?thesis
    using assms by (intro refused)
      (simp_all add: pending_standard_warning_def refused_def Let_def fusion_codes selectHazard_valid flip: pending_live_def pending_static_def,
        simp add: applySelectedHazard_def)
qed

definition cleared :: "CargoAvoidanceFusionResult \<Rightarrow> bool" where
  "cleared r \<longleftrightarrow> yo_official_valid r \<and> yo_official_code r = 14 \<and> \<not> yh_valid (yo_authoritative_hazard r) \<and>
     yo_warning_authority r = CargoWarningAuthority.NONE"

lemma fuse_pending_cases:
  assumes "yo_warning_authority r = CargoWarningAuthority.NONE" and "\<not> yo_official_valid r" and "\<not> yh_valid (yo_authoritative_hazard r)"
  obtains (refused) "refused (fuse_pending c i r)"
  | (review) src q where "reviewed (fuse_pending c i r) src q"
      "(src, q) \<in> offered (live_warning_without_history i) (yi_live i) (static_far_history_review c i) (yi_static_map i)"
  | (warned) src q where "warned POSITIVE_ONLY (fuse_pending c i r) src q"
      "(src, q) \<in> offered (pending_live c i) (yi_live i) (pending_static c i) (yi_static_map i)"
proof -
  let ?r = "r\<lparr>yo_official_code := kCargoInvalid, yo_reason := ''cargo_recognition_or_geometry_invalid''\<rparr>"
  define y A B where y: "y = fuse_pending c i r" and A: "A = pending_standard_warning c i ?r"
    and B: "B = apply_unresolved_far_history_review c i ?r"
  have "refused y \<or> y = A \<or> y = B"
    using y [unfolded fuse_pending_def Let_def, folded A B] assms
    by (simp add: refused_def fusion_codes split: if_split_asm)
  then consider "refused (fuse_pending c i r)" | "fuse_pending c i r = pending_standard_warning c i ?r"
    | "fuse_pending c i r = apply_unresolved_far_history_review c i ?r"
    unfolding y A B by blast
  then show ?thesis
  proof cases
    case 2
    show ?thesis by (rule pending_warning_cases [of ?r c i]) (use assms 2 in \<open>auto simp: fusion_codes intro: refused warned\<close>)
  next
    case 3
    show ?thesis by (rule far_history_review_cases [of ?r c i]) (use assms 3 in \<open>auto intro: refused review\<close>)
  qed (rule refused)
qed

lemma fuse_formal_cases:
  assumes "yo_warning_authority r = CargoWarningAuthority.NONE" and "\<not> yo_official_valid r" and "\<not> yh_valid (yo_authoritative_hazard r)"
  obtains (refused) "refused (fuse_formal c i r)"
  | (review) src q where "reviewed (fuse_formal c i r) src q"
      "(src, q) \<in> offered (live_warning_without_history i \<or> yi_anomaly_review_live i) (yi_live i)
                   (static_far_history_review c i \<or> yi_anomaly_review_static i) (yi_static_map i)"
  | (warned) src q where "warned FORMAL (fuse_formal c i r) src q"
      "(src, q) \<in> offered (live_standard_risk i) (yi_live i) (static_standard_risk c i) (yi_static_map i)"
  | (cleared) "cleared (fuse_formal c i r)" "yi_formal_clear_authorized i" "live_clear_observed c i" "\<not> unresolved_static_hazard i"
      "\<not> live_standard_risk i" "\<not> static_standard_risk c i" "\<not> unresolved_far_history_review c i"
      "\<not> (yi_warning_candidate_present i \<and> fusion_warningCode (yi_warning_candidate_code i))"
      "\<not> (yi_anomaly_review_candidate i \<and> anomaly_review_geometry_valid i)"
proof -
  define y A B D where y: "y = fuse_formal c i r" and A: "A = formal_warning c i r"
    and B: "B = apply_unresolved_far_history_review c i r" and D: "D = anomaly_review i r"
  have "refused y \<or> y = A \<or> y = B \<or> y = D \<or> cleared y \<and> yi_formal_clear_authorized i \<and> live_clear_observed c i \<and>
      \<not> unresolved_static_hazard i \<and> \<not> live_standard_risk i \<and> \<not> static_standard_risk c i \<and> \<not> unresolved_far_history_review c i \<and>
      \<not> (yi_warning_candidate_present i \<and> fusion_warningCode (yi_warning_candidate_code i)) \<and>
      \<not> (yi_anomaly_review_candidate i \<and> anomaly_review_geometry_valid i)"
    using y [unfolded fuse_formal_def, folded A B D] assms
    by (simp add: refused_def cleared_def fusion_codes split: if_split_asm)
  then consider "refused (fuse_formal c i r)" | "fuse_formal c i r = formal_warning c i r"
    | "fuse_formal c i r = apply_unresolved_far_history_review c i r" | "fuse_formal c i r = anomaly_review i r"
    | "cleared (fuse_formal c i r) \<and> yi_formal_clear_authorized i \<and> live_clear_observed c i \<and> \<not> unresolved_static_hazard i \<and>
       \<not> live_standard_risk i \<and> \<not> static_standard_risk c i \<and> \<not> unresolved_far_history_review c i \<and>
       \<not> (yi_warning_candidate_present i \<and> fusion_warningCode (yi_warning_candidate_code i)) \<and>
       \<not> (yi_anomaly_review_candidate i \<and> anomaly_review_geometry_valid i)"
    unfolding y A B D by blast
  then show ?thesis
  proof cases
    case 2
    show ?thesis by (rule formal_warning_cases [of r c i]) (use assms 2 in \<open>auto intro: refused warned\<close>)
  next
    case 3
    show ?thesis by (rule far_history_review_cases [of r c i]) (use assms 3 in \<open>auto simp: offered_def intro: refused review\<close>)
  next
    case 4
    show ?thesis by (rule anomaly_review_cases [of r i]) (use assms 4 in \<open>auto simp: offered_def intro: refused review\<close>)
  next
    case 5
    then show ?thesis using cleared by blast
  qed (rule refused)
qed

text \<open>The sources an official answer may name: for a formal cargo the standard risks, for a pending one those it may warn of.\<close>

definition warnable ::
  "CargoAvoidanceFusionConfig \<Rightarrow> CargoAvoidanceFusionInput \<Rightarrow> (CargoAvoidanceHazardSource \<times> CargoAvoidanceSourceRisk) set" where
  "warnable c i =
     (if formal_cargo i then offered (live_standard_risk i) (yi_live i) (static_standard_risk c i) (yi_static_map i)
      else offered (pending_live c i) (yi_live i) (pending_static c i) (yi_static_map i))"

definition sources :: "CargoAvoidanceFusionInput \<Rightarrow> (CargoAvoidanceHazardSource \<times> CargoAvoidanceSourceRisk) set" where
  "sources i = offered True (yi_live i) True (yi_static_map i)"

lemma offered_sources: "x \<in> offered al (yi_live i) as (yi_static_map i) \<Longrightarrow> x \<in> sources i"
  by (auto simp: sources_def offered_def)

lemma fuse_cases:
  obtains (refused) "refused (fuseCargoAvoidanceRisk c i)"
  | (review) src q where "reviewed (fuseCargoAvoidanceRisk c i) src q" "(src, q) \<in> sources i" "yi_localization_valid i"
  | (warned) a src q where "warned a (fuseCargoAvoidanceRisk c i) src q" "(src, q) \<in> warnable c i" "yi_localization_valid i"
      "a = (if formal_cargo i then FORMAL else POSITIVE_ONLY)"
  | (cleared) "cleared (fuseCargoAvoidanceRisk c i)" "yi_localization_valid i" "formal_cargo i" "yi_formal_clear_authorized i"
      "live_clear_observed c i" "\<not> unresolved_static_hazard i" "\<not> static_standard_risk c i" "\<not> unresolved_far_history_review c i"
proof -
  define r where "r = (if warning_candidate i \<and> \<not> yi_warning_motion_authorized i
    then (fusion_frame c i)\<lparr>yo_motion_not_authoritative := True\<rparr> else fusion_frame c i)"
  have r: "yo_warning_authority r = CargoWarningAuthority.NONE" "\<not> yo_official_valid r" "\<not> yh_valid (yo_authoritative_hazard r)"
    by (simp_all add: r_def)
  define y where y: "y = fuseCargoAvoidanceRisk c i"
  have "refused y \<or> yi_localization_valid i \<and> \<not> formal_cargo i \<and> y = fuse_pending c i r \<or>
      yi_localization_valid i \<and> formal_cargo i \<and> y = fuse_formal c i r"
    using y [unfolded fuseCargoAvoidanceRisk_def Let_def, folded r_def]
    by (simp add: refused_def fusion_codes default_CargoAvoidanceFusionResult_def split: if_split_asm)
  then consider "refused (fuseCargoAvoidanceRisk c i)"
    | "yi_localization_valid i" "\<not> formal_cargo i" "fuseCargoAvoidanceRisk c i = fuse_pending c i r"
    | "yi_localization_valid i" "formal_cargo i" "fuseCargoAvoidanceRisk c i = fuse_formal c i r"
    unfolding y by blast
  then show ?thesis
  proof cases
    case 2
    show ?thesis
      by (rule fuse_pending_cases [OF r, of c i]) (use 2 in \<open>auto simp: warnable_def dest: offered_sources intro: refused review warned\<close>)
  next
    case 3
    show ?thesis
      by (rule fuse_formal_cases [OF r, of c i])
        (use 3 in \<open>auto simp: warnable_def dest: offered_sources intro: refused review warned cleared\<close>)
  qed (rule refused)
qed

text \<open>C4. A clear rests on the evidence of the frame: the localisation, the formal geometry and the bottom of the cargo are
  valid and the clear is authorised; the live view is available, reliable, of resolved origin and covers the required
  share; and neither the live view nor the static map has a reliable obstacle that is reported as a hazard with low
  clearance. A cargo that is only pending is never cleared.\<close>

theorem fusion_clear_backed:
  assumes "yo_official_valid (fuseCargoAvoidanceRisk c i)" and "yo_official_code (fuseCargoAvoidanceRisk c i) = 14"
  shows "yi_localization_valid i \<and> yi_formal_cargo_geometry_valid i \<and> yi_formal_cargo_bottom_valid i \<and> yi_formal_clear_authorized i \<and>
    ya_available (yi_live i) \<and> ya_reliable (yi_live i) \<and> yi_live_obstacle_origin_resolved i \<and>
    yc_minimum_live_coverage_for_clear c \<le> ya_coverage (yi_live i) \<and>
    \<not> (ya_hazard (yi_live i) \<and> ya_warning_code (yi_live i) \<in> {17, 18} \<and> lowClearance (ya_clearance_m (yi_live i))) \<and>
    \<not> (ya_available (yi_static_map i) \<and> ya_reliable (yi_static_map i) \<and> ya_hazard (yi_static_map i) \<and>
       ya_warning_code (yi_static_map i) \<in> {17, 18} \<and> lowClearance (ya_clearance_m (yi_static_map i)))"
proof (cases rule: fuse_cases [of c i])
  case cleared
  have "\<not> risk_static i"
    using cleared(7,8) by (auto simp: static_standard_risk_def unresolved_far_history_review_def static_far_history_review_def)
  then show ?thesis
    using cleared(2-6) by (auto simp: formal_cargo_def live_clear_observed_def live_reliable_def risk_live_def
      unresolved_static_hazard_def fusion_warningCode_def fusion_codes)
next
  case (warned a src q)
  then show ?thesis
    using assms by (auto simp: warned_def warnable_def offered_def fusion_codes dest: selectable_code split: if_split_asm)
qed (use assms in \<open>auto simp: refused_def reviewed_def\<close>)

text \<open>What stands behind a source that may be warned of.\<close>

definition warning_evidence ::
  "CargoAvoidanceFusionInput \<Rightarrow> CargoAvoidanceHazardSource \<Rightarrow> CargoAvoidanceSourceRisk \<Rightarrow> bool" where
  "warning_evidence i src q \<longleftrightarrow> ya_available q \<and> ya_reliable q \<and> selectable q \<and>
     (src = LIVE \<and> q = yi_live i \<and> yi_live_obstacle_origin_resolved i \<and> yi_live_near_field_history_authorized i \<and>
        \<not> yi_anomaly_review_live i \<or>
      src = STATIC_MAP \<and> q = yi_static_map i \<and> static_risk_contract i \<and> ya_certified_static_provenance q \<and>
        yi_static_hazard_track_confirmed i)"

lemma standard_evidence:
  "(src, q) \<in> offered (live_standard_risk i) (yi_live i) (static_standard_risk c i) (yi_static_map i) \<Longrightarrow> warning_evidence i src q"
  by (auto simp: offered_def warning_evidence_def live_standard_risk_def static_standard_risk_def risk_live_def risk_static_def
      static_hazard_observed_def static_reliable_def live_reliable_def live_warning_without_history_def)

definition pending_identity :: "CargoAvoidanceFusionConfig \<Rightarrow> CargoAvoidanceFusionInput \<Rightarrow> bool" where
  "pending_identity c i \<longleftrightarrow> yi_pending_recognition_state_allows_warning i \<and> yi_pending_pose_physically_plausible i \<and>
     yi_pending_warning_query_allowed i \<and> yc_pending_warning_promotion_policy c \<noteq> DISABLED \<and>
     pendingSourceCanCarryIdentity (yi_pending_envelope_source i) \<and> pendingPoseCanCarryIdentity (yi_pending_pose_source i) \<and>
     yi_pending_self_evidence_valid i"

lemma authorized_identity:
  "fst (authorizePendingWarning i c) \<Longrightarrow> pending_identity c i \<and> yi_pending_external_separation_valid i \<and>
     yi_pending_external_obstacle_track_id i \<noteq> 0 \<and>
     yc_pending_minimum_obstacle_confirmations c \<le> yi_pending_external_obstacle_confirmations i \<and>
     yi_pending_external_provenance_valid i"
  "fst (authorizePendingStaticWarning i c) \<Longrightarrow> pending_identity c i \<and> yi_pending_static_obstacle_id i \<noteq> 0 \<and>
     yc_pending_minimum_obstacle_confirmations c \<le> yi_pending_static_obstacle_confirmations i \<and>
     yi_pending_static_provenance_valid i"
  by (simp_all add: authorizePendingWarning_def authorizePendingStaticWarning_def pending_identity_def split: if_split_asm)

text \<open>C5. A warning 17 or 18 is that of one source with evidence of its own: the code, the distance and the clearance are
  copied from it; it is available and reliable, a hazard with low clearance at a positive distance; a live
  obstacle has a resolved origin and a history of approach, a static one a certified provenance, the contract of the session
  and a confirmed track. If the cargo is only pending, the warning is positive-only, its own identity is established and the
  obstacle has an identity, its confirmations and a valid provenance.\<close>

theorem fusion_warning_backed:
  assumes "yo_official_valid (fuseCargoAvoidanceRisk c i)" and "yo_official_code (fuseCargoAvoidanceRisk c i) \<in> {17, 18}"
  shows "yi_localization_valid i \<and>
    (\<exists>src q. warning_evidence i src q \<and> ya_warning_code q = yo_official_code (fuseCargoAvoidanceRisk c i) \<and>
       yo_authoritative_hazard (fuseCargoAvoidanceRisk c i) = hazard_of src (ya_warning_code q) q \<and>
       yo_distance_m (fuseCargoAvoidanceRisk c i) = ya_distance_m q \<and> yo_clearance_m (fuseCargoAvoidanceRisk c i) = ya_clearance_m q \<and>
       (formal_cargo i \<and> yo_warning_authority (fuseCargoAvoidanceRisk c i) = FORMAL \<or>
        yo_warning_authority (fuseCargoAvoidanceRisk c i) = POSITIVE_ONLY \<and> pending_identity c i \<and>
        (src = LIVE \<and> yi_pending_external_obstacle_track_id i \<noteq> 0 \<and> yi_pending_external_provenance_valid i \<and>
           yc_pending_minimum_obstacle_confirmations c \<le> yi_pending_external_obstacle_confirmations i \<or>
         src = STATIC_MAP \<and> yi_pending_static_obstacle_id i \<noteq> 0 \<and> yi_pending_static_provenance_valid i \<and>
           yc_pending_minimum_obstacle_confirmations c \<le> yi_pending_static_obstacle_confirmations i)))"
proof (cases rule: fuse_cases [of c i])
  case (warned a src q)
  have copied: "ya_warning_code q = yo_official_code (fuseCargoAvoidanceRisk c i)"
    "yo_authoritative_hazard (fuseCargoAvoidanceRisk c i) = hazard_of src (ya_warning_code q) q"
    "yo_distance_m (fuseCargoAvoidanceRisk c i) = ya_distance_m q" "yo_clearance_m (fuseCargoAvoidanceRisk c i) = ya_clearance_m q"
    "yo_warning_authority (fuseCargoAvoidanceRisk c i) = a"
    using warned(1) by (simp_all add: warned_def copies_def)
  have "warning_evidence i src q"
    using warned(2) by (auto simp: warnable_def offered_def pending_live_def pending_static_def split: if_split_asm
      intro!: standard_evidence [of src q i c])
  moreover have "formal_cargo i \<or> src = LIVE \<and> fst (authorizePendingWarning i c) \<or> src = STATIC_MAP \<and> fst (authorizePendingStaticWarning i c)"
    using warned(2) by (auto simp: warnable_def offered_def pending_live_def pending_static_def split: if_split_asm)
  ultimately show ?thesis using copied warned(3,4) authorized_identity [of i c] by (intro conjI exI [of _ src] exI [of _ q]) auto
qed (use assms in \<open>auto simp: refused_def reviewed_def cleared_def\<close>)

section \<open>No usable hazard is passed over\<close>

lemma pending_not_embedded: "(src, q) \<in> warnable c i \<Longrightarrow> \<not> formal_cargo i \<Longrightarrow> \<not> (unresolved_embedded_live_hazard i \<and> \<not> risk_static i)"
  by (auto simp: warnable_def offered_def pending_live_def pending_static_def live_standard_risk_def static_standard_risk_def
      risk_live_def unresolved_embedded_live_hazard_def split: if_split_asm)

lemma warnable_risk: "(src, q) \<in> warnable c i \<Longrightarrow> risk_live i \<or> risk_static i"
  by (auto simp: warnable_def offered_def pending_live_def pending_static_def live_standard_risk_def static_standard_risk_def
      split: if_split_asm)

lemma warnable_standard: "(src, q) \<in> warnable c i \<Longrightarrow> live_standard_risk i \<or> static_standard_risk c i"
  by (auto simp: warnable_def offered_def pending_live_def pending_static_def split: if_split_asm)

lemma warnable_pending:
  "(src, q) \<in> warnable c i \<Longrightarrow> \<not> formal_cargo i \<Longrightarrow> pending_identity c i \<and> (pending_live c i \<or> pending_static c i)"
  using authorized_identity [of i c] by (auto simp: warnable_def offered_def pending_live_def pending_static_def)

lemma fuse_warns:
  assumes "yi_localization_valid i" and "formal_cargo i \<or> yi_pending_envelope_valid i" and "(src, q) \<in> warnable c i"
  shows "yo_official_valid (fuseCargoAvoidanceRisk c i) \<and> yo_official_code (fuseCargoAvoidanceRisk c i) \<in> {17, 18} \<and>
    (\<exists>h. at_least_as_dangerous h q \<and> yo_official_code (fuseCargoAvoidanceRisk c i) = yh_warning_code h \<and>
      yo_distance_m (fuseCargoAvoidanceRisk c i) = yh_distance_m h)"
proof -
  define r where "r = (if warning_candidate i \<and> \<not> yi_warning_motion_authorized i
    then (fusion_frame c i)\<lparr>yo_motion_not_authoritative := True\<rparr> else fusion_frame c i)"
  have confirmed: "\<not> (static_hazard_observed i \<and> \<not> yi_static_hazard_track_confirmed i \<and> \<not> risk_live i \<and> \<not> yi_warning_candidate_present i)"
    using warnable_risk [OF assms(3)] by (auto simp: risk_static_def)
  have whole: "fuseCargoAvoidanceRisk c i = (if \<not> formal_cargo i then fuse_pending c i r else fuse_formal c i r)"
    by (simp only: fuseCargoAvoidanceRisk_def Let_def confirmed assms(1) simp_thms if_False flip: r_def)
  define h where "h = (if formal_cargo i then selectHazard (live_standard_risk i) (yi_live i) (static_standard_risk c i) (yi_static_map i)
     else selectHazard (pending_live c i) (yi_live i) (pending_static c i) (yi_static_map i))"
  have worst: "at_least_as_dangerous h q" using assms(3) selectHazard_worst by (simp add: h_def warnable_def split: if_split_asm)
  then have valid: "yh_valid h" by (simp add: at_least_as_dangerous_def)
  have code: "yh_warning_code h \<in> {17, 18}"
    using valid selectable_code [of "yi_live i"] selectable_code [of "yi_static_map i"]
    by (auto simp: h_def offered_def fusion_codes elim!: selectHazard_from split: if_split_asm)
  have "yo_official_valid (fuseCargoAvoidanceRisk c i) \<and> yo_official_code (fuseCargoAvoidanceRisk c i) = yh_warning_code h \<and>
    yo_distance_m (fuseCargoAvoidanceRisk c i) = yh_distance_m h"
  proof (cases "formal_cargo i")
    case True
    then have "fuseCargoAvoidanceRisk c i = formal_warning c i r"
      using warnable_standard [OF assms(3)] by (simp add: whole fuse_formal_def)
    with True valid show ?thesis by (simp add: formal_warning_def Let_def h_def apply_copies)
  next
    case False
    note id = warnable_pending [OF assms(3) False]
    have "fuseCargoAvoidanceRisk c i =
        pending_standard_warning c i (r\<lparr>yo_official_code := kCargoInvalid, yo_reason := ''cargo_recognition_or_geometry_invalid''\<rparr>)"
      using assms(2) False id pending_not_embedded [OF assms(3) False] warnable_standard [OF assms(3)]
      by (auto simp: whole fuse_pending_def Let_def pending_identity_def)
    moreover have "selectHazard (pending_live c i) (yi_live i) (pending_static c i) (yi_static_map i) = h" by (simp add: h_def False)
    ultimately show ?thesis
      using id by (simp add: pending_standard_warning_def Let_def apply_copies [OF valid] valid flip: pending_live_def pending_static_def)
  qed
  then show ?thesis using worst code by auto
qed

text \<open>C6. No hazard that may be warned of is passed over: with a valid localisation, and an envelope if the cargo is only pending,
  the answer is 17 or 18 as soon as one source qualifies (a review 29 or a fault never takes its place), it is 17 if any
  qualified source says 17, and no qualified source of the reported severity is nearer.\<close>

theorem fusion_reports_hazard:
  assumes "yi_localization_valid i" and "formal_cargo i \<or> yi_pending_envelope_valid i" and "(src, q) \<in> warnable c i"
  shows "yo_official_valid (fuseCargoAvoidanceRisk c i) \<and> yo_official_code (fuseCargoAvoidanceRisk c i) \<in> {17, 18} \<and>
    yo_official_code (fuseCargoAvoidanceRisk c i) \<in> {17, ya_warning_code q} \<and>
    (yo_official_code (fuseCargoAvoidanceRisk c i) \<noteq> ya_warning_code q \<or> yo_distance_m (fuseCargoAvoidanceRisk c i) \<le> ya_distance_m q)"
  using fuse_warns [OF assms] by (auto simp: at_least_as_dangerous_def fusion_codes)

text \<open>C11. The answers form a closed table: an official answer is 14, 17, 18 or 29 and every other answer is 31, 33 or 34. A
  hazard is named exactly with 17, 18 and 29, and then its code is the answer's and it is a copy of the live or the
  static source, which is a hazard with low clearance at a positive distance.\<close>

theorem fusion_outcomes:
  "yo_official_code (fuseCargoAvoidanceRisk c i) \<in> (if yo_official_valid (fuseCargoAvoidanceRisk c i) then {14, 17, 18, 29} else {31, 33, 34}) \<and>
   (yh_valid (yo_authoritative_hazard (fuseCargoAvoidanceRisk c i)) \<longleftrightarrow> yo_official_code (fuseCargoAvoidanceRisk c i) \<in> {17, 18, 29}) \<and>
   (\<not> yh_valid (yo_authoritative_hazard (fuseCargoAvoidanceRisk c i)) \<or>
    (\<exists>src q. (src, q) \<in> sources i \<and>
      yo_authoritative_hazard (fuseCargoAvoidanceRisk c i) = hazard_of src (yo_official_code (fuseCargoAvoidanceRisk c i)) q))"
proof (cases rule: fuse_cases [of c i])
  case (warned a src q)
  then have "(src, q) \<in> sources i" "ya_warning_code q = 17 \<or> ya_warning_code q = 18"
    using selectable_code [of q] by (auto simp: warnable_def offered_def sources_def fusion_codes split: if_split_asm)
  then show ?thesis using warned(1) by (auto simp: warned_def copies_def)
next
  case (review src q)
  then show ?thesis by (auto simp: reviewed_def copies_def)
qed (auto simp: refused_def cleared_def)

section \<open>A limit\<close>

text \<open>A hazard of unknown clearance is lost: if the live view reports a hazard at level 1 whose clearance is not finite
  and everything else allows a clear, the answer is an official clear.\<close>

theorem fusion_clears_unmeasured_hazard:
  assumes "yi_localization_valid i" and "formal_cargo i" and "yi_formal_clear_authorized i" and "live_reliable i"
    and "yi_live_obstacle_origin_resolved i" and "yc_minimum_live_coverage_for_clear c \<le> ya_coverage (yi_live i)"
    and "ya_hazard (yi_live i)" and "ya_warning_code (yi_live i) = 17" and "\<not> isfinite (ya_clearance_m (yi_live i))"
    and "\<not> ya_hazard (yi_static_map i)" and "\<not> yi_warning_candidate_present i" and "\<not> yi_anomaly_review_candidate i"
  shows "yo_official_valid (fuseCargoAvoidanceRisk c i) \<and> yo_official_code (fuseCargoAvoidanceRisk c i) = 14"
proof -
  have none: "\<not> risk_live i" "\<not> static_hazard_observed i" "\<not> risk_static i" "\<not> unresolved_static_hazard i"
    using assms(9,10) by (auto simp: risk_live_def lowClearance_def static_hazard_observed_def risk_static_def unresolved_static_hazard_def)
  then have "\<not> live_standard_risk i" "\<not> static_standard_risk c i" "\<not> unresolved_far_history_review c i" "\<not> warning_candidate i"
    using assms(11) by (auto simp: live_standard_risk_def static_standard_risk_def unresolved_far_history_review_def
      live_warning_without_history_def static_far_history_review_def static_warning_without_history_def warning_candidate_def)
  moreover have "live_clear_observed c i" "\<not> unresolved_embedded_live_hazard i"
    using assms none by (auto simp: live_clear_observed_def unresolved_embedded_live_hazard_def)
  ultimately show ?thesis
    using assms none by (simp add: fuseCargoAvoidanceRisk_def fuse_formal_def Let_def fusion_codes)
qed

section \<open>Examples\<close>

definition demo_live :: CargoAvoidanceSourceRisk where
  "demo_live = default_CargoAvoidanceSourceRisk\<lparr>ya_available := True, ya_reliable := True, ya_coverage := Fin 1\<rparr>"

definition demo_fusion_input :: "CargoAvoidanceSourceRisk \<Rightarrow> CargoAvoidanceFusionInput" where
  "demo_fusion_input live = default_CargoAvoidanceFusionInput
     \<lparr>yi_localization_valid := True, yi_formal_cargo_geometry_valid := True, yi_formal_cargo_bottom_valid := True,
      yi_formal_clear_authorized := True, yi_live := live\<rparr>"

definition demo_hazard :: CargoAvoidanceSourceRisk where
  "demo_hazard = demo_live\<lparr>ya_hazard := True, ya_warning_code := 17, ya_distance_m := Fin 2, ya_clearance_m := Fin 0.5\<rparr>"

lemmas demo_fusion_defs = demo_fusion_input_def demo_hazard_def demo_live_def default_CargoAvoidanceFusionInput_def
  default_CargoAvoidanceSourceRisk_def default_CargoAvoidanceFusionConfig_def

lemma demo_warnable: "(LIVE, demo_hazard) \<in> warnable default_CargoAvoidanceFusionConfig (demo_fusion_input demo_hazard)"
  by (simp add: warnable_def offered_def formal_cargo_def live_standard_risk_def risk_live_def live_reliable_def
      live_warning_without_history_def selectable_def lowClearance_def kMinimumVerticalClearanceM_def fusion_warningCode_def
      fusion_codes demo_fusion_defs)

lemma demo_clear:
  "yo_official_valid (fuseCargoAvoidanceRisk default_CargoAvoidanceFusionConfig (demo_fusion_input demo_live)) \<and>
   yo_official_code (fuseCargoAvoidanceRisk default_CargoAvoidanceFusionConfig (demo_fusion_input demo_live)) = 14"
  by (simp add: fuseCargoAvoidanceRisk_def fuse_formal_def Let_def formal_cargo_def live_standard_risk_def risk_live_def live_reliable_def
      static_standard_risk_def risk_static_def static_hazard_observed_def unresolved_far_history_review_def live_warning_without_history_def
      static_far_history_review_def static_warning_without_history_def unresolved_embedded_live_hazard_def live_clear_observed_def
      unresolved_static_hazard_def warning_candidate_def fusion_codes demo_fusion_defs)

theorem fusion_clear_backed_witness:
  "Fin 0.05 \<le> ya_coverage demo_live"
  using fusion_clear_backed [OF conjunct1 [OF demo_clear] conjunct2 [OF demo_clear]]
  by (simp add: demo_fusion_defs)

theorem fusion_reports_hazard_witness:
  "yo_official_valid (fuseCargoAvoidanceRisk default_CargoAvoidanceFusionConfig (demo_fusion_input demo_hazard)) \<and>
   yo_official_code (fuseCargoAvoidanceRisk default_CargoAvoidanceFusionConfig (demo_fusion_input demo_hazard)) = 17"
  using fusion_reports_hazard [OF _ _ demo_warnable] by (simp add: demo_fusion_defs formal_cargo_def)

theorem fusion_warning_backed_witness:
  "ya_reliable demo_hazard \<and> lowClearance (ya_clearance_m demo_hazard)"
proof -
  let ?i = "demo_fusion_input demo_hazard" and ?c = default_CargoAvoidanceFusionConfig
  have "yi_localization_valid ?i" "formal_cargo ?i" by (simp_all add: demo_fusion_defs formal_cargo_def)
  then have "yo_official_valid (fuseCargoAvoidanceRisk ?c ?i)" "yo_official_code (fuseCargoAvoidanceRisk ?c ?i) \<in> {17, 18}"
    using fuse_warns [OF _ _ demo_warnable] by blast+
  from fusion_warning_backed [OF this] show ?thesis
    by (auto simp: warning_evidence_def static_risk_contract_def selectable_def demo_fusion_defs)
qed

theorem fusion_outcomes_witness:
  "\<exists>src q. (src, q) \<in> sources (demo_fusion_input demo_hazard) \<and>
     yo_authoritative_hazard (fuseCargoAvoidanceRisk default_CargoAvoidanceFusionConfig (demo_fusion_input demo_hazard)) =
       hazard_of src 17 q"
proof -
  let ?i = "demo_fusion_input demo_hazard" and ?c = default_CargoAvoidanceFusionConfig
  have "yi_localization_valid ?i" "formal_cargo ?i" "ya_warning_code demo_hazard = 17"
    by (simp_all add: demo_fusion_defs formal_cargo_def)
  then have code: "yo_official_code (fuseCargoAvoidanceRisk ?c ?i) = 17"
    using fuse_warns [OF _ _ demo_warnable] by (auto simp: at_least_as_dangerous_def fusion_codes)
  show ?thesis using fusion_outcomes [of ?c ?i] unfolding code by simp
qed

definition demo_unmeasured :: CargoAvoidanceSourceRisk where
  "demo_unmeasured = demo_live\<lparr>ya_hazard := True, ya_warning_code := 17, ya_distance_m := Fin 2\<rparr>"

theorem fusion_clears_unmeasured_hazard_witness:
  "yo_official_code (fuseCargoAvoidanceRisk default_CargoAvoidanceFusionConfig (demo_fusion_input demo_unmeasured)) = 14"
  by (rule conjunct2 [OF fusion_clears_unmeasured_hazard])
    (simp_all add: demo_unmeasured_def demo_fusion_defs formal_cargo_def live_reliable_def)

end
