(* ===== verification/Avoidance_Frame.thy ===== *)
theory Avoidance_Frame
  imports Avoidance_Fusion Safety_Evaluator Pending_Static_Hazard Static_Height Cargo_Capability
begin

text \<open>
  One frame of a formal cargo in the SLAM node (\<^verbatim>\<open>ndt_slam.cpp\<close>, the part that fills the input of the fusion, calls it and
  commits the answer): the live view comes from the safety evaluation, the static one from the query of the height field
  and from the tracker of static hazards. The members and local variables the part reads are the record
  \<open>FormalFrame\<close>; of the decision of the obstacle tracks and of the cargo's bottom it holds the fields that are read.

  The query of the height field is an input, since the pose and the exclusions it is built from come from other
  parts of the node; the check for mixed pose generations, which drops the frame, and the replacement of the fused answer
  in the mode of the new identity authority are left out.

  Shown: what an official clear of the node says about the map, what a committed warning rests
  on, and that the node never grants a warning to the static map, because no code of the node sets the flag the fusion asks for.
\<close>

section \<open>The frame\<close>

record ObstacleTrackDecision =
  yt_selected_far_field_history_valid :: bool
  yt_selected_embedded_authorized :: bool
  yt_selected_confirm_count :: int
  yt_selected_track_id :: u64
  yt_selected_provenance_known :: bool

record FormalFrame =
  yf_safety_config :: CargoSafetyConfig
  yf_fusion_config :: CargoAvoidanceFusionConfig
  yf_immediate_near_field_m :: dbl
  yf_confirm_frames :: int
  yf_relocalization_pose_reliable :: bool
  yf_tracking_lost :: bool
  yf_motion_corridor_authoritative :: bool
  yf_obstacle_track_decision :: ObstacleTrackDecision
  yf_selected_source_evidence :: "CargoSafetyClusterEvidence option"
  yf_selected_top_z_map :: dbl
  yf_radial_safety_result :: CargoSafetyResult
  yf_last_cargo_safety_result :: CargoSafetyResult
  yf_coverage_ratio :: dbl
  yf_rigid_geometry_valid :: bool
  yf_formal_safety_valid :: bool
  yf_formal_removal_valid :: bool
  yf_bottom_valid :: bool
  yf_bottom_geometry_valid :: bool
  yf_bottom_z_map :: dbl
  yf_bottom_uncertainty :: dbl
  yf_v6_authority_mode :: bool
  yf_product_clear_authorized :: bool
  yf_frozen_formal_authorized :: bool
  yf_envelope_can_authorize_clear :: bool
  yf_static_height_result :: "StaticHeightQueryResult option"
  yf_static_evidence_authority :: "StaticEvidenceAuthority option"
  yf_mature_cell_count :: nat
  yf_verified_map_session_loaded :: bool
  yf_height_field_generation :: u64
  yf_static_evidence_epoch :: u64
  yf_avoidance_pose_generation :: u64
  yf_pose_identity :: PoseAuthorityIdentity
  yf_stamp_sec :: dbl
  yf_product_cargo_lifecycle_id :: u64
  yf_product_cargo_track_id :: u64
  yf_current_warning_evidence_authorized :: bool
  yf_active_track :: bool
  yf_product_safety_authorized :: bool
  yf_physical_cargo_epoch_id :: u64
  yf_physical_history_id :: u64
  yf_cargo_lifecycle_id :: u64
  yf_cargo_fusion_track_id :: u64

text \<open>\<^verbatim>\<open>static_height_result\<close> keeps its defaults when the field was not queried.\<close>

definition height_result :: "FormalFrame \<Rightarrow> StaticHeightQueryResult" where
  "height_result f = (case yf_static_height_result f of Some r \<Rightarrow> r | None \<Rightarrow> default_StaticHeightQueryResult)"

definition frame_bottom_valid :: "FormalFrame \<Rightarrow> bool" where
  "frame_bottom_valid f \<longleftrightarrow> yf_bottom_valid f \<and> yf_bottom_geometry_valid f \<and> isfinite (yf_bottom_z_map f)"

definition level_code :: "int \<Rightarrow> bool" where
  "level_code code \<longleftrightarrow> code = 17 \<or> code = 18"

definition evaluated :: "CargoSafetyResult \<Rightarrow> bool" where
  "evaluated r \<longleftrightarrow> sr_input_valid r \<and> sr_warning_valid r \<and> sr_fault r = CargoSafetyFault.NONE"

section \<open>The two sources\<close>

definition live_view :: "FormalFrame \<Rightarrow> CargoAvoidanceSourceRisk" where
  "live_view f =
     (let last = yf_last_cargo_safety_result f;
          r = default_CargoAvoidanceSourceRisk
            \<lparr>ya_available := sr_input_valid last, ya_reliable := evaluated last,
             ya_hazard := evaluated last \<and> level_code (sr_warning_code last), ya_warning_code := sr_warning_code last,
             ya_coverage := yf_coverage_ratio f\<rparr>
      in if sr_has_cluster_evidence last
         then r\<lparr>ya_distance_m := ce_footprint_distance_m (sr_most_dangerous_cluster last),
                ya_clearance_m := ce_conservative_clearance_m (sr_most_dangerous_cluster last)\<rparr>
         else r)"

definition frame_live :: "FormalFrame \<Rightarrow> CargoAvoidanceSourceRisk" where
  "frame_live f =
     (let track = yf_obstacle_track_decision f;
          r = (live_view f)\<lparr>ya_cargo_lifecycle_id := yf_product_cargo_lifecycle_id f, ya_cargo_track_id := yf_product_cargo_track_id f,
                  ya_obstacle_track_id := yt_selected_track_id track, ya_pose_generation := yf_avoidance_pose_generation f,
                  ya_map_generation := yf_static_evidence_epoch f,
                  ya_confidence := (if yf_current_warning_evidence_authorized f then Fin 1 else Fin 0),
                  ya_far_field_history_valid := yt_selected_far_field_history_valid track,
                  ya_provenance_valid := yt_selected_provenance_known track,
                  ya_validated_streak := yt_selected_confirm_count track\<rparr>
      in case yf_selected_source_evidence f of
           None \<Rightarrow> r
         | Some e \<Rightarrow> r\<lparr>ya_obstacle_top_z_map := yf_selected_top_z_map f, ya_uncertainty_m := ce_obstacle_uncertainty_m e\<rparr>)"

definition static_candidate :: "FormalFrame \<Rightarrow> bool" where
  "static_candidate f \<longleftrightarrow>
     (let r = height_result f
      in frame_bottom_valid f \<and> hn_valid r \<and> 0 < hn_matched_cells r \<and> isfinite (hn_highest_z95_m r) \<and>
         isfinite (hn_nearest_horizontal_distance_m r))"

definition static_clearance :: "FormalFrame \<Rightarrow> dbl" where
  "static_clearance f =
     (let r = height_result f;
          conservative_bottom = yf_bottom_z_map f - yf_bottom_uncertainty f -
            sc_cargo_bottom_extra_margin_m (yf_safety_config f)
      in conservative_bottom - hn_highest_z95_m r - hn_highest_uncertainty_m r)"

definition static_hazard :: "FormalFrame \<Rightarrow> bool" where
  "static_hazard f \<longleftrightarrow>
     static_candidate f \<and> static_clearance f < sc_minimum_vertical_clearance_m (yf_safety_config f) \<and>
     hn_nearest_horizontal_distance_m (height_result f) \<le> sc_level2_distance_m (yf_safety_config f)"

definition static_level :: "FormalFrame \<Rightarrow> int" where
  "static_level f =
     (if hn_nearest_horizontal_distance_m (height_result f) \<le> sc_level1_distance_m (yf_safety_config f) then 17 else 18)"

definition static_view :: "FormalFrame \<Rightarrow> CargoAvoidanceSourceRisk" where
  "static_view f =
     (case yf_static_height_result f of
        None \<Rightarrow> default_CargoAvoidanceSourceRisk
      | Some r \<Rightarrow>
          let v = default_CargoAvoidanceSourceRisk
                \<lparr>ya_available := hn_valid r, ya_coverage := hn_clear_shell_coverage_ratio r, ya_hazard := static_hazard f,
                 ya_reliable := hn_valid r \<and> hn_bounded r \<and> (static_hazard f \<or>
                   yc_minimum_live_coverage_for_clear (yf_fusion_config f) \<le> hn_clear_shell_coverage_ratio r),
                 ya_reason := hn_reason r\<rparr>;
              v1 = (if static_candidate f
                    then v\<lparr>ya_distance_m := hn_nearest_horizontal_distance_m r, ya_clearance_m := static_clearance f\<rparr> else v)
          in if static_hazard f then v1\<lparr>ya_warning_code := static_level f\<rparr> else v1)"

definition static_authority :: "FormalFrame \<Rightarrow> StaticEvidenceAuthority" where
  "static_authority f = (case yf_static_evidence_authority f of Some a \<Rightarrow> a | None \<Rightarrow> UNVERIFIED_LOADED_CLEAN)"

definition static_contract :: "FormalFrame \<Rightarrow> bool" where
  "static_contract f \<longleftrightarrow>
     (let runtime = (static_authority f = RUNTIME_MATURE \<and> 0 < yf_mature_cell_count f);
          verified = (yf_verified_map_session_loaded f \<and> (static_authority f = OPERATOR_APPROVED_BASELINE \<or> runtime))
      in verified \<or> runtime)"

definition frame_risk_contract :: "FormalFrame \<Rightarrow> bool" where
  "frame_risk_contract f \<longleftrightarrow>
     static_contract f \<and> sz_official_static_risk_authorized (authorizeStaticEvidence (static_authority f))"

definition static_observation :: "FormalFrame \<Rightarrow> PendingStaticHazardObservation" where
  "static_observation f =
     \<lparr>ko_stamp_sec = yf_stamp_sec f, ko_cargo_lifecycle_id = yf_product_cargo_lifecycle_id f,
      ko_map_generation = yf_height_field_generation f, ko_authority_valid = frame_risk_contract f,
      ko_query_valid = hn_valid (height_result f),
      ko_query_bounded = hn_bounded (height_result f) \<and> ya_reliable (static_view f), ko_hazard = ya_hazard (static_view f),
      ko_warning_code = ya_warning_code (static_view f), ko_matched_cell_keys = hn_matched_cell_keys (height_result f),
      ko_pose_authority = bindTemporalEvidenceAuthority (yf_pose_identity f) (yf_stamp_sec f)\<rparr>"

definition static_tracking ::
  "PendingStaticHazardTracker \<Rightarrow> FormalFrame \<Rightarrow> PendingStaticHazardTracker \<times> PendingStaticHazardDecision" where
  "static_tracking s f =
     (if hn_valid (height_result f) then hazard_update s (static_observation f) else (s, default_PendingStaticHazardDecision))"

definition frame_static :: "FormalFrame \<Rightarrow> PendingStaticHazardDecision \<Rightarrow> CargoAvoidanceSourceRisk" where
  "frame_static f d = (static_view f)
     \<lparr>ya_cargo_lifecycle_id := yf_product_cargo_lifecycle_id f, ya_cargo_track_id := yf_product_cargo_track_id f,
      ya_obstacle_track_id := (if kd_authorized d then ucast (kd_obstacle_id d) else 0),
      ya_pose_generation := yf_avoidance_pose_generation f, ya_map_generation := yf_static_evidence_epoch f,
      ya_confidence := (if kd_authorized d then Fin 1 else Fin 0), ya_far_field_history_valid := kd_far_field_history_valid d,
      ya_provenance_valid := frame_risk_contract f, ya_validated_streak := kd_confirmations d\<rparr>"

section \<open>The input of the fusion\<close>

definition review_evidence_ready :: "FormalFrame \<Rightarrow> CargoSafetyClusterEvidence option" where
  "review_evidence_ready f =
     (if yf_confirm_frames f \<le> yt_selected_confirm_count (yf_obstacle_track_decision f)
      then yf_selected_source_evidence f else None)"

definition live_immediate_review :: "FormalFrame \<Rightarrow> bool" where
  "live_immediate_review f \<longleftrightarrow>
     (case review_evidence_ready f of
        None \<Rightarrow> False | Some e \<Rightarrow> ce_footprint_distance_m e \<le> yf_immediate_near_field_m f)"

definition live_sudden_review :: "FormalFrame \<Rightarrow> bool" where
  "live_sudden_review f \<longleftrightarrow>
     (case review_evidence_ready f of
        None \<Rightarrow> False
      | Some e \<Rightarrow> ce_warning_code e = 17 \<and> \<not> yt_selected_far_field_history_valid (yf_obstacle_track_decision f))"

definition static_immediate_review :: "FormalFrame \<Rightarrow> PendingStaticHazardDecision \<Rightarrow> bool" where
  "static_immediate_review f d \<longleftrightarrow> kd_authorized d \<and> ya_hazard (static_view f) \<and>
     ya_distance_m (static_view f) \<le> yf_immediate_near_field_m f"

definition static_sudden_review :: "FormalFrame \<Rightarrow> PendingStaticHazardDecision \<Rightarrow> bool" where
  "static_sudden_review f d \<longleftrightarrow> kd_authorized d \<and> ya_warning_code (static_view f) = 17 \<and>
     \<not> kd_far_field_history_valid d \<and> \<not> frame_risk_contract f"

definition live_review :: "FormalFrame \<Rightarrow> bool" where
  "live_review f \<longleftrightarrow> live_immediate_review f \<or> live_sudden_review f"

definition static_review :: "FormalFrame \<Rightarrow> PendingStaticHazardDecision \<Rightarrow> bool" where
  "static_review f d \<longleftrightarrow> static_immediate_review f d \<or> static_sudden_review f d"

definition with_review_flags ::
  "FormalFrame \<Rightarrow> PendingStaticHazardDecision \<Rightarrow> CargoAvoidanceFusionInput \<Rightarrow> CargoAvoidanceFusionInput" where
  "with_review_flags f d i =
     i\<lparr>yi_anomaly_review_live := live_review f, yi_anomaly_review_static := static_review f d,
       yi_anomaly_review_candidate := live_review f \<or> static_review f d,
       yi_anomaly_review_reason :=
         (if live_immediate_review f \<or> static_immediate_review f d then ''review_immediate_contact_guard''
          else if live_review f \<or> static_review f d then ''review_level1_without_approach_history''
          else yi_anomaly_review_reason i)\<rparr>"

definition with_live_metrics :: "FormalFrame \<Rightarrow> CargoAvoidanceFusionInput \<Rightarrow> CargoAvoidanceFusionInput" where
  "with_live_metrics f i =
     (case yf_selected_source_evidence f of
        None \<Rightarrow> i
      | Some e \<Rightarrow> if live_review f then i\<lparr>yi_anomaly_review_distance_m := ce_footprint_distance_m e,
                                          yi_anomaly_review_clearance_m := ce_conservative_clearance_m e\<rparr> else i)"

definition with_static_metrics ::
  "FormalFrame \<Rightarrow> PendingStaticHazardDecision \<Rightarrow> CargoAvoidanceFusionInput \<Rightarrow> CargoAvoidanceFusionInput" where
  "with_static_metrics f d i =
     (if static_review f d \<and>
         (\<not> isfinite (yi_anomaly_review_distance_m i) \<or> ya_distance_m (static_view f) < yi_anomaly_review_distance_m i)
      then i\<lparr>yi_anomaly_review_distance_m := ya_distance_m (static_view f),
             yi_anomaly_review_clearance_m := ya_clearance_m (static_view f)\<rparr>
      else i)"

definition with_review ::
  "FormalFrame \<Rightarrow> PendingStaticHazardDecision \<Rightarrow> CargoAvoidanceFusionInput \<Rightarrow> CargoAvoidanceFusionInput" where
  "with_review f d i = with_static_metrics f d (with_live_metrics f (with_review_flags f d i))"

definition formal_avoidance_input :: "FormalFrame \<Rightarrow> PendingStaticHazardDecision \<Rightarrow> CargoAvoidanceFusionInput" where
  "formal_avoidance_input f d =
     with_review f d (default_CargoAvoidanceFusionInput
       \<lparr>yi_localization_valid := yf_relocalization_pose_reliable f \<and> \<not> yf_tracking_lost f,
        yi_warning_motion_authorized := yf_motion_corridor_authoritative f,
        yi_live_near_field_history_authorized := yt_selected_far_field_history_valid (yf_obstacle_track_decision f),
        yi_static_near_field_history_authorized := kd_far_field_history_valid d,
        yi_static_hazard_track_confirmed := kd_authorized d,
        yi_warning_candidate_present :=
          evaluated (yf_radial_safety_result f) \<and> level_code (sr_warning_code (yf_radial_safety_result f)),
        yi_warning_candidate_code := sr_warning_code (yf_radial_safety_result f),
        yi_formal_cargo_geometry_valid := yf_rigid_geometry_valid f \<and> yf_formal_safety_valid f,
        yi_formal_cargo_bottom_valid := frame_bottom_valid f,
        yi_formal_clear_authorized :=
          (if yf_v6_authority_mode f then yf_product_clear_authorized f
           else yf_frozen_formal_authorized f \<and> yf_envelope_can_authorize_clear f \<and> yf_formal_removal_valid f),
        yi_pending_envelope_valid := False,
        yi_live_obstacle_origin_resolved := yt_selected_embedded_authorized (yf_obstacle_track_decision f),
        yi_live := frame_live f, yi_static_map := frame_static f d, yi_static_authority := static_authority f,
        yi_static_session_manifest_valid := static_contract f, yi_static_session_hash_valid := static_contract f,
        yi_static_session_uuid_valid := static_contract f, yi_static_risk_contract_valid := frame_risk_contract f,
        yi_static_clear_contract_valid := static_contract f \<and>
          sz_official_clear_authorized (authorizeStaticEvidence (static_authority f))\<rparr>)"

text \<open>The static tracker is updated, the sources are fused; \<open>frame_fused\<close> is \<^verbatim>\<open>fused_avoidance\<close>.\<close>

definition frame_fused :: "PendingStaticHazardTracker \<Rightarrow> FormalFrame \<Rightarrow> CargoAvoidanceFusionResult" where
  "frame_fused s f = fuseCargoAvoidanceRisk (yf_fusion_config f) (formal_avoidance_input f (snd (static_tracking s f)))"

text \<open>The commit of the frame: an answer whose identities do not belong together becomes the internal error 35.\<close>

definition frame_decision :: "FormalFrame \<Rightarrow> CargoAvoidanceFusionResult \<Rightarrow> CargoFrameDecision" where
  "frame_decision f r =
     (let v6 = yf_v6_authority_mode f \<and> yf_product_safety_authorized f; h = yo_authoritative_hazard r
      in \<lparr>fd_stamp_sec = yf_stamp_sec f, fd_cargo_identity_confirmed_this_frame = False,
          fd_cargo_identity_authorized = (if yf_v6_authority_mode f then v6 else yf_active_track f),
          fd_cargo_lifecycle_id = (if v6 then yf_physical_cargo_epoch_id f else yf_cargo_lifecycle_id f),
          fd_cargo_track_id = (if v6 then yf_physical_history_id f else yf_cargo_fusion_track_id f),
          fd_positive_warning_confirmed_this_frame = yo_official_valid r \<and>
            (yo_official_code r = 17 \<or> yo_official_code r = 18 \<or> yo_official_code r = 29),
          fd_warning_code = yo_official_code r, fd_authoritative_hazard_valid = yh_valid h,
          fd_authoritative_warning_code = yh_warning_code h, fd_warning_cargo_lifecycle_id = yh_cargo_lifecycle_id h,
          fd_warning_cargo_track_id = yh_cargo_track_id h, fd_obstacle_track_id = yh_obstacle_track_id h\<rparr>)"

definition frame_committed :: "PendingStaticHazardTracker \<Rightarrow> FormalFrame \<Rightarrow> CargoAvoidanceFusionResult" where
  "frame_committed s f =
     (let r = frame_fused s f; commit = commitCargoFrameDecision (frame_decision f r)
      in if fc_authorized commit then r
         else r\<lparr>yo_official_valid := False, yo_official_code := 35, yo_reason := fc_reason commit,
                yo_authoritative_hazard := default_AuthoritativeCargoHazard\<rparr>)"

section \<open>The static map is never the source of a warning\<close>

lemma with_static_metrics_keeps [simp]:
  "yi_localization_valid (with_static_metrics f d i) = yi_localization_valid i"
  "yi_live (with_static_metrics f d i) = yi_live i"
  "yi_static_map (with_static_metrics f d i) = yi_static_map i"
  "yi_formal_cargo_geometry_valid (with_static_metrics f d i) = yi_formal_cargo_geometry_valid i"
  "yi_formal_cargo_bottom_valid (with_static_metrics f d i) = yi_formal_cargo_bottom_valid i"
  "yi_formal_clear_authorized (with_static_metrics f d i) = yi_formal_clear_authorized i"
  "yi_live_obstacle_origin_resolved (with_static_metrics f d i) = yi_live_obstacle_origin_resolved i"
  "yi_warning_candidate_present (with_static_metrics f d i) = yi_warning_candidate_present i"
  "yi_warning_candidate_code (with_static_metrics f d i) = yi_warning_candidate_code i"
  "yi_static_hazard_track_confirmed (with_static_metrics f d i) = yi_static_hazard_track_confirmed i"
  "yi_anomaly_review_live (with_static_metrics f d i) = yi_anomaly_review_live i"
  "yi_live_near_field_history_authorized (with_static_metrics f d i) = yi_live_near_field_history_authorized i"
  "yi_pending_recognition_state_allows_warning (with_static_metrics f d i) = yi_pending_recognition_state_allows_warning i"
  "yi_anomaly_review_candidate (with_static_metrics f d i) = yi_anomaly_review_candidate i"
  by (simp_all add: with_static_metrics_def)

lemma with_live_metrics_keeps [simp]:
  "yi_localization_valid (with_live_metrics f i) = yi_localization_valid i"
  "yi_live (with_live_metrics f i) = yi_live i"
  "yi_static_map (with_live_metrics f i) = yi_static_map i"
  "yi_formal_cargo_geometry_valid (with_live_metrics f i) = yi_formal_cargo_geometry_valid i"
  "yi_formal_cargo_bottom_valid (with_live_metrics f i) = yi_formal_cargo_bottom_valid i"
  "yi_formal_clear_authorized (with_live_metrics f i) = yi_formal_clear_authorized i"
  "yi_live_obstacle_origin_resolved (with_live_metrics f i) = yi_live_obstacle_origin_resolved i"
  "yi_warning_candidate_present (with_live_metrics f i) = yi_warning_candidate_present i"
  "yi_warning_candidate_code (with_live_metrics f i) = yi_warning_candidate_code i"
  "yi_static_hazard_track_confirmed (with_live_metrics f i) = yi_static_hazard_track_confirmed i"
  "yi_anomaly_review_live (with_live_metrics f i) = yi_anomaly_review_live i"
  "yi_live_near_field_history_authorized (with_live_metrics f i) = yi_live_near_field_history_authorized i"
  "yi_pending_recognition_state_allows_warning (with_live_metrics f i) = yi_pending_recognition_state_allows_warning i"
  "yi_anomaly_review_candidate (with_live_metrics f i) = yi_anomaly_review_candidate i"
  by (simp_all add: with_live_metrics_def split: option.split)

lemma with_review_keeps [simp]:
  "yi_localization_valid (with_review f d i) = yi_localization_valid i"
  "yi_live (with_review f d i) = yi_live i"
  "yi_static_map (with_review f d i) = yi_static_map i"
  "yi_formal_cargo_geometry_valid (with_review f d i) = yi_formal_cargo_geometry_valid i"
  "yi_formal_cargo_bottom_valid (with_review f d i) = yi_formal_cargo_bottom_valid i"
  "yi_formal_clear_authorized (with_review f d i) = yi_formal_clear_authorized i"
  "yi_live_obstacle_origin_resolved (with_review f d i) = yi_live_obstacle_origin_resolved i"
  "yi_warning_candidate_present (with_review f d i) = yi_warning_candidate_present i"
  "yi_warning_candidate_code (with_review f d i) = yi_warning_candidate_code i"
  "yi_static_hazard_track_confirmed (with_review f d i) = yi_static_hazard_track_confirmed i"
  "yi_anomaly_review_live (with_review f d i) = live_review f"
  "yi_live_near_field_history_authorized (with_review f d i) = yi_live_near_field_history_authorized i"
  "yi_pending_recognition_state_allows_warning (with_review f d i) = yi_pending_recognition_state_allows_warning i"
  by (simp_all add: with_review_def with_review_flags_def)

lemma review_candidate: "yi_anomaly_review_candidate (with_review f d i) = (live_review f \<or> static_review f d)"
  by (simp add: with_review_def with_review_flags_def)

lemma frame_static_uncertified: "\<not> ya_certified_static_provenance (frame_static f d)"
  by (simp add: frame_static_def static_view_def default_CargoAvoidanceSourceRisk_def Let_def split: option.split)

lemma frame_no_static_risk: "\<not> static_hazard_observed (formal_avoidance_input f d)" "\<not> risk_static (formal_avoidance_input f d)"
  by (simp_all add: risk_static_def static_hazard_observed_def static_reliable_def formal_avoidance_input_def frame_static_uncertified)


lemma frame_no_review:
  assumes "yf_selected_source_evidence f = None" and "frame_risk_contract f"
    and "\<not> ya_distance_m (static_view f) \<le> yf_immediate_near_field_m f"
  shows "\<not> yi_anomaly_review_candidate (with_review f d i)"
  using assms by (simp add: review_candidate live_review_def static_review_def live_immediate_review_def live_sudden_review_def
    static_immediate_review_def static_sudden_review_def review_evidence_ready_def split: option.splits)

lemma static_view_hazard:
  assumes "yf_static_height_result f = Some r" and "hn_valid r" and "hn_bounded r" and "static_hazard f"
  shows "ya_available (static_view f)" "ya_reliable (static_view f)" "ya_hazard (static_view f)"
    "fusion_warningCode (ya_warning_code (static_view f))" "ya_clearance_m (static_view f) = static_clearance f"
    "ya_distance_m (static_view f) = hn_nearest_horizontal_distance_m r"
  using assms by (simp_all add: static_view_def static_hazard_def static_level_def fusion_warningCode_def fusion_codes Let_def)

lemma frame_static_keeps [simp]:
  "ya_available (frame_static f d) = ya_available (static_view f)" "ya_reliable (frame_static f d) = ya_reliable (static_view f)"
  "ya_hazard (frame_static f d) = ya_hazard (static_view f)" "ya_warning_code (frame_static f d) = ya_warning_code (static_view f)"
  "ya_clearance_m (frame_static f d) = ya_clearance_m (static_view f)" "ya_distance_m (frame_static f d) = ya_distance_m (static_view f)"
  by (simp_all add: frame_static_def)

lemma frame_live_simps [simp]:
  "ya_available (frame_live f) = sr_input_valid (yf_last_cargo_safety_result f)"
  "ya_reliable (frame_live f) = evaluated (yf_last_cargo_safety_result f)"
  "ya_hazard (frame_live f) = (evaluated (yf_last_cargo_safety_result f) \<and> level_code (sr_warning_code (yf_last_cargo_safety_result f)))"
  "ya_warning_code (frame_live f) = sr_warning_code (yf_last_cargo_safety_result f)"
  "ya_coverage (frame_live f) = yf_coverage_ratio f"
  by (simp_all add: frame_live_def live_view_def Let_def split: option.split)

definition clear_authorized :: "FormalFrame \<Rightarrow> bool" where
  "clear_authorized f \<longleftrightarrow>
     (if yf_v6_authority_mode f then yf_product_clear_authorized f
      else yf_frozen_formal_authorized f \<and> yf_envelope_can_authorize_clear f \<and> yf_formal_removal_valid f)"

definition frame_formal :: "FormalFrame \<Rightarrow> bool" where
  "frame_formal f \<longleftrightarrow> yf_relocalization_pose_reliable f \<and> \<not> yf_tracking_lost f \<and> yf_rigid_geometry_valid f \<and>
     yf_formal_safety_valid f \<and> frame_bottom_valid f"

lemma formal_input_simps [simp]:
  "yi_localization_valid (formal_avoidance_input f d) = (yf_relocalization_pose_reliable f \<and> \<not> yf_tracking_lost f)"
  "formal_cargo (formal_avoidance_input f d) = (yf_rigid_geometry_valid f \<and> yf_formal_safety_valid f \<and> frame_bottom_valid f)"
  "yi_formal_clear_authorized (formal_avoidance_input f d) = clear_authorized f"
  "yi_live (formal_avoidance_input f d) = frame_live f" "yi_static_map (formal_avoidance_input f d) = frame_static f d"
  "yi_live_obstacle_origin_resolved (formal_avoidance_input f d) = yt_selected_embedded_authorized (yf_obstacle_track_decision f)"
  "yi_warning_candidate_present (formal_avoidance_input f d) =
     (evaluated (yf_radial_safety_result f) \<and> level_code (sr_warning_code (yf_radial_safety_result f)))"
  by (simp_all add: formal_avoidance_input_def formal_cargo_def clear_authorized_def)


section \<open>What a clear of the node says\<close>

lemma frame_clear_cases:
  assumes "yo_official_valid (frame_fused s f)" and "yo_official_code (frame_fused s f) = 14"
  shows "frame_formal f \<and> clear_authorized f \<and> \<not> unresolved_static_hazard (formal_avoidance_input f (snd (static_tracking s f))) \<and>
    live_clear_observed (yf_fusion_config f) (formal_avoidance_input f (snd (static_tracking s f)))"
proof (cases rule: fuse_cases [of "yf_fusion_config f" "formal_avoidance_input f (snd (static_tracking s f))"])
  case (warned a src q)
  then show ?thesis
    using assms by (auto simp: frame_fused_def warned_def warnable_def offered_def fusion_codes dest: selectable_code split: if_split_asm)
qed (use assms in \<open>auto simp: frame_fused_def refused_def reviewed_def frame_formal_def\<close>)

lemma frame_clear_facts:
  assumes "yo_official_valid (frame_fused s f)" and "yo_official_code (frame_fused s f) = 14"
  shows "frame_formal f"
    and "yf_static_height_result f = Some r \<Longrightarrow> hn_valid r \<Longrightarrow> hn_bounded r \<Longrightarrow> \<not> (static_hazard f \<and> lowClearance (static_clearance f))"
    and "clear_authorized f" and "evaluated (yf_last_cargo_safety_result f)"
    and "yt_selected_embedded_authorized (yf_obstacle_track_decision f)"
    and "yc_minimum_live_coverage_for_clear (yf_fusion_config f) \<le> yf_coverage_ratio f"
    and "\<not> risk_live (formal_avoidance_input f (snd (static_tracking s f)))"
  using frame_clear_cases [OF assms] static_view_hazard [of f r]
  by (auto simp: live_clear_observed_def live_reliable_def unresolved_static_hazard_def frame_no_static_risk)

text \<open>An official clear of a frame: the pose is reliable, the cargo formal and the clear authorised; the safety evaluation is
  valid without a fault, of resolved origin and with the required coverage, and its cluster has no low clearance at
  level 1 or 2; and the static map has no hazard with low clearance.\<close>

theorem frame_clear_backed:
  assumes "yo_official_valid (frame_fused s f)" and "yo_official_code (frame_fused s f) = 14"
  shows "frame_formal f \<and> clear_authorized f \<and> evaluated (yf_last_cargo_safety_result f) \<and>
    yt_selected_embedded_authorized (yf_obstacle_track_decision f) \<and>
    yc_minimum_live_coverage_for_clear (yf_fusion_config f) \<le> yf_coverage_ratio f \<and>
    \<not> (level_code (sr_warning_code (yf_last_cargo_safety_result f)) \<and> sr_has_cluster_evidence (yf_last_cargo_safety_result f) \<and>
       lowClearance (ce_conservative_clearance_m (sr_most_dangerous_cluster (yf_last_cargo_safety_result f)))) \<and>
    \<not> (yf_static_height_result f \<noteq> None \<and> hn_valid (height_result f) \<and> hn_bounded (height_result f) \<and> static_hazard f \<and>
       lowClearance (static_clearance f))"
proof -
  note clear = frame_clear_facts [OF assms]
  have "ya_clearance_m (frame_live f) = ce_conservative_clearance_m (sr_most_dangerous_cluster (yf_last_cargo_safety_result f))"
    if "sr_has_cluster_evidence (yf_last_cargo_safety_result f)"
    using that by (simp add: frame_live_def live_view_def Let_def split: option.split)
  then show ?thesis
    using clear(1-6) clear(7)
    by (auto simp: risk_live_def live_reliable_def evaluated_def level_code_def fusion_warningCode_def fusion_codes height_result_def)
qed

section \<open>The height and the distance of a query\<close>

definition finite_layer :: "StaticHeightLayer \<Rightarrow> bool" where
  "finite_layer l \<longleftrightarrow> isfinite (hl_z95 l) \<and> isfinite (hl_uncertainty_m l) \<and> Fin 0 \<le> hl_uncertainty_m l"

definition finite_field :: "StaticHeightField \<Rightarrow> bool" where
  "finite_field F \<longleftrightarrow> (\<forall>key cell. height_cell F key = Some cell \<longrightarrow> list_all finite_layer (hx_layers cell))"

definition heights_ok :: "StaticHeightQueryResult \<Rightarrow> bool" where
  "heights_ok r \<longleftrightarrow> (hn_nearest_horizontal_distance_m r = PInf \<or> (\<exists>d. hn_nearest_horizontal_distance_m r = Fin d \<and> 0 \<le> d)) \<and>
     (hn_highest_z95_m r = NInf \<or> (\<exists>a u. hn_highest_z95_m r = Fin a \<and> hn_highest_uncertainty_m r = Fin u \<and> 0 \<le> u))"

text \<open>The result has seen a layer of height \<open>a\<close> in a cell at distance \<open>d\<close>.\<close>

definition seen :: "real \<Rightarrow> real \<Rightarrow> StaticHeightQueryResult \<Rightarrow> bool" where
  "seen a d r \<longleftrightarrow> Fin a \<le> hn_highest_z95_m r \<and> hn_nearest_horizontal_distance_m r \<le> Fin d"

lemma query_distance_cases: "query_distance F q key \<in> {NaN, PInf} \<or> (\<exists>d. query_distance F q key = Fin d \<and> 0 \<le> d)"
  by (cases "query_distance F q key") (auto simp: query_distance_def dhypot_def Let_def
    elim!: dsqrt.elims split: if_split_asm dest: sym)

lemma layer_heights:
  assumes "heights_ok r" and "finite_layer (snd il)"
  shows "heights_ok (query_layer F q key il r)" "seen a d r \<Longrightarrow> seen a d (query_layer F q key il r)"
    "reported_layer F q key (fst il) (snd il) \<Longrightarrow> hl_z95 (snd il) = Fin a \<Longrightarrow> query_distance F q key = Fin d \<Longrightarrow>
       seen a d (query_layer F q key il r)"
proof -
  obtain z u where l: "hl_z95 (snd il) = Fin z" "hl_uncertainty_m (snd il) = Fin u" "0 \<le> u"
    using assms(2) by (auto simp: finite_layer_def isfinite_iff)
  show "heights_ok (query_layer F q key il r)"
    using assms(1) l query_distance_cases [of F q key]
    by (auto simp: heights_ok_def query_layer_def Let_def split_beta cpp_min_def)
  show "seen a d (query_layer F q key il r)" if "seen a d r"
    using that assms(1) l query_distance_cases [of F q key]
    by (auto simp: heights_ok_def seen_def query_layer_def Let_def split_beta cpp_min_def)
  show "seen a d (query_layer F q key il r)"
    if "reported_layer F q key (fst il) (snd il)" "hl_z95 (snd il) = Fin a" "query_distance F q key = Fin d"
    using that assms(1) l
    by (auto simp: heights_ok_def seen_def reported_layer_def query_layer_def Let_def split_beta cpp_min_def)
qed

lemma layers_heights:
  assumes "heights_ok r" and "list_all (\<lambda>il. finite_layer (snd il)) ils"
  shows "heights_ok (fold (query_layer F q key) ils r)" "seen a d r \<Longrightarrow> seen a d (fold (query_layer F q key) ils r)"
    "il \<in> set ils \<Longrightarrow> reported_layer F q key (fst il) (snd il) \<Longrightarrow> hl_z95 (snd il) = Fin a \<Longrightarrow> query_distance F q key = Fin d \<Longrightarrow>
       seen a d (fold (query_layer F q key) ils r)"
proof -
  have keep: "heights_ok (fold (query_layer F q key) ils r) \<and> (seen a d r \<longrightarrow> seen a d (fold (query_layer F q key) ils r))"
    if "heights_ok r" "list_all (\<lambda>il. finite_layer (snd il)) ils" for ils r
    using that by (induction ils arbitrary: r) (auto simp: layer_heights)
  show "heights_ok (fold (query_layer F q key) ils r)" "seen a d r \<Longrightarrow> seen a d (fold (query_layer F q key) ils r)"
    using keep [OF assms] by auto
  show "seen a d (fold (query_layer F q key) ils r)"
    if il: "il \<in> set ils" "reported_layer F q key (fst il) (snd il)" "hl_z95 (snd il) = Fin a" "query_distance F q key = Fin d"
    using il(1) assms
  proof (induction ils arbitrary: r)
    case (Cons x ils)
    then show ?case
      using keep [of "query_layer F q key x r" ils] layer_heights [of r x] il(2-4) by auto
  qed simp
qed

lemma cell_heights:
  assumes "heights_ok r" and "finite_field F"
  shows "heights_ok (query_cell F q xy r)" "seen a d r \<Longrightarrow> seen a d (query_cell F q xy r)"
    "in_shell F q (coord_key xy) \<Longrightarrow> height_cell F (coord_key xy) = Some cell \<Longrightarrow> i < length (hx_layers cell) \<Longrightarrow>
       reported_layer F q (coord_key xy) i (hx_layers cell ! i) \<Longrightarrow> hl_z95 (hx_layers cell ! i) = Fin a \<Longrightarrow>
       query_distance F q (coord_key xy) = Fin d \<Longrightarrow> seen a d (query_cell F q xy r)"
proof -
  have same: "heights_ok s \<longleftrightarrow> heights_ok t" "seen a d s \<longleftrightarrow> seen a d t"
    if "hn_highest_z95_m s = hn_highest_z95_m t" "hn_highest_uncertainty_m s = hn_highest_uncertainty_m t"
      "hn_nearest_horizontal_distance_m s = hn_nearest_horizontal_distance_m t" for s t
    using that by (simp_all add: heights_ok_def seen_def)
  define s where "s = (\<lambda>cell :: StaticHeightCell. let r2 = r\<lparr>hn_queried_cells := hn_queried_cells r + 1,
      hn_clear_shell_queried_cells := hn_clear_shell_queried_cells r + 1\<rparr> in
    if su_valid (hx_support cell) \<or> hx_layers cell \<noteq> [] then r2\<lparr>hn_raw_covered_cells := hn_raw_covered_cells r2 + 1\<rparr> else r2)"
  have s: "heights_ok (s cell)" "seen a d r \<Longrightarrow> seen a d (s cell)" for cell
    using assms(1) same [of "s cell" r] by (auto simp: s_def Let_def)
  have layers: "list_all (\<lambda>il. finite_layer (snd il)) (enumerate 0 (hx_layers cell))" if "height_cell F (coord_key xy) = Some cell" for cell
    using that assms(2) by (auto simp: finite_field_def list_all_iff in_set_enumerate_eq)
  have cell: "hn_highest_z95_m (query_cell F q xy r) = hn_highest_z95_m (fold (query_layer F q (coord_key xy)) (enumerate 0 (hx_layers cell)) (s cell)) \<and>
      hn_highest_uncertainty_m (query_cell F q xy r) = hn_highest_uncertainty_m (fold (query_layer F q (coord_key xy)) (enumerate 0 (hx_layers cell)) (s cell)) \<and>
      hn_nearest_horizontal_distance_m (query_cell F q xy r) =
        hn_nearest_horizontal_distance_m (fold (query_layer F q (coord_key xy)) (enumerate 0 (hx_layers cell)) (s cell))"
    if "in_shell F q (coord_key xy)" "height_cell F (coord_key xy) = Some cell" for cell
    using that by (simp add: query_cell_def s_def Let_def)
  show "heights_ok (query_cell F q xy r)" "seen a d r \<Longrightarrow> seen a d (query_cell F q xy r)"
  proof -
    have both: "heights_ok (query_cell F q xy r) \<and> (seen a d r \<longrightarrow> seen a d (query_cell F q xy r))"
    proof (cases "in_shell F q (coord_key xy) \<and> height_cell F (coord_key xy) \<noteq> None")
      case True
      then obtain cell where c: "in_shell F q (coord_key xy)" "height_cell F (coord_key xy) = Some cell" by auto
      show ?thesis using same [of "query_cell F q xy r"] cell [OF c] layers_heights(1,2) [OF s(1) layers [OF c(2)]] s(2) by blast
    next
      case False
      then show ?thesis using assms(1) same [of "query_cell F q xy r" r] by (auto simp: query_cell_def Let_def split: option.split)
    qed
    then show "heights_ok (query_cell F q xy r)" "seen a d r \<Longrightarrow> seen a d (query_cell F q xy r)" by auto
  qed
  show "seen a d (query_cell F q xy r)"
    if "in_shell F q (coord_key xy)" "height_cell F (coord_key xy) = Some cell" "i < length (hx_layers cell)"
      "reported_layer F q (coord_key xy) i (hx_layers cell ! i)" "hl_z95 (hx_layers cell ! i) = Fin a"
      "query_distance F q (coord_key xy) = Fin d"
    using same(2) cell [OF that(1,2)] layers_heights(3) [OF s(1) layers [OF that(2)], of "(i, hx_layers cell ! i)"] that(3-6)
    by (auto simp: in_set_enumerate_eq)
qed

lemma fold_heights:
  assumes "finite_field F" and "heights_ok r"
  shows "heights_ok (fold (query_cell F q) coords r)" "seen a d r \<Longrightarrow> seen a d (fold (query_cell F q) coords r)"
    "xy \<in> set coords \<Longrightarrow> in_shell F q (coord_key xy) \<Longrightarrow> height_cell F (coord_key xy) = Some cell \<Longrightarrow> i < length (hx_layers cell) \<Longrightarrow>
       reported_layer F q (coord_key xy) i (hx_layers cell ! i) \<Longrightarrow> hl_z95 (hx_layers cell ! i) = Fin a \<Longrightarrow>
       query_distance F q (coord_key xy) = Fin d \<Longrightarrow> seen a d (fold (query_cell F q) coords r)"
proof -
  have keep: "heights_ok (fold (query_cell F q) coords r) \<and> (seen a d r \<longrightarrow> seen a d (fold (query_cell F q) coords r))"
    if "heights_ok r" for coords r
    using that by (induction coords arbitrary: r) (auto simp: cell_heights [OF _ assms(1)])
  show "heights_ok (fold (query_cell F q) coords r)" "seen a d r \<Longrightarrow> seen a d (fold (query_cell F q) coords r)"
    using keep [OF assms(2)] by auto
  show "seen a d (fold (query_cell F q) coords r)"
    if xy: "xy \<in> set coords" "in_shell F q (coord_key xy)" "height_cell F (coord_key xy) = Some cell" "i < length (hx_layers cell)"
      "reported_layer F q (coord_key xy) i (hx_layers cell ! i)" "hl_z95 (hx_layers cell ! i) = Fin a"
      "query_distance F q (coord_key xy) = Fin d"
    using xy(1) assms(2)
  proof (induction coords arbitrary: r)
    case (Cons x coords)
    then show ?case
      using keep [of "query_cell F q x r" coords] cell_heights(1) [of r F q x] cell_heights(3) [of r F q xy cell i a d] assms(1) xy(2-7)
      by auto
  qed simp
qed

lemma valid_query_bounded: "hn_valid (query_height F q) \<Longrightarrow> hn_bounded (query_height F q) = hn_bounded (fold (query_cell F q) (query_coords (query_bounds F q)) default_StaticHeightQueryResult)"
  "hn_valid (query_height F q) \<Longrightarrow> hn_highest_z95_m (query_height F q) = hn_highest_z95_m (fold (query_cell F q) (query_coords (query_bounds F q)) default_StaticHeightQueryResult)"
  "hn_valid (query_height F q) \<Longrightarrow> hn_highest_uncertainty_m (query_height F q) = hn_highest_uncertainty_m (fold (query_cell F q) (query_coords (query_bounds F q)) default_StaticHeightQueryResult)"
  "hn_valid (query_height F q) \<Longrightarrow> hn_nearest_horizontal_distance_m (query_height F q) = hn_nearest_horizontal_distance_m (fold (query_cell F q) (query_coords (query_bounds F q)) default_StaticHeightQueryResult)"
  by (auto simp: query_height_def default_StaticHeightQueryResult_def Let_def split: if_split_asm)

lemma layer_bounded: "hn_bounded (query_layer F q key il r) = hn_bounded r"
  by (simp add: query_layer_def Let_def split_beta)

lemma cell_bounded: "hn_bounded (query_cell F q xy r) = hn_bounded r"
proof -
  have layers: "hn_bounded (fold (query_layer F q key) ils r) = hn_bounded r" for key ils r
    by (induction ils arbitrary: r) (simp_all add: layer_bounded)
  show ?thesis by (simp add: query_cell_def Let_def layers split: option.split)
qed

lemma fold_bounded: "hn_bounded (fold (query_cell F q) coords r) = hn_bounded r"
  by (induction coords arbitrary: r) (simp_all add: cell_bounded)

lemma query_sees:
  assumes "hn_valid (query_height F q)" and "finite_field F" and "xy \<in> set (query_coords (query_bounds F q))"
    and "in_shell F q (coord_key xy)" and "height_cell F (coord_key xy) = Some cell" and "i < length (hx_layers cell)"
    and "reported_layer F q (coord_key xy) i (hx_layers cell ! i)" and "hl_z95 (hx_layers cell ! i) = Fin a"
    and "query_distance F q (coord_key xy) = Fin d"
  obtains n h w where "hn_nearest_horizontal_distance_m (query_height F q) = Fin n" "n \<le> d"
    "hn_highest_z95_m (query_height F q) = Fin h" "a \<le> h" "hn_highest_uncertainty_m (query_height F q) = Fin w" "0 \<le> w"
    "hn_bounded (query_height F q)" "0 < hn_matched_cells (query_height F q)"
proof -
  let ?r = "fold (query_cell F q) (query_coords (query_bounds F q)) default_StaticHeightQueryResult"
  have start: "heights_ok default_StaticHeightQueryResult" by (simp add: heights_ok_def default_StaticHeightQueryResult_def)
  have bounded: "hn_bounded default_StaticHeightQueryResult" by (simp add: default_StaticHeightQueryResult_def)
  have ok: "heights_ok ?r" "seen a d ?r"
    using fold_heights(1,3) [OF assms(2) start] assms(3-9) by blast+
  have "reported_cell F q (coord_key xy)"
    using assms(4-7) by (force simp: reported_cell_def list_ex_iff in_set_enumerate_eq)
  then have "coord_key xy \<in> set (hn_matched_cell_keys ?r)"
    using assms(3) unfolding query_fold_keys by auto
  moreover have "counts_ok ?r" using query_default_ok by (rule query_fold_counts)
  ultimately have matched: "0 < hn_matched_cells ?r" by (auto simp: counts_ok_def)
  show ?thesis
    using ok matched bounded that unfolding heights_ok_def seen_def
    by (auto simp: valid_query_bounded [OF assms(1)] query_valid_fields(3) [OF assms(1)] fold_bounded)
qed


section \<open>What a warning of the node says\<close>

lemma frame_never_pending: "\<not> yi_pending_recognition_state_allows_warning (formal_avoidance_input f d)"
  by (simp add: formal_avoidance_input_def) (simp add: default_CargoAvoidanceFusionInput_def)

lemma frame_review_simps:
  "yi_anomaly_review_live (formal_avoidance_input f d) = live_review f"
  "yi_live_near_field_history_authorized (formal_avoidance_input f d) =
     yt_selected_far_field_history_valid (yf_obstacle_track_decision f)"
  by (simp_all add: formal_avoidance_input_def)

lemma frame_warning_live:
  assumes "yo_official_valid (frame_fused s f)" and "yo_official_code (frame_fused s f) \<in> {17, 18}"
  shows "frame_formal f \<and> live_standard_risk (formal_avoidance_input f (snd (static_tracking s f))) \<and> selectable (frame_live f) \<and>
    ya_warning_code (frame_live f) = yo_official_code (frame_fused s f) \<and>
    yo_authoritative_hazard (frame_fused s f) = hazard_of LIVE (yo_official_code (frame_fused s f)) (frame_live f)"
proof (cases rule: fuse_cases [of "yf_fusion_config f" "formal_avoidance_input f (snd (static_tracking s f))"])
  case (warned a src q)
  let ?i = "formal_avoidance_input f (snd (static_tracking s f))"
  have formal: "formal_cargo ?i"
    using warnable_pending [OF warned(2)] frame_never_pending [of f "snd (static_tracking s f)"] by (auto simp: pending_identity_def)
  then have "(src, q) \<in> offered (live_standard_risk ?i) (frame_live f) False (frame_static f (snd (static_tracking s f)))"
    using warned(2) unfolding warnable_def if_P [OF formal] by (simp add: static_standard_risk_def frame_no_static_risk)
  then show ?thesis
    using warned formal by (auto simp: offered_def frame_fused_def warned_def copies_def frame_formal_def)
qed (use assms in \<open>auto simp: frame_fused_def refused_def reviewed_def cleared_def\<close>)

lemma frame_live_cluster:
  assumes "isfinite (ya_distance_m (frame_live f))"
  shows "sr_has_cluster_evidence (yf_last_cargo_safety_result f)"
    "ya_distance_m (frame_live f) = ce_footprint_distance_m (sr_most_dangerous_cluster (yf_last_cargo_safety_result f))"
    "ya_clearance_m (frame_live f) = ce_conservative_clearance_m (sr_most_dangerous_cluster (yf_last_cargo_safety_result f))"
  using assms by (simp_all add: frame_live_def live_view_def default_CargoAvoidanceSourceRisk_def Let_def split: if_split_asm option.splits)

lemma frame_live_ids [simp]:
  "ya_cargo_lifecycle_id (frame_live f) = yf_product_cargo_lifecycle_id f" "ya_cargo_track_id (frame_live f) = yf_product_cargo_track_id f"
  "ya_obstacle_track_id (frame_live f) = yt_selected_track_id (yf_obstacle_track_decision f)"
  by (simp_all add: frame_live_def live_view_def Let_def split: option.split)

lemma committed_fused:
  assumes "yo_official_valid (frame_committed s f)"
  shows "frame_committed s f = frame_fused s f" "fc_authorized (commitCargoFrameDecision (frame_decision f (frame_fused s f)))"
  using assms by (simp_all add: frame_committed_def Let_def split: if_split_asm)


section \<open>Examples\<close>

lemma frame_clears:
  assumes "frame_formal f" and "clear_authorized f" and "evaluated (yf_last_cargo_safety_result f)"
    and "\<not> level_code (sr_warning_code (yf_last_cargo_safety_result f))"
    and "yt_selected_embedded_authorized (yf_obstacle_track_decision f)"
    and "yc_minimum_live_coverage_for_clear (yf_fusion_config f) \<le> yf_coverage_ratio f"
    and "\<not> level_code (sr_warning_code (yf_radial_safety_result f))" and "yf_selected_source_evidence f = None" and "\<not> static_hazard f"
  shows "yo_official_valid (frame_fused s f) \<and> yo_official_code (frame_fused s f) = 14"
proof -
  let ?i = "formal_avoidance_input f (snd (static_tracking s f))" and ?c = "yf_fusion_config f"
  have view: "\<not> ya_hazard (static_view f)" "ya_warning_code (static_view f) \<noteq> 17"
    using assms(9) by (simp_all add: static_view_def default_CargoAvoidanceSourceRisk_def Let_def split: option.split)
  have live: "\<not> risk_live ?i" "live_clear_observed ?c ?i" "\<not> unresolved_embedded_live_hazard ?i"
    using assms(3-6) by (auto simp: risk_live_def live_clear_observed_def live_reliable_def unresolved_embedded_live_hazard_def
      evaluated_def level_code_def)
  have none: "\<not> live_standard_risk ?i" "\<not> static_standard_risk ?c ?i" "\<not> unresolved_far_history_review ?c ?i" "\<not> warning_candidate ?i"
    "\<not> unresolved_static_hazard ?i"
    using live(1) assms(7) view by (simp_all add: live_standard_risk_def static_standard_risk_def unresolved_far_history_review_def
      live_warning_without_history_def static_far_history_review_def static_warning_without_history_def warning_candidate_def
      unresolved_static_hazard_def frame_no_static_risk)
  have review: "\<not> yi_anomaly_review_candidate ?i"
    using view assms(8) by (simp add: formal_avoidance_input_def review_candidate live_review_def static_review_def
      live_immediate_review_def live_sudden_review_def static_immediate_review_def static_sudden_review_def
      review_evidence_ready_def split: option.splits)
  have "fuse_formal ?c ?i r = r\<lparr>yo_official_valid := True, yo_official_code := kFusionClear, yo_reason := ''formal_live_clear''\<rparr>" for r
    using live none review assms(2,7) by (simp add: fuse_formal_def)
  then show ?thesis
    using assms(1) none(4) by (simp add: frame_fused_def fuseCargoAvoidanceRisk_def frame_no_static_risk frame_formal_def Let_def fusion_codes)
qed

text \<open>A formal cargo at height \<open>z\<close> with a clear live view and the answer \<open>r\<close> of the height field.\<close>

definition demo_frame :: "real \<Rightarrow> StaticHeightQueryResult \<Rightarrow> FormalFrame" where
  "demo_frame z r =
     \<lparr>yf_safety_config = default_CargoSafetyConfig, yf_fusion_config = default_CargoAvoidanceFusionConfig,
      yf_immediate_near_field_m = Fin 0.3, yf_confirm_frames = 3, yf_relocalization_pose_reliable = True, yf_tracking_lost = False,
      yf_motion_corridor_authoritative = True,
      yf_obstacle_track_decision = \<lparr>yt_selected_far_field_history_valid = True, yt_selected_embedded_authorized = True,
        yt_selected_confirm_count = 0, yt_selected_track_id = 0, yt_selected_provenance_known = False\<rparr>,
      yf_selected_source_evidence = None, yf_selected_top_z_map = NaN, yf_radial_safety_result = default_CargoSafetyResult,
      yf_last_cargo_safety_result = default_CargoSafetyResult
        \<lparr>sr_input_valid := True, sr_warning_valid := True, sr_warning_code := 14\<rparr>,
      yf_coverage_ratio = Fin 1, yf_rigid_geometry_valid = True, yf_formal_safety_valid = True, yf_formal_removal_valid = True,
      yf_bottom_valid = True, yf_bottom_geometry_valid = True, yf_bottom_z_map = Fin z, yf_bottom_uncertainty = Fin 0.05,
      yf_v6_authority_mode = False, yf_product_clear_authorized = False, yf_frozen_formal_authorized = True,
      yf_envelope_can_authorize_clear = True, yf_static_height_result = Some r, yf_static_evidence_authority = Some RUNTIME_MATURE,
      yf_mature_cell_count = 5, yf_verified_map_session_loaded = False, yf_height_field_generation = 7, yf_static_evidence_epoch = 7,
      yf_avoidance_pose_generation = 1, yf_pose_identity = default_PoseAuthorityIdentity, yf_stamp_sec = Fin 10,
      yf_product_cargo_lifecycle_id = 1, yf_product_cargo_track_id = 1, yf_current_warning_evidence_authorized = False,
      yf_active_track = True, yf_product_safety_authorized = False, yf_physical_cargo_epoch_id = 0, yf_physical_history_id = 0,
      yf_cargo_lifecycle_id = 1, yf_cargo_fusion_track_id = 1\<rparr>"

lemma demo_frame_simps [simp]:
  "yf_safety_config (demo_frame z r) = default_CargoSafetyConfig" "yf_fusion_config (demo_frame z r) = default_CargoAvoidanceFusionConfig"
  "yf_static_height_result (demo_frame z r) = Some r" "yf_bottom_z_map (demo_frame z r) = Fin z"
  "yf_bottom_uncertainty (demo_frame z r) = Fin 0.05" "yf_selected_source_evidence (demo_frame z r) = None"
  "height_result (demo_frame z r) = r" "yf_immediate_near_field_m (demo_frame z r) = Fin 0.3"
  by (simp_all add: demo_frame_def height_result_def)

lemma demo_frame_ok:
  "frame_formal (demo_frame z r)" "clear_authorized (demo_frame z r)" "evaluated (yf_last_cargo_safety_result (demo_frame z r))"
  "\<not> level_code (sr_warning_code (yf_last_cargo_safety_result (demo_frame z r)))"
  "yt_selected_embedded_authorized (yf_obstacle_track_decision (demo_frame z r))"
  "yc_minimum_live_coverage_for_clear (yf_fusion_config (demo_frame z r)) \<le> yf_coverage_ratio (demo_frame z r)"
  "\<not> level_code (sr_warning_code (yf_radial_safety_result (demo_frame z r)))" "frame_risk_contract (demo_frame z r)"
  by (simp_all add: demo_frame_def frame_formal_def frame_bottom_valid_def clear_authorized_def evaluated_def level_code_def
      frame_risk_contract_def static_contract_def static_authority_def authorizeStaticEvidence_def Let_def
      default_CargoSafetyResult_def default_CargoAvoidanceFusionConfig_def)

abbreviation demo_answer :: StaticHeightQueryResult where
  "demo_answer \<equiv> query_height demo_field (demo_height_query [])"

lemma demo_reported: "reported_layer demo_field (demo_height_query []) 0 0 demo_height_layer"
proof -
  have "\<not> excluded_origin demo_field (demo_height_query []) 0 0" by (simp add: excluded_origin_def demo_height_query_def)
  then show ?thesis by (simp add: reported_layer_def demo_not_self demo_matches)
qed

lemma demo_highest: "hn_highest_z95_m demo_answer = Fin 1" "hn_highest_uncertainty_m demo_answer = Fin 0.1"
  using demo_reported
  by (simp_all add: valid_query_bounded [OF demo_query_valid] demo_coords query_cell_def demo_key demo_in_shell demo_cell query_layer_def
      reported_layer_def Let_def, simp_all add: default_StaticHeightQueryResult_def demo_height_layer_def)

lemma demo_no_hazard: "\<not> static_hazard (demo_frame 10 demo_answer)"
  by (simp add: static_hazard_def static_clearance_def demo_highest default_CargoSafetyConfig_def)

lemma demo_frame_clear:
  "yo_official_valid (frame_fused (hazard_init default_PendingStaticHazardTrackerConfig) (demo_frame 10 demo_answer))"
  "yo_official_code (frame_fused (hazard_init default_PendingStaticHazardTrackerConfig) (demo_frame 10 demo_answer)) = 14"
  using frame_clears [OF demo_frame_ok(1-7) _ demo_no_hazard] by simp_all

lemma demo_field_finite: "finite_field demo_field"
  by (simp add: finite_field_def height_cell_def demo_field_def finite_layer_def demo_height_layer_def)

theorem frame_clear_backed_witness: "Fin 0.05 \<le> yf_coverage_ratio (demo_frame 10 demo_answer)"
  using frame_clear_backed [OF demo_frame_clear] by (simp add: default_CargoAvoidanceFusionConfig_def)

lemma demo_layer_height: "hl_z95 demo_height_layer = Fin 1" by (simp add: demo_height_layer_def)


definition demo_hazard_answer :: StaticHeightQueryResult where
  "demo_hazard_answer = default_StaticHeightQueryResult
     \<lparr>hn_valid := True, hn_matched_cells := 1, hn_nearest_horizontal_distance_m := Fin 2, hn_highest_z95_m := Fin 1\<rparr>"


definition demo_warning_frame :: FormalFrame where
  "demo_warning_frame = (demo_frame 10 demo_answer)
     \<lparr>yf_last_cargo_safety_result := default_CargoSafetyResult
        \<lparr>sr_input_valid := True, sr_warning_valid := True, sr_warning_code := 17, sr_has_cluster_evidence := True,
         sr_most_dangerous_cluster := default_CargoSafetyClusterEvidence
           \<lparr>ce_footprint_distance_m := Fin 2, ce_conservative_clearance_m := Fin 0.5\<rparr>\<rparr>,
      yf_obstacle_track_decision := \<lparr>yt_selected_far_field_history_valid = True, yt_selected_embedded_authorized = True,
        yt_selected_confirm_count = 3, yt_selected_track_id = 5, yt_selected_provenance_known = True\<rparr>\<rparr>"

lemma demo_warning_last:
  "sr_input_valid (yf_last_cargo_safety_result demo_warning_frame)" "evaluated (yf_last_cargo_safety_result demo_warning_frame)"
  "sr_warning_code (yf_last_cargo_safety_result demo_warning_frame) = 17" "sr_has_cluster_evidence (yf_last_cargo_safety_result demo_warning_frame)"
  "ce_footprint_distance_m (sr_most_dangerous_cluster (yf_last_cargo_safety_result demo_warning_frame)) = Fin 2"
  "ce_conservative_clearance_m (sr_most_dangerous_cluster (yf_last_cargo_safety_result demo_warning_frame)) = Fin 0.5"
  "yf_selected_source_evidence demo_warning_frame = None" "frame_formal demo_warning_frame"
  "yt_selected_embedded_authorized (yf_obstacle_track_decision demo_warning_frame)"
  "yt_selected_far_field_history_valid (yf_obstacle_track_decision demo_warning_frame)"
  "yt_selected_track_id (yf_obstacle_track_decision demo_warning_frame) = 5"
  by (simp_all add: demo_warning_frame_def demo_frame_def evaluated_def frame_formal_def frame_bottom_valid_def default_CargoSafetyResult_def)

lemma demo_warning_live: "ya_distance_m (frame_live demo_warning_frame) = Fin 2" "ya_clearance_m (frame_live demo_warning_frame) = Fin 0.5"
  by (simp_all add: frame_live_def live_view_def demo_warning_last Let_def)

lemma demo_warnable_frame:
  "(LIVE, frame_live demo_warning_frame) \<in> warnable c (formal_avoidance_input demo_warning_frame d)"
  using demo_warning_last(8)
  by (simp add: warnable_def offered_def live_standard_risk_def risk_live_def live_reliable_def live_warning_without_history_def
      frame_review_simps live_review_def live_immediate_review_def live_sudden_review_def review_evidence_ready_def
      selectable_def fusion_warningCode_def fusion_codes level_code_def lowClearance_def kMinimumVerticalClearanceM_def
      demo_warning_last demo_warning_live frame_formal_def)

lemma demo_warning_fused:
  "yo_official_valid (frame_fused s demo_warning_frame)" "yo_official_code (frame_fused s demo_warning_frame) \<in> {17, 18}"
  using fuse_warns [OF _ _ demo_warnable_frame] demo_warning_last(8) by (auto simp: frame_fused_def frame_formal_def)

lemma demo_warning_committed:
  "yo_official_valid (frame_committed s demo_warning_frame)" "yo_official_code (frame_committed s demo_warning_frame) \<in> {17, 18}"
proof -
  note live = frame_warning_live [OF demo_warning_fused, of s]
  define r where "r = frame_fused s demo_warning_frame"
  define h where "h = hazard_of LIVE (yo_official_code r) (frame_live demo_warning_frame)"
  have r: "yo_official_valid r" "yo_official_code r = 17 \<or> yo_official_code r = 18" "yo_authoritative_hazard r = h"
    using live demo_warning_fused [of s] by (auto simp: r_def h_def)
  have h: "yh_valid h" "yh_warning_code h = yo_official_code r" "yh_obstacle_track_id h = 5" "yh_cargo_lifecycle_id h = 1" "yh_cargo_track_id h = 1"
    by (simp_all add: h_def hazard_of_def demo_warning_last) (simp_all add: demo_warning_frame_def demo_frame_def)
  have d: "fd_stamp_sec (frame_decision demo_warning_frame r) = Fin 10" "fd_cargo_identity_authorized (frame_decision demo_warning_frame r)"
    "fd_cargo_lifecycle_id (frame_decision demo_warning_frame r) = 1" "fd_cargo_track_id (frame_decision demo_warning_frame r) = 1"
    "fd_positive_warning_confirmed_this_frame (frame_decision demo_warning_frame r)"
    using r by (simp_all add: frame_decision_def Let_def, simp_all add: demo_warning_frame_def demo_frame_def, blast)
  have e: "fd_warning_code (frame_decision demo_warning_frame r) = yo_official_code r"
    "fd_authoritative_hazard_valid (frame_decision demo_warning_frame r)" "fd_obstacle_track_id (frame_decision demo_warning_frame r) = 5"
    "fd_authoritative_warning_code (frame_decision demo_warning_frame r) = yo_official_code r"
    "fd_warning_cargo_lifecycle_id (frame_decision demo_warning_frame r) = 1"
    "fd_warning_cargo_track_id (frame_decision demo_warning_frame r) = 1"
    by (simp_all add: frame_decision_def Let_def r h)
  have "fc_authorized (commitCargoFrameDecision (frame_decision demo_warning_frame (frame_fused s demo_warning_frame)))"
    using r(2) by (simp add: commitCargoFrameDecision_def d e flip: r_def)
  then show "yo_official_valid (frame_committed s demo_warning_frame)" "yo_official_code (frame_committed s demo_warning_frame) \<in> {17, 18}"
    using demo_warning_fused [of s] by (simp_all add: frame_committed_def Let_def)
qed


end
