(* ===== verification/Spec2Isabelle.thy ===== *)
theory Spec2Isabelle
  imports Hook_Load_Policy Cargo_Presence Safety_Temporal_Filter Cargo_Capability Fitness_Breaker
    Safety_Status Pending_Static_Hazard Stationary_Motion Map_Session Track_Policy
    Preload_Baseline Lift_Origin Motion_Corridor Avoidance_Frame
begin

text \<open>
  Verification library of the cargo safety chain of the warehouse crane SLAM (\<^verbatim>\<open>src/src/ndt_slam\<close>).

  \<^bold>\<open>The program.\<close> A crane carries cargo through a warehouse. One ROS node (\<^verbatim>\<open>ndt_slam.cpp\<close>) localises
  the crane by matching LiDAR scans, separates the cargo from its surroundings and decides once
  per frame which protocol code the crane control receives: 14 (clear), 17 and 18 (obstacle at
  level 1 and level 2), 29 (anomaly review) or one of the faults 30 to 35. A second node
  (\<^verbatim>\<open>cargo_alarm_heartbeat_node.cpp\<close>) checks every status message against a contract of its own and
  repeats the last code until it is stale. The decision logic is in classes and functions without I/O
  that both nodes call; these are what the development models. The order below is the order
  in which a frame passes them.

  \<^bold>\<open>The theories.\<close>
  \<^item> \<open>Ndt_Prelude\<close>: the floating-point values \<open>dbl\<close> (finite reals, infinities, NaN, IEEE comparisons),
    the fragment of the C++ library the sources use, vectors, fixed-width integers.
  \<^item> \<open>Ndt_Machines\<close>: the interfaces as locales. A class with one update method is a function
    \<open>'s \<Rightarrow> 'i \<Rightarrow> 's \<times> 'o\<close> and \<open>run_machine\<close> is its caller's loop. \<open>invariant_machine\<close> and \<open>contract_machine\<close>
    carry invariants and decision contracts over runs, \<open>confirmation_machine\<close> derives from
    a counter argument that a positive decision needs a number of frames, \<open>evidence_machine\<close> and
    \<open>held_evidence_machine\<close> derive from a window argument the chain of inputs behind a positive
    decision, and \<open>danger_ranking\<close> is the selection of a worst element. Every one is interpreted
    on the components below.
  \<^item> \<open>Cpp_Text\<close>: decimal and hexadecimal output and input of integers, lines, joined fields and the FNV-1a mix.
    \<open>Std_Map\<close>: \<^verbatim>\<open>std::map\<close> as an association list in key order, with its laws as the locale \<open>std_map\<close>.
  \<^item> \<open>Domain_Contracts\<close> (\<^verbatim>\<open>cargo_config_validation.hpp\<close>, \<^verbatim>\<open>pose_authority_identity.hpp\<close>,
    \<^verbatim>\<open>time_epoch_contract.hpp\<close>, \<^verbatim>\<open>cargo_domain_contracts.hpp\<close>): shared records and their tests.
  \<^item> \<open>Hook_Load_Filter\<close> (\<^verbatim>\<open>hook_load_state_filter.cpp\<close>): load-cell voltages to EMPTY/LOADED with hysteresis,
    sample and duration confirmation and staleness. Shown: confirmation needs its samples and
    its duration, no chatter inside the hysteresis band, a silent sensor is not fresh.
  \<^item> \<open>Hook_Load_Policy\<close> (\<^verbatim>\<open>hook_load_evidence_policy.cpp\<close>): the role of the load signal, the fusion of load
    cell and LiDAR evidence, the map commit rule and the tracker that confirms an empty hook. Shown:
    exclusive verdicts, confirmation by frames, withdrawal, the wrap of the 32-bit counter.
  \<^item> \<open>Cargo_Presence\<close> (\<^verbatim>\<open>cargo_presence_state_machine.cpp\<close>): the latch that remembers a cargo through sensor
    loss. Shown: the latch is released exactly by authority, and persists otherwise.
  \<^item> \<open>Obstacle_Perception\<close> (\<^verbatim>\<open>obstacle_perception.cpp\<close>): from a point cloud to described clusters. The
    clustering of the PCL library is a parameter about which nothing is assumed. Shown: every reported cluster is well
    formed, and an empty result means an empty cloud.
  \<^item> \<open>Safety_Evaluator\<close> (\<^verbatim>\<open>hazard_evaluator.cpp\<close>, \<^verbatim>\<open>cargo_safety_evaluator.cpp\<close>): the warning code of a frame.
    \<open>severity\<close> is the specification; shown: the published code bounds the severity of every cluster,
    also of clusters whose vertical structure is unresolved, and from cloud to code a clear means that no
    cluster threatens the cargo.
  \<^item> \<open>Safety_Temporal_Filter\<close> (\<^verbatim>\<open>cargo_safety_temporal_filter.cpp\<close>): codes become stable over frames. The
    specification is the \<open>evidence_chain\<close>; shown: a stable code has one (safety), a chain gives a
    stable code (liveness).
  \<^item> \<open>Rigid_Geometry\<close> (\<^verbatim>\<open>cargo_rigid_geometry.cpp\<close>): the locked cargo as a rigid box. Shown: the pose filter moves at most
    at the speed limits, a held pose expires, the corners of the current box lie in its footprint, interval and bounding box,
    containment agrees with the distance to the footprint, the height of a formal cargo has evidence.
  \<^item> \<open>Cargo_Envelope\<close> (\<^verbatim>\<open>pending_cargo_envelope.cpp\<close>): the envelope of a cargo whose shape or pose is not formal yet. Shown:
    every published envelope is a proper box, it exists exactly when a usable pose does, and only the
    formal geometry with a fresh observation supports a clear.
  \<^item> \<open>Flood_Fill\<close>, \<open>Oriented_Footprint\<close> (\<^verbatim>\<open>cargo_oriented_footprint.cpp\<close>): the axial mean of yaws, the robust principal axis
    box, the box of the grid component at the hook and the live box over a window of frames. Shown: the live box is a
    proper box that is established by agreeing frames and changes by bounded steps, the mean yaw is the
    same for every representation of the yaws, the grid box covers the connected component of its seed.
  \<^item> \<open>Track_Policy\<close> (\<^verbatim>\<open>cargo_track_policy.cpp\<close>): lock authority, scoring and ranking of candidates, association, provisional
    and formal lock. Shown: the ranking takes the two best and does not depend on point counts, an accepted association is
    within reach of the speed limits, a formal lock is backed by its frames.
  \<^item> \<open>Cargo_Capability\<close> (\<^verbatim>\<open>cargo_capability.cpp\<close>, \<^verbatim>\<open>cargo_subsystem.cpp\<close>, \<^verbatim>\<open>cargo_frame_decision.cpp\<close>): what the
    cargo track and its geometry authorise, and the commit of a frame. Shown: no warning authority without physical
    authority, and commits carry their own identity.
  \<^item> \<open>Anomaly_Review\<close> (\<^verbatim>\<open>anomaly_review_episode_tracker.cpp\<close>): episodes of code 29. Shown: confirmations before
    the code, silence in the cooldown, transparency for every other code.
  \<^item> \<open>Avoidance_Decision\<close> (\<^verbatim>\<open>avoidance_decision.cpp\<close>): the owner of the decision. Shown: the protocol
    table, the authority behind a clear, the retention of positive warnings.
  \<^item> \<open>Alarm_Heartbeat\<close> (\<^verbatim>\<open>cargo_alarm_heartbeat_node.cpp\<close>): status contract and alarm machine of the second
    node. Shown: every reported code is backed by a recent message, accepted statuses mean what they say.
  \<^item> \<open>Safety_Status\<close> (\<^verbatim>\<open>NdtSlamNode::composeCargoSafetyStatus\<close> and \<^verbatim>\<open>statusCallback\<close>): producer and
    consumer of the message. Shown: the consumer accepts the producer's faults and clears, so the two
    contracts, written independently in the sources, agree.
  \<^item> \<open>Fitness_Breaker\<close> (\<^verbatim>\<open>ndt_fitness_circuit_breaker.cpp\<close>): the circuit breaker on the matching score. Shown:
    its invariant, what it accepts, when it opens and how it recovers.
  \<^item> \<open>Rail_Authority\<close> (\<^verbatim>\<open>rail_localization_authority.cpp\<close>, \<^verbatim>\<open>frame_authority_context.hpp\<close>): the yaw reference of
    the rail-mounted crane, its validation by hash, the authority that holds it and the health of a frame. Shown: only a
    verified reference gives authority, proposals never change it, the table of what a frame may do, and that
    the angle loops return.
  \<^item> \<open>Relocalization\<close> (\<^verbatim>\<open>relocalization_confirmation_policy.cpp\<close> and its callers in \<^verbatim>\<open>ndt_slam.cpp\<close>): degradation,
    search, confirmation and recovery of the pose. Rigid motions are the parameter \<open>se3_ops\<close>; worker
    and solver answers are inputs. Shown: an installed pose rests on agreeing results, a lost pose becomes reliable again
    only through recovery, and unhealthy frames withdraw it.
  \<^item> \<open>Stationary_Motion\<close> (\<^verbatim>\<open>stationary_motion_policy.cpp\<close>): standstill detection. Shown: the map is frozen unless
    the crane moves, standstill and release need their evidence, and the catch-up step is bounded.
  \<^item> \<open>Pending_Static_Hazard\<close> (\<^verbatim>\<open>pending_static_hazard_tracker.cpp\<close>): hazards seen in the static map. Shown: an
    authorised hazard has a chain of overlapping observations, and the merge count is the size of the intersection.
  \<^item> \<open>Static_Evidence\<close>, \<open>Static_Query\<close>, \<open>Static_Store\<close> (\<^verbatim>\<open>static_obstacle_evidence_index.cpp\<close>,
    \<^verbatim>\<open>static_evidence_authorization.hpp\<close>): the index of static cells (observation streaks, maturity, denials,
    confirmations), its query and its CSV files. Shown: published snapshots are sound under every
    operation, denied cells stay out, a query answer is what counting the asked cells gives, files load back as
    they were written, and the one shape of snapshot for which they do not.
  \<^item> \<open>Static_Height\<close> (\<^verbatim>\<open>static_height_field.cpp\<close>): layers and floors per cell of the static map, and its queries around the
    cargo. The solver of the plane fit is a parameter. Shown: a built field is well formed, a query reports exactly the
    layers in its shell and height interval, a clear answer covers every point near the cargo that has a layer.
  \<^item> \<open>Height_Components\<close> (\<^verbatim>\<open>static_height_component_extractor.cpp\<close>): connected sets of layers, the candidates for the
    origin of a lift. Shown: what every returned component consists of, and that no connected set is cut.
  \<^item> \<open>Preload_Baseline\<close> (\<^verbatim>\<open>cargo_preload_baseline_tracker.cpp\<close>): the thickness of the cargo before the lift. Shown: a
    ready baseline rests on a chain of usable frames of one component, and its thickness is that of the window's majority.
  \<^item> \<open>Lift_Origin\<close> (\<^verbatim>\<open>cargo_lift_origin_binder.cpp\<close>): from which place of the map the cargo was lifted and how thick it
    is. Shown: a confirmed lift and a ready thickness rest on chains of newer observations, the origin was a usable
    candidate in reach, a formal origin replaces a provisional one.
  \<^item> \<open>Motion_Corridor\<close> (\<^verbatim>\<open>cargo_motion_corridor.cpp\<close>): which obstacles matter for the direction of motion. Shown: what is
    hidden is distant and the motion valid, the corridor covers the swept box, and two limits of the filter.
  \<^item> \<open>Avoidance_Fusion\<close> (\<^verbatim>\<open>cargo_avoidance_fusion.cpp\<close>): the fusion of live and static obstacles into 14, 17, 18, 29 or
    a fault. Shown: what a clear and a warning rest on, that no qualified hazard is passed over, the table of answers.
  \<^item> \<open>Avoidance_Frame\<close> (\<^verbatim>\<open>ndt_slam.cpp\<close>, the formal cargo frame): how the node fills the fusion from the safety evaluation, the
    height field and the static hazard tracker, and commits the answer. Shown: a clear holds over the stored map, a committed
    warning has its evidence and identities, and the static map never warns.
  \<^item> \<open>Session_Digest\<close>, \<open>Map_Session\<close> (\<^verbatim>\<open>map_session_snapshot.cpp\<close>): the SHA-256 of a file and the verification of a
    saved map session. Shown: the incremental digest is the padded-block definition, a
    verified session is intact, and the static height points have confirmed cells.
  \<^item> this theory: the chain from the alarm machine back to the evidence of the frame.

  \<^bold>\<open>Conventions.\<close> A class is a record of its members, a method a function from that record to its
  successor and the result; a mutex has no counterpart, since every method holds it for its whole body. Record fields
  carry a prefix per struct, enumerators their type's name. Counters and identities of type
  \<^verbatim>\<open>uint32_t\<close> and \<^verbatim>\<open>uint64_t\<close> are words; an \<^verbatim>\<open>int\<close> counter is an integer where its bound is a small configured number.
  Strings are character lists, with the reason texts of the sources. Where a function of the sources is long, its inner
  conditions are definitions with the name of the local variable. Loops over containers run over lists; the iteration order of an
  unordered set and the eigenvectors of a covariance are parameters. The angle
  loops of \<open>normalizeAngle\<close> are \<open>partial_function (option)\<close> with a proof that they return, and
  the axial yaw loops, the flood fill (the cells not yet reached) and the padding loop of the digest have a measure, so no
  fuel is needed.

  \<^bold>\<open>Not modelled.\<close> Rounding of floating-point arithmetic (arithmetic on finite values is exact); the ROS
  wiring, threads, parameter files, logging and visualisation of the nodes; PCL and Eigen solvers, map building
  and loop closure; writing a map session and its random identities. Planned extensions, in this order: the origin and
  preload trackers, the motion corridor, the fusion of bottom and obstacles.
\<close>

section \<open>From the frame evaluation to the crane\<close>

lemma fresh_ingest:
  assumes "ar_reason (snd (alarm_ingest s code w src)) = ''fresh_status''"
  shows "ar_code (snd (alarm_ingest s code w src)) = code"
  using assms by (auto simp: alarm_ingest_def forceCode_def Let_def split_beta split: if_split_asm)

lemma requested_clear_code:
  assumes "dc_requested_code (decide i rv) = 14" and "di_formal_cargo_valid i"
  shows "di_warning_valid i \<and> di_warning_code i = 14 \<and> di_formal_clear_authorized i"
proof -
  have "dc_requested_code (composeCargoSafetyDecision i) = 14"
    using assms decide_requested_cases [of i rv] by auto
  from clear_phase [OF this] show ?thesis
    using phase_safe_empty [of i] phase_formal_clear [of i] assms(2) by (auto simp: formal_clear_def protocol_codes)
qed

section \<open>Properties that span components\<close>

text \<open>C1. The chain behind a clear at the crane: if the alarm machine reports 14 as the fresh status of a message
  the producer composed, then localisation was valid and the system ready, and either no cargo was
  confirmed with no valid cargo (and, under a REQUIRED load signal, an empty hook), or a valid cargo
  had a valid evaluator clear with formal clear authority, valid obstacle evidence and no
  obstacle geometry that is near and too high.\<close>

theorem crane_clear_end_to_end:
  assumes "ar_code (snd (statusCallback c s (snd (composeCargoSafetyStatus x t st a)) w)) = 14"
    and "ar_reason (snd (statusCallback c s (snd (composeCargoSafetyStatus x t st a)) w)) = ''fresh_status''"
  shows "status_localization_valid x \<and> cx_running x \<and> sa_evidence_initialized a \<and>
    (\<not> st_cargo_valid st \<and> st_no_cargo_confirmed st \<and>
       (cx_hook_load_signal_role x = HookLoadSignalRole.REQUIRED \<longrightarrow>
          st_hook_signal_valid st \<and> st_hook_load_state st = 2) \<or>
     st_cargo_valid st \<and> sa_warning_valid a \<and> sa_warning_code a = 14 \<and> sa_formal_clear_authorized a \<and>
       st_obstacle_valid st \<and>
       (st_obstacle_count st = 0 \<or>
        safe_geometry c (contract_input_of (snd (composeCargoSafetyStatus x t st a)))))"
proof -
  let ?i = "contract_input_of (composed x t st a)"
  let ?d = "status_decision_input x st a"
  have code: "scr_code (validateStatusContract c ?i) = 14"
    using assms fresh_ingest unfolding statusCallback_def by metis
  have ok: "accepted_ok c ?i (validateStatusContract c ?i)" by (rule validate_ok)
  have req: "dc_requested_code (final_decision x t st a) = 14"
    and acc: "contract_safe_empty ?i \<or> valid_loaded ?i \<and> (st_obstacle_count st = 0 \<or> safe_geometry c ?i)"
    using ok code by (auto simp: accepted_ok_def contract_input_of_def split: if_split_asm)
  have auth: "ready_for_decision ?d" using clear_authority [OF req] by blast
  have facts: "if st_cargo_valid st then st_obstacle_valid st \<and> hook_supports ?i 3
      else st_no_cargo_confirmed st \<and> hook_supports ?i 2" "status_localization_valid x"
    using clear_facts [OF req] by simp_all
  have ready: "cx_running x" "sa_evidence_initialized a"
    using auth by (simp_all add: ready_for_decision_def status_decision_input_def Let_def)
  show ?thesis
  proof (cases "st_cargo_valid st")
    case False
    then show ?thesis
      using facts ready by (simp add: hook_supports_def contract_input_of_def)
  next
    case True
    have "\<not> di_safe_empty ?d" using True by (simp add: empty_accepted)
    then have "di_formal_cargo_valid ?d" using clear_authority [OF req] by blast
    from requested_clear_code [OF req this]
    have "sa_warning_valid a" "sa_warning_code a = 14" "sa_formal_clear_authorized a"
      by (simp_all add: status_decision_input_def Let_def)
    moreover have "\<not> contract_safe_empty ?i" using True by (simp add: contract_safe_empty_def contract_input_of_def)
    ultimately show ?thesis using True facts ready acc by simp
  qed
qed

theorem crane_clear_end_to_end_witness:
  "let st = snd (composeCargoSafetyStatus demo_context (review_init default_AnomalyReviewEpisodeConfig)
              demo_message demo_args);
       r = snd (statusCallback default_StatusContractConfig (alarm_init (Fin 0.8)) st (Fin 100))
   in ar_code r = 14 \<and> ar_reason r = ''fresh_status'' \<and> status_localization_valid demo_context"
proof -
  let ?t = "review_init default_AnomalyReviewEpisodeConfig"
  let ?st = "snd (composeCargoSafetyStatus demo_context ?t demo_message demo_args)"
  let ?v = "validateStatusContract default_StatusContractConfig (contract_input_of ?st)"
  have req: "dc_requested_code (final_decision demo_context ?t demo_message demo_args) = 14"
    by (simp add: demo_projection decide_without_review compose_requested demo_phases)
  have "?v = validate_clear_status default_StatusContractConfig (contract_input_of ?st)"
    using req demo_contract by (intro validate_clear_reached) (simp_all add: demo_message_def)
  moreover have "contract_safe_empty (contract_input_of ?st)"
    by (simp add: contract_safe_empty_def contract_input_of_def hook_supports_def demo_context_def
        status_localization_valid_def) (simp add: demo_message_def)
  ultimately have code: "scr_code ?v = 14" by (simp add: validate_clear_status_def)
  have stamp: "st_stamp_sec ?st = Fin 5" by (simp add: demo_message_def)
  have r: "ar_code (snd (statusCallback default_StatusContractConfig (alarm_init (Fin 0.8)) ?st (Fin 100))) = 14"
    "ar_reason (snd (statusCallback default_StatusContractConfig (alarm_init (Fin 0.8)) ?st (Fin 100))) = ''fresh_status''"
    unfolding statusCallback_def code stamp by (simp_all add: alarm_eval)
  show ?thesis using crane_clear_end_to_end [OF r] r by (simp only: Let_def)
qed

end
